(* ===== verification/Prelude.thy ===== *)
theory Prelude
  imports Complex_Main "HOL-Library.Word" "HOL-Library.List_Lexorder" "HOL-Library.Char_ord"
begin

text \<open>
  Shared vocabulary of the development: byte strings and big-endian integers
  (\<open>QByteArray\<close>, \<open>quint16\<close>, \<open>quint32\<close>), the ordered maps of Qt (\<open>QMap\<close>, \<open>QJsonObject\<close>
  and \<open>QSet\<close> of keys) with their laws, two generic interfaces (a keyed store and a state
  machine with an invariant), and a small library on lists.
\<close>

unbundle bit_operations_syntax

named_theorems byte_simps \<open>reading and writing big-endian integers\<close>
named_theorems omap_simps \<open>lookup after update in an ordered map\<close>

section \<open>Bytes and big-endian integers\<close>

type_synonym byte = "8 word"
type_synonym u16 = "16 word"
type_synonym u32 = "32 word"
type_synonym bytes = "8 word list"

text \<open>\<open>qToBigEndian\<close>, \<open>QDataStream::BigEndian\<close> and \<open>qFromBigEndian\<close> of the Qt library.\<close>

definition be16 :: "u16 \<Rightarrow> bytes" where
  "be16 v = [ucast (drop_bit 8 v), ucast v]"

definition be32 :: "u32 \<Rightarrow> bytes" where
  "be32 v = [ucast (drop_bit 24 v), ucast (drop_bit 16 v), ucast (drop_bit 8 v), ucast v]"

definition join16 :: "byte \<Rightarrow> byte \<Rightarrow> u16" where
  "join16 hi lo = push_bit 8 (ucast hi) OR ucast lo"

definition join32 :: "byte \<Rightarrow> byte \<Rightarrow> byte \<Rightarrow> byte \<Rightarrow> u32" where
  "join32 a b c d =
     push_bit 24 (ucast a) OR push_bit 16 (ucast b) OR push_bit 8 (ucast c) OR ucast d"

definition read16 :: "bytes \<Rightarrow> nat \<Rightarrow> u16" where
  "read16 bs i = join16 (bs ! i) (bs ! (i + 1))"

definition read32 :: "bytes \<Rightarrow> nat \<Rightarrow> u32" where
  "read32 bs i = join32 (bs ! i) (bs ! (i + 1)) (bs ! (i + 2)) (bs ! (i + 3))"

lemma length_be16 [simp, byte_simps]: "length (be16 v) = 2"
  by (simp add: be16_def)

lemma length_be32 [simp, byte_simps]: "length (be32 v) = 4"
  by (simp add: be32_def)

lemma join16_be16 [byte_simps]: "join16 (ucast (drop_bit 8 v)) (ucast v) = v"
  unfolding join16_def
  by (rule bit_word_eqI) (auto simp: bit_simps)

lemma join32_be32 [byte_simps]:
  "join32 (ucast (drop_bit 24 v)) (ucast (drop_bit 16 v)) (ucast (drop_bit 8 v)) (ucast v) = v"
proof (rule bit_word_eqI)
  fix n :: nat
  assume "n < LENGTH(32)"
  consider "n < 8" | "8 \<le> n" "n < 16" | "16 \<le> n" "n < 24" | "24 \<le> n" by linarith
  then show "bit (join32 (ucast (drop_bit 24 v)) (ucast (drop_bit 16 v)) (ucast (drop_bit 8 v)) (ucast v)) n
      = bit v n"
    by cases (use \<open>n < LENGTH(32)\<close> in \<open>auto simp: join32_def bit_simps\<close>)
qed

lemma bit_byte_beyond: "8 \<le> n \<Longrightarrow> \<not> bit (b :: byte) n"
  using bit_imp_le_length [of b n] by auto

lemma unat_byte_less [simp]: "unat (b :: byte) < 256"
proof -
  have "unat b < 2 ^ LENGTH(8)" by (rule unsigned_less)
  then show ?thesis by simp
qed

lemma unat_u16_less [simp]: "unat (v :: u16) < 65536"
proof -
  have "unat v < 2 ^ LENGTH(16)" by (rule unsigned_less)
  then show ?thesis by simp
qed

lemma unat_ucast_byte_u16 [simp]: "unat (ucast (b :: byte) :: u16) = unat b"
  using unat_byte_less [of b]
  by (simp add: unsigned_ucast_eq take_bit_nat_eq_self del: unat_byte_less)

lemma be16_join16 [byte_simps]: "be16 (join16 hi lo) = [hi, lo]"
  unfolding be16_def join16_def
  by (auto intro!: bit_word_eqI simp: bit_simps bit_byte_beyond)

lemma read16_be16 [byte_simps]: "read16 (be16 v @ rest) 0 = v"
  by (simp add: read16_def be16_def byte_simps)

lemma read32_be32 [byte_simps]: "read32 (be32 v @ rest) 0 = v"
  by (simp add: read32_def be32_def byte_simps)

lemma read16_append:
  "i + 1 < length bs \<Longrightarrow> read16 (bs @ rest) i = read16 bs i"
  by (simp add: read16_def nth_append)

lemma read16_skip [byte_simps]: "length pre = i \<Longrightarrow> read16 (pre @ be16 v @ rest) i = v"
  by (simp add: read16_def be16_def nth_append byte_simps)

lemma read32_skip [byte_simps]: "length pre = i \<Longrightarrow> read32 (pre @ be32 v @ rest) i = v"
  by (simp add: read32_def be32_def nth_append byte_simps)

lemma unat_join16: "unat (join16 hi lo) = unat hi * 256 + unat lo"
proof -
  have eq: "join16 hi lo = push_bit 8 (ucast hi) + ucast lo"
    unfolding join16_def
    by (rule disjunctive_add [symmetric]) (auto simp: bit_simps bit_byte_beyond)
  have hi: "unat (push_bit 8 (ucast hi :: u16)) = unat hi * 256"
    using unat_byte_less [of hi]
    by (simp add: unsigned_push_bit_eq push_bit_nat_def take_bit_nat_eq_self)
  have "unat hi * 256 + unat lo < 65536"
    using unat_byte_less [of hi] unat_byte_less [of lo] by linarith
  then show ?thesis
    by (simp add: eq unat_word_ariths hi)
qed

section \<open>Ordered maps\<close>

text \<open>
  \<open>QMap\<close>, \<open>QJsonObject\<close> and the key sets of the code: an association list, kept sorted by
  key because the code iterates these containers in key order. \<open>om_put\<close> is \<open>insert\<close>,
  \<open>om_del\<close> is \<open>remove\<close>, \<open>om_get\<close> is \<open>find\<close>/\<open>value\<close>, \<open>om_has\<close> is \<open>contains\<close>.
\<close>

type_synonym ('k, 'v) omap = "('k \<times> 'v) list"

fun om_get :: "('k, 'v) omap \<Rightarrow> 'k \<Rightarrow> 'v option" where
  "om_get [] k = None"
| "om_get ((a, v) # m) k = (if a = k then Some v else om_get m k)"

fun om_put :: "'k::linorder \<Rightarrow> 'v \<Rightarrow> ('k, 'v) omap \<Rightarrow> ('k, 'v) omap" where
  "om_put k v [] = [(k, v)]"
| "om_put k v ((a, w) # m) =
     (if k < a then (k, v) # (a, w) # m
      else if k = a then (k, v) # m
      else (a, w) # om_put k v m)"

definition om_del :: "'k \<Rightarrow> ('k, 'v) omap \<Rightarrow> ('k, 'v) omap" where
  "om_del k m = filter (\<lambda>(a, v). a \<noteq> k) m"

definition om_has :: "('k, 'v) omap \<Rightarrow> 'k \<Rightarrow> bool" where
  "om_has m k = (om_get m k \<noteq> None)"

definition om_keys :: "('k, 'v) omap \<Rightarrow> 'k list" where
  "om_keys m = map fst m"

definition om_ok :: "('k::linorder, 'v) omap \<Rightarrow> bool" where
  "om_ok m = sorted_wrt (<) (map fst m)"

lemma om_get_put [simp, omap_simps]:
  "om_get (om_put k v m) = (om_get m)(k := Some v)"
  by (induction m) (auto simp: fun_eq_iff)

lemma om_get_del [simp, omap_simps]:
  "om_get (om_del k m) = (om_get m)(k := None)"
  by (induction m) (auto simp: om_del_def fun_eq_iff)

lemma om_has_put [simp, omap_simps]: "om_has (om_put k v m) j = (j = k \<or> om_has m j)"
  by (simp add: om_has_def)

lemma om_has_del [simp, omap_simps]: "om_has (om_del k m) j = (j \<noteq> k \<and> om_has m j)"
  by (simp add: om_has_def)

lemma om_has_Nil [simp, omap_simps]: "\<not> om_has [] k"
  by (simp add: om_has_def)

lemma om_put_put [simp]: "om_put k v (om_put k w m) = om_put k v m"
  by (induction m) auto

lemma om_get_None_iff: "om_get m k = None \<longleftrightarrow> k \<notin> set (om_keys m)"
  by (induction m) (auto simp: om_keys_def split: if_splits)

lemma om_has_keys: "om_has m k \<longleftrightarrow> k \<in> set (om_keys m)"
  by (auto simp: om_has_def om_get_None_iff)

lemma om_keys_put: "set (om_keys (om_put k v m)) = insert k (set (om_keys m))"
  by (auto simp: om_has_keys [symmetric])

lemma om_get_set: "om_get m k = Some v \<Longrightarrow> (k, v) \<in> set m"
  by (induction m) (auto split: if_splits)

lemma om_ok_Nil [simp, intro]: "om_ok []"
  by (simp add: om_ok_def)

lemma om_ok_put [intro]: "om_ok m \<Longrightarrow> om_ok (om_put k v m)"
proof (induction m)
  case Nil
  then show ?case by (simp add: om_ok_def)
next
  case (Cons p m)
  obtain a w where p: "p = (a, w)" by fastforce
  have "set (map fst (om_put k v m)) = insert k (set (map fst m))"
    using om_keys_put [of k v m] by (simp add: om_keys_def)
  moreover have "om_ok m" using Cons.prems by (simp add: om_ok_def p)
  ultimately show ?case
    using Cons p by (auto simp: om_ok_def)
qed

lemma om_ok_del [intro]: "om_ok m \<Longrightarrow> om_ok (om_del k m)"
  by (induction m) (auto simp: om_ok_def om_del_def)

lemma om_ok_get: "om_ok m \<Longrightarrow> (k, v) \<in> set m \<Longrightarrow> om_get m k = Some v"
  by (induction m) (auto simp: om_ok_def)

lemma om_rebuild: "om_ok m \<Longrightarrow> m = map (\<lambda>k. (k, the (om_get m k))) (om_keys m)"
proof (rule nth_equalityI)
  fix i
  assume ok: "om_ok m" and i: "i < length m"
  then have "(fst (m ! i), snd (m ! i)) \<in> set m" by simp
  then have "om_get m (fst (m ! i)) = Some (snd (m ! i))" by (rule om_ok_get [OF ok])
  with i show "m ! i = map (\<lambda>k. (k, the (om_get m k))) (om_keys m) ! i"
    by (simp add: om_keys_def)
qed (simp add: om_keys_def)

lemma om_ext:
  assumes "om_ok m" and "om_ok n" and "om_get m = om_get n"
  shows "m = n"
proof -
  have "set (om_keys m) = set (om_keys n)"
    using assms(3) om_has_keys [of m] om_has_keys [of n] by (auto simp: om_has_def)
  then have "om_keys m = om_keys n"
    using assms(1,2) unfolding om_ok_def om_keys_def by (metis strict_sorted_equal)
  with assms show ?thesis
    by (metis om_rebuild)
qed

section \<open>Two generic interfaces\<close>

text \<open>
  What the code relies on when it keeps values under keys: a lookup sees the last write to
  that key and nothing else. \<open>QMap\<close>, \<open>QHash\<close>, \<open>QJsonObject\<close> are used through this contract.
\<close>

locale keyed_store =
  fixes get :: "'m \<Rightarrow> 'k \<Rightarrow> 'v option"
    and put :: "'k \<Rightarrow> 'v \<Rightarrow> 'm \<Rightarrow> 'm"
    and del :: "'k \<Rightarrow> 'm \<Rightarrow> 'm"
  assumes get_put: "get (put k v m) = (get m)(k := Some v)"
    and get_del: "get (del k m) = (get m)(k := None)"
begin

lemma get_put_same: "get (put k v m) k = Some v"
  by (simp add: get_put)

lemma get_put_other: "j \<noteq> k \<Longrightarrow> get (put k v m) j = get m j"
  by (simp add: get_put)

lemma get_del_same: "get (del k m) k = None"
  by (simp add: get_del)

lemma get_del_other: "j \<noteq> k \<Longrightarrow> get (del k m) j = get m j"
  by (simp add: get_del)

lemma get_fold_put:
  "distinct (map fst kvs) \<Longrightarrow>
   get (fold (\<lambda>(k, v). put k v) kvs m) k = (case map_of kvs k of Some v \<Rightarrow> Some v | None \<Rightarrow> get m k)"
proof (induction kvs arbitrary: m)
  case Nil
  then show ?case by simp
next
  case (Cons p kvs)
  obtain a v where p: "p = (a, v)" by fastforce
  from Cons.prems have "map_of kvs a = None"
    by (auto simp: p map_of_eq_None_iff)
  with Cons show ?case
    by (auto simp: p get_put split: option.splits)
qed

end

interpretation om: keyed_store om_get om_put om_del
  by unfold_locales simp_all

text \<open>
  A component driven by events: every handler keeps the component's invariant, hence so does
  every finite run of the event loop, whatever order the events arrive in.
\<close>

definition run_events :: "('s \<Rightarrow> 'e \<Rightarrow> 's) \<Rightarrow> 's \<Rightarrow> 'e list \<Rightarrow> 's" where
  "run_events step s es = foldl step s es"

lemma run_events_simps [simp]:
  "run_events step s [] = s"
  "run_events step s (e # es) = run_events step (step s e) es"
  "run_events step s (es @ fs) = run_events step (run_events step s es) fs"
  by (simp_all add: run_events_def)

locale event_machine =
  fixes step :: "'s \<Rightarrow> 'e \<Rightarrow> 's"
    and inv :: "'s \<Rightarrow> bool"
  assumes step_inv: "inv s \<Longrightarrow> inv (step s e)"
begin

lemma run_inv: "inv s \<Longrightarrow> inv (run_events step s es)"
  by (induction es arbitrary: s) (auto intro: step_inv)

lemma run_inv_every:
  "inv s \<Longrightarrow> es = pre @ post \<Longrightarrow> inv (run_events step s pre)"
  by (simp add: run_inv)

end

section \<open>Lists\<close>

text \<open>The elements of a list written from an index on, as the loops of the drivers do.\<close>

definition write_from :: "nat \<Rightarrow> 'a list \<Rightarrow> 'a list \<Rightarrow> 'a list" where
  "write_from i vs xs = take i xs @ vs @ drop (i + length vs) xs"

lemma length_write_from [simp]:
  "i + length vs \<le> length xs \<Longrightarrow> length (write_from i vs xs) = length xs"
  by (simp add: write_from_def)

lemma nth_write_from:
  assumes "i + length vs \<le> length xs" and "j < length xs"
  shows "write_from i vs xs ! j = (if i \<le> j \<and> j < i + length vs then vs ! (j - i) else xs ! j)"
  using assms by (auto simp: write_from_def nth_append min_def)

lemma slice_write_from:
  "i + length vs \<le> length xs \<Longrightarrow> take (length vs) (drop i (write_from i vs xs)) = vs"
  by (simp add: write_from_def)

lemma foldl_update_range:
  assumes "i + n \<le> length xs"
  shows "foldl (\<lambda>ys j. ys[i + j := f j]) xs [0..<n] = write_from i (map f [0..<n]) xs"
  using assms
proof (induction n)
  case 0
  then show ?case by (simp add: write_from_def)
next
  case (Suc n)
  then have "foldl (\<lambda>ys j. ys[i + j := f j]) xs [0..<Suc n]
      = (write_from i (map f [0..<n]) xs)[i + n := f n]"
    by simp
  also have "\<dots> = write_from i (map f [0..<Suc n]) xs"
    using Suc.prems
    by (intro nth_equalityI) (auto simp: nth_list_update nth_write_from nth_append)
  finally show ?case .
qed

end
