(* ===== verification/QtJson.thy ===== *)
theory QtJson
  imports Prelude
begin

text \<open>
  The JSON values of Qt as the program uses them. A \<open>QJsonValue\<close> is one of seven kinds, a
  \<open>QJsonObject\<close> keeps its members sorted by key and drops a member that is assigned
  \<open>QJsonValue::Undefined\<close>, and the \<open>toX(default)\<close> readers return the default on any other
  kind. Numbers are finite doubles, which are rational numbers; strings are lists of
  characters.
\<close>

datatype json =
    JUndefined
  | JNull
  | JBool bool
  | JNum rat
  | JStr string
  | JArr "json list"
  | JObj "(string \<times> json) list"

type_synonym json_obj = "(string, json) omap"

primrec is_undefined :: "json \<Rightarrow> bool" where
  "is_undefined JUndefined = True"
| "is_undefined JNull = False"
| "is_undefined (JBool b) = False"
| "is_undefined (JNum r) = False"
| "is_undefined (JStr s) = False"
| "is_undefined (JArr vs) = False"
| "is_undefined (JObj kvs) = False"

fun is_null :: "json \<Rightarrow> bool" where
  "is_null JNull = True"
| "is_null _ = False"

fun is_bool :: "json \<Rightarrow> bool" where
  "is_bool (JBool _) = True"
| "is_bool _ = False"

fun is_double :: "json \<Rightarrow> bool" where
  "is_double (JNum _) = True"
| "is_double _ = False"

fun is_string :: "json \<Rightarrow> bool" where
  "is_string (JStr _) = True"
| "is_string _ = False"

fun is_array :: "json \<Rightarrow> bool" where
  "is_array (JArr _) = True"
| "is_array _ = False"

fun is_object :: "json \<Rightarrow> bool" where
  "is_object (JObj _) = True"
| "is_object _ = False"

fun to_string :: "json \<Rightarrow> string" where
  "to_string (JStr s) = s"
| "to_string _ = []"

fun to_string_or :: "string \<Rightarrow> json \<Rightarrow> string" where
  "to_string_or d (JStr s) = s"
| "to_string_or d _ = d"

fun to_bool_or :: "bool \<Rightarrow> json \<Rightarrow> bool" where
  "to_bool_or d (JBool b) = b"
| "to_bool_or d _ = d"

fun to_double :: "json \<Rightarrow> rat" where
  "to_double (JNum r) = r"
| "to_double _ = 0"

text \<open>The range of \<open>int\<close>; \<open>toInt\<close> returns its default for a fraction or a value outside it.\<close>

definition int_min :: int where "int_min = - 2147483648"
definition int_max :: int where "int_max = 2147483647"

definition in_int :: "int \<Rightarrow> bool" where
  "in_int i = (int_min \<le> i \<and> i \<le> int_max)"

definition rat_int :: "rat \<Rightarrow> int option" where
  "rat_int r = (let f = \<lfloor>r\<rfloor> in if of_int f = r \<and> in_int f then Some f else None)"

fun to_int_or :: "int \<Rightarrow> json \<Rightarrow> int" where
  "to_int_or d (JNum r) = (case rat_int r of Some i \<Rightarrow> i | None \<Rightarrow> d)"
| "to_int_or d _ = d"

fun to_array :: "json \<Rightarrow> json list" where
  "to_array (JArr vs) = vs"
| "to_array _ = []"

fun to_object :: "json \<Rightarrow> json_obj" where
  "to_object (JObj o') = o'"
| "to_object _ = []"

abbreviation jint :: "int \<Rightarrow> json" where
  "jint i \<equiv> JNum (of_int i)"

section \<open>Objects\<close>

definition jval :: "json_obj \<Rightarrow> string \<Rightarrow> json" where
  "jval obj k = (case om_get obj k of Some v \<Rightarrow> v | None \<Rightarrow> JUndefined)"

definition jset :: "string \<Rightarrow> json \<Rightarrow> json_obj \<Rightarrow> json_obj" where
  "jset k v obj = (if is_undefined v then om_del k obj else om_put k v obj)"

text \<open>The pattern \<open>if (c) obj[k] = v;\<close> of the serializers.\<close>

definition jset_if :: "bool \<Rightarrow> string \<Rightarrow> json \<Rightarrow> json_obj \<Rightarrow> json_obj" where
  "jset_if c k v obj = (if c then jset k v obj else obj)"

named_theorems json_simps \<open>members of an object after an assignment\<close>

lemma jval_Nil [simp, json_simps]: "jval [] k = JUndefined"
  by (simp add: jval_def)

lemma jval_jset [simp, json_simps]: "jval (jset k v obj) j = (if j = k then v else jval obj j)"
  by (cases v) (simp_all add: jval_def jset_def)

lemma om_has_jset [simp, json_simps]:
  "om_has (jset k v obj) j = (if j = k then \<not> is_undefined v else om_has obj j)"
  by (auto simp: jset_def)

lemma jval_jset_if [simp, json_simps]:
  "jval (jset_if c k v obj) j = (if c \<and> j = k then v else jval obj j)"
  by (simp add: jset_if_def)

lemma om_has_jset_if [simp, json_simps]:
  "om_has (jset_if c k v obj) j = (if c \<and> j = k then \<not> is_undefined v else om_has obj j)"
  by (simp add: jset_if_def)

lemma om_has_Cons [simp]: "om_has ((k, v) # obj) j = (j = k \<or> om_has obj j)"
  by (auto simp: om_has_def)

lemma jval_Cons [simp]: "jval ((k, v) # obj) j = (if j = k then v else jval obj j)"
  by (auto simp: jval_def)

lemma jval_undefined: "\<not> om_has obj k \<Longrightarrow> jval obj k = JUndefined"
  by (auto simp: jval_def om_has_def)

lemma om_ok_jset [intro]: "om_ok obj \<Longrightarrow> om_ok (jset k v obj)"
  by (auto simp: jset_def)

lemma om_ok_jset_if [intro]: "om_ok obj \<Longrightarrow> om_ok (jset_if c k v obj)"
  by (auto simp: jset_if_def)

lemma rat_int_of_int [simp]: "in_int i \<Longrightarrow> rat_int (of_int i) = Some i"
  by (simp add: rat_int_def)

lemma to_int_jint [simp]: "in_int i \<Longrightarrow> to_int_or d (jint i) = i"
  by (simp add: rat_int_def)

lemma to_int_in_int: "in_int d \<Longrightarrow> in_int (to_int_or d v)"
  by (cases v) (auto simp: rat_int_def Let_def split: option.splits if_splits)

lemma in_int_0 [simp]: "in_int 0"
  by (simp add: in_int_def int_min_def int_max_def)

lemma is_undefined_iff: "is_undefined v \<longleftrightarrow> v = JUndefined"
  by (cases v) auto

text \<open>A reading recursion over nested values stops because a member is smaller than its object.\<close>

lemma size_jval_less: "om_has obj k \<Longrightarrow> size (jval obj k) < size_list (size_prod (\<lambda>_. 0) size) obj"
proof (induction obj)
  case Nil
  then show ?case by simp
next
  case (Cons p obj)
  obtain a v where p: "p = (a, v)" by fastforce
  show ?case
  proof (cases "k = a")
    case True
    then show ?thesis by (simp add: p)
  next
    case False
    with Cons.prems have "om_has obj k" by (simp add: p)
    with Cons.IH False show ?thesis by (simp add: p)
  qed
qed

end
