(* ===== verification/Framing.thy ===== *)
theory Framing
  imports Prelude
begin

text \<open>
  The interface between a byte stream and the messages in it. Every receiver of the program
  (the JSONL reader, the Modbus TCP server, the radar sessions) appends what arrives to a
  buffer and takes whole frames off its front; what a frame is differs. The locale states
  what a receiver needs of the extraction of one frame, and proves once that the frames a peer
  writes are recovered in order however the transport cuts the stream into chunks.
\<close>

fun drain_fuel :: "nat \<Rightarrow> ('b list \<Rightarrow> ('f \<times> 'b list) option) \<Rightarrow> 'b list \<Rightarrow> 'f list \<times> 'b list" where
  "drain_fuel 0 next buf = ([], buf)"
| "drain_fuel (Suc n) next buf =
     (case next buf of
        None \<Rightarrow> ([], buf)
      | Some (f, rest) \<Rightarrow> (let (fs, left) = drain_fuel n next rest in (f # fs, left)))"

text \<open>Each frame takes at least one byte off the buffer, so its length is enough fuel.\<close>

definition drain :: "('b list \<Rightarrow> ('f \<times> 'b list) option) \<Rightarrow> 'b list \<Rightarrow> 'f list \<times> 'b list" where
  "drain next buf = drain_fuel (length buf) next buf"

definition receive ::
  "('b list \<Rightarrow> ('f \<times> 'b list) option) \<Rightarrow> 'f list \<times> 'b list \<Rightarrow> 'b list \<Rightarrow> 'f list \<times> 'b list" where
  "receive next st chunk =
     (let (got, left) = drain next (snd st @ chunk) in (fst st @ got, left))"

definition receive_all :: "('b list \<Rightarrow> ('f \<times> 'b list) option) \<Rightarrow> 'b list list \<Rightarrow> 'f list \<times> 'b list" where
  "receive_all next chunks = foldl (receive next) ([], []) chunks"

locale framed_stream =
  fixes encode :: "'f \<Rightarrow> 'b list"
    and valid :: "'f \<Rightarrow> bool"
    and take_frame :: "'b list \<Rightarrow> ('f \<times> 'b list) option"
  assumes encode_nonempty: "valid f \<Longrightarrow> encode f \<noteq> []"
    and take_nil: "take_frame [] = None"
    and take_encode: "valid f \<Longrightarrow> take_frame (encode f @ rest) = Some (f, rest)"
    and take_incomplete:
      "valid f \<Longrightarrow> encode f = part @ more \<Longrightarrow> more \<noteq> [] \<Longrightarrow> take_frame part = None"
begin

lemma drain_fuel_frames:
  assumes "\<forall>f \<in> set fs. valid f"
    and "buf @ more = concat (map encode fs)"
    and "length buf \<le> n"
  shows "\<exists>k left. drain_fuel n take_frame buf = (take k fs, left) \<and> k \<le> length fs
      \<and> left @ more = concat (map encode (drop k fs)) \<and> take_frame left = None"
  using assms
proof (induction fs arbitrary: buf n)
  case Nil
  then show ?case by (cases n) (auto simp: take_nil)
next
  case (Cons f fs)
  then have f: "valid f" and fs: "\<forall>f \<in> set fs. valid f" by auto
  have eq: "buf @ more = encode f @ concat (map encode fs)" using Cons.prems(2) by simp
  show ?case
  proof (cases "length buf < length (encode f)")
    case True
    moreover from True eq obtain tail where "buf @ tail = encode f"
      by (auto simp: append_eq_append_conv2)
    ultimately have tail: "encode f = buf @ tail" "tail \<noteq> []" by auto
    then have none: "take_frame buf = None" by (rule take_incomplete [OF f])
    then have "drain_fuel n take_frame buf = ([], buf)" by (cases n) auto
    with none Cons.prems(2) show ?thesis
      by (intro exI [of _ 0] exI [of _ buf]) simp
  next
    case False
    then have "take (length (encode f)) buf = encode f"
      using arg_cong [OF eq, of "take (length (encode f))"] by simp
    then obtain rest where "buf = encode f @ rest"
      by (metis append_take_drop_id)
    with eq have rest: "buf = encode f @ rest" "rest @ more = concat (map encode fs)" by auto
    from encode_nonempty [OF f] rest(1) Cons.prems(3) obtain m where
      m: "n = Suc m" "length rest \<le> m"
      by (cases n) (auto simp: neq_Nil_conv)
    obtain k left where
      ih: "drain_fuel m take_frame rest = (take k fs, left)" "k \<le> length fs"
        "left @ more = concat (map encode (drop k fs))" "take_frame left = None"
      using Cons.IH [OF fs rest(2) m(2)] by blast
    show ?thesis
      using ih m(1) rest(1) take_encode [OF f]
      by (intro exI [of _ "Suc k"] exI [of _ left]) simp
  qed
qed

lemma drain_frames:
  assumes "\<forall>f \<in> set fs. valid f" and "buf @ more = concat (map encode fs)"
  shows "\<exists>k left. drain take_frame buf = (take k fs, left) \<and> k \<le> length fs
      \<and> left @ more = concat (map encode (drop k fs)) \<and> take_frame left = None"
  unfolding drain_def by (rule drain_fuel_frames [OF assms order_refl])

text \<open>
  The receiver never gets ahead of the stream: after any number of chunks it has delivered a
  prefix of the frames sent and holds the unread part of the next one.
\<close>

lemma receive_frames:
  assumes "\<forall>f \<in> set fs. valid f" and "left @ concat chunks @ more = concat (map encode fs)"
  shows "\<exists>k rest. foldl (receive take_frame) (got, left) chunks = (got @ take k fs, rest)
      \<and> rest @ more = concat (map encode (drop k fs)) \<and> k \<le> length fs
      \<and> (chunks \<noteq> [] \<longrightarrow> take_frame rest = None)"
  using assms
proof (induction chunks arbitrary: got left fs)
  case Nil
  then show ?case by (intro exI [of _ 0] exI [of _ left]) simp
next
  case (Cons c chunks)
  have "(left @ c) @ concat chunks @ more = concat (map encode fs)" using Cons.prems(2) by simp
  from drain_frames [OF Cons.prems(1) this] obtain k r where
    k: "drain take_frame (left @ c) = (take k fs, r)" "k \<le> length fs"
      "r @ concat chunks @ more = concat (map encode (drop k fs))" "take_frame r = None"
    by blast
  have valid: "\<forall>f \<in> set (drop k fs). valid f"
    using Cons.prems(1) by (meson in_set_dropD)
  obtain j rest where
    j: "foldl (receive take_frame) (got @ take k fs, r) chunks = ((got @ take k fs) @ take j (drop k fs), rest)"
      "rest @ more = concat (map encode (drop j (drop k fs)))" "j \<le> length (drop k fs)"
      "chunks \<noteq> [] \<longrightarrow> take_frame rest = None"
    using Cons.IH [OF valid k(3)] by blast
  have "take_frame rest = None"
    using j k(4) by (cases chunks) auto
  moreover have "take k fs @ take j (drop k fs) = take (k + j) fs"
    by (simp add: take_add)
  moreover have "receive take_frame (got, left) c = (got @ take k fs, r)"
    using k(1) by (simp add: receive_def)
  ultimately show ?case
    using j k by (intro exI [of _ "k + j"] exI [of _ rest]) (auto simp: add.commute)
qed

theorem chunking_irrelevant:
  assumes "\<forall>f \<in> set fs. valid f" and "concat chunks = concat (map encode fs)"
  shows "receive_all take_frame chunks = (fs, [])"
proof (cases "chunks = []")
  case True
  have "fs = []"
  proof (rule ccontr)
    assume "fs \<noteq> []"
    then have "valid (hd fs)" using assms(1) by simp
    with encode_nonempty assms(2) True \<open>fs \<noteq> []\<close> show False by (cases fs) auto
  qed
  with True show ?thesis by (simp add: receive_all_def)
next
  case False
  have "[] @ concat chunks @ [] = concat (map encode fs)" using assms(2) by simp
  from receive_frames [OF assms(1) this, of "[]"] False obtain k rest where
    k: "receive_all take_frame chunks = (take k fs, rest)" "k \<le> length fs"
      "rest = concat (map encode (drop k fs))" "take_frame rest = None"
    by (auto simp: receive_all_def)
  have "drop k fs = []"
  proof (rule ccontr)
    assume "drop k fs \<noteq> []"
    then obtain f gs where fgs: "drop k fs = f # gs" by (cases "drop k fs") auto
    then have "valid f" using assms(1) by (metis in_set_dropD list.set_intros(1))
    with take_encode [of f "concat (map encode gs)"] k(3,4) fgs show False by simp
  qed
  with k show ?thesis by simp
qed

end

end
