(* ===== verification/JsonlProtocol.thy ===== *)
theory JsonlProtocol
  imports QtJson Framing
begin

text \<open>
  The wire protocol: one JSON object per line (\<open>src/src/stdiolink/protocol/jsonl_*\<close>).
  \<open>from_json\<close> and \<open>to_json\<close> stand for \<open>QJsonDocument::fromJson\<close> and
  \<open>toJson(Compact)\<close> of the Qt library, \<open>from_utf8\<close> and \<open>str_to_double\<close> for
  \<open>QString::fromUtf8\<close> followed by \<open>trimmed\<close> and for \<open>QString::toDouble\<close>; they are arguments of
  the definitions that call them.
\<close>

section \<open>Messages\<close>

record request =
  req_cmd :: string
  req_data :: json

record frame_header =
  fh_status :: string
  fh_code :: int

record message =
  msg_status :: string
  msg_code :: int
  msg_payload :: json

section \<open>The line buffer: JsonlParser\<close>

definition newline :: byte where "newline = 10"

record jsonl_parser =
  m_buffer :: bytes

fun index_of :: "'a \<Rightarrow> 'a list \<Rightarrow> nat option" where
  "index_of x [] = None"
| "index_of x (y # ys) = (if x = y then Some 0 else map_option Suc (index_of x ys))"

definition parser_append :: "jsonl_parser \<Rightarrow> bytes \<Rightarrow> jsonl_parser" where
  "parser_append p data = p\<lparr>m_buffer := m_buffer p @ data\<rparr>"

definition tryReadLine :: "jsonl_parser \<Rightarrow> (bytes \<times> jsonl_parser) option" where
  "tryReadLine p =
     (case index_of newline (m_buffer p) of
        None \<Rightarrow> None
      | Some idx \<Rightarrow> Some (take idx (m_buffer p), p\<lparr>m_buffer := drop (idx + 1) (m_buffer p)\<rparr>))"

definition parser_clear :: "jsonl_parser \<Rightarrow> jsonl_parser" where
  "parser_clear p = p\<lparr>m_buffer := []\<rparr>"

definition bufferSize :: "jsonl_parser \<Rightarrow> nat" where
  "bufferSize p = length (m_buffer p)"

text \<open>A reader's loop \<open>while (tryReadLine(line))\<close> after each \<open>append\<close>.\<close>

definition next_line :: "bytes \<Rightarrow> (bytes \<times> bytes) option" where
  "next_line buf = map_option (\<lambda>(line, p). (line, m_buffer p)) (tryReadLine \<lparr>m_buffer = buf\<rparr>)"

lemma next_line_alt:
  "next_line buf = map_option (\<lambda>i. (take i buf, drop (i + 1) buf)) (index_of newline buf)"
  by (simp add: next_line_def tryReadLine_def split: option.splits)

lemma index_of_append:
  "x \<notin> set xs \<Longrightarrow> index_of x (xs @ x # ys) = Some (length xs)"
  by (induction xs) auto

lemma index_of_None: "index_of x xs = None \<longleftrightarrow> x \<notin> set xs"
  by (induction xs) auto

lemma index_of_Some:
  "index_of x xs = Some i \<Longrightarrow> i < length xs \<and> xs ! i = x \<and> x \<notin> set (take i xs)"
  by (induction xs arbitrary: i) (auto split: if_splits)

definition line_ok :: "bytes \<Rightarrow> bool" where
  "line_ok l = (newline \<notin> set l)"

definition line_bytes :: "bytes \<Rightarrow> bytes" where
  "line_bytes l = l @ [newline]"

interpretation jsonl: framed_stream line_bytes line_ok next_line
proof
  fix f part more rest :: bytes
  show "line_ok f \<Longrightarrow> line_bytes f \<noteq> []" by (simp add: line_bytes_def)
  show "next_line [] = None" by (simp add: next_line_alt)
  show "line_ok f \<Longrightarrow> next_line (line_bytes f @ rest) = Some (f, rest)"
    by (simp add: next_line_alt line_bytes_def line_ok_def index_of_append)
  assume ok: "line_ok f" and eq: "line_bytes f = part @ more" and more: "more \<noteq> []"
  from eq more have "f = part @ butlast more"
    by (metis append_is_Nil_conv butlast_append butlast_snoc line_bytes_def)
  with ok have "newline \<notin> set part" by (auto simp: line_ok_def)
  then show "next_line part = None" by (simp add: next_line_alt index_of_None)
qed

section \<open>Requests and responses\<close>

definition parseRequest :: "(bytes \<Rightarrow> json option) \<Rightarrow> bytes \<Rightarrow> request option" where
  "parseRequest from_json line =
     (case from_json line of
        Some (JObj obj) \<Rightarrow>
          if \<not> om_has obj ''cmd'' \<or> \<not> is_string (jval obj ''cmd'') then None
          else Some \<lparr>req_cmd = to_string (jval obj ''cmd''), req_data = jval obj ''data''\<rparr>
      | _ \<Rightarrow> None)"

definition valid_status :: "string \<Rightarrow> bool" where
  "valid_status s = (s = ''event'' \<or> s = ''done'' \<or> s = ''error'')"

text \<open>
  \<open>parseHeader\<close> and \<open>parseResponse\<close> fill the output parameter before they reject an unknown
  status, so the model returns the output value with the verdict.
\<close>

definition parseHeader ::
  "(bytes \<Rightarrow> json option) \<Rightarrow> bytes \<Rightarrow> frame_header \<Rightarrow> bool \<times> frame_header" where
  "parseHeader from_json line out =
     (case from_json line of
        Some (JObj obj) \<Rightarrow>
          if \<not> om_has obj ''status'' \<or> \<not> om_has obj ''code'' then (False, out)
          else
            (let out' = out\<lparr>fh_status := to_string (jval obj ''status''),
                            fh_code := to_int_or 0 (jval obj ''code'')\<rparr>
             in (valid_status (fh_status out'), out'))
      | _ \<Rightarrow> (False, out))"

definition parsePayload ::
  "(bytes \<Rightarrow> json option) \<Rightarrow> (bytes \<Rightarrow> string) \<Rightarrow> (string \<Rightarrow> rat option) \<Rightarrow> bytes \<Rightarrow> json" where
  "parsePayload from_json from_utf8 str_to_double line =
     (case from_json line of
        Some (JObj obj) \<Rightarrow> JObj obj
      | Some (JArr vs) \<Rightarrow> JArr vs
      | _ \<Rightarrow>
          (let str = from_utf8 line in
           if str = ''null'' then JNull
           else if str = ''true'' then JBool True
           else if str = ''false'' then JBool False
           else (case str_to_double str of
                   Some d \<Rightarrow> JNum d
                 | None \<Rightarrow> JStr str)))"

definition parseResponse ::
  "(bytes \<Rightarrow> json option) \<Rightarrow> bytes \<Rightarrow> message \<Rightarrow> bool \<times> message" where
  "parseResponse from_json line out =
     (case from_json line of
        Some (JObj obj) \<Rightarrow>
          if \<not> om_has obj ''status'' \<or> \<not> om_has obj ''code'' then (False, out)
          else
            (let out' = out\<lparr>msg_status := to_string (jval obj ''status''),
                            msg_code := to_int_or 0 (jval obj ''code''),
                            msg_payload := jval obj ''data''\<rparr>
             in (valid_status (msg_status out'), out'))
      | _ \<Rightarrow> (False, out))"

definition request_object :: "string \<Rightarrow> json \<Rightarrow> json_obj" where
  "request_object cmd data =
     (let req = jset ''cmd'' (JStr cmd) []
      in if \<not> is_null data \<and> \<not> is_undefined data then jset ''data'' data req else req)"

definition serializeRequest :: "(json \<Rightarrow> bytes) \<Rightarrow> string \<Rightarrow> json \<Rightarrow> bytes" where
  "serializeRequest to_json cmd data = to_json (JObj (request_object cmd data)) @ [newline]"

definition response_object :: "string \<Rightarrow> int \<Rightarrow> json \<Rightarrow> json_obj" where
  "response_object status code payload =
     jset ''data'' payload (jset ''code'' (jint code) (jset ''status'' (JStr status) []))"

definition serializeResponse :: "(json \<Rightarrow> bytes) \<Rightarrow> string \<Rightarrow> int \<Rightarrow> json \<Rightarrow> bytes" where
  "serializeResponse to_json status code payload =
     to_json (JObj (response_object status code payload)) @ [newline]"

text \<open>
  What the protocol relies on in the Qt serializer for one object: the compact form has no line
  break and is read back as the same object.
\<close>

definition codec_at :: "(json \<Rightarrow> bytes) \<Rightarrow> (bytes \<Rightarrow> json option) \<Rightarrow> json_obj \<Rightarrow> bool" where
  "codec_at to_json from_json obj =
     (newline \<notin> set (to_json (JObj obj)) \<and> from_json (to_json (JObj obj)) = Some (JObj obj))"

lemma parse_serialized_response:
  assumes "codec_at to_json from_json (response_object st code pl)"
    and "valid_status st" and "in_int code"
  shows "parseResponse from_json (to_json (JObj (response_object st code pl))) out
       = (True, out\<lparr>msg_status := st, msg_code := code, msg_payload := pl\<rparr>)"
  using assms
  by (auto simp: parseResponse_def codec_at_def response_object_def)

lemma parse_serialized_request:
  assumes "codec_at to_json from_json (request_object cmd data)"
  shows "parseRequest from_json (to_json (JObj (request_object cmd data)))
       = Some \<lparr>req_cmd = cmd, req_data = (if is_null data then JUndefined else data)\<rparr>"
  using assms
  by (auto simp: parseRequest_def codec_at_def request_object_def is_undefined_iff Let_def)

text \<open>However the pipe cuts the bytes of a sequence of lines into chunks, the reader that
  appends each chunk to its buffer and takes lines while there are any delivers exactly the
  lines that were written, in order, and is left with an empty buffer.\<close>

theorem jsonl_chunking:
  assumes "\<forall>l \<in> set lines. line_ok l" and "concat chunks = concat (map line_bytes lines)"
  shows "receive_all next_line chunks = (lines, [])"
  by (rule jsonl.chunking_irrelevant [OF assms])

lemma jsonl_chunking_witness:
  "receive_all next_line [[123], [125, 10, 49], [], [50, 10]] = ([[123, 125], [49, 50]], [])"
  by (rule jsonl_chunking) (auto simp: line_ok_def line_bytes_def newline_def)

text \<open>A response that a driver writes is one line, and the host's parser reads back its
  status, code and payload, provided the Qt serializer's output for it has no line break and
  parses back.\<close>

theorem response_roundtrip:
  assumes "codec_at to_json from_json (response_object st code pl)"
    and "valid_status st" and "in_int code"
  shows "\<exists>line. next_line (serializeResponse to_json st code pl @ rest) = Some (line, rest)
      \<and> parseResponse from_json line out
        = (True, out\<lparr>msg_status := st, msg_code := code, msg_payload := pl\<rparr>)"
proof -
  have "next_line (line_bytes (to_json (JObj (response_object st code pl))) @ rest)
      = Some (to_json (JObj (response_object st code pl)), rest)"
    using assms(1) by (intro jsonl.take_encode) (simp add: line_ok_def codec_at_def)
  with parse_serialized_response [OF assms] show ?thesis
    by (auto simp: serializeResponse_def line_bytes_def)
qed


lemma response_roundtrip_witness:
  "\<exists>line. next_line (serializeResponse (\<lambda>_. [123, 125]) ''done'' 0 (JNum 1) @ [91]) = Some (line, [91])
      \<and> parseResponse
          (\<lambda>b. if b = [123, 125] then Some (JObj (response_object ''done'' 0 (JNum 1))) else None) line
          \<lparr>msg_status = ''x'', msg_code = 7, msg_payload = JNull\<rparr>
        = (True, \<lparr>msg_status = ''done'', msg_code = 0, msg_payload = JNum 1\<rparr>)"
  using response_roundtrip [of "\<lambda>_. [123, 125]"
      "\<lambda>b. if b = [123, 125] then Some (JObj (response_object ''done'' 0 (JNum 1))) else None"
      "''done''" 0 "JNum 1" "[91]" "\<lparr>msg_status = ''x'', msg_code = 7, msg_payload = JNull\<rparr>"]
  by (simp add: codec_at_def newline_def valid_status_def)

end
