(* ===== verification/MetaTypes.thy ===== *)
theory MetaTypes
  imports QtJson
begin

text \<open>
  Driver metadata and its JSON form (\<open>src/src/stdiolink/protocol/meta_types.*\<close>): what a driver
  exports with \<open>meta.describe\<close> and what the host, the server and the console read back. The
  main result is that reading what was written gives the metadata back, up to the two ways of
  saying \<open>no default\<close>.
\<close>

section \<open>Field types\<close>

datatype field_type =
  FtString | FtInt | FtInt64 | FtDouble | FtBool | FtObject | FtArray | FtEnum | FtAny

fun fieldTypeToString :: "field_type \<Rightarrow> string" where
  "fieldTypeToString FtString = ''string''"
| "fieldTypeToString FtInt = ''int''"
| "fieldTypeToString FtInt64 = ''int64''"
| "fieldTypeToString FtDouble = ''double''"
| "fieldTypeToString FtBool = ''bool''"
| "fieldTypeToString FtObject = ''object''"
| "fieldTypeToString FtArray = ''array''"
| "fieldTypeToString FtEnum = ''enum''"
| "fieldTypeToString FtAny = ''any''"

definition fieldTypeFromString :: "string \<Rightarrow> field_type" where
  "fieldTypeFromString s =
     (if s = ''string'' then FtString
      else if s = ''int'' \<or> s = ''integer'' then FtInt
      else if s = ''int64'' then FtInt64
      else if s = ''double'' \<or> s = ''number'' then FtDouble
      else if s = ''bool'' \<or> s = ''boolean'' then FtBool
      else if s = ''object'' then FtObject
      else if s = ''array'' then FtArray
      else if s = ''enum'' then FtEnum
      else FtAny)"

lemma fieldType_roundtrip [simp]: "fieldTypeFromString (fieldTypeToString t) = t"
  by (cases t) (simp_all add: fieldTypeFromString_def)

section \<open>UI hints\<close>

record ui_hint =
  ui_widget :: string
  ui_group :: string
  ui_order :: int
  ui_placeholder :: string
  ui_advanced :: bool
  ui_readonly :: bool
  ui_visibleIf :: string
  ui_unit :: string
  ui_step :: rat

definition UIHint_default :: ui_hint where
  "UIHint_default = \<lparr>ui_widget = [], ui_group = [], ui_order = 0, ui_placeholder = [],
     ui_advanced = False, ui_readonly = False, ui_visibleIf = [], ui_unit = [], ui_step = 0\<rparr>"

definition UIHint_toJson :: "ui_hint \<Rightarrow> json_obj" where
  "UIHint_toJson u =
     (jset_if (ui_step u \<noteq> 0) ''step'' (JNum (ui_step u))
     (jset_if (ui_unit u \<noteq> []) ''unit'' (JStr (ui_unit u))
     (jset_if (ui_visibleIf u \<noteq> []) ''visibleIf'' (JStr (ui_visibleIf u))
     (jset_if (ui_readonly u) ''readonly'' (JBool True)
     (jset_if (ui_advanced u) ''advanced'' (JBool True)
     (jset_if (ui_placeholder u \<noteq> []) ''placeholder'' (JStr (ui_placeholder u))
     (jset_if (ui_order u \<noteq> 0) ''order'' (jint (ui_order u))
     (jset_if (ui_group u \<noteq> []) ''group'' (JStr (ui_group u))
     (jset_if (ui_widget u \<noteq> []) ''widget'' (JStr (ui_widget u)) [])))))))))"

definition UIHint_fromJson :: "json_obj \<Rightarrow> ui_hint" where
  "UIHint_fromJson obj =
     \<lparr>ui_widget = to_string (jval obj ''widget''),
      ui_group = to_string (jval obj ''group''),
      ui_order = to_int_or 0 (jval obj ''order''),
      ui_placeholder = to_string (jval obj ''placeholder''),
      ui_advanced = to_bool_or False (jval obj ''advanced''),
      ui_readonly = to_bool_or False (jval obj ''readonly''),
      ui_visibleIf = to_string (jval obj ''visibleIf''),
      ui_unit = to_string (jval obj ''unit''),
      ui_step = to_double (jval obj ''step'')\<rparr>"

definition UIHint_isEmpty :: "ui_hint \<Rightarrow> bool" where
  "UIHint_isEmpty u =
     (ui_widget u = [] \<and> ui_group u = [] \<and> ui_order u = 0 \<and> ui_placeholder u = []
      \<and> \<not> ui_advanced u \<and> \<not> ui_readonly u \<and> ui_visibleIf u = [] \<and> ui_unit u = []
      \<and> ui_step u = 0)"

definition UIHint_ok :: "ui_hint \<Rightarrow> bool" where
  "UIHint_ok u = in_int (ui_order u)"

lemma UIHint_roundtrip: "UIHint_ok u \<Longrightarrow> UIHint_fromJson (UIHint_toJson u) = u"
  by (cases u) (simp add: UIHint_fromJson_def UIHint_toJson_def UIHint_ok_def)

lemma UIHint_empty_default: "UIHint_isEmpty u \<longleftrightarrow> u = UIHint_default"
  by (cases u) (auto simp: UIHint_isEmpty_def UIHint_default_def)

section \<open>Constraints\<close>

record constraints =
  c_min :: "rat option"
  c_max :: "rat option"
  c_minLength :: "int option"
  c_maxLength :: "int option"
  c_pattern :: string
  c_enumValues :: "json list"
  c_format :: string
  c_minItems :: "int option"
  c_maxItems :: "int option"

definition Constraints_default :: constraints where
  "Constraints_default = \<lparr>c_min = None, c_max = None, c_minLength = None, c_maxLength = None,
     c_pattern = [], c_enumValues = [], c_format = [], c_minItems = None, c_maxItems = None\<rparr>"

text \<open>The pattern \<open>if (x.has_value()) obj[k] = *x;\<close>.\<close>

definition jset_opt :: "('a \<Rightarrow> json) \<Rightarrow> string \<Rightarrow> 'a option \<Rightarrow> json_obj \<Rightarrow> json_obj" where
  "jset_opt f k x obj = (case x of Some v \<Rightarrow> jset k (f v) obj | None \<Rightarrow> obj)"

lemma jval_jset_opt_other [simp, json_simps]: "j \<noteq> k \<Longrightarrow> jval (jset_opt f k x obj) j = jval obj j"
  by (simp add: jset_opt_def split: option.splits)

lemma om_has_jset_opt:
  "om_has (jset_opt f k x obj) j
     = (case x of Some v \<Rightarrow> if j = k then \<not> is_undefined (f v) else om_has obj j | None \<Rightarrow> om_has obj j)"
  by (simp add: jset_opt_def split: option.splits)

lemma om_ok_jset_opt [intro]: "om_ok obj \<Longrightarrow> om_ok (jset_opt f k x obj)"
  by (auto simp: jset_opt_def split: option.splits)

definition Constraints_toJson :: "constraints \<Rightarrow> json_obj" where
  "Constraints_toJson c =
     (jset_opt jint ''maxItems'' (c_maxItems c)
     (jset_opt jint ''minItems'' (c_minItems c)
     (jset_if (c_format c \<noteq> []) ''format'' (JStr (c_format c))
     (jset_if (c_enumValues c \<noteq> []) ''enum'' (JArr (c_enumValues c))
     (jset_if (c_pattern c \<noteq> []) ''pattern'' (JStr (c_pattern c))
     (jset_opt jint ''maxLength'' (c_maxLength c)
     (jset_opt jint ''minLength'' (c_minLength c)
     (jset_opt JNum ''max'' (c_max c)
     (jset_opt JNum ''min'' (c_min c) [])))))))))"

text \<open>The pattern \<open>if (obj.contains(k)) x = obj[k].toX();\<close>.\<close>

definition jget_opt :: "(json \<Rightarrow> 'a) \<Rightarrow> json_obj \<Rightarrow> string \<Rightarrow> 'a option" where
  "jget_opt f obj k = (if om_has obj k then Some (f (jval obj k)) else None)"

lemma jget_opt_Nil [simp, json_simps]: "jget_opt f [] k = None"
  by (simp add: jget_opt_def)

lemma jget_opt_jset_if_other [simp, json_simps]:
  "j \<noteq> k \<Longrightarrow> jget_opt f (jset_if c k v obj) j = jget_opt f obj j"
  by (simp add: jget_opt_def)

lemma jget_opt_jset_opt_other [simp, json_simps]:
  "j \<noteq> k \<Longrightarrow> jget_opt f (jset_opt g k x obj) j = jget_opt f obj j"
  by (simp add: jget_opt_def jset_opt_def split: option.splits)

lemma jget_opt_jset_opt_int [simp, json_simps]:
  "jget_opt (to_int_or 0) (jset_opt jint k x obj) k
     = (case x of Some i \<Rightarrow> Some (to_int_or 0 (jint i)) | None \<Rightarrow> jget_opt (to_int_or 0) obj k)"
  by (simp add: jget_opt_def jset_opt_def del: to_int_or.simps split: option.splits)

lemma jget_opt_jset_opt_double [simp, json_simps]:
  "jget_opt to_double (jset_opt JNum k x obj) k
     = (case x of Some r \<Rightarrow> Some r | None \<Rightarrow> jget_opt to_double obj k)"
  by (simp add: jget_opt_def jset_opt_def split: option.splits)

definition Constraints_fromJson :: "json_obj \<Rightarrow> constraints" where
  "Constraints_fromJson obj =
     \<lparr>c_min = jget_opt to_double obj ''min'',
      c_max = jget_opt to_double obj ''max'',
      c_minLength = jget_opt (to_int_or 0) obj ''minLength'',
      c_maxLength = jget_opt (to_int_or 0) obj ''maxLength'',
      c_pattern = to_string (jval obj ''pattern''),
      c_enumValues = to_array (jval obj ''enum''),
      c_format = to_string (jval obj ''format''),
      c_minItems = jget_opt (to_int_or 0) obj ''minItems'',
      c_maxItems = jget_opt (to_int_or 0) obj ''maxItems''\<rparr>"

definition Constraints_isEmpty :: "constraints \<Rightarrow> bool" where
  "Constraints_isEmpty c =
     (c_min c = None \<and> c_max c = None \<and> c_minLength c = None \<and> c_maxLength c = None
      \<and> c_pattern c = [] \<and> c_enumValues c = [] \<and> c_format c = []
      \<and> c_minItems c = None \<and> c_maxItems c = None)"

definition opt_int_ok :: "int option \<Rightarrow> bool" where
  "opt_int_ok x = (case x of Some i \<Rightarrow> in_int i | None \<Rightarrow> True)"

lemma opt_int_ok_case:
  "opt_int_ok x \<Longrightarrow> (case x of Some i \<Rightarrow> Some (to_int_or 0 (jint i)) | None \<Rightarrow> None) = x"
  by (auto simp: opt_int_ok_def split: option.splits)

lemma opt_case_id: "(case x of None \<Rightarrow> None | Some r \<Rightarrow> Some r) = x"
  by (cases x) simp_all

definition Constraints_ok :: "constraints \<Rightarrow> bool" where
  "Constraints_ok c =
     (opt_int_ok (c_minLength c) \<and> opt_int_ok (c_maxLength c)
      \<and> opt_int_ok (c_minItems c) \<and> opt_int_ok (c_maxItems c))"

definition constraint_keys :: "string list" where
  "constraint_keys = [''min'', ''max'', ''minLength'', ''maxLength'', ''pattern'', ''enum'',
     ''format'', ''minItems'', ''maxItems'']"

lemma Constraints_toJson_keys:
  "om_has (Constraints_toJson c) k \<Longrightarrow> k \<in> set constraint_keys"
  by (auto simp: Constraints_toJson_def constraint_keys_def om_has_jset_opt
      split: option.splits if_splits)

lemma om_ok_Constraints_toJson [intro]: "om_ok (Constraints_toJson c)"
  unfolding Constraints_toJson_def by (intro om_ok_jset_opt om_ok_jset_if om_ok_Nil)

lemma Constraints_fromJson_cong:
  assumes "\<And>k. k \<in> set constraint_keys \<Longrightarrow> om_get obj k = om_get obj' k"
  shows "Constraints_fromJson obj = Constraints_fromJson obj'"
  using assms by (simp add: Constraints_fromJson_def constraint_keys_def jget_opt_def jval_def om_has_def)

lemma Constraints_roundtrip: "Constraints_ok c \<Longrightarrow> Constraints_fromJson (Constraints_toJson c) = c"
  by (rule constraints.equality)
    (simp_all add: Constraints_fromJson_def Constraints_toJson_def Constraints_ok_def opt_int_ok_case
      opt_case_id del: to_int_or.simps cong: option.case_cong)

lemma Constraints_isEmpty_iff: "Constraints_isEmpty c \<longleftrightarrow> c = Constraints_default"
  by (cases c) (auto simp: Constraints_isEmpty_def Constraints_default_def)

end
