(* ===== verification/MetaField.thy ===== *)
theory MetaField
  imports MetaTypes
begin

text \<open>
  \<open>FieldMeta\<close>: the recursive description of one parameter, result or configuration field, its
  JSON form and the round trip between the two.
\<close>

datatype field_meta = FieldMeta
  (f_name: string)
  (f_type: field_type)
  (f_required: bool)
  (f_default: json)
  (f_description: string)
  (f_constraints: constraints)
  (f_ui: ui_hint)
  (f_fields: "field_meta list")
  (f_items: "field_meta option")
  (f_requiredKeys: "string list")
  (f_additional: bool)

text \<open>The loop that copies the members of one object into another.\<close>

definition jmerge :: "json_obj \<Rightarrow> json_obj \<Rightarrow> json_obj" where
  "jmerge obj c = foldl (\<lambda>o' (k, v). jset k v o') obj c"

fun FieldMeta_toJson :: "field_meta \<Rightarrow> json_obj" where
  "FieldMeta_toJson (FieldMeta name type req def desc cs ui flds items rkeys addl) =
     (let o1 = jset_if (name \<noteq> []) ''name'' (JStr name) [];
          o2 = jset ''type'' (JStr (fieldTypeToString type)) o1;
          o3 = jset_if req ''required'' (JBool True) o2;
          o4 = jset_if (\<not> is_null def) ''default'' def o3;
          o5 = jset_if (desc \<noteq> []) ''description'' (JStr desc) o4;
          o6 = jmerge o5 (Constraints_toJson cs);
          o7 = jset_if (\<not> UIHint_isEmpty ui) ''ui'' (JObj (UIHint_toJson ui)) o6;
          o8 = jset_if (flds \<noteq> []) ''fields'' (JArr (map (\<lambda>f. JObj (FieldMeta_toJson f)) flds)) o7;
          o9 = (case items of
                  None \<Rightarrow> o8
                | Some it \<Rightarrow> jset ''items'' (JObj (FieldMeta_toJson it)) o8);
          o10 = jset_if (rkeys \<noteq> []) ''requiredKeys'' (JArr (map JStr rkeys)) o9
      in jset_if (\<not> addl) ''additionalProperties'' (JBool False) o10)"

text \<open>The weight of an object, for the recursion of \<open>fromJson\<close> into its members.\<close>

definition osize :: "json_obj \<Rightarrow> nat" where
  "osize obj = size_list (size_prod (\<lambda>_. 0) size) obj"

lemma osize_to_object: "osize (to_object v) \<le> size v"
  by (cases v) (simp_all add: osize_def)

lemma osize_jval: "om_has obj k \<Longrightarrow> size (jval obj k) < osize obj"
  unfolding osize_def by (rule size_jval_less)

lemma osize_member: "om_has obj k \<Longrightarrow> osize (to_object (jval obj k)) < osize obj"
  using osize_to_object osize_jval by (rule le_less_trans)

lemma osize_element:
  assumes "v \<in> set (to_array (jval obj k))"
  shows "osize (to_object v) < osize obj"
proof -
  from assms obtain vs where vs: "jval obj k = JArr vs" "v \<in> set vs"
    by (cases "jval obj k") auto
  then have "om_has obj k" using jval_undefined by force
  with vs(1) have "size (JArr vs) < osize obj" using osize_jval by metis
  moreover have "size v \<le> size_list size vs"
    using vs(2) by (rule size_list_estimation') simp
  ultimately show ?thesis using osize_to_object [of v] by simp
qed

function FieldMeta_fromJson :: "json_obj \<Rightarrow> field_meta" where
  "FieldMeta_fromJson obj = FieldMeta
     (to_string (jval obj ''name''))
     (fieldTypeFromString (to_string (jval obj ''type'')))
     (to_bool_or False (jval obj ''required''))
     (jval obj ''default'')
     (to_string (jval obj ''description''))
     (Constraints_fromJson obj)
     (if om_has obj ''ui'' then UIHint_fromJson (to_object (jval obj ''ui'')) else UIHint_default)
     (if om_has obj ''fields''
      then map (\<lambda>v. FieldMeta_fromJson (to_object v)) (to_array (jval obj ''fields'')) else [])
     (if om_has obj ''items'' then Some (FieldMeta_fromJson (to_object (jval obj ''items''))) else None)
     (if om_has obj ''requiredKeys'' then map to_string (to_array (jval obj ''requiredKeys'')) else [])
     (if om_has obj ''additionalProperties''
      then to_bool_or False (jval obj ''additionalProperties'') else True)"
  by pat_completeness auto
termination
  by (relation "measure osize") (auto intro: osize_element osize_member)

declare FieldMeta_fromJson.simps [simp del]

section \<open>The round trip\<close>

text \<open>
  A field without a default is written without the member, and reading an absent member gives
  \<open>Undefined\<close>: both readers of the default test for null and undefined, so the two are the
  same to the program. \<open>field_canon\<close> picks \<open>Undefined\<close>.
\<close>

fun field_canon :: "field_meta \<Rightarrow> field_meta" where
  "field_canon (FieldMeta name type req def desc cs ui flds items rkeys addl) =
     FieldMeta name type req (if is_null def then JUndefined else def) desc cs ui
       (map field_canon flds) (map_option field_canon items) rkeys addl"

text \<open>The C++ integers of a field are in range.\<close>

fun field_ok :: "field_meta \<Rightarrow> bool" where
  "field_ok (FieldMeta name type req def desc cs ui flds items rkeys addl) =
     (Constraints_ok cs \<and> UIHint_ok ui \<and> (\<forall>f \<in> set flds. field_ok f)
      \<and> (case items of None \<Rightarrow> True | Some it \<Rightarrow> field_ok it))"

definition field_keys :: "string list" where
  "field_keys = [''name'', ''type'', ''required'', ''default'', ''description'', ''ui'',
     ''fields'', ''items'', ''requiredKeys'', ''additionalProperties'']"

lemma field_constraint_keys_disjoint: "k \<in> set field_keys \<Longrightarrow> k \<notin> set constraint_keys"
  by (auto simp: field_keys_def constraint_keys_def)

lemma om_get_jset: "om_get (jset k v obj) j = (if j = k then (if is_undefined v then None else Some v) else om_get obj j)"
  by (simp add: jset_def)

lemma om_get_jset_if:
  "om_get (jset_if c k v obj) j
     = (if c \<and> j = k then (if is_undefined v then None else Some v) else om_get obj j)"
  by (simp add: jset_if_def om_get_jset)

lemma om_get_jmerge:
  "om_ok c \<Longrightarrow> \<forall>(k, v) \<in> set c. \<not> is_undefined v \<Longrightarrow>
   om_get (jmerge obj c) k = (case om_get c k of Some v \<Rightarrow> Some v | None \<Rightarrow> om_get obj k)"
proof (induction c arbitrary: obj)
  case Nil
  then show ?case by (simp add: jmerge_def)
next
  case (Cons p c)
  obtain a v where p: "p = (a, v)" by fastforce
  have ok: "om_ok c" and new: "om_get c a = None"
    using Cons.prems(1) by (auto simp: p om_ok_def om_get_None_iff om_keys_def)
  have "jmerge obj (p # c) = jmerge (jset a v obj) c" by (simp add: jmerge_def p)
  with Cons ok new show ?case
    by (auto simp: p om_get_jset split: option.splits)
qed

lemma jset_defined:
  assumes "\<forall>(a, w) \<in> set obj. \<not> is_undefined w"
  shows "\<forall>(a, w) \<in> set (jset k v obj). \<not> is_undefined w"
proof -
  have "p \<in> set (om_put k v obj) \<Longrightarrow> p = (k, v) \<or> p \<in> set obj" for p
    by (induction obj) (auto split: if_splits)
  then show ?thesis
    using assms by (cases "is_undefined v") (fastforce simp: jset_def om_del_def)+
qed

lemma Constraints_toJson_defined: "\<forall>(k, v) \<in> set (Constraints_toJson c). \<not> is_undefined v"
proof -
  have opt: "\<forall>(a, w) \<in> set obj. \<not> is_undefined w
      \<Longrightarrow> \<forall>(a, w) \<in> set (jset_opt f k x obj). \<not> is_undefined w" for f :: "'a \<Rightarrow> json" and k x obj
    by (cases x) (use jset_defined in \<open>auto simp: jset_opt_def\<close>)
  have if': "\<forall>(a, w) \<in> set obj. \<not> is_undefined w
      \<Longrightarrow> \<forall>(a, w) \<in> set (jset_if b k v obj). \<not> is_undefined w" for b k v obj
    using jset_defined by (auto simp: jset_if_def)
  show ?thesis
    unfolding Constraints_toJson_def by (intro opt if') simp
qed

lemma om_get_merged:
  "om_get (jmerge obj (Constraints_toJson c)) k
     = (case om_get (Constraints_toJson c) k of Some v \<Rightarrow> Some v | None \<Rightarrow> om_get obj k)"
  by (rule om_get_jmerge [OF om_ok_Constraints_toJson Constraints_toJson_defined])

lemma om_get_merged_field:
  "k \<in> set field_keys \<Longrightarrow> om_get (jmerge obj (Constraints_toJson c)) k = om_get obj k"
  using field_constraint_keys_disjoint [of k] Constraints_toJson_keys [of c k]
  by (auto simp: om_get_merged om_has_def split: option.splits)


lemma om_get_toJson_field:
  assumes "k \<in> set field_keys"
  shows "om_get (FieldMeta_toJson (FieldMeta name type req def desc cs ui flds items rkeys addl)) k =
    (if k = ''name'' then if name \<noteq> [] then Some (JStr name) else None
     else if k = ''type'' then Some (JStr (fieldTypeToString type))
     else if k = ''required'' then if req then Some (JBool True) else None
     else if k = ''default'' then if \<not> is_null def \<and> \<not> is_undefined def then Some def else None
     else if k = ''description'' then if desc \<noteq> [] then Some (JStr desc) else None
     else if k = ''ui'' then if UIHint_isEmpty ui then None else Some (JObj (UIHint_toJson ui))
     else if k = ''fields'' then
       if flds \<noteq> [] then Some (JArr (map (\<lambda>f. JObj (FieldMeta_toJson f)) flds)) else None
     else if k = ''items'' then map_option (\<lambda>it. JObj (FieldMeta_toJson it)) items
     else if k = ''requiredKeys'' then if rkeys \<noteq> [] then Some (JArr (map JStr rkeys)) else None
     else if addl then None else Some (JBool False))"
proof -
  note om_get_jset [simp] om_get_jset_if [simp]
  have k: "k = ''name'' \<or> k = ''type'' \<or> k = ''required'' \<or> k = ''default'' \<or> k = ''description''
      \<or> k = ''ui'' \<or> k = ''fields'' \<or> k = ''items'' \<or> k = ''requiredKeys'' \<or> k = ''additionalProperties''"
    using assms by (simp add: field_keys_def)
  have merged: "om_get (jmerge obj (Constraints_toJson cs)) k = om_get obj k" for obj
    using assms by (rule om_get_merged_field)
  show ?thesis
    using merged k by (cases items) (elim disjE; simp add: Let_def)+
qed

lemma om_get_toJson_constraint:
  assumes "k \<in> set constraint_keys"
  shows "om_get (FieldMeta_toJson (FieldMeta name type req def desc cs ui flds items rkeys addl)) k
    = om_get (Constraints_toJson cs) k"
proof -
  have "k \<notin> set field_keys" using field_constraint_keys_disjoint assms by blast
  then show ?thesis
    by (cases items)
      (auto simp: Let_def field_keys_def om_get_jset om_get_jset_if om_get_merged split: option.splits)
qed

lemma FieldMeta_roundtrip:
  "field_ok f \<Longrightarrow> FieldMeta_fromJson (FieldMeta_toJson f) = field_canon f"
proof (induction f)
  case (FieldMeta name type req def desc cs ui flds items rkeys addl)
  let ?o = "FieldMeta_toJson (FieldMeta name type req def desc cs ui flds items rkeys addl)"
  have cs: "Constraints_fromJson ?o = cs"
    using FieldMeta.prems Constraints_roundtrip [of cs]
      Constraints_fromJson_cong [OF om_get_toJson_constraint] by simp
  have flds: "map (\<lambda>f. FieldMeta_fromJson (FieldMeta_toJson f)) flds = map field_canon flds"
    using FieldMeta by auto
  have items: "map_option (\<lambda>f. FieldMeta_fromJson (FieldMeta_toJson f)) items = map_option field_canon items"
    using FieldMeta by (cases items) auto
  have ui: "UIHint_fromJson (UIHint_toJson ui) = ui" "UIHint_isEmpty ui \<Longrightarrow> ui = UIHint_default"
    using FieldMeta.prems by (simp_all add: UIHint_roundtrip UIHint_empty_default)
  note get = om_get_toJson_field [of _ name type req "def" desc cs ui flds items rkeys addl]
  have plain: "to_string (jval ?o ''name'') = name"
      "fieldTypeFromString (to_string (jval ?o ''type'')) = type"
      "to_bool_or False (jval ?o ''required'') = req"
      "jval ?o ''default'' = (if is_null def then JUndefined else def)"
      "to_string (jval ?o ''description'') = desc"
    by (simp_all add: jval_def get field_keys_def is_undefined_iff del: FieldMeta_toJson.simps)
  have ui': "(if om_has ?o ''ui'' then UIHint_fromJson (to_object (jval ?o ''ui'')) else UIHint_default) = ui"
    using ui by (auto simp: jval_def om_has_def get field_keys_def simp del: FieldMeta_toJson.simps)
  have flds': "(if om_has ?o ''fields''
        then map (\<lambda>v. FieldMeta_fromJson (to_object v)) (to_array (jval ?o ''fields'')) else [])
      = map field_canon flds"
    using flds by (simp add: jval_def om_has_def get field_keys_def o_def del: FieldMeta_toJson.simps)
  have items': "(if om_has ?o ''items'' then Some (FieldMeta_fromJson (to_object (jval ?o ''items''))) else None)
      = map_option field_canon items"
  proof -
    have "om_get ?o ''items'' = map_option (\<lambda>it. JObj (FieldMeta_toJson it)) items"
      by (simp add: get field_keys_def del: FieldMeta_toJson.simps)
    then show ?thesis
      using items
      by (cases items) (simp_all add: jval_def om_has_def del: FieldMeta_toJson.simps)
  qed
  have rest: "(if om_has ?o ''requiredKeys'' then map to_string (to_array (jval ?o ''requiredKeys'')) else []) = rkeys"
      "(if om_has ?o ''additionalProperties''
        then to_bool_or False (jval ?o ''additionalProperties'') else True) = addl"
    by (simp_all add: jval_def om_has_def get field_keys_def o_def del: FieldMeta_toJson.simps)
  show ?case
    unfolding FieldMeta_fromJson.simps [of ?o] cs plain ui' flds' items' rest by simp
qed


lemma om_del_absent: "\<not> om_has obj k \<Longrightarrow> om_del k obj = obj"
  by (induction obj) (auto simp: om_del_def om_has_def split: if_splits)

lemma FieldMeta_toJson_canon: "FieldMeta_toJson (field_canon f) = FieldMeta_toJson f"
proof (induction f)
  case (FieldMeta name type req def desc cs ui flds items rkeys addl)
  have flds: "map (\<lambda>f. JObj (FieldMeta_toJson (field_canon f))) flds
      = map (\<lambda>f. JObj (FieldMeta_toJson f)) flds"
    using FieldMeta by auto
  have items: "map_option (\<lambda>f. FieldMeta_toJson (field_canon f)) items = map_option FieldMeta_toJson items"
    using FieldMeta by (cases items) auto
  have absent: "jset_if True ''default'' JUndefined obj = obj" if "\<not> om_has obj ''default''" for obj
    using that by (simp add: jset_if_def jset_def om_del_absent)
  show ?case
  proof (cases "is_null def")
    case True
    then have "def = JNull" by (cases "def") auto
    moreover have "jset_if False k v obj = obj" for k v obj by (simp add: jset_if_def)
    ultimately show ?thesis
      using flds items
      by (cases items) (simp_all add: Let_def o_def absent cong: map_cong)
  next
    case False
    then show ?thesis
      using flds items by (cases items) (simp_all add: Let_def o_def cong: map_cong)
  qed
qed

end
