(* ===== verification/MetaDriver.thy ===== *)
theory MetaDriver
  imports MetaField
begin

text \<open>
  Commands, events, configuration and the driver's top-level metadata
  (\<open>src/src/stdiolink/protocol/meta_types.cpp\<close>, from \<open>EventMeta\<close> on). \<open>QHash\<close> is kept as an
  ordered map: the code only looks its keys up and copies it into a sorted object.
\<close>

record event_meta =
  ev_name :: string
  ev_description :: string
  ev_fields :: "field_meta list"

record return_meta =
  ret_type :: field_type
  ret_description :: string
  ret_fields :: "field_meta list"

record command_meta =
  cm_name :: string
  cm_description :: string
  cm_title :: string
  cm_summary :: string
  cm_params :: "field_meta list"
  cm_returns :: return_meta
  cm_events :: "event_meta list"
  cm_errors :: "json_obj list"
  cm_examples :: "json_obj list"
  cm_ui :: ui_hint

record config_apply =
  ap_method :: string
  ap_envPrefix :: string
  ap_command :: string
  ap_fileName :: string

record config_schema =
  cs_fields :: "field_meta list"
  cs_apply :: config_apply

record driver_info =
  di_id :: string
  di_name :: string
  di_version :: string
  di_description :: string
  di_vendor :: string
  di_entry :: json_obj
  di_capabilities :: "string list"
  di_profiles :: "string list"

record driver_meta =
  dm_schemaVersion :: string
  dm_info :: driver_info
  dm_config :: config_schema
  dm_commands :: "command_meta list"
  dm_types :: "(string, field_meta) omap"
  dm_errors :: "json_obj list"
  dm_examples :: "json_obj list"

section \<open>Defaults of the structures\<close>

definition ReturnMeta_default :: return_meta where
  "ReturnMeta_default = \<lparr>ret_type = FtObject, ret_description = [], ret_fields = []\<rparr>"

definition ConfigApply_default :: config_apply where
  "ConfigApply_default = \<lparr>ap_method = [], ap_envPrefix = [], ap_command = [], ap_fileName = []\<rparr>"

definition ConfigSchema_default :: config_schema where
  "ConfigSchema_default = \<lparr>cs_fields = [], cs_apply = ConfigApply_default\<rparr>"

definition DriverInfo_default :: driver_info where
  "DriverInfo_default = \<lparr>di_id = [], di_name = [], di_version = [], di_description = [],
     di_vendor = [], di_entry = [], di_capabilities = [], di_profiles = []\<rparr>"

section \<open>Writing and reading\<close>

text \<open>The loops over nested fields: \<open>arr.append(f.toJson())\<close> and \<open>append(fromJson(v.toObject()))\<close>.\<close>

definition fields_toJson :: "field_meta list \<Rightarrow> json" where
  "fields_toJson fs = JArr (map (\<lambda>f. JObj (FieldMeta_toJson f)) fs)"

definition fields_fromJson :: "json \<Rightarrow> field_meta list" where
  "fields_fromJson v = map (\<lambda>x. FieldMeta_fromJson (to_object x)) (to_array v)"

definition EventMeta_toJson :: "event_meta \<Rightarrow> json_obj" where
  "EventMeta_toJson e =
     jset_if (ev_fields e \<noteq> []) ''fields'' (fields_toJson (ev_fields e))
     (jset_if (ev_description e \<noteq> []) ''description'' (JStr (ev_description e))
     (jset ''name'' (JStr (ev_name e)) []))"

definition EventMeta_fromJson :: "json_obj \<Rightarrow> event_meta" where
  "EventMeta_fromJson obj =
     \<lparr>ev_name = to_string (jval obj ''name''),
      ev_description = to_string (jval obj ''description''),
      ev_fields = fields_fromJson (jval obj ''fields'')\<rparr>"

definition ReturnMeta_toJson :: "return_meta \<Rightarrow> json_obj" where
  "ReturnMeta_toJson r =
     jset_if (ret_fields r \<noteq> []) ''fields'' (fields_toJson (ret_fields r))
     (jset_if (ret_description r \<noteq> []) ''description'' (JStr (ret_description r))
     (jset ''type'' (JStr (fieldTypeToString (ret_type r))) []))"

definition ReturnMeta_fromJson :: "json_obj \<Rightarrow> return_meta" where
  "ReturnMeta_fromJson obj =
     \<lparr>ret_type = fieldTypeFromString (to_string (jval obj ''type'')),
      ret_description = to_string (jval obj ''description''),
      ret_fields = fields_fromJson (jval obj ''fields'')\<rparr>"

definition CommandMeta_toJson :: "command_meta \<Rightarrow> json_obj" where
  "CommandMeta_toJson c =
     jset_if (\<not> UIHint_isEmpty (cm_ui c)) ''ui'' (JObj (UIHint_toJson (cm_ui c)))
     (jset_if (cm_examples c \<noteq> []) ''examples'' (JArr (map JObj (cm_examples c)))
     (jset_if (cm_errors c \<noteq> []) ''errors'' (JArr (map JObj (cm_errors c)))
     (jset_if (cm_events c \<noteq> []) ''events'' (JArr (map (\<lambda>e. JObj (EventMeta_toJson e)) (cm_events c)))
     (jset ''returns'' (JObj (ReturnMeta_toJson (cm_returns c)))
     (jset_if (cm_params c \<noteq> []) ''params'' (fields_toJson (cm_params c))
     (jset_if (cm_summary c \<noteq> []) ''summary'' (JStr (cm_summary c))
     (jset_if (cm_title c \<noteq> []) ''title'' (JStr (cm_title c))
     (jset_if (cm_description c \<noteq> []) ''description'' (JStr (cm_description c))
     (jset ''name'' (JStr (cm_name c)) [])))))))))"

definition CommandMeta_fromJson :: "json_obj \<Rightarrow> command_meta" where
  "CommandMeta_fromJson obj =
     \<lparr>cm_name = to_string (jval obj ''name''),
      cm_description = to_string (jval obj ''description''),
      cm_title = to_string (jval obj ''title''),
      cm_summary = to_string (jval obj ''summary''),
      cm_params = fields_fromJson (jval obj ''params''),
      cm_returns = (if om_has obj ''returns''
                    then ReturnMeta_fromJson (to_object (jval obj ''returns'')) else ReturnMeta_default),
      cm_events = map (\<lambda>v. EventMeta_fromJson (to_object v)) (to_array (jval obj ''events'')),
      cm_errors = map to_object (to_array (jval obj ''errors'')),
      cm_examples = map to_object (to_array (jval obj ''examples'')),
      cm_ui = (if om_has obj ''ui'' then UIHint_fromJson (to_object (jval obj ''ui''))
               else UIHint_default)\<rparr>"

definition ConfigApply_toJson :: "config_apply \<Rightarrow> json_obj" where
  "ConfigApply_toJson a =
     jset_if (ap_fileName a \<noteq> []) ''fileName'' (JStr (ap_fileName a))
     (jset_if (ap_command a \<noteq> []) ''command'' (JStr (ap_command a))
     (jset_if (ap_envPrefix a \<noteq> []) ''envPrefix'' (JStr (ap_envPrefix a))
     (jset_if (ap_method a \<noteq> []) ''method'' (JStr (ap_method a)) [])))"

definition ConfigApply_fromJson :: "json_obj \<Rightarrow> config_apply" where
  "ConfigApply_fromJson obj =
     \<lparr>ap_method = to_string (jval obj ''method''),
      ap_envPrefix = to_string (jval obj ''envPrefix''),
      ap_command = to_string (jval obj ''command''),
      ap_fileName = to_string (jval obj ''fileName'')\<rparr>"

definition ConfigSchema_toJson :: "config_schema \<Rightarrow> json_obj" where
  "ConfigSchema_toJson s =
     jset ''apply'' (JObj (ConfigApply_toJson (cs_apply s)))
     (jset_if (cs_fields s \<noteq> []) ''fields'' (fields_toJson (cs_fields s)) [])"

definition ConfigSchema_fromJson :: "json_obj \<Rightarrow> config_schema" where
  "ConfigSchema_fromJson obj =
     \<lparr>cs_fields = fields_fromJson (jval obj ''fields''),
      cs_apply = (if om_has obj ''apply'' then ConfigApply_fromJson (to_object (jval obj ''apply''))
                  else ConfigApply_default)\<rparr>"

definition DriverInfo_toJson :: "driver_info \<Rightarrow> json_obj" where
  "DriverInfo_toJson i =
     jset_if (di_profiles i \<noteq> []) ''profiles'' (JArr (map JStr (di_profiles i)))
     (jset_if (di_capabilities i \<noteq> []) ''capabilities'' (JArr (map JStr (di_capabilities i)))
     (jset_if (di_entry i \<noteq> []) ''entry'' (JObj (di_entry i))
     (jset_if (di_vendor i \<noteq> []) ''vendor'' (JStr (di_vendor i))
     (jset_if (di_description i \<noteq> []) ''description'' (JStr (di_description i))
     (jset ''version'' (JStr (di_version i))
     (jset ''name'' (JStr (di_name i))
     (jset ''id'' (JStr (di_id i)) [])))))))"

definition DriverInfo_fromJson :: "json_obj \<Rightarrow> driver_info" where
  "DriverInfo_fromJson obj =
     \<lparr>di_id = to_string (jval obj ''id''),
      di_name = to_string (jval obj ''name''),
      di_version = to_string (jval obj ''version''),
      di_description = to_string (jval obj ''description''),
      di_vendor = to_string (jval obj ''vendor''),
      di_entry = to_object (jval obj ''entry''),
      di_capabilities = map to_string (to_array (jval obj ''capabilities'')),
      di_profiles = map to_string (to_array (jval obj ''profiles''))\<rparr>"

definition types_toJson :: "(string, field_meta) omap \<Rightarrow> json_obj" where
  "types_toJson types = foldl (\<lambda>t (k, f). jset k (JObj (FieldMeta_toJson f)) t) [] types"

definition types_fromJson :: "json_obj \<Rightarrow> (string, field_meta) omap" where
  "types_fromJson t = foldl (\<lambda>types (k, v). om_put k (FieldMeta_fromJson (to_object v)) types) [] t"

definition DriverMeta_toJson :: "driver_meta \<Rightarrow> json_obj" where
  "DriverMeta_toJson m =
     jset_if (dm_examples m \<noteq> []) ''examples'' (JArr (map JObj (dm_examples m)))
     (jset_if (dm_errors m \<noteq> []) ''errors'' (JArr (map JObj (dm_errors m)))
     (jset_if (dm_types m \<noteq> []) ''types'' (JObj (types_toJson (dm_types m)))
     (jset_if (dm_commands m \<noteq> []) ''commands'' (JArr (map (\<lambda>c. JObj (CommandMeta_toJson c)) (dm_commands m)))
     (jset_if (cs_fields (dm_config m) \<noteq> [] \<or> ap_method (cs_apply (dm_config m)) \<noteq> [])
        ''config'' (JObj (ConfigSchema_toJson (dm_config m)))
     (jset ''info'' (JObj (DriverInfo_toJson (dm_info m)))
     (jset ''schemaVersion'' (JStr (dm_schemaVersion m)) []))))))"

definition DriverMeta_fromJson :: "json_obj \<Rightarrow> driver_meta" where
  "DriverMeta_fromJson obj =
     \<lparr>dm_schemaVersion = to_string (jval obj ''schemaVersion''),
      dm_info = (if om_has obj ''info'' then DriverInfo_fromJson (to_object (jval obj ''info''))
                 else if om_has obj ''driver'' then DriverInfo_fromJson (to_object (jval obj ''driver''))
                 else DriverInfo_default),
      dm_config = (if om_has obj ''config'' then ConfigSchema_fromJson (to_object (jval obj ''config''))
                   else ConfigSchema_default),
      dm_commands = map (\<lambda>v. CommandMeta_fromJson (to_object v)) (to_array (jval obj ''commands'')),
      dm_types = (if om_has obj ''types'' then types_fromJson (to_object (jval obj ''types'')) else []),
      dm_errors = map to_object (to_array (jval obj ''errors'')),
      dm_examples = map to_object (to_array (jval obj ''examples''))\<rparr>"

fun findCommand_in :: "command_meta list \<Rightarrow> string \<Rightarrow> command_meta option" where
  "findCommand_in [] name = None"
| "findCommand_in (c # cs) name = (if cm_name c = name then Some c else findCommand_in cs name)"

definition findCommand :: "driver_meta \<Rightarrow> string \<Rightarrow> command_meta option" where
  "findCommand m name = findCommand_in (dm_commands m) name"


section \<open>The round trip\<close>

text \<open>The canonical form of nested fields, and what the C++ types guarantee of the values.\<close>

definition fields_canon :: "field_meta list \<Rightarrow> field_meta list" where
  "fields_canon fs = map field_canon fs"

definition fields_ok :: "field_meta list \<Rightarrow> bool" where
  "fields_ok fs = (\<forall>f \<in> set fs. field_ok f)"

definition event_canon :: "event_meta \<Rightarrow> event_meta" where
  "event_canon e = e\<lparr>ev_fields := fields_canon (ev_fields e)\<rparr>"

definition return_canon :: "return_meta \<Rightarrow> return_meta" where
  "return_canon r = r\<lparr>ret_fields := fields_canon (ret_fields r)\<rparr>"

definition command_canon :: "command_meta \<Rightarrow> command_meta" where
  "command_canon c = c\<lparr>cm_params := fields_canon (cm_params c),
     cm_returns := return_canon (cm_returns c), cm_events := map event_canon (cm_events c)\<rparr>"

definition command_ok :: "command_meta \<Rightarrow> bool" where
  "command_ok c = (fields_ok (cm_params c) \<and> fields_ok (ret_fields (cm_returns c))
     \<and> (\<forall>e \<in> set (cm_events c). fields_ok (ev_fields e)) \<and> UIHint_ok (cm_ui c))"

definition config_canon :: "config_schema \<Rightarrow> config_schema" where
  "config_canon s = s\<lparr>cs_fields := fields_canon (cs_fields s)\<rparr>"

text \<open>
  \<open>DriverMeta::toJson\<close> leaves the configuration out when it has no field and no injection
  method: the prefix, command or file name such a configuration may still carry is lost.
\<close>

definition config_sent :: "config_schema \<Rightarrow> bool" where
  "config_sent s = (cs_fields s \<noteq> [] \<or> ap_method (cs_apply s) \<noteq> [])"

definition config_kept :: "config_schema \<Rightarrow> config_schema" where
  "config_kept s = (if config_sent s then config_canon s else ConfigSchema_default)"

definition driver_canon :: "driver_meta \<Rightarrow> driver_meta" where
  "driver_canon m = m\<lparr>dm_config := config_kept (dm_config m),
     dm_commands := map command_canon (dm_commands m),
     dm_types := map (\<lambda>(k, f). (k, field_canon f)) (dm_types m)\<rparr>"

text \<open>What the C++ types guarantee: the \<open>int\<close> members are in range, the types are a map.\<close>

definition driver_ok :: "driver_meta \<Rightarrow> bool" where
  "driver_ok m =
     (fields_ok (cs_fields (dm_config m)) \<and> (\<forall>c \<in> set (dm_commands m). command_ok c)
      \<and> om_ok (dm_types m) \<and> (\<forall>(k, f) \<in> set (dm_types m). field_ok f))"

lemma fields_roundtrip [simp]:
  "fields_ok fs \<Longrightarrow> fields_fromJson (fields_toJson fs) = fields_canon fs"
  by (simp add: fields_fromJson_def fields_toJson_def fields_ok_def fields_canon_def
      FieldMeta_roundtrip)

lemma fields_fromJson_Undefined [simp]: "fields_fromJson JUndefined = []"
  by (simp add: fields_fromJson_def)

lemma fields_toJson_defined [simp]: "\<not> is_undefined (fields_toJson fs)"
  by (simp add: fields_toJson_def)

lemma fields_canon_Nil [simp]: "fields_canon [] = []"
  by (simp add: fields_canon_def)

lemma EventMeta_roundtrip:
  "fields_ok (ev_fields e) \<Longrightarrow> EventMeta_fromJson (EventMeta_toJson e) = event_canon e"
  by (rule event_meta.equality) (simp_all add: EventMeta_fromJson_def EventMeta_toJson_def event_canon_def)

lemma ReturnMeta_roundtrip:
  "fields_ok (ret_fields r) \<Longrightarrow> ReturnMeta_fromJson (ReturnMeta_toJson r) = return_canon r"
  by (rule return_meta.equality) (simp_all add: ReturnMeta_fromJson_def ReturnMeta_toJson_def return_canon_def)

lemma map_to_object_JObj [simp]: "map (to_object \<circ> JObj) xs = xs"
  by (induction xs) simp_all

lemma map_to_string_JStr [simp]: "map (to_string \<circ> JStr) xs = xs"
  by (induction xs) simp_all

lemma CommandMeta_roundtrip:
  assumes "command_ok c"
  shows "CommandMeta_fromJson (CommandMeta_toJson c) = command_canon c"
proof (rule command_meta.equality)
  have events: "map ((\<lambda>v. EventMeta_fromJson (to_object v)) \<circ> (\<lambda>e. JObj (EventMeta_toJson e))) (cm_events c)
      = map event_canon (cm_events c)"
    using assms by (simp add: command_ok_def EventMeta_roundtrip)
  have ui: "UIHint_fromJson (UIHint_toJson (cm_ui c)) = cm_ui c"
    using assms by (simp add: command_ok_def UIHint_roundtrip)
  show "cm_events (CommandMeta_fromJson (CommandMeta_toJson c)) = cm_events (command_canon c)"
    using events by (simp add: CommandMeta_fromJson_def CommandMeta_toJson_def command_canon_def)
  show "cm_ui (CommandMeta_fromJson (CommandMeta_toJson c)) = cm_ui (command_canon c)"
    using ui by (auto simp: CommandMeta_fromJson_def CommandMeta_toJson_def command_canon_def
        UIHint_empty_default)
qed (use assms in \<open>simp_all add: CommandMeta_fromJson_def CommandMeta_toJson_def command_canon_def
      command_ok_def ReturnMeta_roundtrip\<close>)

lemma ConfigApply_roundtrip: "ConfigApply_fromJson (ConfigApply_toJson a) = a"
  by (rule config_apply.equality) (simp_all add: ConfigApply_fromJson_def ConfigApply_toJson_def)

lemma ConfigSchema_roundtrip:
  "fields_ok (cs_fields s) \<Longrightarrow> ConfigSchema_fromJson (ConfigSchema_toJson s) = config_canon s"
  by (rule config_schema.equality)
    (simp_all add: ConfigSchema_fromJson_def ConfigSchema_toJson_def config_canon_def ConfigApply_roundtrip)

lemma DriverInfo_roundtrip: "DriverInfo_fromJson (DriverInfo_toJson i) = i"
  by (rule driver_info.equality) (simp_all add: DriverInfo_fromJson_def DriverInfo_toJson_def)

lemma om_get_map: "om_get (map (\<lambda>(k, v). (k, f v)) m) k = map_option f (om_get m k)"
  by (induction m) auto

lemma om_ok_map: "om_ok (map (\<lambda>(k, v). (k, f v)) m) = om_ok m"
  by (simp add: om_ok_def case_prod_unfold o_def)

lemma om_get_foldl_put:
  "om_ok m \<Longrightarrow> om_get (foldl (\<lambda>acc (k, v). om_put k (f v) acc) acc m) k
    = (case om_get m k of Some v \<Rightarrow> Some (f v) | None \<Rightarrow> om_get acc k)"
proof (induction m arbitrary: acc)
  case Nil
  then show ?case by simp
next
  case (Cons p m)
  obtain a v where p: "p = (a, v)" by fastforce
  have "om_ok m" "om_get m a = None"
    using Cons.prems by (auto simp: p om_ok_def om_get_None_iff om_keys_def)
  with Cons show ?case by (auto simp: p split: option.splits)
qed

lemma om_ok_foldl_put: "om_ok acc \<Longrightarrow> om_ok (foldl (\<lambda>acc (k, v). om_put k (f v) acc) acc m)"
  by (induction m arbitrary: acc) auto

lemma foldl_put_rebuild:
  assumes "om_ok m"
  shows "foldl (\<lambda>acc (k, v). om_put k (f v) acc) [] m = map (\<lambda>(k, v). (k, f v)) m"
proof (rule om_ext)
  show "om_get (foldl (\<lambda>acc (k, v). om_put k (f v) acc) [] m) = om_get (map (\<lambda>(k, v). (k, f v)) m)"
    by (rule ext) (simp add: om_get_foldl_put [OF assms] om_get_map split: option.split)
qed (auto simp: om_ok_map assms om_ok_foldl_put)

lemma types_roundtrip:
  assumes "om_ok types" and "\<forall>(k, f) \<in> set types. field_ok f"
  shows "types_fromJson (types_toJson types) = map (\<lambda>(k, f). (k, field_canon f)) types"
proof -
  have "types_toJson types = map (\<lambda>(k, f). (k, JObj (FieldMeta_toJson f))) types"
    using foldl_put_rebuild [OF assms(1), of "\<lambda>f. JObj (FieldMeta_toJson f)"]
    by (simp add: types_toJson_def jset_def)
  then have "types_fromJson (types_toJson types)
      = map (\<lambda>(k, v). (k, FieldMeta_fromJson (to_object v))) (types_toJson types)"
    using foldl_put_rebuild [of "types_toJson types" "\<lambda>v. FieldMeta_fromJson (to_object v)"] assms(1)
    by (simp add: types_fromJson_def om_ok_map)
  also have "\<dots> = map (\<lambda>(k, f). (k, field_canon f)) types"
    using assms(2) \<open>types_toJson types = _\<close> by (auto simp: FieldMeta_roundtrip)
  finally show ?thesis .
qed

lemma DriverMeta_roundtrip:
  assumes "driver_ok m"
  shows "DriverMeta_fromJson (DriverMeta_toJson m) = driver_canon m"
proof (rule driver_meta.equality)
  note simps = DriverMeta_fromJson_def DriverMeta_toJson_def driver_canon_def
  have commands: "map ((\<lambda>v. CommandMeta_fromJson (to_object v)) \<circ> (\<lambda>c. JObj (CommandMeta_toJson c)))
      (dm_commands m) = map command_canon (dm_commands m)"
    using assms by (simp add: driver_ok_def CommandMeta_roundtrip)
  show "dm_commands (DriverMeta_fromJson (DriverMeta_toJson m)) = dm_commands (driver_canon m)"
    using commands by (simp add: simps)
  show "dm_config (DriverMeta_fromJson (DriverMeta_toJson m)) = dm_config (driver_canon m)"
    using assms
    by (auto simp: simps driver_ok_def ConfigSchema_roundtrip config_kept_def config_sent_def)
  show "dm_types (DriverMeta_fromJson (DriverMeta_toJson m)) = dm_types (driver_canon m)"
    using assms by (simp add: simps driver_ok_def types_roundtrip)
qed (simp_all add: DriverMeta_fromJson_def DriverMeta_toJson_def driver_canon_def DriverInfo_roundtrip)


definition demo_driver :: driver_meta where
  "demo_driver = \<lparr>dm_schemaVersion = ''1.0'',
     dm_info = DriverInfo_default\<lparr>di_id := ''demo'', di_name := ''Demo''\<rparr>,
     dm_config = ConfigSchema_default,
     dm_commands = [\<lparr>cm_name = ''add'', cm_description = [], cm_title = [], cm_summary = [],
       cm_params = [FieldMeta ''a'' FtInt True JNull [] (Constraints_default\<lparr>c_min := Some 0\<rparr>)
         UIHint_default [] None [] True],
       cm_returns = ReturnMeta_default, cm_events = [], cm_errors = [], cm_examples = [],
       cm_ui = UIHint_default\<rparr>],
     dm_types = [], dm_errors = [], dm_examples = []\<rparr>"

lemma fields_toJson_canon [simp]: "fields_toJson (fields_canon fs) = fields_toJson fs"
  by (simp add: fields_toJson_def fields_canon_def FieldMeta_toJson_canon)

lemma fields_canon_Nil_iff [simp]: "fields_canon fs = [] \<longleftrightarrow> fs = []"
  by (simp add: fields_canon_def)

lemma CommandMeta_toJson_canon: "CommandMeta_toJson (command_canon c) = CommandMeta_toJson c"
proof -
  have "EventMeta_toJson (event_canon e) = EventMeta_toJson e" for e
    by (simp add: EventMeta_toJson_def event_canon_def)
  moreover have "ReturnMeta_toJson (return_canon r) = ReturnMeta_toJson r" for r
    by (simp add: ReturnMeta_toJson_def return_canon_def)
  ultimately show ?thesis
    by (simp add: CommandMeta_toJson_def command_canon_def o_def)
qed

lemma types_toJson_canon: "types_toJson (map (\<lambda>(k, f). (k, field_canon f)) types) = types_toJson types"
proof -
  have "foldl (\<lambda>t (k, f). jset k (JObj (FieldMeta_toJson f)) t) acc (map (\<lambda>(k, f). (k, field_canon f)) types)
      = foldl (\<lambda>t (k, f). jset k (JObj (FieldMeta_toJson f)) t) acc types" for acc
    by (induction types arbitrary: acc) (auto simp: FieldMeta_toJson_canon)
  then show ?thesis by (simp add: types_toJson_def)
qed

lemma DriverMeta_toJson_canon: "DriverMeta_toJson (driver_canon m) = DriverMeta_toJson m"
  by (simp add: DriverMeta_toJson_def driver_canon_def CommandMeta_toJson_canon types_toJson_canon
      config_kept_def config_sent_def config_canon_def ConfigSchema_toJson_def ConfigSchema_default_def
      ConfigApply_default_def jset_if_def o_def)

lemma kept_config:
  "config_sent s \<Longrightarrow> config_kept s = s\<lparr>cs_fields := fields_canon (cs_fields s)\<rparr>"
  by (simp add: config_kept_def config_canon_def)

text \<open>A driver that only asks for an environment prefix loses it on the way to the host.\<close>

lemma prefix_without_method_lost:
  "config_kept \<lparr>cs_fields = [], cs_apply = ConfigApply_default\<lparr>ap_envPrefix := ''LASER_''\<rparr>\<rparr>
     = ConfigSchema_default"
  by (simp add: config_kept_def config_sent_def ConfigApply_default_def)

text \<open>C6: What the host reads back of the metadata a driver exports. Schema version, driver
  information, errors and examples come back unchanged; so do commands, types and configuration
  fields at every depth, except that an absent (null) default of a field is read as undefined.
  The configuration comes back when it has a field or an injection method; otherwise it is read
  back as the empty one, and a prefix, command or file name set in it is lost. Exporting what was
  read gives the same JSON again. The only assumption is that integers are in the range of the
  C++ int and that the named types form a map.\<close>

theorem driver_meta_roundtrip:
  assumes "driver_ok m"
  shows "DriverMeta_fromJson (DriverMeta_toJson m)
      = m\<lparr>dm_config := (if cs_fields (dm_config m) \<noteq> [] \<or> ap_method (cs_apply (dm_config m)) \<noteq> []
                        then (dm_config m)\<lparr>cs_fields := map field_canon (cs_fields (dm_config m))\<rparr>
                        else ConfigSchema_default),
          dm_commands := map command_canon (dm_commands m),
          dm_types := map (\<lambda>(k, f). (k, field_canon f)) (dm_types m)\<rparr>
    \<and> DriverMeta_toJson (DriverMeta_fromJson (DriverMeta_toJson m)) = DriverMeta_toJson m"
  using DriverMeta_roundtrip [OF assms] DriverMeta_toJson_canon [of m]
  by (simp only: driver_canon_def config_kept_def config_sent_def config_canon_def fields_canon_def)

lemma demo_driver_ok: "driver_ok demo_driver"
  by (simp add: driver_ok_def demo_driver_def fields_ok_def command_ok_def ConfigSchema_default_def
        ReturnMeta_default_def Constraints_ok_def Constraints_default_def UIHint_ok_def
        UIHint_default_def opt_int_ok_def)

lemma driver_meta_roundtrip_witness:
  "dm_commands (DriverMeta_fromJson (DriverMeta_toJson demo_driver))
    = map command_canon (dm_commands demo_driver)"
  using driver_meta_roundtrip [OF demo_driver_ok] by (elim conjE) simp

end
