(* ===== verification/MetaValidator.thy ===== *)
theory MetaValidator
  imports MetaDriver
begin

text \<open>
  Validation of parameters and configurations against field metadata, and the filling of
  defaults (\<open>src/src/stdiolink/protocol/meta_validator.*\<close>). The argument \<open>re_match\<close> stands for
  \<open>QRegularExpression(pattern).match(subject).hasMatch()\<close>. Messages with numbers keep their
  template and arguments, because \<open>QString::arg\<close> renders them.
\<close>

datatype msg = Msg string | MsgArgs string "rat list"

record validation_result =
  vr_valid :: bool
  vr_field :: string
  vr_msg :: msg
  vr_code :: int

definition vr_ok :: validation_result where
  "vr_ok = \<lparr>vr_valid = True, vr_field = [], vr_msg = Msg [], vr_code = 0\<rparr>"

definition vr_fail :: "string \<Rightarrow> msg \<Rightarrow> validation_result" where
  "vr_fail field m = \<lparr>vr_valid = False, vr_field = field, vr_msg = m, vr_code = 400\<rparr>"

definition vr_toString :: "(msg \<Rightarrow> string) \<Rightarrow> validation_result \<Rightarrow> string" where
  "vr_toString render r =
     (if vr_valid r then ''OK''
      else if vr_field r = [] then render (vr_msg r)
      else vr_field r @ '': '' @ render (vr_msg r))"

text \<open>A sequence of checks returns the first failure.\<close>

definition vr_then :: "validation_result \<Rightarrow> validation_result \<Rightarrow> validation_result" where
  "vr_then r s = (if vr_valid r then s else r)"

fun first_fail :: "('a \<Rightarrow> validation_result) \<Rightarrow> 'a list \<Rightarrow> validation_result" where
  "first_fail check [] = vr_ok"
| "first_fail check (x # xs) = (let r = check x in if vr_valid r then first_fail check xs else r)"

lemma vr_valid_ok [simp]: "vr_valid vr_ok" by (simp add: vr_ok_def)
lemma vr_valid_fail [simp]: "\<not> vr_valid (vr_fail f m)" by (simp add: vr_fail_def)

lemma vr_valid_then [simp]: "vr_valid (vr_then r s) \<longleftrightarrow> vr_valid r \<and> vr_valid s"
  by (simp add: vr_then_def)

lemma first_fail_valid [simp]: "vr_valid (first_fail check xs) \<longleftrightarrow> (\<forall>x \<in> set xs. vr_valid (check x))"
  by (induction xs) (auto simp: Let_def)

lemma first_fail_first:
  "vr_valid (first_fail check pre) \<Longrightarrow> \<not> vr_valid (check x) \<Longrightarrow> first_fail check (pre @ x # post) = check x"
  by (induction pre) (auto simp: Let_def split: if_splits)

lemma first_fail_cong [fundef_cong]:
  "xs = ys \<Longrightarrow> (\<And>x. x \<in> set ys \<Longrightarrow> f x = g x) \<Longrightarrow> first_fail f xs = first_fail g ys"
  by (induction xs arbitrary: ys) (auto simp: Let_def)

section \<open>Types and constraints of one value\<close>

text \<open>
  An \<open>int\<close> is compared with its truncation. For a double outside the range of \<open>int\<close> the
  conversion yields a value that differs from it on the supported platforms, so the comparison
  fails there as well.
\<close>

fun checkType :: "json \<Rightarrow> field_type \<Rightarrow> validation_result" where
  "checkType v FtString = (if \<not> is_string v then vr_fail [] (Msg ''expected string'') else vr_ok)"
| "checkType v FtInt =
     (if \<not> is_double v then vr_fail [] (Msg ''expected integer'')
      else if rat_int (to_double v) = None then vr_fail [] (Msg ''expected integer, got decimal'')
      else vr_ok)"
| "checkType v FtInt64 =
     (if \<not> is_double v then vr_fail [] (Msg ''expected integer'')
      else if to_double v < - 9007199254740992 \<or> to_double v > 9007199254740992
      then vr_fail [] (Msg ''integer out of safe range'')
      else vr_ok)"
| "checkType v FtDouble = (if \<not> is_double v then vr_fail [] (Msg ''expected number'') else vr_ok)"
| "checkType v FtBool = (if \<not> is_bool v then vr_fail [] (Msg ''expected boolean'') else vr_ok)"
| "checkType v FtObject = (if \<not> is_object v then vr_fail [] (Msg ''expected object'') else vr_ok)"
| "checkType v FtArray = (if \<not> is_array v then vr_fail [] (Msg ''expected array'') else vr_ok)"
| "checkType v FtEnum = (if \<not> is_string v then vr_fail [] (Msg ''expected string for enum'') else vr_ok)"
| "checkType v FtAny = vr_ok"

definition below :: "'a::linorder option \<Rightarrow> 'a \<Rightarrow> bool" where
  "below lo x = (case lo of Some l \<Rightarrow> x < l | None \<Rightarrow> False)"

definition above :: "'a::linorder option \<Rightarrow> 'a \<Rightarrow> bool" where
  "above hi x = (case hi of Some h \<Rightarrow> h < x | None \<Rightarrow> False)"

definition checkConstraints ::
  "(string \<Rightarrow> string \<Rightarrow> bool) \<Rightarrow> json \<Rightarrow> field_meta \<Rightarrow> validation_result" where
  "checkConstraints re_match v f =
     (let c = f_constraints f; name = f_name f; len = int (length (to_string v));
          size = int (length (to_array v))
      in if is_double v \<and> below (c_min c) (to_double v)
         then vr_fail name (MsgArgs ''value %1 < min %2'' [to_double v, the (c_min c)])
         else if is_double v \<and> above (c_max c) (to_double v)
         then vr_fail name (MsgArgs ''value %1 > max %2'' [to_double v, the (c_max c)])
         else if is_string v \<and> below (c_minLength c) len
         then vr_fail name (Msg ''string too short'')
         else if is_string v \<and> above (c_maxLength c) len
         then vr_fail name (Msg ''string too long'')
         else if is_string v \<and> c_pattern c \<noteq> [] \<and> \<not> re_match (c_pattern c) (to_string v)
         then vr_fail name (Msg ''pattern mismatch'')
         else if f_type f = FtEnum \<and> c_enumValues c \<noteq> [] \<and> v \<notin> set (c_enumValues c)
         then vr_fail name (Msg ''invalid enum value'')
         else if is_array v \<and> below (c_minItems c) size
         then vr_fail name (Msg ''array too short'')
         else if is_array v \<and> above (c_maxItems c) size
         then vr_fail name (Msg ''array too long'')
         else vr_ok)"

section \<open>Objects, arrays and nested fields\<close>

text \<open>The bodies of \<open>validateObject\<close> and \<open>validateArray\<close> over the validator of one field.\<close>

definition validateObject_with ::
  "(json \<Rightarrow> field_meta \<Rightarrow> validation_result) \<Rightarrow> json_obj \<Rightarrow> field_meta list \<Rightarrow> string list \<Rightarrow> bool
   \<Rightarrow> validation_result" where
  "validateObject_with validate obj flds requiredKeys allowUnknown =
     vr_then (first_fail (\<lambda>f. if f_required f \<and> \<not> om_has obj (f_name f)
                              then vr_fail (f_name f) (Msg ''required field missing'') else vr_ok) flds)
     (vr_then (first_fail (\<lambda>k. if \<not> om_has obj k
                               then vr_fail k (Msg ''required key missing'') else vr_ok) requiredKeys)
     (vr_then (first_fail (\<lambda>f. if om_has obj (f_name f)
                               then validate (jval obj (f_name f)) f else vr_ok) flds)
     (if allowUnknown then vr_ok
      else first_fail (\<lambda>k. if k \<notin> set (map f_name flds)
                           then vr_fail k (Msg ''unknown field'') else vr_ok) (om_keys obj))))"

definition array_item_name :: "(nat \<Rightarrow> string) \<Rightarrow> string \<Rightarrow> nat \<Rightarrow> string" where
  "array_item_name show_nat name i = name @ ''['' @ show_nat i @ '']''"

definition validateArray_with ::
  "(json \<Rightarrow> field_meta \<Rightarrow> validation_result) \<Rightarrow> (nat \<Rightarrow> string) \<Rightarrow> json list \<Rightarrow> field_meta \<Rightarrow> validation_result" where
  "validateArray_with validate show_nat arr f =
     (case f_items f of
        None \<Rightarrow> vr_ok
      | Some it \<Rightarrow>
          first_fail (\<lambda>(i, x). let r = validate x it in
             if vr_valid r then r else r\<lparr>vr_field := array_item_name show_nat (f_name f) i\<rparr>)
            (enumerate 0 arr))"

lemma validateObject_with_cong [fundef_cong]:
  "obj = obj' \<Longrightarrow> flds = flds' \<Longrightarrow> rk = rk' \<Longrightarrow> au = au'
   \<Longrightarrow> (\<And>f. f \<in> set flds' \<Longrightarrow> v (jval obj' (f_name f)) f = w (jval obj' (f_name f)) f)
   \<Longrightarrow> validateObject_with v obj flds rk au = validateObject_with w obj' flds' rk' au'"
  unfolding validateObject_with_def by (auto intro!: arg_cong2 [where f = vr_then] first_fail_cong)

lemma validateArray_with_cong [fundef_cong]:
  "sn = sn' \<Longrightarrow> arr = arr' \<Longrightarrow> f = f'
   \<Longrightarrow> (\<And>x it. f_items f' = Some it \<Longrightarrow> x \<in> set arr' \<Longrightarrow> v x it = w x it)
   \<Longrightarrow> validateArray_with v sn arr f = validateArray_with w sn' arr' f'"
  unfolding validateArray_with_def
  by (auto simp: Let_def in_set_enumerate_eq split: option.split intro!: first_fail_cong)

text \<open>
  \<open>show_nat\<close> is the decimal rendering of \<open>QString::arg(int)\<close>.
\<close>

function validateField ::
  "(string \<Rightarrow> string \<Rightarrow> bool) \<Rightarrow> (nat \<Rightarrow> string) \<Rightarrow> json \<Rightarrow> field_meta \<Rightarrow> validation_result" where
  "validateField re_match show_nat v f =
     (let typeResult = checkType v (f_type f) in
      if \<not> vr_valid typeResult then typeResult\<lparr>vr_field := f_name f\<rparr>
      else
        (let constraintResult = checkConstraints re_match v f in
         if \<not> vr_valid constraintResult then constraintResult
         else
           (let objResult =
              (if f_type f = FtObject \<and> f_fields f \<noteq> []
               then validateObject_with (\<lambda>x g. validateField re_match show_nat x g)
                      (to_object v) (f_fields f) (f_requiredKeys f) True
               else vr_ok)
            in if \<not> vr_valid objResult
               then objResult\<lparr>vr_field := f_name f @ ''.'' @ vr_field objResult\<rparr>
               else if f_type f = FtArray \<and> f_items f \<noteq> None
               then validateArray_with (\<lambda>x g. validateField re_match show_nat x g) show_nat (to_array v) f
               else vr_ok)))"
  by pat_completeness auto

lemma size_nested_field: "g \<in> set (f_fields f) \<Longrightarrow> size g < size f"
  by (cases f) (auto dest: size_list_estimation' [where f = size, OF _ order_refl])

lemma size_items_field: "f_items f = Some g \<Longrightarrow> size g < size f"
  by (cases f) auto

termination validateField
  by (relation "measure (\<lambda>(_, _, _, f). size f)") (auto simp: size_nested_field size_items_field)

declare validateField.simps [simp del]

definition validateObject where
  "validateObject re_match show_nat = validateObject_with (validateField re_match show_nat)"

definition validateArray where
  "validateArray re_match show_nat = validateArray_with (validateField re_match show_nat) show_nat"

definition validateParams ::
  "(string \<Rightarrow> string \<Rightarrow> bool) \<Rightarrow> (nat \<Rightarrow> string) \<Rightarrow> json \<Rightarrow> command_meta \<Rightarrow> bool \<Rightarrow> validation_result" where
  "validateParams re_match show_nat data cmd allowUnknown =
     (if \<not> is_object data \<and> \<not> is_null data \<and> \<not> is_undefined data
      then vr_fail [] (Msg ''params must be an object'')
      else validateObject re_match show_nat (to_object data) (cm_params cmd) [] allowUnknown)"

definition validateConfig ::
  "(string \<Rightarrow> string \<Rightarrow> bool) \<Rightarrow> (nat \<Rightarrow> string) \<Rightarrow> json_obj \<Rightarrow> config_schema \<Rightarrow> validation_result" where
  "validateConfig re_match show_nat config schema =
     validateObject re_match show_nat config (cs_fields schema) [] True"

section \<open>Default values\<close>

function fillDefaults :: "json_obj \<Rightarrow> field_meta list \<Rightarrow> json_obj" where
  "fillDefaults result [] = result"
| "fillDefaults result (f # flds) =
     (let r1 = (if \<not> om_has result (f_name f) \<and> \<not> is_null (f_default f) \<and> \<not> is_undefined (f_default f)
                then jset (f_name f) (f_default f) result else result);
          r2 = (if f_type f = FtObject \<and> f_fields f \<noteq> []
                then jset (f_name f)
                       (JObj (fillDefaults (if om_has r1 (f_name f) then to_object (jval r1 (f_name f)) else [])
                                (f_fields f))) r1
                else r1)
      in fillDefaults r2 flds)"
  by pat_completeness auto

lemma size_fields_less: "size_list size (f_fields f) < size f"
  by (cases f) simp

termination fillDefaults
  by (relation "measure (\<lambda>(_, flds). size_list size flds)")
    (auto simp: size_fields_less less_Suc_eq_le trans_less_add1 less_imp_le_nat)

definition fillDefaults_cmd :: "json_obj \<Rightarrow> command_meta \<Rightarrow> json_obj" where
  "fillDefaults_cmd data cmd = fillDefaults data (cm_params cmd)"

end
