(* ===== verification/MetaValidatorSpec.thy ===== *)
theory MetaValidatorSpec
  imports MetaValidator
begin

text \<open>
  What the validator promises, stated without its control flow: a value conforms to a field
  when its kind fits the type, its bounds hold, and the members and elements conform in turn.
  The validator accepts exactly the conforming values. The second half characterises the
  filling of defaults member by member.
\<close>

section \<open>Conformance\<close>

fun type_fits :: "json \<Rightarrow> field_type \<Rightarrow> bool" where
  "type_fits v FtString = (\<exists>s. v = JStr s)"
| "type_fits v FtInt = (\<exists>i. v = jint i \<and> in_int i)"
| "type_fits v FtInt64 = (\<exists>r. v = JNum r \<and> \<bar>r\<bar> \<le> 2 ^ 53)"
| "type_fits v FtDouble = (\<exists>r. v = JNum r)"
| "type_fits v FtBool = (\<exists>b. v = JBool b)"
| "type_fits v FtObject = (\<exists>m. v = JObj m)"
| "type_fits v FtArray = (\<exists>vs. v = JArr vs)"
| "type_fits v FtEnum = (\<exists>s. v = JStr s)"
| "type_fits v FtAny = True"

definition in_bounds :: "'a::linorder option \<Rightarrow> 'a option \<Rightarrow> 'a \<Rightarrow> bool" where
  "in_bounds lo hi x = ((\<forall>l. lo = Some l \<longrightarrow> l \<le> x) \<and> (\<forall>h. hi = Some h \<longrightarrow> x \<le> h))"

fun bounds_hold :: "(string \<Rightarrow> string \<Rightarrow> bool) \<Rightarrow> json \<Rightarrow> constraints \<Rightarrow> bool" where
  "bounds_hold re_match (JNum r) c = in_bounds (c_min c) (c_max c) r"
| "bounds_hold re_match (JStr s) c =
     (in_bounds (c_minLength c) (c_maxLength c) (int (length s))
      \<and> (c_pattern c = [] \<or> re_match (c_pattern c) s))"
| "bounds_hold re_match (JArr vs) c = in_bounds (c_minItems c) (c_maxItems c) (int (length vs))"
| "bounds_hold re_match _ c = True"

definition enum_holds :: "json \<Rightarrow> field_meta \<Rightarrow> bool" where
  "enum_holds v f =
     (f_type f = FtEnum \<and> c_enumValues (f_constraints f) \<noteq> [] \<longrightarrow> v \<in> set (c_enumValues (f_constraints f)))"

inductive conforms :: "(string \<Rightarrow> string \<Rightarrow> bool) \<Rightarrow> json \<Rightarrow> field_meta \<Rightarrow> bool" for re_match where
  conformsI: "conforms re_match v f"
    if "type_fits v (f_type f)" and "bounds_hold re_match v (f_constraints f)" and "enum_holds v f"
      and "f_type f = FtObject \<longrightarrow> f_fields f \<noteq> [] \<longrightarrow>
        (\<forall>g \<in> set (f_fields f). f_required g \<longrightarrow> om_has (to_object v) (f_name g))
        \<and> (\<forall>k \<in> set (f_requiredKeys f). om_has (to_object v) k)
        \<and> (\<forall>g \<in> set (f_fields f). om_has (to_object v) (f_name g) \<longrightarrow>
             conforms re_match (jval (to_object v) (f_name g)) g)"
      and "\<forall>it. f_type f = FtArray \<longrightarrow> f_items f = Some it \<longrightarrow>
        (\<forall>x \<in> set (to_array v). conforms re_match x it)"

inductive_simps conforms_iff: "conforms re_match v f"

lemma rat_int_Some: "rat_int r = Some i \<longleftrightarrow> r = of_int i \<and> in_int i"
  by (auto simp: rat_int_def Let_def split: if_splits)

lemma checkType_valid: "vr_valid (checkType v t) \<longleftrightarrow> type_fits v t"
proof (cases t)
  case FtInt
  then show ?thesis
    by (cases v) (auto simp: rat_int_Some option.case_eq_if not_None_eq)
next
  case FtInt64
  then show ?thesis
    by (cases v) (auto simp: abs_le_iff not_less)
qed (cases v; simp)+

lemma checkConstraints_valid:
  "vr_valid (checkConstraints re_match v f) \<longleftrightarrow> bounds_hold re_match v (f_constraints f) \<and> enum_holds v f"
  by (cases v)
    (auto simp: checkConstraints_def Let_def below_def above_def in_bounds_def enum_holds_def not_less
      split: option.splits)

lemma vr_upd_valid [simp]: "vr_valid (r\<lparr>vr_field := n\<rparr>) = vr_valid r"
  by simp

lemma validateObject_with_valid:
  "vr_valid (validateObject_with validate obj flds rk True) \<longleftrightarrow>
     (\<forall>g \<in> set flds. f_required g \<longrightarrow> om_has obj (f_name g))
     \<and> (\<forall>k \<in> set rk. om_has obj k)
     \<and> (\<forall>g \<in> set flds. om_has obj (f_name g) \<longrightarrow> vr_valid (validate (jval obj (f_name g)) g))"
  by (auto simp: validateObject_with_def)

lemma ball_enumerate: "(\<forall>p \<in> set (enumerate n xs). P (snd p)) \<longleftrightarrow> (\<forall>x \<in> set xs. P x)"
proof -
  have "set xs = snd ` set (enumerate n xs)"
    by (metis map_snd_enumerate set_map)
  then show ?thesis by simp
qed

lemma validateArray_with_valid:
  "vr_valid (validateArray_with validate show_nat arr f) \<longleftrightarrow>
     (\<forall>it. f_items f = Some it \<longrightarrow> (\<forall>x \<in> set arr. vr_valid (validate x it)))"
proof (cases "f_items f")
  case None
  then show ?thesis by (simp add: validateArray_with_def)
next
  case (Some it)
  then show ?thesis
    using ball_enumerate [of 0 arr "\<lambda>x. vr_valid (validate x it)"]
    by (simp add: validateArray_with_def Let_def if_distrib [of vr_valid] split_beta)
qed

text \<open>One step of the validator, as the conjunction of its checks.\<close>

lemma validateField_valid:
  "vr_valid (validateField re_match show_nat v f) \<longleftrightarrow>
     type_fits v (f_type f) \<and> bounds_hold re_match v (f_constraints f) \<and> enum_holds v f
     \<and> (f_type f = FtObject \<and> f_fields f \<noteq> [] \<longrightarrow>
          vr_valid (validateObject_with (validateField re_match show_nat) (to_object v) (f_fields f)
            (f_requiredKeys f) True))
     \<and> (f_type f = FtArray \<and> f_items f \<noteq> None \<longrightarrow>
          vr_valid (validateArray_with (validateField re_match show_nat) show_nat (to_array v) f))"
proof -
  define T C where "T = checkType v (f_type f)" and "C = checkConstraints re_match v f"
  define O' where "O' = validateObject_with (validateField re_match show_nat) (to_object v) (f_fields f)
            (f_requiredKeys f) True"
  define A where "A = validateArray_with (validateField re_match show_nat) show_nat (to_array v) f"
  have "vr_valid (validateField re_match show_nat v f) \<longleftrightarrow> vr_valid T \<and> vr_valid C
     \<and> (f_type f = FtObject \<and> f_fields f \<noteq> [] \<longrightarrow> vr_valid O')
     \<and> (f_type f = FtArray \<and> f_items f \<noteq> None \<longrightarrow> vr_valid A)"
    unfolding validateField.simps [of _ _ v f]
    by (fold T_def C_def O'_def A_def) (auto simp: Let_def)
  then show ?thesis
    unfolding T_def C_def O'_def A_def by (simp only: checkType_valid checkConstraints_valid conj_assoc)
qed

lemma validateField_iff_conforms:
  "vr_valid (validateField re_match show_nat v f) \<longleftrightarrow> conforms re_match v f"
proof (induction f arbitrary: v rule: measure_induct_rule [where f = size])
  case (less f)
  have nested: "vr_valid (validateField re_match show_nat x g) \<longleftrightarrow> conforms re_match x g"
    if "g \<in> set (f_fields f)" for x g
    using less [OF size_nested_field [OF that]] .
  have items: "vr_valid (validateField re_match show_nat x g) \<longleftrightarrow> conforms re_match x g"
    if "f_items f = Some g" for x g
    using less [OF size_items_field [OF that]] .
  show ?case
    apply (subst conforms_iff)
    apply (subst validateField_valid)
    apply (simp only: validateObject_with_valid validateArray_with_valid)
    by (auto simp: nested items)
qed

definition params_conform ::
  "(string \<Rightarrow> string \<Rightarrow> bool) \<Rightarrow> json_obj \<Rightarrow> field_meta list \<Rightarrow> bool \<Rightarrow> bool" where
  "params_conform re_match obj flds allowUnknown =
     ((\<forall>g \<in> set flds. if om_has obj (f_name g) then conforms re_match (jval obj (f_name g)) g
                        else \<not> f_required g)
      \<and> (allowUnknown \<or> (\<forall>k. om_has obj k \<longrightarrow> k \<in> f_name ` set flds)))"

lemma validateObject_conform:
  "vr_valid (validateObject re_match show_nat obj flds [] au) \<longleftrightarrow> params_conform re_match obj flds au"
  unfolding params_conform_def
  by (auto simp: validateObject_def validateObject_with_def validateField_iff_conforms om_has_keys
      split: if_splits)

text \<open>C4: The validator accepts the parameters of a command exactly when they are an object (or
  null, or absent), every member present conforms to its field, down through nested members and
  array elements, every field absent is optional, and, when unknown members are not allowed,
  every member is named by a field.\<close>

theorem validateParams_iff_conform:
  "vr_valid (validateParams re_match show_nat data cmd au) \<longleftrightarrow>
     (is_object data \<or> is_null data \<or> is_undefined data)
     \<and> params_conform re_match (to_object data) (cm_params cmd) au"
  by (simp add: validateParams_def validateObject_conform)

section \<open>Defaults\<close>

text \<open>What one field makes of the member under its name.\<close>

definition filled :: "field_meta \<Rightarrow> json option \<Rightarrow> json option" where
  "filled f old =
     (let base = (if old = None \<and> \<not> is_null (f_default f) \<and> \<not> is_undefined (f_default f)
                  then Some (f_default f) else old)
      in if f_type f = FtObject \<and> f_fields f \<noteq> []
         then Some (JObj (fillDefaults (case base of None \<Rightarrow> [] | Some v \<Rightarrow> to_object v) (f_fields f)))
         else base)"

definition fill_step :: "field_meta \<Rightarrow> json_obj \<Rightarrow> json_obj" where
  "fill_step f r = fillDefaults r [f]"

lemma om_get_jset_fun: "\<not> is_undefined v \<Longrightarrow> om_get (jset k v m) = (om_get m)(k := Some v)"
  by (simp add: jset_def)

lemma fillDefaults_fold: "fillDefaults r flds = fold fill_step flds r"
  by (induction flds arbitrary: r) (simp_all add: fill_step_def Let_def)

lemma om_get_fill_step:
  "om_get (fill_step f r) = (om_get r)(f_name f := filled f (om_get r (f_name f)))"
  by (cases "om_get r (f_name f)")
    (auto simp: fill_step_def filled_def Let_def om_get_jset_fun om_has_def jval_def fun_eq_iff)

lemma om_ok_fill_step: "om_ok r \<Longrightarrow> om_ok (fill_step f r)"
  by (auto simp: fill_step_def Let_def)

lemma om_ok_fillDefaults: "om_ok r \<Longrightarrow> om_ok (fillDefaults r flds)"
  unfolding fillDefaults_fold by (induction flds arbitrary: r) (auto simp: om_ok_fill_step)

lemma fillDefaults_other:
  "k \<notin> f_name ` set flds \<Longrightarrow> om_get (fillDefaults r flds) k = om_get r k"
  unfolding fillDefaults_fold by (induction flds arbitrary: r) (auto simp: om_get_fill_step)

lemma fillDefaults_field:
  "distinct (map f_name flds) \<Longrightarrow> f \<in> set flds
   \<Longrightarrow> om_get (fillDefaults r flds) (f_name f) = filled f (om_get r (f_name f))"
proof (induction flds arbitrary: r)
  case (Cons g flds)
  have "om_get (fillDefaults r (g # flds)) = om_get (fillDefaults (fill_step g r) flds)"
    by (simp add: fillDefaults_fold)
  then have step: "om_get (fillDefaults r (g # flds)) (f_name f) = om_get (fillDefaults (fill_step g r) flds) (f_name f)"
    by simp
  show ?case
  proof (cases "f = g")
    case True
    with Cons.prems show ?thesis
      unfolding step by (simp add: om_get_fill_step fillDefaults_other)
  next
    case False
    with Cons.prems have "f \<in> set flds" "distinct (map f_name flds)" "f_name f \<noteq> f_name g"
      by (auto simp: image_iff)
    with Cons.IH show ?thesis
      unfolding step by (simp add: om_get_fill_step)
  qed
qed simp

text \<open>Filling the defaults decides every member separately. A member no field names keeps its
  value; a member named by a scalar field keeps the value the caller gave, or takes the field's
  default when the caller gave none and the field has one; a member of a nested object field
  becomes the object with the nested defaults filled in, starting from an empty object when the
  value is absent or not an object.\<close>

theorem fillDefaults_members:
  assumes "distinct (map f_name flds)"
  shows "om_get (fillDefaults r flds) k =
     (case find (\<lambda>f. f_name f = k) flds of None \<Rightarrow> om_get r k | Some f \<Rightarrow> filled f (om_get r k))"
proof (cases "find (\<lambda>f. f_name f = k) flds")
  case None
  then have "k \<notin> f_name ` set flds" by (auto simp: find_None_iff)
  with None show ?thesis by (simp add: fillDefaults_other)
next
  case (Some f)
  then have "f \<in> set flds" "f_name f = k" by (auto simp: find_Some_iff)
  with Some fillDefaults_field [OF assms] show ?thesis by auto
qed

definition timeout_field :: field_meta where
  "timeout_field = FieldMeta ''timeout'' FtInt False (jint 3000) [] Constraints_default UIHint_default [] None [] True"

definition tls_field :: field_meta where
  "tls_field = FieldMeta ''tls'' FtObject False JNull [] Constraints_default UIHint_default
     [FieldMeta ''cert'' FtString True JNull [] Constraints_default UIHint_default [] None [] True] None [] True"

lemma fillDefaults_members_witness:
  "om_get (fillDefaults [(''host'', JStr ''h'')] [timeout_field, tls_field]) ''timeout'' = Some (jint 3000)"
  by (subst fillDefaults_members) (simp_all add: timeout_field_def tls_field_def filled_def)

text \<open>An optional object member that the caller leaves out is accepted by the validator as it
  stands, but once the defaults are filled in, as the driver does before it validates, the
  parameters are rejected when the nested object has a required member without a default: the
  filling puts an empty object where nothing was given.\<close>

theorem optional_object_becomes_required:
  assumes "f_type f = FtObject" and "\<not> f_required f" and "f_default f = JNull"
    and "g \<in> set (f_fields f)" and "f_required g" and "f_default g = JNull" and "f_type g \<noteq> FtObject"
    and "distinct (map f_name (f_fields f))"
  shows "vr_valid (validateObject re_match show_nat [] [f] [] True)
    \<and> \<not> vr_valid (validateObject re_match show_nat (fillDefaults [] [f]) [f] [] True)"
proof -
  let ?inner = "fillDefaults [] (f_fields f)"
  have "om_get (fillDefaults [] [f]) (f_name f) = Some (JObj ?inner)"
    using assms fillDefaults_field [of "[f]" f "[]"] by (auto simp: filled_def)
  then have has: "om_has (fillDefaults [] [f]) (f_name f)" "jval (fillDefaults [] [f]) (f_name f) = JObj ?inner"
    by (simp_all add: om_has_def jval_def)
  have "om_get ?inner (f_name g) = None"
    using fillDefaults_field [OF assms(8,4), of "[]"] assms by (simp add: filled_def)
  then have "\<not> om_has ?inner (f_name g)"
    by (simp add: om_has_def)
  then have "\<not> conforms re_match (JObj ?inner) f"
    using assms by (subst conforms_iff) auto
  then show ?thesis
    using has assms(2)
    by (simp add: validateObject_conform params_conform_def del: fillDefaults.simps)
qed

lemma optional_object_becomes_required_witness:
  "\<not> vr_valid (validateObject (\<lambda>_ _. True) (\<lambda>_. []) (fillDefaults [] [tls_field]) [tls_field] [] True)"
  using optional_object_becomes_required
    [of tls_field "FieldMeta ''cert'' FtString True JNull [] Constraints_default UIHint_default [] None [] True"]
  by (simp add: tls_field_def del: fillDefaults.simps)

end
