(* ===== verification/DriverCore.thy ===== *)
theory DriverCore
  imports JsonlProtocol MetaValidatorSpec
begin

text \<open>
  The driver's side of the protocol (\<open>src/src/stdiolink/driver/driver_core.*\<close>,
  \<open>stdio_responder.cpp\<close>): dispatch of one request line, the built-in meta commands, the automatic
  validation of parameters, and the line loop in its two profiles. The command handler of the
  driver is an argument: from its own state, a command and its data it produces the messages it
  sends and its next state. Whether a parser, a serializer or a number renderer of the Qt library
  is needed, it is an argument as well.
\<close>

section \<open>State\<close>

datatype profile = OneShot | KeepAlive

datatype run_mode = RunAuto | RunStdio | RunConsole

type_synonym 's handler = "'s \<Rightarrow> string \<Rightarrow> json \<Rightarrow> message list \<times> 's"

record 's core_state =
  co_profile :: profile
  co_handler :: "'s handler option"
  co_meta :: "(driver_meta \<times> bool) option"
  co_stopRequested :: bool
  co_acceptLines :: bool
  co_quitScheduled :: bool
  co_user :: 's
  co_out :: "message list"

text \<open>The Qt calls a request needs, and the string \<open>toString()\<close> makes of a validation message.\<close>

record qt_env =
  q_from_json :: "bytes \<Rightarrow> json option"
  q_from_utf8 :: "bytes \<Rightarrow> string"
  q_re_match :: "string \<Rightarrow> string \<Rightarrow> bool"
  q_show_nat :: "nat \<Rightarrow> string"
  q_render :: "msg \<Rightarrow> string"

definition setMetaHandler :: "'s handler \<Rightarrow> driver_meta \<Rightarrow> bool \<Rightarrow> 's core_state \<Rightarrow> 's core_state" where
  "setMetaHandler h m autoValidate c = c\<lparr>co_meta := Some (m, autoValidate), co_handler := Some h\<rparr>"

section \<open>Responses\<close>

text \<open>\<open>IResponder\<close>: every call writes one line to the standard output.\<close>

definition event_payload :: "string \<Rightarrow> json \<Rightarrow> json" where
  "event_payload eventName data =
     JObj (jset ''data'' data (jset ''event'' (JStr eventName) []))"

definition resp_event :: "int \<Rightarrow> json \<Rightarrow> message" where
  "resp_event code payload = \<lparr>msg_status = ''event'', msg_code = code, msg_payload = payload\<rparr>"

definition resp_event_named :: "string \<Rightarrow> int \<Rightarrow> json \<Rightarrow> message" where
  "resp_event_named eventName code data = resp_event code (event_payload eventName data)"

definition resp_done :: "int \<Rightarrow> json \<Rightarrow> message" where
  "resp_done code payload = \<lparr>msg_status = ''done'', msg_code = code, msg_payload = payload\<rparr>"

definition resp_error :: "int \<Rightarrow> json \<Rightarrow> message" where
  "resp_error code payload = \<lparr>msg_status = ''error'', msg_code = code, msg_payload = payload\<rparr>"

definition writeResponse :: "(json \<Rightarrow> bytes) \<Rightarrow> message \<Rightarrow> bytes" where
  "writeResponse to_json m = serializeResponse to_json (msg_status m) (msg_code m) (msg_payload m)"

definition emit :: "message list \<Rightarrow> 's core_state \<Rightarrow> 's core_state" where
  "emit ms c = c\<lparr>co_out := co_out c @ ms\<rparr>"

definition message_object :: "string \<Rightarrow> json" where
  "message_object t = JObj (jset ''message'' (JStr t) [])"

definition named_error :: "string \<Rightarrow> string \<Rightarrow> json" where
  "named_error name text = JObj (jset ''message'' (JStr text) (jset ''name'' (JStr name) []))"

section \<open>One request\<close>

definition is_blank :: "bytes \<Rightarrow> bool" where
  "is_blank line = (\<forall>b \<in> set line. b \<in> {9, 10, 11, 12, 13, 32})"

text \<open>The message of a meta command, or \<open>None\<close> when the command is not one.\<close>

definition handleMetaCommand :: "driver_meta option \<Rightarrow> string \<Rightarrow> message option" where
  "handleMetaCommand meta cmd =
     (if take 5 cmd \<noteq> ''meta.'' then None
      else
        (case meta of
           None \<Rightarrow> Some (resp_error 501
             (named_error ''MetaNotSupported'' ''This driver does not support meta commands''))
         | Some m \<Rightarrow>
             if cmd = ''meta.describe'' then Some (resp_done 0 (JObj (DriverMeta_toJson m)))
             else Some (resp_error 404
                    (named_error ''CommandNotFound'' (''Unknown meta command: '' @ cmd)))))"

definition call_handler :: "string \<Rightarrow> json \<Rightarrow> 's core_state \<Rightarrow> 's core_state" where
  "call_handler cmd data c =
     (case co_handler c of
        None \<Rightarrow> c
      | Some h \<Rightarrow> (let (ms, u) = h (co_user c) cmd data in (emit ms c)\<lparr>co_user := u\<rparr>))"

definition processOneLine :: "qt_env \<Rightarrow> bytes \<Rightarrow> 's core_state \<Rightarrow> bool \<times> 's core_state" where
  "processOneLine q line c =
     (if is_blank line then (True, c)
      else
        (case parseRequest (q_from_json q) line of
           None \<Rightarrow>
             (False, emit [resp_error 1000
                (JObj (jset ''raw'' (JStr (q_from_utf8 q line))
                   (jset ''message'' (JStr ''invalid request format'') [])))] c)
         | Some req \<Rightarrow>
             (case handleMetaCommand (map_option fst (co_meta c)) (req_cmd req) of
                Some m \<Rightarrow> (True, emit [m] c)
              | None \<Rightarrow>
                  (case (case co_meta c of
                           Some (dm, True) \<Rightarrow> findCommand dm (req_cmd req)
                         | _ \<Rightarrow> None) of
                     None \<Rightarrow> (True, call_handler (req_cmd req) (req_data req) c)
                   | Some cmdMeta \<Rightarrow>
                       (let filledData = fillDefaults_cmd (to_object (req_data req)) cmdMeta;
                            result = validateParams (q_re_match q) (q_show_nat q) (JObj filledData) cmdMeta True
                        in if \<not> vr_valid result
                           then (False, emit [resp_error 400
                                   (named_error ''ValidationFailed'' (vr_toString (q_render q) result))] c)
                           else (True, call_handler (req_cmd req) (JObj filledData) c))))))"

section \<open>The line loop\<close>

definition scheduleStdioQuit :: "'s core_state \<Rightarrow> 's core_state" where
  "scheduleStdioQuit c = (if co_quitScheduled c then c else c\<lparr>co_quitScheduled := True\<rparr>)"

definition handleStdioLineOnMainThread :: "qt_env \<Rightarrow> bytes \<Rightarrow> 's core_state \<Rightarrow> 's core_state" where
  "handleStdioLineOnMainThread q line c =
     (if \<not> co_acceptLines c then c
      else if is_blank line then c
      else
        (let c1 = snd (processOneLine q line c)
         in if co_profile c1 = OneShot
            then scheduleStdioQuit (c1\<lparr>co_acceptLines := False, co_stopRequested := True\<rparr>)
            else c1))"

text \<open>
  The reader thread posts every line it reads to the main thread, then the end of its input; the
  main thread handles the posted calls in that order.
\<close>

datatype stdio_event = Line bytes | EndOfInput

definition stdio_start :: "'s core_state \<Rightarrow> 's core_state" where
  "stdio_start c = c\<lparr>co_stopRequested := False, co_acceptLines := True, co_quitScheduled := False\<rparr>"

fun stdio_step :: "qt_env \<Rightarrow> 's core_state \<Rightarrow> stdio_event \<Rightarrow> 's core_state" where
  "stdio_step q c (Line l) = handleStdioLineOnMainThread q l c"
| "stdio_step q c EndOfInput = scheduleStdioQuit (c\<lparr>co_stopRequested := True\<rparr>)"

section \<open>Command line\<close>

definition detectMode :: "string \<Rightarrow> string \<Rightarrow> bool \<Rightarrow> bool \<Rightarrow> run_mode" where
  "detectMode mode cmd showHelp showVersion =
     (if mode = ''stdio'' then RunStdio
      else if mode = ''console'' then RunConsole
      else if cmd \<noteq> [] then RunConsole
      else if showHelp \<or> showVersion then RunConsole
      else RunStdio)"

definition override_profile :: "string \<Rightarrow> 's core_state \<Rightarrow> 's core_state" where
  "override_profile p c =
     (if p = [] then c
      else if p = ''keepalive'' then c\<lparr>co_profile := KeepAlive\<rparr>
      else if p = ''oneshot'' then c\<lparr>co_profile := OneShot\<rparr>
      else c)"

text \<open>
  The posted call of the console mode. \<open>parse_args\<close> stands for \<open>CliSchemaParser::parseArgs\<close> on the
  raw arguments and the command's fields; \<open>raw_empty\<close> says that there are none.
\<close>

definition console_step ::
  "qt_env \<Rightarrow> (field_meta list \<Rightarrow> string + json_obj) \<Rightarrow> bool \<Rightarrow> string \<Rightarrow> 's core_state \<Rightarrow> 's core_state" where
  "console_step q parse_args raw_empty cmd c =
     (let cmdMeta = (case co_meta c of Some (dm, _) \<Rightarrow> findCommand dm cmd | None \<Rightarrow> None);
          parsed = (if raw_empty then Inr []
                    else parse_args (case cmdMeta of Some m \<Rightarrow> cm_params m | None \<Rightarrow> []))
      in case parsed of
           Inl err \<Rightarrow> emit [resp_error 400 (named_error ''CliParseFailed'' err)] c
         | Inr consoleData \<Rightarrow>
             (case handleMetaCommand (map_option fst (co_meta c)) cmd of
                Some m \<Rightarrow> emit [m] c
              | None \<Rightarrow>
                  (case (co_meta c, cmdMeta) of
                     (Some (dm, True), Some cmdM) \<Rightarrow>
                       (let filledData = fillDefaults_cmd consoleData cmdM;
                            result = validateParams (q_re_match q) (q_show_nat q) (JObj filledData) cmdM True
                        in if \<not> vr_valid result
                           then emit [resp_error 400
                                  (named_error ''ValidationFailed'' (vr_toString (q_render q) result))] c
                           else call_handler cmd (JObj filledData) c)
                   | _ \<Rightarrow> call_handler cmd (JObj consoleData) c)))"

end
