(* ===== verification/HostTask.thy ===== *)
theory HostTask
  imports JsonlProtocol MetaDriver
begin

text \<open>
  The host's side of one driver process (\<open>src/src/stdiolink/host/driver.*\<close>, \<open>task.*\<close>,
  \<open>task_state.h\<close>, \<open>meta_cache.*\<close>). \<open>TaskState\<close> objects are shared between the driver (\<open>m_cur\<close>) and
  the \<open>Task\<close> handles, so they live in a store and both hold an index into it. The \<open>QProcess\<close> is
  the part of the state the environment changes: bytes it has not handed out yet, whether it
  runs, and the text \<open>exitContext()\<close> makes of it.
\<close>

section \<open>State\<close>

record task_state =
  ts_terminal :: bool
  ts_exitCode :: int
  ts_errorText :: string
  ts_finalPayload :: json
  ts_queue :: "message list"

definition TaskState_init :: task_state where
  "TaskState_init = \<lparr>ts_terminal = False, ts_exitCode = 0, ts_errorText = [], ts_finalPayload = JNull,
     ts_queue = []\<rparr>"

record driver =
  d_tasks :: "task_state list"
  d_buf :: bytes
  d_cur :: "nat option"
  d_meta :: "driver_meta option"
  proc_out :: bytes
  proc_running :: bool
  proc_ctx :: string

type_synonym task = "nat option"

definition kMaxOutputBufferBytes :: nat where "kMaxOutputBufferBytes = 8 * 1024 * 1024"

definition upd_task :: "nat \<Rightarrow> (task_state \<Rightarrow> task_state) \<Rightarrow> driver \<Rightarrow> driver" where
  "upd_task i f d = d\<lparr>d_tasks := (d_tasks d)[i := f (d_tasks d ! i)]\<rparr>"

definition msg_object :: "string \<Rightarrow> json_obj" where
  "msg_object text = jset ''message'' (JStr text) []"

section \<open>Driver\<close>

definition pushError_state :: "int \<Rightarrow> json_obj \<Rightarrow> task_state \<Rightarrow> task_state" where
  "pushError_state code payload s =
     (let s1 = s\<lparr>ts_queue := ts_queue s @ [\<lparr>msg_status = ''error'', msg_code = code, msg_payload = JObj payload\<rparr>],
                 ts_terminal := True, ts_exitCode := code, ts_finalPayload := JObj payload\<rparr>
      in if om_has payload ''message'' then s1\<lparr>ts_errorText := to_string (jval payload ''message'')\<rparr> else s1)"

text \<open>\<open>pushError\<close> is called only where \<open>m_cur\<close> is set.\<close>

definition pushError :: "int \<Rightarrow> json_obj \<Rightarrow> driver \<Rightarrow> driver" where
  "pushError code payload d =
     (case d_cur d of None \<Rightarrow> d | Some i \<Rightarrow> upd_task i (pushError_state code payload) d)"

definition hasQueued_cur :: "driver \<Rightarrow> bool" where
  "hasQueued_cur d = (case d_cur d of None \<Rightarrow> False | Some i \<Rightarrow> ts_queue (d_tasks d ! i) \<noteq> [])"

definition isCurrentTerminal :: "driver \<Rightarrow> bool" where
  "isCurrentTerminal d = (case d_cur d of None \<Rightarrow> False | Some i \<Rightarrow> ts_terminal (d_tasks d ! i))"

text \<open>
  The outcome of the write: it fails, or the process is seen running or not running (with its
  context) after it.
\<close>

datatype write_result = WriteFailed | Written bool string

definition request_bytes :: "(json \<Rightarrow> bytes) \<Rightarrow> string \<Rightarrow> json_obj \<Rightarrow> bytes" where
  "request_bytes to_json cmd data =
     to_json (JObj (jset_if (data \<noteq> []) ''data'' (JObj data) (jset ''cmd'' (JStr cmd) []))) @ [newline]"

definition Driver_request :: "write_result \<Rightarrow> driver \<Rightarrow> task \<times> driver" where
  "Driver_request w d =
     (let i = length (d_tasks d);
          d1 = d\<lparr>d_tasks := d_tasks d @ [TaskState_init], d_cur := Some i\<rparr>;
          d2 = (case w of
                  WriteFailed \<Rightarrow>
                    pushError 1001 (msg_object (''failed to write request: '' @ proc_ctx d1)) d1
                | Written running ctx \<Rightarrow>
                    (let d1' = d1\<lparr>proc_running := running, proc_ctx := ctx\<rparr>
                     in if \<not> running \<and> \<not> ts_terminal (d_tasks d1' ! i)
                        then pushError 1001
                               (msg_object (''driver process exited while sending request: '' @ ctx)) d1'
                        else d1'))
      in (Some i, d2\<lparr>d_buf := []\<rparr>))"

definition Driver_tryReadLine :: "driver \<Rightarrow> (bytes \<times> driver) option" where
  "Driver_tryReadLine d =
     (case index_of newline (d_buf d) of
        None \<Rightarrow> None
      | Some idx \<Rightarrow> Some (take idx (d_buf d), d\<lparr>d_buf := drop (idx + 1) (d_buf d)\<rparr>))"

definition Message_init :: message where
  "Message_init = \<lparr>msg_status = [], msg_code = 0, msg_payload = JNull\<rparr>"

definition is_final :: "message \<Rightarrow> bool" where
  "is_final m = (msg_status m = ''done'' \<or> msg_status m = ''error'')"

definition finish_state :: "message \<Rightarrow> task_state \<Rightarrow> task_state" where
  "finish_state m s =
     (let s1 = s\<lparr>ts_terminal := True, ts_exitCode := msg_code m, ts_finalPayload := msg_payload m\<rparr>
      in if msg_status m = ''error'' \<and> is_object (msg_payload m)
            \<and> om_has (to_object (msg_payload m)) ''message''
         then s1\<lparr>ts_errorText := to_string (jval (to_object (msg_payload m)) ''message'')\<rparr> else s1)"

text \<open>What one accepted message does to the current task.\<close>

definition take_message :: "message \<Rightarrow> driver \<Rightarrow> driver" where
  "take_message m d =
     (case d_cur d of
        None \<Rightarrow> d
      | Some i \<Rightarrow>
          (let d1 = upd_task i (\<lambda>s. s\<lparr>ts_queue := ts_queue s @ [m]\<rparr>) d
           in if is_final m then (upd_task i (finish_state m) d1)\<lparr>d_cur := None\<rparr> else d1))"

text \<open>The loop over complete lines; each takes a byte off the buffer, so its length is enough fuel.\<close>

fun pump_lines ::
  "(bytes \<Rightarrow> json option) \<Rightarrow> (bytes \<Rightarrow> string) \<Rightarrow> nat \<Rightarrow> driver \<Rightarrow> driver" where
  "pump_lines from_json from_utf8 0 d = d"
| "pump_lines from_json from_utf8 (Suc n) d =
     (case Driver_tryReadLine d of
        None \<Rightarrow> d
      | Some (line, d1) \<Rightarrow>
          (let (valid, msg) = parseResponse from_json line Message_init
           in if \<not> valid
              then pushError 1000 (jset ''raw'' (JStr (from_utf8 line)) (msg_object ''invalid response'')) d1
              else if is_final msg then take_message msg d1
              else pump_lines from_json from_utf8 n (take_message msg d1)))"

definition overflow_payload :: json_obj where
  "overflow_payload =
     jset ''limit'' (jint (int kMaxOutputBufferBytes)) (jset ''channel'' (JStr ''stdout'')
       (msg_object ''output buffer overflow''))"

definition pumpStdout ::
  "(bytes \<Rightarrow> json option) \<Rightarrow> (bytes \<Rightarrow> string) \<Rightarrow> driver \<Rightarrow> driver" where
  "pumpStdout from_json from_utf8 d =
     (if d_cur d = None then d
      else
        (let d1 = d\<lparr>d_buf := d_buf d @ proc_out d, proc_out := []\<rparr>
         in if length (d_buf d1) > kMaxOutputBufferBytes
            then (pushError 1002 overflow_payload d1)\<lparr>d_buf := []\<rparr>
            else pump_lines from_json from_utf8 (length (d_buf d1)) d1))"

section \<open>Task\<close>

definition Task_isDone :: "driver \<Rightarrow> task \<Rightarrow> bool" where
  "Task_isDone d t =
     (case t of None \<Rightarrow> True | Some i \<Rightarrow> ts_terminal (d_tasks d ! i) \<and> ts_queue (d_tasks d ! i) = [])"

definition Task_exitCode :: "driver \<Rightarrow> task \<Rightarrow> int" where
  "Task_exitCode d t =
     (case t of None \<Rightarrow> -1
      | Some i \<Rightarrow> if ts_terminal (d_tasks d ! i) then ts_exitCode (d_tasks d ! i) else -1)"

definition Task_errorText :: "driver \<Rightarrow> task \<Rightarrow> string" where
  "Task_errorText d t = (case t of None \<Rightarrow> [] | Some i \<Rightarrow> ts_errorText (d_tasks d ! i))"

definition Task_finalPayload :: "driver \<Rightarrow> task \<Rightarrow> json" where
  "Task_finalPayload d t = (case t of None \<Rightarrow> JNull | Some i \<Rightarrow> ts_finalPayload (d_tasks d ! i))"

definition Task_hasQueued :: "driver \<Rightarrow> task \<Rightarrow> bool" where
  "Task_hasQueued d t = (case t of None \<Rightarrow> False | Some i \<Rightarrow> ts_queue (d_tasks d ! i) \<noteq> [])"

definition forceTerminal_state :: "int \<Rightarrow> string \<Rightarrow> task_state \<Rightarrow> task_state" where
  "forceTerminal_state code err s =
     (if ts_terminal s then s
      else s\<lparr>ts_terminal := True, ts_exitCode := code, ts_errorText := err,
             ts_finalPayload := JObj (msg_object err),
             ts_queue := ts_queue s
               @ [\<lparr>msg_status = ''error'', msg_code = code, msg_payload = JObj (msg_object err)\<rparr>]\<rparr>)"

definition forceTerminal :: "int \<Rightarrow> string \<Rightarrow> task \<Rightarrow> driver \<Rightarrow> driver" where
  "forceTerminal code err t d =
     (case t of None \<Rightarrow> d | Some i \<Rightarrow> upd_task i (forceTerminal_state code err) d)"

definition exitedMsg :: "driver \<Rightarrow> string" where
  "exitedMsg d = ''driver process exited without sending a response: '' @ proc_ctx d"

definition tryNext :: "task \<Rightarrow> driver \<Rightarrow> message option \<times> driver" where
  "tryNext t d =
     (case t of
        None \<Rightarrow> (None, d)
      | Some i \<Rightarrow>
          (let d1 = (if ts_queue (d_tasks d ! i) = [] \<and> \<not> ts_terminal (d_tasks d ! i) \<and> \<not> proc_running d
                     then forceTerminal 1001 (exitedMsg d) t d else d)
           in case ts_queue (d_tasks d1 ! i) of
                [] \<Rightarrow> (None, d1)
              | m # q \<Rightarrow> (Some m, upd_task i (\<lambda>s. s\<lparr>ts_queue := q\<rparr>) d1)))"

text \<open>
  The nested event loop of \<open>waitNext\<close>: each wake-up brings bytes and the state of the process, or
  the timer fires. An exhausted list means the call has not returned yet.
\<close>

datatype wake = Woken bytes bool string | TimedOut

definition arrive :: "bytes \<Rightarrow> bool \<Rightarrow> string \<Rightarrow> driver \<Rightarrow> driver" where
  "arrive bs running ctx d = d\<lparr>proc_out := proc_out d @ bs, proc_running := running, proc_ctx := ctx\<rparr>"

definition quitIfReady ::
  "(bytes \<Rightarrow> json option) \<Rightarrow> (bytes \<Rightarrow> string) \<Rightarrow> task \<Rightarrow> driver \<Rightarrow> bool \<times> driver" where
  "quitIfReady from_json from_utf8 t d =
     (let d1 = pumpStdout from_json from_utf8 d;
          d2 = (if \<not> Task_hasQueued d1 t \<and> \<not> Task_isDone d1 t \<and> \<not> proc_running d1
                then forceTerminal 1001 (exitedMsg d1) t d1 else d1)
      in (Task_hasQueued d2 t \<or> Task_isDone d2 t, d2))"

fun wait_loop ::
  "(bytes \<Rightarrow> json option) \<Rightarrow> (bytes \<Rightarrow> string) \<Rightarrow> task \<Rightarrow> wake list \<Rightarrow> driver \<Rightarrow> driver option" where
  "wait_loop from_json from_utf8 t [] d = None"
| "wait_loop from_json from_utf8 t (TimedOut # ws) d = Some d"
| "wait_loop from_json from_utf8 t (Woken bs running ctx # ws) d =
     (let (quit, d1) = quitIfReady from_json from_utf8 t (arrive bs running ctx d)
      in if quit then Some d1 else wait_loop from_json from_utf8 t ws d1)"

definition waitNext ::
  "(bytes \<Rightarrow> json option) \<Rightarrow> (bytes \<Rightarrow> string) \<Rightarrow> task \<Rightarrow> wake list \<Rightarrow> driver
   \<Rightarrow> (message option \<times> driver) option" where
  "waitNext from_json from_utf8 t ws d =
     (case tryNext t d of
        (Some m, d1) \<Rightarrow> Some (Some m, d1)
      | (None, d1) \<Rightarrow>
          if t = None \<or> Task_isDone d1 t then Some (None, d1)
          else
            (case tryNext t (pumpStdout from_json from_utf8 d1) of
               (Some m, d2) \<Rightarrow> Some (Some m, d2)
             | (None, d2) \<Rightarrow>
                 if Task_isDone d2 t then Some (None, d2)
                 else if \<not> proc_running d2
                 then (case tryNext t (pumpStdout from_json from_utf8 d2) of
                         (Some m, d3) \<Rightarrow> Some (Some m, d3)
                       | (None, d3) \<Rightarrow> Some (tryNext t (forceTerminal 1001 (exitedMsg d3) t d3)))
                 else map_option (tryNext t) (wait_loop from_json from_utf8 t ws d2)))"

section \<open>Metadata and its cache\<close>

record meta_cache =
  mc_cache :: "string \<Rightarrow> driver_meta option"
  mc_hash :: "string \<Rightarrow> string option"

definition MetaCache_store :: "string \<Rightarrow> driver_meta \<Rightarrow> meta_cache \<Rightarrow> meta_cache" where
  "MetaCache_store k m c = c\<lparr>mc_cache := (mc_cache c)(k \<mapsto> m)\<rparr>"

definition MetaCache_store_hash :: "string \<Rightarrow> driver_meta \<Rightarrow> string \<Rightarrow> meta_cache \<Rightarrow> meta_cache" where
  "MetaCache_store_hash k m h c = c\<lparr>mc_cache := (mc_cache c)(k \<mapsto> m), mc_hash := (mc_hash c)(k \<mapsto> h)\<rparr>"

definition MetaCache_get :: "meta_cache \<Rightarrow> string \<Rightarrow> driver_meta option" where
  "MetaCache_get c k = mc_cache c k"

definition MetaCache_invalidate :: "string \<Rightarrow> meta_cache \<Rightarrow> meta_cache" where
  "MetaCache_invalidate k c = c\<lparr>mc_cache := (mc_cache c)(k := None), mc_hash := (mc_hash c)(k := None)\<rparr>"

definition MetaCache_clear :: "meta_cache \<Rightarrow> meta_cache" where
  "MetaCache_clear c = c\<lparr>mc_cache := Map.empty, mc_hash := Map.empty\<rparr>"

definition MetaCache_hasChanged :: "meta_cache \<Rightarrow> string \<Rightarrow> string \<Rightarrow> bool" where
  "MetaCache_hasChanged c k h = (case mc_hash c k of None \<Rightarrow> True | Some h' \<Rightarrow> h' \<noteq> h)"

interpretation cache: keyed_store MetaCache_get MetaCache_store MetaCache_invalidate
  by unfold_locales
    (simp_all add: fun_eq_iff MetaCache_get_def MetaCache_store_def MetaCache_invalidate_def)

definition hasMeta :: "driver \<Rightarrow> bool" where "hasMeta d = (d_meta d \<noteq> None)"

definition queryMeta ::
  "(bytes \<Rightarrow> json option) \<Rightarrow> (bytes \<Rightarrow> string) \<Rightarrow> write_result \<Rightarrow> wake list \<Rightarrow> driver \<times> meta_cache
   \<Rightarrow> (driver_meta option \<times> driver \<times> meta_cache) option" where
  "queryMeta from_json from_utf8 w ws st =
     (let (d, c) = st in
      if d_meta d \<noteq> None then Some (d_meta d, d, c)
      else
        (let (t, d1) = Driver_request w d in
         case waitNext from_json from_utf8 t ws d1 of
           None \<Rightarrow> None
         | Some (None, d2) \<Rightarrow> Some (None, d2, c)
         | Some (Some msg, d2) \<Rightarrow>
             if msg_status msg \<noteq> ''done'' then Some (None, d2, c)
             else
               (let m = DriverMeta_fromJson (to_object (msg_payload msg));
                    c1 = (if di_id (dm_info m) \<noteq> [] then MetaCache_store (di_id (dm_info m)) m c else c)
                in Some (Some m, d2\<lparr>d_meta := Some m\<rparr>, c1))))"

definition refreshMeta :: "driver \<times> meta_cache \<Rightarrow> driver \<times> meta_cache" where
  "refreshMeta st =
     (let (d, c) = st;
          c1 = (case d_meta d of
                  Some m \<Rightarrow> if di_id (dm_info m) \<noteq> [] then MetaCache_invalidate (di_id (dm_info m)) c else c
                | None \<Rightarrow> c)
      in (d\<lparr>d_meta := None\<rparr>, c1))"

end
