(* ===== verification/HostTaskSpec.thy ===== *)
theory HostTaskSpec
  imports HostTask
begin

text \<open>
  The promises of the host's request interface: responses reach the task that waits for them,
  in order and exactly once, however the pipe cuts them; a wait on a dead process returns; other
  tasks are not touched. Two scenarios show where the code falls short of them.
\<close>

section \<open>Shared states\<close>

lemma upd_task_simps [simp]:
  "d_buf (upd_task i f d) = d_buf d" "d_cur (upd_task i f d) = d_cur d"
  "proc_out (upd_task i f d) = proc_out d" "proc_running (upd_task i f d) = proc_running d"
  "proc_ctx (upd_task i f d) = proc_ctx d" "d_meta (upd_task i f d) = d_meta d"
  "length (d_tasks (upd_task i f d)) = length (d_tasks d)"
  by (simp_all add: upd_task_def)

lemma upd_task_same [simp]: "i < length (d_tasks d) \<Longrightarrow> d_tasks (upd_task i f d) ! i = f (d_tasks d ! i)"
  by (simp add: upd_task_def)

lemma upd_task_other [simp]: "i \<noteq> j \<Longrightarrow> d_tasks (upd_task i f d) ! j = d_tasks d ! j"
  by (simp add: upd_task_def)

lemma pushError_frame [simp]:
  "d_cur d \<noteq> Some j \<Longrightarrow> d_tasks (pushError c p d) ! j = d_tasks d ! j"
  "d_buf (pushError c p d) = d_buf d" "d_cur (pushError c p d) = d_cur d"
  "proc_running (pushError c p d) = proc_running d" "proc_out (pushError c p d) = proc_out d"
  "length (d_tasks (pushError c p d)) = length (d_tasks d)"
  by (auto simp: pushError_def split: option.split)

lemma take_message_frame [simp]:
  "d_cur d \<noteq> Some j \<Longrightarrow> d_tasks (take_message m d) ! j = d_tasks d ! j"
  "d_buf (take_message m d) = d_buf d"
  "proc_running (take_message m d) = proc_running d" "proc_out (take_message m d) = proc_out d"
  "length (d_tasks (take_message m d)) = length (d_tasks d)"
  by (auto simp: take_message_def Let_def split: option.split)

lemma take_message_cur: "d_cur (take_message m d) = (if is_final m then None else d_cur d)"
  by (auto simp: take_message_def Let_def split: option.split)

lemma Driver_tryReadLine_frame:
  "Driver_tryReadLine d = Some (line, d1) \<Longrightarrow> \<exists>b. d1 = d\<lparr>d_buf := b\<rparr>"
  by (auto simp: Driver_tryReadLine_def split: option.splits)

lemma pump_lines_frame:
  "d_cur d \<noteq> Some j \<Longrightarrow> d_tasks (pump_lines fj fu n d) ! j = d_tasks d ! j"
proof (induction fj fu n d rule: pump_lines.induct)
  case (2 fj fu n d)
  show ?case
  proof (cases "Driver_tryReadLine d")
    case (Some p)
    obtain line d1 where p: "p = (line, d1)" by fastforce
    with Some Driver_tryReadLine_frame obtain b where b: "d1 = d\<lparr>d_buf := b\<rparr>" by blast
    obtain v m where m: "parseResponse fj line Message_init = (v, m)" by fastforce
    show ?thesis
      using 2 Some p b m by (cases v; cases "is_final m") (auto simp: take_message_cur)
  qed (use 2 in simp)
qed simp

lemma pumpStdout_frame:
  assumes "d_cur d \<noteq> Some j"
  shows "d_tasks (pumpStdout fj fu d) ! j = d_tasks d ! j"
  using assms by (auto simp: pumpStdout_def Let_def pump_lines_frame)

section \<open>Delivery\<close>

text \<open>The messages of one response stream: events, then one final message.\<close>

definition response_stream :: "message list \<Rightarrow> bool" where
  "response_stream ms = (ms \<noteq> [] \<and> (\<forall>m \<in> set (butlast ms). \<not> is_final m) \<and> is_final (last ms))"

text \<open>A line that the reader turns into the message.\<close>

definition encodes :: "(bytes \<Rightarrow> json option) \<Rightarrow> bytes \<Rightarrow> message \<Rightarrow> bool" where
  "encodes from_json line m = (newline \<notin> set line \<and> parseResponse from_json line Message_init = (True, m))"

lemma fold_take_message_buf: "fold take_message xs (e\<lparr>d_buf := b\<rparr>) = (fold take_message xs e)\<lparr>d_buf := b\<rparr>"
proof (induction xs arbitrary: e)
  case (Cons x xs)
  have "take_message x (e\<lparr>d_buf := b\<rparr>) = (take_message x e)\<lparr>d_buf := b\<rparr>"
    by (auto simp: take_message_def upd_task_def Let_def split: option.split)
  with Cons show ?case by simp
qed simp

lemma fold_take_message_cur: "response_stream ms \<Longrightarrow> d_cur (fold take_message ms d) = None"
proof -
  assume rs: "response_stream ms"
  then have "fold take_message ms d = take_message (last ms) (fold take_message (butlast ms) d)"
    by (metis append_butlast_last_id comp_apply fold.simps(1) fold.simps(2) fold_append id_apply response_stream_def)
  with rs show ?thesis by (simp add: take_message_cur response_stream_def)
qed

lemma pump_lines_stream:
  assumes "list_all2 (encodes fj) lines ms" and "response_stream ms"
    and "d_buf d @ tail_bytes = concat (map line_bytes lines)" and "length (d_buf d) \<le> n"
    and "d_cur d = Some i"
  shows "\<exists>k left. k \<le> length ms
      \<and> pump_lines fj fu n d = (fold take_message (take k ms) d)\<lparr>d_buf := left\<rparr>
      \<and> left @ tail_bytes = concat (map line_bytes (drop k lines))
      \<and> (k < length ms \<longrightarrow> newline \<notin> set left)"
  using assms
proof (induction lines arbitrary: ms d n)
  case Nil
  then show ?case by (auto simp: response_stream_def)
next
  case (Cons l lines)
  then obtain m ms' where ms: "ms = m # ms'" and enc: "encodes fj l m" and rest: "list_all2 (encodes fj) lines ms'"
    by (cases ms) auto
  from enc have nl: "newline \<notin> set l" and parse: "parseResponse fj l Message_init = (True, m)"
    by (auto simp: encodes_def)
  have eq: "d_buf d @ tail_bytes = l @ newline # concat (map line_bytes lines)"
    using Cons.prems(3) by (simp add: line_bytes_def [of l])
  show ?case
  proof (cases "newline \<in> set (d_buf d)")
    case False
    then have "Driver_tryReadLine d = None"
      by (simp add: Driver_tryReadLine_def index_of_None [THEN iffD2])
    then have "pump_lines fj fu n d = d" by (cases n) auto
    with Cons.prems(3) False show ?thesis
      by (intro exI [of _ 0] exI [of _ "d_buf d"]) simp
  next
    case True
    then have len: "length l < length (d_buf d)"
      using eq nl by (auto simp: append_eq_append_conv2 Cons_eq_append_conv)
    then have "take (Suc (length l)) (d_buf d) = l @ [newline]"
      using arg_cong [OF eq, of "take (Suc (length l))"] by simp
    then obtain r where buf: "d_buf d = l @ newline # r"
      by (metis append.assoc append_Cons append_Nil append_take_drop_id)
    with eq have r: "r @ tail_bytes = concat (map line_bytes lines)" by simp
    have read: "Driver_tryReadLine d = Some (l, d\<lparr>d_buf := r\<rparr>)"
      using buf nl by (simp add: Driver_tryReadLine_def index_of_append)
    from Cons.prems(4) buf obtain n' where n: "n = Suc n'" "length r \<le> n'" by (cases n) auto
    let ?d = "take_message m (d\<lparr>d_buf := r\<rparr>)"
    have tm: "take_message m (d\<lparr>d_buf := r\<rparr>) = (take_message m d)\<lparr>d_buf := r\<rparr>"
      by (auto simp: take_message_def upd_task_def Let_def split: option.split)
    show ?thesis
    proof (cases "is_final m")
      case True
      then have "pump_lines fj fu n d = (take_message m d)\<lparr>d_buf := r\<rparr>"
        using n read parse tm by simp
      moreover have "ms' = []"
        using Cons.prems(2) True ms by (auto simp: response_stream_def split: if_splits)
      ultimately show ?thesis using r ms by (intro exI [of _ 1] exI [of _ r]) simp
    next
      case nf: False
      have rs: "response_stream ms'"
        using Cons.prems(2) nf ms by (cases ms') (auto simp: response_stream_def)
      have "\<exists>k left. k \<le> length ms'
          \<and> pump_lines fj fu n' ?d = (fold take_message (take k ms') ?d)\<lparr>d_buf := left\<rparr>
          \<and> left @ tail_bytes = concat (map line_bytes (drop k lines))
          \<and> (k < length ms' \<longrightarrow> newline \<notin> set left)"
        using Cons.prems(5) nf n r by (intro Cons.IH [OF rest rs]) (auto simp: take_message_cur tm)
      then obtain k left where k: "k \<le> length ms'"
          "pump_lines fj fu n' ?d = (fold take_message (take k ms') ?d)\<lparr>d_buf := left\<rparr>"
          "left @ tail_bytes = concat (map line_bytes (drop k lines))"
          "k < length ms' \<longrightarrow> newline \<notin> set left" by blast
      have "pump_lines fj fu n d = pump_lines fj fu n' ?d"
        using n read parse nf by simp
      with k ms show ?thesis
        by (intro exI [of _ "Suc k"] exI [of _ left]) (simp add: tm fold_take_message_buf)
    qed
  qed
qed

lemma fold_take_message:
  assumes "response_stream ms" and "d_cur d = Some i" and "i < length (d_tasks d)"
  shows "d_tasks (fold take_message ms d) ! i
      = finish_state (last ms) ((d_tasks d ! i)\<lparr>ts_queue := ts_queue (d_tasks d ! i) @ ms\<rparr>)
    \<and> d_cur (fold take_message ms d) = None"
  using assms
proof (induction ms arbitrary: d)
  case Nil
  then show ?case by (simp add: response_stream_def)
next
  case (Cons m ms)
  show ?case
  proof (cases ms)
    case Nil
    with Cons.prems show ?thesis
      by (simp add: response_stream_def take_message_def Let_def)
  next
    case (Cons m' ms')
    with Cons.prems have "\<not> is_final m" "response_stream ms" by (auto simp: response_stream_def)
    moreover from this Cons.prems have "d_cur (take_message m d) = Some i" "i < length (d_tasks (take_message m d))"
      by (simp_all add: take_message_cur)
    ultimately have "d_tasks (fold take_message ms (take_message m d)) ! i
        = finish_state (last ms) ((d_tasks (take_message m d) ! i)
            \<lparr>ts_queue := ts_queue (d_tasks (take_message m d) ! i) @ ms\<rparr>)
      \<and> d_cur (fold take_message ms (take_message m d)) = None"
      using Cons.IH by blast
    moreover have "d_tasks (take_message m d) ! i = (d_tasks d ! i)\<lparr>ts_queue := ts_queue (d_tasks d ! i) @ [m]\<rparr>"
      using Cons.prems \<open>\<not> is_final m\<close> by (simp add: take_message_def Let_def)
    ultimately show ?thesis using Cons by simp
  qed
qed

lemma fold_take_message_frame:
  "d_cur d = Some i \<Longrightarrow> j \<noteq> i \<Longrightarrow> d_tasks (fold take_message ms d) ! j = d_tasks d ! j"
proof -
  have "d_cur d \<noteq> Some j \<Longrightarrow> d_tasks (fold take_message ms d) ! j = d_tasks d ! j"
  proof (induction ms arbitrary: d)
    case (Cons m ms)
    then show ?case by (simp add: take_message_cur)
  qed simp
  then show "d_cur d = Some i \<Longrightarrow> j \<noteq> i \<Longrightarrow> ?thesis" by simp
qed

text \<open>The pipe delivers one chunk and \<open>readyReadStandardOutput\<close> pumps it.\<close>

definition pump_chunk :: "(bytes \<Rightarrow> json option) \<Rightarrow> (bytes \<Rightarrow> string) \<Rightarrow> driver \<Rightarrow> bytes \<Rightarrow> driver" where
  "pump_chunk fj fu d c = pumpStdout fj fu (d\<lparr>proc_out := proc_out d @ c\<rparr>)"

lemma fold_take_message_upd:
  "(fold take_message ms (d\<lparr>d_buf := b, proc_out := o'\<rparr>)) = (fold take_message ms d)\<lparr>d_buf := b, proc_out := o'\<rparr>"
proof (induction ms arbitrary: d)
  case (Cons m ms)
  have "take_message m (d\<lparr>d_buf := b, proc_out := o'\<rparr>) = (take_message m d)\<lparr>d_buf := b, proc_out := o'\<rparr>"
    by (auto simp: take_message_def upd_task_def Let_def split: option.split)
  with Cons show ?case by simp
qed simp

text \<open>
  The limit of the reader: whenever a chunk arrives, the bytes of the unfinished line that were
  kept and the chunk together are at most \<open>kMaxOutputBufferBytes\<close>.
\<close>

definition unfinished :: "bytes \<Rightarrow> bytes" where
  "unfinished b = rev (takeWhile (\<lambda>x. x \<noteq> newline) (rev b))"

fun within_limit :: "bytes \<Rightarrow> bytes list \<Rightarrow> bool" where
  "within_limit b [] = True"
| "within_limit b (c # chunks) =
     (length (b @ c) \<le> kMaxOutputBufferBytes \<and> within_limit (unfinished (b @ c)) chunks)"

lemma length_unfinished: "length (unfinished b) \<le> length b"
  by (simp add: unfinished_def) (metis length_rev length_takeWhile_le)

lemma short_within_limit:
  "length b + length (concat chunks) \<le> kMaxOutputBufferBytes \<Longrightarrow> within_limit b chunks"
proof (induction chunks arbitrary: b)
  case (Cons c chunks)
  have "length (unfinished (b @ c)) \<le> length b + length c"
    using length_unfinished [of "b @ c"] by simp
  with Cons.prems have "within_limit (unfinished (b @ c)) chunks" by (intro Cons.IH) simp
  with Cons.prems show ?case by simp
qed simp

lemma takeWhile_until:
  "\<forall>x \<in> set xs. P x \<Longrightarrow> takeWhile P xs = xs"
  "\<forall>x \<in> set xs. P x \<Longrightarrow> \<not> P y \<Longrightarrow> takeWhile P (xs @ y # ys) = xs"
  by (induction xs) simp_all

lemma unfinished_after_lines:
  assumes "newline \<notin> set left"
  shows "unfinished (concat (map line_bytes lines) @ left) = left"
proof -
  have all: "\<forall>x \<in> set (rev left). x \<noteq> newline" using assms by auto
  have rev: "unfinished (rev (rev left @ newline # rest)) = left" for rest
    unfolding unfinished_def rev_rev_ident by (subst takeWhile_until(2) [OF all]) simp_all
  have "unfinished (rest @ newline # left) = left" for rest
    using rev [of "rev rest"] by simp
  from this [of "concat (map line_bytes ls) @ l" for ls l]
  have "unfinished (concat (map line_bytes ls) @ l @ newline # left) = left" for ls l by simp
  moreover have "unfinished (rev (rev left)) = left"
    unfolding unfinished_def rev_rev_ident by (subst takeWhile_until(1) [OF all]) simp_all
  ultimately show ?thesis
    by (cases lines rule: rev_cases) (simp_all add: line_bytes_def)
qed

lemma pump_chunk_stream:
  assumes "list_all2 (encodes fj) lines ms" and "response_stream ms"
    and "d_buf d @ c @ later = concat (map line_bytes lines)"
    and "length (d_buf d @ c) \<le> kMaxOutputBufferBytes"
    and "d_cur d = Some i" and "proc_out d = []"
  shows "\<exists>k left. k \<le> length ms
      \<and> pump_chunk fj fu d c = (fold take_message (take k ms) d)\<lparr>d_buf := left, proc_out := []\<rparr>
      \<and> left @ later = concat (map line_bytes (drop k lines))
      \<and> (k < length ms \<longrightarrow> newline \<notin> set left \<and> left = unfinished (d_buf d @ c))"
proof -
  let ?d = "d\<lparr>d_buf := d_buf d @ c, proc_out := []\<rparr>"
  have eq: "d_buf ?d @ later = concat (map line_bytes lines)" using assms(3) by simp
  have "pump_chunk fj fu d c = pump_lines fj fu (length (d_buf ?d)) ?d"
    using assms(4-6) by (simp add: pump_chunk_def pumpStdout_def Let_def)
  moreover obtain k left where k: "k \<le> length ms"
      "pump_lines fj fu (length (d_buf ?d)) ?d = (fold take_message (take k ms) ?d)\<lparr>d_buf := left\<rparr>"
      "left @ later = concat (map line_bytes (drop k lines))" "k < length ms \<longrightarrow> newline \<notin> set left"
    using pump_lines_stream [OF assms(1,2) eq order_refl, of i fu] assms(5) by auto
  moreover have "d_buf d @ c = concat (map line_bytes (take k lines)) @ left"
  proof -
    have "(d_buf d @ c) @ later = concat (map line_bytes (take k lines @ drop k lines))"
      using assms(3) by simp
    also have "\<dots> = (concat (map line_bytes (take k lines)) @ left) @ later"
      using k(3) by (simp only: map_append concat_append append_assoc)
    finally show ?thesis by (simp only: append_same_eq)
  qed
  ultimately show ?thesis
    by (intro exI [of _ k] exI [of _ left]) (simp add: fold_take_message_upd unfinished_after_lines)
qed

lemma pump_chunks_idle:
  "d_cur d = None \<Longrightarrow> \<forall>c \<in> set chunks. c = [] \<Longrightarrow> foldl (pump_chunk fj fu) d chunks = d"
proof (induction chunks arbitrary: d)
  case (Cons c chunks)
  have "pump_chunk fj fu d c = d" using Cons.prems by (simp add: pump_chunk_def pumpStdout_def)
  with Cons show ?case by simp
qed simp

lemma response_stream_drop: "response_stream ms \<Longrightarrow> k < length ms \<Longrightarrow> response_stream (drop k ms)"
  by (auto simp: response_stream_def butlast_drop dest: in_set_dropD)

lemma fold_take_message_events:
  "response_stream ms \<Longrightarrow> k < length ms \<Longrightarrow> d_cur (fold take_message (take k ms) d) = d_cur d"
proof (induction k)
  case (Suc k)
  then have "ms ! k \<in> set (butlast ms)"
    using nth_mem [of k "butlast ms"] by (simp add: nth_butlast)
  with Suc show ?case
    by (simp add: take_Suc_conv_app_nth take_message_cur response_stream_def)
qed simp

lemma pump_chunks_stream:
  assumes "list_all2 (encodes fj) lines ms" and "response_stream ms"
    and "d_buf d @ concat chunks = concat (map line_bytes lines)"
    and "within_limit (d_buf d) chunks"
    and "d_cur d = Some i" and "proc_out d = []" and "newline \<notin> set (d_buf d)"
  shows "foldl (pump_chunk fj fu) d chunks = (fold take_message ms d)\<lparr>d_buf := [], proc_out := []\<rparr>"
  using assms
proof (induction chunks arbitrary: d ms lines)
  case Nil
  then have "lines \<noteq> []" by (auto simp: response_stream_def)
  with Nil have "newline \<in> set (d_buf d)" by (cases lines) (auto simp: line_bytes_def)
  with Nil show ?case by simp
next
  case (Cons c chunks)
  have eq: "d_buf d @ c @ concat chunks = concat (map line_bytes lines)" using Cons.prems(3) by simp
  have lim: "length (d_buf d @ c) \<le> kMaxOutputBufferBytes" using Cons.prems(4) by simp
  from pump_chunk_stream [OF Cons.prems(1,2) eq lim Cons.prems(5,6), of fu]
  obtain k left where k: "k \<le> length ms"
      "pump_chunk fj fu d c = (fold take_message (take k ms) d)\<lparr>d_buf := left, proc_out := []\<rparr>"
      "left @ concat chunks = concat (map line_bytes (drop k lines))"
      "k < length ms \<longrightarrow> newline \<notin> set left \<and> left = unfinished (d_buf d @ c)" by blast
  have lens: "length lines = length ms" using Cons.prems(1) by (rule list_all2_lengthD)
  show ?case
  proof (cases "k < length ms")
    case False
    with k lens have "left = []" "concat chunks = []" "take k ms = ms" by auto
    moreover have "d_cur (fold take_message ms d) = None"
      using Cons.prems(2) by (rule fold_take_message_cur)
    ultimately show ?thesis using k by (simp add: pump_chunks_idle)
  next
    case True
    let ?d = "(fold take_message (take k ms) d)\<lparr>d_buf := left, proc_out := []\<rparr>"
    have "within_limit left chunks" using Cons.prems(4) k(4) True by simp
    moreover have "d_cur ?d = Some i"
      using fold_take_message_events [OF Cons.prems(2) True] Cons.prems(5) by simp
    ultimately have "foldl (pump_chunk fj fu) ?d chunks = (fold take_message (drop k ms) ?d)\<lparr>d_buf := [], proc_out := []\<rparr>"
      using k(3) conjunct1 [OF mp [OF k(4) True]]
      by (intro Cons.IH [OF list_all2_dropI [OF Cons.prems(1)] response_stream_drop [OF Cons.prems(2) True]])
        simp_all
    also have "\<dots> = (fold take_message ms d)\<lparr>d_buf := [], proc_out := []\<rparr>"
      by (simp add: fold_take_message_upd fold_append [symmetric, THEN fun_cong, unfolded o_def] del: fold_append)
    finally show ?thesis using k by simp
  qed
qed

text \<open>C3: A response stream sent by a driver, any number of events and then a done or error
  message, each a line that the host's JSON parser reads as that message, is delivered completely whatever chunks the pipe cuts it into, as long as the reader
  stays within its limit: at every chunk, the kept bytes of the unfinished line and the chunk
  together are at most the 8 MiB of kMaxOutputBufferBytes (beyond them the task is ended with the
  error 1002 instead). Then the waiting task's queue holds exactly the messages sent, in order;
  the task is terminal with the code and payload of the final message; the driver has no current
  task and no leftover bytes; and no other task has changed. The whole stream may be of any
  length.\<close>

theorem response_stream_delivered:
  assumes "list_all2 (encodes from_json) lines ms" and "response_stream ms"
    and "concat chunks = concat (map line_bytes lines)"
    and "within_limit [] chunks"
    and "d_cur d = Some i" and "i < length (d_tasks d)" and "d_buf d = []" and "proc_out d = []"
  shows "let d' = foldl (pump_chunk from_json from_utf8) d chunks in
    ts_queue (d_tasks d' ! i) = ts_queue (d_tasks d ! i) @ ms
    \<and> Task_exitCode d' (Some i) = msg_code (last ms) \<and> ts_terminal (d_tasks d' ! i)
    \<and> Task_finalPayload d' (Some i) = msg_payload (last ms)
    \<and> d_cur d' = None \<and> d_buf d' = [] \<and> (\<forall>j. j \<noteq> i \<longrightarrow> d_tasks d' ! j = d_tasks d ! j)"
proof -
  have "foldl (pump_chunk from_json from_utf8) d chunks = (fold take_message ms d)\<lparr>d_buf := [], proc_out := []\<rparr>"
    using assms by (intro pump_chunks_stream [OF assms(1,2)]) simp_all
  moreover have "finish_state m s = s\<lparr>ts_terminal := True, ts_exitCode := msg_code m,
      ts_finalPayload := msg_payload m, ts_errorText := ts_errorText (finish_state m s)\<rparr>" for m s
    by (simp add: finish_state_def Let_def)
  moreover note fold_take_message [OF assms(2,5,6)] fold_take_message_frame [OF assms(5)]
  ultimately show ?thesis
    unfolding Let_def Task_exitCode_def Task_finalPayload_def option.case
    by (auto simp: Let_def) (simp_all add: finish_state_def Let_def)
qed

definition demo_done :: message where
  "demo_done = \<lparr>msg_status = ''done'', msg_code = 7, msg_payload = JNull\<rparr>"

definition demo_from_json :: "bytes \<Rightarrow> json option" where
  "demo_from_json line = (if line = [1] then Some (JObj (response_object ''done'' 7 JNull)) else None)"

definition demo_driver_state :: driver where
  "demo_driver_state = \<lparr>d_tasks = [TaskState_init], d_buf = [], d_cur = Some 0, d_meta = None,
     proc_out = [], proc_running = True, proc_ctx = []\<rparr>"

lemma demo_encodes: "list_all2 (encodes demo_from_json) [[1]] [demo_done]"
  by (simp add: encodes_def demo_from_json_def parseResponse_def response_object_def demo_done_def
      Message_init_def newline_def valid_status_def Let_def rat_int_def in_int_def int_min_def int_max_def)

lemma response_stream_delivered_witness:
  "Task_exitCode (foldl (pump_chunk demo_from_json (\<lambda>_. [])) demo_driver_state [[1], [], [10]]) (Some 0) = 7"
  using response_stream_delivered [OF demo_encodes, of "[[1], [], [10]]" demo_driver_state 0 "\<lambda>_. []"]
  by (simp add: response_stream_def is_final_def demo_done_def line_bytes_def newline_def
      unfinished_def kMaxOutputBufferBytes_def demo_driver_state_def Let_def)

section \<open>Waiting\<close>

lemma forceTerminal_queue:
  assumes "i < length (d_tasks d)"
  shows "ts_terminal (d_tasks (forceTerminal c e (Some i) d) ! i)"
    "\<not> ts_terminal (d_tasks d ! i) \<Longrightarrow> ts_queue (d_tasks (forceTerminal c e (Some i) d) ! i) \<noteq> []"
  using assms by (simp_all add: forceTerminal_def forceTerminal_state_def)

lemma tryNext_dead:
  assumes "i < length (d_tasks d)" and "\<not> proc_running d" and "tryNext (Some i) d = (None, d')"
  shows "Task_isDone d' (Some i)"
proof -
  let ?s = "d_tasks d ! i"
  show ?thesis
  proof (cases "ts_queue ?s = [] \<and> \<not> ts_terminal ?s")
    case True
    with forceTerminal_queue(2) [OF assms(1)] assms(2,3) show ?thesis
      by (auto simp: tryNext_def Let_def split: list.splits)
  next
    case False
    with assms(3) show ?thesis
      by (auto simp: tryNext_def Task_isDone_def Let_def split: list.splits if_splits)
  qed
qed

text \<open>C39: Waiting for the next message of a task whose process is no longer running always
  returns, without any event from the process and even without a timeout: with a message, or
  with nothing because the task is finished and its queue is empty.\<close>

theorem waitNext_dead_returns:
  assumes "i < length (d_tasks d)" and "\<not> proc_running d"
  shows "\<exists>r d'. waitNext from_json from_utf8 (Some i) [] d = Some (r, d')
    \<and> (r = None \<longrightarrow> Task_isDone d' (Some i))"
proof (cases "tryNext (Some i) d")
  case (Pair r d')
  show ?thesis
  proof (cases r)
    case None
    with Pair have t: "tryNext (Some i) d = (None, d')" by simp
    from tryNext_dead [OF assms t] t show ?thesis by (simp add: waitNext_def)
  qed (simp add: Pair waitNext_def)
qed

lemma waitNext_dead_returns_witness:
  "\<exists>r d'. waitNext (\<lambda>_. None) (\<lambda>_. []) (Some 0) [] (demo_driver_state\<lparr>proc_running := False\<rparr>) = Some (r, d')
    \<and> (r = None \<longrightarrow> Task_isDone d' (Some 0))"
  by (rule waitNext_dead_returns) (simp_all add: demo_driver_state_def)

section \<open>Where the code falls short\<close>

text \<open>When the process has exited before its output was read, the first thing a wait does is to
  declare the task failed: the caller gets the error 1001, although a complete and valid done
  line is waiting in the process's output, and the task's exit code is 1001.\<close>

theorem unread_response_lost:
  assumes "i < length (d_tasks d)" and "\<not> proc_running d"
    and "ts_queue (d_tasks d ! i) = []" and "\<not> ts_terminal (d_tasks d ! i)"
    and "encodes from_json line m" and "is_final m" and "proc_out d = line_bytes line"
  shows "\<exists>d'. waitNext from_json from_utf8 (Some i) ws d
      = Some (Some \<lparr>msg_status = ''error'', msg_code = 1001, msg_payload = JObj (msg_object (exitedMsg d))\<rparr>, d')
    \<and> Task_exitCode d' (Some i) = 1001 \<and> proc_out d' = line_bytes line"
  using assms
  by (simp add: waitNext_def tryNext_def forceTerminal_def forceTerminal_state_def Task_exitCode_def Let_def)

lemma unread_response_lost_witness:
  "\<exists>d'. waitNext demo_from_json (\<lambda>_. []) (Some 0) []
      (demo_driver_state\<lparr>proc_running := False, proc_out := [1, 10]\<rparr>)
    = Some (Some \<lparr>msg_status = ''error'', msg_code = 1001,
        msg_payload = JObj (msg_object ''driver process exited without sending a response: '')\<rparr>, d')
    \<and> Task_exitCode d' (Some 0) = 1001"
  using unread_response_lost
    [of 0 "demo_driver_state\<lparr>proc_running := False, proc_out := [1, 10]\<rparr>" demo_from_json "[1]" demo_done
      "\<lambda>_. []" "[]"] demo_encodes
  by (auto simp: demo_driver_state_def TaskState_init_def demo_done_def is_final_def line_bytes_def
      newline_def exitedMsg_def)

text \<open>A task that an unreadable line has already made terminal with the error 1000 is not
  released by the driver: when a done message follows, the task receives a second terminal
  message and its exit code is overwritten.\<close>

theorem invalid_line_then_done:
  assumes "d_cur d = Some i" and "i < length (d_tasks d)" and "d_buf d = []" and "proc_out d = []"
    and "newline \<notin> set bad" and "fst (parseResponse from_json bad Message_init) = False"
    and "encodes from_json line m" and "is_final m"
    and "length bad < kMaxOutputBufferBytes" and "length line < kMaxOutputBufferBytes"
  shows "let d1 = pump_chunk from_json from_utf8 d (line_bytes bad);
             d2 = pump_chunk from_json from_utf8 d1 (line_bytes line)
         in Task_exitCode d1 (Some i) = 1000 \<and> Task_exitCode d2 (Some i) = msg_code m
            \<and> (\<exists>e. msg_status e = ''error''
                 \<and> ts_queue (d_tasks d2 ! i) = ts_queue (d_tasks d ! i) @ [e, m])"
proof -
  have read: "Driver_tryReadLine e = Some (l, e\<lparr>d_buf := []\<rparr>)"
    if "newline \<notin> set l" and "d_buf e = l @ [newline]" for e l
    using that by (simp add: Driver_tryReadLine_def line_bytes_def index_of_append)
  let ?p = "jset ''raw'' (JStr (from_utf8 bad)) (msg_object ''invalid response'')"
  have one: "pump_chunk from_json from_utf8 d (line_bytes bad) = pushError 1000 ?p d"
    using assms(1,3-6,9) read [of bad]
    by (cases "parseResponse from_json bad Message_init")
      (simp add: pump_chunk_def pumpStdout_def Let_def line_bytes_def pushError_def upd_task_def)
  let ?d1 = "pushError 1000 ?p d"
  have d1: "d_cur ?d1 = Some i" "d_buf ?d1 = []" "proc_out ?d1 = []" using assms by simp_all
  have two: "pump_chunk from_json from_utf8 ?d1 (line_bytes line) = take_message m ?d1"
    using d1 assms(7,8,10) read [of line]
    by (simp add: encodes_def pump_chunk_def pumpStdout_def Let_def line_bytes_def take_message_def upd_task_def)
  show ?thesis
    unfolding Let_def one two
    using assms(1,2,8)
    by (auto simp: pushError_def pushError_state_def take_message_def finish_state_def Task_exitCode_def Let_def
        msg_object_def)
qed

lemma invalid_line_then_done_witness:
  "let d1 = pump_chunk demo_from_json (\<lambda>_. []) demo_driver_state [2, 10];
       d2 = pump_chunk demo_from_json (\<lambda>_. []) d1 [1, 10]
   in Task_exitCode d1 (Some 0) = 1000 \<and> Task_exitCode d2 (Some 0) = 7"
  using invalid_line_then_done [of demo_driver_state 0 "[2]" demo_from_json "[1]" demo_done "\<lambda>_. []"] demo_encodes
  by (simp add: demo_driver_state_def newline_def line_bytes_def Let_def is_final_def demo_done_def
      kMaxOutputBufferBytes_def parseResponse_def demo_from_json_def)

end
