(* ===== verification/DriverCoreSpec.thy ===== *)
theory DriverCoreSpec
  imports DriverCore HostTaskSpec
begin

text \<open>
  What the driver core promises the host: each request line is answered by one response stream,
  handlers only see parameters that conform to the metadata, a one-shot driver serves exactly
  one request, and the description a driver sends is the one its host obtains.
\<close>

section \<open>Answers\<close>

lemma response_stream_single [simp]: "response_stream [m] \<longleftrightarrow> is_final m"
  by (simp add: response_stream_def)

lemma resp_final [simp]: "is_final (resp_done code p)" "is_final (resp_error code p)"
  "\<not> is_final (resp_event code p)"
  by (simp_all add: is_final_def resp_done_def resp_error_def resp_event_def)

lemma emit_simps [simp]:
  "co_out (emit ms c) = co_out c @ ms" "co_user (emit ms c) = co_user c" "co_profile (emit ms c) = co_profile c"
  "co_handler (emit ms c) = co_handler c" "co_meta (emit ms c) = co_meta c"
  "co_acceptLines (emit ms c) = co_acceptLines c" "co_quitScheduled (emit ms c) = co_quitScheduled c"
  "co_stopRequested (emit ms c) = co_stopRequested c"
  by (simp_all add: emit_def)

lemma call_handler_simps [simp]:
  "co_profile (call_handler cmd data c) = co_profile c" "co_handler (call_handler cmd data c) = co_handler c"
  "co_meta (call_handler cmd data c) = co_meta c" "co_acceptLines (call_handler cmd data c) = co_acceptLines c"
  "co_quitScheduled (call_handler cmd data c) = co_quitScheduled c"
  by (simp_all add: call_handler_def split: option.split prod.split)

lemma handleMetaCommand_final: "handleMetaCommand meta cmd = Some m \<Longrightarrow> is_final m"
  by (auto simp: handleMetaCommand_def split: if_splits option.splits)

definition answers :: "'s handler \<Rightarrow> bool" where
  "answers h = (\<forall>u cmd data. response_stream (fst (h u cmd data)))"

lemma call_handler_answer:
  "co_handler c = Some h \<Longrightarrow> answers h \<Longrightarrow>
   \<exists>ms. response_stream ms \<and> co_out (call_handler cmd data c) = co_out c @ ms"
  by (cases "h (co_user c) cmd data") (auto simp: call_handler_def answers_def, metis fst_conv)

lemma processOneLine_answer:
  assumes "co_handler c = Some h" and "answers h" and "\<not> is_blank line"
  shows "\<exists>ms. response_stream ms \<and> co_out (snd (processOneLine q line c)) = co_out c @ ms"
proof (cases "parseRequest (q_from_json q) line")
  case None
  with assms show ?thesis by (simp add: processOneLine_def)
next
  case (Some req)
  show ?thesis
  proof (cases "handleMetaCommand (map_option fst (co_meta c)) (req_cmd req)")
    case None
    have call: "\<exists>ms. response_stream ms \<and> co_out (call_handler cmd data c) = co_out c @ ms" for cmd data
      using call_handler_answer [OF assms(1,2)] .
    show ?thesis
      using Some None assms(3) call
      by (simp add: processOneLine_def Let_def split: option.split)
  next
    case (Some m)
    with \<open>parseRequest (q_from_json q) line = Some req\<close> assms(3) handleMetaCommand_final show ?thesis
      by (auto simp: processOneLine_def)
  qed
qed

lemma processOneLine_frame [simp]:
  "co_profile (snd (processOneLine q line c)) = co_profile c"
  "co_handler (snd (processOneLine q line c)) = co_handler c"
  "co_meta (snd (processOneLine q line c)) = co_meta c"
  "co_acceptLines (snd (processOneLine q line c)) = co_acceptLines c"
  "co_quitScheduled (snd (processOneLine q line c)) = co_quitScheduled c"
  by (simp_all add: processOneLine_def Let_def split: option.split prod.split bool.split)

text \<open>C2: When every call of the installed handler produces events followed by exactly one final
  message, so does every line that is not blank and reaches an accepting driver, malformed lines,
  meta commands and rejected parameters included: the driver's output grows by exactly one
  response stream. A keep-alive driver goes on accepting lines; a one-shot driver has then served
  its one request. A driver that does not accept lines any more ignores the line: neither its
  output nor anything else in its state changes.\<close>

theorem request_line_answered:
  assumes "co_handler c = Some h" and "answers h" and "\<not> is_blank line"
  shows "let c' = handleStdioLineOnMainThread q line c in
    if co_acceptLines c
    then (\<exists>ms. response_stream ms \<and> co_out c' = co_out c @ ms)
      \<and> (co_acceptLines c' \<longleftrightarrow> co_profile c = KeepAlive)
    else c' = c"
proof (cases "co_acceptLines c")
  case True
  have "co_profile c \<noteq> OneShot \<longleftrightarrow> co_profile c = KeepAlive" by (cases "co_profile c") simp_all
  with processOneLine_answer [OF assms, of q] assms(3) True show ?thesis
    by (auto simp: handleStdioLineOnMainThread_def scheduleStdioQuit_def Let_def)
qed (simp add: handleStdioLineOnMainThread_def)

definition echo_handler :: "unit handler" where
  "echo_handler u cmd data = ([resp_event 0 data, resp_done 0 data], u)"

definition echo_core :: "unit core_state" where
  "echo_core = \<lparr>co_profile = OneShot, co_handler = Some echo_handler, co_meta = Some (demo_driver, True),
     co_stopRequested = False, co_acceptLines = True, co_quitScheduled = False, co_user = (), co_out = []\<rparr>"

definition demo_env :: "json option \<Rightarrow> qt_env" where
  "demo_env doc = \<lparr>q_from_json = (\<lambda>_. doc), q_from_utf8 = (\<lambda>_. []), q_re_match = (\<lambda>_ _. True),
     q_show_nat = (\<lambda>_. []), q_render = (\<lambda>_. [])\<rparr>"

lemma request_line_answered_witness:
  "\<exists>ms. response_stream ms
    \<and> co_out (handleStdioLineOnMainThread (demo_env None) [123] echo_core) = co_out echo_core @ ms"
  using request_line_answered [of echo_core echo_handler "[123]" "demo_env None"]
  by (simp add: echo_core_def echo_handler_def answers_def response_stream_def is_blank_def Let_def)

section \<open>Parameters\<close>

lemma if_not_snd: "snd (if \<not> b then (x, y) else (u, v)) = (if b then v else y)"
  by simp

text \<open>C1: With automatic validation, a handler of a described command is called exactly when the
  parameters, after the defaults are filled in, conform to the command's metadata, and then it
  gets the filled parameters; otherwise the driver answers with one error 400 and the handler
  is not called. A request whose data is not an object is treated like the empty object.\<close>

theorem handler_sees_conforming_params:
  assumes "\<not> is_blank line" and "parseRequest (q_from_json q) line = Some req"
    and "take 5 (req_cmd req) \<noteq> ''meta.''"
    and "co_meta c = Some (dm, True)" and "findCommand dm (req_cmd req) = Some cmd"
  shows "let filled = fillDefaults (to_object (req_data req)) (cm_params cmd) in
    snd (processOneLine q line c) =
      (if params_conform (q_re_match q) filled (cm_params cmd) True
       then call_handler (req_cmd req) (JObj filled) c
       else emit [resp_error 400 (named_error ''ValidationFailed''
              (vr_toString (q_render q) (validateParams (q_re_match q) (q_show_nat q) (JObj filled) cmd True)))] c)"
proof -
  let ?filled = "fillDefaults (to_object (req_data req)) (cm_params cmd)"
  have meta: "handleMetaCommand m (req_cmd req) = None" for m
    using assms(3) by (simp only: handleMetaCommand_def not_False_eq_True if_True)
  have valid: "vr_valid (validateParams (q_re_match q) (q_show_nat q) (JObj ?filled) cmd True)
      \<longleftrightarrow> params_conform (q_re_match q) ?filled (cm_params cmd) True"
    by (simp add: validateParams_def validateObject_conform)
  show ?thesis
    unfolding processOneLine_def Let_def assms(2) option.case meta assms(4,5) prod.case bool.case
      fillDefaults_cmd_def valid
    by (cases "params_conform (q_re_match q) ?filled (cm_params cmd) True")
      (simp_all only: assms(1) if_False if_True not_True_eq_False not_False_eq_True snd_conv)
qed

definition add_request :: json where
  "add_request = JObj (jset ''data'' (JObj [(''a'', jint (-1))]) (jset ''cmd'' (JStr ''add'') []))"

lemma handler_sees_conforming_params_witness:
  "\<exists>text. snd (processOneLine (demo_env (Some add_request)) [123] echo_core)
     = emit [resp_error 400 (named_error ''ValidationFailed'' text)] echo_core"
proof -
  have req: "parseRequest (q_from_json (demo_env (Some add_request))) [123]
      = Some \<lparr>req_cmd = ''add'', req_data = JObj [(''a'', jint (-1))]\<rparr>"
    by (simp add: demo_env_def add_request_def parseRequest_def)
  have cmd: "findCommand demo_driver ''add'' = Some (hd (dm_commands demo_driver))"
    by (simp add: findCommand_def demo_driver_def)
  have "\<not> conforms (\<lambda>_ _. True) (jint (-1)) (hd (cm_params (hd (dm_commands demo_driver))))"
    by (subst conforms_iff) (simp add: demo_driver_def Constraints_default_def in_bounds_def)
  then have bad: "\<not> params_conform (\<lambda>_ _. True) [(''a'', jint (-1))] (cm_params (hd (dm_commands demo_driver))) True"
    by (simp add: params_conform_def demo_driver_def om_has_def jval_def)
  have filled: "fillDefaults [(''a'', jint (-1))] (cm_params (hd (dm_commands demo_driver))) = [(''a'', jint (-1))]"
    by (simp add: demo_driver_def om_has_def)
  show ?thesis
    using handler_sees_conforming_params [of "[123]" "demo_env (Some add_request)" _ echo_core demo_driver, OF _ req _ _ _]
      cmd bad filled
    by (simp add: is_blank_def echo_core_def demo_env_def Let_def) blast
qed

section \<open>Profiles\<close>

lemma stdio_run_closed:
  "\<not> co_acceptLines c \<Longrightarrow> co_quitScheduled c \<Longrightarrow> co_stopRequested c \<Longrightarrow> run_events (stdio_step q) c es = c"
proof (induction es arbitrary: c)
  case (Cons e es)
  then have "stdio_step q c e = c"
    by (cases e) (simp_all add: handleStdioLineOnMainThread_def scheduleStdioQuit_def)
  with Cons show ?case by simp
qed simp

lemma stdio_run_blank:
  "\<forall>l \<in> set blanks. is_blank l \<Longrightarrow> run_events (stdio_step q) c (map Line blanks) = c"
  by (induction blanks) (simp_all add: handleStdioLineOnMainThread_def)

text \<open>A one-shot driver handles the first line of its input that is not blank, and nothing
  else: whatever follows on its input, lines or the end of input, its output and its handler's
  state are those after that one request, and it has asked its event loop to quit.\<close>

theorem oneshot_serves_one_request:
  assumes "co_profile c = OneShot" and "\<forall>l \<in> set blanks. is_blank l" and "\<not> is_blank line"
  shows "let served = snd (processOneLine q line (stdio_start c));
             final = run_events (stdio_step q) (stdio_start c) (map Line blanks @ Line line # rest)
         in co_out final = co_out served \<and> co_user final = co_user served
            \<and> co_quitScheduled final \<and> \<not> co_acceptLines final"
proof -
  let ?s = "stdio_start c"
  let ?c1 = "stdio_step q ?s (Line line)"
  have c1: "?c1 = (snd (processOneLine q line ?s))\<lparr>co_acceptLines := False, co_stopRequested := True,
      co_quitScheduled := True\<rparr>"
    using assms(1,3) by (simp add: handleStdioLineOnMainThread_def scheduleStdioQuit_def stdio_start_def Let_def)
  have "run_events (stdio_step q) ?s (map Line blanks @ Line line # rest) = run_events (stdio_step q) ?c1 rest"
    by (simp add: stdio_run_blank [OF assms(2)])
  also have "\<dots> = ?c1"
    by (rule stdio_run_closed) (simp_all only: c1, simp_all)
  finally show ?thesis by (simp only: c1 Let_def) simp
qed

lemma oneshot_serves_one_request_witness:
  "co_quitScheduled (run_events (stdio_step (demo_env None)) (stdio_start echo_core)
     (map Line [[32]] @ Line [123] # [Line [123], EndOfInput]))"
  using oneshot_serves_one_request
    [of echo_core "[[32]]" "[123]" "demo_env None" "[Line [123], EndOfInput]"]
  by (simp only: Let_def) (simp add: echo_core_def is_blank_def)

section \<open>The description of a driver\<close>

lemma wait_for_chunk:
  assumes "d_cur d = Some i" and "i < length (d_tasks d)" and "d_tasks d ! i = TaskState_init"
    and "proc_running d" and "d_buf d = []" and "proc_out d = []"
    and "encodes from_json line m" and "is_final m" and "length line < kMaxOutputBufferBytes"
  shows "\<exists>d'. waitNext from_json from_utf8 (Some i) [Woken (line_bytes line) running ctx] d = Some (Some m, d')
    \<and> d_meta d' = d_meta d"
proof -
  have idle: "tryNext (Some i) d = (None, d)"
    using assms(3,4) by (simp add: tryNext_def TaskState_init_def Let_def)
  have pump: "pumpStdout from_json from_utf8 d = d"
    using assms(1,5,6) by (simp add: pumpStdout_def Let_def)
  have not_done: "\<not> Task_isDone d (Some i)"
    using assms(3) by (simp add: Task_isDone_def TaskState_init_def)
  let ?a = "arrive (line_bytes line) running ctx d"
  have read: "Driver_tryReadLine e = Some (line, e\<lparr>d_buf := []\<rparr>)" if "d_buf e = line_bytes line" for e
    using that assms(7) by (simp add: Driver_tryReadLine_def line_bytes_def index_of_append encodes_def)
  let ?d1 = "take_message m (?a\<lparr>proc_out := [], d_buf := []\<rparr>)"
  have pump1: "pumpStdout from_json from_utf8 ?a = ?d1"
    using assms(1,5-9) read
    by (simp add: pumpStdout_def arrive_def Let_def line_bytes_def encodes_def)
  have queue: "ts_queue (d_tasks ?d1 ! i) = [m]"
    using assms(1-3,8)
    by (simp add: take_message_def arrive_def Let_def finish_state_def TaskState_init_def)
  then have quit: "quitIfReady from_json from_utf8 (Some i) ?a = (True, ?d1)"
    by (simp add: quitIfReady_def pump1 Task_hasQueued_def Let_def)
  have meta: "d_meta ?d1 = d_meta d"
    by (simp add: take_message_def arrive_def Let_def split: option.split)
  show ?thesis
    using idle pump not_done assms(4) quit queue meta
    by (simp add: waitNext_def tryNext_def Let_def)
qed

lemma DriverMeta_object_done:
  "writeResponse to_json (resp_done 0 (JObj (DriverMeta_toJson m)))
     = line_bytes (to_json (JObj (response_object ''done'' 0 (JObj (DriverMeta_toJson m)))))"
  by (simp add: writeResponse_def resp_done_def serializeResponse_def line_bytes_def)

text \<open>C5: The description of a driver reaches its host intact, as long as it fits the host's
  buffer (the answer line is below the 8 MiB of kMaxOutputBufferBytes) and arrives as a whole.
  The host writes the request line of the describe command; the driver answers that line with one
  message; when the bytes of this answer arrive, the host's query returns the driver's metadata,
  keeps it, and stores it in the cache under the driver's id. It is the driver's own metadata, up
  to what its JSON form does not carry: a null default is read as undefined, and a configuration
  without field and injection method as the empty one. The JSON text of the answer is read back as it was written, the driver's metadata is such as its C++
  types hold it (integers in the range of int, the named types a map), and the host had no
  metadata and no unread output before.\<close>

theorem describe_end_to_end:
  assumes "driver_ok m" and "co_meta c = Some (m, autoValidate)"
    and "request_bytes to_json ''meta.describe'' [] = line_bytes line" and "\<not> is_blank line"
    and "q_from_json q line = Some (JObj (jset ''cmd'' (JStr ''meta.describe'') []))"
    and "codec_at to_json from_json (response_object ''done'' 0 (JObj (DriverMeta_toJson m)))"
    and "length (to_json (JObj (response_object ''done'' 0 (JObj (DriverMeta_toJson m)))))
           < kMaxOutputBufferBytes"
    and "d_meta d = None" and "proc_out d = []"
  shows "\<exists>resp d' cache'. co_out (snd (processOneLine q line c)) = co_out c @ [resp]
    \<and> queryMeta from_json from_utf8 (Written True ctx) [Woken (writeResponse to_json resp) True ctx] (d, cache)
        = Some (Some (driver_canon m), d', cache')
    \<and> d_meta d' = Some (driver_canon m)
    \<and> (di_id (dm_info m) \<noteq> [] \<longrightarrow> MetaCache_get cache' (di_id (dm_info m)) = Some (driver_canon m))"
proof -
  let ?resp = "resp_done 0 (JObj (DriverMeta_toJson m))"
  let ?rline = "to_json (JObj (response_object ''done'' 0 (JObj (DriverMeta_toJson m))))"
  have "parseRequest (q_from_json q) line = Some \<lparr>req_cmd = ''meta.describe'', req_data = JUndefined\<rparr>"
    using assms(5) by (simp add: parseRequest_def)
  then have answer: "co_out (snd (processOneLine q line c)) = co_out c @ [?resp]"
    using assms(2,4) by (simp add: processOneLine_def handleMetaCommand_def)
  obtain t d1 where req: "Driver_request (Written True ctx) d = (t, d1)" by fastforce
  then have d1: "t = Some (length (d_tasks d))" "d_cur d1 = t" "d_tasks d1 = d_tasks d @ [TaskState_init]"
      "d_buf d1 = []" "proc_out d1 = []" "proc_running d1" "d_meta d1 = None"
    using assms(8,9) by (auto simp: Driver_request_def Let_def)
  have enc: "encodes from_json ?rline ?resp"
    using parse_serialized_response [OF assms(6), of Message_init] assms(6)
    by (simp add: encodes_def codec_at_def resp_done_def valid_status_def in_int_def int_min_def int_max_def
        Message_init_def)
  obtain d2 where wait: "waitNext from_json from_utf8 t [Woken (line_bytes ?rline) True ctx] d1 = Some (Some ?resp, d2)"
    using wait_for_chunk [where i = "length (d_tasks d)" and d = d1 and ?from_utf8.0 = from_utf8 and running = True
        and ctx = ctx, OF _ _ _ d1(6,4,5) enc _ assms(7)] d1(1-3) by auto
  have canon: "DriverMeta_fromJson (to_object (msg_payload ?resp)) = driver_canon m"
    using DriverMeta_roundtrip [OF assms(1)] by (simp add: resp_done_def)
  have info: "dm_info (driver_canon m) = dm_info m" by (simp add: driver_canon_def)
  have status: "msg_status ?resp = ''done''" by (simp add: resp_done_def)
  have "queryMeta from_json from_utf8 (Written True ctx) [Woken (writeResponse to_json ?resp) True ctx] (d, cache)
      = Some (Some (driver_canon m), d2\<lparr>d_meta := Some (driver_canon m)\<rparr>,
          if di_id (dm_info m) \<noteq> [] then MetaCache_store (di_id (dm_info m)) (driver_canon m) cache else cache)"
    unfolding queryMeta_def DriverMeta_object_done
    using assms(8) req wait status canon info by (simp add: Let_def)
  with answer show ?thesis
    by (auto simp: cache.get_put_same)
qed

definition describe_line :: bytes where "describe_line = [1]"

definition toy_to_json :: "json \<Rightarrow> bytes" where
  "toy_to_json v = (if v = JObj (jset ''cmd'' (JStr ''meta.describe'') []) then describe_line else [2])"

definition toy_from_json :: "bytes \<Rightarrow> json option" where
  "toy_from_json b =
     (if b = describe_line then Some (JObj (jset ''cmd'' (JStr ''meta.describe'') []))
      else Some (JObj (response_object ''done'' 0 (JObj (DriverMeta_toJson demo_driver)))))"

lemma describe_end_to_end_witness:
  "\<exists>resp d' cache'.
     queryMeta toy_from_json (\<lambda>_. []) (Written True []) [Woken (writeResponse toy_to_json resp) True []]
       (demo_driver_state, \<lparr>mc_cache = Map.empty, mc_hash = Map.empty\<rparr>)
     = Some (Some (driver_canon demo_driver), d', cache')"
proof -
  let ?q = "(demo_env None)\<lparr>q_from_json := toy_from_json\<rparr>"
  have differ: "JObj (response_object ''done'' 0 v) \<noteq> JObj (jset ''cmd'' (JStr ''meta.describe'') [])" for v
    by (simp add: response_object_def jset_def om_del_def)
  have a: "co_meta echo_core = Some (demo_driver, True)" by (simp add: echo_core_def)
  have b: "request_bytes toy_to_json ''meta.describe'' [] = line_bytes describe_line"
    by (simp add: request_bytes_def toy_to_json_def line_bytes_def jset_if_def)
  have c: "\<not> is_blank describe_line" by (simp add: is_blank_def describe_line_def)
  have d: "q_from_json ?q describe_line = Some (JObj (jset ''cmd'' (JStr ''meta.describe'') []))"
    by (simp add: toy_from_json_def)
  have e: "codec_at toy_to_json toy_from_json (response_object ''done'' 0 (JObj (DriverMeta_toJson demo_driver)))"
    using differ by (simp add: codec_at_def toy_to_json_def toy_from_json_def describe_line_def newline_def)
  have f: "length (toy_to_json (JObj (response_object ''done'' 0 (JObj (DriverMeta_toJson demo_driver)))))
      < kMaxOutputBufferBytes"
    using differ by (simp add: toy_to_json_def kMaxOutputBufferBytes_def)
  have g: "d_meta demo_driver_state = None" "proc_out demo_driver_state = []"
    by (simp_all add: demo_driver_state_def)
  from describe_end_to_end [OF demo_driver_ok a b c d e f g, of "\<lambda>_. []" "[]"
      "\<lparr>mc_cache = Map.empty, mc_hash = Map.empty\<rparr>"]
  show ?thesis by blast
qed

end
