(* ===== verification/QtText.thy ===== *)
theory QtText
  imports Prelude
begin

text \<open>
  The string operations of Qt the program uses, on lists of characters: decimal and hexadecimal
  numbers (\<open>QString::number\<close>, \<open>QString::arg\<close>), case mapping of ASCII (\<open>toLower\<close>, \<open>toUpper\<close>),
  \<open>contains\<close>, \<open>indexOf\<close>, \<open>startsWith\<close>, \<open>mid\<close> and \<open>split\<close>.
\<close>

section \<open>Numbers\<close>

definition digit_char :: "nat \<Rightarrow> char" where
  "digit_char d = (if d < 10 then char_of (48 + d) else char_of (87 + d))"

fun dec :: "nat \<Rightarrow> string" where
  "dec n = (if n < 10 then [digit_char n] else dec (n div 10) @ [digit_char (n mod 10)])"

declare dec.simps [simp del]

definition dec_int :: "int \<Rightarrow> string" where
  "dec_int i = (if i < 0 then CHR ''-'' # dec (nat (- i)) else dec (nat i))"

definition hex8 :: "u32 \<Rightarrow> string" where
  "hex8 v = map (\<lambda>k. digit_char (unat (drop_bit (4 * k) v AND 0xF))) (rev [0..<8])"

section \<open>Characters and substrings\<close>

definition ascii_lower :: "string \<Rightarrow> string" where
  "ascii_lower s = map (\<lambda>c. if CHR ''A'' \<le> c \<and> c \<le> CHR ''Z'' then char_of (of_char c + 32 :: nat) else c) s"

definition ascii_upper :: "string \<Rightarrow> string" where
  "ascii_upper s = map (\<lambda>c. if CHR ''a'' \<le> c \<and> c \<le> CHR ''z'' then char_of (of_char c - 32 :: nat) else c) s"

definition is_digit :: "char \<Rightarrow> bool" where
  "is_digit c = (CHR ''0'' \<le> c \<and> c \<le> CHR ''9'')"

definition is_letter :: "char \<Rightarrow> bool" where
  "is_letter c = ((CHR ''A'' \<le> c \<and> c \<le> CHR ''Z'') \<or> (CHR ''a'' \<le> c \<and> c \<le> CHR ''z''))"

definition starts_with :: "string \<Rightarrow> string \<Rightarrow> bool" where
  "starts_with pre s = (take (length pre) s = pre)"

fun contains_text :: "string \<Rightarrow> string \<Rightarrow> bool" where
  "contains_text pat [] = (pat = [])"
| "contains_text pat (c # cs) = (take (length pat) (c # cs) = pat \<or> contains_text pat cs)"

fun index_of_char :: "char \<Rightarrow> string \<Rightarrow> nat option" where
  "index_of_char c [] = None"
| "index_of_char c (d # ds) = (if d = c then Some 0 else map_option Suc (index_of_char c ds))"

text \<open>\<open>split\<close> at every occurrence, empty parts kept.\<close>

fun split_at_char :: "char \<Rightarrow> string \<Rightarrow> string list" where
  "split_at_char c [] = [[]]"
| "split_at_char c (d # ds) =
     (if d = c then [] # split_at_char c ds
      else case split_at_char c ds of p # ps \<Rightarrow> (d # p) # ps | [] \<Rightarrow> [[d]])"

fun join_with :: "string \<Rightarrow> string list \<Rightarrow> string" where
  "join_with sep [] = []"
| "join_with sep [p] = p"
| "join_with sep (p # ps) = p @ sep @ join_with sep ps"

lemma split_at_char_not_Nil [simp]: "split_at_char c s \<noteq> []"
  by (induction s) (auto split: list.split)

lemma split_join: "join_with [c] (split_at_char c s) = s"
proof (induction s)
  case (Cons d ds)
  obtain p ps where p: "split_at_char c ds = p # ps" by (cases "split_at_char c ds") auto
  show ?case using Cons p by (cases ps) auto
qed simp

lemma index_of_char_Some:
  "index_of_char c s = Some i \<Longrightarrow> i < length s \<and> s ! i = c \<and> (\<forall>j < i. s ! j \<noteq> c)"
proof (induction s arbitrary: i)
  case (Cons d ds)
  then show ?case by (cases i) (auto simp: nth_Cons' split: if_splits)
qed simp

text \<open>Decimal text as an integer, as \<open>toInt\<close>, \<open>toLongLong\<close> and \<open>toULongLong\<close> read it: white space
  around it and one sign are allowed.\<close>

definition is_space_char :: "char \<Rightarrow> bool" where
  "is_space_char c = (c = CHR '' '' \<or> (CHR 0x09 \<le> c \<and> c \<le> CHR 0x0D))"

definition trim_spaces :: "string \<Rightarrow> string" where
  "trim_spaces s = rev (dropWhile is_space_char (rev (dropWhile is_space_char s)))"

definition digits_number :: "string \<Rightarrow> nat option" where
  "digits_number s =
     (if s \<noteq> [] \<and> list_all is_digit s then Some (foldl (\<lambda>n c. n * 10 + (of_char c - 48)) 0 s) else None)"

definition text_integer :: "bool \<Rightarrow> string \<Rightarrow> int option" where
  "text_integer negative_ok s =
     (let t = trim_spaces s
      in if t \<noteq> [] \<and> hd t = CHR ''-''
         then (if negative_ok then map_option (\<lambda>n. - int n) (digits_number (tl t)) else None)
         else if t \<noteq> [] \<and> hd t = CHR ''+'' then map_option int (digits_number (tl t))
         else map_option int (digits_number t))"

lemma digit_char_code: "d < 10 \<Longrightarrow> of_char (digit_char d) = (48 + d :: nat)"
  by (simp add: digit_char_def)

lemma dec_digits: "list_all is_digit (dec n) \<and> dec n \<noteq> [] \<and> foldl (\<lambda>k c. k * 10 + (of_char c - 48)) 0 (dec n) = n"
proof (induction n rule: dec.induct)
  case (1 n)
  have "is_digit (digit_char d)" if "d < 10" for d
    using that by (simp add: is_digit_def less_eq_char_def digit_char_code)
  with 1 show ?case by (cases "n < 10") (simp_all add: dec.simps [of n] digit_char_code)
qed

lemma digit_not_space: "is_digit c \<Longrightarrow> \<not> is_space_char c \<and> c \<noteq> CHR ''-'' \<and> c \<noteq> CHR ''+''"
  by (auto simp: is_digit_def is_space_char_def less_eq_char_def)

lemma dropWhile_none: "\<forall>c \<in> set s. \<not> P c \<Longrightarrow> dropWhile P s = s"
  by (cases s) auto

lemma trim_digits: "list_all is_digit s \<Longrightarrow> trim_spaces s = s"
  using digit_not_space by (simp add: trim_spaces_def dropWhile_none list_all_iff)

lemma text_integer_dec: "text_integer neg (dec n) = Some (int n)"
proof -
  have d: "list_all is_digit (dec n)" "dec n \<noteq> []" using dec_digits by blast+
  then have "is_digit (hd (dec n))" by (simp add: list_all_iff)
  then show ?thesis
    using d dec_digits [of n] digit_not_space [of "hd (dec n)"]
    by (simp add: text_integer_def trim_digits digits_number_def)
qed

lemma text_integer_dec_int: "text_integer True (dec_int i) = Some i"
proof (cases "i < 0")
  case True
  have d: "list_all is_digit (dec (nat (- i)))" "dec (nat (- i)) \<noteq> []" using dec_digits by blast+
  have "\<not> is_space_char c" if "c \<in> set (dec (nat (- i)))" for c
    using that d(1) digit_not_space [of c] by (simp add: list_all_iff)
  moreover have "\<not> is_space_char CHR ''-''" by (simp add: is_space_char_def less_eq_char_def)
  ultimately have "trim_spaces (CHR ''-'' # dec (nat (- i))) = CHR ''-'' # dec (nat (- i))"
    by (simp add: trim_spaces_def dropWhile_none)
  with True d dec_digits [of "nat (- i)"] show ?thesis
    by (simp add: text_integer_def dec_int_def digits_number_def)
qed (simp add: dec_int_def text_integer_dec)

text \<open>Running a fallible step over a list: the first error is the result.\<close>

fun traverse :: "('a \<Rightarrow> 'e + 'b) \<Rightarrow> 'a list \<Rightarrow> 'e + 'b list" where
  "traverse f [] = Inr []"
| "traverse f (x # xs) =
     (case f x of
        Inl e \<Rightarrow> Inl e
      | Inr y \<Rightarrow> (case traverse f xs of Inl e \<Rightarrow> Inl e | Inr ys \<Rightarrow> Inr (y # ys)))"

lemma traverse_cong [fundef_cong]:
  "xs = ys \<Longrightarrow> (\<And>x. x \<in> set ys \<Longrightarrow> f x = g x) \<Longrightarrow> traverse f xs = traverse g ys"
  by (induction xs arbitrary: ys) (auto split: sum.split)

lemma traverse_Inr: "traverse f xs = Inr ys \<longleftrightarrow> list_all2 (\<lambda>x y. f x = Inr y) xs ys"
proof (induction xs arbitrary: ys)
  case (Cons x xs)
  show ?case
    by (cases "f x"; cases "traverse f xs"; cases ys) (auto simp: Cons.IH [symmetric])
qed auto

end
