(* ===== verification/CliCodec.thy ===== *)
theory CliCodec
  imports QtJson QtText
begin

text \<open>
  The command line of a driver and a service: paths and values (\<open>src/src/stdiolink/console/json_cli_codec.*\<close>).
  The arguments and options are in \<open>ConsoleArgs\<close>. JSON text is read and written by Qt, which is an argument.
\<close>

section \<open>Paths\<close>

datatype cli_segment = SegKey string | SegIndex int | SegAppend

type_synonym cli_path = "cli_segment list"

abbreviation (input) "char_quote \<equiv> CHR 0x22"
abbreviation (input) "char_backslash \<equiv> CHR 0x5C"
abbreviation (input) "char_newline \<equiv> CHR 0x0A"

definition escaped_key :: "string \<Rightarrow> string" where
  "escaped_key key = concat (map (\<lambda>c. if c = char_backslash \<or> c = char_quote then [char_backslash, c] else [c]) key)"

definition quotedForPath :: "string \<Rightarrow> string" where
  "quotedForPath key = ''['' @ [char_quote] @ escaped_key key @ [char_quote] @ '']''"

definition simple_word :: "string \<Rightarrow> bool" where
  "simple_word key =
     (case key of
        [] \<Rightarrow> False
      | c # cs \<Rightarrow> (is_letter c \<or> c = CHR ''_'') \<and> list_all (\<lambda>c. is_letter c \<or> is_digit c \<or> c \<in> {CHR ''_'', CHR ''-''}) cs)"

text \<open>\<open>$\<close> of the pattern also matches before a newline at the end.\<close>

definition isSimpleKey :: "string \<Rightarrow> bool" where
  "isSimpleKey key = (simple_word key \<or> (key \<noteq> [] \<and> last key = char_newline \<and> simple_word (butlast key)))"

fun render_segment :: "bool \<Rightarrow> cli_segment \<Rightarrow> string" where
  "render_segment first (SegKey key) =
     (if first then (if isSimpleKey key then key else quotedForPath key)
      else if isSimpleKey key then CHR ''.'' # key
      else quotedForPath key)"
| "render_segment first (SegIndex i) = ''['' @ dec_int i @ '']''"
| "render_segment first SegAppend = ''[]''"

definition renderPath :: "cli_path \<Rightarrow> string" where
  "renderPath path = foldl (\<lambda>out seg. out @ render_segment (out = []) seg) [] path"

text \<open>The inside of a quoted key, up to the closing quote and bracket.\<close>

fun parse_quoted :: "string \<Rightarrow> string + (string \<times> string)" where
  "parse_quoted [] = Inl ''invalid path syntax: unterminated quoted key''"
| "parse_quoted (c # cs) =
     (if c = char_backslash then
        (case cs of
           [] \<Rightarrow> Inl ''invalid path syntax: bad escape''
         | d # ds \<Rightarrow> (case parse_quoted ds of Inl e \<Rightarrow> Inl e | Inr (key, rest) \<Rightarrow> Inr (d # key, rest)))
      else if c = char_quote then
        (case cs of
           d # ds \<Rightarrow> if d = CHR '']'' then Inr ([], ds) else Inl ''invalid path syntax: unterminated quoted key''
         | [] \<Rightarrow> Inl ''invalid path syntax: unterminated quoted key'')
      else (case parse_quoted cs of Inl e \<Rightarrow> Inl e | Inr (key, rest) \<Rightarrow> Inr (c # key, rest)))"

definition bare_char :: "char \<Rightarrow> bool" where
  "bare_char c = (c \<noteq> CHR ''.'' \<and> c \<noteq> CHR ''['')"

text \<open>\<open>toInt\<close> of the token.\<close>

definition text_int :: "string \<Rightarrow> int option" where
  "text_int s = (case text_integer True s of Some i \<Rightarrow> if in_int i then Some i else None | None \<Rightarrow> None)"

text \<open>One segment, after the dot if there was one.\<close>

definition parse_segment :: "string \<Rightarrow> string + (cli_segment \<times> string)" where
  "parse_segment s =
     (case s of
        [] \<Rightarrow> Inl ''invalid path syntax: trailing dot''
      | c # cs \<Rightarrow>
          if c = CHR ''['' then
            (case cs of
               [] \<Rightarrow> Inl ''invalid path syntax: unterminated bracket''
             | d # ds \<Rightarrow>
                 if d = CHR '']'' then Inr (SegAppend, ds)
                 else if d = char_quote then
                   (case parse_quoted ds of Inl e \<Rightarrow> Inl e | Inr (key, rest) \<Rightarrow> Inr (SegKey key, rest))
                 else
                   (let token = takeWhile (\<lambda>c. c \<noteq> CHR '']'') cs; rest = dropWhile (\<lambda>c. c \<noteq> CHR '']'') cs
                    in if rest = [] then Inl ''invalid path syntax: unterminated index''
                       else
                         (case text_int token of
                            None \<Rightarrow> Inl ''invalid array index''
                          | Some i \<Rightarrow> Inr (SegIndex i, tl rest))))
          else
            (let key = takeWhile bare_char s
             in if key = [] then Inl ''invalid path syntax: empty segment''
                else Inr (SegKey key, dropWhile bare_char s)))"

lemma parse_quoted_shorter: "parse_quoted s = Inr (key, rest) \<Longrightarrow> length rest < length s"
  by (induction s arbitrary: key rule: parse_quoted.induct)
    (fastforce split: if_splits list.splits sum.splits prod.splits)+

lemma length_tl_dropWhile: "length (tl (dropWhile P xs)) \<le> length xs"
  using length_dropWhile_le [of P xs] by simp

lemma length_dropWhile_less: "takeWhile P xs \<noteq> [] \<Longrightarrow> length (dropWhile P xs) < length xs"
  by (cases xs) (auto simp: le_imp_less_Suc length_dropWhile_le split: if_splits)

lemma parse_segment_shorter:
  assumes "parse_segment s = Inr (seg, rest)"
  shows "length rest < length s"
proof -
  obtain c cs where s: "s = c # cs" using assms by (cases s) (auto simp: parse_segment_def)
  show ?thesis
  proof (cases "c = CHR ''[''")
    case False
    with assms s have "takeWhile bare_char s \<noteq> []" "rest = dropWhile bare_char s"
      by (simp_all add: parse_segment_def Let_def split: if_splits)
    then show ?thesis by (simp add: length_dropWhile_less)
  next
    case True
    then obtain d ds where cs: "cs = d # ds" using assms s by (cases cs) (auto simp: parse_segment_def)
    consider "d = CHR '']''" | "d = char_quote" | "d \<noteq> CHR '']''" "d \<noteq> char_quote" by blast
    then show ?thesis
    proof cases
      case 2
      with assms s cs True have "\<exists>key. parse_quoted ds = Inr (key, rest)"
        by (simp add: parse_segment_def split: sum.splits prod.splits)
      then show ?thesis using parse_quoted_shorter s cs by fastforce
    next
      case 3
      with assms s cs True have "rest = tl (dropWhile (\<lambda>c. c \<noteq> CHR '']'') cs)"
        by (simp add: parse_segment_def Let_def split: if_splits option.splits)
      then show ?thesis using length_tl_dropWhile [of _ cs] s by (simp add: le_imp_less_Suc)
    qed (use assms s cs True in \<open>simp add: parse_segment_def\<close>)
  qed
qed

function parse_segments :: "string \<Rightarrow> string + cli_path" where
  "parse_segments s =
     (if s = [] then Inr []
      else
        (case parse_segment (if hd s = CHR ''.'' then tl s else s) of
           Inl e \<Rightarrow> Inl e
         | Inr (seg, rest) \<Rightarrow>
             (case parse_segments rest of Inl e \<Rightarrow> Inl e | Inr segs \<Rightarrow> Inr (seg # segs))))"
  by pat_completeness auto
termination
proof (relation "measure length")
  fix s :: string and x and y :: "cli_segment \<times> string" and seg rest
  assume "s \<noteq> []" and "parse_segment (if hd s = CHR ''.'' then tl s else s) = Inr y" and "(seg, rest) = y"
  then have "length rest < length (if hd s = CHR ''.'' then tl s else s)" using parse_segment_shorter by fastforce
  then show "(rest, s) \<in> measure length" by (cases s) (auto split: if_splits)
qed simp

declare parse_segments.simps [simp del]

definition parsePath :: "string \<Rightarrow> string + cli_path" where
  "parsePath path = (if path = [] then Inl ''invalid path syntax: empty path'' else parse_segments path)"

section \<open>Values\<close>

text \<open>\<open>jt_compact\<close> is the compact text of a document, \<open>jt_parse\<close> reads one.\<close>

record json_text =
  jt_compact :: "json \<Rightarrow> string"
  jt_parse :: "string \<Rightarrow> json option"

definition strip_brackets :: "string \<Rightarrow> string" where
  "strip_brackets s =
     (if length s \<ge> 2 \<and> hd s = CHR ''['' \<and> last s = CHR '']'' then butlast (tl s) else s)"

definition canonicalLiteral :: "json_text \<Rightarrow> json \<Rightarrow> string" where
  "canonicalLiteral jt v =
     (if is_null v \<or> is_undefined v then ''null'' else strip_brackets (jt_compact jt (JArr [v])))"

definition parseJsonLiteral :: "json_text \<Rightarrow> string \<Rightarrow> json option" where
  "parseJsonLiteral jt t = (case jt_parse jt (''['' @ t @ '']'') of Some (JArr [v]) \<Rightarrow> Some v | _ \<Rightarrow> None)"

definition inferFriendlyValue :: "json_text \<Rightarrow> string \<Rightarrow> json" where
  "inferFriendlyValue jt t = (case parseJsonLiteral jt t of Some v \<Rightarrow> v | None \<Rightarrow> JStr t)"

section \<open>The tree of assignments\<close>

datatype node_kind = KUnset | KScalar | KObject | KArray

datatype node_origin = ONone | OScalar | OLiteral | OAggregated

datatype cli_node = CliNode
  (cn_kind: node_kind) (cn_origin: node_origin) (cn_scalar: json)
  (cn_object: "(string \<times> cli_node) list") (cn_array: "cli_node list")
  (cn_append: bool) (cn_index: bool)

definition unset_node :: cli_node where
  "unset_node = CliNode KUnset ONone JNull [] [] False False"

abbreviation (input) "conflict_container \<equiv> ''path conflict: container literal vs child path''"
abbreviation (input) "conflict_scalar \<equiv> ''path conflict: scalar vs object''"
abbreviation (input) "conflict_append \<equiv> ''path conflict: append vs explicit index''"

text \<open>\<open>ensureObjectNode\<close> and \<open>ensureArrayNode\<close>; they are called for a child path only.\<close>

definition ensure_node :: "node_kind \<Rightarrow> cli_node \<Rightarrow> string + cli_node" where
  "ensure_node k n =
     (if cn_kind n = KUnset
      then Inr (CliNode k OAggregated (cn_scalar n) (cn_object n) (cn_array n) (cn_append n) (cn_index n))
      else if cn_kind n = k then (if cn_origin n = OLiteral then Inl conflict_container else Inr n)
      else Inl conflict_scalar)"

definition literal_node :: "json \<Rightarrow> cli_node" where
  "literal_node v =
     (if is_object v \<or> is_array v
      then CliNode (if is_object v then KObject else KArray) OLiteral v [] [] False False
      else CliNode KScalar OScalar v [] [] False False)"

definition grow :: "nat \<Rightarrow> cli_node list \<Rightarrow> cli_node list" where
  "grow i xs = xs @ replicate (Suc i - length xs) unset_node"

fun assignPath :: "cli_path \<Rightarrow> json \<Rightarrow> cli_node \<Rightarrow> string + cli_node" where
  "assignPath [] v n =
     (if (cn_kind n = KObject \<or> cn_kind n = KArray) \<and> cn_origin n = OAggregated then Inl conflict_container
      else Inr (literal_node v))"
| "assignPath (SegKey key # path) v n =
     (case ensure_node KObject n of
        Inl e \<Rightarrow> Inl e
      | Inr (CliNode k og sc obj arr ap ix) \<Rightarrow>
          (case assignPath path v (case om_get obj key of Some c \<Rightarrow> c | None \<Rightarrow> unset_node) of
             Inl e \<Rightarrow> Inl e
           | Inr c \<Rightarrow> Inr (CliNode k og sc (om_put key c obj) arr ap ix)))"
| "assignPath (SegIndex i # path) v n =
     (case ensure_node KArray n of
        Inl e \<Rightarrow> Inl e
      | Inr (CliNode k og sc obj arr ap ix) \<Rightarrow>
          if ap then Inl conflict_append
          else if i < 0 then Inl ''invalid array index''
          else
            (let arr' = grow (nat i) arr
             in case assignPath path v (arr' ! nat i) of
                  Inl e \<Rightarrow> Inl e
                | Inr c \<Rightarrow> Inr (CliNode k og sc obj (arr'[nat i := c]) ap True)))"
| "assignPath (SegAppend # path) v n =
     (if path \<noteq> [] then Inl ''append path must be terminal''
      else
        (case ensure_node KArray n of
           Inl e \<Rightarrow> Inl e
         | Inr (CliNode k og sc obj arr ap ix) \<Rightarrow>
             if ix then Inl conflict_append
             else Inr (CliNode k og sc obj (arr @ [literal_node v]) True ix)))"

primrec nodeToJson :: "cli_node \<Rightarrow> json" where
  "nodeToJson (CliNode k og sc obj arr ap ix) =
     (case k of
        KUnset \<Rightarrow> JNull
      | KScalar \<Rightarrow> sc
      | KObject \<Rightarrow>
          if og = OLiteral \<and> is_object sc then sc
          else JObj (fold (\<lambda>(key, v). jset key v) (map (map_prod id nodeToJson) obj) [])
      | KArray \<Rightarrow> if og = OLiteral \<and> is_array sc then sc else JArr (map nodeToJson arr))"

section \<open>Arguments\<close>

record raw_cli_arg =
  ra_path :: string
  ra_value :: string

datatype cli_value_mode = Canonical | Friendly

definition root_node :: cli_node where
  "root_node = CliNode KObject OAggregated JNull [] [] False False"

definition arg_value :: "json_text \<Rightarrow> cli_value_mode \<Rightarrow> string \<Rightarrow> string + json" where
  "arg_value jt mode t =
     (if mode = Canonical then
        (case parseJsonLiteral jt t of Some v \<Rightarrow> Inr v | None \<Rightarrow> Inl ''invalid canonical JSON literal'')
      else Inr (inferFriendlyValue jt t))"

definition assign_arg :: "json_text \<Rightarrow> cli_value_mode \<Rightarrow> raw_cli_arg \<Rightarrow> cli_node \<Rightarrow> string + cli_node" where
  "assign_arg jt mode a n =
     (case parsePath (ra_path a) of
        Inl e \<Rightarrow> Inl e
      | Inr path \<Rightarrow> (case arg_value jt mode (ra_value a) of Inl e \<Rightarrow> Inl e | Inr v \<Rightarrow> assignPath path v n))"

fun assign_args :: "json_text \<Rightarrow> cli_value_mode \<Rightarrow> raw_cli_arg list \<Rightarrow> cli_node \<Rightarrow> string + cli_node" where
  "assign_args jt mode [] n = Inr n"
| "assign_args jt mode (a # as) n =
     (case assign_arg jt mode a n of Inl e \<Rightarrow> Inl e | Inr n' \<Rightarrow> assign_args jt mode as n')"

definition codec_parseArgs :: "json_text \<Rightarrow> cli_value_mode \<Rightarrow> raw_cli_arg list \<Rightarrow> string + json_obj" where
  "codec_parseArgs jt mode as =
     (case assign_args jt mode as root_node of Inl e \<Rightarrow> Inl e | Inr n \<Rightarrow> Inr (to_object (nodeToJson n)))"

text \<open>Rendering: one argument per leaf, an empty object or array is a leaf.\<close>

definition render_arg :: "bool \<Rightarrow> cli_path \<Rightarrow> string \<Rightarrow> string" where
  "render_arg useEquals path literal =
     ''--'' @ renderPath path @ (if useEquals then ''='' else '' '') @ literal"

function renderValueRecursive :: "json_text \<Rightarrow> bool \<Rightarrow> cli_path \<Rightarrow> json \<Rightarrow> string list" where
  "renderValueRecursive jt eq prefix (JObj obj) =
     (if obj = [] then [render_arg eq prefix ''{}'']
      else concat (map (\<lambda>(k, v). renderValueRecursive jt eq (prefix @ [SegKey k]) v) obj))"
| "renderValueRecursive jt eq prefix (JArr vs) =
     (if vs = [] then [render_arg eq prefix ''[]'']
      else concat (map (\<lambda>i. renderValueRecursive jt eq (prefix @ [SegIndex (int i)]) (vs ! i)) [0..<length vs]))"
| "renderValueRecursive jt eq prefix JUndefined = [render_arg eq prefix (canonicalLiteral jt JUndefined)]"
| "renderValueRecursive jt eq prefix JNull = [render_arg eq prefix (canonicalLiteral jt JNull)]"
| "renderValueRecursive jt eq prefix (JBool b) = [render_arg eq prefix (canonicalLiteral jt (JBool b))]"
| "renderValueRecursive jt eq prefix (JNum r) = [render_arg eq prefix (canonicalLiteral jt (JNum r))]"
| "renderValueRecursive jt eq prefix (JStr s) = [render_arg eq prefix (canonicalLiteral jt (JStr s))]"
  by pat_completeness auto
termination
proof (relation "measure (\<lambda>(_, _, _, v). size v)")
  fix obj k v and p :: "string \<times> json"
  assume "p \<in> set obj" and "(k, v) = p"
  then show "((jt, eq, prefix @ [SegKey k], v), jt, eq, prefix, JObj obj) \<in> measure (\<lambda>(_, _, _, v). size v)" for jt :: json_text and eq prefix
    by (auto dest!: size_list_estimation' [of "(k, v)" obj "size v" "size_prod (\<lambda>_. 0) size"] simp: le_imp_less_Suc)
next
  fix vs :: "json list" and i
  assume "i \<in> set [0..<length vs]"
  then show "((jt, eq, prefix @ [SegIndex (int i)], vs ! i), jt, eq, prefix, JArr vs) \<in> measure (\<lambda>(_, _, _, v). size v)" for jt :: json_text and eq prefix
    by (auto intro!: le_imp_less_Suc size_list_estimation' [OF nth_mem])
qed simp

definition renderArgs :: "json_text \<Rightarrow> bool \<Rightarrow> json_obj \<Rightarrow> string list" where
  "renderArgs jt eq data = concat (map (\<lambda>(k, v). renderValueRecursive jt eq [SegKey k] v) data)"

end
