(* ===== verification/ConsoleArgs.thy ===== *)
theory ConsoleArgs
  imports CliCodec
begin

text \<open>
  The arguments of a driver (\<open>src/src/stdiolink/console/console_args.*\<close>, \<open>system_options.cpp\<close>), those
  of a service (\<open>src/src/stdiolink_service/config/service_args.cpp\<close>), and the command lines that the
  documentation shows for an example (\<open>doc/cli_example_formatter.cpp\<close>). A program's arguments are
  a list without the program's name.
\<close>

section \<open>Options of the framework\<close>

record system_option =
  so_longName :: string
  so_shortName :: string
  so_valueHint :: string
  so_description :: string
  so_choices :: "string list"
  so_defaultValue :: string
  so_requiresValue :: bool

definition system_options :: "system_option list" where
  "system_options =
     [\<lparr>so_longName = ''help'', so_shortName = ''h'', so_valueHint = [], so_description = ''Show help'',
        so_choices = [], so_defaultValue = [], so_requiresValue = False\<rparr>,
      \<lparr>so_longName = ''version'', so_shortName = ''v'', so_valueHint = [], so_description = ''Show version'',
        so_choices = [], so_defaultValue = [], so_requiresValue = False\<rparr>,
      \<lparr>so_longName = ''mode'', so_shortName = ''m'', so_valueHint = ''<mode>'', so_description = ''Run mode'',
        so_choices = [''stdio'', ''console''], so_defaultValue = ''stdio'', so_requiresValue = True\<rparr>,
      \<lparr>so_longName = ''profile'', so_shortName = [], so_valueHint = ''<profile>'', so_description = ''Execution profile'',
        so_choices = [''oneshot'', ''keepalive''], so_defaultValue = ''oneshot'', so_requiresValue = True\<rparr>,
      \<lparr>so_longName = ''cmd'', so_shortName = ''c'', so_valueHint = ''<command>'', so_description = ''Execute command'',
        so_choices = [], so_defaultValue = [], so_requiresValue = True\<rparr>,
      \<lparr>so_longName = ''export-meta'', so_shortName = ''E'', so_valueHint = ''[=path]'',
        so_description = ''Export metadata as JSON'', so_choices = [], so_defaultValue = [], so_requiresValue = False\<rparr>,
      \<lparr>so_longName = ''export-doc'', so_shortName = ''D'', so_valueHint = ''<fmt>[=path]'',
        so_description = ''Export documentation'',
        so_choices = [''markdown'', ''openapi'', ''html'', ''ts'', ''typescript'', ''dts''], so_defaultValue = [],
        so_requiresValue = True\<rparr>,
      \<lparr>so_longName = ''guard'', so_shortName = [], so_valueHint = ''<name>'', so_description = ''Process guard name'',
        so_choices = [], so_defaultValue = [], so_requiresValue = True\<rparr>]"

definition findLong :: "string \<Rightarrow> system_option option" where
  "findLong name = find (\<lambda>opt. so_longName opt = name) system_options"

definition findShort :: "string \<Rightarrow> system_option option" where
  "findShort name = find (\<lambda>opt. so_shortName opt \<noteq> [] \<and> so_shortName opt = name) system_options"

definition isFrameworkArg :: "string \<Rightarrow> bool" where
  "isFrameworkArg longName = (findLong longName \<noteq> None)"

definition isFrameworkShortArg :: "string \<Rightarrow> bool" where
  "isFrameworkShortArg shortName = (findShort shortName \<noteq> None)"

section \<open>The old helpers\<close>

definition inferType :: "json_text \<Rightarrow> string \<Rightarrow> json" where
  "inferType jt t = (case parseJsonLiteral jt t of Some v \<Rightarrow> v | None \<Rightarrow> JStr t)"

fun set_nested :: "string list \<Rightarrow> json \<Rightarrow> json_obj \<Rightarrow> json_obj" where
  "set_nested [] v obj = obj"
| "set_nested [k] v obj = jset k v obj"
| "set_nested (k # k' # ks) v obj = jset k (JObj (set_nested (k' # ks) v (to_object (jval obj k)))) obj"

definition setNestedValue :: "string \<Rightarrow> json \<Rightarrow> json_obj \<Rightarrow> json_obj" where
  "setNestedValue path v obj = set_nested (split_at_char (CHR ''.'') path) v obj"

section \<open>Arguments of a driver\<close>

record console_args =
  ca_showHelp :: bool
  ca_showVersion :: bool
  ca_mode :: string
  ca_profile :: string
  ca_cmd :: string
  ca_exportMeta :: bool
  ca_exportMetaPath :: string
  ca_exportDocFormat :: string
  ca_exportDocPath :: string
  ca_rawDataArgs :: "raw_cli_arg list"

definition ConsoleArgs :: console_args where
  "ConsoleArgs = \<lparr>ca_showHelp = False, ca_showVersion = False, ca_mode = [], ca_profile = [], ca_cmd = [],
     ca_exportMeta = False, ca_exportMetaPath = [], ca_exportDocFormat = [], ca_exportDocPath = [], ca_rawDataArgs = []\<rparr>"

definition parseExportDoc :: "string \<Rightarrow> console_args \<Rightarrow> console_args" where
  "parseExportDoc v a =
     (case index_of_char (CHR ''='') v of
        None \<Rightarrow> a\<lparr>ca_exportDocFormat := v\<rparr>
      | Some i \<Rightarrow> a\<lparr>ca_exportDocFormat := take i v, ca_exportDocPath := drop (i + 1) v\<rparr>)"

definition parseFrameworkArg :: "string \<Rightarrow> string \<Rightarrow> console_args \<Rightarrow> console_args" where
  "parseFrameworkArg key v a =
     (if key = ''mode'' then a\<lparr>ca_mode := v\<rparr>
      else if key = ''profile'' then a\<lparr>ca_profile := v\<rparr>
      else if key = ''cmd'' then a\<lparr>ca_cmd := v\<rparr>
      else a)"

definition parseDataArg :: "string \<Rightarrow> string \<Rightarrow> console_args \<Rightarrow> console_args" where
  "parseDataArg key v a = a\<lparr>ca_rawDataArgs := ca_rawDataArgs a @ [\<lparr>ra_path = key, ra_value = v\<rparr>]\<rparr>"

text \<open>A short argument without a value, or with one.\<close>

definition parse_short_flag :: "string \<Rightarrow> console_args \<Rightarrow> console_args option" where
  "parse_short_flag arg a =
     (if arg = ''h'' then Some (a\<lparr>ca_showHelp := True\<rparr>)
      else if arg = ''v'' then Some (a\<lparr>ca_showVersion := True\<rparr>)
      else if arg = ''E'' then Some (a\<lparr>ca_exportMeta := True\<rparr>)
      else None)"

definition parse_short_value :: "string \<Rightarrow> string \<Rightarrow> console_args \<Rightarrow> string + console_args" where
  "parse_short_value arg v a =
     (if arg = ''m'' then Inr (a\<lparr>ca_mode := v\<rparr>)
      else if arg = ''c'' then Inr (a\<lparr>ca_cmd := v\<rparr>)
      else if arg = ''D'' then Inr (parseExportDoc v a)
      else Inl (''Unknown short argument: -'' @ arg))"

text \<open>A long argument, after its two dashes.\<close>

definition parse_long :: "string \<Rightarrow> console_args \<Rightarrow> string + console_args" where
  "parse_long arg a =
     (if arg = ''help'' then Inr (a\<lparr>ca_showHelp := True\<rparr>)
      else if arg = ''version'' then Inr (a\<lparr>ca_showVersion := True\<rparr>)
      else if arg = ''export-meta'' then Inr (a\<lparr>ca_exportMeta := True\<rparr>)
      else
        (case index_of_char (CHR ''='') arg of
           None \<Rightarrow> Inl (''Missing value for argument: --'' @ arg)
         | Some i \<Rightarrow>
             (let key = take i arg; v = drop (i + 1) arg
              in if key = ''export-meta'' then Inr (a\<lparr>ca_exportMeta := True, ca_exportMetaPath := v\<rparr>)
                 else if key = ''export-doc'' then Inr (parseExportDoc v a)
                 else if starts_with ''arg-'' key then Inr (parseDataArg (drop 4 key) v a)
                 else if isFrameworkArg key then Inr (parseFrameworkArg key v a)
                 else Inr (parseDataArg key v a))))"

fun parse_arguments :: "string list \<Rightarrow> console_args \<Rightarrow> string + console_args" where
  "parse_arguments [] a = Inr a"
| "parse_arguments (arg # rest) a =
     (if starts_with ''-'' arg \<and> \<not> starts_with ''--'' arg then
        (case parse_short_flag (drop 1 arg) a of
           Some a' \<Rightarrow> parse_arguments rest a'
         | None \<Rightarrow>
             (case rest of
                [] \<Rightarrow> Inl (''Missing value for argument: -'' @ drop 1 arg)
              | v # rest' \<Rightarrow>
                  (case parse_short_value (drop 1 arg) v a of Inl e \<Rightarrow> Inl e | Inr a' \<Rightarrow> parse_arguments rest' a')))
      else if \<not> starts_with ''--'' arg then Inl (''Invalid argument: '' @ arg)
      else (case parse_long (drop 2 arg) a of Inl e \<Rightarrow> Inl e | Inr a' \<Rightarrow> parse_arguments rest a'))"

definition check_arguments :: "console_args \<Rightarrow> string + console_args" where
  "check_arguments a =
     (if ca_mode a = ''stdio'' then Inr a
      else if ca_showHelp a \<or> ca_showVersion a then Inr a
      else if ca_exportMeta a \<or> ca_exportDocFormat a \<noteq> [] then Inr a
      else if ca_mode a = ''console'' \<and> ca_cmd a = [] then Inl ''Console mode requires --cmd''
      else if ca_rawDataArgs a \<noteq> [] \<and> ca_cmd a = [] then Inl ''Data arguments require --cmd''
      else Inr a)"

definition ConsoleArgs_parse :: "string list \<Rightarrow> string + console_args" where
  "ConsoleArgs_parse argv =
     (case parse_arguments argv ConsoleArgs of Inl e \<Rightarrow> Inl e | Inr a \<Rightarrow> check_arguments a)"

section \<open>Command lines in the documentation\<close>

text \<open>The words of the example's command line; the formatter joins them with blanks.\<close>

definition example_words :: "json_text \<Rightarrow> string \<Rightarrow> json_obj \<Rightarrow> string list" where
  "example_words jt cmdName ex =
     (let mode = to_string (jval ex ''mode''); params = to_object (jval ex ''params'');
          profile = to_string (jval params ''profile'')
      in [''<program>'', ''--cmd='' @ cmdName]
         @ (if mode \<noteq> [] \<and> mode \<noteq> ''console'' then [''--mode='' @ mode] else [])
         @ (if profile \<noteq> [] \<and> profile \<noteq> ''oneshot'' then [''--profile='' @ profile] else [])
         @ renderArgs jt True (om_del ''profile'' (om_del ''mode'' params)))"

definition formatCliExampleCommand :: "json_text \<Rightarrow> string \<Rightarrow> json_obj \<Rightarrow> string" where
  "formatCliExampleCommand jt cmdName ex =
     (if to_string (jval ex ''mode'') = ''stdio''
      then ''echo '' @ [CHR 0x27] @ ''<jsonl>'' @ [CHR 0x27] @ '' | <program> --mode=stdio''
      else join_with '' '' (example_words jt cmdName ex))"

definition formatCliExampleStdinLine :: "json_text \<Rightarrow> string \<Rightarrow> json_obj \<Rightarrow> string" where
  "formatCliExampleStdinLine jt cmdName ex =
     jt_compact jt (JObj (jset ''data'' (JObj (to_object (jval ex ''params''))) (jset ''cmd'' (JStr cmdName) [])))"

section \<open>Arguments of a service\<close>

record service_args =
  sa_serviceDir :: string
  sa_help :: bool
  sa_version :: bool
  sa_dumpSchema :: bool
  sa_guardName :: string
  sa_configFilePath :: string
  sa_dataRoot :: string
  sa_rawConfigArgs :: "raw_cli_arg list"
  sa_error :: string

definition ServiceArgs :: service_args where
  "ServiceArgs = \<lparr>sa_serviceDir = [], sa_help = False, sa_version = False, sa_dumpSchema = False, sa_guardName = [],
     sa_configFilePath = [], sa_dataRoot = [], sa_rawConfigArgs = [], sa_error = []\<rparr>"

text \<open>The collected configuration arguments are parsed again with each new one, to report the first
  that does not fit.\<close>

definition service_config_arg :: "json_text \<Rightarrow> string \<Rightarrow> service_args \<Rightarrow> service_args" where
  "service_config_arg jt arg r =
     (case index_of_char (CHR ''='') arg of
        None \<Rightarrow> r\<lparr>sa_error := ''missing '' @ [CHR 0x27] @ ''='' @ [CHR 0x27] @ '' in config argument: '' @ arg\<rparr>
      | Some i \<Rightarrow>
          (let r' = r\<lparr>sa_rawConfigArgs := sa_rawConfigArgs r
                 @ [\<lparr>ra_path = drop 9 (take i arg), ra_value = drop (i + 1) arg\<rparr>]\<rparr>
           in case codec_parseArgs jt Friendly (sa_rawConfigArgs r') of
                Inl e \<Rightarrow> r'\<lparr>sa_error := ''invalid config argument '' @ [CHR 0x27] @ arg @ [CHR 0x27] @ '': '' @ e\<rparr>
              | Inr _ \<Rightarrow> r'))"

fun service_arguments :: "json_text \<Rightarrow> string list \<Rightarrow> string \<Rightarrow> service_args \<Rightarrow> service_args" where
  "service_arguments jt [] dir r =
     (if dir = [] \<and> \<not> sa_help r then r\<lparr>sa_error := ''no service directory provided''\<rparr>
      else r\<lparr>sa_serviceDir := dir\<rparr>)"
| "service_arguments jt (arg # rest) dir r =
     (if arg = ''--help'' \<or> arg = ''-h'' then service_arguments jt rest dir (r\<lparr>sa_help := True\<rparr>)
      else if arg = ''--version'' \<or> arg = ''-v'' then r\<lparr>sa_version := True\<rparr>
      else if arg = ''--dump-config-schema'' then service_arguments jt rest dir (r\<lparr>sa_dumpSchema := True\<rparr>)
      else if starts_with ''--guard='' arg then service_arguments jt rest dir (r\<lparr>sa_guardName := drop 8 arg\<rparr>)
      else if starts_with ''--config-file='' arg
      then service_arguments jt rest dir (r\<lparr>sa_configFilePath := drop 14 arg\<rparr>)
      else if starts_with ''--data-obj='' arg then service_arguments jt rest dir (r\<lparr>sa_dataRoot := drop 12 arg\<rparr>)
      else if starts_with ''--config.'' arg then
        (let r' = service_config_arg jt arg r
         in if sa_error r' \<noteq> [] then r' else service_arguments jt rest dir r')
      else if dir = [] \<and> \<not> starts_with ''--'' arg then service_arguments jt rest arg r
      else if starts_with ''--'' arg then r\<lparr>sa_error := ''unknown option: '' @ arg\<rparr>
      else r\<lparr>sa_error := ''unexpected argument: '' @ arg\<rparr>)"

definition ServiceArgs_parse :: "json_text \<Rightarrow> string list \<Rightarrow> service_args" where
  "ServiceArgs_parse jt argv =
     (if argv = [] then ServiceArgs\<lparr>sa_error := ''no service directory provided''\<rparr>
      else service_arguments jt argv [] ServiceArgs)"

text \<open>\<open>loadConfigFile\<close> on the bytes that could be read of a file or the standard input: \<open>None\<close> when it
  cannot be opened, else its size, whether that is known, and its bytes.\<close>

datatype config_input = CannotOpen | SizedFile "bytes" | Sequential "bytes"

definition kMaxConfigFileBytes :: nat where
  "kMaxConfigFileBytes = 1048576"

definition config_document :: "(bytes \<Rightarrow> string + json) \<Rightarrow> bytes \<Rightarrow> string + json_obj" where
  "config_document parse data =
     (case parse data of
        Inl e \<Rightarrow> Inl (''config file JSON parse error: '' @ e)
      | Inr j \<Rightarrow>
          (case j of JObj obj \<Rightarrow> Inr obj | _ \<Rightarrow> Inl ''config file must contain a JSON object''))"

definition loadConfigFile :: "(bytes \<Rightarrow> string + json) \<Rightarrow> string \<Rightarrow> config_input \<Rightarrow> string + json_obj" where
  "loadConfigFile parse filePath input =
     (case input of
        CannotOpen \<Rightarrow>
          Inl (if filePath = ''-'' then ''cannot read config from stdin'' else ''cannot open config file: '' @ filePath)
      | SizedFile data \<Rightarrow>
          if length data > kMaxConfigFileBytes
          then Inl (if filePath = ''-''
                    then ''config from stdin too large (limit '' @ dec kMaxConfigFileBytes @ '' bytes)''
                    else ''config file too large ('' @ dec (length data) @ '' bytes, limit ''
                      @ dec kMaxConfigFileBytes @ '')'')
          else config_document parse data
      | Sequential data \<Rightarrow>
          if length data > kMaxConfigFileBytes
          then Inl (''config input too large (limit '' @ dec kMaxConfigFileBytes @ '' bytes)'')
          else config_document parse data)"

end
