(* ===== verification/CliCodecSpec.thy ===== *)
theory CliCodecSpec
  imports ConsoleArgs
begin

text \<open>
  What the command line promises: a path that is rendered is the path that is parsed, an object that
  is rendered as arguments is the object that is read from them, and the command line the
  documentation shows for an example gives the driver the parameters of the example, but for the
  members named \<open>mode\<close> and \<open>profile\<close>, which it leaves out.
\<close>

section \<open>Paths\<close>

lemma parse_quoted_escaped: "parse_quoted (escaped_key key @ [char_quote] @ '']'' @ rest) = Inr (key, rest)"
  by (induction key) (auto simp: escaped_key_def)

lemma simple_word_bare: "simple_word key \<Longrightarrow> key \<noteq> [] \<and> list_all bare_char key"
  by (auto simp: simple_word_def bare_char_def is_letter_def is_digit_def less_eq_char_def list_all_iff split: list.splits)

lemma isSimpleKey_bare: "isSimpleKey key \<Longrightarrow> key \<noteq> [] \<and> list_all bare_char key"
proof -
  assume key: "isSimpleKey key"
  show ?thesis
  proof (cases "simple_word key")
    case False
    with key have k: "key \<noteq> []" "last key = char_newline" "simple_word (butlast key)"
      by (auto simp: isSimpleKey_def)
    then have "list_all bare_char (butlast key @ [last key])"
      using simple_word_bare [OF k(3)] by (simp add: bare_char_def)
    with k(1) show ?thesis by simp
  qed (rule simple_word_bare)
qed

text \<open>What can follow a segment in a path.\<close>

definition path_tail :: "string \<Rightarrow> bool" where
  "path_tail s = (s = [] \<or> hd s = CHR ''.'' \<or> hd s = CHR ''['')"

lemma takeWhile_bare: "list_all bare_char key \<Longrightarrow> path_tail tail \<Longrightarrow>
    takeWhile bare_char (key @ tail) = key \<and> dropWhile bare_char (key @ tail) = tail"
  by (cases tail) (auto simp: path_tail_def bare_char_def list_all_iff)

lemma parse_bare_key: "isSimpleKey key \<Longrightarrow> path_tail tail \<Longrightarrow> parse_segment (key @ tail) = Inr (SegKey key, tail)"
proof -
  assume key: "isSimpleKey key" and tail: "path_tail tail"
  then have k: "key \<noteq> []" "list_all bare_char key" using isSimpleKey_bare by blast+
  then obtain c cs where c: "key = c # cs" "bare_char c" by (cases key) auto
  then have "c \<noteq> CHR ''[''" by (simp add: bare_char_def)
  then show ?thesis
    using takeWhile_bare [OF k(2) tail] c(1) by (simp add: parse_segment_def Let_def)
qed

lemma parse_quoted_key: "parse_segment (quotedForPath key @ tail) = Inr (SegKey key, tail)"
  using parse_quoted_escaped [of key tail] by (simp add: parse_segment_def quotedForPath_def)

lemma dec_int_chars: "c \<in> set (dec_int i) \<Longrightarrow> is_digit c \<or> c = CHR ''-''"
  using dec_digits by (auto simp: dec_int_def list_all_iff split: if_splits)

lemma dec_int_not_Nil: "dec_int i \<noteq> []"
  using dec_digits by (auto simp: dec_int_def)

lemma dec_int_no: "c \<in> {CHR '']'', char_quote, CHR ''='', CHR ''.'', CHR ''[''} \<Longrightarrow> c \<notin> set (dec_int i)"
  using dec_int_chars [of c i] by (auto simp: is_digit_def less_eq_char_def)

lemma parse_index: "in_int i \<Longrightarrow> parse_segment (''['' @ dec_int i @ '']'' @ tail) = Inr (SegIndex i, tail)"
proof -
  assume i: "in_int i"
  obtain d ds where d: "dec_int i = d # ds" using dec_int_not_Nil by (cases "dec_int i") auto
  then have "d \<noteq> CHR '']''" "d \<noteq> char_quote" "\<forall>c \<in> set ds. c \<noteq> CHR '']''"
    using dec_int_no [of _ i] by auto
  moreover have "text_int (d # ds) = Some i"
    using i text_integer_dec_int [of i] by (simp add: text_int_def d)
  ultimately show ?thesis
    by (simp add: parse_segment_def d takeWhile_append2 dropWhile_append2)
qed

definition plain_segment :: "cli_segment \<Rightarrow> bool" where
  "plain_segment seg = (case seg of SegKey _ \<Rightarrow> True | SegIndex i \<Rightarrow> in_int i | SegAppend \<Rightarrow> True)"

lemma render_segment_shape:
  "render_segment first seg \<noteq> []"
  "\<not> first \<Longrightarrow> path_tail (render_segment first seg @ tail)"
  using isSimpleKey_bare by (cases seg; auto simp: path_tail_def quotedForPath_def)+

lemma parse_rendered_segment:
  assumes "plain_segment seg" and "path_tail tail" and "first \<longrightarrow> (\<exists>key. seg = SegKey key)"
  defines "s \<equiv> render_segment first seg @ tail"
  shows "parse_segment (if hd s = CHR ''.'' then tl s else s) = Inr (seg, tail)"
proof (cases seg)
  case (SegKey key)
  have bare: "isSimpleKey key \<Longrightarrow> hd (key @ tail) \<noteq> CHR ''.''"
    using isSimpleKey_bare [of key] by (cases key) (auto simp: bare_char_def)
  show ?thesis
  proof (cases "isSimpleKey key")
    case True
    then show ?thesis
      using parse_bare_key [OF True assms(2)] bare by (simp add: s_def SegKey)
  next
    case False
    then show ?thesis
      using parse_quoted_key [of key tail] by (simp add: s_def SegKey quotedForPath_def)
  qed
next
  case (SegIndex i)
  then show ?thesis
    using assms(1) parse_index [of i tail] by (simp add: s_def plain_segment_def)
next
  case SegAppend
  then show ?thesis by (simp add: s_def parse_segment_def)
qed

definition render_tail :: "cli_path \<Rightarrow> string" where
  "render_tail path = concat (map (render_segment False) path)"

lemma path_tail_render: "path_tail (render_tail path)"
proof (cases path)
  case (Cons seg path')
  then show ?thesis using render_segment_shape(2) [of False seg] by (simp add: render_tail_def)
qed (simp add: render_tail_def path_tail_def)

lemma parse_segments_step:
  assumes "s \<noteq> []" and "parse_segment (if hd s = CHR ''.'' then tl s else s) = Inr (seg, rest)"
    and "parse_segments rest = Inr path"
  shows "parse_segments s = Inr (seg # path)"
  by (subst parse_segments.simps) (simp only: assms if_False sum.case prod.case)

lemma parse_segments_tail: "list_all plain_segment path \<Longrightarrow> parse_segments (render_tail path) = Inr path"
proof (induction path)
  case Nil
  then show ?case by (simp add: render_tail_def parse_segments.simps)
next
  case (Cons seg path)
  have eq: "render_tail (seg # path) = render_segment False seg @ render_tail path" by (simp add: render_tail_def)
  then have "render_tail (seg # path) \<noteq> []" using render_segment_shape(1) by simp
  with Cons parse_rendered_segment [of seg "render_tail path" False] path_tail_render show ?case
    unfolding eq by (intro parse_segments_step) simp_all
qed

lemma renderPath_from: "out \<noteq> [] \<Longrightarrow> foldl (\<lambda>out seg. out @ render_segment (out = []) seg) out path = out @ render_tail path"
  by (induction path arbitrary: out) (simp_all add: render_tail_def)

lemma renderPath_Cons: "renderPath (seg # path) = render_segment True seg @ render_tail path"
  using renderPath_from [of "render_segment True seg" path] render_segment_shape(1) [of True seg]
  by (simp add: renderPath_def)

text \<open>A path that is rendered is the path that is parsed, whatever its keys are.\<close>

lemma path_roundtrip:
  assumes "list_all plain_segment path"
  shows "parsePath (renderPath (SegKey key # path)) = Inr (SegKey key # path)"
proof -
  let ?s = "render_segment True (SegKey key) @ render_tail path"
  have "?s \<noteq> []" using render_segment_shape(1) [of True "SegKey key"] by simp
  moreover have "parse_segment (if hd ?s = CHR ''.'' then tl ?s else ?s) = Inr (SegKey key, render_tail path)"
    by (intro parse_rendered_segment path_tail_render) (simp_all add: plain_segment_def)
  ultimately have "parse_segments ?s = Inr (SegKey key # path)" "?s \<noteq> []"
    using parse_segments_step [OF _ _ parse_segments_tail [OF assms]] by blast+
  then show ?thesis unfolding renderPath_Cons parsePath_def by (simp only: if_False)
qed

section \<open>Objects\<close>

text \<open>An object or array as the library keeps it: members sorted and distinct, none undefined.\<close>

primrec json_normal :: "json \<Rightarrow> bool" where
  "json_normal JUndefined = False"
| "json_normal JNull = True"
| "json_normal (JBool b) = True"
| "json_normal (JNum r) = True"
| "json_normal (JStr s) = True"
| "json_normal (JArr vs) = (list_all (\<lambda>b. b) (map json_normal vs) \<and> length vs \<le> 2147483648)"
| "json_normal (JObj obj) = (om_ok obj \<and> list_all snd (map (map_prod id json_normal) obj))"

text \<open>The leaves that the rendering turns into arguments.\<close>

function json_leaves :: "json \<Rightarrow> (cli_path \<times> json) list" where
  "json_leaves (JObj obj) =
     (if obj = [] then [([], JObj [])]
      else concat (map (\<lambda>(k, v). map (\<lambda>(p, l). (SegKey k # p, l)) (json_leaves v)) obj))"
| "json_leaves (JArr vs) =
     (if vs = [] then [([], JArr [])]
      else concat (map (\<lambda>i. map (\<lambda>(p, l). (SegIndex (int i) # p, l)) (json_leaves (vs ! i))) [0..<length vs]))"
| "json_leaves JUndefined = [([], JUndefined)]"
| "json_leaves JNull = [([], JNull)]"
| "json_leaves (JBool b) = [([], JBool b)]"
| "json_leaves (JNum r) = [([], JNum r)]"
| "json_leaves (JStr s) = [([], JStr s)]"
  by pat_completeness auto
termination
proof (relation "measure size")
  fix obj k v and p :: "string \<times> json"
  assume "p \<in> set obj" and "(k, v) = p"
  then show "(v, JObj obj) \<in> measure size"
    by (auto dest!: size_list_estimation' [of "(k, v)" obj "size v" "size_prod (\<lambda>_. 0) size"] simp: le_imp_less_Suc)
next
  fix vs :: "json list" and i
  assume "i \<in> set [0..<length vs]"
  then show "(vs ! i, JArr vs) \<in> measure size"
    by (auto intro!: le_imp_less_Suc size_list_estimation' [OF nth_mem])
qed simp

text \<open>The tree the arguments of a value build.\<close>

primrec node_of :: "json \<Rightarrow> cli_node" where
  "node_of JUndefined = literal_node JUndefined"
| "node_of JNull = literal_node JNull"
| "node_of (JBool b) = literal_node (JBool b)"
| "node_of (JNum r) = literal_node (JNum r)"
| "node_of (JStr s) = literal_node (JStr s)"
| "node_of (JArr vs) =
     (if vs = [] then literal_node (JArr []) else CliNode KArray OAggregated JNull [] (map node_of vs) False True)"
| "node_of (JObj obj) =
     (if obj = [] then literal_node (JObj [])
      else CliNode KObject OAggregated JNull (map (map_prod id node_of) obj) [] False False)"

abbreviation (input) "obj_node obj \<equiv> CliNode KObject OAggregated JNull obj [] False False"
abbreviation (input) "arr_node arr ix \<equiv> CliNode KArray OAggregated JNull [] arr False ix"

fun assign_leaves :: "(cli_path \<times> json) list \<Rightarrow> cli_node \<Rightarrow> string + cli_node" where
  "assign_leaves [] n = Inr n"
| "assign_leaves ((p, l) # ls) n = (case assignPath p l n of Inl e \<Rightarrow> Inl e | Inr n' \<Rightarrow> assign_leaves ls n')"

lemma assign_leaves_append:
  "assign_leaves (xs @ ys) n = (case assign_leaves xs n of Inl e \<Rightarrow> Inl e | Inr n' \<Rightarrow> assign_leaves ys n')"
  by (induction xs n rule: assign_leaves.induct) (auto split: sum.split)

lemma assign_leaves_key:
  assumes "ls \<noteq> []"
  shows "assign_leaves (map (\<lambda>(p, l). (SegKey k # p, l)) ls) (obj_node obj) =
    (case assign_leaves ls (case om_get obj k of Some c \<Rightarrow> c | None \<Rightarrow> unset_node) of
       Inl e \<Rightarrow> Inl e | Inr c \<Rightarrow> Inr (obj_node (om_put k c obj)))"
  using assms
proof (induction ls arbitrary: obj)
  case (Cons pl ls)
  obtain p l where pl: "pl = (p, l)" by fastforce
  show ?case
    by (cases "ls = []") (simp_all add: pl ensure_node_def Cons.IH split: sum.split)
qed simp

lemma assign_leaves_key_unset:
  "ls \<noteq> [] \<Longrightarrow> assign_leaves (map (\<lambda>(p, l). (SegKey k # p, l)) ls) unset_node
    = assign_leaves (map (\<lambda>(p, l). (SegKey k # p, l)) ls) (obj_node [])"
  by (cases ls) (auto simp: ensure_node_def unset_node_def)

lemma grow_old: "i < length xs \<Longrightarrow> grow i xs = xs"
  by (simp add: grow_def)

lemma grow_next: "grow (length xs) xs = xs @ [unset_node]"
  by (simp add: grow_def)

lemma assign_leaves_index:
  assumes "ls \<noteq> []"
  shows "assign_leaves (map (\<lambda>(p, l). (SegIndex (int i) # p, l)) ls) (arr_node arr ix) =
    (case assign_leaves ls (grow i arr ! i) of
       Inl e \<Rightarrow> Inl e | Inr c \<Rightarrow> Inr (arr_node ((grow i arr)[i := c]) True))"
  using assms
proof (induction ls arbitrary: arr ix)
  case (Cons pl ls)
  obtain p l where pl: "pl = (p, l)" by fastforce
  have len: "i < length (grow i arr)" by (simp add: grow_def)
  show ?case
    by (cases "ls = []") (simp_all add: pl ensure_node_def Cons.IH len grow_old split: sum.split)
qed simp

lemma assign_leaves_index_unset:
  "ls \<noteq> [] \<Longrightarrow> assign_leaves (map (\<lambda>(p, l). (SegIndex i # p, l)) ls) unset_node
    = assign_leaves (map (\<lambda>(p, l). (SegIndex i # p, l)) ls) (arr_node [] False)"
  by (cases ls) (auto simp: ensure_node_def unset_node_def)

lemma om_put_last: "om_ok (m @ [(k, v)]) \<Longrightarrow> om_put k w m = m @ [(k, w)]"
  by (induction m) (auto simp: om_ok_def)

lemma om_get_last: "om_ok (m @ [(k, v)]) \<Longrightarrow> om_get m k = None"
  by (induction m) (auto simp: om_ok_def)

lemma json_leaves_not_Nil: "json_leaves v \<noteq> []"
proof (induction v rule: json_leaves.induct)
  case (1 obj)
  show ?case
  proof (cases obj)
    case (Cons kv obj')
    obtain k v where kv: "kv = (k, v)" by fastforce
    have "obj \<noteq> []" "kv \<in> set obj" by (simp_all add: Cons)
    from 1 [OF this kv [symmetric]] have "json_leaves v \<noteq> []" .
    then show ?thesis by (simp add: Cons kv)
  qed simp
next
  case (2 vs)
  show ?case
  proof (cases vs)
    case (Cons v vs')
    then have "vs \<noteq> []" "0 \<in> set [0..<length vs]" by simp_all
    from 2 [OF this] have "json_leaves v \<noteq> []" by (simp add: Cons)
    then show ?thesis by (simp add: Cons upt_conv_Cons del: upt_Suc)
  qed simp
qed simp_all

lemma assign_members:
  assumes "\<forall>(k, v) \<in> set kvs. assign_leaves (json_leaves v) unset_node = Inr (node_of v)"
    and "sorted_wrt (<) (map fst old @ map fst kvs)"
  shows "assign_leaves (concat (map (\<lambda>(k, v). map (\<lambda>(p, l). (SegKey k # p, l)) (json_leaves v)) kvs)) (obj_node old)
    = Inr (obj_node (old @ map (map_prod id node_of) kvs))"
  using assms
proof (induction kvs arbitrary: old)
  case (Cons kv kvs)
  obtain k v where kv: "kv = (k, v)" by fastforce
  have last: "om_ok (old @ [(k, node_of v)])" "om_ok (old @ [(k, c)])" for c
    using Cons.prems(2) by (auto simp: om_ok_def kv sorted_wrt_append)
  have "om_get old k = None" "om_put k (node_of v) old = old @ [(k, node_of v)]"
    using om_get_last [OF last(1)] om_put_last [OF last(1)] by simp_all
  then have "assign_leaves (map (\<lambda>(p, l). (SegKey k # p, l)) (json_leaves v)) (obj_node old)
      = Inr (obj_node (old @ [(k, node_of v)]))"
    using Cons.prems(1) by (simp add: assign_leaves_key [OF json_leaves_not_Nil] kv)
  moreover have "assign_leaves (concat (map (\<lambda>(k, v). map (\<lambda>(p, l). (SegKey k # p, l)) (json_leaves v)) kvs))
      (obj_node (old @ [(k, node_of v)])) = Inr (obj_node ((old @ [(k, node_of v)]) @ map (map_prod id node_of) kvs))"
    using Cons.prems by (intro Cons.IH) (simp_all add: kv)
  ultimately show ?case by (simp add: kv assign_leaves_append id_def)
qed simp

lemma assign_elements:
  assumes "\<forall>v \<in> set vs. assign_leaves (json_leaves v) unset_node = Inr (node_of v)" and "n \<le> length vs" and "0 < n"
  shows "assign_leaves (concat (map (\<lambda>i. map (\<lambda>(p, l). (SegIndex (int i) # p, l)) (json_leaves (vs ! i))) [0..<n]))
      (arr_node [] False) = Inr (arr_node (map node_of (take n vs)) True)"
  using assms
proof (induction n)
  case (Suc n)
  then have n: "n < length vs" by simp
  have elem: "assign_leaves (json_leaves (vs ! n)) unset_node = Inr (node_of (vs ! n))"
    using Suc.prems(1) n by simp
  have "assign_leaves (map (\<lambda>(p, l). (SegIndex (int n) # p, l)) (json_leaves (vs ! n))) (arr_node (map node_of (take n vs)) ix)
      = Inr (arr_node (map node_of (take (Suc n) vs)) True)" for ix
    using grow_next [of "map node_of (take n vs)"] n elem
    by (simp add: assign_leaves_index [OF json_leaves_not_Nil] min_def nth_append take_Suc_conv_app_nth list_update_append)
  then show ?case
    using Suc by (cases "n = 0") (simp_all add: assign_leaves_append)
qed simp

lemma assign_json: "json_normal v \<Longrightarrow> assign_leaves (json_leaves v) unset_node = Inr (node_of v)"
proof (induction v rule: json_leaves.induct)
  case (1 obj)
  show ?case
  proof (cases "obj = []")
    case True
    then show ?thesis by (simp add: unset_node_def)
  next
    case False
    obtain k v obj' where obj: "obj = (k, v) # obj'" using False by (cases obj) auto
    have members: "\<forall>(k, v) \<in> set obj. assign_leaves (json_leaves v) unset_node = Inr (node_of v)"
      using 1 False by (auto simp: list_all_iff)
    let ?ls = "concat (map (\<lambda>(k, v). map (\<lambda>(p, l). (SegKey k # p, l)) (json_leaves v)) obj)"
    have "assign_leaves ?ls unset_node = assign_leaves ?ls (obj_node [])"
      by (simp add: obj assign_leaves_append assign_leaves_key_unset [OF json_leaves_not_Nil])
    also have "\<dots> = Inr (obj_node (map (map_prod id node_of) obj))"
      using assign_members [OF members, of "[]"] 1(2) by (simp add: om_ok_def)
    finally show ?thesis using False by simp
  qed
next
  case (2 vs)
  show ?case
  proof (cases "vs = []")
    case True
    then show ?thesis by (simp add: unset_node_def)
  next
    case False
    have elements: "\<forall>v \<in> set vs. assign_leaves (json_leaves v) unset_node = Inr (node_of v)"
    proof
      fix v
      assume v: "v \<in> set vs"
      then obtain i where i: "i < length vs" "v = vs ! i" by (auto simp: in_set_conv_nth)
      have "json_normal v" using 2(2) v by (simp add: list_all_iff)
      then show "assign_leaves (json_leaves v) unset_node = Inr (node_of v)"
        using 2(1) [OF False, of i] i by simp
    qed
    have up: "[0..<length vs] = 0 # [1..<length vs]" using False by (simp add: upt_conv_Cons)
    let ?ls = "concat (map (\<lambda>i. map (\<lambda>(p, l). (SegIndex (int i) # p, l)) (json_leaves (vs ! i))) [0..<length vs])"
    have "assign_leaves ?ls unset_node = assign_leaves ?ls (arr_node [] False)"
      unfolding up by (simp add: assign_leaves_append assign_leaves_index_unset [OF json_leaves_not_Nil])
    also have "\<dots> = Inr (arr_node (map node_of vs) True)"
      using assign_elements [OF elements order_refl] False by simp
    finally show ?thesis using False by simp
  qed
qed (simp_all add: unset_node_def)

lemma fold_jset_sorted:
  assumes "om_ok (old @ obj)" and "\<forall>(k, v) \<in> set obj. \<not> is_undefined v"
  shows "fold (\<lambda>(key, v). jset key v) obj old = old @ obj"
  using assms
proof (induction obj arbitrary: old)
  case (Cons kv obj)
  obtain k v where kv: "kv = (k, v)" by fastforce
  have "om_ok (old @ [(k, v)])" using Cons.prems(1) by (auto simp: om_ok_def kv sorted_wrt_append)
  then have "jset k v old = old @ [(k, v)]"
    using Cons.prems(2) om_put_last by (simp add: jset_def kv)
  with Cons show ?case by (simp add: kv)
qed simp

lemma json_normal_defined: "json_normal v \<Longrightarrow> \<not> is_undefined v"
  by (cases v) simp_all

lemma node_json: "json_normal v \<Longrightarrow> nodeToJson (node_of v) = v"
proof (induction v)
  case (JArr vs)
  then have "map nodeToJson (map node_of vs) = vs" by (simp add: list_all_iff map_idI)
  then show ?case by (simp add: literal_node_def)
next
  case (JObj obj)
  have members: "map (map_prod id nodeToJson) (map (map_prod id node_of) obj) = obj"
  proof -
    have "map_prod id nodeToJson (map_prod id node_of p) = p" if "p \<in> set obj" for p
    proof -
      obtain k v where p: "p = (k, v)" by fastforce
      have "json_normal v" using that JObj.prems by (auto simp: list_all_iff p)
      then have "nodeToJson (node_of v) = v" using JObj.IH [OF that, of v] by (simp add: p)
      then show ?thesis by (simp add: p)
    qed
    then show ?thesis by (simp add: map_idI del: map_prod_compose)
  qed
  have "fold (\<lambda>(key, v). jset key v) obj [] = obj"
    using JObj.prems fold_jset_sorted [of "[]" obj] json_normal_defined by (fastforce simp: list_all_iff)
  with members show ?case by (simp add: literal_node_def del: map_map)
qed (simp_all add: literal_node_def)

section \<open>Arguments\<close>

definition leaf_text :: "json_text \<Rightarrow> json \<Rightarrow> string" where
  "leaf_text jt l = (if l = JObj [] then ''{}'' else if l = JArr [] then ''[]'' else canonicalLiteral jt l)"

text \<open>What is used of the library: the text of a leaf, written into brackets, is read as the leaf.\<close>

definition literal_ok :: "json_text \<Rightarrow> json \<Rightarrow> bool" where
  "literal_ok jt l = (parseJsonLiteral jt (leaf_text jt l) = Some l)"

definition arg_leaves :: "json_obj \<Rightarrow> (cli_path \<times> json) list" where
  "arg_leaves obj = concat (map (\<lambda>(k, v). map (\<lambda>(p, l). (SegKey k # p, l)) (json_leaves v)) obj)"

definition leaf_arg :: "json_text \<Rightarrow> cli_path \<times> json \<Rightarrow> raw_cli_arg" where
  "leaf_arg jt pl = \<lparr>ra_path = renderPath (fst pl), ra_value = leaf_text jt (snd pl)\<rparr>"

lemma render_value_leaves:
  "renderValueRecursive jt eq prefix v = map (\<lambda>(p, l). render_arg eq (prefix @ p) (leaf_text jt l)) (json_leaves v)"
proof (induction jt eq prefix v rule: renderValueRecursive.induct)
  case (1 jt eq prefix obj)
  show ?case
  proof (cases "obj = []")
    case False
    have "concat (map (\<lambda>(k, v). renderValueRecursive jt eq (prefix @ [SegKey k]) v) obj)
      = concat (map (\<lambda>(k, v). map (\<lambda>(p, l). render_arg eq (prefix @ SegKey k # p) (leaf_text jt l)) (json_leaves v)) obj)"
      using 1 [OF False] by (intro arg_cong [where f = concat] map_cong) auto
    with False show ?thesis by (simp add: map_concat comp_def case_prod_unfold)
  qed (simp add: leaf_text_def)
next
  case (2 jt eq prefix vs)
  show ?case
  proof (cases "vs = []")
    case False
    have "concat (map (\<lambda>i. renderValueRecursive jt eq (prefix @ [SegIndex (int i)]) (vs ! i)) [0..<length vs])
      = concat (map (\<lambda>i. map (\<lambda>(p, l). render_arg eq (prefix @ SegIndex (int i) # p) (leaf_text jt l)) (json_leaves (vs ! i)))
          [0..<length vs])"
      using 2 [OF False] by (intro arg_cong [where f = concat] map_cong) auto
    with False show ?thesis by (simp add: map_concat comp_def case_prod_unfold)
  qed (simp add: leaf_text_def)
qed (simp_all add: leaf_text_def)

lemma renderArgs_leaves: "renderArgs jt eq obj = map (\<lambda>(p, l). render_arg eq p (leaf_text jt l)) (arg_leaves obj)"
  by (simp add: renderArgs_def arg_leaves_def render_value_leaves map_concat comp_def case_prod_unfold)

lemma leaf_paths: "json_normal v \<Longrightarrow> (p, l) \<in> set (json_leaves v) \<Longrightarrow> list_all plain_segment p"
proof (induction v arbitrary: p rule: json_leaves.induct)
  case (1 obj)
  show ?case
  proof (cases "obj = []")
    case False
    with "1.prems"(2) obtain k v q where m: "(k, v) \<in> set obj" "p = SegKey k # q" "(q, l) \<in> set (json_leaves v)"
      by auto
    have "json_normal v" using "1.prems"(1) m(1) by (auto simp: list_all_iff)
    from "1.IH" [OF False m(1) refl this m(3)] m(2) show ?thesis by (simp add: plain_segment_def)
  qed (use 1 in simp)
next
  case (2 vs)
  show ?case
  proof (cases "vs = []")
    case False
    with "2.prems"(2) obtain i q where m: "i < length vs" "p = SegIndex (int i) # q" "(q, l) \<in> set (json_leaves (vs ! i))"
      by auto
    have "json_normal (vs ! i)" "length vs \<le> 2147483648" using "2.prems"(1) m(1) by (auto simp: list_all_iff)
    moreover have "i \<in> set [0..<length vs]" using m(1) by simp
    from "2.IH" [OF False this calculation(1) m(3)] calculation(2) m(1,2) show ?thesis
      by (simp add: plain_segment_def in_int_def int_min_def int_max_def)
  qed (use 2 in simp)
qed simp_all

lemma arg_leaf_path:
  assumes "json_normal (JObj obj)" and "(p, l) \<in> set (arg_leaves obj)"
  shows "\<exists>k q. p = SegKey k # q \<and> k \<in> set (map fst obj) \<and> list_all plain_segment q"
proof -
  obtain k v q where m: "(k, v) \<in> set obj" "p = SegKey k # q" "(q, l) \<in> set (json_leaves v)"
    using assms(2) by (auto simp: arg_leaves_def)
  have "json_normal v" using assms(1) m(1) by (auto simp: list_all_iff)
  from leaf_paths [OF this m(3)] m show ?thesis by force
qed

lemma assign_args_leaves:
  assumes "list_all2 (\<lambda>a (p, l). parsePath (ra_path a) = Inr p \<and> arg_value jt mode (ra_value a) = Inr l) as ls"
  shows "assign_args jt mode as n = assign_leaves ls n"
  using assms by (induction as ls arbitrary: n rule: list_all2_induct)
    (auto simp: assign_arg_def split: sum.split)

lemma assign_arg_leaves:
  assumes "json_normal (JObj obj)"
  shows "assign_leaves (arg_leaves obj) root_node = Inr (obj_node (map (map_prod id node_of) obj))"
proof -
  have "\<forall>(k, v) \<in> set obj. assign_leaves (json_leaves v) unset_node = Inr (node_of v)"
    using assms assign_json by (auto simp: list_all_iff)
  from assign_members [OF this, of "[]"] assms show ?thesis
    by (simp add: arg_leaves_def root_node_def om_ok_def)
qed

lemma members_json:
  assumes "json_normal (JObj obj)"
  shows "nodeToJson (obj_node (map (map_prod id node_of) obj)) = JObj obj"
proof (cases "obj = []")
  case False
  then show ?thesis using node_json [OF assms] by simp
qed simp

lemma leaf_path_roundtrip:
  assumes "json_normal (JObj obj)" and "(p, l) \<in> set (arg_leaves obj)"
  shows "parsePath (renderPath p) = Inr p"
proof -
  obtain k q where "p = SegKey k # q" "list_all plain_segment q" using arg_leaf_path [OF assms] by blast
  then show ?thesis by (simp add: path_roundtrip)
qed

text \<open>Arguments at the rendered paths with values that are read as the leaves build the object.\<close>

lemma parse_valued_args:
  assumes "json_normal (JObj obj)"
    and "\<forall>(p, l) \<in> set (arg_leaves obj). arg_value jt mode (text l) = Inr l"
  shows "codec_parseArgs jt mode (map (\<lambda>(p, l). \<lparr>ra_path = renderPath p, ra_value = text l\<rparr>) (arg_leaves obj)) = Inr obj"
proof -
  have "list_all2 (\<lambda>a (p, l). parsePath (ra_path a) = Inr p \<and> arg_value jt mode (ra_value a) = Inr l)
      (map (\<lambda>(p, l). \<lparr>ra_path = renderPath p, ra_value = text l\<rparr>) (arg_leaves obj)) (arg_leaves obj)"
    using leaf_path_roundtrip [OF assms(1)] assms(2) by (auto simp: list.rel_map intro!: list.rel_refl_strong)
  from assign_args_leaves [OF this] show ?thesis
    using assign_arg_leaves [OF assms(1)] members_json [OF assms(1)] by (simp add: codec_parseArgs_def)
qed

lemma literal_value: "literal_ok jt l \<Longrightarrow> arg_value jt mode (leaf_text jt l) = Inr l"
  by (simp add: literal_ok_def arg_value_def inferFriendlyValue_def)

lemma parse_leaf_args:
  assumes "json_normal (JObj obj)" and "\<forall>(p, l) \<in> set (arg_leaves obj). literal_ok jt l"
  shows "codec_parseArgs jt mode (map (leaf_arg jt) (arg_leaves obj)) = Inr obj"
proof -
  have "leaf_arg jt = (\<lambda>(p, l). \<lparr>ra_path = renderPath p, ra_value = leaf_text jt l\<rparr>)"
    by (auto simp: leaf_arg_def)
  moreover have "\<forall>(p, l) \<in> set (arg_leaves obj). arg_value jt mode (leaf_text jt l) = Inr l"
    using assms(2) literal_value by blast
  ultimately show ?thesis using parse_valued_args [OF assms(1)] by simp
qed

section \<open>The command line of an example\<close>

definition no_equals :: "cli_path \<Rightarrow> bool" where
  "no_equals p = list_all (\<lambda>seg. case seg of SegKey k \<Rightarrow> CHR ''='' \<notin> set k | _ \<Rightarrow> True) p"

lemma escaped_key_equals: "CHR ''='' \<notin> set k \<Longrightarrow> CHR ''='' \<notin> set (escaped_key k)"
  by (auto simp: escaped_key_def split: if_splits)

lemma render_segment_equals:
  "no_equals [seg] \<Longrightarrow> CHR ''='' \<notin> set (render_segment first seg)"
  using dec_int_no [of "CHR ''=''"] escaped_key_equals
  by (cases seg) (auto simp: no_equals_def quotedForPath_def)

lemma renderPath_equals: "no_equals (seg # p) \<Longrightarrow> CHR ''='' \<notin> set (renderPath (seg # p))"
  using render_segment_equals by (auto simp: renderPath_Cons render_tail_def no_equals_def list_all_iff)

lemma index_of_char_here: "c \<notin> set p \<Longrightarrow> index_of_char c (p @ c # s) = Some (length p)"
  by (induction p) auto

lemma isFrameworkArg_iff:
  "isFrameworkArg k \<longleftrightarrow> k \<in> {''help'', ''version'', ''mode'', ''profile'', ''cmd'', ''export-meta'', ''export-doc'', ''guard''}"
  by (auto simp: isFrameworkArg_def findLong_def system_options_def)

text \<open>A parameter whose name is not taken by the framework.\<close>

definition free_name :: "string \<Rightarrow> bool" where
  "free_name k = (\<not> isFrameworkArg k \<and> \<not> starts_with ''arg-'' k)"

lemma free_word_path:
  assumes "free_name k"
  shows "free_name (render_segment True (SegKey k) @ render_tail q)"
proof (cases "isSimpleKey k")
  case False
  then show ?thesis by (simp add: free_name_def isFrameworkArg_iff starts_with_def quotedForPath_def)
next
  case True
  show ?thesis
  proof (cases "render_tail q")
    case Nil
    with True assms show ?thesis by simp
  next
    case (Cons d ds)
    then have d: "d = CHR ''.'' \<or> d = CHR ''[''" using path_tail_render [of q] by (simp add: path_tail_def)
    let ?names = "{''help'', ''version'', ''mode'', ''profile'', ''cmd'', ''export-meta'', ''export-doc'', ''guard''}"
    have "k @ d # ds \<notin> ?names"
    proof
      assume "k @ d # ds \<in> ?names"
      moreover have "d \<in> set (k @ d # ds)" by simp
      ultimately obtain w where "w \<in> ?names" "d \<in> set w" by blast
      with d show False by auto
    qed
    moreover have "take 4 (k @ d # ds) \<noteq> ''arg-''"
    proof
      assume t: "take 4 (k @ d # ds) = ''arg-''"
      show False
      proof (cases "length k < 4")
        case True
        then have "d \<in> set (take 4 (k @ d # ds))" by (cases "4 - length k") auto
        with t d show False by auto
      next
        case False
        with t assms show False by (simp add: free_name_def starts_with_def numeral_eq_Suc)
      qed
    qed
    ultimately have "free_name (k @ d # ds)"
      by (simp add: free_name_def isFrameworkArg_iff starts_with_def numeral_eq_Suc)
    with True Cons show ?thesis by simp
  qed
qed

lemma parse_long_data:
  assumes "CHR ''='' \<notin> set p" and "free_name p"
  shows "parse_long (p @ ''='' @ t) a = Inr (parseDataArg p t a)"
proof -
  have other: "p @ CHR ''='' # t \<noteq> w" if "CHR ''='' \<notin> set w" for w
  proof
    assume "p @ CHR ''='' # t = w"
    then have "CHR ''='' \<in> set w" by auto
    with that show False by simp
  qed
  have "p \<noteq> ''export-meta''" "p \<noteq> ''export-doc''"
    using assms(2) by (auto simp: free_name_def isFrameworkArg_iff)
  then show ?thesis
    using assms index_of_char_here [OF assms(1), of t] other [of "''help''"] other [of "''version''"] other [of "''export-meta''"]
    by (simp add: parse_long_def Let_def free_name_def)
qed

lemma parse_data_words:
  assumes "\<forall>(p, t) \<in> set ws. CHR ''='' \<notin> set p \<and> free_name p"
  shows "parse_arguments (map (\<lambda>(p, t). ''--'' @ p @ ''='' @ t) ws) a
    = Inr (a\<lparr>ca_rawDataArgs := ca_rawDataArgs a @ map (\<lambda>(p, t). \<lparr>ra_path = p, ra_value = t\<rparr>) ws\<rparr>)"
  using assms
proof (induction ws arbitrary: a)
  case (Cons w ws)
  obtain p t where w: "w = (p, t)" by fastforce
  have "parse_long (p @ CHR ''='' # t) a = Inr (parseDataArg p t a)"
    using parse_long_data [of p t a] Cons.prems by (simp add: w)
  then show ?case
    using Cons by (simp add: w starts_with_def parseDataArg_def numeral_2_eq_2)
qed simp

lemma leaf_words:
  assumes "json_normal (JObj obj)" and "\<forall>(p, l) \<in> set (arg_leaves obj). no_equals p"
    and "\<forall>(k, v) \<in> set obj. free_name k"
  shows "parse_arguments (renderArgs jt True obj) a
    = Inr (a\<lparr>ca_rawDataArgs := ca_rawDataArgs a @ map (leaf_arg jt) (arg_leaves obj)\<rparr>)"
proof -
  let ?ws = "map (\<lambda>(p, l). (renderPath p, leaf_text jt l)) (arg_leaves obj)"
  have "\<forall>(p, t) \<in> set ?ws. CHR ''='' \<notin> set p \<and> free_name p"
  proof (clarsimp)
    fix p l
    assume pl: "(p, l) \<in> set (arg_leaves obj)"
    obtain k q where p: "p = SegKey k # q" "k \<in> set (map fst obj)"
      using arg_leaf_path [OF assms(1) pl] by blast
    have "CHR ''='' \<notin> set (renderPath p)" using renderPath_equals [of "SegKey k" q] assms(2) pl p(1) by auto
    moreover have "free_name k" using assms(3) p(2) by auto
    then have "free_name (renderPath p)" using free_word_path by (simp add: p(1) renderPath_Cons)
    ultimately show "CHR ''='' \<notin> set (renderPath p) \<and> free_name (renderPath p)" by simp
  qed
  from parse_data_words [OF this] show ?thesis
    by (simp add: renderArgs_leaves render_arg_def leaf_arg_def comp_def case_prod_unfold)
qed

lemma normal_del: "json_normal (JObj obj) \<Longrightarrow> json_normal (JObj (om_del k obj))"
  using om_ok_del [of obj k] by (auto simp: om_del_def list_all_iff)

section \<open>A name with an equals sign\<close>

lemma parse_quoted_cut: "\<exists>e. parse_quoted (take n (escaped_key key)) = Inl e"
proof (induction key arbitrary: n)
  case Nil
  then show ?case by (simp add: escaped_key_def)
next
  case (Cons c cs)
  have key: "escaped_key (c # cs) = (if c = char_backslash \<or> c = char_quote then [char_backslash, c] else [c]) @ escaped_key cs"
    by (simp add: escaped_key_def)
  show ?case
  proof (cases n)
    case (Suc m)
    obtain e where e: "parse_quoted (take m (escaped_key cs)) = Inl e" using Cons.IH by blast
    show ?thesis
    proof (cases "c = char_backslash \<or> c = char_quote")
      case False
      with e show ?thesis by (simp add: key Suc)
    next
      case True
      obtain e' where e': "parse_quoted (take (m - 1) (escaped_key cs)) = Inl e'" using Cons.IH by blast
      show ?thesis using True e' by (cases m) (auto simp: key Suc)
    qed
  qed simp
qed

lemma index_of_char_first:
  "c \<in> set s \<Longrightarrow> \<exists>i. index_of_char c s = Some i \<and> i < length s"
  by (induction s) auto

lemma index_of_char_append: "index_of_char c s = Some i \<Longrightarrow> index_of_char c (s @ t) = Some i"
proof (induction s arbitrary: i)
  case (Cons d s)
  then show ?case by (cases "d = c") auto
qed simp

text \<open>A word whose quoted first key has an equals sign is cut inside the key.\<close>

lemma parse_long_cut:
  assumes "CHR ''='' \<in> set key"
  shows "\<exists>n t. parse_long (quotedForPath key @ rest) a = Inr (parseDataArg ([CHR ''['', char_quote] @ take n (escaped_key key)) t a)"
proof -
  have "CHR ''='' \<in> set (escaped_key key)" using assms by (auto simp: escaped_key_def)
  then obtain i where i: "index_of_char (CHR ''='') (escaped_key key) = Some i" "i < length (escaped_key key)"
    using index_of_char_first by metis
  let ?word = "quotedForPath key @ rest"
  have word: "?word = CHR ''['' # char_quote # escaped_key key @ [char_quote] @ '']'' @ rest"
    by (simp add: quotedForPath_def)
  have "index_of_char (CHR ''='') ?word = Some (i + 2)"
    using index_of_char_append [OF i(1)] by (simp add: word)
  moreover have "take (i + 2) ?word = [CHR ''['', char_quote] @ take i (escaped_key key)"
    using i(2) by (simp add: word)
  ultimately have "parse_long ?word a = Inr (parseDataArg ([CHR ''['', char_quote] @ take i (escaped_key key)) (drop (Suc (i + 2)) ?word) a)"
    by (simp add: parse_long_def Let_def isFrameworkArg_iff starts_with_def) (simp add: word)
  then show ?thesis by blast
qed

lemma cut_path_refused: "\<exists>e. parsePath ([CHR ''['', char_quote] @ take n (escaped_key key)) = Inl e"
proof -
  obtain e where "parse_quoted (take n (escaped_key key)) = Inl e" using parse_quoted_cut by blast
  then have "parse_segment ([CHR ''['', char_quote] @ take n (escaped_key key)) = Inl e"
    by (simp add: parse_segment_def)
  then show ?thesis by (simp add: parsePath_def parse_segments.simps [of "CHR ''['' # x" for x])
qed

text \<open>Any words that start with such a key leave a first argument that is refused.\<close>

lemma parse_cut_words:
  assumes "CHR ''='' \<in> set key" and "a' = a\<lparr>ca_rawDataArgs := ca_rawDataArgs a @ raws\<rparr>"
  shows "\<exists>more_raws. parse_arguments (map (\<lambda>w. ''--'' @ quotedForPath key @ w) ws) a'
    = Inr (a\<lparr>ca_rawDataArgs := ca_rawDataArgs a @ raws @ more_raws\<rparr>)
    \<and> length more_raws = length ws
    \<and> (\<forall>r \<in> set more_raws. \<exists>n. ra_path r = [CHR ''['', char_quote] @ take n (escaped_key key))"
  using assms(2)
proof (induction ws arbitrary: a' raws)
  case (Cons w ws)
  obtain n t where cut: "parse_long (quotedForPath key @ w) a'
      = Inr (parseDataArg ([CHR ''['', char_quote] @ take n (escaped_key key)) t a')"
    using parse_long_cut [OF assms(1)] by blast
  let ?r = "\<lparr>ra_path = [CHR ''['', char_quote] @ take n (escaped_key key), ra_value = t\<rparr>"
  from Cons.IH [of "parseDataArg (ra_path ?r) t a'" "raws @ [?r]"] Cons.prems obtain rs where
    rs: "parse_arguments (map (\<lambda>w. ''--'' @ quotedForPath key @ w) ws) (parseDataArg (ra_path ?r) t a')
      = Inr (a\<lparr>ca_rawDataArgs := ca_rawDataArgs a @ (raws @ [?r]) @ rs\<rparr>)" "length rs = length ws"
      "\<forall>r \<in> set rs. \<exists>n. ra_path r = [CHR ''['', char_quote] @ take n (escaped_key key)"
    by (auto simp: parseDataArg_def)
  with cut show ?case
    by (intro exI [of _ "?r # rs"]) (auto simp: starts_with_def numeral_2_eq_2)
qed simp

lemma key_leaf_words:
  assumes "\<not> isSimpleKey key"
  shows "\<exists>ws. ws \<noteq> [] \<and> renderArgs jt True [(key, v)] = map (\<lambda>w. ''--'' @ quotedForPath key @ w) ws"
  using assms json_leaves_not_Nil [of v]
  by (intro exI [of _ "map (\<lambda>(p, l). render_tail p @ ''='' @ leaf_text jt l) (json_leaves v)"])
    (simp add: renderArgs_leaves arg_leaves_def render_arg_def renderPath_Cons case_prod_unfold comp_def)

lemma equals_not_word: "simple_word k \<Longrightarrow> CHR ''='' \<notin> set k"
  by (auto simp: simple_word_def is_letter_def is_digit_def less_eq_char_def list_all_iff split: list.splits)

lemma equals_not_simple: "isSimpleKey k \<Longrightarrow> CHR ''='' \<notin> set k"
proof (cases k rule: rev_cases)
  case (snoc cs c)
  assume "isSimpleKey k"
  then show ?thesis
    using equals_not_word [of cs] equals_not_word [of "cs @ [c]"] by (auto simp: isSimpleKey_def snoc)
qed simp

end
