(* ===== verification/ConsoleMode.thy ===== *)
theory ConsoleMode
  imports ConsoleArgs DriverCore
begin

text \<open>
  The console mode of a driver: the arguments read along the metadata of the command
  (\<open>src/src/stdiolink/console/cli_schema_parser.cpp\<close>), the run of one command with its exit code
  (\<open>console_responder.cpp\<close> and \<open>runConsoleMode\<close> in \<open>driver/driver_core.cpp\<close>), and the choice between
  what a command line can ask for (\<open>DriverCore::run\<close>). Reading a floating-point number is Qt's and an
  argument: \<open>Some None\<close> stands for a text of an infinite value or of no number.
\<close>

section \<open>Arguments along the metadata\<close>

record cli_text =
  ct_json :: json_text
  ct_double :: "string \<Rightarrow> rat option option"

definition schema_literal :: "json_text \<Rightarrow> json \<Rightarrow> string" where
  "schema_literal jt v = strip_brackets (jt_compact jt (JArr [v]))"

definition findFieldByName :: "field_meta list \<Rightarrow> string \<Rightarrow> field_meta option" where
  "findFieldByName flds name = List.find (\<lambda>f. f_name f = name) flds"

text \<open>The field a path leads to; \<open>Inr None\<close> when the metadata does not describe it.\<close>

fun resolve_from :: "field_meta \<Rightarrow> cli_path \<Rightarrow> string + field_meta option" where
  "resolve_from f [] = Inr (Some f)"
| "resolve_from f (seg # path) =
     (if f_type f = FtArray then
        (case seg of
           SegKey _ \<Rightarrow> Inl (''path does not match array field: '' @ f_name f)
         | _ \<Rightarrow> (case f_items f of None \<Rightarrow> Inr None | Some g \<Rightarrow> resolve_from g path))
      else if f_type f = FtObject then
        (case seg of
           SegKey key \<Rightarrow>
             (case findFieldByName (f_fields f) key of None \<Rightarrow> Inr None | Some g \<Rightarrow> resolve_from g path)
         | _ \<Rightarrow> Inl (''path does not match object field: '' @ f_name f))
      else Inl (''path exceeds scalar field: '' @ f_name f))"

definition resolveFieldMetaByPath :: "field_meta list \<Rightarrow> cli_path \<Rightarrow> string + field_meta option" where
  "resolveFieldMetaByPath rootFields path =
     (case path of
        SegKey key # rest \<Rightarrow>
          (case findFieldByName rootFields key of None \<Rightarrow> Inr None | Some f \<Rightarrow> resolve_from f rest)
      | _ \<Rightarrow> Inr None)"

definition decodeStringOrKeepRaw :: "json_text \<Rightarrow> string \<Rightarrow> json" where
  "decodeStringOrKeepRaw jt raw =
     (case parseJsonLiteral jt raw of Some (JStr s) \<Rightarrow> JStr s | _ \<Rightarrow> JStr raw)"

definition parseBoolValue :: "string \<Rightarrow> string + json" where
  "parseBoolValue raw =
     (if raw = ''true'' then Inr (JBool True)
      else if raw = ''false'' then Inr (JBool False)
      else Inl ''expected boolean literal'')"

definition parseIntValue :: "string \<Rightarrow> string + json" where
  "parseIntValue raw = (case text_int raw of None \<Rightarrow> Inl ''expected integer literal'' | Some i \<Rightarrow> Inr (jint i))"

definition parseSafeInt64Value :: "string \<Rightarrow> string + json" where
  "parseSafeInt64Value raw =
     (case text_integer True raw of
        None \<Rightarrow> Inl ''expected integer literal''
      | Some i \<Rightarrow>
          if i < - (2 ^ 63) \<or> i \<ge> 2 ^ 63 then Inl ''expected integer literal''
          else if i < - 9007199254740992 \<or> i > 9007199254740992 then Inl ''integer out of safe range''
          else Inr (jint i))"

definition parseDoubleValue :: "(string \<Rightarrow> rat option option) \<Rightarrow> string \<Rightarrow> string + json" where
  "parseDoubleValue text_double raw =
     (case text_double raw of
        None \<Rightarrow> Inl ''expected number literal''
      | Some None \<Rightarrow> Inr JNull
      | Some (Some r) \<Rightarrow> Inr (JNum r))"

definition parseExpectedContainerValue :: "json_text \<Rightarrow> (json \<Rightarrow> bool) \<Rightarrow> string \<Rightarrow> string \<Rightarrow> string + json" where
  "parseExpectedContainerValue jt expected err raw =
     (case parseJsonLiteral jt raw of
        Some v \<Rightarrow> if expected v then Inr v else Inl err
      | None \<Rightarrow> Inl err)"

fun resolveFieldValue :: "cli_text \<Rightarrow> string \<Rightarrow> field_type option \<Rightarrow> string + json" where
  "resolveFieldValue ct raw None = Inr (inferType (ct_json ct) raw)"
| "resolveFieldValue ct raw (Some FtString) = Inr (decodeStringOrKeepRaw (ct_json ct) raw)"
| "resolveFieldValue ct raw (Some FtEnum) = Inr (decodeStringOrKeepRaw (ct_json ct) raw)"
| "resolveFieldValue ct raw (Some FtBool) = parseBoolValue raw"
| "resolveFieldValue ct raw (Some FtInt) = parseIntValue raw"
| "resolveFieldValue ct raw (Some FtInt64) = parseSafeInt64Value raw"
| "resolveFieldValue ct raw (Some FtDouble) = parseDoubleValue (ct_double ct) raw"
| "resolveFieldValue ct raw (Some FtObject) =
     parseExpectedContainerValue (ct_json ct) is_object ''expected object literal'' raw"
| "resolveFieldValue ct raw (Some FtArray) =
     parseExpectedContainerValue (ct_json ct) is_array ''expected array literal'' raw"
| "resolveFieldValue ct raw (Some FtAny) = Inr (inferType (ct_json ct) raw)"

text \<open>One argument, made a canonical one.\<close>

definition typed_arg :: "cli_text \<Rightarrow> field_meta list \<Rightarrow> raw_cli_arg \<Rightarrow> string + raw_cli_arg" where
  "typed_arg ct rootFields a =
     (case parsePath (ra_path a) of
        Inl e \<Rightarrow> Inl e
      | Inr path \<Rightarrow>
          (case resolveFieldMetaByPath rootFields path of
             Inl e \<Rightarrow> Inl e
           | Inr f \<Rightarrow>
               (case resolveFieldValue ct (ra_value a) (map_option f_type f) of
                  Inl e \<Rightarrow> Inl (ra_path a @ '': '' @ e)
                | Inr v \<Rightarrow> Inr \<lparr>ra_path = ra_path a, ra_value = schema_literal (ct_json ct) v\<rparr>)))"

text \<open>An error comes with the index of its argument.\<close>

fun typed_args :: "cli_text \<Rightarrow> field_meta list \<Rightarrow> nat \<Rightarrow> raw_cli_arg list \<Rightarrow> (string \<times> int) + raw_cli_arg list" where
  "typed_args ct rootFields i [] = Inr []"
| "typed_args ct rootFields i (a # as) =
     (case typed_arg ct rootFields a of
        Inl e \<Rightarrow> Inl (e, int i)
      | Inr t \<Rightarrow> (case typed_args ct rootFields (Suc i) as of Inl e \<Rightarrow> Inl e | Inr ts \<Rightarrow> Inr (t # ts)))"

definition CliSchemaParser_parseArgs ::
  "cli_text \<Rightarrow> field_meta list \<Rightarrow> raw_cli_arg list \<Rightarrow> (string \<times> int) + json_obj" where
  "CliSchemaParser_parseArgs ct rootFields rawArgs =
     (case typed_args ct rootFields 0 rawArgs of
        Inl e \<Rightarrow> Inl e
      | Inr ts \<Rightarrow>
          (case codec_parseArgs (ct_json ct) Canonical ts of
             Inl e \<Rightarrow> Inl (e, int (length rawArgs) - 1)
           | Inr obj \<Rightarrow> Inr obj))"

section \<open>One command\<close>

definition normalizeExitCode :: "int \<Rightarrow> int" where
  "normalizeExitCode code = (if code = 0 then 1 else if code > 255 then 3 else code)"

text \<open>The exit code after the responder's calls: the last result's, or none when there was no result.\<close>

fun console_result :: "message \<Rightarrow> int option \<Rightarrow> int option" where
  "console_result m r =
     (if msg_status m = ''done'' then Some (msg_code m)
      else if msg_status m = ''error'' then Some (normalizeExitCode (msg_code m))
      else r)"

definition buildConsoleData :: "cli_text \<Rightarrow> raw_cli_arg list \<Rightarrow> field_meta list \<Rightarrow> string + json_obj" where
  "buildConsoleData ct rawArgs flds =
     (case CliSchemaParser_parseArgs ct flds rawArgs of Inl (e, _) \<Rightarrow> Inl e | Inr obj \<Rightarrow> Inr obj)"

text \<open>How the run ends. \<open>Running\<close>: the event loop goes on, no result has been sent yet.\<close>

datatype run_end = Exited int | Running

definition runConsoleMode ::
  "qt_env \<Rightarrow> cli_text \<Rightarrow> console_args \<Rightarrow> 's core_state \<Rightarrow> run_end \<times> 's core_state" where
  "runConsoleMode q ct args c =
     (if co_handler c = None then (Exited 1, c)
      else if ca_cmd args = [] then (Exited 1, c)
      else
        (let c' = console_step q (buildConsoleData ct (ca_rawDataArgs args)) (ca_rawDataArgs args = [])
               (ca_cmd args) c;
             sent = drop (length (co_out c)) (co_out c')
         in (case fold console_result sent None of Some code \<Rightarrow> Exited code | None \<Rightarrow> Running, c')))"

section \<open>The command line\<close>

text \<open>What a command line asks for, in the order the program looks.\<close>

datatype run_action =
    ActArgumentError string
  | ActHelp
  | ActCommandHelp string
  | ActVersion
  | ActExportMeta string
  | ActExportDoc string string
  | ActConsole console_args profile
  | ActStdio profile

definition args_profile :: "string \<Rightarrow> profile \<Rightarrow> profile" where
  "args_profile p prof =
     (if p = ''keepalive'' then KeepAlive else if p = ''oneshot'' then OneShot else prof)"

definition run_action_of :: "bool \<Rightarrow> profile \<Rightarrow> string list \<Rightarrow> run_action" where
  "run_action_of interactiveStdin prof words =
     (case ConsoleArgs_parse words of
        Inl e \<Rightarrow> ActArgumentError e
      | Inr a \<Rightarrow>
          if words = [] \<and> interactiveStdin then ActHelp
          else if ca_showHelp a then (if ca_cmd a \<noteq> [] then ActCommandHelp (ca_cmd a) else ActHelp)
          else if ca_showVersion a then ActVersion
          else if ca_exportMeta a then ActExportMeta (ca_exportMetaPath a)
          else if ca_exportDocFormat a \<noteq> [] then ActExportDoc (ca_exportDocFormat a) (ca_exportDocPath a)
          else
            (let profile = args_profile (ca_profile a) prof
             in if detectMode (ca_mode a) (ca_cmd a) (ca_showHelp a) (ca_showVersion a) = RunConsole
                then ActConsole a profile else ActStdio profile))"

end
