(* ===== verification/ConsoleModeSpec.thy ===== *)
theory ConsoleModeSpec
  imports CliCodecSpec ConsoleMode DriverCoreSpec
begin

text \<open>
  What the console mode promises: a command line that carries a request's data as the codec writes it
  does what the request's line does in the other mode, as long as each leaf has the type of its field,
  and where it does not: names the framework takes, a name with an equals sign, and a container given to
  a field of any type.
\<close>

section \<open>Values along the metadata\<close>

text \<open>What is used of the library: the text of a leaf is read as the leaf, by either writer; a number is
  read from its text, and a whole number within the range of exact doubles is written in decimal.\<close>

definition text_ok :: "cli_text \<Rightarrow> json \<Rightarrow> bool" where
  "text_ok ct l =
     (literal_ok (ct_json ct) l \<and> parseJsonLiteral (ct_json ct) (schema_literal (ct_json ct) l) = Some l
      \<and> (case l of
           JBool b \<Rightarrow> leaf_text (ct_json ct) l = (if b then ''true'' else ''false'')
         | JNum r \<Rightarrow> ct_double ct (leaf_text (ct_json ct) l) = Some (Some r)
             \<and> (r = of_int \<lfloor>r\<rfloor> \<and> \<bar>r\<bar> \<le> 2 ^ 53 \<longrightarrow> leaf_text (ct_json ct) l = dec_int \<lfloor>r\<rfloor>)
         | _ \<Rightarrow> True))"

definition leaf_fits :: "json \<Rightarrow> field_type \<Rightarrow> bool" where
  "leaf_fits l t = (type_fits l t \<and> (t = FtInt64 \<longrightarrow> to_double l = of_int \<lfloor>to_double l\<rfloor>))"

lemma in_int_exact: "in_int i \<Longrightarrow> \<bar>of_int i :: rat\<bar> \<le> 2 ^ 53"
proof -
  assume "in_int i"
  then have "\<bar>i\<bar> \<le> 2 ^ 53" by (auto simp: in_int_def int_min_def int_max_def)
  then have "(of_int \<bar>i\<bar> :: rat) \<le> of_int (2 ^ 53)" by (simp only: of_int_le_iff)
  then show ?thesis by simp
qed

lemma int64_bound: "\<bar>of_int i :: rat\<bar> \<le> 2 ^ 53 \<Longrightarrow> \<bar>i\<bar> \<le> 2 ^ 53"
proof -
  assume "\<bar>of_int i :: rat\<bar> \<le> 2 ^ 53"
  then have "(of_int \<bar>i\<bar> :: rat) \<le> of_int (2 ^ 53)" by simp
  then show ?thesis by (simp only: of_int_le_iff)
qed

lemma leaf_value:
  assumes "text_ok ct l" and "leaf_fits l t"
  shows "resolveFieldValue ct (leaf_text (ct_json ct) l) (Some t) = Inr l"
proof (cases t)
  case FtInt
  then obtain i where i: "l = jint i" "in_int i" using assms(2) by (auto simp: leaf_fits_def)
  then have "leaf_text (ct_json ct) l = dec_int i"
    using assms(1) in_int_exact [of i] by (simp add: text_ok_def)
  then show ?thesis using i by (simp add: FtInt parseIntValue_def text_int_def text_integer_dec_int)
next
  case FtInt64
  then obtain r where r: "l = JNum r" "\<bar>r\<bar> \<le> 2 ^ 53" "r = of_int \<lfloor>r\<rfloor>" using assms(2) by (auto simp: leaf_fits_def)
  define i where "i = \<lfloor>r\<rfloor>"
  have i: "r = of_int i" "\<bar>i\<bar> \<le> 2 ^ 53" using r int64_bound [of i] by (simp_all add: i_def)
  then have "leaf_text (ct_json ct) l = dec_int i" using assms(1) r by (simp add: text_ok_def)
  then show ?thesis using i r(1)
    by (simp add: FtInt64 parseSafeInt64Value_def text_integer_dec_int abs_le_iff)
qed (use assms in \<open>auto simp: leaf_fits_def text_ok_def literal_ok_def decodeStringOrKeepRaw_def parseBoolValue_def
       parseDoubleValue_def parseExpectedContainerValue_def inferType_def split: if_splits\<close>)

lemma untyped_value: "text_ok ct l \<Longrightarrow> resolveFieldValue ct (leaf_text (ct_json ct) l) None = Inr l"
  by (simp add: text_ok_def literal_ok_def inferType_def)

text \<open>A leaf that the command line can carry.\<close>

definition cli_leaf :: "cli_text \<Rightarrow> field_meta list \<Rightarrow> cli_path \<times> json \<Rightarrow> bool" where
  "cli_leaf ct flds = (\<lambda>(p, l). no_equals p \<and> text_ok ct l
     \<and> (case resolveFieldMetaByPath flds p of
          Inl _ \<Rightarrow> False | Inr None \<Rightarrow> True | Inr (Some f) \<Rightarrow> leaf_fits l (f_type f)))"

lemma typed_leaf:
  assumes "cli_leaf ct flds (p, l)" and "parsePath (renderPath p) = Inr p"
  shows "typed_arg ct flds (leaf_arg (ct_json ct) (p, l))
    = Inr \<lparr>ra_path = renderPath p, ra_value = schema_literal (ct_json ct) l\<rparr>"
  using assms leaf_value [of ct l] untyped_value [of ct l]
  by (auto simp: typed_arg_def leaf_arg_def cli_leaf_def split: sum.splits option.splits)

lemma typed_leaves:
  assumes "\<forall>(p, l) \<in> set ls. cli_leaf ct flds (p, l) \<and> parsePath (renderPath p) = Inr p"
  shows "typed_args ct flds i (map (leaf_arg (ct_json ct)) ls)
    = Inr (map (\<lambda>(p, l). \<lparr>ra_path = renderPath p, ra_value = schema_literal (ct_json ct) l\<rparr>) ls)"
  using assms typed_leaf by (induction ls arbitrary: i) auto

lemma parse_typed_args:
  assumes "json_normal (JObj obj)" and "\<forall>x \<in> set (arg_leaves obj). cli_leaf ct flds x"
  shows "CliSchemaParser_parseArgs ct flds (map (leaf_arg (ct_json ct)) (arg_leaves obj)) = Inr obj"
proof -
  have "\<forall>(p, l) \<in> set (arg_leaves obj). cli_leaf ct flds (p, l) \<and> parsePath (renderPath p) = Inr p"
    using assms leaf_path_roundtrip by auto
  note typed = typed_leaves [OF this]
  have "\<forall>(p, l) \<in> set (arg_leaves obj). arg_value (ct_json ct) Canonical (schema_literal (ct_json ct) l) = Inr l"
    using assms(2) by (auto simp: cli_leaf_def text_ok_def arg_value_def)
  from parse_valued_args [OF assms(1) this] show ?thesis
    by (simp add: CliSchemaParser_parseArgs_def typed)
qed

text \<open>The leaves of a value that conforms to its field have the types of their fields.\<close>

lemma find_field: "findFieldByName flds k = Some g \<Longrightarrow> g \<in> set flds \<and> f_name g = k"
  by (auto simp: findFieldByName_def find_Some_iff)

lemma conforms_type: "conforms re_match v f \<Longrightarrow> type_fits v (f_type f)"
  by (erule conforms.cases) simp

lemma conforming_leaf:
  assumes "json_normal v" and "conforms re_match v f" and "(p, l) \<in> set (json_leaves v)"
    and "resolve_from f p = Inr (Some g)"
  shows "type_fits l (f_type g)"
  using assms
proof (induction v arbitrary: f p rule: json_leaves.induct)
  case (1 obj)
  show ?case
  proof (cases "obj = []")
    case True
    with "1.prems" show ?thesis by (auto dest: conforms_type)
  next
    case False
    with "1.prems"(3) obtain k v q where m: "(k, v) \<in> set obj" "p = SegKey k # q" "(q, l) \<in> set (json_leaves v)"
      by auto
    then have obj: "f_type f = FtObject" using "1.prems"(4) by (auto split: if_splits)
    with m "1.prems"(4) obtain h where h: "findFieldByName (f_fields f) k = Some h" "resolve_from h q = Inr (Some g)"
      by (auto split: option.splits)
    have v: "om_get obj k = Some v" using "1.prems"(1) m(1) by (simp add: om_ok_get)
    have "conforms re_match v h"
      using "1.prems"(2) obj find_field [OF h(1)] v by (auto simp: conforms_iff [of _ _ f] jval_def om_has_def)
    then show ?thesis
      using "1.IH" [OF False m(1)] m h "1.prems"(1) by (auto simp: list_all_iff)
  qed
next
  case (2 vs)
  show ?case
  proof (cases "vs = []")
    case True
    with "2.prems" show ?thesis by (auto dest: conforms_type)
  next
    case False
    with "2.prems"(3) obtain i q where m: "i < length vs" "p = SegIndex (int i) # q" "(q, l) \<in> set (json_leaves (vs ! i))"
      by auto
    then have arr: "f_type f = FtArray" using "2.prems"(4) by (auto split: if_splits)
    with m "2.prems"(4) obtain h where h: "f_items f = Some h" "resolve_from h q = Inr (Some g)"
      by (auto split: option.splits)
    have "conforms re_match (vs ! i) h"
      using "2.prems"(2) arr h(1) m(1) by (auto simp: conforms_iff [of _ _ f])
    then show ?thesis
      using "2.IH" [OF False, of i] m h "2.prems"(1) by (auto simp: list_all_iff)
  qed
qed (auto dest: conforms_type)

section \<open>Console mode and request line\<close>

definition command_words :: "cli_text \<Rightarrow> string \<Rightarrow> json_obj \<Rightarrow> string list" where
  "command_words ct cmdName data = (''--cmd='' @ cmdName) # renderArgs (ct_json ct) True data"

lemma parse_cmd_word: "parse_long (''cmd='' @ cmdName) a = Inr (a\<lparr>ca_cmd := cmdName\<rparr>)"
  by (simp add: parse_long_def starts_with_def isFrameworkArg_iff parseFrameworkArg_def)

lemma command_words_parsed:
  assumes "json_normal (JObj data)" and "\<forall>(p, l) \<in> set (arg_leaves data). no_equals p"
    and "\<forall>(k, v) \<in> set data. free_name k" and "cmdName \<noteq> []"
  shows "ConsoleArgs_parse (command_words ct cmdName data)
    = Inr (ConsoleArgs\<lparr>ca_cmd := cmdName, ca_rawDataArgs := map (leaf_arg (ct_json ct)) (arg_leaves data)\<rparr>)"
  using leaf_words [OF assms(1-3)] assms(4) parse_cmd_word
  by (simp add: ConsoleArgs_parse_def command_words_def starts_with_def check_arguments_def ConsoleArgs_def
      numeral_2_eq_2)




section \<open>The examples of the documentation\<close>

text \<open>C33: The words of the command line that is generated for an example of the documentation give the
  driver that example: it finds the command, no mode is forced on it, and the data it reads along the
  metadata is the parameters of the example without the members \<open>mode\<close> and \<open>profile\<close> (so an example of a
  command that has a parameter of one of these names loses it). The example is for the console (its mode is
  empty or console); its parameters are a normalised object; no parameter left has the name of a framework
  argument, one that begins with \<open>arg-\<close>, or an equals sign in its name; and every leaf of the parameters
  can be given on the command line: it is a value of its field's type, a number one that the library reads
  back from its text, and no part of an object or array given to a field of type any. Parameters outside these conditions may be refused (equals_in_name_refused, any_container_refused).\<close>

theorem example_reproduced:
  assumes "data = om_del ''profile'' (om_del ''mode'' (to_object (jval ex ''params'')))"
    and "json_normal (JObj (to_object (jval ex ''params'')))"
    and "cmdName \<noteq> []" and "to_string (jval ex ''mode'') \<in> {[], ''console''}"
    and "\<forall>x \<in> set (arg_leaves data). cli_leaf ct flds x"
    and "\<forall>(k, v) \<in> set data. free_name k"
  shows "\<exists>a. ConsoleArgs_parse (tl (example_words (ct_json ct) cmdName ex)) = Inr a \<and> ca_cmd a = cmdName
    \<and> ca_mode a = [] \<and> CliSchemaParser_parseArgs ct flds (ca_rawDataArgs a) = Inr data"
proof -
  have normal: "json_normal (JObj data)" using normal_del assms(1,2) by blast
  have eqs: "\<forall>(p, l) \<in> set (arg_leaves data). no_equals p" using assms(5) by (auto simp: cli_leaf_def)
  define profile where "profile = to_string (jval (to_object (jval ex ''params'')) ''profile'')"
  define a0 where "a0 = ConsoleArgs\<lparr>ca_cmd := cmdName, ca_profile := (if profile \<noteq> [] \<and> profile \<noteq> ''oneshot'' then profile else [])\<rparr>"
  have "parse_long (''profile='' @ profile) a = Inr (a\<lparr>ca_profile := profile\<rparr>)" for a
    by (simp add: parse_long_def starts_with_def isFrameworkArg_iff parseFrameworkArg_def)
  then have "parse_arguments (tl (example_words (ct_json ct) cmdName ex)) ConsoleArgs
      = parse_arguments (renderArgs (ct_json ct) True data) a0"
    using assms(4) parse_cmd_word
    by (auto simp: example_words_def Let_def assms(1) starts_with_def a0_def ConsoleArgs_def numeral_2_eq_2
        simp flip: profile_def)
  also have "\<dots> = Inr (a0\<lparr>ca_rawDataArgs := map (leaf_arg (ct_json ct)) (arg_leaves data)\<rparr>)"
    using leaf_words [OF normal eqs assms(6)] by (simp add: a0_def ConsoleArgs_def)
  finally show ?thesis
    using assms(3) parse_typed_args [OF normal assms(5)]
    by (simp add: ConsoleArgs_parse_def check_arguments_def a0_def ConsoleArgs_def)
qed

section \<open>Arguments that are refused\<close>

text \<open>A parameter whose name has an equals sign cannot be given as the codec renders it: the driver
  splits an argument at its first equals sign, here inside the quoted name, and refuses the path
  that is left, whatever the parameter's value and the metadata.\<close>

theorem equals_in_name_refused:
  assumes "CHR ''='' \<in> set key" and "cmdName \<noteq> []"
  shows "\<exists>a e. ConsoleArgs_parse (command_words ct cmdName [(key, v)]) = Inr a \<and> ca_cmd a = cmdName
    \<and> CliSchemaParser_parseArgs ct flds (ca_rawDataArgs a) = Inl (e, 0)"
proof -
  have "\<not> isSimpleKey key" using assms(1) equals_not_simple by blast
  then obtain ws where ws: "ws \<noteq> []"
      "renderArgs (ct_json ct) True [(key, v)] = map (\<lambda>w. ''--'' @ quotedForPath key @ w) ws"
    using key_leaf_words by blast
  let ?a = "ConsoleArgs\<lparr>ca_cmd := cmdName\<rparr>"
  obtain rs where rs: "parse_arguments (renderArgs (ct_json ct) True [(key, v)]) ?a = Inr (?a\<lparr>ca_rawDataArgs := rs\<rparr>)"
      "length rs = length ws" "\<forall>r \<in> set rs. \<exists>n. ra_path r = [CHR ''['', char_quote] @ take n (escaped_key key)"
    using parse_cut_words [OF assms(1), of ?a ?a "[]" ws] by (auto simp: ws(2) ConsoleArgs_def)
  have parse: "ConsoleArgs_parse (command_words ct cmdName [(key, v)]) = Inr (?a\<lparr>ca_rawDataArgs := rs\<rparr>)"
    using rs(1) assms(2) parse_cmd_word
    by (simp add: ConsoleArgs_parse_def command_words_def starts_with_def check_arguments_def ConsoleArgs_def
        numeral_2_eq_2)
  obtain r rs' where r: "rs = r # rs'" using rs(2) ws(1) by (cases rs) auto
  then obtain n where "ra_path r = [CHR ''['', char_quote] @ take n (escaped_key key)" using rs(3) by auto
  then obtain e where "typed_arg ct flds r = Inl e"
    using cut_path_refused [of n key] by (auto simp: typed_arg_def)
  then show ?thesis using parse by (auto simp: CliSchemaParser_parseArgs_def r)
qed

lemma container_leaf:
  assumes "is_object v \<or> is_array v" and "v \<noteq> JObj []" and "v \<noteq> JArr []"
  shows "\<exists>seg q l ls. json_leaves v = (seg # q, l) # ls"
proof (cases v)
  case (JArr vs)
  then obtain x xs where vs: "vs = x # xs" using assms(3) by (cases vs) auto
  then show ?thesis using json_leaves_not_Nil [of x]
    by (cases "json_leaves x") (auto simp: JArr upt_conv_Cons case_prod_unfold simp del: upt_Suc)
next
  case (JObj obj)
  then obtain k x rest where "obj = (k, x) # rest" using assms(2) by (cases obj) auto
  then show ?thesis using json_leaves_not_Nil [of x] by (cases "json_leaves x") (auto simp: JObj case_prod_unfold)
qed (use assms in auto)

text \<open>An object or array with members, given to a field of type any, is refused on the command line
  although the validation accepts every value of such a field: the codec writes the container as
  the paths of its leaves, and the driver takes the field for a scalar that has no paths below it.\<close>

theorem any_container_refused:
  assumes "findFieldByName flds k = Some f" and "f_type f = FtAny"
    and "is_object v \<or> is_array v" and "v \<noteq> JObj []" and "v \<noteq> JArr []" and "json_normal v"
    and "\<forall>(p, l) \<in> set (arg_leaves [(k, v)]). no_equals p" and "free_name k" and "cmdName \<noteq> []"
  shows "\<exists>a. ConsoleArgs_parse (command_words ct cmdName [(k, v)]) = Inr a
    \<and> CliSchemaParser_parseArgs ct flds (ca_rawDataArgs a) = Inl (''path exceeds scalar field: '' @ k, 0)"
proof -
  have normal: "json_normal (JObj [(k, v)])" using assms(6) by (simp add: om_ok_def)
  obtain seg q l ls where leaves: "json_leaves v = (seg # q, l) # ls"
    using container_leaf assms(3-5) by blast
  then have mem: "(SegKey k # seg # q, l) \<in> set (arg_leaves [(k, v)])" by (simp add: arg_leaves_def)
  from leaf_path_roundtrip [OF normal mem]
  have "typed_arg ct flds (leaf_arg (ct_json ct) (SegKey k # seg # q, l)) = Inl (''path exceeds scalar field: '' @ k)"
    using assms(1,2) find_field [OF assms(1)]
    by (simp add: typed_arg_def leaf_arg_def resolveFieldMetaByPath_def)
  then show ?thesis
    using command_words_parsed [OF normal assms(7) _ assms(9), of ct] assms(8)
    by (simp add: CliSchemaParser_parseArgs_def arg_leaves_def leaves)
qed

section \<open>Instances\<close>

text \<open>Reading and writing of numbers and of strings without quotes.\<close>

definition demo_json_text :: json_text where
  "demo_json_text = \<lparr>jt_compact = (\<lambda>j. case j of
       JArr [JNum r] \<Rightarrow> ''['' @ dec_int \<lfloor>r\<rfloor> @ '']''
     | JArr [JStr s] \<Rightarrow> ''['' @ [char_quote] @ s @ [char_quote] @ '']'' | _ \<Rightarrow> []),
     jt_parse = (\<lambda>t. case text_integer True (strip_brackets t) of
        Some i \<Rightarrow> Some (JArr [jint i]) | None \<Rightarrow> Some (JArr [JStr (butlast (tl (strip_brackets t)))]))\<rparr>"

definition demo_cli_text :: cli_text where
  "demo_cli_text = \<lparr>ct_json = demo_json_text,
     ct_double = (\<lambda>t. map_option (\<lambda>i. Some (of_int i)) (text_integer True t))\<rparr>"



text \<open>An example of the crane's driver: the mode it is to switch to is not in the command line.\<close>

definition demo_example :: json_obj where
  "demo_example = [(''mode'', JStr ''console''), (''params'', JObj [(''host'', JStr ''plc''), (''mode'', JStr ''auto''),
     (''port'', jint 502)])]"

lemma example_reproduced_witness:
  "\<exists>a. ConsoleArgs_parse (tl (example_words (ct_json demo_cli_text) ''set_mode'' demo_example)) = Inr a
    \<and> ca_cmd a = ''set_mode'' \<and> ca_mode a = []
    \<and> CliSchemaParser_parseArgs demo_cli_text [] (ca_rawDataArgs a) = Inr [(''host'', JStr ''plc''), (''port'', JNum 502)]"
proof -
  let ?data = "[(''host'', JStr ''plc''), (''port'', JNum 502)]"
  have leaves: "arg_leaves ?data = [([SegKey ''host''], JStr ''plc''), ([SegKey ''port''], JNum 502)]"
    by (simp add: arg_leaves_def)
  have "text_ok demo_cli_text (JStr ''plc'')" "text_ok demo_cli_text (JNum 502)" by code_simp+
  then have lits: "\<forall>x \<in> set (arg_leaves ?data). cli_leaf demo_cli_text [] x"
    by (simp add: leaves no_equals_def cli_leaf_def resolveFieldMetaByPath_def findFieldByName_def)
  have names: "\<forall>(k, v) \<in> set ?data. free_name k"
    by (simp add: free_name_def isFrameworkArg_iff starts_with_def)
  have data: "?data = om_del ''profile'' (om_del ''mode'' (to_object (jval demo_example ''params'')))"
    by (simp add: demo_example_def om_del_def)
  show ?thesis
    by (rule example_reproduced [OF data _ _ _ lits names]) (simp_all add: demo_example_def om_ok_def)
qed

text \<open>Several values for the \<open>value\<close> of the serial Modbus driver, a field of any type.\<close>

definition any_field :: field_meta where
  "any_field = FieldMeta ''value'' FtAny True JNull [] Constraints_default UIHint_default [] None [] True"

lemma any_container_refused_witness:
  "\<exists>a. ConsoleArgs_parse [''--cmd=write'', ''--value[0]=5'', ''--value[1]=6''] = Inr a
    \<and> CliSchemaParser_parseArgs demo_cli_text [any_field] (ca_rawDataArgs a) = Inl (''path exceeds scalar field: value'', 0)"
proof -
  have words: "command_words demo_cli_text ''write'' [(''value'', JArr [JNum 5, JNum 6])]
      = [''--cmd=write'', ''--value[0]=5'', ''--value[1]=6'']" by code_simp
  show ?thesis unfolding words [symmetric]
    using any_container_refused [of "[any_field]" "''value''" any_field "JArr [JNum 5, JNum 6]" "''write''" demo_cli_text]
    by (simp add: findFieldByName_def any_field_def arg_leaves_def no_equals_def free_name_def isFrameworkArg_iff
        starts_with_def upt_conv_Cons)
qed

end
