(* ===== verification/MetaSchema.thy ===== *)
theory MetaSchema
  imports MetaDriver
begin

text \<open>
  The check of a driver's metadata document (\<open>src/src/stdiolink/protocol/meta_schema_validator.*\<close>).
  The error output parameter is the \<open>Inl\<close> of the result. \<open>version_matches\<close> stands for
  \<open>QRegularExpression("^\\d+\\.\\d+$").match(version).hasMatch()\<close>.
\<close>

datatype schema_error =
    InvalidSchemaVersion string
  | MissingInfoId
  | MissingInfoName
  | EmptyCommandName
  | EmptyParameterName string
  | DuplicateParameter string string
  | DuplicateCommand string

type_synonym check = "schema_error + unit"

fun check_then :: "check \<Rightarrow> check \<Rightarrow> check" where
  "check_then (Inl e) next_check = Inl e"
| "check_then (Inr _) next_check = next_check"

lemma check_then_Inr [simp]: "check_then c d = Inr () \<longleftrightarrow> c = Inr () \<and> d = Inr ()"
  by (cases c) auto

definition validateSchemaVersion :: "(string \<Rightarrow> bool) \<Rightarrow> string \<Rightarrow> check" where
  "validateSchemaVersion version_matches version =
     (if \<not> version_matches version then Inl (InvalidSchemaVersion version) else Inr ())"

definition validateDriverInfo :: "driver_info \<Rightarrow> check" where
  "validateDriverInfo info =
     (if di_id info = [] then Inl MissingInfoId
      else if di_name info = [] then Inl MissingInfoName
      else Inr ())"

fun validateParamNames :: "string \<Rightarrow> string set \<Rightarrow> field_meta list \<Rightarrow> check" where
  "validateParamNames cmd seen [] = Inr ()"
| "validateParamNames cmd seen (p # ps) =
     (if f_name p = [] then Inl (EmptyParameterName cmd)
      else if f_name p \<in> seen then Inl (DuplicateParameter (f_name p) cmd)
      else validateParamNames cmd (insert (f_name p) seen) ps)"

definition validateCommand :: "command_meta \<Rightarrow> check" where
  "validateCommand cmd =
     (if cm_name cmd = [] then Inl EmptyCommandName
      else validateParamNames (cm_name cmd) {} (cm_params cmd))"

fun validateCommands_from :: "string set \<Rightarrow> command_meta list \<Rightarrow> check" where
  "validateCommands_from names [] = Inr ()"
| "validateCommands_from names (c # cs) =
     check_then (validateCommand c)
       (if cm_name c \<in> names then Inl (DuplicateCommand (cm_name c))
        else validateCommands_from (insert (cm_name c) names) cs)"

definition validateCommands :: "command_meta list \<Rightarrow> check" where
  "validateCommands cs = validateCommands_from {} cs"

definition validateMeta :: "(string \<Rightarrow> bool) \<Rightarrow> driver_meta \<Rightarrow> check" where
  "validateMeta version_matches m =
     check_then (validateSchemaVersion version_matches (dm_schemaVersion m))
     (check_then (validateDriverInfo (dm_info m)) (validateCommands (dm_commands m)))"

section \<open>What an accepted document guarantees\<close>

lemma validateParamNames_Inr:
  "validateParamNames cmd seen ps = Inr () \<longleftrightarrow>
     distinct (map f_name ps) \<and> [] \<notin> f_name ` set ps \<and> f_name ` set ps \<inter> seen = {}"
  by (induction cmd seen ps rule: validateParamNames.induct) auto

definition command_names_ok :: "command_meta \<Rightarrow> bool" where
  "command_names_ok c =
     (cm_name c \<noteq> [] \<and> distinct (map f_name (cm_params c)) \<and> [] \<notin> f_name ` set (cm_params c))"

lemma validateCommand_Inr: "validateCommand c = Inr () \<longleftrightarrow> command_names_ok c"
  by (simp add: validateCommand_def command_names_ok_def validateParamNames_Inr)

lemma validateCommands_from_Inr:
  "validateCommands_from names cs = Inr () \<longleftrightarrow>
     (\<forall>c \<in> set cs. command_names_ok c) \<and> distinct (map cm_name cs) \<and> cm_name ` set cs \<inter> names = {}"
  by (induction names cs rule: validateCommands_from.induct) (auto simp: validateCommand_Inr)

lemma findCommand_in_unique:
  "distinct (map cm_name cs) \<Longrightarrow> findCommand_in cs n = Some c \<longleftrightarrow> c \<in> set cs \<and> cm_name c = n"
  by (induction cs) (auto simp: image_iff)

lemma validateMeta_Inr:
  "validateMeta vm m = Inr () \<longleftrightarrow>
     vm (dm_schemaVersion m) \<and> di_id (dm_info m) \<noteq> [] \<and> di_name (dm_info m) \<noteq> []
     \<and> (\<forall>c \<in> set (dm_commands m). command_names_ok c) \<and> distinct (map cm_name (dm_commands m))"
  by (auto simp: validateMeta_def validateSchemaVersion_def validateDriverInfo_def validateCommands_def
      validateCommands_from_Inr)

text \<open>A metadata document that passes the schema check has a well-formed version, an id and a
  name, and its commands are found by name without ambiguity: looking a name up returns a
  command if and only if it is the one declared under that name, and the parameters of every
  command have distinct, non-empty names.\<close>

theorem validated_meta_unambiguous:
  assumes "validateMeta version_matches m = Inr ()"
  shows "version_matches (dm_schemaVersion m) \<and> di_id (dm_info m) \<noteq> [] \<and> di_name (dm_info m) \<noteq> []
    \<and> (\<forall>n c. findCommand m n = Some c \<longleftrightarrow> c \<in> set (dm_commands m) \<and> cm_name c = n)
    \<and> (\<forall>c \<in> set (dm_commands m). distinct (map f_name (cm_params c)) \<and> [] \<notin> f_name ` set (cm_params c))"
  using assms by (auto simp: validateMeta_Inr findCommand_def findCommand_in_unique command_names_ok_def)

lemma validated_meta_unambiguous_witness:
  "findCommand demo_driver ''add'' \<noteq> None
   \<and> distinct (map f_name (cm_params (hd (dm_commands demo_driver))))"
proof -
  have "validateMeta (\<lambda>v. v = ''1.0'') demo_driver = Inr ()"
    by (simp add: validateMeta_Inr demo_driver_def command_names_ok_def)
  from validated_meta_unambiguous [OF this] show ?thesis
    by (auto simp: demo_driver_def findCommand_def)
qed

end
