(* ===== verification/ModbusTcpServer.thy ===== *)
theory ModbusTcpServer
  imports Framing
begin

text \<open>
  The Modbus TCP server driver (\<open>src/src/drivers/driver_modbustcp_server/modbus_tcp_server.*\<close>):
  the data areas of the units, the eight function codes, the MBAP framing and the connection
  handlers. Signals and bytes written to sockets are logged in the state in their order.
\<close>

section \<open>State\<close>

record tcp_header =
  transactionId :: u16
  protocolId :: u16
  hdr_length :: u16
  unitId :: byte

record data_area =
  coils :: "bool list"
  discreteInputs :: "bool list"
  holdingRegisters :: "u16 list"
  inputRegisters :: "u16 list"

definition ModbusDataArea :: "nat \<Rightarrow> data_area" where
  "ModbusDataArea n = \<lparr>coils = replicate n False, discreteInputs = replicate n False,
     holdingRegisters = replicate n 0, inputRegisters = replicate n 0\<rparr>"

type_synonym units = "(byte, data_area) omap"

datatype signal =
    ClientConnected string u16
  | ClientDisconnected string u16
  | DataWritten byte byte u16 u16
  | DataRead byte byte u16 u16

record client_info =
  recvBuffer :: bytes
  ci_address :: string
  ci_port :: u16

record tcp_server =
  tcp_clients :: "(nat, client_info) omap"
  tcp_units :: units
  tcp_written :: "(nat \<times> bytes) list"
  tcp_signals :: "signal list"

definition MAX_MODBUS_LENGTH :: nat where "MAX_MODBUS_LENGTH = 260"

section \<open>Units and their data\<close>

definition addUnit :: "byte \<Rightarrow> nat \<Rightarrow> units \<Rightarrow> bool \<times> units" where
  "addUnit u n m = (if om_has m u then (False, m) else (True, om_put u (ModbusDataArea n) m))"

definition removeUnit :: "byte \<Rightarrow> units \<Rightarrow> bool \<times> units" where
  "removeUnit u m = (if \<not> om_has m u then (False, m) else (True, om_del u m))"

definition hasUnit :: "byte \<Rightarrow> units \<Rightarrow> bool" where
  "hasUnit u m = om_has m u"

definition getUnits :: "units \<Rightarrow> byte list" where
  "getUnits m = om_keys m"

definition setCoil :: "byte \<Rightarrow> u16 \<Rightarrow> bool \<Rightarrow> units \<Rightarrow> bool \<times> units" where
  "setCoil u addr v m =
     (case om_get m u of
        None \<Rightarrow> (False, m)
      | Some area \<Rightarrow>
          if unat addr \<ge> length (coils area) then (False, m)
          else (True, om_put u (area\<lparr>coils := (coils area)[unat addr := v]\<rparr>) m))"

definition getCoil :: "byte \<Rightarrow> u16 \<Rightarrow> units \<Rightarrow> bool option" where
  "getCoil u addr m =
     (case om_get m u of
        None \<Rightarrow> None
      | Some area \<Rightarrow> if unat addr \<ge> length (coils area) then None else Some (coils area ! unat addr))"

definition setDiscreteInput :: "byte \<Rightarrow> u16 \<Rightarrow> bool \<Rightarrow> units \<Rightarrow> bool \<times> units" where
  "setDiscreteInput u addr v m =
     (case om_get m u of
        None \<Rightarrow> (False, m)
      | Some area \<Rightarrow>
          if unat addr \<ge> length (discreteInputs area) then (False, m)
          else (True, om_put u (area\<lparr>discreteInputs := (discreteInputs area)[unat addr := v]\<rparr>) m))"

definition getDiscreteInput :: "byte \<Rightarrow> u16 \<Rightarrow> units \<Rightarrow> bool option" where
  "getDiscreteInput u addr m =
     (case om_get m u of
        None \<Rightarrow> None
      | Some area \<Rightarrow>
          if unat addr \<ge> length (discreteInputs area) then None
          else Some (discreteInputs area ! unat addr))"

definition setHoldingRegister :: "byte \<Rightarrow> u16 \<Rightarrow> u16 \<Rightarrow> units \<Rightarrow> bool \<times> units" where
  "setHoldingRegister u addr v m =
     (case om_get m u of
        None \<Rightarrow> (False, m)
      | Some area \<Rightarrow>
          if unat addr \<ge> length (holdingRegisters area) then (False, m)
          else (True, om_put u (area\<lparr>holdingRegisters := (holdingRegisters area)[unat addr := v]\<rparr>) m))"

definition getHoldingRegister :: "byte \<Rightarrow> u16 \<Rightarrow> units \<Rightarrow> u16 option" where
  "getHoldingRegister u addr m =
     (case om_get m u of
        None \<Rightarrow> None
      | Some area \<Rightarrow>
          if unat addr \<ge> length (holdingRegisters area) then None
          else Some (holdingRegisters area ! unat addr))"

definition setInputRegister :: "byte \<Rightarrow> u16 \<Rightarrow> u16 \<Rightarrow> units \<Rightarrow> bool \<times> units" where
  "setInputRegister u addr v m =
     (case om_get m u of
        None \<Rightarrow> (False, m)
      | Some area \<Rightarrow>
          if unat addr \<ge> length (inputRegisters area) then (False, m)
          else (True, om_put u (area\<lparr>inputRegisters := (inputRegisters area)[unat addr := v]\<rparr>) m))"

definition getInputRegister :: "byte \<Rightarrow> u16 \<Rightarrow> units \<Rightarrow> u16 option" where
  "getInputRegister u addr m =
     (case om_get m u of
        None \<Rightarrow> None
      | Some area \<Rightarrow>
          if unat addr \<ge> length (inputRegisters area) then None
          else Some (inputRegisters area ! unat addr))"

section \<open>Frames\<close>

definition bytesToUInt16 :: "bytes \<Rightarrow> nat \<Rightarrow> u16" where
  "bytesToUInt16 data offset = push_bit 8 (ucast (data ! offset)) OR ucast (data ! (offset + 1))"

definition uint16ToBytes :: "u16 \<Rightarrow> bytes" where
  "uint16ToBytes v = [ucast (drop_bit 8 v AND 0xFF), ucast (v AND 0xFF)]"

definition parseHeader_mbap :: "bytes \<Rightarrow> tcp_header option" where
  "parseHeader_mbap data =
     (if length data < 7 then None
      else Some \<lparr>transactionId = bytesToUInt16 data 0, protocolId = bytesToUInt16 data 2,
                 hdr_length = bytesToUInt16 data 4, unitId = data ! 6\<rparr>)"

definition buildResponse :: "tcp_header \<Rightarrow> bytes \<Rightarrow> bytes" where
  "buildResponse h pdu =
     uint16ToBytes (transactionId h) @ uint16ToBytes (protocolId h)
     @ uint16ToBytes (of_nat (length pdu + 1)) @ [unitId h] @ pdu"

definition createExceptionResponse :: "tcp_header \<Rightarrow> byte \<Rightarrow> byte \<Rightarrow> bytes" where
  "createExceptionResponse h fc ex = buildResponse h [fc OR 0x80, ex]"

section \<open>Function codes\<close>

abbreviation (input) "ILLEGAL_FUNCTION \<equiv> 0x01 :: byte"
abbreviation (input) "ILLEGAL_DATA_ADDRESS \<equiv> 0x02 :: byte"
abbreviation (input) "ILLEGAL_DATA_VALUE \<equiv> 0x03 :: byte"
abbreviation (input) "GATEWAY_TARGET_DEVICE_FAILED \<equiv> 0x0B :: byte"

text \<open>One byte of packed bits: the inner loop of the read handlers.\<close>

definition pack_byte :: "bool list \<Rightarrow> nat \<Rightarrow> nat \<Rightarrow> nat \<Rightarrow> byte" where
  "pack_byte bits start quantity i =
     foldl (\<lambda>byte b. if i * 8 + b < quantity \<and> bits ! (start + i * 8 + b) then byte OR push_bit b 1 else byte)
       0 [0..<8]"

definition pack_bits :: "bool list \<Rightarrow> nat \<Rightarrow> nat \<Rightarrow> bytes" where
  "pack_bits bits start quantity = map (pack_byte bits start quantity) [0..<(quantity + 7) div 8]"

definition register_bytes :: "u16 list \<Rightarrow> nat \<Rightarrow> nat \<Rightarrow> bytes" where
  "register_bytes regs start quantity = concat (map (\<lambda>i. uint16ToBytes (regs ! (start + i))) [0..<quantity])"

type_synonym handled = "bytes \<times> data_area \<times> signal list"

definition handleReadCoils :: "tcp_header \<Rightarrow> data_area \<Rightarrow> u16 \<Rightarrow> u16 \<Rightarrow> handled" where
  "handleReadCoils h area start qty =
     (if unat qty < 1 \<or> unat qty > 2000 \<or> unat start + unat qty > length (coils area)
      then (createExceptionResponse h 0x01 ILLEGAL_DATA_ADDRESS, area, [])
      else ([0x01, of_nat ((unat qty + 7) div 8)] @ pack_bits (coils area) (unat start) (unat qty),
            area, [DataRead (unitId h) 0x01 start qty]))"

definition handleReadDiscreteInputs :: "tcp_header \<Rightarrow> data_area \<Rightarrow> u16 \<Rightarrow> u16 \<Rightarrow> handled" where
  "handleReadDiscreteInputs h area start qty =
     (if unat qty < 1 \<or> unat qty > 2000 \<or> unat start + unat qty > length (discreteInputs area)
      then (createExceptionResponse h 0x02 ILLEGAL_DATA_ADDRESS, area, [])
      else ([0x02, of_nat ((unat qty + 7) div 8)] @ pack_bits (discreteInputs area) (unat start) (unat qty),
            area, [DataRead (unitId h) 0x02 start qty]))"

definition handleReadHoldingRegisters :: "tcp_header \<Rightarrow> data_area \<Rightarrow> u16 \<Rightarrow> u16 \<Rightarrow> handled" where
  "handleReadHoldingRegisters h area start qty =
     (if unat qty < 1 \<or> unat qty > 125 \<or> unat start + unat qty > length (holdingRegisters area)
      then (createExceptionResponse h 0x03 ILLEGAL_DATA_ADDRESS, area, [])
      else ([0x03, of_nat (unat qty * 2)] @ register_bytes (holdingRegisters area) (unat start) (unat qty),
            area, [DataRead (unitId h) 0x03 start qty]))"

definition handleReadInputRegisters :: "tcp_header \<Rightarrow> data_area \<Rightarrow> u16 \<Rightarrow> u16 \<Rightarrow> handled" where
  "handleReadInputRegisters h area start qty =
     (if unat qty < 1 \<or> unat qty > 125 \<or> unat start + unat qty > length (inputRegisters area)
      then (createExceptionResponse h 0x04 ILLEGAL_DATA_ADDRESS, area, [])
      else ([0x04, of_nat (unat qty * 2)] @ register_bytes (inputRegisters area) (unat start) (unat qty),
            area, [DataRead (unitId h) 0x04 start qty]))"

definition handleWriteSingleCoil :: "tcp_header \<Rightarrow> data_area \<Rightarrow> u16 \<Rightarrow> u16 \<Rightarrow> handled" where
  "handleWriteSingleCoil h area addr v =
     (if unat addr \<ge> length (coils area)
      then (createExceptionResponse h 0x05 ILLEGAL_DATA_ADDRESS, area, [])
      else if v \<noteq> 0x0000 \<and> v \<noteq> 0xFF00
      then (createExceptionResponse h 0x05 ILLEGAL_DATA_VALUE, area, [])
      else ([0x05] @ uint16ToBytes addr @ uint16ToBytes v,
            area\<lparr>coils := (coils area)[unat addr := (v = 0xFF00)]\<rparr>,
            [DataWritten (unitId h) 0x05 addr 1]))"

definition handleWriteSingleRegister :: "tcp_header \<Rightarrow> data_area \<Rightarrow> u16 \<Rightarrow> u16 \<Rightarrow> handled" where
  "handleWriteSingleRegister h area addr v =
     (if unat addr \<ge> length (holdingRegisters area)
      then (createExceptionResponse h 0x06 ILLEGAL_DATA_ADDRESS, area, [])
      else ([0x06] @ uint16ToBytes addr @ uint16ToBytes v,
            area\<lparr>holdingRegisters := (holdingRegisters area)[unat addr := v]\<rparr>,
            [DataWritten (unitId h) 0x06 addr 1]))"

definition handleWriteMultipleCoils :: "tcp_header \<Rightarrow> data_area \<Rightarrow> u16 \<Rightarrow> u16 \<Rightarrow> bytes \<Rightarrow> handled" where
  "handleWriteMultipleCoils h area start qty values =
     (if unat qty < 1 \<or> unat qty > 1968 \<or> unat start + unat qty > length (coils area)
      then (createExceptionResponse h 0x0F ILLEGAL_DATA_ADDRESS, area, [])
      else if length values < (unat qty + 7) div 8
      then (createExceptionResponse h 0x0F ILLEGAL_DATA_VALUE, area, [])
      else ([0x0F] @ uint16ToBytes start @ uint16ToBytes qty,
            area\<lparr>coils := foldl (\<lambda>cs i. cs[unat start + i := bit (values ! (i div 8)) (i mod 8)])
                            (coils area) [0..<unat qty]\<rparr>,
            [DataWritten (unitId h) 0x0F start qty]))"

definition handleWriteMultipleRegisters :: "tcp_header \<Rightarrow> data_area \<Rightarrow> u16 \<Rightarrow> u16 \<Rightarrow> bytes \<Rightarrow> handled" where
  "handleWriteMultipleRegisters h area start qty values =
     (if unat qty < 1 \<or> unat qty > 123 \<or> unat start + unat qty > length (holdingRegisters area)
      then (createExceptionResponse h 0x10 ILLEGAL_DATA_ADDRESS, area, [])
      else if length values < unat qty * 2
      then (createExceptionResponse h 0x10 ILLEGAL_DATA_VALUE, area, [])
      else ([0x10] @ uint16ToBytes start @ uint16ToBytes qty,
            area\<lparr>holdingRegisters := foldl (\<lambda>rs i. rs[unat start + i := bytesToUInt16 values (i * 2)])
                            (holdingRegisters area) [0..<unat qty]\<rparr>,
            [DataWritten (unitId h) 0x10 start qty]))"

text \<open>
  The switch of \<open>processRequest\<close> on a unit's area. \<open>Inl\<close> is an early return of a whole response,
  \<open>Inr\<close> the response PDU of a handler.
\<close>

definition dispatch :: "tcp_header \<Rightarrow> data_area \<Rightarrow> byte \<Rightarrow> bytes \<Rightarrow> bytes + handled" where
  "dispatch h area fc pdu =
     (let exc = (\<lambda>ex. createExceptionResponse h fc ex);
          a = bytesToUInt16 pdu 0; q = bytesToUInt16 pdu 2; byteCount = unat (pdu ! 4)
      in if fc \<in> {0x01, 0x02, 0x03, 0x04, 0x05, 0x06} then
           (if length pdu < 4 then Inl (exc ILLEGAL_DATA_VALUE)
            else if fc = 0x01 then Inr (handleReadCoils h area a q)
            else if fc = 0x02 then Inr (handleReadDiscreteInputs h area a q)
            else if fc = 0x03 then Inr (handleReadHoldingRegisters h area a q)
            else if fc = 0x04 then Inr (handleReadInputRegisters h area a q)
            else if fc = 0x05 then Inr (handleWriteSingleCoil h area a q)
            else Inr (handleWriteSingleRegister h area a q))
         else if fc = 0x0F then
           (if length pdu < 6 then Inl (exc ILLEGAL_DATA_VALUE)
            else if byteCount \<noteq> (unat q + 7) div 8 \<or> length pdu < 5 + byteCount
            then Inl (exc ILLEGAL_DATA_VALUE)
            else Inr (handleWriteMultipleCoils h area a q (drop 5 pdu)))
         else if fc = 0x10 then
           (if length pdu < 6 then Inl (exc ILLEGAL_DATA_VALUE)
            else if byteCount \<noteq> unat q * 2 \<or> length pdu < 5 + byteCount
            then Inl (exc ILLEGAL_DATA_VALUE)
            else Inr (handleWriteMultipleRegisters h area a q (drop 5 pdu)))
         else Inl (exc ILLEGAL_FUNCTION))"

definition processRequest :: "bytes \<Rightarrow> units \<Rightarrow> bytes \<times> units \<times> signal list" where
  "processRequest request m =
     (if length request < 8 then ([], m, [])
      else
        (case parseHeader_mbap request of
           None \<Rightarrow> ([], m, [])
         | Some h \<Rightarrow>
             if protocolId h \<noteq> 0 then ([], m, [])
             else
               (case om_get m (unitId h) of
                  None \<Rightarrow> (createExceptionResponse h (request ! 7) GATEWAY_TARGET_DEVICE_FAILED, m, [])
                | Some area \<Rightarrow>
                    (case dispatch h area (request ! 7) (drop 8 request) of
                       Inl resp \<Rightarrow> (resp, m, [])
                     | Inr (responsePdu, area', sigs) \<Rightarrow>
                         (if responsePdu = [] then [] else buildResponse h responsePdu,
                          om_put (unitId h) area' m, sigs)))))"

section \<open>Connections\<close>

text \<open>The loop over the frames in a client's buffer; each takes at least six bytes.\<close>

fun processBuffer_fuel ::
  "nat \<Rightarrow> bytes \<Rightarrow> units \<Rightarrow> bytes list \<times> bytes \<times> units \<times> signal list" where
  "processBuffer_fuel 0 buffer m = ([], buffer, m, [])"
| "processBuffer_fuel (Suc n) buffer m =
     (if length buffer < 7 then ([], buffer, m, [])
      else
        (case parseHeader_mbap buffer of
           None \<Rightarrow> ([], [], m, [])
         | Some h \<Rightarrow>
             if unat (hdr_length h) > MAX_MODBUS_LENGTH then ([], [], m, [])
             else
               (let frameLength = 6 + unat (hdr_length h)
                in if length buffer < frameLength then ([], buffer, m, [])
                   else
                     (let (response, m1, s1) = processRequest (take frameLength buffer) m;
                          (rs, left, m2, s2) = processBuffer_fuel n (drop frameLength buffer) m1
                      in (if response \<noteq> [] then response # rs else rs, left, m2, s1 @ s2)))))"

definition processBuffer :: "nat \<Rightarrow> tcp_server \<Rightarrow> tcp_server" where
  "processBuffer sock s =
     (case om_get (tcp_clients s) sock of
        None \<Rightarrow> s
      | Some info \<Rightarrow>
          (let (rs, left, m, sigs) =
                 processBuffer_fuel (length (recvBuffer info)) (recvBuffer info) (tcp_units s)
           in s\<lparr>tcp_clients := om_put sock (info\<lparr>recvBuffer := left\<rparr>) (tcp_clients s), tcp_units := m,
                tcp_written := tcp_written s @ map (Pair sock) rs, tcp_signals := tcp_signals s @ sigs\<rparr>))"

definition incomingConnection :: "nat \<Rightarrow> bool \<Rightarrow> string \<Rightarrow> u16 \<Rightarrow> tcp_server \<Rightarrow> tcp_server" where
  "incomingConnection sock descriptorOk addr port s =
     (if descriptorOk
      then s\<lparr>tcp_clients := om_put sock \<lparr>recvBuffer = [], ci_address = addr, ci_port = port\<rparr> (tcp_clients s),
             tcp_signals := tcp_signals s @ [ClientConnected addr port]\<rparr>
      else s)"

definition onReadyRead :: "nat \<Rightarrow> bytes \<Rightarrow> tcp_server \<Rightarrow> tcp_server" where
  "onReadyRead sock data s =
     (case om_get (tcp_clients s) sock of
        None \<Rightarrow> s
      | Some info \<Rightarrow>
          processBuffer sock
            (s\<lparr>tcp_clients := om_put sock (info\<lparr>recvBuffer := recvBuffer info @ data\<rparr>) (tcp_clients s)\<rparr>))"

definition onDisconnected :: "nat \<Rightarrow> tcp_server \<Rightarrow> tcp_server" where
  "onDisconnected sock s =
     (case om_get (tcp_clients s) sock of
        None \<Rightarrow> s
      | Some info \<Rightarrow>
          s\<lparr>tcp_clients := om_del sock (tcp_clients s),
            tcp_signals := tcp_signals s @ [ClientDisconnected (ci_address info) (ci_port info)]\<rparr>)"

datatype tcp_event =
    TcpConnect nat bool string u16 | TcpData nat bytes | TcpClosed nat
  | TcpAddUnit byte nat | TcpRemoveUnit byte
  | TcpSetCoil byte u16 bool | TcpSetDiscreteInput byte u16 bool
  | TcpSetHolding byte u16 u16 | TcpSetInput byte u16 u16

fun tcp_step :: "tcp_server \<Rightarrow> tcp_event \<Rightarrow> tcp_server" where
  "tcp_step s (TcpConnect sock ok addr port) = incomingConnection sock ok addr port s"
| "tcp_step s (TcpData sock data) = onReadyRead sock data s"
| "tcp_step s (TcpClosed sock) = onDisconnected sock s"
| "tcp_step s (TcpAddUnit u n) = s\<lparr>tcp_units := snd (addUnit u n (tcp_units s))\<rparr>"
| "tcp_step s (TcpRemoveUnit u) = s\<lparr>tcp_units := snd (removeUnit u (tcp_units s))\<rparr>"
| "tcp_step s (TcpSetCoil u a v) = s\<lparr>tcp_units := snd (setCoil u a v (tcp_units s))\<rparr>"
| "tcp_step s (TcpSetDiscreteInput u a v) = s\<lparr>tcp_units := snd (setDiscreteInput u a v (tcp_units s))\<rparr>"
| "tcp_step s (TcpSetHolding u a v) = s\<lparr>tcp_units := snd (setHoldingRegister u a v (tcp_units s))\<rparr>"
| "tcp_step s (TcpSetInput u a v) = s\<lparr>tcp_units := snd (setInputRegister u a v (tcp_units s))\<rparr>"

end
