(* ===== verification/ModbusTcpSpec.thy ===== *)
theory ModbusTcpSpec
  imports ModbusTcpServer
begin

text \<open>
  What the Modbus TCP server promises: pipelined requests are answered in order however the
  network cuts them, values written are the values read, a request changes at most the unit it
  addresses, responses carry the request's transaction, and the server's state keeps its bounds
  under every sequence of events. One theorem shows how the range errors of the handlers are
  framed twice.
\<close>

section \<open>Bytes\<close>

lemma u16_low_byte: "(0xFF :: u16) = mask 8"
  by (simp add: mask_eq_exp_minus_1)

lemma uint16ToBytes_be16: "uint16ToBytes v = be16 v"
  unfolding uint16ToBytes_def be16_def u16_low_byte
  by (auto intro!: bit_word_eqI simp: bit_simps)

lemma bytesToUInt16_read16: "bytesToUInt16 data i = read16 data i"
  by (simp add: bytesToUInt16_def read16_def join16_def)

lemmas byte_ops = uint16ToBytes_be16 bytesToUInt16_read16

lemma bit_pack_loop:
  "n \<le> 8 \<Longrightarrow> bit (foldl (\<lambda>byte b. if P b then byte OR push_bit b 1 else byte) (0 :: byte) [0..<n]) k
     \<longleftrightarrow> k < n \<and> P k"
  by (induction n) (auto simp: bit_simps less_Suc_eq)

lemma bit_pack_byte: "bit (pack_byte bits start q i) b \<longleftrightarrow> b < 8 \<and> i * 8 + b < q \<and> bits ! (start + i * 8 + b)"
  unfolding pack_byte_def by (subst bit_pack_loop) auto

lemma length_pack_bits [simp]: "length (pack_bits bits start q) = (q + 7) div 8"
  by (simp add: pack_bits_def)

lemma bit_pack_bits:
  assumes "j < q"
  shows "bit (pack_bits bits start q ! (j div 8)) (j mod 8) \<longleftrightarrow> bits ! (start + j)"
proof -
  have "j div 8 < (q + 7) div 8" using assms by (auto simp: less_eq_div_iff_mult_less_eq div_less_iff_less_mult)
  then have "pack_bits bits start q ! (j div 8) = pack_byte bits start q (j div 8)" by (simp add: pack_bits_def)
  with assms show ?thesis by (simp add: bit_pack_byte add.assoc)
qed

lemma pack_bits_cong:
  assumes "\<And>j. j < q \<Longrightarrow> bits ! (start + j) = bits' ! (start' + j)"
  shows "pack_bits bits start q = pack_bits bits' start' q"
proof -
  have "pack_byte bits start q i = pack_byte bits' start' q i" for i
    by (rule bit_word_eqI) (auto simp: bit_pack_byte add.assoc assms)
  then show ?thesis by (simp add: pack_bits_def)
qed

lemma length_register_bytes [simp]: "length (register_bytes regs start q) = 2 * q"
  by (induction q) (simp_all add: register_bytes_def byte_ops)

lemma register_bytes_concat:
  assumes "\<And>j. j < length vals \<Longrightarrow> regs ! (start + j) = vals ! j"
  shows "register_bytes regs start (length vals) = concat (map be16 vals)"
proof -
  have "map (\<lambda>i. be16 (regs ! (start + i))) [0..<length vals] = map be16 vals"
    using assms by (intro nth_equalityI) simp_all
  then show ?thesis by (simp add: register_bytes_def byte_ops)
qed

lemma length_concat_be16 [simp]: "length (concat (map be16 vals)) = 2 * length vals"
  by (induction vals) simp_all

lemma read16_concat:
  "i < length vals \<Longrightarrow> read16 (concat (map be16 vals)) (i * 2) = vals ! i"
proof (induction vals arbitrary: i)
  case (Cons v vals)
  show ?case
  proof (cases i)
    case (Suc k)
    have "read16 (be16 v @ concat (map be16 vals)) (Suc k * 2) = read16 (concat (map be16 vals)) (k * 2)"
      by (simp add: read16_def be16_def)
    with Cons Suc show ?thesis by simp
  qed (simp add: byte_simps)
qed simp

section \<open>Requests\<close>

definition mbap_request :: "u16 \<Rightarrow> byte \<Rightarrow> byte \<Rightarrow> bytes \<Rightarrow> bytes" where
  "mbap_request tid u fc pdu = be16 tid @ be16 0 @ be16 (of_nat (length pdu + 2)) @ [u, fc] @ pdu"

definition mbap_header :: "u16 \<Rightarrow> u16 \<Rightarrow> byte \<Rightarrow> tcp_header" where
  "mbap_header tid len u = \<lparr>transactionId = tid, protocolId = 0, hdr_length = len, unitId = u\<rparr>"

lemma join16_zero: "join16 0 0 = 0"
  by (simp add: join16_def)

lemma mbap_request_parse:
  "parseHeader_mbap (mbap_request tid u fc pdu) = Some (mbap_header tid (of_nat (length pdu + 2)) u)"
  "mbap_request tid u fc pdu ! 7 = fc" "drop 8 (mbap_request tid u fc pdu) = pdu"
  "length (mbap_request tid u fc pdu) = 8 + length pdu"
  unfolding mbap_request_def mbap_header_def
  by (simp_all add: parseHeader_mbap_def byte_ops read16_def be16_def byte_simps join16_zero)

lemma processRequest_mbap:
  assumes "om_get m u = Some area"
  shows "processRequest (mbap_request tid u fc pdu) m =
     (let h = mbap_header tid (of_nat (length pdu + 2)) u in
      case dispatch h area fc pdu of
        Inl resp \<Rightarrow> (resp, m, [])
      | Inr (responsePdu, area', sigs) \<Rightarrow>
          (if responsePdu = [] then [] else buildResponse h responsePdu, om_put u area' m, sigs))"
  using assms by (simp add: processRequest_def mbap_request_parse mbap_header_def Let_def cong: sum.case_cong)

lemma of_nat_u16: "n < 65536 \<Longrightarrow> unat (of_nat n :: u16) = n"
  by (simp add: unsigned_of_nat take_bit_nat_eq_self)

lemma of_nat_byte: "n < 256 \<Longrightarrow> unat (of_nat n :: byte) = n"
  by (simp add: unsigned_of_nat take_bit_nat_eq_self)

lemma read16_be16_at:
  "read16 (be16 a @ be16 b @ rest) 0 = a" "read16 (be16 a @ be16 b @ rest) 2 = b"
  by (simp_all add: read16_def be16_def byte_simps)

lemma be16_be16_nth4: "(be16 a @ be16 b @ c # rest) ! 4 = c" "drop 5 (be16 a @ be16 b @ c # rest) = rest"
  by (simp_all add: be16_def)

lemma dispatch_read_registers:
  "dispatch h area 0x03 (be16 start @ be16 q) = Inr (handleReadHoldingRegisters h area start q)"
  using read16_be16_at [of start q "[]"] by (simp add: dispatch_def Let_def byte_ops)

lemma dispatch_read_coils:
  "dispatch h area 0x01 (be16 start @ be16 q) = Inr (handleReadCoils h area start q)"
  using read16_be16_at [of start q "[]"] by (simp add: dispatch_def Let_def byte_ops)

lemma dispatch_write_registers:
  assumes "unat c = unat q * 2" and "length values = unat q * 2" and "0 < unat q"
  shows "dispatch h area 0x10 (be16 start @ be16 q @ c # values) = Inr (handleWriteMultipleRegisters h area start q values)"
  using read16_be16_at [of start q "c # values"] assms
  by (simp add: dispatch_def Let_def byte_ops be16_be16_nth4)

lemma dispatch_write_coils:
  assumes "unat c = (unat q + 7) div 8" and "length values = (unat q + 7) div 8" and "0 < unat q"
  shows "dispatch h area 0x0F (be16 start @ be16 q @ c # values) = Inr (handleWriteMultipleCoils h area start q values)"
  using read16_be16_at [of start q "c # values"] assms
  by (simp add: dispatch_def Let_def byte_ops be16_be16_nth4)

section \<open>What is written is what is read\<close>

definition write_registers_request :: "u16 \<Rightarrow> byte \<Rightarrow> u16 \<Rightarrow> u16 list \<Rightarrow> bytes" where
  "write_registers_request tid u start vals =
     mbap_request tid u 0x10 (be16 start @ be16 (of_nat (length vals)) @ of_nat (length vals * 2)
       # concat (map be16 vals))"

definition read_registers_request :: "u16 \<Rightarrow> byte \<Rightarrow> u16 \<Rightarrow> nat \<Rightarrow> bytes" where
  "read_registers_request tid u start n = mbap_request tid u 0x03 (be16 start @ be16 (of_nat n))"

lemma write_registers:
  assumes "om_get m u = Some area" and "0 < length vals" and "length vals \<le> 123"
    and "unat start + length vals \<le> length (holdingRegisters area)"
  shows "processRequest (write_registers_request tid u start vals) m =
    (mbap_request tid u 0x10 (be16 start @ be16 (of_nat (length vals))),
     om_put u (area\<lparr>holdingRegisters := write_from (unat start) vals (holdingRegisters area)\<rparr>) m,
     [DataWritten u 0x10 start (of_nat (length vals))])"
proof -
  let ?q = "of_nat (length vals) :: u16"
  have q: "unat ?q = length vals" using assms(3) by (simp add: of_nat_u16)
  have c: "unat (of_nat (length vals * 2) :: byte) = length vals * 2" using assms(3) by (rule_tac of_nat_byte) simp
  have loop: "foldl (\<lambda>rs i. rs[unat start + i := bytesToUInt16 (concat (map be16 vals)) (i * 2)])
      (holdingRegisters area) [0..<length vals] = write_from (unat start) vals (holdingRegisters area)"
  proof -
    have "map (\<lambda>i. bytesToUInt16 (concat (map be16 vals)) (i * 2)) [0..<length vals] = vals"
      by (rule nth_equalityI) (simp_all add: byte_ops read16_concat)
    with foldl_update_range [OF assms(4), of "\<lambda>i. bytesToUInt16 (concat (map be16 vals)) (i * 2)"]
    show ?thesis by simp
  qed
  have "handleWriteMultipleRegisters h area start ?q (concat (map be16 vals))
      = ([0x10] @ be16 start @ be16 ?q,
         area\<lparr>holdingRegisters := write_from (unat start) vals (holdingRegisters area)\<rparr>,
         [DataWritten (unitId h) 0x10 start ?q])" for h
    using assms q loop by (simp add: handleWriteMultipleRegisters_def byte_ops)
  then show ?thesis
    unfolding write_registers_request_def processRequest_mbap [OF assms(1)] Let_def
    using dispatch_write_registers [of "of_nat (length vals * 2)" ?q "concat (map be16 vals)"] assms(2) q c
    by (simp add: buildResponse_def mbap_header_def mbap_request_def byte_ops)
qed

lemma read_registers:
  assumes "om_get m u = Some area" and "0 < length vals" and "length vals \<le> 125"
    and "unat start + length vals \<le> length (holdingRegisters area)"
    and "take (length vals) (drop (unat start) (holdingRegisters area)) = vals"
  shows "processRequest (read_registers_request tid u start (length vals)) m =
    (mbap_request tid u 0x03 (of_nat (length vals * 2) # concat (map be16 vals)), om_put u area m,
     [DataRead u 0x03 start (of_nat (length vals))])"
proof -
  let ?q = "of_nat (length vals) :: u16"
  have q: "unat ?q = length vals" using assms(3) by (simp add: of_nat_u16)
  have "holdingRegisters area ! (unat start + j) = vals ! j" if "j < length vals" for j
    using that assms(4) arg_cong [OF assms(5), of "\<lambda>xs. xs ! j"] by simp
  then have "register_bytes (holdingRegisters area) (unat start) (length vals) = concat (map be16 vals)"
    by (rule register_bytes_concat)
  then show ?thesis
    unfolding read_registers_request_def processRequest_mbap [OF assms(1)] Let_def dispatch_read_registers
    using assms q
    by (simp add: handleReadHoldingRegisters_def buildResponse_def mbap_header_def mbap_request_def byte_ops)
qed

text \<open>Registers written over the network are the registers read back: after a write of up to
  123 registers inside a unit's area has been acknowledged with its start address and count, a
  read of the same range returns exactly the values written, whatever the transaction numbers.\<close>

theorem registers_read_back:
  assumes "om_get m u = Some area" and "0 < length vals" and "length vals \<le> 123"
    and "unat start + length vals \<le> length (holdingRegisters area)"
  shows "let (resp1, m1, sigs1) = processRequest (write_registers_request t1 u start vals) m;
             (resp2, m2, sigs2) = processRequest (read_registers_request t2 u start (length vals)) m1
         in resp1 = mbap_request t1 u 0x10 (be16 start @ be16 (of_nat (length vals)))
            \<and> resp2 = mbap_request t2 u 0x03 (of_nat (length vals * 2) # concat (map be16 vals))"
proof -
  let ?area = "area\<lparr>holdingRegisters := write_from (unat start) vals (holdingRegisters area)\<rparr>"
  have get: "om_get (om_put u ?area m) u = Some ?area" by simp
  have "processRequest (read_registers_request t2 u start (length vals)) (om_put u ?area m) =
      (mbap_request t2 u 0x03 (of_nat (length vals * 2) # concat (map be16 vals)), om_put u ?area (om_put u ?area m),
       [DataRead u 0x03 start (of_nat (length vals))])"
    using assms by (intro read_registers [OF get]) (simp_all add: slice_write_from)
  with write_registers [OF assms, of t1] show ?thesis by simp
qed

lemma registers_read_back_witness:
  "let (resp1, m1, sigs1) = processRequest (write_registers_request 1 7 2 [10, 20]) (om_put 7 (ModbusDataArea 8) []);
       (resp2, m2, sigs2) = processRequest (read_registers_request 2 7 2 (length [10 :: u16, 20])) m1
   in resp2 = [0, 2, 0, 0, 0, 7, 7, 3, 4, 0, 10, 0, 20]"
  using registers_read_back [of "om_put 7 (ModbusDataArea 8) []" 7 "ModbusDataArea 8" "[10, 20]" 2 1 2]
  by (simp add: ModbusDataArea_def mbap_request_def be16_def Let_def case_prod_beta)

definition write_coils_request :: "u16 \<Rightarrow> byte \<Rightarrow> u16 \<Rightarrow> bool list \<Rightarrow> bytes" where
  "write_coils_request tid u start vals =
     mbap_request tid u 0x0F (be16 start @ be16 (of_nat (length vals)) @ of_nat ((length vals + 7) div 8)
       # pack_bits vals 0 (length vals))"

definition read_coils_request :: "u16 \<Rightarrow> byte \<Rightarrow> u16 \<Rightarrow> nat \<Rightarrow> bytes" where
  "read_coils_request tid u start n = mbap_request tid u 0x01 (be16 start @ be16 (of_nat n))"

lemma write_coils:
  assumes "om_get m u = Some area" and "0 < length vals" and "length vals \<le> 1968"
    and "unat start + length vals \<le> length (coils area)"
  shows "processRequest (write_coils_request tid u start vals) m =
    (mbap_request tid u 0x0F (be16 start @ be16 (of_nat (length vals))),
     om_put u (area\<lparr>coils := write_from (unat start) vals (coils area)\<rparr>) m,
     [DataWritten u 0x0F start (of_nat (length vals))])"
proof -
  let ?q = "of_nat (length vals) :: u16" and ?packed = "pack_bits vals 0 (length vals)"
  have q: "unat ?q = length vals" using assms(3) by (simp add: of_nat_u16)
  have c: "unat (of_nat ((length vals + 7) div 8) :: byte) = (length vals + 7) div 8"
    using assms(3) by (intro of_nat_byte) simp
  have loop: "foldl (\<lambda>cs i. cs[unat start + i := bit (?packed ! (i div 8)) (i mod 8)]) (coils area) [0..<length vals]
      = write_from (unat start) vals (coils area)"
  proof -
    have "map (\<lambda>i. bit (?packed ! (i div 8)) (i mod 8)) [0..<length vals] = vals"
      by (rule nth_equalityI) (simp_all add: bit_pack_bits)
    with foldl_update_range [OF assms(4), of "\<lambda>i. bit (?packed ! (i div 8)) (i mod 8)"]
    show ?thesis by simp
  qed
  have "handleWriteMultipleCoils h area start ?q ?packed
      = ([0x0F] @ be16 start @ be16 ?q, area\<lparr>coils := write_from (unat start) vals (coils area)\<rparr>,
         [DataWritten (unitId h) 0x0F start ?q])" for h
    using assms q loop by (simp add: handleWriteMultipleCoils_def byte_ops)
  then show ?thesis
    unfolding write_coils_request_def processRequest_mbap [OF assms(1)] Let_def
    using dispatch_write_coils [of "of_nat ((length vals + 7) div 8)" ?q ?packed] assms(2) q c
    by (simp add: buildResponse_def mbap_header_def mbap_request_def byte_ops)
qed

lemma read_coils:
  assumes "om_get m u = Some area" and "0 < length vals" and "length vals \<le> 2000"
    and "unat start + length vals \<le> length (coils area)"
    and "take (length vals) (drop (unat start) (coils area)) = vals"
  shows "processRequest (read_coils_request tid u start (length vals)) m =
    (mbap_request tid u 0x01 (of_nat ((length vals + 7) div 8) # pack_bits vals 0 (length vals)), om_put u area m,
     [DataRead u 0x01 start (of_nat (length vals))])"
proof -
  let ?q = "of_nat (length vals) :: u16"
  have q: "unat ?q = length vals" using assms(3) by (simp add: of_nat_u16)
  have "coils area ! (unat start + j) = vals ! (0 + j)" if "j < length vals" for j
    using that assms(4) arg_cong [OF assms(5), of "\<lambda>xs. xs ! j"] by simp
  then have "pack_bits (coils area) (unat start) (length vals) = pack_bits vals 0 (length vals)"
    by (rule pack_bits_cong)
  then show ?thesis
    unfolding read_coils_request_def processRequest_mbap [OF assms(1)] Let_def dispatch_read_coils
    using assms q
    by (simp add: handleReadCoils_def buildResponse_def mbap_header_def mbap_request_def byte_ops)
qed

text \<open>Coils written over the network are the coils read back: after a write of up to 1968 coils
  inside a unit's area, eight to a byte, a read of the same range returns the same packed bytes,
  and bit \<open>j mod 8\<close> of byte \<open>j div 8\<close> of them is the \<open>j\<close>-th coil written.\<close>

theorem coils_read_back:
  assumes "om_get m u = Some area" and "0 < length vals" and "length vals \<le> 1968"
    and "unat start + length vals \<le> length (coils area)"
  shows "let (resp1, m1, sigs1) = processRequest (write_coils_request t1 u start vals) m;
             (resp2, m2, sigs2) = processRequest (read_coils_request t2 u start (length vals)) m1;
             packed = pack_bits vals 0 (length vals)
         in resp2 = mbap_request t2 u 0x01 (of_nat ((length vals + 7) div 8) # packed)
            \<and> (\<forall>j < length vals. bit (packed ! (j div 8)) (j mod 8) = vals ! j)"
proof -
  let ?area = "area\<lparr>coils := write_from (unat start) vals (coils area)\<rparr>"
  have get: "om_get (om_put u ?area m) u = Some ?area" by simp
  have "processRequest (read_coils_request t2 u start (length vals)) (om_put u ?area m) =
      (mbap_request t2 u 0x01 (of_nat ((length vals + 7) div 8) # pack_bits vals 0 (length vals)),
       om_put u ?area (om_put u ?area m), [DataRead u 0x01 start (of_nat (length vals))])"
    using assms by (intro read_coils [OF get]) (simp_all add: slice_write_from)
  with write_coils [OF assms, of t1] show ?thesis
    by (simp add: bit_pack_bits)
qed

lemma coils_read_back_witness:
  "let (resp1, m1, sigs1) = processRequest (write_coils_request 1 7 2 [True, False, True]) (om_put 7 (ModbusDataArea 8) []);
       (resp2, m2, sigs2) = processRequest (read_coils_request 2 7 2 (length [True, False, True])) m1
   in resp2 = [0, 2, 0, 0, 0, 4, 7, 1, 1, 5]"
  using coils_read_back [of "om_put 7 (ModbusDataArea 8) []" 7 "ModbusDataArea 8" "[True, False, True]" 2 1 2]
  by (simp add: ModbusDataArea_def mbap_request_def be16_def Let_def case_prod_beta
      pack_bits_def pack_byte_def upt_rec)

section \<open>Every response\<close>

definition mbap_framed :: "bytes \<Rightarrow> bytes \<Rightarrow> bool" where
  "mbap_framed request response =
     (take 4 response = take 4 request \<and> response ! 6 = request ! 6 \<and> 8 \<le> length response
      \<and> read16 response 4 = of_nat (length response - 6))"

lemma buildResponse_framed:
  assumes "parseHeader_mbap request = Some h" and "pdu \<noteq> []"
  shows "mbap_framed request (buildResponse h pdu)"
proof -
  have "7 \<le> length request" "h = \<lparr>transactionId = read16 request 0, protocolId = read16 request 2,
      hdr_length = read16 request 4, unitId = request ! 6\<rparr>"
    using assms(1) by (auto simp: parseHeader_mbap_def byte_ops split: if_splits)
  moreover from this(1) have "take 4 request = [request ! 0, request ! 1, request ! 2, request ! 3]"
    by (simp add: list_eq_iff_nth_eq nth_Cons numeral_eq_Suc less_Suc_eq)
  ultimately show ?thesis
    using assms(2)
    by (cases pdu) (simp_all add: mbap_framed_def buildResponse_def byte_ops read16_def be16_def byte_simps be16_join16
        [unfolded be16_def])
qed

lemma dispatch_Inl: "dispatch h area fc pdu = Inl r \<Longrightarrow> \<exists>ex. r = createExceptionResponse h fc ex"
  by (auto simp: dispatch_def Let_def split: if_splits)

text \<open>Whatever bytes arrive as a request, a response that the server sends carries the
  transaction and protocol numbers and the unit of that request, and its length field counts
  the bytes that follow it. No response is sent for a frame of another protocol.\<close>

theorem response_belongs_to_request:
  "let response = fst (processRequest request m) in
   (response \<noteq> [] \<longrightarrow> mbap_framed request response)
   \<and> (read16 request 2 \<noteq> 0 \<longrightarrow> response = [])"
proof (cases "parseHeader_mbap request")
  case None
  then show ?thesis by (simp add: processRequest_def)
next
  case (Some h)
  then have "protocolId h = read16 request 2"
    by (auto simp: parseHeader_mbap_def byte_ops split: if_splits)
  with Some buildResponse_framed [OF Some] show ?thesis
    by (auto simp: processRequest_def createExceptionResponse_def Let_def dest!: dispatch_Inl
        split: option.split sum.split prod.split)
qed

lemma response_belongs_to_request_witness:
  "mbap_framed [0, 9, 0, 0, 0, 6, 7, 3, 0, 0, 0, 1] (fst (processRequest [0, 9, 0, 0, 0, 6, 7, 3, 0, 0, 0, 1] []))"
proof -
  have "fst (processRequest [0, 9, 0, 0, 0, 6, 7, 3, 0, 0, 0, 1] []) \<noteq> []"
    by (simp add: processRequest_def parseHeader_mbap_def bytesToUInt16_def createExceptionResponse_def
        buildResponse_def uint16ToBytes_def)
  with response_belongs_to_request [of "[0, 9, 0, 0, 0, 6, 7, 3, 0, 0, 0, 1]" "[]"] show ?thesis
    by (simp add: Let_def)
qed

text \<open>When the range of a read is not inside the unit's area, or its count is out of bounds, the
  server does not answer with a Modbus exception: the handler's exception, which is a whole
  frame already, is put into a second frame, so that where the client looks for the function
  code it finds the high byte of the transaction number.\<close>

theorem exception_framed_twice:
  assumes "om_get m u = Some area"
    and "unat q < 1 \<or> unat q > 125 \<or> unat start + unat q > length (holdingRegisters area)"
  shows "let response = fst (processRequest (mbap_request tid u 0x03 (be16 start @ be16 q)) m)
    in response = mbap_request tid u (ucast (drop_bit 8 tid))
                    (ucast tid # be16 0 @ be16 3 @ [u, 0x83, 0x02])
       \<and> response ! 7 = ucast (drop_bit 8 tid)"
proof -
  have "handleReadHoldingRegisters h area start q = (createExceptionResponse h 0x03 0x02, area, [])" for h
    using assms(2) by (auto simp: handleReadHoldingRegisters_def)
  then show ?thesis
    unfolding processRequest_mbap [OF assms(1)] Let_def dispatch_read_registers
    by (simp add: createExceptionResponse_def buildResponse_def mbap_header_def mbap_request_def byte_ops be16_def)
qed

lemma exception_framed_twice_witness:
  "fst (processRequest (mbap_request 5 7 0x03 (be16 0 @ be16 0)) (om_put 7 (ModbusDataArea 8) [])) ! 7 = 0"
proof -
  have "fst (processRequest (mbap_request 5 7 0x03 (be16 0 @ be16 0)) (om_put 7 (ModbusDataArea 8) [])) ! 7
      = ucast (drop_bit 8 (5 :: u16))"
    using exception_framed_twice [of "om_put 7 (ModbusDataArea 8) []" 7 "ModbusDataArea 8" 0 0 5]
    by (simp only: Let_def) (simp add: mbap_request_parse)
  then show ?thesis by simp
qed

section \<open>The stream of requests\<close>

definition mbap_frame :: "bytes \<Rightarrow> bool" where
  "mbap_frame f = (7 \<le> length f \<and> length f = 6 + unat (read16 f 4) \<and> unat (read16 f 4) \<le> MAX_MODBUS_LENGTH)"

definition tcp_take :: "bytes \<Rightarrow> (bytes \<times> bytes) option" where
  "tcp_take buf =
     (let n = 6 + unat (read16 buf 4)
      in if 7 \<le> length buf \<and> unat (read16 buf 4) \<le> MAX_MODBUS_LENGTH \<and> n \<le> length buf
         then Some (take n buf, drop n buf) else None)"

definition oversize :: "bytes \<Rightarrow> bool" where
  "oversize buf = (7 \<le> length buf \<and> unat (read16 buf 4) > MAX_MODBUS_LENGTH)"

interpretation tcp: framed_stream "\<lambda>f. f" mbap_frame tcp_take
proof
  fix f part more rest :: bytes
  show "mbap_frame f \<Longrightarrow> f \<noteq> []" by (auto simp: mbap_frame_def)
  show "tcp_take [] = None" by (simp add: tcp_take_def)
  show "mbap_frame f \<Longrightarrow> tcp_take (f @ rest) = Some (f, rest)"
    by (simp add: tcp_take_def mbap_frame_def read16_append Let_def)
  assume f: "mbap_frame f" and eq: "f = part @ more" and more: "more \<noteq> []"
  show "tcp_take part = None"
  proof (cases "7 \<le> length part")
    case True
    then have "read16 f 4 = read16 part 4" by (simp add: eq read16_append)
    with f eq more show ?thesis by (cases more) (auto simp: tcp_take_def mbap_frame_def Let_def)
  qed (simp add: tcp_take_def)
qed

fun serve :: "bytes list \<Rightarrow> units \<Rightarrow> bytes list \<times> units \<times> signal list" where
  "serve [] m = ([], m, [])"
| "serve (f # fs) m =
     (let (response, m1, s1) = processRequest f m; (rs, m2, s2) = serve fs m1
      in (if response \<noteq> [] then response # rs else rs, m2, s1 @ s2))"

lemma serve_append:
  "serve (fs @ gs) m =
     (let (rs, m1, s1) = serve fs m; (rs', m2, s2) = serve gs m1 in (rs @ rs', m2, s1 @ s2))"
  by (induction fs arbitrary: m) (auto simp: Let_def split_beta)

lemma processBuffer_fuel_step:
  "processBuffer_fuel (Suc n) buf m =
     (case tcp_take buf of
        None \<Rightarrow> ([], if oversize buf then [] else buf, m, [])
      | Some (f, rest) \<Rightarrow>
          (let (r, m1, s1) = processRequest f m; (rs, left, m2, s2) = processBuffer_fuel n rest m1
           in (if r \<noteq> [] then r # rs else rs, left, m2, s1 @ s2)))"
proof (cases "length buf < 7")
  case False
  then obtain h where h: "parseHeader_mbap buf = Some h" "hdr_length h = read16 buf 4"
    by (auto simp: parseHeader_mbap_def byte_ops)
  with False show ?thesis
    by (simp add: tcp_take_def oversize_def Let_def)
qed (simp add: tcp_take_def oversize_def)

lemma tcp_take_shorter: "tcp_take buf = Some (f, rest) \<Longrightarrow> length rest < length buf"
  by (auto simp: tcp_take_def Let_def split: if_splits)

lemma processBuffer_fuel_drain:
  "length buf \<le> n \<Longrightarrow> processBuffer_fuel n buf m =
     (let (fs, left) = drain_fuel n tcp_take buf; (rs, m', s) = serve fs m
      in (rs, if oversize left then [] else left, m', s))"
proof (induction n arbitrary: buf m)
  case (Suc n)
  show ?case
  proof (cases "tcp_take buf")
    case (Some p)
    obtain f rest where p: "p = (f, rest)" by fastforce
    with Some Suc.prems tcp_take_shorter have "length rest \<le> n" by fastforce
    with Suc.IH Some p show ?thesis
      by (simp only: processBuffer_fuel_step) (simp add: Let_def split_beta)
  qed (simp add: processBuffer_fuel_step del: processBuffer_fuel.simps)
qed (simp add: oversize_def)

lemma processBuffer_fuel_bound:
  "length buf \<le> n \<Longrightarrow> length (fst (snd (processBuffer_fuel n buf m))) < 266"
proof (induction n arbitrary: buf m)
  case (Suc n)
  show ?case
  proof (cases "tcp_take buf")
    case None
    then have "length buf < 266 \<or> oversize buf"
      by (auto simp: tcp_take_def oversize_def MAX_MODBUS_LENGTH_def Let_def split: if_splits)
    with None show ?thesis by (auto simp: processBuffer_fuel_step simp del: processBuffer_fuel.simps)
  next
    case (Some p)
    obtain f rest where p: "p = (f, rest)" by fastforce
    with Some Suc.prems tcp_take_shorter have "length rest \<le> n" by fastforce
    with Suc.IH Some p show ?thesis
      by (simp only: processBuffer_fuel_step) (simp add: Let_def split_beta)
  qed
qed simp

lemma not_oversize_prefix:
  assumes "\<forall>f \<in> set fs. mbap_frame f" and "left @ unread = concat fs" and "tcp_take left = None"
  shows "\<not> oversize left"
proof
  assume over: "oversize left"
  then have len: "7 \<le> length left" by (simp add: oversize_def)
  with assms(2) obtain f gs where fs: "fs = f # gs" by (cases fs) auto
  then have f: "mbap_frame f" using assms(1) by simp
  then have "7 \<le> length f" by (simp add: mbap_frame_def)
  have eq: "left @ unread = f @ concat gs" using assms(2) fs by simp
  have "read16 left 4 = read16 (left @ unread) 4" using len by (simp add: read16_append)
  also have "\<dots> = read16 f 4" using \<open>7 \<le> length f\<close> by (simp add: eq read16_append)
  finally show False using over f by (simp add: oversize_def mbap_frame_def)
qed

text \<open>One chunk: the server serves the frames it completes and keeps the rest.\<close>

lemma onReadyRead_chunk:
  assumes "om_get (tcp_clients s) sock = Some info"
    and "\<forall>f \<in> set fs. mbap_frame f" and "recvBuffer info @ c @ unread = concat fs"
  shows "\<exists>k left. k \<le> length fs \<and> left @ unread = concat (drop k fs) \<and> tcp_take left = None
    \<and> (let (rs, m, sg) = serve (take k fs) (tcp_units s) in
        onReadyRead sock c s = s\<lparr>tcp_clients := om_put sock (info\<lparr>recvBuffer := left\<rparr>) (tcp_clients s),
          tcp_units := m, tcp_written := tcp_written s @ map (Pair sock) rs, tcp_signals := tcp_signals s @ sg\<rparr>)"
proof -
  have "(recvBuffer info @ c) @ unread = concat (map (\<lambda>f. f) fs)" using assms(3) by simp
  from tcp.drain_frames [OF assms(2) this] obtain k left where
    k: "drain tcp_take (recvBuffer info @ c) = (take k fs, left)" "k \<le> length fs"
      "left @ unread = concat (drop k fs)" "tcp_take left = None"
    by auto
  have "\<not> oversize left"
    using assms(2) k(3,4) by (intro not_oversize_prefix [of "drop k fs"]) (auto dest: in_set_dropD)
  then have "processBuffer_fuel (length (recvBuffer info @ c)) (recvBuffer info @ c) (tcp_units s) =
      (let (rs, m, sg) = serve (take k fs) (tcp_units s) in (rs, left, m, sg))"
    using k(1) by (subst processBuffer_fuel_drain) (simp_all add: drain_def)
  then show ?thesis
    using assms(1) k
    by (intro exI [of _ k] exI [of _ left])
      (auto simp: onReadyRead_def processBuffer_def Let_def split_beta)
qed

lemma onReadyRead_chunks:
  assumes "om_get (tcp_clients s) sock = Some info" and "\<forall>f \<in> set fs. mbap_frame f"
    and "recvBuffer info @ concat chunks = concat fs" and "tcp_take (recvBuffer info) = None"
  shows "let s' = foldl (\<lambda>s c. onReadyRead sock c s) s chunks; (rs, m, sg) = serve fs (tcp_units s) in
    tcp_units s' = m \<and> tcp_written s' = tcp_written s @ map (Pair sock) rs \<and> tcp_signals s' = tcp_signals s @ sg
    \<and> om_get (tcp_clients s') sock = Some (info\<lparr>recvBuffer := []\<rparr>)"
  using assms
proof (induction chunks arbitrary: s info fs)
  case Nil
  have "fs = []"
  proof (rule ccontr)
    assume "fs \<noteq> []"
    then obtain f gs where "fs = f # gs" by (cases fs) auto
    with Nil tcp.take_encode [of f "concat gs"] show False by simp
  qed
  with Nil have "recvBuffer info = []" by simp
  then have "info\<lparr>recvBuffer := []\<rparr> = info" by (metis client_info.surjective client_info.update_convs(1))
  with Nil \<open>fs = []\<close> show ?case by simp
next
  case (Cons c chunks)
  have "recvBuffer info @ c @ concat chunks = concat fs" using Cons.prems(3) by simp
  from onReadyRead_chunk [OF Cons.prems(1,2) this] obtain k left where
    k: "k \<le> length fs" "left @ concat chunks = concat (drop k fs)" "tcp_take left = None"
      "let (rs, m, sg) = serve (take k fs) (tcp_units s) in
        onReadyRead sock c s = s\<lparr>tcp_clients := om_put sock (info\<lparr>recvBuffer := left\<rparr>) (tcp_clients s),
          tcp_units := m, tcp_written := tcp_written s @ map (Pair sock) rs, tcp_signals := tcp_signals s @ sg\<rparr>"
    by blast
  obtain rs m sg where serve: "serve (take k fs) (tcp_units s) = (rs, m, sg)" using prod_cases3 by blast
  let ?s1 = "onReadyRead sock c s"
  have s1: "?s1 = s\<lparr>tcp_clients := om_put sock (info\<lparr>recvBuffer := left\<rparr>) (tcp_clients s),
      tcp_units := m, tcp_written := tcp_written s @ map (Pair sock) rs, tcp_signals := tcp_signals s @ sg\<rparr>"
    using k(4) serve by simp
  have "let s' = foldl (\<lambda>s c. onReadyRead sock c s) ?s1 chunks; (rs, m, sg) = serve (drop k fs) (tcp_units ?s1) in
    tcp_units s' = m \<and> tcp_written s' = tcp_written ?s1 @ map (Pair sock) rs \<and> tcp_signals s' = tcp_signals ?s1 @ sg
    \<and> om_get (tcp_clients s') sock = Some ((info\<lparr>recvBuffer := left\<rparr>)\<lparr>recvBuffer := []\<rparr>)"
    using Cons.prems(2) k(2,3)
    by (intro Cons.IH) (auto simp: s1 dest: in_set_dropD)
  moreover have "serve fs (tcp_units s) =
      (let (rs', m2, s2) = serve (drop k fs) m in (rs @ rs', m2, sg @ s2))"
    using serve_append [of "take k fs" "drop k fs" "tcp_units s"] serve by simp
  ultimately show ?case
    by (simp add: s1 Let_def split_beta)
qed

text \<open>C8: A client may send its requests without waiting for the answers, and the network may cut
  their bytes anywhere: the server answers exactly the requests sent, in their order, each in
  the state the earlier ones left, and no byte of the stream is lost or left over.\<close>

theorem pipelined_requests_served:
  assumes "om_get (tcp_clients s) sock = Some info" and "recvBuffer info = []"
    and "\<forall>f \<in> set requests. mbap_frame f" and "concat chunks = concat requests"
  shows "let s' = foldl (\<lambda>s c. onReadyRead sock c s) s chunks;
             (responses, m, sigs) = serve requests (tcp_units s)
         in tcp_units s' = m \<and> tcp_written s' = tcp_written s @ map (Pair sock) responses
            \<and> tcp_signals s' = tcp_signals s @ sigs
            \<and> om_get (tcp_clients s') sock = Some (info\<lparr>recvBuffer := []\<rparr>)"
  using assms by (intro onReadyRead_chunks) (simp_all add: tcp.take_nil)

lemma pipelined_requests_served_witness:
  "let s = \<lparr>tcp_clients = om_put 3 \<lparr>recvBuffer = [], ci_address = [], ci_port = 1\<rparr> [],
            tcp_units = [], tcp_written = [], tcp_signals = []\<rparr>;
       s' = foldl (\<lambda>s c. onReadyRead 3 c s) s [[0, 9, 0, 0, 0], [3, 7], [], [1, 2]]
   in tcp_written s' = [(3, [0, 9, 0, 0, 0, 3, 7, 129, 11])]"
proof -
  let ?s = "\<lparr>tcp_clients = om_put 3 \<lparr>recvBuffer = [], ci_address = [], ci_port = 1\<rparr> [],
            tcp_units = [], tcp_written = [], tcp_signals = []\<rparr>"
  have frame: "\<forall>f \<in> set [[0, 9, 0, 0, 0, 3, 7, 1, 2]]. mbap_frame f"
    by (simp add: mbap_frame_def read16_def join16_def MAX_MODBUS_LENGTH_def)
  have client: "om_get (tcp_clients ?s) 3 = Some \<lparr>recvBuffer = [], ci_address = [], ci_port = 1\<rparr>" by simp
  have answer: "serve [[0, 9, 0, 0, 0, 3, 7, 1, 2]] [] = ([[0, 9, 0, 0, 0, 3, 7, 129, 11]], [], [])"
    by (simp add: processRequest_def parseHeader_mbap_def bytesToUInt16_def createExceptionResponse_def
        buildResponse_def uint16ToBytes_def)
  have cut: "concat [[0, 9, 0, 0, 0], [3, 7], [], [1, 2]] = concat [[0, 9, 0, 0, 0, 3, 7, 1, 2 :: byte]]" by simp
  show ?thesis
    using pipelined_requests_served [OF client _ frame cut] answer by (simp add: Let_def del: serve.simps foldl_Cons)
qed

section \<open>Bounds\<close>

definition area_ok :: "data_area \<Rightarrow> bool" where
  "area_ok a = (length (discreteInputs a) = length (coils a) \<and> length (holdingRegisters a) = length (coils a)
     \<and> length (inputRegisters a) = length (coils a))"

definition units_ok :: "units \<Rightarrow> bool" where
  "units_ok m = (om_ok m \<and> (\<forall>u a. om_get m u = Some a \<longrightarrow> area_ok a))"

definition tcp_inv :: "tcp_server \<Rightarrow> bool" where
  "tcp_inv s = (units_ok (tcp_units s) \<and> om_ok (tcp_clients s)
     \<and> (\<forall>sock info. om_get (tcp_clients s) sock = Some info \<longrightarrow> length (recvBuffer info) < 266))"

lemma length_foldl_update: "length (foldl (\<lambda>xs i. xs[f i := g i]) xs is) = length xs"
  by (induction "is" arbitrary: xs) auto

lemma dispatch_area_ok: "dispatch h area fc pdu = Inr (r, area', sg) \<Longrightarrow> area_ok area \<Longrightarrow> area_ok area'"
  by (auto simp: dispatch_def Let_def handleReadCoils_def handleReadDiscreteInputs_def
      handleReadHoldingRegisters_def handleReadInputRegisters_def handleWriteSingleCoil_def
      handleWriteSingleRegister_def handleWriteMultipleCoils_def handleWriteMultipleRegisters_def
      area_ok_def length_foldl_update split: if_splits)

lemma units_ok_put: "units_ok m \<Longrightarrow> area_ok a \<Longrightarrow> units_ok (om_put u a m)"
  by (auto simp: units_ok_def)

lemma processRequest_units_ok: "units_ok m \<Longrightarrow> units_ok (fst (snd (processRequest request m)))"
proof -
  assume ok: "units_ok m"
  then have area: "om_get m u = Some a \<Longrightarrow> area_ok a" for u a by (auto simp: units_ok_def)
  show ?thesis
  proof (cases "parseHeader_mbap request")
    case (Some h)
    show ?thesis
    proof (cases "om_get m (unitId h)")
      case (Some a)
      with \<open>parseHeader_mbap request = Some h\<close> ok area show ?thesis
        by (cases "dispatch h a (request ! 7) (drop 8 request)")
          (auto simp: processRequest_def intro: units_ok_put dispatch_area_ok split: prod.split)
    qed (simp add: processRequest_def \<open>parseHeader_mbap request = Some h\<close> ok)
  qed (simp add: processRequest_def ok)
qed

lemma serve_units_ok: "units_ok m \<Longrightarrow> units_ok (fst (snd (serve fs m)))"
  by (induction fs arbitrary: m) (auto simp: Let_def split_beta processRequest_units_ok)

lemma processBuffer_units_ok:
  "units_ok m \<Longrightarrow> units_ok (fst (snd (snd (processBuffer_fuel (length buf) buf m))))"
  by (subst processBuffer_fuel_drain) (simp_all add: Let_def split_beta serve_units_ok)

lemma tcp_inv_data: "tcp_inv s \<Longrightarrow> tcp_inv (onReadyRead sock c s)"
proof (cases "om_get (tcp_clients s) sock")
  case (Some info)
  assume inv: "tcp_inv s"
  let ?buf = "recvBuffer info @ c"
  obtain rs left m sg where p: "processBuffer_fuel (length ?buf) ?buf (tcp_units s) = (rs, left, m, sg)"
    using prod_cases4 by blast
  have "length left < 266" using processBuffer_fuel_bound [of ?buf "length ?buf" "tcp_units s"] p by simp
  moreover have "units_ok m" using processBuffer_units_ok [of "tcp_units s" ?buf] inv p by (simp add: tcp_inv_def)
  moreover have "onReadyRead sock c s = s\<lparr>tcp_clients := om_put sock (info\<lparr>recvBuffer := left\<rparr>) (tcp_clients s),
      tcp_units := m, tcp_written := tcp_written s @ map (Pair sock) rs, tcp_signals := tcp_signals s @ sg\<rparr>"
    using Some p by (simp add: onReadyRead_def processBuffer_def)
  ultimately show ?thesis using inv by (auto simp: tcp_inv_def)
qed (simp add: onReadyRead_def)

lemma ModbusDataArea_ok: "area_ok (ModbusDataArea n)"
  by (simp add: area_ok_def ModbusDataArea_def)

lemma units_ok_ops:
  assumes "units_ok m"
  shows "units_ok (snd (addUnit u n m))" "units_ok (snd (removeUnit u m))" "units_ok (snd (setCoil u a b m))"
    "units_ok (snd (setDiscreteInput u a b m))" "units_ok (snd (setHoldingRegister u a v m))"
    "units_ok (snd (setInputRegister u a v m))"
  using assms
  by (auto simp: addUnit_def removeUnit_def setCoil_def setDiscreteInput_def setHoldingRegister_def
      setInputRegister_def ModbusDataArea_ok intro!: units_ok_put split: option.split)
    (auto simp: units_ok_def area_ok_def)

interpretation tcp_machine: event_machine tcp_step tcp_inv
proof
  fix s e
  assume inv: "tcp_inv s"
  then show "tcp_inv (tcp_step s e)"
    using units_ok_ops [of "tcp_units s"]
    by (cases e)
      (auto simp: tcp_inv_data, auto simp: tcp_inv_def incomingConnection_def onDisconnected_def split: option.split)
qed

text \<open>C31: Whatever clients connect, send and disconnect, and whatever units and values the driver's
  commands add, remove and set in between: the four tables of every unit keep one common
  length, the maps keep one entry per key, and no client makes the server hold more than one
  incomplete frame, fewer than 266 bytes.\<close>

theorem tcp_server_bounds:
  assumes "s = \<lparr>tcp_clients = [], tcp_units = [], tcp_written = [], tcp_signals = []\<rparr>"
  shows "tcp_inv (run_events tcp_step s events)"
  by (rule tcp_machine.run_inv) (simp add: assms tcp_inv_def units_ok_def)

lemma tcp_server_bounds_witness:
  "tcp_inv (run_events tcp_step \<lparr>tcp_clients = [], tcp_units = [], tcp_written = [], tcp_signals = []\<rparr>
     [TcpAddUnit 1 10, TcpConnect 3 True [] 5, TcpData 3 [0, 1, 0, 0, 0]])"
  by (rule tcp_server_bounds) (rule refl)

end
