(* ===== verification/ModbusCrc.thy ===== *)
theory ModbusCrc
  imports Prelude
begin

text \<open>
  Checksums of the drivers. A checksum register that a byte enters injectively, in the register
  and in the byte, tells apart any two messages of the same length that differ in one byte; the
  locale states this once. The table-driven CRC-16 of the Modbus servers
  (\<open>calculateCRC16\<close> in \<open>src/src/drivers/driver_modbusrtu_server/modbus_rtu_server.cpp\<close>) is shown
  to be the bitwise division by the reflected polynomial 0xA001 and is an instance.
\<close>

section \<open>Checksum registers\<close>

locale crc_register =
  fixes step :: "'c \<Rightarrow> byte \<Rightarrow> 'c"
  assumes step_inj: "step c b = step d b \<Longrightarrow> c = d"
    and step_byte_inj: "step c a = step c b \<Longrightarrow> a = b"
begin

lemma foldl_inj: "foldl step c bs = foldl step d bs \<Longrightarrow> c = d"
  by (induction bs arbitrary: c d) (auto dest: step_inj)

lemma one_byte_detected:
  assumes "i < length bs" and "x \<noteq> bs ! i"
  shows "foldl step c (bs[i := x]) \<noteq> foldl step c bs"
proof
  assume eq: "foldl step c (bs[i := x]) = foldl step c bs"
  have bs: "bs = take i bs @ bs ! i # drop (Suc i) bs" using assms(1) by (rule id_take_nth_drop)
  have "bs[i := x] = take i bs @ x # drop (Suc i) bs" using assms(1) by (rule upd_conv_take_nth_drop)
  with eq bs have "foldl step (step (foldl step c (take i bs)) x) (drop (Suc i) bs)
      = foldl step (step (foldl step c (take i bs)) (bs ! i)) (drop (Suc i) bs)"
    by (metis foldl_Cons foldl_append)
  then have "step (foldl step c (take i bs)) x = step (foldl step c (take i bs)) (bs ! i)" by (rule foldl_inj)
  then have "x = bs ! i" by (rule step_byte_inj)
  with assms(2) show False by simp
qed

end

section \<open>CRC-16 by table\<close>

definition crc16Table :: "u16 list" where
  "crc16Table = [
    0x0000, 0xC0C1, 0xC181, 0x0140, 0xC301, 0x03C0, 0x0280, 0xC241,
    0xC601, 0x06C0, 0x0780, 0xC741, 0x0500, 0xC5C1, 0xC481, 0x0440,
    0xCC01, 0x0CC0, 0x0D80, 0xCD41, 0x0F00, 0xCFC1, 0xCE81, 0x0E40,
    0x0A00, 0xCAC1, 0xCB81, 0x0B40, 0xC901, 0x09C0, 0x0880, 0xC841,
    0xD801, 0x18C0, 0x1980, 0xD941, 0x1B00, 0xDBC1, 0xDA81, 0x1A40,
    0x1E00, 0xDEC1, 0xDF81, 0x1F40, 0xDD01, 0x1DC0, 0x1C80, 0xDC41,
    0x1400, 0xD4C1, 0xD581, 0x1540, 0xD701, 0x17C0, 0x1680, 0xD641,
    0xD201, 0x12C0, 0x1380, 0xD341, 0x1100, 0xD1C1, 0xD081, 0x1040,
    0xF001, 0x30C0, 0x3180, 0xF141, 0x3300, 0xF3C1, 0xF281, 0x3240,
    0x3600, 0xF6C1, 0xF781, 0x3740, 0xF501, 0x35C0, 0x3480, 0xF441,
    0x3C00, 0xFCC1, 0xFD81, 0x3D40, 0xFF01, 0x3FC0, 0x3E80, 0xFE41,
    0xFA01, 0x3AC0, 0x3B80, 0xFB41, 0x3900, 0xF9C1, 0xF881, 0x3840,
    0x2800, 0xE8C1, 0xE981, 0x2940, 0xEB01, 0x2BC0, 0x2A80, 0xEA41,
    0xEE01, 0x2EC0, 0x2F80, 0xEF41, 0x2D00, 0xEDC1, 0xEC81, 0x2C40,
    0xE401, 0x24C0, 0x2580, 0xE541, 0x2700, 0xE7C1, 0xE681, 0x2640,
    0x2200, 0xE2C1, 0xE381, 0x2340, 0xE101, 0x21C0, 0x2080, 0xE041,
    0xA001, 0x60C0, 0x6180, 0xA141, 0x6300, 0xA3C1, 0xA281, 0x6240,
    0x6600, 0xA6C1, 0xA781, 0x6740, 0xA501, 0x65C0, 0x6480, 0xA441,
    0x6C00, 0xACC1, 0xAD81, 0x6D40, 0xAF01, 0x6FC0, 0x6E80, 0xAE41,
    0xAA01, 0x6AC0, 0x6B80, 0xAB41, 0x6900, 0xA9C1, 0xA881, 0x6840,
    0x7800, 0xB8C1, 0xB981, 0x7940, 0xBB01, 0x7BC0, 0x7A80, 0xBA41,
    0xBE01, 0x7EC0, 0x7F80, 0xBF41, 0x7D00, 0xBDC1, 0xBC81, 0x7C40,
    0xB401, 0x74C0, 0x7580, 0xB541, 0x7700, 0xB7C1, 0xB681, 0x7640,
    0x7200, 0xB2C1, 0xB381, 0x7340, 0xB101, 0x71C0, 0x7080, 0xB041,
    0x5000, 0x90C1, 0x9181, 0x5140, 0x9301, 0x53C0, 0x5280, 0x9241,
    0x9601, 0x56C0, 0x5780, 0x9741, 0x5500, 0x95C1, 0x9481, 0x5440,
    0x9C01, 0x5CC0, 0x5D80, 0x9D41, 0x5F00, 0x9FC1, 0x9E81, 0x5E40,
    0x5A00, 0x9AC1, 0x9B81, 0x5B40, 0x9901, 0x59C0, 0x5880, 0x9841,
    0x8801, 0x48C0, 0x4980, 0x8941, 0x4B00, 0x8BC1, 0x8A81, 0x4A40,
    0x4E00, 0x8EC1, 0x8F81, 0x4F40, 0x8D01, 0x4DC0, 0x4C80, 0x8C41,
    0x4400, 0x84C1, 0x8581, 0x4540, 0x8701, 0x47C0, 0x4680, 0x8641,
    0x8201, 0x42C0, 0x4380, 0x8341, 0x4100, 0x81C1, 0x8081, 0x4040]"

definition crc16_step :: "u16 \<Rightarrow> byte \<Rightarrow> u16" where
  "crc16_step crc byte = drop_bit 8 crc XOR crc16Table ! unat ((crc XOR ucast byte) AND 0xFF)"

definition calculateCRC16 :: "bytes \<Rightarrow> u16" where
  "calculateCRC16 data = foldl crc16_step 0xFFFF data"

section \<open>CRC-16 by bits\<close>

definition crc16_bit :: "u16 \<Rightarrow> u16" where
  "crc16_bit c = (if bit c 0 then drop_bit 1 c XOR 0xA001 else drop_bit 1 c)"

definition crc16_bits :: "u16 \<Rightarrow> u16" where
  "crc16_bits c = crc16_bit (crc16_bit (crc16_bit (crc16_bit (crc16_bit (crc16_bit (crc16_bit (crc16_bit c)))))))"

lemma crc16Table_length [simp]: "length crc16Table = 256"
  by (simp add: crc16Table_def)

fun evens :: "'a list \<Rightarrow> 'a list" where
  "evens (a # b # xs) = a # evens xs"
| "evens xs = []"

fun odds :: "'a list \<Rightarrow> 'a list" where
  "odds (a # b # xs) = b # odds xs"
| "odds xs = []"

lemma crc16Table_odds: "odds crc16Table = map (\<lambda>v. v XOR 0xC0C1) (evens crc16Table)"
  by (simp add: crc16Table_def)

lemma crc16Table_evens: "map crc16_bit (evens crc16Table) = take 128 crc16Table"
  by (simp add: crc16Table_def crc16_bit_def)

lemma nth_evens_odds:
  "2 * i + 1 < length xs \<Longrightarrow> evens xs ! i = xs ! (2 * i) \<and> odds xs ! i = xs ! (2 * i + 1)"
proof (induction xs arbitrary: i rule: evens.induct)
  case (1 a b xs)
  then show ?case by (cases i) auto
qed simp_all

lemma length_evens_odds: "length (evens xs) = length xs div 2" "length (odds xs) = length xs div 2"
  by (induction xs rule: evens.induct) auto

lemma crc16Table_rec:
  assumes "i < 128"
  shows "crc16_bit (crc16Table ! (2 * i)) = crc16Table ! i"
    and "crc16Table ! (2 * i + 1) = crc16Table ! (2 * i) XOR 0xC0C1"
proof -
  have i: "2 * i + 1 < length crc16Table" using assms by simp
  have "map crc16_bit (evens crc16Table) ! i = take 128 crc16Table ! i" by (simp only: crc16Table_evens)
  with assms nth_evens_odds [OF i] show "crc16_bit (crc16Table ! (2 * i)) = crc16Table ! i"
    by (simp add: length_evens_odds)
  have "map (\<lambda>v. v XOR 0xC0C1) (evens crc16Table) ! i = evens crc16Table ! i XOR 0xC0C1"
    using assms by (simp add: length_evens_odds)
  with nth_evens_odds [OF i] show "crc16Table ! (2 * i + 1) = crc16Table ! (2 * i) XOR 0xC0C1"
    by (simp only: crc16Table_odds [symmetric])
qed

lemma crc16_bit_xor: "crc16_bit (a XOR b) = crc16_bit a XOR crc16_bit b"
  by (auto simp: crc16_bit_def bit_simps intro!: bit_word_eqI)

lemma crc16_bits_xor: "crc16_bits (a XOR b) = crc16_bits a XOR crc16_bits b"
  by (simp add: crc16_bits_def crc16_bit_xor)

lemma xor_cancel: "a XOR k = b XOR k \<Longrightarrow> a = b" for a b k :: "'a::len word"
  by (rule bit_word_eqI) (metis bit_xor_iff)

lemma crc16_bit_inj: "crc16_bit a = crc16_bit b \<Longrightarrow> a = b"
proof -
  assume eq: "crc16_bit a = crc16_bit b"
  have top: "bit (crc16_bit c) 15 = bit c 0" for c
    using bit_imp_le_length [of c 16] by (auto simp: crc16_bit_def bit_simps bit_numeral_word_iff)
  from eq have zero: "bit a 0 = bit b 0" using top by metis
  with eq have shift: "drop_bit 1 a = drop_bit 1 b"
    using xor_cancel [of "drop_bit 1 a" "0xA001" "drop_bit 1 b"] by (auto simp: crc16_bit_def split: if_splits)
  show "a = b"
  proof (rule bit_word_eqI)
    fix n
    show "bit a n = bit b n"
    proof (cases n)
      case (Suc m)
      have "bit (drop_bit 1 a) m = bit (drop_bit 1 b) m" using shift by simp
      with Suc show ?thesis by (simp add: bit_simps)
    qed (simp add: zero)
  qed
qed

lemma crc16_bits_inj: "crc16_bits a = crc16_bits b \<Longrightarrow> a = b"
  by (simp add: crc16_bits_def) (blast dest: crc16_bit_inj)

lemma crc16_bits_zero: "crc16_bits 0 = 0"
  by (simp add: crc16_bits_def crc16_bit_def)

lemma of_nat_even_u16:
  assumes "j < 0x8000"
  shows "\<not> bit (of_nat (2 * j) :: u16) 0" and "drop_bit 1 (of_nat (2 * j) :: u16) = of_nat j"
proof -
  have nat: "unat (of_nat (2 * j) :: u16) = 2 * j" "unat (of_nat j :: u16) = j"
    using assms by (simp_all add: unsigned_of_nat take_bit_nat_eq_self del: of_nat_mult)
  have "unat (drop_bit 1 (of_nat (2 * j) :: u16)) = unat (of_nat j :: u16)"
    using assms unfolding unsigned_drop_bit_eq nat by (simp add: drop_bit_eq_div take_bit_nat_eq_self)
  then show "drop_bit 1 (of_nat (2 * j) :: u16) = of_nat j" by (rule unsigned_word_eqI)
  show "\<not> bit (of_nat (2 * j) :: u16) 0" by (simp add: bit_0)
qed

lemma crc16_bit_even: "j < 0x8000 \<Longrightarrow> crc16_bit (of_nat (2 * j)) = of_nat j"
  using of_nat_even_u16 by (simp only: crc16_bit_def if_False)

lemma crc16Table_nth:
  assumes "i < 256"
  shows "crc16Table ! i = crc16_bits (of_nat i)"
  using assms
proof (induction i rule: less_induct)
  case (less i)
  show ?case
  proof (cases "i = 0")
    case True
    then show ?thesis by (simp add: crc16Table_def crc16_bits_zero)
  next
    case False
    define j where "j = i div 2"
    have j: "j < i" "j < 128" using False less.prems by (auto simp: j_def)
    have even_case: "crc16Table ! (2 * j) = crc16_bits (of_nat (2 * j))"
    proof (rule crc16_bit_inj)
      have "crc16_bit (crc16_bits (of_nat (2 * j))) = crc16_bits (crc16_bit (of_nat (2 * j)))"
        by (simp only: crc16_bits_def)
      also have "\<dots> = crc16_bits (of_nat j)" using j(2) by (simp only: crc16_bit_even)
      also have "\<dots> = crc16Table ! j" using less.IH [OF j(1)] j(2) by simp
      finally show "crc16_bit (crc16Table ! (2 * j)) = crc16_bit (crc16_bits (of_nat (2 * j)))"
        using crc16Table_rec(1) [OF j(2)] by simp
    qed
    show ?thesis
    proof (cases "even i")
      case True
      with even_case show ?thesis by (simp add: j_def)
    next
      case odd: False
      then have i: "i = 2 * j + 1" by (simp add: j_def)
      have "(of_nat i :: u16) = of_nat (2 * j) XOR 1"
        using of_nat_even_u16(1) [of j] j(2) by (simp add: i xor_one_eq bit_0)
      then have "crc16_bits (of_nat i) = crc16Table ! (2 * j) XOR crc16_bits 1"
        by (simp only: crc16_bits_xor even_case)
      moreover have "crc16_bits 1 = 0xC0C1"
        by (simp add: crc16_bits_def crc16_bit_def)
      ultimately show ?thesis
        using crc16Table_rec(2) [OF j(2)] by (simp only: i)
    qed
  qed
qed

text \<open>The table step is eight steps of the bitwise division.\<close>

lemma crc16_bits_high: "crc16_bits (push_bit 8 (ucast (b :: byte))) = ucast b"
proof -
  have step: "crc16_bit (push_bit (Suc n) (ucast b)) = push_bit n (ucast b)" if "n < 8" for n
  proof -
    have "drop_bit 1 (push_bit (Suc n) (ucast b :: u16)) = push_bit n (ucast b)"
      using that by (intro bit_word_eqI) (auto simp: bit_simps bit_byte_beyond Suc_diff_le simp del: push_bit_Suc dest: bit_imp_le_length)
    moreover have "\<not> bit (push_bit (Suc n) (ucast b :: u16)) 0" by (simp add: bit_push_bit_iff del: push_bit_Suc)
    ultimately show ?thesis by (simp only: crc16_bit_def if_False)
  qed
  show ?thesis
    using step [of 7] step [of 6] step [of 5] step [of 4] step [of 3] step [of 2] step [of 1] step [of 0]
    by (simp add: crc16_bits_def numeral_eq_Suc)
qed

lemma mask8_u16: "(0xFF :: u16) = mask 8"
  by (simp add: mask_eq_exp_minus_1)

lemma unat_and_byte: "unat (v AND 0xFF :: u16) < 256"
proof -
  have "unat (v AND 0xFF) = take_bit 8 (unat v)"
    by (simp add: mask8_u16 take_bit_eq_mask [symmetric] unsigned_take_bit_eq)
  then show ?thesis using take_bit_nat_less_exp [of 8 "unat v"] by simp
qed

lemma crc16_step_bits: "crc16_step crc byte = crc16_bits (crc XOR ucast byte)"
proof -
  let ?x = "crc XOR ucast byte"
  let ?h = "ucast (drop_bit 8 ?x) :: byte"
  have split: "?x = push_bit 8 (ucast ?h) XOR (?x AND 0xFF)"
  proof (rule bit_word_eqI)
    fix n :: nat
    assume "n < LENGTH(16)"
    then show "bit ?x n = bit (push_bit 8 (ucast ?h) XOR (?x AND 0xFF)) n"
      by (cases "n < 8") (auto simp: mask8_u16 bit_simps bit_byte_beyond)
  qed
  have high: "ucast ?h = drop_bit 8 crc"
    by (rule bit_word_eqI) (auto simp: bit_simps bit_byte_beyond dest: bit_imp_le_length)
  have "crc16Table ! unat (?x AND 0xFF) = crc16_bits (?x AND 0xFF)"
    by (simp add: crc16Table_nth [OF unat_and_byte])
  moreover have "crc16_bits ?x = ucast ?h XOR crc16_bits (?x AND 0xFF)"
    by (subst split) (simp only: crc16_bits_xor crc16_bits_high)
  ultimately show ?thesis
    by (simp only: crc16_step_def high)
qed

interpretation crc16: crc_register crc16_step
proof
  fix c d :: u16 and a b :: byte
  show "crc16_step c b = crc16_step d b \<Longrightarrow> c = d"
    unfolding crc16_step_bits by (drule crc16_bits_inj) (rule xor_cancel)
  assume "crc16_step c a = crc16_step c b"
  then have "c XOR ucast a = c XOR ucast b"
    unfolding crc16_step_bits by (rule crc16_bits_inj)
  then have "(ucast a :: u16) = ucast b"
    using xor_cancel [of "ucast a" c "ucast b"] by (simp add: xor.commute)
  then have "unat (ucast a :: u16) = unat (ucast b :: u16)" by simp
  then have "unat a = unat b" by simp
  then show "a = b" by (rule unsigned_word_eqI)
qed

text \<open>The checksum that the servers look up byte by byte in the table of 256 constants is the
  bitwise CRC-16 of Modbus: register 0xFFFF, and for every byte eight divisions by the reflected
  polynomial 0xA001.\<close>

theorem crc16_table_is_bitwise:
  "calculateCRC16 data = foldl (\<lambda>crc byte. crc16_bits (crc XOR ucast byte)) 0xFFFF data"
  by (simp add: calculateCRC16_def crc16_step_bits [abs_def])

end
