(* ===== verification/ModbusRtuServer.thy ===== *)
theory ModbusRtuServer
  imports ModbusTcpSpec ModbusCrc
begin

text \<open>
  The Modbus RTU servers over TCP (\<open>src/src/drivers/driver_modbusrtu_server/modbus_rtu_server.*\<close>) and
  over a serial port (\<open>driver_modbusrtu_serial_server/modbus_rtu_serial_server.*\<close>). Both keep the
  same tables as the TCP server and dispatch a checked frame by the same switch; they differ in
  how a frame is found in the bytes received and in who answers.
\<close>

section \<open>Frames with a checksum\<close>

definition buildRtuResponse :: "byte \<Rightarrow> bytes \<Rightarrow> bytes" where
  "buildRtuResponse u pdu =
     (let frame = u # pdu; crc = calculateCRC16 frame
      in frame @ [ucast (crc AND 0xFF), ucast (drop_bit 8 crc AND 0xFF)])"

definition createRtuExceptionResponse :: "byte \<Rightarrow> byte \<Rightarrow> byte \<Rightarrow> bytes" where
  "createRtuExceptionResponse u fc ex = buildRtuResponse u [fc OR 0x80, ex]"

text \<open>The comparison of the last two bytes with the checksum of those before them.\<close>

definition rtu_crc_ok :: "bytes \<Rightarrow> bool" where
  "rtu_crc_ok frame =
     (let n = length frame;
          received = push_bit 8 (ucast (frame ! (n - 1))) OR ucast (frame ! (n - 2)) :: u16
      in received = calculateCRC16 (take (n - 2) frame))"

section \<open>The switch on the function code\<close>

text \<open>\<open>Inl\<close> is the exception code of an early return, \<open>Inr\<close> the response PDU with the unit's new
  tables and the signal.\<close>

definition rtu_read :: "byte \<Rightarrow> data_area \<Rightarrow> byte \<Rightarrow> bytes \<Rightarrow> byte + handled" where
  "rtu_read u area fc data =
     (let start = bytesToUInt16 data 0; qty = bytesToUInt16 data 2;
          bits = (if fc = 0x01 then coils area else discreteInputs area);
          regs = (if fc = 0x03 then holdingRegisters area else inputRegisters area)
      in if length data < 4 then Inl ILLEGAL_DATA_VALUE
         else if fc = 0x01 \<or> fc = 0x02 then
           (if unat qty < 1 \<or> unat qty > 2000 \<or> unat start + unat qty > length bits
            then Inl ILLEGAL_DATA_ADDRESS
            else Inr ([fc, of_nat ((unat qty + 7) div 8)] @ pack_bits bits (unat start) (unat qty),
                      area, [DataRead u fc start qty]))
         else
           (if unat qty < 1 \<or> unat qty > 125 \<or> unat start + unat qty > length regs
            then Inl ILLEGAL_DATA_ADDRESS
            else Inr ([fc, of_nat (unat qty * 2)] @ register_bytes regs (unat start) (unat qty),
                      area, [DataRead u fc start qty])))"

definition rtu_write_single :: "byte \<Rightarrow> data_area \<Rightarrow> byte \<Rightarrow> bytes \<Rightarrow> byte + handled" where
  "rtu_write_single u area fc data =
     (let addr = bytesToUInt16 data 0; val = bytesToUInt16 data 2;
          pdu = [fc] @ uint16ToBytes addr @ uint16ToBytes val; sigs = [DataWritten u fc addr 1]
      in if length data < 4 then Inl ILLEGAL_DATA_VALUE
         else if fc = 0x05 then
           (if unat addr \<ge> length (coils area) then Inl ILLEGAL_DATA_ADDRESS
            else if val \<noteq> 0x0000 \<and> val \<noteq> 0xFF00 then Inl ILLEGAL_DATA_VALUE
            else Inr (pdu, area\<lparr>coils := (coils area)[unat addr := (val = 0xFF00)]\<rparr>, sigs))
         else
           (if unat addr \<ge> length (holdingRegisters area) then Inl ILLEGAL_DATA_ADDRESS
            else Inr (pdu, area\<lparr>holdingRegisters := (holdingRegisters area)[unat addr := val]\<rparr>, sigs)))"

definition rtu_write_multiple :: "byte \<Rightarrow> data_area \<Rightarrow> byte \<Rightarrow> bytes \<Rightarrow> byte + handled" where
  "rtu_write_multiple u area fc data =
     (let start = bytesToUInt16 data 0; qty = bytesToUInt16 data 2; byteCount = unat (data ! 4);
          pdu = [fc] @ uint16ToBytes start @ uint16ToBytes qty; sigs = [DataWritten u fc start qty]
      in if length data < 5 then Inl ILLEGAL_DATA_VALUE
         else if fc = 0x0F then
           (if unat qty < 1 \<or> unat qty > 1968 \<or> byteCount \<noteq> (unat qty + 7) div 8 \<or> length data < 5 + byteCount
            then Inl ILLEGAL_DATA_VALUE
            else if unat start + unat qty > length (coils area) then Inl ILLEGAL_DATA_ADDRESS
            else Inr (pdu, area\<lparr>coils := foldl (\<lambda>cs i. cs[unat start + i := bit (data ! (5 + i div 8)) (i mod 8)])
                             (coils area) [0..<unat qty]\<rparr>, sigs))
         else
           (if unat qty < 1 \<or> unat qty > 123 \<or> byteCount \<noteq> unat qty * 2 \<or> length data < 5 + byteCount
            then Inl ILLEGAL_DATA_VALUE
            else if unat start + unat qty > length (holdingRegisters area) then Inl ILLEGAL_DATA_ADDRESS
            else Inr (pdu, area\<lparr>holdingRegisters := foldl (\<lambda>rs i. rs[unat start + i := bytesToUInt16 data (5 + i * 2)])
                             (holdingRegisters area) [0..<unat qty]\<rparr>, sigs)))"

definition rtu_dispatch :: "byte \<Rightarrow> data_area \<Rightarrow> byte \<Rightarrow> bytes \<Rightarrow> byte + handled" where
  "rtu_dispatch u area fc data =
     (if fc \<in> {0x01, 0x02, 0x03, 0x04} then rtu_read u area fc data
      else if fc \<in> {0x05, 0x06} then rtu_write_single u area fc data
      else if fc \<in> {0x0F, 0x10} then rtu_write_multiple u area fc data
      else Inl ILLEGAL_FUNCTION)"

section \<open>The server over TCP\<close>

definition processRtuRequest :: "bytes \<Rightarrow> units \<Rightarrow> bytes \<times> units \<times> signal list" where
  "processRtuRequest frame m =
     (if length frame < 4 then ([], m, [])
      else
        (let u = frame ! 0; fc = frame ! 1; data = take (length frame - 4) (drop 2 frame)
         in case om_get m u of
              None \<Rightarrow> (createRtuExceptionResponse u fc GATEWAY_TARGET_DEVICE_FAILED, m, [])
            | Some area \<Rightarrow>
                (case rtu_dispatch u area fc data of
                   Inl ex \<Rightarrow> (createRtuExceptionResponse u fc ex, m, [])
                 | Inr (pdu, area', sigs) \<Rightarrow> (buildRtuResponse u pdu, om_put u area' m, sigs))))"

text \<open>The first length, from 4 to at most 256, at which the front of the buffer is a frame.\<close>

definition rtu_find :: "bytes \<Rightarrow> nat option" where
  "rtu_find buffer = find (\<lambda>len. rtu_crc_ok (take len buffer)) [4..<Suc (min (length buffer) 256)]"

text \<open>The loop of the frame timeout: a frame, or else one byte, is taken off each time.\<close>

fun rtu_scan_fuel :: "nat \<Rightarrow> bytes \<Rightarrow> units \<Rightarrow> bytes list \<times> bytes \<times> units \<times> signal list" where
  "rtu_scan_fuel 0 buffer m = ([], buffer, m, [])"
| "rtu_scan_fuel (Suc n) buffer m =
     (if length buffer < 4 then ([], buffer, m, [])
      else
        (case rtu_find buffer of
           None \<Rightarrow> rtu_scan_fuel n (drop 1 buffer) m
         | Some len \<Rightarrow>
             (let (response, m1, s1) = processRtuRequest (take len buffer) m;
                  (rs, left, m2, s2) = rtu_scan_fuel n (drop len buffer) m1
              in (if response \<noteq> [] then response # rs else rs, left, m2, s1 @ s2))))"

definition rtu_scan :: "bytes \<Rightarrow> units \<Rightarrow> bytes list \<times> bytes \<times> units \<times> signal list" where
  "rtu_scan buffer m = rtu_scan_fuel (length buffer) buffer m"

record rtu_client =
  rc_buffer :: bytes
  rc_timer :: bool
  rc_address :: string
  rc_port :: u16

record rtu_server =
  rs_clients :: "(nat, rtu_client) omap"
  rs_units :: units
  rs_written :: "(nat \<times> bytes) list"
  rs_signals :: "signal list"

definition MAX_RECV_BUFFER :: nat where "MAX_RECV_BUFFER = 4096"

definition rtu_incomingConnection :: "nat \<Rightarrow> bool \<Rightarrow> string \<Rightarrow> u16 \<Rightarrow> rtu_server \<Rightarrow> rtu_server" where
  "rtu_incomingConnection sock descriptorOk addr port s =
     (if descriptorOk
      then s\<lparr>rs_clients := om_put sock \<lparr>rc_buffer = [], rc_timer = False, rc_address = addr, rc_port = port\<rparr>
               (rs_clients s),
             rs_signals := rs_signals s @ [ClientConnected addr port]\<rparr>
      else s)"

definition rtu_onReadyRead :: "nat \<Rightarrow> bytes \<Rightarrow> rtu_server \<Rightarrow> rtu_server" where
  "rtu_onReadyRead sock data s =
     (case om_get (rs_clients s) sock of
        None \<Rightarrow> s
      | Some info \<Rightarrow>
          (let buffer = rc_buffer info @ data
           in if length buffer > MAX_RECV_BUFFER
              then s\<lparr>rs_clients := om_put sock (info\<lparr>rc_buffer := [], rc_timer := False\<rparr>) (rs_clients s)\<rparr>
              else s\<lparr>rs_clients := om_put sock (info\<lparr>rc_buffer := buffer, rc_timer := True\<rparr>) (rs_clients s)\<rparr>))"

text \<open>The single-shot timer is no longer active when its handler runs.\<close>

definition rtu_onFrameTimeout :: "nat \<Rightarrow> rtu_server \<Rightarrow> rtu_server" where
  "rtu_onFrameTimeout sock s =
     (case om_get (rs_clients s) sock of
        None \<Rightarrow> s
      | Some info \<Rightarrow>
          (let (rs, left, m, sigs) = rtu_scan (rc_buffer info) (rs_units s)
           in s\<lparr>rs_clients := om_put sock (info\<lparr>rc_buffer := left, rc_timer := False\<rparr>) (rs_clients s),
                rs_units := m, rs_written := rs_written s @ map (Pair sock) rs,
                rs_signals := rs_signals s @ sigs\<rparr>))"

definition rtu_onDisconnected :: "nat \<Rightarrow> rtu_server \<Rightarrow> rtu_server" where
  "rtu_onDisconnected sock s =
     (case om_get (rs_clients s) sock of
        None \<Rightarrow> s
      | Some info \<Rightarrow>
          s\<lparr>rs_clients := om_del sock (rs_clients s),
            rs_signals := rs_signals s @ [ClientDisconnected (rc_address info) (rc_port info)]\<rparr>)"

section \<open>The server on a serial port\<close>

definition applyBroadcastWrite :: "byte \<Rightarrow> bytes \<Rightarrow> data_area \<Rightarrow> data_area" where
  "applyBroadcastWrite fc data area =
     (let a = bytesToUInt16 data 0; q = bytesToUInt16 data 2; byteCount = unat (data ! 4)
      in if fc = 0x05 \<and> length data \<ge> 4 then
           (if unat a < length (coils area) \<and> (q = 0x0000 \<or> q = 0xFF00)
            then area\<lparr>coils := (coils area)[unat a := (q = 0xFF00)]\<rparr> else area)
         else if fc = 0x06 \<and> length data \<ge> 4 then
           (if unat a < length (holdingRegisters area)
            then area\<lparr>holdingRegisters := (holdingRegisters area)[unat a := q]\<rparr> else area)
         else if fc = 0x0F \<and> length data \<ge> 5 then
           (if unat q \<ge> 1 \<and> unat q \<le> 1968 \<and> byteCount = (unat q + 7) div 8 \<and> length data \<ge> 5 + byteCount
               \<and> unat a + unat q \<le> length (coils area)
            then area\<lparr>coils := foldl (\<lambda>cs i. cs[unat a + i := bit (data ! (5 + i div 8)) (i mod 8)])
                        (coils area) [0..<unat q]\<rparr>
            else area)
         else if fc = 0x10 \<and> length data \<ge> 5 then
           (if unat q \<ge> 1 \<and> unat q \<le> 123 \<and> byteCount = unat q * 2 \<and> length data \<ge> 5 + byteCount
               \<and> unat a + unat q \<le> length (holdingRegisters area)
            then area\<lparr>holdingRegisters := foldl (\<lambda>rs i. rs[unat a + i := bytesToUInt16 data (5 + i * 2)])
                        (holdingRegisters area) [0..<unat q]\<rparr>
            else area)
         else area)"

definition serial_processRtuRequest :: "bytes \<Rightarrow> units \<Rightarrow> bytes \<times> units \<times> signal list" where
  "serial_processRtuRequest frame m =
     (if length frame < 4 then ([], m, [])
      else
        (let u = frame ! 0; fc = frame ! 1; data = take (length frame - 4) (drop 2 frame)
         in if u = 0 then
              (if fc = 0x05 \<or> fc = 0x06 \<or> fc = 0x0F \<or> fc = 0x10
               then ([], map (\<lambda>(k, area). (k, applyBroadcastWrite fc data area)) m, [])
               else ([], m, []))
            else
              (case om_get m u of
                 None \<Rightarrow> ([], m, [])
               | Some area \<Rightarrow>
                   (case rtu_dispatch u area fc data of
                      Inl ex \<Rightarrow> (createRtuExceptionResponse u fc ex, m, [])
                    | Inr (pdu, area', sigs) \<Rightarrow> (buildRtuResponse u pdu, om_put u area' m, sigs)))))"

record serial_server =
  ss_open :: bool
  ss_buffer :: bytes
  ss_timer :: bool
  ss_units :: units
  ss_written :: "bytes list"
  ss_signals :: "signal list"

definition serial_onReadyRead :: "bytes \<Rightarrow> serial_server \<Rightarrow> serial_server" where
  "serial_onReadyRead data s =
     (if \<not> ss_open s then s
      else
        (let buffer = ss_buffer s @ data
         in if length buffer > 256 then s\<lparr>ss_buffer := []\<rparr>
            else s\<lparr>ss_buffer := buffer, ss_timer := True\<rparr>))"

definition serial_onFrameTimeout :: "serial_server \<Rightarrow> serial_server" where
  "serial_onFrameTimeout s0 =
     (let s = s0\<lparr>ss_timer := False\<rparr>
      in if length (ss_buffer s) < 4 then s\<lparr>ss_buffer := []\<rparr>
         else if \<not> rtu_crc_ok (ss_buffer s) then s\<lparr>ss_buffer := []\<rparr>
         else
           (let (response, m, sigs) = serial_processRtuRequest (ss_buffer s) (ss_units s)
            in s\<lparr>ss_buffer := [], ss_units := m, ss_signals := ss_signals s @ sigs,
                 ss_written := (if response \<noteq> [] \<and> ss_open s then ss_written s @ [response]
                                else ss_written s)\<rparr>))"

definition serial_stopServer :: "serial_server \<Rightarrow> serial_server" where
  "serial_stopServer s = s\<lparr>ss_timer := False, ss_buffer := [], ss_open := False\<rparr>"

text \<open>The silence of 3.5 characters, in milliseconds, as an exact rational.\<close>

definition calculateT35 :: "int \<Rightarrow> int \<Rightarrow> bool \<Rightarrow> rat \<Rightarrow> rat" where
  "calculateT35 baudRate dataBits hasParity stopBits =
     (if baudRate > 19200 then 7 / 4
      else (let bitsPerChar = 1 + of_int dataBits + (if hasParity then 1 else 0) + stopBits
            in 7 / 2 * bitsPerChar / of_int baudRate * 1000))"

end
