(* ===== verification/ModbusClient.thy ===== *)
theory ModbusClient
  imports ModbusRtuServer QtText
begin

text \<open>
  The three Modbus clients: over TCP (\<open>src/src/drivers/driver_modbustcp/modbus_client.*\<close>), RTU
  frames over TCP (\<open>driver_modbusrtu/modbus_rtu_client.*\<close>) and RTU frames on a serial port
  (\<open>driver_modbusrtu_serial/modbus_rtu_serial_client.*\<close>). The socket or port is an argument: what
  it makes of the bytes of one request is whether they were written and what each wait of the
  reading loop brings, until its time is up. An access beyond the end of a byte array is the
  value \<open>None\<close>.
\<close>

section \<open>Results\<close>

record modbus_result =
  mr_success :: bool
  mr_exception :: byte
  mr_error :: string
  mr_coils :: "bool list"
  mr_registers :: "u16 list"

definition ModbusResult :: modbus_result where
  "ModbusResult = \<lparr>mr_success = False, mr_exception = 0, mr_error = [], mr_coils = [], mr_registers = []\<rparr>"

definition failed_result :: "string \<Rightarrow> modbus_result" where
  "failed_result e = ModbusResult\<lparr>mr_error := e\<rparr>"

definition exceptionMessage :: "byte \<Rightarrow> string" where
  "exceptionMessage code =
     (if code = 0x00 then ''No error''
      else if code = 0x01 then ''Illegal function''
      else if code = 0x02 then ''Illegal data address''
      else if code = 0x03 then ''Illegal data value''
      else if code = 0x04 then ''Slave device failure''
      else if code = 0x05 then ''Acknowledge''
      else if code = 0x06 then ''Slave device busy''
      else if code = 0x08 then ''Memory parity error''
      else if code = 0x0A then ''Gateway path unavailable''
      else if code = 0x0B then ''Gateway target device failed to respond''
      else ''Unknown exception: 0x'' @ [digit_char (unat (drop_bit 4 code)), digit_char (unat (code AND 0x0F))])"

definition exception_result :: "byte \<Rightarrow> modbus_result" where
  "exception_result ex = ModbusResult\<lparr>mr_exception := ex, mr_error := exceptionMessage ex\<rparr>"

definition byte_at :: "bytes \<Rightarrow> nat \<Rightarrow> byte option" where
  "byte_at data i = (if i < length data then Some (data ! i) else None)"

section \<open>Data of requests and responses\<close>

text \<open>The loop of the read functions over the bits from an offset on.\<close>

definition read_bits :: "bytes \<Rightarrow> nat \<Rightarrow> nat \<Rightarrow> bool list option" where
  "read_bits response off count =
     those (map (\<lambda>i. map_option (\<lambda>b. bit b (i mod 8)) (byte_at response (off + i div 8))) [0..<count])"

definition read_words :: "bytes \<Rightarrow> nat \<Rightarrow> nat \<Rightarrow> u16 list" where
  "read_words response off n = map (\<lambda>i. bytesToUInt16 response (off + i * 2)) [0..<n]"

text \<open>The packing loop of \<open>writeMultipleCoils\<close>.\<close>

definition coil_bytes :: "bool list \<Rightarrow> bytes" where
  "coil_bytes vals =
     foldl (\<lambda>data i. if vals ! i then data[i div 8 := data ! (i div 8) OR push_bit (i mod 8) 1] else data)
       (replicate ((length vals + 7) div 8) 0) [0..<length vals]"

definition read_pdu :: "u16 \<Rightarrow> u16 \<Rightarrow> bytes" where
  "read_pdu addr count = be16 addr @ be16 count"

definition write_coil_pdu :: "u16 \<Rightarrow> bool \<Rightarrow> bytes" where
  "write_coil_pdu addr v = be16 addr @ be16 (if v then 0xFF00 else 0x0000)"

definition write_register_pdu :: "u16 \<Rightarrow> u16 \<Rightarrow> bytes" where
  "write_register_pdu addr v = be16 addr @ be16 v"

definition write_coils_pdu :: "u16 \<Rightarrow> bool list \<Rightarrow> bytes" where
  "write_coils_pdu addr vals =
     be16 addr @ be16 (of_nat (length vals)) @ [of_nat ((length vals + 7) div 8)] @ coil_bytes vals"

definition write_registers_pdu :: "u16 \<Rightarrow> u16 list \<Rightarrow> bytes" where
  "write_registers_pdu addr vals =
     be16 addr @ be16 (of_nat (length vals)) @ [of_nat (length vals * 2)] @ concat (map be16 vals)"

section \<open>Modbus TCP\<close>

text \<open>
  A socket to one host and port: whether connecting it succeeds within a timeout, whether it is
  connected, and what becomes of a request written to it within a timeout, in the state \<open>'w\<close> of the world behind it: whether the bytes were written, and for each
  round of the reading loop the chunk that became readable, if any. When the list ends, so does
  the time.
\<close>

record 'w socket =
  sk_connect :: "int \<Rightarrow> 'w \<Rightarrow> bool \<times> 'w"
  sk_connected :: "'w \<Rightarrow> bool"
  sk_exchange :: "int \<Rightarrow> bytes \<Rightarrow> 'w \<Rightarrow> bool \<times> bytes option list \<times> 'w"

record modbus_client =
  mc_transactionId :: u16
  mc_unitId :: byte
  mc_timeout :: int

definition ModbusClient :: "int \<Rightarrow> modbus_client" where
  "ModbusClient timeout = \<lparr>mc_transactionId = 0, mc_unitId = 1, mc_timeout = timeout\<rparr>"

definition setUnitId :: "byte \<Rightarrow> modbus_client \<Rightarrow> modbus_client" where
  "setUnitId u c = c\<lparr>mc_unitId := u\<rparr>"

definition buildRequest :: "byte \<Rightarrow> bytes \<Rightarrow> modbus_client \<Rightarrow> bytes \<times> modbus_client" where
  "buildRequest fc pdu c =
     (be16 (mc_transactionId c) @ be16 0 @ be16 (of_nat (length pdu + 2)) @ [mc_unitId c] @ [fc] @ pdu,
      c\<lparr>mc_transactionId := mc_transactionId c + 1\<rparr>)"

text \<open>The check of the first seven bytes: the expected length of the frame, or an error.\<close>

definition check_mbap :: "u16 \<Rightarrow> bytes \<Rightarrow> string + nat" where
  "check_mbap expectedTid response =
     (if bytesToUInt16 response 0 \<noteq> expectedTid then Inl ''Unexpected transaction id''
      else if bytesToUInt16 response 2 \<noteq> 0 then Inl ''Unexpected protocol id''
      else if bytesToUInt16 response 4 < 2 then Inl ''Invalid MBAP length''
      else Inr (6 + unat (bytesToUInt16 response 4)))"

text \<open>\<open>None\<close> is the expected length -1.\<close>

fun read_response_loop :: "u16 \<Rightarrow> bytes option list \<Rightarrow> nat option \<Rightarrow> bytes \<Rightarrow> string + bytes" where
  "read_response_loop tid [] expected response =
     Inl (if (case expected of Some n \<Rightarrow> length response < n | None \<Rightarrow> False) then ''Response truncated''
          else if response = [] then ''Read timeout''
          else ''Response too short'')"
| "read_response_loop tid (r # rounds) expected response =
     (case expected of
        Some n \<Rightarrow>
          if length response \<ge> n then Inr (take n response)
          else (case r of
                  None \<Rightarrow> read_response_loop tid rounds expected response
                | Some chunk \<Rightarrow> read_response_loop tid rounds expected (response @ chunk))
      | None \<Rightarrow>
          (case r of
             None \<Rightarrow> read_response_loop tid rounds expected response
           | Some chunk \<Rightarrow>
               let response' = response @ chunk
               in if length response' \<ge> 7
                  then (case check_mbap tid response' of
                          Inl e \<Rightarrow> Inl e
                        | Inr n \<Rightarrow> read_response_loop tid rounds (Some n) response')
                  else read_response_loop tid rounds None response'))"

definition readResponse :: "u16 \<Rightarrow> bytes option list \<Rightarrow> string + bytes" where
  "readResponse tid rounds = read_response_loop tid rounds None []"

text \<open>\<open>Inl\<close> is the result of a failed request, \<open>Inr\<close> the response of a good one.\<close>

definition check_response :: "byte \<Rightarrow> bytes \<Rightarrow> (modbus_result + bytes) option" where
  "check_response expectedFc response =
     (if length response < 8 then Some (Inl (failed_result ''Response too short''))
      else
        (let fc = response ! 7
         in if fc AND 0x80 \<noteq> 0 then map_option (\<lambda>ex. Inl (exception_result ex)) (byte_at response 8)
            else if fc \<noteq> expectedFc then Some (Inl (failed_result ''Unexpected function code''))
            else Some (Inr response)))"

definition sendRequest ::
  "'w socket \<Rightarrow> int \<Rightarrow> bytes \<Rightarrow> byte \<Rightarrow> 'w \<Rightarrow> (modbus_result + bytes) option \<times> 'w" where
  "sendRequest sk timeout request expectedFc w =
     (if \<not> sk_connected sk w then (Some (Inl (failed_result ''Not connected'')), w)
      else
        (let (written, rounds, w') = sk_exchange sk timeout request w
         in if \<not> written then (Some (Inl (failed_result ''Write timeout'')), w')
            else
              (case readResponse (bytesToUInt16 request 0) rounds of
                 Inl e \<Rightarrow> (Some (Inl (failed_result e)), w')
               | Inr response \<Rightarrow> (check_response expectedFc response, w'))))"

definition parseReadBitsResponse :: "bytes \<Rightarrow> u16 \<Rightarrow> modbus_result option" where
  "parseReadBitsResponse response count =
     (if length response < 9 then Some (failed_result ''Response too short for bit data'')
      else if length response < 9 + unat (response ! 8) then Some (failed_result ''Incomplete bit data'')
      else map_option (\<lambda>bs. ModbusResult\<lparr>mr_success := True, mr_coils := bs\<rparr>)
             (read_bits response 9 (unat count)))"

definition parseReadRegistersResponse :: "bytes \<Rightarrow> modbus_result" where
  "parseReadRegistersResponse response =
     (if length response < 9 then failed_result ''Response too short for register data''
      else if length response < 9 + unat (response ! 8) then failed_result ''Incomplete register data''
      else ModbusResult\<lparr>mr_success := True,
             mr_registers := read_words response 9 (unat (response ! 8) div 2)\<rparr>)"

definition parseWriteResponse :: "bytes \<Rightarrow> modbus_result" where
  "parseWriteResponse response =
     (if length response \<ge> 12 then ModbusResult\<lparr>mr_success := True\<rparr>
      else failed_result ''Write response too short'')"

type_synonym 'w tcp_call = "modbus_client \<Rightarrow> 'w \<Rightarrow> modbus_result option \<times> modbus_client \<times> 'w"

definition tcp_call :: "'w socket \<Rightarrow> byte \<Rightarrow> bytes \<Rightarrow> (bytes \<Rightarrow> modbus_result option) \<Rightarrow> 'w tcp_call" where
  "tcp_call sk fc pdu parse c w =
     (let (request, c') = buildRequest fc pdu c;
          (sent, w') = sendRequest sk (mc_timeout c) request fc w
      in ((case sent of
             None \<Rightarrow> None
           | Some (Inl result) \<Rightarrow> Some result
           | Some (Inr response) \<Rightarrow> parse response), c', w'))"

definition readCoils :: "'w socket \<Rightarrow> u16 \<Rightarrow> u16 \<Rightarrow> 'w tcp_call" where
  "readCoils sk addr count = tcp_call sk 0x01 (read_pdu addr count) (\<lambda>r. parseReadBitsResponse r count)"

definition readDiscreteInputs :: "'w socket \<Rightarrow> u16 \<Rightarrow> u16 \<Rightarrow> 'w tcp_call" where
  "readDiscreteInputs sk addr count = tcp_call sk 0x02 (read_pdu addr count) (\<lambda>r. parseReadBitsResponse r count)"

definition readHoldingRegisters :: "'w socket \<Rightarrow> u16 \<Rightarrow> u16 \<Rightarrow> 'w tcp_call" where
  "readHoldingRegisters sk addr count =
     tcp_call sk 0x03 (read_pdu addr count) (\<lambda>r. Some (parseReadRegistersResponse r))"

definition readInputRegisters :: "'w socket \<Rightarrow> u16 \<Rightarrow> u16 \<Rightarrow> 'w tcp_call" where
  "readInputRegisters sk addr count =
     tcp_call sk 0x04 (read_pdu addr count) (\<lambda>r. Some (parseReadRegistersResponse r))"

definition writeSingleCoil :: "'w socket \<Rightarrow> u16 \<Rightarrow> bool \<Rightarrow> 'w tcp_call" where
  "writeSingleCoil sk addr v = tcp_call sk 0x05 (write_coil_pdu addr v) (\<lambda>r. Some (parseWriteResponse r))"

definition writeSingleRegister :: "'w socket \<Rightarrow> u16 \<Rightarrow> u16 \<Rightarrow> 'w tcp_call" where
  "writeSingleRegister sk addr v =
     tcp_call sk 0x06 (write_register_pdu addr v) (\<lambda>r. Some (parseWriteResponse r))"

definition writeMultipleCoils :: "'w socket \<Rightarrow> u16 \<Rightarrow> bool list \<Rightarrow> 'w tcp_call" where
  "writeMultipleCoils sk addr vals =
     tcp_call sk 0x0F (write_coils_pdu addr vals) (\<lambda>r. Some (parseWriteResponse r))"

definition writeMultipleRegisters :: "'w socket \<Rightarrow> u16 \<Rightarrow> u16 list \<Rightarrow> 'w tcp_call" where
  "writeMultipleRegisters sk addr vals =
     tcp_call sk 0x10 (write_registers_pdu addr vals) (\<lambda>r. Some (parseWriteResponse r))"

section \<open>RTU frames over TCP\<close>

record rtu_master =
  rm_unitId :: byte
  rm_timeout :: int

definition ModbusRtuClient :: "int \<Rightarrow> rtu_master" where
  "ModbusRtuClient timeout = \<lparr>rm_unitId = 1, rm_timeout = timeout\<rparr>"

definition rtu_buildRequest :: "byte \<Rightarrow> byte \<Rightarrow> bytes \<Rightarrow> bytes" where
  "rtu_buildRequest u fc pdu =
     (let request = [u] @ [fc] @ pdu; crc = calculateCRC16 request
      in request @ [ucast (crc AND 0xFF)] @ [ucast (drop_bit 8 crc AND 0xFF)])"

definition verifyCRC :: "bytes \<Rightarrow> bool" where
  "verifyCRC frame =
     (if length frame < 4 then False
      else
        (let n = length frame;
             calculated = calculateCRC16 (take (n - 2) frame);
             received = ucast (frame ! (n - 2)) OR push_bit 8 (ucast (frame ! (n - 1))) :: u16
         in calculated = received))"

text \<open>One round: the bytes that arrived are added, then the length is judged.\<close>

fun rtu_readResponse :: "nat \<Rightarrow> bytes option list \<Rightarrow> bytes \<Rightarrow> bytes" where
  "rtu_readResponse expectedMinLen [] response = response"
| "rtu_readResponse expectedMinLen (r # rounds) response =
     (let response' = (case r of None \<Rightarrow> response | Some chunk \<Rightarrow> response @ chunk);
          expectedLen = (if length response' \<ge> 3 then 3 + unat (response' ! 2) + 2 else expectedMinLen)
      in if length response' \<ge> 5 \<and> (response' ! 1 AND 0x80 \<noteq> 0 \<or> length response' \<ge> expectedLen)
         then response'
         else rtu_readResponse expectedMinLen rounds response')"

definition rtu_parseReadBitsResponse :: "bytes \<Rightarrow> u16 \<Rightarrow> modbus_result option" where
  "rtu_parseReadBitsResponse response count =
     (if length response < 6 then Some (failed_result ''Response too short for bit data'')
      else if length response < 3 + unat (response ! 2) + 2 then Some (failed_result ''Incomplete bit data'')
      else map_option (\<lambda>bs. ModbusResult\<lparr>mr_success := True, mr_coils := bs\<rparr>)
             (read_bits response 3 (unat count)))"

definition rtu_parseReadRegistersResponse :: "bytes \<Rightarrow> modbus_result" where
  "rtu_parseReadRegistersResponse response =
     (if length response < 6 then failed_result ''Response too short for register data''
      else if length response < 3 + unat (response ! 2) + 2 then failed_result ''Incomplete register data''
      else ModbusResult\<lparr>mr_success := True,
             mr_registers := read_words response 3 (unat (response ! 2) div 2)\<rparr>)"

definition rtu_parseWriteResponse :: "bytes \<Rightarrow> modbus_result" where
  "rtu_parseWriteResponse response =
     (if length response \<ge> 8 then ModbusResult\<lparr>mr_success := True\<rparr>
      else failed_result ''Write response too short'')"

type_synonym 'w rtu_call = "rtu_master \<Rightarrow> 'w \<Rightarrow> modbus_result option \<times> 'w"

definition rtu_call ::
  "'w socket \<Rightarrow> byte \<Rightarrow> bytes \<Rightarrow> nat \<Rightarrow> (bytes \<Rightarrow> modbus_result option) \<Rightarrow> 'w rtu_call" where
  "rtu_call sk fc pdu expectedMinLen parse c w =
     (let (written, rounds, w') = sk_exchange sk (rm_timeout c) (rtu_buildRequest (rm_unitId c) fc pdu) w
      in if \<not> written then (Some (failed_result ''Write timeout''), w')
         else
           (let response = rtu_readResponse expectedMinLen rounds []
            in if length response < 5 then (Some (failed_result ''Response too short''), w')
               else if \<not> verifyCRC response then (Some (failed_result ''CRC error''), w')
               else if response ! 1 AND 0x80 \<noteq> 0 then (Some (exception_result (response ! 2)), w')
               else (parse response, w')))"

definition rtu_readCoils :: "'w socket \<Rightarrow> u16 \<Rightarrow> u16 \<Rightarrow> 'w rtu_call" where
  "rtu_readCoils sk addr count =
     rtu_call sk 0x01 (read_pdu addr count) 6 (\<lambda>r. rtu_parseReadBitsResponse r count)"

definition rtu_readDiscreteInputs :: "'w socket \<Rightarrow> u16 \<Rightarrow> u16 \<Rightarrow> 'w rtu_call" where
  "rtu_readDiscreteInputs sk addr count =
     rtu_call sk 0x02 (read_pdu addr count) 6 (\<lambda>r. rtu_parseReadBitsResponse r count)"

definition rtu_readHoldingRegisters :: "'w socket \<Rightarrow> u16 \<Rightarrow> u16 \<Rightarrow> 'w rtu_call" where
  "rtu_readHoldingRegisters sk addr count =
     rtu_call sk 0x03 (read_pdu addr count) (5 + unat count * 2) (\<lambda>r. Some (rtu_parseReadRegistersResponse r))"

definition rtu_readInputRegisters :: "'w socket \<Rightarrow> u16 \<Rightarrow> u16 \<Rightarrow> 'w rtu_call" where
  "rtu_readInputRegisters sk addr count =
     rtu_call sk 0x04 (read_pdu addr count) (5 + unat count * 2) (\<lambda>r. Some (rtu_parseReadRegistersResponse r))"

definition rtu_writeSingleCoil :: "'w socket \<Rightarrow> u16 \<Rightarrow> bool \<Rightarrow> 'w rtu_call" where
  "rtu_writeSingleCoil sk addr v =
     rtu_call sk 0x05 (write_coil_pdu addr v) 8 (\<lambda>r. Some (rtu_parseWriteResponse r))"

definition rtu_writeSingleRegister :: "'w socket \<Rightarrow> u16 \<Rightarrow> u16 \<Rightarrow> 'w rtu_call" where
  "rtu_writeSingleRegister sk addr v =
     rtu_call sk 0x06 (write_register_pdu addr v) 8 (\<lambda>r. Some (rtu_parseWriteResponse r))"

definition rtu_writeMultipleCoils :: "'w socket \<Rightarrow> u16 \<Rightarrow> bool list \<Rightarrow> 'w rtu_call" where
  "rtu_writeMultipleCoils sk addr vals =
     rtu_call sk 0x0F (write_coils_pdu addr vals) 8 (\<lambda>r. Some (rtu_parseWriteResponse r))"

definition rtu_writeMultipleRegisters :: "'w socket \<Rightarrow> u16 \<Rightarrow> u16 list \<Rightarrow> 'w rtu_call" where
  "rtu_writeMultipleRegisters sk addr vals =
     rtu_call sk 0x10 (write_registers_pdu addr vals) 8 (\<lambda>r. Some (rtu_parseWriteResponse r))"

section \<open>RTU frames on a serial port\<close>

text \<open>
  A port that is open: the bytes of a request are written after its input buffer is cleared;
  each wait of the receiving loop is one round.
\<close>

record 'w serial_port =
  sp_open :: "string \<Rightarrow> 'w \<Rightarrow> bool \<times> 'w"
  sp_isOpen :: "string \<Rightarrow> 'w \<Rightarrow> bool"
  sp_exchange :: "string \<Rightarrow> int \<Rightarrow> nat \<Rightarrow> bytes \<Rightarrow> 'w \<Rightarrow> bytes option list \<times> 'w"

record serial_master =
  sm_port :: string
  sm_t35Ms :: rat

text \<open>\<open>stopBits.toDouble()\<close> is an argument. A port that is opened has the silence of its line.\<close>

definition serial_client_open ::
  "'w serial_port \<Rightarrow> (string \<Rightarrow> rat) \<Rightarrow> string \<Rightarrow> int \<Rightarrow> int \<Rightarrow> string \<Rightarrow> string \<Rightarrow> 'w
     \<Rightarrow> serial_master option \<times> 'w" where
  "serial_client_open sp to_dbl portName baudRate dataBits stopBits parity w =
     (let (ok, w') = sp_open sp portName w
      in if \<not> ok then (None, w')
         else
           (let hasParity = (parity \<noteq> ''none'');
                stopBitsVal = (if stopBits = ''1.5'' then 3 / 2 else to_dbl stopBits)
            in (Some \<lparr>sm_port = portName, sm_t35Ms = calculateT35 baudRate dataBits hasParity stopBitsVal\<rparr>, w')))"

text \<open>The loop waits for a first chunk, then reads until one wait brings nothing.\<close>

fun read_until_silence :: "bytes option list \<Rightarrow> bytes" where
  "read_until_silence (Some chunk # rounds) = chunk @ read_until_silence rounds"
| "read_until_silence _ = []"

fun serial_collect :: "bytes option list \<Rightarrow> bytes" where
  "serial_collect [] = []"
| "serial_collect (None # rounds) = serial_collect rounds"
| "serial_collect (Some chunk # rounds) = chunk @ read_until_silence rounds"

definition serial_sendRequest ::
  "'w serial_port \<Rightarrow> serial_master \<Rightarrow> bytes \<Rightarrow> int \<Rightarrow> 'w \<Rightarrow> bytes \<times> 'w" where
  "serial_sendRequest sp c request timeout w =
     (let t35Wait = max 1 (nat \<lceil>sm_t35Ms c\<rceil>);
          (rounds, w') = sp_exchange sp (sm_port c) timeout t35Wait request w
      in (serial_collect rounds, w'))"

definition serial_parse_data :: "bytes \<Rightarrow> byte \<Rightarrow> u16 \<Rightarrow> modbus_result option" where
  "serial_parse_data response fc bitCount =
     (if fc = 0x01 \<or> fc = 0x02 then
        (if length response < 3 + unat (response ! 2) + 2 then Some (failed_result ''Incomplete bit data'')
         else map_option (\<lambda>bs. ModbusResult\<lparr>mr_success := True, mr_coils := bs\<rparr>)
                (read_bits response 3 (unat bitCount)))
      else if fc = 0x03 \<or> fc = 0x04 then
        (if length response < 3 + unat (response ! 2) + 2 then Some (failed_result ''Incomplete register data'')
         else Some (ModbusResult\<lparr>mr_success := True,
                     mr_registers := read_words response 3 (unat (response ! 2) div 2)\<rparr>))
      else
        (if length response < 8 then Some (failed_result ''Write response too short'')
         else Some (ModbusResult\<lparr>mr_success := True\<rparr>)))"

definition serial_parseResponse :: "bytes \<Rightarrow> byte \<Rightarrow> byte \<Rightarrow> u16 \<Rightarrow> modbus_result option" where
  "serial_parseResponse response expectedUnitId expectedFc bitCount =
     (if response = [] then Some (failed_result ''Response timeout'')
      else if length response < 5 then Some (failed_result ''Response too short'')
      else if \<not> verifyCRC response then Some (failed_result ''CRC error'')
      else if response ! 0 \<noteq> expectedUnitId
      then Some (failed_result (''Unit ID mismatch: expected '' @ dec (unat expectedUnitId)
                   @ '', got '' @ dec (unat (response ! 0))))
      else
        (let fc = response ! 1
         in if fc AND 0x80 \<noteq> 0 then Some (exception_result (response ! 2))
            else if fc \<noteq> expectedFc then Some (failed_result ''Unexpected function code'')
            else serial_parse_data response fc bitCount))"

type_synonym 'w serial_call = "serial_master \<Rightarrow> 'w \<Rightarrow> modbus_result option \<times> 'w"

definition serial_call ::
  "'w serial_port \<Rightarrow> byte \<Rightarrow> byte \<Rightarrow> bytes \<Rightarrow> u16 \<Rightarrow> int \<Rightarrow> 'w serial_call" where
  "serial_call sp u fc pdu bitCount timeout c w =
     (let (response, w') = serial_sendRequest sp c (rtu_buildRequest u fc pdu) timeout w
      in (serial_parseResponse response u fc bitCount, w'))"

definition serial_readCoils :: "'w serial_port \<Rightarrow> byte \<Rightarrow> u16 \<Rightarrow> u16 \<Rightarrow> int \<Rightarrow> 'w serial_call" where
  "serial_readCoils sp u addr count timeout = serial_call sp u 0x01 (read_pdu addr count) count timeout"

definition serial_readDiscreteInputs :: "'w serial_port \<Rightarrow> byte \<Rightarrow> u16 \<Rightarrow> u16 \<Rightarrow> int \<Rightarrow> 'w serial_call" where
  "serial_readDiscreteInputs sp u addr count timeout = serial_call sp u 0x02 (read_pdu addr count) count timeout"

definition serial_readHoldingRegisters :: "'w serial_port \<Rightarrow> byte \<Rightarrow> u16 \<Rightarrow> u16 \<Rightarrow> int \<Rightarrow> 'w serial_call" where
  "serial_readHoldingRegisters sp u addr count timeout = serial_call sp u 0x03 (read_pdu addr count) 0 timeout"

definition serial_readInputRegisters :: "'w serial_port \<Rightarrow> byte \<Rightarrow> u16 \<Rightarrow> u16 \<Rightarrow> int \<Rightarrow> 'w serial_call" where
  "serial_readInputRegisters sp u addr count timeout = serial_call sp u 0x04 (read_pdu addr count) 0 timeout"

definition serial_writeSingleCoil :: "'w serial_port \<Rightarrow> byte \<Rightarrow> u16 \<Rightarrow> bool \<Rightarrow> int \<Rightarrow> 'w serial_call" where
  "serial_writeSingleCoil sp u addr v timeout = serial_call sp u 0x05 (write_coil_pdu addr v) 0 timeout"

definition serial_writeSingleRegister :: "'w serial_port \<Rightarrow> byte \<Rightarrow> u16 \<Rightarrow> u16 \<Rightarrow> int \<Rightarrow> 'w serial_call" where
  "serial_writeSingleRegister sp u addr v timeout = serial_call sp u 0x06 (write_register_pdu addr v) 0 timeout"

definition serial_writeMultipleCoils :: "'w serial_port \<Rightarrow> byte \<Rightarrow> u16 \<Rightarrow> bool list \<Rightarrow> int \<Rightarrow> 'w serial_call" where
  "serial_writeMultipleCoils sp u addr vals timeout = serial_call sp u 0x0F (write_coils_pdu addr vals) 0 timeout"

definition serial_writeMultipleRegisters :: "'w serial_port \<Rightarrow> byte \<Rightarrow> u16 \<Rightarrow> u16 list \<Rightarrow> int \<Rightarrow> 'w serial_call" where
  "serial_writeMultipleRegisters sp u addr vals timeout =
     serial_call sp u 0x10 (write_registers_pdu addr vals) 0 timeout"

end
