(* ===== verification/ModbusTypes.thy ===== *)
theory ModbusTypes
  imports Prelude
begin

text \<open>
  Values spread over 16-bit registers in the four byte orders the drivers offer
  (\<open>src/src/drivers/driver_modbusrtu/modbus_types.*\<close>; \<open>driver_modbustcp\<close> has the same file).
  Floating-point values travel as their bit patterns, so \<open>memcpy\<close> between a \<open>float\<close> and a
  \<open>uint32_t\<close> is the identity on the 32-bit word that stands for it.
\<close>

type_synonym u64 = "64 word"

datatype byte_order = BigEndian | LittleEndian | BigEndianByteSwap | LittleEndianByteSwap

datatype data_type = DtInt16 | DtUInt16 | DtInt32 | DtUInt32 | DtFloat32 | DtInt64 | DtUInt64 | DtFloat64

fun registersPerType :: "data_type \<Rightarrow> nat" where
  "registersPerType DtInt16 = 1"
| "registersPerType DtUInt16 = 1"
| "registersPerType DtInt32 = 2"
| "registersPerType DtUInt32 = 2"
| "registersPerType DtFloat32 = 2"
| "registersPerType DtInt64 = 4"
| "registersPerType DtUInt64 = 4"
| "registersPerType DtFloat64 = 4"

definition parseByteOrder :: "string \<Rightarrow> byte_order" where
  "parseByteOrder str =
     (if str = ''little_endian'' then LittleEndian
      else if str = ''big_endian_byte_swap'' then BigEndianByteSwap
      else if str = ''little_endian_byte_swap'' then LittleEndianByteSwap
      else BigEndian)"

definition parseDataType :: "string \<Rightarrow> data_type" where
  "parseDataType str =
     (if str = ''int16'' then DtInt16
      else if str = ''uint16'' then DtUInt16
      else if str = ''int32'' then DtInt32
      else if str = ''uint32'' then DtUInt32
      else if str = ''float32'' then DtFloat32
      else if str = ''int64'' then DtInt64
      else if str = ''uint64'' then DtUInt64
      else if str = ''float64'' then DtFloat64
      else DtUInt16)"

section \<open>ByteOrderConverter\<close>

definition swap_bytes :: "u16 \<Rightarrow> u16" where
  "swap_bytes v = push_bit 8 (v AND 0xFF) OR (drop_bit 8 v AND 0xFF)"

definition words32 :: "u16 \<Rightarrow> u16 \<Rightarrow> u32" where
  "words32 hi lo = push_bit 16 (ucast hi) OR ucast lo"

fun combineRegisters32 :: "byte_order \<Rightarrow> u16 \<Rightarrow> u16 \<Rightarrow> u32" where
  "combineRegisters32 BigEndian high low = words32 high low"
| "combineRegisters32 LittleEndian high low = words32 low high"
| "combineRegisters32 BigEndianByteSwap high low = words32 (swap_bytes high) (swap_bytes low)"
| "combineRegisters32 LittleEndianByteSwap high low = words32 (swap_bytes low) (swap_bytes high)"

definition words64 :: "u32 \<Rightarrow> u32 \<Rightarrow> u64" where
  "words64 hi lo = push_bit 32 (ucast hi) OR ucast lo"

definition combineRegisters64 :: "byte_order \<Rightarrow> u16 \<Rightarrow> u16 \<Rightarrow> u16 \<Rightarrow> u16 \<Rightarrow> u64" where
  "combineRegisters64 ord r0 r1 r2 r3 =
     (let high = combineRegisters32 ord r0 r1; low = combineRegisters32 ord r2 r3
      in case ord of
           BigEndian \<Rightarrow> words64 high low
         | BigEndianByteSwap \<Rightarrow> words64 high low
         | LittleEndian \<Rightarrow> words64 low high
         | LittleEndianByteSwap \<Rightarrow> words64 low high)"

definition toUInt16 :: "u16 list \<Rightarrow> nat \<Rightarrow> u16" where
  "toUInt16 regs offset = (if offset \<ge> length regs then 0 else regs ! offset)"

definition toInt16 :: "u16 list \<Rightarrow> nat \<Rightarrow> int" where
  "toInt16 regs offset = sint (toUInt16 regs offset)"

definition toUInt32 :: "byte_order \<Rightarrow> u16 list \<Rightarrow> nat \<Rightarrow> u32" where
  "toUInt32 ord regs offset =
     (if offset + 1 \<ge> length regs then 0
      else combineRegisters32 ord (regs ! offset) (regs ! (offset + 1)))"

definition toInt32 :: "byte_order \<Rightarrow> u16 list \<Rightarrow> nat \<Rightarrow> int" where
  "toInt32 ord regs offset = sint (toUInt32 ord regs offset)"

definition toFloat32 :: "byte_order \<Rightarrow> u16 list \<Rightarrow> nat \<Rightarrow> u32" where
  "toFloat32 ord regs offset = toUInt32 ord regs offset"

definition toUInt64 :: "byte_order \<Rightarrow> u16 list \<Rightarrow> nat \<Rightarrow> u64" where
  "toUInt64 ord regs offset =
     (if offset + 3 \<ge> length regs then 0
      else combineRegisters64 ord (regs ! offset) (regs ! (offset + 1))
             (regs ! (offset + 2)) (regs ! (offset + 3)))"

definition toInt64 :: "byte_order \<Rightarrow> u16 list \<Rightarrow> nat \<Rightarrow> int" where
  "toInt64 ord regs offset = sint (toUInt64 ord regs offset)"

definition toFloat64 :: "byte_order \<Rightarrow> u16 list \<Rightarrow> nat \<Rightarrow> u64" where
  "toFloat64 ord regs offset = toUInt64 ord regs offset"

text \<open>The pair is \<open>(high, low)\<close>.\<close>

fun splitRegisters32 :: "byte_order \<Rightarrow> u32 \<Rightarrow> u16 \<times> u16" where
  "splitRegisters32 BigEndian v = (ucast (drop_bit 16 v), ucast (v AND 0xFFFF))"
| "splitRegisters32 LittleEndian v = (ucast (v AND 0xFFFF), ucast (drop_bit 16 v))"
| "splitRegisters32 BigEndianByteSwap v =
     (swap_bytes (ucast (drop_bit 16 v)), swap_bytes (ucast (v AND 0xFFFF)))"
| "splitRegisters32 LittleEndianByteSwap v =
     (swap_bytes (ucast (v AND 0xFFFF)), swap_bytes (ucast (drop_bit 16 v)))"

definition splitRegisters64 :: "byte_order \<Rightarrow> u64 \<Rightarrow> u16 list" where
  "splitRegisters64 ord v =
     (let top = ucast (drop_bit 32 v); bottom = ucast (v AND 0xFFFFFFFF);
          (high, low) = (case ord of
             BigEndian \<Rightarrow> (top, bottom)
           | BigEndianByteSwap \<Rightarrow> (top, bottom)
           | LittleEndian \<Rightarrow> (bottom, top)
           | LittleEndianByteSwap \<Rightarrow> (bottom, top));
          (r0, r1) = splitRegisters32 ord high;
          (r2, r3) = splitRegisters32 ord low
      in [r0, r1, r2, r3])"

definition fromUInt16 :: "u16 \<Rightarrow> u16 list" where "fromUInt16 v = [v]"

definition fromInt16 :: "int \<Rightarrow> u16 list" where "fromInt16 i = fromUInt16 (word_of_int i)"

definition fromUInt32 :: "byte_order \<Rightarrow> u32 \<Rightarrow> u16 list" where
  "fromUInt32 ord v = (let (high, low) = splitRegisters32 ord v in [high, low])"

definition fromInt32 :: "byte_order \<Rightarrow> int \<Rightarrow> u16 list" where
  "fromInt32 ord i = fromUInt32 ord (word_of_int i)"

definition fromFloat32 :: "byte_order \<Rightarrow> u32 \<Rightarrow> u16 list" where
  "fromFloat32 ord v = fromUInt32 ord v"

definition fromUInt64 :: "byte_order \<Rightarrow> u64 \<Rightarrow> u16 list" where
  "fromUInt64 ord v = splitRegisters64 ord v"

definition fromInt64 :: "byte_order \<Rightarrow> int \<Rightarrow> u16 list" where
  "fromInt64 ord i = fromUInt64 ord (word_of_int i)"

definition fromFloat64 :: "byte_order \<Rightarrow> u64 \<Rightarrow> u16 list" where
  "fromFloat64 ord v = fromUInt64 ord v"

section \<open>Round trips\<close>

lemma bit_u16_beyond: "16 \<le> n \<Longrightarrow> \<not> bit (v :: u16) n"
  using bit_imp_le_length [of v n] by auto

lemma bit_u32_beyond: "32 \<le> n \<Longrightarrow> \<not> bit (v :: u32) n"
  using bit_imp_le_length [of v n] by auto

lemma mask16: "(0xFFFF :: u32) = mask 16" and mask8: "(0xFF :: u16) = mask 8"
  and mask32: "(0xFFFFFFFF :: u64) = mask 32"
  by (simp_all add: mask_eq_exp_minus_1)

lemma swap_bytes_twice [simp]: "swap_bytes (swap_bytes v) = v"
proof (rule bit_word_eqI)
  fix n :: nat
  assume "n < LENGTH(16)"
  then show "bit (swap_bytes (swap_bytes v)) n = bit v n"
    by (cases "n < 8") (auto simp: swap_bytes_def mask8 bit_simps bit_u16_beyond)
qed

lemma words32_split: "words32 (ucast (drop_bit 16 v)) (ucast (v AND 0xFFFF)) = v"
proof (rule bit_word_eqI)
  fix n :: nat
  assume "n < LENGTH(32)"
  then show "bit (words32 (ucast (drop_bit 16 v)) (ucast (v AND 0xFFFF))) n = bit v n"
    by (cases "n < 16") (auto simp: words32_def mask16 bit_simps bit_u16_beyond)
qed

lemma words64_split: "words64 (ucast (drop_bit 32 v)) (ucast (v AND 0xFFFFFFFF)) = v"
proof (rule bit_word_eqI)
  fix n :: nat
  assume "n < LENGTH(64)"
  then show "bit (words64 (ucast (drop_bit 32 v)) (ucast (v AND 0xFFFFFFFF))) n = bit v n"
    by (cases "n < 32") (auto simp: words64_def mask32 bit_simps bit_u32_beyond)
qed

lemma split_words32:
  "ucast (drop_bit 16 (words32 h l)) = h" "ucast (words32 h l AND 0xFFFF) = l"
  by (auto intro!: bit_word_eqI simp: words32_def mask16 bit_simps bit_u16_beyond)

lemma split_words64:
  "ucast (drop_bit 32 (words64 h l)) = h" "ucast (words64 h l AND 0xFFFFFFFF) = l"
  by (auto intro!: bit_word_eqI simp: words64_def mask32 bit_simps bit_u32_beyond)

lemma combine_split32: "(case splitRegisters32 ord v of (high, low) \<Rightarrow> combineRegisters32 ord high low) = v"
  by (cases ord) (simp_all add: words32_split)

lemma split_combine32: "splitRegisters32 ord (combineRegisters32 ord high low) = (high, low)"
  by (cases ord) (simp_all add: split_words32)

lemma toUInt32_fromUInt32: "toUInt32 ord (fromUInt32 ord v) 0 = v"
  using combine_split32 [of ord v] by (simp add: toUInt32_def fromUInt32_def split: prod.splits)

lemma toUInt64_fromUInt64: "toUInt64 ord (fromUInt64 ord v) 0 = v"
proof -
  have c: "combineRegisters32 b (fst (splitRegisters32 b x)) (snd (splitRegisters32 b x)) = x" for b x
    using combine_split32 [of b x] by (simp add: split_beta)
  show ?thesis
    by (cases ord)
      (simp_all add: toUInt64_def fromUInt64_def splitRegisters64_def combineRegisters64_def Let_def split_beta
        words64_split c del: splitRegisters32.simps combineRegisters32.simps)
qed

lemma fromUInt32_toUInt32: "length regs = 2 \<Longrightarrow> fromUInt32 ord (toUInt32 ord regs 0) = regs"
  by (auto simp: fromUInt32_def toUInt32_def split_combine32 length_Suc_conv numeral_2_eq_2)

text \<open>Whatever the byte order, a number written to registers is read back: 32-bit and 64-bit
  integers, signed over their whole range, and floating-point values bit for bit; and any two
  registers are exactly those of the 32-bit number they are read as.\<close>

theorem byte_order_roundtrip:
  "toUInt32 ord (fromUInt32 ord v) 0 = v \<and> toUInt64 ord (fromUInt64 ord w) 0 = w
   \<and> toInt32 ord (fromInt32 ord (sint v)) 0 = sint v \<and> toInt64 ord (fromInt64 ord (sint w)) 0 = sint w
   \<and> toFloat32 ord (fromFloat32 ord v) 0 = v \<and> toFloat64 ord (fromFloat64 ord w) 0 = w
   \<and> fromUInt32 ord (toUInt32 ord [r0, r1] 0) = [r0, r1]"
  by (simp add: toUInt32_fromUInt32 toUInt64_fromUInt64 toInt32_def fromInt32_def toInt64_def fromInt64_def
      toFloat32_def fromFloat32_def toFloat64_def fromFloat64_def fromUInt32_toUInt32)

end
