(* ===== verification/ModbusHandlers.thy ===== *)
theory ModbusHandlers
  imports ModbusClient ModbusTypes DriverCore
begin

text \<open>
  The command handlers of the Modbus master drivers: over TCP and RTU over TCP, whose
  \<open>main.cpp\<close> differ only in the client they use (\<open>src/src/drivers/driver_modbustcp/main.cpp\<close>,
  \<open>driver_modbusrtu/main.cpp\<close>), and on a serial port (\<open>driver_modbusrtu_serial/handler.cpp\<close>). A
  handler keeps its connections between commands. What a floating-point value is as bits, and as a
  JSON number, is an argument; an undefined conversion or array access is the value \<open>None\<close>.
\<close>

section \<open>Numbers and registers\<close>

record floats =
  fl_bits32 :: "rat \<Rightarrow> u32"
  fl_bits64 :: "rat \<Rightarrow> u64"
  fl_json32 :: "u32 \<Rightarrow> json"
  fl_json64 :: "u64 \<Rightarrow> json"

definition truncate_rat :: "rat \<Rightarrow> int" where
  "truncate_rat r = (if r < 0 then \<lceil>r\<rceil> else \<lfloor>r\<rfloor>)"

text \<open>The conversion of a double to an integer type is defined inside the range of the type only.\<close>

definition cast_int :: "int \<Rightarrow> int \<Rightarrow> rat \<Rightarrow> int option" where
  "cast_int lo hi r = (if lo \<le> truncate_rat r \<and> truncate_rat r \<le> hi then Some (truncate_rat r) else None)"

definition number_registers :: "floats \<Rightarrow> data_type \<Rightarrow> byte_order \<Rightarrow> rat \<Rightarrow> u16 list option" where
  "number_registers fl dt ord v =
     (case dt of
        DtInt16 \<Rightarrow> map_option fromInt16 (cast_int (- (2 ^ 15)) (2 ^ 15 - 1) v)
      | DtUInt16 \<Rightarrow> map_option (\<lambda>i. fromUInt16 (word_of_int i)) (cast_int 0 (2 ^ 16 - 1) v)
      | DtInt32 \<Rightarrow> map_option (fromInt32 ord) (cast_int (- (2 ^ 31)) (2 ^ 31 - 1) v)
      | DtUInt32 \<Rightarrow> map_option (\<lambda>i. fromUInt32 ord (word_of_int i)) (cast_int 0 (2 ^ 32 - 1) v)
      | DtFloat32 \<Rightarrow> Some (fromFloat32 ord (fl_bits32 fl v))
      | DtInt64 \<Rightarrow> map_option (fromInt64 ord) (cast_int (- (2 ^ 63)) (2 ^ 63 - 1) v)
      | DtUInt64 \<Rightarrow> map_option (\<lambda>i. fromUInt64 ord (word_of_int i)) (cast_int 0 (2 ^ 64 - 1) v)
      | DtFloat64 \<Rightarrow> Some (fromFloat64 ord (fl_bits64 fl v)))"

text \<open>The values the loops append: of a 64-bit unsigned number the TCP drivers make a \<open>qint64\<close>, the
  serial driver a string.\<close>

definition register_value :: "floats \<Rightarrow> data_type \<Rightarrow> byte_order \<Rightarrow> u16 list \<Rightarrow> nat \<Rightarrow> json" where
  "register_value fl dt ord regs i =
     (case dt of
        DtInt16 \<Rightarrow> jint (toInt16 regs i)
      | DtUInt16 \<Rightarrow> jint (uint (toUInt16 regs i))
      | DtInt32 \<Rightarrow> jint (toInt32 ord regs i)
      | DtUInt32 \<Rightarrow> jint (uint (toUInt32 ord regs i))
      | DtFloat32 \<Rightarrow> fl_json32 fl (toFloat32 ord regs i)
      | DtInt64 \<Rightarrow> jint (toInt64 ord regs i)
      | DtUInt64 \<Rightarrow> jint (sint (toUInt64 ord regs i))
      | DtFloat64 \<Rightarrow> fl_json64 fl (toFloat64 ord regs i))"

definition serial_register_value :: "floats \<Rightarrow> data_type \<Rightarrow> byte_order \<Rightarrow> u16 list \<Rightarrow> nat \<Rightarrow> json" where
  "serial_register_value fl dt ord regs i =
     (if dt = DtUInt64 then JStr (dec (unat (toUInt64 ord regs i))) else register_value fl dt ord regs i)"

definition registersToJson ::
  "(data_type \<Rightarrow> byte_order \<Rightarrow> u16 list \<Rightarrow> nat \<Rightarrow> json) \<Rightarrow> u16 list \<Rightarrow> string \<Rightarrow> string \<Rightarrow> json list" where
  "registersToJson value_at regs dataType byteOrder =
     (let ord = parseByteOrder byteOrder; dt = parseDataType dataType; step = registersPerType dt
      in map (\<lambda>k. value_at dt ord regs (k * step)) [0..<length regs div step])"

definition coilsToJson :: "bool list \<Rightarrow> json list" where
  "coilsToJson cs = map JBool cs"

definition raw_values :: "u16 list \<Rightarrow> json" where
  "raw_values regs = JArr (map (\<lambda>v. jint (uint v)) regs)"

section \<open>Answers\<close>

definition reply_result :: "(modbus_result \<Rightarrow> json) \<Rightarrow> modbus_result \<Rightarrow> message" where
  "reply_result payload result =
     (if mr_success result then resp_done 0 (payload result)
      else resp_error 2 (message_object (mr_error result)))"

definition coil_values :: "modbus_result \<Rightarrow> json" where
  "coil_values r = JObj (jset ''values'' (JArr (coilsToJson (mr_coils r))) [])"

definition register_values ::
  "(data_type \<Rightarrow> byte_order \<Rightarrow> u16 list \<Rightarrow> nat \<Rightarrow> json) \<Rightarrow> json_obj \<Rightarrow> modbus_result \<Rightarrow> json" where
  "register_values value_at p r =
     (let dataType = to_string_or ''uint16'' (jval p ''data_type'');
          byteOrder = to_string_or ''big_endian'' (jval p ''byte_order'')
      in JObj (jset ''raw'' (raw_values (mr_registers r))
           (jset ''values'' (JArr (registersToJson value_at (mr_registers r) dataType byteOrder)) [])))"

definition written :: "json \<Rightarrow> modbus_result \<Rightarrow> json" where
  "written v r = JObj (jset ''written'' v [])"

section \<open>The handlers over TCP\<close>

text \<open>The client class a handler is written for.\<close>

record ('c, 'w) client_api =
  ca_client :: "int \<Rightarrow> 'c"
  ca_setUnitId :: "byte \<Rightarrow> 'c \<Rightarrow> 'c"
  ca_readCoils :: "'w socket \<Rightarrow> u16 \<Rightarrow> u16 \<Rightarrow> 'c \<Rightarrow> 'w \<Rightarrow> modbus_result option \<times> 'c \<times> 'w"
  ca_readDiscreteInputs :: "'w socket \<Rightarrow> u16 \<Rightarrow> u16 \<Rightarrow> 'c \<Rightarrow> 'w \<Rightarrow> modbus_result option \<times> 'c \<times> 'w"
  ca_readHoldingRegisters :: "'w socket \<Rightarrow> u16 \<Rightarrow> u16 \<Rightarrow> 'c \<Rightarrow> 'w \<Rightarrow> modbus_result option \<times> 'c \<times> 'w"
  ca_readInputRegisters :: "'w socket \<Rightarrow> u16 \<Rightarrow> u16 \<Rightarrow> 'c \<Rightarrow> 'w \<Rightarrow> modbus_result option \<times> 'c \<times> 'w"
  ca_writeSingleCoil :: "'w socket \<Rightarrow> u16 \<Rightarrow> bool \<Rightarrow> 'c \<Rightarrow> 'w \<Rightarrow> modbus_result option \<times> 'c \<times> 'w"
  ca_writeSingleRegister :: "'w socket \<Rightarrow> u16 \<Rightarrow> u16 \<Rightarrow> 'c \<Rightarrow> 'w \<Rightarrow> modbus_result option \<times> 'c \<times> 'w"
  ca_writeMultipleCoils :: "'w socket \<Rightarrow> u16 \<Rightarrow> bool list \<Rightarrow> 'c \<Rightarrow> 'w \<Rightarrow> modbus_result option \<times> 'c \<times> 'w"
  ca_writeMultipleRegisters :: "'w socket \<Rightarrow> u16 \<Rightarrow> u16 list \<Rightarrow> 'c \<Rightarrow> 'w \<Rightarrow> modbus_result option \<times> 'c \<times> 'w"

definition tcp_api :: "(modbus_client, 'w) client_api" where
  "tcp_api = \<lparr>ca_client = ModbusClient, ca_setUnitId = setUnitId, ca_readCoils = readCoils,
     ca_readDiscreteInputs = readDiscreteInputs, ca_readHoldingRegisters = readHoldingRegisters,
     ca_readInputRegisters = readInputRegisters, ca_writeSingleCoil = writeSingleCoil,
     ca_writeSingleRegister = writeSingleRegister, ca_writeMultipleCoils = writeMultipleCoils,
     ca_writeMultipleRegisters = writeMultipleRegisters\<rparr>"

text \<open>A call of the RTU client leaves the client as it is.\<close>

definition keeping :: "'w rtu_call \<Rightarrow> rtu_master \<Rightarrow> 'w \<Rightarrow> modbus_result option \<times> rtu_master \<times> 'w" where
  "keeping call c w = (let (r, w') = call c w in (r, c, w'))"

definition rtu_api :: "(rtu_master, 'w) client_api" where
  "rtu_api = \<lparr>ca_client = ModbusRtuClient, ca_setUnitId = (\<lambda>u c. c\<lparr>rm_unitId := u\<rparr>),
     ca_readCoils = (\<lambda>sk a n. keeping (rtu_readCoils sk a n)),
     ca_readDiscreteInputs = (\<lambda>sk a n. keeping (rtu_readDiscreteInputs sk a n)),
     ca_readHoldingRegisters = (\<lambda>sk a n. keeping (rtu_readHoldingRegisters sk a n)),
     ca_readInputRegisters = (\<lambda>sk a n. keeping (rtu_readInputRegisters sk a n)),
     ca_writeSingleCoil = (\<lambda>sk a v. keeping (rtu_writeSingleCoil sk a v)),
     ca_writeSingleRegister = (\<lambda>sk a v. keeping (rtu_writeSingleRegister sk a v)),
     ca_writeMultipleCoils = (\<lambda>sk a vs. keeping (rtu_writeMultipleCoils sk a vs)),
     ca_writeMultipleRegisters = (\<lambda>sk a vs. keeping (rtu_writeMultipleRegisters sk a vs))\<rparr>"

type_synonym conn_key = "string \<times> u16"

type_synonym 'c connections = "conn_key \<Rightarrow> 'c option"

text \<open>\<open>ConnectionManager::getClient\<close>.\<close>

definition manager_getClient ::
  "('c, 'w) client_api \<Rightarrow> (conn_key \<Rightarrow> 'w socket) \<Rightarrow> conn_key \<Rightarrow> int \<Rightarrow> 'c connections \<Rightarrow> 'w
     \<Rightarrow> 'c option \<times> 'c connections \<times> 'w" where
  "manager_getClient api net key timeout m w =
     (let fresh = (let (ok, w') = sk_connect (net key) timeout w
                   in if ok then (Some (ca_client api timeout), m(key \<mapsto> ca_client api timeout), w')
                      else (None, m, w'))
      in case m key of
           Some c \<Rightarrow> if sk_connected (net key) w then (Some c, m, w) else fresh
         | None \<Rightarrow> fresh)"

definition conn_params :: "json_obj \<Rightarrow> conn_key \<times> int" where
  "conn_params p =
     ((to_string (jval p ''host''), word_of_int (to_int_or 502 (jval p ''port''))),
      to_int_or 3000 (jval p ''timeout''))"

definition param_addr :: "json_obj \<Rightarrow> u16" where
  "param_addr p = word_of_int (to_int_or 0 (jval p ''address''))"

definition param_count :: "json_obj \<Rightarrow> u16" where
  "param_count p = word_of_int (to_int_or 1 (jval p ''count''))"

definition param_bools :: "json_obj \<Rightarrow> bool list" where
  "param_bools p = map (to_bool_or False) (to_array (jval p ''values''))"

definition param_words :: "json_obj \<Rightarrow> u16 list" where
  "param_words p = map (\<lambda>v. word_of_int (to_int_or 0 v)) (to_array (jval p ''values''))"

definition param_registers :: "floats \<Rightarrow> json_obj \<Rightarrow> u16 list option" where
  "param_registers fl p =
     number_registers fl (parseDataType (to_string_or ''uint16'' (jval p ''data_type'')))
       (parseByteOrder (to_string_or ''big_endian'' (jval p ''byte_order''))) (to_double (jval p ''value''))"

text \<open>The branches of \<open>handle\<close> after the connection: the call and what is sent when it succeeds.\<close>

type_synonym ('c, 'w) answered = "message option \<times> 'c \<times> 'w"

definition respond ::
  "(modbus_result \<Rightarrow> json) \<Rightarrow> modbus_result option \<times> 'c \<times> 'w \<Rightarrow> ('c, 'w) answered" where
  "respond payload called = (let (r, c, w) = called in (map_option (reply_result payload) r, c, w))"

definition cmd_read_coils :: "('c, 'w) client_api \<Rightarrow> 'w socket \<Rightarrow> json_obj \<Rightarrow> 'c \<Rightarrow> 'w \<Rightarrow> ('c, 'w) answered" where
  "cmd_read_coils api sk p c w =
     respond coil_values (ca_readCoils api sk (param_addr p) (param_count p) c w)"

definition cmd_write_coils :: "('c, 'w) client_api \<Rightarrow> 'w socket \<Rightarrow> json_obj \<Rightarrow> 'c \<Rightarrow> 'w \<Rightarrow> ('c, 'w) answered" where
  "cmd_write_coils api sk p c w =
     respond (written (jint (int (length (param_bools p)))))
       (ca_writeMultipleCoils api sk (param_addr p) (param_bools p) c w)"

definition cmd_read_discrete_inputs ::
  "('c, 'w) client_api \<Rightarrow> 'w socket \<Rightarrow> json_obj \<Rightarrow> 'c \<Rightarrow> 'w \<Rightarrow> ('c, 'w) answered" where
  "cmd_read_discrete_inputs api sk p c w =
     respond coil_values (ca_readDiscreteInputs api sk (param_addr p) (param_count p) c w)"

definition cmd_write_coil :: "('c, 'w) client_api \<Rightarrow> 'w socket \<Rightarrow> json_obj \<Rightarrow> 'c \<Rightarrow> 'w \<Rightarrow> ('c, 'w) answered" where
  "cmd_write_coil api sk p c w =
     respond (written (JBool True))
       (ca_writeSingleCoil api sk (param_addr p) (to_bool_or False (jval p ''value'')) c w)"

definition cmd_read_holding_registers ::
  "('c, 'w) client_api \<Rightarrow> floats \<Rightarrow> 'w socket \<Rightarrow> json_obj \<Rightarrow> 'c \<Rightarrow> 'w \<Rightarrow> ('c, 'w) answered" where
  "cmd_read_holding_registers api fl sk p c w =
     respond (register_values (register_value fl) p)
       (ca_readHoldingRegisters api sk (param_addr p) (param_count p) c w)"

definition cmd_write_holding_register ::
  "('c, 'w) client_api \<Rightarrow> 'w socket \<Rightarrow> json_obj \<Rightarrow> 'c \<Rightarrow> 'w \<Rightarrow> ('c, 'w) answered" where
  "cmd_write_holding_register api sk p c w =
     respond (written (JBool True))
       (ca_writeSingleRegister api sk (param_addr p) (word_of_int (to_int_or 0 (jval p ''value''))) c w)"

definition cmd_write_holding_registers ::
  "('c, 'w) client_api \<Rightarrow> floats \<Rightarrow> 'w socket \<Rightarrow> json_obj \<Rightarrow> 'c \<Rightarrow> 'w \<Rightarrow> ('c, 'w) answered" where
  "cmd_write_holding_registers api fl sk p c w =
     (case param_registers fl p of
        None \<Rightarrow> (None, c, w)
      | Some regs \<Rightarrow>
          respond (written (jint (int (length regs))))
            (ca_writeMultipleRegisters api sk (param_addr p) regs c w))"

definition cmd_write_holding_registers_raw ::
  "('c, 'w) client_api \<Rightarrow> 'w socket \<Rightarrow> json_obj \<Rightarrow> 'c \<Rightarrow> 'w \<Rightarrow> ('c, 'w) answered" where
  "cmd_write_holding_registers_raw api sk p c w =
     respond (written (jint (int (length (param_words p)))))
       (ca_writeMultipleRegisters api sk (param_addr p) (param_words p) c w)"

definition cmd_read_input_registers ::
  "('c, 'w) client_api \<Rightarrow> floats \<Rightarrow> 'w socket \<Rightarrow> json_obj \<Rightarrow> 'c \<Rightarrow> 'w \<Rightarrow> ('c, 'w) answered" where
  "cmd_read_input_registers api fl sk p c w =
     respond (register_values (register_value fl) p)
       (ca_readInputRegisters api sk (param_addr p) (param_count p) c w)"

definition modbus_command ::
  "('c, 'w) client_api \<Rightarrow> floats \<Rightarrow> 'w socket \<Rightarrow> string \<Rightarrow> json_obj \<Rightarrow> 'c \<Rightarrow> 'w \<Rightarrow> ('c, 'w) answered" where
  "modbus_command api fl sk cmd p c w =
     (if cmd = ''read_coils'' then cmd_read_coils api sk p c w
      else if cmd = ''write_coils'' then cmd_write_coils api sk p c w
      else if cmd = ''read_discrete_inputs'' then cmd_read_discrete_inputs api sk p c w
      else if cmd = ''write_coil'' then cmd_write_coil api sk p c w
      else if cmd = ''read_holding_registers'' then cmd_read_holding_registers api fl sk p c w
      else if cmd = ''write_holding_register'' then cmd_write_holding_register api sk p c w
      else if cmd = ''write_holding_registers'' then cmd_write_holding_registers api fl sk p c w
      else if cmd = ''write_holding_registers_raw'' then cmd_write_holding_registers_raw api sk p c w
      else if cmd = ''read_input_registers'' then cmd_read_input_registers api fl sk p c w
      else (Some (resp_error 404 (message_object (''Unknown command: '' @ cmd))), c, w))"

text \<open>\<open>None\<close> where the command makes an undefined conversion or access.\<close>

definition modbus_handle ::
  "('c, 'w) client_api \<Rightarrow> floats \<Rightarrow> (conn_key \<Rightarrow> 'w socket) \<Rightarrow> 'c connections \<times> 'w \<Rightarrow> string \<Rightarrow> json
     \<Rightarrow> (message list \<times> 'c connections \<times> 'w) option" where
  "modbus_handle api fl net st cmd data =
     (let (m, w) = st; p = to_object data
      in if cmd = ''status''
         then Some ([resp_done 0 (JObj (jset ''status'' (JStr ''ready'') []))], m, w)
         else
           (let (key, timeout) = conn_params p
            in case manager_getClient api net key timeout m w of
                 (None, m1, w1) \<Rightarrow>
                   Some ([resp_error 1 (message_object (''Failed to connect to '' @ fst key))], m1, w1)
               | (Some c, m1, w1) \<Rightarrow>
                   (let unit = word_of_int (to_int_or 1 (jval p ''unit_id''));
                        (reply, c', w') = modbus_command api fl (net key) cmd p (ca_setUnitId api unit c) w1
                    in map_option (\<lambda>msg. ([msg], m1(key \<mapsto> c'), w')) reply)))"

definition tcp_master_handle ::
  "floats \<Rightarrow> (conn_key \<Rightarrow> 'w socket) \<Rightarrow> modbus_client connections \<times> 'w \<Rightarrow> string \<Rightarrow> json
     \<Rightarrow> (message list \<times> modbus_client connections \<times> 'w) option" where
  "tcp_master_handle = modbus_handle tcp_api"

definition rtu_master_handle ::
  "floats \<Rightarrow> (conn_key \<Rightarrow> 'w socket) \<Rightarrow> rtu_master connections \<times> 'w \<Rightarrow> string \<Rightarrow> json
     \<Rightarrow> (message list \<times> rtu_master connections \<times> 'w) option" where
  "rtu_master_handle = modbus_handle rtu_api"

section \<open>The handler on a serial port\<close>

record serial_conn =
  sn_client :: serial_master
  sn_baudRate :: int
  sn_dataBits :: int
  sn_stopBits :: string
  sn_parity :: string

type_synonym serial_connections = "string \<Rightarrow> serial_conn option"

record line_params =
  lp_portName :: string
  lp_baudRate :: int
  lp_dataBits :: int
  lp_stopBits :: string
  lp_parity :: string

definition serial_line_params :: "json_obj \<Rightarrow> line_params" where
  "serial_line_params p =
     \<lparr>lp_portName = to_string (jval p ''port_name''), lp_baudRate = to_int_or 9600 (jval p ''baud_rate''),
      lp_dataBits = to_int_or 8 (jval p ''data_bits''), lp_stopBits = to_string_or ''1'' (jval p ''stop_bits''),
      lp_parity = to_string_or ''none'' (jval p ''parity'')\<rparr>"

text \<open>\<open>SerialConnectionManager::getConnection\<close>: a client, or an error message. An entry whose port
  is no longer open is erased before the port is opened again.\<close>

definition getConnection ::
  "'w serial_port \<Rightarrow> (string \<Rightarrow> rat) \<Rightarrow> line_params \<Rightarrow> serial_connections \<Rightarrow> 'w
     \<Rightarrow> (string + serial_master) \<times> serial_connections \<times> 'w" where
  "getConnection sp to_dbl lp m w =
     (let port = lp_portName lp;
          fresh = (\<lambda>m'.
            (case serial_client_open sp to_dbl port (lp_baudRate lp) (lp_dataBits lp) (lp_stopBits lp)
                    (lp_parity lp) w of
               (None, w') \<Rightarrow> (Inl (''Failed to open serial port '' @ port), m', w')
             | (Some c, w') \<Rightarrow>
                 (Inr c, m'(port \<mapsto> \<lparr>sn_client = c, sn_baudRate = lp_baudRate lp, sn_dataBits = lp_dataBits lp,
                    sn_stopBits = lp_stopBits lp, sn_parity = lp_parity lp\<rparr>), w')))
      in case m port of
           Some info \<Rightarrow>
             if sp_isOpen sp port w then
               (if sn_baudRate info \<noteq> lp_baudRate lp \<or> sn_dataBits info \<noteq> lp_dataBits lp
                   \<or> sn_stopBits info \<noteq> lp_stopBits lp \<or> sn_parity info \<noteq> lp_parity lp
                then (Inl (''Port '' @ port @ '' already open with different parameters''), m, w)
                else (Inr (sn_client info), m, w))
             else fresh (m(port := None))
         | None \<Rightarrow> fresh m)"

text \<open>\<open>toLongLong\<close> and \<open>toULongLong\<close> of a text: spaces around an optional sign and decimal digits,
  zero for anything else or a number out of range.\<close>

definition toLongLong :: "string \<Rightarrow> int" where
  "toLongLong s =
     (case text_integer True s of
        Some i \<Rightarrow> if - (2 ^ 63) \<le> i \<and> i < 2 ^ 63 then i else 0
      | None \<Rightarrow> 0)"

definition toULongLong :: "string \<Rightarrow> int" where
  "toULongLong s =
     (case text_integer False s of
        Some i \<Rightarrow> if i < 2 ^ 64 then i else 0
      | None \<Rightarrow> 0)"

definition serial_number_registers :: "floats \<Rightarrow> data_type \<Rightarrow> byte_order \<Rightarrow> json \<Rightarrow> u16 list option" where
  "serial_number_registers fl dt ord v =
     (if is_string v \<and> dt = DtInt64 then Some (fromInt64 ord (toLongLong (to_string v)))
      else if is_string v \<and> dt = DtUInt64 then Some (fromUInt64 ord (word_of_int (toULongLong (to_string v))))
      else number_registers fl dt ord (to_double v))"

definition serial_param_registers :: "floats \<Rightarrow> json_obj \<Rightarrow> u16 list option" where
  "serial_param_registers fl p =
     serial_number_registers fl (parseDataType (to_string_or ''uint16'' (jval p ''data_type'')))
       (parseByteOrder (to_string_or ''big_endian'' (jval p ''byte_order''))) (jval p ''value'')"

text \<open>\<open>%\<close> of C++ has the sign of the dividend, so only the remainder zero is the same here.\<close>

definition count_mismatch :: "string \<Rightarrow> json_obj \<Rightarrow> string option" where
  "count_mismatch cmd p =
     (if cmd = ''read_holding_registers'' \<or> cmd = ''read_input_registers'' then
        (let dataType = to_string_or ''uint16'' (jval p ''data_type''); count = to_int_or 1 (jval p ''count'');
             step = int (registersPerType (parseDataType dataType))
         in if step > 1 \<and> count mod step \<noteq> 0
            then Some (''count '' @ dec_int count @ '' is not a multiple of '' @ dec_int step
                   @ '' registers required by '' @ dataType)
            else None)
      else None)"

type_synonym 'w serial_answered = "message option \<times> 'w"

definition serial_respond ::
  "(modbus_result \<Rightarrow> json) \<Rightarrow> modbus_result option \<times> 'w \<Rightarrow> 'w serial_answered" where
  "serial_respond payload called = (let (r, w) = called in (map_option (reply_result payload) r, w))"

definition serial_read_command ::
  "'w serial_port \<Rightarrow> floats \<Rightarrow> string \<Rightarrow> byte \<Rightarrow> int \<Rightarrow> json_obj \<Rightarrow> serial_master \<Rightarrow> 'w \<Rightarrow> 'w serial_answered" where
  "serial_read_command sp fl cmd u timeout p c w =
     (let a = param_addr p; n = param_count p
      in if cmd = ''read_coils'' then serial_respond coil_values (serial_readCoils sp u a n timeout c w)
         else if cmd = ''read_discrete_inputs''
         then serial_respond coil_values (serial_readDiscreteInputs sp u a n timeout c w)
         else if cmd = ''read_holding_registers''
         then serial_respond (register_values (serial_register_value fl) p)
                (serial_readHoldingRegisters sp u a n timeout c w)
         else serial_respond (register_values (serial_register_value fl) p)
                (serial_readInputRegisters sp u a n timeout c w))"

definition serial_write_command ::
  "'w serial_port \<Rightarrow> floats \<Rightarrow> string \<Rightarrow> byte \<Rightarrow> int \<Rightarrow> json_obj \<Rightarrow> serial_master \<Rightarrow> 'w \<Rightarrow> 'w serial_answered" where
  "serial_write_command sp fl cmd u timeout p c w =
     (let a = param_addr p
      in if cmd = ''write_coil''
         then serial_respond (written (JBool True))
                (serial_writeSingleCoil sp u a (to_bool_or False (jval p ''value'')) timeout c w)
         else if cmd = ''write_coils''
         then serial_respond (written (jint (int (length (param_bools p)))))
                (serial_writeMultipleCoils sp u a (param_bools p) timeout c w)
         else if cmd = ''write_holding_register''
         then serial_respond (written (JBool True))
                (serial_writeSingleRegister sp u a (word_of_int (to_int_or 0 (jval p ''value''))) timeout c w)
         else if cmd = ''write_holding_registers''
         then (case serial_param_registers fl p of
                 None \<Rightarrow> (None, w)
               | Some regs \<Rightarrow>
                   serial_respond (written (jint (int (length regs))))
                     (serial_writeMultipleRegisters sp u a regs timeout c w))
         else serial_respond (written (jint (int (length (param_words p)))))
                (serial_writeMultipleRegisters sp u a (param_words p) timeout c w))"

definition serial_command ::
  "'w serial_port \<Rightarrow> floats \<Rightarrow> string \<Rightarrow> byte \<Rightarrow> int \<Rightarrow> json_obj \<Rightarrow> serial_master \<Rightarrow> 'w \<Rightarrow> 'w serial_answered" where
  "serial_command sp fl cmd u timeout p c w =
     (if cmd \<in> {''read_coils'', ''read_discrete_inputs'', ''read_holding_registers'', ''read_input_registers''}
      then serial_read_command sp fl cmd u timeout p c w
      else if cmd \<in> {''write_coil'', ''write_coils'', ''write_holding_register'', ''write_holding_registers'',
                 ''write_holding_registers_raw''}
      then serial_write_command sp fl cmd u timeout p c w
      else (Some (resp_error 404 (message_object (''Unknown command: '' @ cmd))), w))"

definition serial_handle ::
  "'w serial_port \<Rightarrow> (string \<Rightarrow> rat) \<Rightarrow> floats \<Rightarrow> serial_connections \<times> 'w \<Rightarrow> string \<Rightarrow> json
     \<Rightarrow> (message list \<times> serial_connections \<times> 'w) option" where
  "serial_handle sp to_dbl fl st cmd data =
     (let (m, w) = st; p = to_object data; unitId = to_int_or 1 (jval p ''unit_id'');
          timeout = to_int_or 3000 (jval p ''timeout'')
      in if cmd = ''status''
         then Some ([resp_done 0 (JObj (jset ''status'' (JStr ''ready'') []))], m, w)
         else if unitId < 1 \<or> unitId > 247
         then Some ([resp_error 3 (message_object ''unit_id must be 1-247'')], m, w)
         else
           (case count_mismatch cmd p of
              Some t \<Rightarrow> Some ([resp_error 3 (message_object t)], m, w)
            | None \<Rightarrow>
                (case getConnection sp to_dbl (serial_line_params p) m w of
                   (Inl e, m1, w1) \<Rightarrow> Some ([resp_error 1 (message_object e)], m1, w1)
                 | (Inr c, m1, w1) \<Rightarrow>
                     (let (reply, w') = serial_command sp fl cmd (word_of_int unitId) timeout p c w1
                      in map_option (\<lambda>msg. ([msg], m1, w')) reply))))"

text \<open>As a handler of the driver core: after an undefined step nothing more is said of the driver.\<close>

definition core_handler :: "('s \<Rightarrow> string \<Rightarrow> json \<Rightarrow> (message list \<times> 's) option) \<Rightarrow> 's option handler" where
  "core_handler h st cmd data =
     (case st of
        None \<Rightarrow> ([], None)
      | Some s \<Rightarrow>
          (case h s cmd data of
             None \<Rightarrow> ([], None)
           | Some (ms, s') \<Rightarrow> (ms, Some s')))"

end
