(* ===== verification/IeeeFloats.thy ===== *)
theory IeeeFloats
  imports Complex_Main "HOL-Library.Log_Nat" ModbusHandlers
begin

text \<open>
  The floating-point types of the drivers, \<open>float\<close> and \<open>double\<close>, as the IEEE 754 formats they are on
  every platform of the program: the bits of the nearest value (halfway cases to the even one) and
  the value of the bits. The infinities and NaN have no JSON number. A number of a JSON document is
  what \<open>toDouble\<close> gives: a \<open>double\<close>.
\<close>

section \<open>Rounding to an integer\<close>

definition round_even :: "rat \<Rightarrow> int" where
  "round_even x =
     (let f = \<lfloor>x\<rfloor>; r = x - of_int f
      in if r < 1 / 2 \<or> r = 1 / 2 \<and> even f then f else f + 1)"

lemma round_even_of_int [simp]: "round_even (of_int i) = i"
  by (simp add: round_even_def)

lemma round_even_error: "\<bar>of_int (round_even x) - x\<bar> \<le> 1 / 2"
proof -
  define r where "r = x - of_int \<lfloor>x\<rfloor>"
  have r: "0 \<le> r" "r < 1" unfolding r_def by linarith+
  have "of_int (round_even x) - x = (if r < 1 / 2 \<or> r = 1 / 2 \<and> even \<lfloor>x\<rfloor> then - r else 1 - r)"
    by (simp add: round_even_def r_def Let_def)
  with r show ?thesis by (auto simp: abs_if)
qed

lemma round_even_ge: "of_int a \<le> x \<Longrightarrow> a \<le> round_even x"
  by (auto simp: round_even_def Let_def le_floor_iff [symmetric])

lemma round_even_le:
  assumes "x \<le> of_int b"
  shows "round_even x \<le> b"
proof (cases "x = of_int b")
  case False
  with assms have "\<lfloor>x\<rfloor> < b" by (simp add: floor_less_iff)
  then show ?thesis by (simp add: round_even_def Let_def)
qed simp

section \<open>The formats\<close>

text \<open>
  A format has \<open>fm_frac\<close> fraction bits, \<open>fm_exp\<close> exponent bits and the unit \<open>2 ^ - fm_low\<close> in the
  last place of its smallest numbers. The bits of a magnitude are the number of its binade and the
  significand added up: the hidden bit and a carry of the rounding go into the exponent field.
\<close>

record float_format =
  fm_frac :: nat
  fm_exp :: nat
  fm_low :: nat

definition single_format :: float_format where
  "single_format = \<lparr>fm_frac = 23, fm_exp = 8, fm_low = 149\<rparr>"

definition double_format :: float_format where
  "double_format = \<lparr>fm_frac = 52, fm_exp = 11, fm_low = 1074\<rparr>"

definition binade :: "float_format \<Rightarrow> rat \<Rightarrow> nat" where
  "binade f a = floorlog 2 (nat \<lfloor>a * 2 ^ fm_low f / 2 ^ fm_frac f\<rfloor>) - 1"

definition significand :: "float_format \<Rightarrow> rat \<Rightarrow> nat" where
  "significand f a = nat (round_even (a * 2 ^ fm_low f / 2 ^ binade f a))"

definition infinity_bits :: "float_format \<Rightarrow> nat" where
  "infinity_bits f = (2 ^ fm_exp f - 1) * 2 ^ fm_frac f"

definition magnitude_bits :: "float_format \<Rightarrow> rat \<Rightarrow> nat" where
  "magnitude_bits f a = min (infinity_bits f) (binade f a * 2 ^ fm_frac f + significand f a)"

definition float_bits :: "float_format \<Rightarrow> rat \<Rightarrow> nat" where
  "float_bits f v = (if v < 0 then 2 ^ (fm_frac f + fm_exp f) else 0) + magnitude_bits f \<bar>v\<bar>"

definition magnitude_value :: "float_format \<Rightarrow> nat \<Rightarrow> rat" where
  "magnitude_value f b =
     (let e = b div 2 ^ fm_frac f; m = b mod 2 ^ fm_frac f
      in (if e = 0 then of_nat m else of_nat (2 ^ fm_frac f + m) * 2 ^ (e - 1)) / 2 ^ fm_low f)"

definition float_json :: "float_format \<Rightarrow> nat \<Rightarrow> json" where
  "float_json f b =
     (let a = b mod 2 ^ (fm_frac f + fm_exp f)
      in if infinity_bits f \<le> a then JNull
         else JNum (if 2 ^ (fm_frac f + fm_exp f) \<le> b then - magnitude_value f a else magnitude_value f a))"

definition ieee_floats :: floats where
  "ieee_floats = \<lparr>fl_bits32 = (\<lambda>v. of_nat (float_bits single_format v)),
     fl_bits64 = (\<lambda>v. of_nat (float_bits double_format v)),
     fl_json32 = (\<lambda>w. float_json single_format (unat w)),
     fl_json64 = (\<lambda>w. float_json double_format (unat w))\<rparr>"

text \<open>The values of a format, and its largest one.\<close>

definition max_float :: "float_format \<Rightarrow> rat" where
  "max_float f = of_nat (2 ^ (fm_frac f + 1) - 1) * 2 ^ (2 ^ fm_exp f - 3) / 2 ^ fm_low f"

definition float_value :: "float_format \<Rightarrow> rat \<Rightarrow> bool" where
  "float_value f v = (\<exists>m j. m < 2 ^ (fm_frac f + 1) \<and> j < 2 ^ fm_exp f - 2
     \<and> \<bar>v\<bar> = of_nat m * 2 ^ j / 2 ^ fm_low f)"

section \<open>The nearest value\<close>

lemma binade_bounds:
  assumes "0 \<le> a"
  shows "a * 2 ^ fm_low f < 2 ^ (fm_frac f + 1) * 2 ^ binade f a"
    and "binade f a \<noteq> 0 \<Longrightarrow> 2 ^ fm_frac f * 2 ^ binade f a \<le> a * 2 ^ fm_low f"
proof -
  let ?y = "a * 2 ^ fm_low f / 2 ^ fm_frac f" and ?j = "binade f a"
  let ?n = "nat \<lfloor>?y\<rfloor>"
  have y: "0 \<le> ?y" using assms by simp
  then have n: "of_nat ?n \<le> ?y" "?y < of_nat ?n + 1" by (simp_all add: of_nat_nat) linarith+
  have up: "?n < 2 ^ (?j + 1)"
  proof (cases "?n = 0")
    case False
    then have "0 < floorlog 2 ?n" by (simp add: floorlog_def)
    moreover have "?n < 2 ^ floorlog 2 ?n" using False floorlog_bounds [of ?n 2] by simp
    ultimately show ?thesis by (simp add: binade_def)
  qed simp
  have "?y < 2 ^ (?j + 1)"
  proof -
    have "of_nat ?n + 1 \<le> (2 ^ (?j + 1) :: rat)"
      using up by (metis Suc_leI of_nat_Suc of_nat_le_iff of_nat_numeral of_nat_power add.commute)
    with n(2) show ?thesis by (rule less_le_trans)
  qed
  then show "a * 2 ^ fm_low f < 2 ^ (fm_frac f + 1) * 2 ^ ?j"
    by (simp add: divide_less_eq mult.commute mult.left_commute)
  assume j: "?j \<noteq> 0"
  then have "0 < ?n" by (cases "?n = 0") (auto simp: binade_def floorlog_def)
  then have "2 ^ ?j \<le> ?n" using floorlog_bounds [of ?n 2] by (simp add: binade_def)
  then have "(2 ^ ?j :: rat) \<le> of_nat ?n" by (metis of_nat_le_iff of_nat_numeral of_nat_power)
  from this n(1) have "2 ^ ?j \<le> ?y" by (rule order_trans)
  then show "2 ^ fm_frac f * 2 ^ ?j \<le> a * 2 ^ fm_low f"
    by (simp add: le_divide_eq mult.commute)
qed

lemma significand_bounds:
  assumes "0 \<le> a"
  shows "significand f a \<le> 2 ^ (fm_frac f + 1)"
    and "binade f a \<noteq> 0 \<Longrightarrow> 2 ^ fm_frac f \<le> significand f a"
    and "\<bar>of_nat (significand f a) - a * 2 ^ fm_low f / 2 ^ binade f a\<bar> \<le> 1 / 2"
proof -
  let ?x = "a * 2 ^ fm_low f / 2 ^ binade f a"
  have x: "0 \<le> ?x" using assms by simp
  then have r: "0 \<le> round_even ?x" using round_even_ge [of 0 ?x] by simp
  have "?x \<le> of_int (2 ^ (fm_frac f + 1))"
    using binade_bounds(1) [OF assms, of f] by (simp add: divide_le_eq)
  then have "round_even ?x \<le> 2 ^ (fm_frac f + 1)" by (rule round_even_le)
  then show "significand f a \<le> 2 ^ (fm_frac f + 1)"
    unfolding significand_def using r by (simp add: nat_le_iff)
  show "2 ^ fm_frac f \<le> significand f a" if "binade f a \<noteq> 0"
  proof -
    have "of_int (2 ^ fm_frac f) \<le> ?x"
      using binade_bounds(2) [OF assms that] by (simp add: le_divide_eq)
    then have "2 ^ fm_frac f \<le> round_even ?x" by (rule round_even_ge)
    then show ?thesis by (simp add: significand_def le_nat_iff)
  qed
  have "of_nat (significand f a) = (of_int (round_even ?x) :: rat)"
    using r by (simp add: significand_def of_nat_nat)
  then show "\<bar>of_nat (significand f a) - ?x\<bar> \<le> 1 / 2" using round_even_error [of ?x] by simp
qed

lemma magnitude_value_sum:
  assumes "s \<le> 2 ^ (fm_frac f + 1)" and "j \<noteq> 0 \<Longrightarrow> 2 ^ fm_frac f \<le> s"
  shows "magnitude_value f (j * 2 ^ fm_frac f + s) = of_nat s * 2 ^ j / 2 ^ fm_low f"
proof -
  let ?M = "2 ^ fm_frac f :: nat"
  consider "s < ?M" | "?M \<le> s" "s < 2 * ?M" | "s = 2 * ?M" using assms(1) by fastforce
  then show ?thesis
  proof cases
    case 1
    with assms(2) have "j = 0" by linarith
    with 1 show ?thesis by (simp add: magnitude_value_def)
  next
    case 2
    define m where "m = s - ?M"
    have m: "s = ?M + m" "m < ?M" using 2 by (simp_all add: m_def)
    then have eq: "j * ?M + s = m + (j + 1) * ?M" by simp
    have "(m + (j + 1) * ?M) div ?M = j + 1" "(m + (j + 1) * ?M) mod ?M = m"
      using m(2) by (simp_all only: div_mult_self1 mod_mult_self1 power_not_zero zero_neq_numeral div_less mod_less
        add_0_left add_0_right not_False_eq_True simp_thms)
    then have "(j * ?M + s) div ?M = j + 1" "(j * ?M + s) mod ?M = m" unfolding eq by blast+
    then show ?thesis by (simp add: magnitude_value_def m(1))
  next
    case 3
    then have eq: "j * ?M + s = (j + 2) * ?M" by simp
    have "(j * ?M + s) div ?M = j + 2" "(j * ?M + s) mod ?M = 0" unfolding eq by simp_all
    then show ?thesis by (simp add: magnitude_value_def 3)
  qed
qed

text \<open>No number up to the largest one rounds to infinity.\<close>

lemma magnitude_finite:
  assumes "0 \<le> a" and "a \<le> max_float f" and "2 \<le> fm_exp f"
  shows "binade f a * 2 ^ fm_frac f + significand f a < infinity_bits f"
proof -
  let ?M = "2 ^ fm_frac f :: nat" and ?j = "binade f a" and ?s = "significand f a"
  define J where "J = (2 :: nat) ^ fm_exp f - 3"
  have "(2 :: nat) ^ 2 \<le> 2 ^ fm_exp f" using assms(3) by (rule power_increasing) simp
  then have J: "(2 :: nat) ^ fm_exp f - 1 = J + 2" by (simp add: J_def)
  have x: "a * 2 ^ fm_low f \<le> of_nat (2 * ?M - 1) * 2 ^ J"
    using assms(2) by (simp add: max_float_def J_def le_divide_eq)
  also have "\<dots> < of_nat (2 * ?M) * 2 ^ J" by (simp add: of_nat_diff)
  finally have lt: "a * 2 ^ fm_low f < 2 ^ (fm_frac f + 1 + J)" by (simp add: power_add)
  have "?j \<le> J"
  proof (cases "?j = 0")
    case False
    have "(2 :: rat) ^ (fm_frac f + ?j) < 2 ^ (fm_frac f + 1 + J)"
      unfolding power_add [of 2 "fm_frac f" ?j] using binade_bounds(2) [OF assms(1) False] lt
      by (rule le_less_trans)
    then have "fm_frac f + ?j < fm_frac f + 1 + J" by (rule power_less_imp_less_exp [rotated]) simp
    then show ?thesis by simp
  qed simp
  moreover have "?s \<le> 2 * ?M - 1" if "?j = J"
  proof -
    have "a * 2 ^ fm_low f / 2 ^ ?j \<le> of_int (int (2 * ?M - 1))" using x that by (simp add: divide_le_eq)
    then have "round_even (a * 2 ^ fm_low f / 2 ^ ?j) \<le> int (2 * ?M - 1)" by (rule round_even_le)
    then show ?thesis unfolding significand_def by linarith
  qed
  moreover have "?s \<le> 2 * ?M" using significand_bounds(1) [OF assms(1), of f] by simp
  moreover have "0 < ?M" by simp
  ultimately have "?j * ?M + ?s < (J + 2) * ?M"
  proof (cases "?j = J")
    case False
    with \<open>?j \<le> J\<close> have "(?j + 1) * ?M \<le> J * ?M" by (intro mult_right_mono) simp_all
    moreover have "(?j + 1) * ?M = ?j * ?M + ?M" "(J + 2) * ?M = J * ?M + 2 * ?M" by simp_all
    ultimately show ?thesis using \<open>?s \<le> 2 * ?M\<close> \<open>0 < ?M\<close> by linarith
  next
    case True
    with \<open>?j = J \<Longrightarrow> ?s \<le> 2 * ?M - 1\<close> have "?s \<le> 2 * ?M - 1" by simp
    moreover have "(J + 2) * ?M = J * ?M + 2 * ?M" by simp
    ultimately show ?thesis using True \<open>0 < ?M\<close> by (simp only:)
  qed
  then show ?thesis by (simp only: infinity_bits_def J)
qed

lemma float_json_bits:
  assumes "\<bar>v\<bar> \<le> max_float f" and "2 \<le> fm_exp f"
  shows "float_json f (float_bits f v)
    = JNum ((if v < 0 then -1 else 1) * (of_nat (significand f \<bar>v\<bar>) * 2 ^ binade f \<bar>v\<bar> / 2 ^ fm_low f))"
proof -
  define a where "a = \<bar>v\<bar>"
  have a: "0 \<le> a" "a \<le> max_float f" using assms(1) by (simp_all add: a_def)
  let ?b = "binade f a * 2 ^ fm_frac f + significand f a" and ?S = "2 ^ (fm_frac f + fm_exp f) :: nat"
  have fin: "?b < infinity_bits f" using a assms(2) by (rule magnitude_finite)
  then have bits: "float_bits f v = (if v < 0 then ?S else 0) + ?b"
    by (simp add: float_bits_def magnitude_bits_def a_def)
  have "infinity_bits f < ?S"
    by (simp add: infinity_bits_def power_add mult.commute)
  with fin have small: "?b < ?S" by (rule less_trans)
  then have "float_bits f v mod ?S = ?b" "?S \<le> float_bits f v \<longleftrightarrow> v < 0"
    unfolding bits by auto
  moreover have "magnitude_value f ?b = of_nat (significand f a) * 2 ^ binade f a / 2 ^ fm_low f"
    using significand_bounds [OF a(1), of f] by (intro magnitude_value_sum) simp_all
  ultimately show ?thesis
    using fin by (simp add: float_json_def a_def [symmetric] del: abs_if)
qed

lemma float_value_max:
  assumes "float_value f v" and "2 \<le> fm_exp f"
  shows "\<bar>v\<bar> \<le> max_float f"
proof -
  obtain m j where mj: "m < 2 ^ (fm_frac f + 1)" "j < 2 ^ fm_exp f - 2" "\<bar>v\<bar> = of_nat m * 2 ^ j / 2 ^ fm_low f"
    using assms(1) unfolding float_value_def by blast
  have "(of_nat m :: rat) \<le> of_nat (2 ^ (fm_frac f + 1) - 1)" using mj(1) by (subst of_nat_le_iff) linarith
  moreover have "(2 :: rat) ^ j \<le> 2 ^ (2 ^ fm_exp f - 3)" using mj(2) by (intro power_increasing) simp_all
  ultimately have "(of_nat m * 2 ^ j :: rat) \<le> of_nat (2 ^ (fm_frac f + 1) - 1) * 2 ^ (2 ^ fm_exp f - 3)"
    by (intro mult_mono) simp_all
  then show ?thesis unfolding mj(3) max_float_def by (intro divide_right_mono) simp_all
qed

lemma significand_exact:
  assumes "m < 2 ^ (fm_frac f + 1)" and x: "a * 2 ^ fm_low f = of_nat m * 2 ^ j" and "0 \<le> a"
  shows "of_nat (significand f a) * 2 ^ binade f a = (of_nat m * 2 ^ j :: rat)"
proof -
  let ?j = "binade f a"
  have le: "?j \<le> j"
  proof (cases "?j = 0")
    case False
    have "(of_nat m :: rat) < 2 ^ (fm_frac f + 1)"
      using assms(1) by (metis of_nat_less_iff of_nat_numeral of_nat_power)
    then have "(of_nat m * 2 ^ j :: rat) < 2 ^ (fm_frac f + 1) * 2 ^ j" by simp
    with binade_bounds(2) [OF assms(3) False] have "(2 :: rat) ^ fm_frac f * 2 ^ ?j < 2 ^ (fm_frac f + 1) * 2 ^ j"
      unfolding x by (rule le_less_trans)
    then have "(2 :: rat) ^ (fm_frac f + ?j) < 2 ^ (fm_frac f + 1 + j)" by (simp only: power_add)
    then have "fm_frac f + ?j < fm_frac f + 1 + j" by (rule power_less_imp_less_exp [rotated]) simp
    then show ?thesis by simp
  qed simp
  define d where "d = j - ?j"
  have j: "j = d + ?j" using le by (simp add: d_def)
  then have "(2 :: rat) ^ j = 2 ^ (d + ?j)" by (rule arg_cong)
  then have pow: "(2 :: rat) ^ j = 2 ^ d * 2 ^ ?j" by (simp only: power_add)
  then have "a * 2 ^ fm_low f / 2 ^ ?j = of_int (int (m * 2 ^ d))" unfolding x by simp
  then have "significand f a = m * 2 ^ d"
    unfolding significand_def by (simp only: round_even_of_int nat_int)
  then show ?thesis using pow by simp
qed

lemma float_value_exact:
  assumes "float_value f v"
  shows "of_nat (significand f \<bar>v\<bar>) * 2 ^ binade f \<bar>v\<bar> / 2 ^ fm_low f = \<bar>v\<bar>"
proof -
  obtain m j where mj: "m < 2 ^ (fm_frac f + 1)" "\<bar>v\<bar> = of_nat m * 2 ^ j / 2 ^ fm_low f"
    using assms unfolding float_value_def by blast
  then have "\<bar>v\<bar> * 2 ^ fm_low f = of_nat m * 2 ^ j" by simp
  from significand_exact [OF mj(1) this abs_ge_zero] mj(2) show ?thesis by (simp only:)
qed

text \<open>
  The value of the bits of a number: the number itself when the format has it, otherwise one within
  half a unit in the last place.
\<close>

theorem float_roundtrip:
  assumes "2 \<le> fm_exp f"
  shows "float_value f v \<Longrightarrow> float_json f (float_bits f v) = JNum v"
    and "\<bar>v\<bar> \<le> max_float f \<Longrightarrow> \<exists>r. float_json f (float_bits f v) = JNum r
      \<and> \<bar>r - v\<bar> \<le> max (\<bar>v\<bar> / 2 ^ (fm_frac f + 1)) (1 / 2 ^ (fm_low f + 1))"
proof -
  show "float_json f (float_bits f v) = JNum v" if "float_value f v"
    using float_json_bits [OF float_value_max [OF that assms] assms] float_value_exact [OF that]
    by (auto simp: abs_if split: if_splits)
  assume max: "\<bar>v\<bar> \<le> max_float f"
  let ?a = "\<bar>v\<bar>" and ?j = "binade f \<bar>v\<bar>"
  let ?r = "of_nat (significand f ?a) * 2 ^ ?j / 2 ^ fm_low f"
  have "?r - ?a = (of_nat (significand f ?a) - ?a * 2 ^ fm_low f / 2 ^ ?j) * (2 ^ ?j / 2 ^ fm_low f)"
    by (simp add: field_simps)
  then have "\<bar>?r - ?a\<bar> \<le> 1 / 2 * (2 ^ ?j / 2 ^ fm_low f)"
    using significand_bounds(3) [of ?a f]
    by (simp only: abs_mult) (intro mult_mono, simp_all)
  moreover have "1 / 2 * (2 ^ ?j / 2 ^ fm_low f) \<le> max (?a / 2 ^ (fm_frac f + 1)) (1 / 2 ^ (fm_low f + 1))"
  proof (cases "?j = 0")
    case False
    have "2 ^ fm_frac f * 2 ^ ?j \<le> ?a * 2 ^ fm_low f" using binade_bounds(2) [of ?a f] False by simp
    then have "1 / 2 * (2 ^ ?j / 2 ^ fm_low f) \<le> ?a / 2 ^ (fm_frac f + 1)" by (simp add: field_simps)
    then show ?thesis by simp
  qed simp
  ultimately have err: "\<bar>?r - ?a\<bar> \<le> max (?a / 2 ^ (fm_frac f + 1)) (1 / 2 ^ (fm_low f + 1))"
    by (rule order_trans)
  let ?v = "(if v < 0 then -1 else 1) * ?r"
  have "\<bar>?v - v\<bar> = \<bar>?r - ?a\<bar>" by (simp add: abs_if)
  then have "\<bar>?v - v\<bar> \<le> max (?a / 2 ^ (fm_frac f + 1)) (1 / 2 ^ (fm_low f + 1))"
    using err by (simp only:)
  with float_json_bits [OF max assms]
  show "\<exists>r. float_json f (float_bits f v) = JNum r
      \<and> \<bar>r - v\<bar> \<le> max (\<bar>v\<bar> / 2 ^ (fm_frac f + 1)) (1 / 2 ^ (fm_low f + 1))"
    by (rule exI [of _ ?v, OF conjI])
qed

section \<open>The bits of the drivers\<close>

lemma float_bits_bound: "float_bits f v < 2 ^ (fm_frac f + fm_exp f + 1)"
proof -
  have "infinity_bits f < 2 ^ (fm_frac f + fm_exp f)"
    by (simp add: infinity_bits_def power_add mult.commute)
  moreover have "magnitude_bits f a \<le> infinity_bits f" for a by (simp add: magnitude_bits_def)
  ultimately have "magnitude_bits f a < 2 ^ (fm_frac f + fm_exp f)" for a by (rule le_less_trans [rotated])
  moreover define m where "m = magnitude_bits f \<bar>v\<bar>"
  ultimately have "m < 2 ^ (fm_frac f + fm_exp f)" by blast
  then show ?thesis unfolding float_bits_def m_def [symmetric] by simp
qed

lemma ieee_json_bits:
  "fl_json32 ieee_floats (fl_bits32 ieee_floats v) = float_json single_format (float_bits single_format v)"
  "fl_json64 ieee_floats (fl_bits64 ieee_floats v) = float_json double_format (float_bits double_format v)"
  using float_bits_bound [of single_format v] float_bits_bound [of double_format v]
  by (simp_all add: ieee_floats_def unsigned_of_nat take_bit_nat_eq_self single_format_def double_format_def)

lemma single_format_values [simp]: "fm_frac single_format = 23" "fm_exp single_format = 8" "fm_low single_format = 149"
  and double_format_values [simp]: "fm_frac double_format = 52" "fm_exp double_format = 11" "fm_low double_format = 1074"
  by (simp_all add: single_format_def double_format_def)

lemma float_value_0 [simp]: "2 < (2 :: nat) ^ fm_exp f \<Longrightarrow> float_value f 0"
  unfolding float_value_def by (intro exI [of _ 0]) simp

text \<open>The nearest \<open>float\<close> to one tenth, and what it is read as.\<close>

lemma binade_eqI:
  "2 ^ j \<le> a * 2 ^ fm_low f / 2 ^ fm_frac f \<Longrightarrow> a * 2 ^ fm_low f / 2 ^ fm_frac f < 2 ^ (j + 1) \<Longrightarrow> binade f a = j"
proof -
  let ?y = "a * 2 ^ fm_low f / 2 ^ fm_frac f"
  assume y: "2 ^ j \<le> ?y" "?y < 2 ^ (j + 1)"
  then have "of_int (2 ^ j) \<le> ?y" "?y < of_int (2 ^ (j + 1))" by simp_all
  then have "2 ^ j \<le> \<lfloor>?y\<rfloor>" "\<lfloor>?y\<rfloor> < 2 ^ (j + 1)" by (simp_all only: le_floor_iff floor_less_iff)
  then have n: "2 ^ j \<le> nat \<lfloor>?y\<rfloor>" "nat \<lfloor>?y\<rfloor> < 2 ^ (j + 1)" by (simp_all add: le_nat_iff nat_less_iff del: power_Suc)
  have "floorlog 2 (nat \<lfloor>?y\<rfloor>) = j + 1"
    using floorlog_ge_SucI [OF n(1)] floorlog_leI [OF n(2)] by (simp del: power_Suc)
  then show ?thesis by (simp add: binade_def)
qed

lemma one_tenth:
  "float_bits single_format (1 / 10) = 0x3DCCCCCD"
  "float_json single_format 0x3DCCCCCD = JNum (13421773 / 134217728)"
proof -
  have "binade single_format (1 / 10) = 122" by (rule binade_eqI) simp_all
  moreover have "\<lfloor>67108864 / 5 :: rat\<rfloor> = 13421772" by (simp add: floor_eq_iff)
  ultimately show "float_bits single_format (1 / 10) = 0x3DCCCCCD"
    by (simp add: float_bits_def magnitude_bits_def significand_def infinity_bits_def round_even_def Let_def)
  show "float_json single_format 0x3DCCCCCD = JNum (13421773 / 134217728)"
    by (simp add: infinity_bits_def Let_def float_json_def magnitude_value_def)
qed

end
