(* ===== verification/ModbusRtuSpec.thy ===== *)
theory ModbusRtuSpec
  imports ModbusRtuServer
begin

text \<open>
  What the Modbus RTU servers promise: their answers are frames with a valid checksum, a frame
  damaged in one byte is ignored on the serial line, a broadcast has on every unit the effect of
  the same request addressed to it, and the buffers stay bounded.
\<close>

section \<open>Checksums of frames\<close>

lemma crc_bytes_join: "push_bit 8 (ucast (ucast (drop_bit 8 c AND 0xFF) :: byte)) OR ucast (ucast (c AND 0xFF) :: byte) = (c :: u16)"
proof (rule bit_word_eqI)
  fix n :: nat
  assume "n < LENGTH(16)"
  then show "bit (push_bit 8 (ucast (ucast (drop_bit 8 c AND 0xFF) :: byte)) OR ucast (ucast (c AND 0xFF) :: byte) :: u16) n
      = bit c n"
    by (cases "n < 8") (auto simp: mask8_u16 bit_simps bit_byte_beyond)
qed

definition rtu_frame :: "byte \<Rightarrow> bytes \<Rightarrow> bytes" where
  "rtu_frame u pdu = buildRtuResponse u pdu"

lemma rtu_crc_ok_snoc:
  "rtu_crc_ok (body @ [a, b]) \<longleftrightarrow> push_bit 8 (ucast b) OR ucast a = calculateCRC16 body"
  by (simp add: rtu_crc_ok_def Let_def nth_append)

lemma rtu_crc_ok_build: "rtu_crc_ok (buildRtuResponse u pdu)"
proof -
  have "buildRtuResponse u pdu = (u # pdu) @ [ucast (calculateCRC16 (u # pdu) AND 0xFF),
      ucast (drop_bit 8 (calculateCRC16 (u # pdu)) AND 0xFF)]"
    by (simp add: buildRtuResponse_def Let_def)
  then show ?thesis by (simp only: rtu_crc_ok_snoc crc_bytes_join)
qed

lemma push_or_byte_eq:
  "(push_bit 8 (ucast b) OR ucast a :: u16) = push_bit 8 (ucast d) OR ucast c \<longleftrightarrow> a = c \<and> b = d" for a b c d :: byte
  unfolding join16_def [symmetric] by (metis be16_join16 list.inject)

text \<open>A checked frame with any one byte replaced no longer passes the check.\<close>

lemma rtu_one_byte_detected:
  assumes "rtu_crc_ok frame" and "2 \<le> length frame" and "i < length frame" and "x \<noteq> frame ! i"
  shows "\<not> rtu_crc_ok (frame[i := x])"
proof -
  obtain body a b where frame: "frame = body @ [a, b]"
  proof -
    obtain xs b where xs: "frame = xs @ [b]" using assms(2) by (cases frame rule: rev_cases) auto
    then obtain body a where "xs = body @ [a]" using assms(2) by (cases xs rule: rev_cases) auto
    with xs that show ?thesis by simp
  qed
  have ok: "push_bit 8 (ucast b) OR ucast a = calculateCRC16 body"
    using assms(1) by (simp add: frame rtu_crc_ok_snoc)
  consider "i < length body" | "i = length body" | "i = length body + 1" using assms(3) frame by fastforce
  then show ?thesis
  proof cases
    case 1
    then have "frame[i := x] = body[i := x] @ [a, b]" by (simp add: frame list_update_append)
    moreover have "calculateCRC16 (body[i := x]) \<noteq> calculateCRC16 body"
      unfolding calculateCRC16_def using 1 assms(4) by (intro crc16.one_byte_detected) (simp_all add: frame nth_append)
    ultimately show ?thesis using ok by (simp add: rtu_crc_ok_snoc)
  next
    case 2
    then have "frame[i := x] = body @ [x, b]" "x \<noteq> a" using assms(4) by (simp_all add: frame list_update_append)
    then show ?thesis using ok push_or_byte_eq [of b x b a] by (auto simp: rtu_crc_ok_snoc)
  next
    case 3
    then have "frame[i := x] = body @ [a, x]" "x \<noteq> b" using assms(4) by (simp_all add: frame list_update_append nth_append)
    then show ?thesis using ok push_or_byte_eq [of x a b a] by (auto simp: rtu_crc_ok_snoc)
  qed
qed

section \<open>The serial server\<close>

text \<open>On the serial line, a frame of which one byte was damaged on its way is discarded: when the
  silence after it ends the server writes nothing, changes no unit, and has an empty buffer,
  whichever byte it was, those of the checksum included.\<close>

theorem damaged_frame_ignored:
  assumes "rtu_crc_ok frame" and "2 \<le> length frame" and "i < length frame" and "x \<noteq> frame ! i"
    and "ss_buffer s = frame[i := x]"
  shows "serial_onFrameTimeout s = s\<lparr>ss_timer := False, ss_buffer := []\<rparr>"
  using rtu_one_byte_detected [OF assms(1-4)] assms(5)
  by (simp add: serial_onFrameTimeout_def Let_def)

definition demo_serial :: "bytes \<Rightarrow> serial_server" where
  "demo_serial buffer = \<lparr>ss_open = True, ss_buffer = buffer, ss_timer = True,
     ss_units = om_put 1 (ModbusDataArea 4) [], ss_written = [], ss_signals = []\<rparr>"

lemma damaged_frame_ignored_witness:
  "serial_onFrameTimeout (demo_serial ((buildRtuResponse 1 [6, 0, 0, 0, 5])[5 := 7]))
     = (demo_serial ((buildRtuResponse 1 [6, 0, 0, 0, 5])[5 := 7]))\<lparr>ss_timer := False, ss_buffer := []\<rparr>"
  by (rule damaged_frame_ignored [where frame = "buildRtuResponse 1 [6, 0, 0, 0, 5]" and i = 5 and x = 7,
        OF rtu_crc_ok_build])
    (simp_all add: buildRtuResponse_def Let_def demo_serial_def)

lemma applyBroadcastWrite_dispatch:
  assumes "fc \<in> {0x05, 0x06, 0x0F, 0x10}"
  shows "applyBroadcastWrite fc data area =
    (case rtu_dispatch u area fc data of Inl ex \<Rightarrow> area | Inr (pdu, area', sigs) \<Rightarrow> area')"
proof -
  consider "fc = 0x05" | "fc = 0x06" | "fc = 0x0F" | "fc = 0x10" using assms by auto
  then show ?thesis
    by cases (simp_all add: applyBroadcastWrite_def rtu_dispatch_def rtu_write_single_def rtu_write_multiple_def
        Let_def not_le not_less)
qed

lemma om_get_map_snd: "om_get (map (\<lambda>(k, v). (k, f v)) m) k = map_option f (om_get m k)"
  by (induction m) auto

text \<open>A broadcast frame is never answered, and a broadcast write has on every unit exactly the
  effect that the same write addressed to that unit alone would have on it, nothing when that
  unit would have refused it.\<close>

theorem broadcast_is_unicast_to_all:
  assumes "4 \<le> length frame" and "frame ! 0 = 0" and "frame ! 1 \<in> {0x05, 0x06, 0x0F, 0x10}" and "u \<noteq> 0"
  shows "let (response, m', sigs) = serial_processRtuRequest frame m in
    response = [] \<and> sigs = []
    \<and> om_get m' u = om_get (fst (snd (serial_processRtuRequest (frame[0 := u]) m))) u"
proof -
  let ?data = "take (length frame - 4) (drop 2 frame)"
  have "0 < length frame" using assms(1) by linarith
  then have "drop 2 (frame[0 := u]) = drop 2 frame" "length (frame[0 := u]) = length frame"
      "frame[0 := u] ! 0 = u" "frame[0 := u] ! 1 = frame ! 1"
    using assms(1) by (simp_all add: drop_update_cancel)
  then have uni: "om_get (fst (snd (serial_processRtuRequest (frame[0 := u]) m))) u =
      map_option (\<lambda>area. case rtu_dispatch u area (frame ! 1) ?data of
        Inl ex \<Rightarrow> area | Inr (pdu, area', sigs) \<Rightarrow> area') (om_get m u)"
    using assms(1,4)
    by (auto simp: serial_processRtuRequest_def Let_def split: option.split sum.split)
  show ?thesis
    using assms uni applyBroadcastWrite_dispatch [OF assms(3), of ?data _ u]
    by (auto simp: serial_processRtuRequest_def Let_def om_get_map_snd cong: map_option_cong)
qed

lemma broadcast_is_unicast_to_all_witness:
  "fst (serial_processRtuRequest [0, 6, 0, 1, 0, 9, 0, 0] (om_put 1 (ModbusDataArea 4) [])) = []"
  using broadcast_is_unicast_to_all [of "[0, 6, 0, 1, 0, 9, 0, 0]" 1 "om_put 1 (ModbusDataArea 4) []"]
  by (auto simp del: om_put.simps)

section \<open>The server over TCP\<close>

text \<open>Every answer of the RTU server is a frame with a valid checksum that begins with the unit
  the request addresses; and the first byte after it is the request's function code, or that
  code with the exception bit set.\<close>

theorem rtu_answers_are_frames:
  assumes "4 \<le> length frame"
  shows "let response = fst (processRtuRequest frame m) in
    rtu_crc_ok response \<and> response ! 0 = frame ! 0
    \<and> (response ! 1 = frame ! 1 \<or> response ! 1 = frame ! 1 OR 0x80)"
proof -
  have head: "buildRtuResponse u pdu ! 0 = u" "pdu \<noteq> [] \<Longrightarrow> buildRtuResponse u pdu ! Suc 0 = hd pdu" for u pdu
    by (simp_all add: buildRtuResponse_def Let_def nth_append hd_conv_nth)
  have pdu: "pdu \<noteq> [] \<and> hd pdu = fc" if "rtu_dispatch u area fc data = Inr (pdu, area', sigs)" for u area fc data pdu area' sigs
    using that
    by (auto simp: rtu_dispatch_def rtu_read_def rtu_write_single_def rtu_write_multiple_def Let_def split: if_splits)
  show ?thesis
    using assms
    by (auto simp: processRtuRequest_def createRtuExceptionResponse_def Let_def rtu_crc_ok_build head
        dest!: pdu split: option.split sum.split)
qed

lemma rtu_answers_are_frames_witness:
  "rtu_crc_ok (fst (processRtuRequest [9, 3, 0, 0] []))"
  using rtu_answers_are_frames [of "[9, 3, 0, 0]" "[]"] by (auto simp: Let_def)

lemma find_SomeD: "find P xs = Some x \<Longrightarrow> x \<in> set xs \<and> P x"
  by (induction xs) (auto split: if_splits)

lemma rtu_find_range: "rtu_find buffer = Some n \<Longrightarrow> 4 \<le> n \<and> n \<le> length buffer \<and> n \<le> 256 \<and> rtu_crc_ok (take n buffer)"
  by (auto simp: rtu_find_def simp del: upt_Suc dest!: find_SomeD)

lemma rtu_scan_left: "length buffer \<le> n \<Longrightarrow> length (fst (snd (rtu_scan_fuel n buffer m))) < 4"
proof (induction n arbitrary: buffer m)
  case (Suc n)
  show ?case
  proof (cases "rtu_find buffer")
    case None
    with Suc show ?thesis by simp
  next
    case (Some len)
    with rtu_find_range have "4 \<le> len" by blast
    with Some Suc show ?thesis by (simp add: Let_def split_beta)
  qed
qed simp

text \<open>When the silence after a frame ends and the buffer holds just that frame, no proper prefix
  of it passing the checksum, the server over TCP processes exactly that frame and keeps
  nothing; and whatever the buffer holds, fewer than four bytes of it are left.\<close>

theorem rtu_timeout_serves_frame:
  assumes "rtu_crc_ok frame" and "4 \<le> length frame" and "length frame \<le> 256"
    and "\<forall>n. 4 \<le> n \<and> n < length frame \<longrightarrow> \<not> rtu_crc_ok (take n frame)"
  shows "rtu_scan frame m =
      (let (response, m', sigs) = processRtuRequest frame m
       in (if response \<noteq> [] then [response] else [], [], m', sigs))
    \<and> length (fst (snd (rtu_scan buffer m))) < 4"
proof -
  have "rtu_find frame = Some (length frame)"
    using assms
    by (auto simp: rtu_find_def find_Some_iff simp del: upt_Suc intro!: exI [of _ "length frame - 4"])
  then have find: "rtu_find frame = Some (length frame)" .
  obtain n where n: "length frame = Suc n" using assms(2) by (cases "length frame") auto
  have empty: "rtu_scan_fuel k [] m' = ([], [], m', [])" for k m' by (cases k) simp_all
  obtain r m1 s1 where r: "processRtuRequest frame m = (r, m1, s1)" using prod_cases3 by blast
  have whole: "take (length frame) frame = frame" "drop (length frame) frame = []" by simp_all
  have "rtu_scan_fuel (Suc n) frame m = (if r \<noteq> [] then [r] else [], [], m1, s1)"
    using assms(2) by (simp only: rtu_scan_fuel.simps find option.case whole r) (simp add: empty)
  then have "rtu_scan frame m =
      (let (response, m', sigs) = processRtuRequest frame m
       in (if response \<noteq> [] then [response] else [], [], m', sigs))"
    unfolding rtu_scan_def n by (simp add: r)
  moreover have "length (fst (snd (rtu_scan buffer m))) < 4"
    unfolding rtu_scan_def by (rule rtu_scan_left) simp
  ultimately show ?thesis by simp
qed

lemma rtu_timeout_serves_frame_witness:
  "rtu_scan (buildRtuResponse 1 [7]) [] = ([createRtuExceptionResponse 1 7 0x0B], [], [], [])"
proof -
  have frame: "buildRtuResponse 1 [7] ! 0 = 1" "buildRtuResponse 1 [7] ! Suc 0 = 7" "length (buildRtuResponse 1 [7]) = 4"
    by (simp_all add: buildRtuResponse_def Let_def)
  have "processRtuRequest (buildRtuResponse 1 [7]) [] = (createRtuExceptionResponse 1 7 0x0B, [], [])"
    using frame by (simp add: processRtuRequest_def Let_def)
  moreover have "createRtuExceptionResponse 1 7 0x0B \<noteq> []"
    by (simp add: createRtuExceptionResponse_def buildRtuResponse_def Let_def)
  moreover have short: "\<forall>n. 4 \<le> n \<and> n < length (buildRtuResponse 1 [7]) \<longrightarrow> \<not> rtu_crc_ok (take n (buildRtuResponse 1 [7]))"
    using frame(3) by (metis not_less)
  ultimately show ?thesis
    using rtu_timeout_serves_frame [OF rtu_crc_ok_build [of 1 "[7]"] _ _ short, of "[]" "[]"] frame by simp
qed

end
