(* ===== verification/ModbusClientSpec.thy ===== *)
theory ModbusClientSpec
  imports ModbusClient ModbusRtuSpec
begin

text \<open>
  What the Modbus clients promise of the values they return, whatever the network does to the
  bytes, and what they and the servers of this repository make of each other: what a client
  writes to a server is what it reads from it, while a refused read may come back as data.
\<close>

section \<open>Packed coils\<close>

lemma coil_loop_bits:
  assumes "n \<le> length vals"
  shows "let data = foldl (\<lambda>data i. if vals ! i then data[i div 8 := data ! (i div 8) OR push_bit (i mod 8) 1] else data)
      (replicate ((length vals + 7) div 8) (0 :: byte)) [0..<n]
    in length data = (length vals + 7) div 8
      \<and> (\<forall>j < (length vals + 7) div 8. \<forall>b < 8. bit (data ! j) b \<longleftrightarrow> j * 8 + b < n \<and> vals ! (j * 8 + b))"
  using assms
proof (induction n)
  case (Suc n)
  have byte: "n div 8 < (length vals + 7) div 8"
    using Suc.prems by (auto simp: less_eq_div_iff_mult_less_eq div_less_iff_less_mult)
  have pos: "j * 8 + b = n \<longleftrightarrow> j = n div 8 \<and> b = n mod 8" if "b < 8" for j b
    using that by (metis add.commute div_mult_mod_eq div_mult_self1 mod_mult_self1 mod_less div_less add_0
        mult.commute zero_neq_numeral)
  from Suc byte pos show ?case
    by (auto simp: Let_def nth_list_update bit_simps less_Suc_eq)
qed (simp add: Let_def)

lemma coil_bytes_pack: "coil_bytes vals = pack_bits vals 0 (length vals)"
proof (rule nth_equalityI)
  note loop = coil_loop_bits [of "length vals" vals, simplified Let_def, folded coil_bytes_def, OF order_refl]
  show "length (coil_bytes vals) = length (pack_bits vals 0 (length vals))" using loop by simp
  fix j
  assume j: "j < length (coil_bytes vals)"
  then have "j < (length vals + 7) div 8" using loop by simp
  with loop show "coil_bytes vals ! j = pack_bits vals 0 (length vals) ! j"
    by (intro bit_word_eqI) (simp add: pack_bits_def bit_pack_byte)
qed

lemma write_pdus:
  "write_coils_pdu a cs = be16 a @ be16 (of_nat (length cs)) @ of_nat ((length cs + 7) div 8)
      # pack_bits cs 0 (length cs)"
  "write_registers_pdu a vs = be16 a @ be16 (of_nat (length vs)) @ of_nat (length vs * 2) # concat (map be16 vs)"
  by (simp_all add: write_coils_pdu_def write_registers_pdu_def coil_bytes_pack)

section \<open>The bytes that arrive\<close>

definition arrived :: "bytes option list \<Rightarrow> bytes" where
  "arrived rounds = concat (map (\<lambda>r. case r of None \<Rightarrow> [] | Some chunk \<Rightarrow> chunk) rounds)"

lemma arrived_simps [simp]:
  "arrived [] = []" "arrived (None # rs) = arrived rs" "arrived (Some c # rs) = c @ arrived rs"
  "arrived (rs @ qs) = arrived rs @ arrived qs"
  by (simp_all add: arrived_def)

text \<open>All of a response arrives before the last round begins, in any number of pieces.\<close>

definition delivers :: "bytes option list \<Rightarrow> bytes \<Rightarrow> bool" where
  "delivers rounds response = (\<exists>pre r post. rounds = pre @ r # post \<and> arrived pre = response)"

text \<open>A response frame to the transaction \<open>tid\<close>.\<close>

definition mbap_answer :: "u16 \<Rightarrow> bytes \<Rightarrow> bool" where
  "mbap_answer tid r = (8 \<le> length r \<and> length r = 6 + unat (read16 r 4) \<and> read16 r 0 = tid \<and> read16 r 2 = 0)"

lemma check_mbap_prefix:
  assumes "mbap_answer tid r" and "part @ later = r" and "7 \<le> length part"
  shows "check_mbap tid part = Inr (length r)"
proof -
  have eq: "read16 part i = read16 r i" if "i \<le> 4" for i
    using that assms(2,3) by (auto simp: read16_append)
  have "\<not> read16 part 4 < 2"
    using assms(1) by (auto simp: eq mbap_answer_def word_less_nat_alt)
  with assms(1) show ?thesis by (simp add: check_mbap_def byte_ops eq mbap_answer_def)
qed

lemma read_response_loop_delivered:
  assumes "mbap_answer tid r" and "response @ arrived pre = r"
  shows "read_response_loop tid (pre @ x # post) (if 7 \<le> length response then Some (length r) else None) response = Inr r"
  using assms(2)
proof (induction pre arbitrary: response)
  case Nil
  with assms(1) show ?case by (auto simp: mbap_answer_def)
next
  case (Cons c pre)
  show ?case
  proof (cases c)
    case None
    with Cons Cons.IH [of response] show ?thesis by (cases "7 \<le> length response") auto
  next
    case (Some chunk)
    then have eq: "(response @ chunk) @ arrived pre = r" using Cons.prems by simp
    show ?thesis
    proof (cases "7 \<le> length (response @ chunk)")
      case True
      then have "check_mbap tid (response @ chunk) = Inr (length r)"
        by (intro check_mbap_prefix [OF assms(1) eq])
      with True Some Cons.IH [OF eq] eq show ?thesis by (auto simp: Let_def)
    next
      case False
      with Some Cons.IH [OF eq] show ?thesis by (auto simp: Let_def)
    qed
  qed
qed

lemma readResponse_delivered: "mbap_answer tid r \<Longrightarrow> delivers rounds r \<Longrightarrow> readResponse tid rounds = Inr r"
  using read_response_loop_delivered [of tid r "[]"] by (auto simp: readResponse_def delivers_def)

text \<open>Conversely, what is taken for the response is a frame of this transaction.\<close>

lemma check_mbap_Inr:
  assumes "check_mbap tid response = Inr n" and "7 \<le> length response"
  shows "8 \<le> n" "n = 6 + unat (read16 response 4)" "read16 response 0 = tid" "read16 response 2 = 0"
  using assms by (auto simp: check_mbap_def byte_ops word_less_nat_alt split: if_splits)

lemma read_response_loop_Inr:
  assumes "read_response_loop tid rounds expected response = Inr r"
    and "\<And>n. expected = Some n \<Longrightarrow> 7 \<le> length response \<and> check_mbap tid response = Inr n"
  shows "mbap_answer tid r \<and> (\<exists>later. response @ arrived rounds = r @ later)"
  using assms
proof (induction tid rounds expected response rule: read_response_loop.induct)
  case (2 tid x rounds expected response)
  show ?case
  proof (cases expected)
    case (Some n)
    then have len: "7 \<le> length response" and chk: "check_mbap tid response = Inr n" using "2.prems"(2) by auto
    show ?thesis
    proof (cases "length response \<ge> n")
      case True
      then have r: "r = take n response" using "2.prems"(1) Some by simp
      have "read16 (take n response) i = read16 response i" if "i \<le> 4" for i
        using that check_mbap_Inr [OF chk len] by (simp add: read16_def)
      then have "mbap_answer tid r"
        using check_mbap_Inr [OF chk len] True by (simp add: mbap_answer_def r)
      moreover have "response @ arrived (x # rounds) = r @ drop n response @ arrived (x # rounds)" by (simp add: r)
      ultimately show ?thesis by blast
    next
      case False
      show ?thesis
      proof (cases x)
        case None
        with "2.IH"(4) [OF Some False None] "2.prems" Some False show ?thesis by simp
      next
        case (Some chunk)
        have "check_mbap tid (response @ chunk) = check_mbap tid response"
          using len by (simp add: check_mbap_def byte_ops read16_append)
        with "2.IH"(5) [OF \<open>expected = Some n\<close> False Some] "2.prems" Some False \<open>expected = Some n\<close> len chk
        show ?thesis by simp
      qed
    qed
  next
    case None
    show ?thesis
    proof (cases x)
      case None
      with "2.IH"(1) [OF \<open>expected = None\<close> None] "2.prems" \<open>expected = None\<close> show ?thesis by simp
    next
      case (Some chunk)
      show ?thesis
      proof (cases "7 \<le> length (response @ chunk)")
        case True
        then obtain n where "check_mbap tid (response @ chunk) = Inr n"
          using "2.prems"(1) \<open>expected = None\<close> Some by (auto simp: Let_def split: sum.splits)
        with "2.IH"(2) [OF \<open>expected = None\<close> Some refl True this] "2.prems"(1) \<open>expected = None\<close> Some True
        show ?thesis by (simp add: Let_def)
      next
        case False
        with "2.IH"(3) [OF \<open>expected = None\<close> Some refl False] "2.prems"(1) \<open>expected = None\<close> Some
        show ?thesis by (simp add: Let_def)
      qed
    qed
  qed
qed simp

lemma readResponse_own:
  "readResponse tid rounds = Inr r \<Longrightarrow> mbap_answer tid r \<and> (\<exists>later. arrived rounds = r @ later)"
  using read_response_loop_Inr [of tid rounds None "[]" r] by (simp add: readResponse_def)

lemma buildRequest_mbap:
  "buildRequest fc pdu c =
     (mbap_request (mc_transactionId c) (mc_unitId c) fc pdu, c\<lparr>mc_transactionId := mc_transactionId c + 1\<rparr>)"
  by (simp add: buildRequest_def mbap_request_def)

lemma request_tid: "bytesToUInt16 (mbap_request tid u fc pdu) 0 = tid"
  by (simp add: byte_ops mbap_request_def byte_simps)

lemma failed_result_fails [simp]:
  "\<not> mr_success (failed_result e)" "\<not> mr_success (exception_result x)"
  by (simp_all add: failed_result_def exception_result_def ModbusResult_def)

text \<open>C30: Whatever the peer and the network do, and whichever function is called, a result that a
  TCP client reports as a success was read from a frame of this very transaction: it stands at
  the front of the bytes that arrived, carries the request's transaction number, the protocol
  number zero and the function code asked for, and has the length it says. So an answer to an
  earlier request that arrives late is never taken for this one's.\<close>

theorem answer_is_own:
  assumes "sk_exchange sk (mc_timeout c) (mbap_request (mc_transactionId c) (mc_unitId c) fc pdu) w = (ok, rounds, w')"
    and "tcp_call sk fc pdu parse c w = (Some result, c', w'')" and "mr_success result"
  shows "(\<exists>response later. arrived rounds = response @ later \<and> mbap_answer (mc_transactionId c) response
      \<and> response ! 7 = fc \<and> parse response = Some result)
    \<and> mc_transactionId c' = mc_transactionId c + 1"
proof -
  have sent: "sk_connected sk w" "ok"
    using assms by (auto simp: tcp_call_def buildRequest_mbap sendRequest_def split: if_splits)
  obtain response where resp: "readResponse (mc_transactionId c) rounds = Inr response"
    using assms sent
    by (auto simp: tcp_call_def buildRequest_mbap sendRequest_def request_tid split: sum.splits)
  then have "check_response fc response = Some (Inr response) \<and> response ! 7 = fc \<and> parse response = Some result"
    using assms sent
    by (auto simp: tcp_call_def buildRequest_mbap sendRequest_def request_tid check_response_def Let_def
        split: option.splits sum.splits if_splits)
  with readResponse_own [OF resp] assms(2) show ?thesis
    by (auto simp: tcp_call_def buildRequest_mbap split_beta Let_def)
qed

definition scripted_socket :: "bytes option list \<Rightarrow> unit socket" where
  "scripted_socket rounds = \<lparr>sk_connect = (\<lambda>_ w. (True, w)), sk_connected = (\<lambda>_. True),
     sk_exchange = (\<lambda>_ _ w. (True, rounds, w))\<rparr>"

lemma answer_is_own_witness:
  "mr_success (the (fst (readHoldingRegisters
       (scripted_socket [Some [0, 0, 0, 0, 0, 5, 1], None, Some [3, 2, 1, 44], None]) 0 1 (ModbusClient 3000) ())))
   \<and> mc_transactionId (fst (snd (readHoldingRegisters
       (scripted_socket [Some [0, 0, 0, 0, 0, 5, 1], None, Some [3, 2, 1, 44], None]) 0 1 (ModbusClient 3000) ()))) = 1"
proof -
  let ?sk = "scripted_socket [Some [0, 0, 0, 0, 0, 5, 1], None, Some [3, 2, 1, 44], None]"
  let ?r = "ModbusResult\<lparr>mr_success := True, mr_registers := [300]\<rparr>"
  have call: "tcp_call ?sk 0x03 (read_pdu 0 1) (\<lambda>r. Some (parseReadRegistersResponse r)) (ModbusClient 3000) ()
      = (Some ?r, (ModbusClient 3000)\<lparr>mc_transactionId := 1\<rparr>, ())"
    by (simp add: tcp_call_def buildRequest_def sendRequest_def scripted_socket_def ModbusClient_def readResponse_def
        check_mbap_def byte_ops read16_def join16_def be16_def check_response_def parseReadRegistersResponse_def
        read_words_def)
  have "mc_transactionId ((ModbusClient 3000)\<lparr>mc_transactionId := 1\<rparr>) = mc_transactionId (ModbusClient 3000) + 1"
    using answer_is_own [OF _ call] by (simp add: scripted_socket_def ModbusResult_def)
  with call show ?thesis
    by (simp add: readHoldingRegisters_def ModbusResult_def ModbusClient_def)
qed

section \<open>A client and the server over TCP\<close>

text \<open>
  The network between a client and the modelled server: the request reaches the server's socket in
  the pieces \<open>split_up\<close> makes of it, and what the server writes to that socket is what the client's
  waits bring, in the rounds \<open>rounds_of\<close> makes of it.
\<close>

definition written_to :: "nat \<Rightarrow> tcp_server \<Rightarrow> tcp_server \<Rightarrow> bytes" where
  "written_to sock s s' =
     concat (map snd (filter (\<lambda>p. fst p = sock) (drop (length (tcp_written s)) (tcp_written s'))))"

definition tcp_link ::
  "nat \<Rightarrow> (bytes \<Rightarrow> bytes list) \<Rightarrow> (bytes \<Rightarrow> bytes option list) \<Rightarrow> tcp_server socket" where
  "tcp_link sock split_up rounds_of = \<lparr>
     sk_connect = (\<lambda>_ s. (om_has (tcp_clients s) sock, s)),
     sk_connected = (\<lambda>s. om_has (tcp_clients s) sock),
     sk_exchange = (\<lambda>_ request s.
       let s' = foldl (\<lambda>s c. onReadyRead sock c s) s (split_up request)
       in (True, rounds_of (written_to sock s s'), s'))\<rparr>"

definition whole_chunks :: "(bytes \<Rightarrow> bytes list) \<Rightarrow> bool" where
  "whole_chunks split_up = (\<forall>b. concat (split_up b) = b)"

definition in_time :: "(bytes \<Rightarrow> bytes option list) \<Rightarrow> bool" where
  "in_time rounds_of = (\<forall>b. delivers (rounds_of b) b)"

text \<open>The server has the client's connection, with nothing left unread.\<close>

definition link_ready :: "nat \<Rightarrow> tcp_server \<Rightarrow> bool" where
  "link_ready sock s = (\<exists>info. om_get (tcp_clients s) sock = Some info \<and> recvBuffer info = [])"

lemma tcp_link_exchange:
  assumes "link_ready sock s" and "whole_chunks split_up" and "mbap_frame request"
    and "processRequest request (tcp_units s) = (response, m, sigs)"
  shows "\<exists>s'. sk_exchange (tcp_link sock split_up rounds_of) t request s = (True, rounds_of response, s')
    \<and> link_ready sock s' \<and> tcp_units s' = m"
proof -
  obtain info where info: "om_get (tcp_clients s) sock = Some info" "recvBuffer info = []"
    using assms(1) by (auto simp: link_ready_def)
  let ?s' = "foldl (\<lambda>s c. onReadyRead sock c s) s (split_up request)"
  have "tcp_units ?s' = m \<and> tcp_written ?s' = tcp_written s @ map (Pair sock) (if response \<noteq> [] then [response] else [])
      \<and> tcp_signals ?s' = tcp_signals s @ sigs @ []
      \<and> om_get (tcp_clients ?s') sock = Some (info\<lparr>recvBuffer := []\<rparr>)"
    using onReadyRead_chunks [OF info(1), of "[request]" "split_up request"] assms(2-4) info(2)
    by (simp add: whole_chunks_def tcp.take_nil Let_def)
  then show ?thesis
    by (auto simp: tcp_link_def Let_def written_to_def link_ready_def)
qed

lemma mbap_request_fields:
  "read16 (mbap_request tid u fc pdu) 0 = tid" "read16 (mbap_request tid u fc pdu) 2 = 0"
  "read16 (mbap_request tid u fc pdu) 4 = of_nat (length pdu + 2)"
  unfolding mbap_request_def by (simp_all add: read16_def be16_def byte_simps join16_zero del: of_nat_add)

lemma mbap_request_length_field:
  "length pdu \<le> 258 \<Longrightarrow> unat (read16 (mbap_request tid u fc pdu) 4) = length pdu + 2"
  unfolding mbap_request_fields by (rule of_nat_u16) simp

lemma mbap_request_frame:
  "length pdu \<le> 258 \<Longrightarrow> mbap_frame (mbap_request tid u fc pdu)"
  by (simp add: mbap_frame_def mbap_request_parse MAX_MODBUS_LENGTH_def mbap_request_length_field)

lemma mbap_request_answer:
  "length pdu \<le> 258 \<Longrightarrow> mbap_answer tid (mbap_request tid u fc pdu)"
  by (simp add: mbap_answer_def mbap_request_parse mbap_request_length_field mbap_request_fields(1,2))

text \<open>One call over any socket that brings a frame of the same function.\<close>

lemma tcp_call_answered:
  assumes "sk_connected sk w" and "sk_exchange sk (mc_timeout c) (mbap_request (mc_transactionId c) (mc_unitId c) fc pdu) w
      = (True, rounds, w')"
    and "delivers rounds (mbap_request (mc_transactionId c) (mc_unitId c) fc rpdu)" and "length rpdu \<le> 258"
    and "fc AND 0x80 = 0"
  shows "tcp_call sk fc pdu parse c w = (parse (mbap_request (mc_transactionId c) (mc_unitId c) fc rpdu),
      c\<lparr>mc_transactionId := mc_transactionId c + 1\<rparr>, w')"
proof -
  let ?resp = "mbap_request (mc_transactionId c) (mc_unitId c) fc rpdu"
  have "readResponse (mc_transactionId c) rounds = Inr ?resp"
    using assms(3) by (intro readResponse_delivered mbap_request_answer [OF assms(4)])
  moreover have "check_response fc ?resp = Some (Inr ?resp)"
    using assms(5) by (simp add: check_response_def mbap_request_parse)
  ultimately show ?thesis
    using assms(1,2) by (simp add: tcp_call_def buildRequest_mbap sendRequest_def request_tid)
qed

text \<open>One call over the network to the modelled server.\<close>

lemma tcp_call_served:
  assumes "link_ready sock s" and "whole_chunks split_up" and "in_time rounds_of" and "length pdu \<le> 258" and "length rpdu \<le> 258"
    and "processRequest (mbap_request (mc_transactionId c) (mc_unitId c) fc pdu) (tcp_units s)
      = (mbap_request (mc_transactionId c) (mc_unitId c) fc rpdu, m, sigs)"
    and "fc AND 0x80 = 0"
  shows "\<exists>s'. tcp_call (tcp_link sock split_up rounds_of) fc pdu parse c s =
      (parse (mbap_request (mc_transactionId c) (mc_unitId c) fc rpdu),
       c\<lparr>mc_transactionId := mc_transactionId c + 1\<rparr>, s') \<and> link_ready sock s' \<and> tcp_units s' = m"
proof -
  let ?req = "mbap_request (mc_transactionId c) (mc_unitId c) fc pdu"
    and ?resp = "mbap_request (mc_transactionId c) (mc_unitId c) fc rpdu"
  obtain s' where s': "sk_exchange (tcp_link sock split_up rounds_of) (mc_timeout c) ?req s = (True, rounds_of ?resp, s')"
      "link_ready sock s'" "tcp_units s' = m"
    using tcp_link_exchange [OF assms(1,2) mbap_request_frame [OF assms(4)] assms(6)] by blast
  moreover have "sk_connected (tcp_link sock split_up rounds_of) s"
    using assms(1) by (auto simp: tcp_link_def link_ready_def om_has_def)
  moreover have "delivers (rounds_of ?resp) ?resp" using assms(3) by (simp add: in_time_def)
  ultimately show ?thesis using tcp_call_answered [OF _ s'(1) _ assms(5,7)] by blast
qed

lemma read16_after: "read16 (h @ d) (length h + k) = read16 d k"
  by (simp add: read16_def nth_append)

lemma read_words_after:
  "length h = off \<Longrightarrow> read_words (h @ concat (map be16 vals) @ tail) off (length vals) = vals"
proof -
  assume h: "length h = off"
  have "read16 (concat (map be16 vals) @ tail) (i * 2) = vals ! i" if "i < length vals" for i
    using that read16_concat [OF that] by (simp add: read16_append)
  then show ?thesis
    by (intro nth_equalityI) (simp_all add: read_words_def byte_ops read16_after h [symmetric] del: map_append)
qed

lemma those_map_Some: "(\<And>x. x \<in> set xs \<Longrightarrow> f x = Some (g x)) \<Longrightarrow> those (map f xs) = Some (map g xs)"
  by (induction xs) auto

lemma read_bits_after:
  "length h = off \<Longrightarrow> read_bits (h @ pack_bits vals 0 (length vals) @ tail) off (length vals) = Some vals"
proof -
  assume h: "length h = off"
  let ?d = "h @ pack_bits vals 0 (length vals) @ tail"
  have at: "byte_at ?d (off + i div 8) = Some (pack_bits vals 0 (length vals) ! (i div 8))" if "i < length vals" for i
  proof -
    have "i div 8 < (length vals + 7) div 8"
      using that by (auto simp: less_eq_div_iff_mult_less_eq div_less_iff_less_mult)
    then show ?thesis by (simp add: byte_at_def h [symmetric] nth_append)
  qed
  have "read_bits ?d off (length vals) = Some (map (\<lambda>i. vals ! i) [0..<length vals])"
    unfolding read_bits_def using bit_pack_bits [of _ "length vals" vals 0]
    by (intro those_map_Some) (simp add: at)
  then show ?thesis by (simp add: map_nth)
qed

lemma mbap_request_body:
  "mbap_request tid u fc (b # data) = (be16 tid @ be16 0 @ be16 (of_nat (length data + 3)) @ [u, fc, b]) @ data"
  by (simp add: mbap_request_def algebra_simps)

lemma mbap_request_nth8: "mbap_request tid u fc (b # data) ! 8 = b"
  by (simp add: mbap_request_def be16_def)

lemma parse_registers_served:
  assumes "length vals \<le> 125"
  shows "parseReadRegistersResponse (mbap_request tid u fc (of_nat (length vals * 2) # concat (map be16 vals)))
    = ModbusResult\<lparr>mr_success := True, mr_registers := vals\<rparr>"
proof -
  have n: "unat (of_nat (length vals * 2) :: byte) = length vals * 2"
    using assms by (intro of_nat_byte) simp
  have "read_words (mbap_request tid u fc (of_nat (length vals * 2) # concat (map be16 vals))) 9 (length vals) = vals"
    unfolding mbap_request_body
    using read_words_after [of "be16 tid @ be16 0 @ be16 (of_nat (length (concat (map be16 vals)) + 3))
      @ [u, fc, of_nat (length vals * 2)]" 9 vals "[]"] by simp
  then show ?thesis
    by (simp add: parseReadRegistersResponse_def mbap_request_parse mbap_request_nth8 n del: of_nat_mult)
qed

lemma parse_bits_served:
  assumes "length vals \<le> 2000"
  shows "parseReadBitsResponse
      (mbap_request tid u fc (of_nat ((length vals + 7) div 8) # pack_bits vals 0 (length vals))) (of_nat (length vals))
    = Some (ModbusResult\<lparr>mr_success := True, mr_coils := vals\<rparr>)"
proof -
  have n: "unat (of_nat ((length vals + 7) div 8) :: byte) = (length vals + 7) div 8"
    using assms by (intro of_nat_byte) simp
  have q: "unat (of_nat (length vals) :: u16) = length vals" using assms by (intro of_nat_u16) simp
  have "read_bits (mbap_request tid u fc (of_nat ((length vals + 7) div 8) # pack_bits vals 0 (length vals))) 9
      (length vals) = Some vals"
    unfolding mbap_request_body
    using read_bits_after [of "be16 tid @ be16 0 @ be16 (of_nat (length (pack_bits vals 0 (length vals)) + 3))
      @ [u, fc, of_nat ((length vals + 7) div 8)]" 9 vals "[]"] by simp
  then show ?thesis
    by (simp add: parseReadBitsResponse_def mbap_request_parse mbap_request_nth8 n q)
qed

section \<open>A device with registers and coils\<close>

text \<open>
  What a client and the server it talks to are together: a device whose holding registers and
  coils can be written and read back from the addresses that exist, the answers always arriving.
  The state is the client's and the server's.
\<close>

definition ok_result :: modbus_result where
  "ok_result = ModbusResult\<lparr>mr_success := True\<rparr>"

locale modbus_device =
  fixes put_words :: "u16 \<Rightarrow> u16 list \<Rightarrow> 's \<Rightarrow> modbus_result option \<times> 's"
    and get_words :: "u16 \<Rightarrow> u16 \<Rightarrow> 's \<Rightarrow> modbus_result option \<times> 's"
    and put_bits :: "u16 \<Rightarrow> bool list \<Rightarrow> 's \<Rightarrow> modbus_result option \<times> 's"
    and get_bits :: "u16 \<Rightarrow> u16 \<Rightarrow> 's \<Rightarrow> modbus_result option \<times> 's"
    and words :: "'s \<Rightarrow> u16 list"
    and bits :: "'s \<Rightarrow> bool list"
    and live :: "'s \<Rightarrow> bool"
  assumes put_words_law: "live s \<Longrightarrow> 0 < length vs \<Longrightarrow> length vs \<le> 123 \<Longrightarrow> unat a + length vs \<le> length (words s) \<Longrightarrow>
      \<exists>s'. put_words a vs s = (Some ok_result, s') \<and> live s' \<and> words s' = write_from (unat a) vs (words s)
        \<and> bits s' = bits s"
    and get_words_law: "live s \<Longrightarrow> 0 < n \<Longrightarrow> n \<le> 125 \<Longrightarrow> unat a + n \<le> length (words s) \<Longrightarrow>
      \<exists>s'. get_words a (of_nat n) s = (Some (ok_result\<lparr>mr_registers := take n (drop (unat a) (words s))\<rparr>), s')
        \<and> live s' \<and> words s' = words s \<and> bits s' = bits s"
    and put_bits_law: "live s \<Longrightarrow> 0 < length cs \<Longrightarrow> length cs \<le> 1968 \<Longrightarrow> unat a + length cs \<le> length (bits s) \<Longrightarrow>
      \<exists>s'. put_bits a cs s = (Some ok_result, s') \<and> live s' \<and> bits s' = write_from (unat a) cs (bits s)
        \<and> words s' = words s"
    and get_bits_law: "live s \<Longrightarrow> 0 < n \<Longrightarrow> n \<le> 2000 \<Longrightarrow> unat a + n \<le> length (bits s) \<Longrightarrow>
      \<exists>s'. get_bits a (of_nat n) s = (Some (ok_result\<lparr>mr_coils := take n (drop (unat a) (bits s))\<rparr>), s')
        \<and> live s' \<and> bits s' = bits s \<and> words s' = words s"
begin

text \<open>Words written are read back, and so are coils written in between.\<close>

lemma words_and_bits_back:
  assumes "live s" and "0 < length vs" and "length vs \<le> 123" and "unat a + length vs \<le> length (words s)"
    and "0 < length cs" and "length cs \<le> 1968" and "unat b + length cs \<le> length (bits s)"
  shows "\<exists>s1 s2 s3 s4. put_words a vs s = (Some ok_result, s1) \<and> put_bits b cs s1 = (Some ok_result, s2)
    \<and> get_words a (of_nat (length vs)) s2 = (Some (ok_result\<lparr>mr_registers := vs\<rparr>), s3)
    \<and> get_bits b (of_nat (length cs)) s3 = (Some (ok_result\<lparr>mr_coils := cs\<rparr>), s4)
    \<and> live s4 \<and> words s4 = write_from (unat a) vs (words s) \<and> bits s4 = write_from (unat b) cs (bits s)"
proof -
  obtain s1 where s1: "put_words a vs s = (Some ok_result, s1)" "live s1"
      "words s1 = write_from (unat a) vs (words s)" "bits s1 = bits s"
    using put_words_law [OF assms(1-4)] by blast
  obtain s2 where s2: "put_bits b cs s1 = (Some ok_result, s2)" "live s2"
      "bits s2 = write_from (unat b) cs (bits s)" "words s2 = words s1"
    using put_bits_law [OF s1(2) assms(5,6)] assms(7) s1(4) by auto
  have "take (length vs) (drop (unat a) (words s2)) = vs" using assms(4) by (simp add: s1 s2 slice_write_from)
  with get_words_law [OF s2(2) assms(2)] obtain s3 where s3:
      "get_words a (of_nat (length vs)) s2 = (Some (ok_result\<lparr>mr_registers := vs\<rparr>), s3)" "live s3"
      "words s3 = words s2" "bits s3 = bits s2"
    using assms(3,4) s1(3) s2(4) by fastforce
  have "take (length cs) (drop (unat b) (bits s3)) = cs" using assms(7) by (simp add: s3 s2 slice_write_from)
  with get_bits_law [OF s3(2) assms(5)] obtain s4 where
      "get_bits b (of_nat (length cs)) s3 = (Some (ok_result\<lparr>mr_coils := cs\<rparr>), s4)" "live s4"
      "bits s4 = bits s3" "words s4 = words s3"
    using assms(6,7) s2(3) s3(4) by fastforce
  with s1 s2 s3 show ?thesis by auto
qed

text \<open>Words written elsewhere do not disturb them.\<close>

lemma words_undisturbed:
  assumes "live s" and "0 < length vs" and "length vs \<le> 123" and "unat a + length vs \<le> length (words s)"
    and "0 < length us" and "length us \<le> 123" and "unat b + length us \<le> length (words s)"
    and "unat a + length vs \<le> unat b \<or> unat b + length us \<le> unat a"
  shows "\<exists>s1 s2 s3. put_words a vs s = (Some ok_result, s1) \<and> put_words b us s1 = (Some ok_result, s2)
    \<and> get_words a (of_nat (length vs)) s2 = (Some (ok_result\<lparr>mr_registers := vs\<rparr>), s3)"
proof -
  obtain s1 where s1: "put_words a vs s = (Some ok_result, s1)" "live s1"
      "words s1 = write_from (unat a) vs (words s)"
    using put_words_law [OF assms(1-4)] by blast
  then have len1: "length (words s1) = length (words s)" using assms(4) by simp
  obtain s2 where s2: "put_words b us s1 = (Some ok_result, s2)" "live s2"
      "words s2 = write_from (unat b) us (words s1)"
    using put_words_law [OF s1(2) assms(5,6)] assms(7) len1 by auto
  have "take (length vs) (drop (unat a) (words s2)) = vs"
    using assms(4,7,8) len1
    by (intro nth_equalityI) (auto simp: s2(3) nth_write_from s1(3))
  with get_words_law [OF s2(2) assms(2)] show ?thesis
    using assms(3,4,7) s1 s2 len1 by fastforce
qed

end

text \<open>A device that does nothing else: the rest of its state is kept by these operations.\<close>

locale modbus_store = modbus_device +
  fixes rest :: "'a \<Rightarrow> 'r"
  assumes put_words_rest: "live s \<Longrightarrow> 0 < length vs \<Longrightarrow> length vs \<le> 123 \<Longrightarrow> unat a + length vs \<le> length (words s) \<Longrightarrow>
      put_words a vs s = (r, s') \<Longrightarrow> rest s' = rest s"
    and get_words_rest: "live s \<Longrightarrow> 0 < n \<Longrightarrow> n \<le> 125 \<Longrightarrow> unat a + n \<le> length (words s) \<Longrightarrow>
      get_words a (of_nat n) s = (r, s') \<Longrightarrow> rest s' = rest s"
    and put_bits_rest: "live s \<Longrightarrow> 0 < length cs \<Longrightarrow> length cs \<le> 1968 \<Longrightarrow> unat a + length cs \<le> length (bits s) \<Longrightarrow>
      put_bits a cs s = (r, s') \<Longrightarrow> rest s' = rest s"
    and get_bits_rest: "live s \<Longrightarrow> 0 < n \<Longrightarrow> n \<le> 2000 \<Longrightarrow> unat a + n \<le> length (bits s) \<Longrightarrow>
      get_bits a (of_nat n) s = (r, s') \<Longrightarrow> rest s' = rest s"
begin

lemma only_written_changed:
  assumes "live s" and "0 < length vs" and "length vs \<le> 123" and "unat a + length vs \<le> length (words s)"
    and "0 < length cs" and "length cs \<le> 1968" and "unat b + length cs \<le> length (bits s)"
  shows "\<exists>s1 s2 s3 s4. put_words a vs s = (Some ok_result, s1) \<and> put_bits b cs s1 = (Some ok_result, s2)
    \<and> get_words a (of_nat (length vs)) s2 = (Some (ok_result\<lparr>mr_registers := vs\<rparr>), s3)
    \<and> get_bits b (of_nat (length cs)) s3 = (Some (ok_result\<lparr>mr_coils := cs\<rparr>), s4)
    \<and> words s4 = write_from (unat a) vs (words s) \<and> bits s4 = write_from (unat b) cs (bits s) \<and> rest s4 = rest s"
proof -
  obtain s1 where s1: "put_words a vs s = (Some ok_result, s1)" "live s1"
      "words s1 = write_from (unat a) vs (words s)" "bits s1 = bits s"
    using put_words_law [OF assms(1-4)] by blast
  then have fits: "unat b + length cs \<le> length (bits s1)" using assms(7) by simp
  obtain s2 where s2: "put_bits b cs s1 = (Some ok_result, s2)" "live s2"
      "bits s2 = write_from (unat b) cs (bits s1)" "words s2 = words s1"
    using put_bits_law [OF s1(2) assms(5,6) fits] by blast
  have fits2: "unat a + length vs \<le> length (words s2)" "length vs \<le> 125" using assms(3,4) s1(3) s2(4) by simp_all
  obtain s3 where s3: "live s3" "bits s3 = bits s2" "snd (get_words a (of_nat (length vs)) s2) = s3"
    using get_words_law [OF s2(2) assms(2) fits2(2,1)] by auto
  have fits3: "unat b + length cs \<le> length (bits s3)" "length cs \<le> 2000" using assms(6) fits s2(3) s3(2) by simp_all
  obtain t1 t2 t3 t4 where t: "put_words a vs s = (Some ok_result, t1)" "put_bits b cs t1 = (Some ok_result, t2)"
      "get_words a (of_nat (length vs)) t2 = (Some (ok_result\<lparr>mr_registers := vs\<rparr>), t3)"
      "get_bits b (of_nat (length cs)) t3 = (Some (ok_result\<lparr>mr_coils := cs\<rparr>), t4)"
      "words t4 = write_from (unat a) vs (words s)" "bits t4 = write_from (unat b) cs (bits s)"
    using words_and_bits_back [OF assms] by blast
  then have same: "t1 = s1" "t2 = s2" "t3 = s3" using s1(1) s2(1) s3(3) by auto
  have "rest s1 = rest s" using put_words_rest [OF assms(1-4) s1(1)] .
  moreover have "rest s2 = rest s1" using put_bits_rest [OF s1(2) assms(5,6) fits s2(1)] .
  moreover have "rest s3 = rest s2" using get_words_rest [OF s2(2) assms(2) fits2(2,1) t(3) [unfolded same]] .
  moreover have "rest t4 = rest s3" using get_bits_rest [OF s3(1) assms(5) fits3(2,1) t(4) [unfolded same]] .
  ultimately have "rest t4 = rest s" by simp
  with t show ?thesis by blast
qed

end

section \<open>The TCP client and server are such a device\<close>

definition unit_area :: "byte \<Rightarrow> units \<Rightarrow> data_area" where
  "unit_area u m = (case om_get m u of Some area \<Rightarrow> area | None \<Rightarrow> ModbusDataArea 0)"

type_synonym tcp_pair = "modbus_client \<times> tcp_server"

definition on_pair :: "'w tcp_call \<Rightarrow> modbus_client \<times> 'w \<Rightarrow> modbus_result option \<times> modbus_client \<times> 'w" where
  "on_pair call p = call (fst p) (snd p)"

definition pair_area :: "tcp_pair \<Rightarrow> data_area" where
  "pair_area p = unit_area (mc_unitId (fst p)) (tcp_units (snd p))"

definition pair_live :: "nat \<Rightarrow> (bytes \<Rightarrow> bytes list) \<Rightarrow> (bytes \<Rightarrow> bytes option list) \<Rightarrow> tcp_pair \<Rightarrow> bool" where
  "pair_live sock split_up rounds_of p =
     (whole_chunks split_up \<and> in_time rounds_of \<and> link_ready sock (snd p)
      \<and> om_has (tcp_units (snd p)) (mc_unitId (fst p)))"

lemma served_pair:
  assumes "pair_live sock split_up rounds_of (c, s)" and "length pdu \<le> 258" and "length rpdu \<le> 258"
    and "\<And>tid. processRequest (mbap_request tid (mc_unitId c) fc pdu) (tcp_units s)
      = (mbap_request tid (mc_unitId c) fc rpdu, om_put (mc_unitId c) area (tcp_units s), sigs)"
    and "fc AND 0x80 = 0" and "\<And>tid. parse (mbap_request tid (mc_unitId c) fc rpdu) = Some result"
  shows "\<exists>p'. on_pair (tcp_call (tcp_link sock split_up rounds_of) fc pdu parse) (c, s) = (Some result, p')
    \<and> pair_live sock split_up rounds_of p' \<and> pair_area p' = area
    \<and> mc_unitId (fst p') = mc_unitId c \<and> mc_timeout (fst p') = mc_timeout c
    \<and> tcp_units (snd p') = om_put (mc_unitId c) area (tcp_units s)"
proof -
  from assms(1) have "link_ready sock s" "whole_chunks split_up" "in_time rounds_of"
    by (simp_all add: pair_live_def)
  from tcp_call_served [OF this assms(2,3,4,5), of parse] obtain s' where
    "tcp_call (tcp_link sock split_up rounds_of) fc pdu parse c s = (Some result, c\<lparr>mc_transactionId := mc_transactionId c + 1\<rparr>, s')"
    "link_ready sock s'" "tcp_units s' = om_put (mc_unitId c) area (tcp_units s)"
    using assms(6) by auto
  with assms(1) show ?thesis
    by (auto simp: on_pair_def pair_live_def pair_area_def unit_area_def)
qed

lemma pair_live_area:
  "pair_live sock split_up rounds_of (c, s) \<Longrightarrow> om_get (tcp_units s) (mc_unitId c) = Some (pair_area (c, s))"
  by (auto simp: pair_live_def pair_area_def unit_area_def om_has_def split: option.split)

lemma write_response_long [simp]:
  "parseWriteResponse (mbap_request tid u fc (be16 a @ be16 n)) = ok_result"
  by (simp add: parseWriteResponse_def mbap_request_parse ok_result_def)

lemma pair_put_words:
  assumes "pair_live sock split_up rounds_of (c, s)" and "0 < length vs" and "length vs \<le> 123"
    and "unat a + length vs \<le> length (holdingRegisters (pair_area (c, s)))"
  shows "\<exists>p'. on_pair (writeMultipleRegisters (tcp_link sock split_up rounds_of) a vs) (c, s) = (Some ok_result, p')
    \<and> pair_live sock split_up rounds_of p'
    \<and> pair_area p' = pair_area (c, s)\<lparr>holdingRegisters := write_from (unat a) vs (holdingRegisters (pair_area (c, s)))\<rparr>
    \<and> mc_unitId (fst p') = mc_unitId c \<and> mc_timeout (fst p') = mc_timeout c
    \<and> tcp_units (snd p') = om_put (mc_unitId c)
        (pair_area (c, s)\<lparr>holdingRegisters := write_from (unat a) vs (holdingRegisters (pair_area (c, s)))\<rparr>) (tcp_units s)"
  unfolding writeMultipleRegisters_def
  using write_registers [OF pair_live_area [OF assms(1)] assms(2-4)] assms(3)
  by (intro served_pair [OF assms(1), where rpdu = "be16 a @ be16 (of_nat (length vs))"])
    (simp_all add: write_registers_request_def write_pdus del: of_nat_mult)

lemma pair_get_words:
  assumes "pair_live sock split_up rounds_of (c, s)" and "0 < n" and "n \<le> 125"
    and "unat a + n \<le> length (holdingRegisters (pair_area (c, s)))"
  shows "\<exists>p'. on_pair (readHoldingRegisters (tcp_link sock split_up rounds_of) a (of_nat n)) (c, s)
      = (Some (ok_result\<lparr>mr_registers := take n (drop (unat a) (holdingRegisters (pair_area (c, s))))\<rparr>), p')
    \<and> pair_live sock split_up rounds_of p' \<and> pair_area p' = pair_area (c, s)
    \<and> mc_unitId (fst p') = mc_unitId c \<and> mc_timeout (fst p') = mc_timeout c
    \<and> tcp_units (snd p') = om_put (mc_unitId c) (pair_area (c, s)) (tcp_units s)"
proof -
  let ?vs = "take n (drop (unat a) (holdingRegisters (pair_area (c, s))))"
  have len: "length ?vs = n" using assms(4) by simp
  have req: "processRequest (mbap_request tid (mc_unitId c) 0x03 (read_pdu a (of_nat n))) (tcp_units s)
      = (mbap_request tid (mc_unitId c) 0x03 (of_nat (length ?vs * 2) # concat (map be16 ?vs)),
         om_put (mc_unitId c) (pair_area (c, s)) (tcp_units s), [DataRead (mc_unitId c) 0x03 a (of_nat n)])" for tid
    using read_registers [OF pair_live_area [OF assms(1)], of ?vs a tid] assms len
    by (simp add: read_registers_request_def read_pdu_def del: of_nat_mult)
  show ?thesis
    unfolding readHoldingRegisters_def
    using assms(3) parse_registers_served [of ?vs] len
    by (intro served_pair [OF assms(1) _ _ req]) (simp_all add: read_pdu_def ok_result_def del: of_nat_mult)
qed

lemma pair_put_bits:
  assumes "pair_live sock split_up rounds_of (c, s)" and "0 < length cs" and "length cs \<le> 1968"
    and "unat a + length cs \<le> length (coils (pair_area (c, s)))"
  shows "\<exists>p'. on_pair (writeMultipleCoils (tcp_link sock split_up rounds_of) a cs) (c, s) = (Some ok_result, p')
    \<and> pair_live sock split_up rounds_of p'
    \<and> pair_area p' = pair_area (c, s)\<lparr>coils := write_from (unat a) cs (coils (pair_area (c, s)))\<rparr>
    \<and> mc_unitId (fst p') = mc_unitId c
    \<and> tcp_units (snd p') = om_put (mc_unitId c)
        (pair_area (c, s)\<lparr>coils := write_from (unat a) cs (coils (pair_area (c, s)))\<rparr>) (tcp_units s)"
proof -
  have "(length cs + 7) div 8 \<le> 246" using assms(3) by simp
  then have "\<exists>p'. on_pair (writeMultipleCoils (tcp_link sock split_up rounds_of) a cs) (c, s) = (Some ok_result, p')
      \<and> pair_live sock split_up rounds_of p'
      \<and> pair_area p' = pair_area (c, s)\<lparr>coils := write_from (unat a) cs (coils (pair_area (c, s)))\<rparr>
      \<and> mc_unitId (fst p') = mc_unitId c \<and> mc_timeout (fst p') = mc_timeout c
      \<and> tcp_units (snd p') = om_put (mc_unitId c)
          (pair_area (c, s)\<lparr>coils := write_from (unat a) cs (coils (pair_area (c, s)))\<rparr>) (tcp_units s)"
    unfolding writeMultipleCoils_def
    using write_coils [OF pair_live_area [OF assms(1)] assms(2-4)]
    by (intro served_pair [OF assms(1), where rpdu = "be16 a @ be16 (of_nat (length cs))"])
      (simp_all add: write_coils_request_def write_pdus)
  then show ?thesis by blast
qed

lemma pair_get_bits:
  assumes "pair_live sock split_up rounds_of (c, s)" and "0 < n" and "n \<le> 2000"
    and "unat a + n \<le> length (coils (pair_area (c, s)))"
  shows "\<exists>p'. on_pair (readCoils (tcp_link sock split_up rounds_of) a (of_nat n)) (c, s)
      = (Some (ok_result\<lparr>mr_coils := take n (drop (unat a) (coils (pair_area (c, s))))\<rparr>), p')
    \<and> pair_live sock split_up rounds_of p' \<and> pair_area p' = pair_area (c, s)
    \<and> mc_unitId (fst p') = mc_unitId c \<and> mc_timeout (fst p') = mc_timeout c
    \<and> tcp_units (snd p') = om_put (mc_unitId c) (pair_area (c, s)) (tcp_units s)"
proof -
  let ?cs = "take n (drop (unat a) (coils (pair_area (c, s))))"
  have len: "length ?cs = n" using assms(4) by simp
  have req: "processRequest (mbap_request tid (mc_unitId c) 0x01 (read_pdu a (of_nat n))) (tcp_units s)
      = (mbap_request tid (mc_unitId c) 0x01 (of_nat ((length ?cs + 7) div 8) # pack_bits ?cs 0 (length ?cs)),
         om_put (mc_unitId c) (pair_area (c, s)) (tcp_units s), [DataRead (mc_unitId c) 0x01 a (of_nat n)])" for tid
    using read_coils [OF pair_live_area [OF assms(1)], of ?cs a tid] assms len
    by (simp add: read_coils_request_def read_pdu_def)
  have "(n + 7) div 8 \<le> 250" using assms(3) by simp
  then show ?thesis
    unfolding readCoils_def
    using parse_bits_served [of ?cs] len assms(3)
    by (intro served_pair [OF assms(1) _ _ req]) (simp_all add: read_pdu_def ok_result_def)
qed

interpretation tcp_device: modbus_device
  "\<lambda>a vs. on_pair (writeMultipleRegisters (tcp_link sock split_up rounds_of) a vs)"
  "\<lambda>a n. on_pair (readHoldingRegisters (tcp_link sock split_up rounds_of) a n)"
  "\<lambda>a cs. on_pair (writeMultipleCoils (tcp_link sock split_up rounds_of) a cs)"
  "\<lambda>a n. on_pair (readCoils (tcp_link sock split_up rounds_of) a n)"
  "\<lambda>p. holdingRegisters (pair_area p)" "\<lambda>p. coils (pair_area p)"
  "pair_live sock split_up rounds_of"
proof
  fix s :: tcp_pair and vs :: "u16 list" and cs :: "bool list" and a :: u16 and n :: nat
  obtain c srv where s: "s = (c, srv)" by fastforce
  assume live: "pair_live sock split_up rounds_of s"
  show "\<exists>s'. on_pair (writeMultipleRegisters (tcp_link sock split_up rounds_of) a vs) s = (Some ok_result, s')
      \<and> pair_live sock split_up rounds_of s'
      \<and> holdingRegisters (pair_area s') = write_from (unat a) vs (holdingRegisters (pair_area s))
      \<and> coils (pair_area s') = coils (pair_area s)"
    if "0 < length vs" "length vs \<le> 123" "unat a + length vs \<le> length (holdingRegisters (pair_area s))"
    using pair_put_words [OF live [unfolded s] that [unfolded s]] by (auto simp: s)
  show "\<exists>s'. on_pair (readHoldingRegisters (tcp_link sock split_up rounds_of) a (of_nat n)) s
        = (Some (ok_result\<lparr>mr_registers := take n (drop (unat a) (holdingRegisters (pair_area s)))\<rparr>), s')
      \<and> pair_live sock split_up rounds_of s' \<and> holdingRegisters (pair_area s') = holdingRegisters (pair_area s)
      \<and> coils (pair_area s') = coils (pair_area s)"
    if "0 < n" "n \<le> 125" "unat a + n \<le> length (holdingRegisters (pair_area s))"
    using pair_get_words [OF live [unfolded s] that [unfolded s]] by (auto simp: s)
  show "\<exists>s'. on_pair (writeMultipleCoils (tcp_link sock split_up rounds_of) a cs) s = (Some ok_result, s')
      \<and> pair_live sock split_up rounds_of s' \<and> coils (pair_area s') = write_from (unat a) cs (coils (pair_area s))
      \<and> holdingRegisters (pair_area s') = holdingRegisters (pair_area s)"
    if "0 < length cs" "length cs \<le> 1968" "unat a + length cs \<le> length (coils (pair_area s))"
    using pair_put_bits [OF live [unfolded s] that [unfolded s]] by (auto simp: s)
  show "\<exists>s'. on_pair (readCoils (tcp_link sock split_up rounds_of) a (of_nat n)) s
        = (Some (ok_result\<lparr>mr_coils := take n (drop (unat a) (coils (pair_area s)))\<rparr>), s')
      \<and> pair_live sock split_up rounds_of s' \<and> coils (pair_area s') = coils (pair_area s)
      \<and> holdingRegisters (pair_area s') = holdingRegisters (pair_area s)"
    if "0 < n" "n \<le> 2000" "unat a + n \<le> length (coils (pair_area s))"
    using pair_get_bits [OF live [unfolded s] that [unfolded s]] by (auto simp: s)
qed

text \<open>The rest of the server: the other tables of the client's unit, and the other units.\<close>

definition pair_rest :: "tcp_pair \<Rightarrow> byte \<times> data_area \<times> (byte \<Rightarrow> data_area option)" where
  "pair_rest p = (mc_unitId (fst p), pair_area p\<lparr>holdingRegisters := [], coils := []\<rparr>,
     \<lambda>u. if u = mc_unitId (fst p) then None else om_get (tcp_units (snd p)) u)"

interpretation tcp_store: modbus_store
  "\<lambda>a vs. on_pair (writeMultipleRegisters (tcp_link sock split_up rounds_of) a vs)"
  "\<lambda>a n. on_pair (readHoldingRegisters (tcp_link sock split_up rounds_of) a n)"
  "\<lambda>a cs. on_pair (writeMultipleCoils (tcp_link sock split_up rounds_of) a cs)"
  "\<lambda>a n. on_pair (readCoils (tcp_link sock split_up rounds_of) a n)"
  "\<lambda>p. holdingRegisters (pair_area p)" "\<lambda>p. coils (pair_area p)"
  "pair_live sock split_up rounds_of" pair_rest
proof
  fix s s' :: tcp_pair and vs :: "u16 list" and cs :: "bool list" and a :: u16 and n :: nat and r
  obtain c srv where s: "s = (c, srv)" by fastforce
  assume live: "pair_live sock split_up rounds_of s"
  show "pair_rest s' = pair_rest s"
    if "0 < length vs" "length vs \<le> 123" "unat a + length vs \<le> length (holdingRegisters (pair_area s))"
      "on_pair (writeMultipleRegisters (tcp_link sock split_up rounds_of) a vs) s = (r, s')"
    using pair_put_words [OF live [unfolded s] that(1-3) [unfolded s]] that(4) by (auto simp: s pair_rest_def)
  show "pair_rest s' = pair_rest s"
    if "0 < n" "n \<le> 125" "unat a + n \<le> length (holdingRegisters (pair_area s))"
      "on_pair (readHoldingRegisters (tcp_link sock split_up rounds_of) a (of_nat n)) s = (r, s')"
    using pair_get_words [OF live [unfolded s] that(1-3) [unfolded s]] that(4) by (auto simp: s pair_rest_def)
  show "pair_rest s' = pair_rest s"
    if "0 < length cs" "length cs \<le> 1968" "unat a + length cs \<le> length (coils (pair_area s))"
      "on_pair (writeMultipleCoils (tcp_link sock split_up rounds_of) a cs) s = (r, s')"
    using pair_put_bits [OF live [unfolded s] that(1-3) [unfolded s]] that(4) by (auto simp: s pair_rest_def)
  show "pair_rest s' = pair_rest s"
    if "0 < n" "n \<le> 2000" "unat a + n \<le> length (coils (pair_area s))"
      "on_pair (readCoils (tcp_link sock split_up rounds_of) a (of_nat n)) s = (r, s')"
    using pair_get_bits [OF live [unfolded s] that(1-3) [unfolded s]] that(4) by (auto simp: s pair_rest_def)
qed

lemma pair_rest_same:
  assumes "pair_rest p' = pair_rest p"
  shows "pair_area p' = pair_area p\<lparr>holdingRegisters := holdingRegisters (pair_area p'), coils := coils (pair_area p')\<rparr>"
    "u \<noteq> mc_unitId (fst p) \<Longrightarrow> om_get (tcp_units (snd p')) u = om_get (tcp_units (snd p)) u"
proof -
  have eq: "mc_unitId (fst p') = mc_unitId (fst p)"
      "pair_area p'\<lparr>holdingRegisters := [], coils := []\<rparr> = pair_area p\<lparr>holdingRegisters := [], coils := []\<rparr>"
      "(\<lambda>u. if u = mc_unitId (fst p') then None else om_get (tcp_units (snd p')) u)
        = (\<lambda>u. if u = mc_unitId (fst p) then None else om_get (tcp_units (snd p)) u)"
    using assms unfolding pair_rest_def prod.inject by blast+
  show "pair_area p' = pair_area p\<lparr>holdingRegisters := holdingRegisters (pair_area p'), coils := coils (pair_area p')\<rparr>"
    using eq(2) by (cases "pair_area p'"; cases "pair_area p") simp
  show "om_get (tcp_units (snd p')) u = om_get (tcp_units (snd p)) u" if "u \<noteq> mc_unitId (fst p)"
    using fun_cong [OF eq(3), of u] that by (simp add: eq(1))
qed

text \<open>C10: What the TCP client writes to the server of this repository it reads back from it, however
  the network cuts requests and answers: between 1 and 123 registers and between 1 and 1968 coils
  inside the unit's area, written one after the other, are acknowledged, and the reads that follow
  return exactly the values written; the server's tables of holding registers and coils hold them
  at these addresses, and nothing else changed: neither the other addresses of these tables, nor
  the unit's other tables, nor any other unit.\<close>

theorem client_reads_what_it_wrote:
  assumes "pair_live sock split_up rounds_of (c, s)"
    and "0 < length vs" and "length vs \<le> 123" and "unat a + length vs \<le> length (holdingRegisters (pair_area (c, s)))"
    and "0 < length cs" and "length cs \<le> 1968" and "unat b + length cs \<le> length (coils (pair_area (c, s)))"
  shows "let link = tcp_link sock split_up rounds_of;
             (r1, c1, s1) = writeMultipleRegisters link a vs c s;
             (r2, c2, s2) = writeMultipleCoils link b cs c1 s1;
             (r3, c3, s3) = readHoldingRegisters link a (of_nat (length vs)) c2 s2;
             (r4, c4, s4) = readCoils link b (of_nat (length cs)) c3 s3
         in r1 = Some ok_result \<and> r2 = Some ok_result
            \<and> r3 = Some (ok_result\<lparr>mr_registers := vs\<rparr>) \<and> r4 = Some (ok_result\<lparr>mr_coils := cs\<rparr>)
            \<and> pair_area (c4, s4) = pair_area (c, s)
                \<lparr>holdingRegisters := write_from (unat a) vs (holdingRegisters (pair_area (c, s))),
                 coils := write_from (unat b) cs (coils (pair_area (c, s)))\<rparr>
            \<and> (\<forall>u. u \<noteq> mc_unitId c \<longrightarrow> om_get (tcp_units s4) u = om_get (tcp_units s) u)"
proof -
  obtain p1 p2 p3 p4 where p: "on_pair (writeMultipleRegisters (tcp_link sock split_up rounds_of) a vs) (c, s) = (Some ok_result, p1)"
      "on_pair (writeMultipleCoils (tcp_link sock split_up rounds_of) b cs) p1 = (Some ok_result, p2)"
      "on_pair (readHoldingRegisters (tcp_link sock split_up rounds_of) a (of_nat (length vs))) p2
        = (Some (ok_result\<lparr>mr_registers := vs\<rparr>), p3)"
      "on_pair (readCoils (tcp_link sock split_up rounds_of) b (of_nat (length cs))) p3 = (Some (ok_result\<lparr>mr_coils := cs\<rparr>), p4)"
      "holdingRegisters (pair_area p4) = write_from (unat a) vs (holdingRegisters (pair_area (c, s)))"
      "coils (pair_area p4) = write_from (unat b) cs (coils (pair_area (c, s)))" "pair_rest p4 = pair_rest (c, s)"
    using tcp_store.only_written_changed [OF assms] by blast
  moreover note pair_rest_same [OF p(7)]
  ultimately show ?thesis
    by (cases p1; cases p2; cases p3; cases p4) (simp add: on_pair_def Let_def)
qed

definition demo_server :: tcp_server where
  "demo_server = \<lparr>tcp_clients = om_put 3 \<lparr>recvBuffer = [], ci_address = [], ci_port = 1\<rparr> [],
     tcp_units = om_put 1 (ModbusDataArea 16) [], tcp_written = [], tcp_signals = []\<rparr>"

definition bytewise :: "bytes \<Rightarrow> bytes list" where
  "bytewise b = map (\<lambda>x. [x]) b"

definition slow_rounds :: "bytes \<Rightarrow> bytes option list" where
  "slow_rounds b = None # map (\<lambda>x. Some [x]) b @ [None]"

lemma bytewise_whole: "whole_chunks bytewise"
  by (simp add: whole_chunks_def bytewise_def)

lemma slow_rounds_in_time: "in_time slow_rounds"
proof -
  have "arrived (map (\<lambda>x. Some [x]) b) = b" for b by (induction b) simp_all
  then have "slow_rounds b = (None # map (\<lambda>x. Some [x]) b) @ None # [] \<and> arrived (None # map (\<lambda>x. Some [x]) b) = b" for b
    by (simp add: slow_rounds_def)
  then show ?thesis unfolding in_time_def delivers_def by blast
qed

lemma demo_pair_live: "pair_live 3 bytewise slow_rounds (ModbusClient 3000, demo_server)"
  by (simp add: pair_live_def bytewise_whole slow_rounds_in_time link_ready_def demo_server_def ModbusClient_def
      om_has_def)

lemma demo_pair_area: "pair_area (ModbusClient 3000, demo_server) = ModbusDataArea 16"
  by (simp add: pair_area_def unit_area_def demo_server_def ModbusClient_def)

lemma client_reads_what_it_wrote_witness:
  "let link = tcp_link 3 bytewise slow_rounds;
       (r1, c1, s1) = writeMultipleRegisters link 4 [10, 20] (ModbusClient 3000) demo_server;
       (r2, c2, s2) = writeMultipleCoils link 0 [True] c1 s1;
       (r3, c3, s3) = readHoldingRegisters link 4 2 c2 s2
   in r3 = Some (ok_result\<lparr>mr_registers := [10, 20]\<rparr>)"
  using client_reads_what_it_wrote [OF demo_pair_live, of "[10, 20]" 4 "[True]" 0]
  by (simp add: demo_pair_area ModbusDataArea_def Let_def split_beta)

text \<open>What the register parser makes of the doubly framed exception.\<close>

lemma parse_framed_exception:
  "parseReadRegistersResponse (mbap_request tid u hi (lo # be16 0 @ be16 3 @ [u', 0x83, 0x02]))
    = (if unat lo > 7 then failed_result ''Incomplete register data''
       else ok_result\<lparr>mr_registers := take (unat lo div 2) [0, 3, join16 u' 0x83]\<rparr>)"
proof -
  let ?rest = "be16 0 @ be16 3 @ [u', 0x83, 0x02]" and ?ws = "[0, 3, join16 u' 0x83]"
  let ?resp = "mbap_request tid u hi (lo # ?rest)"
    and ?h = "be16 tid @ be16 0 @ be16 (of_nat (length ?rest + 3)) @ [u, hi, lo]"
  have split: "?resp = ?h @ concat (map be16 ?ws) @ [0x02]"
    unfolding mbap_request_body by (simp add: byte_simps)
  have "read_words (?h @ concat (map be16 ?ws) @ [0x02]) 9 (length ?ws) = ?ws"
    by (rule read_words_after) simp
  then have three: "read_words ?resp 9 3 = ?ws" unfolding split by (simp add: eval_nat_numeral)
  have words: "read_words ?resp 9 k = take k ?ws" if "k \<le> 3" for k
  proof -
    have "read_words ?resp 9 k = take k (read_words ?resp 9 3)"
      using that by (simp add: read_words_def take_map)
    then show ?thesis by (simp only: three)
  qed
  have "unat lo div 2 \<le> 3" if "\<not> 7 < unat lo" using that by linarith
  then show ?thesis
    by (simp add: parseReadRegistersResponse_def mbap_request_parse mbap_request_nth8 words ok_result_def)
qed

text \<open>A read that the server refuses, because its range is not inside the unit or its count is
  out of bounds, never reaches the client as the exception it is. The server frames the exception
  twice, so the client finds the bytes of its own transaction number where function code and byte
  count belong: mostly it reports an unexpected function code, from transaction 32768 on an
  exception that is the low byte of the number, and for eight transaction numbers it reports
  success and returns registers that are bytes of the frame.\<close>

theorem refused_read_misread:
  assumes "pair_live sock split_up rounds_of (c, s)"
    and "unat q < 1 \<or> unat q > 125 \<or> unat a + unat q > length (holdingRegisters (pair_area (c, s)))"
  shows "let tid = mc_transactionId c; hi = ucast (drop_bit 8 tid) :: byte; lo = ucast tid :: byte;
             u = mc_unitId c
         in fst (readHoldingRegisters (tcp_link sock split_up rounds_of) a q c s) = Some
             (if hi AND 0x80 \<noteq> 0 then exception_result lo
              else if hi \<noteq> 0x03 then failed_result ''Unexpected function code''
              else if unat lo > 7 then failed_result ''Incomplete register data''
              else ok_result\<lparr>mr_registers := take (unat lo div 2) [0, 3, join16 u 0x83]\<rparr>)"
proof -
  let ?tid = "mc_transactionId c" and ?u = "mc_unitId c"
  let ?hi = "ucast (drop_bit 8 ?tid) :: byte" and ?lo = "ucast ?tid :: byte"
  let ?rest = "be16 0 @ be16 3 @ [?u, 0x83, 0x02]"
  let ?resp = "mbap_request ?tid ?u ?hi (?lo # ?rest)"
  have live: "link_ready sock s" "whole_chunks split_up" "in_time rounds_of"
    using assms(1) by (simp_all add: pair_live_def)
  obtain m sigs where served: "processRequest (mbap_request ?tid ?u 0x03 (read_pdu a q)) (tcp_units s) = (?resp, m, sigs)"
    using exception_framed_twice [OF pair_live_area [OF assms(1)] assms(2), of ?tid]
    by (cases "processRequest (mbap_request ?tid ?u 0x03 (read_pdu a q)) (tcp_units s)") (simp add: Let_def read_pdu_def)
  obtain s' where s': "sk_exchange (tcp_link sock split_up rounds_of) (mc_timeout c) (mbap_request ?tid ?u 0x03 (read_pdu a q)) s
      = (True, rounds_of ?resp, s')"
    using tcp_link_exchange [OF live(1,2) mbap_request_frame served, of rounds_of "mc_timeout c"]
    by (auto simp: read_pdu_def)
  have read: "readResponse ?tid (rounds_of ?resp) = Inr ?resp"
    using live(3) by (intro readResponse_delivered mbap_request_answer) (simp_all add: in_time_def)
  have byte8: "byte_at ?resp 8 = Some ?lo"
    by (simp add: byte_at_def mbap_request_parse mbap_request_nth8)
  have "sk_connected (tcp_link sock split_up rounds_of) s"
    using live(1) by (auto simp: tcp_link_def link_ready_def om_has_def)
  then have "fst (readHoldingRegisters (tcp_link sock split_up rounds_of) a q c s) =
      (case check_response 0x03 ?resp of
         None \<Rightarrow> None | Some (Inl result) \<Rightarrow> Some result | Some (Inr r) \<Rightarrow> Some (parseReadRegistersResponse r))"
    by (simp add: readHoldingRegisters_def tcp_call_def buildRequest_mbap sendRequest_def s' request_tid read)
  then show ?thesis
    by (simp add: check_response_def mbap_request_parse byte8 parse_framed_exception Let_def)
qed

lemma refused_read_misread_witness:
  "fst (readHoldingRegisters (tcp_link 3 bytewise slow_rounds) 40 1
      ((ModbusClient 3000)\<lparr>mc_transactionId := 0x0306\<rparr>) demo_server) = Some (ok_result\<lparr>mr_registers := [0, 3, 0x183]\<rparr>)"
proof -
  have live: "pair_live 3 bytewise slow_rounds ((ModbusClient 3000)\<lparr>mc_transactionId := 0x0306\<rparr>, demo_server)"
    using demo_pair_live by (simp add: pair_live_def)
  have area: "pair_area ((ModbusClient 3000)\<lparr>mc_transactionId := 0x0306\<rparr>, demo_server) = ModbusDataArea 16"
    using demo_pair_area by (simp add: pair_area_def)
  show ?thesis
    using refused_read_misread [OF live, of 1 40, unfolded area]
    by (simp add: ModbusDataArea_def ModbusClient_def Let_def join16_def)
qed

end
