(* ===== verification/ModbusRtuClientSpec.thy ===== *)
theory ModbusRtuClientSpec
  imports ModbusClientSpec
begin

text \<open>
  The clients of RTU frames. On a serial port, client and server together are the same device as
  over TCP; an answer damaged on the line is refused. Over TCP, where the client checks neither
  unit nor function code and takes the third byte of every answer for a byte count, an answer that
  arrives late passes for the next one's, and a write whose answer arrives in pieces fails.
\<close>

section \<open>Frames\<close>

lemma rtu_buildRequest_frame: "rtu_buildRequest u fc pdu = buildRtuResponse u (fc # pdu)"
  by (simp add: rtu_buildRequest_def buildRtuResponse_def Let_def)

lemma rtu_frame_parts:
  "length (buildRtuResponse u p) = length p + 3" "buildRtuResponse u p ! 0 = u"
  "take (length p + 1) (buildRtuResponse u p) = u # p"
  by (simp_all add: buildRtuResponse_def Let_def)

lemma rtu_frame_nth: "i < length p \<Longrightarrow> buildRtuResponse u p ! Suc i = p ! i"
  by (simp add: buildRtuResponse_def Let_def nth_append)

lemma rtu_frame_data: "take (length p - 1) (drop 2 (buildRtuResponse u p)) = drop 1 p"
  by (cases p) (simp_all add: buildRtuResponse_def Let_def)

lemma rtu_frame_split:
  "\<exists>crc. buildRtuResponse u p = u # p @ crc \<and> length crc = 2"
  by (simp add: buildRtuResponse_def Let_def)

lemma verifyCRC_iff: "verifyCRC frame \<longleftrightarrow> 4 \<le> length frame \<and> rtu_crc_ok frame"
  by (auto simp: verifyCRC_def rtu_crc_ok_def Let_def or.commute)

lemma verifyCRC_build: "p \<noteq> [] \<Longrightarrow> verifyCRC (buildRtuResponse u p)"
  by (cases p) (simp_all add: verifyCRC_iff rtu_crc_ok_build rtu_frame_parts)

section \<open>What the switch of the servers answers\<close>

lemma rtu_dispatch_write_words:
  assumes "0 < length vs" and "length vs \<le> 123" and "unat a + length vs \<le> length (holdingRegisters area)"
  shows "rtu_dispatch u area 0x10 (write_registers_pdu a vs) =
    Inr (0x10 # be16 a @ be16 (of_nat (length vs)),
         area\<lparr>holdingRegisters := write_from (unat a) vs (holdingRegisters area)\<rparr>,
         [DataWritten u 0x10 a (of_nat (length vs))])"
proof -
  let ?d = "write_registers_pdu a vs"
  have q: "unat (of_nat (length vs) :: u16) = length vs" using assms(2) by (simp add: of_nat_u16)
  have n: "unat (of_nat (length vs * 2) :: byte) = length vs * 2" using assms(2) by (intro of_nat_byte) simp
  have d: "?d = (be16 a @ be16 (of_nat (length vs)) @ [of_nat (length vs * 2)]) @ concat (map be16 vs)"
    by (simp add: write_registers_pdu_def)
  have words: "bytesToUInt16 ?d (5 + i * 2) = vs ! i" if "i < length vs" for i
    unfolding d using read16_after [of "be16 a @ be16 (of_nat (length vs)) @ [of_nat (length vs * 2)]"
        "concat (map be16 vs)" "i * 2"] that
    by (simp add: byte_ops read16_concat)
  have "map (\<lambda>i. bytesToUInt16 ?d (5 + i * 2)) [0..<length vs] = vs"
    by (rule nth_equalityI) (simp_all add: words)
  then have loop: "foldl (\<lambda>rs i. rs[unat a + i := bytesToUInt16 ?d (5 + i * 2)]) (holdingRegisters area) [0..<length vs]
      = write_from (unat a) vs (holdingRegisters area)"
    using foldl_update_range [OF assms(3), of "\<lambda>i. bytesToUInt16 ?d (5 + i * 2)"] by simp
  have heads: "bytesToUInt16 ?d 0 = a" "bytesToUInt16 ?d 2 = of_nat (length vs)" "?d ! 4 = of_nat (length vs * 2)"
    using read16_be16_at [of a "of_nat (length vs)"] be16_be16_nth4 [of a "of_nat (length vs)"]
    by (simp_all add: write_pdus byte_ops del: of_nat_mult)
  have len: "length ?d = 5 + length vs * 2" by (simp add: d)
  show ?thesis
    unfolding rtu_dispatch_def rtu_write_multiple_def Let_def heads q n len loop
    using assms by (simp add: byte_ops)
qed

lemma rtu_dispatch_write_bits:
  assumes "0 < length cs" and "length cs \<le> 1968" and "unat a + length cs \<le> length (coils area)"
  shows "rtu_dispatch u area 0x0F (write_coils_pdu a cs) =
    Inr (0x0F # be16 a @ be16 (of_nat (length cs)), area\<lparr>coils := write_from (unat a) cs (coils area)\<rparr>,
         [DataWritten u 0x0F a (of_nat (length cs))])"
proof -
  let ?d = "write_coils_pdu a cs" and ?k = "(length cs + 7) div 8"
  have q: "unat (of_nat (length cs) :: u16) = length cs" using assms(2) by (simp add: of_nat_u16)
  have n: "unat (of_nat ?k :: byte) = ?k" using assms(2) by (intro of_nat_byte) simp
  have d: "?d = (be16 a @ be16 (of_nat (length cs)) @ [of_nat ?k]) @ pack_bits cs 0 (length cs)"
    by (simp add: write_coils_pdu_def coil_bytes_pack)
  have bits: "bit (?d ! (5 + i div 8)) (i mod 8) = cs ! i" if "i < length cs" for i
    unfolding d using bit_pack_bits [OF that, of cs 0] by (simp add: nth_append)
  have "map (\<lambda>i. bit (?d ! (5 + i div 8)) (i mod 8)) [0..<length cs] = cs"
    by (rule nth_equalityI) (simp_all add: bits)
  then have loop: "foldl (\<lambda>rs i. rs[unat a + i := bit (?d ! (5 + i div 8)) (i mod 8)]) (coils area) [0..<length cs]
      = write_from (unat a) cs (coils area)"
    using foldl_update_range [OF assms(3), of "\<lambda>i. bit (?d ! (5 + i div 8)) (i mod 8)"] by simp
  have heads: "bytesToUInt16 ?d 0 = a" "bytesToUInt16 ?d 2 = of_nat (length cs)" "?d ! 4 = of_nat ?k"
    using read16_be16_at [of a "of_nat (length cs)"] be16_be16_nth4 [of a "of_nat (length cs)"]
    by (simp_all add: write_pdus byte_ops)
  have len: "length ?d = 5 + ?k" by (simp add: d)
  show ?thesis
    unfolding rtu_dispatch_def rtu_write_multiple_def Let_def heads q n len loop
    using assms by (simp add: byte_ops)
qed

lemma rtu_dispatch_write_word:
  assumes "unat a < length (holdingRegisters area)"
  shows "rtu_dispatch u area 0x06 (write_register_pdu a v) =
    Inr (0x06 # be16 a @ be16 v, area\<lparr>holdingRegisters := (holdingRegisters area)[unat a := v]\<rparr>,
         [DataWritten u 0x06 a 1])"
  using assms read16_be16_at [of a v "[]"]
  by (simp add: rtu_dispatch_def rtu_write_single_def Let_def write_register_pdu_def byte_ops)

lemma rtu_dispatch_read_words:
  assumes "0 < n" and "n \<le> 125" and "unat a + n \<le> length (holdingRegisters area)"
  defines "vs \<equiv> take n (drop (unat a) (holdingRegisters area))"
  shows "rtu_dispatch u area 0x03 (read_pdu a (of_nat n)) =
    Inr (0x03 # of_nat (n * 2) # concat (map be16 vs), area, [DataRead u 0x03 a (of_nat n)])"
proof -
  have q: "unat (of_nat n :: u16) = n" using assms(2) by (simp add: of_nat_u16)
  have len: "length vs = n" using assms(3) by (simp add: vs_def)
  have "register_bytes (holdingRegisters area) (unat a) (length vs) = concat (map be16 vs)"
    using assms(3) by (intro register_bytes_concat) (simp add: vs_def)
  with len show ?thesis
    using assms(1-3) read16_be16_at [of a "of_nat n" "[]"] q
    by (simp add: rtu_dispatch_def rtu_read_def Let_def byte_ops read_pdu_def)
qed

lemma rtu_dispatch_read_bits:
  assumes "0 < n" and "n \<le> 2000" and "unat a + n \<le> length (coils area)"
  defines "cs \<equiv> take n (drop (unat a) (coils area))"
  shows "rtu_dispatch u area 0x01 (read_pdu a (of_nat n)) =
    Inr (0x01 # of_nat ((n + 7) div 8) # pack_bits cs 0 n, area, [DataRead u 0x01 a (of_nat n)])"
proof -
  have q: "unat (of_nat n :: u16) = n" using assms(2) by (simp add: of_nat_u16)
  have "pack_bits (coils area) (unat a) n = pack_bits cs 0 n"
    using assms(3) by (intro pack_bits_cong) (simp add: cs_def)
  then show ?thesis
    using assms(1-3) read16_be16_at [of a "of_nat n" "[]"] q
    by (simp add: rtu_dispatch_def rtu_read_def Let_def byte_ops read_pdu_def)
qed

section \<open>What the clients make of an answer frame\<close>

lemma rtu_frame_body:
  "\<exists>crc. buildRtuResponse u (fc # b # data) = [u, fc, b] @ data @ crc \<and> length crc = 2"
  using rtu_frame_split [of u "fc # b # data"] by auto

lemma rtu_words_at:
  "read_words (buildRtuResponse u (fc # b # concat (map be16 vs))) 3 (length vs) = vs"
proof -
  obtain crc where "buildRtuResponse u (fc # b # concat (map be16 vs)) = [u, fc, b] @ concat (map be16 vs) @ crc"
    using rtu_frame_body by metis
  then show ?thesis using read_words_after [of "[u, fc, b]" 3 vs crc] by simp
qed

lemma rtu_bits_at:
  "read_bits (buildRtuResponse u (fc # b # pack_bits cs 0 (length cs))) 3 (length cs) = Some cs"
proof -
  obtain crc where "buildRtuResponse u (fc # b # pack_bits cs 0 (length cs)) = [u, fc, b] @ pack_bits cs 0 (length cs) @ crc"
    using rtu_frame_body by metis
  then show ?thesis using read_bits_after [of "[u, fc, b]" 3 cs crc] by simp
qed

lemma rtu_frame_nth012:
  "buildRtuResponse u (fc # b # data) ! 0 = u" "buildRtuResponse u (fc # b # data) ! Suc 0 = fc"
  "buildRtuResponse u (fc # b # data) ! 2 = b" "length (buildRtuResponse u (fc # b # data)) = length data + 5"
  "buildRtuResponse u (fc # b # data) \<noteq> []"
  by (simp_all add: buildRtuResponse_def Let_def)

lemma serial_parse_words:
  assumes "length vs \<le> 125"
  shows "serial_parseResponse (buildRtuResponse u (0x03 # of_nat (length vs * 2) # concat (map be16 vs))) u 0x03 n
    = Some (ok_result\<lparr>mr_registers := vs\<rparr>)"
proof -
  have "unat (of_nat (length vs * 2) :: byte) = length vs * 2" using assms by (intro of_nat_byte) simp
  then show ?thesis
    by (simp add: serial_parseResponse_def serial_parse_data_def rtu_frame_nth012 verifyCRC_build rtu_words_at ok_result_def Let_def
        del: of_nat_mult)
qed

lemma serial_parse_bits:
  assumes "length cs \<le> 2000"
  shows "serial_parseResponse (buildRtuResponse u (0x01 # of_nat ((length cs + 7) div 8) # pack_bits cs 0 (length cs)))
      u 0x01 (of_nat (length cs)) = Some (ok_result\<lparr>mr_coils := cs\<rparr>)"
proof -
  have n: "unat (of_nat ((length cs + 7) div 8) :: byte) = (length cs + 7) div 8" using assms by (intro of_nat_byte) simp
  have q: "unat (of_nat (length cs) :: u16) = length cs" using assms by (intro of_nat_u16) simp
  show ?thesis
    by (simp add: serial_parseResponse_def serial_parse_data_def rtu_frame_nth012 verifyCRC_build rtu_bits_at ok_result_def Let_def n q)
qed

lemma serial_parse_write:
  assumes "fc = 0x06 \<or> fc = 0x0F \<or> fc = 0x10"
  shows "serial_parseResponse (buildRtuResponse u (fc # be16 a @ be16 n)) u fc 0 = Some ok_result"
proof -
  obtain b data where "be16 a @ be16 n = b # data" "length data = 3" by (simp add: be16_def)
  with assms show ?thesis
    by (auto simp: serial_parseResponse_def serial_parse_data_def rtu_frame_nth012 verifyCRC_build ok_result_def Let_def)
qed

section \<open>A client and the server on a serial line\<close>

text \<open>
  The line between a client and the modelled server: the request reaches the server in pieces, the
  silence after it lets the server answer, and what it writes is what the client's waits bring.
\<close>

definition serial_line ::
  "(bytes \<Rightarrow> bytes list) \<Rightarrow> (bytes \<Rightarrow> bytes option list) \<Rightarrow> serial_server serial_port" where
  "serial_line split_up rounds_of = \<lparr>
     sp_open = (\<lambda>_ s. (True, s)), sp_isOpen = (\<lambda>_ s. True),
     sp_exchange = (\<lambda>_ _ _ request s.
       let s' = serial_onFrameTimeout (foldl (\<lambda>s c. serial_onReadyRead c s) s (split_up request))
       in (rounds_of (concat (drop (length (ss_written s)) (ss_written s'))), s'))\<rparr>"

text \<open>An answer comes in one burst: chunk after chunk, with no silent wait in between.\<close>

definition burst :: "bytes option list \<Rightarrow> bytes \<Rightarrow> bool" where
  "burst rounds response =
     (\<exists>k c chunks rest. rounds = replicate k None @ map Some (c # chunks) @ rest
        \<and> concat (c # chunks) = response \<and> (rest = [] \<or> hd rest = None))"

definition in_bursts :: "(bytes \<Rightarrow> bytes option list) \<Rightarrow> bool" where
  "in_bursts rounds_of = (\<forall>b. b \<noteq> [] \<longrightarrow> burst (rounds_of b) b)"

lemma read_until_silence_burst:
  "rest = [] \<or> hd rest = None \<Longrightarrow> read_until_silence (map Some chunks @ rest) = concat chunks"
proof (induction chunks)
  case Nil
  then show ?case by (cases rest) auto
qed simp

lemma serial_collect_burst: "burst rounds response \<Longrightarrow> serial_collect rounds = response"
proof -
  assume "burst rounds response"
  then obtain k c chunks rest where r: "rounds = replicate k None @ map Some (c # chunks) @ rest"
      "concat (c # chunks) = response" "rest = [] \<or> hd rest = None"
    by (auto simp: burst_def)
  have "serial_collect (replicate k None @ Some c # qs) = c @ read_until_silence qs" for qs
    by (induction k) simp_all
  then show ?thesis using r read_until_silence_burst [OF r(3), of chunks] by simp
qed

definition line_ready :: "serial_server \<Rightarrow> bool" where
  "line_ready s = (ss_open s \<and> ss_buffer s = [])"

lemma serial_receive_chunks:
  assumes "ss_open s" and "length (ss_buffer s @ concat chunks) \<le> 256"
  shows "\<exists>timer. foldl (\<lambda>s c. serial_onReadyRead c s) s chunks
    = s\<lparr>ss_buffer := ss_buffer s @ concat chunks, ss_timer := timer\<rparr>"
  using assms
proof (induction chunks arbitrary: s)
  case Nil
  show ?case by (intro exI [of _ "ss_timer s"]) simp
next
  case (Cons c chunks)
  have one: "serial_onReadyRead c s = s\<lparr>ss_buffer := ss_buffer s @ c, ss_timer := True\<rparr>"
    using Cons.prems by (simp add: serial_onReadyRead_def)
  show ?case using Cons.IH [of "serial_onReadyRead c s"] Cons.prems by (simp add: one)
qed

lemma serial_line_exchange:
  assumes "line_ready s" and "whole_chunks split_up" and "rtu_crc_ok request" and "4 \<le> length request"
    and "length request \<le> 256" and "serial_processRtuRequest request (ss_units s) = (response, m, sigs)"
  shows "\<exists>s'. sp_exchange (serial_line split_up rounds_of) port t wait request s
      = (rounds_of response, s') \<and> line_ready s' \<and> ss_units s' = m"
proof -
  have "length (ss_buffer s @ concat (split_up request)) \<le> 256"
    using assms(1,2,5) by (simp add: line_ready_def whole_chunks_def)
  then obtain timer where "foldl (\<lambda>s c. serial_onReadyRead c s) s (split_up request)
      = s\<lparr>ss_buffer := request, ss_timer := timer\<rparr>"
    using serial_receive_chunks [of s "split_up request"] assms(1,2) by (auto simp: line_ready_def whole_chunks_def)
  then show ?thesis
    using assms by (auto simp: serial_line_def serial_onFrameTimeout_def line_ready_def Let_def)
qed

definition serial_area :: "byte \<Rightarrow> serial_server \<Rightarrow> data_area" where
  "serial_area u s = unit_area u (ss_units s)"

definition line_live :: "(bytes \<Rightarrow> bytes list) \<Rightarrow> (bytes \<Rightarrow> bytes option list) \<Rightarrow> byte \<Rightarrow> serial_server \<Rightarrow> bool" where
  "line_live split_up rounds_of u s =
     (whole_chunks split_up \<and> in_bursts rounds_of \<and> line_ready s \<and> u \<noteq> 0 \<and> om_has (ss_units s) u)"

lemma line_live_area: "line_live split_up rounds_of u s \<Longrightarrow> om_get (ss_units s) u = Some (serial_area u s)"
  by (auto simp: line_live_def serial_area_def unit_area_def om_has_def split: option.split)

lemma serial_request_dispatched:
  assumes "om_get m u = Some area" and "u \<noteq> 0" and "rtu_dispatch u area fc pdu = Inr (rpdu, area', sigs)"
  shows "serial_processRtuRequest (rtu_buildRequest u fc pdu) m = (buildRtuResponse u rpdu, om_put u area' m, sigs)"
  using assms rtu_frame_parts(1,2) [of u "fc # pdu"] rtu_frame_nth [of 0 "fc # pdu" u] rtu_frame_data [of "fc # pdu" u]
  by (simp add: serial_processRtuRequest_def rtu_buildRequest_frame Let_def)

lemma serial_served:
  assumes "line_live split_up rounds_of u s" and "length pdu \<le> 252"
    and "rtu_dispatch u (serial_area u s) fc pdu = Inr (rpdu, area', sigs)"
    and "serial_parseResponse (buildRtuResponse u rpdu) u fc n = Some result"
  shows "\<exists>s'. serial_call (serial_line split_up rounds_of) u fc pdu n timeout c s = (Some result, s')
    \<and> line_live split_up rounds_of u s' \<and> serial_area u s' = area'"
proof -
  have req: "serial_processRtuRequest (rtu_buildRequest u fc pdu) (ss_units s)
      = (buildRtuResponse u rpdu, om_put u area' (ss_units s), sigs)"
    using assms(1) serial_request_dispatched [OF line_live_area [OF assms(1)] _ assms(3)] by (simp add: line_live_def)
  have frame: "rtu_crc_ok (rtu_buildRequest u fc pdu)" "4 \<le> length (rtu_buildRequest u fc pdu)"
      "length (rtu_buildRequest u fc pdu) \<le> 256"
    using assms(2) by (simp_all add: rtu_buildRequest_frame rtu_crc_ok_build rtu_frame_parts)
  have "line_ready s" "whole_chunks split_up" using assms(1) by (simp_all add: line_live_def)
  from serial_line_exchange [OF this frame req, of rounds_of "sm_port c" timeout "max 1 (nat \<lceil>sm_t35Ms c\<rceil>)"]
  obtain s' where s': "sp_exchange (serial_line split_up rounds_of) (sm_port c) timeout (max 1 (nat \<lceil>sm_t35Ms c\<rceil>))
      (rtu_buildRequest u fc pdu) s = (rounds_of (buildRtuResponse u rpdu), s')"
      "line_ready s'" "ss_units s' = om_put u area' (ss_units s)"
    by blast
  have "buildRtuResponse u rpdu \<noteq> []" by (simp add: buildRtuResponse_def Let_def)
  then have "serial_collect (rounds_of (buildRtuResponse u rpdu)) = buildRtuResponse u rpdu"
    using assms(1) by (intro serial_collect_burst) (simp add: line_live_def in_bursts_def)
  with s' assms(1,4) show ?thesis
    by (auto simp: serial_call_def serial_sendRequest_def line_live_def serial_area_def unit_area_def Let_def)
qed

interpretation serial_device: modbus_device
  "\<lambda>a vs. serial_writeMultipleRegisters (serial_line split_up rounds_of) u a vs timeout c"
  "\<lambda>a n. serial_readHoldingRegisters (serial_line split_up rounds_of) u a n timeout c"
  "\<lambda>a cs. serial_writeMultipleCoils (serial_line split_up rounds_of) u a cs timeout c"
  "\<lambda>a n. serial_readCoils (serial_line split_up rounds_of) u a n timeout c"
  "\<lambda>s. holdingRegisters (serial_area u s)" "\<lambda>s. coils (serial_area u s)"
  "line_live split_up rounds_of u"
proof
  fix s :: serial_server and vs :: "u16 list" and cs :: "bool list" and a :: u16 and n :: nat
  assume live: "line_live split_up rounds_of u s"
  let ?area = "serial_area u s"
  show "\<exists>s'. serial_writeMultipleRegisters (serial_line split_up rounds_of) u a vs timeout c s = (Some ok_result, s')
      \<and> line_live split_up rounds_of u s'
      \<and> holdingRegisters (serial_area u s') = write_from (unat a) vs (holdingRegisters ?area)
      \<and> coils (serial_area u s') = coils ?area"
    if "0 < length vs" "length vs \<le> 123" "unat a + length vs \<le> length (holdingRegisters ?area)"
    unfolding serial_writeMultipleRegisters_def
    using serial_served [OF live _ rtu_dispatch_write_words [OF that] serial_parse_write, of timeout c] that(2)
    by (auto simp: write_registers_pdu_def)
  show "\<exists>s'. serial_readHoldingRegisters (serial_line split_up rounds_of) u a (of_nat n) timeout c s
        = (Some (ok_result\<lparr>mr_registers := take n (drop (unat a) (holdingRegisters ?area))\<rparr>), s')
      \<and> line_live split_up rounds_of u s' \<and> holdingRegisters (serial_area u s') = holdingRegisters ?area
      \<and> coils (serial_area u s') = coils ?area"
    if "0 < n" "n \<le> 125" "unat a + n \<le> length (holdingRegisters ?area)"
  proof -
    let ?vs = "take n (drop (unat a) (holdingRegisters ?area))"
    have len: "length ?vs = n" using that by simp
    show ?thesis
      unfolding serial_readHoldingRegisters_def
      using serial_served [OF live _ rtu_dispatch_read_words [OF that] serial_parse_words [of ?vs u 0, unfolded len], of timeout c] that(2)
      by (auto simp: read_pdu_def)
  qed
  show "\<exists>s'. serial_writeMultipleCoils (serial_line split_up rounds_of) u a cs timeout c s = (Some ok_result, s')
      \<and> line_live split_up rounds_of u s' \<and> coils (serial_area u s') = write_from (unat a) cs (coils ?area)
      \<and> holdingRegisters (serial_area u s') = holdingRegisters ?area"
    if "0 < length cs" "length cs \<le> 1968" "unat a + length cs \<le> length (coils ?area)"
  proof -
    have "(length cs + 7) div 8 \<le> 246" using that(2) by simp
    then show ?thesis
      unfolding serial_writeMultipleCoils_def
      using serial_served [OF live _ rtu_dispatch_write_bits [OF that] serial_parse_write, of timeout c]
      by (auto simp: write_coils_pdu_def coil_bytes_pack)
  qed
  show "\<exists>s'. serial_readCoils (serial_line split_up rounds_of) u a (of_nat n) timeout c s
        = (Some (ok_result\<lparr>mr_coils := take n (drop (unat a) (coils ?area))\<rparr>), s')
      \<and> line_live split_up rounds_of u s' \<and> coils (serial_area u s') = coils ?area
      \<and> holdingRegisters (serial_area u s') = holdingRegisters ?area"
    if "0 < n" "n \<le> 2000" "unat a + n \<le> length (coils ?area)"
  proof -
    let ?cs = "take n (drop (unat a) (coils ?area))"
    have len: "length ?cs = n" using that by simp
    show ?thesis
      unfolding serial_readCoils_def
      using serial_served [OF live _ rtu_dispatch_read_bits [OF that] serial_parse_bits [of ?cs u, unfolded len], of timeout c] that(2)
      by (auto simp: read_pdu_def)
  qed
qed

text \<open>One register, written by its own function code.\<close>

lemma serial_put_word:
  assumes "line_live split_up rounds_of u s" and "unat a < length (holdingRegisters (serial_area u s))"
  shows "\<exists>s'. serial_writeSingleRegister (serial_line split_up rounds_of) u a v timeout c s = (Some ok_result, s')
    \<and> line_live split_up rounds_of u s'
    \<and> holdingRegisters (serial_area u s') = (holdingRegisters (serial_area u s))[unat a := v]"
  unfolding serial_writeSingleRegister_def
  using serial_served [OF assms(1) _ rtu_dispatch_write_word [OF assms(2)] serial_parse_write, of v timeout c]
  by (auto simp: write_register_pdu_def)

text \<open>On the serial line too: what the client writes it reads back.\<close>

lemma serial_client_reads_what_it_wrote:
  assumes "line_live split_up rounds_of u s" and "0 < length vs" and "length vs \<le> 123"
    and "unat a + length vs \<le> length (holdingRegisters (serial_area u s))"
  shows "let line = serial_line split_up rounds_of;
             (r1, s1) = serial_writeMultipleRegisters line u a vs timeout c s;
             (r2, s2) = serial_readHoldingRegisters line u a (of_nat (length vs)) timeout c s1
         in r1 = Some ok_result \<and> r2 = Some (ok_result\<lparr>mr_registers := vs\<rparr>)"
proof -
  obtain s1 where s1: "serial_writeMultipleRegisters (serial_line split_up rounds_of) u a vs timeout c s = (Some ok_result, s1)"
      "line_live split_up rounds_of u s1"
      "holdingRegisters (serial_area u s1) = write_from (unat a) vs (holdingRegisters (serial_area u s))"
    using serial_device.put_words_law [OF assms, of timeout c] by blast
  then have "take (length vs) (drop (unat a) (holdingRegisters (serial_area u s1))) = vs"
    using assms(4) by (simp add: slice_write_from)
  with serial_device.get_words_law [OF s1(2) assms(2), of a timeout c] s1(1,3) assms(3,4) show ?thesis
    by fastforce
qed

text \<open>Unlike the server, the client says what is wrong with an answer damaged in one byte.\<close>

lemma serial_damaged_answer_refused:
  assumes "verifyCRC frame" and "5 \<le> length frame" and "i < length frame" and "x \<noteq> frame ! i"
  shows "serial_parseResponse (frame[i := x]) u fc n = Some (failed_result ''CRC error'')"
proof -
  have "\<not> rtu_crc_ok (frame[i := x])"
    using assms by (intro rtu_one_byte_detected) (simp_all add: verifyCRC_iff)
  then have "\<not> verifyCRC (frame[i := x])" by (simp add: verifyCRC_iff)
  with assms(2) show ?thesis by (auto simp: serial_parseResponse_def)
qed

section \<open>RTU frames over TCP\<close>

text \<open>A read answer is taken as soon as it is complete, however it is cut.\<close>

lemma rtu_read_delivered:
  assumes "5 \<le> length r" and "r ! 1 AND 0x80 = 0" and "length r = 5 + unat (r ! 2)"
    and "response @ arrived pre = r" and "response \<noteq> r"
  shows "rtu_readResponse k (pre @ post) response = r"
  using assms(4,5)
proof (induction pre arbitrary: response)
  case (Cons x pre)
  define response' where "response' = (case x of None \<Rightarrow> response | Some chunk \<Rightarrow> response @ chunk)"
  have eq: "response' @ arrived pre = r"
    using Cons.prems(1) by (cases x) (simp_all add: response'_def)
  show ?case
  proof (cases "response' = r")
    case True
    with assms(1,3) show ?thesis by (simp add: response'_def [symmetric] Let_def)
  next
    case False
    then have short: "length response' < length r" using eq by (metis append_Nil2 append_eq_append_conv2
      le_neq_implies_less length_append le_add1 append_eq_conv_conj take_all)
    have same: "response' ! i = r ! i" if "i < length response'" for i
      using that eq by (metis nth_append)
    have "rtu_readResponse k ((x # pre) @ post) response = rtu_readResponse k (pre @ post) response'"
      using short same [of 1] same [of 2] assms(2,3)
      by (auto simp: response'_def [symmetric] Let_def)
    with Cons.IH [OF eq False] show ?thesis by simp
  qed
qed simp

lemma rtu_request_dispatched:
  assumes "om_get m u = Some area" and "rtu_dispatch u area fc pdu = Inr (rpdu, area', sigs)"
  shows "processRtuRequest (rtu_buildRequest u fc pdu) m = (buildRtuResponse u rpdu, om_put u area' m, sigs)"
  using assms rtu_frame_parts(1,2) [of u "fc # pdu"] rtu_frame_nth [of 0 "fc # pdu" u] rtu_frame_data [of "fc # pdu" u]
  by (simp add: processRtuRequest_def rtu_buildRequest_frame Let_def)

text \<open>The client of RTU frames over TCP does not know whose answer it reads. When the answer to an
  earlier read, of any unit and any addresses, is still on its way and arrives first, in whatever
  pieces, the client reports success for the read it made now, with the values of the other
  addresses of the other unit.\<close>

theorem late_answer_taken:
  assumes "om_get m u0 = Some area" and "0 < n" and "n \<le> 125" and "unat a0 + n \<le> length (holdingRegisters area)"
    and "sk_exchange sk (rm_timeout c) (rtu_buildRequest (rm_unitId c) 0x03 (read_pdu a q)) w = (True, pre @ post, w')"
    and "arrived pre = fst (processRtuRequest (rtu_buildRequest u0 0x03 (read_pdu a0 (of_nat n))) m)"
  shows "rtu_readHoldingRegisters sk a q c w =
    (Some (ok_result\<lparr>mr_registers := take n (drop (unat a0) (holdingRegisters area))\<rparr>), w')"
proof -
  let ?vs = "take n (drop (unat a0) (holdingRegisters area))"
  let ?r = "buildRtuResponse u0 (0x03 # of_nat (n * 2) # concat (map be16 ?vs))"
  have len: "length ?vs = n" using assms(4) by simp
  have bytes: "unat (of_nat (n * 2) :: byte) = n * 2" using assms(3) by (intro of_nat_byte) simp
  have r: "arrived pre = ?r"
    using assms(6) rtu_request_dispatched [OF assms(1) rtu_dispatch_read_words [OF assms(2-4)]] by simp
  have "length ?r = 5 + unat (?r ! 2)" using len bytes by (simp add: rtu_frame_nth012 del: of_nat_mult)
  then have "rtu_readResponse (5 + unat q * 2) (pre @ post) [] = ?r"
    using r by (intro rtu_read_delivered)
      (simp_all add: rtu_frame_nth012 rtu_frame_nth012(5) [symmetric] del: of_nat_mult)
  moreover have "read_words ?r 3 (length ?vs) = ?vs" by (rule rtu_words_at)
  ultimately show ?thesis
    using assms(2,5) len bytes
    by (simp add: rtu_readHoldingRegisters_def rtu_call_def rtu_frame_nth012 verifyCRC_build
        rtu_parseReadRegistersResponse_def ok_result_def del: of_nat_mult)
qed

lemma late_answer_taken_witness:
  "let r = fst (processRtuRequest (rtu_buildRequest 7 0x03 (read_pdu 2 1))
             (om_put 7 (ModbusDataArea 4\<lparr>holdingRegisters := [1, 2, 3, 4]\<rparr>) []))
   in fst (rtu_readHoldingRegisters (scripted_socket [None, Some (take 4 r), Some (drop 4 r)]) 0 1
        (ModbusRtuClient 3000) ()) = Some (ok_result\<lparr>mr_registers := [3]\<rparr>)"
proof -
  let ?m = "om_put 7 (ModbusDataArea 4\<lparr>holdingRegisters := [1, 2, 3, 4]\<rparr>) []"
  let ?r = "fst (processRtuRequest (rtu_buildRequest 7 0x03 (read_pdu 2 1)) ?m)"
  have "rtu_readHoldingRegisters (scripted_socket ([None, Some (take 4 ?r), Some (drop 4 ?r)] @ [])) 0 1
      (ModbusRtuClient 3000) () = (Some (ok_result\<lparr>mr_registers := take 1 (drop (unat (2 :: u16)) [1, 2, 3, 4])\<rparr>), ())"
    using late_answer_taken [of ?m 7 "ModbusDataArea 4\<lparr>holdingRegisters := [1, 2, 3, 4]\<rparr>" 1 2
        "scripted_socket ([None, Some (take 4 ?r), Some (drop 4 ?r)] @ [])" "ModbusRtuClient 3000" 0 1 "()"
        "[None, Some (take 4 ?r), Some (drop 4 ?r)]" "[]" "()"]
    by (simp add: scripted_socket_def)
  then show ?thesis by (simp add: Let_def)
qed

text \<open>A write over this client may be done and reported as failed. The loop that waits for the
  answer reads the high byte of the address as a byte count, so when the network delivers only
  five to seven bytes of the answer first, and the address is small, the client stops there and
  reports an error, while the server holds the value written.\<close>

theorem cut_write_reported_failed:
  assumes "om_get m (rm_unitId c) = Some area" and "unat a < length (holdingRegisters area)"
    and "5 + unat (drop_bit 8 a) \<le> k" and "k < 8"
    and "processRtuRequest (rtu_buildRequest (rm_unitId c) 0x06 (write_register_pdu a v)) m = (response, m', sigs)"
    and "sk_exchange sk (rm_timeout c) (rtu_buildRequest (rm_unitId c) 0x06 (write_register_pdu a v)) w
      = (True, Some (take k response) # later, w')"
  shows "\<exists>result. rtu_writeSingleRegister sk a v c w = (Some result, w') \<and> \<not> mr_success result
    \<and> getHoldingRegister (rm_unitId c) a m' = Some v"
proof -
  let ?u = "rm_unitId c"
  have served: "response = buildRtuResponse ?u (0x06 # be16 a @ be16 v)"
      "m' = om_put ?u (area\<lparr>holdingRegisters := (holdingRegisters area)[unat a := v]\<rparr>) m"
    using assms(5) rtu_request_dispatched [OF assms(1) rtu_dispatch_write_word [OF assms(2)]] by simp_all
  have stored: "getHoldingRegister ?u a m' = Some v"
    using assms(2) by (simp add: getHoldingRegister_def served(2))
  have fields: "response ! Suc 0 = 0x06" "response ! 2 = ucast (drop_bit 8 a)" "length response = 8"
    by (simp_all add: served(1) be16_def rtu_frame_nth012)
  have "unat (drop_bit 8 a) < 256"
    using assms(3,4) by linarith
  then have hi: "unat (ucast (drop_bit 8 a) :: byte) = unat (drop_bit 8 a)"
    by (simp add: unsigned_ucast_eq unsigned_take_bit_eq take_bit_nat_eq_self)
  have stop: "rtu_readResponse 8 (Some (take k response) # later) [] = take k response"
    using assms(3,4) fields hi by (simp add: Let_def)
  have "\<exists>result. rtu_writeSingleRegister sk a v c w = (Some result, w') \<and> \<not> mr_success result"
  proof (cases "verifyCRC (take k response)")
    case True
    then show ?thesis
      using assms(3,4) fields
      by (simp add: rtu_writeSingleRegister_def rtu_call_def assms(6) stop rtu_parseWriteResponse_def
          del: rtu_readResponse.simps)
  next
    case False
    then show ?thesis
      using assms(3,4) fields by (simp add: rtu_writeSingleRegister_def rtu_call_def assms(6) stop
          del: rtu_readResponse.simps)
  qed
  with stored show ?thesis by blast
qed

lemma cut_write_reported_failed_witness:
  "let r = fst (processRtuRequest (rtu_buildRequest 1 0x06 (write_register_pdu 2 9)) (om_put 1 (ModbusDataArea 4) []))
   in \<exists>result. rtu_writeSingleRegister (scripted_socket [Some (take 6 r), Some (drop 6 r)]) 2 9 (ModbusRtuClient 3000) ()
        = (Some result, ()) \<and> \<not> mr_success result"
proof -
  let ?p = "processRtuRequest (rtu_buildRequest 1 0x06 (write_register_pdu 2 9)) (om_put 1 (ModbusDataArea 4) [])"
  obtain r m' sigs where p: "?p = (r, m', sigs)" using prod_cases3 by blast
  have "\<exists>result. rtu_writeSingleRegister (scripted_socket [Some (take 6 r), Some (drop 6 r)]) 2 9 (ModbusRtuClient 3000) ()
      = (Some result, ()) \<and> \<not> mr_success result \<and> getHoldingRegister (rm_unitId (ModbusRtuClient 3000)) 2 m' = Some 9"
    using p
    by (intro cut_write_reported_failed [where m = "om_put 1 (ModbusDataArea 4) []" and area = "ModbusDataArea 4"
          and k = 6 and response = r and later = "[Some (drop 6 r)]" and sigs = sigs])
      (simp_all add: ModbusRtuClient_def ModbusDataArea_def scripted_socket_def)
  with p show ?thesis by (auto simp: Let_def)
qed

end
