(* ===== verification/ModbusHandlersSpec.thy ===== *)
theory ModbusHandlersSpec
  imports IeeeFloats ModbusRtuClientSpec
begin

text \<open>
  What the Modbus master drivers promise a host: the number it writes with a data type and a byte
  order is the number it reads with them, over TCP from the modelled server and on a serial line,
  there for 64-bit unsigned numbers as decimal text. A client's timeout is the one of the command
  that opened the connection.
\<close>

section \<open>Numbers in registers\<close>

text \<open>What a written number is read as.\<close>

definition number_json :: "floats \<Rightarrow> data_type \<Rightarrow> rat \<Rightarrow> json" where
  "number_json fl dt v =
     (case dt of
        DtFloat32 \<Rightarrow> fl_json32 fl (fl_bits32 fl v)
      | DtFloat64 \<Rightarrow> fl_json64 fl (fl_bits64 fl v)
      | DtUInt64 \<Rightarrow> jint (if truncate_rat v < 2 ^ 63 then truncate_rat v else truncate_rat v - 2 ^ 64)
      | _ \<Rightarrow> jint (truncate_rat v))"

text \<open>
  The same as a relation on numbers, for the formats of the drivers: an integer type drops the
  fraction, and 64 unsigned bits come back as a signed number; a \<open>double\<close> is exact; a \<open>float\<close> is
  exact for the values it has and otherwise within a relative error of 2^-24 (for the smallest
  numbers, an absolute one of 2^-150).
\<close>

definition number_reads_back :: "data_type \<Rightarrow> rat \<Rightarrow> rat \<Rightarrow> bool" where
  "number_reads_back dt v r =
     (case dt of
        DtFloat64 \<Rightarrow> r = v
      | DtFloat32 \<Rightarrow> (float_value single_format v \<longrightarrow> r = v) \<and> \<bar>r - v\<bar> \<le> max (\<bar>v\<bar> / 2 ^ 24) (1 / 2 ^ 150)
      | DtUInt64 \<Rightarrow> r = of_int (if truncate_rat v < 2 ^ 63 then truncate_rat v else truncate_rat v - 2 ^ 64)
      | _ \<Rightarrow> r = of_int (truncate_rat v))"

definition in_float_range :: "data_type \<Rightarrow> rat \<Rightarrow> bool" where
  "in_float_range dt v = (dt = DtFloat32 \<longrightarrow> \<bar>v\<bar> \<le> max_float single_format)"

lemma number_json_read:
  assumes "float_value double_format v" and "in_float_range dt v"
  shows "\<exists>r. number_json ieee_floats dt v = JNum r \<and> number_reads_back dt v r"
proof (cases dt)
  case DtFloat32
  then have "\<bar>v\<bar> \<le> max_float single_format" using assms(2) by (simp add: in_float_range_def)
  moreover have "\<bar>v - v\<bar> \<le> max (\<bar>v\<bar> / 2 ^ 24) (1 / 2 ^ 150)" by (simp add: le_max_iff_disj)
  ultimately show ?thesis
    using float_roundtrip [of single_format v] DtFloat32
    by (auto simp: number_json_def number_reads_back_def ieee_json_bits)
next
  case DtFloat64
  then show ?thesis
    using float_roundtrip(1) [of double_format v] assms(1)
    by (simp add: number_json_def number_reads_back_def ieee_json_bits)
qed (simp_all add: number_json_def number_reads_back_def)

lemma cast_int_Some: "cast_int lo hi v = Some i \<longleftrightarrow> i = truncate_rat v \<and> lo \<le> i \<and> i \<le> hi"
  by (auto simp: cast_int_def)

lemma sint_of_range:
  "- (2 ^ 15) \<le> i \<Longrightarrow> i < 2 ^ 15 \<Longrightarrow> sint (word_of_int i :: u16) = i"
  "- (2 ^ 31) \<le> i \<Longrightarrow> i < 2 ^ 31 \<Longrightarrow> sint (word_of_int i :: u32) = i"
  "- (2 ^ 63) \<le> i \<Longrightarrow> i < 2 ^ 63 \<Longrightarrow> sint (word_of_int i :: u64) = i"
  by (simp_all add: signed_of_int signed_take_bit_int_eq_self)

lemma uint_of_range:
  "0 \<le> i \<Longrightarrow> i < 2 ^ 16 \<Longrightarrow> uint (word_of_int i :: u16) = i"
  "0 \<le> i \<Longrightarrow> i < 2 ^ 32 \<Longrightarrow> uint (word_of_int i :: u32) = i"
  "0 \<le> i \<Longrightarrow> i < 2 ^ 64 \<Longrightarrow> uint (word_of_int i :: u64) = i"
  by (simp_all add: unsigned_of_int take_bit_int_eq_self)

lemma sint_of_large: "2 ^ 63 \<le> i \<Longrightarrow> i < 2 ^ 64 \<Longrightarrow> sint (word_of_int i :: u64) = i - 2 ^ 64"
proof -
  assume i: "2 ^ 63 \<le> i" "i < 2 ^ 64"
  have "(word_of_int i :: u64) = word_of_int (i - 2 ^ 64)"
    by (simp add: word_of_int_eq_iff take_bit_eq_mod)
  then have "sint (word_of_int i :: u64) = sint (word_of_int (i - 2 ^ 64) :: u64)" by (rule arg_cong)
  also have "\<dots> = i - 2 ^ 64" using i by (intro sint_of_range(3)) simp_all
  finally show ?thesis .
qed

lemma length_from:
  "length (fromUInt32 ord w) = 2" "length (fromUInt64 ord x) = 4"
  by (simp_all add: fromUInt32_def fromUInt64_def splitRegisters64_def Let_def split_beta)

lemma number_registers_length:
  "number_registers fl dt ord v = Some rs \<Longrightarrow> length rs = registersPerType dt"
  by (cases dt) (auto simp: number_registers_def fromInt16_def fromUInt16_def fromInt32_def fromInt64_def
      fromFloat32_def fromFloat64_def length_from)

lemma number_registers_back:
  assumes "number_registers fl dt ord v = Some rs"
  shows "register_value fl dt ord rs 0 = number_json fl dt v"
proof (cases dt)
  case DtUInt64
  then have "rs = fromUInt64 ord (word_of_int (truncate_rat v))" "0 \<le> truncate_rat v" "truncate_rat v < 2 ^ 64"
    using assms by (auto simp: number_registers_def cast_int_Some)
  with DtUInt64 sint_of_range(3) [of "truncate_rat v"] sint_of_large [of "truncate_rat v"] show ?thesis
    by (simp add: register_value_def number_json_def toUInt64_fromUInt64 del: of_int_sint)
qed (use assms in \<open>auto simp: number_registers_def register_value_def number_json_def cast_int_Some
    fromInt16_def fromUInt16_def toInt16_def toUInt16_def toInt32_def fromInt32_def toInt64_def fromInt64_def
    toFloat32_def fromFloat32_def toFloat64_def fromFloat64_def toUInt32_fromUInt32 toUInt64_fromUInt64
    sint_of_range uint_of_range simp del: of_int_sint of_int_uint\<close>)

lemma registersToJson_one:
  assumes "length rs = registersPerType (parseDataType d)"
  shows "registersToJson value_at rs d b = [value_at (parseDataType d) (parseByteOrder b) rs 0]"
proof -
  have "0 < registersPerType dt" for dt by (cases dt) simp_all
  then show ?thesis using assms by (simp add: registersToJson_def Let_def)
qed

lemma registersPerType_range: "0 < registersPerType dt" "registersPerType dt \<le> 4"
  by (cases dt; simp)+

section \<open>The driver over TCP\<close>

definition register_answer :: "u16 list \<Rightarrow> json \<Rightarrow> message" where
  "register_answer rs v = resp_done 0 (JObj (jset ''raw'' (raw_values rs) (jset ''values'' (JArr [v]) [])))"

definition written_answer :: "nat \<Rightarrow> message" where
  "written_answer n = resp_done 0 (JObj (jset ''written'' (jint (int n)) []))"

definition param_unit :: "json_obj \<Rightarrow> byte" where
  "param_unit p = word_of_int (to_int_or 1 (jval p ''unit_id''))"

definition param_type :: "json_obj \<Rightarrow> data_type" where
  "param_type p = parseDataType (to_string_or ''uint16'' (jval p ''data_type''))"

text \<open>A command on a connection that is open is run by its client as it is.\<close>

lemma handle_connected:
  assumes "conn_params p = (key, timeout)" and "m key = Some c" and "sk_connected (net key) w" and "cmd \<noteq> ''status''"
    and "modbus_command api fl (net key) cmd p (ca_setUnitId api (param_unit p) c) w = (Some msg, c', w')"
  shows "modbus_handle api fl net (m, w) cmd (JObj p) = Some ([msg], m(key \<mapsto> c'), w')"
  using assms by (simp add: modbus_handle_def manager_getClient_def param_unit_def)

lemma pair_live_connected:
  "pair_live sock split_up rounds_of (c, s) \<Longrightarrow> sk_connected (tcp_link sock split_up rounds_of) s"
  by (auto simp: pair_live_def link_ready_def tcp_link_def om_has_def)

lemma ok_result_success [simp]:
  "mr_success ok_result" "mr_success (ok_result\<lparr>mr_registers := rs\<rparr>)" "mr_success (ok_result\<lparr>mr_coils := cs\<rparr>)"
  by (simp_all add: ok_result_def)

lemma write_number_command:
  assumes "pair_live sock split_up rounds_of (c, s)" and "param_registers fl p = Some rs"
    and "unat (param_addr p) + length rs \<le> length (holdingRegisters (pair_area (c, s)))"
  shows "\<exists>c' s'. modbus_command tcp_api fl (tcp_link sock split_up rounds_of) ''write_holding_registers'' p c s
      = (Some (written_answer (length rs)), c', s')
    \<and> pair_live sock split_up rounds_of (c', s') \<and> mc_unitId c' = mc_unitId c
    \<and> holdingRegisters (pair_area (c', s')) = write_from (unat (param_addr p)) rs (holdingRegisters (pair_area (c, s)))"
proof -
  have "length rs = registersPerType (param_type p)"
    using assms(2) number_registers_length by (auto simp: param_registers_def param_type_def)
  then have "0 < length rs" "length rs \<le> 123"
    using registersPerType_range [of "param_type p"] by simp_all
  from pair_put_words [OF assms(1) this assms(3)] show ?thesis
    by (auto simp: modbus_command_def cmd_write_holding_registers_def assms(2) tcp_api_def on_pair_def
        respond_def reply_result_def written_def written_answer_def)
qed

lemma read_number_command:
  assumes "pair_live sock split_up rounds_of (c, s)" and "param_registers fl p = Some rs"
    and "param_count p = of_nat (length rs)"
    and "unat (param_addr p) + length rs \<le> length (holdingRegisters (pair_area (c, s)))"
    and "take (length rs) (drop (unat (param_addr p)) (holdingRegisters (pair_area (c, s)))) = rs"
  shows "\<exists>c' s'. modbus_command tcp_api fl (tcp_link sock split_up rounds_of) ''read_holding_registers'' p c s
      = (Some (register_answer rs (number_json fl (param_type p) (to_double (jval p ''value'')))), c', s')"
proof -
  have num: "number_registers fl (param_type p) (parseByteOrder (to_string_or ''big_endian'' (jval p ''byte_order'')))
      (to_double (jval p ''value'')) = Some rs"
    using assms(2) by (simp add: param_registers_def param_type_def)
  then have len: "length rs = registersPerType (param_type p)" by (rule number_registers_length)
  then have "0 < length rs" "length rs \<le> 125"
    using registersPerType_range [of "param_type p"] by simp_all
  from pair_get_words [OF assms(1) this assms(4)] obtain c' s' where
    "readHoldingRegisters (tcp_link sock split_up rounds_of) (param_addr p) (of_nat (length rs)) c s
      = (Some (ok_result\<lparr>mr_registers := rs\<rparr>), c', s')"
    by (auto simp: on_pair_def assms(5))
  then show ?thesis
    using registersToJson_one [of rs "to_string_or ''uint16'' (jval p ''data_type'')"] len
      number_registers_back [OF num]
    by (simp add: modbus_command_def cmd_read_holding_registers_def assms(3) tcp_api_def respond_def
        reply_result_def register_values_def register_answer_def param_type_def Let_def)
qed

text \<open>C9: The number a host writes through the TCP driver is the number it reads back through it,
  for every data type and byte order, end to end: the command's value is spread over registers, goes
  as a Modbus request over a network that may cut it anywhere to the server of this repository, is
  stored in the unit's table, and comes back as a request of its own, decoded to one value. For the
  integer types this is the number written with its fraction dropped, except that a 64-bit unsigned
  number of 2^63 or more comes back negative, 2^64 less; for float64 it is exactly the number
  written; for float32 it is the number written when that is a float, and otherwise within a
  relative error of 2^-24 (for the smallest numbers, within 2^-150). The connection is open and its
  answers arrive in time. The number written is a double, as toDouble gives it (an integer above
  2^53 that is none is outside the theorem), one whose conversion to the type is defined (for
  float32, at most the largest float); the registers lie in the unit's table, and the read asks for
  as many as the type has.\<close>

theorem number_written_is_number_read:
  assumes "conn_params p = (key, timeout)" and "m key = Some c0" and "net key = tcp_link sock split_up rounds_of"
    and "pair_live sock split_up rounds_of (setUnitId (param_unit p) c0, s)"
    and "float_value double_format (to_double (jval p ''value''))"
    and "in_float_range (param_type p) (to_double (jval p ''value''))"
    and "param_registers ieee_floats p = Some rs" and "param_count p = of_nat (length rs)"
    and "unat (param_addr p) + length rs \<le> length (holdingRegisters (pair_area (setUnitId (param_unit p) c0, s)))"
  shows "\<exists>m1 s1 m2 s2 r.
    tcp_master_handle ieee_floats net (m, s) ''write_holding_registers'' (JObj p)
      = Some ([written_answer (length rs)], m1, s1)
    \<and> tcp_master_handle ieee_floats net (m1, s1) ''read_holding_registers'' (JObj p)
      = Some ([register_answer rs (JNum r)], m2, s2)
    \<and> number_reads_back (param_type p) (to_double (jval p ''value'')) r"
proof -
  let ?c = "setUnitId (param_unit p) c0"
  obtain c1 s1 where w: "modbus_command tcp_api ieee_floats (net key) ''write_holding_registers'' p ?c s
        = (Some (written_answer (length rs)), c1, s1)"
      "pair_live sock split_up rounds_of (c1, s1)" "mc_unitId c1 = param_unit p"
      "holdingRegisters (pair_area (c1, s1)) = write_from (unat (param_addr p)) rs (holdingRegisters (pair_area (?c, s)))"
    using write_number_command [OF assms(4,7,9)] assms(3) by (auto simp: setUnitId_def)
  have set_api: "ca_setUnitId (tcp_api :: (modbus_client, tcp_server) client_api) = setUnitId" by (simp add: tcp_api_def)
  have put: "tcp_master_handle ieee_floats net (m, s) ''write_holding_registers'' (JObj p)
      = Some ([written_answer (length rs)], m(key \<mapsto> c1), s1)"
    using pair_live_connected [OF assms(4)] w(1) assms(1,3)
    unfolding tcp_master_handle_def
    by (intro handle_connected [where timeout = timeout and key = key and c = c0 and m = m]) (simp_all add: set_api assms(2))
  have "setUnitId (param_unit p) c1 = c1" using w(3) by (simp add: setUnitId_def)
  moreover obtain c2 s2 where "modbus_command tcp_api ieee_floats (net key) ''read_holding_registers'' p c1 s1
      = (Some (register_answer rs (number_json ieee_floats (param_type p) (to_double (jval p ''value'')))), c2, s2)"
    using read_number_command [OF w(2) assms(7,8)] assms(3,9) by (auto simp: w(4) slice_write_from)
  ultimately have "tcp_master_handle ieee_floats net (m(key \<mapsto> c1), s1) ''read_holding_registers'' (JObj p)
      = Some ([register_answer rs (number_json ieee_floats (param_type p) (to_double (jval p ''value'')))],
          m(key \<mapsto> c1, key \<mapsto> c2), s2)"
    using pair_live_connected [OF w(2)] assms(1,3)
    unfolding tcp_master_handle_def
    by (intro handle_connected [where timeout = timeout and key = key and c = c1 and m = "m(key \<mapsto> c1)"])
      (simp_all add: set_api)
  with put number_json_read [OF assms(5,6)] show ?thesis by force
qed

definition demo_params :: json_obj where
  "demo_params = [(''address'', jint 4), (''byte_order'', JStr ''little_endian''), (''count'', jint 2),
     (''data_type'', JStr ''float32''), (''host'', JStr ''h''), (''value'', JNum (- 5 / 2))]"

lemma number_written_is_number_read_witness:
  "\<exists>rs m1 s1 m2 s2.
    tcp_master_handle ieee_floats (\<lambda>_. tcp_link 3 bytewise slow_rounds)
        ([(''h'', 502) \<mapsto> ModbusClient 3000], demo_server) ''write_holding_registers'' (JObj demo_params)
      = Some ([written_answer 2], m1, s1)
    \<and> tcp_master_handle ieee_floats (\<lambda>_. tcp_link 3 bytewise slow_rounds) (m1, s1)
        ''read_holding_registers'' (JObj demo_params)
      = Some ([register_answer rs (JNum (- 5 / 2))], m2, s2)"
proof -
  have conn: "conn_params demo_params = ((''h'', 502), 3000)"
    by (simp add: conn_params_def demo_params_def)
  have unit: "setUnitId (param_unit demo_params) (ModbusClient 3000) = ModbusClient 3000"
    by (simp add: param_unit_def demo_params_def setUnitId_def ModbusClient_def)
  have ints: "to_int_or 1 (jval demo_params ''count'') = 2" "to_int_or 0 (jval demo_params ''address'') = 4"
    by (simp_all add: demo_params_def rat_int_def in_int_def int_min_def int_max_def)
  have vtype: "param_type demo_params = DtFloat32"
    by (simp add: param_type_def demo_params_def parseDataType_def)
  have num: "to_double (jval demo_params ''value'') = - 5 / 2" by (simp add: demo_params_def)
  have single: "float_value single_format (- 5 / 2)"
    unfolding float_value_def by (rule exI [of _ 5], rule exI [of _ 148]) simp
  have double: "float_value double_format (- 5 / 2)"
    unfolding float_value_def by (rule exI [of _ 5], rule exI [of _ 1073]) simp
  have range: "in_float_range DtFloat32 (- 5 / 2)"
    using float_value_max [OF single] by (simp add: in_float_range_def)
  let ?rs = "fromFloat32 LittleEndian (fl_bits32 ieee_floats (- 5 / 2))"
  have regs: "param_registers ieee_floats demo_params = Some ?rs"
    by (simp add: param_registers_def demo_params_def parseDataType_def parseByteOrder_def number_registers_def)
  have "length ?rs = 2" by (simp add: fromFloat32_def length_from)
  with regs obtain rs where regs: "param_registers ieee_floats demo_params = Some rs" "length rs = 2" by blast
  show ?thesis
    using number_written_is_number_read [OF conn, of "[(''h'', 502) \<mapsto> ModbusClient 3000]" "ModbusClient 3000"
        "\<lambda>_. tcp_link 3 bytewise slow_rounds" 3 bytewise slow_rounds demo_server rs]
      demo_pair_live double range single
    by (simp add: unit regs vtype num demo_pair_area ModbusDataArea_def param_count_def param_addr_def ints
        number_reads_back_def) metis
qed

text \<open>A later command's timeout has no effect on a connection that is open.\<close>

lemma timeout_of_first_command:
  assumes "m key = Some c" and "sk_connected (net key) w"
  shows "manager_getClient api net key timeout m w = (Some c, m, w)"
  using assms by (simp add: manager_getClient_def)

section \<open>The driver on a serial port\<close>

lemma toULongLong_dec: "n < 2 ^ 64 \<Longrightarrow> toULongLong (dec n) = int n"
  by (simp add: toULongLong_def text_integer_dec)

definition line_params_of :: "serial_conn \<Rightarrow> string \<Rightarrow> line_params" where
  "line_params_of info port = \<lparr>lp_portName = port, lp_baudRate = sn_baudRate info, lp_dataBits = sn_dataBits info,
     lp_stopBits = sn_stopBits info, lp_parity = sn_parity info\<rparr>"

text \<open>A command on a port that is open with the same line parameters is run by its client.\<close>

lemma serial_handle_connected:
  assumes "serial_line_params p = line_params_of info port" and "m port = Some info" and "sp_isOpen sp port w"
    and "to_int_or 1 (jval p ''unit_id'') = int (unat u)" and "1 \<le> unat u" and "unat u \<le> 247"
    and "cmd \<noteq> ''status''" and "count_mismatch cmd p = None"
    and "serial_command sp fl cmd u (to_int_or 3000 (jval p ''timeout'')) p (sn_client info) w = (Some msg, w')"
  shows "serial_handle sp to_dbl fl (m, w) cmd (JObj p) = Some ([msg], m, w')"
proof -
  have "getConnection sp to_dbl (serial_line_params p) m w = (Inr (sn_client info), m, w)"
    using assms(2,3) by (simp add: assms(1) getConnection_def line_params_of_def)
  moreover have "1 \<le> int (unat u)" "int (unat u) \<le> 247" using assms(5,6) by linarith+
  ultimately show ?thesis
    using assms(4,7-9) by (simp add: serial_handle_def Let_def)
qed

lemma fromUInt64_back: "serial_register_value fl DtUInt64 ord (fromUInt64 ord w) 0 = JStr (dec (unat w))"
  by (simp add: serial_register_value_def toUInt64_fromUInt64)

text \<open>A 64-bit unsigned number crosses the serial driver exactly, in decimal text: written as a
  string of its digits with any byte order, it is spread over four registers, goes over the line
  to the server of this repository, and is read back as the same string, over the whole range from
  0 to 2^64 - 1, which no JSON number could carry.\<close>

theorem uint64_text_exact:
  assumes "serial_line_params p = line_params_of info port" and "m port = Some info"
    and "to_int_or 1 (jval p ''unit_id'') = int (unat u)" and "unat u \<le> 247"
    and "line_live split_up rounds_of u s"
    and "jval p ''data_type'' = JStr ''uint64''" and "jval p ''value'' = JStr (dec n)" and "n < 2 ^ 64"
    and "jval p ''count'' = jint 4" and "unat (param_addr p) + 4 \<le> length (holdingRegisters (serial_area u s))"
  shows "\<exists>s1 s2 raw.
    serial_handle (serial_line split_up rounds_of) to_dbl fl (m, s) ''write_holding_registers'' (JObj p)
      = Some ([written_answer 4], m, s1)
    \<and> serial_handle (serial_line split_up rounds_of) to_dbl fl (m, s1) ''read_holding_registers'' (JObj p)
      = Some ([register_answer raw (JStr (dec n))], m, s2)"
proof -
  let ?line = "serial_line split_up rounds_of" and ?t = "to_int_or 3000 (jval p ''timeout'')"
  let ?ord = "parseByteOrder (to_string_or ''big_endian'' (jval p ''byte_order''))"
  let ?rs = "fromUInt64 ?ord (of_nat n)"
  have u: "1 \<le> unat u"
    using assms(5) by (simp add: line_live_def Suc_le_eq unat_gt_0)
  have uint64: "parseDataType ''uint64'' = DtUInt64" by (simp add: parseDataType_def)
  have rs: "serial_param_registers fl p = Some ?rs"
    using toULongLong_dec [OF assms(8)]
    by (simp add: serial_param_registers_def serial_number_registers_def assms(6,7) uint64)
  have len: "length ?rs = 4" by (simp add: length_from)
  then have few: "0 < length ?rs" "length ?rs \<le> 123" "length ?rs \<le> 125" by simp_all
  have count: "to_int_or 1 (jval p ''count'') = 4" by (simp add: assms(9) rat_int_def in_int_def int_min_def int_max_def)
  have n: "unat (of_nat n :: u64) = n"
    using assms(8) by (simp add: unsigned_of_nat take_bit_nat_eq_self)
  have room: "unat (param_addr p) + length ?rs \<le> length (holdingRegisters (serial_area u s))"
    using assms(10) by (simp only: len)
  obtain s1 where s1: "serial_writeMultipleRegisters ?line u (param_addr p) ?rs ?t (sn_client info) s = (Some ok_result, s1)"
      "line_live split_up rounds_of u s1"
      "holdingRegisters (serial_area u s1) = write_from (unat (param_addr p)) ?rs (holdingRegisters (serial_area u s))"
    using serial_device.put_words_law [OF assms(5) few(1,2) room, of ?t "sn_client info"] by blast
  have same: "take (length ?rs) (drop (unat (param_addr p)) (holdingRegisters (serial_area u s1))) = ?rs"
    using room unfolding s1(3) by (rule slice_write_from)
  obtain s2 where s2: "serial_readHoldingRegisters ?line u (param_addr p) (of_nat (length ?rs)) ?t (sn_client info) s1
      = (Some (ok_result\<lparr>mr_registers := ?rs\<rparr>), s2)"
    using serial_device.get_words_law [OF s1(2) few(1,3), of "param_addr p" ?t "sn_client info"] room same
    unfolding s1(3) by auto
  have open_line: "sp_isOpen ?line port s" "sp_isOpen ?line port s1" by (simp_all add: serial_line_def)
  have "serial_command ?line fl ''write_holding_registers'' u ?t p (sn_client info) s = (Some (written_answer 4), s1)"
    using s1(1) len
    by (simp add: serial_command_def serial_write_command_def rs serial_respond_def reply_result_def written_def
        written_answer_def Let_def)
  then have put: "serial_handle ?line to_dbl fl (m, s) ''write_holding_registers'' (JObj p) = Some ([written_answer 4], m, s1)"
    using u assms(4) by (intro serial_handle_connected [where m = m and port = port and info = info, OF assms(1,2) open_line(1) assms(3)])
      (simp_all add: count_mismatch_def)
  have "serial_command ?line fl ''read_holding_registers'' u ?t p (sn_client info) s1
      = (Some (register_answer ?rs (JStr (dec n))), s2)"
    using s2 len registersToJson_one [of ?rs "''uint64''"] n
    by (simp add: serial_command_def serial_read_command_def param_count_def count serial_respond_def reply_result_def
        register_values_def register_answer_def assms(6) uint64 fromUInt64_back Let_def)
  then have "serial_handle ?line to_dbl fl (m, s1) ''read_holding_registers'' (JObj p)
      = Some ([register_answer ?rs (JStr (dec n))], m, s2)"
    using u assms(4) by (intro serial_handle_connected [where m = m and port = port and info = info, OF assms(1,2) open_line(2) assms(3)])
      (simp_all add: count_mismatch_def count assms(6) uint64 Let_def)
  with put show ?thesis by blast
qed

definition demo_line_server :: serial_server where
  "demo_line_server = \<lparr>ss_open = True, ss_buffer = [], ss_timer = False, ss_units = om_put 1 (ModbusDataArea 8) [],
     ss_written = [], ss_signals = []\<rparr>"

definition one_burst :: "bytes \<Rightarrow> bytes option list" where
  "one_burst b = [None, Some b]"

definition demo_conn :: serial_conn where
  "demo_conn = \<lparr>sn_client = \<lparr>sm_port = ''p'', sm_t35Ms = 4\<rparr>, sn_baudRate = 9600, sn_dataBits = 8,
     sn_stopBits = ''1'', sn_parity = ''none''\<rparr>"

definition demo_uint64 :: json_obj where
  "demo_uint64 = [(''address'', jint 2), (''count'', jint 4), (''data_type'', JStr ''uint64''),
     (''port_name'', JStr ''p''), (''value'', JStr (dec 18446744073709551615))]"

lemma demo_line_live: "line_live bytewise one_burst 1 demo_line_server"
proof -
  have "burst (one_burst b) b" for b
    unfolding burst_def one_burst_def
    by (rule exI [of _ 1], rule exI [of _ b], rule exI [of _ "[]"], rule exI [of _ "[]"]) simp
  then show ?thesis
    by (simp add: line_live_def in_bursts_def bytewise_whole line_ready_def demo_line_server_def om_has_def)
qed

lemma uint64_text_exact_witness:
  "\<exists>s1 s2 raw.
    serial_handle (serial_line bytewise one_burst) (\<lambda>_. 1) ieee_floats ([''p'' \<mapsto> demo_conn], demo_line_server)
        ''write_holding_registers'' (JObj demo_uint64) = Some ([written_answer 4], [''p'' \<mapsto> demo_conn], s1)
    \<and> serial_handle (serial_line bytewise one_burst) (\<lambda>_. 1) ieee_floats ([''p'' \<mapsto> demo_conn], s1)
        ''read_holding_registers'' (JObj demo_uint64)
      = Some ([register_answer raw (JStr (dec 18446744073709551615))], [''p'' \<mapsto> demo_conn], s2)"
proof (rule uint64_text_exact [OF _ _ _ _ demo_line_live])
  show "serial_line_params demo_uint64 = line_params_of demo_conn ''p''"
    by (simp add: serial_line_params_def line_params_of_def demo_conn_def demo_uint64_def)
  show "unat (param_addr demo_uint64) + 4 \<le> length (holdingRegisters (serial_area 1 demo_line_server))"
    by (simp add: param_addr_def demo_uint64_def rat_int_def in_int_def int_min_def int_max_def
        serial_area_def unit_area_def demo_line_server_def ModbusDataArea_def)
qed (simp_all add: demo_uint64_def)

end
