(* ===== verification/ModbusServerHandlers.thy ===== *)
theory ModbusServerHandlers
  imports ModbusHandlers
begin

text \<open>
  The command handlers of the Modbus server drivers (\<open>src/src/drivers/driver_modbustcp_server/handler.cpp\<close>,
  \<open>driver_modbusrtu_server/handler.cpp\<close>, which differ only in the server they use, and
  \<open>driver_modbusrtu_serial_server/handler.cpp\<close>): starting and stopping the server, adding units, reading
  and writing their tables from the host, and the events that report what masters do. Whether
  the server can listen, and with which port or error text, is an argument. What is undefined in
  the code (a unit of negative size, an integer conversion out of range) is the value \<open>None\<close>.
\<close>

section \<open>State\<close>

text \<open>\<open>sl_port\<close> is the port while the server listens. \<open>sl_portName\<close> is used on a serial line only.\<close>

record slave =
  sl_units :: units
  sl_port :: "int option"
  sl_portName :: string
  sl_eventMode :: string

definition slave_init :: slave where
  "slave_init = \<lparr>sl_units = [], sl_port = None, sl_portName = [], sl_eventMode = ''write''\<rparr>"

text \<open>The server keeps its units when it stops.\<close>

definition slave_stop :: "slave \<Rightarrow> slave" where
  "slave_stop s = s\<lparr>sl_port := None\<rparr>"

type_synonym slave_result = "(message list \<times> slave) option"

definition refuse :: "string \<Rightarrow> slave \<Rightarrow> slave_result" where
  "refuse t s = Some ([resp_error 3 (message_object t)], s)"

definition unit_list :: "units \<Rightarrow> json" where
  "unit_list m = JArr (map (\<lambda>u. jint (uint u)) (getUnits m))"

section \<open>Events\<close>

definition access_event :: "string \<Rightarrow> byte \<Rightarrow> byte \<Rightarrow> u16 \<Rightarrow> u16 \<Rightarrow> message" where
  "access_event name u fc a q =
     resp_event_named name 0
       (JObj (jset ''quantity'' (jint (uint q)) (jset ''address'' (jint (uint a))
         (jset ''function_code'' (jint (uint fc)) (jset ''unit_id'' (jint (uint u)) [])))))"

definition client_event :: "string \<Rightarrow> string \<Rightarrow> u16 \<Rightarrow> message" where
  "client_event name addr port =
     resp_event_named name 0 (JObj (jset ''port'' (jint (uint port)) (jset ''address'' (JStr addr) [])))"

fun signal_events :: "string \<Rightarrow> signal \<Rightarrow> message list" where
  "signal_events mode (ClientConnected addr port) = [client_event ''client_connected'' addr port]"
| "signal_events mode (ClientDisconnected addr port) = [client_event ''client_disconnected'' addr port]"
| "signal_events mode (DataWritten u fc a q) =
     (if mode = ''none'' \<or> mode = ''read'' then [] else [access_event ''data_written'' u fc a q])"
| "signal_events mode (DataRead u fc a q) =
     (if mode = ''none'' \<or> mode = ''write'' then [] else [access_event ''data_read'' u fc a q])"

section \<open>Starting and stopping\<close>

text \<open>The checks shared by \<open>run\<close> and \<open>start_server\<close>: the event mode and the address to listen on.\<close>

definition check_event_mode :: "json_obj \<Rightarrow> string + string" where
  "check_event_mode p =
     (let mode = jval p ''event_mode''
      in if om_has p ''event_mode'' \<and> \<not> is_string mode then Inl ''event_mode must be a string''
         else
           (let eventMode = (if om_has p ''event_mode'' then to_string mode else ''write'')
            in if eventMode \<notin> {''write'', ''all'', ''read'', ''none''}
               then Inl (''Invalid event_mode: '' @ eventMode) else Inr eventMode))"

definition check_listen_address :: "json_obj \<Rightarrow> string + string" where
  "check_listen_address p =
     (if om_has p ''listen_address'' \<and> \<not> is_string (jval p ''listen_address'')
      then Inl ''listen_address must be a string''
      else Inr (if om_has p ''listen_address'' then to_string (jval p ''listen_address'') else []))"

text \<open>One element of \<open>units\<close>: its number and size, or what is wrong with it. \<open>None\<close> where the
  conversion of the number to \<open>int\<close> is undefined.\<close>

definition unit_entry :: "nat \<Rightarrow> json \<Rightarrow> (string + int \<times> int) option" where
  "unit_entry i j =
     (let uo = to_object j; v = jval uo ''id''; label = ''units['' @ dec i @ '']: ''
      in if \<not> om_has uo ''id'' \<or> \<not> is_double v then Some (Inl (label @ ''missing or invalid '' @ [CHR 0x27] @ ''id'' @ [CHR 0x27]))
         else if to_double v \<noteq> of_int \<lfloor>to_double v\<rfloor> then Some (Inl (label @ ''id must be an integer''))
         else
           (case cast_int int_min int_max (to_double v) of
              None \<Rightarrow> None
            | Some uid \<Rightarrow>
                if uid < 1 \<or> uid > 247
                then Some (Inl (label @ ''id '' @ dec_int uid @ '' out of range [1,247]''))
                else Some (Inr (uid, to_int_or 10000 (jval uo ''size'')))))"

text \<open>The loop over \<open>units\<close>: the numbers added, or the error that stopped it, and the units.\<close>

fun add_units :: "nat \<Rightarrow> json list \<Rightarrow> units \<Rightarrow> ((string + int list) \<times> units) option" where
  "add_units i [] m = Some (Inr [], m)"
| "add_units i (j # js) m =
     (case unit_entry i j of
        None \<Rightarrow> None
      | Some (Inl e) \<Rightarrow> Some (Inl e, m)
      | Some (Inr (uid, sz)) \<Rightarrow>
          if hasUnit (word_of_int uid) m
          then Some (Inl (''units['' @ dec i @ '']: failed to add unit '' @ dec_int uid @ '' (duplicate?)''), m)
          else if sz < 0 then None
          else
            (case add_units (Suc i) js (snd (addUnit (word_of_int uid) (nat sz) m)) of
               None \<Rightarrow> None
             | Some (Inl e, m') \<Rightarrow> Some (Inl e, m')
             | Some (Inr ids, m') \<Rightarrow> Some (Inr (uid # ids), m')))"

text \<open>The end of \<open>run\<close>, when the server listens.\<close>

definition run_units :: "json_obj \<Rightarrow> json_obj \<Rightarrow> slave \<Rightarrow> slave_result" where
  "run_units port_member p s =
     (case add_units 0 (to_array (jval p ''units'')) (sl_units s) of
        None \<Rightarrow> None
      | Some (Inl e, m) \<Rightarrow> refuse e (slave_stop (s\<lparr>sl_units := m\<rparr>))
      | Some (Inr ids, m) \<Rightarrow>
          Some ([resp_event_named ''started'' 0
                   (JObj (jset ''event_mode'' (JStr (sl_eventMode s))
                      (jset ''units'' (JArr (map jint ids)) port_member)))],
                s\<lparr>sl_units := m\<rparr>))"

definition listen_failed :: "string \<Rightarrow> int \<Rightarrow> string \<Rightarrow> message" where
  "listen_failed addr port e =
     resp_error 1 (message_object (''Failed to listen on '' @ (if addr = [] then ''0.0.0.0'' else addr)
       @ '':'' @ dec_int port @ '': '' @ e))"

text \<open>The server starts to listen: its port, or the error of the socket.\<close>

type_synonym listener = "u16 \<Rightarrow> string \<Rightarrow> string + int"

definition slave_listen :: "listener \<Rightarrow> json_obj \<Rightarrow> slave \<Rightarrow> message + slave" where
  "slave_listen listen p s =
     (if sl_port s \<noteq> None then Inl (resp_error 3 (message_object ''Server already running''))
      else
        (case check_event_mode p of
           Inl e \<Rightarrow> Inl (resp_error 3 (message_object e))
         | Inr eventMode \<Rightarrow>
             (case check_listen_address p of
                Inl e \<Rightarrow> Inl (resp_error 3 (message_object e))
              | Inr addr \<Rightarrow>
                  (let port = to_int_or 502 (jval p ''listen_port'')
                   in case listen (word_of_int port) addr of
                        Inl e \<Rightarrow> Inl (listen_failed addr port e)
                      | Inr actual \<Rightarrow> Inr (s\<lparr>sl_port := Some actual, sl_eventMode := eventMode\<rparr>)))))"

definition listening_port :: "slave \<Rightarrow> json" where
  "listening_port s = jint (case sl_port s of Some port \<Rightarrow> port | None \<Rightarrow> 0)"

definition cmd_run :: "listener \<Rightarrow> json_obj \<Rightarrow> slave \<Rightarrow> slave_result" where
  "cmd_run listen p s =
     (case slave_listen listen p s of
        Inl m \<Rightarrow> Some ([m], s)
      | Inr s' \<Rightarrow> run_units (jset ''port'' (listening_port s') []) p s')"

definition cmd_start_server :: "listener \<Rightarrow> json_obj \<Rightarrow> slave \<Rightarrow> slave_result" where
  "cmd_start_server listen p s =
     (case slave_listen listen p s of
        Inl m \<Rightarrow> Some ([m], s)
      | Inr s' \<Rightarrow>
          Some ([resp_done 0 (JObj (jset ''port'' (listening_port s') (jset ''started'' (JBool True) [])))], s'))"

definition cmd_stop_server :: "slave \<Rightarrow> slave_result" where
  "cmd_stop_server s =
     (if sl_port s = None then refuse ''Server not running'' s
      else Some ([resp_done 0 (JObj (jset ''stopped'' (JBool True) []))], slave_stop s))"

definition cmd_status :: "json_obj \<Rightarrow> slave \<Rightarrow> slave_result" where
  "cmd_status port_member s =
     Some ([resp_done 0 (JObj (jset ''units'' (unit_list (sl_units s))
        (jset ''event_mode'' (JStr (sl_eventMode s))
        (jset ''listening'' (JBool (sl_port s \<noteq> None)) (jset ''status'' (JStr ''ready'') port_member)))))], s)"

section \<open>Units\<close>

text \<open>The number is narrowed to a byte, the messages show it as it came.\<close>

definition slave_unit :: "json_obj \<Rightarrow> int" where
  "slave_unit p = to_int_or 0 (jval p ''unit_id'')"

definition cmd_add_unit :: "json_obj \<Rightarrow> slave \<Rightarrow> slave_result" where
  "cmd_add_unit p s =
     (let uid = slave_unit p; sz = to_int_or 10000 (jval p ''data_area_size'');
          u = word_of_int uid
      in if hasUnit u (sl_units s) then refuse (''Unit '' @ dec_int uid @ '' already exists'') s
         else if sz < 0 then None
         else Some ([resp_done 0 (JObj (jset ''data_area_size'' (jint sz)
                       (jset ''unit_id'' (jint uid) (jset ''added'' (JBool True) []))))],
                    s\<lparr>sl_units := snd (addUnit u (nat sz) (sl_units s))\<rparr>))"

definition unit_not_found :: "int \<Rightarrow> string" where
  "unit_not_found uid = ''Unit '' @ dec_int uid @ '' not found''"

definition cmd_remove_unit :: "json_obj \<Rightarrow> slave \<Rightarrow> slave_result" where
  "cmd_remove_unit p s =
     (let uid = slave_unit p; (ok, m) = removeUnit (word_of_int uid) (sl_units s)
      in if \<not> ok then refuse (unit_not_found uid) s
         else Some ([resp_done 0 (JObj (jset ''unit_id'' (jint uid) (jset ''removed'' (JBool True) [])))],
                    s\<lparr>sl_units := m\<rparr>))"

definition cmd_list_units :: "slave \<Rightarrow> slave_result" where
  "cmd_list_units s =
     Some ([resp_done 0 (JObj (jset ''units'' (unit_list (sl_units s)) []))], s)"

section \<open>One cell\<close>

definition address_out_of_range :: "int \<Rightarrow> string" where
  "address_out_of_range a = ''Address '' @ dec_int a @ '' out of range''"

definition param_address :: "json_obj \<Rightarrow> int" where
  "param_address p = to_int_or 0 (jval p ''address'')"

definition set_cell :: "(units \<Rightarrow> bool \<times> units) \<Rightarrow> json_obj \<Rightarrow> slave \<Rightarrow> slave_result" where
  "set_cell setter p s =
     (let (ok, m) = setter (sl_units s)
      in if \<not> ok then refuse (address_out_of_range (param_address p)) s
         else Some ([resp_done 0 (JObj (jset ''written'' (JBool True) []))], s\<lparr>sl_units := m\<rparr>))"

definition get_cell :: "('v \<Rightarrow> json) \<Rightarrow> 'v option \<Rightarrow> json_obj \<Rightarrow> slave \<Rightarrow> slave_result" where
  "get_cell enc cell p s =
     (case cell of
        None \<Rightarrow> refuse (address_out_of_range (param_address p)) s
      | Some v \<Rightarrow> Some ([resp_done 0 (JObj (jset ''value'' (enc v) []))], s))"

definition cmd_cell :: "byte \<Rightarrow> string \<Rightarrow> json_obj \<Rightarrow> slave \<Rightarrow> slave_result" where
  "cmd_cell u cmd p s =
     (let a = word_of_int (param_address p); flag = to_bool_or False (jval p ''value'');
          word = word_of_int (to_int_or 0 (jval p ''value'')); m = sl_units s
      in if cmd = ''set_coil'' then set_cell (setCoil u a flag) p s
         else if cmd = ''get_coil'' then get_cell JBool (getCoil u a m) p s
         else if cmd = ''set_discrete_input'' then set_cell (setDiscreteInput u a flag) p s
         else if cmd = ''get_discrete_input'' then get_cell JBool (getDiscreteInput u a m) p s
         else if cmd = ''set_holding_register'' then set_cell (setHoldingRegister u a word) p s
         else if cmd = ''get_holding_register'' then get_cell (\<lambda>v. jint (uint v)) (getHoldingRegister u a m) p s
         else if cmd = ''set_input_register'' then set_cell (setInputRegister u a word) p s
         else get_cell (\<lambda>v. jint (uint v)) (getInputRegister u a m) p s)"

section \<open>Many registers\<close>

definition param_data_type :: "json_obj \<Rightarrow> string" where
  "param_data_type p = to_string_or ''uint16'' (jval p ''data_type'')"

definition param_byte_order :: "json_obj \<Rightarrow> string" where
  "param_byte_order p = to_string_or ''big_endian'' (jval p ''byte_order'')"

definition set_area :: "string \<Rightarrow> byte \<Rightarrow> u16 \<Rightarrow> u16 \<Rightarrow> units \<Rightarrow> bool \<times> units" where
  "set_area area u a v m =
     (if area = ''input'' then setInputRegister u a v m else setHoldingRegister u a v m)"

definition get_area :: "string \<Rightarrow> byte \<Rightarrow> u16 \<Rightarrow> units \<Rightarrow> u16 option" where
  "get_area area u a m = (if area = ''input'' then getInputRegister u a m else getHoldingRegister u a m)"

text \<open>The registers of all values, in the order of the values.\<close>

fun values_registers :: "(json \<Rightarrow> u16 list option) \<Rightarrow> json list \<Rightarrow> u16 list option" where
  "values_registers enc [] = Some []"
| "values_registers enc (v # vs) =
     (case enc v of
        None \<Rightarrow> None
      | Some r \<Rightarrow> map_option (\<lambda>rs. r @ rs) (values_registers enc vs))"

text \<open>The loops. The address is computed at the width of \<open>int\<close> and narrowed at the call, so it
  starts again at 0 after 65535; the error shows it before the narrowing. What was written before
  an error stays written.\<close>

fun set_batch :: "string \<Rightarrow> byte \<Rightarrow> int \<Rightarrow> u16 list \<Rightarrow> units \<Rightarrow> int option \<times> units" where
  "set_batch area u a [] m = (None, m)"
| "set_batch area u a (r # rs) m =
     (let (ok, m') = set_area area u (word_of_int a) r m
      in if ok then set_batch area u (a + 1) rs m' else (Some a, m'))"

fun get_batch :: "string \<Rightarrow> byte \<Rightarrow> int \<Rightarrow> nat \<Rightarrow> units \<Rightarrow> int + u16 list" where
  "get_batch area u a 0 m = Inr []"
| "get_batch area u a (Suc n) m =
     (case get_area area u (word_of_int a) m of
        None \<Rightarrow> Inl a
      | Some v \<Rightarrow> (case get_batch area u (a + 1) n m of Inl e \<Rightarrow> Inl e | Inr vs \<Rightarrow> Inr (v # vs)))"

type_synonym value_encoder = "data_type \<Rightarrow> byte_order \<Rightarrow> json \<Rightarrow> u16 list option"

type_synonym value_decoder = "data_type \<Rightarrow> byte_order \<Rightarrow> u16 list \<Rightarrow> nat \<Rightarrow> json"

definition param_u16 :: "json_obj \<Rightarrow> int" where
  "param_u16 p = uint (word_of_int (param_address p) :: u16)"

definition cmd_set_registers_batch :: "value_encoder \<Rightarrow> byte \<Rightarrow> json_obj \<Rightarrow> slave \<Rightarrow> slave_result" where
  "cmd_set_registers_batch enc u p s =
     (let area = to_string_or ''holding'' (jval p ''area'');
          ord = parseByteOrder (param_byte_order p); dt = parseDataType (param_data_type p)
      in case values_registers (enc dt ord) (to_array (jval p ''values'')) of
           None \<Rightarrow> None
         | Some regs \<Rightarrow>
             (case set_batch area u (param_u16 p) regs (sl_units s) of
                (Some a, m) \<Rightarrow> refuse (address_out_of_range a) (s\<lparr>sl_units := m\<rparr>)
              | (None, m) \<Rightarrow>
                  Some ([resp_done 0 (JObj (jset ''written'' (jint (int (length regs))) []))],
                        s\<lparr>sl_units := m\<rparr>)))"

definition cmd_get_registers_batch :: "value_decoder \<Rightarrow> byte \<Rightarrow> json_obj \<Rightarrow> slave \<Rightarrow> slave_result" where
  "cmd_get_registers_batch value_at u p s =
     (let area = to_string_or ''holding'' (jval p ''area''); count = to_int_or 0 (jval p ''count'');
          step = int (registersPerType (parseDataType (param_data_type p)))
      in if count mod step \<noteq> 0
         then refuse (''count '' @ dec_int count @ '' is not a multiple of '' @ dec_int step
                @ '' registers per '' @ param_data_type p) s
         else
           (case get_batch area u (param_u16 p) (nat count) (sl_units s) of
              Inl a \<Rightarrow> refuse (address_out_of_range a) s
            | Inr raw \<Rightarrow>
                Some ([resp_done 0 (JObj (jset ''raw'' (raw_values raw)
                   (jset ''values'' (JArr (registersToJson value_at raw (param_data_type p)
                      (param_byte_order p))) [])))], s)))"

text \<open>The commands after the check of the unit.\<close>

definition data_command ::
  "value_encoder \<Rightarrow> value_decoder \<Rightarrow> string \<Rightarrow> json_obj \<Rightarrow> slave \<Rightarrow> slave_result" where
  "data_command enc value_at cmd p s =
     (let u = word_of_int (slave_unit p)
      in if \<not> hasUnit u (sl_units s) then refuse (unit_not_found (slave_unit p)) s
         else if cmd \<in> {''set_coil'', ''get_coil'', ''set_discrete_input'', ''get_discrete_input'',
                   ''set_holding_register'', ''get_holding_register'', ''set_input_register'',
                   ''get_input_register''}
         then cmd_cell u cmd p s
         else if cmd = ''set_registers_batch'' then cmd_set_registers_batch enc u p s
         else if cmd = ''get_registers_batch'' then cmd_get_registers_batch value_at u p s
         else Some ([resp_error 404 (message_object (''Unknown command: '' @ cmd))], s))"

definition unit_command ::
  "value_encoder \<Rightarrow> value_decoder \<Rightarrow> string \<Rightarrow> json_obj \<Rightarrow> slave \<Rightarrow> slave_result" where
  "unit_command enc value_at cmd p s =
     (if cmd = ''stop_server'' then cmd_stop_server s
      else if cmd = ''add_unit'' then cmd_add_unit p s
      else if cmd = ''remove_unit'' then cmd_remove_unit p s
      else if cmd = ''list_units'' then cmd_list_units s
      else data_command enc value_at cmd p s)"

section \<open>The handlers\<close>

definition tcp_slave_handle :: "floats \<Rightarrow> listener \<Rightarrow> slave \<Rightarrow> string \<Rightarrow> json \<Rightarrow> slave_result" where
  "tcp_slave_handle fl listen s cmd data =
     (let p = to_object data
      in if cmd = ''status'' then cmd_status (jset ''port'' (listening_port s) []) s
         else if cmd = ''run'' then cmd_run listen p s
         else if cmd = ''start_server'' then cmd_start_server listen p s
         else unit_command (serial_number_registers fl) (serial_register_value fl) cmd p s)"

text \<open>On a serial line the server opens a port instead. Its name is the one the port reports once it is
  open, and empty while it is closed.\<close>

type_synonym port_opener = "line_params \<Rightarrow> string option"

definition open_port_member :: "slave \<Rightarrow> json_obj" where
  "open_port_member s = jset ''port_name'' (JStr (if sl_port s \<noteq> None then sl_portName s else [])) []"

definition serial_slave_open :: "port_opener \<Rightarrow> json_obj \<Rightarrow> slave \<Rightarrow> message + slave" where
  "serial_slave_open opener p s =
     (if sl_port s \<noteq> None then Inl (resp_error 3 (message_object ''Server already running''))
      else
        (case check_event_mode p of
           Inl e \<Rightarrow> Inl (resp_error 3 (message_object e))
         | Inr eventMode \<Rightarrow>
             (let lp = serial_line_params p
              in case opener lp of
                   None \<Rightarrow> Inl (resp_error 1 (message_object (''Failed to open serial port '' @ lp_portName lp)))
                 | Some name \<Rightarrow>
                     Inr (s\<lparr>sl_port := Some 0, sl_portName := name, sl_eventMode := eventMode\<rparr>))))"

definition cmd_run_serial :: "port_opener \<Rightarrow> json_obj \<Rightarrow> slave \<Rightarrow> slave_result" where
  "cmd_run_serial opener p s =
     (case serial_slave_open opener p s of
        Inl m \<Rightarrow> Some ([m], s)
      | Inr s' \<Rightarrow> run_units (open_port_member s') p s')"

definition cmd_start_server_serial :: "port_opener \<Rightarrow> json_obj \<Rightarrow> slave \<Rightarrow> slave_result" where
  "cmd_start_server_serial opener p s =
     (case serial_slave_open opener p s of
        Inl m \<Rightarrow> Some ([m], s)
      | Inr s' \<Rightarrow> Some ([resp_done 0 (JObj (jset ''started'' (JBool True) (open_port_member s')))], s'))"

definition serial_slave_handle :: "floats \<Rightarrow> port_opener \<Rightarrow> slave \<Rightarrow> string \<Rightarrow> json \<Rightarrow> slave_result" where
  "serial_slave_handle fl opener s cmd data =
     (let p = to_object data
      in if cmd = ''status'' then cmd_status (open_port_member s) s
         else if cmd = ''run'' then cmd_run_serial opener p s
         else if cmd = ''start_server'' then cmd_start_server_serial opener p s
         else unit_command (\<lambda>dt ord v. number_registers fl dt ord (to_double v)) (register_value fl) cmd p s)"

end
