(* ===== verification/ModbusServerHandlersSpec.thy ===== *)
theory ModbusServerHandlersSpec
  imports ModbusServerHandlers ModbusHandlersSpec
begin

text \<open>
  What the Modbus server drivers promise their host: the numbers it publishes with a data type and
  a byte order are the numbers a master driver reads with them over the network, and a batch is
  stored whole. Two things fail: a batch that goes past address 65535 goes on at 0, and a \<open>run\<close>
  that is refused for a bad unit keeps the units before it, which refuses the corrected \<open>run\<close>.
\<close>

section \<open>Values laid out in registers\<close>

lemma register_value_local:
  assumes "length rs = registersPerType dt"
  shows "register_value fl dt ord (pre @ rs @ post) (length pre) = register_value fl dt ord rs 0"
  using assms
  by (cases dt) (simp_all add: register_value_def toInt16_def toUInt16_def toInt32_def toUInt32_def toInt64_def
      toUInt64_def toFloat32_def toFloat64_def nth_append numeral_2_eq_2 numeral_3_eq_3)

lemma values_registers_concat:
  "values_registers enc vs = Some regs \<Longrightarrow>
    \<exists>rss. regs = concat rss \<and> list_all2 (\<lambda>v rs. enc v = Some rs) vs rss"
proof (induction vs arbitrary: regs)
  case (Cons v vs)
  then obtain r rs where "enc v = Some r" "values_registers enc vs = Some rs" "regs = r @ rs"
    by (auto split: option.splits)
  moreover from Cons.IH [OF this(2)] obtain rss where
    "rs = concat rss" "list_all2 (\<lambda>v rs. enc v = Some rs) vs rss" by blast
  ultimately show ?case by (intro exI [of _ "r # rss"]) simp
qed simp

lemma registersToJson_concat:
  assumes "\<And>rs. rs \<in> set rss \<Longrightarrow> length rs = registersPerType (parseDataType d)"
  shows "registersToJson (register_value fl) (concat rss) d b
    = map (\<lambda>rs. register_value fl (parseDataType d) (parseByteOrder b) rs 0) rss"
proof -
  let ?n = "registersPerType (parseDataType d)"
  have len: "length (concat rs) = length rs * ?n" if "set rs \<subseteq> set rss" for rs
    using that assms by (induction rs) auto
  have "register_value fl (parseDataType d) (parseByteOrder b) (concat rss) (k * ?n)
      = register_value fl (parseDataType d) (parseByteOrder b) (rss ! k) 0" if k: "k < length rss" for k
  proof -
    have "concat rss = concat (take k rss @ rss ! k # drop (Suc k) rss)"
      by (rule arg_cong [OF id_take_nth_drop [OF k]])
    then have whole: "concat rss = concat (take k rss) @ rss ! k @ concat (drop (Suc k) rss)"
      by (simp only: concat_append concat.simps)
    have "length (concat (take k rss)) = k * ?n"
      using len [of "take k rss"] k by (auto simp: min_def dest: in_set_takeD)
    then show ?thesis
      unfolding whole using register_value_local [OF assms [OF nth_mem [OF k]], of fl _ "concat (take k rss)"]
      by (rule subst)
  qed
  moreover have "length (concat rss) div ?n = length rss"
    using len [of rss] registersPerType_range(1) [of "parseDataType d"] by (simp only: nonzero_mult_div_cancel_right subset_refl)
  ultimately show ?thesis
    unfolding registersToJson_def Let_def by (intro nth_equalityI) simp_all
qed

text \<open>What a published value, a number or the text of one, is read as over the network.\<close>

definition published_json :: "floats \<Rightarrow> data_type \<Rightarrow> json \<Rightarrow> json" where
  "published_json fl dt v =
     (if is_string v \<and> dt = DtInt64 then jint (toLongLong (to_string v))
      else if is_string v \<and> dt = DtUInt64 then jint (sint (word_of_int (toULongLong (to_string v)) :: u64))
      else number_json fl dt (to_double v))"

definition published_reads :: "data_type \<Rightarrow> json \<Rightarrow> rat \<Rightarrow> bool" where
  "published_reads dt v r =
     (if is_string v \<and> dt = DtInt64 then r = of_int (toLongLong (to_string v))
      else if is_string v \<and> dt = DtUInt64
      then r = of_int (if toULongLong (to_string v) < 2 ^ 63 then toULongLong (to_string v)
                       else toULongLong (to_string v) - 2 ^ 64)
      else number_reads_back dt (to_double v) r)"

lemma toULongLong_range: "0 \<le> toULongLong s \<and> toULongLong s < 2 ^ 64"
  by (auto simp: toULongLong_def text_integer_def Let_def split: option.split if_splits)

lemma published_json_reads:
  assumes "float_value double_format (to_double v)" and "in_float_range dt (to_double v)"
  shows "\<exists>r. published_json ieee_floats dt v = JNum r \<and> published_reads dt v r"
  using number_json_read [OF assms] toULongLong_range [of "to_string v"]
    sint_of_range(3) [of "toULongLong (to_string v)"] sint_of_large [of "toULongLong (to_string v)"]
  by (auto simp: published_json_def published_reads_def simp del: of_int_sint)

lemma published_jsons_read:
  assumes "\<And>v. v \<in> set vs \<Longrightarrow> float_value double_format (to_double v) \<and> in_float_range dt (to_double v)"
  shows "\<exists>rs. map (published_json ieee_floats dt) vs = map JNum rs \<and> list_all2 (published_reads dt) vs rs"
  using assms
proof (induction vs)
  case (Cons v vs)
  obtain rs where "map (published_json ieee_floats dt) vs = map JNum rs" "list_all2 (published_reads dt) vs rs"
    using Cons by auto
  moreover obtain r where "published_json ieee_floats dt v = JNum r" "published_reads dt v r"
    using Cons.prems published_json_reads by (metis list.set_intros(1))
  ultimately show ?case by (intro exI [of _ "r # rs"]) simp
qed simp

lemma toLongLong_range: "- (2 ^ 63) \<le> toLongLong s \<and> toLongLong s < 2 ^ 63"
  by (auto simp: toLongLong_def split: option.split)

lemma serial_number_registers_back:
  assumes "serial_number_registers fl dt ord v = Some rs"
  shows "length rs = registersPerType dt" "register_value fl dt ord rs 0 = published_json fl dt v"
  using assms number_registers_length [of fl dt ord "to_double v" rs] number_registers_back [of fl dt ord "to_double v" rs]
    toLongLong_range [of "to_string v"] sint_of_range(3) [of "toLongLong (to_string v)"]
  by (auto simp: serial_number_registers_def published_json_def register_value_def fromInt64_def toInt64_def
      length_from toUInt64_fromUInt64 simp del: of_int_sint split: if_splits)

lemma published_values_back:
  assumes "values_registers (serial_number_registers fl (parseDataType d) (parseByteOrder b)) vs = Some regs"
  shows "registersToJson (register_value fl) regs d b = map (published_json fl (parseDataType d)) vs"
proof -
  obtain rss where rss: "regs = concat rss"
      "list_all2 (\<lambda>v rs. serial_number_registers fl (parseDataType d) (parseByteOrder b) v = Some rs) vs rss"
    using values_registers_concat [OF assms] by blast
  then have "length rs = registersPerType (parseDataType d)" if "rs \<in> set rss" for rs
    using that serial_number_registers_back(1) by (fastforce simp: list_all2_conv_all_nth in_set_conv_nth)
  with rss(1) registersToJson_concat [of rss d fl b]
  have "registersToJson (register_value fl) regs d b
      = map (\<lambda>rs. register_value fl (parseDataType d) (parseByteOrder b) rs 0) rss" by blast
  also have "\<dots> = map (published_json fl (parseDataType d)) vs"
    using rss(2) serial_number_registers_back(2) by (auto simp: list_all2_conv_all_nth list_eq_iff_nth_eq)
  finally show ?thesis .
qed

section \<open>The batch loop\<close>

lemma write_from_Cons: "i < length xs \<Longrightarrow> write_from (Suc i) rs (xs[i := r]) = write_from i (r # rs) xs"
  by (simp add: write_from_def take_Suc_conv_app_nth)

lemma set_batch_holding:
  assumes "area \<noteq> ''input''" and "om_get m u = Some ar" and "0 \<le> a" and "a + int (length rs) \<le> 65536"
    and "nat a + length rs \<le> length (holdingRegisters ar)"
  shows "\<exists>m'. set_batch area u a rs m = (None, m') \<and> om_has m' u
    \<and> unit_area u m' = ar\<lparr>holdingRegisters := write_from (nat a) rs (holdingRegisters ar)\<rparr>"
  using assms
proof (induction rs arbitrary: a m ar)
  case Nil
  then show ?case by (simp add: unit_area_def om_has_def write_from_def)
next
  case (Cons r rs)
  let ?ar = "ar\<lparr>holdingRegisters := (holdingRegisters ar)[nat a := r]\<rparr>"
  have w: "unat (word_of_int a :: u16) = nat a"
    using Cons.prems of_nat_u16 [of "nat a"] by simp
  then have set: "setHoldingRegister u (word_of_int a) r m = (True, om_put u ?ar m)"
    using Cons.prems by (simp add: setHoldingRegister_def)
  have suc: "nat (a + 1) = Suc (nat a)" using Cons.prems by simp
  have "\<exists>m'. set_batch area u (a + 1) rs (om_put u ?ar m) = (None, m') \<and> om_has m' u
      \<and> unit_area u m' = ?ar\<lparr>holdingRegisters := write_from (nat (a + 1)) rs (holdingRegisters ?ar)\<rparr>"
    using Cons.prems suc by (intro Cons.IH) simp_all
  then show ?case
    using Cons.prems suc set by (simp add: set_area_def write_from_Cons)
qed

section \<open>Published numbers over the network\<close>

definition registers_answer :: "u16 list \<Rightarrow> json list \<Rightarrow> message" where
  "registers_answer rs vs = resp_done 0 (JObj (jset ''raw'' (raw_values rs) (jset ''values'' (JArr vs) [])))"

lemma read_registers_command:
  assumes "pair_live sock split_up rounds_of (c, s)" and "param_count p = of_nat n" and "0 < n" and "n \<le> 125"
    and "unat (param_addr p) + n \<le> length (holdingRegisters (pair_area (c, s)))"
    and "take n (drop (unat (param_addr p)) (holdingRegisters (pair_area (c, s)))) = rs"
  shows "\<exists>c' s'. modbus_command tcp_api fl (tcp_link sock split_up rounds_of) ''read_holding_registers'' p c s
      = (Some (registers_answer rs (registersToJson (register_value fl) rs
          (to_string_or ''uint16'' (jval p ''data_type'')) (to_string_or ''big_endian'' (jval p ''byte_order'')))), c', s')"
  using pair_get_words [OF assms(1,3-5)]
  by (auto simp: modbus_command_def cmd_read_holding_registers_def assms(2,6) tcp_api_def respond_def on_pair_def
      reply_result_def register_values_def registers_answer_def Let_def)

lemma set_registers_command:
  assumes "hasUnit (word_of_int (slave_unit p)) (sl_units sl)"
    and "values_registers (serial_number_registers fl (parseDataType (param_data_type p))
        (parseByteOrder (param_byte_order p))) (to_array (jval p ''values'')) = Some regs"
    and "set_batch (to_string_or ''holding'' (jval p ''area'')) (word_of_int (slave_unit p)) (param_u16 p) regs
        (sl_units sl) = (None, m)"
  shows "tcp_slave_handle fl listen sl ''set_registers_batch'' (JObj p)
    = Some ([written_answer (length regs)], sl\<lparr>sl_units := m\<rparr>)"
  using assms
  by (simp add: tcp_slave_handle_def unit_command_def data_command_def cmd_set_registers_batch_def
      written_answer_def Let_def)

text \<open>C11: The numbers the host of the server driver publishes are the numbers a host behind the master
  driver reads: a batch of values, given as numbers or, for the 64-bit types, as text, is spread over
  the unit's holding registers in the byte order asked, and one read of as many registers over a
  network that may cut the request anywhere gives the numbers in the same order. The batch fills
  between 1 and 125 registers (what one read can ask for), not of the input area, and ends within the
  unit's table and the 65536 addresses. Numbers are doubles whose conversion to the type is defined;
  as for C9, an integer type drops the fraction, a 64-bit unsigned value of 2^63 or more comes back
  2^64 less, float64 is exact, and float32 is exact for floats and otherwise within a relative
  error of 2^-24 (for the smallest numbers, within 2^-150). The master's connection is open and its answers
  arrive in time.\<close>

theorem published_numbers_are_read:
  assumes "values_registers (serial_number_registers ieee_floats (parseDataType (param_data_type p))
      (parseByteOrder (param_byte_order p))) (to_array (jval p ''values'')) = Some regs"
    and "to_string_or ''holding'' (jval p ''area'') \<noteq> ''input''"
    and "sl_units sl = tcp_units s" and "word_of_int (slave_unit p) = param_unit q"
    and "pair_live sock split_up rounds_of (setUnitId (param_unit q) c0, s)"
    and "param_u16 p + int (length regs) \<le> int (length (holdingRegisters (pair_area (setUnitId (param_unit q) c0, s))))"
    and "param_u16 p + int (length regs) \<le> 65536"
    and "conn_params q = (key, timeout)" and "m key = Some c0" and "net key = tcp_link sock split_up rounds_of"
    and "jval q ''address'' = jval p ''address''" and "jval q ''data_type'' = jval p ''data_type''"
    and "jval q ''byte_order'' = jval p ''byte_order''"
    and "param_count q = of_nat (length regs)" and "0 < length regs" and "length regs \<le> 125"
    and "\<And>v. v \<in> set (to_array (jval p ''values'')) \<Longrightarrow> float_value double_format (to_double v)
      \<and> in_float_range (parseDataType (param_data_type p)) (to_double v)"
  shows "\<exists>sl' m' s' rs.
    tcp_slave_handle ieee_floats listen sl ''set_registers_batch'' (JObj p) = Some ([written_answer (length regs)], sl')
    \<and> tcp_master_handle ieee_floats net (m, s\<lparr>tcp_units := sl_units sl'\<rparr>) ''read_holding_registers'' (JObj q)
      = Some ([registers_answer regs (map JNum rs)], m', s')
    \<and> list_all2 (published_reads (parseDataType (param_data_type p))) (to_array (jval p ''values'')) rs"
proof -
  let ?c = "setUnitId (param_unit q) c0" and ?u = "param_unit q"
  let ?a = "param_u16 p" and ?regs = "holdingRegisters (pair_area (setUnitId (param_unit q) c0, s))"
  have addr: "unat (param_addr q) = nat ?a" "0 \<le> ?a"
    by (simp_all add: param_addr_def param_u16_def param_address_def assms(11))
  have "om_get (tcp_units s) ?u = Some (pair_area (?c, s))"
    using pair_live_area [OF assms(5)] by (simp add: setUnitId_def)
  from set_batch_holding [OF assms(2) this addr(2) assms(7)]
  obtain m1 where m1: "set_batch (to_string_or ''holding'' (jval p ''area'')) ?u ?a regs (tcp_units s) = (None, m1)"
      "om_has m1 ?u" "holdingRegisters (unit_area ?u m1) = write_from (nat ?a) regs ?regs"
    using assms(6) addr(2) by fastforce
  have "hasUnit ?u (sl_units sl)"
    using assms(5) by (simp add: hasUnit_def assms(3) pair_live_def setUnitId_def)
  then have put: "tcp_slave_handle ieee_floats listen sl ''set_registers_batch'' (JObj p)
      = Some ([written_answer (length regs)], sl\<lparr>sl_units := m1\<rparr>)"
    using assms(1) m1(1) by (intro set_registers_command) (simp_all add: assms(3,4))
  let ?s = "s\<lparr>tcp_units := m1\<rparr>"
  have live: "pair_live sock split_up rounds_of (?c, ?s)"
    using assms(5) m1(2) by (simp add: pair_live_def link_ready_def setUnitId_def)
  have area: "holdingRegisters (pair_area (?c, ?s)) = write_from (nat ?a) regs ?regs"
    using m1(3) by (simp add: pair_area_def setUnitId_def)
  have fits: "nat ?a + length regs \<le> length ?regs" using assms(6) addr(2) by linarith
  obtain c' s' where "modbus_command tcp_api ieee_floats (net key) ''read_holding_registers'' q ?c ?s
      = (Some (registers_answer regs (registersToJson (register_value ieee_floats) regs
          (param_data_type p) (param_byte_order p))), c', s')"
    using read_registers_command [OF live assms(14-16), where fl = ieee_floats and rs = regs] fits
    by (auto simp: addr area slice_write_from assms(10,12,13) param_data_type_def param_byte_order_def)
  then have "tcp_master_handle ieee_floats net (m, ?s) ''read_holding_registers'' (JObj q)
      = Some ([registers_answer regs (map (published_json ieee_floats (parseDataType (param_data_type p)))
          (to_array (jval p ''values'')))], m(key \<mapsto> c'), s')"
    using pair_live_connected [OF live] assms(8,9)
    unfolding tcp_master_handle_def published_values_back [OF assms(1)]
    by (intro handle_connected) (simp_all add: tcp_api_def assms(10))
  with put published_jsons_read [OF assms(17)] show ?thesis by fastforce
qed

definition demo_batch :: json_obj where
  "demo_batch = [(''address'', jint 4), (''byte_order'', JStr ''little_endian''),
     (''data_type'', JStr ''int32''), (''unit_id'', jint 1), (''values'', JArr [JNum (-70000), JNum 5])]"

definition demo_query :: json_obj where
  "demo_query = [(''address'', jint 4), (''byte_order'', JStr ''little_endian''), (''count'', jint 4),
     (''data_type'', JStr ''int32''), (''host'', JStr ''h'')]"

definition demo_slave :: slave where
  "demo_slave = slave_init\<lparr>sl_units := tcp_units demo_server\<rparr>"

lemma published_numbers_are_read_witness:
  "\<exists>sl' m' s'.
    tcp_slave_handle ieee_floats (\<lambda>_ _. Inr 502) demo_slave ''set_registers_batch'' (JObj demo_batch)
      = Some ([written_answer 4], sl')
    \<and> tcp_master_handle ieee_floats (\<lambda>_. tcp_link 3 bytewise slow_rounds)
        ([(''h'', 502) \<mapsto> ModbusClient 3000], demo_server\<lparr>tcp_units := sl_units sl'\<rparr>)
        ''read_holding_registers'' (JObj demo_query)
      = Some ([registers_answer [0xEE90, 0xFFFE, 5, 0] [jint (-70000), jint 5]], m', s')"
proof -
  have conn: "conn_params demo_query = ((''h'', 502), 3000)"
    by (simp add: conn_params_def demo_query_def)
  have unit: "setUnitId (param_unit demo_query) (ModbusClient 3000) = ModbusClient 3000"
    "word_of_int (slave_unit demo_batch) = param_unit demo_query"
    by (simp_all add: param_unit_def slave_unit_def demo_batch_def demo_query_def setUnitId_def ModbusClient_def
        rat_int_def in_int_def int_min_def int_max_def)
  have ints: "to_int_or 1 (jval demo_query ''count'') = 4" "to_int_or 0 (jval demo_batch ''address'') = 4"
    by (simp_all add: demo_query_def demo_batch_def rat_int_def in_int_def int_min_def int_max_def)
  have trunc: "truncate_rat (- 70000) = - 70000" "truncate_rat 5 = 5" by (simp_all add: truncate_rat_def)
  have kind: "parseDataType (param_data_type demo_batch) = DtInt32"
      "parseByteOrder (param_byte_order demo_batch) = LittleEndian"
      "to_array (jval demo_batch ''values'') = [JNum (-70000), JNum 5]"
    by (simp_all add: param_data_type_def param_byte_order_def demo_batch_def parseDataType_def parseByteOrder_def)
  have regs: "values_registers (serial_number_registers ieee_floats DtInt32 LittleEndian) [JNum (-70000), JNum 5]
      = Some [0xEE90, 0xFFFE, 5, 0]"
    by (simp add: serial_number_registers_def number_registers_def cast_int_def trunc fromInt32_def fromUInt32_def)
  have "float_value double_format (-70000)" "float_value double_format 5"
    unfolding float_value_def
    by (rule exI [of _ 70000], rule exI [of _ 1074], simp) (rule exI [of _ 5], rule exI [of _ 1074], simp)
  then have num: "float_value double_format (to_double v) \<and> in_float_range DtInt32 (to_double v)"
    if "v \<in> set [JNum (-70000), JNum 5]" for v
    using that by (auto simp: in_float_range_def)
  have reads: "rs = [-70000, 5]" if "list_all2 (published_reads DtInt32) [JNum (-70000), JNum 5] rs" for rs
    using that by (auto simp: list_all2_Cons1 published_reads_def number_reads_back_def trunc)
  have addr: "param_u16 demo_batch = 4" by (simp add: param_u16_def param_address_def ints)
  have mem: "to_string_or ''holding'' (jval demo_batch ''area'') \<noteq> ''input''"
      "jval demo_query ''address'' = jval demo_batch ''address''"
      "jval demo_query ''data_type'' = jval demo_batch ''data_type''"
      "jval demo_query ''byte_order'' = jval demo_batch ''byte_order''"
      "param_count demo_query = of_nat (length [0xEE90, 0xFFFE, 5, 0 :: u16])"
      "sl_units demo_slave = tcp_units demo_server"
    by (simp_all add: demo_query_def demo_batch_def demo_slave_def param_count_def ints
        rat_int_def in_int_def int_min_def int_max_def)
  have bound: "4 + int (length [0xEE90, 0xFFFE, 5, 0 :: u16])
      \<le> int (length (holdingRegisters (pair_area (ModbusClient 3000, demo_server))))"
    by (simp add: demo_pair_area ModbusDataArea_def)
  obtain sl' m' s' rs where answers:
    "tcp_slave_handle ieee_floats (\<lambda>_ _. Inr 502) demo_slave ''set_registers_batch'' (JObj demo_batch)
      = Some ([written_answer (length [0xEE90, 0xFFFE, 5, 0 :: u16])], sl')"
    "tcp_master_handle ieee_floats (\<lambda>_. tcp_link 3 bytewise slow_rounds)
        ([(''h'', 502) \<mapsto> ModbusClient 3000], demo_server\<lparr>tcp_units := sl_units sl'\<rparr>)
        ''read_holding_registers'' (JObj demo_query)
      = Some ([registers_answer [0xEE90, 0xFFFE, 5, 0] (map JNum rs)], m', s')"
    "list_all2 (published_reads DtInt32) [JNum (-70000), JNum 5] rs"
    using published_numbers_are_read [of demo_batch "[0xEE90, 0xFFFE, 5, 0]" demo_slave demo_server
        demo_query 3 bytewise slow_rounds "ModbusClient 3000" "(''h'', 502)" 3000
        "[(''h'', 502) \<mapsto> ModbusClient 3000]" "\<lambda>_. tcp_link 3 bytewise slow_rounds" "\<lambda>_ _. Inr 502",
        unfolded kind addr unit(1), OF regs mem(1) mem(6) unit(2) demo_pair_live bound _ conn _ refl mem(2-5) _ _ num]
    by auto
  from reads [OF answers(3)] answers(1,2) show ?thesis by (auto simp: numeral_eq_Suc)
qed

section \<open>A batch past the last address\<close>

text \<open>In a unit of the largest size no address is out of range, and the loop goes round.\<close>

lemma set_batch_round:
  assumes "area \<noteq> ''input''" and "om_get m u = Some ar" and "length (holdingRegisters ar) = 65536"
  shows "\<exists>m' ar'. set_batch area u a rs m = (None, m') \<and> om_get m' u = Some ar'
    \<and> holdingRegisters ar' = fold (\<lambda>i xs. xs[nat ((a + int i) mod 65536) := rs ! i]) [0..<length rs] (holdingRegisters ar)"
  using assms
proof (induction rs arbitrary: a m ar)
  case (Cons r rs)
  let ?k = "nat (a mod 65536)"
  let ?ar = "ar\<lparr>holdingRegisters := (holdingRegisters ar)[?k := r]\<rparr>"
  have w: "unat (word_of_int a :: u16) = ?k" by (simp add: unsigned_of_int take_bit_eq_mod)
  have "?k < 65536" by simp
  then have set: "setHoldingRegister u (word_of_int a) r m = (True, om_put u ?ar m)"
    using Cons.prems w by (simp add: setHoldingRegister_def)
  have "\<exists>m' ar'. set_batch area u (a + 1) rs (om_put u ?ar m) = (None, m') \<and> om_get m' u = Some ar'
      \<and> holdingRegisters ar' = fold (\<lambda>i xs. xs[nat ((a + 1 + int i) mod 65536) := rs ! i]) [0..<length rs]
          (holdingRegisters ?ar)"
    using Cons.prems by (intro Cons.IH) simp_all
  moreover have "[0..<length (r # rs)] = 0 # map Suc [0..<length rs]"
    by (simp add: upt_conv_Cons map_Suc_upt del: upt_Suc)
  then have "fold (\<lambda>i xs. xs[nat ((a + int i) mod 65536) := (r # rs) ! i]) [0..<length (r # rs)] (holdingRegisters ar)
      = fold (\<lambda>i xs. xs[nat ((a + 1 + int i) mod 65536) := rs ! i]) [0..<length rs] (holdingRegisters ?ar)"
    by (simp add: fold_map comp_def algebra_simps)
  ultimately show ?case using Cons.prems set by (simp add: set_area_def del: upt_Suc)
qed simp

text \<open>In a unit with all 65536 addresses a batch that starts at the last one is not refused as out of
  range: its second value is written to address 0, over what is there, and the host is told that
  both were written. (A unit one register smaller refuses the same batch.)\<close>

theorem batch_goes_round:
  assumes "om_get (sl_units s) (word_of_int (slave_unit p)) = Some ar" and "length (holdingRegisters ar) = 65536"
    and "to_string_or ''holding'' (jval p ''area'') \<noteq> ''input''"
    and "jval p ''address'' = jint 65535" and "param_data_type p = ''uint16''"
    and "jval p ''values'' = JArr [jint i, jint j]" and "0 \<le> i" and "i < 65536" and "0 \<le> j" and "j < 65536"
  shows "\<exists>s' ar'. tcp_slave_handle fl listen s ''set_registers_batch'' (JObj p) = Some ([written_answer 2], s')
    \<and> om_get (sl_units s') (word_of_int (slave_unit p)) = Some ar'
    \<and> holdingRegisters ar' = (holdingRegisters ar)[65535 := word_of_int i, 0 := word_of_int j]"
proof -
  let ?rs = "[word_of_int i, word_of_int j] :: u16 list"
  have regs: "values_registers (serial_number_registers fl (parseDataType (param_data_type p))
      (parseByteOrder (param_byte_order p))) (to_array (jval p ''values'')) = Some ?rs"
    using assms(7-10)
    by (simp add: assms(5,6) parseDataType_def serial_number_registers_def number_registers_def cast_int_def
        truncate_rat_def fromUInt16_def)
  have addr: "param_u16 p = 65535"
    by (simp add: param_u16_def param_address_def assms(4) rat_int_def in_int_def int_min_def int_max_def)
  obtain m' ar' where m': "set_batch (to_string_or ''holding'' (jval p ''area'')) (word_of_int (slave_unit p))
        (param_u16 p) ?rs (sl_units s) = (None, m')"
      "om_get m' (word_of_int (slave_unit p)) = Some ar'"
      "holdingRegisters ar' = (holdingRegisters ar)[65535 := word_of_int i, 0 := word_of_int j]"
    using set_batch_round [OF assms(3,1,2), of 65535 ?rs] by (auto simp: addr)
  have "hasUnit (word_of_int (slave_unit p)) (sl_units s)"
    using assms(1) by (simp add: hasUnit_def om_has_def)
  from set_registers_command [OF this regs m'(1)] m'(2,3) show ?thesis
    by (auto simp: numeral_2_eq_2)
qed

definition last_batch :: json_obj where
  "last_batch = [(''address'', jint 65535), (''unit_id'', jint 1), (''values'', JArr [jint 7, jint 8])]"

lemma batch_goes_round_witness:
  "\<exists>s' ar'. tcp_slave_handle ieee_floats (\<lambda>_ _. Inr 502) (slave_init\<lparr>sl_units := om_put 1 (ModbusDataArea 65536) []\<rparr>)
      ''set_registers_batch'' (JObj last_batch) = Some ([written_answer 2], s')
    \<and> om_get (sl_units s') 1 = Some ar' \<and> holdingRegisters ar' = (replicate 65536 0)[65535 := 7, 0 := 8]"
proof -
  have unit: "word_of_int (slave_unit last_batch) = (1 :: byte)"
    by (simp add: slave_unit_def last_batch_def rat_int_def in_int_def int_min_def int_max_def)
  have mem: "jval last_batch ''area'' = JUndefined" "jval last_batch ''address'' = jint 65535"
      "param_data_type last_batch = ''uint16''" "jval last_batch ''values'' = JArr [jint 7, jint 8]"
    by (simp_all add: last_batch_def param_data_type_def)
  show ?thesis
    using batch_goes_round [of "slave_init\<lparr>sl_units := om_put 1 (ModbusDataArea 65536) []\<rparr>" last_batch
        "ModbusDataArea 65536" 7 8 ieee_floats "\<lambda>_ _. Inr 502"]
    by (simp add: unit mem ModbusDataArea_def)
qed

section \<open>Run\<close>

definition state_error :: "string \<Rightarrow> message" where
  "state_error t = resp_error 3 (message_object t)"

lemma slave_run_command: "tcp_slave_handle fl listen s ''run'' (JObj p) = cmd_run listen p s"
  by (simp add: tcp_slave_handle_def)

text \<open>Whether the server can start does not depend on its units or on the event mode before.\<close>

lemma slave_listen_again:
  assumes "slave_listen listen p s = Inr s1"
  shows "slave_listen listen p (s\<lparr>sl_units := m, sl_port := None, sl_eventMode := e\<rparr>)
    = Inr (s1\<lparr>sl_units := m\<rparr>)" "sl_units s1 = sl_units s" "sl_port s = None"
  using assms by (auto simp: slave_listen_def Let_def split: sum.splits if_splits)

lemma slave_listen_shape:
  "slave_listen listen p s = Inr s1 \<Longrightarrow> slave_stop (s1\<lparr>sl_units := m\<rparr>)
    = s\<lparr>sl_units := m, sl_port := None, sl_eventMode := sl_eventMode s1\<rparr>"
  by (auto simp: slave_listen_def slave_stop_def Let_def intro!: slave.equality split: sum.splits if_splits)

lemma dec_zero: "dec 0 = ''0''"
  by code_simp

text \<open>A run that is refused leaves the units it had come to: when the second unit of a run is refused,
  whatever is wrong with it, the server stops and the host is told so; but when the host sends the
  run again with that unit corrected, it is refused again, now because its first unit, which the
  server still has from the refused run, looks like a duplicate.\<close>

theorem refused_run_blocks_corrected_run:
  assumes "slave_listen listen p s = Inr s1" and "slave_listen listen q s = Inr s2"
    and "to_array (jval p ''units'') = first # bad # rest" and "to_array (jval q ''units'') = first # good"
    and "unit_entry 0 first = Some (Inr (uid, sz))" and "0 \<le> sz" and "\<not> hasUnit (word_of_int uid) (sl_units s)"
    and "unit_entry 1 bad = Some (Inl e)"
  shows "\<exists>s' s''. tcp_slave_handle fl listen s ''run'' (JObj p) = Some ([state_error e], s')
    \<and> sl_port s' = None
    \<and> tcp_slave_handle fl listen s' ''run'' (JObj q)
      = Some ([state_error (''units[0]: failed to add unit '' @ dec_int uid @ '' (duplicate?)'')], s'')"
proof -
  let ?m = "snd (addUnit (word_of_int uid) (nat sz) (sl_units s))"
  have add: "add_units 0 (first # bad # rest) (sl_units s) = Some (Inl e, ?m)"
    using assms(5-8) by (simp add: numeral_1_eq_Suc_0)
  let ?s' = "s\<lparr>sl_units := ?m, sl_port := None, sl_eventMode := sl_eventMode s1\<rparr>"
  have "cmd_run listen p s = Some ([state_error e], ?s')"
    using add slave_listen_shape [OF assms(1)] slave_listen_again(2) [OF assms(1)]
    by (simp add: cmd_run_def assms(1,3) run_units_def refuse_def state_error_def)
  moreover have "hasUnit (word_of_int uid) ?m"
    using assms(7) by (simp add: hasUnit_def addUnit_def)
  then have "add_units 0 (first # good) ?m
      = Some (Inl (''units[0]: failed to add unit '' @ dec_int uid @ '' (duplicate?)''), ?m)"
    using assms(5) by (simp add: dec_zero)
  then have "\<exists>s''. cmd_run listen q ?s'
      = Some ([state_error (''units[0]: failed to add unit '' @ dec_int uid @ '' (duplicate?)'')], s'')"
    by (simp add: cmd_run_def slave_listen_again(1) [OF assms(2)] assms(4) run_units_def refuse_def state_error_def)
  ultimately show ?thesis
    unfolding slave_run_command by fastforce
qed

definition unit_json :: "int \<Rightarrow> json" where
  "unit_json i = JObj [(''id'', jint i), (''size'', jint 100)]"

definition run_json :: "int list \<Rightarrow> json_obj" where
  "run_json is = [(''listen_port'', jint 1502), (''units'', JArr (map unit_json is))]"

lemma unit_json_entry:
  "unit_entry i (unit_json 3) = Some (Inr (3, 100))"
  "unit_entry i (unit_json 300) = Some (Inl (''units['' @ dec i @ '']: id '' @ dec_int 300 @ '' out of range [1,247]''))"
  by (simp_all add: unit_entry_def unit_json_def cast_int_def truncate_rat_def rat_int_def in_int_def int_min_def int_max_def)

lemma refused_run_blocks_corrected_run_witness:
  "\<exists>s' s''. tcp_slave_handle ieee_floats (\<lambda>_ _. Inr 1502) slave_init ''run'' (JObj (run_json [3, 300]))
      = Some ([state_error (''units['' @ dec 1 @ '']: id '' @ dec_int 300 @ '' out of range [1,247]'')], s')
    \<and> sl_port s' = None
    \<and> tcp_slave_handle ieee_floats (\<lambda>_ _. Inr 1502) s' ''run'' (JObj (run_json [3, 30]))
      = Some ([state_error (''units[0]: failed to add unit '' @ dec_int 3 @ '' (duplicate?)'')], s'')"
proof -
  have "slave_listen (\<lambda>_ _. Inr 1502) (run_json is) slave_init
      = Inr (slave_init\<lparr>sl_port := Some 1502, sl_eventMode := ''write''\<rparr>)" for "is"
    by (simp add: slave_listen_def slave_init_def run_json_def check_event_mode_def check_listen_address_def)
  from refused_run_blocks_corrected_run [OF this this _ _ unit_json_entry(1) _ _ unit_json_entry(2),
      of "[3, 300]" "[]" "[3, 30]" "[unit_json 30]" ieee_floats]
  show ?thesis by (simp add: run_json_def slave_init_def hasUnit_def)
qed

text \<open>What a run that succeeds leaves.\<close>

lemma add_units_served:
  assumes "add_units i js m = Some (Inr ids, m')"
  shows "\<exists>szs. length ids = length js \<and> length szs = length js
    \<and> (\<forall>k < length js. unit_entry (i + k) (js ! k) = Some (Inr (ids ! k, szs ! k)))
    \<and> distinct (map word_of_int ids :: byte list) \<and> (\<forall>u \<in> set ids. \<not> hasUnit (word_of_int u) m)
    \<and> (\<forall>u. om_get m' u = (case map_of (zip (map word_of_int ids) szs) u of
          Some sz \<Rightarrow> Some (ModbusDataArea (nat sz)) | None \<Rightarrow> om_get m u))"
  using assms
proof (induction js arbitrary: i m ids)
  case (Cons j js)
  from Cons.prems obtain uid sz ids' where j: "unit_entry i j = Some (Inr (uid, sz))"
      "\<not> hasUnit (word_of_int uid) m" "0 \<le> sz" "ids = uid # ids'"
      "add_units (Suc i) js (snd (addUnit (word_of_int uid) (nat sz) m)) = Some (Inr ids', m')"
    by (auto split: option.splits sum.splits if_splits)
  let ?m = "om_put (word_of_int uid) (ModbusDataArea (nat sz)) m"
  have put: "snd (addUnit (word_of_int uid) (nat sz) m) = ?m"
    using j(2) by (simp add: addUnit_def hasUnit_def)
  from Cons.IH [OF j(5) [unfolded put]] obtain szs where szs: "length ids' = length js" "length szs = length js"
      "\<forall>k < length js. unit_entry (Suc i + k) (js ! k) = Some (Inr (ids' ! k, szs ! k))"
      "distinct (map word_of_int ids' :: byte list)" "\<forall>u \<in> set ids'. \<not> hasUnit (word_of_int u) ?m"
      "\<forall>u. om_get m' u = (case map_of (zip (map word_of_int ids') szs) u of
          Some sz \<Rightarrow> Some (ModbusDataArea (nat sz)) | None \<Rightarrow> om_get ?m u)"
    by auto
  have new: "word_of_int uid \<notin> (word_of_int ` set ids' :: byte set)" and
      "\<forall>u \<in> set ids'. \<not> hasUnit (word_of_int u) m"
    using szs(5) by (auto simp: hasUnit_def)
  moreover from new have first: "map_of (zip (map word_of_int ids') szs) (word_of_int uid :: byte) = None"
    using szs(1,2) by (simp add: map_of_zip_is_None)
  have "om_get m' u = (case map_of (zip (map word_of_int ids) (sz # szs)) u of
      Some sz \<Rightarrow> Some (ModbusDataArea (nat sz)) | None \<Rightarrow> om_get m u)" for u
    by (cases "u = word_of_int uid") (simp_all add: szs(6) j(4) first split: option.split)
  moreover have "\<forall>k < length (j # js). unit_entry (i + k) ((j # js) ! k) = Some (Inr (ids ! k, (sz # szs) ! k))"
    using j(1,4) szs(3) by (auto simp: less_Suc_eq_0_disj)
  ultimately show ?case
    using j(2,4) szs(1,2,4) by (intro exI [of _ "sz # szs"]) simp
qed simp

definition started_event :: "int \<Rightarrow> string \<Rightarrow> int list \<Rightarrow> message" where
  "started_event port mode ids = resp_event_named ''started'' 0
     (JObj (jset ''event_mode'' (JStr mode) (jset ''units'' (JArr (map jint ids)) (jset ''port'' (jint port) []))))"

lemma run_listening:
  assumes "cmd_run listen p s = Some (msgs, s')" and "sl_port s = None" and "sl_port s' = Some port"
  shows "\<exists>ids. add_units 0 (to_array (jval p ''units'')) (sl_units s) = Some (Inr ids, sl_units s')
    \<and> msgs = [started_event port (sl_eventMode s') ids]"
proof -
  obtain s1 where s1: "slave_listen listen p s = Inr s1"
    using assms by (auto simp: cmd_run_def split: sum.splits)
  then show ?thesis
    using assms slave_listen_again(2) [OF s1]
    by (auto simp: cmd_run_def run_units_def refuse_def slave_stop_def started_event_def listening_port_def
        split: option.splits sum.splits)
qed

text \<open>When the server listens after a run, the run was announced by one event, with the port, the event
  mode and the units asked for, in the order asked; every one of these was well formed, no two are
  the same and none was there before; each is served with four all-zero tables of the size asked
  for, and every other unit is as it was.\<close>

theorem run_serves_units:
  assumes "tcp_slave_handle fl listen s ''run'' (JObj p) = Some (msgs, s')"
    and "sl_port s = None" and "sl_port s' = Some port"
  shows "\<exists>ids szs. msgs = [started_event port (sl_eventMode s') ids]
    \<and> length ids = length szs
    \<and> (\<forall>k < length ids. unit_entry k (to_array (jval p ''units'') ! k) = Some (Inr (ids ! k, szs ! k)))
    \<and> length ids = length (to_array (jval p ''units''))
    \<and> distinct (map word_of_int ids :: byte list) \<and> (\<forall>u \<in> set ids. \<not> hasUnit (word_of_int u) (sl_units s))
    \<and> (\<forall>u. om_get (sl_units s') u = (case map_of (zip (map word_of_int ids) szs) u of
          Some sz \<Rightarrow> Some (ModbusDataArea (nat sz)) | None \<Rightarrow> om_get (sl_units s) u))"
proof -
  obtain ids where "add_units 0 (to_array (jval p ''units'')) (sl_units s) = Some (Inr ids, sl_units s')"
      "msgs = [started_event port (sl_eventMode s') ids]"
    using run_listening [OF assms(1) [unfolded slave_run_command] assms(2,3)] by blast
  moreover from add_units_served [OF this(1)] obtain szs where
    "length ids = length (to_array (jval p ''units''))" "length szs = length (to_array (jval p ''units''))"
    "\<forall>k < length ids. unit_entry k (to_array (jval p ''units'') ! k) = Some (Inr (ids ! k, szs ! k))"
    "distinct (map word_of_int ids :: byte list)" "\<forall>u \<in> set ids. \<not> hasUnit (word_of_int u) (sl_units s)"
    "\<forall>u. om_get (sl_units s') u = (case map_of (zip (map word_of_int ids) szs) u of
        Some sz \<Rightarrow> Some (ModbusDataArea (nat sz)) | None \<Rightarrow> om_get (sl_units s) u)" by auto
  ultimately show ?thesis by (intro exI [of _ ids] exI [of _ szs]) simp
qed

lemma run_serves_units_witness:
  "\<exists>s' ids. tcp_slave_handle ieee_floats (\<lambda>_ _. Inr 1502) slave_init ''run'' (JObj (run_json [3]))
      = Some ([started_event 1502 (sl_eventMode s') ids], s')
    \<and> distinct (map word_of_int ids :: byte list) \<and> om_get (sl_units s') 3 = Some (ModbusDataArea 100)"
proof -
  let ?s = "slave_init\<lparr>sl_port := Some 1502, sl_units := om_put 3 (ModbusDataArea 100) []\<rparr>"
  have run: "tcp_slave_handle ieee_floats (\<lambda>_ _. Inr 1502) slave_init ''run'' (JObj (run_json [3]))
      = Some ([started_event 1502 ''write'' [3]], ?s)"
    by (simp add: slave_run_command cmd_run_def slave_listen_def slave_init_def run_json_def check_event_mode_def
        check_listen_address_def run_units_def unit_json_entry hasUnit_def addUnit_def started_event_def listening_port_def)
  have ports: "sl_port slave_init = None" "sl_port ?s = Some 1502" by (simp_all add: slave_init_def)
  from run_serves_units [OF run ports] obtain ids where
    "[started_event 1502 ''write'' [3]] = [started_event 1502 (sl_eventMode ?s) ids]"
    "distinct (map word_of_int ids :: byte list)" by blast
  moreover have "om_get (sl_units ?s) 3 = Some (ModbusDataArea 100)" by simp
  ultimately show ?thesis using run by metis
qed

end
