(* ===== verification/CraneSim.thy ===== *)
theory CraneSim
  imports ModbusTcpSpec QtJson
begin

text \<open>
  The simulated crane (\<open>src/src/drivers/driver_plc_crane_sim/sim_device.*\<close> and the parts of
  \<open>handler.cpp\<close> that join it to the Modbus TCP server): a cylinder and a valve moved by timers,
  commanded through four holding registers, in manual mode directly and in automatic mode by a
  fixed sequence.
\<close>

section \<open>The device\<close>

datatype cylinder_state = AtBottom | MovingUp | AtTop | MovingDown | CylinderIdle

datatype valve_state = Closed | MovingOpen | Opened | MovingClose | ValveIdle

record crane_config =
  cylinderUpDelayMs :: int
  cylinderDownDelayMs :: int
  valveOpenDelayMs :: int
  valveCloseDelayMs :: int

text \<open>A single-shot timer is the interval it was started with, or not active.\<close>

record crane =
  m_cfg :: crane_config
  m_cylinderTimer :: "int option"
  m_valveTimer :: "int option"
  m_cylinderState :: cylinder_state
  m_valveState :: valve_state
  m_hrCylinder :: u16
  m_hrValve :: u16
  m_hrRun :: u16
  m_hrMode :: u16

definition SimPlcCraneDevice :: "crane_config \<Rightarrow> crane" where
  "SimPlcCraneDevice cfg = \<lparr>m_cfg = cfg, m_cylinderTimer = None, m_valveTimer = None,
     m_cylinderState = AtTop, m_valveState = Closed,
     m_hrCylinder = 0, m_hrValve = 0, m_hrRun = 0, m_hrMode = 0\<rparr>"

definition setConfig :: "crane_config \<Rightarrow> crane \<Rightarrow> crane" where
  "setConfig cfg d = d\<lparr>m_cfg := cfg\<rparr>"

datatype crane_error =
    UnsupportedAddress u16
  | InvalidCylinderAction u16
  | InvalidValveAction u16
  | InvalidRunAction u16
  | InvalidModeAction u16
  | CylinderDisabledInAuto
  | ValveDisabledInAuto

type_synonym crane_result = "(crane_error + unit) \<times> crane"

definition applyCylinderAction :: "u16 \<Rightarrow> bool \<Rightarrow> crane \<Rightarrow> crane_result" where
  "applyCylinderAction value internalAuto d0 =
     (if value > 2 then (Inl (InvalidCylinderAction value), d0)
      else if \<not> internalAuto \<and> m_hrMode d0 = 1 then (Inl CylinderDisabledInAuto, d0)
      else
        (let d = d0\<lparr>m_hrCylinder := value\<rparr>; st = m_cylinderState d
         in if value = 0 then
              (Inr (), d\<lparr>m_cylinderTimer := None,
                 m_cylinderState := (if st = MovingUp \<or> st = MovingDown then CylinderIdle else st)\<rparr>)
            else if value = 1 then
              (if st = AtTop \<or> st = MovingUp then (Inr (), d)
               else (Inr (), d\<lparr>m_cylinderState := MovingUp, m_cylinderTimer := Some (cylinderUpDelayMs (m_cfg d))\<rparr>))
            else
              (if st = AtBottom \<or> st = MovingDown then (Inr (), d)
               else (Inr (), d\<lparr>m_cylinderState := MovingDown,
                        m_cylinderTimer := Some (cylinderDownDelayMs (m_cfg d))\<rparr>))))"

definition applyValveAction :: "u16 \<Rightarrow> bool \<Rightarrow> crane \<Rightarrow> crane_result" where
  "applyValveAction value internalAuto d0 =
     (if value > 2 then (Inl (InvalidValveAction value), d0)
      else if \<not> internalAuto \<and> m_hrMode d0 = 1 then (Inl ValveDisabledInAuto, d0)
      else
        (let d = d0\<lparr>m_hrValve := value\<rparr>; st = m_valveState d
         in if value = 0 then
              (Inr (), d\<lparr>m_valveTimer := None,
                 m_valveState := (if st = MovingOpen \<or> st = MovingClose then ValveIdle else st)\<rparr>)
            else if value = 1 then
              (if st = Opened \<or> st = MovingOpen then (Inr (), d)
               else (Inr (), d\<lparr>m_valveState := MovingOpen, m_valveTimer := Some (valveOpenDelayMs (m_cfg d))\<rparr>))
            else
              (if st = Closed \<or> st = MovingClose then (Inr (), d)
               else (Inr (), d\<lparr>m_valveState := MovingClose, m_valveTimer := Some (valveCloseDelayMs (m_cfg d))\<rparr>))))"

definition stepAutoSequence :: "crane \<Rightarrow> crane_result" where
  "stepAutoSequence d =
     (if m_hrMode d \<noteq> 1 then (Inr (), d)
      else if m_valveState d \<noteq> Opened \<and> m_valveState d \<noteq> MovingOpen then applyValveAction 1 True d
      else if m_cylinderState d \<noteq> AtBottom \<and> m_cylinderState d \<noteq> MovingDown then applyCylinderAction 2 True d
      else (Inr (), d))"

definition applyRunAction :: "u16 \<Rightarrow> crane \<Rightarrow> crane_result" where
  "applyRunAction value d = (if value > 1 then (Inl (InvalidRunAction value), d) else (Inr (), d\<lparr>m_hrRun := value\<rparr>))"

definition applyModeAction :: "u16 \<Rightarrow> crane \<Rightarrow> crane_result" where
  "applyModeAction value d0 =
     (if value > 1 then (Inl (InvalidModeAction value), d0)
      else
        (let d = d0\<lparr>m_hrMode := value\<rparr>
         in if m_hrMode d = 1 then stepAutoSequence d else (Inr (), d)))"

definition writeHoldingRegister :: "u16 \<Rightarrow> u16 \<Rightarrow> crane \<Rightarrow> crane_result" where
  "writeHoldingRegister address value d =
     (if address = 0 then applyCylinderAction value False d
      else if address = 1 then applyValveAction value False d
      else if address = 2 then applyRunAction value d
      else if address = 3 then applyModeAction value d
      else (Inl (UnsupportedAddress address), d))"

definition holdingRegister :: "crane \<Rightarrow> u16 \<Rightarrow> u16" where
  "holdingRegister d address =
     (if address = 0 then m_hrCylinder d
      else if address = 1 then m_hrValve d
      else if address = 2 then m_hrRun d
      else if address = 3 then m_hrMode d
      else 0)"

definition cylinderTimeout :: "crane \<Rightarrow> crane" where
  "cylinderTimeout d0 =
     (let d = d0\<lparr>m_cylinderTimer := None\<rparr>
      in if m_cylinderState d = MovingUp then d\<lparr>m_cylinderState := AtTop\<rparr>
         else if m_cylinderState d = MovingDown then d\<lparr>m_cylinderState := AtBottom\<rparr>
         else d)"

definition valveTimeout :: "crane \<Rightarrow> crane" where
  "valveTimeout d0 =
     (let d = d0\<lparr>m_valveTimer := None\<rparr>
      in if m_valveState d = MovingOpen
         then (let d1 = d\<lparr>m_valveState := Opened\<rparr>
               in if m_hrMode d1 = 1 then snd (stepAutoSequence d1) else d1)
         else if m_valveState d = MovingClose then d\<lparr>m_valveState := Closed\<rparr>
         else d)"

definition diCylinderUp :: "crane \<Rightarrow> bool" where "diCylinderUp d = (m_cylinderState d = AtTop)"
definition diCylinderDown :: "crane \<Rightarrow> bool" where "diCylinderDown d = (m_cylinderState d = AtBottom)"
definition diValveOpen :: "crane \<Rightarrow> bool" where "diValveOpen d = (m_valveState d = Opened)"
definition diValveClosed :: "crane \<Rightarrow> bool" where "diValveClosed d = (m_valveState d = Closed)"

fun cylinderStateName :: "cylinder_state \<Rightarrow> string" where
  "cylinderStateName AtBottom = ''at_bottom''"
| "cylinderStateName MovingUp = ''moving_up''"
| "cylinderStateName AtTop = ''at_top''"
| "cylinderStateName MovingDown = ''moving_down''"
| "cylinderStateName CylinderIdle = ''idle''"

fun valveStateName :: "valve_state \<Rightarrow> string" where
  "valveStateName Closed = ''closed''"
| "valveStateName MovingOpen = ''moving_open''"
| "valveStateName Opened = ''open''"
| "valveStateName MovingClose = ''moving_close''"
| "valveStateName ValveIdle = ''idle''"

definition snapshot :: "crane \<Rightarrow> json_obj" where
  "snapshot d =
     fold (\<lambda>(k, v). jset k v)
       [(''hr_cylinder'', jint (uint (m_hrCylinder d))), (''hr_valve'', jint (uint (m_hrValve d))),
        (''hr_run'', jint (uint (m_hrRun d))), (''hr_mode'', jint (uint (m_hrMode d))),
        (''cylinder_state'', JStr (cylinderStateName (m_cylinderState d))),
        (''valve_state'', JStr (valveStateName (m_valveState d))),
        (''di_cylinder_up'', JBool (diCylinderUp d)), (''di_cylinder_down'', JBool (diCylinderDown d)),
        (''di_valve_open'', JBool (diValveOpen d)), (''di_valve_closed'', JBool (diValveClosed d))] []"

section \<open>The events of the device\<close>

text \<open>A timer's handler runs only when that timer is active.\<close>

datatype crane_event = WriteRegister u16 u16 | CylinderTimer | ValveTimer

definition enabled :: "crane \<Rightarrow> crane_event \<Rightarrow> bool" where
  "enabled d e =
     (case e of WriteRegister _ _ \<Rightarrow> True
      | CylinderTimer \<Rightarrow> m_cylinderTimer d \<noteq> None
      | ValveTimer \<Rightarrow> m_valveTimer d \<noteq> None)"

definition crane_step :: "crane \<Rightarrow> crane_event \<Rightarrow> crane" where
  "crane_step d e =
     (if \<not> enabled d e then d
      else (case e of WriteRegister a v \<Rightarrow> snd (writeHoldingRegister a v d)
            | CylinderTimer \<Rightarrow> cylinderTimeout d
            | ValveTimer \<Rightarrow> valveTimeout d))"

section \<open>The handler: device and Modbus server\<close>

record crane_handler =
  ch_running :: bool
  ch_unitId :: byte
  ch_device :: crane
  ch_units :: units
  ch_rejected :: "(u16 \<times> u16 \<times> crane_error) list"

text \<open>The register values pass through the \<open>int\<close> members of the snapshot.\<close>

definition syncDataAreaFromDevice :: "crane_handler \<Rightarrow> crane_handler" where
  "syncDataAreaFromDevice h =
     (if \<not> ch_running h then h
      else
        (let u = ch_unitId h; snap = snapshot (ch_device h);
             reg = (\<lambda>a k m. snd (setHoldingRegister u a (word_of_int (to_int_or 0 (jval snap k))) m));
             di = (\<lambda>a b m. snd (setDiscreteInput u a b m))
         in h\<lparr>ch_units :=
               di 14 (to_bool_or False (jval snap ''di_valve_closed''))
              (di 13 (to_bool_or False (jval snap ''di_valve_open''))
              (di 10 (to_bool_or False (jval snap ''di_cylinder_down''))
              (di 9 (\<not> to_bool_or False (jval snap ''di_cylinder_up''))
              (reg 3 ''hr_mode'' (reg 2 ''hr_run'' (reg 1 ''hr_valve'' (reg 0 ''hr_cylinder'' (ch_units h))))))))\<rparr>))"

text \<open>One turn of the loop over the registers written.\<close>

definition written_register :: "u16 \<Rightarrow> crane_handler \<Rightarrow> crane_handler" where
  "written_register cursor h =
     (case getHoldingRegister (ch_unitId h) cursor (ch_units h) of
        None \<Rightarrow> h
      | Some value \<Rightarrow>
          if cursor > 3 then h\<lparr>ch_rejected := ch_rejected h @ [(cursor, value, UnsupportedAddress cursor)]\<rparr>
          else
            (case writeHoldingRegister cursor value (ch_device h) of
               (Inr _, d) \<Rightarrow> h\<lparr>ch_device := d\<rparr>
             | (Inl err, d) \<Rightarrow>
                 h\<lparr>ch_device := d,
                   ch_units := snd (setHoldingRegister (ch_unitId h) cursor (holdingRegister d cursor) (ch_units h)),
                   ch_rejected := ch_rejected h @ [(cursor, value, err)]\<rparr>))"

text \<open>\<open>endAddress\<close> wraps at 16 bits, as the cast does; then the loop does not run.\<close>

definition onDataWritten :: "byte \<Rightarrow> byte \<Rightarrow> u16 \<Rightarrow> u16 \<Rightarrow> crane_handler \<Rightarrow> crane_handler" where
  "onDataWritten u functionCode address quantity h =
     (if \<not> ch_running h \<or> u \<noteq> ch_unitId h then h
      else if functionCode \<noteq> 0x06 \<and> functionCode \<noteq> 0x10 then h
      else
        (let endAddress = address + quantity
         in syncDataAreaFromDevice
              (fold (\<lambda>cursor. written_register (of_nat cursor)) [unat address..<unat endAddress] h)))"

end
