(* ===== verification/PlcCrane.thy ===== *)
theory PlcCrane
  imports ModbusHandlers CraneSim
begin

text \<open>
  The crane's two drivers. The PLC driver (\<open>src/src/drivers/driver_plc_crane/handler.cpp\<close>) turns the
  host's commands into Modbus requests: writes of the four command registers and a read of the
  inputs of the end positions. The simulation driver (\<open>driver_plc_crane_sim/handler.cpp\<close>) joins the
  simulated device to the Modbus TCP server: its command \<open>run\<close>, its refresh and heartbeat timers and
  the handlers of the server's signals.
\<close>

section \<open>The driver of the crane\<close>

text \<open>\<open>getClient\<close>: unlike the Modbus drivers this one sets the timeout of a cached client.\<close>

definition crane_getClient ::
  "(conn_key \<Rightarrow> 'w socket) \<Rightarrow> string \<Rightarrow> int \<Rightarrow> int \<Rightarrow> modbus_client connections \<Rightarrow> 'w
     \<Rightarrow> (message + modbus_client) \<times> modbus_client connections \<times> 'w" where
  "crane_getClient net host port timeout m w =
     (let key = (host, word_of_int port);
          fresh = (let (ok, w') = sk_connect (net key) timeout w
                   in if ok then (Inr (ModbusClient timeout), m(key \<mapsto> ModbusClient timeout), w')
                      else (Inl (resp_error 1 (message_object
                              (''Failed to connect to '' @ host @ '':'' @ dec_int port))), m, w'))
      in case m key of
           Some c \<Rightarrow>
             if sk_connected (net key) w
             then (let c' = c\<lparr>mc_timeout := timeout\<rparr> in (Inr c', m(key \<mapsto> c'), w))
             else fresh
         | None \<Rightarrow> fresh)"

text \<open>The check of the action or mode, before anything is sent.\<close>

definition invalid_choice :: "string \<Rightarrow> string \<Rightarrow> string \<Rightarrow> string" where
  "invalid_choice what v expected =
     ''Invalid '' @ what @ '': '' @ [CHR 0x27] @ v @ [CHR 0x27] @ '', expected: '' @ expected"

definition crane_precheck :: "string \<Rightarrow> json_obj \<Rightarrow> string option" where
  "crane_precheck cmd p =
     (let action = to_string (jval p ''action''); mode = to_string (jval p ''mode'')
      in if cmd = ''cylinder_control'' then
           (if action \<notin> {''up'', ''down'', ''stop''}
            then Some (invalid_choice ''action'' action ''up, down, stop'') else None)
         else if cmd = ''valve_control'' then
           (if action \<notin> {''open'', ''close'', ''stop''}
            then Some (invalid_choice ''action'' action ''open, close, stop'') else None)
         else if cmd = ''set_mode'' then
           (if mode \<notin> {''manual'', ''auto''} then Some (invalid_choice ''mode'' mode ''manual, auto'') else None)
         else if cmd = ''set_run'' then
           (if action \<notin> {''start'', ''stop''}
            then Some (invalid_choice ''action'' action ''start, stop'') else None)
         else None)"

text \<open>The register and the value of a command, and the member its answer repeats.\<close>

definition crane_write :: "string \<Rightarrow> json_obj \<Rightarrow> (u16 \<times> u16 \<times> string \<times> string) option" where
  "crane_write cmd p =
     (let action = to_string (jval p ''action''); mode = to_string (jval p ''mode'')
      in if cmd = ''cylinder_control''
         then Some (0, if action = ''up'' then 1 else if action = ''down'' then 2 else 0, ''action'', action)
         else if cmd = ''valve_control''
         then Some (1, if action = ''open'' then 1 else if action = ''close'' then 2 else 0, ''action'', action)
         else if cmd = ''set_run'' then Some (2, if action = ''start'' then 1 else 0, ''action'', action)
         else if cmd = ''set_mode'' then Some (3, if mode = ''auto'' then 1 else 0, ''mode'', mode)
         else None)"

definition crane_status :: "bool list \<Rightarrow> json" where
  "crane_status cs =
     JObj (jset ''valve_closed'' (JBool (cs ! 5)) (jset ''valve_open'' (JBool (cs ! 4))
       (jset ''cylinder_down'' (JBool (cs ! 1)) (jset ''cylinder_up'' (JBool (\<not> cs ! 0)) []))))"

text \<open>The answer of a request: an error with the endpoint, or what the command reports. The vector of
  inputs is indexed, which is undefined when it is shorter than six.\<close>

definition crane_reply ::
  "string \<Rightarrow> int \<Rightarrow> (modbus_result \<Rightarrow> json option) \<Rightarrow> modbus_result \<Rightarrow> message option" where
  "crane_reply host port payload r =
     (if \<not> mr_success r
      then Some (resp_error 2 (message_object (mr_error r @ '' ('' @ host @ '':'' @ dec_int port @ '')'')))
      else map_option (resp_done 0) (payload r))"

definition crane_command ::
  "'w socket \<Rightarrow> string \<Rightarrow> int \<Rightarrow> string \<Rightarrow> json_obj \<Rightarrow> modbus_client \<Rightarrow> 'w
     \<Rightarrow> message option \<times> modbus_client \<times> 'w" where
  "crane_command sk host port cmd p c w =
     (if cmd = ''read_status'' then
        (let (r, c', w') = readDiscreteInputs sk 9 6 c w
         in (Option.bind r (crane_reply host port
               (\<lambda>r. if length (mr_coils r) < 6 then None else Some (crane_status (mr_coils r)))), c', w'))
      else
        (case crane_write cmd p of
           Some (register, v, member, text) \<Rightarrow>
             (let (r, c', w') = writeSingleRegister sk register v c w
              in (Option.bind r (crane_reply host port
                    (\<lambda>_. Some (JObj (jset member (JStr text) (jset ''written'' (JBool True) []))))), c', w'))
         | None \<Rightarrow> (Some (resp_error 404 (message_object (''Unknown command: '' @ cmd))), c, w)))"

definition plc_crane_handle ::
  "(conn_key \<Rightarrow> 'w socket) \<Rightarrow> modbus_client connections \<times> 'w \<Rightarrow> string \<Rightarrow> json
     \<Rightarrow> (message list \<times> modbus_client connections \<times> 'w) option" where
  "plc_crane_handle net st cmd data =
     (let (m, w) = st; p = to_object data; host = to_string (jval p ''host'');
          port = to_int_or 502 (jval p ''port''); timeout = to_int_or 3000 (jval p ''timeout'')
      in if cmd = ''status''
         then Some ([resp_done 0 (JObj (jset ''status'' (JStr ''ready'') []))], m, w)
         else
           (case crane_precheck cmd p of
              Some e \<Rightarrow> Some ([resp_error 3 (message_object e)], m, w)
            | None \<Rightarrow>
                (case crane_getClient net host port timeout m w of
                   (Inl e, m', w') \<Rightarrow> Some ([e], m', w')
                 | (Inr c, m', w') \<Rightarrow>
                     (let key = (host, word_of_int port);
                          (msg, c', w'') = crane_command (net key) host port cmd p
                             (setUnitId (word_of_int (to_int_or 1 (jval p ''unit_id''))) c) w'
                      in map_option (\<lambda>t. ([t], m'(key \<mapsto> c'), w'')) msg))))"

section \<open>The driver of the simulation\<close>

record sim_config =
  sc_listenAddress :: string
  sc_listenPort :: int
  sc_unitId :: byte
  sc_dataAreaSize :: int
  sc_device :: crane_config
  sc_eventMode :: string
  sc_heartbeatMs :: int

text \<open>The handler's configuration and running flag are in \<open>cs_config\<close> and \<open>cs_handler\<close>, which also has
  the device and the units of the server. \<open>cs_refresh\<close> and \<open>cs_heartbeat\<close> tell which periodic timers
  run; \<open>cs_events\<close> are the messages emitted so far.\<close>

record crane_sim =
  cs_config :: sim_config
  cs_handler :: crane_handler
  cs_port :: "int option"
  cs_clients :: "(nat, client_info) omap"
  cs_written :: "(nat \<times> bytes) list"
  cs_refresh :: bool
  cs_heartbeat :: bool
  cs_events :: "message list"

definition emit_event :: "string \<Rightarrow> json_obj \<Rightarrow> crane_sim \<Rightarrow> crane_sim" where
  "emit_event name members s = s\<lparr>cs_events := cs_events s @ [resp_event_named name 0 (JObj members)]\<rparr>"

fun crane_error_text :: "crane_error \<Rightarrow> string" where
  "crane_error_text (UnsupportedAddress a) = ''Unsupported holding register address: '' @ dec (unat a)"
| "crane_error_text (InvalidCylinderAction v) = ''Invalid cylinder action: '' @ dec (unat v) @ '', expected 0/1/2''"
| "crane_error_text (InvalidValveAction v) = ''Invalid valve action: '' @ dec (unat v) @ '', expected 0/1/2''"
| "crane_error_text (InvalidRunAction v) = ''Invalid run action: '' @ dec (unat v) @ '', expected 0/1''"
| "crane_error_text (InvalidModeAction v) = ''Invalid mode action: '' @ dec (unat v) @ '', expected 0/1''"
| "crane_error_text CylinderDisabledInAuto = ''Manual cylinder action is disabled in auto mode''"
| "crane_error_text ValveDisabledInAuto = ''Manual valve action is disabled in auto mode''"

text \<open>The refusals that a handler step logged, as the events it emits.\<close>

definition rejected_events :: "(u16 \<times> u16 \<times> crane_error) list \<Rightarrow> message list" where
  "rejected_events rs =
     map (\<lambda>(a, v, e). resp_event_named ''sim_write_rejected'' 0
            (JObj (jset ''message'' (JStr (crane_error_text e)) (jset ''value'' (jint (uint v))
              (jset ''address'' (jint (uint a)) []))))) rs"

text \<open>The handler on the server's signals.\<close>

definition sim_onDataWritten :: "byte \<Rightarrow> byte \<Rightarrow> u16 \<Rightarrow> u16 \<Rightarrow> crane_sim \<Rightarrow> crane_sim" where
  "sim_onDataWritten u fc a q s =
     (let h = cs_handler s; h' = onDataWritten u fc a q h
      in s\<lparr>cs_handler := h',
           cs_events := cs_events s @ rejected_events (drop (length (ch_rejected h)) (ch_rejected h'))\<rparr>)"

definition access_members :: "byte \<Rightarrow> byte \<Rightarrow> u16 \<Rightarrow> u16 \<Rightarrow> json_obj" where
  "access_members u fc a q =
     jset ''quantity'' (jint (uint q)) (jset ''address'' (jint (uint a))
       (jset ''function_code'' (jint (uint fc)) (jset ''unit_id'' (jint (uint u)) [])))"

definition peer_members :: "string \<Rightarrow> u16 \<Rightarrow> json_obj" where
  "peer_members addr port = jset ''port'' (jint (uint port)) (jset ''address'' (JStr addr) [])"

definition eventReadEnabled :: "sim_config \<Rightarrow> bool" where
  "eventReadEnabled cfg = (sc_eventMode cfg = ''all'' \<or> sc_eventMode cfg = ''read'')"

definition eventWriteEnabled :: "sim_config \<Rightarrow> bool" where
  "eventWriteEnabled cfg = (sc_eventMode cfg = ''all'' \<or> sc_eventMode cfg = ''write'')"

fun sim_signal :: "signal \<Rightarrow> crane_sim \<Rightarrow> crane_sim" where
  "sim_signal (ClientConnected addr port) s = emit_event ''client_connected'' (peer_members addr port) s"
| "sim_signal (ClientDisconnected addr port) s = emit_event ''client_disconnected'' (peer_members addr port) s"
| "sim_signal (DataRead u fc a q) s =
     (if \<not> eventReadEnabled (cs_config s) then s else emit_event ''data_read'' (access_members u fc a q) s)"
| "sim_signal (DataWritten u fc a q) s =
     (let s' = sim_onDataWritten u fc a q s
      in if \<not> eventWriteEnabled (cs_config s') then s' else emit_event ''data_written'' (access_members u fc a q) s')"

text \<open>The server's side of a request: the tables are changed, then the handler runs on the signal, and the
  response, which does not look at the tables again, is written.\<close>

definition sim_request :: "bytes \<Rightarrow> crane_sim \<Rightarrow> bytes \<times> crane_sim" where
  "sim_request request s =
     (let (response, m, sigs) = processRequest request (ch_units (cs_handler s))
      in (response, fold sim_signal sigs (s\<lparr>cs_handler := (cs_handler s)\<lparr>ch_units := m\<rparr>\<rparr>)))"

fun sim_process_fuel :: "nat \<Rightarrow> bytes \<Rightarrow> crane_sim \<Rightarrow> bytes list \<times> bytes \<times> crane_sim" where
  "sim_process_fuel 0 buffer s = ([], buffer, s)"
| "sim_process_fuel (Suc n) buffer s =
     (if length buffer < 7 then ([], buffer, s)
      else
        (case parseHeader_mbap buffer of
           None \<Rightarrow> ([], [], s)
         | Some h \<Rightarrow>
             if unat (hdr_length h) > MAX_MODBUS_LENGTH then ([], [], s)
             else
               (let frameLength = 6 + unat (hdr_length h)
                in if length buffer < frameLength then ([], buffer, s)
                   else
                     (let (response, s1) = sim_request (take frameLength buffer) s;
                          (rs, left, s2) = sim_process_fuel n (drop frameLength buffer) s1
                      in (if response \<noteq> [] then response # rs else rs, left, s2)))))"

definition sim_onReadyRead :: "nat \<Rightarrow> bytes \<Rightarrow> crane_sim \<Rightarrow> crane_sim" where
  "sim_onReadyRead sock data s =
     (case om_get (cs_clients s) sock of
        None \<Rightarrow> s
      | Some info \<Rightarrow>
          (let buffer = recvBuffer info @ data; (rs, left, s') = sim_process_fuel (length buffer) buffer s
           in s'\<lparr>cs_clients := om_put sock (info\<lparr>recvBuffer := left\<rparr>) (cs_clients s'),
                cs_written := cs_written s' @ map (Pair sock) rs\<rparr>))"

definition sim_incoming :: "nat \<Rightarrow> bool \<Rightarrow> string \<Rightarrow> u16 \<Rightarrow> crane_sim \<Rightarrow> crane_sim" where
  "sim_incoming sock descriptorOk addr port s =
     (if descriptorOk
      then sim_signal (ClientConnected addr port)
             (s\<lparr>cs_clients := om_put sock \<lparr>recvBuffer = [], ci_address = addr, ci_port = port\<rparr> (cs_clients s)\<rparr>)
      else s)"

definition sim_disconnected :: "nat \<Rightarrow> crane_sim \<Rightarrow> crane_sim" where
  "sim_disconnected sock s =
     (case om_get (cs_clients s) sock of
        None \<Rightarrow> s
      | Some info \<Rightarrow>
          sim_signal (ClientDisconnected (ci_address info) (ci_port info))
            (s\<lparr>cs_clients := om_del sock (cs_clients s)\<rparr>))"

text \<open>The timers: the device's two, and the handler's. Each runs only while it is active.\<close>

definition sim_refresh :: "crane_sim \<Rightarrow> crane_sim" where
  "sim_refresh s = (if cs_refresh s then s\<lparr>cs_handler := syncDataAreaFromDevice (cs_handler s)\<rparr> else s)"

definition sim_heartbeat :: "int \<Rightarrow> crane_sim \<Rightarrow> crane_sim" where
  "sim_heartbeat elapsed s =
     (if cs_heartbeat s then emit_event ''sim_heartbeat'' (jset ''uptime_s'' (jint (elapsed div 1000)) []) s else s)"

definition sim_device_timer :: "crane_event \<Rightarrow> crane_sim \<Rightarrow> crane_sim" where
  "sim_device_timer e s =
     s\<lparr>cs_handler := (cs_handler s)\<lparr>ch_device := crane_step (ch_device (cs_handler s)) e\<rparr>\<rparr>"

text \<open>\<open>handleRun\<close>. The configuration is taken over before it is known whether the server can listen.\<close>

definition sim_run_config :: "json_obj \<Rightarrow> sim_config" where
  "sim_run_config p =
     \<lparr>sc_listenAddress = to_string (jval p ''listen_address''), sc_listenPort = to_int_or 502 (jval p ''listen_port''),
      sc_unitId = word_of_int (to_int_or 1 (jval p ''unit_id'')), sc_dataAreaSize = to_int_or 256 (jval p ''data_area_size''),
      sc_device = \<lparr>cylinderUpDelayMs = to_int_or 2500 (jval p ''cylinder_up_delay''),
        cylinderDownDelayMs = to_int_or 2000 (jval p ''cylinder_down_delay''),
        valveOpenDelayMs = to_int_or 1500 (jval p ''valve_open_delay''),
        valveCloseDelayMs = to_int_or 1200 (jval p ''valve_close_delay'')\<rparr>,
      sc_eventMode = trim_spaces (to_string_or ''write'' (jval p ''event_mode'')),
      sc_heartbeatMs = to_int_or 0 (jval p ''heartbeat_ms'')\<rparr>"

definition sim_configured :: "sim_config \<Rightarrow> crane_sim \<Rightarrow> crane_sim" where
  "sim_configured cfg s =
     s\<lparr>cs_config := cfg,
       cs_handler := (cs_handler s)\<lparr>ch_unitId := sc_unitId cfg,
         ch_device := setConfig (sc_device cfg) (ch_device (cs_handler s))\<rparr>\<rparr>"

definition sim_started :: "int \<Rightarrow> crane_sim \<Rightarrow> crane_sim" where
  "sim_started port s =
     (let cfg = cs_config s
      in emit_event ''started''
           (jset ''event_mode'' (JStr (sc_eventMode cfg)) (jset ''unit_id'' (jint (uint (sc_unitId cfg)))
             (jset ''listen_port'' (jint port) (jset ''listen_address'' (JStr (sc_listenAddress cfg)) []))))
           (s\<lparr>cs_handler := syncDataAreaFromDevice ((cs_handler s)\<lparr>ch_running := True\<rparr>),
              cs_refresh := True, cs_heartbeat := sc_heartbeatMs cfg > 0\<rparr>))"

definition handleRun ::
  "(u16 \<Rightarrow> string \<Rightarrow> string + int) \<Rightarrow> json_obj \<Rightarrow> crane_sim \<Rightarrow> (message list \<times> crane_sim) option" where
  "handleRun listen p s =
     (if ch_running (cs_handler s) \<or> cs_port s \<noteq> None
      then Some ([resp_error 3 (message_object ''Server already running'')], s)
      else
        (let cfg = sim_run_config p; s1 = sim_configured cfg s; u = sc_unitId cfg;
             units = ch_units (cs_handler s1)
         in case listen (word_of_int (sc_listenPort cfg)) (sc_listenAddress cfg) of
              Inl e \<Rightarrow>
                Some ([resp_error 1 (message_object (''Failed to listen on ''
                   @ (if sc_listenAddress cfg = [] then ''0.0.0.0'' else sc_listenAddress cfg)
                   @ '':'' @ dec_int (sc_listenPort cfg) @ '': '' @ e))], s1)
            | Inr port \<Rightarrow>
                if hasUnit u units
                then Some ([resp_error 1 (message_object (''Failed to add unit '' @ dec (unat u)))], s1)
                else if sc_dataAreaSize cfg < 0 then None
                else
                  Some ([], sim_started port (s1\<lparr>cs_port := Some port, cs_handler := (cs_handler s1)\<lparr>ch_units :=
                     snd (addUnit u (nat (sc_dataAreaSize cfg)) units)\<rparr>\<rparr>))))"

definition crane_sim_handle ::
  "(u16 \<Rightarrow> string \<Rightarrow> string + int) \<Rightarrow> crane_sim \<Rightarrow> string \<Rightarrow> json \<Rightarrow> (message list \<times> crane_sim) option" where
  "crane_sim_handle listen s cmd data =
     (if cmd \<noteq> ''run'' then Some ([resp_error 404 (message_object (''Unknown command: '' @ cmd))], s)
      else handleRun listen (to_object data) s)"

definition SimPlcCraneHandler :: crane_sim where
  "SimPlcCraneHandler =
     (let cfg = sim_run_config []
      in \<lparr>cs_config = cfg,
          cs_handler = \<lparr>ch_running = False, ch_unitId = 1, ch_device = SimPlcCraneDevice (sc_device cfg), ch_units = [],
            ch_rejected = []\<rparr>,
          cs_port = None, cs_clients = [], cs_written = [], cs_refresh = False, cs_heartbeat = False, cs_events = []\<rparr>)"

end
