(* ===== verification/CraneSimSpec.thy ===== *)
theory CraneSimSpec
  imports CraneSim
begin

text \<open>
  What the simulated crane promises: its timers run exactly while it moves, manual commands have
  no effect in automatic mode, the automatic sequence always ends with the valve open and the
  cylinder down, and the register area the network sees is the device's state.
\<close>

section \<open>Invariant\<close>

definition crane_inv :: "crane \<Rightarrow> bool" where
  "crane_inv d =
     ((m_cylinderTimer d \<noteq> None \<longleftrightarrow> m_cylinderState d \<in> {MovingUp, MovingDown})
      \<and> (m_valveTimer d \<noteq> None \<longleftrightarrow> m_valveState d \<in> {MovingOpen, MovingClose})
      \<and> m_hrCylinder d \<le> 2 \<and> m_hrValve d \<le> 2 \<and> m_hrRun d \<le> 1 \<and> m_hrMode d \<le> 1
      \<and> (m_hrMode d = 1 \<longrightarrow> m_valveState d = MovingOpen
           \<or> m_valveState d = Opened \<and> m_cylinderState d \<in> {AtBottom, MovingDown}))"

lemma u16_le_2: "v \<le> 2 \<longleftrightarrow> v = 0 \<or> v = 1 \<or> v = (2 :: u16)"
proof
  assume "v \<le> 2"
  then have "unat v \<le> 2" by (simp add: word_le_nat_alt)
  then have "unat v = 0 \<or> unat v = 1 \<or> unat v = 2" by linarith
  then have "unat v = unat (0 :: u16) \<or> unat v = unat (1 :: u16) \<or> unat v = unat (2 :: u16)" by simp
  then show "v = 0 \<or> v = 1 \<or> v = 2" by (blast dest: unsigned_word_eqI)
qed auto

lemma u16_le_1: "v \<le> 1 \<longleftrightarrow> v = 0 \<or> v = (1 :: u16)"
  using u16_le_2 [of v] by (auto simp: word_le_nat_alt)

lemmas crane_ops = applyCylinderAction_def applyValveAction_def stepAutoSequence_def applyRunAction_def
  applyModeAction_def writeHoldingRegister_def cylinderTimeout_def valveTimeout_def

lemma cylinder_inv: "crane_inv d \<Longrightarrow> crane_inv (snd (applyCylinderAction v False d))"
  by (auto simp: crane_inv_def applyCylinderAction_def Let_def not_less)

lemma valve_inv: "crane_inv d \<Longrightarrow> crane_inv (snd (applyValveAction v False d))"
  by (auto simp: crane_inv_def applyValveAction_def Let_def not_less)

lemma run_action_inv: "crane_inv d \<Longrightarrow> crane_inv (snd (applyRunAction v d))"
  by (auto simp: crane_inv_def applyRunAction_def not_less)

definition crane_inv0 :: "crane \<Rightarrow> bool" where
  "crane_inv0 d = crane_inv (d\<lparr>m_hrMode := 0\<rparr>)"

lemma step_auto_inv:
  "crane_inv0 d \<Longrightarrow> m_hrMode d = 1 \<Longrightarrow> crane_inv (snd (stepAutoSequence d))"
  by (cases "m_valveState d"; cases "m_cylinderState d")
    (auto simp: crane_inv0_def crane_inv_def stepAutoSequence_def applyValveAction_def applyCylinderAction_def Let_def)

lemma mode_inv: "crane_inv d \<Longrightarrow> crane_inv (snd (applyModeAction v d))"
proof -
  assume inv: "crane_inv d"
  then have inv0: "crane_inv0 (d\<lparr>m_hrMode := v\<rparr>)" by (auto simp: crane_inv0_def crane_inv_def)
  consider "v > 1" | "v = 1" | "v = 0" using u16_le_1 [of v] not_less by blast
  then show ?thesis
  proof cases
    case 2
    with step_auto_inv [OF inv0] show ?thesis by (simp add: applyModeAction_def)
  qed (use inv in \<open>auto simp: applyModeAction_def crane_inv_def\<close>)
qed

lemma cylinder_timeout_inv: "crane_inv d \<Longrightarrow> crane_inv (cylinderTimeout d)"
  by (auto simp: crane_inv_def cylinderTimeout_def Let_def)

lemma valve_timeout_inv: "crane_inv d \<Longrightarrow> crane_inv (valveTimeout d)"
proof -
  assume inv: "crane_inv d"
  show ?thesis
  proof (cases "m_valveState d = MovingOpen \<and> m_hrMode d = 1")
    case True
    let ?d = "d\<lparr>m_valveTimer := None, m_valveState := Opened\<rparr>"
    have "crane_inv0 ?d" using inv True by (auto simp: crane_inv0_def crane_inv_def)
    with True step_auto_inv [of ?d] show ?thesis by (simp add: valveTimeout_def Let_def)
  next
    case False
    with inv show ?thesis by (auto simp: crane_inv_def valveTimeout_def Let_def)
  qed
qed

interpretation crane_machine: event_machine crane_step crane_inv
proof
  fix d e
  assume inv: "crane_inv d"
  then show "crane_inv (crane_step d e)"
    by (cases e) (auto simp: crane_step_def writeHoldingRegister_def cylinder_inv valve_inv run_action_inv mode_inv
        cylinder_timeout_inv valve_timeout_inv)
qed

lemma crane_inv_init: "crane_inv (SimPlcCraneDevice cfg)"
  by (simp add: crane_inv_def SimPlcCraneDevice_def)

text \<open>Whatever is written to the crane's registers and however its timers fire, a timer is active
  exactly while its part moves, the registers hold only commands the device accepts, and in
  automatic mode the valve is opening, or it is open and the cylinder is down or going down.\<close>

theorem crane_invariant:
  "crane_inv (run_events crane_step (SimPlcCraneDevice cfg) events)"
  by (rule crane_machine.run_inv [OF crane_inv_init])

section \<open>The automatic sequence\<close>

text \<open>In automatic mode every manual command to the cylinder or the valve is refused and leaves
  the device exactly as it was.\<close>

theorem auto_mode_refuses_manual:
  assumes "m_hrMode d = 1" and "address = 0 \<or> address = 1"
  shows "\<exists>err. writeHoldingRegister address value d = (Inl err, d)"
  using assms by (auto simp: writeHoldingRegister_def applyCylinderAction_def applyValveAction_def)

definition demo_crane_config :: crane_config where
  "demo_crane_config = \<lparr>cylinderUpDelayMs = 2500, cylinderDownDelayMs = 2000, valveOpenDelayMs = 1500,
     valveCloseDelayMs = 1200\<rparr>"

lemma auto_mode_refuses_manual_witness:
  "\<exists>err. writeHoldingRegister 1 2 ((SimPlcCraneDevice demo_crane_config)\<lparr>m_hrMode := 1\<rparr>)
     = (Inl err, (SimPlcCraneDevice demo_crane_config)\<lparr>m_hrMode := 1\<rparr>)"
  by (rule auto_mode_refuses_manual) simp_all

fun timer_run :: "crane \<Rightarrow> crane_event list \<Rightarrow> bool" where
  "timer_run d [] = True"
| "timer_run d (e # es) = (e \<in> {CylinderTimer, ValveTimer} \<and> enabled d e \<and> timer_run (crane_step d e) es)"

definition auto_work :: "crane \<Rightarrow> nat" where
  "auto_work d = (if m_valveTimer d \<noteq> None then 2 else 0) + (if m_cylinderTimer d \<noteq> None then 1 else 0)"

definition auto_goal :: "crane \<Rightarrow> bool" where
  "auto_goal d = (m_valveState d = Opened \<and> m_cylinderState d = AtBottom)"

lemma auto_step:
  assumes "crane_inv d" and "m_hrMode d = 1" and "e \<in> {CylinderTimer, ValveTimer}" and "enabled d e"
  shows "m_hrMode (crane_step d e) = 1 \<and> auto_work (crane_step d e) < auto_work d"
proof (cases e)
  case CylinderTimer
  with assms show ?thesis
    by (auto simp: crane_step_def enabled_def auto_work_def cylinderTimeout_def Let_def)
next
  case ValveTimer
  with assms have "m_valveState d = MovingOpen" by (auto simp: crane_inv_def enabled_def)
  with ValveTimer assms show ?thesis
    by (auto simp: crane_step_def enabled_def auto_work_def valveTimeout_def stepAutoSequence_def
        applyCylinderAction_def Let_def)
qed (use assms in simp)

lemma auto_run:
  "timer_run d es \<Longrightarrow> crane_inv d \<Longrightarrow> m_hrMode d = 1 \<Longrightarrow>
   m_hrMode (run_events crane_step d es) = 1 \<and> length es + auto_work (run_events crane_step d es) \<le> auto_work d"
proof (induction es arbitrary: d)
  case (Cons e es)
  then have "m_hrMode (crane_step d e) = 1" "auto_work (crane_step d e) < auto_work d"
    using auto_step [of d e] by auto
  moreover have "crane_inv (crane_step d e)" using Cons.prems by (simp add: crane_machine.step_inv)
  ultimately show ?case using Cons by fastforce
qed simp

text \<open>Once automatic mode has been commanded, the sequence completes by itself: the mode command
  succeeds, at most three timers fire after it whatever their order, and when no timer is left
  active the valve is open and the cylinder is at the bottom.\<close>

lemma auto_mode_accepted:
  "fst (writeHoldingRegister 3 1 d) = Inr ()" "m_hrMode (snd (writeHoldingRegister 3 1 d)) = 1"
  by (auto simp: writeHoldingRegister_def applyModeAction_def stepAutoSequence_def applyValveAction_def
      applyCylinderAction_def Let_def)

lemma auto_completes:
  assumes "crane_inv d" and "timer_run (snd (writeHoldingRegister 3 1 d)) timers"
  shows "let d2 = run_events crane_step (snd (writeHoldingRegister 3 1 d)) timers
    in length timers \<le> 3 \<and> (m_cylinderTimer d2 = None \<and> m_valveTimer d2 = None \<longrightarrow> auto_goal d2)"
proof -
  let ?d1 = "snd (writeHoldingRegister 3 1 d)"
  let ?d2 = "run_events crane_step ?d1 timers"
  have inv1: "crane_inv ?d1" using mode_inv [OF assms(1)] by (simp add: writeHoldingRegister_def)
  have "length timers + auto_work ?d2 \<le> auto_work ?d1" "m_hrMode ?d2 = 1"
    using auto_run [OF assms(2) inv1 auto_mode_accepted(2)] by auto
  moreover have "auto_work ?d1 \<le> 3" by (simp add: auto_work_def)
  moreover have "crane_inv ?d2" by (rule crane_machine.run_inv [OF inv1])
  ultimately show ?thesis by (auto simp: crane_inv_def auto_goal_def)
qed

text \<open>So it does whatever happened to the device before.\<close>

theorem auto_sequence_completes:
  assumes "d = run_events crane_step (SimPlcCraneDevice cfg) history"
  shows "let d1 = snd (writeHoldingRegister 3 1 d) in
    fst (writeHoldingRegister 3 1 d) = Inr ()
    \<and> (\<forall>timers. timer_run d1 timers \<longrightarrow>
         (let d2 = run_events crane_step d1 timers in
            length timers \<le> 3
            \<and> (m_cylinderTimer d2 = None \<and> m_valveTimer d2 = None \<longrightarrow> auto_goal d2)))"
proof -
  have "crane_inv d" unfolding assms by (rule crane_machine.run_inv [OF crane_inv_init])
  from auto_completes [OF this] show ?thesis by (simp add: Let_def auto_mode_accepted)
qed

lemma auto_sequence_completes_witness:
  "auto_goal (run_events crane_step (snd (writeHoldingRegister 3 1 (SimPlcCraneDevice demo_crane_config)))
     [ValveTimer, CylinderTimer])"
proof -
  let ?d1 = "snd (writeHoldingRegister 3 1 (SimPlcCraneDevice demo_crane_config))"
  have timers: "timer_run ?d1 [ValveTimer, CylinderTimer]
      \<and> m_cylinderTimer (run_events crane_step ?d1 [ValveTimer, CylinderTimer]) = None
      \<and> m_valveTimer (run_events crane_step ?d1 [ValveTimer, CylinderTimer]) = None"
    by (simp add: crane_ops crane_step_def enabled_def SimPlcCraneDevice_def Let_def)
  have "SimPlcCraneDevice demo_crane_config = run_events crane_step (SimPlcCraneDevice demo_crane_config) []"
    by simp
  from auto_sequence_completes [OF this] have "timer_run ?d1 ts \<longrightarrow>
      (let d2 = run_events crane_step ?d1 ts in
        length ts \<le> 3 \<and> (m_cylinderTimer d2 = None \<and> m_valveTimer d2 = None \<longrightarrow> auto_goal d2))" for ts
    by (simp only: Let_def) blast
  from this [of "[ValveTimer, CylinderTimer]"] timers show ?thesis
    unfolding Let_def by blast
qed

text \<open>The sequence does not wait for a valve that was already opening: when automatic mode is
  commanded while the valve moves, the cylinder goes down at once, before the valve is open.\<close>

theorem auto_lowers_while_valve_opens:
  assumes "m_valveState d = MovingOpen" and "m_cylinderState d = AtTop"
  shows "let d1 = snd (writeHoldingRegister 3 1 d)
    in m_cylinderState d1 = MovingDown \<and> m_valveState d1 = MovingOpen"
  using assms by (simp add: crane_ops Let_def)

lemma auto_lowers_while_valve_opens_witness:
  "m_cylinderState (snd (writeHoldingRegister 3 1
     (snd (writeHoldingRegister 1 1 (SimPlcCraneDevice demo_crane_config))))) = MovingDown"
proof -
  let ?d = "snd (writeHoldingRegister 1 1 (SimPlcCraneDevice demo_crane_config))"
  have "m_valveState ?d = MovingOpen" "m_cylinderState ?d = AtTop"
    by (simp_all add: crane_ops SimPlcCraneDevice_def Let_def)
  from auto_lowers_while_valve_opens [OF this] show ?thesis by (simp add: Let_def)
qed

section \<open>The register area\<close>

lemma snapshot_members:
  "jval (snapshot d) ''hr_cylinder'' = jint (uint (m_hrCylinder d))"
  "jval (snapshot d) ''hr_valve'' = jint (uint (m_hrValve d))"
  "jval (snapshot d) ''hr_run'' = jint (uint (m_hrRun d))"
  "jval (snapshot d) ''hr_mode'' = jint (uint (m_hrMode d))"
  "jval (snapshot d) ''di_cylinder_up'' = JBool (diCylinderUp d)"
  "jval (snapshot d) ''di_cylinder_down'' = JBool (diCylinderDown d)"
  "jval (snapshot d) ''di_valve_open'' = JBool (diValveOpen d)"
  "jval (snapshot d) ''di_valve_closed'' = JBool (diValveClosed d)"
  by (simp_all add: snapshot_def)

lemma set_register_area:
  "om_get (snd (setHoldingRegister u a v m)) u =
     map_option (\<lambda>area. if unat a < length (holdingRegisters area)
       then area\<lparr>holdingRegisters := (holdingRegisters area)[unat a := v]\<rparr> else area) (om_get m u)"
  by (auto simp: setHoldingRegister_def split: option.split)

lemma set_input_area:
  "om_get (snd (setDiscreteInput u a b m)) u =
     map_option (\<lambda>area. if unat a < length (discreteInputs area)
       then area\<lparr>discreteInputs := (discreteInputs area)[unat a := b]\<rparr> else area) (om_get m u)"
  by (auto simp: setDiscreteInput_def split: option.split)

lemma uint_u16_in_int: "in_int (uint (v :: u16))"
proof -
  have "uint v < 2 ^ LENGTH(16)" by (rule unsigned_less)
  then have "uint v < 65536" by simp
  moreover have "0 \<le> uint v" by simp
  ultimately have "- 2147483648 \<le> uint v" "uint v \<le> 2147483647" by linarith+
  then show ?thesis by (simp add: in_int_def int_min_def int_max_def)
qed

definition synced_area :: "crane \<Rightarrow> data_area \<Rightarrow> data_area" where
  "synced_area d area =
     area\<lparr>holdingRegisters := (holdingRegisters area)[0 := m_hrCylinder d, 1 := m_hrValve d, 2 := m_hrRun d, 3 := m_hrMode d],
       discreteInputs := (discreteInputs area)[9 := \<not> diCylinderUp d, 10 := diCylinderDown d, 13 := diValveOpen d,
         14 := diValveClosed d]\<rparr>"

lemma sync_area:
  assumes "ch_running h" and "om_get (ch_units h) (ch_unitId h) = Some area"
    and "15 \<le> length (discreteInputs area)" and "4 \<le> length (holdingRegisters area)"
  shows "om_get (ch_units (syncDataAreaFromDevice h)) (ch_unitId h) = Some (synced_area (ch_device h) area)"
  unfolding synced_area_def
  using assms uint_u16_in_int
  by (simp only: syncDataAreaFromDevice_def Let_def snapshot_members to_int_jint to_bool_or.simps word_of_int_uint
      if_True not_True_eq_False if_False crane_handler.simps)
    (simp add: set_register_area set_input_area)

text \<open>After the handler has synchronised its register area, a client of the Modbus server reads
  from the four holding registers the commands the device holds, and from the four inputs
  whether each end position is reached, the upper one with inverted polarity.\<close>

theorem registers_mirror_device:
  assumes "ch_running h" and "om_get (ch_units h) (ch_unitId h) = Some area"
    and "15 \<le> length (discreteInputs area)" and "4 \<le> length (holdingRegisters area)"
  shows "let h' = syncDataAreaFromDevice h; u = ch_unitId h; d = ch_device h in
    (\<forall>a \<in> {0, 1, 2, 3}. getHoldingRegister u a (ch_units h') = Some (holdingRegister d a))
    \<and> getDiscreteInput u 9 (ch_units h') = Some (m_cylinderState d \<noteq> AtTop)
    \<and> getDiscreteInput u 10 (ch_units h') = Some (m_cylinderState d = AtBottom)
    \<and> getDiscreteInput u 13 (ch_units h') = Some (m_valveState d = Opened)
    \<and> getDiscreteInput u 14 (ch_units h') = Some (m_valveState d = Closed)"
proof -
  have "holdingRegisters area \<noteq> []" using assms(4) by auto
  then show ?thesis
    using assms(3,4) sync_area [OF assms]
    by (simp add: Let_def getHoldingRegister_def getDiscreteInput_def holdingRegister_def diCylinderUp_def
        diCylinderDown_def diValveOpen_def diValveClosed_def synced_area_def)
qed

definition demo_crane_handler :: crane_handler where
  "demo_crane_handler = \<lparr>ch_running = True, ch_unitId = 1, ch_device = SimPlcCraneDevice demo_crane_config,
     ch_units = om_put 1 (ModbusDataArea 32) [], ch_rejected = []\<rparr>"

lemma registers_mirror_device_witness:
  "getDiscreteInput 1 14 (ch_units (syncDataAreaFromDevice demo_crane_handler)) = Some True"
  using registers_mirror_device [of demo_crane_handler "ModbusDataArea 32"]
  by (simp add: demo_crane_handler_def ModbusDataArea_def SimPlcCraneDevice_def Let_def)

end
