(* ===== verification/CraneNetworkSpec.thy ===== *)
theory CraneNetworkSpec
  imports PlcCrane CraneSimSpec ModbusClientSpec
begin

text \<open>
  The crane's driver and the simulation together, over the network: the host's commands become
  Modbus requests, which the simulation's server serves, whose signals move the device. The mode
  command makes the device run its sequence, and the host sees its end; a manual command in
  automatic mode is reported as written although the device refuses it.
\<close>

section \<open>The network to the simulation\<close>

definition crane_written_to :: "nat \<Rightarrow> crane_sim \<Rightarrow> crane_sim \<Rightarrow> bytes" where
  "crane_written_to sock s s' =
     concat (map snd (filter (\<lambda>p. fst p = sock) (drop (length (cs_written s)) (cs_written s'))))"

definition crane_link ::
  "nat \<Rightarrow> (bytes \<Rightarrow> bytes list) \<Rightarrow> (bytes \<Rightarrow> bytes option list) \<Rightarrow> crane_sim socket" where
  "crane_link sock split_up rounds_of = \<lparr>
     sk_connect = (\<lambda>_ s. (om_has (cs_clients s) sock, s)),
     sk_connected = (\<lambda>s. om_has (cs_clients s) sock),
     sk_exchange = (\<lambda>_ request s.
       let s' = foldl (\<lambda>s c. sim_onReadyRead sock c s) s (split_up request)
       in (True, rounds_of (crane_written_to sock s s'), s'))\<rparr>"

definition crane_ready :: "nat \<Rightarrow> crane_sim \<Rightarrow> bool" where
  "crane_ready sock s = (\<exists>info. om_get (cs_clients s) sock = Some info \<and> recvBuffer info = [])"

text \<open>The connections and what was written on them do not concern the handler.\<close>

definition relink :: "(nat, client_info) omap \<Rightarrow> (nat \<times> bytes) list \<Rightarrow> crane_sim \<Rightarrow> crane_sim" where
  "relink c w s = s\<lparr>cs_clients := c, cs_written := w\<rparr>"

lemma relink_simps [simp]:
  "cs_handler (relink c w s) = cs_handler s" "cs_config (relink c w s) = cs_config s" "cs_events (relink c w s) = cs_events s"
  "cs_refresh (relink c w s) = cs_refresh s" "cs_clients (relink c w s) = c" "cs_written (relink c w s) = w"
  "relink c w (relink c' w' s) = relink c w s" "relink (cs_clients s) (cs_written s) s = s"
  by (simp_all add: relink_def)

lemma sim_signal_relink: "sim_signal sig (relink c w s) = relink c w (sim_signal sig s)"
  by (cases sig) (simp_all add: relink_def emit_event_def sim_onDataWritten_def Let_def)

lemma sim_signals_relink: "fold sim_signal sigs (relink c w s) = relink c w (fold sim_signal sigs s)"
  by (induction sigs arbitrary: s) (simp_all add: sim_signal_relink)

lemma sim_signal_link: "relink (cs_clients s) (cs_written s) (sim_signal sig s) = sim_signal sig s"
  by (cases sig) (simp_all add: relink_def emit_event_def sim_onDataWritten_def Let_def)

lemma sim_request_relink: "sim_request f (relink c w s) = map_prod id (relink c w) (sim_request f s)"
proof -
  have "(relink c w s)\<lparr>cs_handler := h\<rparr> = relink c w (s\<lparr>cs_handler := h\<rparr>)" for h by (simp add: relink_def)
  then show ?thesis by (simp add: sim_request_def sim_signals_relink split_beta)
qed

lemma sim_request_links:
  "cs_clients (snd (sim_request f s)) = cs_clients s" "cs_written (snd (sim_request f s)) = cs_written s"
proof -
  have "sim_request f s = map_prod id (relink (cs_clients s) (cs_written s)) (sim_request f s)"
    using sim_request_relink [of f "cs_clients s" "cs_written s" s] by simp
  then have "snd (sim_request f s) = relink (cs_clients s) (cs_written s) (snd (sim_request f s))"
    by (metis snd_map_prod)
  then show "cs_clients (snd (sim_request f s)) = cs_clients s" "cs_written (snd (sim_request f s)) = cs_written s"
    by (metis relink_simps(5,6))+
qed

section \<open>One request in any number of chunks\<close>

lemma sim_process_step:
  "sim_process_fuel (Suc n) buf s =
     (case tcp_take buf of
        None \<Rightarrow> ([], if oversize buf then [] else buf, s)
      | Some (f, rest) \<Rightarrow>
          (let (r, s1) = sim_request f s; (rs, left, s2) = sim_process_fuel n rest s1
           in (if r \<noteq> [] then r # rs else rs, left, s2)))"
proof (cases "length buf < 7")
  case False
  then obtain h where h: "parseHeader_mbap buf = Some h" "hdr_length h = read16 buf 4"
    by (auto simp: parseHeader_mbap_def byte_ops)
  with False show ?thesis
    by (simp add: tcp_take_def oversize_def Let_def)
qed (simp add: tcp_take_def oversize_def)

lemma sim_process_part:
  assumes "mbap_frame f" and "f = part @ unsent" and "unsent \<noteq> []"
  shows "sim_process_fuel n part s = ([], part, s)"
proof (cases n)
  case (Suc k)
  have none: "tcp_take part = None" by (rule tcp.take_incomplete [OF assms])
  moreover have "\<not> oversize part"
    by (rule not_oversize_prefix [of "[f]" part unsent, OF _ _ none]) (simp_all add: assms(1) assms(2) [symmetric])
  ultimately show ?thesis by (simp add: Suc sim_process_step del: sim_process_fuel.simps)
qed simp

lemma sim_process_frame:
  assumes "mbap_frame f"
  shows "sim_process_fuel (length f) f s = (let (r, s1) = sim_request f s in (if r \<noteq> [] then [r] else [], [], s1))"
proof -
  obtain n where n: "length f = Suc n" using assms by (cases "length f") (auto simp: mbap_frame_def)
  have "tcp_take f = Some (f, [])" using tcp.take_encode [OF assms, of "[]"] by simp
  moreover have "sim_process_fuel n [] s1 = ([], [], s1)" for s1 by (cases n) simp_all
  ultimately show ?thesis by (simp add: n sim_process_step Let_def split_beta del: sim_process_fuel.simps)
qed

definition served :: "nat \<Rightarrow> client_info \<Rightarrow> bytes \<Rightarrow> crane_sim \<Rightarrow> crane_sim" where
  "served sock info f s =
     (let (r, s1) = sim_request f s
      in relink (om_put sock (info\<lparr>recvBuffer := []\<rparr>) (cs_clients s))
           (cs_written s @ (if r \<noteq> [] then [(sock, r)] else [])) s1)"

lemma sim_chunk_part:
  assumes "om_get (cs_clients s) sock = Some info" and "mbap_frame f" and "f = (recvBuffer info @ c) @ unsent" and "unsent \<noteq> []"
  shows "sim_onReadyRead sock c s
    = relink (om_put sock (info\<lparr>recvBuffer := recvBuffer info @ c\<rparr>) (cs_clients s)) (cs_written s) s"
  using assms(1) sim_process_part [OF assms(2-4), of "length (recvBuffer info @ c)" s]
  by (simp add: sim_onReadyRead_def Let_def relink_def)

lemma sim_chunk_last:
  assumes "om_get (cs_clients s) sock = Some info" and "mbap_frame f" and "f = recvBuffer info @ c"
  shows "sim_onReadyRead sock c s = served sock info f s"
  using assms(1) sim_process_frame [OF assms(2), of s] sim_request_links [of f s]
  by (simp add: sim_onReadyRead_def Let_def split_beta served_def relink_def assms(3) [symmetric])

lemma sim_chunk_empty:
  assumes "om_get (cs_clients s) sock = Some info" and "recvBuffer info = []"
  shows "sim_onReadyRead sock [] s = relink (om_put sock (info\<lparr>recvBuffer := []\<rparr>) (cs_clients s)) (cs_written s) s"
  using assms by (simp add: sim_onReadyRead_def Let_def relink_def)

lemma served_relink:
  "served sock (info\<lparr>recvBuffer := b\<rparr>) f (relink (om_put sock (info\<lparr>recvBuffer := b\<rparr>) (cs_clients s)) (cs_written s) s)
    = served sock info f s"
  by (simp add: served_def sim_request_relink split_beta)

lemma served_then_empty:
  assumes "concat chunks = []"
  shows "foldl (\<lambda>s c. sim_onReadyRead sock c s) (served sock info f s) chunks = served sock info f s"
  using assms
proof (induction chunks)
  case (Cons c chunks)
  let ?s = "served sock info f s"
  have clients: "cs_clients ?s = om_put sock (info\<lparr>recvBuffer := []\<rparr>) (cs_clients s)"
    by (simp add: served_def split_beta)
  then have "sim_onReadyRead sock [] ?s = relink (cs_clients ?s) (cs_written ?s) ?s"
    by (subst sim_chunk_empty [where info = "info\<lparr>recvBuffer := []\<rparr>"]) simp_all
  then have "sim_onReadyRead sock [] ?s = ?s" by (simp only: relink_simps)
  with Cons show ?case by simp
qed simp

lemma sim_chunks:
  assumes "om_get (cs_clients s) sock = Some info" and "mbap_frame f" and "recvBuffer info @ concat chunks = f"
    and "recvBuffer info \<noteq> f"
  shows "foldl (\<lambda>s c. sim_onReadyRead sock c s) s chunks = served sock info f s"
  using assms
proof (induction chunks arbitrary: s info)
  case (Cons c chunks)
  let ?info = "info\<lparr>recvBuffer := recvBuffer info @ c\<rparr>"
  show ?case
  proof (cases "concat chunks = []")
    case True
    with Cons.prems(3) have "f = recvBuffer info @ c" by simp
    with sim_chunk_last [OF Cons.prems(1,2)] served_then_empty [OF True] show ?thesis by simp
  next
    case False
    have f: "f = (recvBuffer info @ c) @ concat chunks" using Cons.prems(3) by simp
    let ?s = "relink (om_put sock ?info (cs_clients s)) (cs_written s) s"
    have "foldl (\<lambda>s c. sim_onReadyRead sock c s) ?s chunks = served sock ?info f ?s"
      using f False Cons.prems(2) by (intro Cons.IH) simp_all
    with sim_chunk_part [OF Cons.prems(1,2) f False] show ?thesis by (simp add: served_relink)
  qed
qed simp

lemma crane_link_exchange:
  assumes "crane_ready sock s" and "whole_chunks split_up" and "mbap_frame f" and "sim_request f s = (r, s1)"
  shows "\<exists>c w. sk_exchange (crane_link sock split_up rounds_of) t f s = (True, rounds_of r, relink c w s1)
    \<and> crane_ready sock (relink c w s1)"
proof -
  obtain info where info: "om_get (cs_clients s) sock = Some info" "recvBuffer info = []"
    using assms(1) by (auto simp: crane_ready_def)
  have "f \<noteq> []" using assms(3) by (auto simp: mbap_frame_def)
  then have "foldl (\<lambda>s c. sim_onReadyRead sock c s) s (split_up f) = served sock info f s"
    using assms(2) info by (intro sim_chunks [OF info(1) assms(3)]) (simp_all add: whole_chunks_def)
  then show ?thesis
    by (auto simp: crane_link_def served_def assms(4) crane_written_to_def crane_ready_def Let_def)
qed

section \<open>The two requests of the driver\<close>

definition crane_live :: "nat \<Rightarrow> (bytes \<Rightarrow> bytes list) \<Rightarrow> (bytes \<Rightarrow> bytes option list) \<Rightarrow> crane_sim \<Rightarrow> bool" where
  "crane_live sock split_up rounds_of s =
     (whole_chunks split_up \<and> in_time rounds_of \<and> crane_ready sock s \<and> ch_running (cs_handler s)
      \<and> (\<exists>area. om_get (ch_units (cs_handler s)) (ch_unitId (cs_handler s)) = Some area
           \<and> 15 \<le> length (discreteInputs area) \<and> 4 \<le> length (holdingRegisters area)))"

lemma write_register_request:
  assumes "om_get m u = Some area" and "unat a < length (holdingRegisters area)"
  shows "processRequest (mbap_request tid u 0x06 (write_register_pdu a v)) m =
    (mbap_request tid u 0x06 (be16 a @ be16 v),
     om_put u (area\<lparr>holdingRegisters := (holdingRegisters area)[unat a := v]\<rparr>) m, [DataWritten u 0x06 a 1])"
proof -
  have pdu: "dispatch h area 0x06 (write_register_pdu a v) = Inr (handleWriteSingleRegister h area a v)" for h
    using read16_be16_at [of a v "[]"] by (simp add: dispatch_def write_register_pdu_def Let_def byte_ops)
  show ?thesis
    using assms(2) unfolding processRequest_mbap [OF assms(1)] Let_def pdu
    by (simp add: handleWriteSingleRegister_def buildResponse_def mbap_header_def mbap_request_def byte_ops)
qed

lemma read_inputs_request:
  assumes "om_get m u = Some area" and "0 < n" and "n \<le> 2000" and "unat a + n \<le> length (discreteInputs area)"
  defines "vals \<equiv> take n (drop (unat a) (discreteInputs area))"
  shows "processRequest (mbap_request tid u 0x02 (read_pdu a (of_nat n))) m =
    (mbap_request tid u 0x02 (of_nat ((n + 7) div 8) # pack_bits vals 0 n), om_put u area m,
     [DataRead u 0x02 a (of_nat n)])"
proof -
  have pdu: "dispatch h area 0x02 (read_pdu a q) = Inr (handleReadDiscreteInputs h area a q)" for h q
    using read16_be16_at [of a q "[]"] by (simp add: dispatch_def read_pdu_def Let_def byte_ops)
  have q: "unat (of_nat n :: u16) = n" using assms(3) by (simp add: of_nat_u16)
  have "pack_bits (discreteInputs area) (unat a) n = pack_bits vals 0 n"
    unfolding vals_def using assms(4) by (intro pack_bits_cong) simp
  then show ?thesis
    using assms(2-4) q unfolding processRequest_mbap [OF assms(1)] Let_def pdu
    by (simp add: handleReadDiscreteInputs_def buildResponse_def mbap_header_def mbap_request_def byte_ops)
qed

text \<open>What a write does to the handler.\<close>

definition refusal :: "u16 \<Rightarrow> u16 \<Rightarrow> crane \<Rightarrow> (u16 \<times> u16 \<times> crane_error) list" where
  "refusal a v d = (case fst (writeHoldingRegister a v d) of Inl e \<Rightarrow> [(a, v, e)] | Inr _ \<Rightarrow> [])"

definition area_large :: "data_area \<Rightarrow> bool" where
  "area_large area = (15 \<le> length (discreteInputs area) \<and> 4 \<le> length (holdingRegisters area))"

lemma area_large_synced: "area_large (synced_area d area) = area_large area"
  by (simp add: area_large_def synced_area_def)

lemma written_register_one:
  assumes "om_get (ch_units h) (ch_unitId h) = Some area" and "area_large area" and "unat a \<le> 3"
    and "holdingRegisters area ! unat a = v"
  shows "\<exists>area'. om_get (ch_units (written_register a h)) (ch_unitId h) = Some area' \<and> area_large area'"
    "ch_device (written_register a h) = snd (writeHoldingRegister a v (ch_device h))"
    "ch_rejected (written_register a h) = ch_rejected h @ refusal a v (ch_device h)"
    "ch_unitId (written_register a h) = ch_unitId h" "ch_running (written_register a h) = ch_running h"
proof -
  have get: "getHoldingRegister (ch_unitId h) a (ch_units h) = Some v"
    using assms by (simp add: getHoldingRegister_def area_large_def)
  have low: "\<not> a > 3" using assms(3) by (simp add: word_less_nat_alt)
  show "\<exists>area'. om_get (ch_units (written_register a h)) (ch_unitId h) = Some area' \<and> area_large area'"
    "ch_device (written_register a h) = snd (writeHoldingRegister a v (ch_device h))"
    "ch_rejected (written_register a h) = ch_rejected h @ refusal a v (ch_device h)"
    "ch_unitId (written_register a h) = ch_unitId h" "ch_running (written_register a h) = ch_running h"
    using assms(1,2)
    by (auto simp: written_register_def get low refusal_def set_register_area area_large_def split: sum.split prod.split)
qed

lemma sync_handler [simp]:
  "ch_device (syncDataAreaFromDevice h) = ch_device h" "ch_rejected (syncDataAreaFromDevice h) = ch_rejected h"
  "ch_unitId (syncDataAreaFromDevice h) = ch_unitId h" "ch_running (syncDataAreaFromDevice h) = ch_running h"
  by (simp_all add: syncDataAreaFromDevice_def Let_def)

lemma data_written_one:
  assumes "ch_running h" and "om_get (ch_units h) (ch_unitId h) = Some area" and "area_large area" and "unat a \<le> 3"
    and "holdingRegisters area ! unat a = v"
  defines "h' \<equiv> onDataWritten (ch_unitId h) 0x06 a 1 h"
  shows "\<exists>area'. om_get (ch_units h') (ch_unitId h) = Some area' \<and> area_large area'"
    "ch_device h' = snd (writeHoldingRegister a v (ch_device h))"
    "ch_rejected h' = ch_rejected h @ refusal a v (ch_device h)"
    "ch_unitId h' = ch_unitId h" "ch_running h'"
proof -
  have "unat (a + 1) = Suc (unat a)"
    using assms(4) by (simp add: unat_word_ariths)
  then have h': "h' = syncDataAreaFromDevice (written_register a h)"
    using assms(1) by (simp add: h'_def onDataWritten_def)
  note one = written_register_one [OF assms(2-5)]
  obtain area1 where area1: "om_get (ch_units (written_register a h)) (ch_unitId h) = Some area1" "area_large area1"
    using one(1) by blast
  have "om_get (ch_units h') (ch_unitId h) = Some (synced_area (ch_device (written_register a h)) area1)"
    unfolding h' using sync_area [of "written_register a h" area1] area1 assms(1) one(4,5)
    by (simp add: area_large_def)
  then show "\<exists>area'. om_get (ch_units h') (ch_unitId h) = Some area' \<and> area_large area'"
    using area1(2) by (simp add: area_large_synced)
  show "ch_device h' = snd (writeHoldingRegister a v (ch_device h))"
    "ch_rejected h' = ch_rejected h @ refusal a v (ch_device h)" "ch_unitId h' = ch_unitId h" "ch_running h'"
    using one(2-5) assms(1) by (simp_all add: h')
qed

section \<open>Calls of the client\<close>

definition written_events :: "sim_config \<Rightarrow> byte \<Rightarrow> u16 \<Rightarrow> message list" where
  "written_events cfg u a =
     (if eventWriteEnabled cfg then [resp_event_named ''data_written'' 0 (JObj (access_members u 0x06 a 1))] else [])"

lemma sim_write_request:
  assumes "om_get (ch_units (cs_handler s)) u = Some area" and "unat a < length (holdingRegisters area)"
    and "h = (cs_handler s)\<lparr>ch_units := om_put u (area\<lparr>holdingRegisters := (holdingRegisters area)[unat a := v]\<rparr>)
      (ch_units (cs_handler s))\<rparr>"
  shows "sim_request (mbap_request tid u 0x06 (write_register_pdu a v)) s = (mbap_request tid u 0x06 (be16 a @ be16 v),
     s\<lparr>cs_handler := onDataWritten u 0x06 a 1 h,
       cs_events := cs_events s @ rejected_events (drop (length (ch_rejected h)) (ch_rejected (onDataWritten u 0x06 a 1 h)))
         @ written_events (cs_config s) u a\<rparr>)"
  using assms(1,2)
  by (simp add: sim_request_def write_register_request sim_onDataWritten_def emit_event_def written_events_def assms(3) Let_def)

lemma crane_write_call:
  assumes "crane_live sock split_up rounds_of s" and "mc_unitId c = ch_unitId (cs_handler s)" and "unat a \<le> 3"
  defines "d \<equiv> ch_device (cs_handler s)"
  shows "\<exists>s'. writeSingleRegister (crane_link sock split_up rounds_of) a v c s
      = (Some ok_result, c\<lparr>mc_transactionId := mc_transactionId c + 1\<rparr>, s')
    \<and> crane_live sock split_up rounds_of s' \<and> ch_unitId (cs_handler s') = ch_unitId (cs_handler s)
    \<and> ch_device (cs_handler s') = snd (writeHoldingRegister a v d)
    \<and> cs_events s' = cs_events s @ rejected_events (refusal a v d) @ written_events (cs_config s) (mc_unitId c) a
    \<and> cs_config s' = cs_config s \<and> cs_refresh s' = cs_refresh s"
proof -
  obtain area where area: "om_get (ch_units (cs_handler s)) (ch_unitId (cs_handler s)) = Some area" "area_large area"
    and live: "whole_chunks split_up" "in_time rounds_of" "crane_ready sock s" "ch_running (cs_handler s)"
    using assms(1) by (auto simp: crane_live_def area_large_def)
  let ?u = "ch_unitId (cs_handler s)"
  let ?area = "area\<lparr>holdingRegisters := (holdingRegisters area)[unat a := v]\<rparr>"
  let ?h = "(cs_handler s)\<lparr>ch_units := om_put ?u ?area (ch_units (cs_handler s))\<rparr>"
  let ?h' = "onDataWritten ?u 0x06 a 1 ?h"
  have large: "area_large ?area" and len: "unat a < length (holdingRegisters area)"
    using area(2) assms(3) by (auto simp: area_large_def)
  from len have cell: "holdingRegisters ?area ! unat a = v" by simp
  have get: "om_get (ch_units ?h) (ch_unitId ?h) = Some ?area" and run: "ch_running ?h" using live(4) by simp_all
  have "ch_unitId ?h = ?u" by simp
  note after = data_written_one [OF run get large assms(3) cell, unfolded this]
  let ?req = "mbap_request (mc_transactionId c) (mc_unitId c) 0x06 (write_register_pdu a v)"
  let ?s1 = "s\<lparr>cs_handler := ?h', cs_events := cs_events s
      @ rejected_events (drop (length (ch_rejected ?h)) (ch_rejected ?h')) @ written_events (cs_config s) ?u a\<rparr>"
  have frame: "mbap_frame ?req" by (rule mbap_request_frame) (simp add: write_register_pdu_def)
  obtain cl w where x: "sk_exchange (crane_link sock split_up rounds_of) (mc_timeout c) ?req s
      = (True, rounds_of (mbap_request (mc_transactionId c) (mc_unitId c) 0x06 (be16 a @ be16 v)), relink cl w ?s1)"
      "crane_ready sock (relink cl w ?s1)"
    using crane_link_exchange [OF live(3,1) frame, of _ ?s1] sim_write_request [OF area(1) len refl] unfolding assms(2) by blast
  have conn: "sk_connected (crane_link sock split_up rounds_of) s"
    using live(3) by (auto simp: crane_link_def crane_ready_def om_has_def)
  have "writeSingleRegister (crane_link sock split_up rounds_of) a v c s
      = (Some ok_result, c\<lparr>mc_transactionId := mc_transactionId c + 1\<rparr>, relink cl w ?s1)"
    unfolding writeSingleRegister_def
    using live(2) by (subst tcp_call_answered [OF conn x(1), where rpdu = "be16 a @ be16 v"]) (simp_all add: in_time_def)
  moreover have "crane_live sock split_up rounds_of (relink cl w ?s1)"
    using live x(2) after(1,4,5) by (auto simp: crane_live_def area_large_def)
  ultimately show ?thesis
    using after(2-4) assms(2) by (intro exI [of _ "relink cl w ?s1"]) (simp add: d_def)
qed

lemma crane_read_call:
  assumes "crane_live sock split_up rounds_of s" and "mc_unitId c = ch_unitId (cs_handler s)"
    and "om_get (ch_units (cs_handler s)) (ch_unitId (cs_handler s)) = Some area"
  shows "\<exists>s'. readDiscreteInputs (crane_link sock split_up rounds_of) 9 6 c s
      = (Some (ok_result\<lparr>mr_coils := take 6 (drop 9 (discreteInputs area))\<rparr>),
         c\<lparr>mc_transactionId := mc_transactionId c + 1\<rparr>, s')"
proof -
  let ?cs = "take 6 (drop 9 (discreteInputs area))"
  have live: "whole_chunks split_up" "in_time rounds_of" "crane_ready sock s" and len: "15 \<le> length (discreteInputs area)"
    using assms(1,3) by (auto simp: crane_live_def)
  let ?pdu = "of_nat ((6 + 7) div 8) # pack_bits ?cs 0 6"
  have req: "fst (sim_request (mbap_request (mc_transactionId c) (mc_unitId c) 0x02 (read_pdu 9 6)) s)
      = mbap_request (mc_transactionId c) (mc_unitId c) 0x02 ?pdu"
    using read_inputs_request [OF assms(3), of 6 9] len by (simp add: sim_request_def assms(2))
  have frame: "mbap_frame (mbap_request (mc_transactionId c) (mc_unitId c) 0x02 (read_pdu 9 6))"
    by (rule mbap_request_frame) (simp add: read_pdu_def)
  obtain cl w s1 where x: "sk_exchange (crane_link sock split_up rounds_of) (mc_timeout c)
        (mbap_request (mc_transactionId c) (mc_unitId c) 0x02 (read_pdu 9 6)) s
      = (True, rounds_of (mbap_request (mc_transactionId c) (mc_unitId c) 0x02 ?pdu), relink cl w s1)"
    using crane_link_exchange [OF live(3,1) frame] req by (metis prod.collapse)
  have conn: "sk_connected (crane_link sock split_up rounds_of) s"
    using live(3) by (auto simp: crane_link_def crane_ready_def om_has_def)
  have "length ?cs = 6" using len by simp
  with parse_bits_served [of ?cs] have
    "parseReadBitsResponse (mbap_request (mc_transactionId c) (mc_unitId c) 0x02 ?pdu) 6 = Some (ok_result\<lparr>mr_coils := ?cs\<rparr>)"
    by (simp add: ok_result_def)
  then show ?thesis
    unfolding readDiscreteInputs_def
    using live(2) by (subst tcp_call_answered [OF conn x, where rpdu = ?pdu]) (simp_all add: in_time_def)
qed

section \<open>The host, the driver, the network and the simulation\<close>

definition endpoint :: "json_obj \<Rightarrow> conn_key" where
  "endpoint p = (to_string (jval p ''host''), word_of_int (to_int_or 502 (jval p ''port'')))"

text \<open>A client is cached for the endpoint of the parameters, and they name the simulation's unit.\<close>

definition crane_session ::
  "nat \<Rightarrow> (bytes \<Rightarrow> bytes list) \<Rightarrow> (bytes \<Rightarrow> bytes option list) \<Rightarrow> (conn_key \<Rightarrow> crane_sim socket) \<Rightarrow> json_obj
     \<Rightarrow> modbus_client connections \<Rightarrow> crane_sim \<Rightarrow> bool" where
  "crane_session sock split_up rounds_of net p m s =
     (net (endpoint p) = crane_link sock split_up rounds_of \<and> m (endpoint p) \<noteq> None
      \<and> word_of_int (to_int_or 1 (jval p ''unit_id'')) = ch_unitId (cs_handler s)
      \<and> crane_live sock split_up rounds_of s)"

lemma session_client:
  assumes "crane_session sock split_up rounds_of net p m s"
  shows "\<exists>c. crane_getClient net (to_string (jval p ''host'')) (to_int_or 502 (jval p ''port'')) timeout m s
      = (Inr c, m(endpoint p \<mapsto> c), s)"
proof -
  have "sk_connected (net (endpoint p)) s"
    using assms by (auto simp: crane_session_def crane_link_def crane_live_def crane_ready_def om_has_def)
  then show ?thesis
    using assms by (auto simp: crane_session_def crane_getClient_def endpoint_def Let_def)
qed

definition written_reply :: "string \<Rightarrow> string \<Rightarrow> message" where
  "written_reply member text = resp_done 0 (JObj (jset member (JStr text) (jset ''written'' (JBool True) [])))"

lemma session_write:
  assumes "crane_session sock split_up rounds_of net p m s" and "cmd \<noteq> ''status''" and "cmd \<noteq> ''read_status''"
    and "crane_precheck cmd p = None" and "crane_write cmd p = Some (a, v, member, text)" and "unat a \<le> 3"
  defines "d \<equiv> ch_device (cs_handler s)"
  shows "\<exists>m' s'. plc_crane_handle net (m, s) cmd (JObj p) = Some ([written_reply member text], m', s')
    \<and> crane_session sock split_up rounds_of net p m' s' \<and> ch_device (cs_handler s') = snd (writeHoldingRegister a v d)
    \<and> cs_events s' = cs_events s @ rejected_events (refusal a v d)
        @ written_events (cs_config s) (ch_unitId (cs_handler s)) a
    \<and> cs_refresh s' = cs_refresh s"
proof -
  let ?u = "word_of_int (to_int_or 1 (jval p ''unit_id'')) :: byte"
  have live: "crane_live sock split_up rounds_of s" and u: "?u = ch_unitId (cs_handler s)"
    and net: "net (endpoint p) = crane_link sock split_up rounds_of"
    using assms(1) by (simp_all add: crane_session_def)
  obtain c where c: "crane_getClient net (to_string (jval p ''host'')) (to_int_or 502 (jval p ''port''))
      (to_int_or 3000 (jval p ''timeout'')) m s = (Inr c, m(endpoint p \<mapsto> c), s)"
    using session_client [OF assms(1)] by blast
  have "mc_unitId (setUnitId ?u c) = ch_unitId (cs_handler s)" by (simp add: setUnitId_def u)
  from crane_write_call [OF live this assms(6), of v] obtain c' s' where
    w: "writeSingleRegister (net (endpoint p)) a v (setUnitId ?u c) s = (Some ok_result, c', s')"
      "crane_live sock split_up rounds_of s'" "ch_unitId (cs_handler s') = ch_unitId (cs_handler s)"
      "ch_device (cs_handler s') = snd (writeHoldingRegister a v d)"
      "cs_events s' = cs_events s @ rejected_events (refusal a v d) @ written_events (cs_config s) ?u a"
      "cs_refresh s' = cs_refresh s"
    by (auto simp: net d_def setUnitId_def)
  then have "plc_crane_handle net (m, s) cmd (JObj p)
      = Some ([written_reply member text], m(endpoint p \<mapsto> c, endpoint p \<mapsto> c'), s')"
    using assms(2-5) c
    by (simp add: plc_crane_handle_def crane_command_def crane_reply_def written_reply_def endpoint_def ok_result_def Let_def)
  moreover have "crane_session sock split_up rounds_of net p (m(endpoint p \<mapsto> c, endpoint p \<mapsto> c')) s'"
    using w(2,3) u net by (simp add: crane_session_def)
  ultimately show ?thesis using w(4-6) u by auto
qed

text \<open>What the status command reports of the cylinder (up, down) and the valve (open, closed).\<close>

definition status_reply :: "bool \<Rightarrow> bool \<Rightarrow> bool \<Rightarrow> bool \<Rightarrow> message" where
  "status_reply up down opn shut =
     resp_done 0 (JObj (jset ''valve_closed'' (JBool shut) (jset ''valve_open'' (JBool opn)
       (jset ''cylinder_down'' (JBool down) (jset ''cylinder_up'' (JBool up) [])))))"

definition device_status :: "crane \<Rightarrow> message" where
  "device_status d = status_reply (m_cylinderState d = AtTop) (m_cylinderState d = AtBottom)
     (m_valveState d = Opened) (m_valveState d = Closed)"

lemma session_status:
  assumes "crane_session sock split_up rounds_of net p m s" and "cs_refresh s"
  shows "\<exists>m' s'. plc_crane_handle net (m, sim_refresh s) ''read_status'' (JObj p)
      = Some ([device_status (ch_device (cs_handler s))], m', s')"
proof -
  let ?u = "word_of_int (to_int_or 1 (jval p ''unit_id'')) :: byte" and ?d = "ch_device (cs_handler s)"
  let ?s = "sim_refresh s"
  obtain area where area: "om_get (ch_units (cs_handler s)) (ch_unitId (cs_handler s)) = Some area" "area_large area"
    and run: "ch_running (cs_handler s)"
    using assms(1) by (auto simp: crane_session_def crane_live_def area_large_def)
  have get: "om_get (ch_units (cs_handler ?s)) (ch_unitId (cs_handler ?s)) = Some (synced_area ?d area)"
    using sync_area [OF run area(1)] area(2) assms(2) by (simp add: sim_refresh_def area_large_def)
  have session: "crane_session sock split_up rounds_of net p m ?s"
    using assms get area(2) area_large_synced [of ?d area]
    by (auto simp: crane_session_def crane_live_def sim_refresh_def crane_ready_def area_large_def)
  have live: "crane_live sock split_up rounds_of ?s" and u: "?u = ch_unitId (cs_handler ?s)"
    and net: "net (endpoint p) = crane_link sock split_up rounds_of"
    using session by (simp_all add: crane_session_def)
  obtain c where c: "crane_getClient net (to_string (jval p ''host'')) (to_int_or 502 (jval p ''port''))
      (to_int_or 3000 (jval p ''timeout'')) m ?s = (Inr c, m(endpoint p \<mapsto> c), ?s)"
    using session_client [OF session] by blast
  let ?cs = "take 6 (drop 9 (discreteInputs (synced_area ?d area)))"
  have "mc_unitId (setUnitId ?u c) = ch_unitId (cs_handler ?s)" by (simp add: setUnitId_def u)
  from crane_read_call [OF live this get] obtain c' s' where
    "readDiscreteInputs (net (endpoint p)) 9 6 (setUnitId ?u c) ?s = (Some (ok_result\<lparr>mr_coils := ?cs\<rparr>), c', s')"
    by (auto simp: net)
  moreover have "length ?cs = 6" using area(2) by (auto simp: area_large_def synced_area_def min_def)
  moreover have "?cs ! 0 = (\<not> diCylinderUp ?d)" "?cs ! 1 = diCylinderDown ?d" "?cs ! 4 = diValveOpen ?d"
      "?cs ! 5 = diValveClosed ?d"
    using area(2) by (simp_all add: area_large_def synced_area_def nth_list_update)
  ultimately have "plc_crane_handle net (m, ?s) ''read_status'' (JObj p)
      = Some ([device_status ?d], m(endpoint p \<mapsto> c, endpoint p \<mapsto> c'), s')"
    using c
    by (simp add: plc_crane_handle_def crane_precheck_def crane_command_def crane_reply_def endpoint_def ok_result_def
        crane_status_def device_status_def status_reply_def diCylinderUp_def diCylinderDown_def diValveOpen_def diValveClosed_def Let_def)
  then show ?thesis by blast
qed

text \<open>Device timers fire.\<close>

lemma session_timer:
  "crane_session sock split_up rounds_of net p m (fold sim_device_timer es s) = crane_session sock split_up rounds_of net p m s"
  "cs_refresh (fold sim_device_timer es s) = cs_refresh s"
  "ch_device (cs_handler (fold sim_device_timer es s)) = run_events crane_step (ch_device (cs_handler s)) es"
  by (induction es arbitrary: s)
    (simp_all add: sim_device_timer_def crane_session_def crane_live_def crane_ready_def)

text \<open>C25: Automatic mode, as the host sees it: its mode command is carried over the network to the
  simulation and acknowledged; at most three timers of the device fire after it; and when none is
  active any more and the handler has refreshed its tables, the host's status command reports the
  valve open, and not closed, and the cylinder down, and not up.\<close>

theorem auto_sequence_seen_by_host:
  assumes "crane_session sock split_up rounds_of net p m s" and "cs_refresh s"
    and "crane_inv (ch_device (cs_handler s))" and "jval p ''mode'' = JStr ''auto''"
  shows "\<exists>m1 s1. plc_crane_handle net (m, s) ''set_mode'' (JObj p) = Some ([written_reply ''mode'' ''auto''], m1, s1)
    \<and> ch_device (cs_handler s1) = snd (writeHoldingRegister 3 1 (ch_device (cs_handler s)))
    \<and> (\<forall>timers. timer_run (ch_device (cs_handler s1)) timers \<longrightarrow> length timers \<le> 3
         \<and> (let s2 = fold sim_device_timer timers s1; d = ch_device (cs_handler s2)
            in m_cylinderTimer d = None \<and> m_valveTimer d = None \<longrightarrow>
               (\<exists>m3 s3. plc_crane_handle net (m1, sim_refresh s2) ''read_status'' (JObj p)
                  = Some ([status_reply False True True False], m3, s3))))"
proof -
  have "crane_precheck ''set_mode'' p = None" "crane_write ''set_mode'' p = Some (3, 1, ''mode'', ''auto'')"
    by (simp_all add: crane_precheck_def crane_write_def assms(4))
  from session_write [OF assms(1) _ _ this] obtain m1 s1 where
    s1: "plc_crane_handle net (m, s) ''set_mode'' (JObj p) = Some ([written_reply ''mode'' ''auto''], m1, s1)"
      "crane_session sock split_up rounds_of net p m1 s1" "cs_refresh s1"
      "ch_device (cs_handler s1) = snd (writeHoldingRegister 3 1 (ch_device (cs_handler s)))"
    using assms(2) by auto
  have "length timers \<le> 3
      \<and> (let s2 = fold sim_device_timer timers s1; d = ch_device (cs_handler s2)
         in m_cylinderTimer d = None \<and> m_valveTimer d = None \<longrightarrow>
            (\<exists>m3 s3. plc_crane_handle net (m1, sim_refresh s2) ''read_status'' (JObj p)
               = Some ([status_reply False True True False], m3, s3)))"
    if run: "timer_run (ch_device (cs_handler s1)) timers" for timers
  proof -
    let ?s2 = "fold sim_device_timer timers s1"
    note ends = auto_completes [OF assms(3) run [unfolded s1(4)], folded s1(4)]
    have "crane_session sock split_up rounds_of net p m1 ?s2" "cs_refresh ?s2"
      using s1(2,3) by (simp_all add: session_timer)
    from session_status [OF this] ends show ?thesis
      by (auto simp: Let_def session_timer(3) device_status_def auto_goal_def)
  qed
  with s1(1,4) show ?thesis by blast
qed

text \<open>In automatic mode the device refuses every manual command to the cylinder or the valve, but the
  host is told that it was written: the driver's answer says so although the device is exactly as
  it was, and only the host of the simulation hears of the refusal, as an event with the register
  and the value.\<close>

theorem manual_command_in_auto_acknowledged:
  assumes "crane_session sock split_up rounds_of net p m s" and "m_hrMode (ch_device (cs_handler s)) = 1"
    and "cmd = ''cylinder_control'' \<and> jval p ''action'' = JStr action \<and> action \<in> {''up'', ''down'', ''stop''}
       \<or> cmd = ''valve_control'' \<and> jval p ''action'' = JStr action \<and> action \<in> {''open'', ''close'', ''stop''}"
  shows "\<exists>m' s' a v err. plc_crane_handle net (m, s) cmd (JObj p) = Some ([written_reply ''action'' action], m', s')
    \<and> ch_device (cs_handler s') = ch_device (cs_handler s)
    \<and> cs_events s' = cs_events s @ rejected_events [(a, v, err)]
        @ written_events (cs_config s) (ch_unitId (cs_handler s)) a"
proof -
  have pre: "crane_precheck cmd p = None" using assms(3) by (auto simp: crane_precheck_def)
  obtain a v where w: "crane_write cmd p = Some (a, v, ''action'', action)" "a = 0 \<or> a = 1"
    using assms(3) by (auto simp: crane_write_def)
  then have low: "unat a \<le> 3" by auto
  obtain err where err: "writeHoldingRegister a v (ch_device (cs_handler s)) = (Inl err, ch_device (cs_handler s))"
    using auto_mode_refuses_manual [OF assms(2) w(2)] by blast
  have "cmd \<noteq> ''status''" "cmd \<noteq> ''read_status''" using assms(3) by auto
  from session_write [OF assms(1) this pre w(1) low] err obtain m' s' where
    "plc_crane_handle net (m, s) cmd (JObj p) = Some ([written_reply ''action'' action], m', s')"
    "ch_device (cs_handler s') = ch_device (cs_handler s)"
    "cs_events s' = cs_events s @ rejected_events [(a, v, err)]
        @ written_events (cs_config s) (ch_unitId (cs_handler s)) a"
    by (auto simp: refusal_def)
  then show ?thesis by blast
qed

section \<open>A simulation that runs\<close>

definition demo_sim :: crane_sim where
  "demo_sim = sim_incoming 3 True ''peer'' 1 (snd (the (handleRun (\<lambda>_ _. Inr 502) [] SimPlcCraneHandler)))"

definition demo_order :: json_obj where
  "demo_order = [(''action'', JStr ''close''), (''host'', JStr ''h''), (''mode'', JStr ''auto'')]"

lemma demo_sim_simps:
  "cs_refresh demo_sim" "ch_device (cs_handler demo_sim) = SimPlcCraneDevice (sc_device (sim_run_config []))"
  "crane_session 3 bytewise slow_rounds (\<lambda>_. crane_link 3 bytewise slow_rounds) demo_order
     [endpoint demo_order \<mapsto> ModbusClient 3000] demo_sim"
proof -
  let ?cfg = "sim_run_config []"
  let ?h = "\<lparr>ch_running = True, ch_unitId = 1, ch_device = SimPlcCraneDevice (sc_device ?cfg),
      ch_units = om_put 1 (ModbusDataArea 256) [], ch_rejected = []\<rparr>"
  have cfg: "sc_unitId ?cfg = 1" "sc_dataAreaSize ?cfg = 256" by (simp_all add: sim_run_config_def)
  have dev: "setConfig c (SimPlcCraneDevice c) = SimPlcCraneDevice c" for c
    by (simp add: setConfig_def SimPlcCraneDevice_def)
  have h: "cs_handler demo_sim = syncDataAreaFromDevice ?h" and r: "cs_refresh demo_sim"
    and cl: "om_get (cs_clients demo_sim) 3 = Some \<lparr>recvBuffer = [], ci_address = ''peer'', ci_port = 1\<rparr>"
    by (simp_all add: demo_sim_def handleRun_def SimPlcCraneHandler_def sim_configured_def sim_started_def emit_event_def
        sim_incoming_def cfg dev addUnit_def hasUnit_def Let_def)
  have "om_get (ch_units (syncDataAreaFromDevice ?h)) 1
      = Some (synced_area (SimPlcCraneDevice (sc_device ?cfg)) (ModbusDataArea 256))"
    using sync_area [of ?h "ModbusDataArea 256"] by (simp add: ModbusDataArea_def)
  moreover have "area_large (synced_area d (ModbusDataArea 256))" for d
    unfolding area_large_synced by (simp add: area_large_def ModbusDataArea_def)
  ultimately have "crane_live 3 bytewise slow_rounds demo_sim"
    using cl by (auto simp: crane_live_def bytewise_whole slow_rounds_in_time crane_ready_def h area_large_def)
  then show "cs_refresh demo_sim" "ch_device (cs_handler demo_sim) = SimPlcCraneDevice (sc_device ?cfg)"
    "crane_session 3 bytewise slow_rounds (\<lambda>_. crane_link 3 bytewise slow_rounds) demo_order
     [endpoint demo_order \<mapsto> ModbusClient 3000] demo_sim"
    using r by (simp_all add: crane_session_def h demo_order_def)
qed

lemma demo_timers:
  "timer_run (snd (writeHoldingRegister 3 1 (SimPlcCraneDevice cfg))) [ValveTimer, CylinderTimer]"
  "m_cylinderTimer (run_events crane_step (snd (writeHoldingRegister 3 1 (SimPlcCraneDevice cfg))) [ValveTimer, CylinderTimer]) = None"
  "m_valveTimer (run_events crane_step (snd (writeHoldingRegister 3 1 (SimPlcCraneDevice cfg))) [ValveTimer, CylinderTimer]) = None"
  by (simp_all add: crane_ops crane_step_def enabled_def SimPlcCraneDevice_def Let_def)

lemma auto_sequence_seen_by_host_witness:
  "\<exists>m1 s1 m3 s3. plc_crane_handle (\<lambda>_. crane_link 3 bytewise slow_rounds)
      ([endpoint demo_order \<mapsto> ModbusClient 3000], demo_sim) ''set_mode'' (JObj demo_order)
      = Some ([written_reply ''mode'' ''auto''], m1, s1)
    \<and> plc_crane_handle (\<lambda>_. crane_link 3 bytewise slow_rounds)
        (m1, sim_refresh (fold sim_device_timer [ValveTimer, CylinderTimer] s1)) ''read_status'' (JObj demo_order)
      = Some ([status_reply False True True False], m3, s3)"
proof -
  have inv: "crane_inv (ch_device (cs_handler demo_sim))" by (simp add: demo_sim_simps crane_inv_init)
  have mode: "jval demo_order ''mode'' = JStr ''auto''" by (simp add: demo_order_def)
  from auto_sequence_seen_by_host [OF demo_sim_simps(3,1) inv mode] obtain m1 s1 where
    s1: "plc_crane_handle (\<lambda>_. crane_link 3 bytewise slow_rounds)
      ([endpoint demo_order \<mapsto> ModbusClient 3000], demo_sim) ''set_mode'' (JObj demo_order)
      = Some ([written_reply ''mode'' ''auto''], m1, s1)"
      "ch_device (cs_handler s1) = snd (writeHoldingRegister 3 1 (SimPlcCraneDevice (sc_device (sim_run_config []))))"
    and seen: "timer_run (ch_device (cs_handler s1)) ts \<longrightarrow> length ts \<le> 3
      \<and> (let s2 = fold sim_device_timer ts s1; d = ch_device (cs_handler s2)
         in m_cylinderTimer d = None \<and> m_valveTimer d = None \<longrightarrow>
            (\<exists>m3 s3. plc_crane_handle (\<lambda>_. crane_link 3 bytewise slow_rounds) (m1, sim_refresh s2)
               ''read_status'' (JObj demo_order) = Some ([status_reply False True True False], m3, s3)))" for ts
    unfolding demo_sim_simps(2) by blast
  from seen [of "[ValveTimer, CylinderTimer]"] have "\<exists>m3 s3. plc_crane_handle (\<lambda>_. crane_link 3 bytewise slow_rounds)
      (m1, sim_refresh (fold sim_device_timer [ValveTimer, CylinderTimer] s1)) ''read_status'' (JObj demo_order)
        = Some ([status_reply False True True False], m3, s3)"
    unfolding Let_def session_timer(3) s1(2) using demo_timers by blast
  with s1(1) show ?thesis by blast
qed

text \<open>In automatic mode the valve cannot be closed, and the driver says that it was.\<close>

definition demo_auto :: crane_sim where
  "demo_auto = demo_sim\<lparr>cs_handler := (cs_handler demo_sim)\<lparr>ch_device :=
     (ch_device (cs_handler demo_sim))\<lparr>m_hrMode := 1, m_valveState := Opened, m_cylinderState := AtBottom\<rparr>\<rparr>\<rparr>"

lemma manual_command_in_auto_acknowledged_witness:
  "\<exists>m' s' a v err. plc_crane_handle (\<lambda>_. crane_link 3 bytewise slow_rounds)
      ([endpoint demo_order \<mapsto> ModbusClient 3000], demo_auto) ''valve_control'' (JObj demo_order)
      = Some ([written_reply ''action'' ''close''], m', s')
    \<and> ch_device (cs_handler s') = ch_device (cs_handler demo_auto)
    \<and> cs_events s' = cs_events demo_auto @ rejected_events [(a, v, err)]
        @ written_events (cs_config demo_auto) (ch_unitId (cs_handler demo_auto)) a"
proof -
  have "crane_session 3 bytewise slow_rounds (\<lambda>_. crane_link 3 bytewise slow_rounds) demo_order
     [endpoint demo_order \<mapsto> ModbusClient 3000] demo_auto"
    using demo_sim_simps(3) by (simp add: crane_session_def crane_live_def crane_ready_def demo_auto_def)
  moreover have "m_hrMode (ch_device (cs_handler demo_auto)) = 1" by (simp add: demo_auto_def)
  moreover have "jval demo_order ''action'' = JStr ''close''" by (simp add: demo_order_def)
  ultimately show ?thesis
    by (intro manual_command_in_auto_acknowledged) simp_all
qed

end
