(* ===== verification/LaserCodec.thy ===== *)
theory LaserCodec
  imports Framing ModbusCrc QtText
begin

text \<open>
  The wire format of the 3D laser radar
  (\<open>src/src/drivers/driver_3d_laser_radar/protocol_codec.*\<close>): frames with the magic \<open>LIDA\<close>, a
  big-endian length, a counter, address, command and payload, closed by a CRC-32 that the device
  computes word by word with the bytes of each word reversed. Frames are recovered from any
  chunking (\<open>laser\<close>, an interpretation of \<open>framed_stream\<close>), and damage is detected
  (\<open>crc32\<close>, an interpretation of \<open>crc_register\<close>). Output arguments of the code are results.
\<close>

section \<open>The checksum\<close>

definition kCrc32Table :: "u32 list" where
  "kCrc32Table = [
    0x00000000, 0x04c11db7, 0x09823b6e, 0x0d4326d9, 0x130476dc, 0x17c56b6b, 0x1a864db2, 0x1e475005,
    0x2608edb8, 0x22c9f00f, 0x2f8ad6d6, 0x2b4bcb61, 0x350c9b64, 0x31cd86d3, 0x3c8ea00a, 0x384fbdbd,
    0x4c11db70, 0x48d0c6c7, 0x4593e01e, 0x4152fda9, 0x5f15adac, 0x5bd4b01b, 0x569796c2, 0x52568b75,
    0x6a1936c8, 0x6ed82b7f, 0x639b0da6, 0x675a1011, 0x791d4014, 0x7ddc5da3, 0x709f7b7a, 0x745e66cd,
    0x9823b6e0, 0x9ce2ab57, 0x91a18d8e, 0x95609039, 0x8b27c03c, 0x8fe6dd8b, 0x82a5fb52, 0x8664e6e5,
    0xbe2b5b58, 0xbaea46ef, 0xb7a96036, 0xb3687d81, 0xad2f2d84, 0xa9ee3033, 0xa4ad16ea, 0xa06c0b5d,
    0xd4326d90, 0xd0f37027, 0xddb056fe, 0xd9714b49, 0xc7361b4c, 0xc3f706fb, 0xceb42022, 0xca753d95,
    0xf23a8028, 0xf6fb9d9f, 0xfbb8bb46, 0xff79a6f1, 0xe13ef6f4, 0xe5ffeb43, 0xe8bccd9a, 0xec7dd02d,
    0x34867077, 0x30476dc0, 0x3d044b19, 0x39c556ae, 0x278206ab, 0x23431b1c, 0x2e003dc5, 0x2ac12072,
    0x128e9dcf, 0x164f8078, 0x1b0ca6a1, 0x1fcdbb16, 0x018aeb13, 0x054bf6a4, 0x0808d07d, 0x0cc9cdca,
    0x7897ab07, 0x7c56b6b0, 0x71159069, 0x75d48dde, 0x6b93dddb, 0x6f52c06c, 0x6211e6b5, 0x66d0fb02,
    0x5e9f46bf, 0x5a5e5b08, 0x571d7dd1, 0x53dc6066, 0x4d9b3063, 0x495a2dd4, 0x44190b0d, 0x40d816ba,
    0xaca5c697, 0xa864db20, 0xa527fdf9, 0xa1e6e04e, 0xbfa1b04b, 0xbb60adfc, 0xb6238b25, 0xb2e29692,
    0x8aad2b2f, 0x8e6c3698, 0x832f1041, 0x87ee0df6, 0x99a95df3, 0x9d684044, 0x902b669d, 0x94ea7b2a,
    0xe0b41de7, 0xe4750050, 0xe9362689, 0xedf73b3e, 0xf3b06b3b, 0xf771768c, 0xfa325055, 0xfef34de2,
    0xc6bcf05f, 0xc27dede8, 0xcf3ecb31, 0xcbffd686, 0xd5b88683, 0xd1799b34, 0xdc3abded, 0xd8fba05a,
    0x690ce0ee, 0x6dcdfd59, 0x608edb80, 0x644fc637, 0x7a089632, 0x7ec98b85, 0x738aad5c, 0x774bb0eb,
    0x4f040d56, 0x4bc510e1, 0x46863638, 0x42472b8f, 0x5c007b8a, 0x58c1663d, 0x558240e4, 0x51435d53,
    0x251d3b9e, 0x21dc2629, 0x2c9f00f0, 0x285e1d47, 0x36194d42, 0x32d850f5, 0x3f9b762c, 0x3b5a6b9b,
    0x0315d626, 0x07d4cb91, 0x0a97ed48, 0x0e56f0ff, 0x1011a0fa, 0x14d0bd4d, 0x19939b94, 0x1d528623,
    0xf12f560e, 0xf5ee4bb9, 0xf8ad6d60, 0xfc6c70d7, 0xe22b20d2, 0xe6ea3d65, 0xeba91bbc, 0xef68060b,
    0xd727bbb6, 0xd3e6a601, 0xdea580d8, 0xda649d6f, 0xc423cd6a, 0xc0e2d0dd, 0xcda1f604, 0xc960ebb3,
    0xbd3e8d7e, 0xb9ff90c9, 0xb4bcb610, 0xb07daba7, 0xae3afba2, 0xaafbe615, 0xa7b8c0cc, 0xa379dd7b,
    0x9b3660c6, 0x9ff77d71, 0x92b45ba8, 0x9675461f, 0x8832161a, 0x8cf30bad, 0x81b02d74, 0x857130c3,
    0x5d8a9099, 0x594b8d2e, 0x5408abf7, 0x50c9b640, 0x4e8ee645, 0x4a4ffbf2, 0x470cdd2b, 0x43cdc09c,
    0x7b827d21, 0x7f436096, 0x7200464f, 0x76c15bf8, 0x68860bfd, 0x6c47164a, 0x61043093, 0x65c52d24,
    0x119b4be9, 0x155a565e, 0x18197087, 0x1cd86d30, 0x029f3d35, 0x065e2082, 0x0b1d065b, 0x0fdc1bec,
    0x3793a651, 0x3352bbe6, 0x3e119d3f, 0x3ad08088, 0x2497d08d, 0x2056cd3a, 0x2d15ebe3, 0x29d4f654,
    0xc5a92679, 0xc1683bce, 0xcc2b1d17, 0xc8ea00a0, 0xd6ad50a5, 0xd26c4d12, 0xdf2f6bcb, 0xdbee767c,
    0xe3a1cbc1, 0xe760d676, 0xea23f0af, 0xeee2ed18, 0xf0a5bd1d, 0xf464a0aa, 0xf9278673, 0xfde69bc4,
    0x89b8fd09, 0x8d79e0be, 0x803ac667, 0x84fbdbd0, 0x9abc8bd5, 0x9e7d9662, 0x933eb0bb, 0x97ffad0c,
    0xafb010b1, 0xab710d06, 0xa6322bdf, 0xa2f33668, 0xbcb4666d, 0xb8757bda, 0xb5365d03, 0xb1f740b4]"

definition crc32Mpeg2Step :: "byte \<Rightarrow> u32 \<Rightarrow> u32" where
  "crc32Mpeg2Step byteIn crcIn =
     (let index = (drop_bit 24 crcIn XOR ucast byteIn) AND 0xFF
      in push_bit 8 crcIn XOR kCrc32Table ! unat index)"

definition crc32Stm32 :: "bytes \<Rightarrow> u32" where
  "crc32Stm32 data =
     (let trailingBytes = length data mod 4;
          alignedSize = length data - trailingBytes;
          crc = foldl (\<lambda>crc word. foldl (\<lambda>crc index. crc32Mpeg2Step (data ! index) crc) crc
                        (rev [4 * word..<4 * word + 4])) 0xFFFFFFFF [0..<alignedSize div 4]
      in if 0 < trailingBytes
         then let tail = drop alignedSize data @ replicate (4 - trailingBytes) 0
              in foldl (\<lambda>crc i. crc32Mpeg2Step (tail ! i) crc) crc (rev [0..<4])
         else crc)"

section \<open>Frames\<close>

definition kMagic :: bytes where
  "kMagic = [0x4C, 0x49, 0x44, 0x41]"

abbreviation (input) kMinFrameLen :: nat where
  "kMinFrameLen \<equiv> 18"

abbreviation (input) kMaxFrameLen :: nat where
  "kMaxFrameLen \<equiv> 4 + 2 + 0xFFFF"

record laser_frame =
  lf_counter :: u16
  lf_addr :: byte
  lf_command :: byte
  lf_length :: u16
  lf_payload :: bytes
  lf_crc32 :: u32

datatype decode_status = DecodeOk | Incomplete | BadMagic | InvalidLength | CrcError | AddrMismatch | CmdMismatch

definition decodeStatusToString :: "decode_status \<Rightarrow> string" where
  "decodeStatusToString status =
     (case status of
        DecodeOk \<Rightarrow> ''Ok''
      | Incomplete \<Rightarrow> ''Incomplete''
      | BadMagic \<Rightarrow> ''BadMagic''
      | InvalidLength \<Rightarrow> ''InvalidLength''
      | CrcError \<Rightarrow> ''CrcError''
      | AddrMismatch \<Rightarrow> ''AddrMismatch''
      | CmdMismatch \<Rightarrow> ''CmdMismatch'')"

definition encodeFrame :: "u16 \<Rightarrow> byte \<Rightarrow> byte \<Rightarrow> bytes \<Rightarrow> bytes" where
  "encodeFrame counter addr command payload =
     (let len = of_nat (2 + 1 + 1 + length payload + 4);
          frame = kMagic @ be16 len @ be16 counter @ [addr, command] @ payload
      in frame @ be32 (crc32Stm32 frame))"

text \<open>The status, the error message, and with \<open>DecodeOk\<close> the frame and the number of bytes it takes.\<close>

definition tryDecodeFrame ::
  "bytes \<Rightarrow> int \<Rightarrow> int \<Rightarrow> bool \<Rightarrow> decode_status \<times> string \<times> (laser_frame \<times> nat) option" where
  "tryDecodeFrame buffer expectAddr expectCmd finalChunk =
     (if length buffer < kMinFrameLen then (Incomplete, ''buffer too short'', None)
      else if take 4 buffer \<noteq> kMagic then (BadMagic, ''bad magic'', None)
      else
        let len = unat (read16 buffer 4) in
        if len < 8 + 4 \<or> 6 + len < kMinFrameLen \<or> kMaxFrameLen < 6 + len
        then (InvalidLength, ''invalid frame length'', None)
        else
          let totalLength = 6 + len in
          if length buffer < totalLength then (Incomplete, ''frame incomplete'', None)
          else
            let expectedCrc = read32 buffer (totalLength - 4);
                actualCrc = crc32Stm32 (take (totalLength - 4) buffer) in
            if actualCrc \<noteq> expectedCrc
            then (if finalChunk
                  then (CrcError, ''CRC mismatch: computed 0x'' @ hex8 actualCrc @ '', frame 0x'' @ hex8 expectedCrc, None)
                  else (Incomplete, ''frame incomplete'', None))
            else
              let addr = buffer ! 8; command = buffer ! 9; payloadLen = len - 8 in
              if payloadLen < 4 then (InvalidLength, ''payload too short'', None)
              else if 0 \<le> expectAddr \<and> addr \<noteq> word_of_int expectAddr
              then (AddrMismatch, ''addr mismatch: expected '' @ dec (nat expectAddr) @ '', got '' @ dec (unat addr), None)
              else if 0 \<le> expectCmd \<and> command \<noteq> word_of_int expectCmd
              then (CmdMismatch, ''cmd mismatch: expected '' @ dec (nat expectCmd) @ '', got '' @ dec (unat command), None)
              else (DecodeOk, '''',
                    Some (\<lparr>lf_counter = read16 buffer 6, lf_addr = addr, lf_command = command,
                            lf_length = read16 buffer 4, lf_payload = take payloadLen (drop 10 buffer),
                            lf_crc32 = expectedCrc\<rparr>, totalLength)))"

section \<open>Payloads\<close>

definition makeU32Payload :: "u32 \<Rightarrow> bytes" where
  "makeU32Payload value = be32 value"

definition makeReadRegPayload :: "u16 \<Rightarrow> bytes" where
  "makeReadRegPayload regId = be16 regId @ be32 100"

definition makeWriteRegPayload :: "u16 \<Rightarrow> u32 \<Rightarrow> bytes" where
  "makeWriteRegPayload regId value = be16 regId @ be32 value"

text \<open>The angles are \<open>qint32\<close>, passed as the words that hold them.\<close>

definition makeScanFieldPayload :: "u32 \<Rightarrow> u32 \<Rightarrow> u32 \<Rightarrow> u32 \<Rightarrow> u32 \<Rightarrow> u32 \<Rightarrow> bytes" where
  "makeScanFieldPayload beginX endX stepX beginY endY stepY =
     be32 beginX @ be32 endX @ be32 stepX @ be32 beginY @ be32 endY @ be32 stepY"

definition parseU32Payload :: "bytes \<Rightarrow> u32 option" where
  "parseU32Payload payload = (if length payload \<noteq> 4 then None else Some (read32 payload 0))"

definition parseRegResponse :: "bytes \<Rightarrow> (u16 \<times> u32) option" where
  "parseRegResponse payload =
     (if length payload \<noteq> 6 then None else Some (read16 payload 0, read32 payload 2))"

definition parseCancelResponse :: "bytes \<Rightarrow> (u16 \<times> byte \<times> byte) option" where
  "parseCancelResponse payload =
     (if length payload \<noteq> 4 then None else Some (read16 payload 0, payload ! 2, payload ! 3))"

record query_result =
  lastCounter :: u16
  lastCommand :: byte
  resultA :: u32
  resultB :: u32

definition parseQueryResponse :: "bytes \<Rightarrow> query_result option" where
  "parseQueryResponse payload =
     (if length payload \<noteq> 11 then None
      else Some \<lparr>lastCounter = read16 payload 0, lastCommand = payload ! 2,
                  resultA = read32 payload 3, resultB = read32 payload 7\<rparr>)"

definition parseSegmentResponse :: "bytes \<Rightarrow> (u32 \<times> u32 \<times> u16 \<times> bytes) option" where
  "parseSegmentResponse payload =
     (if length payload < 10 then None
      else let segLen = read16 payload 8 in
        if length payload \<noteq> 10 + unat segLen then None
        else Some (read32 payload 0, read32 payload 4, segLen, take (unat segLen) (drop 10 payload)))"

definition commandName :: "byte \<Rightarrow> string" where
  "commandName command =
     (if command = 1 then ''read_reg'' else if command = 2 then ''write_reg''
      else if command = 3 then ''test'' else if command = 4 then ''calib_x''
      else if command = 5 then ''cancel'' else if command = 6 then ''query''
      else if command = 7 then ''move_x'' else if command = 8 then ''calib_lidar''
      else if command = 11 then ''scan_field'' else if command = 12 then ''get_data''
      else if command = 14 then ''set_scan_mode'' else if command = 15 then ''set_imaging_mode''
      else if command = 16 then ''reboot'' else ''unknown'')"

definition workModeName :: "u32 \<Rightarrow> string" where
  "workModeName modeCode =
     (if modeCode = 10 then ''boot'' else if modeCode = 20 then ''imaging'' else ''unknown'')"

end
