(* ===== verification/LaserSession.thy ===== *)
theory LaserSession
  imports LaserCodec
begin

text \<open>
  The request layer of the laser radar driver
  (\<open>src/src/drivers/driver_3d_laser_radar/laser_session.*\<close>). The transport is an interface of the
  code (\<open>ILaserTransport\<close>); here the environment is a script of exchanges, one per request: whether
  the frame could be written, and what the calls of \<open>readSome\<close> return until the deadline of the
  request passes. After the script the transport is closed. Error texts are the ones of the code
  when the caller passes an empty text, as the driver's handler does.
\<close>

datatype session_error = NoError | Transport | Protocol

datatype read_outcome = Chunk bytes | ReadFailed string

record exchange =
  x_write_error :: "string option"
  x_reads :: "read_outcome list"

record laser_session =
  m_counter :: u16
  ls_script :: "exchange list"
  ls_written :: "bytes list"

type_synonym 'a session_result = "session_error \<times> string + 'a"

definition reserveCounter :: "laser_session \<Rightarrow> u16 \<times> laser_session" where
  "reserveCounter s = (m_counter s, s\<lparr>m_counter := m_counter s + 1\<rparr>)"

text \<open>\<open>ILaserTransport::writeFrame\<close>: the frame is handed over, and the exchange that follows begins.\<close>

definition writeFrame :: "bytes \<Rightarrow> laser_session \<Rightarrow> (string + read_outcome list) \<times> laser_session" where
  "writeFrame frame s =
     (let s = s\<lparr>ls_written := ls_written s @ [frame]\<rparr> in
      case ls_script s of
        [] \<Rightarrow> (Inl ''TCP socket is not connected'', s)
      | x # xs \<Rightarrow>
          ((case x_write_error x of Some err \<Rightarrow> Inl err | None \<Rightarrow> Inr (x_reads x)), s\<lparr>ls_script := xs\<rparr>))"

definition decode_failure :: "decode_status \<Rightarrow> string \<Rightarrow> session_error \<times> string" where
  "decode_failure status msg =
     (Protocol, if msg = [] then ''Decode failed: '' @ decodeStatusToString status else msg)"

fun receive_loop :: "byte \<Rightarrow> bytes \<Rightarrow> string \<Rightarrow> read_outcome list \<Rightarrow> laser_frame session_result" where
  "receive_loop command buffer msg [] =
     Inl (if buffer = [] then Transport else Protocol,
          if msg \<noteq> [] then msg else if buffer = [] then ''TCP read timeout'' else ''Incomplete frame'')"
| "receive_loop command buffer msg (ReadFailed err # reads) =
     (if buffer = [] then Inl (Transport, if msg = [] then err else msg)
      else case tryDecodeFrame buffer 0 (uint command) True of
          (_, _, Some (frame, _)) \<Rightarrow> Inr frame
        | (status, msg, None) \<Rightarrow> Inl (decode_failure status msg))"
| "receive_loop command buffer msg (Chunk chunk # reads) =
     (case tryDecodeFrame (buffer @ chunk) 0 (uint command) False of
        (_, _, Some (frame, _)) \<Rightarrow> Inr frame
      | (status, msg, None) \<Rightarrow>
          if status = Incomplete then receive_loop command (buffer @ chunk) msg reads
          else Inl (decode_failure status msg))"

definition sendAndReceive :: "byte \<Rightarrow> bytes \<Rightarrow> laser_session \<Rightarrow> laser_frame session_result \<times> laser_session" where
  "sendAndReceive command payload s =
     (let (counter, s) = reserveCounter s;
          (written, s) = writeFrame (encodeFrame counter 0 command payload) s
      in case written of
           Inl err \<Rightarrow> (Inl (Transport, err), s)
         | Inr reads \<Rightarrow> (receive_loop command [] [] reads, s))"

text \<open>The one read of a long-running command: no outcome before the deadline is the timeout of the
  transport.\<close>

definition sendExpectNoImmediateResponse :: "byte \<Rightarrow> bytes \<Rightarrow> laser_session \<Rightarrow> u16 session_result \<times> laser_session" where
  "sendExpectNoImmediateResponse command payload s =
     (let (reserved, s) = reserveCounter s;
          (written, s) = writeFrame (encodeFrame reserved 0 command payload) s
      in case written of
           Inl err \<Rightarrow> (Inl (Transport, err), s)
         | Inr reads \<Rightarrow>
             ((case reads of
                 [] \<Rightarrow> Inr reserved
               | ReadFailed err # _ \<Rightarrow>
                   if contains_text ''timeout'' (ascii_lower err) then Inr reserved else Inl (Transport, err)
               | Chunk _ # _ \<Rightarrow> Inl (Protocol, ''Long-running command returned immediate data unexpectedly'')), s))"

definition readRegister :: "u16 \<Rightarrow> laser_session \<Rightarrow> u32 session_result \<times> laser_session" where
  "readRegister regId s =
     (case sendAndReceive 1 (makeReadRegPayload regId) s of
        (Inl e, s) \<Rightarrow> (Inl e, s)
      | (Inr response, s) \<Rightarrow>
          (case parseRegResponse (lf_payload response) of
             None \<Rightarrow> Inl (Protocol, ''Invalid register response'')
           | Some (returnedRegId, returnedValue) \<Rightarrow>
               if returnedRegId = 0xFFFF
               then Inl (Protocol, ''Device returned register error code '' @ dec (unat returnedValue))
               else if returnedRegId \<noteq> regId
               then Inl (Protocol, ''Register mismatch: expected '' @ dec (unat regId) @ '', got '' @ dec (unat returnedRegId))
               else Inr returnedValue, s))"

definition writeRegister :: "u16 \<Rightarrow> u32 \<Rightarrow> laser_session \<Rightarrow> u32 session_result \<times> laser_session" where
  "writeRegister regId writeValue s =
     (case sendAndReceive 2 (makeWriteRegPayload regId writeValue) s of
        (Inl e, s) \<Rightarrow> (Inl e, s)
      | (Inr response, s) \<Rightarrow>
          (case parseRegResponse (lf_payload response) of
             None \<Rightarrow> Inl (Protocol, ''Invalid register write response'')
           | Some (returnedRegId, returnedValue) \<Rightarrow>
               if returnedRegId = 0xFFFF
               then Inl (Protocol, ''Device returned register error code '' @ dec (unat returnedValue))
               else if returnedRegId \<noteq> regId \<or> returnedValue \<noteq> writeValue
               then Inl (Protocol, ''Register write echo mismatch'')
               else Inr returnedValue, s))"

definition query :: "u32 \<Rightarrow> laser_session \<Rightarrow> query_result session_result \<times> laser_session" where
  "query op s =
     (case sendAndReceive 6 (makeU32Payload op) s of
        (Inl e, s) \<Rightarrow> (Inl e, s)
      | (Inr response, s) \<Rightarrow>
          (case parseQueryResponse (lf_payload response) of
             None \<Rightarrow> Inl (Protocol, ''Invalid query response'')
           | Some result \<Rightarrow> Inr result, s))"

definition cancel :: "laser_session \<Rightarrow> (u16 \<times> byte \<times> byte) session_result \<times> laser_session" where
  "cancel s =
     (case sendAndReceive 5 (makeU32Payload 100) s of
        (Inl e, s) \<Rightarrow> (Inl e, s)
      | (Inr response, s) \<Rightarrow>
          (case parseCancelResponse (lf_payload response) of
             None \<Rightarrow> Inl (Protocol, ''Invalid cancel response'')
           | Some result \<Rightarrow> Inr result, s))"

definition readSegment :: "u32 \<Rightarrow> laser_session \<Rightarrow> (u32 \<times> bytes) session_result \<times> laser_session" where
  "readSegment segmentIndex s =
     (case sendAndReceive 12 (makeU32Payload segmentIndex) s of
        (Inl e, s) \<Rightarrow> (Inl e, s)
      | (Inr response, s) \<Rightarrow>
          (case parseSegmentResponse (lf_payload response) of
             None \<Rightarrow> Inl (Protocol, ''Invalid segment response'')
           | Some (returnedSegId, returnedSegCount, segLen, localData) \<Rightarrow>
               if returnedSegId \<noteq> segmentIndex
               then Inl (Protocol, ''Segment mismatch: expected '' @ dec (unat segmentIndex) @ '', got '' @ dec (unat returnedSegId))
               else Inr (returnedSegCount, localData), s))"

text \<open>The polls that are begun before the task's deadline are the rounds of the loop.\<close>

fun waitTaskCompleted :: "u16 \<Rightarrow> byte \<Rightarrow> nat \<Rightarrow> laser_session \<Rightarrow> query_result session_result \<times> laser_session" where
  "waitTaskCompleted expectedCounter expectedCommand 0 s = (Inl (Protocol, ''Task timeout''), s)"
| "waitTaskCompleted expectedCounter expectedCommand (Suc polls) s =
     (case query 100 s of
        (Inl (kind, msg), s) \<Rightarrow>
          if kind = Transport then waitTaskCompleted expectedCounter expectedCommand polls s
          else (Inl (kind, msg), s)
      | (Inr result, s) \<Rightarrow>
          if lastCounter result \<noteq> expectedCounter \<or> lastCommand result \<noteq> expectedCommand
          then waitTaskCompleted expectedCounter expectedCommand polls s
          else if resultA result = 1000
          then waitTaskCompleted expectedCounter expectedCommand polls s
          else (Inr result, s))"

record scan_aggregate =
  segmentCount :: int
  byteCount :: int
  agg_data :: bytes

lemma writeFrame_script:
  "writeFrame frame s = (Inr reads, s') \<Longrightarrow> length (ls_script s') < length (ls_script s)"
  by (auto simp: writeFrame_def Let_def split: list.splits option.splits)

lemma sendAndReceive_script:
  "sendAndReceive command payload s = (Inr frame, s') \<Longrightarrow> length (ls_script s') < length (ls_script s)"
  by (auto simp: sendAndReceive_def reserveCounter_def Let_def split: prod.splits sum.splits dest!: writeFrame_script)

lemma readSegment_script:
  "readSegment i s = (Inr seg, s') \<Longrightarrow> length (ls_script s') < length (ls_script s)"
  by (auto simp: readSegment_def split: prod.splits sum.splits option.splits if_splits dest!: sendAndReceive_script)

text \<open>Every round consumes an exchange, so the loop ends.\<close>

function collect_loop ::
  "u32 \<Rightarrow> u32 \<Rightarrow> bytes \<Rightarrow> int \<Rightarrow> laser_session \<Rightarrow> scan_aggregate session_result \<times> laser_session" where
  "collect_loop segmentIndex expectedSegments aggregated received s =
     (case readSegment segmentIndex s of
        (Inl e, s') \<Rightarrow> (Inl e, s')
      | (Inr (count, segmentData), s') \<Rightarrow>
          if count = 0 then (Inl (Protocol, ''Device returned zero segment count''), s')
          else if segmentIndex \<noteq> 0 \<and> count \<noteq> expectedSegments
          then (Inl (Protocol, ''Segment count changed during transfer''), s')
          else
            let expectedSegments = (if segmentIndex = 0 then count else expectedSegments);
                aggregated = aggregated @ segmentData;
                received = received + 1
            in if expectedSegments \<le> segmentIndex + 1
               then (Inr \<lparr>segmentCount = received, byteCount = int (length aggregated), agg_data = aggregated\<rparr>, s')
               else collect_loop (segmentIndex + 1) expectedSegments aggregated received s')"
  by pat_completeness auto

termination
  by (relation "measure (\<lambda>(i, e, a, r, s). length (ls_script s))") (auto dest: readSegment_script [OF sym])

declare collect_loop.simps [simp del]

definition collectAllSegments :: "laser_session \<Rightarrow> scan_aggregate session_result \<times> laser_session" where
  "collectAllSegments s = collect_loop 0 0 [] 0 s"

end
