(* ===== verification/LaserCodecSpec.thy ===== *)
theory LaserCodecSpec
  imports LaserCodec
begin

text \<open>
  What the wire format of the laser radar promises: its table-driven checksum is the bitwise
  CRC-32 with polynomial 0x04C11DB7, a frame is recovered from any chunks, and a damaged frame
  is not accepted.
\<close>

section \<open>The bitwise checksum\<close>

definition crc32_bit :: "u32 \<Rightarrow> u32" where
  "crc32_bit c = (if bit c 31 then push_bit 1 c XOR 0x04C11DB7 else push_bit 1 c)"

definition crc32_bits :: "u32 \<Rightarrow> u32" where
  "crc32_bits c = crc32_bit (crc32_bit (crc32_bit (crc32_bit (crc32_bit (crc32_bit (crc32_bit (crc32_bit c)))))))"

lemma kCrc32Table_length [simp]: "length kCrc32Table = 256"
  by (simp add: kCrc32Table_def)

lemma kCrc32Table_odds: "odds kCrc32Table = map (\<lambda>v. v XOR 0x04C11DB7) (evens kCrc32Table)"
  by (simp add: kCrc32Table_def)

lemma kCrc32Table_evens: "evens kCrc32Table = map crc32_bit (take 128 kCrc32Table)"
  by (simp add: kCrc32Table_def crc32_bit_def)

lemma kCrc32Table_rec:
  assumes "i < 128"
  shows "kCrc32Table ! (2 * i) = crc32_bit (kCrc32Table ! i)"
    and "kCrc32Table ! (2 * i + 1) = kCrc32Table ! (2 * i) XOR 0x04C11DB7"
proof -
  have i: "2 * i + 1 < length kCrc32Table" using assms by simp
  have "evens kCrc32Table ! i = map crc32_bit (take 128 kCrc32Table) ! i" by (simp only: kCrc32Table_evens)
  with assms nth_evens_odds [OF i] show "kCrc32Table ! (2 * i) = crc32_bit (kCrc32Table ! i)" by simp
  have "map (\<lambda>v. v XOR 0x04C11DB7) (evens kCrc32Table) ! i = evens kCrc32Table ! i XOR 0x04C11DB7"
    using assms by (simp add: length_evens_odds)
  with nth_evens_odds [OF i] show "kCrc32Table ! (2 * i + 1) = kCrc32Table ! (2 * i) XOR 0x04C11DB7"
    by (simp only: kCrc32Table_odds [symmetric])
qed

lemma crc32_bit_xor: "crc32_bit (a XOR b) = crc32_bit a XOR crc32_bit b"
  by (auto simp: crc32_bit_def bit_simps intro!: bit_word_eqI)

lemma crc32_bits_xor: "crc32_bits (a XOR b) = crc32_bits a XOR crc32_bits b"
  by (simp add: crc32_bits_def crc32_bit_xor)

lemma crc32_bit_inj: "crc32_bit a = crc32_bit b \<Longrightarrow> a = b"
proof -
  assume eq: "crc32_bit a = crc32_bit b"
  have low: "bit (crc32_bit c) 0 = bit c 31" for c
    by (cases "bit c 31") (simp_all only: crc32_bit_def if_True if_False bit_xor_iff bit_push_bit_iff, simp_all add: bit_0)
  from eq have top: "bit a 31 = bit b 31" using low by metis
  with eq have shift: "push_bit 1 a = push_bit 1 b"
    using xor_cancel [of "push_bit 1 a" "0x04C11DB7" "push_bit 1 b"] by (auto simp: crc32_bit_def split: if_splits)
  show "a = b"
  proof (rule bit_word_eqI)
    fix n
    assume n: "n < LENGTH(32)"
    have "bit (push_bit 1 a) (Suc n) = bit (push_bit 1 b) (Suc n)" using shift by simp
    with n top show "bit a n = bit b n"
      by (cases "n = 31") (auto simp: bit_push_bit_iff simp del: push_bit_Suc)
  qed
qed

lemma crc32_bits_inj: "crc32_bits a = crc32_bits b \<Longrightarrow> a = b"
  by (simp add: crc32_bits_def) (blast dest: crc32_bit_inj)

lemma crc32_bit_shift:
  assumes "\<not> bit c 31"
  shows "crc32_bit c = push_bit 1 c"
  using assms by (simp add: crc32_bit_def)

lemma bit_nat_iff_7: "j < 128 \<Longrightarrow> \<not> bit (j :: nat) 7"
  by (simp add: bit_iff_odd)

lemma kCrc32Table_nth:
  assumes "i < 256"
  shows "kCrc32Table ! i = crc32_bits (push_bit 24 (of_nat i))"
  using assms
proof (induction i rule: less_induct)
  case (less i)
  show ?case
  proof (cases "i = 0")
    case True
    then show ?thesis by (simp add: kCrc32Table_def crc32_bits_def crc32_bit_def)
  next
    case False
    define j where "j = i div 2"
    have j: "j < i" "j < 128" using False less.prems by (auto simp: j_def)
    have "unat (of_nat j :: u32) = j" using j(2) by (simp add: unsigned_of_nat take_bit_nat_eq_self)
    then have "\<not> bit (of_nat j :: u32) 7"
      using j(2) bit_nat_iff_7 [of j] by (simp add: bit_of_nat_iff)
    then have top: "\<not> bit (push_bit 24 (of_nat j :: u32)) 31" by (simp add: bit_push_bit_iff)
    have even_case: "kCrc32Table ! (2 * j) = crc32_bits (push_bit 24 (of_nat (2 * j)))"
    proof -
      have "kCrc32Table ! (2 * j) = crc32_bit (crc32_bits (push_bit 24 (of_nat j)))"
        using kCrc32Table_rec(1) [OF j(2)] less.IH [OF j(1)] j(2) by simp
      also have "\<dots> = crc32_bits (crc32_bit (push_bit 24 (of_nat j)))" by (simp only: crc32_bits_def)
      also have "crc32_bit (push_bit 24 (of_nat j)) = push_bit 24 (of_nat (2 * j))"
        using crc32_bit_shift [OF top] by (simp add: push_bit_eq_mult)
      finally show ?thesis .
    qed
    show ?thesis
    proof (cases "even i")
      case True
      with even_case show ?thesis by (simp add: j_def)
    next
      case odd: False
      then have i: "i = 2 * j + 1" by (simp add: j_def)
      have "(of_nat i :: u32) = of_nat (2 * j) XOR 1"
        by (simp add: i xor_one_eq)
      then have "push_bit 24 (of_nat i :: u32) = push_bit 24 (of_nat (2 * j)) XOR push_bit 24 1"
        by (simp only: push_bit_xor)
      then have "crc32_bits (push_bit 24 (of_nat i)) = kCrc32Table ! (2 * j) XOR crc32_bits (push_bit 24 1)"
        by (simp only: crc32_bits_xor even_case)
      moreover have "crc32_bits (push_bit 24 1) = 0x04C11DB7"
        by (simp add: crc32_bits_def crc32_bit_def)
      ultimately show ?thesis
        using kCrc32Table_rec(2) [OF j(2)] by (simp only: i)
    qed
  qed
qed


text \<open>The table step is eight steps of the bitwise division.\<close>

lemma crc32_bits_low:
  assumes "take_bit 24 c = c"
  shows "crc32_bits c = push_bit 8 c"
proof -
  have high: "\<not> bit c m" if "24 \<le> m" for m
    using assms that by (metis bit_take_bit_iff linorder_not_less)
  have step: "crc32_bit (push_bit n c) = push_bit (Suc n) c" if "n < 8" for n
  proof -
    have "\<not> bit (push_bit n c) 31" using high [of "31 - n"] that by (auto simp: bit_push_bit_iff)
    then show ?thesis by (simp add: crc32_bit_def push_bit_push_bit del: push_bit_Suc)
  qed
  show ?thesis
    using step [of 0] step [of 1] step [of 2] step [of 3] step [of 4] step [of 5] step [of 6] step [of 7]
    by (simp add: crc32_bits_def numeral_eq_Suc del: push_bit_Suc)
qed

lemma mask8_u32: "(0xFF :: u32) = mask 8"
  by (simp add: mask_eq_exp_minus_1)

lemma unat_ucast_byte_u32: "unat (ucast (b :: byte) :: u32) = unat b"
  using unat_byte_less [of b]
  by (simp add: unsigned_ucast_eq take_bit_nat_eq_self del: unat_byte_less)

lemma crc32_step_bits: "crc32Mpeg2Step byte crc = crc32_bits (crc XOR push_bit 24 (ucast byte))"
proof -
  let ?x = "crc XOR push_bit 24 (ucast byte)"
  let ?h = "ucast (drop_bit 24 ?x) :: byte"
  have split: "?x = push_bit 24 (ucast ?h) XOR take_bit 24 crc"
  proof (rule bit_word_eqI)
    fix n :: nat
    assume "n < LENGTH(32)"
    then show "bit ?x n = bit (push_bit 24 (ucast ?h) XOR take_bit 24 crc) n"
      by (cases "n < 24") (auto simp: bit_simps bit_byte_beyond)
  qed
  have index: "((drop_bit 24 crc XOR ucast byte) AND 0xFF) = (ucast ?h :: u32)"
    unfolding mask8_u32
    by (rule bit_word_eqI) (auto simp: bit_simps bit_byte_beyond)
  have nat: "unat (ucast ?h :: u32) = unat ?h" by (rule unat_ucast_byte_u32)
  have "kCrc32Table ! unat ?h = crc32_bits (push_bit 24 (of_nat (unat ?h)))"
    by (rule kCrc32Table_nth) simp
  then have table: "kCrc32Table ! unat ?h = crc32_bits (push_bit 24 (ucast ?h))"
    by (simp only: of_nat_unat)
  have "push_bit 8 crc = push_bit 8 (take_bit 24 crc)"
    by (rule bit_word_eqI) (auto simp: bit_simps)
  then have low: "push_bit 8 crc = crc32_bits (take_bit 24 crc)"
    by (simp add: crc32_bits_low)
  have "crc32_bits ?x = crc32_bits (push_bit 24 (ucast ?h)) XOR crc32_bits (take_bit 24 crc)"
    by (subst split) (rule crc32_bits_xor)
  then have "crc32_bits ?x = push_bit 8 crc XOR kCrc32Table ! unat ?h"
    by (simp only: low table xor.commute [of "crc32_bits (push_bit 24 (ucast ?h))"])
  then show ?thesis
    by (simp only: crc32Mpeg2Step_def Let_def index nat)
qed

interpretation crc32: crc_register "\<lambda>crc byte. crc32Mpeg2Step byte crc"
proof
  fix c d :: u32 and a b :: byte
  show "crc32Mpeg2Step b c = crc32Mpeg2Step b d \<Longrightarrow> c = d"
    unfolding crc32_step_bits by (drule crc32_bits_inj) (rule xor_cancel)
  assume "crc32Mpeg2Step a c = crc32Mpeg2Step b c"
  then have "c XOR push_bit 24 (ucast a) = c XOR push_bit 24 (ucast b)"
    unfolding crc32_step_bits by (rule crc32_bits_inj)
  then have eq: "push_bit 24 (ucast a :: u32) = push_bit 24 (ucast b)"
    using xor_cancel [of "push_bit 24 (ucast a)" c "push_bit 24 (ucast b)"] by (simp add: xor.commute)
  show "a = b"
  proof (rule bit_word_eqI)
    fix n
    assume "n < LENGTH(8)"
    moreover have "bit (push_bit 24 (ucast a :: u32)) (24 + n) = bit (push_bit 24 (ucast b :: u32)) (24 + n)"
      by (simp only: eq)
    ultimately show "bit a n = bit b n" by (simp add: bit_push_bit_iff bit_ucast_iff)
  qed
qed

section \<open>The order of the bytes\<close>

text \<open>The checksum of the device runs over the bytes padded with zeros to whole words, the bytes of
  each word from the last to the first.\<close>

fun word_order :: "bytes \<Rightarrow> bytes" where
  "word_order (a # b # c # d # bs) = d # c # b # a # word_order bs"
| "word_order bs = []"

definition pad4 :: "bytes \<Rightarrow> bytes" where
  "pad4 bs = bs @ replicate ((4 - length bs mod 4) mod 4) 0"

lemma length_pad4: "length (pad4 bs) mod 4 = 0" "length bs \<le> length (pad4 bs)"
proof -
  have "(n + (4 - n mod 4) mod 4) mod 4 = (0 :: nat)" for n
  proof -
    have "n mod 4 \<in> {0, 1, 2, 3}" by auto
    moreover have "(n + (4 - n mod 4) mod 4) mod 4 = (n mod 4 + (4 - n mod 4) mod 4) mod 4"
      by (simp add: mod_add_left_eq)
    ultimately show ?thesis by auto
  qed
  then show "length (pad4 bs) mod 4 = 0" by (simp add: pad4_def)
qed (simp add: pad4_def)

lemma word_order_append:
  "length bs mod 4 = 0 \<Longrightarrow> word_order (bs @ tail) = word_order bs @ word_order tail"
  by (induction bs rule: word_order.induct) (auto simp: Suc_double_not_eq_double)

lemma word_order_update:
  "i < length bs \<Longrightarrow> length bs mod 4 = 0 \<Longrightarrow>
   \<exists>j < length (word_order bs). word_order (bs[i := x]) = (word_order bs)[j := x] \<and> word_order bs ! j = bs ! i"
proof (induction bs arbitrary: i rule: word_order.induct)
  case (1 a b c d bs)
  have "i = 0 \<or> i = 1 \<or> i = 2 \<or> i = 3 \<or> 4 \<le> i" by linarith
  then consider "i = 0" | "i = 1" | "i = 2" | "i = 3" | k where "i = k + 4"
    by (metis add.commute le_Suc_ex)
  then show ?case
  proof cases
    case 5
    with "1.prems" have "k < length bs" "length bs mod 4 = 0" by simp_all
    from "1.IH" [OF this] obtain j where "j < length (word_order bs)"
        "word_order (bs[k := x]) = (word_order bs)[j := x]" "word_order bs ! j = bs ! k" by blast
    moreover have "i = Suc (Suc (Suc (Suc k)))" using 5 by simp
    ultimately show ?thesis by (intro exI [of _ "Suc (Suc (Suc (Suc j)))"]) simp
  next
    case 1
    then show ?thesis by (intro exI [of _ 3]) simp
  next
    case 2
    then show ?thesis by (intro exI [of _ 2]) simp
  next
    case 3
    then show ?thesis by (intro exI [of _ 1]) simp
  next
    case 4
    then show ?thesis by (intro exI [of _ 0]) simp
  qed
qed simp_all

lemma take_word:
  assumes "k + 4 \<le> length bs"
  shows "take (k + 4) bs = take k bs @ [bs ! k, bs ! (k + 1), bs ! (k + 2), bs ! (k + 3)]"
proof (rule nth_equalityI)
  fix j
  assume "j < length (take (k + 4) bs)"
  then have "j < k \<or> j = k \<or> j = k + 1 \<or> j = k + 2 \<or> j = k + 3" by auto
  then show "take (k + 4) bs ! j = (take k bs @ [bs ! k, bs ! (k + 1), bs ! (k + 2), bs ! (k + 3)]) ! j"
    using assms by (elim disjE) (simp_all add: nth_append)
qed (use assms in simp)

lemma word_loop:
  "4 * n \<le> length bs \<Longrightarrow>
   foldl (\<lambda>crc word. foldl (\<lambda>crc i. crc32Mpeg2Step (bs ! i) crc) crc (rev [4 * word..<4 * word + 4])) c [0..<n]
   = foldl (\<lambda>crc b. crc32Mpeg2Step b crc) c (word_order (take (4 * n) bs))"
proof (induction n)
  case (Suc n)
  have word: "rev [4 * n..<4 * n + 4] = [4 * n + 3, 4 * n + 2, 4 * n + 1, 4 * n]"
    by (simp add: upt_rec)
  have "length (take (4 * n) bs) mod 4 = 0" using Suc.prems by simp
  moreover have "take (4 * Suc n) bs = take (4 * n) bs @ [bs ! (4 * n), bs ! (4 * n + 1), bs ! (4 * n + 2), bs ! (4 * n + 3)]"
    using take_word [of "4 * n" bs] Suc.prems by (simp add: add.commute)
  ultimately have "word_order (take (4 * Suc n) bs) =
      word_order (take (4 * n) bs) @ [bs ! (4 * n + 3), bs ! (4 * n + 2), bs ! (4 * n + 1), bs ! (4 * n)]"
    by (simp add: word_order_append)
  with Suc word show ?case by simp
qed simp

lemma crc32Stm32_order:
  "crc32Stm32 bs = foldl (\<lambda>crc b. crc32Mpeg2Step b crc) 0xFFFFFFFF (word_order (pad4 bs))"
proof -
  let ?t = "length bs mod 4" and ?n = "length bs div 4"
  have aligned: "length bs - ?t = 4 * ?n" and inside: "4 * ?n \<le> length bs"
    by (simp_all add: minus_mod_eq_mult_div)
  show ?thesis
  proof (cases "?t = 0")
    case True
    then show ?thesis
      using aligned word_loop [OF inside] by (simp add: crc32Stm32_def pad4_def Let_def)
  next
    case False
    define tail where "tail = drop (4 * ?n) bs @ replicate (4 - ?t) 0"
    have "length (drop (4 * ?n) bs) = ?t" by (simp add: minus_mult_div_eq_mod)
    then have len: "length tail = 4" using False by (simp add: tail_def del: length_drop)
    then obtain t0 t1 t2 t3 where four: "tail = [t0, t1, t2, t3]"
      by (auto simp: numeral_eq_Suc length_Suc_conv)
    have "pad4 bs = take (4 * ?n) bs @ tail"
      using False by (simp add: pad4_def tail_def)
    moreover have "word_order tail = [tail ! 3, tail ! 2, tail ! 1, tail ! 0]" by (simp add: four)
    moreover have "rev [0..<4] = [3, 2, 1, 0 :: nat]" by (simp add: upt_rec)
    ultimately show ?thesis
      using aligned inside False word_loop [OF inside]
      by (simp add: crc32Stm32_def word_order_append Let_def tail_def [symmetric])
  qed
qed

lemma crc32Stm32_one_byte:
  assumes "i < length bs" and "x \<noteq> bs ! i"
  shows "crc32Stm32 (bs[i := x]) \<noteq> crc32Stm32 bs"
proof -
  have "i < length (pad4 bs)" using assms(1) length_pad4(2) [of bs] by linarith
  from word_order_update [OF this length_pad4(1), of x] obtain j where
    j: "j < length (word_order (pad4 bs))" "word_order ((pad4 bs)[i := x]) = (word_order (pad4 bs))[j := x]"
      "word_order (pad4 bs) ! j = pad4 bs ! i" by blast
  have "pad4 (bs[i := x]) = (pad4 bs)[i := x]" "pad4 bs ! i = bs ! i"
    using assms(1) by (simp_all add: pad4_def list_update_append nth_append)
  with j assms(2) crc32.one_byte_detected [OF j(1), of x] show ?thesis
    by (simp add: crc32Stm32_order)
qed


section \<open>Frames\<close>

lemma list_of_length_4: "length xs = 4 \<Longrightarrow> \<exists>a b c d. xs = [a, b, c, d]"
  by (auto simp: numeral_eq_Suc length_Suc_conv)

lemma be32_join32: "be32 (join32 a b c d) = [a, b, c, d]"
  unfolding be32_def join32_def
  by (auto intro!: bit_word_eqI simp: bit_simps bit_byte_beyond)

definition laser_frame_of :: "u16 \<Rightarrow> byte \<Rightarrow> byte \<Rightarrow> bytes \<Rightarrow> laser_frame" where
  "laser_frame_of counter addr command payload =
     (let len = of_nat (8 + length payload);
          frame = kMagic @ be16 len @ be16 counter @ [addr, command] @ payload
      in \<lparr>lf_counter = counter, lf_addr = addr, lf_command = command, lf_length = len,
          lf_payload = payload, lf_crc32 = crc32Stm32 frame\<rparr>)"

definition payload_ok :: "bytes \<Rightarrow> bool" where
  "payload_ok payload \<longleftrightarrow> 4 \<le> length payload \<and> length payload + 8 < 65536"

lemma encodeFrame_split:
  "\<exists>head. encodeFrame counter addr command payload = head @ be32 (crc32Stm32 head)
     \<and> head = kMagic @ be16 (of_nat (8 + length payload)) @ be16 counter @ [addr, command] @ payload"
  by (simp add: encodeFrame_def Let_def add.commute add.left_commute)

lemma length_kMagic [simp]: "length kMagic = 4"
  by (simp add: kMagic_def)

lemma length_encodeFrame: "length (encodeFrame counter addr command payload) = 14 + length payload"
  by (simp add: encodeFrame_def Let_def)

lemma unat_of_nat_u16: "n < 65536 \<Longrightarrow> unat (of_nat n :: u16) = n"
  by (simp add: unsigned_of_nat take_bit_nat_eq_self)

lemma frame_head:
  assumes "head = kMagic @ be16 len @ be16 counter @ [addr, command] @ payload"
  shows "take 4 (head @ rest) = kMagic" and "read16 (head @ rest) 4 = len" and "read16 (head @ rest) 6 = counter"
    and "(head @ rest) ! 8 = addr" and "(head @ rest) ! 9 = command"
    and "take (length payload) (drop 10 (head @ rest)) = payload"
  using read16_skip [of kMagic 4 len] read16_skip [of "kMagic @ be16 len" 6 counter]
  by (simp_all add: assms nth_append)

lemma decode_ok:
  assumes "14 + n \<le> length buf" and "take 4 buf = kMagic" and "unat (read16 buf 4) = 8 + n" and "4 \<le> n"
    and "read32 buf (10 + n) = crc32Stm32 (take (10 + n) buf)"
    and "ea < 0 \<or> buf ! 8 = word_of_int ea" and "ec < 0 \<or> buf ! 9 = word_of_int ec"
  shows "tryDecodeFrame buf ea ec final =
    (DecodeOk, '''', Some (\<lparr>lf_counter = read16 buf 6, lf_addr = buf ! 8, lf_command = buf ! 9,
       lf_length = read16 buf 4, lf_payload = take n (drop 10 buf), lf_crc32 = crc32Stm32 (take (10 + n) buf)\<rparr>, 14 + n))"
proof -
  have "8 + n < 65536" using unat_u16_less [of "read16 buf 4"] assms(3) by simp
  then show ?thesis
    using assms by (simp add: tryDecodeFrame_def Let_def linorder_not_le)
qed

lemma decode_encoded:
  assumes "payload_ok payload" and "ea < 0 \<or> addr = word_of_int ea" and "ec < 0 \<or> command = word_of_int ec"
  shows "tryDecodeFrame (encodeFrame counter addr command payload @ rest) ea ec final =
    (DecodeOk, '''', Some (laser_frame_of counter addr command payload, 14 + length payload))"
proof -
  let ?n = "length payload"
  from encodeFrame_split obtain head where
    enc: "encodeFrame counter addr command payload = head @ be32 (crc32Stm32 head)"
    and head: "head = kMagic @ be16 (of_nat (8 + ?n)) @ be16 counter @ [addr, command] @ payload" by blast
  define buf where "buf = head @ be32 (crc32Stm32 head) @ rest"
  have len: "unat (of_nat (8 + ?n) :: u16) = 8 + ?n" and long: "4 \<le> ?n"
    using assms(1) by (simp_all only: payload_ok_def) (rule unat_of_nat_u16, linarith)
  have size_head: "length head = 10 + ?n" by (simp add: head)
  note parts = frame_head [OF head, of "be32 (crc32Stm32 head) @ rest", folded buf_def]
  have crc: "read32 buf (10 + ?n) = crc32Stm32 head"
    unfolding buf_def by (rule read32_skip) (rule size_head)
  have body: "take (10 + ?n) buf = head" by (simp add: buf_def size_head)
  have "laser_frame_of counter addr command payload =
      \<lparr>lf_counter = counter, lf_addr = addr, lf_command = command, lf_length = of_nat (8 + ?n),
        lf_payload = payload, lf_crc32 = crc32Stm32 head\<rparr>"
    by (simp add: laser_frame_of_def Let_def head)
  moreover have "tryDecodeFrame buf ea ec final = (DecodeOk, '''', Some (\<lparr>lf_counter = read16 buf 6, lf_addr = buf ! 8,
      lf_command = buf ! 9, lf_length = read16 buf 4, lf_payload = take ?n (drop 10 buf),
      lf_crc32 = crc32Stm32 (take (10 + ?n) buf)\<rparr>, 14 + ?n))"
    by (rule decode_ok) (use assms(2,3) long in \<open>simp_all only: parts len crc body\<close>, simp add: buf_def size_head)
  ultimately show ?thesis
    by (simp only: parts body) (simp add: enc buf_def)
qed

lemma encoded_head:
  assumes "payload_ok payload" and "encodeFrame counter addr command payload = part @ missing" and "18 \<le> length part"
  shows "take 4 part = kMagic" and "unat (read16 part 4) = 8 + length payload"
proof -
  let ?n = "length payload"
  from encodeFrame_split obtain head where
    enc: "encodeFrame counter addr command payload = head @ be32 (crc32Stm32 head)"
    and head: "head = kMagic @ be16 (of_nat (8 + ?n)) @ be16 counter @ [addr, command] @ payload" by blast
  note parts = frame_head [OF head, of "be32 (crc32Stm32 head)"]
  have len: "unat (of_nat (8 + ?n) :: u16) = 8 + ?n"
    using assms(1) unfolding payload_ok_def by (intro unat_of_nat_u16) simp
  have "take 4 part = take 4 (part @ missing)" "read16 part 4 = read16 (part @ missing) 4"
    using assms(3) by (simp_all add: read16_append)
  then show "take 4 part = kMagic" "unat (read16 part 4) = 8 + ?n"
    using parts by (simp_all only: assms(2) [symmetric] enc len)
qed

lemma decode_partial:
  assumes "payload_ok payload" and "encodeFrame counter addr command payload = part @ missing" and "missing \<noteq> []"
  shows "\<exists>msg. msg \<noteq> '''' \<and> tryDecodeFrame part ea ec final = (Incomplete, msg, None)"
proof (cases "length part < 18")
  case True
  then show ?thesis by (simp add: tryDecodeFrame_def)
next
  case False
  then have "take 4 part = kMagic" "unat (read16 part 4) = 8 + length payload"
    using encoded_head [OF assms(1,2)] by simp_all
  moreover have "length part < 14 + length payload"
    using assms(3) arg_cong [OF assms(2), of length] by (simp add: length_encodeFrame)
  moreover have "8 + length payload < 65536" "4 \<le> length payload"
    using assms(1) by (simp_all add: payload_ok_def)
  ultimately show ?thesis
    using False by (simp add: tryDecodeFrame_def Let_def linorder_not_le)
qed

text \<open>A frame on the wire and how a receiver takes it off its buffer.\<close>

fun laser_encode :: "u16 \<times> byte \<times> byte \<times> bytes \<Rightarrow> bytes" where
  "laser_encode (counter, addr, command, payload) = encodeFrame counter addr command payload"

definition laser_take :: "bytes \<Rightarrow> ((u16 \<times> byte \<times> byte \<times> bytes) \<times> bytes) option" where
  "laser_take buf =
     (case tryDecodeFrame buf (- 1) (- 1) False of
        (_, _, Some (f, n)) \<Rightarrow> Some ((lf_counter f, lf_addr f, lf_command f, lf_payload f), drop n buf)
      | _ \<Rightarrow> None)"

interpretation laser: framed_stream laser_encode "\<lambda>(counter, addr, command, payload). payload_ok payload" laser_take
proof
  show "laser_take [] = None" by (simp add: laser_take_def tryDecodeFrame_def)
next
  fix f :: "u16 \<times> byte \<times> byte \<times> bytes"
  assume "case f of (counter, addr, command, payload) \<Rightarrow> payload_ok payload"
  then obtain c a m p where f: "f = (c, a, m, p)" and ok: "payload_ok p" by (cases f) auto
  have "length (laser_encode f) \<noteq> 0" by (simp add: f length_encodeFrame)
  then show "laser_encode f \<noteq> []" by force
  show "laser_take (laser_encode f @ rest) = Some (f, rest)" for rest
    using decode_encoded [OF ok, of "-1" a "-1" m c rest False]
    by (simp add: f laser_take_def laser_frame_of_def Let_def length_encodeFrame)
  show "laser_take part = None" if "laser_encode f = part @ missing" "missing \<noteq> []" for part missing
    using decode_partial [OF ok, of c a m part missing "-1" "-1" False] that
    by (auto simp: f laser_take_def)
qed

text \<open>C34: A frame of which one byte was damaged, any byte but the two of its length, is never decoded:
  the decoder reports bad magic, or a checksum error once no more bytes can come, whichever
  address and command are expected.\<close>

theorem laser_damage_detected:
  assumes "payload_ok payload" and "i < 14 + length payload" and "i \<noteq> 4" and "i \<noteq> 5"
    and "x \<noteq> encodeFrame counter addr command payload ! i"
  shows "fst (tryDecodeFrame ((encodeFrame counter addr command payload)[i := x]) ea ec True)
      \<in> {BadMagic, CrcError}"
proof -
  let ?n = "length payload" and ?f = "encodeFrame counter addr command payload"
  from encodeFrame_split obtain head where
    enc: "?f = head @ be32 (crc32Stm32 head)"
    and head: "head = kMagic @ be16 (of_nat (8 + ?n)) @ be16 counter @ [addr, command] @ payload" by blast
  have size_head: "length head = 10 + ?n" by (simp add: head)
  define buf where "buf = ?f[i := x]"
  have size_buf: "length buf = 14 + ?n" by (simp add: buf_def length_encodeFrame)
  have "read16 buf 4 = read16 ?f 4"
    using assms(3,4) by (simp add: buf_def read16_def)
  then have len: "unat (read16 buf 4) = 8 + ?n"
    using encoded_head(2) [OF assms(1), of counter addr command ?f "[]"] assms(1)
    by (simp add: length_encodeFrame payload_ok_def)
  have range: "8 + ?n < 65536" "4 \<le> ?n" using assms(1) by (simp_all add: payload_ok_def)
  have crc: "crc32Stm32 (take (10 + ?n) buf) \<noteq> read32 buf (10 + ?n)"
  proof (cases "i < 10 + ?n")
    case True
    then have "buf = head[i := x] @ be32 (crc32Stm32 head)"
      by (simp add: buf_def enc list_update_append size_head)
    moreover have "x \<noteq> head ! i" using assms(5) True by (simp add: enc nth_append size_head)
    moreover have "read32 (head[i := x] @ be32 (crc32Stm32 head) @ []) (10 + ?n) = crc32Stm32 head"
      by (rule read32_skip) (simp add: size_head)
    ultimately show ?thesis
      using crc32Stm32_one_byte [of i head x] True size_head by simp
  next
    case False
    define t where "t = (be32 (crc32Stm32 head))[i - (10 + ?n) := x]"
    have k: "i - (10 + ?n) < 4" using False assms(2) by simp
    have buf: "buf = head @ t"
      using False by (simp add: buf_def enc list_update_append size_head t_def)
    have "t \<noteq> be32 (crc32Stm32 head)"
    proof
      assume "t = be32 (crc32Stm32 head)"
      then have "x = be32 (crc32Stm32 head) ! (i - (10 + ?n))"
        using k by (metis length_be32 nth_list_update_eq t_def)
      with assms(5) False show False by (simp add: enc nth_append size_head)
    qed
    moreover obtain a b c d where t: "t = [a, b, c, d]"
      by (metis length_be32 length_list_update t_def list_of_length_4)
    moreover have "read32 buf (10 + ?n) = join32 a b c d"
      by (simp add: read32_def buf t nth_append size_head)
    moreover have "be32 (join32 a b c d) = [a, b, c, d]" by (rule be32_join32)
    ultimately show ?thesis by (auto simp: buf size_head)
  qed
  show ?thesis
    using range len crc size_buf unfolding buf_def [symmetric]
    by (simp add: tryDecodeFrame_def Let_def linorder_not_le)
qed

lemma laser_damage_detected_witness:
  "fst (tryDecodeFrame ((encodeFrame 7 0 1 (makeReadRegPayload 3))[12 := 0xFF]) 0 1 True) \<in> {BadMagic, CrcError}"
  by (rule laser_damage_detected) (simp_all add: payload_ok_def makeReadRegPayload_def encodeFrame_def Let_def kMagic_def be16_def be32_def)

end
