(* ===== verification/LaserSessionSpec.thy ===== *)
theory LaserSessionSpec
  imports LaserSession LaserCodecSpec
begin

text \<open>
  What the request layer of the laser radar promises: an answer is received from whatever chunks
  the network makes of it, a scan transferred in segments is put together completely and in
  order, and a wait only reports the task it waits for.
\<close>

section \<open>One request\<close>

definition answers_with :: "byte \<Rightarrow> bytes \<Rightarrow> exchange \<Rightarrow> bool" where
  "answers_with command payload x \<longleftrightarrow> x_write_error x = None
     \<and> (\<exists>counter chunks late. x_reads x = map Chunk chunks @ late
          \<and> concat chunks = encodeFrame counter 0 command payload)"

lemma uint_byte: "0 \<le> uint (b :: byte)" "word_of_int (uint b) = b"
  by simp_all

lemma receive_loop_frame:
  assumes "payload_ok payload" and "buffer @ concat chunks = encodeFrame counter 0 command payload"
    and "buffer \<noteq> encodeFrame counter 0 command payload"
  shows "receive_loop command buffer msg (map Chunk chunks @ late) = Inr (laser_frame_of counter 0 command payload)"
  using assms(2,3)
proof (induction chunks arbitrary: buffer msg)
  case Nil
  then show ?case by simp
next
  case (Cons c chunks)
  show ?case
  proof (cases "concat chunks = []")
    case True
    then have "buffer @ c = encodeFrame counter 0 command payload" using Cons.prems(1)
      by (simp only: concat.simps True append_Nil2)
    then show ?thesis
      using decode_encoded [OF assms(1), of 0 0 "uint command" command counter "[]" False] by simp
  next
    case False
    have split: "encodeFrame counter 0 command payload = (buffer @ c) @ concat chunks" using Cons.prems(1) by simp
    obtain m where m: "tryDecodeFrame (buffer @ c) 0 (uint command) False = (Incomplete, m, None)"
      using decode_partial [OF assms(1) split False] by blast
    have "buffer @ c \<noteq> encodeFrame counter 0 command payload"
      using False split by (metis append_self_conv)
    with Cons.IH [of "buffer @ c" m] split m show ?thesis by simp
  qed
qed

lemma receive_answer:
  assumes "payload_ok payload" and "ls_script s = x # xs" and "answers_with command payload x"
  shows "\<exists>counter. sendAndReceive command request s =
    (Inr (laser_frame_of counter 0 command payload),
     s\<lparr>m_counter := m_counter s + 1, ls_script := xs,
       ls_written := ls_written s @ [encodeFrame (m_counter s) 0 command request]\<rparr>)"
proof -
  from assms(3) obtain counter chunks late where
    x: "x_write_error x = None" "x_reads x = map Chunk chunks @ late"
      "concat chunks = encodeFrame counter 0 command payload"
    by (auto simp: answers_with_def)
  have "length (encodeFrame counter 0 command payload) \<noteq> 0" by (simp add: length_encodeFrame)
  then have "[] \<noteq> encodeFrame counter 0 command payload" by force
  with receive_loop_frame [OF assms(1), of "[]"] x(3)
  have "receive_loop command [] [] (x_reads x) = Inr (laser_frame_of counter 0 command payload)"
    by (simp add: x(2))
  then show ?thesis
    using assms(2) x(1)
    by (intro exI [of _ counter]) (simp add: sendAndReceive_def reserveCounter_def writeFrame_def)
qed

text \<open>The answer to a request is received whatever chunks the network cuts it into, and whatever
  follows it: the session returns the payload the device sent, has written one frame with the
  request under the next counter, and has used up one exchange.\<close>

theorem laser_answer_received:
  assumes "payload_ok payload" and "ls_script s = x # xs" and "answers_with command payload x"
  shows "\<exists>frame. fst (sendAndReceive command request s) = Inr frame \<and> lf_payload frame = payload
    \<and> snd (sendAndReceive command request s) =
        s\<lparr>m_counter := m_counter s + 1, ls_script := xs,
          ls_written := ls_written s @ [encodeFrame (m_counter s) 0 command request]\<rparr>"
  using receive_answer [OF assms, of request]
  by (auto simp: laser_frame_of_def Let_def)

definition demo_exchange :: "byte \<Rightarrow> bytes \<Rightarrow> exchange" where
  "demo_exchange command payload =
     (let frame = encodeFrame 9 0 command payload
      in \<lparr>x_write_error = None, x_reads = [Chunk (take 5 frame), Chunk (drop 5 frame), ReadFailed ''TCP read timeout'']\<rparr>)"

lemma demo_exchange_answers: "answers_with command payload (demo_exchange command payload)"
proof -
  let ?frame = "encodeFrame 9 0 command payload"
  have "x_reads (demo_exchange command payload) =
      map Chunk [take 5 ?frame, drop 5 ?frame] @ [ReadFailed ''TCP read timeout'']"
    by (simp add: demo_exchange_def Let_def)
  moreover have "concat [take 5 ?frame, drop 5 ?frame] = ?frame" by simp
  moreover have "x_write_error (demo_exchange command payload) = None" by (simp add: demo_exchange_def Let_def)
  ultimately show ?thesis unfolding answers_with_def by blast
qed

lemma laser_answer_received_witness:
  "\<exists>frame. fst (sendAndReceive 1 (makeReadRegPayload 3)
      \<lparr>m_counter = 0xFFFF, ls_script = [demo_exchange 1 (be16 3 @ be32 77)], ls_written = []\<rparr>) = Inr frame
    \<and> lf_payload frame = be16 3 @ be32 77"
  using laser_answer_received [of "be16 3 @ be32 77" "\<lparr>m_counter = 0xFFFF,
      ls_script = [demo_exchange 1 (be16 3 @ be32 77)], ls_written = []\<rparr>"
      "demo_exchange 1 (be16 3 @ be32 77)" "[]" 1 "makeReadRegPayload 3"]
  by (auto simp: payload_ok_def demo_exchange_answers)

section \<open>A scan in segments\<close>

definition segment_payload :: "nat \<Rightarrow> nat \<Rightarrow> bytes \<Rightarrow> bytes" where
  "segment_payload i n segment = be32 (of_nat i) @ be32 (of_nat n) @ be16 (of_nat (length segment)) @ segment"

lemma parse_segment:
  assumes "length segment < 65500"
  shows "parseSegmentResponse (segment_payload i n segment) =
    Some (of_nat i, of_nat n, of_nat (length segment), segment)"
proof -
  have "read16 (segment_payload i n segment) 8 = of_nat (length segment)"
    using read16_skip [of "be32 (of_nat i) @ be32 (of_nat n)" 8] by (simp add: segment_payload_def)
  moreover have "read32 (segment_payload i n segment) 4 = of_nat n"
    using read32_skip [of "be32 (of_nat i)" 4] by (simp add: segment_payload_def)
  moreover have "read32 (segment_payload i n segment) 0 = of_nat i"
    by (simp add: segment_payload_def read32_be32)
  moreover have "unat (of_nat (length segment) :: u16) = length segment"
    using assms by (intro unat_of_nat_u16) simp
  moreover have "length (segment_payload i n segment) = 10 + length segment"
      "drop 10 (segment_payload i n segment) = segment"
    by (simp_all add: segment_payload_def)
  ultimately show ?thesis by (simp add: parseSegmentResponse_def)
qed

lemma readSegment_answer:
  assumes "length segment < 65500" and "ls_script s = x # xs" and "answers_with 12 (segment_payload i n segment) x"
  shows "readSegment (of_nat i) s = (Inr (of_nat n, segment),
     s\<lparr>m_counter := m_counter s + 1, ls_script := xs,
       ls_written := ls_written s @ [encodeFrame (m_counter s) 0 12 (makeU32Payload (of_nat i))]\<rparr>)"
proof -
  have "payload_ok (segment_payload i n segment)"
    using assms(1) by (simp add: payload_ok_def segment_payload_def)
  from receive_answer [OF this assms(2,3), of "makeU32Payload (of_nat i)"] show ?thesis
    by (auto simp: readSegment_def laser_frame_of_def Let_def parse_segment [OF assms(1)])
qed

definition segment_requests :: "u16 \<Rightarrow> nat \<Rightarrow> nat \<Rightarrow> bytes list" where
  "segment_requests counter i n =
     map (\<lambda>k. encodeFrame (counter + of_nat k) 0 12 (makeU32Payload (of_nat (i + k)))) [0..<n]"

lemma segment_requests_Suc:
  "segment_requests counter i (Suc n) =
     encodeFrame counter 0 12 (makeU32Payload (of_nat i)) # segment_requests (counter + 1) (Suc i) n"
  by (simp add: segment_requests_def map_upt_Suc ac_simps del: upt_Suc)

lemma collect_loop_segments:
  assumes "i + length segments < 2 ^ 32" and "segments \<noteq> []" and "n = i + length segments"
    and "\<forall>segment \<in> set segments. length segment < 65500"
    and "list_all2 (\<lambda>(k, segment) x. answers_with 12 (segment_payload k n segment) x) (enumerate i segments) xs"
    and "ls_script s = xs @ rest" and "i \<noteq> 0 \<longrightarrow> expected = of_nat n"
  shows "collect_loop (of_nat i) expected aggregated received s =
    (Inr \<lparr>segmentCount = received + int (length segments), byteCount = int (length (aggregated @ concat segments)),
          agg_data = aggregated @ concat segments\<rparr>,
     s\<lparr>m_counter := m_counter s + of_nat (length segments), ls_script := rest,
       ls_written := ls_written s @ segment_requests (m_counter s) i (length segments)\<rparr>)"
  using assms
proof (induction segments arbitrary: i expected aggregated received s xs)
  case Nil
  then show ?case by simp
next
  case (Cons segment segments)
  obtain x ys where xs: "xs = x # ys" "answers_with 12 (segment_payload i n segment) x"
      "list_all2 (\<lambda>(k, segment) x. answers_with 12 (segment_payload k n segment) x) (enumerate (Suc i) segments) ys"
    using Cons.prems(5) by (auto simp: list_all2_Cons1)
  let ?s = "s\<lparr>m_counter := m_counter s + 1, ls_script := ys @ rest,
      ls_written := ls_written s @ [encodeFrame (m_counter s) 0 12 (makeU32Payload (of_nat i))]\<rparr>"
  have read: "readSegment (of_nat i) s = (Inr (of_nat n, segment), ?s)"
    using Cons.prems(4,6) xs by (intro readSegment_answer) auto
  have nat: "unat (of_nat k :: u32) = k" if "k \<le> n" for k
    using that Cons.prems(1,3) by (simp add: unsigned_of_nat take_bit_nat_eq_self)
  have zero: "(of_nat i :: u32) = 0 \<longleftrightarrow> i = 0" "(of_nat n :: u32) \<noteq> 0"
    using nat [of i] nat [of n] Cons.prems(3) by (auto simp: unat_eq_0 [symmetric])
  have le: "(of_nat n :: u32) \<le> of_nat i + 1 \<longleftrightarrow> segments = []"
  proof -
    have "(of_nat i + 1 :: u32) = of_nat (Suc i)" by simp
    moreover have "(of_nat n :: u32) \<le> of_nat (Suc i) \<longleftrightarrow> n \<le> Suc i"
      using nat [of n] nat [of "Suc i"] Cons.prems(3) by (simp only: word_le_nat_alt) simp
    ultimately show ?thesis using Cons.prems(3) by (auto simp del: of_nat_Suc)
  qed
  have expected: "(if i = 0 then of_nat n else expected) = of_nat n" "\<not> (i \<noteq> 0 \<and> of_nat n \<noteq> expected)"
    using Cons.prems(7) by auto
  have step: "collect_loop (of_nat i) expected aggregated received s =
      (if segments = []
       then (Inr \<lparr>segmentCount = received + 1, byteCount = int (length (aggregated @ segment)),
                  agg_data = aggregated @ segment\<rparr>, ?s)
       else collect_loop (of_nat i + 1) (of_nat n) (aggregated @ segment) (received + 1) ?s)"
    by (subst collect_loop.simps)
      (simp only: read prod.case sum.case zero if_False expected Let_def le)
  show ?case
  proof (cases "segments = []")
    case True
    with xs(3) have "ys = []" by simp
    with True show ?thesis unfolding step by (simp add: segment_requests_def)
  next
    case False
    have "collect_loop (of_nat (Suc i)) (of_nat n) (aggregated @ segment) (received + 1) ?s =
        (Inr \<lparr>segmentCount = (received + 1) + int (length segments),
              byteCount = int (length ((aggregated @ segment) @ concat segments)),
              agg_data = (aggregated @ segment) @ concat segments\<rparr>,
         ?s\<lparr>m_counter := m_counter ?s + of_nat (length segments), ls_script := rest,
            ls_written := ls_written ?s @ segment_requests (m_counter ?s) (Suc i) (length segments)\<rparr>)"
      using Cons.prems False xs(3) by (intro Cons.IH) auto
    with False show ?thesis
      unfolding step by (simp add: segment_requests_Suc ac_simps)
  qed
qed

text \<open>A scan that the device holds in segments is transferred completely: when the device answers
  the request for each segment with it, the session asks for every segment once, in order, under
  consecutive counters, and the result is all the segments' bytes, in order.\<close>

theorem scan_segments_collected:
  assumes "segments \<noteq> []" and "length segments < 2 ^ 32" and "\<forall>segment \<in> set segments. length segment < 65500"
    and "list_all2 (\<lambda>(i, segment) x. answers_with 12 (segment_payload i (length segments) segment) x)
           (enumerate 0 segments) xs"
    and "ls_script s = xs @ rest"
  shows "collectAllSegments s =
    (Inr \<lparr>segmentCount = int (length segments), byteCount = int (length (concat segments)), agg_data = concat segments\<rparr>,
     s\<lparr>m_counter := m_counter s + of_nat (length segments), ls_script := rest,
       ls_written := ls_written s @ segment_requests (m_counter s) 0 (length segments)\<rparr>)"
  using collect_loop_segments [of 0 segments "length segments" xs s rest 0 "[]" 0] assms
  by (simp add: collectAllSegments_def)

lemma scan_segments_collected_witness:
  "\<exists>s. fst (collectAllSegments s) = Inr \<lparr>segmentCount = 2, byteCount = 5, agg_data = [1, 2, 3, 4, 5]\<rparr>"
proof -
  let ?xs = "[demo_exchange 12 (segment_payload 0 2 [1, 2]), demo_exchange 12 (segment_payload 1 2 [3, 4, 5])]"
  have "fst (collectAllSegments \<lparr>m_counter = 0, ls_script = ?xs, ls_written = []\<rparr>) =
      Inr \<lparr>segmentCount = 2, byteCount = 5, agg_data = [1, 2, 3, 4, 5]\<rparr>"
    using scan_segments_collected [of "[[1, 2], [3, 4, 5]]" ?xs "\<lparr>m_counter = 0, ls_script = ?xs, ls_written = []\<rparr>" "[]"]
    by (simp add: demo_exchange_answers numeral_2_eq_2 [symmetric])
  then show ?thesis by blast
qed

section \<open>Waiting for a task\<close>

lemma query_counts:
  "query op s = (r, s') \<Longrightarrow> m_counter s' = m_counter s + 1 \<and> length (ls_written s') = length (ls_written s) + 1"
  by (auto simp: query_def sendAndReceive_def reserveCounter_def writeFrame_def Let_def
      split: prod.splits sum.splits option.splits list.splits)

lemma receive_kind: "receive_loop command buffer msg reads = Inl (kind, err) \<Longrightarrow> kind = Transport \<or> kind = Protocol"
  by (induction command buffer msg reads rule: receive_loop.induct)
    (auto simp: decode_failure_def split: if_splits prod.splits option.splits)

text \<open>A wait for a long-running task ends: it sends at most as many queries as there are polls before
  its deadline, and a result it reports is of the task it waits for, no longer running.\<close>

theorem wait_reports_own_task:
  "let (result, s') = waitTaskCompleted counter command polls s in
     length (ls_written s') \<le> length (ls_written s) + polls
     \<and> (case result of
          Inr r \<Rightarrow> lastCounter r = counter \<and> lastCommand r = command \<and> resultA r \<noteq> 1000
        | Inl (kind, _) \<Rightarrow> kind = Protocol)"
proof (induction polls arbitrary: s)
  case 0
  then show ?case by simp
next
  case (Suc polls)
  obtain r s1 where q: "query 100 s = (r, s1)" by fastforce
  have kind: "kind = Transport \<or> kind = Protocol" if "r = Inl (kind, msg)" for kind msg
    using that q receive_kind
    by (auto simp: query_def sendAndReceive_def reserveCounter_def Let_def
        split: prod.splits sum.splits option.splits)
  show ?case
    using Suc.IH [of s1] q query_counts [OF q] kind
    by (fastforce simp: Let_def split: sum.splits prod.splits)
qed

end
