(* ===== verification/RobotCodec.thy ===== *)
theory RobotCodec
  imports LaserCodec
begin

text \<open>
  The wire format of the 3D scan robot (\<open>src/src/drivers/driver_3d_scan_robot/protocol_codec.*\<close>). A
  frame has one of two magics, a counter, an option byte, an address, a command and a payload, and is
  closed by the CRC-32 of everything after the magic; it carries no length, so a receiver looks for the
  shortest prefix whose checksum fits. The checksum table is the one of the laser radar
  (\<open>kCrc32Table\<close> of \<open>LaserCodec\<close>), word for word. Output arguments of the code are results.
\<close>

section \<open>The checksum\<close>

definition robot_crc32Mpeg2Step :: "byte \<Rightarrow> u32 \<Rightarrow> u32" where
  "robot_crc32Mpeg2Step byteIn crcIn =
     (let index = drop_bit 24 crcIn XOR ucast byteIn
      in push_bit 8 crcIn XOR kCrc32Table ! unat index)"

definition robot_crc32Stm32 :: "bytes \<Rightarrow> u32" where
  "robot_crc32Stm32 data =
     (let ib = length data mod 4; ia = length data - ib;
          crc = foldl (\<lambda>crc x. foldl (\<lambda>crc y. robot_crc32Mpeg2Step (data ! y) crc) crc
                        (rev [4 * x..<4 * x + 4])) 0xFFFFFFFF [0..<ia div 4]
      in if ib \<noteq> 0
         then let m = drop ia data @ replicate (4 - ib) 0
              in foldl (\<lambda>crc x. robot_crc32Mpeg2Step (m ! x) crc) crc (rev [0..<4])
         else crc)"

section \<open>Frames\<close>

definition kMagicJD3D :: bytes where
  "kMagicJD3D = [0x4A, 0x44, 0x33, 0x44]"

definition kMagicJD3I :: bytes where
  "kMagicJD3I = [0x4A, 0x44, 0x33, 0x49]"

abbreviation (input) kHeaderLen :: nat where
  "kHeaderLen \<equiv> 8"

abbreviation (input) kRobotMinFrameLen :: nat where
  "kRobotMinFrameLen \<equiv> 16"

record radar_frame =
  rf_counter :: byte
  rf_option :: byte
  rf_addr :: byte
  rf_command :: byte
  rf_payload :: bytes
  rf_crc32 :: u32

datatype robot_status =
    RobotOk
  | RobotIncomplete
  | RobotBadMagic
  | RobotChannelMismatch
  | RobotCrcError
  | RobotAddrMismatch
  | RobotCmdMismatch

datatype frame_channel = AnyChannel | MainChannel | InterruptChannel

definition robot_decodeStatusToString :: "robot_status \<Rightarrow> string" where
  "robot_decodeStatusToString status =
     (case status of
        RobotOk \<Rightarrow> ''Ok''
      | RobotIncomplete \<Rightarrow> ''Incomplete''
      | RobotBadMagic \<Rightarrow> ''BadMagic''
      | RobotChannelMismatch \<Rightarrow> ''ChannelMismatch''
      | RobotCrcError \<Rightarrow> ''CrcError''
      | RobotAddrMismatch \<Rightarrow> ''AddrMismatch''
      | RobotCmdMismatch \<Rightarrow> ''CmdMismatch'')"

definition robot_encodeFrame :: "byte \<Rightarrow> byte \<Rightarrow> byte \<Rightarrow> bytes \<Rightarrow> bool \<Rightarrow> bytes" where
  "robot_encodeFrame counter addr command payload interrupt =
     (let frame = (if interrupt then kMagicJD3I else kMagicJD3D) @ [counter, 0, addr, command] @ payload
      in frame @ be32 (robot_crc32Stm32 (drop 4 frame)))"

text \<open>The search for the end of the frame: the first length, from the smallest on, whose checksum fits,
  with the payload and the checksum, or the error of the last one tried.\<close>

fun find_frame_end :: "bytes \<Rightarrow> bool \<Rightarrow> string \<Rightarrow> nat list \<Rightarrow> string + (nat \<times> u32)" where
  "find_frame_end buffer finalChunk bestError [] = Inl bestError"
| "find_frame_end buffer finalChunk bestError (frameLen # lens) =
     (let computedCrc = robot_crc32Stm32 (take (frameLen - 4 - 4) (drop 4 buffer));
          frameCrc = read32 buffer (frameLen - 4)
      in if computedCrc \<noteq> frameCrc
         then find_frame_end buffer finalChunk
                (if finalChunk then ''CRC mismatch: computed 0x'' @ hex8 computedCrc @ '', frame 0x'' @ hex8 frameCrc
                 else bestError) lens
         else Inr (frameLen, frameCrc))"

text \<open>The status, the error message, and with \<open>RobotOk\<close> the frame and the number of bytes it takes.\<close>

definition robot_tryDecodeFrame ::
  "bytes \<Rightarrow> byte \<Rightarrow> byte \<Rightarrow> frame_channel \<Rightarrow> bool \<Rightarrow> robot_status \<times> string \<times> (radar_frame \<times> nat) option" where
  "robot_tryDecodeFrame buffer expectAddr expectCmd expectedChannel finalChunk =
     (if length buffer < kRobotMinFrameLen then (RobotIncomplete, ''buffer too short'', None)
      else
        let isJD3D = (take 4 buffer = kMagicJD3D); isJD3I = (take 4 buffer = kMagicJD3I);
            addr = buffer ! 6; command = buffer ! 7 in
        if \<not> isJD3D \<and> \<not> isJD3I then (RobotBadMagic, ''bad magic'', None)
        else if (expectedChannel = MainChannel \<and> \<not> isJD3D) \<or> (expectedChannel = InterruptChannel \<and> \<not> isJD3I)
        then (RobotChannelMismatch, ''channel mismatch'', None)
        else if expectAddr \<noteq> 0 \<and> addr \<noteq> expectAddr
        then (RobotAddrMismatch, ''addr mismatch: expected '' @ dec (unat expectAddr) @ '', got '' @ dec (unat addr), None)
        else if expectCmd \<noteq> 0 \<and> command \<noteq> expectCmd
        then (RobotCmdMismatch, ''cmd mismatch: expected '' @ dec (unat expectCmd) @ '', got '' @ dec (unat command), None)
        else
          (case find_frame_end buffer finalChunk (if finalChunk then ''CRC mismatch'' else ''frame incomplete'')
                  [kRobotMinFrameLen..<length buffer + 1] of
             Inl e \<Rightarrow> (if finalChunk then RobotCrcError else RobotIncomplete, e, None)
           | Inr (frameLen, frameCrc) \<Rightarrow>
               (RobotOk, [],
                Some (\<lparr>rf_counter = buffer ! 4, rf_option = buffer ! 5, rf_addr = addr, rf_command = command,
                        rf_payload = take (frameLen - kHeaderLen - 4) (drop kHeaderLen buffer),
                        rf_crc32 = frameCrc\<rparr>, frameLen))))"

section \<open>Payloads\<close>

definition makeRegPayload :: "u16 \<Rightarrow> u32 \<Rightarrow> bytes" where
  "makeRegPayload regAddr value = be16 regAddr @ be32 value"

definition makeScanLinePayload :: "u16 \<Rightarrow> u16 \<Rightarrow> u16 \<Rightarrow> u16 \<Rightarrow> u16 \<Rightarrow> bytes" where
  "makeScanLinePayload angleX beginY endY stepY speedY =
     be16 angleX @ be16 beginY @ be16 endY @ be16 stepY @ be16 speedY"

definition makeScanFramePayload :: "u16 \<Rightarrow> u16 \<Rightarrow> u16 \<Rightarrow> u16 \<Rightarrow> u16 \<Rightarrow> u16 \<Rightarrow> u16 \<Rightarrow> bytes" where
  "makeScanFramePayload beginX endX stepX beginY endY stepY speedY =
     be16 beginX @ be16 endX @ be16 stepX @ be16 beginY @ be16 endY @ be16 stepY @ be16 speedY"

definition robot_parseRegResponse :: "bytes \<Rightarrow> (u16 \<times> u32) option" where
  "robot_parseRegResponse payload =
     (if length payload < 6 then None else Some (read16 payload 0, read32 payload 2))"

definition robot_parseQueryResponse :: "bytes \<Rightarrow> (byte \<times> byte \<times> u32) option" where
  "robot_parseQueryResponse payload =
     (if length payload < 6 then None else Some (payload ! 0, payload ! 1, read32 payload 2))"

definition robot_parseSegmentResponse :: "bytes \<Rightarrow> (u32 \<times> u16 \<times> bytes) option" where
  "robot_parseSegmentResponse payload =
     (if length payload < 6 then None
      else let segLen = read16 payload 4 in
        if unat segLen + 6 > length payload then None
        else Some (read32 payload 0, segLen, take (unat segLen) (drop 6 payload)))"

end
