(* ===== verification/RobotSession.thy ===== *)
theory RobotSession
  imports RobotCodec QtJson
begin

text \<open>
  The request layer of the scan robot's driver (\<open>src/src/drivers/driver_3d_scan_robot/radar_session.*\<close>).
  The transport is an interface of the code (\<open>IRadarTransport\<close>); here it is a script of exchanges, one
  per request: whether the frame could be written, and what the calls of \<open>readSome\<close> return until the
  deadline of the request passes. After the script the device is silent. The text that all calls of
  a command share for their errors is part of the state (\<open>rs_err\<close>), since the code fills in its own
  texts only when it is empty. \<open>rs_polls\<close> is the number of polls that are begun before the deadline of
  a task.
\<close>

section \<open>Requests\<close>

text \<open>A read can fail without a text, when no bytes were there after all.\<close>

datatype robot_read = RobotChunk bytes | RobotReadFailed "string option"

record robot_exchange =
  rx_write_error :: "string option"
  rx_reads :: "robot_read list"

record robot_session =
  rs_addr :: byte
  rs_counter :: byte
  rs_insertCounter :: byte
  rs_script :: "robot_exchange list"
  rs_written :: "bytes list"
  rs_err :: string
  rs_polls :: nat

datatype robot_error_kind = RobotTransport | RobotProtocol

definition nextCounter :: "robot_session \<Rightarrow> byte \<times> robot_session" where
  "nextCounter s = (rs_counter s, s\<lparr>rs_counter := rs_counter s + 1\<rparr>)"

definition nextInsertCounter :: "robot_session \<Rightarrow> byte \<times> robot_session" where
  "nextInsertCounter s = (rs_insertCounter s, s\<lparr>rs_insertCounter := rs_insertCounter s + 1\<rparr>)"

text \<open>\<open>writeFrame\<close>: the reads of the exchange it begins, or the error.\<close>

definition robot_writeFrame :: "bytes \<Rightarrow> robot_session \<Rightarrow> robot_read list option \<times> robot_session" where
  "robot_writeFrame frame s =
     (let s = s\<lparr>rs_written := rs_written s @ [frame]\<rparr> in
      case rs_script s of
        [] \<Rightarrow> (Some [], s)
      | x # xs \<Rightarrow>
          (case rx_write_error x of
             Some err \<Rightarrow> (None, s\<lparr>rs_script := xs, rs_err := err\<rparr>)
           | None \<Rightarrow> (Some (rx_reads x), s\<lparr>rs_script := xs\<rparr>)))"

text \<open>The loop of \<open>sendAndReceive\<close>: the bytes so far, the error text, and what is still read before the
  deadline.\<close>

definition decode_error_text :: "robot_status \<Rightarrow> string \<Rightarrow> string" where
  "decode_error_text status err = (if err = [] then ''Decode failed: '' @ robot_decodeStatusToString status else err)"

fun robot_receive ::
  "byte \<Rightarrow> byte \<Rightarrow> frame_channel \<Rightarrow> bytes \<Rightarrow> string \<Rightarrow> robot_read list \<Rightarrow> (robot_error_kind + radar_frame) \<times> string" where
  "robot_receive addr command channel buffer err [] =
     (Inl (if buffer = [] then RobotTransport else RobotProtocol),
      if err \<noteq> [] then err else if buffer = [] then ''Serial read timeout'' else ''Incomplete frame'')"
| "robot_receive addr command channel buffer err (RobotReadFailed e # reads) =
     (let err = (case e of Some t \<Rightarrow> t | None \<Rightarrow> err) in
      if buffer = [] then (Inl RobotTransport, err)
      else
        (case robot_tryDecodeFrame buffer addr command channel True of
           (_, _, Some (frame, _)) \<Rightarrow> (Inr frame, err)
         | (status, msg, None) \<Rightarrow> (Inl RobotProtocol, decode_error_text status msg)))"
| "robot_receive addr command channel buffer err (RobotChunk chunk # reads) =
     (case robot_tryDecodeFrame (buffer @ chunk) addr command channel False of
        (_, _, Some (frame, _)) \<Rightarrow> (Inr frame, err)
      | (status, msg, None) \<Rightarrow>
          if status \<noteq> RobotIncomplete then (Inl RobotProtocol, decode_error_text status msg)
          else robot_receive addr command channel (buffer @ chunk) msg reads)"

definition robot_sendAndReceive ::
  "byte \<Rightarrow> bytes \<Rightarrow> bool \<Rightarrow> robot_session \<Rightarrow> (robot_error_kind + radar_frame) \<times> robot_session" where
  "robot_sendAndReceive command payload interrupt s =
     (let (ctr, s) = (if interrupt then nextInsertCounter s else nextCounter s);
          (written, s) = robot_writeFrame (robot_encodeFrame ctr (rs_addr s) command payload interrupt) s
      in case written of
           None \<Rightarrow> (Inl RobotTransport, s)
         | Some reads \<Rightarrow>
             (let (r, err) = robot_receive (rs_addr s) command (if interrupt then InterruptChannel else MainChannel)
                               [] (rs_err s) reads
              in (r, s\<lparr>rs_err := err\<rparr>)))"

section \<open>Tasks\<close>

record query_task_result =
  qt_lastCounter :: byte
  qt_lastCommand :: byte
  qt_resultCode :: u32

text \<open>One poll: the result of the awaited task, when it is over.\<close>

definition poll_task ::
  "byte \<Rightarrow> byte \<Rightarrow> robot_session \<Rightarrow> query_task_result option \<times> robot_session" where
  "poll_task expectedCounter expectedCommand s =
     (case robot_sendAndReceive 6 (makeU32Payload 100) False s of
        (Inl _, s) \<Rightarrow> (None, s)
      | (Inr response, s) \<Rightarrow>
          (case robot_parseQueryResponse (rf_payload response) of
             None \<Rightarrow> (None, s\<lparr>rs_err := ''Failed to parse query response''\<rparr>)
           | Some (lastCtr, lastCmd, resultCode) \<Rightarrow>
               if lastCtr \<noteq> expectedCounter \<or> lastCmd \<noteq> expectedCommand then (None, s)
               else if resultCode = 0 then (None, s)
               else (Some \<lparr>qt_lastCounter = lastCtr, qt_lastCommand = lastCmd, qt_resultCode = resultCode\<rparr>, s)))"

fun wait_task :: "byte \<Rightarrow> byte \<Rightarrow> nat \<Rightarrow> robot_session \<Rightarrow> query_task_result option \<times> robot_session" where
  "wait_task expectedCounter expectedCommand 0 s = (None, s\<lparr>rs_err := ''Task timeout''\<rparr>)"
| "wait_task expectedCounter expectedCommand (Suc polls) s =
     (case poll_task expectedCounter expectedCommand s of
        (Some r, s) \<Rightarrow> (Some r, s)
      | (None, s) \<Rightarrow> wait_task expectedCounter expectedCommand polls s)"

definition robot_waitTaskCompleted :: "byte \<Rightarrow> byte \<Rightarrow> robot_session \<Rightarrow> query_task_result option \<times> robot_session" where
  "robot_waitTaskCompleted expectedCounter expectedCommand s =
     wait_task expectedCounter expectedCommand (rs_polls s) s"

section \<open>Scan data\<close>

definition readSegmentSize :: "robot_session \<Rightarrow> u16 option \<times> robot_session" where
  "readSegmentSize s =
     (case robot_sendAndReceive 1 (makeRegPayload 15 100) False s of
        (Inl _, s) \<Rightarrow> (None, s)
      | (Inr response, s) \<Rightarrow>
          (case robot_parseRegResponse (rf_payload response) of
             None \<Rightarrow> (None, s\<lparr>rs_err := ''Failed to parse segment size response''\<rparr>)
           | Some (regAddr, value) \<Rightarrow>
               if regAddr \<noteq> 15 then (None, s\<lparr>rs_err := ''Segment size register mismatch''\<rparr>)
               else (Some (ucast value), s)))"

text \<open>One attempt at a segment, and up to five of them. \<open>memcpy\<close> copies what fits into the rest of the
  buffer.\<close>

definition fetch_segment :: "nat \<Rightarrow> robot_session \<Rightarrow> (u16 \<times> bytes) option \<times> robot_session" where
  "fetch_segment i s =
     (case robot_sendAndReceive 12 (makeU32Payload (of_nat i)) False s of
        (Inl _, s) \<Rightarrow> (None, s)
      | (Inr response, s) \<Rightarrow>
          (case robot_parseSegmentResponse (rf_payload response) of
             None \<Rightarrow> (None, s)
           | Some (segIndex, segLen, segData) \<Rightarrow>
               if sint segIndex \<noteq> int i then (None, s) else (Some (segLen, segData), s)))"

fun fetch_retry :: "nat \<Rightarrow> nat \<Rightarrow> robot_session \<Rightarrow> (u16 \<times> bytes) option \<times> robot_session" where
  "fetch_retry 0 i s = (None, s)"
| "fetch_retry (Suc attempts) i s =
     (case fetch_segment i s of (Some seg, s) \<Rightarrow> (Some seg, s) | (None, s) \<Rightarrow> fetch_retry attempts i s)"

definition put_segment :: "nat \<Rightarrow> nat \<Rightarrow> u16 \<times> bytes \<Rightarrow> bytes \<Rightarrow> bytes" where
  "put_segment segSize i seg aggregated =
     (let offset = i * segSize; copyLen = min (unat (fst seg)) (length aggregated - offset)
      in write_from offset (take copyLen (snd seg)) aggregated)"

fun robot_collect :: "nat \<Rightarrow> nat list \<Rightarrow> bytes \<Rightarrow> robot_session \<Rightarrow> bytes option \<times> robot_session" where
  "robot_collect segSize [] aggregated s = (Some aggregated, s)"
| "robot_collect segSize (i # is) aggregated s =
     (case fetch_retry 5 i s of
        (None, s) \<Rightarrow> (None, s\<lparr>rs_err := ''Failed to fetch segment '' @ dec i @ '' after retries''\<rparr>)
      | (Some seg, s) \<Rightarrow> robot_collect segSize is (put_segment segSize i seg aggregated) s)"

text \<open>The number of segments and the bytes; \<open>totalBytes\<close> is positive at every call.\<close>

definition collectScanData :: "nat \<Rightarrow> robot_session \<Rightarrow> (nat \<times> bytes) option \<times> robot_session" where
  "collectScanData totalBytes s =
     (case readSegmentSize s of
        (None, s) \<Rightarrow> (None, s)
      | (Some deviceSize, s) \<Rightarrow>
          (let segSize = unat deviceSize in
           if segSize = 0 \<or> segSize > 1376 \<or> segSize mod 16 \<noteq> 0
           then (None, s\<lparr>rs_err := ''Invalid segment size: '' @ dec segSize\<rparr>)
           else
             (let segCount = totalBytes div segSize + (if totalBytes mod segSize \<noteq> 0 then 1 else 0)
              in case robot_collect segSize [0..<segCount] (replicate totalBytes 0) s of
                   (None, s) \<Rightarrow> (None, s)
                 | (Some aggregated, s) \<Rightarrow> (Some (segCount, aggregated), s))))"

end
