(* ===== verification/RobotHandler.thy ===== *)
theory RobotHandler
  imports RobotSession DriverCore
begin

text \<open>
  The commands of the scan robot's driver (\<open>src/src/drivers/driver_3d_scan_robot/handler.cpp\<close>). A command
  opens a new session on its own transport, so it runs on the script of exchanges its transport has.
  Arithmetic in double precision and the Base64 text of bytes are arguments.
\<close>

section \<open>Parameters\<close>

text \<open>\<open>rl_centi x\<close> is \<open>qRound(x * 100)\<close> and \<open>rl_hundredth i\<close> is \<open>i / 100.0\<close>, in doubles.\<close>

record robot_lib =
  rl_centi :: "rat \<Rightarrow> int"
  rl_hundredth :: "int \<Rightarrow> rat"
  rl_base64 :: "bytes \<Rightarrow> string"

text \<open>What \<open>parseTransportParams\<close> reads and the handler looks at; the other members of
  \<open>RadarTransportParams\<close> are for the transport and the clock.\<close>

definition param_addr_byte :: "json_obj \<Rightarrow> byte" where
  "param_addr_byte p = word_of_int (to_int_or 1 (jval p ''addr''))"

definition resolveTaskTimeout :: "int \<Rightarrow> string \<Rightarrow> int" where
  "resolveTaskTimeout taskTimeoutMs cmd =
     (if taskTimeoutMs > 0 then taskTimeoutMs
      else if cmd = ''scan_frame'' then 1000000
      else if cmd = ''scan_line'' then 100000
      else 180000)"

definition errorCodeForSession :: "robot_error_kind \<Rightarrow> int" where
  "errorCodeForSession kind = (if kind = RobotTransport then 1 else 2)"

definition modeNameFromCode :: "u32 \<Rightarrow> string" where
  "modeNameFromCode code =
     (if code = 10 then ''boot'' else if code = 20 then ''imaging'' else if code = 30 then ''standby''
      else if code = 40 then ''sleep'' else ''unknown'')"

definition switchStateFromCode :: "u32 \<Rightarrow> string" where
  "switchStateFromCode code = (if code = 10 then ''near'' else if code = 20 then ''far'' else ''unknown'')"

definition calibStateFromCode :: "u32 \<Rightarrow> string" where
  "calibStateFromCode code = (if code = 10 then ''calibrated'' else if code = 20 then ''uncalibrated'' else ''unknown'')"

definition stateFlagsFromRaw :: "u32 \<Rightarrow> json_obj" where
  "stateFlagsFromRaw rawState =
     fold (\<lambda>(name, i). jset name (JBool (bit rawState i)))
       [(''clock_error'', 0), (''flash_error'', 1), (''x_motor_driver_alarm'', 2), (''y_motor_driver_alarm'', 3),
        (''x_calibration_error'', 4), (''y_calibration_error'', 5), (''parameter_error'', 6),
        (''radar_communication_error'', 7), (''device_reset_failed'', 8), (''program_jump_failed'', 9)] []"

definition knownCommands :: "string list" where
  "knownCommands =
     [''test'', ''get_addr'', ''set_addr'', ''get_mode'', ''set_mode'', ''get_temp'', ''get_state'', ''get_version'',
      ''get_angles'', ''get_switch_x'', ''get_switch_y'', ''get_calib_x'', ''get_calib_y'', ''calib'', ''calib_x'',
      ''calib_y'', ''move'', ''get_distance_at'', ''get_distance'', ''get_reg'', ''set_reg'', ''scan_line'',
      ''scan_frame'', ''get_data'', ''query'', ''interrupt_test'', ''scan_progress'', ''scan_cancel'']"

section \<open>Single exchanges\<close>

text \<open>One request and its response, or the error that is reported; what the handler does with the response
  is \<open>f\<close>.\<close>

definition with_response ::
  "byte \<Rightarrow> bytes \<Rightarrow> bool \<Rightarrow> (radar_frame \<Rightarrow> robot_session \<Rightarrow> message \<times> robot_session) \<Rightarrow> robot_session
    \<Rightarrow> message \<times> robot_session" where
  "with_response command payload interrupt f s =
     (case robot_sendAndReceive command payload interrupt s of
        (Inl kind, s) \<Rightarrow> (resp_error (errorCodeForSession kind) (message_object (rs_err s)), s)
      | (Inr resp, s) \<Rightarrow> f resp s)"

definition bad_response :: "string \<Rightarrow> message" where
  "bad_response text = resp_error 2 (message_object text)"

text \<open>A register that is read or written; the response's register and value.\<close>

definition register_command ::
  "byte \<Rightarrow> u16 \<Rightarrow> u32 \<Rightarrow> (u16 \<Rightarrow> u32 \<Rightarrow> message) \<Rightarrow> robot_session \<Rightarrow> message \<times> robot_session" where
  "register_command command regId value f =
     with_response command (makeRegPayload regId value) False
       (\<lambda>resp s. (case robot_parseRegResponse (rf_payload resp) of
          None \<Rightarrow> bad_response ''Invalid register response'' | Some (reg, v) \<Rightarrow> f reg v, s))"

definition read_register :: "u16 \<Rightarrow> (u32 \<Rightarrow> message) \<Rightarrow> robot_session \<Rightarrow> message \<times> robot_session" where
  "read_register regId f = register_command 1 regId 100 (\<lambda>_ v. f v)"

definition handleRegRead :: "u16 \<Rightarrow> robot_session \<Rightarrow> message \<times> robot_session" where
  "handleRegRead regId =
     register_command 1 regId 100
       (\<lambda>regAddr v. if regAddr \<noteq> regId then bad_response ''Invalid register response''
          else resp_done 0 (JObj (jset ''value'' (jint (uint v)) (jset ''register'' (jint (uint regId)) []))))"

text \<open>A value of four bytes that is sent and one that comes back.\<close>

definition value_command ::
  "byte \<Rightarrow> bool \<Rightarrow> u32 \<Rightarrow> string \<Rightarrow> (u32 \<Rightarrow> json_obj) \<Rightarrow> robot_session \<Rightarrow> message \<times> robot_session" where
  "value_command command interrupt value name f =
     with_response command (makeU32Payload value) interrupt
       (\<lambda>resp s. (if length (rf_payload resp) < 4 then bad_response (''Invalid '' @ name @ '' response'')
          else resp_done 0 (JObj (f (read32 (rf_payload resp) 0))), s))"

definition get_addr_command :: "u32 \<Rightarrow> robot_session \<Rightarrow> message \<times> robot_session" where
  "get_addr_command value s =
     (let (ctr, s) = nextCounter s;
          (written, s) = robot_writeFrame (robot_encodeFrame ctr 255 3 (makeU32Payload value) False) s
      in case written of
           None \<Rightarrow> (resp_error 1 (message_object (rs_err s)), s)
         | Some [] \<Rightarrow> (resp_error 1 (message_object ''Serial read timeout''), s\<lparr>rs_err := ''Serial read timeout''\<rparr>)
         | Some (RobotReadFailed e # _) \<Rightarrow>
             (let err = (case e of Some t \<Rightarrow> t | None \<Rightarrow> rs_err s)
              in (resp_error 1 (message_object err), s\<lparr>rs_err := err\<rparr>))
         | Some (RobotChunk chunk # _) \<Rightarrow>
             (case robot_tryDecodeFrame chunk 0 3 MainChannel True of
                (_, msg, None) \<Rightarrow> (bad_response msg, s\<lparr>rs_err := msg\<rparr>)
              | (_, _, Some (resp, _)) \<Rightarrow>
                  (if length (rf_payload resp) < 4 then bad_response ''Invalid get_addr response''
                   else if read32 (rf_payload resp) 0 \<noteq> NOT value then bad_response ''get_addr echo mismatch''
                   else resp_done 0 (JObj (jset ''addr'' (jint (uint (rf_addr resp))) [])), s)))"

definition mode_reply :: "u32 \<Rightarrow> message" where
  "mode_reply v = resp_done 0 (JObj (jset ''mode_code'' (jint (uint v)) (jset ''mode'' (JStr (modeNameFromCode v)) [])))"

definition mode_code :: "json_obj \<Rightarrow> u32" where
  "mode_code p =
     (let mode = to_string (jval p ''mode'')
      in if mode = ''boot'' then 10 else if mode = ''imaging'' then 20 else if mode = ''standby'' then 30
         else if mode = ''sleep'' then 40 else word_of_int (to_int_or 0 (jval p ''mode_code'')))"

definition set_mode_command :: "json_obj \<Rightarrow> robot_session \<Rightarrow> message \<times> robot_session" where
  "set_mode_command p s =
     (let code = mode_code p
      in if code \<notin> {10, 20, 30, 40} then (bad_response ''Invalid mode or mode_code'', s)
         else register_command 2 0 code (\<lambda>_ v. mode_reply v) s)"

definition get_temp_command :: "robot_lib \<Rightarrow> robot_session \<Rightarrow> message \<times> robot_session" where
  "get_temp_command lib =
     with_response 1 (makeRegPayload 4 100) False
       (\<lambda>resp1. with_response 1 (makeRegPayload 5 100) False
         (\<lambda>resp2 s. (case (robot_parseRegResponse (rf_payload resp1), robot_parseRegResponse (rf_payload resp2)) of
              (Some (_, v1), Some (_, v2)) \<Rightarrow>
                resp_done 0 (JObj (jset ''board_temp_deg_c'' (JNum (rl_hundredth lib (sint v2)))
                  (jset ''mcu_temp_deg_c'' (JNum (rl_hundredth lib (sint v1)))
                  (jset ''board_temp_raw'' (jint (sint v2)) (jset ''mcu_temp_raw'' (jint (sint v1)) [])))))
            | _ \<Rightarrow> bad_response ''Invalid register response'', s)))"

definition state_reply :: "(u32 \<Rightarrow> string) \<Rightarrow> u32 \<Rightarrow> message" where
  "state_reply name v =
     resp_done 0 (JObj (jset ''state_code'' (jint (uint v)) (jset ''state'' (JStr (name v)) [])))"

definition angles_reply :: "robot_lib \<Rightarrow> u32 \<Rightarrow> message" where
  "angles_reply lib v =
     resp_done 0 (JObj (jset ''raw'' (jint (uint v))
       (jset ''y_deg'' (JNum (rl_hundredth lib (uint (v AND 0xFFFF))))
       (jset ''x_deg'' (JNum (rl_hundredth lib (uint (drop_bit 16 v)))) []))))"

definition query_command :: "u32 \<Rightarrow> robot_session \<Rightarrow> message \<times> robot_session" where
  "query_command op =
     with_response 6 (makeU32Payload op) False
       (\<lambda>resp s. (case robot_parseQueryResponse (rf_payload resp) of
          None \<Rightarrow> bad_response ''Invalid query response''
        | Some (lastCtr, lastCmd, resultCode) \<Rightarrow>
            resp_done 0 (JObj (jset ''result'' (jint (uint resultCode)) (jset ''command'' (jint (uint lastCmd))
              (jset ''counter'' (jint (uint lastCtr)) [])))), s))"

section \<open>Tasks and scans\<close>

definition execLongTaskWithResult ::
  "byte \<Rightarrow> bytes \<Rightarrow> (query_task_result \<Rightarrow> robot_session \<Rightarrow> message \<times> robot_session) \<Rightarrow> robot_session
    \<Rightarrow> message \<times> robot_session" where
  "execLongTaskWithResult cmdId payload f =
     with_response cmdId payload False
       (\<lambda>initResp s. case robot_waitTaskCompleted (rf_counter initResp) cmdId s of
          (None, s) \<Rightarrow> (bad_response (rs_err s), s)
        | (Some tr, s) \<Rightarrow> f tr s)"

definition task_failed :: "u32 \<Rightarrow> message" where
  "task_failed code = resp_error 2 (JObj (jset ''result_code'' (jint (uint code)) (jset ''result'' (JStr ''error'') [])))"

definition calib_command :: "string \<Rightarrow> robot_session \<Rightarrow> message \<times> robot_session" where
  "calib_command cmd =
     execLongTaskWithResult 4 (makeU32Payload (if cmd = ''calib_x'' then 100 else if cmd = ''calib_y'' then 200 else 300))
       (\<lambda>tr s. (if qt_resultCode tr = 10 then resp_done 0 (JObj (jset ''result'' (JStr ''ok'') []))
          else task_failed (qt_resultCode tr), s))"

definition angle_word :: "robot_lib \<Rightarrow> json_obj \<Rightarrow> string \<Rightarrow> u16" where
  "angle_word lib p name = word_of_int (rl_centi lib (to_double (jval p name)))"

definition angles_payload :: "robot_lib \<Rightarrow> json_obj \<Rightarrow> bytes" where
  "angles_payload lib p =
     makeU32Payload (push_bit 16 (ucast (angle_word lib p ''x_deg'')) OR ucast (angle_word lib p ''y_deg''))"

definition angles_members :: "json_obj \<Rightarrow> json_obj \<Rightarrow> json_obj" where
  "angles_members p members =
     jset ''y_deg'' (JNum (to_double (jval p ''y_deg''))) (jset ''x_deg'' (JNum (to_double (jval p ''x_deg''))) members)"

definition move_command :: "robot_lib \<Rightarrow> json_obj \<Rightarrow> robot_session \<Rightarrow> message \<times> robot_session" where
  "move_command lib p =
     execLongTaskWithResult 7 (angles_payload lib p)
       (\<lambda>tr s. (if qt_resultCode tr = 10 then resp_done 0 (JObj (angles_members p (jset ''result'' (JStr ''ok'') [])))
          else task_failed (qt_resultCode tr), s))"

definition get_distance_at_command :: "robot_lib \<Rightarrow> json_obj \<Rightarrow> robot_session \<Rightarrow> message \<times> robot_session" where
  "get_distance_at_command lib p =
     execLongTaskWithResult 5 (angles_payload lib p)
       (\<lambda>tr s. (resp_done 0 (JObj (jset ''distance_mm'' (jint (uint (qt_resultCode tr))) (angles_members p []))), s))"

definition scan_reply :: "robot_lib \<Rightarrow> string \<Rightarrow> byte \<Rightarrow> u32 \<Rightarrow> nat \<Rightarrow> bytes \<Rightarrow> message" where
  "scan_reply lib name taskCounter resultCode segCount bytes =
     resp_done 0 (JObj (jset ''data_base64'' (JStr (rl_base64 lib bytes)) (jset ''byte_count'' (jint (int (length bytes)))
       (jset ''segment_count'' (jint (int segCount)) (jset ''result_code'' (jint (uint resultCode))
       (jset ''task_command'' (JStr name) (jset ''task_counter'' (jint (uint taskCounter)) [])))))))"

definition scan_failed :: "string \<Rightarrow> u32 \<Rightarrow> message" where
  "scan_failed text code =
     resp_error 2 (JObj (jset ''result_code'' (jint (uint code)) (jset ''message'' (JStr text) [])))"

text \<open>A scan is started; unlike with the other commands, every error of its start is reported with code 1.\<close>

definition start_scan ::
  "byte \<Rightarrow> bytes \<Rightarrow> (query_task_result \<Rightarrow> robot_session \<Rightarrow> message \<times> robot_session) \<Rightarrow> robot_session
    \<Rightarrow> message \<times> robot_session" where
  "start_scan cmdId payload f s =
     (case robot_sendAndReceive cmdId payload False s of
        (Inl _, s) \<Rightarrow> (resp_error 1 (message_object (rs_err s)), s)
      | (Inr initResp, s) \<Rightarrow>
          (case robot_waitTaskCompleted (rf_counter initResp) cmdId s of
             (None, s) \<Rightarrow> (bad_response (rs_err s), s)
           | (Some tr, s) \<Rightarrow> f tr s))"

definition collect_reply ::
  "robot_lib \<Rightarrow> string \<Rightarrow> byte \<Rightarrow> u32 \<Rightarrow> nat \<Rightarrow> robot_session \<Rightarrow> message \<times> robot_session" where
  "collect_reply lib name taskCounter resultCode totalBytes s =
     (case collectScanData totalBytes s of
        (None, s) \<Rightarrow> (bad_response (rs_err s), s)
      | (Some (segCount, bytes), s) \<Rightarrow> (scan_reply lib name taskCounter resultCode segCount bytes, s))"

definition scan_line_payload :: "robot_lib \<Rightarrow> json_obj \<Rightarrow> bytes" where
  "scan_line_payload lib p =
     makeScanLinePayload (angle_word lib p ''angle_x'') (angle_word lib p ''begin_y'') (angle_word lib p ''end_y'')
       (angle_word lib p ''step_y'') (angle_word lib p ''speed_y'')"

definition scan_line_command :: "robot_lib \<Rightarrow> json_obj \<Rightarrow> robot_session \<Rightarrow> message \<times> robot_session" where
  "scan_line_command lib p =
     start_scan 10 (scan_line_payload lib p)
       (\<lambda>tr s. let code = qt_resultCode tr; totalBytes = sint code in
          if code = 0 \<or> code = 20 then (scan_failed ''Scan line failed'' code, s)
          else if totalBytes > 0 then collect_reply lib ''scan_line'' (qt_lastCounter tr) code (nat totalBytes) s
          else (scan_reply lib ''scan_line'' (qt_lastCounter tr) code 0 [], s))"

definition scan_frame_payload :: "robot_lib \<Rightarrow> json_obj \<Rightarrow> bytes" where
  "scan_frame_payload lib p =
     makeScanFramePayload (angle_word lib p ''begin_x'') (angle_word lib p ''end_x'') (angle_word lib p ''step_x'')
       (angle_word lib p ''begin_y'') (angle_word lib p ''end_y'') (angle_word lib p ''step_y'')
       (angle_word lib p ''speed_y'')"

definition scan_frame_command :: "robot_lib \<Rightarrow> json_obj \<Rightarrow> robot_session \<Rightarrow> message \<times> robot_session" where
  "scan_frame_command lib p =
     start_scan 11 (scan_frame_payload lib p)
       (\<lambda>tr s. let code = qt_resultCode tr; totalBytes = sint code in
          if totalBytes > 0 \<and> totalBytes < 1000000
          then collect_reply lib ''scan_frame'' (qt_lastCounter tr) code (nat totalBytes) s
          else if totalBytes \<le> 0 then (scan_failed ''Scan frame returned no data'' code, s)
          else (scan_reply lib ''scan_frame'' (qt_lastCounter tr) code 0 [], s))"

definition get_data_command :: "robot_lib \<Rightarrow> json_obj \<Rightarrow> robot_session \<Rightarrow> message \<times> robot_session" where
  "get_data_command lib p s =
     (let totalBytes = to_int_or 0 (jval p ''total_bytes'')
      in if totalBytes \<le> 0 \<or> totalBytes \<ge> 1000000 then (bad_response ''total_bytes out of range'', s)
         else collect_reply lib ''get_data'' 0 0 (nat totalBytes) s)"

section \<open>The handler\<close>

definition param_u32 :: "json_obj \<Rightarrow> string \<Rightarrow> int \<Rightarrow> u32" where
  "param_u32 p name d = word_of_int (to_int_or d (jval p name))"

text \<open>The commands of the interrupt channel.\<close>

definition interrupt_command :: "string \<Rightarrow> json_obj \<Rightarrow> robot_session \<Rightarrow> message \<times> robot_session" where
  "interrupt_command cmd p =
     (if cmd = ''interrupt_test''
      then value_command 6 True (param_u32 p ''value'' 1000) ''interrupt_test'' (\<lambda>v. jset ''value'' (jint (uint v)) [])
      else if cmd = ''scan_progress''
      then value_command 3 True 1000 ''scan_progress''
             (\<lambda>v. jset ''raw'' (jint (uint v)) (jset ''total_lines'' (jint (uint (v AND 0xFFFF)))
                (jset ''current_line'' (jint (uint (drop_bit 16 v))) [])))
      else value_command 8 True 1000 ''scan_cancel'' (\<lambda>v. jset ''value'' (jint (uint v)) []))"

definition robot_command :: "robot_lib \<Rightarrow> string \<Rightarrow> json_obj \<Rightarrow> robot_session \<Rightarrow> message \<times> robot_session" where
  "robot_command lib cmd p =
     (if cmd = ''test'' then value_command 3 False (param_u32 p ''value'' 1000) ''test'' (\<lambda>v. jset ''echo'' (jint (uint v)) [])
      else if cmd = ''get_addr'' then get_addr_command (param_u32 p ''value'' 1000)
      else if cmd = ''get_mode'' then read_register 0 mode_reply
      else if cmd = ''set_mode'' then set_mode_command p
      else if cmd = ''set_addr''
      then register_command 2 13 (param_u32 p ''new_addr'' 0) (\<lambda>_ v. resp_done 0 (JObj (jset ''new_addr'' (jint (sint v)) [])))
      else if cmd = ''get_temp'' then get_temp_command lib
      else if cmd = ''get_state''
      then read_register 1 (\<lambda>v. resp_done 0 (JObj (jset ''flags'' (JObj (stateFlagsFromRaw v)) (jset ''raw_state'' (jint (uint v)) []))))
      else if cmd = ''get_version'' then handleRegRead 12
      else if cmd = ''get_switch_x'' then read_register 6 (state_reply switchStateFromCode)
      else if cmd = ''get_switch_y'' then read_register 7 (state_reply switchStateFromCode)
      else if cmd = ''get_calib_x'' then read_register 8 (state_reply calibStateFromCode)
      else if cmd = ''get_calib_y'' then read_register 9 (state_reply calibStateFromCode)
      else if cmd = ''get_angles'' then read_register 10 (angles_reply lib)
      else if cmd = ''get_reg'' then handleRegRead (word_of_int (to_int_or 0 (jval p ''register'')))
      else if cmd = ''set_reg''
      then (let regAddr = word_of_int (to_int_or 0 (jval p ''register''))
            in register_command 2 regAddr (param_u32 p ''value'' 0)
                 (\<lambda>_ v. resp_done 0 (JObj (jset ''value'' (jint (uint v)) (jset ''register'' (jint (uint regAddr)) [])))))
      else if cmd = ''get_distance''
      then value_command 8 False 100 ''get_distance'' (\<lambda>v. jset ''distance_mm'' (jint (uint v)) [])
      else if cmd = ''calib'' \<or> cmd = ''calib_x'' \<or> cmd = ''calib_y'' then calib_command cmd
      else if cmd = ''move'' then move_command lib p
      else if cmd = ''get_distance_at'' then get_distance_at_command lib p
      else if cmd = ''scan_line'' then scan_line_command lib p
      else if cmd = ''scan_frame'' then scan_frame_command lib p
      else if cmd = ''get_data'' then get_data_command lib p
      else if cmd = ''query'' then query_command (param_u32 p ''op'' 100)
      else interrupt_command cmd p)"

text \<open>The transport the command gets: its script, or the error of opening it; \<open>budget\<close> is the number of polls
  the clock allows a task that may take so many milliseconds.\<close>

definition RadarSession :: "byte \<Rightarrow> nat \<Rightarrow> robot_exchange list \<Rightarrow> robot_session" where
  "RadarSession addr polls script =
     \<lparr>rs_addr = addr, rs_counter = 0, rs_insertCounter = 0, rs_script = script, rs_written = [], rs_err = [],
      rs_polls = polls\<rparr>"

definition task_budget :: "(int \<Rightarrow> nat) \<Rightarrow> json_obj \<Rightarrow> string \<Rightarrow> nat" where
  "task_budget budget p cmd = budget (resolveTaskTimeout (to_int_or (- 1) (jval p ''task_timeout_ms'')) cmd)"

definition scan_robot_handle ::
  "robot_lib \<Rightarrow> string + robot_exchange list \<Rightarrow> (int \<Rightarrow> nat) \<Rightarrow> string \<Rightarrow> json \<Rightarrow> message" where
  "scan_robot_handle lib opened budget cmd data =
     (if cmd = ''status'' then resp_done 0 (JObj (jset ''status'' (JStr ''ready'') []))
      else if cmd \<notin> set knownCommands then resp_error 404 (message_object (''Unknown command: '' @ cmd))
      else
        (case opened of
           Inl err \<Rightarrow> resp_error 1 (message_object err)
         | Inr script \<Rightarrow>
             (let p = to_object data
              in fst (robot_command lib cmd p (RadarSession (param_addr_byte p) (task_budget budget p cmd) script)))))"

end
