(* ===== verification/RobotSpec.thy ===== *)
theory RobotSpec
  imports RobotHandler LaserCodecSpec
begin

text \<open>
  What the scan robot's driver promises: a frame is recovered from any chunking of its bytes as long as
  no shorter prefix has a fitting checksum, and a scan returns the device's bytes although polls and
  segments fail on the way. The last section shows what a failed scan of a frame looks like.
\<close>

section \<open>Frames\<close>

text \<open>The checksum is the radar's, so what is shown of that one holds here.\<close>

lemma crc_index: "(drop_bit 24 c XOR ucast (b :: byte)) AND 0xFF = drop_bit 24 (c :: u32) XOR ucast b"
  by (rule bit_word_eqI) (auto simp: bit_simps mask8_u32 dest: bit_imp_le_length)

lemma robot_crc: "robot_crc32Stm32 = crc32Stm32"
proof -
  have "robot_crc32Mpeg2Step = crc32Mpeg2Step"
    by (simp add: fun_eq_iff robot_crc32Mpeg2Step_def crc32Mpeg2Step_def crc_index)
  then show ?thesis by (simp add: fun_eq_iff robot_crc32Stm32_def crc32Stm32_def Let_def)
qed

definition checksum_fits :: "bytes \<Rightarrow> nat \<Rightarrow> bool" where
  "checksum_fits buffer n = (robot_crc32Stm32 (take (n - 4 - 4) (drop 4 buffer)) = read32 buffer (n - 4))"

text \<open>No shorter prefix looks like a whole frame.\<close>

definition clear_frame :: "bytes \<Rightarrow> bool" where
  "clear_frame frame = list_all (\<lambda>n. \<not> checksum_fits frame n) [16..<length frame]"

lemma find_frame_end_none:
  "list_all (\<lambda>n. \<not> checksum_fits buffer n) lens \<Longrightarrow> \<exists>e. find_frame_end buffer fc err lens = Inl e"
  by (induction lens arbitrary: err) (auto simp: checksum_fits_def Let_def)

lemma find_frame_end_here:
  "list_all (\<lambda>n. \<not> checksum_fits buffer n) lens \<Longrightarrow> checksum_fits buffer m
    \<Longrightarrow> find_frame_end buffer fc err (lens @ [m]) = Inr (m, read32 buffer (m - 4))"
  by (induction lens arbitrary: err) (auto simp: checksum_fits_def Let_def)

lemma read32_take: "n + 4 \<le> k \<Longrightarrow> k \<le> length buffer \<Longrightarrow> read32 (take k buffer) n = read32 buffer n"
  by (simp add: read32_def)

lemma checksum_fits_take:
  "16 \<le> n \<Longrightarrow> n \<le> k \<Longrightarrow> k \<le> length frame \<Longrightarrow> checksum_fits (take k frame) n = checksum_fits frame n"
  by (simp add: checksum_fits_def read32_take drop_take min_def)

lemma length_magic: "length kMagicJD3D = 4" "length kMagicJD3I = 4" "kMagicJD3D \<noteq> kMagicJD3I"
  by (simp_all add: kMagicJD3D_def kMagicJD3I_def)

lemma encoded_parts:
  assumes "frame = robot_encodeFrame counter addr command payload interrupt"
  shows "length frame = 12 + length payload" and "take 4 frame = (if interrupt then kMagicJD3I else kMagicJD3D)"
    and "frame ! 4 = counter" and "frame ! 5 = 0" and "frame ! 6 = addr" and "frame ! 7 = command"
    and "take (length payload) (drop 8 frame) = payload" and "checksum_fits frame (length frame)"
proof -
  obtain a b c d where m: "(if interrupt then kMagicJD3I else kMagicJD3D) = [a, b, c, d]"
    by (cases interrupt) (auto simp: kMagicJD3D_def kMagicJD3I_def)
  have f: "frame = a # b # c # d # counter # 0 # addr # command # payload
      @ be32 (robot_crc32Stm32 (counter # 0 # addr # command # payload))"
    by (simp add: assms robot_encodeFrame_def Let_def m)
  show "length frame = 12 + length payload" and "take 4 frame = (if interrupt then kMagicJD3I else kMagicJD3D)"
    and "frame ! 4 = counter" and "frame ! 5 = 0" and "frame ! 6 = addr" and "frame ! 7 = command"
    and "take (length payload) (drop 8 frame) = payload"
    by (simp_all add: f m)
  have "read32 (a # b # c # d # counter # 0 # addr # command # payload @ be32 x) (8 + length payload) = x" for x
    using read32_skip [of "a # b # c # d # counter # 0 # addr # command # payload" "8 + length payload" x "[]"] by simp
  moreover have "take (4 + length payload) ((counter # 0 # addr # command # payload) @ rest) = counter # 0 # addr # command # payload" for rest
    by (simp add: numeral_eq_Suc)
  ultimately show "checksum_fits frame (length frame)"
    by (simp add: checksum_fits_def f)
qed

definition channel_of :: "bool \<Rightarrow> frame_channel" where
  "channel_of interrupt = (if interrupt then InterruptChannel else MainChannel)"

lemma decode_prefix:
  assumes "k < length frame" and "frame = robot_encodeFrame counter addr command payload interrupt" and "clear_frame frame"
  shows "\<exists>e. robot_tryDecodeFrame (take k frame) addr command (channel_of interrupt) False = (RobotIncomplete, e, None)"
proof (cases "k < 16")
  case False
  have "list_all (\<lambda>n. \<not> checksum_fits (take k frame) n) [16..<k + 1]"
    using assms(1,3) False by (auto simp: clear_frame_def list_all_iff checksum_fits_take)
  then obtain e where "find_frame_end (take k frame) False ''frame incomplete'' [16..<k + 1] = Inl e"
    using find_frame_end_none by blast
  moreover have "take 4 (take k frame) = take 4 frame" "take k frame ! 6 = addr" "take k frame ! 7 = command"
    using False encoded_parts(5,6) [OF assms(2)] by (simp_all add: min_def)
  ultimately show ?thesis
    using False assms(1) encoded_parts(2) [OF assms(2)] length_magic(3)
    by (auto simp: robot_tryDecodeFrame_def Let_def channel_of_def split: if_splits)
qed (use assms(1) in \<open>simp add: robot_tryDecodeFrame_def\<close>)

definition whole_frame :: "byte \<Rightarrow> byte \<Rightarrow> byte \<Rightarrow> bytes \<Rightarrow> bool \<Rightarrow> radar_frame" where
  "whole_frame counter addr command payload interrupt =
     (let frame = robot_encodeFrame counter addr command payload interrupt
      in \<lparr>rf_counter = counter, rf_option = 0, rf_addr = addr, rf_command = command, rf_payload = payload,
          rf_crc32 = read32 frame (length frame - 4)\<rparr>)"

text \<open>A frame without such a prefix is decoded to what was encoded.\<close>

lemma decode_whole:
  assumes "frame = robot_encodeFrame counter addr command payload interrupt" and "clear_frame frame"
    and "4 \<le> length payload"
  shows "robot_tryDecodeFrame frame addr command (channel_of interrupt) fc
    = (RobotOk, [], Some (whole_frame counter addr command payload interrupt, length frame))"
proof -
  note parts = encoded_parts [OF assms(1)]
  have "16 \<le> length frame" using parts(1) assms(3) by simp
  then have "[16..<length frame + 1] = [16..<length frame] @ [length frame]" by simp
  then have "find_frame_end frame fc err [16..<length frame + 1] = Inr (length frame, read32 frame (length frame - 4))" for err
    using find_frame_end_here [OF _ parts(8)] assms(2) by (simp add: clear_frame_def)
  then show ?thesis
    using parts(1-7) \<open>16 \<le> length frame\<close> length_magic(3)
    by (auto simp: robot_tryDecodeFrame_def Let_def channel_of_def whole_frame_def simp flip: assms(1))
qed

text \<open>It arrives through any chunks.\<close>

lemma receive_chunks:
  assumes "frame = robot_encodeFrame counter addr command payload interrupt" and "clear_frame frame"
    and "4 \<le> length payload" and "buffer @ concat chunks = frame" and "length buffer < length frame"
  shows "fst (robot_receive addr command (channel_of interrupt) buffer err (map RobotChunk chunks @ reads))
    = Inr (whole_frame counter addr command payload interrupt)"
  using assms(4,5)
proof (induction chunks arbitrary: buffer err)
  case (Cons c chunks)
  let ?b = "buffer @ c"
  have pre: "?b = take (length ?b) frame" using Cons.prems(1) by (auto simp flip: append_assoc)
  show ?case
  proof (cases "length ?b < length frame")
    case True
    then obtain e where "robot_tryDecodeFrame ?b addr command (channel_of interrupt) False = (RobotIncomplete, e, None)"
      using decode_prefix [OF True assms(1,2)] pre by auto
    with Cons.IH [of ?b e] Cons.prems(1) True show ?thesis by simp
  next
    case False
    then have "?b = frame" using Cons.prems(1) pre by auto
    with decode_whole [OF assms(1-3), of False] show ?thesis by simp
  qed
qed simp

section \<open>What an exchange answers\<close>

definition frame_of :: "byte \<Rightarrow> byte \<Rightarrow> frame_channel \<Rightarrow> robot_exchange \<Rightarrow> radar_frame option" where
  "frame_of addr command channel x =
     (if rx_write_error x \<noteq> None then None
      else (case fst (robot_receive addr command channel [] [] (rx_reads x)) of Inr f \<Rightarrow> Some f | Inl _ \<Rightarrow> None))"

lemma receive_text_irrelevant:
  "fst (robot_receive addr command channel buffer e reads) = fst (robot_receive addr command channel buffer e' reads)"
  by (cases reads rule: list.exhaust; cases "hd reads")
    (auto simp: Let_def split: prod.splits option.splits)

definition same_line :: "robot_session \<Rightarrow> robot_session \<Rightarrow> bool" where
  "same_line s s' = (rs_addr s' = rs_addr s \<and> rs_polls s' = rs_polls s)"

lemma same_line_simps [simp]:
  "same_line s s" "same_line s (s'\<lparr>rs_err := e\<rparr>) = same_line s s'"
  by (simp_all add: same_line_def)

lemma same_line_trans: "same_line s s' \<Longrightarrow> same_line s' s'' \<Longrightarrow> same_line s s''"
  by (simp add: same_line_def)

lemma send_exchange:
  assumes "rs_script s = x # xs"
  shows "\<exists>s'. snd (robot_sendAndReceive command payload False s) = s' \<and> rs_script s' = xs \<and> same_line s s'
    \<and> (case fst (robot_sendAndReceive command payload False s) of
         Inr f \<Rightarrow> frame_of (rs_addr s) command MainChannel x = Some f
       | Inl _ \<Rightarrow> frame_of (rs_addr s) command MainChannel x = None)"
  using assms receive_text_irrelevant [of "rs_addr s" command MainChannel "[]" "rs_err s" "rx_reads x" "[]"]
  by (auto simp: robot_sendAndReceive_def nextCounter_def robot_writeFrame_def frame_of_def same_line_def Let_def
      split: option.splits prod.splits sum.splits)

lemma send_answered:
  assumes "rs_script s = x # xs" and "frame_of (rs_addr s) command MainChannel x = Some f"
  obtains s' where "robot_sendAndReceive command payload False s = (Inr f, s')" and "rs_script s' = xs" and "same_line s s'"
  using send_exchange [OF assms(1), of command payload] assms(2)
  by (cases "robot_sendAndReceive command payload False s"; cases "fst (robot_sendAndReceive command payload False s)") auto

lemma send_failed:
  assumes "rs_script s = x # xs" and "frame_of (rs_addr s) command MainChannel x = None"
  obtains e s' where "robot_sendAndReceive command payload False s = (Inl e, s')" and "rs_script s' = xs" and "same_line s s'"
  using send_exchange [OF assms(1), of command payload] assms(2)
  by (cases "robot_sendAndReceive command payload False s"; cases "fst (robot_sendAndReceive command payload False s)") auto

section \<open>Tasks\<close>

text \<open>The result a poll brings for a task, if it is over.\<close>

definition task_answer :: "byte \<Rightarrow> byte \<Rightarrow> byte \<Rightarrow> robot_exchange \<Rightarrow> u32 option" where
  "task_answer addr ctr command x =
     (case frame_of addr 6 MainChannel x of
        None \<Rightarrow> None
      | Some f \<Rightarrow>
          (case robot_parseQueryResponse (rf_payload f) of
             Some (c, cmd, code) \<Rightarrow> if c = ctr \<and> cmd = command \<and> code \<noteq> 0 then Some code else None
           | None \<Rightarrow> None))"

lemma poll_exchange:
  assumes "rs_script s = x # xs"
  shows "\<exists>s'. poll_task ctr command s
      = (map_option (\<lambda>code. \<lparr>qt_lastCounter = ctr, qt_lastCommand = command, qt_resultCode = code\<rparr>)
           (task_answer (rs_addr s) ctr command x), s') \<and> rs_script s' = xs \<and> same_line s s'"
proof (cases "frame_of (rs_addr s) 6 MainChannel x")
  case None
  then show ?thesis
    using send_failed [OF assms None, of "makeU32Payload 100"] by (fastforce simp: poll_task_def task_answer_def)
next
  case (Some f)
  obtain s' where "robot_sendAndReceive 6 (makeU32Payload 100) False s = (Inr f, s')" "rs_script s' = xs" "same_line s s'"
    using send_answered [OF assms Some] by blast
  then show ?thesis by (auto simp: poll_task_def task_answer_def Some split: option.splits)
qed

text \<open>Polls that bring no result of the task are passed over, and the first result ends the waiting.\<close>

lemma wait_task_polls:
  assumes "rs_script s = px @ x # xs" and "length px < polls"
    and "\<forall>y \<in> set px. task_answer (rs_addr s) ctr command y = None"
    and "task_answer (rs_addr s) ctr command x = Some code"
  shows "\<exists>s'. wait_task ctr command polls s
    = (Some \<lparr>qt_lastCounter = ctr, qt_lastCommand = command, qt_resultCode = code\<rparr>, s') \<and> rs_script s' = xs \<and> same_line s s'"
  using assms
proof (induction px arbitrary: s polls)
  case Nil
  then obtain n where "polls = Suc n" by (cases polls) auto
  with Nil poll_exchange [of s x xs ctr command] show ?case by auto
next
  case (Cons y px)
  then obtain n where n: "polls = Suc n" by (cases polls) auto
  obtain s1 where s1: "poll_task ctr command s = (None, s1)" "rs_script s1 = px @ x # xs" "same_line s s1"
    using poll_exchange [of s y "px @ x # xs" ctr command] Cons.prems by auto
  with Cons.IH [of s1 n] Cons.prems show ?case
    by (auto simp: n same_line_def)
qed

text \<open>Whatever the device sends, a result that ends the waiting is the awaited task's.\<close>

lemma wait_task_own:
  "wait_task ctr command polls s = (Some r, s') \<Longrightarrow>
     qt_lastCounter r = ctr \<and> qt_lastCommand r = command \<and> qt_resultCode r \<noteq> 0"
proof (induction polls arbitrary: s)
  case (Suc n)
  then show ?case by (auto simp: poll_task_def split: prod.splits option.splits sum.splits if_splits)
qed simp

section \<open>Scan data\<close>

definition segment_of :: "byte \<Rightarrow> robot_exchange \<Rightarrow> nat \<Rightarrow> (u16 \<times> bytes) option" where
  "segment_of addr x i =
     (case frame_of addr 12 MainChannel x of
        None \<Rightarrow> None
      | Some f \<Rightarrow>
          (case robot_parseSegmentResponse (rf_payload f) of
             Some (idx, len, d) \<Rightarrow> if sint idx = int i then Some (len, d) else None
           | None \<Rightarrow> None))"

lemma fetch_exchange:
  assumes "rs_script s = x # xs"
  shows "\<exists>s'. fetch_segment i s = (segment_of (rs_addr s) x i, s') \<and> rs_script s' = xs \<and> same_line s s'"
proof (cases "frame_of (rs_addr s) 12 MainChannel x")
  case None
  then show ?thesis
    using send_failed [OF assms None, of "makeU32Payload (of_nat i)"] by (fastforce simp: fetch_segment_def segment_of_def)
next
  case (Some f)
  obtain s' where "robot_sendAndReceive 12 (makeU32Payload (of_nat i)) False s = (Inr f, s')" "rs_script s' = xs" "same_line s s'"
    using send_answered [OF assms Some] by blast
  then show ?thesis by (auto simp: fetch_segment_def segment_of_def Some split: option.splits)
qed

text \<open>Up to four exchanges that do not bring the segment are passed over.\<close>

lemma fetch_retried:
  assumes "rs_script s = bad @ x # xs" and "length bad < attempts"
    and "\<forall>y \<in> set bad. segment_of (rs_addr s) y i = None" and "segment_of (rs_addr s) x i = Some seg"
  shows "\<exists>s'. fetch_retry attempts i s = (Some seg, s') \<and> rs_script s' = xs \<and> same_line s s'"
  using assms
proof (induction bad arbitrary: s attempts)
  case Nil
  then obtain n where "attempts = Suc n" by (cases attempts) auto
  with Nil fetch_exchange [of s x xs i] show ?case by auto
next
  case (Cons y bad)
  then obtain n where n: "attempts = Suc n" by (cases attempts) auto
  obtain s1 where s1: "fetch_segment i s = (None, s1)" "rs_script s1 = bad @ x # xs" "same_line s s1"
    using fetch_exchange [of s y "bad @ x # xs" i] Cons.prems by auto
  with Cons.IH [of s1 n] Cons.prems show ?case by (auto simp: n same_line_def)
qed

definition data_segment :: "nat \<Rightarrow> bytes \<Rightarrow> nat \<Rightarrow> bytes" where
  "data_segment segSize data i = take segSize (drop (i * segSize) data)"

definition segment_count :: "nat \<Rightarrow> nat \<Rightarrow> nat" where
  "segment_count segSize n = n div segSize + (if n mod segSize \<noteq> 0 then 1 else 0)"

text \<open>The exchanges of the segments from \<open>i\<close> on: failed attempts, then the segment.\<close>

definition segments_served :: "byte \<Rightarrow> nat \<Rightarrow> bytes \<Rightarrow> nat list \<Rightarrow> (robot_exchange list \<times> robot_exchange) list \<Rightarrow> bool" where
  "segments_served addr segSize data is served =
     list_all2 (\<lambda>i (bad, x). length bad \<le> 4 \<and> (\<forall>y \<in> set bad. segment_of addr y i = None)
        \<and> segment_of addr x i = Some (of_nat (length (data_segment segSize data i)), data_segment segSize data i)) is served"

lemma put_data_segment:
  assumes "i * segSize < length data" and "segSize \<le> 1376"
  shows "put_segment segSize i (of_nat (length (data_segment segSize data i)), data_segment segSize data i)
      (take (i * segSize) data @ replicate (length data - i * segSize) 0)
    = take (Suc i * segSize) data @ replicate (length data - Suc i * segSize) 0"
proof -
  let ?seg = "data_segment segSize data i"
  have len: "length ?seg = min segSize (length data - i * segSize)" by (simp add: data_segment_def)
  then have "unat (of_nat (length ?seg) :: u16) = length ?seg"
    using assms(2) by (simp add: unsigned_of_nat take_bit_nat_eq_self)
  moreover have "min (length ?seg) (length data - i * segSize) = length ?seg" using len by simp
  moreover have "take (i * segSize) data @ ?seg = take (Suc i * segSize) data"
    by (simp add: data_segment_def take_add [of "i * segSize" segSize] add.commute [of segSize])
  moreover have "length data - i * segSize - length ?seg = length data - Suc i * segSize" using len by simp
  ultimately show ?thesis using assms(1)
    by (simp add: put_segment_def Let_def write_from_def min_absorb2 flip: append_assoc)
qed

lemma collect_served:
  assumes "segments_served (rs_addr s) segSize data [i..<n] served" and "segSize \<le> 1376" and "i \<le> n"
    and "\<forall>j < n. j * segSize < length data" and "length data \<le> n * segSize"
    and "rs_script s = concat (map (\<lambda>(bad, x). bad @ [x]) served)"
  shows "\<exists>s'. robot_collect segSize [i..<n] (take (i * segSize) data @ replicate (length data - i * segSize) 0) s = (Some data, s')"
  using assms
proof (induction "n - i" arbitrary: i served s)
  case 0
  then show ?case by simp
next
  case (Suc k)
  then have i: "i < n" "[i..<n] = i # [Suc i..<n]" by (simp_all add: upt_conv_Cons)
  with Suc.prems(1) obtain bad x served' where sv: "served = (bad, x) # served'" "length bad \<le> 4"
      "\<forall>y \<in> set bad. segment_of (rs_addr s) y i = None"
      "segment_of (rs_addr s) x i = Some (of_nat (length (data_segment segSize data i)), data_segment segSize data i)"
      "segments_served (rs_addr s) segSize data [Suc i..<n] served'"
    by (cases served) (auto simp: segments_served_def)
  have script: "rs_script s = bad @ x # concat (map (\<lambda>(bad, x). bad @ [x]) served')" using Suc.prems(6) by (simp add: sv(1))
  obtain s' where s': "fetch_retry 5 i s = (Some (of_nat (length (data_segment segSize data i)), data_segment segSize data i), s')"
      "rs_script s' = concat (map (\<lambda>(bad, x). bad @ [x]) served')" "same_line s s'"
    using fetch_retried [OF script _ sv(3,4), of 5] sv(2) by auto
  have "i * segSize < length data" using Suc.prems(4) i(1) by blast
  note put = put_data_segment [OF this Suc.prems(2)]
  have "k = n - Suc i" using Suc.hyps(2) by simp
  from Suc.hyps(1) [OF this, of s' served'] show ?case
    using Suc.prems(2,4,5) sv(5) s' i by (simp add: put same_line_def)
qed

lemma segment_count_bounds:
  assumes "0 < segSize"
  shows "j < segment_count segSize n \<Longrightarrow> j * segSize < n" and "n \<le> segment_count segSize n * segSize"
proof -
  have n: "n = n div segSize * segSize + n mod segSize" by simp
  have m: "n mod segSize < segSize" using assms by simp
  show "n \<le> segment_count segSize n * segSize"
  proof (cases "n mod segSize = 0")
    case False
    have "n \<le> n div segSize * segSize + segSize" using n m by linarith
    with False show ?thesis by (simp add: segment_count_def)
  qed (use n in \<open>simp add: segment_count_def\<close>)
  show "j * segSize < n" if "j < segment_count segSize n"
  proof (cases "j < n div segSize")
    case True
    then have "Suc j * segSize \<le> n div segSize * segSize" by (intro mult_le_mono1) simp
    then show ?thesis using assms n by (simp only: mult_Suc)
  next
    case False
    with that have j: "j = n div segSize" "n mod segSize \<noteq> 0" by (auto simp: segment_count_def split: if_splits)
    show ?thesis unfolding j(1) using div_mult_mod_eq [of n segSize] j(2) by linarith
  qed
qed

text \<open>The exchange that answers the segment size.\<close>

definition size_answer :: "byte \<Rightarrow> robot_exchange \<Rightarrow> nat \<Rightarrow> bool" where
  "size_answer addr x segSize =
     (0 < segSize \<and> segSize \<le> 1376 \<and> segSize mod 16 = 0
      \<and> (case frame_of addr 1 MainChannel x of
           Some f \<Rightarrow> robot_parseRegResponse (rf_payload f) = Some (15, of_nat segSize)
         | None \<Rightarrow> False))"

lemma size_word: "segSize \<le> 1376 \<Longrightarrow> unat (ucast (of_nat segSize :: u32) :: u16) = segSize"
  by (simp add: unsigned_ucast_eq unsigned_of_nat take_bit_nat_eq_self)

lemma collect_data:
  assumes "rs_script s = sx # concat (map (\<lambda>(bad, x). bad @ [x]) served)"
    and "size_answer (rs_addr s) sx segSize"
    and "segments_served (rs_addr s) segSize data [0..<segment_count segSize (length data)] served"
  shows "\<exists>s'. collectScanData (length data) s = (Some (segment_count segSize (length data), data), s')"
proof -
  obtain f where f: "frame_of (rs_addr s) 1 MainChannel sx = Some f"
      "robot_parseRegResponse (rf_payload f) = Some (15, of_nat segSize)"
      and size: "0 < segSize" "segSize \<le> 1376" "segSize mod 16 = 0"
    using assms(2) by (auto simp: size_answer_def split: option.splits)
  obtain s1 where s1: "robot_sendAndReceive 1 (makeRegPayload 15 100) False s = (Inr f, s1)"
      "rs_script s1 = concat (map (\<lambda>(bad, x). bad @ [x]) served)" "same_line s s1"
    using send_answered [OF assms(1) f(1)] by blast
  then have read: "readSegmentSize s = (Some (ucast (of_nat segSize :: u32)), s1)"
    by (simp add: readSegmentSize_def f(2))
  have "\<exists>s'. robot_collect segSize [0..<segment_count segSize (length data)]
      (take (0 * segSize) data @ replicate (length data - 0 * segSize) 0) s1 = (Some data, s')"
    using assms(3) s1 size(2) segment_count_bounds [OF size(1)]
    by (intro collect_served) (auto simp: same_line_def)
  then show ?thesis
    using size by (auto simp: collectScanData_def read size_word Let_def segment_count_def)
qed

section \<open>Scans\<close>

text \<open>A scan that is started, whose task ends within the polls it is allowed.\<close>

lemma RadarSession_simps [simp]:
  "rs_script (RadarSession addr polls script) = script" "rs_addr (RadarSession addr polls script) = addr"
  "rs_polls (RadarSession addr polls script) = polls"
  by (simp_all add: RadarSession_def)

lemma scan_started:
  assumes "frame_of addr command MainChannel start = Some f" and "length polls < allowed"
    and "\<forall>y \<in> set polls. task_answer addr (rf_counter f) command y = None"
    and "task_answer addr (rf_counter f) command result = Some code"
  shows "\<exists>s2. (\<forall>g. start_scan command payload g (RadarSession addr allowed (start # polls @ result # rest))
      = g \<lparr>qt_lastCounter = rf_counter f, qt_lastCommand = command, qt_resultCode = code\<rparr> s2)
    \<and> rs_script s2 = rest \<and> rs_addr s2 = addr"
proof -
  let ?s = "RadarSession addr allowed (start # polls @ result # rest)"
  have "rs_script ?s = start # polls @ result # rest" "frame_of (rs_addr ?s) command MainChannel start = Some f"
    using assms(1) by simp_all
  then obtain s1 where s1: "robot_sendAndReceive command payload False ?s = (Inr f, s1)"
      "rs_script s1 = polls @ result # rest" "same_line ?s s1"
    using send_answered by metis
  obtain s2 where s2: "wait_task (rf_counter f) command (rs_polls s1) s1
      = (Some \<lparr>qt_lastCounter = rf_counter f, qt_lastCommand = command, qt_resultCode = code\<rparr>, s2)"
      "rs_script s2 = rest" "same_line s1 s2"
    using wait_task_polls [OF s1(2), of "rs_polls s1" "rf_counter f" command code] assms(2-4) s1(3)
    by (auto simp: same_line_def)
  then show ?thesis
    using s1 by (intro exI [of _ s2]) (simp add: start_scan_def robot_waitTaskCompleted_def same_line_def)
qed

text \<open>C26: A line scan returns the device's data although the line is bad: when the device has confirmed the
  start, some poll within the task's deadline brings the result of this task, however many polls before it
  fail or bring results of other tasks, and every segment is delivered within five attempts, the driver
  reports exactly the bytes of the device with their number, the number of segments and the task's
  counter. The number of bytes must not be 20, which is the device's code for a failed task.\<close>

theorem scan_line_delivers_data:
  assumes "script = start # polls @ result # sx # concat (map (\<lambda>(bad, x). bad @ [x]) served)"
    and "frame_of addr 10 MainChannel start = Some f"
    and "length polls < allowed" and "\<forall>y \<in> set polls. task_answer addr (rf_counter f) 10 y = None"
    and "task_answer addr (rf_counter f) 10 result = Some (of_nat (length data))"
    and "0 < length data" and "length data < 2 ^ 31" and "length data \<noteq> 20"
    and "size_answer addr sx segSize"
    and "segments_served addr segSize data [0..<segment_count segSize (length data)] served"
    and "param_addr_byte p = addr" and "task_budget budget p ''scan_line'' = allowed"
  shows "scan_robot_handle lib (Inr script) budget ''scan_line'' (JObj p)
    = scan_reply lib ''scan_line'' (rf_counter f) (of_nat (length data)) (segment_count segSize (length data)) data"
proof -
  let ?s = "RadarSession addr allowed script" and ?code = "of_nat (length data) :: u32"
  let ?r = "\<lparr>qt_lastCounter = rf_counter f, qt_lastCommand = 10, qt_resultCode = ?code\<rparr>"
  obtain s2 where s2: "\<And>g. start_scan 10 (scan_line_payload lib p) g ?s = g ?r s2"
      "rs_script s2 = sx # concat (map (\<lambda>(bad, x). bad @ [x]) served)" "rs_addr s2 = addr"
    using scan_started [OF assms(2-5)] unfolding assms(1) by blast
  then obtain s3 where s3: "collectScanData (length data) s2 = (Some (segment_count segSize (length data), data), s3)"
    using collect_data [OF s2(2)] assms(9,10) by metis
  have num: "uint ?code = int (length data)" "sint ?code = int (length data)"
    using assms(7) by (simp_all add: unsigned_of_nat take_bit_nat_eq_self signed_of_nat signed_take_bit_int_eq_self)
  have "?code \<noteq> 0" "?code \<noteq> 20" using num(1) assms(6,8) by (auto dest: arg_cong [where f = uint])
  then show ?thesis
    using s2(1) s3 assms(6,11,12) num(2)
    by (simp add: scan_robot_handle_def knownCommands_def robot_command_def scan_line_command_def collect_reply_def Let_def)
qed

text \<open>A failed task is an error of a line scan but not of a frame scan: when the device reports the failure
  code 20, \<open>scan_line\<close> answers with an error, whereas \<open>scan_frame\<close> takes the code for a number of
  bytes, fetches 20 bytes and reports them as the scan.\<close>

theorem failed_frame_scan_reported_done:
  assumes "param_addr_byte p = addr"
    and "0 < task_budget budget p ''scan_line''" and "0 < task_budget budget p ''scan_frame''"
    and "frame_of addr 10 MainChannel start = Some f" and "task_answer addr (rf_counter f) 10 result = Some 20"
    and "frame_of addr 11 MainChannel start' = Some f'" and "task_answer addr (rf_counter f') 11 result' = Some 20"
    and "length data = 20" and "size_answer addr sx segSize"
    and "segments_served addr segSize data [0..<segment_count segSize 20] served"
  shows "scan_robot_handle lib (Inr (start # result # rest)) budget ''scan_line'' (JObj p)
      = scan_failed ''Scan line failed'' 20
    \<and> scan_robot_handle lib (Inr (start' # result' # sx # concat (map (\<lambda>(bad, x). bad @ [x]) served))) budget
        ''scan_frame'' (JObj p)
      = scan_reply lib ''scan_frame'' (rf_counter f') 20 (segment_count segSize 20) data"
proof -
  obtain s1 where "\<And>g. start_scan 10 (scan_line_payload lib p) g (RadarSession addr (task_budget budget p ''scan_line'') (start # result # rest))
      = g \<lparr>qt_lastCounter = rf_counter f, qt_lastCommand = 10, qt_resultCode = 20\<rparr> s1"
    using scan_started [of addr 10 start f "[]" "task_budget budget p ''scan_line''" result 20 "scan_line_payload lib p" rest] assms(2,4,5) by auto
  then have line: "scan_robot_handle lib (Inr (start # result # rest)) budget ''scan_line'' (JObj p)
      = scan_failed ''Scan line failed'' 20"
    using assms(1)
    by (simp add: scan_robot_handle_def knownCommands_def robot_command_def scan_line_command_def Let_def)
  let ?rest = "sx # concat (map (\<lambda>(bad, x). bad @ [x]) served)"
  obtain s2 where s2: "\<And>g. start_scan 11 (scan_frame_payload lib p) g (RadarSession addr (task_budget budget p ''scan_frame'') (start' # result' # ?rest))
      = g \<lparr>qt_lastCounter = rf_counter f', qt_lastCommand = 11, qt_resultCode = 20\<rparr> s2"
      "rs_script s2 = ?rest" "rs_addr s2 = addr"
    using scan_started [of addr 11 start' f' "[]" "task_budget budget p ''scan_frame''" result' 20 "scan_frame_payload lib p" ?rest] assms(3,6,7) by auto
  then obtain s3 where "collectScanData 20 s2 = (Some (segment_count segSize 20, data), s3)"
    using collect_data [OF s2(2), of segSize data] assms(8-10) by auto
  then show ?thesis
    using line s2(1) assms(1)
    by (simp add: scan_robot_handle_def knownCommands_def robot_command_def scan_frame_command_def collect_reply_def Let_def)
qed

section \<open>Instances\<close>

text \<open>Device 1 answers in two pieces, or not at all.\<close>

definition silent_exchange :: robot_exchange where
  "silent_exchange = \<lparr>rx_write_error = None, rx_reads = []\<rparr>"

definition device_reply :: "byte \<Rightarrow> byte \<Rightarrow> bytes \<Rightarrow> robot_exchange" where
  "device_reply counter command payload =
     (let frame = robot_encodeFrame counter 1 command payload False
      in \<lparr>rx_write_error = None, rx_reads = map RobotChunk [take 5 frame, drop 5 frame]\<rparr>)"

lemma frame_of_silent [simp]: "frame_of addr command channel silent_exchange = None"
  by (simp add: frame_of_def silent_exchange_def)

lemma frame_of_reply:
  assumes "clear_frame (robot_encodeFrame counter 1 command payload False)" and "4 \<le> length payload"
  shows "frame_of 1 command MainChannel (device_reply counter command payload)
    = Some (whole_frame counter 1 command payload False)"
  using receive_chunks [OF refl assms, of "[]" "[take 5 (robot_encodeFrame counter 1 command payload False),
      drop 5 (robot_encodeFrame counter 1 command payload False)]" "[]" "[]"] encoded_parts(1) [OF refl]
  by (simp add: frame_of_def device_reply_def Let_def channel_of_def)

lemma demo_budget:
  "task_budget (\<lambda>ms. nat (ms div 1000)) [(''addr'', jint 1)] ''scan_line'' = 100"
  "task_budget (\<lambda>ms. nat (ms div 1000)) [(''addr'', jint 1)] ''scan_frame'' = 1000"
  by (simp_all add: task_budget_def resolveTaskTimeout_def)

definition demo_lib :: robot_lib where
  "demo_lib = \<lparr>rl_centi = (\<lambda>x. \<lfloor>x * 100\<rfloor>), rl_hundredth = (\<lambda>i. of_int i / 100), rl_base64 = map (\<lambda>b. char_of (unat b))\<rparr>"

text \<open>The frames of a line scan of one byte, and those of a failed task.\<close>

lemma demo_line_frames:
  "clear_frame (robot_encodeFrame 9 1 10 [0, 0, 0, 0] False)"
  "clear_frame (robot_encodeFrame 0 1 6 ([9, 10] @ be32 1) False)"
  "clear_frame (robot_encodeFrame 1 1 1 (be16 15 @ be32 16) False)"
  "clear_frame (robot_encodeFrame 2 1 12 (be32 0 @ be16 1 @ [7]) False)"
  by code_simp+

lemma demo_failure_frames:
  "clear_frame (robot_encodeFrame 0 1 6 ([9, 10] @ be32 20) False)"
  "clear_frame (robot_encodeFrame 9 1 11 [0, 0, 0, 0] False)"
  "clear_frame (robot_encodeFrame 0 1 6 ([9, 11] @ be32 20) False)"
  "clear_frame (robot_encodeFrame 2 1 12 (be32 1 @ be16 4 @ replicate 4 5) False)"
  by code_simp+

lemma demo_segment_frame:
  "clear_frame (robot_encodeFrame 2 1 12 (be32 0 @ be16 16 @ replicate 16 5) False)"
  by code_simp

definition scan_started_reply :: "byte \<Rightarrow> robot_exchange" where
  "scan_started_reply command = device_reply 9 command [0, 0, 0, 0]"

definition task_reply :: "byte \<Rightarrow> u32 \<Rightarrow> robot_exchange" where
  "task_reply command code = device_reply 0 6 ([9, command] @ be32 code)"

definition size_reply :: "u32 \<Rightarrow> robot_exchange" where
  "size_reply n = device_reply 1 1 (be16 15 @ be32 n)"

definition segment_reply :: "nat \<Rightarrow> bytes \<Rightarrow> robot_exchange" where
  "segment_reply i d = device_reply 2 12 (be32 (of_nat i) @ be16 (of_nat (length d)) @ d)"

lemma demo_start:
  "frame_of 1 10 MainChannel (scan_started_reply 10) = Some (whole_frame 9 1 10 [0, 0, 0, 0] False)"
  "frame_of 1 11 MainChannel (scan_started_reply 11) = Some (whole_frame 9 1 11 [0, 0, 0, 0] False)"
  using demo_line_frames(1) demo_failure_frames(2) by (simp_all add: scan_started_reply_def frame_of_reply)

lemma whole_frame_simps [simp]:
  "rf_counter (whole_frame counter addr command payload interrupt) = counter"
  "rf_payload (whole_frame counter addr command payload interrupt) = payload"
  by (simp_all add: whole_frame_def Let_def)

lemma task_reply_answer:
  assumes "clear_frame (robot_encodeFrame 0 1 6 ([9, command] @ be32 code) False)" and "code \<noteq> 0"
  shows "task_answer 1 9 command (task_reply command code) = Some code"
proof -
  have "read32 (9 # command # be32 code) 2 = code" using read32_skip [of "[9, command]" 2 code "[]"] by simp
  with assms show ?thesis
    by (simp add: task_answer_def task_reply_def frame_of_reply robot_parseQueryResponse_def)
qed

lemma size_reply_answer: "size_answer 1 (size_reply 16) 16"
proof -
  have "read32 (be16 15 @ be32 n) 2 = n" for n using read32_skip [of "be16 15" 2 n "[]"] by simp
  then show ?thesis
    using demo_line_frames(3)
    by (simp add: size_answer_def size_reply_def frame_of_reply robot_parseRegResponse_def read16_be16)
qed

lemma segment_reply_answer:
  assumes "clear_frame (robot_encodeFrame 2 1 12 (be32 (of_nat i) @ be16 (of_nat (length d)) @ d) False)"
    and "i < 2 ^ 31" and "length d < 65536"
  shows "segment_of 1 (segment_reply i d) i = Some (of_nat (length d), d)"
proof -
  let ?p = "be32 (of_nat i) @ be16 (of_nat (length d)) @ d"
  have "read16 ?p 4 = of_nat (length d)" by (simp add: read16_skip)
  moreover have "unat (of_nat (length d) :: u16) = length d" using assms(3) by (simp add: unat_of_nat_u16)
  moreover have "sint (of_nat i :: u32) = int i" using assms(2) by (simp add: signed_of_nat signed_take_bit_int_eq_self)
  ultimately show ?thesis
    using assms(1) by (simp add: segment_of_def segment_reply_def frame_of_reply robot_parseSegmentResponse_def read32_be32 Let_def)
qed

lemma scan_line_delivers_data_witness:
  "scan_robot_handle demo_lib (Inr ([scan_started_reply 10, silent_exchange, task_reply 10 1, size_reply 16]
      @ [silent_exchange, segment_reply 0 [7]])) (\<lambda>ms. nat (ms div 1000)) ''scan_line'' (JObj [(''addr'', jint 1)])
    = scan_reply demo_lib ''scan_line'' 9 1 1 [7]"
proof -
  have "clear_frame (robot_encodeFrame 2 1 12 (be32 (of_nat 0) @ be16 (of_nat (length [7 :: byte])) @ [7]) False)"
    using demo_line_frames(4) by simp
  note segment = segment_reply_answer [OF this]
  have "segments_served 1 16 [7] [0..<segment_count 16 (length [7 :: byte])] [([silent_exchange], segment_reply 0 [7])]"
    using segment by (simp add: segments_served_def segment_count_def data_segment_def segment_of_def)
  moreover have "task_answer 1 9 10 (task_reply 10 1) = Some 1"
    using task_reply_answer [OF demo_line_frames(2)] by simp
  moreover have "task_answer 1 9 10 silent_exchange = None" by (simp add: task_answer_def)
  moreover have "param_addr_byte [(''addr'', jint 1)] = 1" by (simp add: param_addr_byte_def rat_int_def in_int_def int_min_def int_max_def)
  ultimately show ?thesis
    using scan_line_delivers_data [where addr = 1 and polls = "[silent_exchange]" and data = "[7]" and segSize = 16
        and served = "[([silent_exchange], segment_reply 0 [7])]" and p = "[(''addr'', jint 1)]" and lib = demo_lib
        and allowed = 100 and budget = "\<lambda>ms. nat (ms div 1000)", OF refl demo_start(1)] size_reply_answer demo_budget(1)
    by (simp add: segment_count_def)
qed

lemma failed_frame_scan_reported_done_witness:
  "scan_robot_handle demo_lib (Inr [scan_started_reply 10, task_reply 10 20]) (\<lambda>ms. nat (ms div 1000)) ''scan_line'' (JObj [(''addr'', jint 1)])
      = scan_failed ''Scan line failed'' 20
    \<and> scan_robot_handle demo_lib (Inr [scan_started_reply 11, task_reply 11 20, size_reply 16,
          segment_reply 0 (replicate 16 5), segment_reply 1 (replicate 4 5)]) (\<lambda>ms. nat (ms div 1000))
        ''scan_frame'' (JObj [(''addr'', jint 1)])
      = scan_reply demo_lib ''scan_frame'' 9 20 2 (replicate 20 5)"
proof -
  let ?served = "[([], segment_reply 0 (replicate 16 5)), ([], segment_reply 1 (replicate 4 5))]"
  have "segment_of 1 (segment_reply 0 (replicate 16 5)) 0 = Some (16, replicate 16 5)"
    using segment_reply_answer [of 0 "replicate 16 5"] demo_segment_frame by simp
  moreover have "segment_of 1 (segment_reply 1 (replicate 4 5)) 1 = Some (4, replicate 4 5)"
    using segment_reply_answer [of 1 "replicate 4 5"] demo_failure_frames(4) by simp
  moreover have "data_segment 16 (replicate 20 (5 :: byte)) 0 = replicate 16 5"
    and "data_segment 16 (replicate 20 (5 :: byte)) 1 = replicate 4 5"
    by (simp_all add: data_segment_def)
  moreover have two: "segment_count 16 20 = 2" "[0..<2 :: nat] = [0, 1]" by (simp_all add: segment_count_def upt_rec)
  ultimately have "segments_served 1 16 (replicate 20 5) [0..<segment_count 16 20] ?served"
    by (simp add: segments_served_def)
  moreover have "param_addr_byte [(''addr'', jint 1)] = 1"
    by (simp add: param_addr_byte_def rat_int_def in_int_def int_min_def int_max_def)
  moreover have "task_answer 1 9 10 (task_reply 10 20) = Some 20" "task_answer 1 9 11 (task_reply 11 20) = Some 20"
    using task_reply_answer demo_failure_frames(1,3) by simp_all
  ultimately show ?thesis
    using failed_frame_scan_reported_done [where addr = 1 and budget = "\<lambda>ms. nat (ms div 1000)" and data = "replicate 20 5" and segSize = 16
        and served = ?served and p = "[(''addr'', jint 1)]" and lib = demo_lib
        and rest = "[]", OF _ _ _ demo_start(1) _ demo_start(2)] size_reply_answer two(1) demo_budget
    by simp
qed

end
