(* ===== verification/PqwHandler.thy ===== *)
theory PqwHandler
  imports ModbusHandlers
begin

text \<open>
  The driver of the PQW analog output module (\<open>src/src/drivers/driver_pqw_analog_output/handler.cpp\<close>). The
  module is a Modbus RTU device on a serial port with 18 output channels and a communication
  configuration in its holding registers; the driver talks to it with the serial Modbus client. What
  is computed in double precision, and the reading of numbers from text, are arguments; a conversion
  that is undefined and an undefined access of the client are the value \<open>None\<close>.
\<close>

section \<open>Data\<close>

abbreviation (input) "kRegUnitId \<equiv> 0x0000 :: u16"
abbreviation (input) "kRegBaudRate \<equiv> 0x0001 :: u16"
abbreviation (input) "kRegCommWatchdog \<equiv> 0x0003 :: u16"
abbreviation (input) "kRegParity \<equiv> 0x0004 :: u16"
abbreviation (input) "kRegStopBits \<equiv> 0x0005 :: u16"
abbreviation (input) "kRegRestoreDefaults \<equiv> 0x000D :: u16"
abbreviation (input) "kRegOutputBase \<equiv> 0x0064 :: int"
abbreviation (input) "kRegClearOutputs \<equiv> 0x0076 :: u16"
abbreviation (input) "kMaxChannels \<equiv> 18 :: int"

text \<open>\<open>pl_milli v\<close> is \<open>qRound64(v * 1000.0)\<close>, where it is defined, and \<open>pl_thousandth i\<close> is \<open>i / 1000.0\<close>;
  \<open>pl_double\<close> reads a text as a number, \<open>pl_stopBits\<close> the stop bits.\<close>

record pqw_lib =
  pl_milli :: "rat \<Rightarrow> int option"
  pl_thousandth :: "int \<Rightarrow> rat"
  pl_double :: "string \<Rightarrow> rat option"
  pl_stopBits :: "string \<Rightarrow> rat"

record pqw_options =
  po_portName :: string
  po_baudRate :: int
  po_stopBits :: string
  po_parity :: string
  po_unitId :: int
  po_timeoutMs :: int

record config_write =
  cw_field :: string
  cw_reg :: u16
  cw_rawValue :: u16
  cw_value :: json

record config_read =
  cf_unitId :: int
  cf_baudRate :: int
  cf_parity :: string
  cf_stopBits :: string
  cf_commWatchdogEnabled :: bool
  cf_commWatchdogMs :: int
  cf_commWatchdogRaw :: int
  cf_rawRegisters :: "json list"

definition toIntArray :: "u16 list \<Rightarrow> json list" where
  "toIntArray vals = map (\<lambda>v. jint (uint v)) vals"

definition outputArray :: "pqw_lib \<Rightarrow> int \<Rightarrow> u16 list \<Rightarrow> json list" where
  "outputArray lib startChannel registers =
     map (\<lambda>(i, raw). JObj (jset ''value'' (JNum (pl_thousandth lib (uint raw))) (jset ''raw_value'' (jint (uint raw))
       (jset ''channel'' (jint (startChannel + int i)) [])))) (zip [0..<length registers] registers)"

definition writeItemsArray :: "config_write list \<Rightarrow> json list" where
  "writeItemsArray items =
     map (\<lambda>item. JObj (jset ''value'' (cw_value item) (jset ''raw_value'' (jint (uint (cw_rawValue item)))
       (jset ''register'' (jint (uint (cw_reg item))) (jset ''field'' (JStr (cw_field item)) []))))) items"

section \<open>Codes of the device\<close>

definition baud_rates :: "int list" where
  "baud_rates = [4800, 9600, 14400, 19200, 38400, 56000, 57600, 115200]"

definition isAllowedBaudRate :: "int \<Rightarrow> bool" where
  "isAllowedBaudRate baudRate \<longleftrightarrow> baudRate \<in> set baud_rates"

definition baudCodeToValue :: "u16 \<Rightarrow> int" where
  "baudCodeToValue code = (if code < 8 then baud_rates ! unat code else - 1)"

definition baudValueToCode :: "int \<Rightarrow> u16 option" where
  "baudValueToCode v = map_of (zip baud_rates [0, 1, 2, 3, 4, 5, 6, 7]) v"

definition parityCodeToValue :: "u16 \<Rightarrow> string" where
  "parityCodeToValue code =
     (if code = 0 then ''none'' else if code = 1 then ''odd'' else if code = 2 then ''even'' else [])"

definition parityValueToCode :: "string \<Rightarrow> u16 option" where
  "parityValueToCode v =
     (if v = ''none'' then Some 0 else if v = ''odd'' then Some 1 else if v = ''even'' then Some 2 else None)"

definition stopBitsCodeToValue :: "u16 \<Rightarrow> string" where
  "stopBitsCodeToValue code = (if code = 0 then ''1'' else if code = 1 then ''2'' else [])"

definition stopBitsValueToCode :: "string \<Rightarrow> u16 option" where
  "stopBitsValueToCode v = (if v = ''1'' then Some 0 else if v = ''2'' then Some 1 else None)"

definition commWatchdogMsToRaw :: "int \<Rightarrow> string + u16" where
  "commWatchdogMsToRaw watchdogMs =
     (if watchdogMs < 0 then Inl ''comm_watchdog_ms must be >= 0''
      else if watchdogMs = 0 then Inr 0
      else if watchdogMs mod 10 \<noteq> 0 then Inl ''comm_watchdog_ms must be 0 or a multiple of 10 ms''
      else let encoded = watchdogMs div 10 + 1 in
        if encoded > 65535 then Inl ''comm_watchdog_ms exceeds register range'' else Inr (word_of_int encoded))"

definition commWatchdogRawToMs :: "u16 \<Rightarrow> int" where
  "commWatchdogRawToMs rawValue = (if rawValue = 0 then 0 else (uint rawValue - 1) * 10)"

definition engineeringValueToRaw :: "pqw_lib \<Rightarrow> rat \<Rightarrow> (string + u16) option" where
  "engineeringValueToRaw lib v =
     map_option (\<lambda>encoded. if encoded < 0 \<or> encoded > 65535 then Inl ''value must encode to raw register range 0-65535''
       else Inr (word_of_int encoded)) (pl_milli lib v)"

definition pqw_parseDoubleValue :: "pqw_lib \<Rightarrow> json \<Rightarrow> rat option" where
  "pqw_parseDoubleValue lib input =
     (if is_double input then Some (to_double input)
      else if is_string input then pl_double lib (to_string input) else None)"

definition decodeConfigRegisters :: "u16 list \<Rightarrow> string + config_read" where
  "decodeConfigRegisters registers =
     (if length registers < 6 then Inl ''Config register count must be 6''
      else
        let baudRate = baudCodeToValue (registers ! 1); parity = parityCodeToValue (registers ! 4);
            stopBits = stopBitsCodeToValue (registers ! 5) in
        if baudRate \<le> 0 then Inl (''Unsupported baud rate code: '' @ dec (unat (registers ! 1)))
        else if parity = [] then Inl (''Unsupported parity code: '' @ dec (unat (registers ! 4)))
        else if stopBits = [] then Inl (''Unsupported stop bits code: '' @ dec (unat (registers ! 5)))
        else Inr \<lparr>cf_unitId = uint (registers ! 0), cf_baudRate = baudRate, cf_parity = parity, cf_stopBits = stopBits,
                  cf_commWatchdogEnabled = (0 < registers ! 3),
                  cf_commWatchdogMs = commWatchdogRawToMs (registers ! 3),
                  cf_commWatchdogRaw = uint (registers ! 3), cf_rawRegisters = toIntArray registers\<rparr>)"

section \<open>Parameters\<close>

definition baud_text :: string where
  "baud_text = '' must be one of 4800, 9600, 14400, 19200, 38400, 56000, 57600, 115200''"

definition resolveConnectionOptions :: "string \<Rightarrow> json_obj \<Rightarrow> string + pqw_options" where
  "resolveConnectionOptions cmd p =
     (let portName = trim_spaces (to_string (jval p ''port_name''));
          key = (\<lambda>name. if cmd = ''set_comm_config'' then ''current_'' @ name else name);
          baudRate = to_int_or 9600 (jval p (key ''baud_rate''));
          parity = ascii_lower (trim_spaces (to_string_or ''none'' (jval p (key ''parity''))));
          stopBits = trim_spaces (to_string_or ''1'' (jval p (key ''stop_bits'')));
          unitId = to_int_or 1 (jval p (key ''unit_id''));
          timeoutMs = to_int_or 2000 (jval p ''timeout'') in
      if portName = [] then Inl ''port_name is required''
      else if \<not> isAllowedBaudRate baudRate then Inl (key ''baud_rate'' @ baud_text)
      else if parity \<notin> {''none'', ''odd'', ''even''} then Inl (key ''parity'' @ '' must be one of none, odd, even'')
      else if stopBits \<notin> {''1'', ''2''} then Inl (key ''stop_bits'' @ '' must be 1 or 2'')
      else if unitId < 1 \<or> unitId > 255 then Inl (key ''unit_id'' @ '' must be 1-255'')
      else if timeoutMs < 1 \<or> timeoutMs > 30000 then Inl ''timeout must be 1-30000 ms''
      else Inr \<lparr>po_portName = portName, po_baudRate = baudRate, po_stopBits = stopBits, po_parity = parity,
                po_unitId = unitId, po_timeoutMs = timeoutMs\<rparr>)"

text \<open>One item of the configuration, when it is asked for.\<close>

definition config_item ::
  "json_obj \<Rightarrow> string \<Rightarrow> u16 \<Rightarrow> (json \<Rightarrow> string + (u16 \<times> json)) \<Rightarrow> config_write list \<Rightarrow> string + config_write list" where
  "config_item p field reg f writes =
     (if \<not> om_has p field then Inr writes
      else case f (jval p field) of
        Inl e \<Rightarrow> Inl e
      | Inr (raw, v) \<Rightarrow> Inr (writes @ [\<lparr>cw_field = field, cw_reg = reg, cw_rawValue = raw, cw_value = v\<rparr>]))"

definition code_or :: "string \<Rightarrow> u16 option \<Rightarrow> json \<Rightarrow> string + (u16 \<times> json)" where
  "code_or e code v = (case code of None \<Rightarrow> Inl e | Some c \<Rightarrow> Inr (c, v))"

definition then_item :: "(string + 'a) \<Rightarrow> ('a \<Rightarrow> string + 'b) \<Rightarrow> string + 'b" where
  "then_item r f = (case r of Inl e \<Rightarrow> Inl e | Inr x \<Rightarrow> f x)"

definition buildCommConfigWrites :: "json_obj \<Rightarrow> string + config_write list" where
  "buildCommConfigWrites p =
     then_item (config_item p ''unit_id'' kRegUnitId
       (\<lambda>v. let unitId = to_int_or (- 1) v in
          if unitId < 1 \<or> unitId > 255 then Inl ''unit_id must be 1-255'' else Inr (word_of_int unitId, jint unitId)) [])
     (\<lambda>ws. then_item (config_item p ''baud_rate'' kRegBaudRate
       (\<lambda>v. code_or (''baud_rate'' @ baud_text) (baudValueToCode (to_int_or (- 1) v)) (jint (to_int_or (- 1) v))) ws)
     (\<lambda>ws. then_item (config_item p ''parity'' kRegParity
       (\<lambda>v. let parity = ascii_lower (trim_spaces (to_string v)) in
          code_or ''parity must be one of none, odd, even'' (parityValueToCode parity) (JStr parity)) ws)
     (\<lambda>ws. then_item (config_item p ''stop_bits'' kRegStopBits
       (\<lambda>v. let stopBits = trim_spaces (to_string v) in
          code_or ''stop_bits must be 1 or 2'' (stopBitsValueToCode stopBits) (JStr stopBits)) ws)
     (\<lambda>ws. then_item (config_item p ''comm_watchdog_ms'' kRegCommWatchdog
       (\<lambda>v. let ms = to_int_or (- 1) v in
          (case commWatchdogMsToRaw ms of Inl e \<Rightarrow> Inl e | Inr raw \<Rightarrow> Inr (raw, jint ms))) ws)
     (\<lambda>ws. if ws = [] then Inl ''set_comm_config requires at least one target config field'' else Inr ws)))))"

section \<open>The port\<close>

definition pqw_getClient ::
  "'w serial_port \<Rightarrow> pqw_lib \<Rightarrow> pqw_options \<Rightarrow> serial_connections \<Rightarrow> 'w
     \<Rightarrow> (string + serial_master) \<times> serial_connections \<times> 'w" where
  "pqw_getClient sp lib o1 m w =
     (let port = po_portName o1;
          fresh = (\<lambda>m'.
            (case serial_client_open sp (pl_stopBits lib) port (po_baudRate o1) 8 (po_stopBits o1) (po_parity o1) w of
               (None, w') \<Rightarrow> (Inl (''Failed to open serial port '' @ port), m', w')
             | (Some c, w') \<Rightarrow>
                 (Inr c, m'(port \<mapsto> \<lparr>sn_client = c, sn_baudRate = po_baudRate o1, sn_dataBits = 8,
                    sn_stopBits = po_stopBits o1, sn_parity = po_parity o1\<rparr>), w')))
      in case m port of
           Some info \<Rightarrow>
             if sp_isOpen sp port w then
               (if sn_baudRate info \<noteq> po_baudRate o1 \<or> sn_stopBits info \<noteq> po_stopBits o1 \<or> sn_parity info \<noteq> po_parity o1
                then (Inl (''Serial port '' @ port @ '' is already open with different parameters''), m, w)
                else (Inr (sn_client info), m, w))
             else fresh (m(port := None))
         | None \<Rightarrow> fresh m)"

type_synonym 'w pqw_state = "serial_connections \<times> 'w"

definition invalid_param :: "string \<Rightarrow> message" where
  "invalid_param text = resp_error 3 (message_object text)"

definition with_client ::
  "'w serial_port \<Rightarrow> pqw_lib \<Rightarrow> string \<Rightarrow> json_obj \<Rightarrow> (pqw_options \<Rightarrow> serial_master \<Rightarrow> 'w \<Rightarrow> message option \<times> 'w)
    \<Rightarrow> 'w pqw_state \<Rightarrow> message option \<times> 'w pqw_state" where
  "with_client sp lib cmd p f st =
     (case resolveConnectionOptions cmd p of
        Inl e \<Rightarrow> (Some (invalid_param e), st)
      | Inr o1 \<Rightarrow>
          (let (m, w) = st in
           case pqw_getClient sp lib o1 m w of
             (Inl e, m, w) \<Rightarrow> (Some (resp_error 1 (message_object e)), m, w)
           | (Inr c, m, w) \<Rightarrow> (let (reply, w) = f o1 c w in (reply, m, w))))"

text \<open>An answer of the device: its error is reported, its success goes on.\<close>

definition device_answer ::
  "(modbus_result \<Rightarrow> 'w \<Rightarrow> message option \<times> 'w) \<Rightarrow> modbus_result option \<times> 'w \<Rightarrow> message option \<times> 'w" where
  "device_answer f called =
     (case called of
        (None, w) \<Rightarrow> (None, w)
      | (Some r, w) \<Rightarrow> if \<not> mr_success r then (Some (resp_error 2 (message_object (mr_error r))), w) else f r w)"

definition unit_byte :: "pqw_options \<Rightarrow> byte" where
  "unit_byte o1 = word_of_int (po_unitId o1)"

definition write_one ::
  "'w serial_port \<Rightarrow> u16 \<Rightarrow> u16 \<Rightarrow> message \<Rightarrow> pqw_options \<Rightarrow> serial_master \<Rightarrow> 'w \<Rightarrow> message option \<times> 'w" where
  "write_one sp reg v reply o1 c w =
     device_answer (\<lambda>_ w. (Some reply, w)) (serial_writeSingleRegister sp (unit_byte o1) reg v (po_timeoutMs o1) c w)"

fun write_items ::
  "'w serial_port \<Rightarrow> config_write list \<Rightarrow> message \<Rightarrow> pqw_options \<Rightarrow> serial_master \<Rightarrow> 'w \<Rightarrow> message option \<times> 'w" where
  "write_items sp [] reply o1 c w = (Some reply, w)"
| "write_items sp (item # items) reply o1 c w =
     device_answer (\<lambda>_ w. write_items sp items reply o1 c w)
       (serial_writeSingleRegister sp (unit_byte o1) (cw_reg item) (cw_rawValue item) (po_timeoutMs o1) c w)"

section \<open>Commands\<close>

definition config_reply :: "config_read \<Rightarrow> message" where
  "config_reply config =
     resp_done 0 (JObj (jset ''raw_registers'' (JArr (cf_rawRegisters config))
       (jset ''comm_watchdog_raw'' (jint (cf_commWatchdogRaw config))
       (jset ''comm_watchdog_ms'' (jint (cf_commWatchdogMs config))
       (jset ''comm_watchdog_enabled'' (JBool (cf_commWatchdogEnabled config))
       (jset ''stop_bits'' (JStr (cf_stopBits config)) (jset ''parity'' (JStr (cf_parity config))
       (jset ''baud_rate'' (jint (cf_baudRate config)) (jset ''unit_id'' (jint (cf_unitId config)) [])))))))))"

definition get_config ::
  "'w serial_port \<Rightarrow> pqw_lib \<Rightarrow> json_obj \<Rightarrow> 'w pqw_state \<Rightarrow> message option \<times> 'w pqw_state" where
  "get_config sp lib p =
     with_client sp lib ''get_config'' p
       (\<lambda>o1 c w. device_answer
          (\<lambda>r w. (Some (case decodeConfigRegisters (mr_registers r) of
                    Inl e \<Rightarrow> resp_error 2 (message_object e) | Inr config \<Rightarrow> config_reply config), w))
          (serial_readHoldingRegisters sp (unit_byte o1) kRegUnitId 6 (po_timeoutMs o1) c w))"

definition set_comm_config ::
  "'w serial_port \<Rightarrow> pqw_lib \<Rightarrow> json_obj \<Rightarrow> 'w pqw_state \<Rightarrow> message option \<times> 'w pqw_state" where
  "set_comm_config sp lib p st =
     (case buildCommConfigWrites p of
        Inl e \<Rightarrow> (Some (invalid_param e), st)
      | Inr writes \<Rightarrow>
          with_client sp lib ''set_comm_config'' p
            (write_items sp writes
              (resp_done 0 (JObj (jset ''reboot_required'' (JBool True) (jset ''writes'' (JArr (writeItemsArray writes)) [])))))
            st)"

definition outputs_reply :: "pqw_lib \<Rightarrow> int \<Rightarrow> int \<Rightarrow> u16 list \<Rightarrow> message" where
  "outputs_reply lib startChannel count registers =
     resp_done 0 (JObj (jset ''outputs'' (JArr (outputArray lib startChannel registers))
       (jset ''count'' (jint count) (jset ''start_channel'' (jint startChannel) []))))"

definition channel_register :: "int \<Rightarrow> u16" where
  "channel_register channel = word_of_int (kRegOutputBase + channel - 1)"

text \<open>\<open>startChannel + count - 1\<close> is computed in \<open>int\<close>, where a sum out of range is undefined.\<close>

definition read_outputs ::
  "'w serial_port \<Rightarrow> pqw_lib \<Rightarrow> json_obj \<Rightarrow> 'w pqw_state \<Rightarrow> message option \<times> 'w pqw_state" where
  "read_outputs sp lib p st =
     (let startChannel = to_int_or 1 (jval p ''start_channel''); count = to_int_or kMaxChannels (jval p ''count'') in
      if startChannel < 1 \<or> startChannel > kMaxChannels then (Some (invalid_param ''start_channel must be 1-18''), st)
      else if count < 1 then (Some (invalid_param ''count must be >= 1''), st)
      else if \<not> in_int (startChannel + count) then (None, st)
      else if startChannel + count - 1 > kMaxChannels
      then (Some (invalid_param ''requested channel range exceeds 18 channels''), st)
      else with_client sp lib ''read_outputs'' p
        (\<lambda>o1 c w. device_answer (\<lambda>r w. (Some (outputs_reply lib startChannel count (mr_registers r)), w))
           (serial_readHoldingRegisters sp (unit_byte o1) (channel_register startChannel) (word_of_int count)
              (po_timeoutMs o1) c w)) st)"

definition write_output ::
  "'w serial_port \<Rightarrow> pqw_lib \<Rightarrow> json_obj \<Rightarrow> 'w pqw_state \<Rightarrow> message option \<times> 'w pqw_state" where
  "write_output sp lib p st =
     (let channel = to_int_or 0 (jval p ''channel'') in
      if channel < 1 \<or> channel > kMaxChannels then (Some (invalid_param ''channel must be 1-18''), st)
      else case pqw_parseDoubleValue lib (jval p ''value'') of
        None \<Rightarrow> (Some (invalid_param ''value must be numeric''), st)
      | Some v \<Rightarrow>
          (case engineeringValueToRaw lib v of
             None \<Rightarrow> (None, st)
           | Some (Inl e) \<Rightarrow> (Some (invalid_param e), st)
           | Some (Inr raw) \<Rightarrow>
               with_client sp lib ''write_output'' p
                 (write_one sp (channel_register channel) raw
                   (resp_done 0 (JObj (jset ''raw_value'' (jint (uint raw)) (jset ''value'' (JNum v)
                     (jset ''channel'' (jint channel) []))))))
                 st))"

text \<open>The values of \<open>write_outputs\<close>, or the error at the first that cannot be written.\<close>

fun output_values :: "pqw_lib \<Rightarrow> nat \<Rightarrow> json list \<Rightarrow> (string + (rat \<times> u16) list) option" where
  "output_values lib i [] = Some (Inr [])"
| "output_values lib i (x # xs) =
     (case pqw_parseDoubleValue lib x of
        None \<Rightarrow> Some (Inl (''values['' @ dec i @ ''] must be numeric''))
      | Some v \<Rightarrow>
          (case engineeringValueToRaw lib v of
             None \<Rightarrow> None
           | Some (Inl e) \<Rightarrow> Some (Inl (''values['' @ dec i @ '']: '' @ e))
           | Some (Inr raw) \<Rightarrow> map_option (map_sum id ((#) (v, raw))) (output_values lib (Suc i) xs)))"

definition write_outputs ::
  "'w serial_port \<Rightarrow> pqw_lib \<Rightarrow> json_obj \<Rightarrow> 'w pqw_state \<Rightarrow> message option \<times> 'w pqw_state" where
  "write_outputs sp lib p st =
     (let startChannel = to_int_or 1 (jval p ''start_channel''); xs = to_array (jval p ''values'') in
      if startChannel < 1 \<or> startChannel > kMaxChannels then (Some (invalid_param ''start_channel must be 1-18''), st)
      else if xs = [] then (Some (invalid_param ''values must not be empty''), st)
      else if startChannel + int (length xs) - 1 > kMaxChannels
      then (Some (invalid_param ''requested channel range exceeds 18 channels''), st)
      else case output_values lib 0 xs of
        None \<Rightarrow> (None, st)
      | Some (Inl e) \<Rightarrow> (Some (invalid_param e), st)
      | Some (Inr vs) \<Rightarrow>
          with_client sp lib ''write_outputs'' p
            (\<lambda>o1 c w. device_answer
               (\<lambda>_ w. (Some (resp_done 0 (JObj (jset ''raw_values'' (JArr (toIntArray (map snd vs)))
                  (jset ''values'' (JArr (map (\<lambda>(v, _). JNum v) vs)) (jset ''count'' (jint (int (length xs)))
                  (jset ''start_channel'' (jint startChannel) [])))))), w))
               (serial_writeMultipleRegisters sp (unit_byte o1) (channel_register startChannel) (map snd vs)
                  (po_timeoutMs o1) c w)) st)"

definition pqw_handle ::
  "'w serial_port \<Rightarrow> pqw_lib \<Rightarrow> 'w pqw_state \<Rightarrow> string \<Rightarrow> json \<Rightarrow> message option \<times> 'w pqw_state" where
  "pqw_handle sp lib st cmd data =
     (let p = to_object data in
      if cmd = ''status'' then (Some (resp_done 0 (JObj (jset ''status'' (JStr ''ready'') []))), st)
      else if cmd = ''get_config'' then get_config sp lib p st
      else if cmd = ''set_comm_config'' then set_comm_config sp lib p st
      else if cmd = ''restore_defaults''
      then with_client sp lib cmd p
             (write_one sp kRegRestoreDefaults 1 (resp_done 0 (JObj (jset ''reboot_required'' (JBool True) [])))) st
      else if cmd = ''read_outputs'' then read_outputs sp lib p st
      else if cmd = ''write_output'' then write_output sp lib p st
      else if cmd = ''write_outputs'' then write_outputs sp lib p st
      else if cmd = ''clear_outputs''
      then with_client sp lib cmd p
             (write_one sp kRegClearOutputs 1 (resp_done 0 (JObj (jset ''cleared'' (JBool True) [])))) st
      else (Some (resp_error 404 (message_object (''Unknown command: '' @ cmd))), st))"

end
