(* ===== verification/PqwSpec.thy ===== *)
theory PqwSpec
  imports PqwHandler ModbusHandlersSpec
begin

text \<open>
  The driver of the analog output module with the modelled serial server as its device: what is
  written to the channels is what is read from them, and a configuration that was written is the
  configuration that is reported.
\<close>

section \<open>Codes\<close>

lemma baud_rates_code:
  assumes "baudValueToCode v = Some c"
  shows "c < 8" and "baudCodeToValue c = v"
  using assms
  by (auto simp: baudValueToCode_def baudCodeToValue_def baud_rates_def split: if_splits)

lemma baud_code_known: "0 < baudCodeToValue c \<longleftrightarrow> c < 8"
proof (cases "c < 8")
  case True
  then have "unat c < 8" by (simp add: word_less_nat_alt)
  then have "baud_rates ! unat c \<in> set baud_rates" by (intro nth_mem) (simp add: baud_rates_def)
  with True show ?thesis by (auto simp: baudCodeToValue_def baud_rates_def)
qed (simp add: baudCodeToValue_def)

lemma parity_code: "parityValueToCode v = Some c \<Longrightarrow> parityCodeToValue c = v \<and> parityCodeToValue c \<noteq> []"
  by (auto simp: parityValueToCode_def parityCodeToValue_def split: if_splits)

lemma stopBits_code: "stopBitsValueToCode v = Some c \<Longrightarrow> stopBitsCodeToValue c = v \<and> stopBitsCodeToValue c \<noteq> []"
  by (auto simp: stopBitsValueToCode_def stopBitsCodeToValue_def split: if_splits)

lemma uint_u16: "0 \<le> k \<Longrightarrow> k < 65536 \<Longrightarrow> uint (word_of_int k :: u16) = k"
  by (simp add: uint_word_of_int)

lemma watchdog_code:
  assumes "commWatchdogMsToRaw ms = Inr raw"
  shows "commWatchdogRawToMs raw = ms"
proof (cases "ms = 0")
  case True
  then show ?thesis using assms by (simp add: commWatchdogMsToRaw_def commWatchdogRawToMs_def)
next
  case False
  with assms have ms: "0 < ms" "ms mod 10 = 0" "ms div 10 + 1 \<le> 65535" and raw: "raw = word_of_int (ms div 10 + 1)"
    by (auto simp: commWatchdogMsToRaw_def Let_def split: if_splits)
  have "0 \<le> ms div 10" using ms(1) by simp
  then have "uint raw = ms div 10 + 1"
    using ms(3) unfolding raw by (intro uint_u16) simp_all
  moreover from this have "raw \<noteq> 0" using \<open>0 \<le> ms div 10\<close> by auto
  moreover have "ms div 10 * 10 = ms" using ms(2) by presburger
  ultimately show ?thesis by (simp add: commWatchdogRawToMs_def)
qed

section \<open>A configuration in the registers\<close>

text \<open>The fields \<open>get_config\<close> reports, and the registers they are read from.\<close>

definition field_of_register :: "u16 \<Rightarrow> u16 \<Rightarrow> (string \<times> json) option" where
  "field_of_register reg raw =
     (if reg = kRegUnitId then Some (''unit_id'', jint (uint raw))
      else if reg = kRegBaudRate then (if raw < 8 then Some (''baud_rate'', jint (baudCodeToValue raw)) else None)
      else if reg = kRegCommWatchdog then Some (''comm_watchdog_ms'', jint (commWatchdogRawToMs raw))
      else if reg = kRegParity
      then (if parityCodeToValue raw \<noteq> [] then Some (''parity'', JStr (parityCodeToValue raw)) else None)
      else if reg = kRegStopBits
      then (if stopBitsCodeToValue raw \<noteq> [] then Some (''stop_bits'', JStr (stopBitsCodeToValue raw)) else None)
      else None)"

definition item_readable :: "config_write \<Rightarrow> bool" where
  "item_readable item = (field_of_register (cw_reg item) (cw_rawValue item) = Some (cw_field item, cw_value item))"

definition reply_data :: "message \<Rightarrow> json_obj" where
  "reply_data r = to_object (msg_payload r)"

definition config_readable :: "u16 list \<Rightarrow> bool" where
  "config_readable rs = (6 \<le> length rs \<and> (\<forall>reg\<in>{0, 1, 3, 4, 5}. field_of_register reg (rs ! unat reg) \<noteq> None))"

lemma decode_reports:
  assumes "config_readable rs"
  shows "\<exists>config. decodeConfigRegisters (take 6 rs) = Inr config
    \<and> (\<forall>reg f v. field_of_register reg (rs ! unat reg) = Some (f, v) \<longrightarrow> jval (reply_data (config_reply config)) f = v)"
proof -
  have nth: "take 6 rs ! i = rs ! i" if "i < 6" for i using that by simp
  have len: "\<not> length (take 6 rs) < 6" using assms by (simp add: config_readable_def)
  have read: "rs ! 1 < 8" "parityCodeToValue (rs ! 4) \<noteq> []" "stopBitsCodeToValue (rs ! 5) \<noteq> []"
    using assms by (auto simp: config_readable_def field_of_register_def split: if_splits)
  then have "0 < baudCodeToValue (rs ! 1)" using baud_code_known by blast
  then show ?thesis
    using read len
    unfolding decodeConfigRegisters_def Let_def
    by (auto simp: nth field_of_register_def config_reply_def reply_data_def resp_done_def split: if_splits)
qed

definition apply_items :: "config_write list \<Rightarrow> u16 list \<Rightarrow> u16 list" where
  "apply_items ws rs = foldl (\<lambda>rs item. rs[unat (cw_reg item) := cw_rawValue item]) rs ws"

lemma apply_items_simps [simp]:
  "apply_items [] rs = rs" "apply_items (item # ws) rs = apply_items ws (rs[unat (cw_reg item) := cw_rawValue item])"
  by (simp_all add: apply_items_def)

lemma apply_items_other: "reg \<notin> cw_reg ` set ws \<Longrightarrow> apply_items ws rs ! unat reg = rs ! unat reg"
  by (induction ws arbitrary: rs) (auto simp: nth_list_update_neq word_unat_eq_iff)

lemma apply_items_nth:
  assumes "distinct (map cw_reg ws)" and "item \<in> set ws" and "\<forall>x\<in>set ws. unat (cw_reg x) < length rs"
  shows "apply_items ws rs ! unat (cw_reg item) = cw_rawValue item"
  using assms
proof (induction ws arbitrary: rs)
  case (Cons x ws)
  then show ?case by (cases "item = x") (auto simp: apply_items_other)
qed simp

lemma config_readable_update:
  assumes "config_readable rs" and "item_readable item"
  shows "config_readable (rs[unat (cw_reg item) := cw_rawValue item])"
proof -
  have "field_of_register reg (rs[unat (cw_reg item) := cw_rawValue item] ! unat reg) \<noteq> None"
    if "reg \<in> {0, 1, 3, 4, 5}" for reg
  proof (cases "reg = cw_reg item")
    case True
    moreover have "unat reg < length rs" using that assms(1) by (auto simp: config_readable_def)
    ultimately show ?thesis using assms(2) by (simp add: item_readable_def)
  next
    case False
    then have "unat (cw_reg item) \<noteq> unat reg" by (metis unsigned_word_eqI)
    then show ?thesis using that assms(1) by (auto simp: config_readable_def)
  qed
  then show ?thesis using assms(1) by (simp add: config_readable_def)
qed

lemma apply_items_readable: "config_readable rs \<Longrightarrow> list_all item_readable ws \<Longrightarrow> config_readable (apply_items ws rs)"
  by (induction ws arbitrary: rs) (auto simp: config_readable_update)

lemma item_readable_reg: "item_readable item \<Longrightarrow> unat (cw_reg item) < 6"
  by (auto simp: item_readable_def field_of_register_def split: if_splits)

section \<open>The items of a request\<close>

definition items_ok :: "u16 set \<Rightarrow> config_write list \<Rightarrow> bool" where
  "items_ok regs ws = (list_all item_readable ws \<and> distinct (map cw_reg ws) \<and> cw_reg ` set ws \<subseteq> regs)"

lemma then_item_Inr: "then_item r f = Inr x \<longleftrightarrow> (\<exists>y. r = Inr y \<and> f y = Inr x)"
  by (cases r) (simp_all add: then_item_def)

lemma config_item_ok:
  assumes "config_item p field reg f ws = Inr ws'" and "items_ok regs ws" and "reg \<notin> regs"
    and "\<And>raw v. f (jval p field) = Inr (raw, v) \<Longrightarrow> field_of_register reg raw = Some (field, v)"
  shows "items_ok (insert reg regs) ws'"
  using assms by (fastforce simp: config_item_def items_ok_def item_readable_def split: if_splits sum.splits)

lemma code_or_Inr: "code_or e code v = Inr (raw, v') \<longleftrightarrow> code = Some raw \<and> v' = v"
  by (auto simp: code_or_def split: option.splits)

lemma comm_config_items:
  assumes "buildCommConfigWrites p = Inr ws"
  shows "items_ok {kRegUnitId, kRegBaudRate, kRegParity, kRegStopBits, kRegCommWatchdog} ws" and "ws \<noteq> []"
proof -
  obtain w1 w2 w3 w4 where steps:
    "config_item p ''unit_id'' kRegUnitId
       (\<lambda>v. let unitId = to_int_or (- 1) v in
          if unitId < 1 \<or> unitId > 255 then Inl ''unit_id must be 1-255'' else Inr (word_of_int unitId, jint unitId)) [] = Inr w1"
    "config_item p ''baud_rate'' kRegBaudRate
       (\<lambda>v. code_or (''baud_rate'' @ baud_text) (baudValueToCode (to_int_or (- 1) v)) (jint (to_int_or (- 1) v))) w1 = Inr w2"
    "config_item p ''parity'' kRegParity
       (\<lambda>v. let parity = ascii_lower (trim_spaces (to_string v)) in
          code_or ''parity must be one of none, odd, even'' (parityValueToCode parity) (JStr parity)) w2 = Inr w3"
    "config_item p ''stop_bits'' kRegStopBits
       (\<lambda>v. let stopBits = trim_spaces (to_string v) in
          code_or ''stop_bits must be 1 or 2'' (stopBitsValueToCode stopBits) (JStr stopBits)) w3 = Inr w4"
    "config_item p ''comm_watchdog_ms'' kRegCommWatchdog
       (\<lambda>v. let ms = to_int_or (- 1) v in
          (case commWatchdogMsToRaw ms of Inl e \<Rightarrow> Inl e | Inr raw \<Rightarrow> Inr (raw, jint ms))) w4 = Inr ws"
    and "ws \<noteq> []"
    using assms unfolding buildCommConfigWrites_def then_item_Inr by (auto split: if_splits)
  have unit: "field_of_register kRegUnitId (word_of_int i) = Some (''unit_id'', jint i)"
    if "\<not> (i < 1 \<or> i > 255)" for i
    using uint_u16 [of i] that by (simp only: field_of_register_def) simp
  have "items_ok {} []" by (simp add: items_ok_def)
  then have "items_ok {kRegUnitId} w1"
    by (rule config_item_ok [OF steps(1)]) (auto simp: unit Let_def split: if_splits)
  then have "items_ok {kRegBaudRate, kRegUnitId} w2"
    by (rule config_item_ok [OF steps(2)]) (auto simp: field_of_register_def code_or_Inr dest: baud_rates_code)
  then have "items_ok {kRegParity, kRegBaudRate, kRegUnitId} w3"
    by (rule config_item_ok [OF steps(3)]) (auto simp: field_of_register_def code_or_Inr Let_def dest: parity_code)
  then have "items_ok {kRegStopBits, kRegParity, kRegBaudRate, kRegUnitId} w4"
    by (rule config_item_ok [OF steps(4)]) (auto simp: field_of_register_def code_or_Inr Let_def dest: stopBits_code)
  then have "items_ok {kRegCommWatchdog, kRegStopBits, kRegParity, kRegBaudRate, kRegUnitId} ws"
    by (rule config_item_ok [OF steps(5)]) (auto simp: field_of_register_def Let_def watchdog_code split: sum.splits)
  then show "items_ok {kRegUnitId, kRegBaudRate, kRegParity, kRegStopBits, kRegCommWatchdog} ws"
    by (simp add: insert_commute)
  show "ws \<noteq> []" by fact
qed

lemma comm_config_distinct: "buildCommConfigWrites p = Inr ws \<Longrightarrow> distinct (map cw_reg ws)"
  and comm_config_readable: "buildCommConfigWrites p = Inr ws \<Longrightarrow> list_all item_readable ws"
  using comm_config_items(1) [of p ws] by (auto simp: items_ok_def)

section \<open>The driver on the line\<close>

text \<open>The port is open with the parameters the request names.\<close>

definition port_ready :: "serial_connections \<Rightarrow> pqw_options \<Rightarrow> bool" where
  "port_ready m o1 =
     (case m (po_portName o1) of
        None \<Rightarrow> False
      | Some info \<Rightarrow> sn_baudRate info = po_baudRate o1 \<and> sn_stopBits info = po_stopBits o1 \<and> sn_parity info = po_parity o1)"

lemma with_client_ready:
  assumes "resolveConnectionOptions cmd p = Inr o1" and "port_ready m o1"
  shows "\<exists>c. with_client (serial_line split_up rounds_of) lib cmd p f (m, s) = (fst (f o1 c s), m, snd (f o1 c s))"
  using assms
  by (intro exI [of _ "sn_client (the (m (po_portName o1)))"])
    (auto simp: with_client_def port_ready_def pqw_getClient_def serial_line_def Let_def split: option.splits prod.splits)

lemma device_command:
  assumes "resolveConnectionOptions cmd p = Inr o1" and "port_ready m o1" and "mr_success r"
    and "\<And>c. \<exists>s'. call o1 c s = (Some r, s') \<and> P s'"
  shows "\<exists>s'. with_client (serial_line split_up rounds_of) lib cmd p (\<lambda>o1 c w. device_answer g (call o1 c w)) (m, s)
      = (fst (g r s'), m, snd (g r s')) \<and> P s'"
proof -
  obtain c where c: "with_client (serial_line split_up rounds_of) lib cmd p (\<lambda>o1 c w. device_answer g (call o1 c w)) (m, s)
      = (fst (device_answer g (call o1 c s)), m, snd (device_answer g (call o1 c s)))"
    using with_client_ready [OF assms(1,2)] by blast
  obtain s' where "call o1 c s = (Some r, s')" "P s'" using assms(4) by blast
  with c assms(3) show ?thesis by (auto simp: device_answer_def)
qed

lemma write_items_line:
  assumes "line_live split_up rounds_of (unit_byte o1) s"
    and "\<forall>item\<in>set ws. unat (cw_reg item) < length (holdingRegisters (serial_area (unit_byte o1) s))"
  shows "\<exists>s'. write_items (serial_line split_up rounds_of) ws reply o1 c s = (Some reply, s')
    \<and> line_live split_up rounds_of (unit_byte o1) s'
    \<and> holdingRegisters (serial_area (unit_byte o1) s') = apply_items ws (holdingRegisters (serial_area (unit_byte o1) s))"
  using assms
proof (induction ws arbitrary: s)
  case (Cons item ws)
  obtain s1 where s1: "serial_writeSingleRegister (serial_line split_up rounds_of) (unit_byte o1) (cw_reg item)
        (cw_rawValue item) (po_timeoutMs o1) c s = (Some ok_result, s1)"
      "line_live split_up rounds_of (unit_byte o1) s1"
      "holdingRegisters (serial_area (unit_byte o1) s1)
        = (holdingRegisters (serial_area (unit_byte o1) s))[unat (cw_reg item) := cw_rawValue item]"
    using serial_put_word [OF Cons.prems(1), of "cw_reg item" "cw_rawValue item" "po_timeoutMs o1" c] Cons.prems(2) by auto
  show ?case
    using Cons.IH [OF s1(2)] Cons.prems(2) s1 by (simp add: device_answer_def ok_result_def)
qed simp

definition written_items_answer :: "config_write list \<Rightarrow> message" where
  "written_items_answer ws =
     resp_done 0 (JObj (jset ''reboot_required'' (JBool True) (jset ''writes'' (JArr (writeItemsArray ws)) [])))"

text \<open>C29: A configuration that was written is the configuration that is reported: when the module's
  registers hold a valid configuration and \<open>set_comm_config\<close> is called with any selection of its
  fields, every field it lists as written, encoded to a register and sent by a request of its own,
  is what \<open>get_config\<close> then decodes and reports, watchdog time included.\<close>

theorem configuration_written_is_reported:
  assumes "buildCommConfigWrites p = Inr ws"
    and "resolveConnectionOptions ''set_comm_config'' p = Inr o1" and "resolveConnectionOptions ''get_config'' q = Inr o2"
    and "port_ready m o1" and "port_ready m o2" and "unit_byte o1 = unit_byte o2"
    and "line_live split_up rounds_of (unit_byte o1) s"
    and "config_readable (holdingRegisters (serial_area (unit_byte o1) s))"
  shows "\<exists>s1 s2 config. let line = serial_line split_up rounds_of in
      pqw_handle line lib (m, s) ''set_comm_config'' (JObj p) = (Some (written_items_answer ws), m, s1)
    \<and> pqw_handle line lib (m, s1) ''get_config'' (JObj q) = (Some (config_reply config), m, s2)
    \<and> list_all (\<lambda>item. jval (reply_data (config_reply config)) (cw_field item) = cw_value item) ws"
proof -
  let ?line = "serial_line split_up rounds_of" and ?rs = "holdingRegisters (serial_area (unit_byte o1) s)"
  have readable: "list_all item_readable ws" and diff: "distinct (map cw_reg ws)"
    using comm_config_readable [OF assms(1)] comm_config_distinct [OF assms(1)] by simp_all
  have six: "6 \<le> length ?rs" using assms(8) by (simp add: config_readable_def)
  then have room: "\<forall>item\<in>set ws. unat (cw_reg item) < length ?rs"
    using readable item_readable_reg by (fastforce simp: list_all_iff)
  obtain c where c: "with_client ?line lib ''set_comm_config'' p (write_items ?line ws (written_items_answer ws)) (m, s)
      = (fst (write_items ?line ws (written_items_answer ws) o1 c s), m, snd (write_items ?line ws (written_items_answer ws) o1 c s))"
    using with_client_ready [OF assms(2,4)] by blast
  obtain s1 where s1: "write_items ?line ws (written_items_answer ws) o1 c s = (Some (written_items_answer ws), s1)"
      "line_live split_up rounds_of (unit_byte o1) s1"
      "holdingRegisters (serial_area (unit_byte o1) s1) = apply_items ws ?rs"
    using write_items_line [OF assms(7) room] by blast
  have put: "pqw_handle ?line lib (m, s) ''set_comm_config'' (JObj p) = (Some (written_items_answer ws), m, s1)"
    using c s1(1) by (simp add: pqw_handle_def set_comm_config_def assms(1) written_items_answer_def)
  have ok: "config_readable (apply_items ws ?rs)" using apply_items_readable [OF assms(8) readable] .
  then obtain config where config: "decodeConfigRegisters (take 6 (apply_items ws ?rs)) = Inr config"
      "\<And>reg f v. field_of_register reg (apply_items ws ?rs ! unat reg) = Some (f, v) \<Longrightarrow> jval (reply_data (config_reply config)) f = v"
    using decode_reports by blast
  have "list_all (\<lambda>item. jval (reply_data (config_reply config)) (cw_field item) = cw_value item) ws"
    unfolding list_all_iff
  proof
    fix item assume item: "item \<in> set ws"
    show "jval (reply_data (config_reply config)) (cw_field item) = cw_value item"
      using readable item by (intro config(2) [of "cw_reg item"])
        (simp add: apply_items_nth [OF diff item room] list_all_iff item_readable_def)
  qed
  moreover have "6 \<le> length (apply_items ws ?rs)" using ok by (simp add: config_readable_def)
  then have "\<exists>s2. serial_readHoldingRegisters ?line (unit_byte o2) 0 6 (po_timeoutMs o2) c' s1
      = (Some (ok_result\<lparr>mr_registers := take 6 (apply_items ws ?rs)\<rparr>), s2)" for c'
    using serial_device.get_words_law [OF s1(2), of 6 0 "po_timeoutMs o2" c'] by (auto simp: s1(3) [unfolded assms(6)] assms(6))
  then have "\<exists>s2. pqw_handle ?line lib (m, s1) ''get_config'' (JObj q) = (Some (config_reply config), m, s2)"
    using device_command [OF assms(3,5),
        where call = "\<lambda>o1 c. serial_readHoldingRegisters ?line (unit_byte o1) 0 6 (po_timeoutMs o1) c"
          and r = "ok_result\<lparr>mr_registers := take 6 (apply_items ws ?rs)\<rparr>" and P = "\<lambda>_. True" and s = s1
          and g = "\<lambda>r w. (Some (case decodeConfigRegisters (mr_registers r) of
            Inl e \<Rightarrow> resp_error 2 (message_object e) | Inr config \<Rightarrow> config_reply config), w)"] config(1)
    by (fastforce simp: pqw_handle_def get_config_def ok_result_def)
  ultimately show ?thesis using put by (auto simp: Let_def)
qed

definition demo_pqw_lib :: pqw_lib where
  "demo_pqw_lib = \<lparr>pl_milli = (\<lambda>v. Some \<lfloor>v * 1000\<rfloor>), pl_thousandth = (\<lambda>i. of_int i / 1000), pl_double = (\<lambda>_. None),
     pl_stopBits = (\<lambda>_. 1)\<rparr>"

definition demo_config_request :: json_obj where
  "demo_config_request = [(''baud_rate'', jint 19200), (''comm_watchdog_ms'', jint 500), (''port_name'', JStr ''p'')]"

definition demo_options :: pqw_options where
  "demo_options = \<lparr>po_portName = ''p'', po_baudRate = 9600, po_stopBits = ''1'', po_parity = ''none'', po_unitId = 1,
     po_timeoutMs = 2000\<rparr>"

lemma demo_texts:
  "trim_spaces ''p'' = ''p''" "trim_spaces ''1'' = ''1''" "trim_spaces ''none'' = ''none''" "ascii_lower ''none'' = ''none''"
  by (simp_all add: trim_spaces_def is_space_char_def ascii_lower_def)

lemma resolve_demo:
  assumes "jval p ''port_name'' = JStr ''p''" and "list_all (\<lambda>k. jval p (pre @ k) = JUndefined)
      [''baud_rate'', ''parity'', ''stop_bits'', ''unit_id'']" and "jval p ''timeout'' = JUndefined"
    and "pre = (if cmd = ''set_comm_config'' then ''current_'' else [])"
  shows "resolveConnectionOptions cmd p = Inr demo_options"
  using assms
  by (cases "cmd = ''set_comm_config''")
    (simp_all add: resolveConnectionOptions_def demo_options_def isAllowedBaudRate_def baud_rates_def demo_texts Let_def)

lemma configuration_written_is_reported_witness:
  "\<exists>s1 s2 config ws. let line = serial_line bytewise one_burst; m = [''p'' \<mapsto> demo_conn] in
      pqw_handle line demo_pqw_lib (m, demo_line_server) ''set_comm_config'' (JObj demo_config_request)
        = (Some (written_items_answer ws), m, s1)
    \<and> pqw_handle line demo_pqw_lib (m, s1) ''get_config'' (JObj [(''port_name'', JStr ''p'')])
        = (Some (config_reply config), m, s2)
    \<and> map (\<lambda>item. (cw_rawValue item, jval (reply_data (config_reply config)) (cw_field item))) ws
        = [(3, jint 19200), (51, jint 500)]"
proof -
  let ?ws = "[\<lparr>cw_field = ''baud_rate'', cw_reg = 1, cw_rawValue = 3, cw_value = jint 19200\<rparr>,
     \<lparr>cw_field = ''comm_watchdog_ms'', cw_reg = 3, cw_rawValue = 51, cw_value = jint 500\<rparr>]"
  have ints: "rat_int 19200 = Some 19200" "rat_int 500 = Some 500"
    by (simp_all add: rat_int_def in_int_def int_min_def int_max_def)
  have items: "buildCommConfigWrites demo_config_request = Inr ?ws"
    by (simp add: buildCommConfigWrites_def demo_config_request_def then_item_def config_item_def code_or_def
        baudValueToCode_def baud_rates_def commWatchdogMsToRaw_def ints Let_def)
  have regs: "holdingRegisters (serial_area 1 demo_line_server) = replicate 8 0"
    by (simp add: serial_area_def unit_area_def demo_line_server_def ModbusDataArea_def)
  have unit: "unit_byte demo_options = 1" by (simp add: unit_byte_def demo_options_def)
  have valid: "config_readable (replicate 8 0)"
    by (simp add: config_readable_def field_of_register_def parityCodeToValue_def stopBitsCodeToValue_def)
  have ready: "port_ready [''p'' \<mapsto> demo_conn] demo_options"
    by (simp add: port_ready_def demo_options_def demo_conn_def)
  have o1: "resolveConnectionOptions ''set_comm_config'' demo_config_request = Inr demo_options"
    by (rule resolve_demo [OF _ _ _ refl]) (simp_all add: demo_config_request_def)
  have o2: "resolveConnectionOptions ''get_config'' [(''port_name'', JStr ''p'')] = Inr demo_options"
    by (rule resolve_demo [OF _ _ _ refl]) simp_all
  show ?thesis
    using configuration_written_is_reported [OF items o1 o2 ready ready refl, of bytewise one_burst demo_line_server demo_pqw_lib]
      demo_line_live valid
    unfolding Let_def unit regs by fastforce
qed

lemma map_sum_Inr: "map_sum id f z = Inr y \<Longrightarrow> (\<And>x. z = Inr x \<Longrightarrow> y = f x \<Longrightarrow> Q) \<Longrightarrow> Q"
  by (cases z) auto

lemma output_values_length: "output_values lib i xs = Some (Inr vs) \<Longrightarrow> length xs = length vs"
  by (induction lib i xs arbitrary: vs rule: output_values.induct)
    (auto split: option.splits sum.splits elim!: map_sum_Inr)

text \<open>The values written to the channels are the values read from them: \<open>write_outputs\<close> on the module,
  whatever range of the 18 channels it names, encodes the values and writes them in one request, and
  \<open>read_outputs\<close> of the same channels answers with exactly those register values, each numbered with
  its channel; a value is never written to or read from a register outside the output block.\<close>

theorem outputs_written_are_read:
  assumes "output_values lib 0 (to_array (jval p ''values'')) = Some (Inr vs)" and "vs \<noteq> []"
    and "to_int_or 1 (jval p ''start_channel'') = a" and "to_int_or 1 (jval q ''start_channel'') = a"
    and "to_int_or 18 (jval q ''count'') = int (length vs)" and "1 \<le> a" and "a + int (length vs) \<le> 19"
    and "resolveConnectionOptions ''write_outputs'' p = Inr o1" and "resolveConnectionOptions ''read_outputs'' q = Inr o2"
    and "port_ready m o1" and "port_ready m o2" and "unit_byte o1 = unit_byte o2"
    and "line_live split_up rounds_of (unit_byte o1) s"
    and "118 \<le> length (holdingRegisters (serial_area (unit_byte o1) s))"
  shows "\<exists>msg s1 s2. let line = serial_line split_up rounds_of in
      pqw_handle line lib (m, s) ''write_outputs'' (JObj p) = (Some msg, m, s1)
    \<and> msg_status msg = ''done''
    \<and> holdingRegisters (serial_area (unit_byte o1) s1)
      = write_from (nat (99 + a)) (map snd vs) (holdingRegisters (serial_area (unit_byte o1) s))
    \<and> pqw_handle line lib (m, s1) ''read_outputs'' (JObj q)
      = (Some (outputs_reply lib a (int (length vs)) (map snd vs)), m, s2)"
proof -
  let ?line = "serial_line split_up rounds_of" and ?rs = "holdingRegisters (serial_area (unit_byte o1) s)"
  let ?regs = "map snd vs" and ?n = "length vs"
  have n: "length (to_array (jval p ''values'')) = ?n" using output_values_length [OF assms(1)] by simp
  have few: "0 < length ?regs" "length ?regs \<le> 123" "length ?regs \<le> 125" "?n \<le> 18"
    using assms(2,6,7) by simp_all
  have reg: "unat (channel_register a) = nat (99 + a)"
    using assms(6,7) uint_u16 [of "99 + a"] by (simp add: channel_register_def flip: nat_uint_eq)
  have room: "unat (channel_register a) + length ?regs \<le> length ?rs" using assms(6,7,14) reg by simp
  have in_range: "in_int (a + int ?n)" using assms(6,7) by (simp add: in_int_def int_min_def int_max_def)
  have put: "\<exists>s1. serial_writeMultipleRegisters ?line (unit_byte o1) (channel_register a) ?regs (po_timeoutMs o1) c s
      = (Some ok_result, s1) \<and> line_live split_up rounds_of (unit_byte o1) s1
      \<and> holdingRegisters (serial_area (unit_byte o1) s1) = write_from (nat (99 + a)) ?regs ?rs" for c
    using serial_device.put_words_law [OF assms(13) few(1,2) room, of "po_timeoutMs o1" c] by (auto simp: reg)
  let ?done = "resp_done 0 (JObj (jset ''raw_values'' (JArr (toIntArray ?regs))
      (jset ''values'' (JArr (map (\<lambda>(v, _). JNum v) vs)) (jset ''count'' (jint (int ?n)) (jset ''start_channel'' (jint a) [])))))"
  have fine: "mr_success ok_result" by (simp add: ok_result_def)
  let ?call = "\<lambda>o1 c. serial_writeMultipleRegisters ?line (unit_byte o1) (channel_register a) ?regs (po_timeoutMs o1) c"
  have "to_array (jval p ''values'') \<noteq> []" using n assms(2) by auto
  moreover have a18: "a \<le> 18" using assms(7) few(1) unfolding length_map by linarith
  ultimately have "pqw_handle ?line lib (m, s) ''write_outputs'' (JObj p)
      = with_client ?line lib ''write_outputs'' p (\<lambda>o1 c w. device_answer (\<lambda>_ w. (Some ?done, w)) (?call o1 c w)) (m, s)"
    using assms(1,3,6,7) n few(1) by (simp add: pqw_handle_def write_outputs_def Let_def)
  then obtain s1 where s1: "pqw_handle ?line lib (m, s) ''write_outputs'' (JObj p) = (Some ?done, m, s1)"
      "line_live split_up rounds_of (unit_byte o1) s1"
      "holdingRegisters (serial_area (unit_byte o1) s1) = write_from (nat (99 + a)) ?regs ?rs"
    using device_command [where r = ok_result and g = "\<lambda>_ w. (Some ?done, w)" and call = ?call, OF assms(8,10) fine put,
        of split_up rounds_of lib]
    unfolding fst_conv snd_conv by fastforce
  have same: "take (length ?regs) (drop (unat (channel_register a)) (holdingRegisters (serial_area (unit_byte o1) s1))) = ?regs"
    using room unfolding s1(3) reg by (rule slice_write_from)
  let ?read = "\<lambda>o1 c. serial_readHoldingRegisters ?line (unit_byte o1) (channel_register a) (word_of_int (int ?n)) (po_timeoutMs o1) c"
  let ?g = "\<lambda>r w. (Some (outputs_reply lib a (int ?n) (mr_registers r)), w)"
  have fine2: "mr_success (ok_result\<lparr>mr_registers := ?regs\<rparr>)" by (simp add: ok_result_def)
  have "\<exists>s2. ?read o2 c s1 = (Some (ok_result\<lparr>mr_registers := ?regs\<rparr>), s2) \<and> True" for c
    using serial_device.get_words_law [OF s1(2) few(1,3), of "channel_register a" "po_timeoutMs o2" c] room same
      length_write_from [OF room, unfolded reg]
    by (auto simp: s1(3) [unfolded assms(12)] assms(12))
  then have "\<exists>s2. with_client ?line lib ''read_outputs'' q (\<lambda>o1 c w. device_answer ?g (?read o1 c w)) (m, s1)
      = (Some (outputs_reply lib a (int ?n) ?regs), m, s2)"
    using device_command [where g = ?g and call = ?read and P = "\<lambda>_. True", OF assms(9,11) fine2, of s1 split_up rounds_of lib]
    by auto
  moreover have "pqw_handle ?line lib (m, s1) ''read_outputs'' (JObj q)
      = with_client ?line lib ''read_outputs'' q (\<lambda>o1 c w. device_answer ?g (?read o1 c w)) (m, s1)"
    using assms(2,4-7) in_range a18 by (simp add: pqw_handle_def read_outputs_def Let_def Suc_le_eq)
  ultimately have "\<exists>s2. pqw_handle ?line lib (m, s1) ''read_outputs'' (JObj q)
      = (Some (outputs_reply lib a (int ?n) ?regs), m, s2)" by simp
  moreover have "msg_status ?done = ''done''" by (simp add: resp_done_def)
  ultimately show ?thesis using s1(1,3) unfolding Let_def by blast
qed

definition demo_module :: serial_server where
  "demo_module = demo_line_server\<lparr>ss_units := om_put 1 (ModbusDataArea 200) []\<rparr>"

definition demo_outputs :: json_obj where
  "demo_outputs = [(''count'', jint 2), (''port_name'', JStr ''p''), (''start_channel'', jint 17),
     (''values'', JArr [JNum (5/2), JNum 4])]"

lemma outputs_written_are_read_witness:
  "\<exists>msg s1 s2. let line = serial_line bytewise one_burst; m = [''p'' \<mapsto> demo_conn] in
      pqw_handle line demo_pqw_lib (m, demo_module) ''write_outputs'' (JObj demo_outputs) = (Some msg, m, s1)
    \<and> holdingRegisters (serial_area 1 s1) ! 117 = 4000
    \<and> pqw_handle line demo_pqw_lib (m, s1) ''read_outputs'' (JObj demo_outputs)
      = (Some (outputs_reply demo_pqw_lib 17 2 [2500, 4000]), m, s2)"
proof -
  have ints: "rat_int 17 = Some 17" "rat_int 2 = Some 2"
    by (simp_all add: rat_int_def in_int_def int_min_def int_max_def)
  have vals: "output_values demo_pqw_lib 0 (to_array (jval demo_outputs ''values'')) = Some (Inr [(5/2, 2500), (4, 4000)])"
    by (simp add: demo_outputs_def pqw_parseDoubleValue_def engineeringValueToRaw_def demo_pqw_lib_def)
  have unit: "unit_byte demo_options = 1" by (simp add: unit_byte_def demo_options_def)
  have regs: "holdingRegisters (serial_area 1 demo_module) = replicate 200 0"
    by (simp add: serial_area_def unit_area_def demo_module_def ModbusDataArea_def)
  have live: "line_live bytewise one_burst 1 demo_module"
    using demo_line_live by (simp add: line_live_def demo_module_def line_ready_def om_has_def)
  have ready: "port_ready [''p'' \<mapsto> demo_conn] demo_options"
    by (simp add: port_ready_def demo_options_def demo_conn_def)
  have o1: "resolveConnectionOptions cmd demo_outputs = Inr demo_options" if "cmd \<noteq> ''set_comm_config''" for cmd
    by (rule resolve_demo [OF _ _ _ refl]) (simp_all add: demo_outputs_def that)
  have nth: "write_from 116 [2500, 4000] (replicate 200 (0::u16)) ! 117 = 4000"
    by (simp add: write_from_def nth_append)
  have range: "to_int_or 1 (jval demo_outputs ''start_channel'') = 17" "to_int_or 18 (jval demo_outputs ''count'') = int 2"
    by (simp_all add: demo_outputs_def ints)
  obtain msg s1 s2 where
    "pqw_handle (serial_line bytewise one_burst) demo_pqw_lib ([''p'' \<mapsto> demo_conn], demo_module) ''write_outputs'' (JObj demo_outputs)
      = (Some msg, [''p'' \<mapsto> demo_conn], s1)"
    "holdingRegisters (serial_area 1 s1) = write_from 116 [2500, 4000] (replicate 200 0)"
    "pqw_handle (serial_line bytewise one_burst) demo_pqw_lib ([''p'' \<mapsto> demo_conn], s1) ''read_outputs'' (JObj demo_outputs)
      = (Some (outputs_reply demo_pqw_lib 17 2 [2500, 4000]), [''p'' \<mapsto> demo_conn], s2)"
    using outputs_written_are_read [OF vals _ range(1) range(1) _ _ _ o1 o1 ready ready refl, of bytewise one_burst demo_module]
      live range(2)
    by (auto simp: unit regs Let_def)
  with nth show ?thesis unfolding Let_def by metis
qed

end
