(* ===== verification/OutputFile.thy ===== *)
theory OutputFile
  imports Prelude
begin

text \<open>
  Files that drivers write their results to. The file system is an environment the definitions are
  given: whether a directory is there, the attempt to create one, a file opened for writing (and
  emptied), the bytes of it that could be written.
\<close>

record 'w file_env =
  fe_dirOf :: "string \<Rightarrow> string"
  fe_dir_exists :: "string \<Rightarrow> 'w \<Rightarrow> bool"
  fe_mkpath :: "string \<Rightarrow> 'w \<Rightarrow> bool \<times> 'w"
  fe_open :: "string \<Rightarrow> bool \<Rightarrow> 'w \<Rightarrow> bool \<times> 'w"
  fe_write :: "bytes \<Rightarrow> 'w \<Rightarrow> int \<times> 'w"

text \<open>\<open>ensureOutputDirectory\<close>, the same in the drivers of the temperature scanner and of the laser radar.\<close>

definition ensureOutputDirectory :: "'w file_env \<Rightarrow> string \<Rightarrow> 'w \<Rightarrow> (string + unit) \<times> 'w" where
  "ensureOutputDirectory fe outputPath w =
     (let dir = fe_dirOf fe outputPath in
      if fe_dir_exists fe dir w then (Inr (), w)
      else case fe_mkpath fe dir w of
        (True, w) \<Rightarrow> (Inr (), w)
      | (False, w) \<Rightarrow> (Inl (''Failed to create output directory: '' @ dir), w))"

text \<open>\<open>writeBinaryFile\<close> of the laser radar's driver.\<close>

definition writeBinaryFile :: "'w file_env \<Rightarrow> string \<Rightarrow> bytes \<Rightarrow> 'w \<Rightarrow> (string + unit) \<times> 'w" where
  "writeBinaryFile fe outputPath content w =
     (case ensureOutputDirectory fe outputPath w of
        (Inl err, w) \<Rightarrow> (Inl err, w)
      | (Inr _, w) \<Rightarrow>
          (case fe_open fe outputPath False w of
             (False, w) \<Rightarrow> (Inl (''Failed to open output file: '' @ outputPath), w)
           | (True, w) \<Rightarrow>
               (case fe_write fe content w of
                  (n, w) \<Rightarrow> (if n \<noteq> int (length content) then Inl ''Failed to write output file'' else Inr (), w))))"

section \<open>A disk that takes what it is given\<close>

text \<open>For the witnesses: the paths and contents written so far; the last file is the one that is open.\<close>

definition plain_files :: "(string \<times> bytes) list file_env" where
  "plain_files = \<lparr>fe_dirOf = id, fe_dir_exists = (\<lambda>_ _. True), fe_mkpath = (\<lambda>_ w. (True, w)),
     fe_open = (\<lambda>path _ w. (True, w @ [(path, [])])),
     fe_write = (\<lambda>b w. (int (length b), butlast w @ [(fst (last w), b)]))\<rparr>"

lemma writeBinaryFile_plain: "writeBinaryFile plain_files path content w = (Inr (), w @ [(path, content)])"
  by (simp add: writeBinaryFile_def ensureOutputDirectory_def plain_files_def Let_def)

end
