(* ===== verification/ThermalDriver.thy ===== *)
theory ThermalDriver
  imports ModbusHandlers OutputFile
begin

text \<open>
  The driver of the temperature scanner (\<open>src/src/drivers/driver_3d_temp_scanner/\<close>): the frames of its
  protocol, Modbus RTU with a byte count of zero for long answers, the session that starts a capture,
  waits for its end and reads the image, and the handler. The serial port and the files are an
  environment the definitions are given (\<open>thermal_env\<close>); what is computed in double precision is an
  argument.
\<close>

section \<open>Frames: \<open>protocol_codec\<close>\<close>

abbreviation (input) "kRegisterCaptureControl \<equiv> 60000 :: u16"
abbreviation (input) "kCaptureStartValue \<equiv> 100 :: u16"
abbreviation (input) "kCaptureSuccessValue \<equiv> 10 :: u16"
abbreviation (input) "kCaptureFailureValue \<equiv> 20 :: u16"
abbreviation (input) "kImagePixelCount \<equiv> 768 :: nat"

datatype parse_status = ParseOk | NeedMore | CrcError | AddressMismatch | FunctionMismatch
  | ExceptionResponse | InvalidLength | InvalidByteCount | EchoMismatch

definition finalizeRequest :: "bytes \<Rightarrow> bytes" where
  "finalizeRequest payload =
     (let crc = calculateCRC16 payload in payload @ [ucast (crc AND 0xFF), ucast (drop_bit 8 crc AND 0xFF)])"

definition buildReadHoldingRegistersRequest :: "byte \<Rightarrow> u16 \<Rightarrow> u16 \<Rightarrow> bytes" where
  "buildReadHoldingRegistersRequest addr start count = finalizeRequest (addr # 0x03 # be16 start @ be16 count)"

definition buildWriteSingleRegisterRequest :: "byte \<Rightarrow> u16 \<Rightarrow> u16 \<Rightarrow> bytes" where
  "buildWriteSingleRegisterRequest addr reg v = finalizeRequest (addr # 0x06 # be16 reg @ be16 v)"

definition expectedReadHoldingRegistersResponseSize :: "u16 \<Rightarrow> nat" where
  "expectedReadHoldingRegistersResponseSize count = 1 + 1 + 1 + unat count * 2 + 2"

definition modbusExceptionMessage :: "byte \<Rightarrow> string" where
  "modbusExceptionMessage code =
     (if code = 1 then ''Illegal function'' else if code = 2 then ''Illegal data address''
      else if code = 3 then ''Illegal data value'' else if code = 4 then ''Slave device failure''
      else ''Modbus exception: '' @ dec (unat code))"

text \<open>The status and the text of the error.\<close>

definition parseCommonHeader :: "bytes \<Rightarrow> byte \<Rightarrow> byte \<Rightarrow> parse_status \<times> string" where
  "parseCommonHeader frame addr fc =
     (if length frame < 5 then (NeedMore, ''Frame too short'')
      else if \<not> verifyCRC frame then (CrcError, ''CRC error'')
      else if frame ! 0 \<noteq> addr then (AddressMismatch, ''Device address mismatch'')
      else if frame ! 1 = fc OR 0x80 then (ExceptionResponse, modbusExceptionMessage (frame ! 2))
      else if frame ! 1 \<noteq> fc then (FunctionMismatch, ''Function code mismatch'')
      else (ParseOk, []))"

text \<open>The product of the register count is kept in 16 bits, the byte count of the frame in 8.\<close>

definition parseReadHoldingRegistersResponse ::
  "bytes \<Rightarrow> byte \<Rightarrow> u16 \<Rightarrow> parse_status \<times> string \<times> u16 list" where
  "parseReadHoldingRegistersResponse frame addr count =
     (case parseCommonHeader frame addr 0x03 of (status, err) \<Rightarrow>
      if status \<noteq> ParseOk then (status, err, [])
      else
        let expectedSize = expectedReadHoldingRegistersResponseSize count; byteCount = frame ! 2 in
        if length frame < expectedSize then (NeedMore, ''Incomplete register response'', [])
        else if length frame \<noteq> expectedSize then (InvalidLength, ''Register response length mismatch'', [])
        else if count > 255 \<and> byteCount \<noteq> 0
        then (InvalidByteCount, ''Large register response must use byte_count=0'', [])
        else if \<not> count > 255 \<and> ucast byteCount \<noteq> count * 2
        then (InvalidByteCount, ''Register response byte_count mismatch'', [])
        else (ParseOk, [], read_words frame 3 (unat count)))"

definition parseWriteSingleRegisterResponse :: "bytes \<Rightarrow> byte \<Rightarrow> u16 \<Rightarrow> u16 \<Rightarrow> parse_status \<times> string" where
  "parseWriteSingleRegisterResponse frame addr reg v =
     (case parseCommonHeader frame addr 0x06 of (status, err) \<Rightarrow>
      if status \<noteq> ParseOk then (status, err)
      else if length frame < 8 then (NeedMore, ''Incomplete write response'')
      else if length frame \<noteq> 8 then (InvalidLength, ''Write response length mismatch'')
      else if bytesToUInt16 frame 2 \<noteq> reg \<or> bytesToUInt16 frame 4 \<noteq> v then (EchoMismatch, ''Write response echo mismatch'')
      else (ParseOk, []))"

section \<open>The environment\<close>

record thermal_params =
  tp_portName :: string
  tp_baudRate :: int
  tp_parity :: string
  tp_stopBits :: string
  tp_deviceAddr :: byte
  tp_timeoutMs :: int
  tp_scanTimeoutMs :: int
  tp_pollIntervalMs :: int

record capture_result =
  cr_rawTemperatures :: "u16 list"
  cr_temperaturesDegC :: "rat list"
  cr_minTempDegC :: rat
  cr_maxTempDegC :: rat

text \<open>
  \<open>te_exchange\<close> writes a frame: an error, or what the reads return until the timeout of the answer, and
  the text of the read that failed (empty when the time ran out first). \<open>te_polls\<close> is the number of polls
  that are begun before the scan's timeout. \<open>te_degC raw\<close> is \<open>raw * 0.01 - 273.15\<close>; \<open>te_csv_number\<close> and
  \<open>te_json_text\<close> print; \<open>te_save_png\<close> draws the image and saves it.
\<close>

record 'w thermal_env =
  te_open :: "thermal_params \<Rightarrow> 'w \<Rightarrow> string option \<times> 'w"
  te_exchange :: "int \<Rightarrow> bytes \<Rightarrow> 'w \<Rightarrow> (string + bytes list \<times> string) \<times> 'w"
  te_polls :: "int \<Rightarrow> int \<Rightarrow> 'w \<Rightarrow> nat"
  te_close :: "'w \<Rightarrow> 'w"
  te_degC :: "u16 \<Rightarrow> rat"
  te_csv_number :: "rat \<Rightarrow> bytes"
  te_json_text :: "json \<Rightarrow> bytes"
  te_files :: "'w file_env"
  te_save_png :: "string \<Rightarrow> capture_result \<Rightarrow> 'w \<Rightarrow> bool \<times> 'w"

section \<open>The session: \<open>ThermalSession\<close>\<close>

text \<open>The loop of \<open>transact\<close>: the bytes so far, the reads to come, the error that ends them.\<close>

fun collect_response :: "byte \<Rightarrow> byte \<Rightarrow> nat \<Rightarrow> string \<Rightarrow> bytes \<Rightarrow> bytes list \<Rightarrow> string + bytes" where
  "collect_response addr fc normalSize transportError buffer [] =
     Inl (if buffer \<noteq> [] then ''Incomplete response frame''
          else if transportError \<noteq> [] then transportError else ''Read timeout'')"
| "collect_response addr fc normalSize transportError buffer (chunk # chunks) =
     (let buffer = buffer @ chunk in
      if length buffer < 5 then collect_response addr fc normalSize transportError buffer chunks
      else if buffer ! 0 \<noteq> addr then Inl ''Device address mismatch''
      else if buffer ! 1 \<noteq> fc OR 0x80 \<and> buffer ! 1 \<noteq> fc then Inl ''Unexpected function code''
      else
        let expectedSize = (if buffer ! 1 = fc OR 0x80 then 5 else normalSize) in
        if length buffer < expectedSize then collect_response addr fc normalSize transportError buffer chunks
        else Inr (take expectedSize buffer))"

definition transact ::
  "'w thermal_env \<Rightarrow> thermal_params \<Rightarrow> bytes \<Rightarrow> byte \<Rightarrow> nat \<Rightarrow> 'w \<Rightarrow> (string + bytes) \<times> 'w" where
  "transact env prm request fc normalSize w =
     (case te_exchange env (tp_timeoutMs prm) request w of
        (Inl err, w) \<Rightarrow> (Inl err, w)
      | (Inr (chunks, err), w) \<Rightarrow> (collect_response (tp_deviceAddr prm) fc normalSize err [] chunks, w))"

definition session_writeSingleRegister ::
  "'w thermal_env \<Rightarrow> thermal_params \<Rightarrow> u16 \<Rightarrow> u16 \<Rightarrow> 'w \<Rightarrow> (string + unit) \<times> 'w" where
  "session_writeSingleRegister env prm reg v w =
     (case transact env prm (buildWriteSingleRegisterRequest (tp_deviceAddr prm) reg v) 0x06 8 w of
        (Inl err, w) \<Rightarrow> (Inl err, w)
      | (Inr response, w) \<Rightarrow>
          (case parseWriteSingleRegisterResponse response (tp_deviceAddr prm) reg v of
             (status, err) \<Rightarrow> (if status = ParseOk then Inr () else Inl err, w)))"

definition session_readRegisters ::
  "'w thermal_env \<Rightarrow> thermal_params \<Rightarrow> u16 \<Rightarrow> u16 \<Rightarrow> 'w \<Rightarrow> (string + u16 list) \<times> 'w" where
  "session_readRegisters env prm start count w =
     (case transact env prm (buildReadHoldingRegistersRequest (tp_deviceAddr prm) start count) 0x03
             (expectedReadHoldingRegistersResponseSize count) w of
        (Inl err, w) \<Rightarrow> (Inl err, w)
      | (Inr response, w) \<Rightarrow>
          (case parseReadHoldingRegistersResponse response (tp_deviceAddr prm) count of
             (status, err, registers) \<Rightarrow> (if status = ParseOk then Inr registers else Inl err, w)))"

fun wait_capture :: "'w thermal_env \<Rightarrow> thermal_params \<Rightarrow> nat \<Rightarrow> 'w \<Rightarrow> (string + unit) \<times> 'w" where
  "wait_capture env prm 0 w = (Inl ''Capture timeout'', w)"
| "wait_capture env prm (Suc polls) w =
     (case session_readRegisters env prm kRegisterCaptureControl 1 w of
        (Inl err, w) \<Rightarrow> (Inl err, w)
      | (Inr stateRegisters, w) \<Rightarrow>
          if length stateRegisters \<noteq> 1 then (Inl ''Capture state response is invalid'', w)
          else if stateRegisters ! 0 = kCaptureSuccessValue then (Inr (), w)
          else if stateRegisters ! 0 = kCaptureFailureValue then (Inl ''Device reported capture failure'', w)
          else wait_capture env prm polls w)"

definition image_result :: "(u16 \<Rightarrow> rat) \<Rightarrow> u16 list \<Rightarrow> capture_result" where
  "image_result degC rawPixels =
     (let temps = map degC rawPixels; t0 = degC (rawPixels ! 0) in
      \<lparr>cr_rawTemperatures = rawPixels, cr_temperaturesDegC = temps,
       cr_minTempDegC = foldl (\<lambda>m temp. if temp < m then temp else m) t0 temps,
       cr_maxTempDegC = foldl (\<lambda>m temp. if temp > m then temp else m) t0 temps\<rparr>)"

definition thermal_capture ::
  "'w thermal_env \<Rightarrow> thermal_params \<Rightarrow> 'w \<Rightarrow> (string + capture_result) \<times> 'w" where
  "thermal_capture env prm w =
     (case session_writeSingleRegister env prm kRegisterCaptureControl kCaptureStartValue w of
        (Inl err, w) \<Rightarrow> (Inl err, w)
      | (Inr _, w) \<Rightarrow>
          (case wait_capture env prm (te_polls env (tp_scanTimeoutMs prm) (tp_pollIntervalMs prm) w) w of
             (Inl err, w) \<Rightarrow> (Inl err, w)
           | (Inr _, w) \<Rightarrow>
               (case session_readRegisters env prm 0 (of_nat kImagePixelCount) w of
                  (Inl err, w) \<Rightarrow> (Inl err, w)
                | (Inr rawPixels, w) \<Rightarrow>
                    if length rawPixels \<noteq> kImagePixelCount then (Inl ''Image register count mismatch'', w)
                    else (Inr (image_result (te_degC env) rawPixels), w))))"

section \<open>The handler\<close>

text \<open>The device address is cut to a byte before its range is checked.\<close>

definition resolveSerialParams :: "json_obj \<Rightarrow> string + thermal_params" where
  "resolveSerialParams p =
     (let addr = word_of_int (to_int_or 1 (jval p ''device_addr'')) :: byte;
          timeoutMs = to_int_or 3000 (jval p ''timeout_ms'');
          scanTimeoutMs = to_int_or 25000 (jval p ''scan_timeout_ms'');
          pollIntervalMs = to_int_or 1000 (jval p ''poll_interval_ms'');
          portName = trim_spaces (to_string (jval p ''port_name''));
          baudRate = to_int_or 115200 (jval p ''baud_rate'');
          parity = ascii_lower (trim_spaces (to_string_or ''none'' (jval p ''parity'')));
          stopBits = trim_spaces (to_string_or ''1'' (jval p ''stop_bits'')) in
      if addr < 1 \<or> addr > 254 then Inl ''device_addr must be 1-254''
      else if timeoutMs < 100 \<or> timeoutMs > 60000 then Inl ''timeout_ms must be 100-60000''
      else if scanTimeoutMs < 1 \<or> scanTimeoutMs > 120000 then Inl ''scan_timeout_ms must be 1-120000''
      else if pollIntervalMs < 1 \<or> pollIntervalMs > 10000 then Inl ''poll_interval_ms must be 1-10000''
      else if portName = [] then Inl ''port_name is required''
      else if baudRate \<le> 0 then Inl ''baud_rate must be > 0''
      else if parity \<notin> {''none'', ''odd'', ''even''} then Inl ''parity must be one of none, odd, even''
      else if stopBits \<notin> {''1'', ''2''} then Inl ''stop_bits must be 1 or 2''
      else Inr \<lparr>tp_portName = portName, tp_baudRate = baudRate, tp_parity = parity, tp_stopBits = stopBits,
                tp_deviceAddr = addr, tp_timeoutMs = timeoutMs, tp_scanTimeoutMs = scanTimeoutMs,
                tp_pollIntervalMs = pollIntervalMs\<rparr>)"

text \<open>\<open>QFileInfo::suffix\<close>: what follows the last dot of the file name.\<close>

definition path_suffix :: "string \<Rightarrow> string" where
  "path_suffix p =
     (let name = last (split_at_char (CHR ''/'') p) in
      if CHR ''.'' \<in> set name then last (split_at_char (CHR ''.'') name) else [])"

definition inferFormatFromPath :: "string \<Rightarrow> string" where
  "inferFormatFromPath outputPath =
     (let suffix = ascii_lower (trim_spaces (path_suffix outputPath)) in
      if suffix = ''json'' then ''json'' else if suffix = ''csv'' then ''csv''
      else if suffix \<in> {''raw'', ''bin'', ''dat''} then ''raw'' else ''png'')"

definition resolveOutputFormat :: "json_obj \<Rightarrow> string" where
  "resolveOutputFormat p =
     (let explicitFormat = ascii_lower (trim_spaces (to_string (jval p ''format'')));
          outputPath = trim_spaces (to_string (jval p ''output'')) in
      if explicitFormat \<noteq> [] then explicitFormat
      else if outputPath = [] then ''png'' else inferFormatFromPath outputPath)"

definition captureJson :: "capture_result \<Rightarrow> json_obj" where
  "captureJson r =
     jset ''temperatures_deg_c'' (JArr (map JNum (cr_temperaturesDegC r))) (jset ''max_temp_deg_c'' (JNum (cr_maxTempDegC r))
       (jset ''min_temp_deg_c'' (JNum (cr_minTempDegC r)) (jset ''height'' (jint 24) (jset ''width'' (jint 32) []))))"

text \<open>One line of the table for each row; nothing of the writes' results is looked at.\<close>

definition csv_text :: "(rat \<Rightarrow> bytes) \<Rightarrow> capture_result \<Rightarrow> bytes" where
  "csv_text number r =
     concat (map (\<lambda>y. concat (map (\<lambda>x. (if x > 0 then [0x2C] else []) @ number (cr_temperaturesDegC r ! (y * 32 + x))) [0..<32])
       @ [0x0A]) [0..<24])"

definition write_output_file :: "'w thermal_env \<Rightarrow> string \<Rightarrow> bool \<Rightarrow> bytes \<Rightarrow> 'w \<Rightarrow> (string + unit) \<times> 'w" where
  "write_output_file env outputPath text content w =
     (case fe_open (te_files env) outputPath text w of
        (False, w) \<Rightarrow> (Inl (''Failed to open output file: '' @ outputPath), w)
      | (True, w) \<Rightarrow> (Inr (), snd (fe_write (te_files env) content w)))"

definition saveCaptureOutput ::
  "'w thermal_env \<Rightarrow> string \<Rightarrow> string \<Rightarrow> capture_result \<Rightarrow> 'w \<Rightarrow> (string + unit) \<times> 'w" where
  "saveCaptureOutput env outputPath format r w =
     (case ensureOutputDirectory (te_files env) outputPath w of
        (Inl err, w) \<Rightarrow> (Inl err, w)
      | (Inr _, w) \<Rightarrow>
          if format = ''png'' then
            (case te_save_png env outputPath r w of
               (False, w) \<Rightarrow> (Inl (''Failed to save PNG: '' @ outputPath), w)
             | (True, w) \<Rightarrow> (Inr (), w))
          else if format = ''json'' then write_output_file env outputPath False (te_json_text env (JObj (captureJson r))) w
          else if format = ''csv'' then write_output_file env outputPath True (csv_text (te_csv_number env) r) w
          else if format = ''raw''
          then write_output_file env outputPath False (concat (map be16 (cr_rawTemperatures r))) w
          else (Inl (''Unsupported format: '' @ format), w))"

definition thermal_error :: "int \<Rightarrow> string \<Rightarrow> message" where
  "thermal_error code text = resp_error code (message_object text)"

text \<open>The transport is closed when the session ends, on every way out after it was created.\<close>

definition thermal_handle :: "'w thermal_env \<Rightarrow> string \<Rightarrow> json \<Rightarrow> 'w \<Rightarrow> message \<times> 'w" where
  "thermal_handle env cmd data w =
     (let p = to_object data in
      if cmd = ''status'' then (resp_done 0 (JObj (jset ''status'' (JStr ''ready'') [])), w)
      else if cmd \<noteq> ''capture'' then (thermal_error 404 (''Unknown command: '' @ cmd), w)
      else case resolveSerialParams p of
        Inl err \<Rightarrow> (thermal_error 3 err, w)
      | Inr prm \<Rightarrow>
          (case te_open env prm w of
             (Some err, w) \<Rightarrow> (thermal_error 1 err, te_close env w)
           | (None, w) \<Rightarrow>
               let outputPath = trim_spaces (to_string (jval p ''output'')); format = resolveOutputFormat p in
               if format \<notin> {''png'', ''json'', ''csv'', ''raw''}
               then (thermal_error 3 ''format must be one of png, json, csv, raw'', te_close env w)
               else case thermal_capture env prm w of
                 (Inl err, w) \<Rightarrow> (thermal_error 2 err, te_close env w)
               | (Inr r, w) \<Rightarrow>
                   if outputPath = [] then (resp_done 0 (JObj (captureJson r)), te_close env w)
                   else case saveCaptureOutput env outputPath format r w of
                     (Inl err, w) \<Rightarrow> (thermal_error 1 err, te_close env w)
                   | (Inr _, w) \<Rightarrow>
                       (resp_done 0 (JObj (jset ''format'' (JStr format) (jset ''output'' (JStr outputPath) (captureJson r)))),
                        te_close env w)))"

end
