(* ===== verification/ThermalSpec.thy ===== *)
theory ThermalSpec
  imports ThermalDriver ModbusRtuClientSpec
begin

text \<open>
  The temperature scanner's driver with a device that follows the protocol: the temperatures of the
  answer are the image of the device, however long the capture takes and however the line cuts the
  frames; an answer that is damaged in one byte is never taken for data. Two limits of the code follow:
  reads of 128 to 255 registers can never succeed, and a file that could not be written is reported as
  saved.
\<close>

section \<open>Frames\<close>

lemma finalizeRequest_frame: "finalizeRequest (u # pdu) = buildRtuResponse u pdu"
  by (simp add: finalizeRequest_def buildRtuResponse_def)

lemma length_requests:
  "length (buildReadHoldingRegistersRequest a s n) = 8" "length (buildWriteSingleRegisterRequest a s n) = 8"
  by (simp_all add: buildReadHoldingRegistersRequest_def buildWriteSingleRegisterRequest_def finalizeRequest_def Let_def)

lemma parseCommonHeader_frame:
  "fc = 0x03 \<or> fc = 0x06 \<Longrightarrow> parseCommonHeader (finalizeRequest (addr # fc # b # data)) addr fc = (ParseOk, [])"
  by (auto simp: parseCommonHeader_def finalizeRequest_frame rtu_frame_nth012 verifyCRC_build)

lemma parse_registers_frame:
  assumes "length vs = unat n" and "if n > 255 then b = 0 else ucast b = n * 2"
  shows "parseReadHoldingRegistersResponse (finalizeRequest (addr # 0x03 # b # concat (map be16 vs))) addr n = (ParseOk, [], vs)"
proof -
  have "length (concat (map be16 vs)) = unat n * 2" by (simp add: assms(1) [symmetric])
  moreover have "read_words (buildRtuResponse addr (3 # b # concat (map be16 vs))) 3 (unat n) = vs"
    unfolding assms(1) [symmetric] by (rule rtu_words_at)
  ultimately show ?thesis
    using parseCommonHeader_frame [where fc = 3 and addr = addr and b = b and data = "concat (map be16 vs)"] assms(2)
    by (auto simp: parseReadHoldingRegistersResponse_def expectedReadHoldingRegistersResponseSize_def finalizeRequest_frame
        rtu_frame_nth012 split: if_splits)
qed

text \<open>A frame of the expected kind is collected whole, however it is cut.\<close>

lemma collect_whole:
  assumes "5 \<le> length r" and "r ! 0 = addr" and "r ! 1 = fc" and "fc OR 0x80 \<noteq> fc"
    and "buffer @ concat chunks = r" and "length buffer < length r"
  shows "collect_response addr fc (length r) err buffer chunks = Inr r"
  using assms(5,6)
proof (induction chunks arbitrary: buffer)
  case (Cons chunk chunks)
  let ?b = "buffer @ chunk"
  have eq: "?b @ concat chunks = r" using Cons.prems(1) by simp
  have same: "?b ! i = r ! i" if "i < length ?b" for i using that eq by (metis nth_append)
  show ?case
  proof (cases "length ?b < length r")
    case True
    moreover have "?b ! 0 = addr \<and> ?b ! 1 = fc" if "5 \<le> length ?b"
    proof -
      have "0 < length ?b" "1 < length ?b" using that by linarith+
      then show ?thesis using same assms(2,3) by blast
    qed
    ultimately show ?thesis
      using Cons.IH [OF eq True] assms(4) by (cases "length ?b < 5") (simp_all add: Let_def)
  next
    case False
    then have "?b = r" using eq by (metis append_Nil2 append_eq_conv_conj length_append le_add1 linorder_not_less take_all)
    then show ?thesis using assms(1-4) by (simp add: Let_def)
  qed
qed simp

section \<open>A damaged answer\<close>

lemma collect_prefix:
  assumes "collect_response addr fc n err buffer chunks = Inr r" and "5 \<le> n"
  shows "\<exists>size. r = take size (buffer @ concat chunks) \<and> (size = n \<or> size = 5 \<and> r ! 1 = fc OR 0x80) \<and> size \<le> length (buffer @ concat chunks)"
  using assms(1)
proof (induction chunks arbitrary: buffer)
  case (Cons chunk chunks)
  let ?b = "buffer @ chunk"
  show ?case
  proof (cases "length ?b < 5 \<or> length ?b < (if ?b ! 1 = fc OR 0x80 then 5 else n)")
    case True
    then have "collect_response addr fc n err ?b chunks = Inr r"
      using Cons.prems by (auto simp: Let_def split: if_splits)
    from Cons.IH [OF this] show ?thesis by simp
  next
    case False
    then have "r = take (if ?b ! 1 = fc OR 0x80 then 5 else n) ?b"
      using Cons.prems by (auto simp: Let_def split: if_splits)
    with False show ?thesis
      using assms(2) by (intro exI [of _ "if ?b ! 1 = fc OR 0x80 then 5 else n"]) (auto simp: nth_append)
  qed
qed simp

text \<open>The answer to a read, when one of its bytes is not what the device has sent.\<close>

lemma parse_needs_crc:
  "fst (parseReadHoldingRegistersResponse frame addr n) = ParseOk \<Longrightarrow>
     verifyCRC frame \<and> length frame = expectedReadHoldingRegistersResponseSize n \<and> frame ! 1 = 0x03"
  by (auto simp: parseReadHoldingRegistersResponse_def parseCommonHeader_def Let_def split: if_splits)

text \<open>C35: A damaged answer is never taken for data: whatever request for registers the session has
  written, when the bytes that come back are the frame of an answer of the awaited length with one byte
  changed, in any chunks and with any bytes after it, the read reports an error.\<close>

theorem damaged_answer_never_data:
  assumes "te_exchange env (tp_timeoutMs prm) (buildReadHoldingRegistersRequest (tp_deviceAddr prm) a n) w = (Inr (chunks, err), w')"
    and "concat chunks = frame[i := x] @ trailing" and "verifyCRC frame" and "length frame = expectedReadHoldingRegistersResponseSize n"
    and "i < length frame" and "x \<noteq> frame ! i"
  shows "\<exists>text. session_readRegisters env prm a n w = (Inl text, w')"
proof (rule ccontr)
  let ?size = "expectedReadHoldingRegistersResponseSize n"
  assume "\<nexists>text. session_readRegisters env prm a n w = (Inl text, w')"
  then obtain r where r: "collect_response (tp_deviceAddr prm) 0x03 ?size err [] chunks = Inr r"
      "fst (parseReadHoldingRegistersResponse r (tp_deviceAddr prm) n) = ParseOk"
    using assms(1) by (auto simp: session_readRegisters_def transact_def split: sum.splits prod.splits if_splits)
  have five: "5 \<le> ?size" by (simp add: expectedReadHoldingRegistersResponseSize_def)
  have checked: "verifyCRC r" "length r = ?size" "r ! 1 = 0x03" using parse_needs_crc [OF r(2)] by simp_all
  obtain k where "r = take k (concat chunks)" "k = ?size \<or> r ! 1 = 0x03 OR 0x80" "k \<le> length (concat chunks)"
    using collect_prefix [OF r(1) five] by auto
  then have "r = take ?size (concat chunks)" using checked(3) by auto
  then have "r = frame[i := x]" using assms(2,4) by simp
  moreover have "\<not> rtu_crc_ok (frame[i := x])"
    using assms(3-6) five by (intro rtu_one_byte_detected) (simp_all add: verifyCRC_iff)
  ultimately show False using checked(1) by (simp add: verifyCRC_iff)
qed

definition demo_answer :: bytes where
  "demo_answer = finalizeRequest (1 # 0x03 # 2 # concat (map be16 [10]))"

definition demo_thermal_env :: "(int \<Rightarrow> bytes \<Rightarrow> 'w \<Rightarrow> (string + bytes list \<times> string) \<times> 'w) \<Rightarrow> 'w thermal_env" where
  "demo_thermal_env exchange = \<lparr>te_open = (\<lambda>_ w. (None, w)), te_exchange = exchange, te_polls = (\<lambda>_ _ _. 5), te_close = id,
     te_degC = (\<lambda>raw. of_int (uint raw) / 100 - 27315 / 100), te_csv_number = (\<lambda>_. []), te_json_text = (\<lambda>_. []),
     te_files = \<lparr>fe_dirOf = id, fe_dir_exists = (\<lambda>_ _. True), fe_mkpath = (\<lambda>_ w. (True, w)), fe_open = (\<lambda>_ _ w. (True, w)),
       fe_write = (\<lambda>b w. (int (length b), w))\<rparr>, te_save_png = (\<lambda>_ _ w. (True, w))\<rparr>"

definition demo_thermal_request :: json_obj where
  "demo_thermal_request = [(''port_name'', JStr ''p'')]"

definition demo_thermal_params :: thermal_params where
  "demo_thermal_params = \<lparr>tp_portName = ''p'', tp_baudRate = 115200, tp_parity = ''none'', tp_stopBits = ''1'', tp_deviceAddr = 1,
     tp_timeoutMs = 3000, tp_scanTimeoutMs = 25000, tp_pollIntervalMs = 1000\<rparr>"

lemma damaged_answer_never_data_witness:
  "\<exists>text. session_readRegisters (demo_thermal_env (\<lambda>_ _ w. (Inr (bytewise (demo_answer[4 := 20]), []), w)))
     demo_thermal_params 60000 1 () = (Inl text, ())"
proof (rule damaged_answer_never_data [where frame = demo_answer and i = 4 and x = 20 and trailing = "[]"
      and chunks = "bytewise (demo_answer[4 := 20])" and err = "[]"])
  have parts: "demo_answer = buildRtuResponse 1 (0x03 # 2 # [0, 10])" by (simp add: demo_answer_def finalizeRequest_frame be16_def)
  show "verifyCRC demo_answer" unfolding parts by (rule verifyCRC_build) simp
  show "length demo_answer = expectedReadHoldingRegistersResponseSize 1" "4 < length demo_answer"
    by (simp_all add: parts rtu_frame_nth012 expectedReadHoldingRegistersResponseSize_def)
  show "20 \<noteq> demo_answer ! 4" by (simp add: parts buildRtuResponse_def Let_def)
  show "concat (bytewise (demo_answer[4 := 20])) = demo_answer[4 := 20] @ []"
    using bytewise_whole by (simp add: whole_chunks_def)
qed (simp add: demo_thermal_env_def)

section \<open>Reads that cannot succeed\<close>

text \<open>Between 128 and 255 registers the awaited byte count does not fit in its byte.\<close>

lemma wide_reads_always_fail:
  assumes "127 < n" and "n \<le> 255"
  shows "fst (parseReadHoldingRegistersResponse frame addr n) \<noteq> ParseOk"
proof -
  have "unat n \<le> 255" "127 < unat n" using assms by (simp_all add: word_less_nat_alt word_le_nat_alt)
  then have "unat (n * 2) = unat n * 2" by (simp add: unat_mult_lem [THEN iffD1])
  moreover have "unat (ucast (frame ! 2) :: u16) < 256"
    using unat_byte_less [of "frame ! 2"] by (simp add: unsigned_ucast_eq take_bit_nat_eq_self)
  ultimately have "unat (ucast (frame ! 2) :: u16) \<noteq> unat (n * 2)" using \<open>127 < unat n\<close> by linarith
  then have "ucast (frame ! 2) \<noteq> n * 2" by metis
  then show ?thesis using assms(2) by (auto simp: parseReadHoldingRegistersResponse_def Let_def not_less split: prod.split)
qed

section \<open>A device that follows the protocol\<close>

text \<open>A capture takes \<open>dv_latency\<close> polls; then the image can be read, with a byte count of zero.\<close>

record thermal_device =
  dv_addr :: byte
  dv_latency :: nat
  dv_busy :: nat
  dv_image :: "u16 list"

definition device_reply :: "bytes \<Rightarrow> thermal_device \<Rightarrow> bytes \<times> thermal_device" where
  "device_reply request d =
     (if request = buildWriteSingleRegisterRequest (dv_addr d) kRegisterCaptureControl kCaptureStartValue
      then (request, d\<lparr>dv_busy := dv_latency d\<rparr>)
      else if request = buildReadHoldingRegistersRequest (dv_addr d) kRegisterCaptureControl 1
      then (finalizeRequest (dv_addr d # 0x03 # 2 # be16 (if dv_busy d = 0 then kCaptureSuccessValue else 0)),
            d\<lparr>dv_busy := dv_busy d - 1\<rparr>)
      else if request = buildReadHoldingRegistersRequest (dv_addr d) 0 (of_nat kImagePixelCount)
      then (finalizeRequest (dv_addr d # 0x03 # 0 # concat (map be16 (dv_image d))), d)
      else ([], d))"

definition device_link :: "(bytes \<Rightarrow> bytes list) \<Rightarrow> int \<Rightarrow> bytes \<Rightarrow> thermal_device \<Rightarrow> (string + bytes list \<times> string) \<times> thermal_device" where
  "device_link split_up timeout request d = (let (reply, d') = device_reply request d in (Inr (split_up reply, []), d'))"

lemma requests_differ:
  "buildReadHoldingRegistersRequest a s n \<noteq> buildWriteSingleRegisterRequest a reg v"
  "buildReadHoldingRegistersRequest a 0 768 \<noteq> buildReadHoldingRegistersRequest a 60000 1"
  by (simp_all add: buildReadHoldingRegistersRequest_def buildWriteSingleRegisterRequest_def finalizeRequest_def Let_def be16_def)

lemma transact_whole:
  assumes "te_exchange env = device_link split_up" and "whole_chunks split_up"
    and "device_reply request d = (r, d')" and "length r = n" and "5 \<le> n" and "r ! 0 = tp_deviceAddr prm" and "r ! 1 = fc"
    and "fc OR 0x80 \<noteq> fc"
  shows "transact env prm request fc n d = (Inr r, d')"
  using collect_whole [of r "tp_deviceAddr prm" fc "[]" "split_up r" "[]"] assms
  by (simp add: transact_def device_link_def whole_chunks_def)

lemma device_registers:
  assumes "te_exchange env = device_link split_up" and "whole_chunks split_up"
    and "device_reply (buildReadHoldingRegistersRequest (tp_deviceAddr prm) a n) d
      = (finalizeRequest (tp_deviceAddr prm # 0x03 # b # concat (map be16 vs)), d')"
    and "length vs = unat n" and "if n > 255 then b = 0 else ucast b = n * 2"
  shows "session_readRegisters env prm a n d = (Inr vs, d')"
proof -
  let ?r = "finalizeRequest (tp_deviceAddr prm # 0x03 # b # concat (map be16 vs))"
  have "length (concat (map be16 vs)) = unat n * 2" by (simp add: assms(4) [symmetric])
  then have "transact env prm (buildReadHoldingRegistersRequest (tp_deviceAddr prm) a n) 0x03
      (expectedReadHoldingRegistersResponseSize n) d = (Inr ?r, d')"
    using transact_whole [OF assms(1-3)]
    by (simp add: expectedReadHoldingRegistersResponseSize_def finalizeRequest_frame rtu_frame_nth012)
  then show ?thesis using parse_registers_frame [OF assms(4,5)] by (simp add: session_readRegisters_def)
qed

lemma device_started:
  assumes "te_exchange env = device_link split_up" and "whole_chunks split_up" and "dv_addr d = tp_deviceAddr prm"
  shows "session_writeSingleRegister env prm kRegisterCaptureControl kCaptureStartValue d
    = (Inr (), d\<lparr>dv_busy := dv_latency d\<rparr>)"
proof -
  let ?a = "tp_deviceAddr prm" and ?r = "buildWriteSingleRegisterRequest (tp_deviceAddr prm) 60000 100"
  have reply: "device_reply ?r d = (?r, d\<lparr>dv_busy := dv_latency d\<rparr>)" using assms(3) by (simp add: device_reply_def)
  have "be16 60000 = [0xEA, 0x60]" "be16 100 = [0, 0x64]" by code_simp+
  then have r: "?r = finalizeRequest (?a # 0x06 # 0xEA # [0x60, 0, 0x64])"
    by (simp add: buildWriteSingleRegisterRequest_def)
  have nth: "?r ! 0 = ?a" "?r ! 1 = 0x06" by (simp_all add: r finalizeRequest_frame rtu_frame_nth012)
  obtain crc where crc: "?r = [?a, 0x06] @ be16 60000 @ be16 100 @ crc"
    by (simp add: buildWriteSingleRegisterRequest_def finalizeRequest_def Let_def)
  have echo: "bytesToUInt16 ?r 2 = 60000" "bytesToUInt16 ?r 4 = 100"
    using read16_after [of "[?a, 0x06]" "be16 60000 @ be16 100 @ crc" 0] read16_after [of "[?a, 0x06]" "be16 60000 @ be16 100 @ crc" 2]
      read16_be16_at(2) [of 60000 100 crc]
    by (simp_all add: crc byte_ops read16_be16_at eval_nat_numeral)
  have "parseCommonHeader ?r ?a 0x06 = (ParseOk, [])" unfolding r by (rule parseCommonHeader_frame) simp
  then have "parseWriteSingleRegisterResponse ?r ?a 60000 100 = (ParseOk, [])"
    by (simp add: parseWriteSingleRegisterResponse_def echo length_requests)
  moreover have "transact env prm ?r 0x06 8 d = (Inr ?r, d\<lparr>dv_busy := dv_latency d\<rparr>)"
    by (rule transact_whole [OF assms(1,2) reply]) (simp_all add: length_requests nth [unfolded One_nat_def])
  ultimately show ?thesis by (simp add: session_writeSingleRegister_def)
qed

lemma device_polled:
  assumes "te_exchange env = device_link split_up" and "whole_chunks split_up" and "dv_addr d = tp_deviceAddr prm"
    and "dv_busy d < polls"
  shows "wait_capture env prm polls d = (Inr (), d\<lparr>dv_busy := 0\<rparr>)"
  using assms(3,4)
proof (induction polls arbitrary: d)
  case (Suc polls)
  let ?v = "if dv_busy d = 0 then 10 else 0 :: u16"
  have "device_reply (buildReadHoldingRegistersRequest (tp_deviceAddr prm) 60000 1) d
      = (finalizeRequest (tp_deviceAddr prm # 0x03 # 2 # concat (map be16 [?v])), d\<lparr>dv_busy := dv_busy d - 1\<rparr>)"
    using Suc.prems(1) requests_differ(1) by (simp add: device_reply_def)
  from device_registers [OF assms(1,2) this]
  have "session_readRegisters env prm 60000 1 d = (Inr [?v], d\<lparr>dv_busy := dv_busy d - 1\<rparr>)" by simp
  then show ?case
    using Suc.IH [of "d\<lparr>dv_busy := dv_busy d - 1\<rparr>"] Suc.prems by (cases "dv_busy d") simp_all
qed simp

section \<open>The image\<close>

lemma foldl_min: "foldl (\<lambda>m t. if t < m then t else m) (x :: rat) xs = Min (insert x (set xs))"
proof (induction xs arbitrary: x)
  case (Cons y ys)
  have "(if y < x then y else x) = min x y" by (simp add: min_def)
  moreover have "Min (insert x (insert y (set ys))) = Min (insert (min x y) (set ys))"
    by (cases "ys = []") (simp_all add: min.assoc)
  ultimately show ?case by (simp add: Cons.IH)
qed simp

lemma foldl_max: "foldl (\<lambda>m t. if t > m then t else m) (x :: rat) xs = Max (insert x (set xs))"
proof (induction xs arbitrary: x)
  case (Cons y ys)
  have "(if y > x then y else x) = max x y" by (simp add: max_def)
  moreover have "Max (insert x (insert y (set ys))) = Max (insert (max x y) (set ys))"
    by (cases "ys = []") (simp_all add: max.assoc)
  ultimately show ?case by (simp add: Cons.IH)
qed simp

definition image_answer :: "(u16 \<Rightarrow> rat) \<Rightarrow> u16 list \<Rightarrow> message" where
  "image_answer degC pixels =
     resp_done 0 (JObj (jset ''temperatures_deg_c'' (JArr (map (\<lambda>v. JNum (degC v)) pixels))
       (jset ''max_temp_deg_c'' (JNum (degC (Max (set pixels)))) (jset ''min_temp_deg_c'' (JNum (degC (Min (set pixels))))
       (jset ''height'' (jint 24) (jset ''width'' (jint 32) []))))))"

lemma image_result_answer:
  assumes "mono degC" and "pixels \<noteq> []"
  shows "resp_done 0 (JObj (captureJson (image_result degC pixels))) = image_answer degC pixels"
proof -
  have first: "insert (degC (pixels ! 0)) (degC ` set pixels) = degC ` set pixels" using assms(2) by auto
  have "Min (degC ` set pixels) = degC (Min (set pixels))" "Max (degC ` set pixels) = degC (Max (set pixels))"
    using assms by (simp_all add: mono_Min_commute mono_Max_commute)
  then show ?thesis
    using first by (simp add: image_answer_def captureJson_def image_result_def foldl_min foldl_max Let_def comp_def)
qed

text \<open>C28: The driver delivers the device's image: with a device that follows the protocol and a port that
  can be opened, whatever the number of polls its capture takes before the scan's timeout, and however the
  line cuts the frames, the command \<open>capture\<close> with valid line parameters and neither of the parameters
  \<open>output\<close> and \<open>format\<close> (the image goes into the answer and to no file) is answered with the 768
  temperatures of the image in their order, and the lowest and highest of them; conversion from raw values
  is assumed monotone.\<close>

theorem capture_delivers_image:
  assumes "te_exchange env = device_link split_up" and "whole_chunks split_up" and "mono (te_degC env)"
    and "resolveSerialParams p = Inr prm" and "te_open env prm d = (None, d)" and "te_close env = id"
    and "dv_addr d = tp_deviceAddr prm" and "length (dv_image d) = 768"
    and "dv_latency d < te_polls env (tp_scanTimeoutMs prm) (tp_pollIntervalMs prm) (d\<lparr>dv_busy := dv_latency d\<rparr>)"
    and "jval p ''output'' = JUndefined" and "jval p ''format'' = JUndefined"
  shows "thermal_handle env ''capture'' (JObj p) d = (image_answer (te_degC env) (dv_image d), d\<lparr>dv_busy := 0\<rparr>)"
proof -
  let ?d0 = "d\<lparr>dv_busy := dv_latency d\<rparr>" and ?d1 = "d\<lparr>dv_busy := 0\<rparr>"
  have started: "session_writeSingleRegister env prm 60000 100 d = (Inr (), ?d0)"
    using device_started [OF assms(1,2,7)] .
  have polled: "wait_capture env prm (te_polls env (tp_scanTimeoutMs prm) (tp_pollIntervalMs prm) ?d0) ?d0 = (Inr (), ?d1)"
    using device_polled [OF assms(1,2), of ?d0] assms(7,9) by simp
  have "device_reply (buildReadHoldingRegistersRequest (tp_deviceAddr prm) 0 768) ?d1
      = (finalizeRequest (tp_deviceAddr prm # 0x03 # 0 # concat (map be16 (dv_image d))), ?d1)"
    using assms(7) requests_differ by (simp add: device_reply_def)
  from device_registers [OF assms(1,2) this] assms(8)
  have image: "session_readRegisters env prm 0 768 ?d1 = (Inr (dv_image d), ?d1)" by simp
  have "thermal_capture env prm d = (Inr (image_result (te_degC env) (dv_image d)), ?d1)"
    using assms(8) by (simp add: thermal_capture_def started polled image)
  moreover have "dv_image d \<noteq> []" using assms(8) by auto
  ultimately show ?thesis
    using image_result_answer [OF assms(3), of "dv_image d"] assms(4-6,10,11)
    by (simp add: thermal_handle_def resolveOutputFormat_def trim_spaces_def ascii_lower_def Let_def)
qed

definition demo_scanner :: thermal_device where
  "demo_scanner = \<lparr>dv_addr = 1, dv_latency = 3, dv_busy = 0, dv_image = 30015 # replicate 767 29315\<rparr>"

lemma capture_delivers_image_witness:
  "thermal_handle (demo_thermal_env (device_link bytewise)) ''capture'' (JObj demo_thermal_request) demo_scanner
    = (image_answer (te_degC (demo_thermal_env (device_link bytewise))) (30015 # replicate 767 29315), demo_scanner)"
proof -
  let ?env = "demo_thermal_env (device_link bytewise)"
  have mono: "mono (te_degC ?env)"
  proof (rule monoI)
    fix x y :: u16 assume "x \<le> y"
    then have "(of_int (uint x) :: rat) \<le> of_int (uint y)" by (simp only: of_int_le_iff word_le_def)
    then show "te_degC ?env x \<le> te_degC ?env y" by (simp add: demo_thermal_env_def divide_right_mono)
  qed
  have prm: "resolveSerialParams demo_thermal_request = Inr demo_thermal_params"
    by (simp add: resolveSerialParams_def demo_thermal_request_def demo_thermal_params_def trim_spaces_def is_space_char_def
        ascii_lower_def Let_def)
  have "thermal_handle ?env ''capture'' (JObj demo_thermal_request) demo_scanner
      = (image_answer (te_degC ?env) (dv_image demo_scanner), demo_scanner\<lparr>dv_busy := 0\<rparr>)"
    by (rule capture_delivers_image [OF _ bytewise_whole mono prm])
      (simp_all add: demo_thermal_env_def demo_scanner_def demo_thermal_params_def demo_thermal_request_def)
  then show ?thesis by (simp add: demo_scanner_def)
qed

end
