(* ===== verification/LaserHandler.thy ===== *)
theory LaserHandler
  imports LaserSession DriverCore OutputFile
begin

text \<open>
  The commands of the laser radar's driver (\<open>src/src/drivers/driver_3d_laser_radar/handler.cpp\<close>). A command
  checks its parameters, opens a session on a transport of its own when it has passed, and answers
  once. The transport, the files, the clock's number of polls and what is computed in double
  precision are an environment (\<open>laser_env\<close>).
\<close>

section \<open>The environment\<close>

record laser_connect =
  lc_host :: string
  lc_port :: int
  lc_timeoutMs :: int
  lc_taskTimeoutMs :: int
  lc_queryIntervalMs :: int

text \<open>
  \<open>le_open\<close> connects: an error, or the exchanges the transport will have; \<open>le_close\<close> gets the session at
  its end. \<open>le_polls\<close> is the number of polls begun before a task's timeout. \<open>le_milli\<close> and \<open>le_micro\<close> are
  \<open>llround\<close> of the product with 1000 and 1000000, as the 32-bit words they are cut to; \<open>le_quotient\<close> is the
  division of doubles.
\<close>

record 'w laser_env =
  le_open :: "laser_connect \<Rightarrow> 'w \<Rightarrow> (string + exchange list) \<times> 'w"
  le_close :: "laser_session \<Rightarrow> 'w \<Rightarrow> 'w"
  le_polls :: "int \<Rightarrow> int \<Rightarrow> nat"
  le_files :: "'w file_env"
  le_milli :: "rat \<Rightarrow> u32"
  le_micro :: "rat \<Rightarrow> u32"
  le_quotient :: "int \<Rightarrow> int \<Rightarrow> rat"

section \<open>Parameters\<close>

definition parseUnsignedParam :: "json_obj \<Rightarrow> string \<Rightarrow> nat \<Rightarrow> nat \<Rightarrow> nat option \<Rightarrow> string + nat" where
  "parseUnsignedParam p name minValue maxValue defaultValue =
     (let v = jval p name in
      if is_undefined v then (case defaultValue of Some d \<Rightarrow> Inr d | None \<Rightarrow> Inl (name @ '' is required''))
      else if \<not> is_double v then Inl (name @ '' must be a number'')
      else let x = to_double v in
        if x < of_nat minValue \<or> x > of_nat maxValue \<or> of_int \<lfloor>x\<rfloor> \<noteq> x
        then Inl (name @ '' must be an integer in ['' @ dec minValue @ '', '' @ dec maxValue @ '']'')
        else Inr (nat \<lfloor>x\<rfloor>))"

text \<open>The bounds of the code are whole numbers, printed without a fraction.\<close>

definition parseDoubleParam :: "json_obj \<Rightarrow> string \<Rightarrow> int \<Rightarrow> int \<Rightarrow> rat option \<Rightarrow> string + rat" where
  "parseDoubleParam p name minValue maxValue defaultValue =
     (let v = jval p name in
      if is_undefined v then (case defaultValue of Some d \<Rightarrow> Inr d | None \<Rightarrow> Inl (name @ '' is required''))
      else if \<not> is_double v then Inl (name @ '' must be a number'')
      else let x = to_double v in
        if x < of_int minValue \<or> x > of_int maxValue
        then Inl (name @ '' must be in ['' @ dec_int minValue @ '', '' @ dec_int maxValue @ '']'')
        else Inr x)"

definition task_timeout_param :: "json_obj \<Rightarrow> string + int" where
  "task_timeout_param p =
     (let v = jval p ''task_timeout_ms'' in
      if is_undefined v then Inr (- 1)
      else if \<not> is_double v then Inl ''task_timeout_ms must be a number''
      else let x = to_double v in
        if x < - 1 \<or> x > 3600000 \<or> of_int \<lfloor>x\<rfloor> \<noteq> x then Inl ''task_timeout_ms must be an integer in [-1, 3600000]''
        else Inr \<lfloor>x\<rfloor>)"

definition resolveConnectionParams :: "json_obj \<Rightarrow> string \<Rightarrow> string + laser_connect" where
  "resolveConnectionParams p cmd =
     (let host = trim_spaces (to_string_or ''127.0.0.1'' (jval p ''host''));
          host = (if host = [] then ''127.0.0.1'' else host);
          interval = (if cmd = ''scan_field'' then 5000 else 1000) in
      case parseUnsignedParam p ''port'' 1 65535 (Some 23) of Inl e \<Rightarrow> Inl e | Inr port \<Rightarrow>
      (case parseUnsignedParam p ''timeout_ms'' 100 300000 (Some 5000) of Inl e \<Rightarrow> Inl e | Inr timeoutMs \<Rightarrow>
      (case task_timeout_param p of Inl e \<Rightarrow> Inl e | Inr taskTimeoutMs \<Rightarrow>
      (case parseUnsignedParam p ''query_interval_ms'' 1 60000 (Some interval) of Inl e \<Rightarrow> Inl e | Inr queryIntervalMs \<Rightarrow>
        Inr \<lparr>lc_host = host, lc_port = int port, lc_timeoutMs = int timeoutMs, lc_taskTimeoutMs = taskTimeoutMs,
             lc_queryIntervalMs = int queryIntervalMs\<rparr>))))"

definition laser_resolveTaskTimeout :: "laser_connect \<Rightarrow> string \<Rightarrow> int" where
  "laser_resolveTaskTimeout conn cmd =
     (if lc_taskTimeoutMs conn > 0 then lc_taskTimeoutMs conn
      else if cmd = ''calib_x'' then 300000 else if cmd = ''calib_lidar'' then 60000
      else if cmd = ''move_x'' then 180000 else if cmd = ''scan_field'' then 600000 else 60000)"

section \<open>Names\<close>

definition cancelFeedbackName :: "byte \<Rightarrow> string" where
  "cancelFeedbackName resultCode =
     (if resultCode = 10 then ''can_stop'' else if resultCode = 20 then ''cannot_stop''
      else if resultCode = 30 then ''already_stopped'' else ''unknown'')"

definition queryStateName :: "u32 \<Rightarrow> string" where
  "queryStateName a =
     (if a = 0 then ''idle'' else if a = 1000 then ''running'' else if 2000 \<le> a \<and> a < 3000 then ''failed''
      else if a = 3000 then ''cancelled'' else if a = 4000 then ''success''
      else if a = 4001 then ''success_with_blank_scanlines'' else ''unknown'')"

definition laser_stateFlags :: "u32 \<Rightarrow> json_obj" where
  "laser_stateFlags rawState =
     fold (\<lambda>(name, i). jset name (JBool (bit rawState i)))
       [(''mcu_error'', 0), (''parameter_storage_error'', 1), (''ram_error'', 2), (''flash_error'', 3),
        (''x_motor_uncalibrated'', 5), (''lidar_uncalibrated'', 6)] []"

definition laser_knownCommands :: "string list" where
  "laser_knownCommands =
     [''test'', ''get_reg'', ''set_reg'', ''query'', ''cancel'', ''set_imaging_mode'', ''reboot'',
      ''get_data'', ''scan_field'', ''get_work_mode'', ''get_device_status'', ''get_device_code'',
      ''get_lidar_model_code'', ''get_distance_unit'', ''get_uptime_ms'', ''get_firmware_version'',
      ''get_data_block_size'', ''get_x_axis_ratio'', ''get_transfer_total_bytes'', ''calib_x'',
      ''calib_lidar'', ''move_x'']"

section \<open>Answers and sessions\<close>

definition laser_error :: "int \<Rightarrow> string \<Rightarrow> message" where
  "laser_error code text = resp_error code (message_object text)"

definition session_error_reply :: "session_error \<times> string \<Rightarrow> message" where
  "session_error_reply e = laser_error (if fst e = Transport then 1 else 2) (snd e)"

definition done_with :: "(string \<times> json) list \<Rightarrow> message" where
  "done_with members = resp_done 0 (JObj (fold (\<lambda>(k, v). jset k v) members []))"

abbreviation (input) "jword w \<equiv> jint (uint w)"

type_synonym 'w laser_step = "laser_session \<Rightarrow> 'w \<Rightarrow> message \<times> laser_session \<times> 'w"

text \<open>The session of a command: opened when the parameters are right, closed when the command ends.\<close>

definition in_session :: "'w laser_env \<Rightarrow> laser_connect \<Rightarrow> 'w laser_step \<Rightarrow> 'w \<Rightarrow> message \<times> 'w" where
  "in_session env conn step w =
     (case le_open env conn w of
        (Inl err, w) \<Rightarrow> (laser_error 1 err, w)
      | (Inr script, w) \<Rightarrow>
          (case step \<lparr>m_counter = 0, ls_script = script, ls_written = []\<rparr> w of
             (reply, s, w) \<Rightarrow> (reply, le_close env s w)))"

text \<open>A call of the session: its error is answered, its result goes on.\<close>

definition on_result :: "'a session_result \<times> laser_session \<Rightarrow> ('a \<Rightarrow> 'w laser_step) \<Rightarrow> 'w \<Rightarrow> message \<times> laser_session \<times> 'w" where
  "on_result called f w =
     (case called of (Inl e, s) \<Rightarrow> (session_error_reply e, s, w) | (Inr x, s) \<Rightarrow> f x s w)"

definition resetQueryState :: "(unit \<Rightarrow> 'w laser_step) \<Rightarrow> 'w laser_step" where
  "resetQueryState f s =
     on_result (query 200 s)
       (\<lambda>r s w. if lastCounter r \<noteq> 0 \<or> lastCommand r \<noteq> 0 \<or> resultA r \<noteq> 0 \<or> resultB r \<noteq> 0
                then (laser_error 2 ''query reset did not clear state'', s, w) else f () s w)"

definition answer_register :: "u16 \<Rightarrow> (u32 \<Rightarrow> message) \<Rightarrow> 'w laser_step" where
  "answer_register regId reply s = on_result (readRegister regId s) (\<lambda>v s w. (reply v, s, w))"

definition save_and_answer :: "'w laser_env \<Rightarrow> string \<Rightarrow> bytes \<Rightarrow> message \<Rightarrow> 'w laser_step" where
  "save_and_answer env outputPath content reply s w =
     (case writeBinaryFile (le_files env) outputPath content w of
        (Inl err, w) \<Rightarrow> (laser_error 1 err, s, w) | (Inr _, w) \<Rightarrow> (reply, s, w))"

section \<open>Commands with one answer\<close>

type_synonym 'w laser_command = "json_obj \<Rightarrow> laser_connect \<Rightarrow> 'w \<Rightarrow> message \<times> 'w"

definition laser_test :: "'w laser_env \<Rightarrow> 'w laser_command" where
  "laser_test env p conn w =
     (case parseUnsignedParam p ''value'' 0 0xFFFFFFFF (Some 0x12345678) of
        Inl e \<Rightarrow> (laser_error 3 e, w)
      | Inr n \<Rightarrow>
          (let v = of_nat n :: u32 in
           in_session env conn (\<lambda>s. on_result (sendAndReceive 3 (makeU32Payload v) s)
             (\<lambda>response s w.
                (case parseU32Payload (lf_payload response) of
                   None \<Rightarrow> laser_error 2 ''Invalid test response''
                 | Some echo \<Rightarrow>
                     if echo \<noteq> NOT v then laser_error 2 ''Device test echo mismatch''
                     else done_with [(''value'', jword v), (''echo'', jword echo)], s, w))) w))"

definition laser_get_reg :: "'w laser_env \<Rightarrow> 'w laser_command" where
  "laser_get_reg env p conn w =
     (case parseUnsignedParam p ''register'' 1 500 None of
        Inl e \<Rightarrow> (laser_error 3 e, w)
      | Inr r \<Rightarrow>
          in_session env conn (answer_register (of_nat r) (\<lambda>v. done_with [(''register'', jint (int r)), (''value'', jword v)])) w)"

definition laser_set_reg :: "'w laser_env \<Rightarrow> 'w laser_command" where
  "laser_set_reg env p conn w =
     (case parseUnsignedParam p ''register'' 1 500 None of
        Inl e \<Rightarrow> (laser_error 3 e, w)
      | Inr r \<Rightarrow>
          (case parseUnsignedParam p ''value'' 0 0xFFFFFFFF None of
             Inl e \<Rightarrow> (laser_error 3 e, w)
           | Inr n \<Rightarrow>
               in_session env conn (\<lambda>s. on_result (writeRegister (of_nat r) (of_nat n) s)
                 (\<lambda>echoed s w. (done_with [(''register'', jint (int r)), (''value'', jword echoed)], s, w))) w))"

definition laser_query :: "'w laser_env \<Rightarrow> 'w laser_command" where
  "laser_query env p conn w =
     (case parseUnsignedParam p ''op'' 100 200 (Some 100) of
        Inl e \<Rightarrow> (laser_error 3 ''op must be 100 or 200'', w)
      | Inr op \<Rightarrow>
          if op \<noteq> 100 \<and> op \<noteq> 200 then (laser_error 3 ''op must be 100 or 200'', w)
          else in_session env conn (\<lambda>s. on_result (query (of_nat op) s)
            (\<lambda>r s w. (done_with [(''counter'', jword (lastCounter r)), (''command'', jword (lastCommand r)),
               (''command_name'', JStr (commandName (lastCommand r))), (''result_a'', jword (resultA r)),
               (''result_b'', jword (resultB r)), (''state'', JStr (queryStateName (resultA r)))], s, w))) w)"

definition laser_cancel :: "'w laser_env \<Rightarrow> 'w laser_command" where
  "laser_cancel env p conn =
     in_session env conn (\<lambda>s. on_result (cancel s)
       (\<lambda>(counter, command, code) s w. (done_with [(''counter'', jword counter), (''command'', jword command),
          (''command_name'', JStr (commandName command)), (''result_code'', jword code),
          (''result'', JStr (cancelFeedbackName code))], s, w)))"

definition laser_accept :: "'w laser_env \<Rightarrow> string \<Rightarrow> 'w laser_command" where
  "laser_accept env cmd p conn =
     in_session env conn (\<lambda>s. on_result (sendAndReceive (if cmd = ''set_imaging_mode'' then 15 else 16) (makeU32Payload 100) s)
       (\<lambda>response s w.
          (case parseU32Payload (lf_payload response) of
             None \<Rightarrow> laser_error 2 ''Invalid command response''
           | Some feedback \<Rightarrow>
               if feedback \<noteq> 10 then laser_error 2 (cmd @ '' rejected by device'')
               else done_with [(''feedback_code'', jword feedback), (''feedback'', JStr ''accepted'')], s, w)))"

definition laser_get_data :: "'w laser_env \<Rightarrow> 'w laser_command" where
  "laser_get_data env p conn w =
     (case parseUnsignedParam p ''segment_index'' 0 0xFFFFFFFF None of
        Inl e \<Rightarrow> (laser_error 3 e, w)
      | Inr i \<Rightarrow>
          (let outputPath = trim_spaces (to_string (jval p ''output'')) in
           if outputPath = [] then (laser_error 3 ''output is required'', w)
           else in_session env conn (\<lambda>s. on_result (readSegment (of_nat i) s)
             (\<lambda>(segmentCount, segmentData). save_and_answer env outputPath segmentData
                (done_with [(''segment_index'', jint (int i)), (''segment_count'', jword segmentCount),
                   (''segment_length'', jint (int (length segmentData))), (''output'', JStr outputPath)]))) w))"

text \<open>The commands that read one register.\<close>

definition laser_register_answer :: "'w laser_env \<Rightarrow> string \<Rightarrow> (u16 \<times> (u32 \<Rightarrow> message)) option" where
  "laser_register_answer env cmd =
     (let plain = (\<lambda>reg field. Some (reg, \<lambda>v. done_with [(field, jword v)])) in
      if cmd = ''get_work_mode''
      then Some (1, \<lambda>v. done_with [(''mode_code'', jword v), (''mode'', JStr (workModeName v))])
      else if cmd = ''get_device_status''
      then Some (2, \<lambda>v. done_with [(''raw'', jword v), (''flags'', JObj (laser_stateFlags v))])
      else if cmd = ''get_device_code'' then plain 3 ''device_code''
      else if cmd = ''get_uptime_ms'' then plain 6 ''uptime_ms''
      else if cmd = ''get_firmware_version'' then plain 14 ''firmware_version''
      else if cmd = ''get_data_block_size'' then plain 18 ''data_block_size''
      else if cmd = ''get_transfer_total_bytes'' then plain 40 ''total_bytes''
      else if cmd = ''get_lidar_model_code''
      then Some (4, \<lambda>v. done_with [(''model_code'', jword v),
             (''model_name'', JStr (if v = 2100 then ''KS2100'' else ''unknown''))])
      else if cmd = ''get_distance_unit''
      then Some (5, \<lambda>v. done_with [(''unit_nm'', jword v), (''unit_mm'', JNum (le_quotient env (uint v) 1000000))])
      else if cmd = ''get_x_axis_ratio''
      then Some (22, \<lambda>v. done_with [(''raw_ratio'', jword v), (''ratio'', JNum (le_quotient env (uint v) 100000))])
      else None)"

section \<open>Tasks\<close>

text \<open>A task is started after the state of the last one is cleared, and waited for.\<close>

definition run_task ::
  "'w laser_env \<Rightarrow> string \<Rightarrow> laser_connect \<Rightarrow> byte \<Rightarrow> bytes \<Rightarrow> (u16 \<Rightarrow> query_result \<Rightarrow> 'w laser_step) \<Rightarrow> 'w laser_step" where
  "run_task env cmd conn command payload f =
     resetQueryState (\<lambda>_ s.
       on_result (sendExpectNoImmediateResponse command payload s)
         (\<lambda>counter s.
            on_result (waitTaskCompleted counter command
                (le_polls env (laser_resolveTaskTimeout conn cmd) (lc_queryIntervalMs conn)) s)
              (f counter)))"

definition result_members :: "query_result \<Rightarrow> (string \<times> json) list" where
  "result_members r = [(''result_a'', jword (resultA r)), (''result_b'', jword (resultB r))]"

definition error_members :: "(string \<times> json) list \<Rightarrow> message" where
  "error_members members = resp_error 2 (JObj (fold (\<lambda>(k, v). jset k v) members []))"

definition scan_field_done ::
  "'w laser_env \<Rightarrow> string \<Rightarrow> u16 \<Rightarrow> query_result \<Rightarrow> 'w laser_step" where
  "scan_field_done env outputPath counter r s w =
     (if 2000 \<le> resultA r \<and> resultA r < 3000
      then (error_members ((''message'', JStr ''scan_field failed'') # result_members r
              @ [(''error_code'', jword (resultA r - 2000))]), s, w)
      else if resultA r \<noteq> 4000 \<and> resultA r \<noteq> 4001
      then (error_members ((''message'', JStr ''scan_field did not finish successfully'') # result_members r), s, w)
      else
        on_result (collectAllSegments s)
          (\<lambda>aggregate s w.
             if resultB r > 0 \<and> byteCount aggregate \<noteq> sint (resultB r)
             then (laser_error 2 ''Aggregated byte count does not match query result'', s, w)
             else save_and_answer env outputPath (agg_data aggregate)
               (done_with ([(''task_counter'', jword counter), (''task_command'', JStr ''scan_field'')] @ result_members r
                 @ [(''segment_count'', jint (segmentCount aggregate)), (''byte_count'', jint (byteCount aggregate)),
                    (''has_blank_scanlines'', JBool (resultA r = 4001)), (''output'', JStr outputPath)])) s w) w)"

definition scan_angles :: "json_obj \<Rightarrow> string + (rat \<times> rat \<times> rat \<times> rat \<times> rat \<times> rat)" where
  "scan_angles p =
     (case parseDoubleParam p ''begin_x_deg'' 0 190 None of Inl e \<Rightarrow> Inl e | Inr bx \<Rightarrow>
     (case parseDoubleParam p ''end_x_deg'' 0 360 None of Inl e \<Rightarrow> Inl e | Inr ex \<Rightarrow>
     (case parseDoubleParam p ''step_x_deg'' 0 190 (Some 0) of Inl e \<Rightarrow> Inl e | Inr sx \<Rightarrow>
     (case parseDoubleParam p ''begin_y_deg'' (- 5) 185 (Some 0) of Inl e \<Rightarrow> Inl e | Inr bY \<Rightarrow>
     (case parseDoubleParam p ''end_y_deg'' (- 5) 360 (Some 0) of Inl e \<Rightarrow> Inl e | Inr ey \<Rightarrow>
     (case parseDoubleParam p ''step_y_deg'' 0 190 (Some 0) of Inl e \<Rightarrow> Inl e | Inr sy \<Rightarrow>
        if ex < bx then Inl ''end_x_deg must be >= begin_x_deg''
        else if (bY \<noteq> 0 \<or> ey \<noteq> 0) \<and> ey < bY then Inl ''end_y_deg must be >= begin_y_deg''
        else Inr (bx, ex, sx, bY, ey, sy)))))))"

definition laser_scan_field :: "'w laser_env \<Rightarrow> 'w laser_command" where
  "laser_scan_field env p conn w =
     (let outputPath = trim_spaces (to_string (jval p ''output'')) in
      if outputPath = [] then (laser_error 3 ''output is required'', w)
      else case scan_angles p of
        Inl e \<Rightarrow> (laser_error 3 e, w)
      | Inr (bx, ex, sx, bY, ey, sy) \<Rightarrow>
          in_session env conn
            (run_task env ''scan_field'' conn 11
               (makeScanFieldPayload (le_milli env bx) (le_milli env ex) (le_micro env sx)
                  (le_milli env bY) (le_milli env ey) (le_micro env sy))
               (scan_field_done env outputPath)) w)"

definition task_done :: "string \<Rightarrow> byte \<Rightarrow> u16 \<Rightarrow> query_result \<Rightarrow> 'w laser_step" where
  "task_done cmd command counter r s w =
     ((if resultA r = 4000
       then done_with ([(''task_counter'', jword counter), (''task_command'', JStr (commandName command))] @ result_members r
              @ [(''state'', JStr (queryStateName (resultA r)))])
       else error_members ([(''message'', JStr (cmd @ '' failed'')), (''task_counter'', jword counter)] @ result_members r
              @ [(''state'', JStr (queryStateName (resultA r))),
                 (''error_code'', if 2000 \<le> resultA r \<and> resultA r < 3000 then jword (resultA r - 2000) else jint 0)])),
      s, w)"

definition laser_task_command :: "'w laser_env \<Rightarrow> string \<Rightarrow> 'w laser_command" where
  "laser_task_command env cmd p conn w =
     (let run = (\<lambda>command payload. in_session env conn (run_task env cmd conn command payload (task_done cmd command)) w) in
      if cmd = ''calib_x'' then run 4 (makeU32Payload 100)
      else if cmd = ''calib_lidar'' then run 8 (makeU32Payload 100)
      else case parseDoubleParam p ''angle_deg'' 0 190 None of
        Inl e \<Rightarrow> (laser_error 3 e, w)
      | Inr angle \<Rightarrow> run 7 (makeU32Payload (le_milli env angle)))"

section \<open>The handler\<close>

definition laser_handle :: "'w laser_env \<Rightarrow> string \<Rightarrow> json \<Rightarrow> 'w \<Rightarrow> message \<times> 'w" where
  "laser_handle env cmd data w =
     (let p = to_object data in
      if cmd = ''status'' then (done_with [(''status'', JStr ''ready'')], w)
      else if cmd \<notin> set laser_knownCommands then (laser_error 404 (''Unknown command: '' @ cmd), w)
      else case resolveConnectionParams p cmd of
        Inl e \<Rightarrow> (laser_error 3 e, w)
      | Inr conn \<Rightarrow>
          if cmd = ''test'' then laser_test env p conn w
          else if cmd = ''get_reg'' then laser_get_reg env p conn w
          else if cmd = ''set_reg'' then laser_set_reg env p conn w
          else if cmd = ''query'' then laser_query env p conn w
          else if cmd = ''cancel'' then laser_cancel env p conn w
          else if cmd = ''set_imaging_mode'' \<or> cmd = ''reboot'' then laser_accept env cmd p conn w
          else if cmd = ''get_data'' then laser_get_data env p conn w
          else if cmd = ''scan_field'' then laser_scan_field env p conn w
          else if cmd = ''calib_x'' \<or> cmd = ''calib_lidar'' \<or> cmd = ''move_x'' then laser_task_command env cmd p conn w
          else case laser_register_answer env cmd of
            Some (reg, reply) \<Rightarrow> in_session env conn (answer_register reg reply) w
          | None \<Rightarrow> (laser_error 404 (''Unknown command: '' @ cmd), w))"

end
