(* ===== verification/LaserHandlerSpec.thy ===== *)
theory LaserHandlerSpec
  imports LaserHandler LaserSessionSpec
begin

text \<open>
  The laser radar's \<open>scan_field\<close>, from its parameters to the file: with a device that carries the scan
  out, the requests that are sent are exactly a reset of the task state, the scan, one query per poll
  and one request per segment, under consecutive counters, and the file gets the segments' bytes in
  order.
\<close>

section \<open>Polling\<close>

definition query_payload :: "u16 \<Rightarrow> byte \<Rightarrow> u32 \<Rightarrow> u32 \<Rightarrow> bytes" where
  "query_payload counter command a b = be16 counter @ [command] @ be32 a @ be32 b"

lemma parse_query_payload:
  "parseQueryResponse (query_payload counter command a b)
     = Some \<lparr>lastCounter = counter, lastCommand = command, resultA = a, resultB = b\<rparr>"
proof -
  have "read32 (query_payload counter command a b) 3 = a"
    using read32_skip [of "be16 counter @ [command]" 3 a "be32 b"] by (simp add: query_payload_def read32_be32)
  moreover have "read32 (query_payload counter command a b) 7 = b"
    using read32_skip [of "be16 counter @ [command] @ be32 a" 7 b "[]"] by (simp add: query_payload_def)
  moreover have "read16 (query_payload counter command a b) 0 = counter" by (simp add: query_payload_def read16_be16)
  moreover have "query_payload counter command a b ! 2 = command" by (simp add: query_payload_def be16_def)
  ultimately show ?thesis by (simp add: parseQueryResponse_def query_payload_def)
qed

definition sent_one :: "byte \<Rightarrow> bytes \<Rightarrow> exchange list \<Rightarrow> laser_session \<Rightarrow> laser_session" where
  "sent_one command request xs s =
     s\<lparr>m_counter := m_counter s + 1, ls_script := xs,
       ls_written := ls_written s @ [encodeFrame (m_counter s) 0 command request]\<rparr>"

lemma query_answer:
  assumes "ls_script s = x # xs" and "answers_with 6 (query_payload counter command a b) x"
  shows "query op s = (Inr \<lparr>lastCounter = counter, lastCommand = command, resultA = a, resultB = b\<rparr>,
    sent_one 6 (makeU32Payload op) xs s)"
proof -
  have "payload_ok (query_payload counter command a b)" by (simp add: payload_ok_def query_payload_def)
  from receive_answer [OF this assms, of "makeU32Payload op"] show ?thesis
    by (auto simp: query_def laser_frame_of_def sent_one_def parse_query_payload Let_def)
qed

definition unanswered :: "exchange \<Rightarrow> bool" where
  "unanswered x \<longleftrightarrow> x_write_error x = None \<and> x_reads x = []"

lemma query_unanswered:
  "ls_script s = x # xs \<Longrightarrow> unanswered x \<Longrightarrow>
     query op s = (Inl (Transport, ''TCP read timeout''), sent_one 6 (makeU32Payload op) xs s)"
  by (simp add: query_def sendAndReceive_def reserveCounter_def writeFrame_def unanswered_def sent_one_def)

text \<open>A poll that does not end the wait: no answer, the result of another task, or one still running.\<close>

definition still_waiting :: "u16 \<Rightarrow> byte \<Rightarrow> exchange \<Rightarrow> bool" where
  "still_waiting counter command x \<longleftrightarrow> unanswered x
     \<or> (\<exists>c cmd a b. answers_with 6 (query_payload c cmd a b) x \<and> (c \<noteq> counter \<or> cmd \<noteq> command \<or> a = 1000))"

definition polls_sent :: "nat \<Rightarrow> exchange list \<Rightarrow> laser_session \<Rightarrow> laser_session" where
  "polls_sent n xs s =
     s\<lparr>m_counter := m_counter s + of_nat n, ls_script := xs,
       ls_written := ls_written s @ map (\<lambda>k. encodeFrame (m_counter s + of_nat k) 0 6 (makeU32Payload 100)) [0..<n]\<rparr>"

lemma polls_sent_Suc: "polls_sent n xs (sent_one 6 (makeU32Payload 100) ys s) = polls_sent (Suc n) xs s"
  by (simp add: polls_sent_def sent_one_def map_upt_Suc ac_simps del: upt_Suc)

lemma wait_over:
  assumes "list_all (still_waiting counter command) busy" and "length busy < polls"
    and "answers_with 6 (query_payload counter command a b) x" and "a \<noteq> 1000"
    and "ls_script s = busy @ x # rest"
  shows "waitTaskCompleted counter command polls s
    = (Inr \<lparr>lastCounter = counter, lastCommand = command, resultA = a, resultB = b\<rparr>, polls_sent (Suc (length busy)) rest s)"
  using assms
proof (induction polls arbitrary: busy s)
  case (Suc polls)
  show ?case
  proof (cases busy)
    case Nil
    then show ?thesis
      using query_answer [of s x rest counter command a b 100] Suc.prems
      by (simp add: polls_sent_def sent_one_def)
  next
    case (Cons y ys)
    let ?s = "sent_one 6 (makeU32Payload 100) (ys @ x # rest) s"
    have script: "ls_script s = y # (ys @ x # rest)" using Suc.prems(5) Cons by simp
    have "waitTaskCompleted counter command (Suc polls) s = waitTaskCompleted counter command polls ?s"
    proof -
      have "still_waiting counter command y" using Suc.prems(1) Cons by simp
      then show ?thesis
        unfolding still_waiting_def using query_answer [OF script] query_unanswered [OF script] by (auto simp del: waitTaskCompleted.simps(1))
    qed
    also have "\<dots> = (Inr \<lparr>lastCounter = counter, lastCommand = command, resultA = a, resultB = b\<rparr>,
        polls_sent (Suc (length ys)) rest ?s)"
      using Suc.prems Cons by (intro Suc.IH) (simp_all add: sent_one_def)
    finally show ?thesis using Cons by (simp add: polls_sent_Suc)
  qed
qed simp

section \<open>A scan\<close>

text \<open>The read after a long-running command is begun runs into its timeout.\<close>

definition stays_silent :: "exchange \<Rightarrow> bool" where
  "stays_silent x \<longleftrightarrow> x_write_error x = None
     \<and> (case x_reads x of [] \<Rightarrow> True | ReadFailed e # _ \<Rightarrow> contains_text ''timeout'' (ascii_lower e) | Chunk _ # _ \<Rightarrow> False)"

lemma begun_silently:
  "ls_script s = x # xs \<Longrightarrow> stays_silent x \<Longrightarrow>
     sendExpectNoImmediateResponse command payload s = (Inr (m_counter s), sent_one command payload xs s)"
  by (auto simp: sendExpectNoImmediateResponse_def reserveCounter_def writeFrame_def stays_silent_def sent_one_def
      split: list.splits read_outcome.splits)

definition carries_out_scan ::
  "exchange list \<Rightarrow> nat \<Rightarrow> u32 \<Rightarrow> bytes list \<Rightarrow> exchange list \<Rightarrow> bool" where
  "carries_out_scan script polls a segments rest \<longleftrightarrow>
     (\<exists>reset begun busy over b xs. script = reset # begun # busy @ over # xs @ rest
        \<and> answers_with 6 (query_payload 0 0 0 0) reset \<and> stays_silent begun
        \<and> list_all (still_waiting 1 11) busy \<and> length busy = polls
        \<and> answers_with 6 (query_payload 1 11 a b) over
        \<and> (b = 0 \<or> sint b = int (length (concat segments)))
        \<and> list_all2 (\<lambda>(i, segment) x. answers_with 12 (segment_payload i (length segments) segment) x)
             (enumerate 0 segments) xs)"

definition scan_frames :: "bytes \<Rightarrow> nat \<Rightarrow> nat \<Rightarrow> bytes list" where
  "scan_frames payload polls segments =
     [encodeFrame 0 0 6 (makeU32Payload 200), encodeFrame 1 0 11 payload]
     @ map (\<lambda>k. encodeFrame (2 + of_nat k) 0 6 (makeU32Payload 100)) [0..<Suc polls]
     @ segment_requests (3 + of_nat polls) 0 segments"

definition scan_payload :: "'w laser_env \<Rightarrow> rat \<times> rat \<times> rat \<times> rat \<times> rat \<times> rat \<Rightarrow> bytes" where
  "scan_payload env angles =
     (case angles of (bx, ex, sx, bY, ey, sy) \<Rightarrow>
        makeScanFieldPayload (le_milli env bx) (le_milli env ex) (le_micro env sx) (le_milli env bY) (le_milli env ey) (le_micro env sy))"

lemma scan_task_runs:
  fixes env :: "'w laser_env"
  assumes "carries_out_scan script polls a segments rest"
    and "polls < le_polls env (laser_resolveTaskTimeout conn ''scan_field'') (lc_queryIntervalMs conn)"
    and "a = 4000 \<or> a = 4001" and "segments \<noteq> []" and "length segments < 2 ^ 32"
    and "\<forall>segment \<in> set segments. length segment < 65500"
    and "writeBinaryFile (le_files env) outputPath (concat segments) w = (Inr (), w')"
  shows "\<exists>msg s. run_task env ''scan_field'' conn 11 payload (scan_field_done env outputPath)
      \<lparr>m_counter = 0, ls_script = script, ls_written = []\<rparr> w = (msg, s, w')
    \<and> msg_status msg = ''done'' \<and> ls_written s = scan_frames payload polls (length segments)"
proof -
  let ?s0 = "\<lparr>m_counter = 0, ls_script = script, ls_written = []\<rparr>"
  let ?max = "le_polls env (laser_resolveTaskTimeout conn ''scan_field'') (lc_queryIntervalMs conn)"
  obtain reset begun busy over b xs where script: "script = reset # begun # busy @ over # xs @ rest"
    and reset: "answers_with 6 (query_payload 0 0 0 0) reset" and begun: "stays_silent begun"
    and busy: "list_all (still_waiting 1 11) busy" "length busy = polls"
    and over: "answers_with 6 (query_payload 1 11 a b) over" and b: "b = 0 \<or> sint b = int (length (concat segments))"
    and xs: "list_all2 (\<lambda>(i, segment) x. answers_with 12 (segment_payload i (length segments) segment) x)
        (enumerate 0 segments) xs"
    using assms(1) by (auto simp: carries_out_scan_def)
  define s1 where "s1 = sent_one 6 (makeU32Payload 200) (begun # busy @ over # xs @ rest) ?s0"
  define s2 where "s2 = sent_one 11 payload (busy @ over # xs @ rest) s1"
  define s3 where "s3 = polls_sent (Suc polls) (xs @ rest) s2"
  let ?r = "\<lparr>lastCounter = 1, lastCommand = 11, resultA = a, resultB = b\<rparr>"
  have q: "query 200 ?s0 = (Inr \<lparr>lastCounter = 0, lastCommand = 0, resultA = 0, resultB = 0\<rparr>, s1)"
    unfolding s1_def by (rule query_answer [OF _ reset]) (simp add: script)
  have sent: "sendExpectNoImmediateResponse 11 payload s1 = (Inr 1, s2)"
    using begun_silently [of s1 begun "busy @ over # xs @ rest" 11 payload] begun by (simp add: s1_def s2_def sent_one_def)
  have wait: "waitTaskCompleted 1 11 ?max s2 = (Inr ?r, s3)"
    using wait_over [OF busy(1) _ over, of ?max s2 "xs @ rest"] busy(2) assms(2,3) by (auto simp: s2_def s3_def sent_one_def)
  have collect: "collectAllSegments s3 =
      (Inr \<lparr>segmentCount = int (length segments), byteCount = int (length (concat segments)), agg_data = concat segments\<rparr>,
       s3\<lparr>m_counter := m_counter s3 + of_nat (length segments), ls_script := rest,
         ls_written := ls_written s3 @ segment_requests (m_counter s3) 0 (length segments)\<rparr>)"
    using collect_loop_segments [of 0 segments "length segments" xs s3 rest 0 "[]" 0] assms(4-6) xs
    by (simp add: collectAllSegments_def s3_def polls_sent_def)
  have written: "ls_written s3 @ segment_requests (m_counter s3) 0 (length segments) = scan_frames payload polls (length segments)"
    by (simp add: s3_def s2_def s1_def polls_sent_def sent_one_def scan_frames_def)
  have count: "\<not> (resultB ?r > 0 \<and> int (length (concat segments)) \<noteq> sint (resultB ?r))" using b by auto
  have range: "\<not> (2000 \<le> a \<and> a < 3000)" "\<not> (a \<noteq> 4000 \<and> a \<noteq> 4001)" using assms(3) by auto
  show ?thesis
    using written count range
    by (auto simp: run_task_def resetQueryState_def on_result_def q sent wait scan_field_done_def collect save_and_answer_def
        assms(7) done_with_def resp_done_def)
qed

text \<open>C27: A scan reaches the file: when the device clears its task state, begins the scan without an
  answer, reports the task finished after any number of polls within the task's timeout (unanswered
  polls and results of other tasks included), and answers the request for each segment with it,
  cut in any chunks, then \<open>scan_field\<close> is answered with done, the file it names holds the bytes of all
  segments in order, and the requests sent are the reset, the scan, the polls and one request per
  segment, each under the next counter.\<close>

theorem scan_field_reaches_file:
  assumes "trim_spaces (to_string (jval p ''output'')) = outputPath" and "outputPath \<noteq> []"
    and "scan_angles p = Inr angles" and "resolveConnectionParams p ''scan_field'' = Inr conn"
    and "le_open env conn w0 = (Inr script, w)"
    and "carries_out_scan script polls a segments rest"
    and "polls < le_polls env (laser_resolveTaskTimeout conn ''scan_field'') (lc_queryIntervalMs conn)"
    and "a = 4000 \<or> a = 4001" and "segments \<noteq> []" and "length segments < 2 ^ 32"
    and "\<forall>segment \<in> set segments. length segment < 65500"
    and "writeBinaryFile (le_files env) outputPath (concat segments) w = (Inr (), w')"
  shows "\<exists>msg s. laser_handle env ''scan_field'' (JObj p) w0 = (msg, le_close env s w')
    \<and> msg_status msg = ''done'' \<and> ls_written s = scan_frames (scan_payload env angles) polls (length segments)"
proof -
  obtain bx ex sx bY ey sy where angles: "angles = (bx, ex, sx, bY, ey, sy)" by (cases angles) auto
  obtain msg s where run: "run_task env ''scan_field'' conn 11 (scan_payload env angles) (scan_field_done env outputPath)
      \<lparr>m_counter = 0, ls_script = script, ls_written = []\<rparr> w = (msg, s, w')"
      "msg_status msg = ''done''" "ls_written s = scan_frames (scan_payload env angles) polls (length segments)"
    using scan_task_runs [OF assms(6-12)] by blast
  then have "laser_handle env ''scan_field'' (JObj p) w0 = (msg, le_close env s w')"
    using assms(1-5) by (simp add: laser_handle_def laser_knownCommands_def laser_scan_field_def in_session_def angles scan_payload_def)
  with run show ?thesis by blast
qed

definition demo_laser_env :: "exchange list \<Rightarrow> (string \<times> bytes) list laser_env" where
  "demo_laser_env script = \<lparr>le_open = (\<lambda>_ w. (Inr script, w)),
     le_close = (\<lambda>s w. w @ map (\<lambda>frame. (''sent'', frame)) (ls_written s)), le_polls = (\<lambda>_ _. 120),
     le_files = plain_files, le_milli = (\<lambda>x. of_int \<lfloor>x * 1000\<rfloor>), le_micro = (\<lambda>x. of_int \<lfloor>x * 1000000\<rfloor>),
     le_quotient = (\<lambda>a b. of_int a / of_int b)\<rparr>"

definition demo_scan_script :: "exchange list" where
  "demo_scan_script =
     [demo_exchange 6 (query_payload 0 0 0 0), \<lparr>x_write_error = None, x_reads = [ReadFailed ''TCP read timeout'']\<rparr>,
      \<lparr>x_write_error = None, x_reads = []\<rparr>, demo_exchange 6 (query_payload 1 11 1000 0),
      demo_exchange 6 (query_payload 1 11 4001 5),
      demo_exchange 12 (segment_payload 0 2 [1, 2]), demo_exchange 12 (segment_payload 1 2 [3, 4, 5])]"

definition demo_scan :: json_obj where
  "demo_scan = [(''begin_x_deg'', jint 0), (''end_x_deg'', jint 90), (''output'', JStr ''f'')]"

lemma demo_scan_carried_out: "carries_out_scan demo_scan_script 2 4001 [[1, 2], [3, 4, 5]] []"
  unfolding carries_out_scan_def
proof (intro exI conjI)
  show "demo_scan_script = demo_exchange 6 (query_payload 0 0 0 0)
      # \<lparr>x_write_error = None, x_reads = [ReadFailed ''TCP read timeout'']\<rparr>
      # [\<lparr>x_write_error = None, x_reads = []\<rparr>, demo_exchange 6 (query_payload 1 11 1000 0)]
      @ demo_exchange 6 (query_payload 1 11 4001 5)
      # [demo_exchange 12 (segment_payload 0 2 [1, 2]), demo_exchange 12 (segment_payload 1 2 [3, 4, 5])] @ []"
    by (simp add: demo_scan_script_def)
  show "stays_silent \<lparr>x_write_error = None, x_reads = [ReadFailed ''TCP read timeout'']\<rparr>"
    by (simp add: stays_silent_def ascii_lower_def starts_with_def)
  show "list_all (still_waiting 1 11) [\<lparr>x_write_error = None, x_reads = []\<rparr>, demo_exchange 6 (query_payload 1 11 1000 0)]"
    using demo_exchange_answers [of 6 "query_payload 1 11 1000 0"] by (force simp: still_waiting_def unanswered_def)
  show "5 = 0 \<or> sint (5 :: u32) = int (length (concat [[1, 2], [3, 4, 5 :: byte]]))" by simp
qed (simp_all add: demo_exchange_answers numeral_2_eq_2 [symmetric])

lemma scan_field_reaches_file_witness:
  "\<exists>msg frames. laser_handle (demo_laser_env demo_scan_script) ''scan_field'' (JObj demo_scan) []
      = (msg, [(''f'', [1, 2, 3, 4, 5])] @ map (\<lambda>frame. (''sent'', frame)) frames)
    \<and> msg_status msg = ''done'' \<and> length frames = 7"
proof -
  let ?env = "demo_laser_env demo_scan_script"
  have angles: "scan_angles demo_scan = Inr (0, 90, 0, 0, 0, 0)"
    by (simp add: scan_angles_def parseDoubleParam_def demo_scan_def Let_def)
  have conn: "resolveConnectionParams demo_scan ''scan_field'' = Inr \<lparr>lc_host = ''127.0.0.1'', lc_port = 23, lc_timeoutMs = 5000,
      lc_taskTimeoutMs = - 1, lc_queryIntervalMs = 5000\<rparr>"
    by (simp add: resolveConnectionParams_def parseUnsignedParam_def task_timeout_param_def demo_scan_def
        trim_spaces_def is_space_char_def Let_def)
  have out: "trim_spaces (to_string (jval demo_scan ''output'')) = ''f''"
    by (simp add: demo_scan_def trim_spaces_def is_space_char_def)
  obtain msg s where "laser_handle ?env ''scan_field'' (JObj demo_scan) [] = (msg, le_close ?env s [(''f'', [1, 2, 3, 4, 5])])"
      "msg_status msg = ''done''" "ls_written s = scan_frames (scan_payload ?env (0, 90, 0, 0, 0, 0)) 2 2"
  proof -
    have files: "le_open ?env conn [] = (Inr demo_scan_script, [])" for conn by (simp add: demo_laser_env_def)
    have saved: "writeBinaryFile (le_files ?env) ''f'' (concat [[1, 2], [3, 4, 5]]) [] = (Inr (), [(''f'', [1, 2, 3, 4, 5])])"
      by (simp add: demo_laser_env_def writeBinaryFile_plain)
    have polls: "2 < le_polls ?env t i" for t i by (simp add: demo_laser_env_def)
    have two: "length [[1, 2], [3, 4, 5 :: byte]] = 2" by simp
    show ?thesis
      using scan_field_reaches_file [OF out _ angles conn files demo_scan_carried_out polls _ _ _ _ saved] that
      unfolding two by auto
  qed
  moreover have "length (scan_frames payload 2 2) = 7" for payload
    by (simp add: scan_frames_def segment_requests_def)
  ultimately show ?thesis by (auto simp: demo_laser_env_def)
qed

end
