(* ===== verification/ServiceConfig.thy ===== *)
theory ServiceConfig
  imports MetaValidator QtText
begin

text \<open>
  Configuration of the services (\<open>src/src/stdiolink_service/config/service_config_schema.*\<close> and
  \<open>service_config_validator.*\<close>): the schema a service declares as a JSON object of field
  descriptors, the merging of configuration sources, the rejection of unknown members and the
  validation. A schema is the list of its fields. The server validates the parameters of its
  projects with it.
\<close>

section \<open>The schema\<close>

definition isKnownFieldType :: "string \<Rightarrow> bool" where
  "isKnownFieldType t \<longleftrightarrow>
     t \<in> {''string'', ''int'', ''integer'', ''int64'', ''double'', ''number'', ''bool'', ''boolean'',
          ''object'', ''array'', ''enum'', ''any''}"

definition parse_constraints :: "json_obj \<Rightarrow> constraints" where
  "parse_constraints desc =
     (if om_has desc ''constraints''
      then let c = to_object (jval desc ''constraints'') in
           Constraints_fromJson
             (if om_has c ''enumValues'' then jset ''enum'' (jval c ''enumValues'') (om_del ''enumValues'' c) else c)
      else Constraints_default)"

text \<open>The body of \<open>parseObject\<close> over the parser of one descriptor.\<close>

definition parseObject_with ::
  "(string \<Rightarrow> json_obj \<Rightarrow> string \<Rightarrow> string + field_meta) \<Rightarrow> json_obj \<Rightarrow> string \<Rightarrow> string + field_meta list" where
  "parseObject_with parse obj pathPrefix =
     traverse (\<lambda>(fieldName, v).
       let fieldPath = (if pathPrefix = [] then fieldName else pathPrefix @ ''.'' @ fieldName) in
       if \<not> is_object v then Inl (''field descriptor for \"'' @ fieldPath @ ''\" must be a JSON object'')
       else parse fieldName (to_object v) fieldPath) obj"

lemma parseObject_with_cong [fundef_cong]:
  "obj = obj' \<Longrightarrow> pre = pre'
   \<Longrightarrow> (\<And>k v path. (k, v) \<in> set obj' \<Longrightarrow> p k (to_object v) path = q k (to_object v) path)
   \<Longrightarrow> parseObject_with p obj pre = parseObject_with q obj' pre'"
  unfolding parseObject_with_def by (auto simp: Let_def intro!: traverse_cong)

lemma osize_set: "(k, v) \<in> set obj \<Longrightarrow> osize (to_object v) < osize obj"
  using osize_to_object [of v] by (induction obj) (auto simp: osize_def)

lemma osize_nested: "(k, v) \<in> set (to_object (jval desc m)) \<Longrightarrow> osize (to_object v) < osize desc"
proof -
  assume kv: "(k, v) \<in> set (to_object (jval desc m))"
  then have "om_has desc m" using jval_undefined [of desc m] by fastforce
  with osize_set [OF kv] osize_member show ?thesis by (meson less_trans)
qed

function parseFieldMeta :: "bool \<Rightarrow> string \<Rightarrow> json_obj \<Rightarrow> string \<Rightarrow> string + field_meta" where
  "parseFieldMeta strictTypeCheck name desc fieldPath =
     (let typeStr = to_string_or ''any'' (jval desc ''type'') in
      if strictTypeCheck \<and> \<not> isKnownFieldType typeStr
      then Inl (''unknown field type \"'' @ typeStr @ ''\" for field \"'' @ fieldPath @ ''\"'')
      else
        case
          (if om_has desc ''fields''
           then if \<not> is_object (jval desc ''fields'')
                then Inl (''\"fields\" for field \"'' @ fieldPath @ ''\" must be a JSON object'')
                else parseObject_with (\<lambda>n d p. parseFieldMeta strictTypeCheck n d p)
                       (to_object (jval desc ''fields'')) fieldPath
           else Inr [])
        of Inl e \<Rightarrow> Inl e
         | Inr flds \<Rightarrow>
            (case
              (if om_has desc ''items''
               then if \<not> is_object (jval desc ''items'')
                    then Inl (''\"items\" for field \"'' @ fieldPath @ ''\" must be a JSON object'')
                    else (case parseFieldMeta strictTypeCheck name (to_object (jval desc ''items''))
                                 (fieldPath @ ''.items'') of
                            Inl e \<Rightarrow> Inl e
                          | Inr it \<Rightarrow> Inr (Some it))
               else Inr None)
             of Inl e \<Rightarrow> Inl e
              | Inr items \<Rightarrow>
                  Inr (FieldMeta name (fieldTypeFromString typeStr)
                    (to_bool_or False (jval desc ''required''))
                    (if om_has desc ''default'' then jval desc ''default'' else JNull)
                    (to_string (jval desc ''description''))
                    (parse_constraints desc) UIHint_default flds items
                    (if om_has desc ''requiredKeys''
                     then map to_string (filter is_string (to_array (jval desc ''requiredKeys''))) else [])
                    (to_bool_or True (jval desc ''additionalProperties'')))))"
  by pat_completeness auto

termination
  by (relation "measure (\<lambda>(_, _, desc, _). osize desc)") (auto intro: osize_nested osize_member)

declare parseFieldMeta.simps [simp del]

definition parseObject :: "bool \<Rightarrow> json_obj \<Rightarrow> string \<Rightarrow> string + field_meta list" where
  "parseObject strictTypeCheck = parseObject_with (parseFieldMeta strictTypeCheck)"

definition fromJsonObject :: "json_obj \<Rightarrow> string + field_meta list" where
  "fromJsonObject obj = parseObject True obj []"

text \<open>Errors of the schema given by the service's script are dropped with the whole schema.\<close>

definition fromJsObject :: "json_obj \<Rightarrow> field_meta list" where
  "fromJsObject obj = (case parseObject False obj [] of Inl _ \<Rightarrow> [] | Inr flds \<Rightarrow> flds)"

text \<open>\<open>fromJsonFile\<close> after the file is read: \<open>doc\<close> is the parsed document or the parser's error.\<close>

definition fromJsonFile :: "string \<Rightarrow> (string + json) option \<Rightarrow> string + field_meta list" where
  "fromJsonFile filePath doc =
     (case doc of
        None \<Rightarrow> Inl (''cannot open config schema file: '' @ filePath)
      | Some (Inl err) \<Rightarrow> Inl (''config.schema.json parse error: '' @ err)
      | Some (Inr d) \<Rightarrow>
          if \<not> is_object d then Inl ''config.schema.json must be a JSON object''
          else parseObject True (to_object d) [])"

definition schema_toFieldMetaArray :: "field_meta list \<Rightarrow> json list" where
  "schema_toFieldMetaArray flds = map (\<lambda>f. JObj (FieldMeta_toJson f)) flds"

definition schema_toJson :: "field_meta list \<Rightarrow> json_obj" where
  "schema_toJson flds = jset ''fields'' (JArr (map (\<lambda>f. JObj (FieldMeta_toJson f)) flds)) []"

definition generateDefaults :: "field_meta list \<Rightarrow> json_obj" where
  "generateDefaults flds =
     foldl (\<lambda>config f. jset_if (\<not> is_null (f_default f) \<and> \<not> is_undefined (f_default f))
       (f_name f) (f_default f) config) [] flds"

definition requiredFieldNames :: "field_meta list \<Rightarrow> string list" where
  "requiredFieldNames flds = map f_name (filter f_required flds)"

definition optionalFieldNames :: "field_meta list \<Rightarrow> string list" where
  "optionalFieldNames flds = map f_name (filter (\<lambda>f. \<not> f_required f) flds)"

definition findField :: "field_meta list \<Rightarrow> string \<Rightarrow> field_meta option" where
  "findField flds name = find (\<lambda>f. f_name f = name) flds"

section \<open>Merging\<close>

function deepMerge :: "json_obj \<Rightarrow> json_obj \<Rightarrow> json_obj" where
  "deepMerge result [] = result"
| "deepMerge result ((k, v) # override) =
     deepMerge
       (if is_object v \<and> om_has result k \<and> is_object (jval result k)
        then jset k (JObj (deepMerge (to_object (jval result k)) (to_object v))) result
        else jset k v result) override"
  by pat_completeness auto

termination
proof (relation "measure (\<lambda>(_, override). osize override)")
  fix result :: json_obj and k v override
  show "((to_object (jval result k), to_object v), result, (k, v) # override) \<in> measure (\<lambda>(_, override). osize override)"
    using osize_set [of k v "(k, v) # override"] by simp
qed (auto simp: osize_def)

section \<open>Validation\<close>

datatype unknown_field_policy = Reject | Allow

lemma osize_array_element:
  assumes "(k, v) \<in> set config" and "(i, x) \<in> set (enumerate 0 (to_array v))"
  shows "osize (to_object x) < osize config"
proof -
  have x: "x \<in> set (to_array v)" using assms(2) by (auto simp: in_set_enumerate_eq)
  have "size v < osize config" using assms(1) by (induction config) (auto simp: osize_def)
  moreover have "size x \<le> size v" using x
    by (cases v) (auto dest: size_list_estimation' [where f = size, OF _ order_refl])
  ultimately show ?thesis using osize_to_object [of x] by linarith
qed

text \<open>The walk over the members of an object, with the check of one member.\<close>

function rejectUnknownFields :: "field_meta list \<Rightarrow> json_obj \<Rightarrow> string \<Rightarrow> validation_result" where
  "rejectUnknownFields schema config prefix =
     first_fail (\<lambda>(key, v).
       let fullPath = (if prefix = [] then key else prefix @ ''.'' @ key) in
       case findField schema key of
         None \<Rightarrow> vr_fail fullPath (Msg ''unknown configuration field'')
       | Some f \<Rightarrow>
           vr_then
             (if f_type f = FtObject \<and> f_fields f \<noteq> [] \<and> is_object v
              then rejectUnknownFields (f_fields f) (to_object v) fullPath else vr_ok)
             (case f_items f of
                None \<Rightarrow> vr_ok
              | Some it \<Rightarrow>
                  if f_type f = FtArray \<and> f_fields it \<noteq> [] \<and> is_array v
                  then first_fail (\<lambda>(i, x).
                         if \<not> is_object x then vr_ok
                         else rejectUnknownFields (f_fields it) (to_object x) (fullPath @ ''['' @ dec i @ '']''))
                       (enumerate 0 (to_array v))
                  else vr_ok)) config"
  by pat_completeness auto

termination
  by (relation "measure (\<lambda>(_, config, _). osize config)") (auto intro: osize_set osize_array_element)

declare rejectUnknownFields.simps [simp del]

definition validate_config :: "(string \<Rightarrow> string \<Rightarrow> bool) \<Rightarrow> field_meta list \<Rightarrow> json_obj \<Rightarrow> validation_result" where
  "validate_config re_match schema config =
     vr_then (first_fail (\<lambda>f. if f_required f \<and> \<not> om_has config (f_name f)
                then vr_fail (f_name f) (Msg (''required field '' @ [CHR 0x27] @ f_name f @ [CHR 0x27] @ '' is missing'')) else vr_ok) schema)
       (first_fail (\<lambda>f. if \<not> om_has config (f_name f) then vr_ok
          else let vr = validateField re_match dec (jval config (f_name f)) f in
               if \<not> vr_valid vr \<and> vr_field vr = [] then vr\<lparr>vr_field := f_name f\<rparr> else vr) schema)"

text \<open>The verdict, and the merged configuration when it is positive.\<close>

definition mergeAndValidate ::
  "(string \<Rightarrow> string \<Rightarrow> bool) \<Rightarrow> field_meta list \<Rightarrow> json_obj \<Rightarrow> json_obj \<Rightarrow> unknown_field_policy
   \<Rightarrow> validation_result \<times> json_obj option" where
  "mergeAndValidate re_match schema fileConfig cliConfig policy =
     (let merged = fillDefaults (deepMerge fileConfig cliConfig) schema;
          unknownResult = (if policy = Reject then rejectUnknownFields schema merged [] else vr_ok)
      in if \<not> vr_valid unknownResult then (unknownResult, None)
         else let vr = validate_config re_match schema merged in
           if \<not> vr_valid vr then (vr, None) else (vr_ok, Some merged))"

end
