(* ===== verification/Project.thy ===== *)
theory Project
  imports ServiceConfig
begin

text \<open>
  The projects of the server manager (\<open>src/src/stdiolink_server/model/schedule.*\<close>,
  \<open>model/project.*\<close>, \<open>manager/project_manager.cpp\<close>): their JSON forms, validation against the
  service's schema, and their storage in two files that are replaced together. The disk is a map
  from paths to contents with a list of outcomes of the file operations to come (\<open>True\<close> is a
  failure, the end of the list is all successes). Names of temporary files and the backup suffix,
  which Qt draws at random, are arguments; so are \<open>to_json\<close> and \<open>from_json\<close>, the text of
  \<open>QJsonDocument\<close>.
\<close>

section \<open>Schedules\<close>

datatype schedule_type = Manual | FixedRate | Daemon

record schedule =
  sc_type :: schedule_type
  intervalMs :: int
  maxConcurrent :: int
  restartDelayMs :: int
  maxConsecutiveFailures :: int
  runTimeoutMs :: int

definition Schedule_default :: schedule where
  "Schedule_default = \<lparr>sc_type = Manual, intervalMs = 5000, maxConcurrent = 1, restartDelayMs = 3000,
     maxConsecutiveFailures = 5, runTimeoutMs = 0\<rparr>"

definition parseNonNegativeIntField :: "json_obj \<Rightarrow> string \<Rightarrow> int \<Rightarrow> string + int" where
  "parseNonNegativeIntField obj key defaultValue =
     (if \<not> om_has obj key then Inr defaultValue
      else let v = jval obj key; raw = to_double v in
        if \<not> is_double v then Inl (''schedule.'' @ key @ '' must be an integer >= 0'')
        else if of_int \<lfloor>raw\<rfloor> \<noteq> raw \<or> raw < 0 \<or> of_int int_max < raw
        then Inl (''schedule.'' @ key @ '' must be an integer >= 0'')
        else Inr \<lfloor>raw\<rfloor>)"

text \<open>The schedule as far as it was read, and the error text, empty on success.\<close>

definition Schedule_fromJson :: "json_obj \<Rightarrow> schedule \<times> string" where
  "Schedule_fromJson obj =
     (case parseNonNegativeIntField obj ''runTimeoutMs'' 0 of
        Inl e \<Rightarrow> (Schedule_default, e)
      | Inr timeout \<Rightarrow>
          let s = Schedule_default\<lparr>runTimeoutMs := timeout\<rparr>;
              type = to_string_or ''manual'' (jval obj ''type'')
          in if type = ''manual'' then (s\<lparr>sc_type := Manual\<rparr>, [])
             else if type = ''fixed_rate''
             then let s = s\<lparr>sc_type := FixedRate, intervalMs := to_int_or 5000 (jval obj ''intervalMs''),
                            maxConcurrent := to_int_or 1 (jval obj ''maxConcurrent'')\<rparr>
                  in if intervalMs s < 100 then (s, ''schedule.intervalMs must be >= 100'')
                     else if maxConcurrent s < 1 then (s, ''schedule.maxConcurrent must be >= 1'')
                     else (s, [])
             else if type = ''daemon''
             then let s = s\<lparr>sc_type := Daemon, restartDelayMs := to_int_or 3000 (jval obj ''restartDelayMs''),
                            maxConsecutiveFailures := to_int_or 5 (jval obj ''maxConsecutiveFailures'')\<rparr>
                  in if restartDelayMs s < 0 then (s, ''schedule.restartDelayMs must be >= 0'')
                     else if maxConsecutiveFailures s < 1 then (s, ''schedule.maxConsecutiveFailures must be >= 1'')
                     else (s, [])
             else (s, ''unknown schedule type: '' @ type))"

definition Schedule_toJson :: "schedule \<Rightarrow> json_obj" where
  "Schedule_toJson s =
     (let obj = jset ''runTimeoutMs'' (jint (runTimeoutMs s)) [] in
      case sc_type s of
        Manual \<Rightarrow> jset ''type'' (JStr ''manual'') obj
      | FixedRate \<Rightarrow> jset ''maxConcurrent'' (jint (maxConcurrent s))
          (jset ''intervalMs'' (jint (intervalMs s)) (jset ''type'' (JStr ''fixed_rate'') obj))
      | Daemon \<Rightarrow> jset ''maxConsecutiveFailures'' (jint (maxConsecutiveFailures s))
          (jset ''restartDelayMs'' (jint (restartDelayMs s)) (jset ''type'' (JStr ''daemon'') obj)))"

section \<open>Projects\<close>

abbreviation quote :: string where
  "quote \<equiv> [CHR 0x27]"


record project =
  pr_id :: string
  pr_name :: string
  serviceId :: string
  pr_enabled :: bool
  pr_schedule :: schedule
  pr_config :: json_obj
  pr_valid :: bool
  pr_error :: string

definition Project_default :: project where
  "Project_default = \<lparr>pr_id = [], pr_name = [], serviceId = [], pr_enabled = True, pr_schedule = Schedule_default,
     pr_config = [], pr_valid = True, pr_error = []\<rparr>"

definition known_project_fields :: "bool \<Rightarrow> string list" where
  "known_project_fields allowConfigField =
     [''id'', ''name'', ''serviceId'', ''enabled'', ''schedule''] @ (if allowConfigField then [''config''] else [])"

text \<open>The members that follow the service in the order the code reads them.\<close>

definition parse_project_rest :: "json_obj \<Rightarrow> bool \<Rightarrow> project \<Rightarrow> project \<times> string" where
  "parse_project_rest obj allowConfigField project =
     (if om_has obj ''enabled'' \<and> \<not> is_bool (jval obj ''enabled'')
      then (project, (''project field '' @ quote @ ''enabled'' @ quote @ '' must be a bool''))
      else
        let project = (if om_has obj ''enabled''
                       then project\<lparr>pr_enabled := to_bool_or True (jval obj ''enabled'')\<rparr> else project) in
        if om_has obj ''schedule'' \<and> \<not> is_object (jval obj ''schedule'')
        then (project, (''project field '' @ quote @ ''schedule'' @ quote @ '' must be an object''))
        else
          let (sched, scheduleErr) = (if om_has obj ''schedule'' then Schedule_fromJson (to_object (jval obj ''schedule''))
                                   else (pr_schedule project, []));
              project = project\<lparr>pr_schedule := sched\<rparr>
          in if scheduleErr \<noteq> [] then (project, scheduleErr)
             else if allowConfigField \<and> om_has obj ''config''
             then if \<not> is_object (jval obj ''config'') then (project, (''project field '' @ quote @ ''config'' @ quote @ '' must be an object''))
                  else (project\<lparr>pr_config := to_object (jval obj ''config'')\<rparr>, [])
             else (project, []))"

definition parseProjectJson :: "string \<Rightarrow> json_obj \<Rightarrow> bool \<Rightarrow> project \<times> string" where
  "parseProjectJson pid obj allowConfigField =
     (let project = Project_default\<lparr>pr_id := pid\<rparr> in
      if \<not> allowConfigField \<and> om_has obj ''config''
      then (project, (''project metadata file must not contain '' @ quote @ ''config'' @ quote @ ''; move service parameters to param.json''))
      else
        case find (\<lambda>k. k \<notin> set (known_project_fields allowConfigField)) (om_keys obj) of
          Some k \<Rightarrow> (project, ''unknown field in project config: '' @ k)
        | None \<Rightarrow>
            let bodyId = to_string (jval obj ''id'') in
            if om_has obj ''id'' \<and> \<not> is_string (jval obj ''id'')
            then (project, (''project field '' @ quote @ ''id'' @ quote @ '' must be a string''))
            else if om_has obj ''id'' \<and> bodyId \<noteq> [] \<and> bodyId \<noteq> pid
            then (project, ''project id mismatch: body='' @ bodyId @ '', path='' @ pid)
            else if \<not> om_has obj ''name'' \<or> \<not> is_string (jval obj ''name'')
            then (project, ''missing required string field: name'')
            else
              let project = project\<lparr>pr_name := to_string (jval obj ''name'')\<rparr> in
              if pr_name project = [] then (project, ''project name cannot be empty'')
              else if \<not> om_has obj ''serviceId'' \<or> \<not> is_string (jval obj ''serviceId'')
              then (project, ''missing required string field: serviceId'')
              else
                let project = project\<lparr>serviceId := to_string (jval obj ''serviceId'')\<rparr> in
                if serviceId project = [] then (project, ''project serviceId cannot be empty'')
                else parse_project_rest obj allowConfigField project)"

definition Project_fromJson :: "string \<Rightarrow> json_obj \<Rightarrow> project \<times> string" where
  "Project_fromJson pid obj = parseProjectJson pid obj True"

definition Project_fromStorageJson :: "string \<Rightarrow> json_obj \<Rightarrow> project \<times> string" where
  "Project_fromStorageJson pid obj = parseProjectJson pid obj False"

definition Project_toJson :: "project \<Rightarrow> json_obj" where
  "Project_toJson p =
     jset ''schedule'' (JObj (Schedule_toJson (pr_schedule p)))
     (jset ''enabled'' (JBool (pr_enabled p))
     (jset ''serviceId'' (JStr (serviceId p))
     (jset ''name'' (JStr (pr_name p))
     (jset ''id'' (JStr (pr_id p)) []))))"

end
