(* ===== verification/ProjectStore.thy ===== *)
theory ProjectStore
  imports Project
begin

text \<open>
  The storage of projects (\<open>src/src/stdiolink_server/manager/project_manager.cpp\<close>). A project is two
  files, \<open>config.json\<close> and \<open>param.json\<close>, that are written to temporary files, moved over the old
  ones after these were set aside, and rolled back when a step fails. The disk is a map from paths
  to contents; \<open>faults\<close> are the outcomes of the operations to come, \<open>True\<close> for a failure and success
  after the end of the list.
\<close>

record service_manifest =
  mf_manifestVersion :: string
  mf_id :: string
  mf_name :: string
  mf_version :: string
  mf_description :: string
  mf_author :: string

record service_info =
  sv_id :: string
  sv_name :: string
  sv_version :: string
  sv_serviceDir :: string
  sv_manifest :: service_manifest
  sv_schema :: "field_meta list"
  sv_rawConfigSchema :: json_obj

definition is_id_char :: "char \<Rightarrow> bool" where
  "is_id_char c \<longleftrightarrow> is_letter c \<or> is_digit c \<or> c = CHR ''_'' \<or> c = CHR ''-''"

text \<open>The pattern of the code is anchored with \<open>$\<close>, which in the regular expressions of Qt also
  matches before a newline at the end.\<close>

definition isValidProjectId :: "string \<Rightarrow> bool" where
  "isValidProjectId pid =
     (let body = (if pid \<noteq> [] \<and> last pid = CHR 0x0A then butlast pid else pid)
      in body \<noteq> [] \<and> list_all is_id_char body)"

definition validateProject ::
  "(string \<Rightarrow> string \<Rightarrow> bool) \<Rightarrow> (msg \<Rightarrow> string) \<Rightarrow> (string, service_info) omap \<Rightarrow> project \<Rightarrow> bool \<times> project" where
  "validateProject re_match render services p =
     (case om_get services (serviceId p) of
        None \<Rightarrow> (False, p\<lparr>pr_valid := False, pr_error := ''service not found: '' @ serviceId p\<rparr>)
      | Some service \<Rightarrow>
          (case mergeAndValidate re_match (sv_schema service) [] (pr_config p) Reject of
             (r, Some merged) \<Rightarrow> (True, p\<lparr>pr_config := merged, pr_valid := True, pr_error := []\<rparr>)
           | (r, None) \<Rightarrow> (False, p\<lparr>pr_valid := False, pr_error := vr_toString render r\<rparr>)))"

section \<open>The disk\<close>

record disk =
  files :: "string \<Rightarrow> bytes option"
  faults :: "bool list"

definition next_fault :: "disk \<Rightarrow> bool \<times> disk" where
  "next_fault d = (case faults d of [] \<Rightarrow> (False, d) | f # fs \<Rightarrow> (f, d\<lparr>faults := fs\<rparr>))"

definition put_file :: "string \<Rightarrow> bytes option \<Rightarrow> disk \<Rightarrow> disk" where
  "put_file path content d = d\<lparr>files := (files d)(path := content)\<rparr>"

text \<open>\<open>QFile::rename\<close> fails when the source is missing or the target exists.\<close>

definition file_rename :: "string \<Rightarrow> string \<Rightarrow> disk \<Rightarrow> bool \<times> disk" where
  "file_rename from to d =
     (let (fault, d) = next_fault d in
      if fault \<or> files d from = None \<or> files d to \<noteq> None then (False, d)
      else (True, put_file from None (put_file to (files d from) d)))"

definition file_remove :: "string \<Rightarrow> disk \<Rightarrow> bool \<times> disk" where
  "file_remove path d =
     (let (fault, d) = next_fault d in
      if fault \<or> files d path = None then (False, d) else (True, put_file path None d))"

definition path_join :: "string \<Rightarrow> string \<Rightarrow> string" where
  "path_join dir name = dir @ ''/'' @ name"

definition projectConfigPath :: "string \<Rightarrow> string \<Rightarrow> string" where
  "projectConfigPath projectsDir pid = path_join (path_join projectsDir pid) ''config.json''"

definition projectParamPath :: "string \<Rightarrow> string \<Rightarrow> string" where
  "projectParamPath projectsDir pid = path_join (path_join projectsDir pid) ''param.json''"

text \<open>Reading one document: \<open>from_json\<close> gives the parser's error or the document.\<close>

definition loadJsonObjectFile ::
  "(bytes \<Rightarrow> string + json) \<Rightarrow> string \<Rightarrow> string \<Rightarrow> disk \<Rightarrow> string + json_obj" where
  "loadJsonObjectFile from_json filePath label d =
     (case files d filePath of
        None \<Rightarrow> Inl (''cannot open '' @ label @ '': '' @ filePath)
      | Some content \<Rightarrow>
          (case from_json content of
             Inl err \<Rightarrow> Inl (label @ '' parse error: '' @ err)
           | Inr doc \<Rightarrow>
               if \<not> is_object doc then Inl (label @ '' must contain a JSON object'')
               else Inr (to_object doc)))"

text \<open>The verdict, the path of the temporary file where the code records it, and the disk.\<close>

definition writeTempJsonObjectFile ::
  "(json \<Rightarrow> bytes) \<Rightarrow> string \<Rightarrow> string \<Rightarrow> json_obj \<Rightarrow> disk \<Rightarrow> (string + unit) \<times> string \<times> disk" where
  "writeTempJsonObjectFile to_json temp baseName obj d =
     (let (openFault, d) = next_fault d in
      if openFault then (Inl (''cannot create temp file for: '' @ baseName), [], d)
      else
        let d = put_file temp (Some []) d; (writeFault, d) = next_fault d in
        if writeFault then (Inl (''write failed (incomplete): '' @ baseName), temp, snd (file_remove temp d))
        else
          let d = put_file temp (Some (to_json (JObj obj))) d; (flushFault, d) = next_fault d in
          if flushFault then (Inl (''cannot flush temp file for: '' @ baseName), temp, snd (file_remove temp d))
          else (Inr (), temp, d))"

section \<open>Saving\<close>

record save_entry =
  finalPath :: string
  tempPath :: string
  backupPath :: string
  movedToBackup :: bool
  installed :: bool

definition cleanupTransactionTemps :: "save_entry list \<Rightarrow> disk \<Rightarrow> disk" where
  "cleanupTransactionTemps entries d =
     foldl (\<lambda>d e. if tempPath e \<noteq> [] then snd (file_remove (tempPath e) d) else d) d entries"

definition rollback_entry :: "save_entry \<Rightarrow> string \<times> disk \<Rightarrow> string \<times> disk" where
  "rollback_entry e st =
     (let (rollbackError, d) = st;
          d = (if installed e then snd (file_remove (finalPath e) d) else d);
          (rollbackError, d) =
            (if movedToBackup e
             then let (ok, d) = file_rename (backupPath e) (finalPath e) d in
                  (if \<not> ok \<and> rollbackError = [] then ''rollback failed for: '' @ finalPath e else rollbackError, d)
             else (rollbackError, d))
      in (rollbackError, if tempPath e \<noteq> [] then snd (file_remove (tempPath e) d) else d))"

text \<open>The error text extended by the failure of the rollback itself.\<close>

definition rollbackSaveTransaction :: "save_entry list \<Rightarrow> string \<Rightarrow> disk \<Rightarrow> string \<times> disk" where
  "rollbackSaveTransaction entries err d =
     (let (rollbackError, d) = fold rollback_entry (rev entries) ([], d)
      in (if rollbackError \<noteq> [] then err @ ''; '' @ rollbackError else err, d))"

text \<open>The loops over the entries stop at the first failure; they return the entries as far as they
  have been processed, in front of the others.\<close>

fun write_temps :: "(json \<Rightarrow> bytes) \<Rightarrow> (save_entry \<times> string \<times> string \<times> json_obj) list \<Rightarrow> disk
    \<Rightarrow> (string + unit) \<times> save_entry list \<times> disk" where
  "write_temps to_json [] d = (Inr (), [], d)"
| "write_temps to_json ((e, temp, baseName, obj) # rest) d =
     (case writeTempJsonObjectFile to_json temp baseName obj d of
        (Inl err, path, d) \<Rightarrow> (Inl err, e\<lparr>tempPath := path\<rparr> # map fst rest, d)
      | (Inr _, path, d) \<Rightarrow>
          (let (r, es, d) = write_temps to_json rest d in (r, e\<lparr>tempPath := path\<rparr> # es, d)))"

fun backup_files :: "string \<Rightarrow> save_entry list \<Rightarrow> disk \<Rightarrow> (string + unit) \<times> save_entry list \<times> disk" where
  "backup_files backupSuffix [] d = (Inr (), [], d)"
| "backup_files backupSuffix (e # es) d =
     (if files d (finalPath e) = None
      then let (r, es, d) = backup_files backupSuffix es d in (r, e # es, d)
      else
        let e = e\<lparr>backupPath := finalPath e @ backupSuffix\<rparr> in
        case file_rename (finalPath e) (backupPath e) d of
          (False, d) \<Rightarrow> (Inl (''cannot backup file: '' @ finalPath e), e # es, d)
        | (True, d) \<Rightarrow>
            (let (r, es, d) = backup_files backupSuffix es d in (r, e\<lparr>movedToBackup := True\<rparr> # es, d)))"

fun install_files :: "save_entry list \<Rightarrow> disk \<Rightarrow> (string + unit) \<times> save_entry list \<times> disk" where
  "install_files [] d = (Inr (), [], d)"
| "install_files (e # es) d =
     (case file_rename (tempPath e) (finalPath e) d of
        (False, d) \<Rightarrow> (Inl (''cannot install file: '' @ finalPath e), e # es, d)
      | (True, d) \<Rightarrow>
          (let (r, es, d) = install_files es d in (r, e\<lparr>installed := True, tempPath := []\<rparr> # es, d)))"

definition remove_backups :: "save_entry list \<Rightarrow> disk \<Rightarrow> disk" where
  "remove_backups entries d =
     foldl (\<lambda>d e. if movedToBackup e \<and> backupPath e \<noteq> [] then snd (file_remove (backupPath e) d) else d) d entries"

definition new_entry :: "string \<Rightarrow> save_entry" where
  "new_entry path = \<lparr>finalPath = path, tempPath = [], backupPath = [], movedToBackup = False, installed = False\<rparr>"

definition saveProject ::
  "(json \<Rightarrow> bytes) \<Rightarrow> string \<Rightarrow> string \<Rightarrow> string \<Rightarrow> string \<Rightarrow> project \<Rightarrow> disk \<Rightarrow> (string + unit) \<times> disk" where
  "saveProject to_json configTemp paramTemp backupSuffix projectsDir p d =
     (if \<not> isValidProjectId (pr_id p) then (Inl (''invalid project id: '' @ pr_id p), d)
      else
        let (dirFault, d) = next_fault d in
        if dirFault then (Inl (''cannot create projects directory: '' @ projectsDir), d)
        else
          let dirPath = path_join projectsDir (pr_id p); (dirFault, d) = next_fault d in
          if dirFault then (Inl (''cannot create project directory: '' @ dirPath), d)
          else
            (case write_temps to_json
               [(new_entry (projectConfigPath projectsDir (pr_id p)), configTemp, ''config.json'', Project_toJson p),
                (new_entry (projectParamPath projectsDir (pr_id p)), paramTemp, ''param.json'', pr_config p)] d of
               (Inl err, entries, d) \<Rightarrow> (Inl err, cleanupTransactionTemps entries d)
             | (Inr _, entries, d) \<Rightarrow>
                 (case backup_files backupSuffix entries d of
                    (Inl err, entries, d) \<Rightarrow>
                      (let (err, d) = rollbackSaveTransaction entries err d in (Inl err, d))
                  | (Inr _, entries, d) \<Rightarrow>
                      (case install_files entries d of
                         (Inl err, entries, d) \<Rightarrow>
                           (let (err, d) = rollbackSaveTransaction entries err d in (Inl err, d))
                       | (Inr _, entries, d) \<Rightarrow> (Inr (), remove_backups entries d)))))"

section \<open>Loading\<close>

definition loadOne :: "(bytes \<Rightarrow> string + json) \<Rightarrow> string \<Rightarrow> string \<Rightarrow> disk \<Rightarrow> project" where
  "loadOne from_json projectDir pid d =
     (let p = Project_default\<lparr>pr_id := pid\<rparr>;
          configPath = path_join projectDir ''config.json''; paramPath = path_join projectDir ''param.json''
      in case loadJsonObjectFile from_json configPath ''project config file'' d of
           Inl err \<Rightarrow> p\<lparr>pr_valid := False, pr_error := err\<rparr>
         | Inr configObj \<Rightarrow>
             (let (p, parseError) = Project_fromStorageJson pid configObj in
              if parseError \<noteq> [] then p\<lparr>pr_valid := False, pr_error := parseError\<rparr>
              else if files d paramPath \<noteq> None
              then case loadJsonObjectFile from_json paramPath ''project param file'' d of
                     Inl err \<Rightarrow> p\<lparr>pr_valid := False, pr_error := err\<rparr>
                   | Inr paramsObj \<Rightarrow> p\<lparr>pr_config := paramsObj, pr_valid := True, pr_error := []\<rparr>
              else p\<lparr>pr_config := [], pr_valid := True, pr_error := []\<rparr>))"

definition loadProject ::
  "(bytes \<Rightarrow> string + json) \<Rightarrow> string list \<Rightarrow> string \<Rightarrow> string \<Rightarrow> disk \<Rightarrow> string + project" where
  "loadProject from_json dirs projectsDir pid d =
     (if \<not> isValidProjectId pid then Inl (''invalid project id: '' @ pid)
      else if path_join projectsDir pid \<notin> set dirs then Inl (''project not found: '' @ pid)
      else let p = loadOne from_json (path_join projectsDir pid) pid d in
        if \<not> pr_valid p then Inl (pr_error p) else Inr p)"

text \<open>\<open>entries\<close> are the names of the subdirectories, in the order of \<open>QDir::entryList\<close>.\<close>

definition loadAll ::
  "(string \<Rightarrow> string \<Rightarrow> bool) \<Rightarrow> (msg \<Rightarrow> string) \<Rightarrow> (bytes \<Rightarrow> string + json) \<Rightarrow> string list \<Rightarrow> string
   \<Rightarrow> (string, service_info) omap \<Rightarrow> disk \<Rightarrow> (string, project) omap \<times> nat \<times> nat" where
  "loadAll re_match render from_json entries projectsDir services d =
     foldl (\<lambda>(result, loaded, invalid) entry.
       if \<not> isValidProjectId entry then (result, loaded, invalid)
       else
         let p = loadOne from_json (path_join projectsDir entry) entry d;
             p = (if pr_valid p then snd (validateProject re_match render services p) else p)
         in if pr_valid p then (om_put entry p result, loaded + 1, invalid)
            else (om_put entry p result, loaded, invalid + 1)) ([], 0, 0) entries"

text \<open>Removal takes the files below the project's directory with it, except those the system keeps
  (\<open>kept\<close>), which make it fail.\<close>

definition removeProject ::
  "string list \<Rightarrow> (string \<Rightarrow> bool) \<Rightarrow> string \<Rightarrow> string \<Rightarrow> disk \<Rightarrow> (string + unit) \<times> disk" where
  "removeProject dirs kept projectsDir pid d =
     (let dirPath = path_join projectsDir pid; below = starts_with (dirPath @ ''/'') in
      if dirPath \<notin> set dirs then (Inl (''project not found: '' @ pid), d)
      else (if \<exists>path. below path \<and> kept path \<and> files d path \<noteq> None
            then Inl (''cannot remove project directory: '' @ dirPath) else Inr (),
            d\<lparr>files := (\<lambda>path. if below path \<and> \<not> kept path then None else files d path)\<rparr>))"

end
