(* ===== verification/InstanceManager.thy ===== *)
theory InstanceManager
  imports ProjectStore
begin

text \<open>
  The instances of the server manager (\<open>src/src/stdiolink_server/manager/instance_manager.*\<close>,
  \<open>model/instance.h\<close>): one process per started service. Starting puts the instance in the map, the
  signals of \<open>QProcess\<close> and two timers move it on, and the end of the process removes it. Every
  handler returns the signals it emits, in their order, and the new state. What the system answers
  to one start (whether directories and files can be made, the drawn instance id, an error from
  inside \<open>start\<close>) is the argument \<open>env\<close>. Log files, times and process ids are left out.
\<close>

datatype process_state = NotRunning | Starting | Running

record service_instance =
  in_id :: string
  in_projectId :: string
  in_serviceId :: string
  in_process :: process_state
  in_killed :: bool
  in_status :: string
  in_workingDirectory :: string
  in_logPath :: string
  in_commandLine :: "string list"
  in_runTimeoutMs :: int
  in_timedOut :: bool
  in_timeoutReason :: string
  in_runTimeoutTimer :: bool
  in_startFailedEmitted :: bool

datatype instance_signal =
    instanceStarted string string
  | instanceStartFailed string string string
  | instanceFinished string string int bool

text \<open>The bool of \<open>instanceFinished\<close> is \<open>True\<close> for \<open>QProcess::CrashExit\<close>. \<open>m_startTimers\<close> holds the
  instances whose five second single shot has not fired.\<close>

record manager =
  m_dataRoot :: string
  m_serviceProgram :: string
  m_instances :: "(string, service_instance) omap"
  m_startTimers :: "string list"

record start_env =
  se_executable :: "string \<Rightarrow> bool"
  se_relative :: "string \<Rightarrow> bool"
  se_absolute :: "string \<Rightarrow> string"
  se_applicationDir :: string
  se_inPath :: string
  se_dirExists :: "string \<Rightarrow> bool"
  se_tempOpens :: bool
  se_tempWrites :: bool
  se_tempName :: string
  se_mkpath :: "string \<Rightarrow> bool"
  se_guardName :: "string option"
  se_instanceId :: string
  se_failsAtOnce :: "string option"

definition findServiceProgram :: "start_env \<Rightarrow> manager \<Rightarrow> string" where
  "findServiceProgram env m =
     (let explicitPath = m_serviceProgram m in
      if explicitPath \<noteq> []
      then if se_executable env explicitPath then se_absolute env explicitPath
           else
             let underDataRoot = m_dataRoot m @ ''/'' @ explicitPath in
             if se_relative env explicitPath \<and> se_executable env underDataRoot then underDataRoot else []
      else
        let sameDir = se_applicationDir env @ ''/stdiolink_service'' in
        if se_executable env sameDir then sameDir else se_inPath env)"

definition put_instance :: "service_instance \<Rightarrow> manager \<Rightarrow> manager" where
  "put_instance inst m = m\<lparr>m_instances := om_put (in_id inst) inst (m_instances m)\<rparr>"

definition erase_instance :: "string \<Rightarrow> manager \<Rightarrow> manager" where
  "erase_instance iid m = m\<lparr>m_instances := om_del iid (m_instances m)\<rparr>"

section \<open>The slots of a process\<close>

definition onStarted :: "string \<Rightarrow> manager \<Rightarrow> instance_signal list \<times> manager" where
  "onStarted iid m =
     (case om_get (m_instances m) iid of
        None \<Rightarrow> ([], m)
      | Some inst \<Rightarrow>
          ([instanceStarted iid (in_projectId inst)],
           put_instance (inst\<lparr>in_process := Running, in_status := ''running'',
             in_runTimeoutTimer := 0 < in_runTimeoutMs inst\<rparr>) m))"

definition onRunTimeout :: "string \<Rightarrow> manager \<Rightarrow> instance_signal list \<times> manager" where
  "onRunTimeout iid m =
     (case om_get (m_instances m) iid of
        None \<Rightarrow> ([], m)
      | Some inst \<Rightarrow>
          if \<not> in_runTimeoutTimer inst then ([], m)
          else
            let inst = inst\<lparr>in_runTimeoutTimer := False\<rparr> in
            if in_process inst = NotRunning then ([], put_instance inst m)
            else ([], put_instance (inst\<lparr>in_timedOut := True,
                   in_timeoutReason := ''service run timeout ('' @ dec_int (in_runTimeoutMs inst) @ '' ms)'',
                   in_killed := True\<rparr>) m))"

definition onErrorOccurred :: "bool \<Rightarrow> string \<Rightarrow> string \<Rightarrow> manager \<Rightarrow> instance_signal list \<times> manager" where
  "onErrorOccurred failedToStart errorString iid m =
     (if \<not> failedToStart then ([], m)
      else case om_get (m_instances m) iid of
        None \<Rightarrow> ([], m)
      | Some inst \<Rightarrow>
          ([instanceStartFailed iid (in_projectId inst) errorString,
            instanceFinished iid (in_projectId inst) (- 1) True], erase_instance iid m))"

definition onStartTimeout :: "string \<Rightarrow> manager \<Rightarrow> instance_signal list \<times> manager" where
  "onStartTimeout iid m =
     (if iid \<notin> set (m_startTimers m) then ([], m)
      else
        let m = m\<lparr>m_startTimers := remove1 iid (m_startTimers m)\<rparr> in
        case om_get (m_instances m) iid of
          None \<Rightarrow> ([], m)
        | Some inst \<Rightarrow>
            if in_status inst = ''starting''
            then ([instanceStartFailed iid (in_projectId inst) ''start timeout (5s)''],
                  put_instance (inst\<lparr>in_startFailedEmitted := True, in_killed := True\<rparr>) m)
            else ([], m))"

definition onProcessFinished :: "string \<Rightarrow> int \<Rightarrow> bool \<Rightarrow> manager \<Rightarrow> instance_signal list \<times> manager" where
  "onProcessFinished iid exitCode crashed m =
     (case om_get (m_instances m) iid of
        None \<Rightarrow> ([], m)
      | Some inst \<Rightarrow>
          let abnormal = (crashed \<or> exitCode \<noteq> 0);
              reason = (if abnormal then ''process exited during startup (code '' @ dec_int exitCode @ '')''
                        else ''process exited normally before started signal'')
          in ((if in_status inst = ''starting'' \<and> \<not> in_startFailedEmitted inst
               then [instanceStartFailed iid (in_projectId inst) reason] else [])
              @ [instanceFinished iid (in_projectId inst) exitCode crashed], erase_instance iid m))"

section \<open>Starting\<close>

definition new_instance :: "start_env \<Rightarrow> string \<Rightarrow> string \<Rightarrow> string \<Rightarrow> string \<Rightarrow> project \<Rightarrow> manager \<Rightarrow> service_instance" where
  "new_instance env program serviceDir guardName workspaceDir p m =
     \<lparr>in_id = se_instanceId env, in_projectId = pr_id p, in_serviceId = serviceId p, in_process = Starting,
      in_killed = False, in_status = ''starting'', in_workingDirectory = workspaceDir,
      in_logPath = m_dataRoot m @ ''/logs/'' @ pr_id p @ ''.log'',
      in_commandLine = [program, serviceDir, ''--config-file='' @ se_tempName env, ''--guard='' @ guardName]
        @ (if m_dataRoot m \<noteq> [] then [''--data-root='' @ m_dataRoot m] else []),
      in_runTimeoutMs = runTimeoutMs (pr_schedule p), in_timedOut = False, in_timeoutReason = [],
      in_runTimeoutTimer = False, in_startFailedEmitted = False\<rparr>"

text \<open>The instance is in the map before the process starts, so that an error from inside \<open>start\<close>
  finds it; \<open>emplace\<close> keeps an entry that is there.\<close>

definition launch_instance :: "start_env \<Rightarrow> service_instance \<Rightarrow> manager \<Rightarrow> instance_signal list \<times> manager" where
  "launch_instance env inst m =
     (let iid = in_id inst;
          m = (if om_has (m_instances m) iid then m else put_instance inst m);
          (signals, m) = (case se_failsAtOnce env of
              None \<Rightarrow> ([], m)
            | Some errorString \<Rightarrow> onErrorOccurred True errorString iid m)
      in (signals, m\<lparr>m_startTimers := iid # m_startTimers m\<rparr>))"

text \<open>The error text or the instance's id, with the signals and the new state.\<close>

definition startInstance ::
  "start_env \<Rightarrow> project \<Rightarrow> string \<Rightarrow> manager \<Rightarrow> (string + string) \<times> instance_signal list \<times> manager" where
  "startInstance env p serviceDir m =
     (let program = findServiceProgram env m;
          workspaceDir = m_dataRoot m @ ''/projects/'' @ pr_id p @ ''/workspace'';
          logsDir = m_dataRoot m @ ''/logs''
      in if \<not> pr_valid p then (Inl (''project invalid: '' @ pr_error p), [], m)
         else if serviceDir = [] \<or> \<not> se_dirExists env serviceDir
         then (Inl (''service directory not found: '' @ serviceDir), [], m)
         else if program = [] then (Inl ''stdiolink_service not found'', [], m)
         else if \<not> se_tempOpens env then (Inl ''cannot create temp config file'', [], m)
         else if \<not> se_tempWrites env then (Inl ''cannot write temp config file'', [], m)
         else if \<not> se_mkpath env workspaceDir then (Inl (''cannot create workspace: '' @ workspaceDir), [], m)
         else if \<not> se_mkpath env logsDir then (Inl (''cannot create logs directory: '' @ logsDir), [], m)
         else case se_guardName env of
             None \<Rightarrow> (Inl ''failed to start process guard server'', [], m)
           | Some guardName \<Rightarrow>
               (Inr (se_instanceId env),
                launch_instance env (new_instance env program serviceDir guardName workspaceDir p m) m))"

section \<open>Stopping and looking\<close>

definition terminateInstance :: "string \<Rightarrow> manager \<Rightarrow> manager" where
  "terminateInstance iid m =
     (case om_get (m_instances m) iid of
        None \<Rightarrow> m
      | Some inst \<Rightarrow> if in_process inst = NotRunning then m else put_instance (inst\<lparr>in_killed := True\<rparr>) m)"

definition terminateByProject :: "string \<Rightarrow> manager \<Rightarrow> manager" where
  "terminateByProject pid m =
     (let ids = map fst (filter (\<lambda>(_, inst). in_projectId inst = pid) (m_instances m))
      in fold terminateInstance ids m)"

definition terminateAll :: "manager \<Rightarrow> manager" where
  "terminateAll m = fold terminateInstance (om_keys (m_instances m)) m"

definition getInstances :: "string \<Rightarrow> manager \<Rightarrow> service_instance list" where
  "getInstances pid m = filter (\<lambda>inst. pid = [] \<or> in_projectId inst = pid) (map snd (m_instances m))"

definition getInstance :: "string \<Rightarrow> manager \<Rightarrow> service_instance option" where
  "getInstance iid m = om_get (m_instances m) iid"

definition instanceCount :: "string \<Rightarrow> manager \<Rightarrow> nat" where
  "instanceCount pid m =
     (if pid = [] then length (m_instances m)
      else length (filter (\<lambda>(_, inst). in_projectId inst = pid) (m_instances m)))"

section \<open>Events\<close>

datatype instance_event =
    EvStarted string
  | EvError bool string string
  | EvFinished string int bool
  | EvRunTimeout string
  | EvStartTimeout string

fun instance_step :: "instance_event \<Rightarrow> manager \<Rightarrow> instance_signal list \<times> manager" where
  "instance_step (EvStarted iid) m = onStarted iid m"
| "instance_step (EvError failedToStart errorString iid) m = onErrorOccurred failedToStart errorString iid m"
| "instance_step (EvFinished iid exitCode crashed) m = onProcessFinished iid exitCode crashed m"
| "instance_step (EvRunTimeout iid) m = onRunTimeout iid m"
| "instance_step (EvStartTimeout iid) m = onStartTimeout iid m"

end
