(* ===== verification/ScheduleEngine.thy ===== *)
theory ScheduleEngine
  imports InstanceManager
begin

text \<open>
  The scheduler of the server manager (\<open>src/src/stdiolink_server/manager/schedule_engine.*\<close>) over
  its instance manager. Timers and delayed restarts are state: \<open>m_timers\<close> holds the service
  directory each fixed rate timer has captured, \<open>m_restarts\<close> the single shots that restart a daemon.
  The engine's slot runs where a finished signal is delivered. It reads nothing of the instance
  manager, so the model delivers the signals of one call after the call.
\<close>

datatype server_signal =
    Instance instance_signal
  | scheduleTriggered string string
  | scheduleSuppressed string string int

record sched =
  mgr :: manager
  e_services :: "(string, service_info) omap"
  e_projects :: "(string, project) omap"
  m_timers :: "(string, string) omap"
  m_consecutiveFailures :: "(string, int) omap"
  m_restartSuppressed :: "string set"
  m_shuttingDown :: bool
  m_restarts :: "(string \<times> string) list"
  published :: "server_signal list"

definition publish :: "server_signal \<Rightarrow> sched \<Rightarrow> sched" where
  "publish sig s = s\<lparr>published := published s @ [sig]\<rparr>"

section \<open>The end of an instance\<close>

definition onInstanceFinished :: "string \<Rightarrow> int \<Rightarrow> bool \<Rightarrow> sched \<Rightarrow> sched" where
  "onInstanceFinished pid exitCode crashed s =
     (if m_shuttingDown s \<or> pid \<in> m_restartSuppressed s then s
      else case om_get (e_projects s) pid of
        None \<Rightarrow> s
      | Some p \<Rightarrow>
          if \<not> pr_enabled p \<or> \<not> pr_valid p \<or> sc_type (pr_schedule p) \<noteq> Daemon then s
          else if \<not> crashed \<and> exitCode = 0
          then s\<lparr>m_consecutiveFailures := om_del pid (m_consecutiveFailures s)\<rparr>
          else
            let failures = (case om_get (m_consecutiveFailures s) pid of Some n \<Rightarrow> n | None \<Rightarrow> 0) + 1;
                s = s\<lparr>m_consecutiveFailures := om_put pid failures (m_consecutiveFailures s)\<rparr>
            in if maxConsecutiveFailures (pr_schedule p) \<le> failures
               then publish (scheduleSuppressed pid ''crash_loop'' failures)
                      (s\<lparr>m_restartSuppressed := insert pid (m_restartSuppressed s)\<rparr>)
               else case om_get (e_services s) (serviceId p) of
                   None \<Rightarrow> s
                 | Some service \<Rightarrow> s\<lparr>m_restarts := m_restarts s @ [(pid, sv_serviceDir service)]\<rparr>)"

text \<open>The scheduler is connected to \<open>instanceFinished\<close> before the event bus is.\<close>

definition deliver :: "instance_signal \<Rightarrow> sched \<Rightarrow> sched" where
  "deliver sig s = publish (Instance sig)
     (case sig of
        instanceFinished iid pid exitCode crashed \<Rightarrow> onInstanceFinished pid exitCode crashed s
      | _ \<Rightarrow> s)"

definition deliver_all :: "instance_signal list \<times> manager \<Rightarrow> sched \<Rightarrow> sched" where
  "deliver_all r s = fold deliver (fst r) (s\<lparr>mgr := snd r\<rparr>)"

section \<open>Starting\<close>

definition start_instance :: "start_env \<Rightarrow> project \<Rightarrow> string \<Rightarrow> sched \<Rightarrow> (string + string) \<times> sched" where
  "start_instance env p serviceDir s =
     (let (r, sm) = startInstance env p serviceDir (mgr s) in (r, deliver_all sm s))"

definition startDaemon :: "start_env \<Rightarrow> project \<Rightarrow> string \<Rightarrow> sched \<Rightarrow> sched" where
  "startDaemon env p serviceDir s =
     (if m_shuttingDown s \<or> pr_id p \<in> m_restartSuppressed s then s
      else if 0 < instanceCount (pr_id p) (mgr s) then s
      else snd (start_instance env p serviceDir (publish (scheduleTriggered (pr_id p) ''daemon'') s)))"

definition startFixedRate :: "project \<Rightarrow> string \<Rightarrow> sched \<Rightarrow> sched" where
  "startFixedRate p serviceDir s = s\<lparr>m_timers := om_put (pr_id p) serviceDir (m_timers s)\<rparr>"

text \<open>The slot of the timer of a project.\<close>

definition timer_tick :: "start_env \<Rightarrow> string \<Rightarrow> sched \<Rightarrow> sched" where
  "timer_tick env pid s =
     (case om_get (m_timers s) pid of
        None \<Rightarrow> s
      | Some serviceDir \<Rightarrow>
          if m_shuttingDown s then s
          else case om_get (e_projects s) pid of
            None \<Rightarrow> s
          | Some p \<Rightarrow>
              if \<not> pr_enabled p \<or> \<not> pr_valid p \<or> sc_type (pr_schedule p) \<noteq> FixedRate then s
              else if maxConcurrent (pr_schedule p) \<le> int (instanceCount pid (mgr s)) then s
              else snd (start_instance env p serviceDir (publish (scheduleTriggered pid ''fixed_rate'') s)))"

text \<open>One of the delayed restarts is due; their delays may differ, so it need not be the first.\<close>

definition restart_due :: "start_env \<Rightarrow> nat \<Rightarrow> sched \<Rightarrow> sched" where
  "restart_due env n s =
     (if length (m_restarts s) \<le> n then s
      else
        let (pid, serviceDir) = m_restarts s ! n;
            s = s\<lparr>m_restarts := take n (m_restarts s) @ drop (Suc n) (m_restarts s)\<rparr>
        in if m_shuttingDown s \<or> pid \<in> m_restartSuppressed s then s
           else case om_get (e_projects s) pid of
             None \<Rightarrow> s
           | Some p \<Rightarrow> startDaemon env p serviceDir s)"

definition start_scheduled :: "start_env \<Rightarrow> project \<Rightarrow> sched \<Rightarrow> sched" where
  "start_scheduled env p s =
     (case om_get (e_services s) (serviceId p) of
        None \<Rightarrow> s
      | Some service \<Rightarrow>
          (case sc_type (pr_schedule p) of
             Manual \<Rightarrow> s
           | FixedRate \<Rightarrow> startFixedRate p (sv_serviceDir service) s
           | Daemon \<Rightarrow> startDaemon env p (sv_serviceDir service) s))"

definition stopAll :: "sched \<Rightarrow> sched" where
  "stopAll s = s\<lparr>m_timers := [], m_consecutiveFailures := [], m_restartSuppressed := {}\<rparr>"

definition startAll ::
  "(string \<Rightarrow> start_env) \<Rightarrow> (string, project) omap \<Rightarrow> (string, service_info) omap \<Rightarrow> sched \<Rightarrow> sched" where
  "startAll env projects services s =
     fold (\<lambda>(pid, p) s. if \<not> pr_enabled p \<or> \<not> pr_valid p then s else start_scheduled (env pid) p s)
       projects ((stopAll s)\<lparr>e_projects := projects, e_services := services\<rparr>)"

definition startProject :: "start_env \<Rightarrow> project \<Rightarrow> (string, service_info) omap \<Rightarrow> sched \<Rightarrow> sched" where
  "startProject env p services s =
     (let s = s\<lparr>e_projects := om_put (pr_id p) p (e_projects s), e_services := services,
                m_timers := om_del (pr_id p) (m_timers s),
                m_restartSuppressed := m_restartSuppressed s - {pr_id p},
                m_consecutiveFailures := om_del (pr_id p) (m_consecutiveFailures s)\<rparr>
      in if m_shuttingDown s \<or> \<not> pr_enabled p \<or> \<not> pr_valid p then s else start_scheduled env p s)"

section \<open>Stopping\<close>

definition stopProject :: "string \<Rightarrow> sched \<Rightarrow> sched" where
  "stopProject pid s =
     s\<lparr>m_timers := om_del pid (m_timers s), m_restartSuppressed := insert pid (m_restartSuppressed s),
       m_consecutiveFailures := om_del pid (m_consecutiveFailures s)\<rparr>"

definition resumeProject :: "string \<Rightarrow> sched \<Rightarrow> sched" where
  "resumeProject pid s =
     s\<lparr>m_restartSuppressed := m_restartSuppressed s - {pid},
       m_consecutiveFailures := om_del pid (m_consecutiveFailures s)\<rparr>"

record project_runtime =
  shuttingDown :: bool
  restartSuppressed :: bool
  timerActive :: bool
  consecutiveFailures :: int

definition projectRuntimeState :: "string \<Rightarrow> sched \<Rightarrow> project_runtime" where
  "projectRuntimeState pid s =
     \<lparr>shuttingDown = m_shuttingDown s, restartSuppressed = pid \<in> m_restartSuppressed s,
      timerActive = om_has (m_timers s) pid,
      consecutiveFailures = (case om_get (m_consecutiveFailures s) pid of Some n \<Rightarrow> n | None \<Rightarrow> 0)\<rparr>"

section \<open>Waiting\<close>

text \<open>
  Both waits of the instance manager turn the event loop. \<open>rounds\<close> is what each turn does, as many
  of them as fit into the time; with none left the wait gives up.
\<close>

fun wait_until :: "('s \<Rightarrow> bool) \<Rightarrow> ('s \<Rightarrow> 's) list \<Rightarrow> 's \<Rightarrow> bool \<times> 's" where
  "wait_until done [] s = (False, s)"
| "wait_until done (r # rounds) s = (if done s then (True, s) else wait_until done rounds (r s))"

definition kill_running :: "(service_instance \<Rightarrow> bool) \<Rightarrow> manager \<Rightarrow> manager" where
  "kill_running sel m =
     m\<lparr>m_instances := map (\<lambda>(k, inst).
         (k, if sel inst \<and> in_process inst \<noteq> NotRunning then inst\<lparr>in_killed := True\<rparr> else inst)) (m_instances m)\<rparr>"

definition on_manager :: "(manager \<Rightarrow> manager) \<Rightarrow> sched \<Rightarrow> sched" where
  "on_manager f s = s\<lparr>mgr := f (mgr s)\<rparr>"

text \<open>The event loop may change whatever the instance manager is part of, so the waits work on any state
  \<open>'s\<close> that has one: \<open>get\<close> reads it and \<open>upd\<close> changes it.\<close>

definition waitProjectFinished ::
  "('s \<Rightarrow> manager) \<Rightarrow> ((manager \<Rightarrow> manager) \<Rightarrow> 's \<Rightarrow> 's) \<Rightarrow> ('s \<Rightarrow> 's) list \<Rightarrow> ('s \<Rightarrow> 's) list \<Rightarrow> string \<Rightarrow> 's \<Rightarrow> bool \<times> 's" where
  "waitProjectFinished get upd grace drain pid s =
     (let finished = (\<lambda>s. instanceCount pid (get s) = 0); (ok, s) = wait_until finished grace s in
      if ok then (True, s)
      else
        let s = upd (kill_running (\<lambda>inst. in_projectId inst = pid)) s;
            s = snd (wait_until finished drain s)
        in (finished s, s))"

definition waitAllFinished ::
  "('s \<Rightarrow> manager) \<Rightarrow> ((manager \<Rightarrow> manager) \<Rightarrow> 's \<Rightarrow> 's) \<Rightarrow> ('s \<Rightarrow> 's) list \<Rightarrow> ('s \<Rightarrow> 's) list \<Rightarrow> 's \<Rightarrow> 's" where
  "waitAllFinished get upd grace drain s =
     (let idle = (\<lambda>s. list_all (\<lambda>(_, inst). in_process inst = NotRunning) (m_instances (get s)));
          (ok, s) = wait_until idle grace s
      in if ok then s
         else snd (wait_until (\<lambda>s. m_instances (get s) = []) drain (upd (kill_running (\<lambda>_. True)) s)))"

section \<open>Events\<close>

datatype sched_event =
    EvInstance instance_event
  | EvTick string start_env
  | EvRestart nat start_env

fun sched_step :: "sched \<Rightarrow> sched_event \<Rightarrow> sched" where
  "sched_step s (EvInstance e) = deliver_all (instance_step e (mgr s)) s"
| "sched_step s (EvTick pid env) = timer_tick env pid s"
| "sched_step s (EvRestart n env) = restart_due env n s"

end
