(* ===== verification/ServerManager.thy ===== *)
theory ServerManager
  imports ScheduleEngine
begin

text \<open>
  The server manager (\<open>src/src/stdiolink_server/server_manager.*\<close>) and the handlers of its HTTP
  interface that change projects (\<open>http/api_router.cpp\<close>). A request is its body with what the system
  contributes to it: the answers to the starts it may cause, the names of temporary files, and the
  turns of the event loop while it waits for processes to end. A turn is any function on the
  server, since other requests may be handled in it. A response is its status code and its object;
  the scan of the service directory, which reads files, is an argument.
\<close>

record qt_codec =
  cd_to_json :: "json \<Rightarrow> bytes"
  cd_from_json :: "bytes \<Rightarrow> string + json"
  cd_re_match :: "string \<Rightarrow> string \<Rightarrow> bool"
  cd_render :: "msg \<Rightarrow> string"

record server =
  sm_dataRoot :: string
  sm_sched :: sched
  sm_services :: "(string, service_info) omap"
  sm_projects :: "(string, project) omap"
  sm_disk :: disk
  sm_inFlight :: "string set"

record request =
  rq_body :: bytes
  rq_starts :: "string \<Rightarrow> start_env"
  rq_temps :: "string \<times> string \<times> string"
  rq_rollbackTemps :: "string \<times> string \<times> string"
  rq_grace :: "(server \<Rightarrow> server) list"
  rq_drain :: "(server \<Rightarrow> server) list"
  rq_dirs :: "string list"
  rq_kept :: "string \<Rightarrow> bool"

datatype response = Response (rs_code: nat) (rs_body: json_obj)

definition jsonResponse :: "json_obj \<Rightarrow> nat \<Rightarrow> response" where
  "jsonResponse obj code = Response code obj"

definition errorResponse :: "nat \<Rightarrow> string \<Rightarrow> response" where
  "errorResponse code text = jsonResponse (jset ''error'' (JStr text) []) code"

definition noContentResponse :: response where
  "noContentResponse = Response 204 []"

definition server_mgr :: "server \<Rightarrow> manager" where
  "server_mgr s = mgr (sm_sched s)"

definition on_sched :: "(sched \<Rightarrow> sched) \<Rightarrow> server \<Rightarrow> server" where
  "on_sched f s = s\<lparr>sm_sched := f (sm_sched s)\<rparr>"

definition projectsDir :: "server \<Rightarrow> string" where
  "projectsDir s = sm_dataRoot s @ ''/projects''"

section \<open>The server manager\<close>

definition startScheduling :: "(string \<Rightarrow> start_env) \<Rightarrow> server \<Rightarrow> server" where
  "startScheduling starts s = on_sched (startAll starts (sm_projects s) (sm_services s)) s"

definition shutdown :: "(server \<Rightarrow> server) list \<Rightarrow> (server \<Rightarrow> server) list \<Rightarrow> server \<Rightarrow> server" where
  "shutdown grace drain s =
     waitAllFinished server_mgr (\<lambda>f. on_sched (on_manager f)) grace drain
       (on_sched (on_manager terminateAll) (on_sched stopAll (on_sched (\<lambda>e. e\<lparr>m_shuttingDown := True\<rparr>) s)))"

record rescan_stats =
  st_added :: nat
  st_removed :: nat
  st_updated :: nat
  st_unchanged :: nat
  st_revalidated :: nat
  st_becameValid :: nat
  st_becameInvalid :: nat
  st_remainedInvalid :: nat
  st_schedulingRestarted :: bool
  st_invalidProjectIds :: "string list"

definition no_stats :: rescan_stats where
  "no_stats = \<lparr>st_added = 0, st_removed = 0, st_updated = 0, st_unchanged = 0, st_revalidated = 0, st_becameValid = 0,
     st_becameInvalid = 0, st_remainedInvalid = 0, st_schedulingRestarted = False, st_invalidProjectIds = []\<rparr>"

definition service_changed :: "service_info \<Rightarrow> service_info \<Rightarrow> bool" where
  "service_changed prev cur \<longleftrightarrow> sv_name prev \<noteq> sv_name cur \<or> sv_version prev \<noteq> sv_version cur
     \<or> sv_serviceDir prev \<noteq> sv_serviceDir cur \<or> sv_rawConfigSchema prev \<noteq> sv_rawConfigSchema cur"

definition count_service :: "(string, service_info) omap \<Rightarrow> string \<times> service_info \<Rightarrow> rescan_stats \<Rightarrow> rescan_stats" where
  "count_service old kv stats =
     (case om_get old (fst kv) of
        None \<Rightarrow> stats\<lparr>st_added := st_added stats + 1\<rparr>
      | Some prev \<Rightarrow>
          if service_changed prev (snd kv) then stats\<lparr>st_updated := st_updated stats + 1\<rparr>
          else stats\<lparr>st_unchanged := st_unchanged stats + 1\<rparr>)"

definition count_removed :: "(string, service_info) omap \<Rightarrow> string \<times> service_info \<Rightarrow> rescan_stats \<Rightarrow> rescan_stats" where
  "count_removed services kv stats =
     (if om_has services (fst kv) then stats else stats\<lparr>st_removed := st_removed stats + 1\<rparr>)"

text \<open>One round of the loop over the projects: the project as it is left, the counters, and the scheduler.\<close>

definition revalidate_project ::
  "qt_codec \<Rightarrow> (string, service_info) omap \<Rightarrow> bool \<Rightarrow> project \<Rightarrow> rescan_stats \<times> sched \<Rightarrow> project \<times> rescan_stats \<times> sched" where
  "revalidate_project cd services stopInvalidProjects p st =
     (let (stats, e) = st;
          (nowValid, p') = validateProject (cd_re_match cd) (cd_render cd) services p;
          stats = stats\<lparr>st_revalidated := st_revalidated stats + 1\<rparr>
      in if nowValid
         then (p', (if \<not> pr_valid p then stats\<lparr>st_becameValid := st_becameValid stats + 1\<rparr> else stats), e)
         else
           let stats = (if pr_valid p then stats\<lparr>st_becameInvalid := st_becameInvalid stats + 1\<rparr>
                        else stats\<lparr>st_remainedInvalid := st_remainedInvalid stats + 1\<rparr>);
               stats = stats\<lparr>st_invalidProjectIds := st_invalidProjectIds stats @ [pr_id p']\<rparr>
           in (p', stats,
               if stopInvalidProjects then on_manager (terminateByProject (pr_id p')) (stopProject (pr_id p') e) else e))"

fun revalidate_projects ::
  "qt_codec \<Rightarrow> (string, service_info) omap \<Rightarrow> bool \<Rightarrow> (string, project) omap \<Rightarrow> rescan_stats \<times> sched
   \<Rightarrow> (string, project) omap \<times> rescan_stats \<times> sched" where
  "revalidate_projects cd services stopInvalidProjects [] st = ([], st)"
| "revalidate_projects cd services stopInvalidProjects ((pid, p) # projects) st =
     (let (p, st) = revalidate_project cd services stopInvalidProjects p st;
          (projects, st) = revalidate_projects cd services stopInvalidProjects projects st
      in ((pid, p) # projects, st))"

definition rescanServices ::
  "qt_codec \<Rightarrow> (string \<Rightarrow> start_env) \<Rightarrow> (string, service_info) omap \<Rightarrow> bool \<Rightarrow> bool \<Rightarrow> bool \<Rightarrow> server \<Rightarrow> rescan_stats \<times> server" where
  "rescanServices cd starts scanned revalidate restartScheduling stopInvalidProjects s =
     (let old = sm_services s;
          s = s\<lparr>sm_services := scanned\<rparr>;
          stats = fold (count_removed scanned) old (fold (count_service old) scanned no_stats);
          (projects, stats, e) =
            (if revalidate then revalidate_projects cd scanned stopInvalidProjects (sm_projects s) (stats, sm_sched s)
             else (sm_projects s, stats, sm_sched s));
          s = s\<lparr>sm_projects := projects, sm_sched := e\<rparr>
      in if restartScheduling then (stats\<lparr>st_schedulingRestarted := True\<rparr>, startScheduling starts s) else (stats, s))"

text \<open>Deleting a service; \<open>removed\<close> is whether its directory could be removed.\<close>

definition invalidate_project :: "string \<Rightarrow> string \<Rightarrow> server \<Rightarrow> server" where
  "invalidate_project sid pid s =
     (case om_get (sm_projects s) pid of
        None \<Rightarrow> s
      | Some p \<Rightarrow>
          on_sched (\<lambda>e. on_manager (terminateByProject pid) (stopProject pid e))
            (s\<lparr>sm_projects := om_put pid (p\<lparr>pr_valid := False,
                 pr_error := ''service '' @ quote @ sid @ quote @ '' has been deleted''\<rparr>) (sm_projects s)\<rparr>))"

definition deleteService :: "bool \<Rightarrow> string \<Rightarrow> bool \<Rightarrow> server \<Rightarrow> (string + unit) \<times> server" where
  "deleteService removed sid force s =
     (if \<not> om_has (sm_services s) sid then (Inl ''service not found'', s)
      else
        let associated = map fst (filter (\<lambda>(_, p). serviceId p = sid) (sm_projects s)) in
        if associated \<noteq> [] \<and> \<not> force
        then (Inl (''service has associated projects: '' @ join_with '', '' associated), s)
        else
          let s = (if force then fold (invalidate_project sid) associated s else s) in
          if \<not> removed then (Inl ''failed to remove service directory'', s)
          else (Inr (), s\<lparr>sm_services := om_del sid (sm_services s)\<rparr>))"

text \<open>\<open>loaded\<close> is the service as its directory holds it now, or the error of reading it.\<close>

definition reloadService :: "string + service_info \<Rightarrow> string \<Rightarrow> server \<Rightarrow> (string + unit) \<times> server" where
  "reloadService loaded sid s =
     (if \<not> om_has (sm_services s) sid then (Inl ''service not found in memory'', s)
      else case loaded of
        Inl err \<Rightarrow> (Inl (''failed to reload service: '' @ err), s)
      | Inr service \<Rightarrow> (Inr (), s\<lparr>sm_services := om_put sid service (sm_services s)\<rparr>))"

end
