(* ===== verification/ProjectApi.thy ===== *)
theory ProjectApi
  imports ServerManager
begin

text \<open>
  The handlers of the HTTP interface that change projects or start and stop them
  (\<open>src/src/stdiolink_server/http/api_router.cpp\<close>, \<open>http_helpers.h\<close>). A handler that changes a project
  keeps the project's id in \<open>sm_inFlight\<close> while it runs, because it turns the event loop while it
  waits, and other requests are handled there.
\<close>

definition kMaxRequestBodyBytes :: nat where
  "kMaxRequestBodyBytes = 1 * 1024 * 1024"

definition is_space :: "byte \<Rightarrow> bool" where
  "is_space b \<longleftrightarrow> b = 32 \<or> (9 \<le> b \<and> b \<le> 13)"

text \<open>The error text with the flag \<open>payloadTooLarge\<close>, or the object.\<close>

definition parseJsonObjectBody :: "qt_codec \<Rightarrow> bytes \<Rightarrow> string \<times> bool + json_obj" where
  "parseJsonObjectBody cd body =
     (if kMaxRequestBodyBytes < length body then Inl (''request body too large (limit 1MB)'', True)
      else if list_all is_space body then Inr []
      else case cd_from_json cd body of
        Inr (JObj obj) \<Rightarrow> Inr obj
      | _ \<Rightarrow> Inl (''request body must be a JSON object'', False))"

definition bodyParseErrorResponse :: "string \<times> bool \<Rightarrow> response" where
  "bodyParseErrorResponse e = errorResponse (if snd e then 413 else 400) (fst e)"

definition projectStatus :: "project \<Rightarrow> nat \<Rightarrow> string" where
  "projectStatus p runningCount =
     (if \<not> pr_valid p then ''invalid''
      else if \<not> pr_enabled p then ''disabled''
      else if 0 < runningCount then ''running''
      else ''stopped'')"

definition projectToJson :: "project \<Rightarrow> manager \<Rightarrow> json_obj" where
  "projectToJson p m =
     (let runningCount = instanceCount (pr_id p) m in
      jset_if (pr_error p \<noteq> []) ''error'' (JStr (pr_error p))
      (jset ''status'' (JStr (projectStatus p runningCount))
      (jset ''instanceCount'' (jint (int runningCount))
      (jset ''config'' (JObj (pr_config p))
      (jset ''schedule'' (JObj (Schedule_toJson (pr_schedule p)))
      (jset ''valid'' (JBool (pr_valid p))
      (jset ''enabled'' (JBool (pr_enabled p))
      (jset ''serviceId'' (JStr (serviceId p))
      (jset ''name'' (JStr (pr_name p))
      (jset ''id'' (JStr (pr_id p)) []))))))))))"

definition projectBusyResponse :: "string \<Rightarrow> response" where
  "projectBusyResponse pid = errorResponse 409 (''project instances still running after stop timeout: '' @ pid)"

definition projectOperationInProgressResponse :: "string \<Rightarrow> response" where
  "projectOperationInProgressResponse pid = errorResponse 409 (''project operation already in progress: '' @ pid)"

definition stopProjectAndWait :: "request \<Rightarrow> string \<Rightarrow> server \<Rightarrow> bool \<times> server" where
  "stopProjectAndWait rq pid s =
     waitProjectFinished server_mgr (\<lambda>f. on_sched (on_manager f)) (rq_grace rq) (rq_drain rq) pid
       (on_sched (on_manager (terminateByProject pid)) (on_sched (stopProject pid) s))"

definition save_project :: "qt_codec \<Rightarrow> string \<times> string \<times> string \<Rightarrow> project \<Rightarrow> server \<Rightarrow> (string + unit) \<times> server" where
  "save_project cd temps p s =
     (let (configTemp, paramTemp, suffix) = temps;
          (r, d) = saveProject (cd_to_json cd) configTemp paramTemp suffix (projectsDir s) p (sm_disk s)
      in (r, s\<lparr>sm_disk := d\<rparr>))"

definition rollbackProjectStorage :: "qt_codec \<Rightarrow> request \<Rightarrow> project \<Rightarrow> server \<Rightarrow> (string + unit) \<times> server" where
  "rollbackProjectStorage cd rq p s =
     (case save_project cd (rq_rollbackTemps rq) p s of
        (Inl err, s) \<Rightarrow> (Inl (''rollback failed: '' @ err), s)
      | (Inr _, s) \<Rightarrow> (Inr (), s))"

text \<open>The scope guard of the mutations.\<close>

definition guarded :: "string \<Rightarrow> (server \<Rightarrow> response \<times> server) \<Rightarrow> server \<Rightarrow> response \<times> server" where
  "guarded pid body s =
     (if pid \<in> sm_inFlight s then (projectOperationInProgressResponse pid, s)
      else
        let (r, s) = body (s\<lparr>sm_inFlight := insert pid (sm_inFlight s)\<rparr>)
        in (r, s\<lparr>sm_inFlight := sm_inFlight s - {pid}\<rparr>))"

definition validate_project :: "qt_codec \<Rightarrow> server \<Rightarrow> project \<Rightarrow> bool \<times> project" where
  "validate_project cd s p = validateProject (cd_re_match cd) (cd_render cd) (sm_services s) p"

definition put_project :: "string \<Rightarrow> project \<Rightarrow> server \<Rightarrow> server" where
  "put_project pid p s = s\<lparr>sm_projects := om_put pid p (sm_projects s)\<rparr>"

section \<open>Creating and updating\<close>

definition handleProjectCreate :: "qt_codec \<Rightarrow> request \<Rightarrow> server \<Rightarrow> response \<times> server" where
  "handleProjectCreate cd rq s =
     (case parseJsonObjectBody cd (rq_body rq) of
        Inl e \<Rightarrow> (bodyParseErrorResponse e, s)
      | Inr body \<Rightarrow>
          if \<not> is_string (jval body ''id'') then (errorResponse 400 ''missing required string field: id'', s)
          else
            let pid = to_string (jval body ''id'') in
            if \<not> isValidProjectId pid then (errorResponse 400 ''invalid project id'', s)
            else if om_has (sm_projects s) pid then (errorResponse 409 ''project already exists'', s)
            else
              let (p, parseError) = Project_fromJson pid body in
              if parseError \<noteq> [] then (errorResponse 400 parseError, s)
              else
                let (ok, p) = validate_project cd s p in
                if \<not> ok then (errorResponse 400 (''project invalid: '' @ pr_error p), s)
                else
                  case save_project cd (rq_temps rq) p s of
                    (Inl err, s) \<Rightarrow> (errorResponse 500 err, s)
                  | (Inr _, s) \<Rightarrow>
                      let s = startScheduling (rq_starts rq) (put_project pid p s)
                      in (jsonResponse (projectToJson p (server_mgr s)) 201, s))"

text \<open>What an update and a change of \<open>enabled\<close> do when the project's processes do not end.\<close>

definition give_up_change :: "qt_codec \<Rightarrow> request \<Rightarrow> string \<Rightarrow> project \<Rightarrow> server \<Rightarrow> response \<times> server" where
  "give_up_change cd rq pid oldProject s =
     (let (rolledBack, s) = rollbackProjectStorage cd rq oldProject s;
          s = startScheduling (rq_starts rq) s
      in case rolledBack of
           Inl err \<Rightarrow> (errorResponse 500 err, s)
         | Inr _ \<Rightarrow> (projectBusyResponse pid, s))"

definition update_body :: "qt_codec \<Rightarrow> request \<Rightarrow> string \<Rightarrow> server \<Rightarrow> response \<times> server" where
  "update_body cd rq pid s =
     (case parseJsonObjectBody cd (rq_body rq) of
        Inl e \<Rightarrow> (bodyParseErrorResponse e, s)
      | Inr body \<Rightarrow>
          if is_string (jval body ''id'') \<and> to_string (jval body ''id'') \<noteq> pid
          then (errorResponse 409 ''project id mismatch'', s)
          else
            let (p, parseError) = Project_fromJson pid body in
            if parseError \<noteq> [] then (errorResponse 400 parseError, s)
            else
              let (ok, p) = validate_project cd s p in
              if \<not> ok then (errorResponse 400 (''project invalid: '' @ pr_error p), s)
              else
                let oldProject = the (om_get (sm_projects s) pid) in
                case save_project cd (rq_temps rq) p s of
                  (Inl err, s) \<Rightarrow> (errorResponse 500 err, s)
                | (Inr _, s) \<Rightarrow>
                    let (finished, s) = stopProjectAndWait rq pid s in
                    if \<not> finished then give_up_change cd rq pid oldProject s
                    else
                      let s = startScheduling (rq_starts rq) (put_project pid p s)
                      in (jsonResponse (projectToJson p (server_mgr s)) 200, s))"

definition handleProjectUpdate :: "qt_codec \<Rightarrow> request \<Rightarrow> string \<Rightarrow> server \<Rightarrow> response \<times> server" where
  "handleProjectUpdate cd rq pid s =
     (if \<not> om_has (sm_projects s) pid then (errorResponse 404 ''project not found'', s)
      else guarded pid (update_body cd rq pid) s)"

definition enabled_body :: "qt_codec \<Rightarrow> request \<Rightarrow> string \<Rightarrow> server \<Rightarrow> response \<times> server" where
  "enabled_body cd rq pid s =
     (case parseJsonObjectBody cd (rq_body rq) of
        Inl e \<Rightarrow> (bodyParseErrorResponse e, s)
      | Inr body \<Rightarrow>
          if \<not> is_bool (jval body ''enabled'')
          then (errorResponse 400 (''field '' @ quote @ ''enabled'' @ quote @ '' is required and must be a bool''), s)
          else
            let newEnabled = to_bool_or False (jval body ''enabled'');
                oldProject = the (om_get (sm_projects s) pid);
                updated = oldProject\<lparr>pr_enabled := newEnabled\<rparr>
            in case save_project cd (rq_temps rq) updated s of
                 (Inl err, s) \<Rightarrow> (errorResponse 500 err, s)
               | (Inr _, s) \<Rightarrow>
                   let (finished, s) = (if newEnabled then (True, s) else stopProjectAndWait rq pid s) in
                   if \<not> finished then give_up_change cd rq pid oldProject s
                   else
                     let s = put_project pid updated s;
                         s = (if newEnabled
                              then on_sched (startProject (rq_starts rq pid) updated (sm_services s)) s else s)
                     in (jsonResponse (projectToJson updated (server_mgr s)) 200, s))"

definition handleProjectEnabled :: "qt_codec \<Rightarrow> request \<Rightarrow> string \<Rightarrow> server \<Rightarrow> response \<times> server" where
  "handleProjectEnabled cd rq pid s =
     (if \<not> om_has (sm_projects s) pid then (errorResponse 404 ''project not found'', s)
      else guarded pid (enabled_body cd rq pid) s)"

section \<open>Deleting and reloading\<close>

definition delete_body :: "request \<Rightarrow> string \<Rightarrow> server \<Rightarrow> response \<times> server" where
  "delete_body rq pid s =
     (let (finished, s) = stopProjectAndWait rq pid s in
      if \<not> finished then (projectBusyResponse pid, startScheduling (rq_starts rq) s)
      else
        let (r, d) = removeProject (rq_dirs rq) (rq_kept rq) (projectsDir s) pid (sm_disk s);
            s = s\<lparr>sm_disk := d\<rparr>
        in case r of
             Inl err \<Rightarrow> (errorResponse 500 err, startScheduling (rq_starts rq) s)
           | Inr _ \<Rightarrow> (noContentResponse, s\<lparr>sm_projects := om_del pid (sm_projects s)\<rparr>))"

definition handleProjectDelete :: "request \<Rightarrow> string \<Rightarrow> server \<Rightarrow> response \<times> server" where
  "handleProjectDelete rq pid s =
     (if \<not> om_has (sm_projects s) pid then (errorResponse 404 ''project not found'', s)
      else guarded pid (delete_body rq pid) s)"

definition reload_body :: "qt_codec \<Rightarrow> request \<Rightarrow> string \<Rightarrow> server \<Rightarrow> response \<times> server" where
  "reload_body cd rq pid s =
     (case loadProject (cd_from_json cd) (rq_dirs rq) (projectsDir s) pid (sm_disk s) of
        Inl err \<Rightarrow>
          if err = ''project not found: '' @ pid then (errorResponse 404 ''project not found'', s)
          else (errorResponse 400 err, s)
      | Inr p \<Rightarrow>
          let (ok, p) = validate_project cd s p in
          if \<not> ok then (errorResponse 400 (''project invalid: '' @ pr_error p), s)
          else
            let (finished, s) = stopProjectAndWait rq pid s in
            if \<not> finished then (projectBusyResponse pid, startScheduling (rq_starts rq) s)
            else
              let s = startScheduling (rq_starts rq) (put_project pid p s)
              in (jsonResponse (projectToJson p (server_mgr s)) 200, s))"

definition handleProjectReload :: "qt_codec \<Rightarrow> request \<Rightarrow> string \<Rightarrow> server \<Rightarrow> response \<times> server" where
  "handleProjectReload cd rq pid s = guarded pid (reload_body cd rq pid) s"

section \<open>Validating, starting and stopping\<close>

definition handleProjectValidate :: "qt_codec \<Rightarrow> request \<Rightarrow> string \<Rightarrow> server \<Rightarrow> response \<times> server" where
  "handleProjectValidate cd rq pid s =
     (case om_get (sm_projects s) pid of
        None \<Rightarrow> (errorResponse 404 ''project not found'', s)
      | Some p \<Rightarrow>
          (case parseJsonObjectBody cd (rq_body rq) of
             Inl e \<Rightarrow> (bodyParseErrorResponse e, s)
           | Inr body \<Rightarrow>
               if \<not> is_object (jval body ''config'')
               then (errorResponse 400 (''field '' @ quote @ ''config'' @ quote @ '' must be an object''), s)
               else
                 let (ok, temp) = validate_project cd s (p\<lparr>pr_config := to_object (jval body ''config'')\<rparr>)
                 in (jsonResponse (jset_if (\<not> ok) ''error'' (JStr (pr_error temp)) (jset ''valid'' (JBool ok) [])) 200, s)))"

text \<open>Whether the schedule of a project allows a start by hand, with the answer when it does not.\<close>

definition start_refused :: "project \<Rightarrow> nat \<Rightarrow> response option" where
  "start_refused p running =
     (case sc_type (pr_schedule p) of
        Manual \<Rightarrow> if 0 < running then Some (errorResponse 409 ''already running'') else None
      | FixedRate \<Rightarrow>
          if maxConcurrent (pr_schedule p) \<le> int running then Some (errorResponse 409 ''max concurrent reached'') else None
      | Daemon \<Rightarrow> if 0 < running then Some (jsonResponse (jset ''noop'' (JBool True) []) 200) else None)"

definition start_body :: "request \<Rightarrow> string \<Rightarrow> server \<Rightarrow> response \<times> server" where
  "start_body rq pid s =
     (case om_get (sm_projects s) pid of
        None \<Rightarrow> (errorResponse 404 ''project not found'', s)
      | Some p \<Rightarrow>
          if \<not> pr_valid p then (errorResponse 400 (''project invalid: '' @ pr_error p), s)
          else
            case om_get (sm_services s) (serviceId p) of
              None \<Rightarrow> (errorResponse 400 ''service not found'', s)
            | Some service \<Rightarrow>
                (case start_refused p (instanceCount pid (server_mgr s)) of
                   Some r \<Rightarrow> (r, s)
                 | None \<Rightarrow>
                     let (r, e) = start_instance (rq_starts rq pid) p (sv_serviceDir service)
                                    (resumeProject pid (sm_sched s));
                         s = s\<lparr>sm_sched := e\<rparr>
                     in case r of
                          Inl err \<Rightarrow> (errorResponse 500 err, s)
                        | Inr iid \<Rightarrow>
                            (jsonResponse
                               (jset ''status'' (JStr (case getInstance iid (server_mgr s) of
                                    Some inst \<Rightarrow> in_status inst | None \<Rightarrow> ''starting''))
                               (jset ''instanceId'' (JStr iid) [])) 200, s)))"

definition handleProjectStart :: "request \<Rightarrow> string \<Rightarrow> server \<Rightarrow> response \<times> server" where
  "handleProjectStart rq pid s = guarded pid (start_body rq pid) s"

definition stop_body :: "string \<Rightarrow> server \<Rightarrow> response \<times> server" where
  "stop_body pid s =
     (jsonResponse (jset ''stopped'' (JBool True) []) 200,
      on_sched (on_manager (terminateByProject pid)) (on_sched (stopProject pid) s))"

definition handleProjectStop :: "string \<Rightarrow> server \<Rightarrow> response \<times> server" where
  "handleProjectStop pid s =
     (if \<not> om_has (sm_projects s) pid then (errorResponse 404 ''project not found'', s)
      else guarded pid (stop_body pid) s)"

end
