(* ===== verification/ProcMonitor.thy ===== *)
theory ProcMonitor
  imports ProjectApi
begin

text \<open>
  The process monitor of the server (\<open>src/src/stdiolink_server/manager/process_monitor.cpp\<close>): the processes
  under an instance's process, as a tree and as a list, with the CPU time each used since it was last
  looked at. The operating system is an argument (\<open>process_os\<close>): the children of a process, what can be
  read of one, and the time. The loops over the children are bounded by a number of levels that the
  specification shows to be enough when it reaches the number of processes.
\<close>

section \<open>Processes\<close>

record process_info =
  pi_pid :: int
  pi_parentPid :: int
  pi_name :: string
  pi_commandLine :: string
  pi_status :: string
  pi_startedAt :: "string option"
  pi_cpuPercent :: rat
  pi_memoryRssBytes :: int
  pi_memoryVmsBytes :: int
  pi_threadCount :: int
  pi_uptimeSeconds :: int
  pi_ioReadBytes :: int
  pi_ioWriteBytes :: int

datatype process_tree = ProcNode process_info "process_tree list"

record process_summary =
  ps_totalProcesses :: int
  ps_totalCpuPercent :: rat
  ps_totalMemoryRssBytes :: int
  ps_totalThreads :: int

text \<open>\<open>os_percent\<close> divides two numbers of milliseconds and multiplies by 100, in doubles; sums of doubles
  are taken by \<open>os_plus\<close>. The CPU time, which the code keeps in the field for the percentage at first, is \<open>os_cpuTimeMs\<close>.\<close>

record process_os =
  os_children :: "int \<Rightarrow> int list"
  os_info :: "int \<Rightarrow> process_info"
  os_cpuTimeMs :: "int \<Rightarrow> int"
  os_now :: int
  os_percent :: "int \<Rightarrow> int \<Rightarrow> rat"
  os_plus :: "rat \<Rightarrow> rat \<Rightarrow> rat"

type_synonym cpu_samples = "int \<Rightarrow> (int \<times> int) option"

definition calculateCpuPercent :: "process_os \<Rightarrow> int \<Rightarrow> int \<Rightarrow> cpu_samples \<Rightarrow> rat \<times> cpu_samples" where
  "calculateCpuPercent os pid currentCpuTimeMs samples =
     (let samples' = samples(pid \<mapsto> (currentCpuTimeMs, os_now os)) in
      case samples pid of
        None \<Rightarrow> (0, samples')
      | Some (cpuTimeMs, timestamp) \<Rightarrow>
          (let wallDelta = os_now os - timestamp in
           (if wallDelta \<le> 0 then 0 else os_percent os (currentCpuTimeMs - cpuTimeMs) wallDelta, samples')))"

text \<open>What is read of a process, with the raw CPU time replaced by the percentage.\<close>

definition sampled_info :: "process_os \<Rightarrow> int \<Rightarrow> cpu_samples \<Rightarrow> process_info \<times> cpu_samples" where
  "sampled_info os pid samples =
     (let info = (os_info os pid)\<lparr>pi_pid := pid\<rparr>;
          (percent, samples) = calculateCpuPercent os pid (os_cpuTimeMs os pid) samples
      in (info\<lparr>pi_cpuPercent := percent\<rparr>, samples))"

definition cleanupSamples :: "int set \<Rightarrow> cpu_samples \<Rightarrow> cpu_samples" where
  "cleanupSamples alivePids samples = samples |` alivePids"

section \<open>The tree\<close>

fun build_forest ::
  "nat \<Rightarrow> process_os \<Rightarrow> int list \<Rightarrow> int set \<times> cpu_samples \<Rightarrow> (process_tree list \<times> int set \<times> cpu_samples) option" where
  "build_forest levels os [] (visited, samples) = Some ([], visited, samples)"
| "build_forest levels os (child # children) (visited, samples) =
     (if child \<in> visited then build_forest levels os children (visited, samples)
      else case levels of
        0 \<Rightarrow> None
      | Suc n \<Rightarrow>
          (let (info, samples) = sampled_info os child samples in
           case build_forest n os (os_children os child) (insert child visited, samples) of
             None \<Rightarrow> None
           | Some (nested, st) \<Rightarrow>
               map_option (\<lambda>(siblings, st). (ProcNode info nested # siblings, st)) (build_forest levels os children st)))"

definition buildTree :: "nat \<Rightarrow> process_os \<Rightarrow> int \<Rightarrow> int set \<times> cpu_samples \<Rightarrow> (process_tree \<times> int set \<times> cpu_samples) option" where
  "buildTree levels os pid st =
     (let (info, samples) = sampled_info os pid (snd st) in
      map_option (\<lambda>(nested, st). (ProcNode info nested, st))
        (build_forest levels os (os_children os pid) (insert pid (fst st), samples)))"

definition getProcessTree :: "nat \<Rightarrow> process_os \<Rightarrow> int \<Rightarrow> cpu_samples \<Rightarrow> (process_tree \<times> cpu_samples) option" where
  "getProcessTree levels os rootPid samples =
     map_option (\<lambda>(tree, visited, samples). (tree, cleanupSamples visited samples))
       (buildTree levels os rootPid ({}, samples))"

section \<open>The list\<close>

fun collectFamily ::
  "nat \<Rightarrow> process_os \<Rightarrow> int list \<Rightarrow> process_info list \<times> int set \<times> cpu_samples
     \<Rightarrow> (process_info list \<times> int set \<times> cpu_samples) option" where
  "collectFamily levels os [] st = Some st"
| "collectFamily levels os (child # children) (out, visited, samples) =
     (if child \<in> visited then collectFamily levels os children (out, visited, samples)
      else case levels of
        0 \<Rightarrow> None
      | Suc n \<Rightarrow>
          (let (info, samples) = sampled_info os child samples in
           case collectFamily n os (os_children os child) (out @ [info], insert child visited, samples) of
             None \<Rightarrow> None
           | Some st \<Rightarrow> collectFamily levels os children st))"

definition getProcessFamily ::
  "nat \<Rightarrow> process_os \<Rightarrow> int \<Rightarrow> bool \<Rightarrow> cpu_samples \<Rightarrow> (process_info list \<times> cpu_samples) option" where
  "getProcessFamily levels os rootPid includeChildren samples =
     (let (root, samples) = sampled_info os rootPid samples in
      map_option (\<lambda>(out, visited, samples). (out, cleanupSamples visited samples))
        (if includeChildren then collectFamily levels os (os_children os rootPid) ([root], {rootPid}, samples)
         else Some ([root], {rootPid}, samples)))"

section \<open>Summaries\<close>

definition add_process :: "process_os \<Rightarrow> process_info \<Rightarrow> process_summary \<Rightarrow> process_summary" where
  "add_process os p s =
     s\<lparr>ps_totalCpuPercent := os_plus os (ps_totalCpuPercent s) (pi_cpuPercent p),
       ps_totalMemoryRssBytes := ps_totalMemoryRssBytes s + pi_memoryRssBytes p,
       ps_totalThreads := ps_totalThreads s + pi_threadCount p\<rparr>"

definition no_processes :: process_summary where
  "no_processes = \<lparr>ps_totalProcesses = 0, ps_totalCpuPercent = 0, ps_totalMemoryRssBytes = 0, ps_totalThreads = 0\<rparr>"

definition summarize_list :: "process_os \<Rightarrow> process_info list \<Rightarrow> process_summary" where
  "summarize_list os processes =
     foldl (\<lambda>s p. add_process os p s) (no_processes\<lparr>ps_totalProcesses := int (length processes)\<rparr>) processes"

fun tree_size :: "process_tree \<Rightarrow> nat" where
  "tree_size (ProcNode p children) = Suc (sum_list (map tree_size children))"

lemma tree_size_stack: "stack \<noteq> [] \<Longrightarrow> last stack = ProcNode p children \<Longrightarrow>
  sum_list (map tree_size (butlast stack @ children)) < sum_list (map tree_size stack)"
proof -
  assume ne: "stack \<noteq> []" and top: "last stack = ProcNode p children"
  have "sum_list (map tree_size stack) = sum_list (map tree_size (butlast stack @ [last stack]))" using ne by simp
  also have "\<dots> = Suc (sum_list (map tree_size (butlast stack @ children)))" by (simp add: top)
  finally show ?thesis by simp
qed

text \<open>The stack of the code, its last element on top.\<close>

function summarize_stack :: "process_os \<Rightarrow> process_tree list \<Rightarrow> process_summary \<Rightarrow> process_summary" where
  "summarize_stack os stack s =
     (if stack = [] then s
      else case last stack of
        ProcNode p children \<Rightarrow>
          summarize_stack os (butlast stack @ children)
            (add_process os p (s\<lparr>ps_totalProcesses := ps_totalProcesses s + 1\<rparr>)))"
  by pat_completeness auto

termination
  by (relation "measure (\<lambda>(os, stack, s). sum_list (map tree_size stack))") (use tree_size_stack in simp_all)

declare summarize_stack.simps [simp del]

definition summarize_tree :: "process_os \<Rightarrow> process_tree \<Rightarrow> process_summary" where
  "summarize_tree os tree = summarize_stack os [tree] no_processes"

section \<open>JSON\<close>

definition process_json :: "process_info \<Rightarrow> json_obj" where
  "process_json p =
     jset ''ioWriteBytes'' (jint (pi_ioWriteBytes p)) (jset ''ioReadBytes'' (jint (pi_ioReadBytes p))
     (jset ''uptimeSeconds'' (jint (pi_uptimeSeconds p)) (jset ''threadCount'' (jint (pi_threadCount p))
     (jset ''memoryVmsBytes'' (jint (pi_memoryVmsBytes p)) (jset ''memoryRssBytes'' (jint (pi_memoryRssBytes p))
     (jset ''cpuPercent'' (JNum (pi_cpuPercent p))
     ((case pi_startedAt p of None \<Rightarrow> (\<lambda>obj. obj) | Some t \<Rightarrow> jset ''startedAt'' (JStr t))
     (jset ''status'' (JStr (pi_status p)) (jset ''commandLine'' (JStr (pi_commandLine p))
     (jset ''name'' (JStr (pi_name p)) (jset ''parentPid'' (jint (pi_parentPid p)) (jset ''pid'' (jint (pi_pid p)) []))))))))))))"

fun tree_json :: "process_tree \<Rightarrow> json_obj" where
  "tree_json (ProcNode p children) =
     jset ''children'' (JArr (map (\<lambda>child. JObj (tree_json child)) children))
     (jset ''resources'' (JObj (jset ''uptimeSeconds'' (jint (pi_uptimeSeconds p)) (jset ''threadCount'' (jint (pi_threadCount p))
       (jset ''memoryVmsBytes'' (jint (pi_memoryVmsBytes p)) (jset ''memoryRssBytes'' (jint (pi_memoryRssBytes p))
       (jset ''cpuPercent'' (JNum (pi_cpuPercent p)) []))))))
     ((case pi_startedAt p of None \<Rightarrow> (\<lambda>obj. obj) | Some t \<Rightarrow> jset ''startedAt'' (JStr t))
     (jset ''status'' (JStr (pi_status p)) (jset ''commandLine'' (JStr (pi_commandLine p))
     (jset ''name'' (JStr (pi_name p)) (jset ''pid'' (jint (pi_pid p)) []))))))"

definition summary_json :: "process_summary \<Rightarrow> json_obj" where
  "summary_json s =
     jset ''totalThreads'' (jint (ps_totalThreads s)) (jset ''totalMemoryRssBytes'' (jint (ps_totalMemoryRssBytes s))
     (jset ''totalCpuPercent'' (JNum (ps_totalCpuPercent s)) (jset ''totalProcesses'' (jint (ps_totalProcesses s)) [])))"

section \<open>The requests\<close>

text \<open>\<open>pid_of\<close> is the process id the system gave an instance, \<open>platform\<close> the name of an unsupported system.\<close>

definition monitor_unsupported :: "string \<Rightarrow> response" where
  "monitor_unsupported platform =
     jsonResponse (jset ''platform'' (JStr platform) (jset ''supported'' (JBool False)
       (jset ''code'' (JStr ''PROCESS_MONITOR_UNSUPPORTED'')
         (jset ''error'' (JStr ''process monitoring not supported on this platform'') [])))) 501"

definition monitored_instance :: "string option \<Rightarrow> string \<Rightarrow> manager \<Rightarrow> response + service_instance" where
  "monitored_instance unsupported iid m =
     (case unsupported of
        Some platform \<Rightarrow> Inl (monitor_unsupported platform)
      | None \<Rightarrow>
          (case getInstance iid m of
             None \<Rightarrow> Inl (errorResponse 404 ''instance not found'')
           | Some inst \<Rightarrow> if in_status inst \<noteq> ''running'' then Inl (errorResponse 404 ''instance not running'') else Inr inst))"

definition handleInstanceProcessTree ::
  "nat \<Rightarrow> process_os \<Rightarrow> (string \<Rightarrow> int) \<Rightarrow> string option \<Rightarrow> string \<Rightarrow> manager \<Rightarrow> cpu_samples \<Rightarrow> (response \<times> cpu_samples) option" where
  "handleInstanceProcessTree levels os pid_of unsupported iid m samples =
     (case monitored_instance unsupported iid m of
        Inl refusal \<Rightarrow> Some (refusal, samples)
      | Inr inst \<Rightarrow>
          map_option (\<lambda>(tree, samples).
            (jsonResponse
               (jset ''summary'' (JObj (summary_json (summarize_tree os tree)))
               (jset ''tree'' (JObj (tree_json tree))
               (jset ''rootPid'' (jint (pid_of iid)) (jset ''instanceId'' (JStr iid) [])))) 200, samples))
            (getProcessTree levels os (pid_of iid) samples))"

definition handleInstanceResources ::
  "nat \<Rightarrow> process_os \<Rightarrow> (string \<Rightarrow> int) \<Rightarrow> string option \<Rightarrow> string \<Rightarrow> string option \<Rightarrow> string \<Rightarrow> manager \<Rightarrow> cpu_samples
     \<Rightarrow> (response \<times> cpu_samples) option" where
  "handleInstanceResources levels os pid_of unsupported timestamp includeChildren iid m samples =
     (case monitored_instance unsupported iid m of
        Inl refusal \<Rightarrow> Some (refusal, samples)
      | Inr inst \<Rightarrow>
          map_option (\<lambda>(processes, samples).
            (jsonResponse
               (jset ''summary'' (JObj (summary_json (summarize_list os processes)))
               (jset ''processes'' (JArr (map (\<lambda>p. JObj (process_json p)) processes))
               (jset ''timestamp'' (JStr timestamp) (jset ''instanceId'' (JStr iid) [])))) 200, samples))
            (getProcessFamily levels os (pid_of iid) (includeChildren \<noteq> Some ''false'') samples))"

end
