(* ===== verification/ProcMonitorSpec.thy ===== *)
theory ProcMonitorSpec
  imports ProcMonitor
begin

text \<open>
  The process monitor lists an instance's process and everything below it, each process once,
  whatever the system reports, cycles included, and counts every process of a tree. Its samples of
  the CPU time are shared by all instances and thrown away by the next request for another one, which
  the last theorem turns into a limit of the percentages.
\<close>

section \<open>The list of descendants\<close>

definition child_rel :: "process_os \<Rightarrow> (int \<times> int) set" where
  "child_rel os = {(p, c). c \<in> set (os_children os p)}"

definition descendants :: "process_os \<Rightarrow> int \<Rightarrow> int set" where
  "descendants os pid = (child_rel os)\<^sup>* `` {pid}"

definition pids :: "process_info list \<Rightarrow> int list" where
  "pids ps = map pi_pid ps"

lemma pids_simps [simp]: "pids [] = []" "pids (p # ps) = pi_pid p # pids ps" "pids (ps @ qs) = pids ps @ pids qs"
  by (simp_all add: pids_def)

lemma sampled_pid [simp]: "sampled_info os p sm = (info, sm') \<Longrightarrow> pi_pid info = p"
  by (auto simp: sampled_info_def Let_def split: prod.splits)

definition grown ::
  "process_os \<Rightarrow> int list \<Rightarrow> process_info list \<times> int set \<times> cpu_samples \<Rightarrow> process_info list \<times> int set \<times> cpu_samples \<Rightarrow> bool" where
  "grown os cs st st' \<longleftrightarrow>
     (\<exists>new. fst st' = fst st @ new \<and> distinct (pids new) \<and> set (pids new) \<inter> fst (snd st) = {}
        \<and> fst (snd st') = fst (snd st) \<union> set (pids new) \<and> set cs \<subseteq> fst (snd st')
        \<and> (\<forall>p\<in>set (pids new). set (os_children os p) \<subseteq> fst (snd st'))
        \<and> set (pids new) \<subseteq> (child_rel os)\<^sup>* `` set cs)"

lemma collectFamily_grown:
  "collectFamily levels os cs st = Some st' \<Longrightarrow> grown os cs st st'"
proof (induction levels os cs st arbitrary: st' rule: collectFamily.induct)
  case (1 levels os st)
  then show ?case by (auto simp: grown_def)
next
  case (2 levels os child children out visited samples)
  show ?case
  proof (cases "child \<in> visited")
    case True
    with 2 have "grown os children (out, visited, samples) st'" by simp
    then obtain new where new: "fst st' = out @ new" "distinct (pids new)" "set (pids new) \<inter> visited = {}"
        "fst (snd st') = visited \<union> set (pids new)" "set children \<subseteq> fst (snd st')"
        "\<forall>p\<in>set (pids new). set (os_children os p) \<subseteq> fst (snd st')" "set (pids new) \<subseteq> (child_rel os)\<^sup>* `` set children"
      by (auto simp: grown_def)
    then show ?thesis using True unfolding grown_def by (intro exI [of _ new]) auto
  next
    case False
    with "2.prems" obtain n info samples1 out2 visited2 samples2 where run: "levels = Suc n"
        "sampled_info os child samples = (info, samples1)"
        "collectFamily n os (os_children os child) (out @ [info], insert child visited, samples1) = Some (out2, visited2, samples2)"
        "collectFamily levels os children (out2, visited2, samples2) = Some st'"
      by (auto simp: Let_def split: nat.splits prod.splits option.splits)
    have g1: "grown os (os_children os child) (out @ [info], insert child visited, samples1) (out2, visited2, samples2)"
      using "2.IH"(2) [OF False run(1) run(2) [symmetric]] run(3) by simp
    have g2: "grown os children (out2, visited2, samples2) st'"
      using "2.IH"(3) [OF False run(1) run(2) [symmetric] refl run(3)] run(1,4) by simp
    from g1 obtain a where a: "out2 = out @ [info] @ a" "distinct (pids a)" "set (pids a) \<inter> insert child visited = {}"
        "visited2 = insert child visited \<union> set (pids a)" "set (os_children os child) \<subseteq> visited2"
        "\<forall>p\<in>set (pids a). set (os_children os p) \<subseteq> visited2" "set (pids a) \<subseteq> (child_rel os)\<^sup>* `` set (os_children os child)"
      by (auto simp: grown_def)
    from g2 obtain b where b: "fst st' = out2 @ b" "distinct (pids b)" "set (pids b) \<inter> visited2 = {}"
        "fst (snd st') = visited2 \<union> set (pids b)" "set children \<subseteq> fst (snd st')"
        "\<forall>p\<in>set (pids b). set (os_children os p) \<subseteq> fst (snd st')" "set (pids b) \<subseteq> (child_rel os)\<^sup>* `` set children"
      by (auto simp: grown_def)
    have below: "(child_rel os)\<^sup>* `` set (os_children os child) \<subseteq> (child_rel os)\<^sup>* `` set (child # children)"
      by (auto simp: child_rel_def intro!: ImageI [of child] intro: converse_rtrancl_into_rtrancl)
    have above: "(child_rel os)\<^sup>* `` set children \<subseteq> (child_rel os)\<^sup>* `` set (child # children)"
      by (rule Image_mono) auto
    have self: "child \<in> (child_rel os)\<^sup>* `` set (child # children)" by auto
    have "set (pids (info # a @ b)) \<subseteq> (child_rel os)\<^sup>* `` set (child # children)"
      using subset_trans [OF a(7) below] subset_trans [OF b(7) above] self run(2) by auto
    then show ?thesis
      using a(1-6) b(1-6) False run(2) unfolding grown_def by (intro exI [of _ "info # a @ b"]) auto
  qed
qed

lemma collectFamily_enough:
  "finite U \<Longrightarrow> \<forall>p\<in>U. set (os_children os p) \<subseteq> U \<Longrightarrow> set cs \<subseteq> U \<Longrightarrow> card (U - fst (snd st)) \<le> levels
     \<Longrightarrow> collectFamily levels os cs st \<noteq> None"
proof (induction levels os cs st rule: collectFamily.induct)
  case (2 levels os child children out visited samples)
  show ?case
  proof (cases "child \<in> visited")
    case True
    with 2 show ?thesis by simp
  next
    case False
    have more: "card (U - insert child visited) < card (U - visited)"
      using "2.prems"(1,3) False by (intro psubset_card_mono) auto
    then obtain n where n: "levels = Suc n" using "2.prems"(4) by (cases levels) auto
    obtain info samples1 where run: "sampled_info os child samples = (info, samples1)" by fastforce
    have "collectFamily n os (os_children os child) (out @ [info], insert child visited, samples1) \<noteq> None"
      by (rule "2.IH"(2) [OF False n run [symmetric] refl]) (use "2.prems" more n in auto)
    then obtain st2 where st2: "collectFamily n os (os_children os child) (out @ [info], insert child visited, samples1) = Some st2"
      by auto
    have "U - fst (snd st2) \<subseteq> U - visited" using collectFamily_grown [OF st2] by (auto simp: grown_def)
    then have "card (U - fst (snd st2)) \<le> levels"
      using "2.prems"(1,4) by (auto intro: order_trans [OF card_mono])
    then have "collectFamily levels os children st2 \<noteq> None"
      by (intro "2.IH"(3) [OF False n run [symmetric] refl st2]) (use "2.prems" in auto)
    then show ?thesis using False n run st2 by simp
  qed
qed simp

lemma closed_descendants:
  assumes "p \<in> S" and "\<forall>q\<in>S. set (os_children os q) \<subseteq> S"
  shows "descendants os p \<subseteq> S"
proof
  fix c assume "c \<in> descendants os p"
  then have "(p, c) \<in> (child_rel os)\<^sup>*" by (simp add: descendants_def)
  then show "c \<in> S" by induction (use assms in \<open>auto simp: child_rel_def\<close>)
qed

text \<open>
  Whatever the system says about who is whose child, the family of a process is its descendants, each
  listed once, and the search ends.
\<close>

lemma family_is_descendants:
  assumes "finite U" and "pid0 \<in> U" and "\<forall>p\<in>U. set (os_children os p) \<subseteq> U" and "card U \<le> levels"
  shows "\<exists>out samples'. getProcessFamily levels os pid0 True samples = Some (out, samples')
           \<and> distinct (pids out) \<and> set (pids out) = descendants os pid0 \<and> hd (pids out) = pid0"
proof -
  obtain info samples1 where top: "sampled_info os pid0 samples = (info, samples1)" by fastforce
  have pid: "pi_pid info = pid0" using top by simp
  have "card (U - {pid0}) \<le> levels" using assms(1,4) by (meson Diff_subset card_mono order_trans)
  then have "collectFamily levels os (os_children os pid0) ([info], {pid0}, samples1) \<noteq> None"
    using assms by (intro collectFamily_enough [of U]) auto
  then obtain out visited samples2 where
    run: "collectFamily levels os (os_children os pid0) ([info], {pid0}, samples1) = Some (out, visited, samples2)" by auto
  obtain new where new: "out = info # new" "distinct (pids new)" "set (pids new) \<inter> {pid0} = {}"
      "visited = insert pid0 (set (pids new))" "set (os_children os pid0) \<subseteq> visited"
      "\<forall>p\<in>set (pids new). set (os_children os p) \<subseteq> visited" "set (pids new) \<subseteq> (child_rel os)\<^sup>* `` set (os_children os pid0)"
    using collectFamily_grown [OF run] by (auto simp: grown_def)
  have "set (pids out) = descendants os pid0"
  proof
    have "(child_rel os)\<^sup>* `` set (os_children os pid0) \<subseteq> descendants os pid0"
      by (auto simp: descendants_def child_rel_def intro: converse_rtrancl_into_rtrancl)
    then show "set (pids out) \<subseteq> descendants os pid0" using new(1,7) pid by (auto simp: descendants_def)
    show "descendants os pid0 \<subseteq> set (pids out)"
      by (rule closed_descendants) (use new pid in auto)
  qed
  then show ?thesis using top run new pid by (simp add: getProcessFamily_def)
qed

definition chain_os :: process_os where
  "chain_os =
     \<lparr>os_children = (\<lambda>p. if p = 10 then [11, 12] else if p = 12 then [10, 13] else []),
      os_info = (\<lambda>p. \<lparr>pi_pid = p, pi_parentPid = 1, pi_name = ''node'', pi_commandLine = '''', pi_status = ''running'',
                   pi_startedAt = None, pi_cpuPercent = 0, pi_memoryRssBytes = 4096, pi_memoryVmsBytes = 8192,
                   pi_threadCount = 2, pi_uptimeSeconds = 60, pi_ioReadBytes = 0, pi_ioWriteBytes = 0\<rparr>),
      os_cpuTimeMs = (\<lambda>p. 500), os_now = 2000, os_percent = (\<lambda>c w. of_int (c * 100) / of_int w), os_plus = (+)\<rparr>"

text \<open>C40: A request for the resources of a running instance, on a platform where they can be read, reports
  the descendants of the instance's process, its own included, each once, whatever the system says about who
  is whose child among finitely many processes; the search ends on cycles too. With includeChildren=false it
  reports the instance's process alone.\<close>

theorem resources_list_descendants:
  assumes "finite U" and "pid_of iid \<in> U" and "\<forall>p\<in>U. set (os_children os p) \<subseteq> U" and "card U \<le> levels"
    and "getInstance iid m = Some inst" and "in_status inst = ''running''"
  shows "\<exists>r samples' out.
           handleInstanceResources levels os pid_of None timestamp includeChildren iid m samples = Some (r, samples')
           \<and> rs_code r = 200 \<and> distinct (pids out)
           \<and> set (pids out) = (if includeChildren = Some ''false'' then {pid_of iid} else descendants os (pid_of iid))
           \<and> jval (rs_body r) ''processes'' = JArr (map (\<lambda>p. JObj (process_json p)) out)"
proof -
  have "\<exists>out samples'. getProcessFamily levels os (pid_of iid) (includeChildren \<noteq> Some ''false'') samples = Some (out, samples')
      \<and> distinct (pids out)
      \<and> set (pids out) = (if includeChildren = Some ''false'' then {pid_of iid} else descendants os (pid_of iid))"
  proof (cases "includeChildren = Some ''false''")
    case True
    obtain info samples1 where "sampled_info os (pid_of iid) samples = (info, samples1)" by fastforce
    with True show ?thesis by (simp add: getProcessFamily_def)
  next
    case False
    with family_is_descendants [OF assms(1-4)] show ?thesis by fastforce
  qed
  then show ?thesis using assms(5,6) by (auto simp: handleInstanceResources_def monitored_instance_def jsonResponse_def)
qed

definition chain_instance :: service_instance where
  "chain_instance =
     \<lparr>in_id = ''inst_1'', in_projectId = ''p'', in_serviceId = ''svc'', in_process = Running, in_killed = False,
      in_status = ''running'', in_workingDirectory = ''w'', in_logPath = ''l'', in_commandLine = [], in_runTimeoutMs = 0,
      in_timedOut = False, in_timeoutReason = [], in_runTimeoutTimer = False, in_startFailedEmitted = False\<rparr>"

lemma resources_list_descendants_witness:
  "\<exists>r samples' out. handleInstanceResources 4 chain_os (\<lambda>i. 10) None ''2026-01-01T00:00:00Z'' None ''inst_1''
         \<lparr>m_dataRoot = ''d'', m_serviceProgram = [], m_instances = [(''inst_1'', chain_instance)], m_startTimers = []\<rparr>
         Map.empty = Some (r, samples')
     \<and> rs_code r = 200 \<and> distinct (pids out) \<and> set (pids out) = descendants chain_os 10
     \<and> jval (rs_body r) ''processes'' = JArr (map (\<lambda>p. JObj (process_json p)) out)"
  using resources_list_descendants [of "{10, 11, 12, 13}" "\<lambda>i. 10" "''inst_1''" chain_os 4
      "\<lparr>m_dataRoot = ''d'', m_serviceProgram = [], m_instances = [(''inst_1'', chain_instance)], m_startTimers = []\<rparr>"
      chain_instance "''2026-01-01T00:00:00Z''" None Map.empty]
  by (simp add: chain_os_def getInstance_def chain_instance_def)

section \<open>The samples\<close>

text \<open>A process is shown with 0 percent unless it was sampled before the request.\<close>

definition fresh_zero :: "int set \<Rightarrow> process_info list \<times> int set \<times> cpu_samples \<Rightarrow> bool" where
  "fresh_zero X st \<longleftrightarrow> dom (snd (snd st)) \<subseteq> X \<union> fst (snd st) \<and> (\<forall>p\<in>set (fst st). pi_pid p \<notin> X \<longrightarrow> pi_cpuPercent p = 0)"

lemma sampled_fresh:
  assumes "sampled_info os p sm = (info, sm')"
  shows "dom sm' = insert p (dom sm) \<and> (p \<notin> dom sm \<longrightarrow> pi_cpuPercent info = 0)"
proof -
  define x where "x = calculateCpuPercent os p (os_cpuTimeMs os p) sm"
  have x: "snd x = sm(p \<mapsto> (os_cpuTimeMs os p, os_now os))" "sm p = None \<Longrightarrow> fst x = 0"
    by (cases "sm p"; simp add: x_def calculateCpuPercent_def split_beta)+
  have "(info, sm') = ((os_info os p)\<lparr>pi_pid := p, pi_cpuPercent := fst x\<rparr>, snd x)"
    using assms unfolding sampled_info_def x_def Let_def split_beta by (rule sym)
  then have "sm' = snd x" "pi_cpuPercent info = fst x" by simp_all
  then show ?thesis using x by (cases "sm p") auto
qed

lemma collectFamily_fresh_zero:
  "collectFamily levels os cs st = Some st' \<Longrightarrow> fresh_zero X st \<Longrightarrow> fresh_zero X st'"
proof (induction levels os cs st arbitrary: st' rule: collectFamily.induct)
  case (2 levels os child children out visited samples)
  show ?case
  proof (cases "child \<in> visited")
    case True
    with 2 show ?thesis by simp
  next
    case False
    with "2.prems" obtain n info samples1 st2 where run: "levels = Suc n"
        "sampled_info os child samples = (info, samples1)"
        "collectFamily n os (os_children os child) (out @ [info], insert child visited, samples1) = Some st2"
        "collectFamily levels os children st2 = Some st'"
      by (auto simp: Let_def split: nat.splits prod.splits option.splits)
    have "fresh_zero X (out @ [info], insert child visited, samples1)"
      using "2.prems"(2) sampled_fresh [OF run(2)] sampled_pid [OF run(2)] False by (simp add: fresh_zero_def) blast
    from "2.IH"(2) [OF False run(1) run(2) [symmetric] refl run(3) this] have "fresh_zero X st2" .
    from "2.IH"(3) [OF False run(1) run(2) [symmetric] refl run(3) run(4) this] show ?thesis .
  qed
qed simp

lemma family_samples:
  assumes "getProcessFamily levels os pid0 kids samples = Some (out, samples')"
  shows "set (pids out) \<subseteq> descendants os pid0 \<and> dom samples' \<subseteq> set (pids out)
           \<and> (\<forall>p\<in>set out. pi_pid p \<notin> dom samples \<longrightarrow> pi_cpuPercent p = 0)"
proof -
  obtain info samples1 where top: "sampled_info os pid0 samples = (info, samples1)" by fastforce
  have pid: "pi_pid info = pid0" using top by simp
  have start: "fresh_zero (dom samples) ([info], {pid0}, samples1)"
    using sampled_fresh [OF top] pid by (auto simp: fresh_zero_def)
  have below: "(child_rel os)\<^sup>* `` set (os_children os pid0) \<subseteq> descendants os pid0"
    by (auto simp: descendants_def child_rel_def intro: converse_rtrancl_into_rtrancl)
  have self: "pid0 \<in> descendants os pid0" by (simp add: descendants_def)
  show ?thesis
  proof (cases kids)
    case False
    with assms top start show ?thesis
      using self pid by (auto simp: getProcessFamily_def cleanupSamples_def fresh_zero_def restrict_map_def split: if_splits)
  next
    case True
    with assms top obtain visited samples2 where
      run: "collectFamily levels os (os_children os pid0) ([info], {pid0}, samples1) = Some (out, visited, samples2)"
        and s': "samples' = samples2 |` visited"
      by (auto simp: getProcessFamily_def cleanupSamples_def)
    from collectFamily_grown [OF run] obtain new where new: "out = info # new"
        "visited = insert pid0 (set (pids new))" "set (pids new) \<subseteq> (child_rel os)\<^sup>* `` set (os_children os pid0)"
      by (auto simp: grown_def)
    have "set (pids out) \<subseteq> descendants os pid0" using subset_trans [OF new(3) below] self new(1) pid by simp
    moreover have "dom samples' \<subseteq> set (pids out)" using s' new(1,2) pid by auto
    ultimately show ?thesis using collectFamily_fresh_zero [OF run start] by (simp add: fresh_zero_def)
  qed
qed

text \<open>
  The samples of an instance do not survive a request for another one: if somebody looks at a second
  instance in between, every process of the first is shown with 0 percent, however much it worked.
\<close>

theorem other_request_clears_samples:
  assumes "getProcessFamily levels os1 pid_b True samples = Some (out_b, samples1)"
    and "getProcessFamily levels os2 pid_a True samples1 = Some (out_a, samples2)"
    and "descendants os1 pid_b \<inter> descendants os2 pid_a = {}"
  shows "\<forall>p\<in>set out_a. pi_cpuPercent p = 0"
proof
  fix p assume "p \<in> set out_a"
  moreover from this have "pi_pid p \<in> descendants os2 pid_a"
    using family_samples [OF assms(2)] by (auto simp: pids_def)
  ultimately show "pi_cpuPercent p = 0"
    using family_samples [OF assms(2)] family_samples [OF assms(1)] assms(3) by blast
qed

definition busy_os :: process_os where
  "busy_os = chain_os\<lparr>os_children := (\<lambda>p. []), os_cpuTimeMs := (\<lambda>p. 1500), os_now := 3000\<rparr>"

lemma busy_descendants: "descendants busy_os p = {p}"
proof -
  have "child_rel busy_os = {}" by (auto simp: child_rel_def busy_os_def)
  then show ?thesis by (simp add: descendants_def)
qed

text \<open>A process that used a whole second of CPU time in the second between the two requests.\<close>

lemma busy_process_seen:
  "\<exists>out_a samples1 out_b samples2. getProcessFamily 1 (busy_os\<lparr>os_now := 2000, os_cpuTimeMs := (\<lambda>p. 500)\<rparr>) 10 True Map.empty = Some (out_a, samples1)
     \<and> getProcessFamily 1 busy_os 10 True samples1 = Some (out_b, samples2) \<and> map pi_cpuPercent out_b = [100]"
  by (simp add: getProcessFamily_def sampled_info_def calculateCpuPercent_def cleanupSamples_def busy_os_def chain_os_def Let_def)

lemma other_request_clears_samples_witness:
  "\<forall>p\<in>set (fst (the (getProcessFamily 1 busy_os 10 True (snd (the (getProcessFamily 1 busy_os 20 True [10 \<mapsto> (500, 2000)])))))).
     pi_cpuPercent p = 0"
proof -
  have b: "getProcessFamily 1 busy_os 20 True [10 \<mapsto> (500, 2000)] \<noteq> None"
    by (simp add: getProcessFamily_def sampled_info_def calculateCpuPercent_def busy_os_def chain_os_def Let_def)
  have a: "getProcessFamily 1 busy_os 10 True s \<noteq> None" for s
    by (simp add: getProcessFamily_def busy_os_def chain_os_def Let_def split: prod.splits)
  show ?thesis
    by (rule other_request_clears_samples [of 1 busy_os 20 "[10 \<mapsto> (500, 2000)]"
          "fst (the (getProcessFamily 1 busy_os 20 True [10 \<mapsto> (500, 2000)]))"
          "snd (the (getProcessFamily 1 busy_os 20 True [10 \<mapsto> (500, 2000)]))" busy_os 10 "fst (the (getProcessFamily 1 busy_os 10 True (snd (the (getProcessFamily 1 busy_os 20 True [10 \<mapsto> (500, 2000)])))))"
          "snd (the (getProcessFamily 1 busy_os 10 True (snd (the (getProcessFamily 1 busy_os 20 True [10 \<mapsto> (500, 2000)])))))"])
      (use a b in \<open>auto simp: busy_descendants\<close>)
qed

text \<open>The summary counts every process of the tree once.\<close>

lemma summarize_stack_counts:
  "ps_totalProcesses (summarize_stack os stack s) = ps_totalProcesses s + int (sum_list (map tree_size stack))"
proof (induction os stack s rule: summarize_stack.induct)
  case (1 os stack s)
  show ?case
  proof (cases "stack = []")
    case True
    then show ?thesis by (simp add: summarize_stack.simps)
  next
    case False
    obtain p children where top: "last stack = ProcNode p children" by (cases "last stack") auto
    have "sum_list (map tree_size stack) = sum_list (map tree_size (butlast stack @ [last stack]))" using False by simp
    then show ?thesis
      using False top "1.IH" [OF False top] by (subst summarize_stack.simps) (simp add: add_process_def)
  qed
qed

lemma summarize_tree_counts: "ps_totalProcesses (summarize_tree os tree) = int (tree_size tree)"
  by (simp add: summarize_tree_def summarize_stack_counts no_processes_def)

end
