(* ===== verification/EventStreams.thy ===== *)
theory EventStreams
  imports ServerManager "HOL-Library.Sublist"
begin

text \<open>
  The events of the server (\<open>src/src/stdiolink_server/http/event_bus.cpp\<close>, \<open>event_stream_handler.*\<close>,
  \<open>event_log.cpp\<close>): the signals of the instances become events, each open stream whose filters match
  gets them, and a log keeps them, which requests search from its end. Times are milliseconds, given
  with every call that reads the clock. What is written to a client is kept with its connection, also
  after the connection is gone. The rotation of the log file belongs to the logging library.
\<close>

section \<open>Events\<close>

record server_event =
  ev_type :: string
  ev_data :: json_obj
  ev_ts :: string

text \<open>\<open>pid\<close> is the process of an instance, 0 when the instance is gone already.\<close>

fun instance_event :: "(string \<Rightarrow> int) \<Rightarrow> instance_signal \<Rightarrow> string \<times> json_obj" where
  "instance_event pid (instanceStarted iid proj) =
     (''instance.started'', jset ''pid'' (jint (pid iid)) (jset ''projectId'' (JStr proj) (jset ''instanceId'' (JStr iid) [])))"
| "instance_event pid (instanceFinished iid proj exitCode crashed) =
     (''instance.finished'',
      jset ''status'' (JStr (if crashed then ''crashed'' else ''normal'')) (jset ''exitCode'' (jint exitCode)
        (jset ''projectId'' (JStr proj) (jset ''instanceId'' (JStr iid) []))))"
| "instance_event pid (instanceStartFailed iid proj err) =
     (''instance.startFailed'', jset ''error'' (JStr err) (jset ''projectId'' (JStr proj) (jset ''instanceId'' (JStr iid) [])))"

section \<open>Streams\<close>

definition kMaxSseConnections :: nat where "kMaxSseConnections = 32"
definition kConnectionTimeoutMs :: int where "kConnectionTimeoutMs = 60000"

text \<open>The number of a connection stands for its address.\<close>

record sse_connection =
  sc_id :: nat
  sc_filters :: "string list"
  sc_streamOpen :: bool
  sc_lastSendAt :: int
  sc_written :: "string list"

definition matchesFilter :: "string list \<Rightarrow> string \<Rightarrow> bool" where
  "matchesFilter filters eventType = (filters = [] \<or> list_ex (\<lambda>pre. starts_with pre eventType) filters)"

definition event_chunk :: "(json_obj \<Rightarrow> string) \<Rightarrow> server_event \<Rightarrow> string" where
  "event_chunk jtext ev =
     ''event: '' @ ev_type ev @ [CHR 0x0A] @ ''data: '' @ jtext (ev_data ev) @ [CHR 0x0A, CHR 0x0A]"

definition heartbeat_chunk :: string where
  "heartbeat_chunk = '': heartbeat'' @ [CHR 0x0A, CHR 0x0A]"

definition sendEvent :: "(json_obj \<Rightarrow> string) \<Rightarrow> int \<Rightarrow> server_event \<Rightarrow> sse_connection \<Rightarrow> sse_connection" where
  "sendEvent jtext now ev c = c\<lparr>sc_written := sc_written c @ [event_chunk jtext ev], sc_lastSendAt := now\<rparr>"

definition sendHeartbeat :: "sse_connection \<Rightarrow> sse_connection" where
  "sendHeartbeat c = c\<lparr>sc_written := sc_written c @ [heartbeat_chunk]\<rparr>"

record event_streams =
  es_connections :: "sse_connection list"
  es_heartbeatTimer :: bool
  es_next :: nat
  es_gone :: "sse_connection list"

definition EventStreamHandler :: event_streams where
  "EventStreamHandler = \<lparr>es_connections = [], es_heartbeatTimer = True, es_next = 0, es_gone = []\<rparr>"

text \<open>\<open>close\<close> followed by \<open>removeConnection\<close>, by eviction or by the slot of \<open>disconnected\<close>.\<close>

definition close_connection :: "sse_connection \<Rightarrow> event_streams \<Rightarrow> event_streams" where
  "close_connection c s =
     s\<lparr>es_connections := remove1 c (es_connections s), es_gone := es_gone s @ [c\<lparr>sc_streamOpen := False\<rparr>]\<rparr>"

definition evictOldestConnection :: "event_streams \<Rightarrow> event_streams" where
  "evictOldestConnection s = (case es_connections s of [] \<Rightarrow> s | oldest # _ \<Rightarrow> close_connection oldest s)"

definition addConnection :: "int \<Rightarrow> string list \<Rightarrow> event_streams \<Rightarrow> event_streams" where
  "addConnection now filters s =
     (let s = (if kMaxSseConnections \<le> length (es_connections s) then evictOldestConnection s else s);
          c = \<lparr>sc_id = es_next s, sc_filters = filters, sc_streamOpen = True, sc_lastSendAt = now, sc_written = []\<rparr>
      in s\<lparr>es_connections := es_connections s @ [c], es_next := es_next s + 1\<rparr>)"

definition onEventPublished :: "(json_obj \<Rightarrow> string) \<Rightarrow> int \<Rightarrow> server_event \<Rightarrow> event_streams \<Rightarrow> event_streams" where
  "onEventPublished jtext now ev s =
     s\<lparr>es_connections :=
         map (\<lambda>c. if matchesFilter (sc_filters c) (ev_type ev) then sendEvent jtext now ev c else c) (es_connections s)\<rparr>"

definition is_stale :: "int \<Rightarrow> sse_connection \<Rightarrow> bool" where
  "is_stale now c = (kConnectionTimeoutMs < now - sc_lastSendAt c)"

definition sweepStaleConnections :: "int \<Rightarrow> event_streams \<Rightarrow> event_streams" where
  "sweepStaleConnections now s = foldl (\<lambda>s c. close_connection c s) s (filter (is_stale now) (es_connections s))"

text \<open>The slot of the timer, which \<open>closeAllConnections\<close> stops.\<close>

definition onHeartbeat :: "int \<Rightarrow> event_streams \<Rightarrow> event_streams" where
  "onHeartbeat now s =
     (if \<not> es_heartbeatTimer s then s
      else let s = sweepStaleConnections now s in s\<lparr>es_connections := map sendHeartbeat (es_connections s)\<rparr>)"

definition closeAllConnections :: "event_streams \<Rightarrow> event_streams" where
  "closeAllConnections s =
     s\<lparr>es_heartbeatTimer := False, es_connections := [],
       es_gone := es_gone s @ map (\<lambda>c. c\<lparr>sc_streamOpen := False\<rparr>) (es_connections s)\<rparr>"

text \<open>The filters of a request; the code keeps them as a set.\<close>

definition stream_filters :: "string \<Rightarrow> string list" where
  "stream_filters filterParam = map trim_spaces (filter (\<lambda>part. part \<noteq> []) (split_at_char (CHR '','') filterParam))"

definition handleEventStream :: "int \<Rightarrow> string \<Rightarrow> event_streams \<Rightarrow> event_streams" where
  "handleEventStream now filterParam s = addConnection now (stream_filters filterParam) s"

section \<open>The log\<close>

definition log_record :: "server_event \<Rightarrow> json_obj" where
  "log_record ev = jset ''ts'' (JStr (ev_ts ev)) (jset ''data'' (JObj (ev_data ev)) (jset ''type'' (JStr (ev_type ev)) []))"

text \<open>The log file without rotation.\<close>

definition log_event :: "(json_obj \<Rightarrow> string) \<Rightarrow> server_event \<Rightarrow> string \<Rightarrow> string" where
  "log_event jtext ev contents = contents @ jtext (log_record ev) @ [CHR 0x0A]"

definition log_matches :: "string \<Rightarrow> string \<Rightarrow> json_obj \<Rightarrow> bool" where
  "log_matches typePrefix projectId obj \<longleftrightarrow>
     (typePrefix = [] \<or> starts_with typePrefix (to_string (jval obj ''type'')))
     \<and> (projectId = [] \<or> to_string (jval (to_object (jval obj ''data'')) ''projectId'') = projectId)"

text \<open>The inner loop: back to the beginning of the line.\<close>

fun back_to_line :: "string \<Rightarrow> nat \<Rightarrow> nat" where
  "back_to_line data 0 = 0"
| "back_to_line data (Suc pos) = (if data ! pos = CHR 0x0A then Suc pos else back_to_line data pos)"

lemma back_to_line_le: "back_to_line data pos \<le> pos"
  by (induction data pos rule: back_to_line.induct) auto

definition log_line :: "(string \<Rightarrow> string + json) \<Rightarrow> string \<Rightarrow> string \<Rightarrow> string \<Rightarrow> json_obj list" where
  "log_line from_json typePrefix projectId raw =
     (let line = trim_spaces raw in
      if line = [] then []
      else case from_json line of
        Inr (JObj obj) \<Rightarrow> if log_matches typePrefix projectId obj then [obj] else []
      | _ \<Rightarrow> [])"

function query_loop :: "(string \<Rightarrow> string + json) \<Rightarrow> int \<Rightarrow> string \<Rightarrow> string \<Rightarrow> string \<Rightarrow> nat \<Rightarrow> json_obj list \<Rightarrow> json_obj list" where
  "query_loop from_json limit typePrefix projectId data pos results =
     (if pos = 0 \<or> limit \<le> int (length results) then results
      else
        let lineEnd = pos; start = back_to_line data (pos - 1) in
        query_loop from_json limit typePrefix projectId data start
          (results @ log_line from_json typePrefix projectId (take (lineEnd - start) (drop start data))))"
  by pat_completeness auto

termination
  by (relation "measure (\<lambda>(from_json, limit, typePrefix, projectId, data, pos, results). pos)")
    (auto simp: le_less_trans [OF back_to_line_le])

declare query_loop.simps [simp del]

definition kMaxReadBytes :: nat where "kMaxReadBytes = 4 * 1024 * 1024"

definition log_query :: "(string \<Rightarrow> string + json) \<Rightarrow> string option \<Rightarrow> int \<Rightarrow> string \<Rightarrow> string \<Rightarrow> json_obj list" where
  "log_query from_json contents limit typePrefix projectId =
     (case contents of
        None \<Rightarrow> []
      | Some contents \<Rightarrow>
          let data = drop (length contents - kMaxReadBytes) contents in
          query_loop from_json limit typePrefix projectId data (length data) [])"

text \<open>\<open>rawLimit\<close> is the member \<open>limit\<close> as a number, 0 when it is not one; no log is an error.\<close>

definition event_limit :: "int \<Rightarrow> int" where
  "event_limit rawLimit = (if 0 < rawLimit then max 1 (min rawLimit 1000) else 100)"

definition handleEventList :: "(string \<Rightarrow> string + json) \<Rightarrow> string option option \<Rightarrow> int \<Rightarrow> string \<Rightarrow> string \<Rightarrow> response" where
  "handleEventList from_json eventLog rawLimit typePrefix projectId =
     (case eventLog of
        None \<Rightarrow> errorResponse 500 ''event log not initialized''
      | Some contents \<Rightarrow>
          let events = log_query from_json contents (event_limit rawLimit) typePrefix projectId in
          jsonResponse (jset ''count'' (jint (int (length events))) (jset ''events'' (JArr (map JObj events)) [])) 200)"

end
