(* ===== verification/EventStreamsSpec.thy ===== *)
theory EventStreamsSpec
  imports EventStreams
begin

text \<open>
  What the event streams promise: never more than the limit, each stream gets the matching events that
  were published while it was open, in order and once; the log answers with the newest matching
  records. A client whose filter matches nothing for a minute is cut off, though it is there.
\<close>

section \<open>Runs of the handler\<close>

datatype stream_call = Connect int string | Publish int server_event | Heartbeat int | CloseAll

fun stream_step :: "(json_obj \<Rightarrow> string) \<Rightarrow> event_streams \<Rightarrow> stream_call \<Rightarrow> event_streams" where
  "stream_step jtext s (Connect now filterParam) = handleEventStream now filterParam s"
| "stream_step jtext s (Publish now ev) = onEventPublished jtext now ev s"
| "stream_step jtext s (Heartbeat now) = onHeartbeat now s"
| "stream_step jtext s CloseAll = closeAllConnections s"

definition streams_inv :: "event_streams \<Rightarrow> bool" where
  "streams_inv s \<longleftrightarrow>
     length (es_connections s) \<le> kMaxSseConnections \<and> distinct (map sc_id (es_connections s))
     \<and> (\<forall>c\<in>set (es_connections s). sc_streamOpen c \<and> sc_id c < es_next s)"

lemma close_simps [simp]:
  "es_connections (close_connection c s) = remove1 c (es_connections s)"
  "es_gone (close_connection c s) = es_gone s @ [c\<lparr>sc_streamOpen := False\<rparr>]"
  "es_next (close_connection c s) = es_next s"
  "es_heartbeatTimer (close_connection c s) = es_heartbeatTimer s"
  by (simp_all add: close_connection_def)

lemma close_all_connections:
  "distinct (es_connections s) \<Longrightarrow>
     es_connections (foldl (\<lambda>s c. close_connection c s) s cs) = filter (\<lambda>c. c \<notin> set cs) (es_connections s)
     \<and> es_gone (foldl (\<lambda>s c. close_connection c s) s cs) = es_gone s @ map (\<lambda>c. c\<lparr>sc_streamOpen := False\<rparr>) cs
     \<and> es_next (foldl (\<lambda>s c. close_connection c s) s cs) = es_next s"
proof (induction cs arbitrary: s)
  case (Cons c cs)
  then show ?case
    using Cons.IH [of "close_connection c s"]
    by (auto simp: distinct_remove1_removeAll removeAll_filter_not_eq intro!: filter_cong)
qed simp

lemma sweep_streams:
  assumes "distinct (map sc_id (es_connections s))"
  shows "es_connections (sweepStaleConnections now s) = filter (\<lambda>c. \<not> is_stale now c) (es_connections s)"
    and "es_gone (sweepStaleConnections now s)
      = es_gone s @ map (\<lambda>c. c\<lparr>sc_streamOpen := False\<rparr>) (filter (is_stale now) (es_connections s))"
    and "es_next (sweepStaleConnections now s) = es_next s"
proof -
  have "distinct (es_connections s)" using assms by (simp add: distinct_map)
  note close = close_all_connections [OF this, of "filter (is_stale now) (es_connections s)"]
  show "es_connections (sweepStaleConnections now s) = filter (\<lambda>c. \<not> is_stale now c) (es_connections s)"
    using close by (auto simp: sweepStaleConnections_def intro!: filter_cong)
  show "es_gone (sweepStaleConnections now s)
      = es_gone s @ map (\<lambda>c. c\<lparr>sc_streamOpen := False\<rparr>) (filter (is_stale now) (es_connections s))"
    "es_next (sweepStaleConnections now s) = es_next s"
    using close by (simp_all add: sweepStaleConnections_def)
qed

text \<open>What a connection is opened among: the oldest goes when there are too many.\<close>

definition with_room :: "event_streams \<Rightarrow> event_streams" where
  "with_room s = (if kMaxSseConnections \<le> length (es_connections s) then evictOldestConnection s else s)"

lemma with_room_streams:
  "es_connections (with_room s) = (if kMaxSseConnections \<le> length (es_connections s) then tl (es_connections s) else es_connections s)
   \<and> es_next (with_room s) = es_next s
   \<and> (es_gone (with_room s) = es_gone s
      \<or> (\<exists>c\<in>set (es_connections s). es_gone (with_room s) = es_gone s @ [c\<lparr>sc_streamOpen := False\<rparr>]))"
  by (cases "es_connections s") (auto simp: with_room_def evictOldestConnection_def kMaxSseConnections_def)

lemma addConnection_streams:
  "es_connections (addConnection now filters s) = es_connections (with_room s)
     @ [\<lparr>sc_id = es_next s, sc_filters = filters, sc_streamOpen = True, sc_lastSendAt = now, sc_written = []\<rparr>]
   \<and> es_next (addConnection now filters s) = es_next s + 1 \<and> es_gone (addConnection now filters s) = es_gone (with_room s)"
  using with_room_streams [of s] by (simp add: addConnection_def with_room_def Let_def)

lemma addConnection_inv: "streams_inv s \<Longrightarrow> streams_inv (addConnection now filters s)"
  using with_room_streams [of s] addConnection_streams [of now filters s]
  by (cases "es_connections s") (auto simp: streams_inv_def kMaxSseConnections_def less_Suc_eq)

lemma published_inv: "streams_inv s \<Longrightarrow> streams_inv (onEventPublished jtext now ev s)"
proof -
  assume "streams_inv s"
  moreover have "sc_id (if b then sendEvent jtext now ev c else c) = sc_id c" for b c by (simp add: sendEvent_def)
  ultimately show ?thesis by (auto simp: streams_inv_def onEventPublished_def comp_def sendEvent_def)
qed

lemma heartbeat_inv: "streams_inv s \<Longrightarrow> streams_inv (onHeartbeat now s)"
  by (auto simp: streams_inv_def onHeartbeat_def Let_def sweep_streams sendHeartbeat_def comp_def distinct_map_filter
      intro: order_trans [OF length_filter_le])

interpretation stream_machine: event_machine "stream_step jtext" streams_inv for jtext
proof
  fix s e
  assume "streams_inv s"
  then show "streams_inv (stream_step jtext s e)"
    by (cases e) (auto simp: handleEventStream_def addConnection_inv published_inv heartbeat_inv,
        auto simp: streams_inv_def closeAllConnections_def)
qed

lemma streams_inv_init: "streams_inv EventStreamHandler"
  by (simp add: streams_inv_def EventStreamHandler_def)

section \<open>Delivery\<close>

text \<open>The requests for a stream, in order, and the events published after the one numbered \<open>k\<close>.\<close>

fun requested :: "stream_call list \<Rightarrow> string list" where
  "requested [] = []"
| "requested (Connect now filterParam # calls) = filterParam # requested calls"
| "requested (_ # calls) = requested calls"

fun published :: "stream_call list \<Rightarrow> server_event list" where
  "published [] = []"
| "published (Publish now ev # calls) = ev # published calls"
| "published (_ # calls) = published calls"

fun published_since :: "nat \<Rightarrow> stream_call list \<Rightarrow> server_event list" where
  "published_since k [] = []"
| "published_since k (Connect now filterParam # calls) =
     (case k of 0 \<Rightarrow> published calls | Suc n \<Rightarrow> published_since n calls)"
| "published_since k (_ # calls) = published_since k calls"

lemma requested_append [simp]: "requested (as @ bs) = requested as @ requested bs"
  by (induction as rule: requested.induct) auto

lemma published_append [simp]: "published (as @ bs) = published as @ published bs"
  by (induction as rule: published.induct) auto

lemma published_since_snoc:
  "published_since k (calls @ [call]) = published_since k calls @ (if k < length (requested calls) then published [call] else [])"
proof (induction k calls rule: published_since.induct)
  case (1 k)
  then show ?case by (cases call) (auto split: nat.split)
qed (auto split: nat.split)

lemma published_since_beyond: "length (requested calls) \<le> k \<Longrightarrow> published_since k calls = []"
  by (induction k calls rule: published_since.induct) (auto split: nat.split)

text \<open>What a connection is due: its events, among those published since it was opened.\<close>

definition due :: "(json_obj \<Rightarrow> string) \<Rightarrow> stream_call list \<Rightarrow> sse_connection \<Rightarrow> string list" where
  "due jtext calls c =
     map (event_chunk jtext) (filter (\<lambda>ev. matchesFilter (sc_filters c) (ev_type ev)) (published_since (sc_id c) calls))"

definition events_written :: "sse_connection \<Rightarrow> string list" where
  "events_written c = filter (\<lambda>chunk. chunk \<noteq> heartbeat_chunk) (sc_written c)"

definition streams_true :: "(json_obj \<Rightarrow> string) \<Rightarrow> stream_call list \<Rightarrow> event_streams \<Rightarrow> bool" where
  "streams_true jtext calls s \<longleftrightarrow>
     es_next s = length (requested calls)
     \<and> (\<forall>c\<in>set (es_connections s) \<union> set (es_gone s).
          sc_id c < es_next s \<and> sc_filters c = stream_filters (requested calls ! sc_id c))
     \<and> (\<forall>c\<in>set (es_connections s). events_written c = due jtext calls c)
     \<and> (\<forall>c\<in>set (es_gone s). prefix (events_written c) (due jtext calls c))"

lemma written_simps [simp]:
  "events_written (sendEvent jtext now ev c) = events_written c @ [event_chunk jtext ev]"
  "events_written (sendHeartbeat c) = events_written c"
  "events_written (c\<lparr>sc_streamOpen := b\<rparr>) = events_written c"
  "due jtext calls (c\<lparr>sc_streamOpen := b\<rparr>) = due jtext calls c"
  "due jtext calls (sendHeartbeat c) = due jtext calls c"
  "due jtext calls (sendEvent jtext now ev c) = due jtext calls c"
  by (simp_all add: events_written_def sendEvent_def sendHeartbeat_def due_def event_chunk_def heartbeat_chunk_def)

lemma kept_fields [simp]:
  "sc_id (sendEvent jtext now ev c) = sc_id c" "sc_filters (sendEvent jtext now ev c) = sc_filters c"
  "sc_id (sendHeartbeat c) = sc_id c" "sc_filters (sendHeartbeat c) = sc_filters c"
  by (simp_all add: sendEvent_def sendHeartbeat_def)

lemma due_snoc:
  "sc_id c < length (requested calls) \<Longrightarrow> due jtext (calls @ [call]) c = due jtext calls c @
     map (event_chunk jtext) (filter (\<lambda>ev. matchesFilter (sc_filters c) (ev_type ev)) (published [call]))"
  by (simp add: due_def published_since_snoc)

text \<open>A step that only moves connections to the ones that are gone, and publishes nothing.\<close>

lemma streams_true_moved:
  assumes "streams_true jtext calls s" and "published [call] = []" and "requested [call] = []" and "es_next s' = es_next s"
    and "\<And>c. c \<in> set (es_connections s') \<Longrightarrow> \<exists>d\<in>set (es_connections s). c = d \<or> c = sendHeartbeat d"
    and "\<And>c. c \<in> set (es_gone s') \<Longrightarrow> c \<in> set (es_gone s) \<or> (\<exists>d\<in>set (es_connections s). c = d\<lparr>sc_streamOpen := False\<rparr>)"
  shows "streams_true jtext (calls @ [call]) s'"
proof -
  have due: "due jtext (calls @ [call]) c = due jtext calls c" if "sc_id c < es_next s" for c
    using that assms(1,2) by (simp add: due_snoc streams_true_def)
  have req: "requested (calls @ [call]) = requested calls" using assms(3) by simp
  have now: "c \<in> set (es_connections s') \<Longrightarrow> sc_id c < es_next s \<and> sc_filters c = stream_filters (requested calls ! sc_id c)
      \<and> events_written c = due jtext (calls @ [call]) c" for c
    using assms(5) [of c] assms(1) due by (auto simp: streams_true_def)
  have past: "c \<in> set (es_gone s') \<Longrightarrow> sc_id c < es_next s \<and> sc_filters c = stream_filters (requested calls ! sc_id c)
      \<and> prefix (events_written c) (due jtext (calls @ [call]) c)" for c
    using assms(6) [of c] assms(1) due by (auto simp: streams_true_def)
  show ?thesis using now past assms(1,4) unfolding streams_true_def req by auto
qed

lemma streams_true_connect:
  assumes "streams_true jtext calls s"
  shows "streams_true jtext (calls @ [Connect now f]) (addConnection now (stream_filters f) s)"
proof -
  let ?c = "\<lparr>sc_id = es_next s, sc_filters = stream_filters f, sc_streamOpen = True, sc_lastSendAt = now, sc_written = []\<rparr>"
  have sub: "set (es_connections (with_room s)) \<subseteq> set (es_connections s)"
    using with_room_streams [of s] by (cases "es_connections s") auto
  have gone: "c \<in> set (es_gone s) \<or> (\<exists>d\<in>set (es_connections s). c = d\<lparr>sc_streamOpen := False\<rparr>)"
    if "c \<in> set (es_gone (with_room s))" for c
    using that with_room_streams [of s] by auto
  have room: "streams_true jtext calls (with_room s)"
    unfolding streams_true_def
  proof (intro conjI ballI)
    show "es_next (with_room s) = length (requested calls)" using with_room_streams [of s] assms by (simp add: streams_true_def)
  next
    fix c assume "c \<in> set (es_connections (with_room s)) \<union> set (es_gone (with_room s))"
    then show "sc_id c < es_next (with_room s)" "sc_filters c = stream_filters (requested calls ! sc_id c)"
      using sub gone [of c] with_room_streams [of s] assms by (auto simp: streams_true_def)
  next
    fix c assume "c \<in> set (es_connections (with_room s))"
    then show "events_written c = due jtext calls c" using sub assms by (auto simp: streams_true_def)
  next
    fix c assume "c \<in> set (es_gone (with_room s))"
    then show "prefix (events_written c) (due jtext calls c)" using gone [of c] assms by (auto simp: streams_true_def)
  qed
  have num: "es_next s = length (requested calls)" "es_next (with_room s) = es_next s"
    using assms with_room_streams [of s] by (simp_all add: streams_true_def)
  have new: "due jtext (calls @ [Connect now f]) ?c = []"
    using num by (simp add: due_def published_since_snoc published_since_beyond)
  have due: "due jtext (calls @ [Connect now f]) c = due jtext calls c" if "sc_id c < es_next s" for c
    using that num by (simp add: due_snoc)
  show ?thesis
    using room num new due addConnection_streams [of now "stream_filters f" s]
    by (auto simp: streams_true_def nth_append less_Suc_eq events_written_def)
qed

lemma streams_true_publish:
  assumes "streams_true jtext calls s"
  shows "streams_true jtext (calls @ [Publish now ev]) (onEventPublished jtext now ev s)"
proof -
  have due: "due jtext (calls @ [Publish now ev]) c
      = due jtext calls c @ (if matchesFilter (sc_filters c) (ev_type ev) then [event_chunk jtext ev] else [])"
    if "sc_id c < es_next s" for c
    using that assms by (simp add: due_snoc streams_true_def)
  have "prefix (events_written c) (due jtext (calls @ [Publish now ev]) c)" if "c \<in> set (es_gone s)" for c
    using that assms due by (auto simp: streams_true_def intro: prefix_prefix)
  then show ?thesis
    using assms due by (auto simp: streams_true_def onEventPublished_def)
qed

lemma streams_true_step:
  assumes "streams_inv s" and "streams_true jtext calls s"
  shows "streams_true jtext (calls @ [call]) (stream_step jtext s call)"
proof (cases call)
  case (Connect now f)
  then show ?thesis using streams_true_connect [OF assms(2)] by (simp add: handleEventStream_def)
next
  case (Publish now ev)
  then show ?thesis using streams_true_publish [OF assms(2)] by simp
next
  case (Heartbeat now)
  have ids: "distinct (map sc_id (es_connections s))" using assms(1) by (simp add: streams_inv_def)
  show ?thesis
    unfolding Heartbeat stream_step.simps
    by (rule streams_true_moved [OF assms(2)]) (auto simp: onHeartbeat_def Let_def sweep_streams [OF ids] split: if_splits)
next
  case CloseAll
  show ?thesis
    unfolding CloseAll stream_step.simps
    by (rule streams_true_moved [OF assms(2)]) (auto simp: closeAllConnections_def)
qed

text \<open>C23: After any sequence of requests for streams, published events, heartbeats and a shutdown, every
  open stream has been given the events published since it was opened that match its filters, in order
  and once, a closed one a first part of them, and there are at most 32 streams.\<close>

theorem streams_deliver_in_order:
  "streams_true jtext calls (run_events (stream_step jtext) EventStreamHandler calls)
   \<and> length (es_connections (run_events (stream_step jtext) EventStreamHandler calls)) \<le> 32"
proof (rule conjI)
  have inv: "streams_inv (run_events (stream_step jtext) EventStreamHandler cs)" for cs
    by (rule stream_machine.run_inv [OF streams_inv_init])
  then show "length (es_connections (run_events (stream_step jtext) EventStreamHandler calls)) \<le> 32"
    by (simp add: streams_inv_def kMaxSseConnections_def)
  show "streams_true jtext calls (run_events (stream_step jtext) EventStreamHandler calls)"
  proof (induction calls rule: rev_induct)
    case Nil
    then show ?case by (simp add: streams_true_def EventStreamHandler_def)
  next
    case (snoc call calls)
    then show ?case using streams_true_step [OF inv] by simp
  qed
qed

section \<open>Quiet streams\<close>

text \<open>
  The sweep means to find clients that are no longer there by the time of the last event they were sent.
  A client that is there, but whose filter matches nothing, looks the same.
\<close>

lemma quiet_stream_dropped:
  assumes "streams_inv s" and "es_heartbeatTimer s" and "c \<in> set (es_connections s)" and "60000 < now - sc_lastSendAt c"
  shows "sc_id c \<notin> sc_id ` set (es_connections (onHeartbeat now s))"
proof -
  have ids: "distinct (map sc_id (es_connections s))" using assms(1) by (simp add: streams_inv_def)
  have "\<not> is_stale now d \<Longrightarrow> sc_id c \<noteq> sc_id d" if "d \<in> set (es_connections s)" for d
    using that ids assms(3,4) by (auto simp: is_stale_def kConnectionTimeoutMs_def distinct_map dest: inj_onD)
  then have "sc_id c \<notin> sc_id ` {d \<in> set (es_connections s). \<not> is_stale now d}" by blast
  then show ?thesis using assms(2) by (simp add: onHeartbeat_def Let_def sweep_streams [OF ids] image_image)
qed

text \<open>A client that asks for the events of schedules, which are rare: gone with the third heartbeat.\<close>

lemma quiet_stream_dropped_example:
  "map (\<lambda>n. length (es_connections (run_events (stream_step (\<lambda>_. ''{}'')) EventStreamHandler
       (take n [Connect 0 ''schedule'', Heartbeat 30000, Heartbeat 60000, Heartbeat 90000])))) [1, 2, 3, 4] = [1, 1, 1, 0]"
  by (simp add: handleEventStream_def addConnection_def onHeartbeat_def sweepStaleConnections_def EventStreamHandler_def
      is_stale_def kMaxSseConnections_def kConnectionTimeoutMs_def sendHeartbeat_def close_connection_def)

text \<open>A space after a comma at the end of the filters lets every event through.\<close>

lemma trailing_space_matches_all: "matchesFilter (stream_filters (f @ '', '')) t"
proof -
  have "split_at_char (CHR '','') (f @ '', '') = split_at_char (CHR '','') f @ [CHR '' '' # []]"
  proof (induction f)
    case (Cons d ds)
    then show ?case by (cases "split_at_char (CHR '','') ds") auto
  qed simp
  then show ?thesis by (simp add: stream_filters_def matchesFilter_def starts_with_def trim_spaces_def is_space_char_def)
qed

section \<open>The log\<close>

lemma back_to_line_stops:
  "(\<And>k. st \<le> k \<Longrightarrow> k < p \<Longrightarrow> data ! k \<noteq> CHR 0x0A) \<Longrightarrow> st = 0 \<or> data ! (st - 1) = CHR 0x0A \<Longrightarrow> st \<le> p
     \<Longrightarrow> back_to_line data p = st"
proof (induction data p rule: back_to_line.induct)
  case (2 data pos)
  show ?case
  proof (cases "st = Suc pos")
    case False
    then have "st \<le> pos" using 2 by simp
    moreover have "data ! pos \<noteq> CHR 0x0A" using 2 \<open>st \<le> pos\<close> by simp
    ultimately show ?thesis using 2 by simp
  qed (use 2 in auto)
qed simp

lemma newline_is_space: "is_space_char (CHR 0x0A)"
  by (simp add: is_space_char_def)

lemma trim_newline: "trim_spaces (l @ [CHR 0x0A]) = trim_spaces l"
proof (cases "\<forall>c\<in>set l. is_space_char c")
  case True
  then have "dropWhile is_space_char l = []" "dropWhile is_space_char (l @ [CHR 0x0A]) = []"
    by (simp_all add: newline_is_space)
  then show ?thesis unfolding trim_spaces_def by (simp only:)
next
  case False
  then obtain c where "c \<in> set l" "\<not> is_space_char c" by blast
  with dropWhile_append1 [of c l is_space_char] have "dropWhile is_space_char (l @ [CHR 0x0A]) = dropWhile is_space_char l @ [CHR 0x0A]" by simp
  then show ?thesis by (simp add: trim_spaces_def newline_is_space)
qed

definition lines_text :: "string list \<Rightarrow> string" where
  "lines_text ls = concat (map (\<lambda>l. l @ [CHR 0x0A]) ls)"

lemma lines_text_snoc: "lines_text (ls @ [l]) = lines_text ls @ l @ [CHR 0x0A]"
  by (simp add: lines_text_def)

lemma lines_text_end: "lines_text ls \<noteq> [] \<Longrightarrow> lines_text ls ! (length (lines_text ls) - 1) = CHR 0x0A"
  by (induction ls rule: rev_induct) (auto simp: lines_text_def nth_append)

lemma log_line_newline: "log_line from_json pre proj (l @ [CHR 0x0A]) = log_line from_json pre proj l"
  by (simp add: log_line_def trim_newline)

lemma log_line_single: "length (log_line from_json pre proj l) \<le> 1"
  by (auto simp: log_line_def Let_def split: sum.split json.split)

lemma query_lines:
  "\<forall>l\<in>set ls. CHR 0x0A \<notin> set l \<Longrightarrow> data = lines_text ls @ rest \<Longrightarrow>
     query_loop from_json limit pre proj data (length (lines_text ls)) results
       = results @ take (nat limit - length results) (concat (map (log_line from_json pre proj) (rev ls)))"
proof (induction ls arbitrary: rest results rule: rev_induct)
  case Nil
  then show ?case by (simp add: lines_text_def query_loop.simps)
next
  case (snoc l ls)
  let ?D = "lines_text ls"
  have data: "data = ?D @ l @ CHR 0x0A # rest" using snoc.prems(2) by (simp add: lines_text_snoc)
  show ?case
  proof (cases "limit \<le> int (length results)")
    case True
    then show ?thesis by (simp add: query_loop.simps)
  next
    case False
    have start: "back_to_line data (length (lines_text (ls @ [l])) - 1) = length ?D"
    proof (rule back_to_line_stops)
      show "data ! k \<noteq> CHR 0x0A" if "length ?D \<le> k" "k < length (lines_text (ls @ [l])) - 1" for k
        using that snoc.prems(1) by (auto simp: data lines_text_snoc nth_append in_set_conv_nth)
      show "length ?D = 0 \<or> data ! (length ?D - 1) = CHR 0x0A"
        using lines_text_end [of ls] by (cases "?D = []") (auto simp: data nth_append)
    qed (simp add: lines_text_snoc)
    have "query_loop from_json limit pre proj data (length (lines_text (ls @ [l]))) results
        = query_loop from_json limit pre proj data (length ?D) (results @ log_line from_json pre proj (l @ [CHR 0x0A]))"
      using False start by (subst query_loop.simps) (simp add: lines_text_snoc data Let_def)
    also have "\<dots> = results @ log_line from_json pre proj l
        @ take (nat limit - length results - length (log_line from_json pre proj l)) (concat (map (log_line from_json pre proj) (rev ls)))"
      using snoc.IH [of "l @ CHR 0x0A # rest"] snoc.prems(1) by (simp add: data log_line_newline)
    also have "\<dots> = results @ take (nat limit - length results) (concat (map (log_line from_json pre proj) (rev (ls @ [l]))))"
      using log_line_single [of from_json pre proj l] False by (auto simp: le_Suc_eq length_Suc_conv)
    finally show ?thesis .
  qed
qed

text \<open>What is used of the library: a record's text is one line and is read as the record.\<close>

definition record_line :: "(json_obj \<Rightarrow> string) \<Rightarrow> (string \<Rightarrow> string + json) \<Rightarrow> server_event \<Rightarrow> bool" where
  "record_line jtext from_json ev \<longleftrightarrow>
     (let line = jtext (log_record ev) in
      CHR 0x0A \<notin> set line \<and> line \<noteq> [] \<and> trim_spaces line = line \<and> from_json line = Inr (JObj (log_record ev)))"

definition log_all :: "(json_obj \<Rightarrow> string) \<Rightarrow> server_event list \<Rightarrow> string" where
  "log_all jtext evs = foldl (\<lambda>contents ev. log_event jtext ev contents) [] evs"

lemma log_all_lines: "log_all jtext evs = lines_text (map (\<lambda>ev. jtext (log_record ev)) evs)"
  by (induction evs rule: rev_induct) (simp_all add: log_all_def log_event_def lines_text_def)

text \<open>The log answers with the newest records that match, the newest first, as many as are asked for.\<close>

theorem log_answers_newest_first:
  assumes "list_all (record_line jtext from_json) evs" and "length (log_all jtext evs) \<le> 4194304"
  shows "log_query from_json (Some (log_all jtext evs)) limit pre proj
    = take (nat limit) (filter (log_matches pre proj) (map log_record (rev evs)))"
proof -
  let ?ls = "map (\<lambda>ev. jtext (log_record ev)) evs"
  have line: "log_line from_json pre proj (jtext (log_record ev))
      = (if log_matches pre proj (log_record ev) then [log_record ev] else [])" if "ev \<in> set evs" for ev
    using that assms(1) by (simp add: list_all_iff record_line_def log_line_def Let_def)
  have "concat (map (log_line from_json pre proj) (rev ?ls)) = filter (log_matches pre proj) (map log_record (rev evs))"
    using line by (induction evs) (auto simp: list_all_iff)
  moreover have "\<forall>l\<in>set ?ls. CHR 0x0A \<notin> set l" using assms(1) by (simp add: list_all_iff record_line_def Let_def)
  ultimately show ?thesis
    using query_lines [of ?ls "lines_text ?ls" "[]" from_json limit pre proj "[]"] assms(2)
    by (simp add: log_query_def log_all_lines kMaxReadBytes_def)
qed

end
