(* ===== verification/LimacoDriver.thy ===== *)
theory LimacoDriver
  imports PqwHandler
begin

text \<open>
  The drivers of the Limaco radars: the transport they share and the decoding of their registers
  (\<open>src/src/drivers/driver_limaco_common/\<close>), and the handlers of the radar with one point and of the
  radar with five (\<open>driver_limaco_1_radar\<close>, \<open>driver_limaco_5_radar\<close>). A request goes over the RTU client on
  TCP or over the serial one. Divisions of doubles are arguments.
\<close>

section \<open>Decoding\<close>

record limaco_lib =
  ll_tenThousandth :: "int \<Rightarrow> rat"
  ll_hundredth :: "int \<Rightarrow> rat"
  ll_stopBits :: "string \<Rightarrow> rat"

record limaco1_data =
  l1_rawRegisters :: "u16 list"
  l1_distanceMeters :: rat
  l1_statusRegister :: u16
  l1_distanceValid :: bool

record limaco5_point =
  lp5_index :: nat
  lp5_distanceRaw :: u16
  lp5_distanceMeters :: rat
  lp5_state :: u16
  lp5_valid :: bool

record limaco5_data =
  l5_format :: string
  l5_rawRegisters :: "u16 list"
  l5_points :: "limaco5_point list"

definition isV2Layout :: "u16 list \<Rightarrow> bool" where
  "isV2Layout rawRegisters =
     (15 \<le> length rawRegisters
       \<and> rawRegisters ! 0 AND 0xFF = 0x14 \<and> rawRegisters ! 3 AND 0xFF = 0x14 \<and> rawRegisters ! 6 AND 0xFF = 0x14
       \<and> rawRegisters ! 9 AND 0xFF = 0x14 \<and> rawRegisters ! 12 AND 0xFF = 0x14)"

definition decodeLimaco1Distance :: "limaco_lib \<Rightarrow> u16 list \<Rightarrow> string + limaco1_data" where
  "decodeLimaco1Distance lib rawRegisters =
     (if length rawRegisters \<noteq> 5
      then Inl (''Expected 5 holding registers, got '' @ dec (length rawRegisters))
      else
        let statusRegister = rawRegisters ! 3; distanceValid = statusRegister < 50 in
        Inr \<lparr>l1_rawRegisters = rawRegisters,
             l1_distanceMeters =
               (if distanceValid then ll_tenThousandth lib (uint (rawRegisters ! 0) * 65535 + uint (rawRegisters ! 1)) else 0),
             l1_statusRegister = statusRegister, l1_distanceValid = distanceValid\<rparr>)"

definition limaco5_point_at :: "limaco_lib \<Rightarrow> u16 list \<Rightarrow> nat \<Rightarrow> nat \<Rightarrow> nat \<Rightarrow> limaco5_point" where
  "limaco5_point_at lib rawRegisters offset padding i =
     (let distanceIndex = offset + padding * i; stateIndex = distanceIndex + 1;
          distanceRaw = rawRegisters ! distanceIndex; state = rawRegisters ! stateIndex in
      \<lparr>lp5_index = i + 1, lp5_distanceRaw = distanceRaw, lp5_distanceMeters = ll_hundredth lib (uint distanceRaw),
       lp5_state = state, lp5_valid = (state = 0)\<rparr>)"

definition decodeLimaco5Distance :: "limaco_lib \<Rightarrow> u16 list \<Rightarrow> string + limaco5_data" where
  "decodeLimaco5Distance lib rawRegisters =
     (if length rawRegisters \<noteq> 15
      then Inl (''Expected 15 holding registers, got '' @ dec (length rawRegisters))
      else
        let v2Layout = isV2Layout rawRegisters;
            offset = (if v2Layout then 1 else 0); padding = (if v2Layout then 3 else 2) in
        Inr \<lparr>l5_format = (if v2Layout then ''v2'' else ''legacy''), l5_rawRegisters = rawRegisters,
             l5_points = map (limaco5_point_at lib rawRegisters offset padding) [0..<5]\<rparr>)"

section \<open>Transport\<close>

record limaco_options =
  lo_transport :: string
  lo_unitId :: int
  lo_timeoutMs :: int
  lo_host :: string
  lo_port :: int
  lo_portName :: string
  lo_baudRate :: int
  lo_dataBits :: int
  lo_stopBits :: string
  lo_parity :: string

definition limaco_defaults :: limaco_options where
  "limaco_defaults =
     \<lparr>lo_transport = ''serial'', lo_unitId = 1, lo_timeoutMs = 2000, lo_host = ''127.0.0.1'', lo_port = 502, lo_portName = [],
      lo_baudRate = 9600, lo_dataBits = 8, lo_stopBits = ''1'', lo_parity = ''even''\<rparr>"

definition non_empty :: "string \<Rightarrow> string \<Rightarrow> string" where
  "non_empty d t = (if t = [] then d else t)"

text \<open>The members of a serial line, in the order of the checks.\<close>

definition limaco_serial_options :: "json_obj \<Rightarrow> limaco_options \<Rightarrow> string + limaco_options" where
  "limaco_serial_options p o1 =
     (let portName = trim_spaces (to_string (jval p ''port_name''));
          baudRate = to_int_or 9600 (jval p ''baud_rate'');
          dataBits = to_int_or 8 (jval p ''data_bits'');
          stopBits = trim_spaces (to_string_or ''1'' (jval p ''stop_bits''));
          parity = ascii_lower (trim_spaces (to_string_or ''even'' (jval p ''parity''))) in
      if portName = [] then Inl ''port_name is required when transport=serial''
      else if baudRate \<le> 0 then Inl ''baud_rate must be positive''
      else if dataBits < 5 \<or> dataBits > 8 then Inl ''data_bits must be 5-8''
      else if stopBits \<notin> {''1'', ''1.5'', ''2''} then Inl ''stop_bits must be one of 1, 1.5, 2''
      else if parity \<notin> {''none'', ''even'', ''odd''} then Inl ''parity must be one of none, even, odd''
      else Inr (o1\<lparr>lo_portName := portName, lo_baudRate := baudRate, lo_dataBits := dataBits, lo_stopBits := stopBits,
                   lo_parity := parity\<rparr>))"

definition limaco_parseOptions :: "json_obj \<Rightarrow> string + limaco_options" where
  "limaco_parseOptions p =
     (let transport = non_empty ''serial'' (ascii_lower (trim_spaces (to_string_or ''serial'' (jval p ''transport''))));
          unitId = to_int_or 1 (jval p ''unit_id'');
          timeoutMs = to_int_or 2000 (jval p ''timeout'') in
      if transport \<notin> {''serial'', ''tcp''} then Inl ''transport must be serial or tcp''
      else if unitId < 1 \<or> unitId > 247 then Inl ''unit_id must be 1-247''
      else if timeoutMs < 1 \<or> timeoutMs > 30000 then Inl ''timeout must be 1-30000 ms''
      else
        let o1 = limaco_defaults\<lparr>lo_transport := transport, lo_unitId := unitId, lo_timeoutMs := timeoutMs\<rparr> in
        if transport = ''tcp''
        then let host = non_empty ''127.0.0.1'' (trim_spaces (to_string_or ''127.0.0.1'' (jval p ''host'')));
                 port = to_int_or 502 (jval p ''port'') in
             if port < 1 \<or> port > 65535 then Inl ''port must be 1-65535''
             else Inr (o1\<lparr>lo_host := host, lo_port := port\<rparr>)
        else limaco_serial_options p o1)"

definition limaco_getSerial ::
  "'w serial_port \<Rightarrow> limaco_lib \<Rightarrow> limaco_options \<Rightarrow> serial_connections \<Rightarrow> 'w
     \<Rightarrow> (string + serial_master) \<times> serial_connections \<times> 'w" where
  "limaco_getSerial sp lib o1 m w =
     (let port = lo_portName o1;
          fresh = (\<lambda>m'.
            (case serial_client_open sp (ll_stopBits lib) port (lo_baudRate o1) (lo_dataBits o1) (lo_stopBits o1) (lo_parity o1) w of
               (None, w') \<Rightarrow> (Inl (''Failed to open serial port '' @ port), m', w')
             | (Some c, w') \<Rightarrow>
                 (Inr c, m'(port \<mapsto> \<lparr>sn_client = c, sn_baudRate = lo_baudRate o1, sn_dataBits = lo_dataBits o1,
                    sn_stopBits = lo_stopBits o1, sn_parity = lo_parity o1\<rparr>), w')))
      in case m port of
           Some info \<Rightarrow>
             if sp_isOpen sp port w then
               (if sn_baudRate info \<noteq> lo_baudRate o1 \<or> sn_dataBits info \<noteq> lo_dataBits o1
                   \<or> sn_stopBits info \<noteq> lo_stopBits o1 \<or> sn_parity info \<noteq> lo_parity o1
                then (Inl (''Serial port '' @ port @ '' is already open with different parameters''), m, w)
                else (Inr (sn_client info), m, w))
             else fresh (m(port := None))
         | None \<Rightarrow> fresh m)"

text \<open>The connections of the two managers, and what they lead to.\<close>

type_synonym 'w limaco_state = "rtu_master connections \<times> serial_connections \<times> 'w"

type_synonym 'w limaco_answer = "message option \<times> 'w limaco_state"

definition limaco_result ::
  "modbus_result option \<Rightarrow> (modbus_result \<Rightarrow> message) \<Rightarrow> message option" where
  "limaco_result r f =
     map_option (\<lambda>r. if \<not> mr_success r then resp_error 2 (message_object (mr_error r)) else f r) r"

text \<open>The two functions of the transport differ in the call they make, over TCP \<open>rtu\<close>, else \<open>serial\<close>. What a
  handler does with a result that succeeded is \<open>f\<close>.\<close>

definition limaco_transport ::
  "(conn_key \<Rightarrow> 'w socket) \<Rightarrow> 'w serial_port \<Rightarrow> limaco_lib \<Rightarrow> ('w socket \<Rightarrow> 'w rtu_call)
     \<Rightarrow> (byte \<Rightarrow> int \<Rightarrow> 'w serial_call) \<Rightarrow> (modbus_result \<Rightarrow> message) \<Rightarrow> json_obj \<Rightarrow> 'w limaco_state \<Rightarrow> 'w limaco_answer" where
  "limaco_transport net sp lib rtu serial f p st =
     (case limaco_parseOptions p of
        Inl e \<Rightarrow> (Some (resp_error 3 (message_object e)), st)
      | Inr o1 \<Rightarrow>
          (let (tcps, serials, w) = st; unit = word_of_int (lo_unitId o1) in
           if lo_transport o1 = ''tcp''
           then let key = (lo_host o1, word_of_int (lo_port o1)) in
                case manager_getClient rtu_api net key 3000 tcps w of
                  (None, tcps, w) \<Rightarrow>
                    (Some (resp_error 1 (message_object
                       (''Failed to connect to '' @ lo_host o1 @ '':'' @ dec_int (lo_port o1)))), tcps, serials, w)
                | (Some c, tcps, w) \<Rightarrow>
                    (let c = c\<lparr>rm_timeout := lo_timeoutMs o1, rm_unitId := unit\<rparr>;
                         (r, w) = rtu (net key) c w
                     in (limaco_result r f, tcps(key \<mapsto> c), serials, w))
           else
             case limaco_getSerial sp lib o1 serials w of
               (Inl e, serials, w) \<Rightarrow> (Some (resp_error 1 (message_object e)), tcps, serials, w)
             | (Inr c, serials, w) \<Rightarrow>
                 (let (r, w) = serial unit (lo_timeoutMs o1) c w
                  in (limaco_result r f, tcps, serials, w))))"

definition limaco_readHoldingRegisters ::
  "(conn_key \<Rightarrow> 'w socket) \<Rightarrow> 'w serial_port \<Rightarrow> limaco_lib \<Rightarrow> json_obj \<Rightarrow> u16 \<Rightarrow> u16 \<Rightarrow> (u16 list \<Rightarrow> message)
     \<Rightarrow> 'w limaco_state \<Rightarrow> 'w limaco_answer" where
  "limaco_readHoldingRegisters net sp lib p addr count f =
     limaco_transport net sp lib (\<lambda>sk. rtu_readHoldingRegisters sk addr count)
       (\<lambda>unit timeout. serial_readHoldingRegisters sp unit addr count timeout) (\<lambda>r. f (mr_registers r)) p"

definition limaco_writeMultipleRegisters ::
  "(conn_key \<Rightarrow> 'w socket) \<Rightarrow> 'w serial_port \<Rightarrow> limaco_lib \<Rightarrow> json_obj \<Rightarrow> u16 \<Rightarrow> u16 list \<Rightarrow> message
     \<Rightarrow> 'w limaco_state \<Rightarrow> 'w limaco_answer" where
  "limaco_writeMultipleRegisters net sp lib p addr vals answer =
     limaco_transport net sp lib (\<lambda>sk. rtu_writeMultipleRegisters sk addr vals)
       (\<lambda>unit timeout. serial_writeMultipleRegisters sp unit addr vals timeout) (\<lambda>_. answer) p"

section \<open>The handlers\<close>

definition status_ready :: message where
  "status_ready = resp_done 0 (JObj (jset ''status'' (JStr ''ready'') []))"

definition limaco1_answer :: "limaco_lib \<Rightarrow> u16 list \<Rightarrow> message" where
  "limaco1_answer lib registers =
     (case decodeLimaco1Distance lib registers of
        Inl e \<Rightarrow> resp_error 2 (message_object e)
      | Inr decoded \<Rightarrow>
          resp_done 0 (JObj
            (jset ''distance_valid'' (JBool (l1_distanceValid decoded))
            (jset ''status_register'' (jint (uint (l1_statusRegister decoded)))
            (jset ''distance_m'' (JNum (l1_distanceMeters decoded))
            (jset ''raw_registers'' (JArr (toIntArray (l1_rawRegisters decoded))) []))))))"

definition limaco1_handle ::
  "(conn_key \<Rightarrow> 'w socket) \<Rightarrow> 'w serial_port \<Rightarrow> limaco_lib \<Rightarrow> 'w limaco_state \<Rightarrow> string \<Rightarrow> json \<Rightarrow> 'w limaco_answer" where
  "limaco1_handle net sp lib st cmd data =
     (if cmd = ''status'' then (Some status_ready, st)
      else if cmd = ''read_distance''
      then limaco_readHoldingRegisters net sp lib (to_object data) 0x0000 5 (limaco1_answer lib) st
      else (Some (resp_error 404 (message_object (''Unknown command: '' @ cmd))), st))"

definition pointsToJson :: "limaco5_point list \<Rightarrow> json list" where
  "pointsToJson points =
     map (\<lambda>pt. JObj
       (jset ''valid'' (JBool (lp5_valid pt)) (jset ''state'' (jint (uint (lp5_state pt)))
       (jset ''distance_m'' (JNum (lp5_distanceMeters pt)) (jset ''distance_raw'' (jint (uint (lp5_distanceRaw pt)))
       (jset ''index'' (jint (int (lp5_index pt))) [])))))) points"

definition limaco5_answer :: "limaco_lib \<Rightarrow> u16 list \<Rightarrow> message" where
  "limaco5_answer lib registers =
     (case decodeLimaco5Distance lib registers of
        Inl e \<Rightarrow> resp_error 2 (message_object e)
      | Inr decoded \<Rightarrow>
          resp_done 0 (JObj
            (jset ''points'' (JArr (pointsToJson (l5_points decoded)))
            (jset ''raw_registers'' (JArr (toIntArray (l5_rawRegisters decoded)))
            (jset ''format'' (JStr (l5_format decoded)) [])))))"

definition limaco5_handle ::
  "(conn_key \<Rightarrow> 'w socket) \<Rightarrow> 'w serial_port \<Rightarrow> limaco_lib \<Rightarrow> 'w limaco_state \<Rightarrow> string \<Rightarrow> json \<Rightarrow> 'w limaco_answer" where
  "limaco5_handle net sp lib st cmd data =
     (if cmd = ''status'' then (Some status_ready, st)
      else if cmd = ''set_distance_mode''
      then limaco_writeMultipleRegisters net sp lib (to_object data) 0x0F0F [1]
             (resp_done 0 (JObj (jset ''written'' (JArr [jint 1]) (jset ''register'' (jint 0x0F0F) [])))) st
      else if cmd = ''read_distance''
      then limaco_readHoldingRegisters net sp lib (to_object data) 0x0A5A 15 (limaco5_answer lib) st
      else (Some (resp_error 404 (message_object (''Unknown command: '' @ cmd))), st))"

end
