(* ===== verification/LimacoSpec.thy ===== *)
theory LimacoSpec
  imports LimacoDriver ModbusHandlersSpec
begin

text \<open>
  What the Limaco drivers promise: with the modelled serial server as the radar, the points that are
  answered are the ones the radar holds, in both layouts of its registers. The single radar's distance
  does not tell two pairs of registers apart.
\<close>

section \<open>Layouts\<close>

text \<open>The five points of the radar, distance and state, as its firmware lays them out.\<close>

definition v2_registers :: "u16 list \<Rightarrow> (u16 \<times> u16) list \<Rightarrow> u16 list" where
  "v2_registers heads pts = concat (map (\<lambda>(h, d, s). [h, d, s]) (zip heads pts))"

definition legacy_registers :: "(u16 \<times> u16) list \<Rightarrow> u16 list \<Rightarrow> u16 list" where
  "legacy_registers pts rest = concat (map (\<lambda>(d, s). [d, s]) pts) @ rest"

definition radar_holds :: "string \<Rightarrow> (u16 \<times> u16) list \<Rightarrow> u16 list \<Rightarrow> bool" where
  "radar_holds layout pts registers \<longleftrightarrow>
     length pts = 5
     \<and> (layout = ''v2'' \<and> (\<exists>heads. length heads = 5 \<and> list_all (\<lambda>h. h AND 0xFF = 0x14) heads \<and> registers = v2_registers heads pts)
       \<or> layout = ''legacy'' \<and> (\<exists>rest. length rest = 5 \<and> registers = legacy_registers pts rest) \<and> \<not> isV2Layout registers)"

definition reported_points :: "limaco_lib \<Rightarrow> (u16 \<times> u16) list \<Rightarrow> limaco5_point list" where
  "reported_points lib pts =
     map (\<lambda>(i, d, s). \<lparr>lp5_index = i + 1, lp5_distanceRaw = d, lp5_distanceMeters = ll_hundredth lib (uint d),
       lp5_state = s, lp5_valid = (s = 0)\<rparr>) (zip [0..<length pts] pts)"

lemma five: "length xs = 5 \<Longrightarrow> \<exists>a b c d e. xs = [a, b, c, d, e]"
  by (auto simp: eval_nat_numeral length_Suc_conv)

lemma upt_five: "[0..<5] = [0, 1, 2, 3, 4::nat]"
  by (simp add: upt_rec)

lemma decode_held:
  assumes "radar_holds layout pts registers"
  shows "decodeLimaco5Distance lib registers
    = Inr \<lparr>l5_format = layout, l5_rawRegisters = registers, l5_points = reported_points lib pts\<rparr>"
proof -
  obtain p0 p1 p2 p3 p4 where pts: "pts = [p0, p1, p2, p3, p4]"
    using five [of pts] assms unfolding radar_holds_def by blast
  obtain d0 s0 d1 s1 d2 s2 d3 s3 d4 s4 where
    parts: "p0 = (d0, s0)" "p1 = (d1, s1)" "p2 = (d2, s2)" "p3 = (d3, s3)" "p4 = (d4, s4)"
    by (metis surj_pair)
  consider (v2) heads where "layout = ''v2''" "length heads = 5" "list_all (\<lambda>h. h AND 0xFF = 0x14) heads"
      "registers = v2_registers heads pts"
    | (legacy) rest where "layout = ''legacy''" "length rest = 5" "registers = legacy_registers pts rest" "\<not> isV2Layout registers"
    using assms by (auto simp: radar_holds_def)
  then show ?thesis
  proof cases
    case v2
    obtain h0 h1 h2 h3 h4 where "heads = [h0, h1, h2, h3, h4]" using five [OF v2(2)] by blast
    with v2 show ?thesis
      by (simp add: decodeLimaco5Distance_def isV2Layout_def limaco5_point_at_def reported_points_def v2_registers_def pts parts upt_five)
  next
    case legacy
    obtain r0 r1 r2 r3 r4 where "rest = [r0, r1, r2, r3, r4]" using five [OF legacy(2)] by blast
    with legacy show ?thesis
      by (simp add: decodeLimaco5Distance_def limaco5_point_at_def reported_points_def legacy_registers_def pts parts upt_five)
  qed
qed

section \<open>The radar on a serial line\<close>

definition limaco_ready :: "serial_connections \<Rightarrow> limaco_options \<Rightarrow> bool" where
  "limaco_ready m o1 =
     (case m (lo_portName o1) of
        None \<Rightarrow> False
      | Some info \<Rightarrow> sn_baudRate info = lo_baudRate o1 \<and> sn_dataBits info = lo_dataBits o1
          \<and> sn_stopBits info = lo_stopBits o1 \<and> sn_parity info = lo_parity o1)"

lemma limaco_serial_call:
  assumes "limaco_parseOptions p = Inr o1" and "lo_transport o1 = ''serial''" and "limaco_ready m o1"
    and "\<And>c. \<exists>s'. serial (word_of_int (lo_unitId o1)) (lo_timeoutMs o1) c s = (Some r, s') \<and> P s'" and "mr_success r"
  shows "\<exists>s'. limaco_transport net (serial_line split_up rounds_of) lib rtu serial f p (tcps, m, s) = (Some (f r), tcps, m, s') \<and> P s'"
proof -
  obtain info where info: "m (lo_portName o1) = Some info" "sn_baudRate info = lo_baudRate o1" "sn_dataBits info = lo_dataBits o1"
      "sn_stopBits info = lo_stopBits o1" "sn_parity info = lo_parity o1"
    using assms(3) by (auto simp: limaco_ready_def split: option.splits)
  have get: "limaco_getSerial (serial_line split_up rounds_of) lib o1 m s = (Inr (sn_client info), m, s)"
    using info by (simp add: limaco_getSerial_def serial_line_def)
  obtain s' where "serial (word_of_int (lo_unitId o1)) (lo_timeoutMs o1) (sn_client info) s = (Some r, s')" "P s'"
    using assms(4) by blast
  then show ?thesis using assms(1,2,5) get by (simp add: limaco_transport_def limaco_result_def)
qed

text \<open>The points the radar holds are the points in the answer, whatever the line does to the frames in between.\<close>

theorem radar_points_answered:
  assumes "limaco_parseOptions p = Inr o1" and "lo_transport o1 = ''serial''" and "limaco_ready m o1"
    and "u = word_of_int (lo_unitId o1)" and "line_live split_up rounds_of u s"
    and "2665 \<le> length (holdingRegisters (serial_area u s))"
    and "radar_holds layout pts (take 15 (drop 0x0A5A (holdingRegisters (serial_area u s))))"
  shows "\<exists>s' raw. limaco5_handle net (serial_line split_up rounds_of) lib (tcps, m, s) ''read_distance'' (JObj p)
      = (Some (resp_done 0 (JObj
          (jset ''points'' (JArr (pointsToJson (reported_points lib pts)))
          (jset ''raw_registers'' raw (jset ''format'' (JStr layout) []))))), tcps, m, s')"
proof -
  let ?regs = "take 15 (drop 0x0A5A (holdingRegisters (serial_area u s)))"
  let ?r = "ok_result\<lparr>mr_registers := ?regs\<rparr>"
  let ?line = "serial_line split_up rounds_of"
  have read: "\<exists>s'. serial_readHoldingRegisters ?line u 0x0A5A (of_nat 15) (lo_timeoutMs o1) c s = (Some ?r, s') \<and> True" for c
    using serial_device.get_words_law [OF assms(5), of 15 "0x0A5A" "lo_timeoutMs o1" c] assms(6) by auto
  have good: "mr_success ?r" by (simp add: ok_result_def)
  obtain s' where "limaco_transport net ?line lib (\<lambda>sk. rtu_readHoldingRegisters sk 0x0A5A 15)
      (\<lambda>unit timeout. serial_readHoldingRegisters ?line unit 0x0A5A 15 timeout)
      (\<lambda>r. limaco5_answer lib (mr_registers r)) p (tcps, m, s) = (Some (limaco5_answer lib (mr_registers ?r)), tcps, m, s')"
    using limaco_serial_call [OF assms(1-3) _ good, where P = "\<lambda>_. True" and s = s
        and serial = "\<lambda>unit timeout. serial_readHoldingRegisters ?line unit 0x0A5A 15 timeout"] read
    unfolding assms(4) of_nat_numeral by blast
  then have "\<exists>s'. limaco5_handle net ?line lib (tcps, m, s) ''read_distance'' (JObj p)
      = (Some (limaco5_answer lib ?regs), tcps, m, s')"
    by (simp add: limaco5_handle_def limaco_readHoldingRegisters_def)
  then show ?thesis
    by (simp add: limaco5_answer_def decode_held [OF assms(7)]) blast
qed

text \<open>A radar of the later firmware whose third point has no echo.\<close>

definition demo_points :: "(u16 \<times> u16) list" where
  "demo_points = [(1250, 0), (1300, 0), (0, 1), (987, 0), (20, 0)]"

lemma demo_radar_holds: "radar_holds ''v2'' demo_points (v2_registers [0x14, 0x114, 0x14, 0x14, 0xFF14] demo_points)"
  unfolding radar_holds_def
  by (intro conjI disjI1 exI [of _ "[0x14, 0x114, 0x14, 0x14, 0xFF14]"]) (simp_all add: demo_points_def)

section \<open>The single radar\<close>

text \<open>The upper register counts 65535 units, not 65536: where it steps, two readings fall together.\<close>

lemma limaco1_step_collides:
  assumes "st < 50"
  shows "\<exists>a b. decodeLimaco1Distance lib [0, 65535, x, st, y] = Inr a \<and> decodeLimaco1Distance lib [1, 0, x, st, y] = Inr b
    \<and> l1_distanceMeters a = l1_distanceMeters b"
  using assms by (simp add: decodeLimaco1Distance_def)

text \<open>A weak signal is never a distance.\<close>

lemma limaco1_weak_signal:
  "decodeLimaco1Distance lib regs = Inr d \<Longrightarrow> 50 \<le> l1_statusRegister d \<Longrightarrow> \<not> l1_distanceValid d \<and> l1_distanceMeters d = 0"
  by (auto simp: decodeLimaco1Distance_def Let_def split: if_splits)

end
