(* ===== verification/DriverLab.thy ===== *)
theory DriverLab
  imports JsonlProtocol QtText
begin

text \<open>
  The driver laboratory of the web interface: a web socket and the driver it talks to
  (\<open>src/src/stdiolink_server/http/driverlab_ws_connection.*\<close>, \<open>driverlab_ws_handler.*\<close>). The signals of the
  process, the socket and the timers are events; what is sent to the socket and written to the process
  is kept in lists. A slot that would use a process that is gone, which ends the server, is \<open>None\<close>.
  The environment of the process and what it writes while it is being killed are left out.
\<close>

section \<open>State\<close>

datatype lab_state = LabNotRunning | LabStarting | LabRunning

text \<open>The last two members belong to the slot of \<open>QProcess::started\<close>.\<close>

record lab_process =
  lp_program :: string
  lp_args :: "string list"
  lp_state :: lab_state
  lp_written :: "bytes list"
  lp_writeClosed :: bool
  lp_queryMeta :: bool
  lp_isRestart :: bool

record lab_connection =
  lc_driverId :: string
  lc_program :: string
  lc_runMode :: string
  lc_extraArgs :: "string list"
  lc_connected :: bool
  lc_process :: "lab_process option"
  lc_stdoutBuffer :: bytes
  lc_metaSent :: bool
  lc_closing :: bool
  lc_lastPongAt :: int
  lc_consecutiveFastCrashes :: int
  lc_lastDriverStart :: int
  lc_restartSuppressed :: bool
  lc_lastExitWasCrash :: bool
  lc_isRestarting :: bool
  lc_metaTimers :: nat
  lc_sent :: "json_obj list"
  lc_closes :: "string list"
  lc_closedSignals :: nat

text \<open>The library and the system: JSON text, UTF-8, the clock, the id of the process, whether a killed
  process ends within a second and with which code.\<close>

record lab_env =
  lv_from_json :: "bytes \<Rightarrow> json option"
  lv_to_json :: "json \<Rightarrow> bytes"
  lv_text :: "bytes \<Rightarrow> string"
  lv_now :: int
  lv_pid :: int
  lv_killEnds :: bool
  lv_killCode :: int

definition kMaxOutputBufferBytes :: nat where "kMaxOutputBufferBytes = 8 * 1024 * 1024"
definition kMaxRapidCrashes :: int where "kMaxRapidCrashes = 3"
definition kRapidCrashWindowMs :: int where "kRapidCrashWindowMs = 2000"

definition not_running :: "lab_connection \<Rightarrow> bool" where
  "not_running c = (case lc_process c of None \<Rightarrow> True | Some p \<Rightarrow> lp_state p = LabNotRunning)"

section \<open>Messages\<close>

definition lab_sendJson :: "json_obj \<Rightarrow> lab_connection \<Rightarrow> lab_connection" where
  "lab_sendJson msg c = (if \<not> lc_connected c then c else c\<lparr>lc_sent := lc_sent c @ [msg]\<rparr>)"

definition lab_message :: "string \<Rightarrow> (string \<times> json) list \<Rightarrow> json_obj" where
  "lab_message kind members = foldl (\<lambda>obj (k, v). jset k v obj) (jset ''type'' (JStr kind) []) members"

definition lab_error :: "string \<Rightarrow> json_obj" where
  "lab_error text = lab_message ''error'' [(''message'', JStr text)]"

definition lab_close :: "string \<Rightarrow> lab_connection \<Rightarrow> lab_connection" where
  "lab_close reason c = c\<lparr>lc_connected := False, lc_closes := lc_closes c @ [reason]\<rparr>"

section \<open>The process\<close>

definition startDriver :: "lab_env \<Rightarrow> bool \<Rightarrow> lab_connection \<Rightarrow> lab_connection" where
  "startDriver env queryMeta c =
     c\<lparr>lc_process := Some \<lparr>lp_program = lc_program c, lp_args = (''--profile='' @ lc_runMode c) # lc_extraArgs c,
         lp_state = LabStarting, lp_written = [], lp_writeClosed = False, lp_queryMeta = queryMeta,
         lp_isRestart = lc_isRestarting c\<rparr>,
       lc_lastDriverStart := lv_now env, lc_metaSent := \<not> queryMeta, lc_stdoutBuffer := [], lc_isRestarting := False\<rparr>"

text \<open>What is written to a process that has ended, or after its input was closed, is lost.\<close>

definition write_process :: "bytes \<Rightarrow> lab_process \<Rightarrow> lab_process" where
  "write_process line p =
     (if lp_state p = LabNotRunning \<or> lp_writeClosed p then p else p\<lparr>lp_written := lp_written p @ [line]\<rparr>)"

definition meta_request :: bytes where
  "meta_request = map (\<lambda>ch. of_char ch)
     (CHR ''{'' # [CHR 0x22] @ ''cmd'' @ [CHR 0x22] @ '':'' @ [CHR 0x22] @ ''meta.describe'' @ [CHR 0x22] @ '',''
      @ [CHR 0x22] @ ''data'' @ [CHR 0x22] @ '':{}}'') @ [newline]"

text \<open>The slot of \<open>started\<close>.\<close>

definition onDriverStarted :: "lab_env \<Rightarrow> lab_connection \<Rightarrow> lab_connection" where
  "onDriverStarted env c =
     (case lc_process c of
        None \<Rightarrow> c
      | Some p \<Rightarrow>
          if lp_state p \<noteq> LabStarting then c
          else
            let pid = jint (lv_pid env);
                c = lab_sendJson
                  (if lp_isRestart p then lab_message ''driver.restarted'' [(''pid'', pid), (''reason'', JStr ''oneshot auto-restart'')]
                   else lab_message ''driver.started'' [(''pid'', pid)]) c;
                p = p\<lparr>lp_state := LabRunning\<rparr>
            in if lp_queryMeta p
               then c\<lparr>lc_process := Some (write_process meta_request p), lc_metaTimers := lc_metaTimers c + 1\<rparr>
               else c\<lparr>lc_process := Some p\<rparr>)"

text \<open>The single shot of five seconds.\<close>

definition metaTimeout :: "lab_connection \<Rightarrow> lab_connection" where
  "metaTimeout c =
     (if lc_metaTimers c = 0 then c
      else
        let c = c\<lparr>lc_metaTimers := lc_metaTimers c - 1\<rparr> in
        if \<not> lc_metaSent c then lab_sendJson (lab_error ''meta query timeout'') c else c)"

definition lab_onDriverFinished :: "int \<Rightarrow> bool \<Rightarrow> lab_connection \<Rightarrow> lab_connection" where
  "lab_onDriverFinished exitCode crashed c =
     (let c = c\<lparr>lc_process := map_option (\<lambda>p. p\<lparr>lp_state := LabNotRunning\<rparr>) (lc_process c)\<rparr> in
      if lc_closing c then c
      else
        let reason = (if crashed then ''driver crashed'' else ''driver exited normally'');
            c = c\<lparr>lc_lastExitWasCrash := crashed \<or> exitCode \<noteq> 0\<rparr>;
            c = lab_sendJson (lab_message ''driver.exited''
              [(''exitCode'', jint exitCode), (''exitStatus'', JStr (if crashed then ''crash'' else ''normal'')), (''reason'', JStr reason)]) c
        in if lc_runMode c = ''keepalive'' then lab_close reason c else c)"

text \<open>\<open>waitForFinished\<close> runs the slot of \<open>finished\<close> when the process ends in time.\<close>

definition stopDriver :: "lab_env \<Rightarrow> lab_connection \<Rightarrow> lab_connection" where
  "stopDriver env c =
     (if \<not> not_running c \<and> lv_killEnds env then lab_onDriverFinished (lv_killCode env) True c else c)\<lparr>lc_process := None\<rparr>"

definition onDriverFailedToStart :: "string \<Rightarrow> lab_connection \<Rightarrow> lab_connection" where
  "onDriverFailedToStart errorString c =
     (let c = c\<lparr>lc_process := map_option (\<lambda>p. p\<lparr>lp_state := LabNotRunning\<rparr>) (lc_process c)\<rparr> in
      if lc_closing c then c
      else lab_close ''driver start failed'' (lab_sendJson (lab_error (''driver failed to start: '' @ errorString)) c))"

section \<open>Output of the driver\<close>

definition trim_bytes :: "bytes \<Rightarrow> bytes" where
  "trim_bytes b = rev (dropWhile (\<lambda>x. x = 32 \<or> 9 \<le> x \<and> x \<le> 13) (rev (dropWhile (\<lambda>x. x = 32 \<or> 9 \<le> x \<and> x \<le> 13) b)))"

definition forwardStdoutLine :: "lab_env \<Rightarrow> bytes \<Rightarrow> lab_connection \<Rightarrow> lab_connection" where
  "forwardStdoutLine env line c =
     lab_sendJson (lab_message ''stdout''
       [(''message'', case lv_from_json env line of Some (JObj obj) \<Rightarrow> JObj obj | _ \<Rightarrow> JStr (lv_text env line))]) c"

text \<open>The first \<open>done\<close> is taken for the metadata.\<close>

definition meta_answer :: "lab_env \<Rightarrow> bytes \<Rightarrow> lab_connection \<Rightarrow> json option" where
  "meta_answer env line c =
     (if lc_metaSent c then None
      else case lv_from_json env line of
        Some (JObj obj) \<Rightarrow> if to_string (jval obj ''status'') = ''done'' then Some (jval obj ''data'') else None
      | _ \<Rightarrow> None)"

definition lab_line :: "lab_env \<Rightarrow> lab_connection \<Rightarrow> bytes \<Rightarrow> lab_connection" where
  "lab_line env c raw =
     (let line = trim_bytes raw in
      if line = [] then c
      else case meta_answer env line c of
        Some metadata \<Rightarrow>
          lab_sendJson (lab_message ''meta''
            [(''driverId'', JStr (lc_driverId c)), (''pid'', jint (lv_pid env)), (''runMode'', JStr (lc_runMode c)), (''meta'', metadata)])
            (c\<lparr>lc_metaSent := True\<rparr>)
      | None \<Rightarrow> forwardStdoutLine env line c)"

text \<open>The loop takes the lines off the buffer, which handling a line does not touch.\<close>

definition onDriverStdoutReady :: "lab_env \<Rightarrow> bytes \<Rightarrow> lab_connection \<Rightarrow> lab_connection" where
  "onDriverStdoutReady env output c =
     (if lc_process c = None then c
      else
        let buffer = lc_stdoutBuffer c @ output in
        if kMaxOutputBufferBytes < length buffer
        then stopDriver env ((lab_sendJson (lab_message ''error''
               [(''message'', JStr ''output buffer overflow''), (''channel'', JStr ''stdout''),
                (''limit'', jint (int kMaxOutputBufferBytes))]) c)\<lparr>lc_stdoutBuffer := []\<rparr>)
        else
          let (ls, left) = drain next_line buffer in
          foldl (lab_line env) (c\<lparr>lc_stdoutBuffer := left\<rparr>) ls)"

section \<open>Messages of the client\<close>

text \<open>Whether the driver is started again is seen by the caller only in the state.\<close>

definition restartDriverForOneShot :: "lab_env \<Rightarrow> lab_connection \<Rightarrow> lab_connection" where
  "restartDriverForOneShot env c =
     (let c = c\<lparr>lc_consecutiveFastCrashes :=
            (if lc_lastExitWasCrash c \<and> lv_now env - lc_lastDriverStart c < kRapidCrashWindowMs
             then lc_consecutiveFastCrashes c + 1 else 0)\<rparr> in
      if kMaxRapidCrashes \<le> lc_consecutiveFastCrashes c
      then lab_sendJson (lab_error ''driver restart suppressed: too many rapid crashes'') (c\<lparr>lc_restartSuppressed := True\<rparr>)
      else startDriver env False (c\<lparr>lc_process := None, lc_isRestarting := True\<rparr>))"

definition exec_line :: "lab_env \<Rightarrow> json_obj \<Rightarrow> bytes" where
  "exec_line env msg =
     (let cmd = jset ''cmd'' (jval msg ''cmd'') [];
          cmd = (if om_has msg ''data'' then jset ''data'' (jval msg ''data'') cmd else cmd)
      in lv_to_json env (JObj cmd) @ [newline])"

text \<open>The last call uses \<open>m_process\<close> without a look at it.\<close>

definition forward_exec :: "lab_env \<Rightarrow> json_obj \<Rightarrow> lab_connection \<Rightarrow> lab_connection option" where
  "forward_exec env msg c =
     (case lc_process c of
        None \<Rightarrow> None
      | Some p \<Rightarrow> Some (c\<lparr>lc_process := Some (write_process (exec_line env msg) p)\<rparr>))"

definition handleExecMessage :: "lab_env \<Rightarrow> json_obj \<Rightarrow> lab_connection \<Rightarrow> lab_connection option" where
  "handleExecMessage env msg c =
     (if not_running c
      then if lc_runMode c = ''oneshot''
           then if lc_restartSuppressed c
                then Some (lab_sendJson (lab_error ''driver restart suppressed due to rapid crashes'') c)
                else forward_exec env msg (restartDriverForOneShot env c)
           else Some (lab_sendJson (lab_error ''driver is not running'') c)
      else forward_exec env msg c)"

definition handleCancelMessage :: "lab_connection \<Rightarrow> lab_connection" where
  "handleCancelMessage c =
     (if not_running c then c else c\<lparr>lc_process := map_option (\<lambda>p. p\<lparr>lp_writeClosed := True\<rparr>) (lc_process c)\<rparr>)"

definition onTextMessageReceived :: "lab_env \<Rightarrow> bytes \<Rightarrow> lab_connection \<Rightarrow> lab_connection option" where
  "onTextMessageReceived env message c =
     (case lv_from_json env message of
        Some (JObj msg) \<Rightarrow>
          (let kind = to_string (jval msg ''type'') in
           if kind = ''exec'' then handleExecMessage env msg c
           else if kind = ''cancel'' then Some (handleCancelMessage c)
           else Some (lab_sendJson (lab_error (''unknown message type: '' @ kind)) c))
      | _ \<Rightarrow> Some (lab_sendJson (lab_error ''invalid JSON'') c))"

section \<open>The end of a connection\<close>

definition onSocketDisconnected :: "lab_env \<Rightarrow> lab_connection \<Rightarrow> lab_connection" where
  "onSocketDisconnected env c =
     (let c = stopDriver env (c\<lparr>lc_closing := True, lc_connected := False\<rparr>) in c\<lparr>lc_closedSignals := lc_closedSignals c + 1\<rparr>)"

definition closeForPongTimeout :: "lab_env \<Rightarrow> lab_connection \<Rightarrow> lab_connection" where
  "closeForPongTimeout env c =
     (let c = stopDriver env (c\<lparr>lc_closing := True\<rparr>) in if lc_connected c then lab_close ''pong timeout'' c else c)"

definition onPongReceived :: "lab_env \<Rightarrow> lab_connection \<Rightarrow> lab_connection" where
  "onPongReceived env c = c\<lparr>lc_lastPongAt := lv_now env\<rparr>"

definition DriverLabWsConnection :: "lab_env \<Rightarrow> string \<Rightarrow> string \<Rightarrow> string \<Rightarrow> string list \<Rightarrow> lab_connection" where
  "DriverLabWsConnection env driverId program runMode extraArgs =
     startDriver env True
       \<lparr>lc_driverId = driverId, lc_program = program, lc_runMode = runMode, lc_extraArgs = extraArgs, lc_connected = True,
        lc_process = None, lc_stdoutBuffer = [], lc_metaSent = False, lc_closing = False, lc_lastPongAt = lv_now env,
        lc_consecutiveFastCrashes = 0, lc_lastDriverStart = lv_now env, lc_restartSuppressed = False,
        lc_lastExitWasCrash = False, lc_isRestarting = False, lc_metaTimers = 0, lc_sent = [], lc_closes = [],
        lc_closedSignals = 0\<rparr>"

section \<open>The handler\<close>

record lab_request =
  lr_path :: string
  lr_runMode :: string
  lr_args :: string

definition lab_prefix :: string where "lab_prefix = ''/api/driverlab/''"

text \<open>The verifier of an upgrade: pass it on, deny it, or accept it.\<close>

datatype upgrade_answer = PassToNext | Deny nat string | Accept

definition verify_upgrade :: "(string \<Rightarrow> bool) \<Rightarrow> nat \<Rightarrow> lab_request \<Rightarrow> upgrade_answer" where
  "verify_upgrade hasDriver connections rq =
     (if \<not> starts_with lab_prefix (lr_path rq) then PassToNext
      else
        let driverId = drop (length lab_prefix) (lr_path rq) in
        if driverId = [] \<or> \<not> hasDriver driverId then Deny 404 ''driver not found''
        else if 10 \<le> connections then Deny 429 ''too many connections''
        else if lr_runMode rq \<noteq> [] \<and> lr_runMode rq \<noteq> ''oneshot'' \<and> lr_runMode rq \<noteq> ''keepalive'' then Deny 400 ''invalid runMode''
        else Accept)"

text \<open>The driver, the mode and the arguments of a request.\<close>

definition parseConnectionParams :: "lab_request \<Rightarrow> string \<times> string \<times> string list" where
  "parseConnectionParams rq =
     (if \<not> starts_with lab_prefix (lr_path rq) then ([], [], [])
      else (drop (length lab_prefix) (lr_path rq),
            (if lr_runMode rq = [] then ''oneshot'' else lr_runMode rq),
            filter (\<lambda>part. part \<noteq> []) (split_at_char (CHR '','') (lr_args rq))))"

definition sweepDeadConnections :: "lab_env \<Rightarrow> lab_connection list \<Rightarrow> lab_connection list \<times> lab_connection list" where
  "sweepDeadConnections env cs =
     (let dead = (\<lambda>c. 60000 < lv_now env - lc_lastPongAt c)
      in (filter (\<lambda>c. \<not> dead c) cs, map (closeForPongTimeout env) (filter dead cs)))"

end
