(* ===== verification/DriverLabSpec.thy ===== *)
theory DriverLabSpec
  imports DriverLab
begin

text \<open>
  What the driver laboratory promises: the driver's lines reach the client, in order, however its pipe
  cuts them; after three rapid crashes the driver is never started again. The last section shows the
  one way in which a client and a driver together end the server.
\<close>

section \<open>Events\<close>

datatype lab_event =
    LabText lab_env bytes
  | LabStarted lab_env
  | LabOutput lab_env bytes
  | LabFinished int bool
  | LabFailed string
  | LabPong lab_env
  | LabMetaTimer
  | LabDisconnected lab_env
  | LabPongTimeout lab_env

definition in_state :: "lab_state set \<Rightarrow> lab_connection \<Rightarrow> bool" where
  "in_state S c = (case lc_process c of None \<Rightarrow> False | Some p \<Rightarrow> lp_state p \<in> S)"

text \<open>The signals a process can emit in its state.\<close>

fun lab_possible :: "lab_event \<Rightarrow> lab_connection \<Rightarrow> bool" where
  "lab_possible (LabStarted env) c = in_state {LabStarting} c"
| "lab_possible (LabOutput env output) c = in_state {LabRunning} c"
| "lab_possible (LabFinished code crashed) c = in_state {LabRunning} c"
| "lab_possible (LabFailed text) c = in_state {LabStarting} c"
| "lab_possible (LabText env message) c = lc_connected c"
| "lab_possible _ c = True"

fun lab_step :: "lab_event \<Rightarrow> lab_connection \<Rightarrow> lab_connection option" where
  "lab_step (LabText env message) c = onTextMessageReceived env message c"
| "lab_step (LabStarted env) c = Some (onDriverStarted env c)"
| "lab_step (LabOutput env output) c = Some (onDriverStdoutReady env output c)"
| "lab_step (LabFinished code crashed) c = Some (lab_onDriverFinished code crashed c)"
| "lab_step (LabFailed text) c = Some (onDriverFailedToStart text c)"
| "lab_step (LabPong env) c = Some (onPongReceived env c)"
| "lab_step LabMetaTimer c = Some (metaTimeout c)"
| "lab_step (LabDisconnected env) c = Some (onSocketDisconnected env c)"
| "lab_step (LabPongTimeout env) c = Some (closeForPongTimeout env c)"

inductive lab_reach :: "lab_connection \<Rightarrow> bool" where
  opened: "lab_reach (DriverLabWsConnection env driverId program runMode extraArgs)"
| stepped: "lab_reach c \<Longrightarrow> lab_possible ev c \<Longrightarrow> lab_step ev c = Some c' \<Longrightarrow> lab_reach c'"

section \<open>Output\<close>

text \<open>What the client is told about the lines of the driver.\<close>

fun lab_answers :: "lab_env \<Rightarrow> lab_connection \<Rightarrow> bool \<Rightarrow> bytes list \<Rightarrow> json_obj list" where
  "lab_answers env c metaSent [] = []"
| "lab_answers env c metaSent (l # ls) =
     (let line = trim_bytes l in
      if line = [] then lab_answers env c metaSent ls
      else case meta_answer env line (c\<lparr>lc_metaSent := metaSent\<rparr>) of
        Some metadata \<Rightarrow>
          lab_message ''meta''
            [(''driverId'', JStr (lc_driverId c)), (''pid'', jint (lv_pid env)), (''runMode'', JStr (lc_runMode c)), (''meta'', metadata)]
          # lab_answers env c True ls
      | None \<Rightarrow>
          lab_message ''stdout''
            [(''message'', case lv_from_json env line of Some (JObj obj) \<Rightarrow> JObj obj | _ \<Rightarrow> JStr (lv_text env line))]
          # lab_answers env c metaSent ls)"

lemma lab_line_fields [simp]:
  "lc_process (lab_line env c raw) = lc_process c" "lc_stdoutBuffer (lab_line env c raw) = lc_stdoutBuffer c"
  "lc_connected (lab_line env c raw) = lc_connected c" "lc_driverId (lab_line env c raw) = lc_driverId c"
  "lc_runMode (lab_line env c raw) = lc_runMode c"
  by (simp_all add: lab_line_def Let_def forwardStdoutLine_def lab_sendJson_def split: option.split)

lemma lab_lines_fields [simp]:
  "lc_process (foldl (lab_line env) c ls) = lc_process c" "lc_stdoutBuffer (foldl (lab_line env) c ls) = lc_stdoutBuffer c"
  by (induction ls arbitrary: c) simp_all

lemma lab_line_buffer: "lab_line env (c\<lparr>lc_stdoutBuffer := b\<rparr>) raw = (lab_line env c raw)\<lparr>lc_stdoutBuffer := b\<rparr>"
  by (simp add: lab_line_def Let_def forwardStdoutLine_def lab_sendJson_def meta_answer_def split: option.split)

lemma lab_lines_buffer:
  "foldl (lab_line env) (c\<lparr>lc_stdoutBuffer := b\<rparr>) ls = (foldl (lab_line env) c ls)\<lparr>lc_stdoutBuffer := b\<rparr>"
  by (induction ls arbitrary: c) (simp_all add: lab_line_buffer)

lemma meta_answer_cong:
  "lc_metaSent c = lc_metaSent d \<Longrightarrow> meta_answer env line c = meta_answer env line d"
  by (simp add: meta_answer_def)

lemma lab_lines_sent:
  "lc_connected c \<Longrightarrow> lc_driverId c = lc_driverId d \<Longrightarrow> lc_runMode c = lc_runMode d \<Longrightarrow>
     lc_sent (foldl (lab_line env) c ls) = lc_sent c @ lab_answers env d (lc_metaSent c) ls"
proof (induction ls arbitrary: c)
  case (Cons l ls)
  have meta: "meta_answer env (trim_bytes l) c = meta_answer env (trim_bytes l) (d\<lparr>lc_metaSent := lc_metaSent c\<rparr>)"
    by (rule meta_answer_cong) simp
  show ?case
    using Cons.IH [of "lab_line env c l"] Cons.prems meta
    by (simp add: lab_line_def Let_def forwardStdoutLine_def lab_sendJson_def split: option.split)
qed simp

lemma drain_left_short: "length (snd (drain next_line buf)) \<le> length buf"
proof -
  have "length (snd (drain_fuel n next_line buf)) \<le> length buf" for n buf
  proof (induction n next_line buf rule: drain_fuel.induct)
    case (2 n buf)
    then show ?case
      by (auto simp: next_line_alt split: option.split prod.split) (metis diff_le_self length_drop order_trans snd_conv)
  qed simp
  then show ?thesis by (simp add: drain_def)
qed

lemma receive_left_short: "length (snd (receive_all next_line chunks)) \<le> length (concat chunks)"
proof (induction chunks rule: rev_induct)
  case (snoc chunk chunks)
  then show ?case
    using drain_left_short [of "snd (receive_all next_line chunks) @ chunk"]
    by (simp add: receive_all_def receive_def Let_def split_beta)
qed (simp add: receive_all_def)

lemma stdout_chunks:
  assumes "lc_process c \<noteq> None" and "lc_stdoutBuffer c = []" and "length (concat chunks) \<le> kMaxOutputBufferBytes"
  shows "foldl (\<lambda>c chunk. onDriverStdoutReady env chunk c) c chunks
    = (foldl (lab_line env) c (fst (receive_all next_line chunks)))\<lparr>lc_stdoutBuffer := snd (receive_all next_line chunks)\<rparr>"
  using assms(3)
proof (induction chunks rule: rev_induct)
  case Nil
  then show ?case by (simp add: receive_all_def assms(2))
next
  case (snoc chunk chunks)
  let ?R = "receive_all next_line chunks"
  have "length (snd ?R @ chunk) \<le> kMaxOutputBufferBytes"
    using snoc.prems receive_left_short [of chunks] by simp
  moreover obtain p where "lc_process c = Some p" using assms(1) by blast
  ultimately show ?case
    using snoc
    by (simp add: receive_all_def receive_def onDriverStdoutReady_def Let_def lab_lines_buffer split_beta)
qed

text \<open>C24: However the pipe cuts the driver's output, a connected client is sent one message for every
  line, in order: the first \<open>done\<close> as the metadata while that is awaited, every other line as it is, and
  nothing is left in the buffer. The output consists of whole lines that are not blank (blank ones are
  skipped), of at most 8 MiB altogether (kMaxOutputBufferBytes; when more bytes than that are waiting, the
  driver is killed instead), and the driver's process is there.\<close>

theorem driver_output_reaches_client:
  assumes "lc_connected c" and "lc_process c \<noteq> None" and "lc_stdoutBuffer c = []"
    and "\<forall>l\<in>set ls. line_ok l" and "concat chunks = concat (map line_bytes ls)"
    and "length (concat chunks) \<le> kMaxOutputBufferBytes"
  shows "let c' = foldl (\<lambda>c chunk. onDriverStdoutReady env chunk c) c chunks in
    lc_sent c' = lc_sent c @ lab_answers env c (lc_metaSent c) ls \<and> lc_stdoutBuffer c' = []"
proof -
  have "receive_all next_line chunks = (ls, [])" by (rule jsonl.chunking_irrelevant [OF assms(4,5)])
  then show ?thesis
    using stdout_chunks [OF assms(2,3,6), of env] lab_lines_sent [OF assms(1) refl refl, of env ls] by (simp add: Let_def)
qed

definition demo_lab :: "int \<Rightarrow> lab_env" where
  "demo_lab now =
     \<lparr>lv_from_json = (\<lambda>line. if line = [123, 125] then Some (JObj [(''status'', JStr ''done'')])
          else if line = [101] then Some (JObj [(''cmd'', JStr ''x''), (''type'', JStr ''exec'')]) else None),
      lv_to_json = (\<lambda>_. [120]), lv_text = (\<lambda>_. ''hi''), lv_now = now, lv_pid = 7, lv_killEnds = True, lv_killCode = 9\<rparr>"

definition demo_connection :: lab_connection where
  "demo_connection = DriverLabWsConnection (demo_lab 0) ''drv'' ''/bin/drv'' ''oneshot'' []"

lemma driver_output_reaches_client_witness:
  "let c' = foldl (\<lambda>c chunk. onDriverStdoutReady (demo_lab 0) chunk c) demo_connection [[123], [125, 10, 104], [105, 10]] in
    lc_sent c' = [] @ [lab_message ''meta'' [(''driverId'', JStr ''drv''), (''pid'', jint 7), (''runMode'', JStr ''oneshot''),
        (''meta'', JUndefined)], lab_message ''stdout'' [(''message'', JStr ''hi'')]] \<and> lc_stdoutBuffer c' = []"
proof -
  have sent: "lc_sent demo_connection = []" "lc_metaSent demo_connection = False"
    by (simp_all add: demo_connection_def DriverLabWsConnection_def startDriver_def)
  have trims: "trim_bytes [123, 125] = [123, 125]" "trim_bytes [104, 105] = [104, 105]" by (simp_all add: trim_bytes_def)
  have answers: "lab_answers (demo_lab 0) demo_connection False [[123, 125], [104, 105]]
    = [lab_message ''meta'' [(''driverId'', JStr ''drv''), (''pid'', jint 7), (''runMode'', JStr ''oneshot''),
        (''meta'', JUndefined)], lab_message ''stdout'' [(''message'', JStr ''hi'')]]"
    by (simp add: trims meta_answer_def demo_lab_def demo_connection_def DriverLabWsConnection_def startDriver_def)
  have "let c' = foldl (\<lambda>c chunk. onDriverStdoutReady (demo_lab 0) chunk c) demo_connection [[123], [125, 10, 104], [105, 10]] in
    lc_sent c' = lc_sent demo_connection @ lab_answers (demo_lab 0) demo_connection (lc_metaSent demo_connection) [[123, 125], [104, 105]]
    \<and> lc_stdoutBuffer c' = []"
    by (rule driver_output_reaches_client)
      (simp_all add: demo_connection_def DriverLabWsConnection_def startDriver_def line_ok_def line_bytes_def newline_def
        kMaxOutputBufferBytes_def)
  then show ?thesis by (simp only: sent answers)
qed

section \<open>Crashes\<close>

definition lab_inv :: "lab_connection \<Rightarrow> bool" where
  "lab_inv c \<longleftrightarrow>
     0 \<le> lc_consecutiveFastCrashes c \<and> lc_consecutiveFastCrashes c \<le> 3
     \<and> lc_restartSuppressed c = (lc_consecutiveFastCrashes c = 3) \<and> (lc_restartSuppressed c \<longrightarrow> not_running c)"

text \<open>A step that starts nothing and leaves the count alone.\<close>

definition calm :: "lab_connection \<Rightarrow> lab_connection \<Rightarrow> bool" where
  "calm c c' \<longleftrightarrow> lc_consecutiveFastCrashes c' = lc_consecutiveFastCrashes c \<and> lc_restartSuppressed c' = lc_restartSuppressed c
     \<and> (not_running c \<longrightarrow> not_running c')"

lemma calm_inv: "calm c c' \<Longrightarrow> lab_inv c \<Longrightarrow> lab_inv c'"
  by (auto simp: calm_def lab_inv_def)

lemma calm_trans: "calm a b \<Longrightarrow> calm b c \<Longrightarrow> calm a c"
  by (auto simp: calm_def)

lemma calm_refl: "calm c c"
  by (simp add: calm_def)

lemma calm_send: "calm c (lab_sendJson msg c)"
  by (simp add: calm_def lab_sendJson_def not_running_def)

lemma calm_line: "calm c (lab_line env c raw)"
  by (auto simp: calm_def lab_line_def Let_def forwardStdoutLine_def lab_sendJson_def not_running_def split: option.split)

lemma calm_lines: "calm c (foldl (lab_line env) c ls)"
  by (induction ls arbitrary: c) (auto intro: calm_refl calm_trans calm_line)

lemma calm_finished: "calm c (lab_onDriverFinished code crashed c)"
  by (auto simp: calm_def lab_onDriverFinished_def Let_def lab_sendJson_def lab_close_def not_running_def split: option.split)

lemma calm_started: "calm c (onDriverStarted env c)"
  by (cases "lc_process c") (simp_all add: onDriverStarted_def Let_def calm_def lab_sendJson_def not_running_def)

lemma calm_failed: "calm c (onDriverFailedToStart text c)"
  by (cases "lc_process c") (simp_all add: onDriverFailedToStart_def Let_def calm_def lab_sendJson_def lab_close_def not_running_def)

lemma calm_meta: "calm c (metaTimeout c)"
  by (simp add: metaTimeout_def Let_def calm_def lab_sendJson_def not_running_def)

lemma calm_stop: "calm c (stopDriver env c)"
  using calm_finished [of c "lv_killCode env" True] by (auto simp: stopDriver_def calm_def not_running_def)

lemma calm_stdout: "calm c (onDriverStdoutReady env output c)"
proof -
  let ?m = "lab_message ''error'' [(''message'', JStr ''output buffer overflow''), (''channel'', JStr ''stdout''),
      (''limit'', jint (int kMaxOutputBufferBytes))]"
  have a: "calm c ((lab_sendJson ?m c)\<lparr>lc_stdoutBuffer := []\<rparr>)"
    using calm_send [of c ?m] by (simp add: calm_def not_running_def)
  have b: "calm c (c\<lparr>lc_stdoutBuffer := left\<rparr>)" for left by (simp add: calm_def not_running_def)
  show ?thesis
    using calm_trans [OF a calm_stop] calm_trans [OF b calm_lines] calm_refl
    by (auto simp: onDriverStdoutReady_def Let_def split: prod.split)
qed

lemma forward_fields:
  "forward_exec env msg c = Some c' \<Longrightarrow> calm c c'"
  by (auto simp: forward_exec_def calm_def not_running_def write_process_def split: option.splits)

lemma exec_inv:
  assumes "handleExecMessage env msg c = Some c'" and "lab_inv c"
  shows "lab_inv c'"
proof (cases "not_running c \<and> lc_runMode c = ''oneshot'' \<and> \<not> lc_restartSuppressed c")
  case True
  have "lab_inv (restartDriverForOneShot env c)"
    using assms(2) True
    by (auto simp: restartDriverForOneShot_def Let_def lab_inv_def startDriver_def lab_sendJson_def not_running_def kMaxRapidCrashes_def)
  then show ?thesis using assms(1) True calm_inv [OF forward_fields] by (auto simp: handleExecMessage_def)
next
  case False
  then show ?thesis
    using assms calm_inv [OF calm_send] calm_inv [OF forward_fields] by (auto simp: handleExecMessage_def split: if_splits)
qed

lemma text_inv:
  assumes "onTextMessageReceived env message c = Some c'" and "lab_inv c"
  shows "lab_inv c'"
proof -
  have cancel: "calm c (handleCancelMessage c)" by (auto simp: handleCancelMessage_def calm_def not_running_def split: option.split)
  show ?thesis
    using assms exec_inv calm_inv [OF calm_send] calm_inv [OF cancel]
    by (auto simp: onTextMessageReceived_def Let_def split: option.splits json.splits if_splits)
qed

lemma calm_step:
  assumes "lab_step ev c = Some c'" and "\<And>env message. ev \<noteq> LabText env message"
  shows "calm c c'"
proof (cases ev)
  case (LabStarted env)
  then show ?thesis using assms(1) calm_started by auto
next
  case (LabOutput env bs)
  then show ?thesis using assms(1) calm_stdout by auto
next
  case (LabFinished code crashed)
  then show ?thesis using assms(1) calm_finished by auto
next
  case (LabFailed err)
  then show ?thesis using assms(1) calm_failed by auto
next
  case (LabPong env)
  then show ?thesis using assms(1) by (auto simp: onPongReceived_def calm_def not_running_def)
next
  case LabMetaTimer
  then show ?thesis using assms(1) calm_meta by auto
next
  case (LabDisconnected env)
  have "calm c (stopDriver env (c\<lparr>lc_closing := True, lc_connected := False\<rparr>))"
    by (rule calm_trans [OF _ calm_stop]) (simp add: calm_def not_running_def)
  with LabDisconnected assms(1) show ?thesis by (auto simp: onSocketDisconnected_def Let_def calm_def not_running_def)
next
  case (LabPongTimeout env)
  have stop: "calm c (stopDriver env (c\<lparr>lc_closing := True\<rparr>))"
    by (rule calm_trans [OF _ calm_stop]) (simp add: calm_def not_running_def)
  have "calm d (lab_close reason d)" for reason d by (simp add: calm_def lab_close_def not_running_def)
  then have "calm c (closeForPongTimeout env c)" using stop calm_trans by (auto simp add: closeForPongTimeout_def Let_def)
  with LabPongTimeout assms(1) show ?thesis by simp
qed (use assms in blast)

lemma lab_reach_inv: "lab_reach c \<Longrightarrow> lab_inv c"
proof (induction rule: lab_reach.induct)
  case (opened env driverId program runMode extraArgs)
  then show ?case by (simp add: DriverLabWsConnection_def startDriver_def lab_inv_def)
next
  case (stepped c ev c')
  show ?case
  proof (cases "\<exists>env message. ev = LabText env message")
    case True
    then show ?thesis using stepped text_inv by auto
  next
    case False
    then show ?thesis using calm_inv [OF calm_step] stepped by blast
  qed
qed

text \<open>
  After three rapid crashes in a row the driver is started no more: from then on no message and no
  signal makes a process run.
\<close>

theorem crashing_driver_given_up:
  assumes "lab_reach c" and "lc_restartSuppressed c" and "lab_step ev c = Some c'"
  shows "lc_consecutiveFastCrashes c = 3 \<and> lc_restartSuppressed c' \<and> not_running c'"
proof -
  have inv: "lab_inv c" using lab_reach_inv [OF assms(1)] .
  then have stopped: "not_running c" "lc_consecutiveFastCrashes c = 3" using assms(2) by (auto simp: lab_inv_def)
  have "calm c c'"
  proof (cases "\<exists>env message. ev = LabText env message")
    case True
    then show ?thesis using assms(2,3) stopped calm_send calm_refl
      by (auto simp: onTextMessageReceived_def Let_def handleExecMessage_def handleCancelMessage_def split: option.splits json.splits if_splits)
  qed (use calm_step assms(3) in blast)
  then show ?thesis using stopped assms(2) by (auto simp: calm_def)
qed

section \<open>The end of the server\<close>

text \<open>The only way: a process that was stopped for its output, twice a rapid crash before, and a command at once.\<close>

lemma server_ends_only_after_overflow:
  assumes "lab_reach c" and "lab_step ev c = None"
  shows "lc_process c = None \<and> lc_consecutiveFastCrashes c = 2 \<and> lc_lastExitWasCrash c \<and> lc_runMode c = ''oneshot''"
proof -
  have inv: "lab_inv c" using lab_reach_inv [OF assms(1)] .
  obtain env message msg where "ev = LabText env message" "handleExecMessage env msg c = None"
    using assms(2) by (cases ev) (auto simp: onTextMessageReceived_def Let_def split: option.splits json.splits if_splits)
  then show ?thesis using inv
    by (auto simp: handleExecMessage_def forward_exec_def restartDriverForOneShot_def Let_def startDriver_def lab_sendJson_def
        not_running_def lab_inv_def kMaxRapidCrashes_def split: if_splits option.splits)
qed

text \<open>A run of events, each possible where it happens.\<close>

fun lab_play :: "lab_event list \<Rightarrow> lab_connection \<Rightarrow> lab_connection option" where
  "lab_play [] c = Some c"
| "lab_play (ev # evs) c =
     (if \<not> lab_possible ev c then None
      else case lab_step ev c of None \<Rightarrow> None | Some c' \<Rightarrow> lab_play evs c')"

lemma lab_play_reach: "lab_reach c \<Longrightarrow> lab_play evs c = Some c' \<Longrightarrow> lab_reach c'"
  by (induction evs c rule: lab_play.induct) (auto split: if_splits option.splits intro: lab_reach.stepped)

definition flood :: bytes where
  "flood = replicate 8388609 0"

lemma flood_long: "kMaxOutputBufferBytes < length flood"
  by (simp add: flood_def kMaxOutputBufferBytes_def)

lemma lab_play_append:
  "lab_play (xs @ ys) c = (case lab_play xs c of None \<Rightarrow> None | Some c' \<Rightarrow> lab_play ys c')"
  by (induction xs c rule: lab_play.induct) (auto split: option.split)

text \<open>The driver runs and crashes, and a command follows.\<close>

definition crash_and_command :: "lab_env \<Rightarrow> int \<Rightarrow> lab_env \<Rightarrow> bytes \<Rightarrow> lab_event list" where
  "crash_and_command started code env message = [LabStarted started, LabFinished code True, LabText env message]"

definition is_command :: "lab_env \<Rightarrow> bytes \<Rightarrow> bool" where
  "is_command env message =
     (case lv_from_json env message of
        Some (JObj msg) \<Rightarrow> to_string (jval msg ''type'') = ''exec''
      | _ \<Rightarrow> False)"

lemma command_executed:
  assumes "is_command env message"
  obtains msg where "onTextMessageReceived env message = handleExecMessage env msg"
proof -
  obtain msg where "lv_from_json env message = Some (JObj msg)" "to_string (jval msg ''type'') = ''exec''"
    using assms by (auto simp: is_command_def split: option.splits json.splits)
  then have "onTextMessageReceived env message = handleExecMessage env msg"
    by (intro ext) (simp add: onTextMessageReceived_def Let_def)
  then show ?thesis by (rule that)
qed

text \<open>Started at \<open>t\<close> after \<open>n\<close> rapid crashes.\<close>

definition rapid :: "int \<Rightarrow> int \<Rightarrow> lab_connection \<Rightarrow> bool" where
  "rapid n t c \<longleftrightarrow> in_state {LabStarting} c \<and> lc_stdoutBuffer c = [] \<and> lc_consecutiveFastCrashes c = n \<and> lc_connected c
     \<and> lc_runMode c = ''oneshot'' \<and> \<not> lc_restartSuppressed c \<and> lc_lastDriverStart c = t \<and> \<not> lc_closing c"

lemma started_running:
  assumes "rapid n t c"
  shows "\<exists>c' p. onDriverStarted env c = c' \<and> lc_process c' = Some p \<and> lp_state p = LabRunning \<and> lc_stdoutBuffer c' = []
    \<and> lc_consecutiveFastCrashes c' = n \<and> lc_connected c' \<and> lc_runMode c' = ''oneshot'' \<and> \<not> lc_restartSuppressed c'
    \<and> lc_lastDriverStart c' = t \<and> \<not> lc_closing c'"
  using assms
  by (auto simp: rapid_def in_state_def onDriverStarted_def lab_sendJson_def write_process_def Let_def split: option.splits)

lemma crash_round:
  assumes "rapid n t c" and "n < 2" and "0 \<le> n" and "is_command env message" and "lv_now env - t < 2000"
  shows "\<exists>c'. lab_play (crash_and_command started code env message) c = Some c' \<and> rapid (n + 1) (lv_now env) c'"
proof -
  obtain c1 p where c1: "onDriverStarted started c = c1" "lc_process c1 = Some p" "lp_state p = LabRunning" "lc_stdoutBuffer c1 = []"
      "lc_consecutiveFastCrashes c1 = n" "lc_connected c1" "lc_runMode c1 = ''oneshot''" "\<not> lc_restartSuppressed c1"
      "lc_lastDriverStart c1 = t" "\<not> lc_closing c1"
    using started_running [OF assms(1)] by blast
  obtain c2 where c2: "lab_onDriverFinished code True c1 = c2" by simp
  have c2_fields: "not_running c2" "lc_process c2 \<noteq> None" "lc_consecutiveFastCrashes c2 = n" "lc_connected c2" "lc_runMode c2 = ''oneshot''"
      "\<not> lc_restartSuppressed c2" "lc_lastDriverStart c2 = t" "\<not> lc_closing c2" "lc_lastExitWasCrash c2"
    using c1 unfolding c2 [symmetric] by (simp_all add: lab_onDriverFinished_def lab_sendJson_def not_running_def Let_def)
  obtain msg where exec: "onTextMessageReceived env message = handleExecMessage env msg"
    using command_executed [OF assms(4)] .
  obtain c3 where c3: "handleExecMessage env msg c2 = Some c3 \<and> rapid (n + 1) (lv_now env) c3"
    using c2_fields assms(2,3,5)
    by (simp add: handleExecMessage_def restartDriverForOneShot_def Let_def kRapidCrashWindowMs_def kMaxRapidCrashes_def forward_exec_def
        startDriver_def write_process_def rapid_def in_state_def)
  have "lab_possible (LabStarted started) c" "lab_possible (LabFinished code True) c1" "lab_possible (LabText env message) c2"
    using assms(1) c1 c2_fields by (simp_all add: rapid_def in_state_def)
  then show ?thesis using c1(1) c2 c3 by (simp add: crash_and_command_def exec del: lab_possible.simps)
qed

lemma crash_marked:
  assumes "lab_play (crash_and_command started code env message) c = Some c'" and "rapid n t c"
    and "is_command env message"
  shows "lc_lastExitWasCrash c'"
proof -
  obtain msg where exec: "onTextMessageReceived env message = handleExecMessage env msg"
    using command_executed [OF assms(3)] .
  let ?c2 = "lab_onDriverFinished code True (onDriverStarted started c)"
  have "\<not> lc_closing (onDriverStarted started c)" using started_running [OF assms(2), of started] by auto
  then have "lc_lastExitWasCrash ?c2" by (simp add: lab_onDriverFinished_def lab_sendJson_def lab_close_def Let_def)
  moreover have "handleExecMessage env msg ?c2 = Some c'"
    using assms(1) by (auto simp: crash_and_command_def exec split: if_splits option.splits)
  ultimately show ?thesis
    by (auto simp: handleExecMessage_def restartDriverForOneShot_def forward_exec_def startDriver_def lab_sendJson_def Let_def
        split: if_splits option.splits)
qed

lemma flood_step:
  assumes "lc_process c \<noteq> None" and "lc_stdoutBuffer c = []" and "kMaxOutputBufferBytes < length output"
  shows "lab_step (LabOutput env output) c = Some (stopDriver env ((lab_sendJson (lab_message ''error''
     [(''message'', JStr ''output buffer overflow''), (''channel'', JStr ''stdout''), (''limit'', jint (int kMaxOutputBufferBytes))]) c)
       \<lparr>lc_stdoutBuffer := []\<rparr>))"
  using assms by (auto simp: onDriverStdoutReady_def)

text \<open>A started driver that floods its output is stopped, and the next command finds nothing to use.\<close>

lemma flood_and_command:
  assumes "rapid 2 t c" and "lc_lastExitWasCrash c" and "kMaxOutputBufferBytes < length output"
    and "is_command env message" and "lv_now env - t < 2000"
  shows "\<exists>c'. lab_play [LabStarted started, LabOutput flooded output] c = Some c'
    \<and> lab_possible (LabText env message) c' \<and> lab_step (LabText env message) c' = None"
proof -
  obtain c1 p where c1: "onDriverStarted started c = c1" "lc_process c1 = Some p" "lp_state p = LabRunning" "lc_stdoutBuffer c1 = []"
      "lc_consecutiveFastCrashes c1 = 2" "lc_connected c1" "lc_runMode c1 = ''oneshot''" "\<not> lc_restartSuppressed c1"
      "lc_lastDriverStart c1 = t" "\<not> lc_closing c1"
    using started_running [OF assms(1)] by blast
  have crash: "lc_lastExitWasCrash c1"
    using assms(2) unfolding c1(1) [symmetric]
    by (auto simp: onDriverStarted_def lab_sendJson_def Let_def split: option.split)
  obtain c2 where c2: "lab_step (LabOutput flooded output) c1 = Some c2" by simp
  have c2_fields: "lc_process c2 = None" "lc_consecutiveFastCrashes c2 = 2" "lc_connected c2" "lc_runMode c2 = ''oneshot''"
      "\<not> lc_restartSuppressed c2" "lc_lastDriverStart c2 = t" "lc_lastExitWasCrash c2"
    using c1 crash c2 flood_step [of c1 "output" flooded] assms(3)
    by (auto simp: stopDriver_def not_running_def lab_onDriverFinished_def lab_sendJson_def Let_def)
  obtain msg where exec: "onTextMessageReceived env message = handleExecMessage env msg"
    using command_executed [OF assms(4)] .
  have "handleExecMessage env msg c2 = None"
    using c2_fields assms(5)
    by (simp add: handleExecMessage_def not_running_def restartDriverForOneShot_def kRapidCrashWindowMs_def kMaxRapidCrashes_def
        forward_exec_def lab_sendJson_def Let_def)
  moreover have "lab_possible (LabStarted started) c" "lab_possible (LabOutput flooded output) c1"
    using assms(1) c1 by (simp_all add: rapid_def in_state_def)
  ultimately show ?thesis using c1(1) c2 c2_fields(3) exec by simp
qed

text \<open>C36: A client and a driver that crash a one-shot connection of the driver laboratory end the server:
  when the driver, once started, crashes and the client sends a command less than two seconds after it was
  started (which starts it again), when the same happens a second time, and when the driver, started the
  third time, puts out more than 8 MiB at once (for which it is stopped), then the client's next command, again
  less than two seconds after the start, is possible and has no outcome: the restart is refused, there is no
  process any more, and the code uses it all the same. (The null pointer is the value \<open>None\<close> of a step.)
  This holds for every driver, message text and exit code, whether or not the killed process ends in time.\<close>

theorem client_and_driver_end_server:
  assumes "is_command env1 message" and "is_command env2 message" and "is_command env3 message"
    and "lv_now env1 - lv_now env0 < 2000" and "lv_now env2 - lv_now env1 < 2000" and "lv_now env3 - lv_now env2 < 2000"
    and "kMaxOutputBufferBytes < length output"
  shows "\<exists>c. lab_play
      [LabStarted s1, LabFinished code1 True, LabText env1 message,
       LabStarted s2, LabFinished code2 True, LabText env2 message,
       LabStarted s3, LabOutput flooded output]
      (DriverLabWsConnection env0 driverId program ''oneshot'' extraArgs) = Some c
    \<and> lab_possible (LabText env3 message) c \<and> lab_step (LabText env3 message) c = None"
proof -
  let ?c = "DriverLabWsConnection env0 driverId program ''oneshot'' extraArgs"
  have "rapid 0 (lv_now env0) ?c"
    by (simp add: rapid_def DriverLabWsConnection_def startDriver_def in_state_def)
  from crash_round [OF this _ _ assms(1,4), of s1 code1] obtain c1 where
    c1: "lab_play (crash_and_command s1 code1 env1 message) ?c = Some c1" "rapid 1 (lv_now env1) c1" by auto
  from crash_round [OF c1(2) _ _ assms(2,5), of s2 code2] obtain c2 where
    c2: "lab_play (crash_and_command s2 code2 env2 message) c1 = Some c2" "rapid 2 (lv_now env2) c2" by auto
  have "lc_lastExitWasCrash c2" by (rule crash_marked [OF c2(1) c1(2) assms(2)])
  from flood_and_command [OF c2(2) this assms(7,3,6), of s3 flooded] obtain c where
    c: "lab_play [LabStarted s3, LabOutput flooded output] c2 = Some c" "lab_possible (LabText env3 message) c"
       "lab_step (LabText env3 message) c = None" by blast
  have "lab_play (crash_and_command s1 code1 env1 message @ crash_and_command s2 code2 env2 message
      @ [LabStarted s3, LabOutput flooded output]) ?c = Some c"
    by (simp only: lab_play_append c1(1) c2(1) c(1) option.case)
  then have "lab_play
      [LabStarted s1, LabFinished code1 True, LabText env1 message,
       LabStarted s2, LabFinished code2 True, LabText env2 message,
       LabStarted s3, LabOutput flooded output] ?c = Some c"
    by (simp only: crash_and_command_def append.simps)
  with c(2,3) show ?thesis by blast
qed

lemma client_and_driver_end_server_witness:
  "\<exists>c. lab_play
      [LabStarted (demo_lab 50), LabFinished 1 True, LabText (demo_lab 100) [101],
       LabStarted (demo_lab 150), LabFinished 1 True, LabText (demo_lab 200) [101],
       LabStarted (demo_lab 250), LabOutput (demo_lab 300) flood]
      (DriverLabWsConnection (demo_lab 0) ''drv'' ''/bin/drv'' ''oneshot'' []) = Some c
    \<and> lab_possible (LabText (demo_lab 400) [101]) c \<and> lab_step (LabText (demo_lab 400) [101]) c = None"
  by (rule client_and_driver_end_server [OF _ _ _ _ _ _ flood_long]) (simp_all add: is_command_def demo_lab_def)

end
