(* ===== verification/ServiceConfigSpec.thy ===== *)
theory ServiceConfigSpec
  imports ServiceConfig MetaValidatorSpec
begin

text \<open>
  What the service configuration promises: a schema that parses names its fields without
  duplicates on every level; a merged configuration has at every path the value of the overriding
  source where that gives one; and a configuration is accepted exactly when all its members are
  known and conform.
\<close>

section \<open>Well-formed values and paths\<close>

text \<open>The objects of Qt: members in key order, none of them undefined.\<close>

fun json_wf :: "json \<Rightarrow> bool" where
  "json_wf (JObj m) = (om_ok m \<and> (\<forall>p \<in> set m. snd p \<noteq> JUndefined \<and> json_wf (snd p)))"
| "json_wf (JArr vs) = (\<forall>v \<in> set vs. v \<noteq> JUndefined \<and> json_wf v)"
| "json_wf _ = True"

fun at_path :: "json \<Rightarrow> string list \<Rightarrow> json option" where
  "at_path v [] = Some v"
| "at_path (JObj m) (k # ks) = (case om_get m k of None \<Rightarrow> None | Some v \<Rightarrow> at_path v ks)"
| "at_path _ (k # ks) = None"

lemma json_wf_member: "json_wf (JObj m) \<Longrightarrow> om_get m k = Some v \<Longrightarrow> json_wf v \<and> v \<noteq> JUndefined"
  using om_get_set by fastforce

lemma json_wf_to_object: "json_wf v \<Longrightarrow> json_wf (JObj (to_object v))"
  by (cases v) auto

section \<open>Merging\<close>

definition merge_value :: "json option \<Rightarrow> json \<Rightarrow> json" where
  "merge_value old v =
     (case old of
        Some b \<Rightarrow> if is_object v \<and> is_object b then JObj (deepMerge (to_object b) (to_object v)) else v
      | None \<Rightarrow> v)"

lemma deepMerge_get:
  assumes "distinct (map fst override)" and "\<forall>p \<in> set override. snd p \<noteq> JUndefined"
  shows "om_get (deepMerge base override) k =
    (case om_get override k of None \<Rightarrow> om_get base k | Some v \<Rightarrow> Some (merge_value (om_get base k) v))"
  using assms
proof (induction override arbitrary: base)
  case Nil
  then show ?case by simp
next
  case (Cons p override)
  obtain a v where p: "p = (a, v)" by fastforce
  have v: "\<not> is_undefined v" using Cons.prems(2) by (simp add: p is_undefined_iff)
  have a: "om_get override a = None"
    using Cons.prems(1) by (simp add: p om_get_None_iff om_keys_def)
  define merged where "merged = (if is_object v \<and> om_has base a \<and> is_object (jval base a)
        then jset a (JObj (deepMerge (to_object (jval base a)) (to_object v))) base else jset a v base)"
  have base: "om_get merged = (om_get base)(a := Some (merge_value (om_get base a) v))"
    unfolding merged_def using v by (auto simp: merge_value_def jset_def om_has_def jval_def fun_eq_iff split: option.splits)
  have "deepMerge base (p # override) = deepMerge merged override" by (simp add: p merged_def)
  then have "om_get (deepMerge base (p # override)) k =
      (case om_get override k of None \<Rightarrow> om_get merged k | Some w \<Rightarrow> Some (merge_value (om_get merged k) w))"
    using Cons.IH [of merged] Cons.prems by simp
  then show ?case using a by (auto simp: base p split: option.splits)
qed

lemma om_ok_distinct: "om_ok m \<Longrightarrow> distinct (map fst m)"
  by (simp add: om_ok_def strict_sorted_iff)

lemma deepMerge_get_wf:
  assumes "json_wf (JObj override)"
  shows "om_get (deepMerge base override) k =
    (case om_get override k of None \<Rightarrow> om_get base k | Some v \<Rightarrow> Some (merge_value (om_get base k) v))"
  using assms by (intro deepMerge_get) (auto simp: om_ok_distinct)

text \<open>The sources of a configuration take precedence path by path. Where the command line gives a
  value that is not an object, the merged configuration has that value; where it gives none, and
  none of the members on the way is a plain value, the merged configuration has what the file has
  there, which may be nothing.\<close>

theorem merge_precedence:
  assumes "json_wf (JObj cli)"
  shows "(\<forall>v. at_path (JObj cli) p = Some v \<and> \<not> is_object v \<longrightarrow> at_path (JObj (deepMerge base cli)) p = Some v)
    \<and> (at_path (JObj cli) p = None
         \<and> (\<forall>q r v. p = q @ r \<and> at_path (JObj cli) q = Some v \<longrightarrow> is_object v)
       \<longrightarrow> at_path (JObj (deepMerge base cli)) p = at_path (JObj base) p)"
  using assms
proof (induction p arbitrary: cli base)
  case Nil
  then show ?case by simp
next
  case (Cons k ks)
  show ?case
  proof (cases "om_get cli k")
    case None
    then show ?thesis by (simp add: deepMerge_get_wf [OF Cons.prems])
  next
    case (Some w)
    with Cons.prems have wf: "json_wf w" using json_wf_member by blast
    show ?thesis
    proof (cases "is_object w")
      case True
      then obtain cli' where JObj: "w = JObj cli'" by (cases w) auto
      have shift: "(\<forall>q r v. k # ks = q @ r \<and> at_path (JObj cli) q = Some v \<longrightarrow> is_object v) \<Longrightarrow>
          (\<forall>q r v. ks = q @ r \<and> at_path (JObj cli') q = Some v \<longrightarrow> is_object v)"
        using Some JObj by (metis append_Cons at_path.simps(2) option.simps(5))
      have merged: "om_get (deepMerge base cli) k = Some (merge_value (om_get base k) (JObj cli'))"
        by (simp add: deepMerge_get_wf [OF Cons.prems] Some JObj)
      show ?thesis
      proof (cases "\<exists>base'. om_get base k = Some (JObj base')")
        case True
        then obtain base' where base': "om_get base k = Some (JObj base')" by blast
        from Cons.IH [of cli' base'] wf JObj have ih:
          "(\<forall>v. at_path (JObj cli') ks = Some v \<and> \<not> is_object v \<longrightarrow> at_path (JObj (deepMerge base' cli')) ks = Some v)
           \<and> (at_path (JObj cli') ks = None \<and> (\<forall>q r v. ks = q @ r \<and> at_path (JObj cli') q = Some v \<longrightarrow> is_object v)
              \<longrightarrow> at_path (JObj (deepMerge base' cli')) ks = at_path (JObj base') ks)" by blast
        then show ?thesis
          using Some JObj base' merged shift by (auto simp: merge_value_def)
      next
        case False
        then have "merge_value (om_get base k) (JObj cli') = JObj cli'"
          by (cases "om_get base k"; cases "the (om_get base k)") (auto simp: merge_value_def)
        moreover have "at_path (JObj base) (k # ks) = None" if "ks \<noteq> []"
          using False that by (cases ks; cases "om_get base k"; cases "the (om_get base k)") auto
        ultimately show ?thesis
          using Some JObj merged by (cases "ks = []") auto
      qed
    next
      case False
      then have "om_get (deepMerge base cli) k = Some w"
        by (simp add: deepMerge_get_wf [OF Cons.prems] Some merge_value_def split: option.split)
      moreover have "\<not> (\<forall>q r v. k # ks = q @ r \<and> at_path (JObj cli) q = Some v \<longrightarrow> is_object v)"
        using False Some by (metis append_Cons append_Nil at_path.simps(1,2) option.simps(5))
      ultimately show ?thesis
        using Some by (intro conjI impI) (simp, blast)
    qed
  qed
qed

lemma merge_precedence_witness:
  "at_path (JObj (deepMerge [(''net'', JObj [(''host'', JStr ''a''), (''port'', jint 1)])]
      [(''net'', JObj [(''port'', jint 2)])])) [''net'', ''host''] = Some (JStr ''a'')"
proof -
  have "at_path (JObj (deepMerge [(''net'', JObj [(''host'', JStr ''a''), (''port'', jint 1)])]
      [(''net'', JObj [(''port'', jint 2)])])) [''net'', ''host'']
     = at_path (JObj [(''net'', JObj [(''host'', JStr ''a''), (''port'', jint 1)])]) [''net'', ''host'']"
    using merge_precedence [of "[(''net'', JObj [(''port'', jint 2)])]" "[''net'', ''host'']"
        "[(''net'', JObj [(''host'', JStr ''a''), (''port'', jint 1)])]"]
    by (auto simp: om_ok_def Cons_eq_append_conv)
  then show ?thesis by simp
qed

section \<open>Validation\<close>

lemma osize_element_of:
  assumes "(k, v) \<in> set config" and "x \<in> set (to_array v)"
  shows "osize (to_object x) < osize config"
proof -
  obtain i where "i < length (to_array v)" "to_array v ! i = x" using assms(2) by (auto simp: in_set_conv_nth)
  then have "(i, x) \<in> set (enumerate 0 (to_array v))" by (auto simp: in_set_enumerate_eq)
  with assms(1) show ?thesis by (rule osize_array_element)
qed

function known_members :: "field_meta list \<Rightarrow> json_obj \<Rightarrow> bool" where
  "known_members schema config =
     (\<forall>(k, v) \<in> set config. \<exists>f. findField schema k = Some f
        \<and> (f_type f = FtObject \<and> f_fields f \<noteq> [] \<and> is_object v \<longrightarrow> known_members (f_fields f) (to_object v))
        \<and> (\<forall>it. f_items f = Some it \<and> f_type f = FtArray \<and> f_fields it \<noteq> [] \<longrightarrow>
             (\<forall>x \<in> set (to_array v). is_object x \<longrightarrow> known_members (f_fields it) (to_object x))))"
  by pat_completeness auto

termination
  by (relation "measure (\<lambda>(_, config). osize config)") (auto intro: osize_set osize_element_of)

declare known_members.simps [simp del]

lemma ball_enumerate_snd:
  "(\<forall>(i, x) \<in> set (enumerate n xs). P x) \<longleftrightarrow> (\<forall>x \<in> set xs. P x)"
  using ball_enumerate [of n xs P] by (auto simp: split_beta)

lemma is_array_nonempty: "x \<in> set (to_array v) \<Longrightarrow> is_array v"
  by (cases v) auto

lemma rejectUnknownFields_valid:
  "vr_valid (rejectUnknownFields schema config prefix) \<longleftrightarrow> known_members schema config"
proof (induction config arbitrary: schema prefix rule: measure_induct_rule [where f = osize])
  case (less config)
  have nested: "vr_valid (rejectUnknownFields s (to_object v) pre) = known_members s (to_object v)"
    if "(k, v) \<in> set config" for k v s pre
    by (rule less.IH) (rule osize_set [OF that])
  have element: "vr_valid (rejectUnknownFields s (to_object x) pre) = known_members s (to_object x)"
    if "(k, v) \<in> set config" "(i, x) \<in> set (enumerate 0 (to_array v))" for k v i x s pre
    by (rule less.IH) (rule osize_array_element [OF that])
  have elements: "(\<forall>(i, x) \<in> set (enumerate 0 (to_array v)).
        vr_valid (if \<not> is_object x then vr_ok else rejectUnknownFields s (to_object x) (pre i)))
      \<longleftrightarrow> (\<forall>x \<in> set (to_array v). is_object x \<longrightarrow> known_members s (to_object x))"
    if "(k, v) \<in> set config" for k v s pre
  proof -
    have "(\<forall>(i, x) \<in> set (enumerate 0 (to_array v)).
          vr_valid (if \<not> is_object x then vr_ok else rejectUnknownFields s (to_object x) (pre i)))
        \<longleftrightarrow> (\<forall>(i, x) \<in> set (enumerate 0 (to_array v)). is_object x \<longrightarrow> known_members s (to_object x))"
      using element [OF that] by fastforce
    then show ?thesis by (simp only: ball_enumerate_snd)
  qed
  have array: "(\<forall>x \<in> set (to_array v). is_object x \<longrightarrow> known_members s (to_object x))" if "\<not> is_array v" for v s
    using that is_array_nonempty by blast
  have check: "vr_valid (let fullPath = pre in
       case findField schema k of
         None \<Rightarrow> vr_fail fullPath (Msg ''unknown configuration field'')
       | Some f \<Rightarrow>
           vr_then
             (if f_type f = FtObject \<and> f_fields f \<noteq> [] \<and> is_object v
              then rejectUnknownFields (f_fields f) (to_object v) fullPath else vr_ok)
             (case f_items f of
                None \<Rightarrow> vr_ok
              | Some it \<Rightarrow>
                  if f_type f = FtArray \<and> f_fields it \<noteq> [] \<and> is_array v
                  then first_fail (\<lambda>(i, x).
                         if \<not> is_object x then vr_ok
                         else rejectUnknownFields (f_fields it) (to_object x) (fullPath @ ''['' @ dec i @ '']''))
                       (enumerate 0 (to_array v))
                  else vr_ok))
      \<longleftrightarrow> (\<exists>f. findField schema k = Some f
        \<and> (f_type f = FtObject \<and> f_fields f \<noteq> [] \<and> is_object v \<longrightarrow> known_members (f_fields f) (to_object v))
        \<and> (\<forall>it. f_items f = Some it \<and> f_type f = FtArray \<and> f_fields it \<noteq> [] \<longrightarrow>
             (\<forall>x \<in> set (to_array v). is_object x \<longrightarrow> known_members (f_fields it) (to_object x))))"
    if "(k, v) \<in> set config" for k v pre
  proof (cases "findField schema k")
    case (Some f)
    show ?thesis
    proof (cases "f_items f")
      case None
      then show ?thesis using Some nested [OF that] by auto
    next
      case it: (Some it)
      show ?thesis
        using Some it nested [OF that] array [of v]
          elements [OF that, of "f_fields it" "\<lambda>i. pre @ ''['' @ dec i @ '']''"]
        by (auto simp: split_beta)
    qed
  qed simp
  show ?case
    unfolding rejectUnknownFields.simps [of schema config prefix] known_members.simps [of schema config] first_fail_valid
  proof (rule ball_cong [OF refl])
    fix x
    assume x: "x \<in> set config"
    obtain k v where kv: "x = (k, v)" by fastforce
    show "vr_valid (case x of (key, v) \<Rightarrow>
       let fullPath = (if prefix = [] then key else prefix @ ''.'' @ key) in
       case findField schema key of
         None \<Rightarrow> vr_fail fullPath (Msg ''unknown configuration field'')
       | Some f \<Rightarrow>
           vr_then
             (if f_type f = FtObject \<and> f_fields f \<noteq> [] \<and> is_object v
              then rejectUnknownFields (f_fields f) (to_object v) fullPath else vr_ok)
             (case f_items f of
                None \<Rightarrow> vr_ok
              | Some it \<Rightarrow>
                  if f_type f = FtArray \<and> f_fields it \<noteq> [] \<and> is_array v
                  then first_fail (\<lambda>(i, x).
                         if \<not> is_object x then vr_ok
                         else rejectUnknownFields (f_fields it) (to_object x) (fullPath @ ''['' @ dec i @ '']''))
                       (enumerate 0 (to_array v))
                  else vr_ok))
      = (case x of (k, v) \<Rightarrow> \<exists>f. findField schema k = Some f
        \<and> (f_type f = FtObject \<and> f_fields f \<noteq> [] \<and> is_object v \<longrightarrow> known_members (f_fields f) (to_object v))
        \<and> (\<forall>it. f_items f = Some it \<and> f_type f = FtArray \<and> f_fields it \<noteq> [] \<longrightarrow>
             (\<forall>x \<in> set (to_array v). is_object x \<longrightarrow> known_members (f_fields it) (to_object x))))"
      using check [OF x [unfolded kv]] by (simp only: kv prod.case)
  qed
qed

lemma validate_config_conform:
  "vr_valid (validate_config re_match schema config) \<longleftrightarrow> params_conform re_match config schema True"
  unfolding params_conform_def
  by (auto simp: validate_config_def Let_def validateField_iff_conforms split: if_splits)

text \<open>
  What the check is for, independent of the walk: a configuration has a stray member when one, at any
  depth of objects and arrays, is not a field of the schema there.
\<close>

inductive stray :: "field_meta list \<Rightarrow> json_obj \<Rightarrow> bool"
  and stray_in :: "field_meta \<Rightarrow> json \<Rightarrow> bool" where
  stray_here: "stray schema config" if "(k, v) \<in> set config" and "findField schema k = None"
| stray_member: "stray schema config"
    if "(k, v) \<in> set config" and "findField schema k = Some f" and "stray_in f v"
| stray_object: "stray_in f (JObj obj)"
    if "f_type f = FtObject" and "f_fields f \<noteq> []" and "stray (f_fields f) obj"
| stray_element: "stray_in f (JArr xs)"
    if "f_type f = FtArray" and "f_items f = Some it" and "x \<in> set xs" and "stray_in it x"

inductive_simps stray_simp: "stray schema config"
inductive_simps stray_in_simp: "stray_in f v"

text \<open>
  The walk does not go into elements that are arrays themselves, so it finds every stray member only
  where no array of the schema has arrays, or fields without being one of objects, as its items.
\<close>

fun flat_items :: "field_meta \<Rightarrow> bool" where
  "flat_items (FieldMeta name type req def desc cs ui flds items rkeys addl) =
     ((\<forall>f \<in> set flds. flat_items f)
      \<and> (case items of None \<Rightarrow> True
         | Some it \<Rightarrow> flat_items it \<and> (f_type it = FtObject \<or> f_fields it = [] \<and> f_type it \<noteq> FtArray)))"

lemma flat_items_parts:
  "flat_items f \<Longrightarrow> \<forall>g \<in> set (f_fields f). flat_items g"
  "flat_items f \<Longrightarrow> f_items f = Some it \<Longrightarrow> (\<forall>g \<in> set (f_fields it). flat_items g)
     \<and> (f_type it = FtObject \<or> f_fields it = [] \<and> f_type it \<noteq> FtArray)"
proof -
  show "flat_items f \<Longrightarrow> \<forall>g \<in> set (f_fields f). flat_items g" for f by (cases f) simp
  then show "flat_items f \<Longrightarrow> f_items f = Some it \<Longrightarrow> (\<forall>g \<in> set (f_fields it). flat_items g)
     \<and> (f_type it = FtObject \<or> f_fields it = [] \<and> f_type it \<noteq> FtArray)" by (cases f) auto
qed

lemma stray_in_element:
  assumes "f_type it = FtObject \<or> f_fields it = [] \<and> f_type it \<noteq> FtArray"
  shows "stray_in it x \<longleftrightarrow> f_fields it \<noteq> [] \<and> is_object x \<and> stray (f_fields it) (to_object x)"
  using assms by (cases x) (auto simp: stray_in_simp [of it])

lemma known_members_no_stray:
  assumes "\<forall>f \<in> set schema. flat_items f"
  shows "known_members schema config \<longleftrightarrow> \<not> stray schema config"
  using assms
proof (induction config arbitrary: schema rule: measure_induct_rule [where f = osize])
  case (less config)
  have here: "(f_type f = FtObject \<and> f_fields f \<noteq> [] \<and> is_object v \<longrightarrow> known_members (f_fields f) (to_object v))
      \<and> (\<forall>it. f_items f = Some it \<and> f_type f = FtArray \<and> f_fields it \<noteq> [] \<longrightarrow>
            (\<forall>x \<in> set (to_array v). is_object x \<longrightarrow> known_members (f_fields it) (to_object x)))
      \<longleftrightarrow> \<not> stray_in f v" if kv: "(k, v) \<in> set config" and f: "flat_items f" for k v f
  proof -
    have obj: "known_members (f_fields f) (to_object v) \<longleftrightarrow> \<not> stray (f_fields f) (to_object v)"
      using less.IH [OF osize_set [OF kv] flat_items_parts(1) [OF f]] .
    have elem: "known_members (f_fields it) (to_object x) \<longleftrightarrow> \<not> stray (f_fields it) (to_object x)"
      if "f_items f = Some it" "x \<in> set (to_array v)" for it x
      using less.IH [OF osize_element_of [OF kv that(2)]] flat_items_parts(2) [OF f that(1)] by blast
    show ?thesis
    proof (cases v)
      case (JObj members)
      then show ?thesis using obj by (auto simp: stray_in_simp [of f])
    next
      case (JArr xs)
      have "stray_in it x \<longleftrightarrow> f_fields it \<noteq> [] \<and> is_object x \<and> stray (f_fields it) (to_object x)"
        if "f_items f = Some it" for it x
        using flat_items_parts(2) [OF f that] by (intro stray_in_element) simp
      with JArr elem show ?thesis by (auto simp: stray_in_simp [of f])
    qed (simp_all add: stray_in_simp [of f])
  qed
  have found: "flat_items f" if "findField schema k = Some f" for k f
    using less.prems that by (auto simp: findField_def find_Some_iff)
  have "known_members schema config
      = (\<forall>(k, v) \<in> set config. \<exists>f. findField schema k = Some f \<and> \<not> stray_in f v)"
    unfolding known_members.simps [of schema config]
  proof (rule ball_cong [OF refl])
    fix x
    assume "x \<in> set config"
    moreover obtain k v where "x = (k, v)" by fastforce
    ultimately have x: "x = (k, v)" "(k, v) \<in> set config" by simp_all
    have "(\<exists>f. findField schema k = Some f
        \<and> (f_type f = FtObject \<and> f_fields f \<noteq> [] \<and> is_object v \<longrightarrow> known_members (f_fields f) (to_object v))
        \<and> (\<forall>it. f_items f = Some it \<and> f_type f = FtArray \<and> f_fields it \<noteq> [] \<longrightarrow>
             (\<forall>x \<in> set (to_array v). is_object x \<longrightarrow> known_members (f_fields it) (to_object x))))
      = (\<exists>f. findField schema k = Some f \<and> \<not> stray_in f v)"
      by (intro ex_cong1 conj_cong [OF refl] here [OF x(2)] found)
    then show "(case x of (k, v) \<Rightarrow> \<exists>f. findField schema k = Some f
        \<and> (f_type f = FtObject \<and> f_fields f \<noteq> [] \<and> is_object v \<longrightarrow> known_members (f_fields f) (to_object v))
        \<and> (\<forall>it. f_items f = Some it \<and> f_type f = FtArray \<and> f_fields it \<noteq> [] \<longrightarrow>
             (\<forall>x \<in> set (to_array v). is_object x \<longrightarrow> known_members (f_fields it) (to_object x))))
      = (case x of (k, v) \<Rightarrow> \<exists>f. findField schema k = Some f \<and> \<not> stray_in f v)"
      by (simp only: x(1) prod.case)
  qed
  also have "\<dots> = (\<not> (\<exists>k v. (k, v) \<in> set config
      \<and> (findField schema k = None \<or> (\<exists>f. findField schema k = Some f \<and> stray_in f v))))"
    by (fastforce split: prod.split)
  also have "\<dots> = (\<not> stray schema config)"
    unfolding stray_simp [of schema config] by blast
  finally show ?case .
qed

text \<open>C32: A service configuration is accepted exactly when, after the command line is merged over the
  file and the schema's defaults are filled in, all members conform to their fields and (unless unknown
  members are allowed) every member is known to the schema, down through nested objects and the
  elements of arrays that are objects; and then the result is that merged configuration. Elements that
  are arrays themselves are not looked into, as the test R_CPP_10 of the code wants it. For a schema
  without arrays of arrays (and without fields declared for items that are no objects) this means that
  no member at any depth is stray.\<close>

theorem config_accepted_iff:
  "let merged = fillDefaults (deepMerge fileConfig cliConfig) schema;
       good = (policy = Allow \<or> known_members schema merged) \<and> params_conform re_match merged schema True;
       (verdict, result) = mergeAndValidate re_match schema fileConfig cliConfig policy
   in vr_valid verdict = good \<and> result = (if good then Some merged else None)
      \<and> ((\<forall>f \<in> set schema. flat_items f) \<longrightarrow> known_members schema merged = (\<not> stray schema merged))"
  using known_members_no_stray
  by (cases policy) (simp_all add: mergeAndValidate_def Let_def rejectUnknownFields_valid validate_config_conform)

definition points_schema :: "field_meta list" where
  "points_schema = [FieldMeta ''points'' FtArray True JUndefined [] Constraints_default UIHint_default []
     (Some (FieldMeta [] FtObject True JUndefined [] Constraints_default UIHint_default
       [FieldMeta ''x'' FtInt True JUndefined [] Constraints_default UIHint_default [] None [] True] None [] True)) [] True]"

lemma config_accepted_iff_witness:
  "known_members points_schema [(''points'', JArr [JObj [(''y'', JNull)]])]
    = (\<not> stray points_schema [(''points'', JArr [JObj [(''y'', JNull)]])])"
proof -
  let ?file = "[(''points'', JArr [JObj [(''y'', JNull)]])]"
  have "\<forall>f \<in> set points_schema. flat_items f" by (simp add: points_schema_def)
  moreover have "fillDefaults (deepMerge ?file []) points_schema = ?file" by (simp add: points_schema_def om_has_def)
  moreover have "(\<forall>f \<in> set points_schema. flat_items f)
      \<longrightarrow> known_members points_schema (fillDefaults (deepMerge ?file []) points_schema)
        = (\<not> stray points_schema (fillDefaults (deepMerge ?file []) points_schema))"
    using config_accepted_iff [of ?file "[]" points_schema Reject "\<lambda>_ _. True"]
    unfolding Let_def case_prod_beta by (elim conjE)
  ultimately show ?thesis by (simp only: simp_thms)
qed

text \<open>The gap: a stray member of an object in an array of arrays is accepted.\<close>

lemma nested_array_not_searched:
  assumes "f_items it = Some it2" and "f_fields it = []" and "f_type it = FtArray"
  shows "known_members [FieldMeta ''m'' FtArray req def desc cs ui [] (Some it) rkeys addl] [(''m'', v)]"
  by (subst known_members.simps) (use assms in \<open>simp add: findField_def\<close>)

section \<open>Schemas\<close>

inductive schema_ok :: "field_meta list \<Rightarrow> bool" where
  schema_okI: "schema_ok flds"
    if "sorted_wrt (<) (map f_name flds)"
      and "\<forall>f \<in> set flds. schema_ok (f_fields f)"
      and "\<forall>f \<in> set flds. \<forall>it. f_items f = Some it \<longrightarrow> schema_ok [it]"

inductive_cases schema_okE: "schema_ok flds"

lemma parseFieldMeta_name: "parseFieldMeta strict name desc path = Inr f \<Longrightarrow> f_name f = name"
  by (subst (asm) parseFieldMeta.simps) (auto simp: Let_def split: if_splits sum.splits)

lemma parseObject_members:
  assumes "parseObject strict obj path = Inr flds"
  shows "list_all2 (\<lambda>m f. \<exists>p. parseFieldMeta strict (fst m) (to_object (snd m)) p = Inr f) obj flds"
  using assms unfolding parseObject_def parseObject_with_def traverse_Inr
  by (rule list_all2_mono) (auto simp: Let_def split: if_splits prod.splits)

lemma parseObject_names: "parseObject strict obj path = Inr flds \<Longrightarrow> map f_name flds = om_keys obj"
  using parseFieldMeta_name
  by (fastforce dest!: parseObject_members simp: om_keys_def list_all2_conv_all_nth intro!: nth_equalityI)

lemma parseObject_fields:
  assumes "parseObject strict obj path = Inr flds" and "f \<in> set flds"
  shows "\<exists>k v p. (k, v) \<in> set obj \<and> parseFieldMeta strict k (to_object v) p = Inr f"
proof -
  from assms(2) obtain i where i: "i < length flds" "flds ! i = f" by (auto simp: in_set_conv_nth)
  obtain k v where kv: "obj ! i = (k, v)" by fastforce
  have "i < length obj" "\<exists>p. parseFieldMeta strict (fst (obj ! i)) (to_object (snd (obj ! i))) p = Inr (flds ! i)"
    using parseObject_members [OF assms(1)] i(1) by (simp_all add: list_all2_conv_all_nth)
  then have "i < length obj" "\<exists>p. parseFieldMeta strict k (to_object v) p = Inr f"
    by (simp_all add: kv i(2))
  moreover from this kv have "(k, v) \<in> set obj" by (metis nth_mem)
  ultimately show ?thesis by blast
qed

lemma parseFieldMeta_parts:
  assumes "parseFieldMeta strict name desc path = Inr f"
  shows "(f_fields f = [] \<or> (om_has desc ''fields'' \<and>
      parseObject strict (to_object (jval desc ''fields'')) path = Inr (f_fields f)))
    \<and> (\<forall>it. f_items f = Some it \<longrightarrow> om_has desc ''items'' \<and>
      parseFieldMeta strict name (to_object (jval desc ''items'')) (path @ ''.items'') = Inr it)"
proof -
  define F where "F =
      (if om_has desc ''fields''
       then if \<not> is_object (jval desc ''fields'')
            then Inl (''\"fields\" for field \"'' @ path @ ''\" must be a JSON object'')
            else parseObject_with (\<lambda>n d p. parseFieldMeta strict n d p) (to_object (jval desc ''fields'')) path
       else Inr [])"
  define I where "I =
      (if om_has desc ''items''
       then if \<not> is_object (jval desc ''items'')
            then Inl (''\"items\" for field \"'' @ path @ ''\" must be a JSON object'')
            else (case parseFieldMeta strict name (to_object (jval desc ''items'')) (path @ ''.items'') of
                    Inl e \<Rightarrow> Inl e
                  | Inr it \<Rightarrow> Inr (Some it))
       else Inr None)"
  have "F = Inr (f_fields f) \<and> I = Inr (f_items f)"
    using assms unfolding parseFieldMeta.simps [of strict name desc path]
    by (fold F_def I_def) (auto simp: Let_def split: if_splits sum.splits)
  then have F: "F = Inr (f_fields f)" and I: "I = Inr (f_items f)" by simp_all
  from F have "f_fields f = [] \<or> (om_has desc ''fields'' \<and>
      parseObject strict (to_object (jval desc ''fields'')) path = Inr (f_fields f))"
    unfolding F_def parseObject_def by (simp only: split: if_split_asm) simp_all
  moreover from I have "\<forall>it. f_items f = Some it \<longrightarrow> om_has desc ''items'' \<and>
      parseFieldMeta strict name (to_object (jval desc ''items'')) (path @ ''.items'') = Inr it"
    unfolding I_def
    by (cases "parseFieldMeta strict name (to_object (jval desc ''items'')) (path @ ''.items'')")
      (simp_all only: sum.case split: if_split_asm, auto)
  ultimately show ?thesis by blast
qed

lemma json_wf_jval: "json_wf (JObj obj) \<Longrightarrow> json_wf (jval obj k)"
  by (cases "om_get obj k") (simp_all add: jval_def json_wf_member del: json_wf.simps, simp)

lemma schema_ok_parsed:
  assumes "json_wf (JObj desc)" and "parseFieldMeta strict name desc path = Inr f"
  shows "schema_ok [f]"
  using assms
proof (induction desc arbitrary: name path f rule: measure_induct_rule [where f = osize])
  case (less desc)
  have fields: "schema_ok (f_fields f)"
  proof (cases "f_fields f = []")
    case True
    then show ?thesis by (simp add: schema_okI)
  next
    case False
    let ?obj = "to_object (jval desc ''fields'')"
    from False parseFieldMeta_parts [OF less.prems(2)] have
      obj: "om_has desc ''fields''" "parseObject strict ?obj path = Inr (f_fields f)" by auto
    have wf: "json_wf (JObj ?obj)" using less.prems(1) by (intro json_wf_to_object json_wf_jval)
    have ok: "schema_ok [g]" if g: "g \<in> set (f_fields f)" for g
    proof -
      from parseObject_fields [OF obj(2) g] obtain k v p where
        kv: "(k, v) \<in> set ?obj" "parseFieldMeta strict k (to_object v) p = Inr g" by blast
      have "json_wf (JObj (to_object v))" using wf kv(1) by (intro json_wf_to_object) auto
      from less.IH [OF osize_nested [OF kv(1)] this kv(2)] show ?thesis .
    qed
    have "sorted_wrt (<) (map f_name (f_fields f))"
      using parseObject_names [OF obj(2)] wf by (simp add: om_ok_def om_keys_def)
    moreover have "\<forall>g \<in> set (f_fields f). schema_ok (f_fields g)"
        "\<forall>g \<in> set (f_fields f). \<forall>it. f_items g = Some it \<longrightarrow> schema_ok [it]"
      using ok by (fastforce elim: schema_okE)+
    ultimately show ?thesis by (rule schema_okI)
  qed
  have items: "schema_ok [it]" if "f_items f = Some it" for it
  proof -
    have it: "om_has desc ''items''"
        "parseFieldMeta strict name (to_object (jval desc ''items'')) (path @ ''.items'') = Inr it"
      using parseFieldMeta_parts [OF less.prems(2)] that by simp_all
    have "json_wf (JObj (to_object (jval desc ''items'')))"
      using less.prems(1) by (intro json_wf_to_object json_wf_jval)
    from less.IH [OF osize_member [OF it(1)] this it(2)] show ?thesis .
  qed
  show ?case using fields items by (intro schema_okI) auto
qed

text \<open>C38: A schema that is read from a JSON object has one field per member, in key order; so on no
  level, nested fields and array elements included, do two fields have the same name.\<close>

theorem parsed_schema_ok:
  assumes "json_wf (JObj obj)" and "fromJsonObject obj = Inr flds"
  shows "map f_name flds = om_keys obj \<and> schema_ok flds"
proof -
  have parsed: "parseObject True obj [] = Inr flds" using assms(2) by (simp add: fromJsonObject_def)
  have ok: "schema_ok [f]" if "f \<in> set flds" for f
  proof -
    from parseObject_fields [OF parsed that] obtain k v p where
      kv: "(k, v) \<in> set obj" "parseFieldMeta True k (to_object v) p = Inr f" by blast
    have "json_wf (JObj (to_object v))" using assms(1) kv(1) by (intro json_wf_to_object) auto
    from schema_ok_parsed [OF this kv(2)] show ?thesis .
  qed
  have "\<forall>f \<in> set flds. schema_ok (f_fields f)" "\<forall>f \<in> set flds. \<forall>it. f_items f = Some it \<longrightarrow> schema_ok [it]"
    using ok by (fastforce elim: schema_okE)+
  with parseObject_names [OF parsed] assms(1) show ?thesis
    by (auto simp: om_ok_def om_keys_def intro: schema_okI)
qed

definition demo_schema :: json_obj where
  "demo_schema = [(''host'', JObj [(''type'', JStr ''string'')]),
     (''tls'', JObj [(''fields'', JObj [(''cert'', JObj [(''required'', JBool True), (''type'', JStr ''string'')])]),
                     (''type'', JStr ''object'')])]"

lemma demo_schema_parses: "\<exists>flds. fromJsonObject demo_schema = Inr flds"
  by (simp add: fromJsonObject_def parseObject_def parseObject_with_def demo_schema_def parseFieldMeta.simps
      isKnownFieldType_def Let_def)

lemma parsed_schema_ok_witness:
  "\<exists>flds. fromJsonObject demo_schema = Inr flds \<and> map f_name flds = [''host'', ''tls''] \<and> schema_ok flds"
proof -
  obtain flds where flds: "fromJsonObject demo_schema = Inr flds" using demo_schema_parses by blast
  have "json_wf (JObj demo_schema)" by (simp add: demo_schema_def om_ok_def)
  from parsed_schema_ok [OF this flds] flds show ?thesis by (auto simp: demo_schema_def om_keys_def)
qed

end
