(* ===== verification/InstanceManagerSpec.thy ===== *)
theory InstanceManagerSpec
  imports InstanceManager
begin

text \<open>
  What the instance manager promises whatever order the processes' signals come in: an instance that
  was started is announced as finished exactly once, when it leaves the map, and no handler but a
  start adds to the instances of a project.
\<close>

section \<open>Machines whose events must be admissible\<close>

locale guarded_machine =
  fixes step :: "'s \<Rightarrow> 'e \<Rightarrow> 's"
    and admits :: "'e \<Rightarrow> bool"
    and inv :: "'s \<Rightarrow> bool"
  assumes step_guarded: "inv s \<Longrightarrow> admits e \<Longrightarrow> inv (step s e)"
begin

lemma run_guarded: "inv s \<Longrightarrow> list_all admits es \<Longrightarrow> inv (run_events step s es)"
  by (induction es arbitrary: s) (auto intro: step_guarded)

end

section \<open>Counting instances\<close>

definition cnt :: "string \<Rightarrow> (string, service_instance) omap \<Rightarrow> nat" where
  "cnt pid is = length (filter (\<lambda>(_, inst). in_projectId inst = pid) is)"

definition mgr_ok :: "manager \<Rightarrow> bool" where
  "mgr_ok m \<longleftrightarrow> om_ok (m_instances m) \<and> (\<forall>k inst. om_get (m_instances m) k = Some inst \<longrightarrow> in_id inst = k)"

named_theorems count_simps \<open>how an operation changes the number of instances\<close>

lemma instanceCount_cnt [count_simps]: "pid \<noteq> [] \<Longrightarrow> instanceCount pid m = cnt pid (m_instances m)"
  by (simp add: instanceCount_def cnt_def)

lemma cnt_Nil [simp]: "cnt pid [] = 0"
  by (simp add: cnt_def)

lemma cnt_put_new [count_simps]:
  "om_get is k = None \<Longrightarrow> cnt pid (om_put k inst is) = cnt pid is + (if in_projectId inst = pid then 1 else 0)"
  by (induction "is") (auto simp: cnt_def split: if_splits)

lemma cnt_put_same:
  "om_ok is \<Longrightarrow> om_get is k = Some old \<Longrightarrow> in_projectId inst = in_projectId old \<Longrightarrow> cnt pid (om_put k inst is) = cnt pid is"
proof (induction "is")
  case (Cons q "is")
  obtain a v where q: "q = (a, v)" by fastforce
  have "om_ok is" using Cons.prems(1) by (simp add: om_ok_def q)
  moreover have "\<not> k < a" if "k \<noteq> a"
  proof -
    have "(k, old) \<in> set is" using Cons.prems(2) that om_get_set by (simp add: q)
    then have "a < k" using Cons.prems(1) by (auto simp: om_ok_def q)
    then show ?thesis by simp
  qed
  ultimately show ?case using Cons by (auto simp: q cnt_def split: if_splits)
qed simp

lemma cnt_del: "cnt pid (om_del k is) \<le> cnt pid is"
  by (induction "is") (auto simp: cnt_def om_del_def)

lemma cnt_pos: "om_get is k = Some inst \<Longrightarrow> in_projectId inst = pid \<Longrightarrow> 0 < cnt pid is"
  by (induction "is") (auto simp: cnt_def split: if_splits)

lemma mgr_ok_get: "mgr_ok m \<Longrightarrow> om_get (m_instances m) k = Some inst \<Longrightarrow> in_id inst = k"
  by (simp add: mgr_ok_def)

lemma put_instance_ok:
  assumes "mgr_ok m"
  shows "mgr_ok (put_instance inst m)"
    and "om_get (m_instances m) (in_id inst) = Some old \<Longrightarrow> in_projectId inst = in_projectId old \<Longrightarrow>
      cnt pid (m_instances (put_instance inst m)) = cnt pid (m_instances m)"
  using assms cnt_put_same by (auto simp: put_instance_def mgr_ok_def)

lemma erase_instance_ok:
  "mgr_ok m \<Longrightarrow> mgr_ok (erase_instance iid m)"
  "cnt pid (m_instances (erase_instance iid m)) \<le> cnt pid (m_instances m)"
  using cnt_del by (auto simp: erase_instance_def mgr_ok_def)

lemma start_timers_ok [simp]: "mgr_ok (m\<lparr>m_startTimers := ts\<rparr>) = mgr_ok m"
  by (simp add: mgr_ok_def)

lemma instance_step_ok:
  assumes "mgr_ok m"
  shows "mgr_ok (snd (instance_step e m)) \<and> cnt pid (m_instances (snd (instance_step e m))) \<le> cnt pid (m_instances m)"
proof -
  have id: "om_get (m_instances m) k = Some inst \<Longrightarrow> in_id inst = k" for k inst
    using assms by (rule mgr_ok_get)
  show ?thesis
    using assms put_instance_ok [OF assms] erase_instance_ok id
      put_instance_ok [of "m\<lparr>m_startTimers := ts\<rparr>" for ts]
    by (cases e) (auto simp: onStarted_def onRunTimeout_def onErrorOccurred_def onStartTimeout_def
        onProcessFinished_def Let_def split: option.split)
qed

lemma startInstance_cases:
  assumes "startInstance env p dir m = (r, sigs, m')"
  obtains err where "r = Inl err" "sigs = []" "m' = m"
  | inst where "r = Inr (in_id inst)" "in_id inst = se_instanceId env" "in_projectId inst = pr_id p"
      "(sigs, m') = launch_instance env inst m" "pr_valid p"
proof (cases r)
  case (Inl err)
  with assms show ?thesis
    by (intro that(1)) (auto simp: startInstance_def Let_def split: if_splits option.splits)
next
  case (Inr iid)
  have new: "in_id (new_instance env a b c d p m) = se_instanceId env" "in_projectId (new_instance env a b c d p m) = pr_id p"
    for a b c d by (simp_all add: new_instance_def)
  from Inr assms obtain a b c d where "iid = se_instanceId env" "pr_valid p"
      "launch_instance env (new_instance env a b c d p m) m = (sigs, m')"
    unfolding startInstance_def Let_def by (auto split: if_splits option.splits)
  with Inr new show ?thesis by (intro that(2) [of "new_instance env a b c d p m"]) auto
qed

lemma launch_instance_ok:
  assumes "mgr_ok m" and "launch_instance env inst m = (sigs, m')"
  shows "mgr_ok m' \<and> cnt pid (m_instances m') \<le> cnt pid (m_instances m) + (if in_projectId inst = pid then 1 else 0)"
proof -
  define m1 where "m1 = (if om_has (m_instances m) (in_id inst) then m else put_instance inst m)"
  have m1: "mgr_ok m1" "cnt pid (m_instances m1) \<le> cnt pid (m_instances m) + (if in_projectId inst = pid then 1 else 0)"
    using put_instance_ok(1) [OF assms(1)] assms(1)
    by (auto simp: m1_def put_instance_def cnt_put_new om_has_def)
  have err: "mgr_ok (snd (onErrorOccurred True x k m1)) \<and>
      cnt pid (m_instances (snd (onErrorOccurred True x k m1))) \<le> cnt pid (m_instances m1)" for x k
    using instance_step_ok [OF m1(1), of "EvError True x k" pid] by simp
  show ?thesis
  proof (cases "se_failsAtOnce env")
    case None
    with assms(2) have "m' = m1\<lparr>m_startTimers := in_id inst # m_startTimers m1\<rparr>"
      by (simp add: launch_instance_def m1_def Let_def)
    with m1 show ?thesis by simp
  next
    case (Some x)
    with assms(2) obtain ts where "m' = snd (onErrorOccurred True x (in_id inst) m1)\<lparr>m_startTimers := ts\<rparr>"
      by (auto simp: launch_instance_def m1_def [symmetric] Let_def split_beta)
    with m1(2) err [of x "in_id inst"] show ?thesis by simp
  qed
qed

lemma startInstance_ok:
  assumes "mgr_ok m" and "startInstance env p dir m = (r, sigs, m')"
  shows "mgr_ok m' \<and> cnt pid (m_instances m') \<le> cnt pid (m_instances m) + (if pr_id p = pid then 1 else 0)"
  using assms(2)
proof (rule startInstance_cases)
  fix inst
  assume "in_projectId inst = pr_id p" "(sigs, m') = launch_instance env inst m"
  then show ?thesis using launch_instance_ok [OF assms(1), of env inst sigs m' pid] by simp
qed (use assms(1) in simp)

section \<open>Finished once\<close>

definition finished :: "string \<Rightarrow> instance_signal list \<Rightarrow> nat" where
  "finished iid sigs = length (filter (\<lambda>sig. case sig of instanceFinished i _ _ _ \<Rightarrow> i = iid | _ \<Rightarrow> False) sigs)"

lemma finished_simps [simp]:
  "finished iid [] = 0"
  "finished iid (instanceStarted a b # sigs) = finished iid sigs"
  "finished iid (instanceStartFailed a b c # sigs) = finished iid sigs"
  "finished iid (instanceFinished a b x y # sigs) = (if a = iid then 1 else 0) + finished iid sigs"
  "finished iid (sigs @ sigs') = finished iid sigs + finished iid sigs'"
  by (simp_all add: finished_def)

lemma om_has_put_instance [simp]:
  "om_has (m_instances (put_instance inst m)) iid = (iid = in_id inst \<or> om_has (m_instances m) iid)"
  by (simp add: put_instance_def)

lemma om_has_erase_instance [simp]:
  "om_has (m_instances (erase_instance k m)) iid = (iid \<noteq> k \<and> om_has (m_instances m) iid)"
  by (simp add: erase_instance_def)

lemma has_SomeI: "om_get is k = Some inst \<Longrightarrow> om_has is k"
  by (simp add: om_has_def)

lemma instance_step_finished:
  assumes "mgr_ok m" and "instance_step e m = (sigs, m')"
  shows "(om_has (m_instances m') iid \<longrightarrow> om_has (m_instances m) iid)
    \<and> finished iid sigs = (if om_has (m_instances m) iid \<and> \<not> om_has (m_instances m') iid then 1 else 0)"
  using assms mgr_ok_get [OF assms(1)]
  by (cases e) (auto simp: onStarted_def onRunTimeout_def onErrorOccurred_def onStartTimeout_def
      onProcessFinished_def Let_def has_SomeI split: option.splits if_splits)

lemma launch_instance_finished:
  assumes "mgr_ok m" and "\<not> om_has (m_instances m) (in_id inst)" and "launch_instance env inst m = (sigs, m')"
  shows "(iid \<noteq> in_id inst \<longrightarrow> om_has (m_instances m') iid = om_has (m_instances m) iid)
    \<and> finished iid sigs = (if iid = in_id inst \<and> \<not> om_has (m_instances m') iid then 1 else 0)"
  using assms
  by (auto simp: launch_instance_def onErrorOccurred_def Let_def put_instance_def erase_instance_def
      split: option.splits if_splits)

lemma terminateInstance_keys:
  assumes "mgr_ok m"
  shows "mgr_ok (terminateInstance k m)" and "om_has (m_instances (terminateInstance k m)) iid = om_has (m_instances m) iid"
  using put_instance_ok(1) [OF assms] assms mgr_ok_get [OF assms, of k]
  by (auto simp: terminateInstance_def has_SomeI split: option.splits)

lemma terminate_keys:
  "mgr_ok m \<Longrightarrow> mgr_ok (fold terminateInstance ks m) \<and> om_has (m_instances (fold terminateInstance ks m)) iid = om_has (m_instances m) iid"
  by (induction ks arbitrary: m) (simp_all add: terminateInstance_keys)

text \<open>Everything that happens to an instance manager, with the ids of the instances that were started
  and the signals so far.\<close>

datatype mgr_event =
    Start start_env project string
  | Process instance_event
  | Terminate string
  | TerminateProject string
  | TerminateAll

fun mgr_step :: "string list \<times> instance_signal list \<times> manager \<Rightarrow> mgr_event \<Rightarrow> string list \<times> instance_signal list \<times> manager" where
  "mgr_step (ids, tr, m) (Start env p dir) =
     (case startInstance env p dir m of
        (Inl err, sigs, m) \<Rightarrow> (ids, tr @ sigs, m)
      | (Inr iid, sigs, m) \<Rightarrow> (iid # ids, tr @ sigs, m))"
| "mgr_step (ids, tr, m) (Process e) = (let (sigs, m) = instance_step e m in (ids, tr @ sigs, m))"
| "mgr_step (ids, tr, m) (Terminate iid) = (ids, tr, terminateInstance iid m)"
| "mgr_step (ids, tr, m) (TerminateProject pid) = (ids, tr, terminateByProject pid m)"
| "mgr_step (ids, tr, m) TerminateAll = (ids, tr, terminateAll m)"

fun drawn_ids :: "mgr_event list \<Rightarrow> string list" where
  "drawn_ids [] = []"
| "drawn_ids (Start env p dir # es) = se_instanceId env # drawn_ids es"
| "drawn_ids (_ # es) = drawn_ids es"

fun accounted :: "string list \<times> instance_signal list \<times> manager \<Rightarrow> bool" where
  "accounted (ids, tr, m) \<longleftrightarrow> mgr_ok m \<and> (\<forall>iid. om_has (m_instances m) iid \<longrightarrow> iid \<in> set ids)
     \<and> (\<forall>iid. finished iid tr = (if iid \<in> set ids \<and> \<not> om_has (m_instances m) iid then 1 else 0))"

lemma start_accounted:
  assumes "accounted (ids, tr, m)" and "se_instanceId env \<notin> set ids"
    and "mgr_step (ids, tr, m) (Start env p dir) = (ids', tr', m')"
  shows "accounted (ids', tr', m') \<and> set ids' \<subseteq> insert (se_instanceId env) (set ids)"
proof -
  obtain r sigs m1 where s: "startInstance env p dir m = (r, sigs, m1)" by (metis prod_cases3)
  from s show ?thesis
  proof (rule startInstance_cases)
    fix err
    assume "r = Inl err" "sigs = []" "m1 = m"
    with assms s show ?thesis by auto
  next
    fix inst
    assume i: "r = Inr (in_id inst)" "in_id inst = se_instanceId env" "(sigs, m1) = launch_instance env inst m"
    have fresh: "\<not> om_has (m_instances m) (in_id inst)" using assms(1,2) i(2) by auto
    have ok: "mgr_ok m" using assms(1) by simp
    note l = launch_instance_finished [OF ok fresh i(3) [symmetric]]
    have "mgr_ok m1" using launch_instance_ok [OF ok i(3) [symmetric]] by simp
    moreover have "ids' = in_id inst # ids" "tr' = tr @ sigs" "m' = m1" using assms(3) s i(1) by auto
    ultimately show ?thesis
      using assms(1,2) l i(2) fresh by (auto split: if_splits)
  qed
qed

lemma other_accounted:
  assumes "accounted (ids, tr, m)" and "\<forall>env p dir. e \<noteq> Start env p dir"
    and "mgr_step (ids, tr, m) e = (ids', tr', m')"
  shows "accounted (ids', tr', m') \<and> ids' = ids"
proof -
  have ok: "mgr_ok m" using assms(1) by simp
  show ?thesis
  proof (cases e)
    case (Process ev)
    obtain sigs m1 where s: "instance_step ev m = (sigs, m1)" by fastforce
    have "mgr_ok m1" using instance_step_ok [OF ok, of ev] s by simp
    have r: "ids' = ids" "tr' = tr @ sigs" "m' = m1" using assms(3) Process s by auto
    have "(om_has (m_instances m1) iid \<longrightarrow> iid \<in> set ids)
        \<and> finished iid (tr @ sigs) = (if iid \<in> set ids \<and> \<not> om_has (m_instances m1) iid then 1 else 0)" for iid
      using instance_step_finished [OF ok s, of iid] assms(1)
      by (cases "om_has (m_instances m) iid"; cases "om_has (m_instances m1) iid") auto
    with \<open>mgr_ok m1\<close> show ?thesis unfolding r accounted.simps by blast
  qed (use assms terminate_keys [OF ok] terminateInstance_keys [OF ok]
      in \<open>auto simp: terminateByProject_def terminateAll_def Let_def\<close>)
qed

lemma run_accounted:
  "accounted (ids, tr, m) \<Longrightarrow> distinct (drawn_ids es) \<Longrightarrow> set ids \<inter> set (drawn_ids es) = {} \<Longrightarrow>
   accounted (run_events mgr_step (ids, tr, m) es)"
proof (induction es arbitrary: ids tr m)
  case (Cons e es)
  obtain ids' tr' m' where s: "mgr_step (ids, tr, m) e = (ids', tr', m')" by (metis prod_cases3)
  show ?case
  proof (cases "\<exists>env p dir. e = Start env p dir")
    case True
    then obtain env p dir where e: "e = Start env p dir" by blast
    have "se_instanceId env \<notin> set ids" using Cons.prems(3) by (auto simp: e)
    from start_accounted [OF Cons.prems(1) this s [unfolded e]] Cons.prems(2,3) show ?thesis
      unfolding run_events_simps(2) s by (intro Cons.IH) (auto simp: e)
  next
    case False
    then have d: "drawn_ids (e # es) = drawn_ids es" by (cases e) auto
    from False other_accounted [OF Cons.prems(1) _ s] Cons.prems(2,3) show ?thesis
      unfolding run_events_simps(2) s d by (intro Cons.IH) auto
  qed
qed simp

definition new_manager :: "string \<Rightarrow> string \<Rightarrow> manager" where
  "new_manager dataRoot program = \<lparr>m_dataRoot = dataRoot, m_serviceProgram = program, m_instances = [], m_startTimers = []\<rparr>"

text \<open>C18: The scheduler relies on \<open>instanceFinished\<close> being emitted for every instance. From an empty
  manager, whatever starts, terminations, signals of processes and timeouts follow, in any order and
  also for processes that are long gone: every instance that was started has been announced as
  finished exactly once if it is no longer in the map and not at all while it is, and nothing else is
  ever announced. The drawn instance ids are different.\<close>

theorem finished_exactly_once:
  assumes "distinct (drawn_ids es)"
    and "run_events mgr_step ([], [], new_manager dataRoot program) es = (ids, sigs, m)"
  shows "finished iid sigs = (if iid \<in> set ids \<and> \<not> om_has (m_instances m) iid then 1 else 0)"
proof -
  have "accounted ([], [], new_manager dataRoot program)"
    by (simp add: new_manager_def mgr_ok_def)
  from run_accounted [OF this assms(1)] assms(2) show ?thesis by simp
qed

section \<open>A start that is announced as failed twice\<close>

text \<open>An environment in which every start gets as far as the process.\<close>

definition good_env :: "string \<Rightarrow> start_env" where
  "good_env iid = \<lparr>se_executable = (\<lambda>_. True), se_relative = (\<lambda>_. False), se_absolute = (\<lambda>p. p), se_applicationDir = ''/bin'',
     se_inPath = [], se_dirExists = (\<lambda>_. True), se_tempOpens = True, se_tempWrites = True, se_tempName = ''tmp'',
     se_mkpath = (\<lambda>_. True), se_guardName = Some ''guard'', se_instanceId = iid, se_failsAtOnce = None\<rparr>"

lemma start_good:
  assumes "pr_valid p" and "dir \<noteq> []" and "\<not> om_has (m_instances m) iid" and "m_serviceProgram m = []"
  obtains inst where "startInstance (good_env iid) p dir m =
      (Inr iid, [], (put_instance inst m)\<lparr>m_startTimers := iid # m_startTimers m\<rparr>)"
    "in_id inst = iid" "in_projectId inst = pr_id p" "in_status inst = ''starting''" "in_process inst = Starting"
    "\<not> in_startFailedEmitted inst"
proof -
  define inst where "inst = new_instance (good_env iid) ''/bin/stdiolink_service'' dir ''guard''
    (m_dataRoot m @ ''/projects/'' @ pr_id p @ ''/workspace'') p m"
  have i: "in_id inst = iid" "in_projectId inst = pr_id p" "in_status inst = ''starting''" "in_process inst = Starting"
    "\<not> in_startFailedEmitted inst"
    by (simp_all add: inst_def new_instance_def good_env_def)
  have "startInstance (good_env iid) p dir m = (Inr iid, launch_instance (good_env iid) inst m)"
    unfolding startInstance_def findServiceProgram_def Let_def using assms by (simp add: good_env_def inst_def)
  with i assms(3) show ?thesis
    by (intro that [of inst]) (auto simp: launch_instance_def good_env_def put_instance_def Let_def)
qed

lemma finished_exactly_once_witness:
  "\<exists>ids sigs m. run_events mgr_step ([], [], new_manager ''/d'' [])
       [Start (good_env ''i1'') Project_default ''svc'', Process (EvStarted ''i1''), Terminate ''i1'',
        Process (EvFinished ''i1'' 9 True), Process (EvFinished ''i1'' 9 True)] = (ids, sigs, m)
     \<and> finished ''i1'' sigs = 1"
proof -
  let ?es = "[Start (good_env ''i1'') Project_default ''svc'', Process (EvStarted ''i1''), Terminate ''i1'',
        Process (EvFinished ''i1'' 9 True), Process (EvFinished ''i1'' 9 True)]"
  obtain ids sigs m where r: "run_events mgr_step ([], [], new_manager ''/d'' []) ?es = (ids, sigs, m)"
    by (metis prod_cases3)
  have "''i1'' \<in> set ids \<and> \<not> om_has (m_instances m) ''i1''"
  proof (rule start_good [of Project_default "''svc''" "new_manager ''/d'' []" "''i1''"])
    fix inst
    assume "startInstance (good_env ''i1'') Project_default ''svc'' (new_manager ''/d'' []) =
       (Inr ''i1'', [], (put_instance inst (new_manager ''/d'' []))\<lparr>m_startTimers := ''i1'' # m_startTimers (new_manager ''/d'' [])\<rparr>)"
      "in_id inst = ''i1''"
    with r show ?thesis
      by (auto simp: put_instance_def onStarted_def terminateInstance_def onProcessFinished_def
          erase_instance_def new_manager_def Let_def split: option.splits if_splits)
  qed (simp_all add: Project_default_def new_manager_def)
  with finished_exactly_once [OF _ r, of "''i1''"] r show ?thesis by (simp add: good_env_def)
qed

text \<open>When the five seconds are over first and the error of the start is delivered after that, the start
  is announced as failed twice: the slot of the error does not look at the flag that is there to
  prevent it.\<close>

lemma start_failed_twice:
  assumes "om_get (m_instances m) iid = Some inst" and "in_status inst = ''starting''" and "iid \<in> set (m_startTimers m)"
    and "mgr_ok m"
  shows "fst (onStartTimeout iid m) @ fst (onErrorOccurred True err iid (snd (onStartTimeout iid m))) =
    [instanceStartFailed iid (in_projectId inst) ''start timeout (5s)'', instanceStartFailed iid (in_projectId inst) err,
     instanceFinished iid (in_projectId inst) (- 1) True]"
proof -
  have "in_id inst = iid" using assms(1,4) by (rule mgr_ok_get [rotated])
  with assms show ?thesis
    by (simp add: onStartTimeout_def onErrorOccurred_def put_instance_def Let_def)
qed

end
