(* ===== verification/ScheduleEngineSpec.thy ===== *)
theory ScheduleEngineSpec
  imports ScheduleEngine InstanceManagerSpec
begin

text \<open>
  What the scheduler promises under every sequence of timer ticks, delayed restarts, signals of
  processes and calls of its interface: a project has no more instances than its schedule allows,
  a daemon that keeps failing is given up after the limit, and nothing is started after the
  shutdown has begun or, for one project, after it was stopped.
\<close>

section \<open>What delivering a signal leaves alone\<close>

named_theorems sched_simps \<open>parts of the scheduler an operation leaves alone\<close>

lemma onInstanceFinished_keeps [sched_simps]:
  "mgr (onInstanceFinished pid x c s) = mgr s" "e_projects (onInstanceFinished pid x c s) = e_projects s"
  "e_services (onInstanceFinished pid x c s) = e_services s" "m_timers (onInstanceFinished pid x c s) = m_timers s"
  "m_shuttingDown (onInstanceFinished pid x c s) = m_shuttingDown s"
  "m_restartSuppressed s \<subseteq> m_restartSuppressed (onInstanceFinished pid x c s)"
  by (auto simp: onInstanceFinished_def publish_def Let_def split: option.splits)

lemma deliver_keeps [sched_simps]:
  "mgr (deliver sig s) = mgr s" "e_projects (deliver sig s) = e_projects s"
  "e_services (deliver sig s) = e_services s" "m_timers (deliver sig s) = m_timers s"
  "m_shuttingDown (deliver sig s) = m_shuttingDown s"
  "m_restartSuppressed s \<subseteq> m_restartSuppressed (deliver sig s)"
  using onInstanceFinished_keeps by (auto simp: deliver_def publish_def split: instance_signal.splits)

lemma deliver_all_keeps [sched_simps]:
  "mgr (deliver_all r s) = snd r" "e_projects (deliver_all r s) = e_projects s"
  "e_services (deliver_all r s) = e_services s" "m_timers (deliver_all r s) = m_timers s"
  "m_shuttingDown (deliver_all r s) = m_shuttingDown s"
  "m_restartSuppressed s \<subseteq> m_restartSuppressed (deliver_all r s)"
proof -
  have "mgr (fold deliver sigs s) = mgr s \<and> e_projects (fold deliver sigs s) = e_projects s
      \<and> e_services (fold deliver sigs s) = e_services s \<and> m_timers (fold deliver sigs s) = m_timers s
      \<and> m_shuttingDown (fold deliver sigs s) = m_shuttingDown s
      \<and> m_restartSuppressed s \<subseteq> m_restartSuppressed (fold deliver sigs s)" for sigs and s :: sched
    by (induction sigs arbitrary: s) (use deliver_keeps in \<open>auto, blast\<close>)
  from this [of "fst r" "s\<lparr>mgr := snd r\<rparr>"]
  show "mgr (deliver_all r s) = snd r" "e_projects (deliver_all r s) = e_projects s"
    "e_services (deliver_all r s) = e_services s" "m_timers (deliver_all r s) = m_timers s"
    "m_shuttingDown (deliver_all r s) = m_shuttingDown s"
    "m_restartSuppressed s \<subseteq> m_restartSuppressed (deliver_all r s)"
    by (simp_all add: deliver_all_def)
qed

lemma publish_keeps [simp]:
  "mgr (publish sig s) = mgr s" "e_projects (publish sig s) = e_projects s" "e_services (publish sig s) = e_services s"
  "m_timers (publish sig s) = m_timers s" "m_shuttingDown (publish sig s) = m_shuttingDown s"
  "m_restartSuppressed (publish sig s) = m_restartSuppressed s"
  by (simp_all add: publish_def)

lemma start_instance_keeps [sched_simps]:
  "e_projects (snd (start_instance env p dir s)) = e_projects s"
  "e_services (snd (start_instance env p dir s)) = e_services s"
  "m_timers (snd (start_instance env p dir s)) = m_timers s"
  "m_shuttingDown (snd (start_instance env p dir s)) = m_shuttingDown s"
  "m_restartSuppressed s \<subseteq> m_restartSuppressed (snd (start_instance env p dir s))"
  using deliver_all_keeps(6) by (auto simp: start_instance_def split_beta sched_simps)

lemma mgr_start_instance: "mgr (snd (start_instance env p dir s)) = snd (snd (startInstance env p dir (mgr s)))"
  by (simp add: start_instance_def split_beta sched_simps)

lemma startDaemon_keeps [sched_simps]:
  "e_projects (startDaemon env p dir s) = e_projects s" "e_services (startDaemon env p dir s) = e_services s"
  "m_timers (startDaemon env p dir s) = m_timers s" "m_shuttingDown (startDaemon env p dir s) = m_shuttingDown s"
  "m_restartSuppressed s \<subseteq> m_restartSuppressed (startDaemon env p dir s)"
  using start_instance_keeps(5) [of "publish (scheduleTriggered (pr_id p) ''daemon'') s"]
  by (auto simp: startDaemon_def sched_simps)

lemma start_scheduled_keeps [sched_simps]:
  "e_projects (start_scheduled env p s) = e_projects s" "e_services (start_scheduled env p s) = e_services s"
  "m_shuttingDown (start_scheduled env p s) = m_shuttingDown s"
  by (auto simp: start_scheduled_def startFixedRate_def sched_simps split: option.split schedule_type.split)

section \<open>The calls of the scheduler's interface\<close>

datatype engine_call =
    Event sched_event
  | StartAll "string \<Rightarrow> start_env" "(string, project) omap" "(string, service_info) omap"
  | StartProject start_env project "(string, service_info) omap"
  | StopAll
  | StopProject string
  | ResumeProject string
  | SetShuttingDown bool
  | KillProject string
  | KillAll

fun engine_step :: "sched \<Rightarrow> engine_call \<Rightarrow> sched" where
  "engine_step s (Event e) = sched_step s e"
| "engine_step s (StartAll env projects services) = startAll env projects services s"
| "engine_step s (StartProject env p services) = startProject env p services s"
| "engine_step s StopAll = stopAll s"
| "engine_step s (StopProject pid) = stopProject pid s"
| "engine_step s (ResumeProject pid) = resumeProject pid s"
| "engine_step s (SetShuttingDown b) = s\<lparr>m_shuttingDown := b\<rparr>"
| "engine_step s (KillProject pid) = on_manager (terminateByProject pid) s"
| "engine_step s KillAll = on_manager terminateAll s"

definition new_sched :: "string \<Rightarrow> string \<Rightarrow> sched" where
  "new_sched dataRoot program = \<lparr>mgr = new_manager dataRoot program, e_services = [], e_projects = [], m_timers = [],
     m_consecutiveFailures = [], m_restartSuppressed = {}, m_shuttingDown = False, m_restarts = [], published = []\<rparr>"

section \<open>Every step either leaves the instances alone, lets them go or starts one\<close>

text \<open>One contract for the operations: a property of the state that survives the loss of instances and
  changes of the bookkeeping, and each start the operation may make.\<close>

lemma terminateInstance_cnt:
  assumes "mgr_ok m"
  shows "cnt pid (m_instances (terminateInstance k m)) = cnt pid (m_instances m)"
  using put_instance_ok(2) [OF assms] mgr_ok_get [OF assms, of k]
  by (auto simp: terminateInstance_def split: option.splits)

lemma terminate_cnt:
  "mgr_ok m \<Longrightarrow> mgr_ok (fold terminateInstance ks m) \<and>
   cnt pid (m_instances (fold terminateInstance ks m)) = cnt pid (m_instances m)"
  by (induction ks arbitrary: m) (simp_all add: terminateInstance_keys terminateInstance_cnt)

definition limit :: "project \<Rightarrow> nat" where
  "limit p = (if sc_type (pr_schedule p) = FixedRate then nat (maxConcurrent (pr_schedule p)) else 1)"

definition projects_fit :: "string \<Rightarrow> nat \<Rightarrow> (string, project) omap \<Rightarrow> bool" where
  "projects_fit pid L projects \<longleftrightarrow> (\<forall>(k, p) \<in> set projects. pr_id p = k \<and> (k = pid \<longrightarrow> limit p \<le> L))"

definition capacity :: "string \<Rightarrow> nat \<Rightarrow> sched \<Rightarrow> bool" where
  "capacity pid L s \<longleftrightarrow> 1 \<le> L \<and> mgr_ok (mgr s) \<and> cnt pid (m_instances (mgr s)) \<le> L \<and> projects_fit pid L (e_projects s)"

lemma cnt_le_instanceCount: "cnt pid (m_instances m) \<le> instanceCount pid m"
  by (simp add: instanceCount_def cnt_def)

lemma projects_fit_get: "projects_fit pid L ps \<Longrightarrow> om_get ps k = Some p \<Longrightarrow> pr_id p = k \<and> (k = pid \<longrightarrow> limit p \<le> L)"
  by (auto simp: projects_fit_def dest!: om_get_set)

lemma set_om_put: "set (om_put k v m) \<subseteq> insert (k, v) (set m)"
proof (induction m)
  case (Cons q m)
  obtain a w where q: "q = (a, w)" by fastforce
  have "set (om_put k v (q # m)) \<subseteq> {(k, v), q} \<union> set m \<union> set (om_put k v m)"
    by (auto simp: q)
  with Cons show ?case by auto
qed simp

lemma projects_fit_put:
  "projects_fit pid L ps \<Longrightarrow> (pr_id p = pid \<longrightarrow> limit p \<le> L) \<Longrightarrow> projects_fit pid L (om_put (pr_id p) p ps)"
  using set_om_put [of "pr_id p" p ps] by (auto simp: projects_fit_def)

lemma capacity_start:
  assumes "capacity pid L s" and "pr_id p = pid \<longrightarrow> cnt pid (m_instances (mgr s)) < L"
  shows "capacity pid L (snd (start_instance env p dir s))"
proof -
  obtain r sigs m where "startInstance env p dir (mgr s) = (r, sigs, m)" by (metis prod_cases3)
  with startInstance_ok [of "mgr s", OF _ this, of pid] assms show ?thesis
    by (cases "pr_id p = pid") (auto simp: capacity_def mgr_start_instance sched_simps)
qed

lemma capacity_publish [simp]: "capacity pid L (publish sig s) = capacity pid L s"
  by (simp add: capacity_def)

lemma capacity_daemon:
  assumes "capacity pid L s"
  shows "capacity pid L (startDaemon env p dir s)"
proof -
  have "cnt pid (m_instances (mgr s)) < L" if "instanceCount pid (mgr s) = 0"
    using assms that cnt_le_instanceCount [of pid "mgr s"] by (simp add: capacity_def)
  with assms show ?thesis by (auto simp: startDaemon_def intro!: capacity_start)
qed

lemma capacity_scheduled:
  "capacity pid L s \<Longrightarrow> capacity pid L (start_scheduled env p s)"
  using capacity_daemon
  by (auto simp: start_scheduled_def startFixedRate_def capacity_def split: option.split schedule_type.split)

lemma capacity_tick:
  assumes "capacity pid L s"
  shows "capacity pid L (timer_tick env k s)"
proof (cases "om_get (e_projects s) k")
  case (Some p)
  have fit: "pr_id p = k \<and> (k = pid \<longrightarrow> limit p \<le> L)"
    using assms projects_fit_get [OF _ Some] by (auto simp: capacity_def)
  have "cnt pid (m_instances (mgr s)) < L"
    if "int (instanceCount pid (mgr s)) < maxConcurrent (pr_schedule p)" "sc_type (pr_schedule p) = FixedRate" "k = pid"
  proof -
    have "instanceCount pid (mgr s) < nat (maxConcurrent (pr_schedule p))" using that(1) by linarith
    with that fit cnt_le_instanceCount [of pid "mgr s"] show ?thesis by (simp add: limit_def)
  qed
  with assms fit Some show ?thesis
    by (auto simp: timer_tick_def split: option.split intro!: capacity_start)
qed (use assms in \<open>auto simp: timer_tick_def split: option.split\<close>)

lemma capacity_restart:
  assumes "capacity pid L s"
  shows "capacity pid L (restart_due env n s)"
proof -
  define s1 where "s1 = s\<lparr>m_restarts := take n (m_restarts s) @ drop (Suc n) (m_restarts s)\<rparr>"
  have "capacity pid L s1" using assms by (simp add: capacity_def s1_def)
  with assms capacity_daemon show ?thesis
    by (auto simp: restart_due_def s1_def [symmetric] Let_def split: option.split prod.split)
qed

lemma capacity_start_all:
  assumes "capacity pid L s" and "projects_fit pid L projects"
  shows "capacity pid L (startAll env projects services s)"
proof -
  define s1 where "s1 = (stopAll s)\<lparr>e_projects := projects, e_services := services\<rparr>"
  have s1: "capacity pid L s1" using assms by (simp add: capacity_def s1_def stopAll_def)
  have "capacity pid L (fold (\<lambda>(k, p) s. if \<not> pr_enabled p \<or> \<not> pr_valid p then s else start_scheduled (env k) p s) ps s')"
    if "capacity pid L s'" for ps s'
    using that by (induction ps arbitrary: s') (auto split: prod.split intro!: capacity_scheduled)
  from this [OF s1] show ?thesis by (simp add: startAll_def s1_def)
qed

text \<open>The projects that are handed to the scheduler keep the limit of the project in question.\<close>

fun fits :: "string \<Rightarrow> nat \<Rightarrow> engine_call \<Rightarrow> bool" where
  "fits pid L (StartAll env projects services) = projects_fit pid L projects"
| "fits pid L (StartProject env p services) = (pr_id p = pid \<longrightarrow> limit p \<le> L)"
| "fits pid L _ = True"

lemma capacity_step:
  assumes "capacity pid L s" and "fits pid L c"
  shows "capacity pid L (engine_step s c)"
proof (cases c)
  case (Event e)
  show ?thesis
  proof (cases e)
    case (EvInstance ev)
    then show ?thesis
      using assms instance_step_ok [of "mgr s" ev pid] by (auto simp: Event capacity_def sched_simps)
  qed (simp_all add: Event assms capacity_tick capacity_restart)
next
  case (StartProject env p services)
  with assms have "capacity pid L (s\<lparr>e_projects := om_put (pr_id p) p (e_projects s), e_services := services,
      m_timers := om_del (pr_id p) (m_timers s), m_restartSuppressed := m_restartSuppressed s - {pr_id p},
      m_consecutiveFailures := om_del (pr_id p) (m_consecutiveFailures s)\<rparr>)"
    by (simp add: capacity_def projects_fit_put)
  then show ?thesis by (simp add: StartProject startProject_def Let_def capacity_scheduled)
next
  case (StartAll env projects services)
  with assms show ?thesis by (simp add: capacity_start_all)
qed (use assms terminate_cnt in \<open>auto simp: capacity_def stopAll_def stopProject_def resumeProject_def
      on_manager_def terminateByProject_def terminateAll_def Let_def\<close>)

interpretation cap: guarded_machine engine_step "fits pid L" "capacity pid L" for pid L
  by unfold_locales (rule capacity_step)

text \<open>C14: A project never has more instances at once than its schedule allows, one for a daemon and
  \<open>maxConcurrent\<close> for a fixed rate, whatever sequence of timer ticks, delayed restarts, process
  signals, starts, stops and reconfigurations the server goes through, as long as the limit itself
  is not raised beyond \<open>L\<close>.\<close>

theorem concurrency_bounded:
  assumes "1 \<le> L" and "list_all (fits pid L) calls" and "pid \<noteq> []"
  shows "instanceCount pid (mgr (run_events engine_step (new_sched dataRoot program) calls)) \<le> L"
proof -
  have "capacity pid L (new_sched dataRoot program)"
    using assms(1) by (simp add: capacity_def new_sched_def new_manager_def mgr_ok_def projects_fit_def)
  from cap.run_guarded [OF this assms(2)] show ?thesis
    by (simp add: capacity_def instanceCount_cnt [OF assms(3)])
qed

text \<open>A project with a fixed rate, a daemon and their service for the witnesses.\<close>

definition rate_project :: project where
  "rate_project = Project_default\<lparr>pr_id := ''a'', serviceId := ''s'', pr_schedule := Schedule_default\<lparr>sc_type := FixedRate\<rparr>\<rparr>"

definition daemon_project :: project where
  "daemon_project = Project_default\<lparr>pr_id := ''a'', serviceId := ''s'', pr_schedule := Schedule_default\<lparr>sc_type := Daemon\<rparr>\<rparr>"

definition some_service :: service_info where
  "some_service = \<lparr>sv_id = ''s'', sv_name = ''n'', sv_version = ''1'', sv_serviceDir = ''svc'',
     sv_manifest = \<lparr>mf_manifestVersion = ''1'', mf_id = ''s'', mf_name = ''n'', mf_version = ''1'', mf_description = [],
       mf_author = []\<rparr>, sv_schema = [], sv_rawConfigSchema = []\<rparr>"

definition some_services :: "(string, service_info) omap" where
  "some_services = [(''s'', some_service)]"

lemma concurrency_bounded_witness:
  "instanceCount ''a'' (mgr (run_events engine_step (new_sched ''d'' [])
     [StartAll (\<lambda>_. good_env ''i'') [(''a'', rate_project)] some_services,
      Event (EvTick ''a'' (good_env ''i'')), Event (EvTick ''a'' (good_env ''j''))])) \<le> 1"
  by (rule concurrency_bounded)
    (simp_all add: projects_fit_def limit_def rate_project_def Project_default_def Schedule_default_def)

section \<open>Nothing starts after a stop\<close>

definition quiet :: "(string \<Rightarrow> bool) \<Rightarrow> sched \<Rightarrow> bool" where
  "quiet old s \<longleftrightarrow> m_shuttingDown s \<and> mgr_ok (mgr s) \<and> (\<forall>iid. om_has (m_instances (mgr s)) iid \<longrightarrow> old iid)"

lemma quiet_daemon: "quiet old s \<Longrightarrow> startDaemon env p dir s = s"
  by (simp add: quiet_def startDaemon_def)

lemma quiet_scheduled: "quiet old s \<Longrightarrow> quiet old (start_scheduled env p s)"
  using quiet_daemon [of old s]
  by (auto simp: start_scheduled_def startFixedRate_def quiet_def split: option.split schedule_type.split)

lemma quiet_start_all: "quiet old s \<Longrightarrow> quiet old (startAll env projects services s)"
proof -
  assume "quiet old s"
  then have "quiet old ((stopAll s)\<lparr>e_projects := projects, e_services := services\<rparr>)"
    by (simp add: quiet_def stopAll_def)
  moreover have "quiet old s' \<Longrightarrow> quiet old
      (fold (\<lambda>(k, p) s. if \<not> pr_enabled p \<or> \<not> pr_valid p then s else start_scheduled (env k) p s) ps s')" for ps s'
    by (induction ps arbitrary: s') (auto split: prod.split intro!: quiet_scheduled)
  ultimately show ?thesis by (simp add: startAll_def)
qed

lemma quiet_step: "quiet old s \<Longrightarrow> c \<noteq> SetShuttingDown False \<Longrightarrow> quiet old (engine_step s c)"
proof (cases c)
  case (Event e)
  assume q: "quiet old s"
  show ?thesis
  proof (cases e)
    case (EvInstance ev)
    obtain sigs m where r: "instance_step ev (mgr s) = (sigs, m)" by fastforce
    have "mgr_ok (mgr s)" using q by (simp add: quiet_def)
    with q instance_step_ok [of "mgr s" ev] instance_step_finished [OF _ r] r show ?thesis
      by (auto simp: Event EvInstance quiet_def sched_simps)
  qed (use q in \<open>auto simp: Event timer_tick_def restart_due_def quiet_def Let_def split: option.split prod.split\<close>)
next
  case (StartAll env projects services)
  then show "quiet old s \<Longrightarrow> ?thesis" by (simp add: quiet_start_all)
next
  case (KillProject pid)
  then show "quiet old s \<Longrightarrow> ?thesis"
    by (auto simp: quiet_def on_manager_def terminateByProject_def terminate_keys Let_def)
next
  case KillAll
  then show "quiet old s \<Longrightarrow> ?thesis"
    by (auto simp: quiet_def on_manager_def terminateAll_def terminate_keys)
qed (auto simp: quiet_def startProject_def stopAll_def stopProject_def resumeProject_def Let_def)

interpretation shut: guarded_machine engine_step "\<lambda>c. c \<noteq> SetShuttingDown False" "quiet old" for old
  by unfold_locales (rule quiet_step)

text \<open>C21: Once the scheduler is shutting down it starts nothing more: timer ticks, delayed restarts
  that were already under way, crashes of daemons and even a call that starts all projects leave no
  instance that was not there when the shutdown began.\<close>

theorem shutdown_starts_nothing:
  assumes "m_shuttingDown s" and "mgr_ok (mgr s)" and "list_all (\<lambda>c. c \<noteq> SetShuttingDown False) calls"
    and "om_has (m_instances (mgr (run_events engine_step s calls))) iid"
  shows "om_has (m_instances (mgr s)) iid"
proof -
  have "quiet (om_has (m_instances (mgr s))) s" using assms(1,2) by (simp add: quiet_def)
  from shut.run_guarded [OF this assms(3)] assms(4) show ?thesis by (simp add: quiet_def)
qed

lemma shutdown_starts_nothing_witness:
  "\<not> om_has (m_instances (mgr (run_events engine_step ((new_sched ''d'' [])\<lparr>m_shuttingDown := True, m_restarts := [(''a'', ''svc'')]\<rparr>)
     [StartAll (\<lambda>_. good_env ''i'') [(''a'', daemon_project)] some_services, Event (EvRestart 0 (good_env ''i''))]))) ''i''"
proof
  let ?s = "(new_sched ''d'' [])\<lparr>m_shuttingDown := True, m_restarts := [(''a'', ''svc'')]\<rparr>"
  let ?c = "[StartAll (\<lambda>_. good_env ''i'') [(''a'', daemon_project)] some_services, Event (EvRestart 0 (good_env ''i''))]"
  assume a: "om_has (m_instances (mgr (run_events engine_step ?s ?c))) ''i''"
  have "om_has (m_instances (mgr ?s)) ''i''"
    by (rule shutdown_starts_nothing [OF _ _ _ a]) (simp_all add: new_sched_def new_manager_def mgr_ok_def)
  then show False by (simp add: new_sched_def new_manager_def)
qed

definition held :: "string \<Rightarrow> nat \<Rightarrow> sched \<Rightarrow> bool" where
  "held pid n s \<longleftrightarrow> mgr_ok (mgr s) \<and> pid \<in> m_restartSuppressed s \<and> om_get (m_timers s) pid = None
     \<and> (\<forall>k p. om_get (e_projects s) k = Some p \<longrightarrow> pr_id p = k) \<and> cnt pid (m_instances (mgr s)) \<le> n"

text \<open>The calls that do not take up the project again.\<close>

fun leaves :: "string \<Rightarrow> engine_call \<Rightarrow> bool" where
  "leaves pid (StartAll env projects services) = False"
| "leaves pid StopAll = False"
| "leaves pid (StartProject env p services) = (pr_id p \<noteq> pid)"
| "leaves pid (ResumeProject k) = (k \<noteq> pid)"
| "leaves pid _ = True"

lemma held_start:
  assumes "held pid n s" and "pr_id p \<noteq> pid"
  shows "held pid n (snd (start_instance env p dir s))"
proof -
  obtain r sigs m where "startInstance env p dir (mgr s) = (r, sigs, m)" by (metis prod_cases3)
  with startInstance_ok [of "mgr s", OF _ this, of pid] assms subsetD [OF start_instance_keeps(5) [of s env p dir]] show ?thesis
    by (auto simp: held_def mgr_start_instance sched_simps)
qed

lemma held_publish [simp]: "held pid n (publish sig s) = held pid n s"
  by (simp add: held_def)

lemma held_daemon: "held pid n s \<Longrightarrow> held pid n (startDaemon env p dir s)"
proof (cases "pr_id p = pid")
  case True
  assume h: "held pid n s"
  then have "startDaemon env p dir s = s" using True by (simp add: startDaemon_def held_def)
  with h show ?thesis by simp
qed (simp add: startDaemon_def held_start)

lemma held_timers: "held pid n s \<Longrightarrow> k \<noteq> pid \<Longrightarrow> held pid n (s\<lparr>m_timers := om_put k d (m_timers s)\<rparr>)"
  by (simp add: held_def)

lemma held_scheduled: "held pid n s \<Longrightarrow> pr_id p \<noteq> pid \<Longrightarrow> held pid n (start_scheduled env p s)"
  using held_daemon held_timers
  by (auto simp: start_scheduled_def startFixedRate_def split: option.split schedule_type.split)

lemma held_tick: "held pid n s \<Longrightarrow> held pid n (timer_tick env k s)"
proof (cases "om_get (e_projects s) k")
  case (Some p)
  assume h: "held pid n s"
  then have "pr_id p = k" "k = pid \<Longrightarrow> om_get (m_timers s) k = None" using Some by (auto simp: held_def)
  with h Some show ?thesis by (cases "k = pid") (auto simp: timer_tick_def held_start split: option.split)
qed (auto simp: timer_tick_def split: option.split)

lemma held_restart:
  assumes "held pid n s"
  shows "held pid n (restart_due env i s)"
proof -
  define s1 where "s1 = s\<lparr>m_restarts := take i (m_restarts s) @ drop (Suc i) (m_restarts s)\<rparr>"
  have "held pid n s1" using assms by (simp add: held_def s1_def)
  with assms held_daemon show ?thesis
    by (auto simp: restart_due_def s1_def [symmetric] Let_def split: option.split prod.split)
qed

lemma held_step:
  assumes "held pid n s" and "leaves pid c"
  shows "held pid n (engine_step s c)"
proof (cases c)
  case (Event e)
  show ?thesis
  proof (cases e)
    case (EvInstance ev)
    then show ?thesis
      using assms instance_step_ok [of "mgr s" ev pid] subsetD [OF deliver_all_keeps(6) [of s "instance_step ev (mgr s)"]]
      by (auto simp: Event held_def sched_simps)
  qed (simp_all add: Event assms held_tick held_restart)
next
  case (StartProject env p services)
  with assms have "held pid n (s\<lparr>e_projects := om_put (pr_id p) p (e_projects s), e_services := services,
      m_timers := om_del (pr_id p) (m_timers s), m_restartSuppressed := m_restartSuppressed s - {pr_id p},
      m_consecutiveFailures := om_del (pr_id p) (m_consecutiveFailures s)\<rparr>)"
    by (auto simp: held_def)
  with assms StartProject show ?thesis by (simp add: startProject_def Let_def held_scheduled)
qed (use assms terminate_cnt in \<open>auto simp: held_def stopProject_def resumeProject_def
      on_manager_def terminateByProject_def terminateAll_def Let_def\<close>)

interpretation stop: guarded_machine engine_step "leaves pid" "held pid n" for pid n
  by unfold_locales (rule held_step)

text \<open>Stopping all projects forgets that one of them had been stopped on its own.\<close>

lemma stop_all_forgets_stop: "stopAll (stopProject pid s) = stopAll s"
  by (simp add: stopAll_def stopProject_def)

text \<open>C20: After a project was stopped no further instance of it is started, be it by a tick of its timer
  or by a restart that was under way, until the scheduler is told to start all projects or this one,
  to resume it, or to stop all projects. The last of these belongs to the exceptions because it also
  clears the mark of the stopped project (stop_all_forgets_stop): a restart of it that is still under way
  then starts it again, unless the scheduler is shutting down.\<close>

theorem stopped_project_stays_down:
  assumes "mgr_ok (mgr s)" and "\<And>k p. om_get (e_projects s) k = Some p \<Longrightarrow> pr_id p = k" and "pid \<noteq> []"
    and "list_all (leaves pid) calls"
  shows "instanceCount pid (mgr (run_events engine_step (stopProject pid s) calls)) \<le> instanceCount pid (mgr s)"
proof -
  have "held pid (instanceCount pid (mgr s)) (stopProject pid s)"
    using assms(1,2) cnt_le_instanceCount by (auto simp: held_def stopProject_def)
  from stop.run_guarded [OF this assms(4)] show ?thesis by (simp add: held_def instanceCount_cnt [OF assms(3)])
qed

lemma stopped_project_stays_down_witness:
  "instanceCount ''a'' (mgr (run_events engine_step
     (stopProject ''a'' ((new_sched ''d'' [])\<lparr>e_projects := [(''a'', daemon_project)], m_restarts := [(''a'', ''svc'')]\<rparr>))
     [Event (EvRestart 0 (good_env ''i'')), Event (EvTick ''a'' (good_env ''j''))])) = 0"
proof -
  let ?s = "(new_sched ''d'' [])\<lparr>e_projects := [(''a'', daemon_project)], m_restarts := [(''a'', ''svc'')]\<rparr>"
  have "mgr_ok (mgr ?s)" "\<And>k p. om_get (e_projects ?s) k = Some p \<Longrightarrow> pr_id p = k"
    by (auto simp: new_sched_def new_manager_def mgr_ok_def daemon_project_def split: if_splits)
  from stopped_project_stays_down [OF this, of "''a''"
      "[Event (EvRestart 0 (good_env ''i'')), Event (EvTick ''a'' (good_env ''j''))]"]
  show ?thesis by (simp add: new_sched_def new_manager_def instanceCount_def)
qed

section \<open>Crash loops\<close>

definition crash_run :: "string \<Rightarrow> (int \<times> bool) list \<Rightarrow> sched \<Rightarrow> sched" where
  "crash_run pid exits s = fold (\<lambda>(exitCode, crashed). onInstanceFinished pid exitCode crashed) exits s"

lemma crash_run_suppressed: "pid \<in> m_restartSuppressed s \<Longrightarrow> crash_run pid exits s = s"
  by (induction exits) (auto simp: crash_run_def onInstanceFinished_def)

lemma crash_run_from:
  assumes "\<not> m_shuttingDown s" and "pid \<notin> m_restartSuppressed s" and "om_get (e_projects s) pid = Some p"
    and "pr_enabled p" and "pr_valid p" and "sc_type (pr_schedule p) = Daemon"
    and "om_get (e_services s) (serviceId p) = Some service"
    and "(case om_get (m_consecutiveFailures s) pid of Some n \<Rightarrow> n | None \<Rightarrow> 0) = int k"
    and "int k < maxConsecutiveFailures (pr_schedule p)"
    and "\<forall>(exitCode, crashed) \<in> set exits. crashed \<or> exitCode \<noteq> 0"
  shows "let s' = crash_run pid exits s; n = nat (maxConsecutiveFailures (pr_schedule p)) in
    if k + length exits < n
    then m_restarts s' = m_restarts s @ replicate (length exits) (pid, sv_serviceDir service)
      \<and> pid \<notin> m_restartSuppressed s' \<and> published s' = published s
    else m_restarts s' = m_restarts s @ replicate (n - 1 - k) (pid, sv_serviceDir service)
      \<and> pid \<in> m_restartSuppressed s'
      \<and> published s' = published s @ [scheduleSuppressed pid ''crash_loop'' (maxConsecutiveFailures (pr_schedule p))]"
  using assms
proof (induction exits arbitrary: s k)
  case Nil
  then show ?case by (simp add: crash_run_def)
next
  case (Cons e exits)
  obtain exitCode crashed where e: "e = (exitCode, crashed)" by fastforce
  have abnormal: "\<not> (\<not> crashed \<and> exitCode = 0)" using Cons.prems(10) by (auto simp: e)
  let ?N = "maxConsecutiveFailures (pr_schedule p)"
  define s1 where "s1 = onInstanceFinished pid exitCode crashed s"
  have run: "crash_run pid (e # exits) s = crash_run pid exits s1" by (simp add: crash_run_def e s1_def)
  show ?case
  proof (cases "?N \<le> int k + 1")
    case True
    then have N: "?N = int k + 1" using Cons.prems(9) by simp
    have s1: "s1 = publish (scheduleSuppressed pid ''crash_loop'' (int k + 1))
        (s\<lparr>m_consecutiveFailures := om_put pid (int k + 1) (m_consecutiveFailures s),
           m_restartSuppressed := insert pid (m_restartSuppressed s)\<rparr>)"
      using Cons.prems abnormal True by (auto simp: s1_def onInstanceFinished_def Let_def)
    have "crash_run pid exits s1 = s1" by (rule crash_run_suppressed) (simp add: s1)
    then show ?thesis using N by (simp add: run s1 publish_def Let_def)
  next
    case False
    have s1: "s1 = s\<lparr>m_consecutiveFailures := om_put pid (int k + 1) (m_consecutiveFailures s),
        m_restarts := m_restarts s @ [(pid, sv_serviceDir service)]\<rparr>"
      using Cons.prems abnormal False by (auto simp: s1_def onInstanceFinished_def Let_def)
    have ih: "let s' = crash_run pid exits s1; n = nat ?N in
      if Suc k + length exits < n
      then m_restarts s' = m_restarts s1 @ replicate (length exits) (pid, sv_serviceDir service)
        \<and> pid \<notin> m_restartSuppressed s' \<and> published s' = published s1
      else m_restarts s' = m_restarts s1 @ replicate (n - 1 - Suc k) (pid, sv_serviceDir service)
        \<and> pid \<in> m_restartSuppressed s'
        \<and> published s' = published s1 @ [scheduleSuppressed pid ''crash_loop'' ?N]"
      using Cons.prems False by (intro Cons.IH) (auto simp: s1)
    have "nat ?N - Suc k = Suc (nat ?N - 1 - Suc k)" using False by simp
    with ih show ?thesis by (simp add: run Let_def s1 split: if_splits)
  qed
qed

text \<open>C19: A daemon that keeps failing is given up at its limit: as long as fewer than
  \<open>maxConsecutiveFailures\<close> instances in a row have ended abnormally each of them is followed by one
  delayed restart, and the one that reaches the limit is followed by none but by the suppression,
  announced once, after which further ends change nothing.\<close>

theorem crash_loop_given_up:
  assumes "\<not> m_shuttingDown s" and "pid \<notin> m_restartSuppressed s" and "om_get (e_projects s) pid = Some p"
    and "pr_enabled p" and "pr_valid p" and "sc_type (pr_schedule p) = Daemon"
    and "om_get (e_services s) (serviceId p) = Some service"
    and "om_get (m_consecutiveFailures s) pid = None"
    and "maxConsecutiveFailures (pr_schedule p) = int n" and "0 < n"
    and "\<forall>(exitCode, crashed) \<in> set exits. crashed \<or> exitCode \<noteq> 0"
    and "s' = crash_run pid exits s"
  shows "m_restarts s' = m_restarts s @ replicate (min (length exits) (n - 1)) (pid, sv_serviceDir service)
    \<and> (pid \<in> m_restartSuppressed s' \<longleftrightarrow> n \<le> length exits)
    \<and> published s' = published s @ (if n \<le> length exits then [scheduleSuppressed pid ''crash_loop'' (int n)] else [])"
  using crash_run_from [OF assms(1-7), of 0 exits] assms(8-12)
  by (auto simp: Let_def min_def split: if_splits)

lemma crash_loop_given_up_witness:
  "m_restarts (crash_run ''a'' (replicate 7 (1, False))
     ((new_sched ''d'' [])\<lparr>e_projects := [(''a'', daemon_project)], e_services := some_services\<rparr>)) =
   replicate 4 (''a'', ''svc'')"
proof -
  let ?s = "(new_sched ''d'' [])\<lparr>e_projects := [(''a'', daemon_project)], e_services := some_services\<rparr>"
  have "maxConsecutiveFailures (pr_schedule daemon_project) = int 5"
    by (simp add: daemon_project_def Schedule_default_def)
  from crash_loop_given_up [of ?s "''a''" daemon_project some_service 5 "replicate 7 (1, False)", OF _ _ _ _ _ _ _ _ this]
  show ?thesis
    by (simp add: new_sched_def some_services_def some_service_def daemon_project_def Project_default_def)
qed

section \<open>A restart that comes after the project was changed\<close>

text \<open>
  The single shot of a delayed restart looks at the suppression of its project but not at the
  project's schedule or whether it is enabled. A stop suppresses it, but starting all projects, as
  the server does after every change of a project, clears that. So a daemon that has crashed and is
  then disabled or made a manual project is started once more when its delay is over.
\<close>

lemma restart_after_change:
  assumes "m_restarts s = [(pid, dir)]" and "\<not> m_shuttingDown s" and "instanceCount pid (mgr s) = 0"
    and "m_serviceProgram (mgr s) = []" and "\<not> om_has (m_instances (mgr s)) iid"
    and "pr_id p = pid" and "pr_valid p" and "\<not> pr_enabled p \<or> sc_type (pr_schedule p) = Manual"
    and "dir \<noteq> []" and "pid \<noteq> []"
  shows "instanceCount pid (mgr (restart_due (good_env iid) 0
    (startAll env [(pid, p)] services (stopProject pid s)))) = 1"
proof -
  define s1 where "s1 = startAll env [(pid, p)] services (stopProject pid s)"
  have s1: "s1 = (stopAll (stopProject pid s))\<lparr>e_projects := [(pid, p)], e_services := services\<rparr>"
    using assms(8) by (auto simp: s1_def startAll_def start_scheduled_def split: option.split)
  define s2 where "s2 = s1\<lparr>m_restarts := []\<rparr>"
  have s2: "mgr s2 = mgr s" "e_projects s2 = [(pid, p)]" "\<not> m_shuttingDown s2" "m_restartSuppressed s2 = {}"
    using assms(2) by (simp_all add: s2_def s1 stopAll_def stopProject_def)
  have "m_restarts s1 = [(pid, dir)]" "\<not> m_shuttingDown s1" "m_restartSuppressed s1 = {}"
    using assms(1,2) by (simp_all add: s1 stopAll_def stopProject_def)
  then have "restart_due (good_env iid) 0 s1 = startDaemon (good_env iid) p dir s2"
    using s2(2) by (simp add: restart_due_def s2_def)
  also have "\<dots> = snd (start_instance (good_env iid) p dir (publish (scheduleTriggered pid ''daemon'') s2))"
    using s2 assms(3,6) by (simp add: startDaemon_def)
  finally have m: "mgr (restart_due (good_env iid) 0 s1) = snd (snd (startInstance (good_env iid) p dir (mgr s)))"
    by (simp add: mgr_start_instance s2)
  from assms(7,9,5,4) show ?thesis
  proof (rule start_good)
    fix inst
    assume i: "startInstance (good_env iid) p dir (mgr s) =
        (Inr iid, [], (put_instance inst (mgr s))\<lparr>m_startTimers := iid # m_startTimers (mgr s)\<rparr>)"
      "in_id inst = iid" "in_projectId inst = pr_id p"
    have "om_get (m_instances (mgr s)) (in_id inst) = None" using assms(5) i(2) by (simp add: om_has_def)
    then show ?thesis
      using assms(3,6,10) i by (simp add: s1_def [symmetric] m instanceCount_cnt cnt_put_new put_instance_def)
  qed
qed

end
