(* ===== verification/ProjectStoreSpec.thy ===== *)
theory ProjectStoreSpec
  imports ProjectStore
begin

text \<open>
  What the storage of projects promises: schedules that are read are in range, a project that was
  saved is the project that is loaded, and a save that meets one failing file operation leaves
  either both files as they were or both files new.
\<close>

section \<open>Schedules and projects as JSON\<close>

definition schedule_wf :: "schedule \<Rightarrow> bool" where
  "schedule_wf s \<longleftrightarrow> 0 \<le> runTimeoutMs s \<and> runTimeoutMs s \<le> int_max
     \<and> (if sc_type s = FixedRate
        then 100 \<le> intervalMs s \<and> intervalMs s \<le> int_max \<and> 1 \<le> maxConcurrent s \<and> maxConcurrent s \<le> int_max
        else intervalMs s = 5000 \<and> maxConcurrent s = 1)
     \<and> (if sc_type s = Daemon
        then 0 \<le> restartDelayMs s \<and> restartDelayMs s \<le> int_max
          \<and> 1 \<le> maxConsecutiveFailures s \<and> maxConsecutiveFailures s \<le> int_max
        else restartDelayMs s = 3000 \<and> maxConsecutiveFailures s = 5)"

lemma nonneg_field: "parseNonNegativeIntField obj key d = Inr i \<Longrightarrow> 0 \<le> d \<Longrightarrow> d \<le> int_max \<Longrightarrow> 0 \<le> i \<and> i \<le> int_max"
proof -
  assume a: "parseNonNegativeIntField obj key d = Inr i" "0 \<le> d" "d \<le> int_max"
  show ?thesis
  proof (cases "om_has obj key")
    case True
    let ?r = "to_double (jval obj key)"
    from a True have i: "i = \<lfloor>?r\<rfloor>" "of_int \<lfloor>?r\<rfloor> = ?r" "\<not> ?r < 0" "\<not> of_int int_max < ?r"
      by (auto simp: parseNonNegativeIntField_def Let_def split: if_splits)
    from i(2) obtain n where n: "?r = of_int n" by metis
    with i(1,3,4) show ?thesis by simp
  qed (use a in \<open>simp add: parseNonNegativeIntField_def\<close>)
qed

lemma int_max_pos: "5000 \<le> int_max"
  by (simp add: int_max_def)

lemma to_int_le: "d \<le> int_max \<Longrightarrow> - 1 \<le> d \<Longrightarrow> to_int_or d v \<le> int_max"
  using to_int_in_int [of d v] by (auto simp: in_int_def int_min_def int_max_def)

text \<open>A schedule that is read without an error has every number in its range: the run timeout is
  not negative, the interval is at least 100 ms and the concurrency at least one for a fixed rate,
  the restart delay is not negative and the limit of failures at least one for a daemon.\<close>

theorem parsed_schedule_in_range:
  assumes "Schedule_fromJson obj = (s, [])"
  shows "schedule_wf s"
proof -
  obtain timeout where t: "parseNonNegativeIntField obj ''runTimeoutMs'' 0 = Inr timeout"
    using assms by (cases "parseNonNegativeIntField obj ''runTimeoutMs'' 0")
      (auto simp: Schedule_fromJson_def parseNonNegativeIntField_def Let_def split: if_splits)
  have "0 \<le> timeout \<and> timeout \<le> int_max" using nonneg_field [OF t] int_max_pos by simp
  then show ?thesis
    using assms to_int_le int_max_pos
    by (auto simp: Schedule_fromJson_def t Let_def schedule_wf_def Schedule_default_def split: if_splits)
qed

lemma parsed_schedule_in_range_witness:
  "schedule_wf (fst (Schedule_fromJson [(''intervalMs'', jint 250), (''type'', JStr ''fixed_rate'')]))"
proof -
  let ?obj = "[(''intervalMs'', jint 250), (''type'', JStr ''fixed_rate'')]"
  have "Schedule_fromJson ?obj = (fst (Schedule_fromJson ?obj), [])"
    by (rule prod_eqI) (simp_all add: Schedule_fromJson_def parseNonNegativeIntField_def Schedule_default_def
        in_int_def int_min_def int_max_def rat_int_def Let_def)
  then show ?thesis by (rule parsed_schedule_in_range)
qed

lemma in_int_nonneg: "0 \<le> i \<Longrightarrow> i \<le> int_max \<Longrightarrow> in_int i"
  by (simp add: in_int_def int_min_def)

lemma parse_field_jint:
  "jval obj key = jint i \<Longrightarrow> om_has obj key \<Longrightarrow> 0 \<le> i \<Longrightarrow> i \<le> int_max \<Longrightarrow> parseNonNegativeIntField obj key d = Inr i"
  by (simp add: parseNonNegativeIntField_def Let_def)

lemma schedule_roundtrip: "schedule_wf s \<Longrightarrow> Schedule_fromJson (Schedule_toJson s) = (s, [])"
proof -
  assume wf: "schedule_wf s"
  then have t: "parseNonNegativeIntField (Schedule_toJson s) ''runTimeoutMs'' 0 = Inr (runTimeoutMs s)"
    by (intro parse_field_jint) (auto simp: Schedule_toJson_def schedule_wf_def Let_def split: schedule_type.split)
  show ?thesis
    using wf unfolding Schedule_fromJson_def t
    by (cases "sc_type s"; simp add: Let_def Schedule_toJson_def schedule_wf_def Schedule_default_def in_int_nonneg)
qed

definition project_wf :: "project \<Rightarrow> bool" where
  "project_wf p \<longleftrightarrow> pr_name p \<noteq> [] \<and> serviceId p \<noteq> [] \<and> schedule_wf (pr_schedule p)"

lemma Project_toJson_keys: "set (om_keys (Project_toJson p)) \<subseteq> set (known_project_fields False)"
proof
  fix k
  assume "k \<in> set (om_keys (Project_toJson p))"
  then have "om_has (Project_toJson p) k" by (simp add: om_has_keys)
  then show "k \<in> set (known_project_fields False)"
    by (auto simp: Project_toJson_def known_project_fields_def split: if_splits)
qed

lemma project_roundtrip:
  assumes "project_wf p"
  shows "Project_fromStorageJson (pr_id p) (Project_toJson p) =
    (p\<lparr>pr_config := [], pr_valid := True, pr_error := []\<rparr>, [])"
proof -
  have known: "find (\<lambda>k. k \<notin> set (known_project_fields False)) (om_keys (Project_toJson p)) = None"
    using Project_toJson_keys by (auto simp: find_None_iff)
  have members: "\<not> om_has (Project_toJson p) ''config''"
      "om_has (Project_toJson p) ''id''" "jval (Project_toJson p) ''id'' = JStr (pr_id p)"
      "om_has (Project_toJson p) ''name''" "jval (Project_toJson p) ''name'' = JStr (pr_name p)"
      "om_has (Project_toJson p) ''serviceId''" "jval (Project_toJson p) ''serviceId'' = JStr (serviceId p)"
      "om_has (Project_toJson p) ''enabled''" "jval (Project_toJson p) ''enabled'' = JBool (pr_enabled p)"
      "om_has (Project_toJson p) ''schedule''"
      "jval (Project_toJson p) ''schedule'' = JObj (Schedule_toJson (pr_schedule p))"
    by (simp_all add: Project_toJson_def)
  have sched: "Schedule_fromJson (Schedule_toJson (pr_schedule p)) = (pr_schedule p, [])"
    using assms by (intro schedule_roundtrip) (simp add: project_wf_def)
  show ?thesis
    unfolding Project_fromStorageJson_def parseProjectJson_def
    using assms
    by (simp add: known members parse_project_rest_def sched Project_default_def project_wf_def)
qed

section \<open>The disk under one failure\<close>

definition calm :: "disk \<Rightarrow> bool" where
  "calm d \<longleftrightarrow> True \<notin> set (faults d)"

definition one_fault :: "disk \<Rightarrow> bool" where
  "one_fault d \<longleftrightarrow> length (filter id (faults d)) \<le> 1"

named_theorems disk_simps \<open>what a file operation does to the disk\<close>

lemma calm_one: "calm d \<Longrightarrow> one_fault d"
proof -
  assume "calm d"
  then have "filter id (faults d) = []" by (auto simp: calm_def filter_empty_conv)
  then show ?thesis by (simp add: one_fault_def)
qed

lemma next_fault_calm [disk_simps]:
  "calm d \<Longrightarrow> \<not> fst (next_fault d) \<and> calm (snd (next_fault d)) \<and> files (snd (next_fault d)) = files d"
  by (cases "faults d") (auto simp: next_fault_def calm_def)

lemma next_fault_one:
  assumes "one_fault d"
  obtains d' where "next_fault d = (True, d')" "calm d'" "files d' = files d"
  | d' where "next_fault d = (False, d')" "one_fault d'" "files d' = files d"
proof (cases "faults d")
  case Nil
  with assms show ?thesis by (intro that(2) [of d]) (auto simp: next_fault_def one_fault_def)
next
  case (Cons f fs)
  have rest: "f \<Longrightarrow> True \<notin> set fs"
  proof
    assume "f" "True \<in> set fs"
    then have "filter id fs \<noteq> []" by (auto simp: filter_empty_conv)
    with assms Cons \<open>f\<close> show False by (cases "filter id fs") (auto simp: one_fault_def)
  qed
  show ?thesis
  proof (cases f)
    case True
    with Cons rest show ?thesis by (intro that(1) [of "d\<lparr>faults := fs\<rparr>"]) (auto simp: next_fault_def calm_def)
  next
    case False
    with Cons assms show ?thesis by (intro that(2) [of "d\<lparr>faults := fs\<rparr>"]) (auto simp: next_fault_def one_fault_def)
  qed
qed

lemma put_file_simps [simp]:
  "files (put_file p c d) = (files d)(p := c)" "faults (put_file p c d) = faults d"
  "calm (put_file p c d) = calm d" "one_fault (put_file p c d) = one_fault d"
  by (simp_all add: put_file_def calm_def one_fault_def)

lemma file_remove_calm:
  "calm d \<Longrightarrow> calm (snd (file_remove p d)) \<and> files (snd (file_remove p d)) = (files d)(p := None)"
  using next_fault_calm [of d] by (auto simp: file_remove_def split_beta Let_def)

lemma file_remove_files:
  "files (snd (file_remove p d)) = files d \<or> files (snd (file_remove p d)) = (files d)(p := None)"
  by (cases "faults d") (auto simp: file_remove_def next_fault_def Let_def)

lemma file_rename_calm:
  assumes "calm d"
  shows "calm (snd (file_rename a b d))"
    and "files d a = Some x \<Longrightarrow> files d b = None \<Longrightarrow>
      fst (file_rename a b d) \<and> files (snd (file_rename a b d)) = (files d)(b := Some x, a := None)"
  using next_fault_calm [OF assms] by (auto simp: file_rename_def split_beta Let_def)

lemma file_rename_one:
  assumes "one_fault d" and "files d a = Some x" and "files d b = None"
  obtains d' where "file_rename a b d = (False, d')" "calm d'" "files d' = files d"
  | d' where "file_rename a b d = (True, d')" "one_fault d'" "files d' = (files d)(b := Some x, a := None)"
  using assms(1)
  by (rule next_fault_one) (use assms(2,3) that in \<open>auto simp: file_rename_def\<close>)

lemma write_temp_one:
  assumes "one_fault d" and "files d temp = None"
  obtains err path d' where "writeTempJsonObjectFile to_json temp baseName obj d = (Inl err, path, d')"
      "calm d'" "files d' = files d" "path = [] \<or> path = temp"
  | d' where "writeTempJsonObjectFile to_json temp baseName obj d = (Inr (), temp, d')"
      "one_fault d'" "files d' = (files d)(temp := Some (to_json (JObj obj)))"
  using assms(1)
proof (rule next_fault_one)
  fix d1
  assume "next_fault d = (True, d1)" "calm d1" "files d1 = files d"
  then show ?thesis by (intro that(1) [of _ _ d1]) (auto simp: writeTempJsonObjectFile_def)
next
  fix d1
  assume d1: "next_fault d = (False, d1)" "one_fault d1" "files d1 = files d"
  let ?d1 = "put_file temp (Some []) d1"
  have "one_fault ?d1" using d1 by simp
  then show ?thesis
  proof (rule next_fault_one)
    fix d2
    assume d2: "next_fault ?d1 = (True, d2)" "calm d2" "files d2 = files ?d1"
    then have "files (snd (file_remove temp d2)) = files d"
      using d1 assms(2) file_remove_calm [OF d2(2), of temp] by (simp add: fun_upd_idem)
    with d1 d2 file_remove_calm [OF d2(2), of temp] show ?thesis
      by (intro that(1) [of _ _ "snd (file_remove temp d2)"]) (auto simp: writeTempJsonObjectFile_def Let_def)
  next
    fix d2
    assume d2: "next_fault ?d1 = (False, d2)" "one_fault d2" "files d2 = files ?d1"
    let ?d2 = "put_file temp (Some (to_json (JObj obj))) d2"
    have "one_fault ?d2" using d2 by simp
    then show ?thesis
    proof (rule next_fault_one)
      fix d3
      assume d3: "next_fault ?d2 = (True, d3)" "calm d3" "files d3 = files ?d2"
      then have "files (snd (file_remove temp d3)) = files d"
        using d1 d2 assms(2) file_remove_calm [OF d3(2), of temp] by (simp add: fun_upd_idem)
      with d1 d2 d3 file_remove_calm [OF d3(2), of temp] show ?thesis
        by (intro that(1) [of _ _ "snd (file_remove temp d3)"]) (auto simp: writeTempJsonObjectFile_def Let_def)
    next
      fix d3
      assume "next_fault ?d2 = (False, d3)" "one_fault d3" "files d3 = files ?d2"
      with d1 d2 show ?thesis by (intro that(2) [of d3]) (auto simp: writeTempJsonObjectFile_def Let_def)
    qed
  qed
qed

section \<open>The save transaction\<close>

text \<open>What the rollback of one entry does to the files when no operation of it fails.\<close>

definition undo :: "save_entry \<Rightarrow> (string \<Rightarrow> bytes option) \<Rightarrow> string \<Rightarrow> bytes option" where
  "undo e g =
     (let g = (if installed e then g(finalPath e := None) else g);
          g = (if movedToBackup e \<and> g (backupPath e) \<noteq> None \<and> g (finalPath e) = None
               then g(finalPath e := g (backupPath e), backupPath e := None) else g)
      in if tempPath e \<noteq> [] then g(tempPath e := None) else g)"

lemma file_rename_calm_files:
  "calm d \<Longrightarrow> files (snd (file_rename a b d)) =
     (if files d a \<noteq> None \<and> files d b = None then (files d)(b := files d a, a := None) else files d)"
  using next_fault_calm [of d] by (auto simp: file_rename_def split_beta Let_def)

lemma rollback_entry_calm:
  assumes "calm d"
  shows "calm (snd (rollback_entry e (err, d))) \<and> files (snd (rollback_entry e (err, d))) = undo e (files d)"
proof -
  define d1 where "d1 = (if installed e then snd (file_remove (finalPath e) d) else d)"
  have d1: "calm d1" "files d1 = (if installed e then (files d)(finalPath e := None) else files d)"
    unfolding d1_def using assms file_remove_calm [OF assms] by simp_all
  define d2 where "d2 = (if movedToBackup e then snd (file_rename (backupPath e) (finalPath e) d1) else d1)"
  have d2: "calm d2" "files d2 = (let g = files d1 in
      if movedToBackup e \<and> g (backupPath e) \<noteq> None \<and> g (finalPath e) = None
      then g(finalPath e := g (backupPath e), backupPath e := None) else g)"
    unfolding d2_def using d1(1) file_rename_calm(1) [OF d1(1)] file_rename_calm_files [OF d1(1)]
    by (simp_all add: Let_def)
  have "snd (rollback_entry e (err, d)) = (if tempPath e \<noteq> [] then snd (file_remove (tempPath e) d2) else d2)"
    by (simp add: rollback_entry_def Let_def split_beta d1_def d2_def)
  with d2 file_remove_calm [OF d2(1), of "tempPath e"] show ?thesis
    by (simp add: undo_def Let_def d1(2))
qed

lemma rollback_two:
  assumes "calm d"
  shows "files (snd (rollbackSaveTransaction [e1, e2] err d)) = undo e1 (undo e2 (files d))"
  using rollback_entry_calm [OF assms, of e2 "[]"] rollback_entry_calm
  by (simp add: rollbackSaveTransaction_def Let_def split_beta) (metis prod.collapse)

lemma cleanup_two:
  assumes "calm d"
  shows "files (cleanupTransactionTemps [e1, e2] d) = (\<lambda>p. if p \<noteq> [] \<and> (p = tempPath e1 \<or> p = tempPath e2) then None else files d p)"
  using assms file_remove_calm
  by (auto simp: cleanupTransactionTemps_def fun_eq_iff)

definition temp_entry :: "string \<Rightarrow> string \<Rightarrow> save_entry" where
  "temp_entry path temp = (new_entry path)\<lparr>tempPath := temp\<rparr>"

lemma write_temps_two:
  assumes "one_fault d" and "files d t1 = None" and "files d t2 = None" and "t1 \<noteq> t2" and "t1 \<noteq> []" and "t2 \<noteq> []"
  obtains err es d' where
      "write_temps to_json [(new_entry C, t1, n1, o1), (new_entry P, t2, n2, o2)] d = (Inl err, es, d')"
      "files (cleanupTransactionTemps es d') = files d"
  | d' where
      "write_temps to_json [(new_entry C, t1, n1, o1), (new_entry P, t2, n2, o2)] d =
         (Inr (), [temp_entry C t1, temp_entry P t2], d')"
      "one_fault d'" "files d' = (files d)(t1 := Some (to_json (JObj o1)), t2 := Some (to_json (JObj o2)))"
  using assms(1,2)
proof (rule write_temp_one [where to_json = to_json and baseName = n1 and obj = o1])
  fix err path d1
  assume w: "writeTempJsonObjectFile to_json t1 n1 o1 d = (Inl err, path, d1)" "calm d1" "files d1 = files d"
    "path = [] \<or> path = t1"
  then show ?thesis
    using assms(2) by (intro that(1) [OF _ trans [OF cleanup_two [OF w(2)]]]) (auto simp: new_entry_def fun_eq_iff)
next
  fix d1
  assume w1: "writeTempJsonObjectFile to_json t1 n1 o1 d = (Inr (), t1, d1)" "one_fault d1"
    "files d1 = (files d)(t1 := Some (to_json (JObj o1)))"
  have "files d1 t2 = None" using w1(3) assms(3,4) by simp
  with w1(2) show ?thesis
  proof (rule write_temp_one [where to_json = to_json and baseName = n2 and obj = o2])
    fix err path d2
    assume w: "writeTempJsonObjectFile to_json t2 n2 o2 d1 = (Inl err, path, d2)" "calm d2" "files d2 = files d1"
      "path = [] \<or> path = t2"
    then show ?thesis
      using w1 assms by (intro that(1) [OF _ trans [OF cleanup_two [OF w(2)]]]) (auto simp: new_entry_def fun_eq_iff)
  next
    fix d2
    assume "writeTempJsonObjectFile to_json t2 n2 o2 d1 = (Inr (), t2, d2)" "one_fault d2"
      "files d2 = (files d1)(t2 := Some (to_json (JObj o2)))"
    with w1 show ?thesis by (intro that(2) [of d2]) (auto simp: temp_entry_def)
  qed
qed

definition aside :: "(string \<Rightarrow> bytes option) \<Rightarrow> string \<Rightarrow> save_entry \<Rightarrow> save_entry" where
  "aside g suf e =
     (if g (finalPath e) = None then e else e\<lparr>backupPath := finalPath e @ suf, movedToBackup := True\<rparr>)"

definition set_aside :: "(string \<Rightarrow> bytes option) \<Rightarrow> string \<Rightarrow> string \<Rightarrow> string \<Rightarrow> bytes option" where
  "set_aside g suf path =
     (if g path = None then g else g(path @ suf := g path, path := None))"

lemma backup_one:
  assumes "one_fault d" and "files d (finalPath e @ suf) = None"
  obtains d' where "\<And>es. \<exists>err. backup_files suf (e # es) d = (Inl err, e\<lparr>backupPath := finalPath e @ suf\<rparr> # es, d')"
      "calm d'" "files d' = files d"
  | d' where "\<And>es. backup_files suf (e # es) d =
        (let (r, es, d'') = backup_files suf es d' in (r, aside (files d) suf e # es, d''))"
      "one_fault d'" "files d' = set_aside (files d) suf (finalPath e)"
proof (cases "files d (finalPath e)")
  case None
  then show ?thesis
    using assms(1) by (intro that(2) [of d]) (auto simp: aside_def set_aside_def)
next
  case (Some x)
  from assms(1) Some assms(2) show ?thesis
  proof (rule file_rename_one)
    fix d'
    assume "file_rename (finalPath e) (finalPath e @ suf) d = (False, d')" "calm d'" "files d' = files d"
    with Some show ?thesis by (intro that(1) [of d']) auto
  next
    fix d'
    assume "file_rename (finalPath e) (finalPath e @ suf) d = (True, d')" "one_fault d'"
      "files d' = (files d)(finalPath e @ suf := Some x, finalPath e := None)"
    with Some show ?thesis by (intro that(2) [of d']) (auto simp: aside_def set_aside_def split: prod.splits)
  qed
qed

lemma backup_two:
  assumes "one_fault d" and "distinct [C, P, C @ suf, P @ suf, t1, t2]" and "t1 \<noteq> []" and "t2 \<noteq> []"
    and "files d (C @ suf) = None" and "files d (P @ suf) = None"
  obtains err es d' where "backup_files suf [temp_entry C t1, temp_entry P t2] d = (Inl err, es, d')"
      "files (snd (rollbackSaveTransaction es err d')) = (files d)(t1 := None, t2 := None)"
  | d' where "backup_files suf [temp_entry C t1, temp_entry P t2] d =
        (Inr (), [aside (files d) suf (temp_entry C t1), aside (files d) suf (temp_entry P t2)], d')"
      "one_fault d'" "files d' = set_aside (set_aside (files d) suf C) suf P"
  using assms(1)
proof (rule backup_one [where e = "temp_entry C t1" and suf = suf])
  show "files d (finalPath (temp_entry C t1) @ suf) = None"
    using assms(5) by (simp add: temp_entry_def new_entry_def)
next
  fix d1
  assume b: "\<And>es. \<exists>err. backup_files suf (temp_entry C t1 # es) d
      = (Inl err, (temp_entry C t1)\<lparr>backupPath := finalPath (temp_entry C t1) @ suf\<rparr> # es, d1)" "calm d1" "files d1 = files d"
  obtain err where "backup_files suf [temp_entry C t1, temp_entry P t2] d
      = (Inl err, [(temp_entry C t1)\<lparr>backupPath := C @ suf\<rparr>, temp_entry P t2], d1)"
    using b(1) [of "[temp_entry P t2]"] by (auto simp: temp_entry_def new_entry_def)
  then show ?thesis
    by (rule that(1)) (simp add: rollback_two [OF b(2)] undo_def temp_entry_def new_entry_def Let_def assms(3,4) b(3) fun_eq_iff)
next
  fix d1
  assume b: "\<And>es. backup_files suf (temp_entry C t1 # es) d =
      (let (r, es, d'') = backup_files suf es d1 in (r, aside (files d) suf (temp_entry C t1) # es, d''))"
    "one_fault d1" "files d1 = set_aside (files d) suf (finalPath (temp_entry C t1))"
  have C: "finalPath (temp_entry C t1) = C" "finalPath (temp_entry P t2) = P"
    by (simp_all add: temp_entry_def new_entry_def)
  have P1: "files d1 P = files d P" "files d1 (P @ suf) = None"
    using assms(2,6) b(3) by (auto simp: C set_aside_def)
  then have "files d1 (finalPath (temp_entry P t2) @ suf) = None" by (simp add: C)
  with b(2) show ?thesis
  proof (rule backup_one)
    fix d2
    assume b2: "\<And>es. \<exists>err. backup_files suf (temp_entry P t2 # es) d1
        = (Inl err, (temp_entry P t2)\<lparr>backupPath := finalPath (temp_entry P t2) @ suf\<rparr> # es, d2)"
      "calm d2" "files d2 = files d1"
    obtain err where "backup_files suf [temp_entry C t1, temp_entry P t2] d
        = (Inl err, [aside (files d) suf (temp_entry C t1), (temp_entry P t2)\<lparr>backupPath := P @ suf\<rparr>], d2)"
      using b(1) [of "[temp_entry P t2]"] b2(1) [of "[]"] by (auto simp: C)
    then show ?thesis
      by (rule that(1))
        (use assms(2-6) b(3) b2(3) in \<open>auto simp: rollback_two [OF b2(2)] undo_def aside_def set_aside_def
           temp_entry_def new_entry_def Let_def fun_eq_iff\<close>)
  next
    fix d2
    assume b2: "\<And>es. backup_files suf (temp_entry P t2 # es) d1 =
        (let (r, es, d'') = backup_files suf es d2 in (r, aside (files d1) suf (temp_entry P t2) # es, d''))"
      "one_fault d2" "files d2 = set_aside (files d1) suf (finalPath (temp_entry P t2))"
    have "aside (files d1) suf (temp_entry P t2) = aside (files d) suf (temp_entry P t2)"
      by (simp add: aside_def C P1)
    with b b2 show ?thesis
      by (intro that(2) [of d2]) (simp_all add: C)
  qed
qed

lemma undo_aside:
  assumes "t \<noteq> []" and "g A \<noteq> None \<Longrightarrow> h (A @ suf) = g A \<and> h A = None"
  shows "undo (aside g suf (temp_entry A t)) h =
    (if g A = None then h(t := None) else h(A := g A, A @ suf := None, t := None))"
  using assms by (auto simp: undo_def aside_def temp_entry_def new_entry_def Let_def)

lemma undo_installed:
  assumes "suf \<noteq> []" and "g A \<noteq> None \<Longrightarrow> h (A @ suf) = g A"
  shows "undo ((aside g suf (temp_entry A t))\<lparr>installed := True, tempPath := []\<rparr>) h =
    (if g A = None then h(A := None) else h(A := g A, A @ suf := None))"
  using assms by (auto simp: undo_def aside_def temp_entry_def new_entry_def Let_def)

lemma set_asides_at:
  assumes "distinct [C, P, C @ suf, P @ suf]" and "g (C @ suf) = None" and "g (P @ suf) = None"
  shows "set_aside (set_aside g suf C) suf P =
    (\<lambda>q. if q = C \<or> q = P then None else if q = C @ suf then g C else if q = P @ suf then g P else g q)"
  using assms by (auto simp: set_aside_def fun_eq_iff)

lemma install_two:
  assumes "one_fault d" and "distinct [C, P, C @ suf, P @ suf, t1, t2]" and "t1 \<noteq> []" and "t2 \<noteq> []"
    and "g (C @ suf) = None" and "g (P @ suf) = None" and "g t1 = Some x" and "g t2 = Some y"
    and "files d = set_aside (set_aside g suf C) suf P"
    and "e1 = aside g suf (temp_entry C t1)" and "e2 = aside g suf (temp_entry P t2)"
  obtains err es d' where "install_files [e1, e2] d = (Inl err, es, d')"
      "files (snd (rollbackSaveTransaction es err d')) = g(t1 := None, t2 := None)"
  | d' where "install_files [e1, e2] d =
        (Inr (), [e1\<lparr>installed := True, tempPath := []\<rparr>, e2\<lparr>installed := True, tempPath := []\<rparr>], d')"
      "files d' = (set_aside (set_aside g suf C) suf P)(C := Some x, P := Some y, t1 := None, t2 := None)"
      "one_fault d'"
proof -
  have e: "finalPath e1 = C" "finalPath e2 = P" "tempPath e1 = t1" "tempPath e2 = t2"
    by (simp_all add: assms(10,11) aside_def temp_entry_def new_entry_def)
  have fd: "files d = (\<lambda>q. if q = C \<or> q = P then None else if q = C @ suf then g C else if q = P @ suf then g P else g q)"
    using set_asides_at [of C P suf g] assms(2,5,6,9) by simp
  have d: "files d t1 = Some x" "files d C = None" "files d t2 = Some y" "files d P = None"
    using assms(2,7,8) by (auto simp: fd)
  have suf: "suf \<noteq> []" using assms(2) by auto
  from assms(1) d(1,2) show ?thesis
  proof (rule file_rename_one)
    fix d1
    assume r: "file_rename t1 C d = (False, d1)" "calm d1" "files d1 = files d"
    define h where "h = undo e2 (files d1)"
    have h: "h = (if g P = None then (files d)(t2 := None) else (files d)(P := g P, P @ suf := None, t2 := None))"
      unfolding h_def assms(11) r(3) using assms(2,4) by (intro undo_aside) (auto simp: fd)
    have "undo e1 h = (if g C = None then h(t1 := None) else h(C := g C, C @ suf := None, t1 := None))"
      unfolding assms(10) using assms(2,3) by (intro undo_aside) (auto simp: h fd)
    also have "\<dots> = g(t1 := None, t2 := None)"
      using assms(2,5,6) by (auto simp: h fd fun_eq_iff)
    finally have "files (snd (rollbackSaveTransaction [e1, e2] err d1)) = g(t1 := None, t2 := None)" for err
      by (simp add: rollback_two [OF r(2)] h_def)
    with r(1) show ?thesis by (intro that(1) [of _ "[e1, e2]" d1]) (auto simp: e)
  next
    fix d1
    assume r: "file_rename t1 C d = (True, d1)" "one_fault d1" "files d1 = (files d)(C := Some x, t1 := None)"
    have d1: "files d1 t2 = Some y" "files d1 P = None" using d assms(2) r(3) by auto
    from r(2) d1 show ?thesis
    proof (rule file_rename_one)
      fix d2
      assume r2: "file_rename t2 P d1 = (False, d2)" "calm d2" "files d2 = files d1"
      define h where "h = undo e2 (files d2)"
      have h: "h = (if g P = None then (files d1)(t2 := None) else (files d1)(P := g P, P @ suf := None, t2 := None))"
        unfolding h_def assms(11) r2(3) using assms(2,4) by (intro undo_aside) (auto simp: r(3) fd)
      have "undo (e1\<lparr>installed := True, tempPath := []\<rparr>) h
          = (if g C = None then h(C := None) else h(C := g C, C @ suf := None))"
        unfolding assms(10) using assms(2) suf by (intro undo_installed) (auto simp: h r(3) fd)
      also have "\<dots> = g(t1 := None, t2 := None)"
        using assms(2,5,6) by (auto simp: h r(3) fd fun_eq_iff)
      finally have "files (snd (rollbackSaveTransaction [e1\<lparr>installed := True, tempPath := []\<rparr>, e2] err d2))
          = g(t1 := None, t2 := None)" for err
        by (simp add: rollback_two [OF r2(2)] h_def)
      with r(1) r2(1) show ?thesis
        by (intro that(1) [of _ "[e1\<lparr>installed := True, tempPath := []\<rparr>, e2]" d2]) (auto simp: e)
    next
      fix d2
      assume r2: "file_rename t2 P d1 = (True, d2)" "one_fault d2" "files d2 = (files d1)(P := Some y, t2 := None)"
      have "files d2 = (set_aside (set_aside g suf C) suf P)(C := Some x, P := Some y, t1 := None, t2 := None)"
        using r2(3) r(3) assms(2) by (auto simp: assms(9) [symmetric] fun_eq_iff)
      moreover have "install_files [e1, e2] d =
          (Inr (), [e1\<lparr>installed := True, tempPath := []\<rparr>, e2\<lparr>installed := True, tempPath := []\<rparr>], d2)"
        using r(1) r2(1) by (simp add: e)
      ultimately show ?thesis using r2(2) by (intro that(2) [of d2])
    qed
  qed
qed

section \<open>A save is atomic\<close>

lemma remove_backups_other:
  "\<forall>e\<in>set es. movedToBackup e \<longrightarrow> backupPath e \<noteq> q \<Longrightarrow> files (remove_backups es d) q = files d q"
proof (induction es arbitrary: d)
  case (Cons e es)
  have "files (if movedToBackup e \<and> backupPath e \<noteq> [] then snd (file_remove (backupPath e) d) else d) q = files d q"
    using Cons.prems file_remove_files [of "backupPath e" d] by auto
  with Cons show ?case by (simp add: remove_backups_def)
qed (simp add: remove_backups_def)

lemma next_fault_keeps_one: "one_fault d \<Longrightarrow> one_fault (snd (next_fault d))"
  by (rule next_fault_one) (auto intro: calm_one)

lemma remove_backups_one: "one_fault d \<Longrightarrow> one_fault (remove_backups es d)"
proof (induction es arbitrary: d)
  case (Cons e es)
  have "one_fault (snd (file_remove (backupPath e) d))"
    using next_fault_keeps_one [OF Cons.prems] by (auto simp: file_remove_def split_beta Let_def)
  with Cons show ?case by (simp add: remove_backups_def)
qed (simp add: remove_backups_def)

lemma aside_backup:
  "movedToBackup ((aside g suf (temp_entry A t))\<lparr>installed := True, tempPath := []\<rparr>) \<Longrightarrow>
   backupPath ((aside g suf (temp_entry A t))\<lparr>installed := True, tempPath := []\<rparr>) = A @ suf"
  by (auto simp: aside_def temp_entry_def new_entry_def split: if_splits)

text \<open>The three loops of the save, over the paths of the two documents.\<close>

definition save_files ::
  "(json \<Rightarrow> bytes) \<Rightarrow> string \<Rightarrow> string \<Rightarrow> string \<Rightarrow> string \<Rightarrow> string \<Rightarrow> project \<Rightarrow> disk \<Rightarrow> (string + unit) \<times> disk" where
  "save_files to_json t1 t2 suf C P p d =
     (case write_temps to_json
        [(new_entry C, t1, ''config.json'', Project_toJson p), (new_entry P, t2, ''param.json'', pr_config p)] d of
        (Inl err, es, d) \<Rightarrow> (Inl err, cleanupTransactionTemps es d)
      | (Inr _, es, d) \<Rightarrow>
          (case backup_files suf es d of
             (Inl err, es, d) \<Rightarrow> (let (err, d) = rollbackSaveTransaction es err d in (Inl err, d))
           | (Inr _, es, d) \<Rightarrow>
               (case install_files es d of
                  (Inl err, es, d) \<Rightarrow> (let (err, d) = rollbackSaveTransaction es err d in (Inl err, d))
                | (Inr _, es, d) \<Rightarrow> (Inr (), remove_backups es d))))"

lemma saveProject_unfold:
  "saveProject to_json t1 t2 suf dir p d =
     (if \<not> isValidProjectId (pr_id p) then (Inl (''invalid project id: '' @ pr_id p), d)
      else let (f1, d1) = next_fault d in
        if f1 then (Inl (''cannot create projects directory: '' @ dir), d1)
        else let (f2, d2) = next_fault d1 in
          if f2 then (Inl (''cannot create project directory: '' @ path_join dir (pr_id p)), d2)
          else save_files to_json t1 t2 suf (projectConfigPath dir (pr_id p)) (projectParamPath dir (pr_id p)) p d2)"
  by (simp add: saveProject_def save_files_def Let_def split_beta)

lemma rollback_result:
  "files (snd (rollbackSaveTransaction es err d)) = g \<Longrightarrow>
   (let (err, d) = rollbackSaveTransaction es err d in (Inl err, d)) = (r, d') \<Longrightarrow> (\<exists>err. r = Inl err) \<and> files d' = g"
  by (auto simp: split_beta)

lemma save_files_atomic:
  assumes "one_fault d" and "distinct [C, P, C @ suf, P @ suf, t1, t2]" and "t1 \<noteq> []" and "t2 \<noteq> []"
    and free: "files d t1 = None" "files d t2 = None" "files d (C @ suf) = None" "files d (P @ suf) = None"
    and run: "save_files to_json t1 t2 suf C P p d = (r, d')"
  shows "(case r of
      Inl err \<Rightarrow> files d' = files d
    | Inr _ \<Rightarrow> files d' C = Some (to_json (JObj (Project_toJson p))) \<and> files d' P = Some (to_json (JObj (pr_config p)))
        \<and> (\<forall>q. q \<notin> {C, P, C @ suf, P @ suf} \<longrightarrow> files d' q = files d q) \<and> one_fault d')"
proof -
  let ?x = "to_json (JObj (Project_toJson p))" and ?y = "to_json (JObj (pr_config p))"
  have t: "t1 \<noteq> t2" using assms(2) by simp
  from assms(1) free(1,2) t assms(3,4) show ?thesis
  proof (rule write_temps_two [where to_json = to_json and C = C and P = P and ?n1.0 = "''config.json''"
        and ?n2.0 = "''param.json''" and ?o1.0 = "Project_toJson p" and ?o2.0 = "pr_config p"])
    fix err es d1
    assume "write_temps to_json [(new_entry C, t1, ''config.json'', Project_toJson p),
        (new_entry P, t2, ''param.json'', pr_config p)] d = (Inl err, es, d1)"
      "files (cleanupTransactionTemps es d1) = files d"
    with run show ?thesis by (auto simp: save_files_def)
  next
    fix d1
    assume w: "write_temps to_json [(new_entry C, t1, ''config.json'', Project_toJson p),
        (new_entry P, t2, ''param.json'', pr_config p)] d = (Inr (), [temp_entry C t1, temp_entry P t2], d1)"
      "one_fault d1" "files d1 = (files d)(t1 := Some ?x, t2 := Some ?y)"
    define g where "g = files d1"
    have undone: "g(t1 := None, t2 := None) = files d"
      using free by (auto simp: g_def w(3) fun_eq_iff)
    have g: "g (C @ suf) = None" "g (P @ suf) = None" "g t1 = Some ?x" "g t2 = Some ?y"
      using free assms(2) by (auto simp: g_def w(3))
    from w(2) assms(2-4) g(1,2) [unfolded g_def] show ?thesis
    proof (rule backup_two)
      fix err es d2
      assume b: "backup_files suf [temp_entry C t1, temp_entry P t2] d1 = (Inl err, es, d2)"
        "files (snd (rollbackSaveTransaction es err d2)) = (files d1)(t1 := None, t2 := None)"
      have "(let (err, d) = rollbackSaveTransaction es err d2 in (Inl err, d)) = (r, d')"
        using run by (simp add: save_files_def w(1) b(1) del: write_temps.simps backup_files.simps install_files.simps)
      from rollback_result [OF b(2) this] undone show ?thesis by (auto simp: g_def)
    next
      fix d2
      assume b: "backup_files suf [temp_entry C t1, temp_entry P t2] d1 =
          (Inr (), [aside (files d1) suf (temp_entry C t1), aside (files d1) suf (temp_entry P t2)], d2)"
        "one_fault d2" "files d2 = set_aside (set_aside (files d1) suf C) suf P"
      from b(2) assms(2-4) g b(3) [folded g_def] refl refl show ?thesis
      proof (rule install_two)
        fix err es d3
        assume i: "install_files [aside g suf (temp_entry C t1), aside g suf (temp_entry P t2)] d2 = (Inl err, es, d3)"
          "files (snd (rollbackSaveTransaction es err d3)) = g(t1 := None, t2 := None)"
        have "(let (err, d) = rollbackSaveTransaction es err d3 in (Inl err, d)) = (r, d')"
          using run by (simp add: save_files_def w(1) b(1) i(1) [unfolded g_def] del: write_temps.simps backup_files.simps install_files.simps)
        from rollback_result [OF i(2) this] undone show ?thesis by auto
      next
        fix d3
        define es where "es = [(aside g suf (temp_entry C t1))\<lparr>installed := True, tempPath := []\<rparr>,
            (aside g suf (temp_entry P t2))\<lparr>installed := True, tempPath := []\<rparr>]"
        assume i: "install_files [aside g suf (temp_entry C t1), aside g suf (temp_entry P t2)] d2 =
            (Inr (), [(aside g suf (temp_entry C t1))\<lparr>installed := True, tempPath := []\<rparr>,
              (aside g suf (temp_entry P t2))\<lparr>installed := True, tempPath := []\<rparr>], d3)"
          "files d3 = (set_aside (set_aside g suf C) suf P)(C := Some ?x, P := Some ?y, t1 := None, t2 := None)"
          "one_fault d3"
        have r: "r = Inr ()" "d' = remove_backups es d3"
          using run by (simp_all add: save_files_def w(1) b(1) i(1) [unfolded g_def] es_def g_def del: write_temps.simps backup_files.simps install_files.simps)
        have keep: "files d' q = files d3 q" if "q \<noteq> C @ suf" "q \<noteq> P @ suf" for q
          unfolding r(2) by (rule remove_backups_other) (use that aside_backup [of g suf] in \<open>auto simp: es_def\<close>)
        have d3: "files d3 = (\<lambda>q. if q = C \<or> q = P then None else if q = C @ suf then g C else if q = P @ suf then g P else g q)
            (C := Some ?x, P := Some ?y, t1 := None, t2 := None)"
          using set_asides_at [of C P suf g] assms(2) g(1,2) i(2) by simp
        have other: "files d' q = files d q" if "q \<notin> {C, P, C @ suf, P @ suf}" for q
        proof -
          have "files d' q = (g(t1 := None, t2 := None)) q" using that keep [of q] by (simp add: d3)
          then show ?thesis by (simp add: undone)
        qed
        have "files d' C = Some ?x" "files d' P = Some ?y"
          using keep [of C] keep [of P] assms(2) by (auto simp: d3)
        with other remove_backups_one [OF i(3), of es] show ?thesis by (simp add: r)
      qed
    qed
  qed
qed

lemma saveProject_files:
  assumes "length (filter id (faults d)) \<le> 1"
    and "distinct [projectConfigPath dir (pr_id p), projectParamPath dir (pr_id p),
      projectConfigPath dir (pr_id p) @ suf, projectParamPath dir (pr_id p) @ suf, t1, t2]"
    and "t1 \<noteq> []" and "t2 \<noteq> []"
    and "\<forall>q \<in> {t1, t2, projectConfigPath dir (pr_id p) @ suf, projectParamPath dir (pr_id p) @ suf}. files d q = None"
    and "saveProject to_json t1 t2 suf dir p d = (r, d')"
  shows "case r of
      Inl err \<Rightarrow> files d' = files d
    | Inr _ \<Rightarrow> files d' (projectConfigPath dir (pr_id p)) = Some (to_json (JObj (Project_toJson p)))
        \<and> files d' (projectParamPath dir (pr_id p)) = Some (to_json (JObj (pr_config p)))
        \<and> (\<forall>q. q \<notin> {projectConfigPath dir (pr_id p), projectParamPath dir (pr_id p),
             projectConfigPath dir (pr_id p) @ suf, projectParamPath dir (pr_id p) @ suf} \<longrightarrow> files d' q = files d q)
        \<and> one_fault d'"
proof (cases "isValidProjectId (pr_id p)")
  case False
  with assms(6) show ?thesis by (auto simp: saveProject_unfold)
next
  case valid: True
  have "one_fault d" using assms(1) by (simp add: one_fault_def)
  then show ?thesis
  proof (rule next_fault_one)
    fix d1 assume "next_fault d = (True, d1)" "files d1 = files d"
    with assms(6) valid show ?thesis by (auto simp: saveProject_unfold)
  next
    fix d1 assume d1: "next_fault d = (False, d1)" "one_fault d1" "files d1 = files d"
    from d1(2) show ?thesis
    proof (rule next_fault_one)
      fix d2 assume "next_fault d1 = (True, d2)" "files d2 = files d1"
      with d1 assms(6) valid show ?thesis by (auto simp: saveProject_unfold)
    next
      fix d2 assume d2: "next_fault d1 = (False, d2)" "one_fault d2" "files d2 = files d1"
      have "save_files to_json t1 t2 suf (projectConfigPath dir (pr_id p)) (projectParamPath dir (pr_id p)) p d2 = (r, d')"
        using assms(6) valid d1(1) d2(1) by (simp add: saveProject_unfold)
      moreover have "files d2 = files d" using d2(3) d1(3) by simp
      ultimately show ?thesis
        using save_files_atomic [OF d2(2) assms(2-4), where to_json = to_json and p = p and r = r and d' = d'] assms(5)
        by (auto split: sum.splits)
    qed
  qed
qed

text \<open>C12: Saving a project is atomic as far as one failing file operation goes, whichever of them it
  is: when the save reports an error every file is as it was before, and when it succeeds both
  documents are the new ones and no other file has changed, save for a backup that could not be
  removed. The names of the temporary files and of the backups are new ones, as the code's
  unique names are.\<close>

theorem save_atomic:
  assumes "length (filter id (faults d)) \<le> 1"
    and "distinct [projectConfigPath dir (pr_id p), projectParamPath dir (pr_id p),
      projectConfigPath dir (pr_id p) @ suf, projectParamPath dir (pr_id p) @ suf, t1, t2]"
    and "t1 \<noteq> []" and "t2 \<noteq> []"
    and "\<forall>q \<in> {t1, t2, projectConfigPath dir (pr_id p) @ suf, projectParamPath dir (pr_id p) @ suf}. files d q = None"
    and "saveProject to_json t1 t2 suf dir p d = (r, d')"
  shows "case r of
      Inl err \<Rightarrow> files d' = files d
    | Inr _ \<Rightarrow> files d' (projectConfigPath dir (pr_id p)) = Some (to_json (JObj (Project_toJson p)))
        \<and> files d' (projectParamPath dir (pr_id p)) = Some (to_json (JObj (pr_config p)))
        \<and> (\<forall>q. q \<notin> {projectConfigPath dir (pr_id p), projectParamPath dir (pr_id p),
             projectConfigPath dir (pr_id p) @ suf, projectParamPath dir (pr_id p) @ suf} \<longrightarrow> files d' q = files d q)"
  using saveProject_files [OF assms] by (auto split: sum.splits)

lemma save_atomic_witness:
  "let old = (\<lambda>_. None)(''d/a/config.json'' := Some [1], ''d/a/param.json'' := Some [2]);
       (r, d') = saveProject (\<lambda>_. [3]) ''t1'' ''t2'' ''.bak'' ''d'' (Project_default\<lparr>pr_id := ''a''\<rparr>)
         \<lparr>files = old, faults = replicate 11 False @ [True]\<rparr>
   in r = Inl ''cannot install file: d/a/param.json'' \<and> files d' = old"
proof -
  let ?old = "(\<lambda>_. None)(''d/a/config.json'' := Some [1], ''d/a/param.json'' := Some [2])"
  let ?d = "\<lparr>files = ?old, faults = replicate 11 False @ [True]\<rparr>"
  let ?p = "Project_default\<lparr>pr_id := ''a''\<rparr>"
  let ?s = "saveProject (\<lambda>_. [3]) ''t1'' ''t2'' ''.bak'' ''d'' ?p ?d"
  have r: "fst ?s = Inl ''cannot install file: d/a/param.json''"
    by (simp add: saveProject_def isValidProjectId_def is_id_char_def is_letter_def ascii_lower_def Project_default_def next_fault_def
        writeTempJsonObjectFile_def file_rename_def put_file_def projectConfigPath_def projectParamPath_def
        path_join_def new_entry_def rollbackSaveTransaction_def rollback_entry_def file_remove_def
        numeral_eq_Suc Let_def)
  have "?s = (fst ?s, snd ?s)" by simp
  from save_atomic [OF _ _ _ _ _ this] r have "files (snd ?s) = ?old"
    by (simp add: Project_default_def projectConfigPath_def projectParamPath_def path_join_def)
  with r show ?thesis by (simp add: split_beta Let_def)
qed

section \<open>What was saved is loaded\<close>

lemma load_saved:
  assumes "files d (path_join dir ''config.json'') = Some x" and "from_json x = Inr (JObj (Project_toJson p))"
    and "files d (path_join dir ''param.json'') = Some y" and "from_json y = Inr (JObj (pr_config p))"
    and "project_wf p"
  shows "loadOne from_json dir (pr_id p) d = p\<lparr>pr_valid := True, pr_error := []\<rparr>"
proof -
  have "loadJsonObjectFile from_json (path_join dir ''config.json'') l d = Inr (Project_toJson p)"
    "loadJsonObjectFile from_json (path_join dir ''param.json'') l d = Inr (pr_config p)" for l
    using assms(1-4) by (simp_all add: loadJsonObjectFile_def)
  then show ?thesis
    using project_roundtrip [OF assms(5)] by (simp add: loadOne_def assms(3))
qed

text \<open>C37: A project that was saved is the project that is loaded: when the save succeeded, reading the
  directory back gives every field of it, the schedule and the parameters included, and marks it
  valid. Of the serializer and the parser of JSON it needs that they are inverse on the two
  documents.\<close>

theorem save_then_load:
  assumes "length (filter id (faults d)) \<le> 1"
    and "distinct [projectConfigPath dir (pr_id p), projectParamPath dir (pr_id p),
      projectConfigPath dir (pr_id p) @ suf, projectParamPath dir (pr_id p) @ suf, t1, t2]"
    and "t1 \<noteq> []" and "t2 \<noteq> []"
    and "\<forall>q \<in> {t1, t2, projectConfigPath dir (pr_id p) @ suf, projectParamPath dir (pr_id p) @ suf}. files d q = None"
    and "from_json (to_json (JObj (Project_toJson p))) = Inr (JObj (Project_toJson p))"
    and "from_json (to_json (JObj (pr_config p))) = Inr (JObj (pr_config p))"
    and "project_wf p" and "path_join dir (pr_id p) \<in> set dirs"
    and "saveProject to_json t1 t2 suf dir p d = (Inr (), d')"
  shows "loadProject from_json dirs dir (pr_id p) d' = Inr (p\<lparr>pr_valid := True, pr_error := []\<rparr>)"
proof -
  from saveProject_files [OF assms(1-5,10)]
  have f: "files d' (projectConfigPath dir (pr_id p)) = Some (to_json (JObj (Project_toJson p)))"
    "files d' (projectParamPath dir (pr_id p)) = Some (to_json (JObj (pr_config p)))" by simp_all
  have "loadOne from_json (path_join dir (pr_id p)) (pr_id p) d' = p\<lparr>pr_valid := True, pr_error := []\<rparr>"
    by (rule load_saved [OF _ assms(6) _ assms(7,8)]) (use f in \<open>simp_all add: projectConfigPath_def projectParamPath_def\<close>)
  moreover have "isValidProjectId (pr_id p)"
    using assms(10) by (auto simp: saveProject_def split: if_splits)
  ultimately show ?thesis using assms(9) by (simp add: loadProject_def)
qed

text \<open>A project and a codec of its two documents for the witness.\<close>

definition sample_project :: project where
  "sample_project = Project_default\<lparr>pr_id := ''a'', pr_name := ''n'', serviceId := ''s'',
     pr_schedule := Schedule_default\<lparr>sc_type := FixedRate\<rparr>, pr_config := [(''x'', jint 1)]\<rparr>"

definition sample_to_json :: "json \<Rightarrow> bytes" where
  "sample_to_json v = (if v = JObj (Project_toJson sample_project) then [1] else [2])"

definition sample_from_json :: "bytes \<Rightarrow> string + json" where
  "sample_from_json b =
     (if b = [1] then Inr (JObj (Project_toJson sample_project)) else Inr (JObj (pr_config sample_project)))"

lemma sample_codec:
  "sample_from_json (sample_to_json (JObj (Project_toJson sample_project))) = Inr (JObj (Project_toJson sample_project))"
  "sample_from_json (sample_to_json (JObj (pr_config sample_project))) = Inr (JObj (pr_config sample_project))"
proof -
  have "om_has (Project_toJson sample_project) ''id''" "\<not> om_has (pr_config sample_project) ''id''"
    by (simp_all add: Project_toJson_def sample_project_def)
  then have "Project_toJson sample_project \<noteq> pr_config sample_project" by metis
  then show "sample_from_json (sample_to_json (JObj (Project_toJson sample_project))) = Inr (JObj (Project_toJson sample_project))"
    "sample_from_json (sample_to_json (JObj (pr_config sample_project))) = Inr (JObj (pr_config sample_project))"
    by (simp_all add: sample_from_json_def sample_to_json_def)
qed

lemma save_then_load_witness:
  "loadProject sample_from_json [''d/a''] ''d'' ''a''
     (snd (saveProject sample_to_json ''t1'' ''t2'' ''.bak'' ''d'' sample_project \<lparr>files = (\<lambda>_. None), faults = []\<rparr>)) =
   Inr (sample_project\<lparr>pr_valid := True\<rparr>)"
proof -
  let ?s = "saveProject sample_to_json ''t1'' ''t2'' ''.bak'' ''d'' sample_project \<lparr>files = (\<lambda>_. None), faults = []\<rparr>"
  have simps: "pr_id sample_project = ''a''" "pr_error sample_project = []" "project_wf sample_project"
    by (simp_all add: sample_project_def Project_default_def Schedule_default_def project_wf_def schedule_wf_def int_max_def)
  have "fst ?s = Inr ()"
    by (simp add: saveProject_def simps(1) isValidProjectId_def is_id_char_def is_letter_def next_fault_def
        writeTempJsonObjectFile_def file_rename_def put_file_def projectConfigPath_def projectParamPath_def
        path_join_def new_entry_def Let_def)
  then have "?s = (Inr (), snd ?s)" by (cases ?s) simp
  from save_then_load [OF _ _ _ _ _ sample_codec simps(3) _ this, of "[''d/a'']"]
  show ?thesis
    by (simp add: simps(1,2) projectConfigPath_def projectParamPath_def path_join_def)
qed

end
