(* ===== verification/ProjectApiSpec.thy ===== *)
theory ProjectApiSpec
  imports ProjectApi ScheduleEngineSpec ProjectStoreSpec
begin

text \<open>
  What the HTTP handlers of the projects promise: a project that one request is changing is not
  changed by another one that is handled while the first waits; an update takes effect in memory
  and on disk or in neither; a start by hand keeps to the limit of the schedule; and a service
  that was deleted is used by no project.
\<close>

section \<open>What happens while a handler waits\<close>

text \<open>The turns of the event loop: signals of processes and timers, and other requests, whose own waits
  turn it again.\<close>

inductive turn :: "(server \<Rightarrow> server) \<Rightarrow> bool" where
  turn_events: "turn (on_sched (\<lambda>e. run_events sched_step e evs))"
| turn_create: "turn (\<lambda>s. snd (handleProjectCreate cd rq s))"
| turn_update: "(\<And>f. f \<in> set (rq_grace rq) \<union> set (rq_drain rq) \<Longrightarrow> turn f) \<Longrightarrow> turn (\<lambda>s. snd (handleProjectUpdate cd rq pid s))"
| turn_enabled: "(\<And>f. f \<in> set (rq_grace rq) \<union> set (rq_drain rq) \<Longrightarrow> turn f) \<Longrightarrow> turn (\<lambda>s. snd (handleProjectEnabled cd rq pid s))"
| turn_delete: "(\<And>f. f \<in> set (rq_grace rq) \<union> set (rq_drain rq) \<Longrightarrow> turn f) \<Longrightarrow> turn (\<lambda>s. snd (handleProjectDelete rq pid s))"
| turn_reload: "(\<And>f. f \<in> set (rq_grace rq) \<union> set (rq_drain rq) \<Longrightarrow> turn f) \<Longrightarrow> turn (\<lambda>s. snd (handleProjectReload cd rq pid s))"
| turn_start: "turn (\<lambda>s. snd (handleProjectStart rq pid s))"
| turn_stop: "turn (\<lambda>s. snd (handleProjectStop pid s))"
| turn_both: "turn f \<Longrightarrow> turn g \<Longrightarrow> turn (\<lambda>s. g (f s))"

text \<open>The project is in the map and under a change.\<close>

definition pinned :: "string \<Rightarrow> project \<Rightarrow> server \<Rightarrow> bool" where
  "pinned pid p s \<longleftrightarrow> pid \<in> sm_inFlight s \<and> om_get (sm_projects s) pid = Some p"

lemma on_sched_keeps [simp]:
  "sm_projects (on_sched f s) = sm_projects s" "sm_inFlight (on_sched f s) = sm_inFlight s"
  "sm_disk (on_sched f s) = sm_disk s" "sm_services (on_sched f s) = sm_services s"
  "sm_dataRoot (on_sched f s) = sm_dataRoot s" "sm_sched (on_sched f s) = f (sm_sched s)"
  by (simp_all add: on_sched_def)

lemma startScheduling_keeps [simp]:
  "sm_projects (startScheduling st s) = sm_projects s" "sm_inFlight (startScheduling st s) = sm_inFlight s"
  "sm_disk (startScheduling st s) = sm_disk s"
  by (simp_all add: startScheduling_def)

lemma save_project_keeps:
  "save_project cd temps p s = (r, s') \<Longrightarrow> sm_projects s' = sm_projects s \<and> sm_inFlight s' = sm_inFlight s"
  by (auto simp: save_project_def split: prod.splits)

lemma rollback_keeps:
  assumes "rollbackProjectStorage cd rq p s = (r, s')"
  shows "sm_projects s' = sm_projects s \<and> sm_inFlight s' = sm_inFlight s"
proof -
  obtain r1 s1 where "save_project cd (rq_rollbackTemps rq) p s = (r1, s1)" by fastforce
  with save_project_keeps [OF this] assms show ?thesis
    by (cases r1) (auto simp: rollbackProjectStorage_def)
qed

definition turns_keep :: "request \<Rightarrow> (server \<Rightarrow> bool) \<Rightarrow> bool" where
  "turns_keep rq I \<longleftrightarrow> (\<forall>f \<in> set (rq_grace rq) \<union> set (rq_drain rq). \<forall>s. I s \<longrightarrow> I (f s))"

lemma wait_until_keeps: "\<forall>f \<in> set fs. \<forall>s. I s \<longrightarrow> I (f s) \<Longrightarrow> I s \<Longrightarrow> I (snd (wait_until fin fs s))"
  by (induction fs arbitrary: s) auto

lemma stopProjectAndWait_keeps:
  assumes "turns_keep rq I" and upd: "\<And>h s. I s \<Longrightarrow> I (on_sched h s)" and "I s"
    and "stopProjectAndWait rq pid s = (r, s')"
  shows "I s'"
proof -
  have w: "I s' \<Longrightarrow> I (snd (wait_until fin (rq_grace rq) s'))" "I s' \<Longrightarrow> I (snd (wait_until fin (rq_drain rq) s'))" for fin s'
    using assms(1) by (auto simp: turns_keep_def intro!: wait_until_keeps [where I = I])
  have "I (snd (stopProjectAndWait rq pid s))"
    unfolding stopProjectAndWait_def waitProjectFinished_def Let_def split_beta using w upd assms(3) by simp
  with assms(4) show ?thesis by simp
qed

lemma pinned_on_sched [simp]: "pinned pid p (on_sched h s) = pinned pid p s"
  by (simp add: pinned_def)

lemma pinned_scheduling [simp]: "pinned pid p (startScheduling st s) = pinned pid p s"
  by (simp add: pinned_def)

text \<open>A guarded change of another project keeps this one; a change of this one is refused.\<close>

lemma pinned_guarded:
  assumes "pinned pid p s" and "k \<noteq> pid \<Longrightarrow> pinned pid p (s\<lparr>sm_inFlight := insert k (sm_inFlight s)\<rparr>) \<Longrightarrow>
      pinned pid p (snd (body (s\<lparr>sm_inFlight := insert k (sm_inFlight s)\<rparr>)))"
  shows "pinned pid p (snd (guarded k body s))"
proof (cases "k \<in> sm_inFlight s")
  case False
  then have k: "k \<noteq> pid" using assms(1) by (auto simp: pinned_def)
  have "pinned pid p (s\<lparr>sm_inFlight := insert k (sm_inFlight s)\<rparr>)" using assms(1) by (simp add: pinned_def)
  from assms(2) [OF k this] False k show ?thesis
    by (auto simp: guarded_def Let_def pinned_def split_beta)
qed (use assms(1) in \<open>simp add: guarded_def\<close>)

lemma pinned_give_up: "pinned pid p s \<Longrightarrow> pinned pid p (snd (give_up_change cd rq k old s))"
  using rollback_keeps [of cd rq old s]
  by (auto simp: give_up_change_def Let_def pinned_def split: prod.splits sum.splits)

lemma pinned_put: "k \<noteq> pid \<Longrightarrow> pinned pid p s \<Longrightarrow> pinned pid p (put_project k q s)"
  by (simp add: pinned_def put_project_def)

lemma pinned_save: "pinned pid p s \<Longrightarrow> save_project cd temps q s = (r, s') \<Longrightarrow> pinned pid p s'"
  using save_project_keeps [of cd temps q s r s'] by (simp add: pinned_def)

lemma pinned_wait:
  "turns_keep rq (pinned pid p) \<Longrightarrow> pinned pid p s \<Longrightarrow> stopProjectAndWait rq k s = (r, s') \<Longrightarrow> pinned pid p s'"
  by (rule stopProjectAndWait_keeps [where I = "pinned pid p"]) auto

text \<open>Following the branches of a handler.\<close>

lemma pinned_branches:
  "(\<And>a b. x = (a, b) \<Longrightarrow> pinned pid p (snd (f a b))) \<Longrightarrow> pinned pid p (snd (case x of (a, b) \<Rightarrow> f a b))"
  "(\<And>e. y = Inl e \<Longrightarrow> pinned pid p (snd (g e))) \<Longrightarrow> (\<And>v. y = Inr v \<Longrightarrow> pinned pid p (snd (h v))) \<Longrightarrow>
   pinned pid p (snd (case y of Inl e \<Rightarrow> g e | Inr v \<Rightarrow> h v))"
  "(c \<Longrightarrow> pinned pid p (snd q)) \<Longrightarrow> (\<not> c \<Longrightarrow> pinned pid p (snd q')) \<Longrightarrow> pinned pid p (snd (if c then q else q'))"
  "(z = None \<Longrightarrow> pinned pid p (snd n)) \<Longrightarrow> (\<And>w. z = Some w \<Longrightarrow> pinned pid p (snd (k w))) \<Longrightarrow>
   pinned pid p (snd (case z of None \<Rightarrow> n | Some w \<Rightarrow> k w))"
  by (auto split: prod.split sum.split option.split)

lemma pinned_done: "pinned pid p s \<Longrightarrow> pinned pid p (snd (r, s))"
  by simp

lemma pinned_disk [simp]: "pinned pid p (s\<lparr>sm_disk := d\<rparr>) = pinned pid p s"
  by (simp add: pinned_def)

lemma pinned_sched [simp]: "pinned pid p (s\<lparr>sm_sched := e\<rparr>) = pinned pid p s"
  by (simp add: pinned_def)

lemma pinned_drop: "k \<noteq> pid \<Longrightarrow> pinned pid p s \<Longrightarrow> pinned pid p (s\<lparr>sm_disk := d, sm_projects := om_del k (sm_projects s)\<rparr>)"
  by (simp add: pinned_def)

lemma pinned_update:
  assumes "turns_keep rq (pinned pid p)" and "pinned pid p s" and "k \<noteq> pid"
  shows "pinned pid p (snd (update_body cd rq k s))"
  unfolding update_body_def Let_def
  by (intro pinned_branches pinned_done pinned_give_up)
    (use assms(2,3) in \<open>auto intro: pinned_put pinned_save pinned_wait [OF assms(1)]\<close>)

lemma pinned_enabled:
  assumes "turns_keep rq (pinned pid p)" and "pinned pid p s" and "k \<noteq> pid"
  shows "pinned pid p (snd (enabled_body cd rq k s))"
  unfolding enabled_body_def Let_def
  by (intro pinned_branches pinned_done pinned_give_up)
    (use assms(2,3) in \<open>auto intro: pinned_put pinned_save pinned_wait [OF assms(1)] split: if_splits\<close>)

lemma pinned_delete:
  assumes "turns_keep rq (pinned pid p)" and "pinned pid p s" and "k \<noteq> pid"
  shows "pinned pid p (snd (delete_body rq k s))"
  unfolding delete_body_def Let_def
  by (intro pinned_branches pinned_done)
    (use assms(2,3) in \<open>auto intro: pinned_wait [OF assms(1)] pinned_drop\<close>)

lemma pinned_reload:
  assumes "turns_keep rq (pinned pid p)" and "pinned pid p s" and "k \<noteq> pid"
  shows "pinned pid p (snd (reload_body cd rq k s))"
  unfolding reload_body_def Let_def
  by (intro pinned_branches pinned_done)
    (use assms(2,3) in \<open>auto intro: pinned_put pinned_wait [OF assms(1)]\<close>)

lemma pinned_create:
  assumes "pinned pid p s"
  shows "pinned pid p (snd (handleProjectCreate cd rq s))"
proof -
  have "k \<noteq> pid" if "\<not> om_has (sm_projects s) k" for k
    using assms that by (auto simp: pinned_def om_has_def)
  then show ?thesis
    unfolding handleProjectCreate_def Let_def
    by (intro pinned_branches pinned_done) (use assms in \<open>auto intro!: pinned_put intro: pinned_save\<close>)
qed

lemma pinned_start:
  "pinned pid p s \<Longrightarrow> pinned pid p (snd (start_body rq k s))"
  unfolding start_body_def Let_def by (intro pinned_branches pinned_done) auto

lemma turn_pinned: "turn f \<Longrightarrow> pinned pid p s \<Longrightarrow> pinned pid p (f s)"
proof (induction arbitrary: s rule: turn.induct)
  case (turn_update rq cd k)
  then have "turns_keep rq (pinned pid p)" by (simp add: turns_keep_def)
  with turn_update.prems show ?case
    by (auto simp: handleProjectUpdate_def intro!: pinned_guarded pinned_update)
next
  case (turn_enabled rq cd k)
  then have "turns_keep rq (pinned pid p)" by (simp add: turns_keep_def)
  with turn_enabled.prems show ?case
    by (auto simp: handleProjectEnabled_def intro!: pinned_guarded pinned_enabled)
next
  case (turn_delete rq k)
  then have "turns_keep rq (pinned pid p)" by (simp add: turns_keep_def)
  with turn_delete.prems show ?case
    by (auto simp: handleProjectDelete_def intro!: pinned_guarded pinned_delete)
next
  case (turn_reload rq cd k)
  then have "turns_keep rq (pinned pid p)" by (simp add: turns_keep_def)
  with turn_reload.prems show ?case
    by (auto simp: handleProjectReload_def intro!: pinned_guarded pinned_reload)
qed (auto simp: handleProjectStart_def handleProjectStop_def stop_body_def
    intro!: pinned_guarded pinned_create pinned_start)

section \<open>Changes are isolated\<close>

lemma turns_pinned: "\<forall>f \<in> set (rq_grace rq) \<union> set (rq_drain rq). turn f \<Longrightarrow> turns_keep rq (pinned pid p)"
  by (auto simp: turns_keep_def intro: turn_pinned)

lemma response_codes [simp]:
  "rs_code (errorResponse c t) = c" "rs_code (jsonResponse b c) = c" "rs_code (projectBusyResponse pid) = 409"
  "rs_code (projectOperationInProgressResponse pid) = 409" "rs_code noContentResponse = 204"
  "rs_code (bodyParseErrorResponse e) = (if snd e then 413 else 400)"
  by (simp_all add: errorResponse_def jsonResponse_def projectBusyResponse_def
      projectOperationInProgressResponse_def noContentResponse_def bodyParseErrorResponse_def)

lemma give_up_code: "give_up_change cd rq pid p s = (r, s') \<Longrightarrow> rs_code r \<noteq> 200"
  by (auto simp: give_up_change_def Let_def split: prod.splits sum.splits)

lemma give_up_projects: "give_up_change cd rq pid p s = (r, s') \<Longrightarrow> sm_projects s' = sm_projects s"
  using rollback_keeps [of cd rq p s] by (auto simp: give_up_change_def Let_def split: prod.splits sum.splits)

text \<open>The project an update asks for, as it is checked against its service.\<close>

definition requested :: "qt_codec \<Rightarrow> request \<Rightarrow> string \<Rightarrow> server \<Rightarrow> project \<Rightarrow> bool" where
  "requested cd rq pid s q \<longleftrightarrow> (\<exists>body. parseJsonObjectBody cd (rq_body rq) = Inr body
     \<and> snd (Project_fromJson pid body) = [] \<and> validate_project cd s (fst (Project_fromJson pid body)) = (True, q))"

lemma validate_project_services: "sm_services s' = sm_services s \<Longrightarrow> validate_project cd s' p = validate_project cd s p"
  by (simp add: validate_project_def)

lemma update_body_outcome:
  assumes "turns_keep rq (pinned pid p)" and "pinned pid p s" and "update_body cd rq pid s = (r, s')"
  shows "if rs_code r = 200 then \<exists>q. requested cd rq pid s q \<and> om_get (sm_projects s') pid = Some q
    else om_get (sm_projects s') pid = Some p"
proof -
  have p: "om_get (sm_projects s) pid = Some p" using assms(2) by (simp add: pinned_def)
  show ?thesis
  proof (cases "parseJsonObjectBody cd (rq_body rq)")
    case (Inl e)
    with assms(3) p show ?thesis by (auto simp: update_body_def split: if_splits)
  next
    case (Inr body)
    show ?thesis
    proof (cases "is_string (jval body ''id'') \<and> to_string (jval body ''id'') \<noteq> pid")
      case True
      with Inr assms(3) p show ?thesis by (auto simp: update_body_def)
    next
      case id: False
      obtain q0 perr where q0: "Project_fromJson pid body = (q0, perr)" by fastforce
      obtain ok q where q: "validate_project cd s q0 = (ok, q)" by fastforce
      obtain r1 s1 where save: "save_project cd (rq_temps rq) q s = (r1, s1)" by fastforce
      have s1: "sm_projects s1 = sm_projects s" "pinned pid p s1"
        using save_project_keeps [OF save] pinned_save [OF assms(2) save] by auto
      obtain fin s2 where w: "stopProjectAndWait rq pid s1 = (fin, s2)" by fastforce
      have s2: "pinned pid p s2" by (rule pinned_wait [OF assms(1) s1(2) w])
      note run = assms(3) [unfolded update_body_def Let_def Inr sum.case q0 prod.case q if_not_P [OF id] save p w]
      consider "perr \<noteq> []" | "perr = []" "\<not> ok" | err where "perr = []" "ok" "r1 = Inl err"
        | "perr = []" "ok" "r1 = Inr ()" "\<not> fin" | "perr = []" "ok" "r1 = Inr ()" "fin"
        by (cases r1) auto
      then show ?thesis
      proof cases
        case 4
        with run have g: "give_up_change cd rq pid p s2 = (r, s')" by simp
        with s2 show ?thesis using give_up_code [OF g] give_up_projects [OF g] by (simp add: pinned_def)
      next
        case 5
        then have "requested cd rq pid s q" using Inr q0 q by (simp add: requested_def)
        with 5 run show ?thesis by (auto simp: put_project_def)
      qed (use run p s1(1) in auto)
    qed
  qed
qed

text \<open>C15: While a request changes a project it waits for the project's processes to end, and the event loop
  it turns meanwhile handles other requests. Whatever these are, creations, updates, deletions,
  reloads, starts and stops of this or other projects, nested as deep as they like, the update takes
  effect as a whole or not at all: with status 200 the project is the one the request asks for,
  checked against its service, and with any other status it is the one it was. The project can be
  changed again afterwards.\<close>

theorem change_is_isolated:
  assumes "\<forall>f \<in> set (rq_grace rq) \<union> set (rq_drain rq). turn f"
    and "om_get (sm_projects s) pid = Some p" and "pid \<notin> sm_inFlight s"
    and "handleProjectUpdate cd rq pid s = (r, s')"
  shows "(if rs_code r = 200 then \<exists>q. requested cd rq pid s q \<and> om_get (sm_projects s') pid = Some q
     else om_get (sm_projects s') pid = Some p) \<and> pid \<notin> sm_inFlight s'"
proof -
  define s1 where "s1 = s\<lparr>sm_inFlight := insert pid (sm_inFlight s)\<rparr>"
  obtain s2 where b: "update_body cd rq pid s1 = (r, s2)" "s' = s2\<lparr>sm_inFlight := sm_inFlight s2 - {pid}\<rparr>"
    using assms(2-4) by (auto simp: handleProjectUpdate_def guarded_def om_has_def s1_def Let_def split: prod.splits)
  have pin: "pinned pid p s1" using assms(2) by (simp add: pinned_def s1_def)
  have req: "requested cd rq pid s1 = requested cd rq pid s"
    using validate_project_services [of s1 s] by (simp add: requested_def fun_eq_iff s1_def)
  show ?thesis
    using update_body_outcome [OF turns_pinned [OF assms(1)] pin b(1)] by (simp add: b(2) req split: if_splits)
qed

section \<open>Memory and disk change together\<close>

definition stored :: "qt_codec \<Rightarrow> string \<Rightarrow> project \<Rightarrow> disk \<Rightarrow> bool" where
  "stored cd dir p d \<longleftrightarrow> files d (projectConfigPath dir (pr_id p)) = Some (cd_to_json cd (JObj (Project_toJson p)))
     \<and> files d (projectParamPath dir (pr_id p)) = Some (cd_to_json cd (JObj (pr_config p)))"

text \<open>The names one save draws are new and different.\<close>

definition new_names :: "string \<Rightarrow> string \<Rightarrow> string \<times> string \<times> string \<Rightarrow> disk \<Rightarrow> bool" where
  "new_names dir pid temps d \<longleftrightarrow> (case temps of (t1, t2, suf) \<Rightarrow>
     t1 \<noteq> [] \<and> t2 \<noteq> []
     \<and> distinct [projectConfigPath dir pid, projectParamPath dir pid,
         projectConfigPath dir pid @ suf, projectParamPath dir pid @ suf, t1, t2]
     \<and> (\<forall>q \<in> {t1, t2, projectConfigPath dir pid @ suf, projectParamPath dir pid @ suf}. files d q = None))"

definition backups :: "string \<Rightarrow> string \<Rightarrow> string \<times> string \<times> string \<Rightarrow> string set" where
  "backups dir pid temps = (case temps of (t1, t2, suf) \<Rightarrow> {projectConfigPath dir pid @ suf, projectParamPath dir pid @ suf})"

lemma save_project_outcome:
  assumes "one_fault (sm_disk s)" and "new_names (projectsDir s) (pr_id p) temps (sm_disk s)"
    and "save_project cd temps p s = (r, s')"
  shows "case r of Inl err \<Rightarrow> files (sm_disk s') = files (sm_disk s)
    | Inr _ \<Rightarrow> stored cd (projectsDir s) p (sm_disk s') \<and> one_fault (sm_disk s')
        \<and> (\<forall>q. q \<notin> {projectConfigPath (projectsDir s) (pr_id p), projectParamPath (projectsDir s) (pr_id p)}
             \<union> backups (projectsDir s) (pr_id p) temps \<longrightarrow> files (sm_disk s') q = files (sm_disk s) q)"
proof -
  obtain t1 t2 suf where t: "temps = (t1, t2, suf)" by (metis prod_cases3)
  obtain d where d: "saveProject (cd_to_json cd) t1 t2 suf (projectsDir s) p (sm_disk s) = (r, d)" "sm_disk s' = d"
    using assms(3) by (auto simp: save_project_def t split: prod.splits)
  show ?thesis
    using saveProject_files [OF _ _ _ _ _ d(1)] assms(1,2)
    by (auto simp: new_names_def t stored_def backups_def d(2) one_fault_def split: sum.splits)
qed

definition event_turn :: "sched_event list \<Rightarrow> server \<Rightarrow> server" where
  "event_turn evs = on_sched (\<lambda>e. run_events sched_step e evs)"

lemma event_turn_keeps [simp]:
  "sm_disk (event_turn evs s) = sm_disk s" "sm_projects (event_turn evs s) = sm_projects s"
  "sm_dataRoot (event_turn evs s) = sm_dataRoot s"
  by (simp_all add: event_turn_def)

lemma event_wait:
  assumes "rq_grace rq = map event_turn g" and "rq_drain rq = map event_turn h"
    and "stopProjectAndWait rq pid s = (r, s')"
  shows "sm_disk s' = sm_disk s \<and> sm_projects s' = sm_projects s \<and> sm_dataRoot s' = sm_dataRoot s"
proof -
  let ?I = "\<lambda>t. sm_disk t = sm_disk s \<and> sm_projects t = sm_projects s \<and> sm_dataRoot t = sm_dataRoot s"
  have "turns_keep rq ?I" using assms(1,2) by (auto simp: turns_keep_def)
  from stopProjectAndWait_keeps [OF this _ _ assms(3)] show ?thesis by simp
qed

lemma parse_rest_id: "pr_id (fst (parse_project_rest obj b p)) = pr_id p"
  by (auto simp: parse_project_rest_def Let_def split: prod.splits)

lemma Project_fromJson_id: "pr_id (fst (Project_fromJson pid obj)) = pid"
  by (auto simp: Project_fromJson_def parseProjectJson_def Project_default_def parse_rest_id Let_def split: option.splits)

lemma validate_project_id: "validate_project cd s p = (ok, q) \<Longrightarrow> pr_id q = pr_id p"
  by (auto simp: validate_project_def validateProject_def split: option.splits prod.splits)

definition drawn :: "string \<Rightarrow> string \<Rightarrow> string \<times> string \<times> string \<Rightarrow> string set" where
  "drawn dir pid temps = (case temps of (t1, t2, suf) \<Rightarrow> {t1, t2} \<union> backups dir pid temps)"

lemma new_names_later:
  assumes "new_names dir pid temps d" and "drawn dir pid temps \<inter> X = {}"
    and "\<forall>q. q \<notin> {projectConfigPath dir pid, projectParamPath dir pid} \<union> X \<longrightarrow> files d' q = files d q"
  shows "new_names dir pid temps d'"
proof -
  obtain t1 t2 suf where t: "temps = (t1, t2, suf)" by (metis prod_cases3)
  have "files d' q = files d q" if "q \<in> {t1, t2, projectConfigPath dir pid @ suf, projectParamPath dir pid @ suf}" for q
    using assms that by (auto simp: new_names_def drawn_def backups_def t)
  with assms(1) show ?thesis by (simp add: new_names_def t)
qed

lemma projectsDir_keeps: "sm_dataRoot s' = sm_dataRoot s \<Longrightarrow> projectsDir s' = projectsDir s"
  by (simp add: projectsDir_def)

lemma save_project_dir: "save_project cd temps p s = (r, s') \<Longrightarrow> sm_dataRoot s' = sm_dataRoot s"
  by (auto simp: save_project_def split: prod.splits)

lemma give_up_stored:
  assumes "one_fault (sm_disk s)" and "new_names (projectsDir s) (pr_id p) (rq_rollbackTemps rq) (sm_disk s)"
    and "give_up_change cd rq pid p s = (r, s')" and "rs_code r \<noteq> 500"
  shows "stored cd (projectsDir s) p (sm_disk s')"
proof -
  obtain r1 s1 where sv: "save_project cd (rq_rollbackTemps rq) p s = (r1, s1)" by fastforce
  with assms(3,4) have "r1 = Inr ()" "sm_disk s' = sm_disk s1"
    by (cases r1; auto simp: give_up_change_def rollbackProjectStorage_def Let_def)+
  with save_project_outcome [OF assms(1,2) sv] show ?thesis by simp
qed

text \<open>C16: An update reaches the memory and the disk or neither: when the disk agrees with the project
  before the request, it agrees with it after every answer but an internal error, even if one file
  operation fails and even if the processes do not end in time, in which case the files are written
  back; and the project in memory is a new one only if the answer is 200.\<close>

theorem update_reaches_disk:
  assumes "one_fault (sm_disk s)" and "om_get (sm_projects s) pid = Some p" and "pr_id p = pid" and "pid \<notin> sm_inFlight s"
    and "stored cd (projectsDir s) p (sm_disk s)"
    and "new_names (projectsDir s) pid (rq_temps rq) (sm_disk s)"
    and "new_names (projectsDir s) pid (rq_rollbackTemps rq) (sm_disk s)"
    and "drawn (projectsDir s) pid (rq_rollbackTemps rq) \<inter> backups (projectsDir s) pid (rq_temps rq) = {}"
    and "rq_grace rq = map event_turn g" and "rq_drain rq = map event_turn h"
    and "handleProjectUpdate cd rq pid s = (r, s')"
  shows "\<exists>q. om_get (sm_projects s') pid = Some q \<and> (rs_code r \<noteq> 500 \<longrightarrow> stored cd (projectsDir s) q (sm_disk s'))
    \<and> (rs_code r \<noteq> 200 \<longrightarrow> q = p)"
proof -
  define s1 where "s1 = s\<lparr>sm_inFlight := insert pid (sm_inFlight s)\<rparr>"
  have s1: "sm_disk s1 = sm_disk s" "projectsDir s1 = projectsDir s" "om_get (sm_projects s1) pid = Some p"
    using assms(2) by (simp_all add: s1_def projectsDir_def)
  obtain s2 where b: "update_body cd rq pid s1 = (r, s2)" "sm_disk s' = sm_disk s2" "sm_projects s' = sm_projects s2"
    using assms(2,4,11) by (auto simp: handleProjectUpdate_def guarded_def om_has_def s1_def Let_def split: prod.splits)
  show ?thesis
  proof (cases "sm_disk s2 = sm_disk s \<and> om_get (sm_projects s2) pid = Some p \<and> rs_code r \<noteq> 200")
    case True
    with assms(5) b show ?thesis by simp
  next
    case changed: False
    obtain body where body: "parseJsonObjectBody cd (rq_body rq) = Inr body"
      using changed b(1) s1 by (cases "parseJsonObjectBody cd (rq_body rq)") (auto simp: update_body_def split: if_splits)
    have id: "\<not> (is_string (jval body ''id'') \<and> to_string (jval body ''id'') \<noteq> pid)"
      using changed b(1) s1 by (auto simp: update_body_def body split: if_splits)
    obtain q0 perr where q0: "Project_fromJson pid body = (q0, perr)" by fastforce
    obtain ok q where q: "validate_project cd s1 q0 = (ok, q)" by fastforce
    have qid: "pr_id q = pid" using validate_project_id [OF q] Project_fromJson_id [of pid body] q0 by simp
    obtain r1 t1 where save: "save_project cd (rq_temps rq) q s1 = (r1, t1)" by fastforce
    obtain fin t2 where w: "stopProjectAndWait rq pid t1 = (fin, t2)" by fastforce
    note run = b(1) [unfolded update_body_def Let_def body sum.case q0 prod.case q if_not_P [OF id] save s1(3) w]
    have t1: "sm_projects t1 = sm_projects s1" "projectsDir t1 = projectsDir s"
      using save_project_keeps [OF save] projectsDir_keeps [OF save_project_dir [OF save]] s1 by auto
    have t2: "sm_disk t2 = sm_disk t1" "sm_projects t2 = sm_projects t1" "projectsDir t2 = projectsDir s"
      using event_wait [OF assms(9,10) w] t1 projectsDir_keeps [of t2 t1] by auto
    note out = save_project_outcome [OF _ _ save, unfolded s1 qid, OF assms(1,6)]
    show ?thesis
    proof (cases "perr = [] \<and> ok")
      case False
      with run changed s1 show ?thesis by (auto split: if_splits)
    next
      case parsed: True
      show ?thesis
      proof (cases r1)
        case (Inl err)
        with run parsed out have "r = errorResponse 500 err" "s2 = t1" by auto
        with t1 s1 b show ?thesis by simp
      next
        case (Inr u)
        show ?thesis
        proof (cases fin)
          case True
          with run parsed Inr have "r = jsonResponse (projectToJson q (server_mgr s2)) 200"
              "s2 = startScheduling (rq_starts rq) (put_project pid q t2)" by auto
          with out Inr t2 b show ?thesis by (simp add: put_project_def)
        next
          case stuck: False
          with run parsed Inr have gu: "give_up_change cd rq pid p t2 = (r, s2)" by simp
          have "new_names (projectsDir t2) (pr_id p) (rq_rollbackTemps rq) (sm_disk t2)"
            using out Inr new_names_later [OF assms(7,8), of "sm_disk t2"] by (simp add: t2 assms(3))
          from give_up_stored [OF _ this gu] out Inr t2 have "rs_code r \<noteq> 500 \<Longrightarrow> stored cd (projectsDir s) p (sm_disk s2)"
            by simp
          with give_up_projects [OF gu] give_up_code [OF gu] t1 t2 s1 b show ?thesis by simp
        qed
      qed
    qed
  qed
qed

section \<open>A server for the witnesses\<close>

definition plain_codec :: qt_codec where
  "plain_codec = \<lparr>cd_to_json = (\<lambda>_. [1]), cd_from_json = (\<lambda>_. Inr (JObj [(''name'', JStr ''n''), (''serviceId'', JStr ''s'')])),
     cd_re_match = (\<lambda>_ _. True), cd_render = (\<lambda>_. [])\<rparr>"

definition one_project_server :: server where
  "one_project_server = \<lparr>sm_dataRoot = ''d'', sm_sched = new_sched ''d'' [], sm_services = some_services,
     sm_projects = [(''a'', daemon_project)],
     sm_disk = \<lparr>files = [projectConfigPath ''d/projects'' ''a'' \<mapsto> [1], projectParamPath ''d/projects'' ''a'' \<mapsto> [1]], faults = []\<rparr>,
     sm_inFlight = {}\<rparr>"

definition some_request :: "(server \<Rightarrow> server) list \<Rightarrow> request" where
  "some_request grace = \<lparr>rq_body = [123], rq_starts = (\<lambda>_. good_env ''i''), rq_temps = (''t1'', ''t2'', ''.bak1''),
     rq_rollbackTemps = (''t3'', ''t4'', ''.bak2''), rq_grace = grace, rq_drain = [], rq_dirs = [], rq_kept = (\<lambda>_. False)\<rparr>"

lemma one_project_server_simps [simp]:
  "om_get (sm_projects one_project_server) ''a'' = Some daemon_project" "sm_inFlight one_project_server = {}"
  "pr_id daemon_project = ''a''" "rq_drain (some_request g) = []" "rq_grace (some_request g) = g"
  by (simp_all add: one_project_server_def daemon_project_def some_request_def)

lemma change_is_isolated_witness:
  "let rq = some_request [\<lambda>s. snd (handleProjectDelete (some_request []) ''a'' s)] in
   \<exists>q. om_get (sm_projects (snd (handleProjectUpdate plain_codec rq ''a'' one_project_server))) ''a'' = Some q"
proof -
  let ?rq = "some_request [\<lambda>s. snd (handleProjectDelete (some_request []) ''a'' s)]"
  have "turn (\<lambda>s. snd (handleProjectDelete (some_request []) ''a'' s))" by (rule turn_delete) simp
  then have "\<forall>f \<in> set (rq_grace ?rq) \<union> set (rq_drain ?rq). turn f" by simp
  from change_is_isolated [OF this one_project_server_simps(1) _ prod.collapse [symmetric], of plain_codec]
  show ?thesis by (auto simp: Let_def split: if_splits)
qed

lemma update_reaches_disk_witness:
  "let (r, s') = handleProjectUpdate plain_codec (some_request []) ''a'' one_project_server in
   \<exists>q. om_get (sm_projects s') ''a'' = Some q \<and> (rs_code r \<noteq> 500 \<longrightarrow> stored plain_codec ''d/projects'' q (sm_disk s'))"
proof -
  have dir: "projectsDir one_project_server = ''d/projects''" by (simp add: projectsDir_def one_project_server_def)
  have hyps: "one_fault (sm_disk one_project_server)"
    "stored plain_codec (projectsDir one_project_server) daemon_project (sm_disk one_project_server)"
    "new_names (projectsDir one_project_server) ''a'' (rq_temps (some_request [])) (sm_disk one_project_server)"
    "new_names (projectsDir one_project_server) ''a'' (rq_rollbackTemps (some_request [])) (sm_disk one_project_server)"
    "drawn (projectsDir one_project_server) ''a'' (rq_rollbackTemps (some_request []))
       \<inter> backups (projectsDir one_project_server) ''a'' (rq_temps (some_request [])) = {}"
    unfolding dir
    by (simp_all add: one_fault_def one_project_server_def stored_def plain_codec_def daemon_project_def new_names_def
        some_request_def projectConfigPath_def projectParamPath_def path_join_def drawn_def backups_def)
  from update_reaches_disk [OF hyps(1) one_project_server_simps(1,3) _ hyps(2-5), of "[]" "[]", OF _ _ _ prod.collapse [symmetric]]
  show ?thesis unfolding dir by (auto simp: split_beta Let_def)
qed

section \<open>Starting by hand\<close>

lemma cnt_start:
  assumes "mgr_ok m" and "startInstance env p dir m = (r, sigs, m')"
  shows "cnt pid (m_instances m') \<le> cnt pid (m_instances m) + (if pr_id p = pid then 1 else 0)"
  using startInstance_ok [OF assms] by simp

lemma start_body_cases:
  assumes "start_body rq pid s = (r, s')"
  shows "s' = s \<or> (\<exists>p dir r0. om_get (sm_projects s) pid = Some p \<and> pr_valid p
      \<and> start_refused p (instanceCount pid (server_mgr s)) = None
      \<and> start_instance (rq_starts rq pid) p dir (resumeProject pid (sm_sched s)) = (r0, sm_sched s'))"
  using assms
  by (auto simp: start_body_def Let_def split: prod.splits option.splits if_splits sum.splits)

text \<open>C22: A start by hand keeps to the schedule: after the request the project has no more instances than
  before or than its schedule allows, which is one for a manual project and a daemon and
  \<open>maxConcurrent\<close> for a fixed rate, and no other project gets an instance.\<close>

theorem start_request_within_limit:
  assumes "mgr_ok (server_mgr s)" and "\<And>k p. om_get (sm_projects s) k = Some p \<Longrightarrow> pr_id p = k"
    and "pid \<noteq> []" and "k \<noteq> []"
    and "handleProjectStart rq pid s = (r, s')"
  shows "instanceCount k (server_mgr s') \<le> instanceCount k (server_mgr s)
    \<or> (k = pid \<and> (\<exists>p. om_get (sm_projects s) pid = Some p \<and> pr_valid p \<and> instanceCount k (server_mgr s') \<le> limit p))"
proof (cases "server_mgr s' = server_mgr s")
  case False
  define s1 where "s1 = s\<lparr>sm_inFlight := insert pid (sm_inFlight s)\<rparr>"
  have s1: "sm_sched s1 = sm_sched s" "server_mgr s1 = server_mgr s" "sm_projects s1 = sm_projects s"
    by (simp_all add: s1_def server_mgr_def)
  obtain s2 where b: "start_body rq pid s1 = (r, s2)" "sm_sched s' = sm_sched s2"
    using assms(5) False by (auto simp: handleProjectStart_def guarded_def s1_def Let_def split: prod.splits if_splits)
  have "s2 \<noteq> s1" using False b(2) s1 by (auto simp: server_mgr_def)
  with start_body_cases [OF b(1)] obtain p dir r0 where p: "om_get (sm_projects s) pid = Some p" "pr_valid p"
      "start_refused p (instanceCount pid (server_mgr s)) = None"
    and e: "start_instance (rq_starts rq pid) p dir (resumeProject pid (sm_sched s)) = (r0, sm_sched s')"
    by (auto simp: s1 b(2))
  have m: "server_mgr s' = mgr (snd (start_instance (rq_starts rq pid) p dir (resumeProject pid (sm_sched s))))"
    by (simp add: server_mgr_def e)
  have id: "pr_id p = pid" using assms(2) p(1) .
  obtain r0 sigs m' where st: "startInstance (rq_starts rq pid) p dir (server_mgr s) = (r0, sigs, m')"
    by (metis prod_cases3)
  have m': "server_mgr s' = m'" using m st by (simp add: mgr_start_instance resumeProject_def server_mgr_def)
  have c: "cnt k (m_instances m') \<le> cnt k (m_instances (server_mgr s)) + (if pid = k then 1 else 0)"
    using cnt_start [OF assms(1) st] by (simp add: id)
  have "cnt pid (m_instances (server_mgr s)) + 1 \<le> limit p"
    using p(3) assms(3) by (auto simp: start_refused_def limit_def instanceCount_cnt split: schedule_type.splits if_splits)
  with c p(1,2) m' show ?thesis
    by (cases "k = pid") (auto simp: instanceCount_cnt assms(3,4))
qed simp

lemma start_request_within_limit_witness:
  "instanceCount ''a'' (server_mgr (snd (handleProjectStart (some_request []) ''a'' one_project_server))) \<le> 1"
proof -
  have m: "mgr_ok (server_mgr one_project_server)" "instanceCount ''a'' (server_mgr one_project_server) = 0"
    by (simp_all add: one_project_server_def server_mgr_def new_sched_def new_manager_def mgr_ok_def instanceCount_def)
  have "\<And>k p. om_get (sm_projects one_project_server) k = Some p \<Longrightarrow> pr_id p = k"
    by (auto simp: one_project_server_def daemon_project_def split: if_splits)
  from start_request_within_limit [OF m(1) this _ _ prod.collapse [symmetric], of "''a''" "''a''" "some_request []"] m(2)
  show ?thesis by (auto simp: limit_def daemon_project_def)
qed

section \<open>Services\<close>

lemma invalidate_keeps:
  "om_get (sm_projects (invalidate_project sid pid s)) k = map_option (\<lambda>p.
     if k = pid then p\<lparr>pr_valid := False, pr_error := ''service '' @ quote @ sid @ quote @ '' has been deleted''\<rparr> else p)
     (om_get (sm_projects s) k)"
  by (cases "k = pid"; cases "om_get (sm_projects s) pid"; simp add: invalidate_project_def option.map_ident)

lemma invalidate_all:
  "om_get (sm_projects (fold (invalidate_project sid) pids s)) k = map_option (\<lambda>p.
     if k \<in> set pids then p\<lparr>pr_valid := False, pr_error := ''service '' @ quote @ sid @ quote @ '' has been deleted''\<rparr> else p)
     (om_get (sm_projects s) k)"
  by (induction pids arbitrary: s) (auto simp: invalidate_keeps option.map_comp option.map_ident intro!: option.map_cong)

lemma invalidate_services: "sm_services (fold (invalidate_project sid) pids s) = sm_services s"
proof -
  have "sm_services (invalidate_project sid pid s) = sm_services s" for pid s
    by (simp add: invalidate_project_def split: option.split)
  then show ?thesis by (induction pids arbitrary: s) simp_all
qed

lemma invalidate_suppresses:
  "pid \<in> set pids \<Longrightarrow> om_has (sm_projects s) pid \<Longrightarrow>
   pid \<in> m_restartSuppressed (sm_sched (fold (invalidate_project sid) pids s))"
proof (induction pids arbitrary: s)
  case (Cons k pids)
  have keep: "pid \<in> m_restartSuppressed (sm_sched (invalidate_project sid q s'))"
    if "pid \<in> m_restartSuppressed (sm_sched s')" for q s'
    using that by (auto simp: invalidate_project_def on_manager_def stopProject_def split: option.split)
  have keeps: "pid \<in> m_restartSuppressed (sm_sched (fold (invalidate_project sid) qs s'))"
    if "pid \<in> m_restartSuppressed (sm_sched s')" for qs s'
    using that by (induction qs arbitrary: s') (auto intro: keep)
  have has: "om_has (sm_projects (invalidate_project sid k s)) pid = om_has (sm_projects s) pid"
    by (auto simp: om_has_def invalidate_keeps)
  show ?case
  proof (cases "k = pid")
    case True
    with Cons.prems(2) have "pid \<in> m_restartSuppressed (sm_sched (invalidate_project sid k s))"
      by (auto simp: invalidate_project_def on_manager_def stopProject_def om_has_def split: option.split)
    then show ?thesis by (simp add: keeps)
  qed (use Cons has in auto)
qed simp

text \<open>A service that was deleted is gone and used by no valid project: without force the deletion is
  refused as long as any project names it, and with force every such project is marked invalid,
  stopped and kept from being restarted, while all other projects stay as they were.\<close>

theorem deleted_service_unused:
  assumes "deleteService removed sid force s = (Inr (), s')" and "om_ok (sm_projects s)"
    and "om_get (sm_projects s) pid = Some p"
  shows "\<not> om_has (sm_services s') sid
    \<and> (if serviceId p = sid
       then force \<and> pid \<in> m_restartSuppressed (sm_sched s')
         \<and> (\<exists>q. om_get (sm_projects s') pid = Some q \<and> \<not> pr_valid q)
       else om_get (sm_projects s') pid = Some p)"
proof -
  define assoc where "assoc = map fst (filter (\<lambda>(_, p). serviceId p = sid) (sm_projects s))"
  have mem: "pid \<in> set assoc \<longleftrightarrow> serviceId p = sid"
  proof
    assume "pid \<in> set assoc"
    then obtain q where q: "(pid, q) \<in> set (sm_projects s)" "serviceId q = sid" by (auto simp: assoc_def)
    with om_ok_get [OF assms(2) q(1)] assms(3) show "serviceId p = sid" by simp
  next
    assume "serviceId p = sid"
    with om_get_set [OF assms(3)] show "pid \<in> set assoc" by (force simp: assoc_def)
  qed
  define s1 where "s1 = (if force then fold (invalidate_project sid) assoc s else s)"
  have run: "s' = s1\<lparr>sm_services := om_del sid (sm_services s1)\<rparr>" "assoc \<noteq> [] \<longrightarrow> force"
    using assms(1) by (auto simp: deleteService_def s1_def assoc_def Let_def split: if_splits)
  show ?thesis
  proof (cases "serviceId p = sid")
    case True
    with mem run(2) have f: "force" "pid \<in> set assoc" by auto
    with invalidate_suppresses [OF f(2), of s sid] assms(3) True show ?thesis
      by (simp add: run(1) s1_def invalidate_all om_has_def)
  next
    case False
    with mem assms(3) show ?thesis by (simp add: run(1) s1_def invalidate_all)
  qed
qed

lemma deleted_service_unused_witness:
  "let s' = snd (deleteService True ''s'' True one_project_server)
   in \<not> om_has (sm_services s') ''s'' \<and> (\<exists>q. om_get (sm_projects s') ''a'' = Some q \<and> \<not> pr_valid q)"
proof -
  have s: "om_has (sm_services one_project_server) ''s''" "om_ok (sm_projects one_project_server)" "serviceId daemon_project = ''s''"
    by (simp_all add: one_project_server_def some_services_def om_ok_def daemon_project_def)
  then have "deleteService True ''s'' True one_project_server = (Inr (), snd (deleteService True ''s'' True one_project_server))"
    by (simp add: deleteService_def Let_def)
  from deleted_service_unused [OF this s(2) one_project_server_simps(1)] s(3) show ?thesis by (simp add: Let_def)
qed

end
