(* ===== verification/ServiceFiles.thy ===== *)
theory ServiceFiles
  imports ServerManager "HOL-Library.AList"
begin

text \<open>
  The files of the services (\<open>src/src/stdiolink_server/http/service_file_handler.*\<close>). Requests of the HTTP
  interface name a file by a path below a service's directory; the handler decides whether the path may
  be used, reads, writes and lists. The disk is a tree of files, directories and symbolic links, keyed by
  the physical path, in the order in which the system lists it; \<open>tr_unreadable\<close> are the files that may not
  be opened for reading, \<open>tr_faults\<close> the outcomes of the changes to come, \<open>True\<close> for a failure. \<open>tr_resources\<close> are the names below the
  root of Qt's resources, which a program sees as files whose names begin with a colon. Directories have absolute names without \<open>.\<close> and \<open>..\<close>, and
  the platform is one with \<open>/\<close> as its only separator and names that differ in case.
\<close>

section \<open>The disk\<close>

type_synonym path = "string list"

datatype node = FileNode bytes | DirNode | LinkNode path

record tree =
  tr_entries :: "(path \<times> node) list"
  tr_maxLinks :: nat
  tr_unreadable :: "path list"
  tr_faults :: "bool list"
  tr_resources :: "string list"

definition node_at :: "tree \<Rightarrow> path \<Rightarrow> node option" where
  "node_at t p = (if p = [] then Some DirNode else map_of (tr_entries t) p)"

definition put_node :: "path \<Rightarrow> node \<Rightarrow> tree \<Rightarrow> tree" where
  "put_node p n t = t\<lparr>tr_entries := AList.update p n (tr_entries t)\<rparr>"

definition del_node :: "path \<Rightarrow> tree \<Rightarrow> tree" where
  "del_node p t = t\<lparr>tr_entries := AList.delete p (tr_entries t)\<rparr>"

definition take_fault :: "tree \<Rightarrow> bool \<times> tree" where
  "take_fault t = (case tr_faults t of [] \<Rightarrow> (False, t) | f # fs \<Rightarrow> (f, t\<lparr>tr_faults := fs\<rparr>))"

text \<open>The system follows links, at most \<open>tr_maxLinks\<close> of them: the physical path of a path, if there is
  something.\<close>

fun walk :: "tree \<Rightarrow> nat \<Rightarrow> path \<Rightarrow> path \<Rightarrow> path option" where
  "walk t links cur [] = Some cur"
| "walk t links cur (seg # rest) =
     (case node_at t (cur @ [seg]) of
        None \<Rightarrow> None
      | Some (FileNode _) \<Rightarrow> if rest = [] then Some (cur @ [seg]) else None
      | Some DirNode \<Rightarrow> walk t links (cur @ [seg]) rest
      | Some (LinkNode target) \<Rightarrow> (case links of 0 \<Rightarrow> None | Suc k \<Rightarrow> walk t k [] (target @ rest)))"

definition canonicalFilePath :: "tree \<Rightarrow> path \<Rightarrow> path option" where
  "canonicalFilePath t p = walk t (tr_maxLinks t) [] p"

definition path_exists :: "tree \<Rightarrow> path \<Rightarrow> bool" where
  "path_exists t p = (canonicalFilePath t p \<noteq> None)"

definition is_dir :: "tree \<Rightarrow> path \<Rightarrow> bool" where
  "is_dir t p = (case canonicalFilePath t p of Some c \<Rightarrow> node_at t c = Some DirNode | None \<Rightarrow> False)"

definition file_content :: "tree \<Rightarrow> path \<Rightarrow> bytes option" where
  "file_content t p =
     (case canonicalFilePath t p of
        Some c \<Rightarrow> (case node_at t c of Some (FileNode b) \<Rightarrow> Some b | _ \<Rightarrow> None)
      | None \<Rightarrow> None)"

definition is_file :: "tree \<Rightarrow> path \<Rightarrow> bool" where
  "is_file t p = (file_content t p \<noteq> None)"

definition read_file :: "tree \<Rightarrow> path \<Rightarrow> bytes option" where
  "read_file t p = (if the (canonicalFilePath t p) \<in> set (tr_unreadable t) then None else file_content t p)"

text \<open>The physical place of an entry whose directory exists, whatever the entry is.\<close>

definition entry_place :: "tree \<Rightarrow> path \<Rightarrow> path option" where
  "entry_place t p =
     (if p = [] then None
      else case canonicalFilePath t (butlast p) of
        Some d \<Rightarrow> (if node_at t d = Some DirNode then Some (d @ [last p]) else None)
      | None \<Rightarrow> None)"

definition is_link :: "tree \<Rightarrow> path \<Rightarrow> bool" where
  "is_link t p =
     (case entry_place t p of
        Some e \<Rightarrow> (case node_at t e of Some (LinkNode _) \<Rightarrow> True | _ \<Rightarrow> False)
      | None \<Rightarrow> False)"

text \<open>\<open>QDir::mkpath\<close>.\<close>

fun make_dirs :: "path \<Rightarrow> path \<Rightarrow> tree \<Rightarrow> bool \<times> tree" where
  "make_dirs cur [] t = (True, t)"
| "make_dirs cur (seg # rest) t =
     (let p = cur @ [seg] in
      if path_exists t p then (if is_dir t p then make_dirs p rest t else (False, t))
      else
        let (fault, t) = take_fault t in
        if fault \<or> is_link t p then (False, t)
        else case entry_place t p of
          None \<Rightarrow> (False, t)
        | Some e \<Rightarrow> make_dirs p rest (put_node e DirNode t))"

definition mkpath :: "path \<Rightarrow> tree \<Rightarrow> bool \<times> tree" where
  "mkpath p t = make_dirs [] p t"

text \<open>\<open>QFile::remove\<close> removes files and links.\<close>

definition remove_file :: "path \<Rightarrow> tree \<Rightarrow> bool \<times> tree" where
  "remove_file p t =
     (let (fault, t) = take_fault t in
      case entry_place t p of
        None \<Rightarrow> (False, t)
      | Some e \<Rightarrow>
          if fault \<or> node_at t e = None \<or> node_at t e = Some DirNode then (False, t) else (True, del_node e t))"

text \<open>\<open>QDir::removeRecursively\<close>; when it fails, nothing is removed.\<close>

definition inside :: "path \<Rightarrow> path \<Rightarrow> bool" where
  "inside base p \<longleftrightarrow> take (length base) p = base"

definition remove_recursively :: "path \<Rightarrow> tree \<Rightarrow> bool \<times> tree" where
  "remove_recursively p t =
     (let (fault, t) = take_fault t in
      case canonicalFilePath t p of
        None \<Rightarrow> (True, t)
      | Some c \<Rightarrow>
          if fault then (False, t)
          else (True, t\<lparr>tr_entries := filter (\<lambda>(q, _). \<not> inside c q) (tr_entries t)\<rparr>))"

section \<open>Paths\<close>

text \<open>The prefix test of the code appends a slash to the base, so nothing passes below \<open>/\<close> itself.\<close>

definition beneath :: "path \<Rightarrow> path \<Rightarrow> bool" where
  "beneath base p \<longleftrightarrow> base \<noteq> [] \<and> length base < length p \<and> take (length base) p = base"

text \<open>\<open>QDir::cleanPath\<close> of an absolute path, by its parts.\<close>

definition clean_step :: "path \<Rightarrow> string \<Rightarrow> path" where
  "clean_step acc seg =
     (if seg = [] \<or> seg = ''.'' then acc else if seg = ''..'' then butlast acc else acc @ [seg])"

definition clean_path :: "string list \<Rightarrow> path" where
  "clean_path segs = foldl clean_step [] segs"

definition dir_path :: "string \<Rightarrow> path" where
  "dir_path dir = clean_path (split_at_char (CHR ''/'') dir)"

definition isAbsolutePath :: "string \<Rightarrow> bool" where
  "isAbsolutePath p \<longleftrightarrow> p \<noteq> [] \<and> (hd p = CHR ''/'' \<or> hd p = CHR '':'')"

text \<open>The parts between slashes of both kinds.\<close>

definition split_seps :: "string \<Rightarrow> string list" where
  "split_seps p = concat (map (split_at_char (CHR 0x5C)) (split_at_char (CHR ''/'') p))"

definition absoluteFilePath :: "path \<Rightarrow> string \<Rightarrow> path" where
  "absoluteFilePath dir p = clean_path (dir @ split_at_char (CHR ''/'') p)"

text \<open>
  The loop over the parts; \<open>final\<close> is the last part, \<open>dir\<close> the path so far. \<open>QDir::absoluteFilePath\<close>
  gives a part that begins with a colon back as it is, the name of a resource: if there is no such
  resource, the loop goes on below it, off the disk (\<open>dir\<close> is \<open>None\<close>), where there is nothing either.
\<close>

fun path_steps :: "tree \<Rightarrow> path \<Rightarrow> string \<Rightarrow> string list \<Rightarrow> path option \<Rightarrow> bool" where
  "path_steps t base final [] dir = True"
| "path_steps t base final (seg # segs) dir =
     (if seg = [] \<or> seg = ''.'' then path_steps t base final segs dir
      else if hd seg = CHR '':''
      then (if tl seg \<in> set (tr_resources t) then False else path_steps t base final segs None)
      else
        (case dir of
           None \<Rightarrow> path_steps t base final segs None
         | Some d \<Rightarrow>
             let step = d @ [seg] in
             if is_link t step then False
             else
               (case canonicalFilePath t step of
                  None \<Rightarrow> path_steps t base final segs (Some step)
                | Some c \<Rightarrow>
                    if c \<noteq> base \<and> \<not> beneath base c then False
                    else if \<not> is_dir t step \<and> seg \<noteq> final then False
                    else path_steps t base final segs (Some step))))"

definition isPathSafe :: "path \<Rightarrow> string \<Rightarrow> tree \<Rightarrow> bool" where
  "isPathSafe serviceDir relativePath t =
     (if relativePath = [] then False
      else if isAbsolutePath relativePath then False
      else
        let segments = split_seps relativePath in
        if ''..'' \<in> set segments then False
        else
          let resolved = absoluteFilePath serviceDir relativePath in
          if \<not> beneath serviceDir resolved then False
          else
            let base = (case canonicalFilePath t serviceDir of Some b \<Rightarrow> b | None \<Rightarrow> serviceDir) in
            if is_link t resolved then False
            else path_steps t base (last segments) segments (Some serviceDir))"

section \<open>The handler's functions\<close>

definition resolveSafePath :: "path \<Rightarrow> string \<Rightarrow> tree \<Rightarrow> string + path" where
  "resolveSafePath serviceDir relativePath t =
     (if \<not> isPathSafe serviceDir relativePath t then Inl ''path rejected: unsafe or invalid''
      else Inr (absoluteFilePath serviceDir relativePath))"

text \<open>\<open>QSaveFile\<close> writes a new file and renames it. No caller names a link, which it would follow.
  \<open>reason\<close> is the system's text of an error.\<close>

definition atomicWrite :: "string \<Rightarrow> path \<Rightarrow> bytes \<Rightarrow> tree \<Rightarrow> (string + unit) \<times> tree" where
  "atomicWrite reason p content t =
     (let (openFault, t) = take_fault t in
      case entry_place t p of
        None \<Rightarrow> (Inl (''failed to open for writing: '' @ reason), t)
      | Some e \<Rightarrow>
          if openFault \<or> is_dir t p \<or> is_link t p then (Inl (''failed to open for writing: '' @ reason), t)
          else
            let (writeFault, t) = take_fault t in
            if writeFault then (Inl ''write incomplete'', t)
            else
              let (commitFault, t) = take_fault t in
              if commitFault then (Inl (''commit failed: '' @ reason), t)
              else (Inr (), put_node e (FileNode content) t))"

definition ends_with :: "string \<Rightarrow> string \<Rightarrow> bool" where
  "ends_with suffix s \<longleftrightarrow> length suffix \<le> length s \<and> drop (length s - length suffix) s = suffix"

definition inferFileType :: "string \<Rightarrow> string" where
  "inferFileType fileName =
     (if ends_with ''.json'' fileName then ''json''
      else if ends_with ''.js'' fileName \<or> ends_with ''.mjs'' fileName then ''javascript''
      else if ends_with ''.ts'' fileName then ''typescript''
      else if list_ex (\<lambda>x. ends_with x fileName)
        [''.md'', ''.txt'', ''.yaml'', ''.yml'', ''.toml'', ''.cfg'', ''.ini'', ''.csv''] then ''text''
      else ''unknown'')"

record file_info =
  fi_name :: string
  fi_path :: string
  fi_size :: nat
  fi_modifiedAt :: string
  fi_type :: string

text \<open>Hidden files and what is in hidden directories are not listed; links are not followed.\<close>

definition listFiles :: "(path \<Rightarrow> string) \<Rightarrow> path \<Rightarrow> tree \<Rightarrow> file_info list" where
  "listFiles modified serviceDir t =
     (case canonicalFilePath t serviceDir of
        None \<Rightarrow> []
      | Some base \<Rightarrow>
          concat (map (\<lambda>(p, n).
            let rel = drop (length base) p in
            (case n of
               FileNode content \<Rightarrow>
                 if beneath base p \<and> list_all (\<lambda>seg. \<not> starts_with ''.'' seg) rel
                 then [\<lparr>fi_name = last p, fi_path = join_with ''/'' rel, fi_size = length content,
                        fi_modifiedAt = modified p, fi_type = inferFileType (last p)\<rparr>]
                 else []
             | _ \<Rightarrow> [])) (tr_entries t)))"

definition coreFiles :: "string list" where
  "coreFiles = [''manifest.json'', ''index.js'', ''config.schema.json'']"

definition kMaxFileSize :: nat where
  "kMaxFileSize = 1 * 1024 * 1024"

end
