(* ===== verification/ServiceStore.thy ===== *)
theory ServiceStore
  imports ServiceFiles
begin

text \<open>
  Services on the disk: the manifest (\<open>src/src/stdiolink_service/config/service_manifest.cpp\<close>), the
  directory of a service (\<open>service_directory.cpp\<close>), the scanner
  (\<open>src/src/stdiolink_server/scanner/service_scanner.cpp\<close>) and the creation of a service
  (\<open>server_manager.cpp\<close>). The conversion between texts and bytes is an argument, like that of JSON
  documents.
\<close>

record file_codec =
  fc_json :: qt_codec
  fc_utf8 :: "string \<Rightarrow> bytes"
  fc_text :: "bytes \<Rightarrow> string"
  fc_modified :: "path \<Rightarrow> string"
  fc_reason :: string

section \<open>The manifest\<close>

definition s_knownFields :: "string list" where
  "s_knownFields = [''manifestVersion'', ''id'', ''name'', ''version'', ''description'', ''author'']"

definition required_text :: "string \<Rightarrow> json_obj \<Rightarrow> bool" where
  "required_text name obj \<longleftrightarrow> om_has obj name \<and> to_string (jval obj name) \<noteq> []"

definition ServiceManifest_fromJson :: "json_obj \<Rightarrow> string + service_manifest" where
  "ServiceManifest_fromJson obj =
     (case find (\<lambda>k. k \<notin> set s_knownFields) (om_keys obj) of
        Some k \<Rightarrow> Inl (''unknown field in manifest.json: '' @ [CHR 0x22] @ k @ [CHR 0x22])
      | None \<Rightarrow>
          if \<not> om_has obj ''manifestVersion'' then Inl ''missing required field: manifestVersion''
          else
            let manifestVersion = to_string (jval obj ''manifestVersion'') in
            if manifestVersion \<noteq> ''1''
            then Inl (''unsupported manifestVersion: '' @ [CHR 0x22] @ manifestVersion @ [CHR 0x22] @ '' (expected ''
                   @ [CHR 0x22] @ ''1'' @ [CHR 0x22] @ '')'')
            else if \<not> required_text ''id'' obj then Inl ''missing required field: id''
            else if \<not> required_text ''name'' obj then Inl ''missing required field: name''
            else if \<not> required_text ''version'' obj then Inl ''missing required field: version''
            else Inr \<lparr>mf_manifestVersion = manifestVersion, mf_id = to_string (jval obj ''id''),
                      mf_name = to_string (jval obj ''name''), mf_version = to_string (jval obj ''version''),
                      mf_description = to_string (jval obj ''description''),
                      mf_author = to_string (jval obj ''author'')\<rparr>)"

definition ServiceManifest_loadFromFile :: "qt_codec \<Rightarrow> string \<Rightarrow> bytes option \<Rightarrow> string + service_manifest" where
  "ServiceManifest_loadFromFile cd filePath data =
     (case data of
        None \<Rightarrow> Inl (''cannot open manifest file: '' @ filePath)
      | Some bytes \<Rightarrow>
          (case cd_from_json cd bytes of
             Inl err \<Rightarrow> Inl (''manifest.json parse error: '' @ err)
           | Inr doc \<Rightarrow>
               if \<not> is_object doc then Inl ''manifest.json must contain a JSON object''
               else ServiceManifest_fromJson (to_object doc)))"

section \<open>The scanner\<close>

definition ServiceDirectory_validate :: "string \<Rightarrow> tree \<Rightarrow> string option" where
  "ServiceDirectory_validate dir t =
     (let d = dir_path dir in
      if \<not> is_dir t d then Some (''service directory does not exist: '' @ dir)
      else if \<not> path_exists t (d @ [''manifest.json'']) then Some (''missing manifest.json in service directory: '' @ dir)
      else if \<not> path_exists t (d @ [''index.js'']) then Some (''missing index.js in service directory: '' @ dir)
      else if \<not> path_exists t (d @ [''config.schema.json''])
      then Some (''missing config.schema.json in service directory: '' @ dir)
      else None)"

text \<open>An invalid service is its error.\<close>

definition loadService :: "file_codec \<Rightarrow> string \<Rightarrow> tree \<Rightarrow> string + service_info" where
  "loadService fc serviceDir t =
     (let d = dir_path serviceDir; schemaPath = path_join serviceDir ''config.schema.json'';
          schemaData = read_file t (d @ [''config.schema.json'']) in
      case ServiceDirectory_validate serviceDir t of
        Some err \<Rightarrow> Inl err
      | None \<Rightarrow>
          (case ServiceManifest_loadFromFile (fc_json fc) (path_join serviceDir ''manifest.json'')
                  (read_file t (d @ [''manifest.json''])) of
             Inl err \<Rightarrow> Inl err
           | Inr manifest \<Rightarrow>
               (case fromJsonFile schemaPath (map_option (cd_from_json (fc_json fc)) schemaData) of
                  Inl err \<Rightarrow> Inl err
                | Inr schema \<Rightarrow>
                    (case schemaData of
                       None \<Rightarrow> Inl (''cannot open config schema file: '' @ schemaPath)
                     | Some bytes \<Rightarrow>
                         (case cd_from_json (fc_json fc) bytes of
                            Inl err \<Rightarrow> Inl (''config.schema.json parse error: '' @ err)
                          | Inr doc \<Rightarrow>
                              if \<not> is_object doc then Inl ''config.schema.json parse error: no error occurred''
                              else Inr \<lparr>sv_id = mf_id manifest, sv_name = mf_name manifest,
                                        sv_version = mf_version manifest, sv_serviceDir = serviceDir,
                                        sv_manifest = manifest, sv_schema = schema,
                                        sv_rawConfigSchema = to_object doc\<rparr>)))))"

text \<open>The directories of a directory, sorted by name without regard to case.\<close>

definition dir_names :: "path \<Rightarrow> tree \<Rightarrow> string list" where
  "dir_names d t =
     (case canonicalFilePath t d of
        None \<Rightarrow> []
      | Some base \<Rightarrow>
          sort_key ascii_lower
            (map last (filter (\<lambda>p. length p = length base + 1 \<and> take (length base) p = base \<and> is_dir t p
                \<and> \<not> starts_with ''.'' (last p)) (map fst (tr_entries t)))))"

record scan_counts =
  sc_scannedDirs :: nat
  sc_loadedServices :: nat
  sc_failedServices :: nat

definition scan_entry ::
  "file_codec \<Rightarrow> string \<Rightarrow> tree \<Rightarrow> string \<Rightarrow> (string, service_info) omap \<times> scan_counts
    \<Rightarrow> (string, service_info) omap \<times> scan_counts" where
  "scan_entry fc servicesDir t entry st =
     (let (result, stats) = st; stats = stats\<lparr>sc_scannedDirs := sc_scannedDirs stats + 1\<rparr> in
      case loadService fc (path_join servicesDir entry) t of
        Inl _ \<Rightarrow> (result, stats\<lparr>sc_failedServices := sc_failedServices stats + 1\<rparr>)
      | Inr info \<Rightarrow>
          if om_has result (sv_id info) then (result, stats\<lparr>sc_failedServices := sc_failedServices stats + 1\<rparr>)
          else (om_put (sv_id info) info result, stats\<lparr>sc_loadedServices := sc_loadedServices stats + 1\<rparr>))"

definition ServiceScanner_scan ::
  "file_codec \<Rightarrow> string \<Rightarrow> tree \<Rightarrow> (string, service_info) omap \<times> scan_counts" where
  "ServiceScanner_scan fc servicesDir t =
     (let start = ([], \<lparr>sc_scannedDirs = 0, sc_loadedServices = 0, sc_failedServices = 0\<rparr>) in
      if \<not> is_dir t (dir_path servicesDir) then start
      else fold (scan_entry fc servicesDir t) (dir_names (dir_path servicesDir) t) start)"

section \<open>Creating a service\<close>

definition isValidServiceId :: "string \<Rightarrow> bool" where
  "isValidServiceId sid \<longleftrightarrow> sid \<noteq> [] \<and> length sid \<le> 128
     \<and> (let body = (if last sid = CHR 0x0A then butlast sid else sid) in body \<noteq> [] \<and> list_all is_id_char body)"

definition writeTextFile :: "file_codec \<Rightarrow> path \<Rightarrow> string \<Rightarrow> tree \<Rightarrow> bool \<times> tree" where
  "writeTextFile fc p content t =
     (case atomicWrite (fc_reason fc) p (fc_utf8 fc content) t of (Inl _, t) \<Rightarrow> (False, t) | (Inr _, t) \<Rightarrow> (True, t))"

definition nl :: string where
  "nl = [CHR 0x0A]"

definition templateIndexJs :: "string \<Rightarrow> string" where
  "templateIndexJs templateType =
     (if templateType = ''basic''
      then ''import { getConfig, openDriver } from '' @ [CHR 0x27] @ ''stdiolink'' @ [CHR 0x27] @ '';'' @ nl
        @ ''import { log } from '' @ [CHR 0x27] @ ''stdiolink/log'' @ [CHR 0x27] @ '';'' @ nl @ nl
        @ ''const config = getConfig();'' @ nl
        @ ''log.info('' @ [CHR 0x27] @ ''service started'' @ [CHR 0x27] @ '', { config });'' @ nl @ nl
        @ ''// TODO: implement service logic'' @ nl
      else if templateType = ''driver_demo''
      then ''import { getConfig, openDriver } from '' @ [CHR 0x27] @ ''stdiolink'' @ [CHR 0x27] @ '';'' @ nl
        @ ''import { log } from '' @ [CHR 0x27] @ ''stdiolink/log'' @ [CHR 0x27] @ '';'' @ nl @ nl
        @ ''const config = getConfig();'' @ nl
        @ ''const driver = openDriver(config.driverPath);'' @ nl
        @ ''const task = driver.request('' @ [CHR 0x27] @ ''meta.describe'' @ [CHR 0x27] @ '');'' @ nl
        @ ''const meta = task.wait();'' @ nl
        @ ''log.info('' @ [CHR 0x27] @ ''driver meta'' @ [CHR 0x27] @ '', meta);'' @ nl
        @ ''driver.close();'' @ nl
      else ''import { getConfig } from '' @ [CHR 0x27] @ ''stdiolink'' @ [CHR 0x27] @ '';'' @ nl @ nl
        @ ''const config = getConfig();'' @ nl)"

definition template_field :: "string \<Rightarrow> json" where
  "template_field description =
     JObj (jset ''type'' (JStr ''string'') (jset ''required'' (JBool True)
       (jset ''description'' (JStr description) [])))"

definition templateConfigSchema :: "string \<Rightarrow> json_obj" where
  "templateConfigSchema templateType =
     (if templateType = ''basic'' then jset ''name'' (template_field ''Service display name'') []
      else if templateType = ''driver_demo'' then jset ''driverPath'' (template_field ''Path to driver executable'') []
      else [])"

record service_create =
  cr_id :: string
  cr_name :: string
  cr_version :: string
  cr_description :: string
  cr_author :: string
  cr_templateType :: string
  cr_indexJs :: "string option"
  cr_configSchema :: "json_obj option"

definition new_manifest :: "service_create \<Rightarrow> json_obj" where
  "new_manifest rq =
     jset_if (cr_author rq \<noteq> []) ''author'' (JStr (cr_author rq))
     (jset_if (cr_description rq \<noteq> []) ''description'' (JStr (cr_description rq))
     (jset ''version'' (JStr (cr_version rq)) (jset ''name'' (JStr (cr_name rq))
     (jset ''id'' (JStr (cr_id rq)) (jset ''manifestVersion'' (JStr ''1'') [])))))"

text \<open>A document is written as its text.\<close>

definition json_text :: "file_codec \<Rightarrow> json_obj \<Rightarrow> string" where
  "json_text fc obj = fc_text fc (cd_to_json (fc_json fc) (JObj obj))"

definition give_up_create :: "string \<Rightarrow> path \<Rightarrow> server \<times> tree \<Rightarrow> (string + service_info) \<times> server \<times> tree" where
  "give_up_create err d w = (Inl err, fst w, snd (remove_recursively d (snd w)))"

definition createService ::
  "file_codec \<Rightarrow> service_create \<Rightarrow> server \<times> tree \<Rightarrow> (string + service_info) \<times> server \<times> tree" where
  "createService fc rq w =
     (let (s, t) = w in
      if \<not> isValidServiceId (cr_id rq) then (Inl ''invalid service id'', w)
      else if cr_name rq = [] then (Inl ''missing required field: name'', w)
      else if cr_version rq = [] then (Inl ''missing required field: version'', w)
      else case (case cr_configSchema rq of None \<Rightarrow> Inr [] | Some schema \<Rightarrow> fromJsonObject schema) of
        Inl err \<Rightarrow> (Inl (''invalid configSchema: '' @ err), w)
      | Inr _ \<Rightarrow>
          if om_has (sm_services s) (cr_id rq) then (Inl ''service already exists'', w)
          else
            let serviceDir = sm_dataRoot s @ ''/services/'' @ cr_id rq; d = dir_path serviceDir in
            if is_dir t d then (Inl ''service directory already exists'', w)
            else
              let (made, t) = mkpath d t in
              if \<not> made then (Inl ''failed to create service directory'', s, t)
              else
                let (ok, t) = writeTextFile fc (d @ [''manifest.json'']) (json_text fc (new_manifest rq)) t in
                if \<not> ok then give_up_create ''failed to write manifest.json'' d (s, t)
                else
                  let indexJs = (case cr_indexJs rq of Some js \<Rightarrow> js | None \<Rightarrow> templateIndexJs (cr_templateType rq));
                      (ok, t) = writeTextFile fc (d @ [''index.js'']) indexJs t in
                  if \<not> ok then give_up_create ''failed to write index.js'' d (s, t)
                  else
                    let schema = (case cr_configSchema rq of Some sc \<Rightarrow> sc
                                  | None \<Rightarrow> templateConfigSchema (cr_templateType rq));
                        (ok, t) = writeTextFile fc (d @ [''config.schema.json'']) (json_text fc schema) t in
                    if \<not> ok then give_up_create ''failed to write config.schema.json'' d (s, t)
                    else
                      (case loadService fc serviceDir t of
                         Inl err \<Rightarrow> give_up_create (''failed to load created service: '' @ err) d (s, t)
                       | Inr loaded \<Rightarrow>
                           (Inr loaded, s\<lparr>sm_services := om_put (sv_id loaded) loaded (sm_services s)\<rparr>, t)))"

end
