(* ===== verification/ServiceApi.thy ===== *)
theory ServiceApi
  imports ServiceStore ProjectApi
begin

text \<open>
  The handlers of the HTTP interface for services and their files
  (\<open>src/src/stdiolink_server/http/api_router.cpp\<close>). A handler works on the server and the disk. The path of
  a file is a parameter of the request's query, empty when it is missing.
\<close>

type_synonym world = "server \<times> tree"

section \<open>Services\<close>

definition manifestToJson :: "service_manifest \<Rightarrow> json_obj" where
  "manifestToJson m =
     jset_if (mf_author m \<noteq> []) ''author'' (JStr (mf_author m))
     (jset_if (mf_description m \<noteq> []) ''description'' (JStr (mf_description m))
     (jset ''version'' (JStr (mf_version m)) (jset ''name'' (JStr (mf_name m))
     (jset ''id'' (JStr (mf_id m)) (jset ''manifestVersion'' (JStr (mf_manifestVersion m)) [])))))"

definition displayPathRelativeToDataRoot :: "string \<Rightarrow> string \<Rightarrow> string" where
  "displayPathRelativeToDataRoot path dataRoot =
     (if dataRoot = [] \<or> path = [] then ''--''
      else
        let root = dir_path dataRoot; p = dir_path path in
        if p \<noteq> root \<and> \<not> beneath root p then ''--''
        else if p = root then ''.''
        else join_with ''/'' (drop (length root) p))"

definition projects_of :: "string \<Rightarrow> server \<Rightarrow> string list" where
  "projects_of sid s = map fst (filter (\<lambda>(_, p). serviceId p = sid) (sm_projects s))"

definition service_entry :: "server \<Rightarrow> service_info \<Rightarrow> json_obj" where
  "service_entry s service =
     jset ''projectCount'' (jint (int (length (projects_of (sv_id service) s))))
     (jset ''hasSchema'' (JBool True)
     (jset ''serviceDirDisplay'' (JStr (displayPathRelativeToDataRoot (sv_serviceDir service) (sm_dataRoot s)))
     (jset ''serviceDir'' (JStr (sv_serviceDir service))
     (jset ''version'' (JStr (sv_version service)) (jset ''name'' (JStr (sv_name service))
     (jset ''id'' (JStr (sv_id service)) []))))))"

definition handleServiceList :: "server \<Rightarrow> response" where
  "handleServiceList s =
     jsonResponse (jset ''services'' (JArr (map (\<lambda>(_, service). JObj (service_entry s service)) (sm_services s))) []) 200"

definition handleServiceDetail :: "string \<Rightarrow> server \<Rightarrow> response" where
  "handleServiceDetail sid s =
     (case om_get (sm_services s) sid of
        None \<Rightarrow> errorResponse 404 ''service not found''
      | Some service \<Rightarrow>
          jsonResponse
            (jset ''projects'' (JArr (map JStr (projects_of sid s)))
            (jset ''configSchemaFields'' (JArr (schema_toFieldMetaArray (sv_schema service)))
            (jset ''configSchema'' (JObj (sv_rawConfigSchema service))
            (jset ''manifest'' (JObj (manifestToJson (sv_manifest service)))
            (jset ''serviceDirDisplay'' (JStr (displayPathRelativeToDataRoot (sv_serviceDir service) (sm_dataRoot s)))
            (jset ''serviceDir'' (JStr (sv_serviceDir service))
            (jset ''version'' (JStr (sv_version service)) (jset ''name'' (JStr (sv_name service))
            (jset ''id'' (JStr (sv_id service)) []))))))))) 200)"

text \<open>The flags of a rescan, with their defaults; the error names the first that is not a boolean.\<close>

definition bool_member :: "string \<Rightarrow> bool \<Rightarrow> json_obj \<Rightarrow> string + bool" where
  "bool_member name d body =
     (if om_has body name \<and> \<not> is_bool (jval body name) then Inl (''field '' @ quote @ name @ quote @ '' must be a bool'')
      else if om_has body name then Inr (to_bool_or d (jval body name)) else Inr d)"

definition scan_answer :: "scan_counts \<Rightarrow> rescan_stats \<Rightarrow> json_obj" where
  "scan_answer counts stats =
     jset ''invalidProjects'' (JArr (map JStr (st_invalidProjectIds stats)))
     (jset ''schedulingRestarted'' (JBool (st_schedulingRestarted stats))
     (jset ''remainedInvalid'' (jint (int (st_remainedInvalid stats)))
     (jset ''becameInvalid'' (jint (int (st_becameInvalid stats)))
     (jset ''becameValid'' (jint (int (st_becameValid stats)))
     (jset ''revalidatedProjects'' (jint (int (st_revalidated stats)))
     (jset ''unchanged'' (jint (int (st_unchanged stats)))
     (jset ''updated'' (jint (int (st_updated stats)))
     (jset ''removed'' (jint (int (st_removed stats)))
     (jset ''added'' (jint (int (st_added stats)))
     (jset ''failedServices'' (jint (int (sc_failedServices counts)))
     (jset ''loadedServices'' (jint (int (sc_loadedServices counts)))
     (jset ''scannedDirs'' (jint (int (sc_scannedDirs counts))) []))))))))))))"

definition handleServiceScan ::
  "file_codec \<Rightarrow> (string \<Rightarrow> start_env) \<Rightarrow> bytes \<Rightarrow> world \<Rightarrow> response \<times> world" where
  "handleServiceScan fc starts body w =
     (case parseJsonObjectBody (fc_json fc) body of
        Inl e \<Rightarrow> (bodyParseErrorResponse e, w)
      | Inr obj \<Rightarrow>
          (case bool_member ''revalidateProjects'' True obj of
             Inl e \<Rightarrow> (errorResponse 400 e, w)
           | Inr revalidate \<Rightarrow>
               (case bool_member ''restartScheduling'' True obj of
                  Inl e \<Rightarrow> (errorResponse 400 e, w)
                | Inr restart \<Rightarrow>
                    (case bool_member ''stopInvalidProjects'' False obj of
                       Inl e \<Rightarrow> (errorResponse 400 e, w)
                     | Inr stopInvalid \<Rightarrow>
                         (let (s, t) = w;
                              (scanned, counts) = ServiceScanner_scan fc (sm_dataRoot s @ ''/services'') t;
                              (stats, s) = rescanServices (fc_json fc) starts scanned revalidate restart stopInvalid s
                          in (jsonResponse (scan_answer counts stats) 200, s, t))))))"

text \<open>The request's object as the fields of a new service, or the error.\<close>

definition create_request :: "json_obj \<Rightarrow> string + service_create" where
  "create_request body =
     (let templateType = to_string_or ''empty'' (jval body ''template'') in
      if to_string (jval body ''id'') = [] then Inl ''missing required string field: id''
      else if to_string (jval body ''name'') = [] then Inl ''missing required string field: name''
      else if to_string (jval body ''version'') = [] then Inl ''missing required string field: version''
      else if templateType \<notin> {''empty'', ''basic'', ''driver_demo''}
      then Inl (''invalid template: must be '' @ quote @ ''empty'' @ quote @ '', '' @ quote @ ''basic'' @ quote
             @ '', or '' @ quote @ ''driver_demo'' @ quote)
      else if om_has body ''indexJs'' \<and> \<not> is_string (jval body ''indexJs'')
      then Inl (''field '' @ quote @ ''indexJs'' @ quote @ '' must be a string'')
      else if om_has body ''configSchema'' \<and> \<not> is_object (jval body ''configSchema'')
      then Inl (''field '' @ quote @ ''configSchema'' @ quote @ '' must be an object'')
      else Inr \<lparr>cr_id = to_string (jval body ''id''), cr_name = to_string (jval body ''name''),
                cr_version = to_string (jval body ''version''), cr_description = to_string (jval body ''description''),
                cr_author = to_string (jval body ''author''), cr_templateType = templateType,
                cr_indexJs = (if om_has body ''indexJs'' then Some (to_string (jval body ''indexJs'')) else None),
                cr_configSchema =
                  (if om_has body ''configSchema'' then Some (to_object (jval body ''configSchema'')) else None)\<rparr>)"

definition handleServiceCreate :: "file_codec \<Rightarrow> bytes \<Rightarrow> world \<Rightarrow> response \<times> world" where
  "handleServiceCreate fc body w =
     (case parseJsonObjectBody (fc_json fc) body of
        Inl e \<Rightarrow> (bodyParseErrorResponse e, w)
      | Inr obj \<Rightarrow>
          (case create_request obj of
             Inl e \<Rightarrow> (errorResponse 400 e, w)
           | Inr rq \<Rightarrow>
               (case createService fc rq w of
                  (Inl e, w) \<Rightarrow>
                    (if contains_text ''already exists'' e then (errorResponse 409 e, w)
                     else if starts_with ''invalid'' e \<or> starts_with ''missing'' e then (errorResponse 400 e, w)
                     else (errorResponse 500 e, w))
                | (Inr svc, w) \<Rightarrow>
                    (jsonResponse
                       (jset ''created'' (JBool True) (jset ''hasSchema'' (JBool True)
                       (jset ''serviceDir'' (JStr (sv_serviceDir svc)) (jset ''version'' (JStr (sv_version svc))
                       (jset ''name'' (JStr (sv_name svc)) (jset ''id'' (JStr (sv_id svc)) [])))))) 201, w))))"

definition handleServiceDelete :: "string \<Rightarrow> bool \<Rightarrow> world \<Rightarrow> response \<times> world" where
  "handleServiceDelete sid force w =
     (let (s, t) = w;
          reached = om_has (sm_services s) sid \<and> (projects_of sid s = [] \<or> force);
          (removed, t) =
            (if reached then remove_recursively (dir_path (sv_serviceDir (the (om_get (sm_services s) sid)))) t
             else (False, t)) in
      case deleteService removed sid force s of
        (Inr _, s) \<Rightarrow> (noContentResponse, s, t)
      | (Inl e, s) \<Rightarrow>
          if e = ''service not found'' then (errorResponse 404 e, s, t)
          else if starts_with ''service has associated'' e
          then (jsonResponse (jset ''associatedProjects'' (JArr (map JStr (projects_of sid s)))
                  (jset ''error'' (JStr e) [])) 409, s, t)
          else (errorResponse 500 e, s, t))"

definition handleValidateSchema :: "file_codec \<Rightarrow> string \<Rightarrow> bytes \<Rightarrow> server \<Rightarrow> response" where
  "handleValidateSchema fc sid body s =
     (if \<not> om_has (sm_services s) sid then errorResponse 404 ''service not found''
      else case parseJsonObjectBody (fc_json fc) body of
        Inl e \<Rightarrow> bodyParseErrorResponse e
      | Inr obj \<Rightarrow>
          if \<not> is_object (jval obj ''schema'') then errorResponse 400 ''missing required object field: schema''
          else
            (case fromJsonObject (to_object (jval obj ''schema'')) of
               Inl e \<Rightarrow> jsonResponse (jset ''error'' (JStr e) (jset ''valid'' (JBool False) [])) 200
             | Inr schema \<Rightarrow>
                 jsonResponse (jset ''fields'' (JArr (schema_toFieldMetaArray schema)) (jset ''valid'' (JBool True) [])) 200))"

section \<open>Files\<close>

text \<open>The start that the handlers of one file share: the service, the path in the query, and its place.\<close>

definition with_file ::
  "string \<Rightarrow> string \<Rightarrow> (service_info \<Rightarrow> path \<Rightarrow> response \<times> world) \<Rightarrow> world \<Rightarrow> response \<times> world" where
  "with_file sid relativePath f w =
     (case om_get (sm_services (fst w)) sid of
        None \<Rightarrow> (errorResponse 404 ''service not found'', w)
      | Some service \<Rightarrow>
          if relativePath = [] then (errorResponse 400 (''missing '' @ quote @ ''path'' @ quote @ '' query parameter''), w)
          else
            (case resolveSafePath (dir_path (sv_serviceDir service)) relativePath (snd w) of
               Inl e \<Rightarrow> (errorResponse 400 e, w)
             | Inr absPath \<Rightarrow> f service absPath))"

definition file_entry :: "file_info \<Rightarrow> json" where
  "file_entry fi =
     JObj (jset ''type'' (JStr (fi_type fi)) (jset ''modifiedAt'' (JStr (fi_modifiedAt fi))
       (jset ''size'' (jint (int (fi_size fi))) (jset ''path'' (JStr (fi_path fi)) (jset ''name'' (JStr (fi_name fi)) [])))))"

definition handleServiceFiles :: "file_codec \<Rightarrow> string \<Rightarrow> world \<Rightarrow> response" where
  "handleServiceFiles fc sid w =
     (case om_get (sm_services (fst w)) sid of
        None \<Rightarrow> errorResponse 404 ''service not found''
      | Some service \<Rightarrow>
          jsonResponse
            (jset ''files'' (JArr (map file_entry (listFiles (fc_modified fc) (dir_path (sv_serviceDir service)) (snd w))))
            (jset ''serviceDir'' (JStr (sv_serviceDir service)) (jset ''serviceId'' (JStr sid) []))) 200)"

definition handleServiceFileRead :: "file_codec \<Rightarrow> string \<Rightarrow> string \<Rightarrow> world \<Rightarrow> response \<times> world" where
  "handleServiceFileRead fc sid relativePath w =
     with_file sid relativePath
       (\<lambda>service absPath. case file_content (snd w) absPath of
          None \<Rightarrow> (errorResponse 404 ''file not found'', w)
        | Some stored \<Rightarrow>
            if kMaxFileSize < length stored then (errorResponse 413 ''file too large (max 1MB)'', w)
            else
              (case read_file (snd w) absPath of
                 None \<Rightarrow> (errorResponse 500 ''failed to read file'', w)
               | Some content \<Rightarrow>
                   (jsonResponse
                      (jset ''modifiedAt'' (JStr (fc_modified fc absPath)) (jset ''size'' (jint (int (length stored)))
                      (jset ''content'' (JStr (fc_text fc content)) (jset ''path'' (JStr relativePath) [])))) 200, w))) w"

text \<open>The checks of the two documents the server reads itself.\<close>

definition content_error :: "file_codec \<Rightarrow> string \<Rightarrow> bytes \<Rightarrow> string option" where
  "content_error fc relativePath content =
     (if relativePath = ''manifest.json''
      then (case cd_from_json (fc_json fc) content of
              Inr (JObj obj) \<Rightarrow>
                (case ServiceManifest_fromJson obj of
                   Inl e \<Rightarrow> Some (''invalid manifest: '' @ e) | Inr _ \<Rightarrow> None)
            | _ \<Rightarrow> Some ''manifest.json must be valid JSON object'')
      else if relativePath = ''config.schema.json''
      then (case cd_from_json (fc_json fc) content of
              Inr (JObj _) \<Rightarrow> None
            | _ \<Rightarrow> Some ''config.schema.json must be valid JSON object'')
      else None)"

definition handleServiceFileWrite :: "file_codec \<Rightarrow> string \<Rightarrow> string \<Rightarrow> bytes \<Rightarrow> world \<Rightarrow> response \<times> world" where
  "handleServiceFileWrite fc sid relativePath body w =
     with_file sid relativePath
       (\<lambda>service absPath.
          if \<not> path_exists (snd w) absPath then (errorResponse 404 ''file not found'', w)
          else case parseJsonObjectBody (fc_json fc) body of
            Inl e \<Rightarrow> (bodyParseErrorResponse e, w)
          | Inr obj \<Rightarrow>
              if \<not> is_string (jval obj ''content'') then (errorResponse 400 ''missing required string field: content'', w)
              else
                let content = fc_utf8 fc (to_string (jval obj ''content'')) in
                if kMaxFileSize < length content then (errorResponse 413 ''content too large (max 1MB)'', w)
                else
                  (case content_error fc relativePath content of
                     Some e \<Rightarrow> (errorResponse 400 e, w)
                   | None \<Rightarrow>
                       (let (s, t) = w; (r, t) = atomicWrite (fc_reason fc) absPath content t in
                        case r of
                          Inl e \<Rightarrow> (errorResponse 500 e, s, t)
                        | Inr _ \<Rightarrow>
                            (let (reloaded, s) =
                               (if relativePath = ''manifest.json'' \<or> relativePath = ''config.schema.json''
                                then reloadService (loadService fc (sv_serviceDir service) t) sid s else (Inr (), s))
                             in case reloaded of
                                  Inl e \<Rightarrow> (errorResponse 500 (''file written but reload failed: '' @ e), s, t)
                                | Inr _ \<Rightarrow>
                                    (jsonResponse (jset ''updated'' (JBool True)
                                       (jset ''size'' (jint (int (length content))) (jset ''path'' (JStr relativePath) []))) 200,
                                     s, t))))) w"

definition handleServiceFileCreate :: "file_codec \<Rightarrow> string \<Rightarrow> string \<Rightarrow> bytes \<Rightarrow> world \<Rightarrow> response \<times> world" where
  "handleServiceFileCreate fc sid relativePath body w =
     with_file sid relativePath
       (\<lambda>service absPath.
          if path_exists (snd w) absPath then (errorResponse 409 ''file already exists'', w)
          else case parseJsonObjectBody (fc_json fc) body of
            Inl e \<Rightarrow> (bodyParseErrorResponse e, w)
          | Inr obj \<Rightarrow>
              let content = fc_utf8 fc (to_string (jval obj ''content'')) in
              if kMaxFileSize < length content then (errorResponse 413 ''content too large (max 1MB)'', w)
              else
                let (s, t) = w; (made, t) = mkpath (butlast absPath) t in
                if \<not> made then (errorResponse 500 ''failed to create directory'', s, t)
                else
                  (case atomicWrite (fc_reason fc) absPath content t of
                     (Inl e, t) \<Rightarrow> (errorResponse 500 e, s, t)
                   | (Inr _, t) \<Rightarrow>
                       (jsonResponse (jset ''created'' (JBool True)
                          (jset ''size'' (jint (int (length content))) (jset ''path'' (JStr relativePath) []))) 201, s, t))) w"

definition handleServiceFileDelete :: "string \<Rightarrow> string \<Rightarrow> world \<Rightarrow> response \<times> world" where
  "handleServiceFileDelete sid relativePath w =
     (if om_has (sm_services (fst w)) sid \<and> relativePath \<in> set coreFiles
      then (errorResponse 400 (''cannot delete core file: '' @ relativePath), w)
      else
        with_file sid relativePath
          (\<lambda>service absPath.
             if \<not> path_exists (snd w) absPath then (errorResponse 404 ''file not found'', w)
             else
               (case remove_file absPath (snd w) of
                  (False, t) \<Rightarrow> (errorResponse 500 ''failed to delete file'', fst w, t)
                | (True, t) \<Rightarrow> (noContentResponse, fst w, t))) w)"

end
