(* ===== verification/ServiceApiSpec.thy ===== *)
theory ServiceApiSpec
  imports ServiceApi
begin

text \<open>
  What the interface promises about the files of a service: requests stay below the service's directory,
  also when links lie around. The last sections show two ways past the protection of the core files.
\<close>

section \<open>Walking through links\<close>

lemma node_at_root [simp]: "node_at t [] = Some DirNode"
  by (simp add: node_at_def)

text \<open>A walk of some parts and then others goes on from where the first ones lead.\<close>

lemma walk_append:
  "node_at t cur = Some DirNode \<Longrightarrow> ys \<noteq> []
    \<Longrightarrow> (case walk t links cur xs of
          None \<Rightarrow> walk t links cur (xs @ ys) = None
        | Some c \<Rightarrow> \<exists>k. walk t links cur (xs @ ys) = (if node_at t c = Some DirNode then walk t k c ys else None))"
proof (induction t links cur xs rule: walk.induct)
  case (1 t links cur)
  then show ?case by auto
next
  case (2 t links cur seg rest)
  show ?case
  proof (cases "node_at t (cur @ [seg])")
    case None
    then show ?thesis by simp
  next
    case (Some n)
    show ?thesis
    proof (cases n)
      case (FileNode b)
      then show ?thesis using Some 2(4) by auto
    next
      case DirNode
      then show ?thesis using Some 2(1) 2(4) by (cases "walk t links (cur @ [seg]) rest") auto
    next
      case (LinkNode target)
      show ?thesis
      proof (cases links)
        case (Suc k)
        then show ?thesis using Some LinkNode 2(2) [OF Some LinkNode Suc node_at_root 2(4)]
          by (cases "walk t k [] (target @ rest)") auto
      qed (use Some LinkNode in simp)
    qed
  qed
qed

text \<open>One part more, when it is no link.\<close>

lemma walk_one:
  assumes "\<And>target. node_at t (c @ [seg]) \<noteq> Some (LinkNode target)"
  shows "walk t k c [seg] = None \<or> walk t k c [seg] = Some (c @ [seg])"
  using assms by (auto split: option.splits node.splits)

lemma canonical_snoc:
  assumes "\<not> is_link t (p @ [seg])"
  shows "(case canonicalFilePath t p of
            None \<Rightarrow> canonicalFilePath t (p @ [seg]) = None
          | Some c \<Rightarrow> canonicalFilePath t (p @ [seg]) = None
              \<or> canonicalFilePath t (p @ [seg]) = Some (c @ [seg]) \<and> node_at t c = Some DirNode)"
proof (cases "canonicalFilePath t p")
  case None
  then show ?thesis using walk_append [of t "[]" "[seg]" "tr_maxLinks t" p] by (simp add: canonicalFilePath_def)
next
  case (Some c)
  obtain k where k: "canonicalFilePath t (p @ [seg]) = (if node_at t c = Some DirNode then walk t k c [seg] else None)"
    using walk_append [of t "[]" "[seg]" "tr_maxLinks t" p] Some by (auto simp: canonicalFilePath_def)
  show ?thesis
  proof (cases "node_at t c = Some DirNode")
    case True
    with assms Some have "node_at t (c @ [seg]) \<noteq> Some (LinkNode target)" for target
      by (auto simp: is_link_def entry_place_def)
    from walk_one [OF this, where k = k] show ?thesis using Some k True by auto
  qed (use Some k in simp)
qed

section \<open>Safe paths\<close>

definition real_parts :: "string list \<Rightarrow> path" where
  "real_parts segs = filter (\<lambda>s. s \<noteq> [] \<and> s \<noteq> ''.'') segs"

lemma clean_steps: "''..'' \<notin> set segs \<Longrightarrow> foldl clean_step acc segs = acc @ real_parts segs"
  by (induction segs arbitrary: acc) (auto simp: clean_step_def real_parts_def)

definition clean :: "path \<Rightarrow> bool" where
  "clean p \<longleftrightarrow> list_all (\<lambda>s. s \<noteq> [] \<and> s \<noteq> ''.'' \<and> s \<noteq> ''..'') p"

lemma clean_real: "clean p \<Longrightarrow> real_parts p = p"
  by (auto simp: clean_def real_parts_def list_all_iff intro: filter_True)

lemma absolute_place:
  assumes "clean dir" and "''..'' \<notin> set (split_at_char (CHR ''/'') p)"
  shows "absoluteFilePath dir p = dir @ real_parts (split_at_char (CHR ''/'') p)"
proof -
  have "''..'' \<notin> set (dir @ split_at_char (CHR ''/'') p)" using assms by (auto simp: clean_def list_all_iff)
  then show ?thesis
    using clean_real [OF assms(1)] by (simp add: absoluteFilePath_def clean_path_def clean_steps real_parts_def)
qed

text \<open>Every prefix of a path whose steps were accepted leads to the same parts below the base, or nowhere.\<close>

lemma steps_no_link:
  assumes "path_steps t base final segs (Some dir)" and "real_parts segs = pre @ seg # post"
    and "\<forall>s \<in> set segs. take 1 s \<noteq> '':''"
  shows "\<not> is_link t (dir @ pre @ [seg])"
  using assms
proof (induction segs arbitrary: dir pre)
  case (Cons s segs)
  show ?case
  proof (cases "s = [] \<or> s = ''.''")
    case True
    then show ?thesis using Cons by (auto simp: real_parts_def)
  next
    case False
    with Cons.prems(2) have parts: "s # real_parts segs = pre @ seg # post" by (auto simp: real_parts_def)
    have "hd s \<noteq> CHR '':''" using Cons.prems(3) False by (cases s) auto
    then have step: "\<not> is_link t (dir @ [s])" "path_steps t base final segs (Some (dir @ [s]))"
      using Cons.prems(1) False by (auto simp: Let_def split: if_splits option.splits)
    show ?thesis
    proof (cases pre)
      case Nil
      then show ?thesis using parts step(1) by simp
    next
      case (Cons s' pre')
      then have "s' = s" "real_parts segs = pre' @ seg # post" using parts by auto
      with Cons.IH [OF step(2) this(2)] Cons.prems(3) Cons show ?thesis by simp
    qed
  qed
qed (simp add: real_parts_def)

lemma below_base:
  assumes "canonicalFilePath t dir = Some base"
    and "\<And>pre seg post. parts = pre @ seg # post \<Longrightarrow> \<not> is_link t (dir @ pre @ [seg])"
  shows "canonicalFilePath t (dir @ parts) = None \<or> canonicalFilePath t (dir @ parts) = Some (base @ parts)"
  using assms(2)
proof (induction parts rule: rev_induct)
  case (snoc seg parts)
  have "canonicalFilePath t (dir @ parts) = None \<or> canonicalFilePath t (dir @ parts) = Some (base @ parts)"
  proof (rule snoc.IH)
    fix pre s post assume "parts = pre @ s # post"
    then show "\<not> is_link t (dir @ pre @ [s])" using snoc.prems [of pre s "post @ [seg]"] by simp
  qed
  moreover have "\<not> is_link t ((dir @ parts) @ [seg])" using snoc.prems [of parts seg "[]"] by simp
  ultimately show ?case using canonical_snoc [of t "dir @ parts" seg] by auto
qed (use assms(1) in simp)

section \<open>Trees without links on the way\<close>

text \<open>Every entry lies in a directory.\<close>

definition tree_ok :: "tree \<Rightarrow> bool" where
  "tree_ok t \<longleftrightarrow> list_all (\<lambda>p. p \<noteq> [] \<and> node_at t (butlast p) = Some DirNode) (map fst (tr_entries t))"

lemma parent_dir: "tree_ok t \<Longrightarrow> node_at t (p @ [x]) \<noteq> None \<Longrightarrow> node_at t p = Some DirNode"
proof -
  assume ok: "tree_ok t" and "node_at t (p @ [x]) \<noteq> None"
  then obtain n where "(p @ [x], n) \<in> set (tr_entries t)" by (auto simp: node_at_def dest: map_of_SomeD)
  with ok show "node_at t p = Some DirNode" by (force simp: tree_ok_def list_all_iff)
qed

lemma parents_dirs: "tree_ok t \<Longrightarrow> node_at t (p @ x # q) \<noteq> None \<Longrightarrow> node_at t p = Some DirNode"
proof (induction q rule: rev_induct)
  case (snoc y q)
  then have "node_at t (p @ x # q) = Some DirNode" using parent_dir [of t "p @ x # q" y] by simp
  with snoc show ?case by simp
qed (simp add: parent_dir)

definition no_links :: "tree \<Rightarrow> path \<Rightarrow> path \<Rightarrow> bool" where
  "no_links t base parts \<longleftrightarrow>
     (\<forall>pre seg post target. parts = pre @ seg # post \<longrightarrow> node_at t (base @ pre @ [seg]) \<noteq> Some (LinkNode target))"

lemma no_links_prefix: "no_links t base (parts @ others) \<Longrightarrow> no_links t base parts"
  unfolding no_links_def by (metis append_Cons append_assoc)

lemma links_of_steps:
  assumes "no_links t base parts" and "canonicalFilePath t dir = Some base"
  shows "(canonicalFilePath t (dir @ parts) = None \<or> canonicalFilePath t (dir @ parts) = Some (base @ parts))
    \<and> (\<forall>pre seg post. parts = pre @ seg # post \<longrightarrow> \<not> is_link t (dir @ pre @ [seg]))"
  using assms(1)
proof (induction parts rule: rev_induct)
  case (snoc x parts)
  have IH: "canonicalFilePath t (dir @ parts) = None \<or> canonicalFilePath t (dir @ parts) = Some (base @ parts)"
    "\<And>pre seg post. parts = pre @ seg # post \<Longrightarrow> \<not> is_link t (dir @ pre @ [seg])"
    using snoc no_links_prefix by blast+
  have "node_at t (base @ parts @ [x]) \<noteq> Some (LinkNode target)" for target
    using snoc.prems unfolding no_links_def by blast
  then have last: "\<not> is_link t (dir @ parts @ [x])"
    using IH(1) by (auto simp: is_link_def entry_place_def butlast_append split: option.splits node.splits)
  have all: "\<not> is_link t (dir @ pre @ [seg])" if "parts @ [x] = pre @ seg # post" for pre seg post
    using that IH(2) last by (cases post rule: rev_cases) auto
  then show ?case using below_base [OF assms(2), of "parts @ [x]"] by blast
qed (use assms(2) in simp)

lemma no_links_of_steps:
  assumes "tree_ok t" and "canonicalFilePath t dir = Some base" and "node_at t base = Some DirNode"
    and steps: "\<And>pre seg post. parts = pre @ seg # post \<Longrightarrow> \<not> is_link t (dir @ pre @ [seg])"
  shows "no_links t base parts"
  unfolding no_links_def
proof (intro allI impI notI)
  fix pre seg post target assume p: "parts = pre @ seg # post" and l: "node_at t (base @ pre @ [seg]) = Some (LinkNode target)"
  have dirs: "node_at t (base @ q) = Some DirNode" if "pre = q @ r" for q r
    using that l parents_dirs [OF assms(1), of "base @ q" "hd (r @ [seg])" "tl (r @ [seg])"]
    by (cases r) simp_all
  have "canonicalFilePath t (dir @ q) = Some (base @ q)" if "pre = q @ r" for q r
    using that
  proof (induction q arbitrary: r rule: rev_induct)
    case (snoc x q)
    then have q: "canonicalFilePath t (dir @ q) = Some (base @ q)" by simp
    obtain k where "canonicalFilePath t (dir @ q @ [x])
        = (if node_at t (base @ q) = Some DirNode then walk t k (base @ q) [x] else None)"
      using walk_append [of t "[]" "[x]" "tr_maxLinks t" "dir @ q"] q by (auto simp: canonicalFilePath_def)
    then show ?case using dirs [of q] dirs [of "q @ [x]"] snoc.prems by simp
  qed (use assms(2) in simp)
  from this [of pre "[]"] have "is_link t (dir @ pre @ [seg])"
    using l dirs [of pre "[]"] by (simp add: is_link_def entry_place_def butlast_append)
  with steps [OF p] show False by simp
qed

lemma entry_below:
  assumes "no_links t base parts" and "canonicalFilePath t dir = Some base" and "parts \<noteq> []"
  shows "entry_place t (dir @ parts) = None \<or> entry_place t (dir @ parts) = Some (base @ parts)"
proof -
  obtain pre x where parts: "parts = pre @ [x]" using assms(3) by (cases parts rule: rev_cases) auto
  with links_of_steps [OF no_links_prefix assms(2), of pre "[x]"] assms(1) show ?thesis
    by (auto simp: entry_place_def butlast_append split: option.splits)
qed

section \<open>Changes below a directory\<close>

definition below :: "path \<Rightarrow> path \<Rightarrow> bool" where
  "below base p \<longleftrightarrow> length base < length p \<and> take (length base) p = base"

lemma below_append [simp]: "below base (base @ parts) \<longleftrightarrow> parts \<noteq> []"
  by (auto simp: below_def)

definition unchanged_outside :: "path \<Rightarrow> tree \<Rightarrow> tree \<Rightarrow> bool" where
  "unchanged_outside base t t' \<longleftrightarrow> (\<forall>p. \<not> below base p \<longrightarrow> node_at t' p = node_at t p)"

lemma unchanged_refl [simp]: "unchanged_outside base t t"
  by (simp add: unchanged_outside_def)

lemma unchanged_trans: "unchanged_outside base t t' \<Longrightarrow> unchanged_outside base t' t'' \<Longrightarrow> unchanged_outside base t t''"
  by (simp add: unchanged_outside_def)

lemma node_at_fault [simp]: "node_at (snd (take_fault t)) p = node_at t p"
  by (simp add: take_fault_def node_at_def split: list.split)

lemma node_at_put: "e \<noteq> [] \<Longrightarrow> node_at (put_node e n t) p = (if p = e then Some n else node_at t p)"
  by (auto simp: node_at_def put_node_def update_conv')

lemma node_at_del: "e \<noteq> [] \<Longrightarrow> node_at (del_node e t) p = (if p = e then None else node_at t p)"
  by (auto simp: node_at_def del_node_def delete_conv')

lemma below_not_Nil: "below base e \<Longrightarrow> e \<noteq> []"
  by (auto simp: below_def)

lemma unchanged_put [simp]: "below base e \<Longrightarrow> unchanged_outside base t (put_node e n t)"
  by (auto simp: unchanged_outside_def node_at_put below_not_Nil)

lemma unchanged_del [simp]: "below base e \<Longrightarrow> unchanged_outside base t (del_node e t)"
  by (auto simp: unchanged_outside_def node_at_del below_not_Nil)

lemma max_links_kept [simp]:
  "tr_maxLinks (put_node e n t) = tr_maxLinks t" "tr_maxLinks (snd (take_fault t)) = tr_maxLinks t"
  by (simp_all add: put_node_def take_fault_def split: list.split)

lemma walk_same: "(\<And>p. node_at t' p = node_at t p) \<Longrightarrow> walk t' links cur xs = walk t links cur xs"
  by (induction t links cur xs rule: walk.induct) (auto split: option.split node.split nat.split)

lemma canonical_fault [simp]: "canonicalFilePath (snd (take_fault t)) p = canonicalFilePath t p"
  by (simp add: canonicalFilePath_def walk_same [of "snd (take_fault t)" t])

lemma place_fault [simp]:
  "entry_place (snd (take_fault t)) p = entry_place t p" "is_link (snd (take_fault t)) p = is_link t p"
  "is_dir (snd (take_fault t)) p = is_dir t p" "no_links (snd (take_fault t)) base parts = no_links t base parts"
  by (simp_all add: entry_place_def is_link_def is_dir_def no_links_def split: option.split)

text \<open>A new entry leaves what could be reached.\<close>

lemma walk_put:
  "node_at t e = None \<Longrightarrow> walk t links cur xs = Some c \<Longrightarrow> walk (put_node e n t) links cur xs = Some c"
proof (induction t links cur xs rule: walk.induct)
  case (2 t links cur seg rest)
  have e: "e \<noteq> []" using 2(3) by (auto simp: node_at_def)
  show ?case using 2 e by (auto simp: node_at_put split: option.splits node.splits nat.splits if_splits)
qed simp

lemma canonical_put:
  "node_at t e = None \<Longrightarrow> canonicalFilePath t p = Some c \<Longrightarrow> canonicalFilePath (put_node e n t) p = Some c"
  by (simp add: canonicalFilePath_def walk_put)

lemma prefix_is_dir:
  assumes "canonicalFilePath t (p @ q) = Some c" and "q \<noteq> [] \<or> node_at t c = Some DirNode"
  shows "is_dir t p"
proof (cases "q = []")
  case False
  then show ?thesis
    using walk_append [of t "[]" q "tr_maxLinks t" p] assms(1)
    by (cases "canonicalFilePath t p") (auto simp: canonicalFilePath_def is_dir_def split: if_splits)
qed (use assms in \<open>simp add: is_dir_def\<close>)

lemma is_dir_exists: "is_dir t p \<Longrightarrow> path_exists t p"
  by (auto simp: is_dir_def path_exists_def split: option.splits)

lemma make_dirs_existing:
  "canonicalFilePath t (cur @ xs @ ys) = Some c \<Longrightarrow> node_at t c = Some DirNode
    \<Longrightarrow> make_dirs cur (xs @ zs) t = make_dirs (cur @ xs) zs t"
proof (induction xs arbitrary: cur)
  case (Cons x xs)
  have "is_dir t (cur @ [x])" using prefix_is_dir [of t "cur @ [x]" "xs @ ys" c] Cons.prems by simp
  then show ?case using Cons.IH [of "cur @ [x]"] Cons.prems by (simp add: is_dir_exists)
qed simp

definition service_place :: "tree \<Rightarrow> path \<Rightarrow> path \<Rightarrow> path \<Rightarrow> bool" where
  "service_place t dir base parts \<longleftrightarrow>
     canonicalFilePath t dir = Some base \<and> node_at t base = Some DirNode \<and> no_links t base parts"

lemma service_place_put:
  assumes "service_place t dir base parts" and "node_at t e = None" and "\<And>target. n \<noteq> LinkNode target"
  shows "service_place (put_node e n t) dir base parts"
proof -
  have "e \<noteq> []" using assms(2) by (auto simp: node_at_def)
  then show ?thesis
    using assms by (auto simp: service_place_def canonical_put node_at_put no_links_def)
qed

text \<open>Directories are made below the base only.\<close>

lemma make_dirs_below:
  "service_place t dir base parts \<Longrightarrow> parts = pre @ todo @ post
    \<Longrightarrow> unchanged_outside base t (snd (make_dirs (dir @ pre) todo t))
      \<and> service_place (snd (make_dirs (dir @ pre) todo t)) dir base parts"
proof (induction todo arbitrary: pre t)
  case (Cons seg todo)
  let ?p = "dir @ pre @ [seg]" and ?e = "base @ pre @ [seg]"
  have parts: "parts = (pre @ [seg]) @ todo @ post" using Cons.prems(2) by simp
  have nl: "no_links t base (pre @ [seg])" and can: "canonicalFilePath t dir = Some base"
    using Cons.prems(1) parts no_links_prefix by (auto simp: service_place_def)
  show ?case
  proof (cases "path_exists t ?p")
    case True
    then show ?thesis using Cons.IH [OF Cons.prems(1) parts] Cons.prems(1) by (simp add: Let_def)
  next
    case missing: False
    let ?t = "snd (take_fault t)"
    have place: "service_place ?t dir base parts" using Cons.prems(1) by (simp add: service_place_def)
    show ?thesis
    proof (cases "fst (take_fault t) \<or> is_link t ?p \<or> entry_place t ?p = None")
      case True
      then have "make_dirs (dir @ pre) (seg # todo) t = (False, ?t)"
        using missing by (auto simp: Let_def case_prod_beta)
      then show ?thesis using place by (simp add: unchanged_outside_def)
    next
      case False
      then have e: "entry_place t ?p = Some ?e" using entry_below [OF nl can] by auto
      have "canonicalFilePath t (dir @ pre) = Some (base @ pre)" "node_at t (base @ pre) = Some DirNode"
        using e by (auto simp: entry_place_def butlast_append split: option.splits if_splits)
      then obtain k where "canonicalFilePath t ?p = walk t k (base @ pre) [seg]"
        using walk_append [of t "[]" "[seg]" "tr_maxLinks t" "dir @ pre"] by (auto simp: canonicalFilePath_def)
      moreover have "node_at t ?e \<noteq> Some (LinkNode target)" for target
        using nl unfolding no_links_def by blast
      ultimately have fresh: "node_at ?t ?e = None"
        using missing by (auto simp: path_exists_def split: option.splits node.splits)
      have step: "service_place (put_node ?e DirNode ?t) dir base parts"
        using service_place_put [OF place fresh, of DirNode] by simp
      have "unchanged_outside base t (put_node ?e DirNode ?t)"
        using unchanged_put [of base ?e ?t DirNode] by (simp add: unchanged_outside_def)
      moreover have "make_dirs (dir @ pre) (seg # todo) t = make_dirs (dir @ pre @ [seg]) todo (put_node ?e DirNode ?t)"
        using missing False e by (simp add: Let_def case_prod_beta)
      ultimately show ?thesis
        using Cons.IH [OF step parts] unchanged_trans by auto
    qed
  qed
qed simp

lemma write_below:
  assumes "service_place t dir base parts" and "parts \<noteq> []"
  shows "unchanged_outside base t (snd (atomicWrite reason (dir @ parts) content t))"
proof -
  have "entry_place t (dir @ parts) = None \<or> entry_place t (dir @ parts) = Some (base @ parts)"
    using entry_below assms by (simp add: service_place_def)
  moreover have "unchanged_outside base t (put_node (base @ parts) n t')" if "\<And>p. node_at t' p = node_at t p" for n t'
    using unchanged_put [of base "base @ parts" t' n] assms(2) that by (simp add: unchanged_outside_def)
  ultimately show ?thesis
    by (auto simp: atomicWrite_def Let_def case_prod_beta unchanged_outside_def split: option.split)
qed

lemma remove_below:
  assumes "service_place t dir base parts" and "parts \<noteq> []"
  shows "unchanged_outside base t (snd (remove_file (dir @ parts) t))"
proof -
  have "entry_place t (dir @ parts) = None \<or> entry_place t (dir @ parts) = Some (base @ parts)"
    using entry_below assms by (simp add: service_place_def)
  moreover have "unchanged_outside base t (del_node (base @ parts) (snd (take_fault t)))"
    using unchanged_del [of base "base @ parts" "snd (take_fault t)"] assms(2) by (simp add: unchanged_outside_def)
  ultimately show ?thesis
    by (auto simp: remove_file_def Let_def case_prod_beta unchanged_outside_def split: option.split)
qed

section \<open>Requests stay in the service's directory\<close>

lemma clean_dir_path: "clean (dir_path d)"
proof -
  have step: "clean acc \<Longrightarrow> clean (clean_step acc seg)" for acc seg
    by (auto simp: clean_step_def clean_def list_all_iff dest: in_set_butlastD)
  have "clean acc \<Longrightarrow> clean (foldl clean_step acc segs)" for acc segs
    by (induction segs arbitrary: acc) (simp_all add: step)
  then show ?thesis by (simp add: dir_path_def clean_path_def clean_def)
qed

lemma split_at_other: "c \<notin> set s \<Longrightarrow> split_at_char c s = [s]"
  by (induction s) auto

lemma split_parts: "seg \<in> set (split_at_char c s) \<Longrightarrow> set seg \<subseteq> set s"
proof (induction s arbitrary: seg)
  case (Cons d ds)
  show ?case
  proof (cases "d = c")
    case False
    obtain q qs where q: "split_at_char c ds = q # qs" by (cases "split_at_char c ds") auto
    then show ?thesis using Cons False by fastforce
  qed (use Cons in auto)
qed simp

lemma split_seps_plain:
  assumes "CHR 0x5C \<notin> set p"
  shows "split_seps p = split_at_char (CHR ''/'') p"
proof -
  have "map (split_at_char (CHR 0x5C)) segs = map (\<lambda>s. [s]) segs" if "\<forall>s \<in> set segs. CHR 0x5C \<notin> set s" for segs
    using that by (induction segs) (simp_all add: split_at_other)
  moreover have "\<forall>s \<in> set (split_at_char (CHR ''/'') p). CHR 0x5C \<notin> set s"
    using assms split_parts by blast
  moreover have "concat (map (\<lambda>s. [s]) segs) = segs" for segs :: "string list" by (induction segs) simp_all
  ultimately show ?thesis by (simp only: split_seps_def)
qed

text \<open>A name without the separator of another system and without a part that begins with a colon.\<close>

definition plain_name :: "string \<Rightarrow> bool" where
  "plain_name p \<longleftrightarrow> CHR 0x5C \<notin> set p \<and> (\<forall>s \<in> set (split_at_char (CHR ''/'') p). take 1 s \<noteq> '':'')"

text \<open>An accepted path is a path below the directory without links on the way.\<close>

lemma safe_place:
  assumes "isPathSafe dir p t" and "plain_name p" and "clean dir" and "tree_ok t"
    and "canonicalFilePath t dir = Some base" and "node_at t base = Some DirNode"
  obtains parts where "parts \<noteq> []" and "absoluteFilePath dir p = dir @ parts" and "service_place t dir base parts"
proof -
  let ?segs = "split_at_char (CHR ''/'') p"
  have safe: "''..'' \<notin> set ?segs" "beneath dir (absoluteFilePath dir p)"
      "path_steps t base (last ?segs) ?segs (Some dir)"
    using assms(1,5) split_seps_plain [of p] assms(2)
    by (auto simp: isPathSafe_def plain_name_def Let_def split: if_splits)
  have colons: "\<forall>s \<in> set ?segs. take 1 s \<noteq> '':''" using assms(2) by (simp add: plain_name_def)
  have place: "absoluteFilePath dir p = dir @ real_parts ?segs" by (rule absolute_place [OF assms(3) safe(1)])
  moreover have "real_parts ?segs \<noteq> []" using safe(2) place by (auto simp: beneath_def)
  moreover have "service_place t dir base (real_parts ?segs)"
    using no_links_of_steps [OF assms(4-6)] steps_no_link [OF safe(3) _ colons] assms(5,6) by (simp add: service_place_def)
  ultimately show thesis using that by blast
qed

definition known_service :: "world \<Rightarrow> string \<Rightarrow> service_info \<Rightarrow> path \<Rightarrow> bool" where
  "known_service w sid service base \<longleftrightarrow>
     om_get (sm_services (fst w)) sid = Some service \<and> tree_ok (snd w)
     \<and> canonicalFilePath (snd w) (dir_path (sv_serviceDir service)) = Some base \<and> node_at (snd w) base = Some DirNode"

lemma with_file_rule:
  assumes "known_service w sid service base" and "plain_name p"
    and "\<And>code text. code \<noteq> 200 \<Longrightarrow> P (errorResponse code text, w)"
    and "\<And>parts. parts \<noteq> [] \<Longrightarrow> service_place (snd w) (dir_path (sv_serviceDir service)) base parts
      \<Longrightarrow> P (f service (dir_path (sv_serviceDir service) @ parts))"
  shows "P (with_file sid p f w)"
proof (cases "p = [] \<or> \<not> isPathSafe (dir_path (sv_serviceDir service)) p (snd w)")
  case True
  then show ?thesis using assms(1,3) by (auto simp: known_service_def with_file_def resolveSafePath_def)
next
  case False
  have "isPathSafe (dir_path (sv_serviceDir service)) p (snd w)" using False by simp
  from safe_place [OF this assms(2) clean_dir_path] obtain parts where "parts \<noteq> []"
      "absoluteFilePath (dir_path (sv_serviceDir service)) p = dir_path (sv_serviceDir service) @ parts"
      "service_place (snd w) (dir_path (sv_serviceDir service)) base parts"
    using assms(1) unfolding known_service_def by metis
  then show ?thesis using False assms(1,4) by (auto simp: known_service_def with_file_def resolveSafePath_def)
qed

lemma write_stays:
  assumes "known_service w sid service base" and "plain_name path"
  shows "unchanged_outside base (snd w) (snd (snd (handleServiceFileWrite fc sid path body w)))"
  unfolding handleServiceFileWrite_def
  by (rule with_file_rule [OF assms])
    (use write_below in \<open>auto simp: Let_def case_prod_beta split: sum.split option.split\<close>)

lemma create_stays:
  assumes "known_service w sid service base" and "plain_name path"
  shows "unchanged_outside base (snd w) (snd (snd (handleServiceFileCreate fc sid path body w)))"
  unfolding handleServiceFileCreate_def
proof (rule with_file_rule [OF assms])
  fix parts assume parts: "parts \<noteq> []" "service_place (snd w) (dir_path (sv_serviceDir service)) base parts"
  let ?d = "dir_path (sv_serviceDir service)" and ?t = "snd (mkpath (dir_path (sv_serviceDir service) @ butlast parts) (snd w))"
  have "make_dirs [] (?d @ butlast parts) (snd w) = make_dirs ?d (butlast parts) (snd w)"
    using make_dirs_existing [of "snd w" "[]" ?d "[]" base] assms(1) by (simp add: known_service_def)
  then have made: "unchanged_outside base (snd w) ?t" "service_place ?t ?d base parts"
    using make_dirs_below [OF parts(2), of "[]" "butlast parts" "[last parts]"] parts(1) by (simp_all add: mkpath_def)
  then have "unchanged_outside base (snd w) (snd (atomicWrite reason (?d @ parts) content ?t))" for reason content
    using write_below [OF made(2) parts(1)] unchanged_trans by blast
  then show "unchanged_outside base (snd w) (snd (snd
      (if path_exists (snd w) (?d @ parts) then (errorResponse 409 ''file already exists'', w)
       else case parseJsonObjectBody (fc_json fc) body of
         Inl e \<Rightarrow> (bodyParseErrorResponse e, w)
       | Inr obj \<Rightarrow>
           let content = fc_utf8 fc (to_string (jval obj ''content'')) in
           if kMaxFileSize < length content then (errorResponse 413 ''content too large (max 1MB)'', w)
           else
             let (s, t) = w; (made, t) = mkpath (butlast (?d @ parts)) t in
             if \<not> made then (errorResponse 500 ''failed to create directory'', s, t)
             else
               (case atomicWrite (fc_reason fc) (?d @ parts) content t of
                  (Inl e, t) \<Rightarrow> (errorResponse 500 e, s, t)
                | (Inr _, t) \<Rightarrow>
                    (jsonResponse (jset ''created'' (JBool True)
                       (jset ''size'' (jint (int (length content))) (jset ''path'' (JStr path) []))) 201, s, t)))))"
    using made(1) parts(1) by (auto simp: Let_def case_prod_beta butlast_append split: sum.split)
qed simp

lemma delete_stays:
  assumes "known_service w sid service base" and "plain_name path"
  shows "unchanged_outside base (snd w) (snd (snd (handleServiceFileDelete sid path w)))"
proof -
  have "unchanged_outside base (snd w) (snd (snd (with_file sid path
      (\<lambda>service absPath.
         if \<not> path_exists (snd w) absPath then (errorResponse 404 ''file not found'', w)
         else
           (case remove_file absPath (snd w) of
              (False, t) \<Rightarrow> (errorResponse 500 ''failed to delete file'', fst w, t)
            | (True, t) \<Rightarrow> (noContentResponse, fst w, t))) w)))"
    by (rule with_file_rule [OF assms])
      (use remove_below in \<open>auto simp: case_prod_beta split: bool.split\<close>)
  then show ?thesis by (simp add: handleServiceFileDelete_def)
qed

lemma file_below:
  assumes "service_place t dir base parts" and "parts \<noteq> []" and "file_content t (dir @ parts) = Some content"
  shows "below base (base @ parts) \<and> node_at t (base @ parts) = Some (FileNode content)"
  using links_of_steps [of t base parts dir] assms
  by (auto simp: service_place_def file_content_def split: option.splits node.splits)

lemma read_stays:
  assumes "known_service w sid service base" and "plain_name path"
  shows "rs_code (fst (handleServiceFileRead fc sid path w)) = 200
    \<longrightarrow> (\<exists>p content. below base p \<and> node_at (snd w) p = Some (FileNode content)
      \<and> jval (rs_body (fst (handleServiceFileRead fc sid path w))) ''content'' = JStr (fc_text fc content))"
  unfolding handleServiceFileRead_def
  by (rule with_file_rule [OF assms])
    (auto simp: errorResponse_def jsonResponse_def read_file_def dest: file_below split: option.split if_splits)

text \<open>C13: A request that names a file by a path without a backslash and without a part that begins
  with a colon touches nothing outside the directory of its service, also when symbolic links lie in and
  around it: writing, creating and deleting a file leave every entry of the disk that is not below the
  directory as it was, however they end, and a file that is read is one below it. The directory itself may
  be reached through links. A backslash the check takes for a separator and the system does not; a part that
  begins with a colon it takes for the name of a resource, and then checks nothing that follows
  (colon_part_hides_link).\<close>

theorem file_requests_stay_in_service:
  assumes "known_service w sid service base" and "CHR 0x5C \<notin> set path"
    and "\<forall>s \<in> set (split_at_char (CHR ''/'') path). take 1 s \<noteq> '':''"
  shows "unchanged_outside base (snd w) (snd (snd (handleServiceFileWrite fc sid path body w)))
    \<and> unchanged_outside base (snd w) (snd (snd (handleServiceFileCreate fc sid path body w)))
    \<and> unchanged_outside base (snd w) (snd (snd (handleServiceFileDelete sid path w)))
    \<and> (rs_code (fst (handleServiceFileRead fc sid path w)) = 200
        \<longrightarrow> (\<exists>p content. below base p \<and> node_at (snd w) p = Some (FileNode content)
             \<and> jval (rs_body (fst (handleServiceFileRead fc sid path w))) ''content'' = JStr (fc_text fc content)))"
proof -
  have "plain_name path" using assms(2,3) by (simp add: plain_name_def)
  note named = assms(1) this
  show ?thesis using write_stays [OF named] create_stays [OF named] delete_stays [OF named] read_stays [OF named]
    by blast
qed

section \<open>An instance\<close>

definition bare_server :: "(string, service_info) omap \<Rightarrow> server" where
  "bare_server services =
     \<lparr>sm_dataRoot = ''/d'',
      sm_sched = \<lparr>mgr = \<lparr>m_dataRoot = ''/d'', m_serviceProgram = [], m_instances = [], m_startTimers = []\<rparr>,
        e_services = [], e_projects = [], m_timers = [], m_consecutiveFailures = [], m_restartSuppressed = {},
        m_shuttingDown = False, m_restarts = [], published = []\<rparr>,
      sm_services = services, sm_projects = [], sm_disk = \<lparr>files = (\<lambda>_. None), faults = []\<rparr>, sm_inFlight = {}\<rparr>"

definition demo_service :: service_info where
  "demo_service = \<lparr>sv_id = ''s'', sv_name = ''n'', sv_version = ''1'', sv_serviceDir = ''/d/services/s'',
     sv_manifest = \<lparr>mf_manifestVersion = ''1'', mf_id = ''s'', mf_name = ''n'', mf_version = ''1'', mf_description = [],
       mf_author = []\<rparr>, sv_schema = [], sv_rawConfigSchema = []\<rparr>"

text \<open>The data root is a link to another directory, and a link in the service's directory leads out of it.\<close>

definition demo_tree :: tree where
  "demo_tree = \<lparr>tr_entries =
     [([''d''], LinkNode [''var'']), ([''var''], DirNode), ([''var'', ''secret''], FileNode [1]),
      ([''var'', ''services''], DirNode), ([''var'', ''services'', ''s''], DirNode),
      ([''var'', ''services'', ''s'', ''out''], LinkNode [''var'']),
      ([''var'', ''services'', ''s'', ''manifest.json''], FileNode [2])],
     tr_maxLinks = 40, tr_unreadable = [], tr_faults = [], tr_resources = []\<rparr>"

definition demo_world :: world where
  "demo_world = (bare_server [(''s'', demo_service)], demo_tree)"

definition byte_codec :: file_codec where
  "byte_codec = \<lparr>fc_json = \<lparr>cd_to_json = (\<lambda>j. if j = JObj [] then [2] else [1]),
       cd_from_json = (\<lambda>b. if b = [2] then Inr (JObj []) else Inr (JObj [(''content'', JStr ''x'')])),
       cd_re_match = (\<lambda>_ _. True), cd_render = (\<lambda>_. [])\<rparr>,
     fc_utf8 = map (\<lambda>c. word_of_nat (of_char c)), fc_text = map (\<lambda>b. char_of (unat b)), fc_modified = (\<lambda>_. []), fc_reason = []\<rparr>"

lemma demo_dir: "dir_path ''/d/services/s'' = [''d'', ''services'', ''s'']"
  by code_simp

lemma demo_known: "known_service demo_world ''s'' demo_service [''var'', ''services'', ''s'']"
proof -
  have "tree_ok demo_tree" by code_simp
  moreover have "canonicalFilePath demo_tree [''d'', ''services'', ''s''] = Some [''var'', ''services'', ''s'']" by code_simp
  moreover have "node_at demo_tree [''var'', ''services'', ''s''] = Some DirNode" by code_simp
  ultimately show ?thesis
    by (simp add: known_service_def demo_world_def bare_server_def demo_service_def demo_dir)
qed

lemma file_requests_stay_in_service_witness:
  "unchanged_outside [''var'', ''services'', ''s''] demo_tree
    (snd (snd (handleServiceFileWrite byte_codec ''s'' ''out/secret'' [1] demo_world)))"
  using file_requests_stay_in_service [OF demo_known, of "''out/secret''" byte_codec "[1]"] by (simp add: demo_world_def)

text \<open>
  A part that begins with a colon hides what follows: below the directory \<open>:x\<close> of the service lies a link
  to a directory outside, and the file behind it is read.
\<close>

definition colon_world :: world where
  "colon_world = (fst demo_world, put_node [''var'', ''services'', ''s'', '':x''] DirNode
     (put_node [''var'', ''services'', ''s'', '':x'', ''out''] (LinkNode [''var'']) demo_tree))"

lemma colon_part_hides_link:
  "isPathSafe [''d'', ''services'', ''s''] ''./:x/out/secret'' (snd colon_world)"
  "canonicalFilePath (snd colon_world) (absoluteFilePath [''d'', ''services'', ''s''] ''./:x/out/secret'')
    = Some [''var'', ''secret'']"
  by code_simp+

end
