(* ===== verification/ServiceCreateSpec.thy ===== *)
theory ServiceCreateSpec
  imports ServiceApiSpec
begin

text \<open>
  A service that is created is the one the next scan of the directory finds. The last section shows that
  the core files of a service are protected under one of their names only.
\<close>

section \<open>Paths and new entries\<close>

lemma split_at_append: "split_at_char c (a @ c # b) = split_at_char c a @ split_at_char c b"
proof (induction a)
  case (Cons d a)
  obtain p ps where "split_at_char c a = p # ps" by (cases "split_at_char c a") auto
  then show ?case using Cons by auto
qed simp

lemma dir_path_child:
  assumes "CHR ''/'' \<notin> set name" and "name \<notin> {[], ''.'', ''..''}"
  shows "dir_path (dir @ ''/'' @ name) = dir_path dir @ [name]"
  using assms by (simp add: dir_path_def clean_path_def split_at_append split_at_other clean_step_def)

lemma canonical_child:
  assumes "canonicalFilePath t p = Some c" and "node_at t c = Some DirNode"
    and "\<And>target. node_at t (c @ [x]) \<noteq> Some (LinkNode target)"
  shows "canonicalFilePath t (p @ [x]) = (if node_at t (c @ [x]) = None then None else Some (c @ [x]))"
proof -
  obtain k where "canonicalFilePath t (p @ [x]) = walk t k c [x]"
    using walk_append [of t "[]" "[x]" "tr_maxLinks t" p] assms(1,2) by (auto simp: canonicalFilePath_def)
  then show ?thesis using assms(3) by (auto split: option.splits node.splits)
qed

lemma no_faults [simp]: "tr_faults t = [] \<Longrightarrow> take_fault t = (False, t)"
  by (simp add: take_fault_def)

lemma put_node_fields [simp]:
  "tr_faults (put_node e n t) = tr_faults t" "tr_unreadable (put_node e n t) = tr_unreadable t"
  by (simp_all add: put_node_def)

lemma new_entry:
  assumes "canonicalFilePath t p = Some c" and "node_at t c = Some DirNode" and "node_at t (c @ [x]) = None"
  shows "entry_place t (p @ [x]) = Some (c @ [x])" and "\<not> is_link t (p @ [x])" and "\<not> path_exists t (p @ [x])"
    and "\<not> is_dir t (p @ [x])"
proof -
  show place: "entry_place t (p @ [x]) = Some (c @ [x])" using assms(1,2) by (simp add: entry_place_def)
  have "canonicalFilePath t (p @ [x]) = None" using canonical_child [OF assms(1,2)] assms(3) by simp
  then show "\<not> is_link t (p @ [x])" "\<not> path_exists t (p @ [x])" "\<not> is_dir t (p @ [x])"
    using place assms(3) by (simp_all add: is_link_def path_exists_def is_dir_def)
qed

lemma write_new:
  assumes "canonicalFilePath t p = Some c" and "node_at t c = Some DirNode" and "node_at t (c @ [x]) = None"
    and "tr_faults t = []"
  shows "writeTextFile fc (p @ [x]) content t = (True, put_node (c @ [x]) (FileNode (fc_utf8 fc content)) t)"
  using new_entry [OF assms(1-3)] assms(4) by (simp add: writeTextFile_def atomicWrite_def)

lemma mkpath_new:
  assumes "canonicalFilePath t p = Some c" and "node_at t c = Some DirNode" and "node_at t (c @ [x]) = None"
    and "tr_faults t = []"
  shows "mkpath (p @ [x]) t = (True, put_node (c @ [x]) DirNode t)"
  using make_dirs_existing [of t "[]" p "[]" c "[x]"] new_entry [OF assms(1-3)] assms by (simp add: mkpath_def)

section \<open>The manifest of a new service\<close>

lemma new_manifest_parses:
  assumes "cr_id rq \<noteq> []" and "cr_name rq \<noteq> []" and "cr_version rq \<noteq> []"
  shows "ServiceManifest_fromJson (new_manifest rq) = Inr \<lparr>mf_manifestVersion = ''1'', mf_id = cr_id rq,
    mf_name = cr_name rq, mf_version = cr_version rq, mf_description = cr_description rq, mf_author = cr_author rq\<rparr>"
proof -
  have "k \<in> set s_knownFields" if "k \<in> set (om_keys (new_manifest rq))" for k
    using that by (auto simp: new_manifest_def om_has_keys [symmetric] s_knownFields_def om_has_Nil split: if_splits)
  then have "find (\<lambda>k. k \<notin> set s_knownFields) (om_keys (new_manifest rq)) = None" by (auto simp: find_None_iff)
  then show ?thesis
    using assms by (simp add: ServiceManifest_fromJson_def required_text_def Let_def new_manifest_def)
qed

section \<open>Creating\<close>

text \<open>What is written is read again as the same document.\<close>

definition reads_back :: "file_codec \<Rightarrow> json_obj \<Rightarrow> bool" where
  "reads_back fc obj \<longleftrightarrow> cd_from_json (fc_json fc) (fc_utf8 fc (json_text fc obj)) = Inr (JObj obj)"

definition new_schema :: "service_create \<Rightarrow> json_obj" where
  "new_schema rq = (case cr_configSchema rq of Some sc \<Rightarrow> sc | None \<Rightarrow> templateConfigSchema (cr_templateType rq))"

definition new_script :: "service_create \<Rightarrow> string" where
  "new_script rq = (case cr_indexJs rq of Some js \<Rightarrow> js | None \<Rightarrow> templateIndexJs (cr_templateType rq))"

definition new_service :: "string \<Rightarrow> field_meta list \<Rightarrow> service_create \<Rightarrow> service_info" where
  "new_service dir schema rq =
     \<lparr>sv_id = cr_id rq, sv_name = cr_name rq, sv_version = cr_version rq, sv_serviceDir = dir,
      sv_manifest = \<lparr>mf_manifestVersion = ''1'', mf_id = cr_id rq, mf_name = cr_name rq, mf_version = cr_version rq,
        mf_description = cr_description rq, mf_author = cr_author rq\<rparr>,
      sv_schema = schema, sv_rawConfigSchema = new_schema rq\<rparr>"

text \<open>The directory of services, ready for one more.\<close>

definition room_for :: "tree \<Rightarrow> string \<Rightarrow> path \<Rightarrow> string \<Rightarrow> bool" where
  "room_for t servicesDir base sid \<longleftrightarrow>
     canonicalFilePath t (dir_path servicesDir) = Some base \<and> node_at t base = Some DirNode
     \<and> node_at t (base @ [sid]) = None \<and> tree_ok t \<and> tr_faults t = [] \<and> tr_unreadable t = []"

definition with_service :: "file_codec \<Rightarrow> service_create \<Rightarrow> path \<Rightarrow> tree \<Rightarrow> tree" where
  "with_service fc rq c t =
     put_node (c @ [''config.schema.json'']) (FileNode (fc_utf8 fc (json_text fc (new_schema rq))))
     (put_node (c @ [''index.js'']) (FileNode (fc_utf8 fc (new_script rq)))
     (put_node (c @ [''manifest.json'']) (FileNode (fc_utf8 fc (json_text fc (new_manifest rq))))
     (put_node c DirNode t)))"

lemma with_service_nodes:
  assumes "c \<noteq> []" and "p = c \<or> p = c @ [''manifest.json''] \<or> p = c @ [''index.js''] \<or> p = c @ [''config.schema.json'']"
  shows "node_at (with_service fc rq c t) p =
    (if p = c then Some DirNode
     else if p = c @ [''manifest.json''] then Some (FileNode (fc_utf8 fc (json_text fc (new_manifest rq))))
     else if p = c @ [''index.js''] then Some (FileNode (fc_utf8 fc (new_script rq)))
     else Some (FileNode (fc_utf8 fc (json_text fc (new_schema rq)))))"
  using assms by (auto simp: with_service_def node_at_put)

lemma created_loads:
  assumes "canonicalFilePath t' (dir_path dir) = Some c" and "c \<noteq> []" and "tr_unreadable t' = []"
    and "t' = with_service fc rq c t" and "fromJsonObject (new_schema rq) = Inr schema"
    and "reads_back fc (new_manifest rq)" and "reads_back fc (new_schema rq)"
    and "cr_id rq \<noteq> []" and "cr_name rq \<noteq> []" and "cr_version rq \<noteq> []"
  shows "loadService fc dir t' = Inr (new_service dir schema rq)"
proof -
  have dir: "node_at t' c = Some DirNode" using with_service_nodes assms(2,4) by simp
  have can: "canonicalFilePath t' (dir_path dir @ [x]) = Some (c @ [x])"
    if "x \<in> {''manifest.json'', ''index.js'', ''config.schema.json''}" for x
    using canonical_child [OF assms(1) dir, of x] with_service_nodes [OF assms(2), of "c @ [x]" fc rq t] that assms(4) by auto
  have "read_file t' (dir_path dir @ [''manifest.json'']) = Some (fc_utf8 fc (json_text fc (new_manifest rq)))"
    "read_file t' (dir_path dir @ [''config.schema.json'']) = Some (fc_utf8 fc (json_text fc (new_schema rq)))"
    using can assms(2-4) with_service_nodes by (simp_all add: read_file_def file_content_def)
  moreover have "ServiceDirectory_validate dir t' = None"
    using can assms(1) dir by (simp add: ServiceDirectory_validate_def Let_def path_exists_def is_dir_def)
  ultimately show ?thesis
    using assms(5-10)
    by (simp add: loadService_def Let_def ServiceManifest_loadFromFile_def reads_back_def new_manifest_parses
        fromJsonFile_def fromJsonObject_def new_service_def)
qed

lemma valid_id:
  assumes "isValidServiceId sid"
  shows "CHR ''/'' \<notin> set sid" and "sid \<notin> {[], ''.'', ''..''}" and "\<not> starts_with ''.'' sid" and "sid \<noteq> []"
proof -
  have id_chars: "\<not> is_id_char (CHR ''/'')" "\<not> is_id_char (CHR ''.'')"
    by (simp_all add: is_id_char_def is_letter_def is_digit_def less_eq_char_def)
  obtain b r where b: "sid = b @ r" "list_all is_id_char b" "b \<noteq> []" "r \<in> {[], [CHR 0x0A]}"
  proof (cases "last sid = CHR 0x0A")
    case True
    have "sid \<noteq> []" using assms by (simp add: isValidServiceId_def)
    then have "sid = butlast sid @ [CHR 0x0A]" using True append_butlast_last_id by metis
    with True assms that [of "butlast sid" "[CHR 0x0A]"] show ?thesis by (simp add: isValidServiceId_def Let_def)
  next
    case False
    with assms that [of sid "[]"] show ?thesis by (simp add: isValidServiceId_def Let_def)
  qed
  have dot: "hd sid \<noteq> CHR ''.''" using b(1-3) id_chars by (cases b) auto
  show "CHR ''/'' \<notin> set sid" using b id_chars by (auto simp: list_all_iff)
  show "sid \<noteq> []" using b by simp
  then show "sid \<notin> {[], ''.'', ''..''}" "\<not> starts_with ''.'' sid"
    using dot by (auto simp: starts_with_def) (cases sid; simp)+
qed

lemma with_service_fresh:
  assumes "tree_ok t" and "node_at t c = None"
  shows "node_at t (c @ [x]) = None"
proof (rule ccontr)
  assume "node_at t (c @ [x]) \<noteq> None"
  from parent_dir [OF assms(1) this] assms(2) show False by simp
qed

lemma with_service_place:
  assumes "room_for t servicesDir base sid" and "canonicalFilePath t p = Some base"
  shows "canonicalFilePath (with_service fc rq (base @ [sid]) t) (p @ [sid]) = Some (base @ [sid])"
proof -
  let ?c = "base @ [sid]" and ?t = "put_node (base @ [sid]) DirNode t"
  have c: "node_at t ?c = None" "node_at t base = Some DirNode" using assms(1) by (simp_all add: room_for_def)
  have "canonicalFilePath ?t p = Some base" using canonical_put c(1) assms(2) by blast
  from canonical_child [OF this, of sid] have "canonicalFilePath ?t (p @ [sid]) = Some ?c"
    using c by (simp add: node_at_put)
  moreover have "node_at t (?c @ [x]) = None" for x
    using with_service_fresh [of t ?c x] assms(1) by (simp add: room_for_def)
  ultimately show ?thesis
    unfolding with_service_def by (simp add: canonical_put node_at_put)
qed

definition services_dir :: "server \<Rightarrow> string" where
  "services_dir s = sm_dataRoot s @ ''/services''"

definition service_dir :: "server \<Rightarrow> string \<Rightarrow> string" where
  "service_dir s sid = sm_dataRoot s @ ''/services/'' @ sid"

lemma service_dir_child: "service_dir s sid = services_dir s @ ''/'' @ sid"
  by (simp add: service_dir_def services_dir_def)

lemma created:
  assumes "room_for t (services_dir s) base (cr_id rq)" and "isValidServiceId (cr_id rq)"
    and "cr_name rq \<noteq> []" and "cr_version rq \<noteq> []" and "\<not> om_has (sm_services s) (cr_id rq)"
    and "fromJsonObject (new_schema rq) = Inr schema"
    and "reads_back fc (new_manifest rq)" and "reads_back fc (new_schema rq)"
  shows "let svc = new_service (service_dir s (cr_id rq)) schema rq;
             t' = with_service fc rq (base @ [cr_id rq]) t
         in createService fc rq (s, t) = (Inr svc, s\<lparr>sm_services := om_put (cr_id rq) svc (sm_services s)\<rparr>, t')
           \<and> loadService fc (service_dir s (cr_id rq)) t' = Inr svc"
proof -
  let ?dir = "service_dir s (cr_id rq)" and ?c = "base @ [cr_id rq]"
  note valid = valid_id [OF assms(2)]
  have d: "dir_path ?dir = dir_path (services_dir s) @ [cr_id rq]" (is "_ = ?sd @ _")
    using dir_path_child [OF valid(1,2), of "services_dir s"] by (simp add: service_dir_child)
  have room: "canonicalFilePath t ?sd = Some base" "node_at t base = Some DirNode" "node_at t ?c = None"
      "tr_faults t = []" "tr_unreadable t = []" "tree_ok t"
    using assms(1) by (simp_all add: room_for_def)
  have t': "canonicalFilePath (with_service fc rq ?c t) (dir_path ?dir) = Some ?c"
    using with_service_place [OF assms(1) room(1)] by (simp add: d)
  have loaded: "loadService fc ?dir (with_service fc rq ?c t) = Inr (new_service ?dir schema rq)"
    using created_loads [OF t' _ _ refl] assms(3,4,6-8) room(5) valid(4) by (simp add: with_service_def)
  have fresh: "node_at t (?c @ [x]) = None" for x using with_service_fresh room(3,6) by blast
  have can: "canonicalFilePath (put_node ?c DirNode t) (dir_path ?dir) = Some ?c"
    using canonical_child [OF canonical_put [OF room(3,1)], of DirNode "cr_id rq"] room(2) by (simp add: node_at_put d)
  note writes = write_new [where p = "dir_path ?dir" and c = ?c]
  let ?t1 = "put_node ?c DirNode t"
  let ?t2 = "put_node (?c @ [''manifest.json'']) (FileNode (fc_utf8 fc (json_text fc (new_manifest rq)))) ?t1"
  let ?t3 = "put_node (?c @ [''index.js'']) (FileNode (fc_utf8 fc (new_script rq))) ?t2"
  have can2: "canonicalFilePath ?t2 (dir_path ?dir) = Some ?c" using canonical_put [OF _ can] fresh by (simp add: node_at_put)
  have can3: "canonicalFilePath ?t3 (dir_path ?dir) = Some ?c" using canonical_put [OF _ can2] fresh by (simp add: node_at_put)
  have steps: "mkpath (dir_path ?dir) t = (True, ?t1)"
    "writeTextFile fc (dir_path ?dir @ [''manifest.json'']) (json_text fc (new_manifest rq)) ?t1 = (True, ?t2)"
    "writeTextFile fc (dir_path ?dir @ [''index.js'']) (new_script rq) ?t2 = (True, ?t3)"
    "writeTextFile fc (dir_path ?dir @ [''config.schema.json'']) (json_text fc (new_schema rq)) ?t3
      = (True, with_service fc rq ?c t)"
    using mkpath_new [OF room(1-4)] writes [OF can] writes [OF can2] writes [OF can3] room(4) fresh
    by (simp_all add: d node_at_put with_service_def)
  have "\<not> is_dir t (dir_path ?dir)" using new_entry(4) [OF room(1-3)] by (simp add: d)
  moreover have "(case cr_configSchema rq of None \<Rightarrow> Inr [] | Some schema \<Rightarrow> fromJsonObject schema)
      \<in> {Inr [], Inr schema}"
    using assms(6) by (auto simp: new_schema_def split: option.splits)
  ultimately show ?thesis
    using steps loaded assms(2-5)
    unfolding createService_def service_dir_def [symmetric] new_script_def [symmetric] new_schema_def [symmetric]
    by (auto simp: Let_def new_service_def)
qed

section \<open>Scanning\<close>

lemma scan_finds:
  assumes "loadService fc (path_join servicesDir sid) t = Inr svc" and "sv_id svc = sid"
    and "\<forall>n \<in> set names. n \<noteq> sid \<longrightarrow> (\<forall>info. loadService fc (path_join servicesDir n) t = Inr info \<longrightarrow> sv_id info \<noteq> sid)"
    and "sid \<in> set names \<or> om_get (fst st) sid = Some svc" and "om_get (fst st) sid = None \<or> om_get (fst st) sid = Some svc"
  shows "om_get (fst (fold (scan_entry fc servicesDir t) names st)) sid = Some svc"
  using assms(3-5)
proof (induction names arbitrary: st)
  case (Cons n names)
  let ?st = "scan_entry fc servicesDir t n st"
  have "om_get (fst ?st) sid = (if n = sid \<and> om_get (fst st) sid = None then Some svc else om_get (fst st) sid)"
    using Cons.prems(1) assms(1,2)
    by (auto simp: scan_entry_def Let_def case_prod_beta om_has_def split: sum.split)
  moreover have "fold (scan_entry fc servicesDir t) (n # names) st = fold (scan_entry fc servicesDir t) names ?st" by simp
  ultimately show ?case using Cons.IH [of ?st] Cons.prems by (auto split: if_splits)
qed simp

lemma created_listed:
  assumes "room_for t servicesDir base sid" and "\<not> starts_with ''.'' sid"
  shows "sid \<in> set (dir_names (dir_path servicesDir) (with_service fc rq (base @ [sid]) t))"
proof -
  let ?c = "base @ [sid]" and ?t = "with_service fc rq (base @ [sid]) t"
  have room: "canonicalFilePath t (dir_path servicesDir) = Some base" "node_at t base = Some DirNode" "node_at t ?c = None"
      "tree_ok t"
    using assms(1) by (simp_all add: room_for_def)
  have fresh: "node_at t (?c @ [x]) = None" for x using with_service_fresh room(3,4) by blast
  have base: "canonicalFilePath ?t (dir_path servicesDir) = Some base"
    using room(1,3) fresh by (simp add: with_service_def canonical_put node_at_put)
  have "canonicalFilePath t p = Some p" if "node_at t p = Some DirNode" for p
    using that
  proof (induction p rule: rev_induct)
    case (snoc x p)
    then have "node_at t p = Some DirNode" using parent_dir [OF room(4), of p x] by simp
    with snoc show ?case using canonical_child [of t p p x] by simp
  qed (simp add: canonicalFilePath_def)
  from with_service_place [OF assms(1) this [OF room(2)]] have "is_dir ?t ?c"
    using with_service_nodes [of ?c ?c fc rq t] by (simp add: is_dir_def)
  moreover have "?c \<in> set (map fst (tr_entries ?t))"
    using with_service_nodes [of ?c ?c fc rq t] by (auto simp: node_at_def dest: map_of_SomeD intro: rev_image_eqI)
  ultimately show ?thesis
  proof -
    assume dir: "is_dir ?t ?c" and "?c \<in> set (map fst (tr_entries ?t))"
    then have "?c \<in> set (filter (\<lambda>p. length p = length base + 1 \<and> take (length base) p = base \<and> is_dir ?t p
        \<and> \<not> starts_with ''.'' (last p)) (map fst (tr_entries ?t)))"
      using assms(2) by simp
    then have "last ?c \<in> set (map last (filter (\<lambda>p. length p = length base + 1 \<and> take (length base) p = base
        \<and> is_dir ?t p \<and> \<not> starts_with ''.'' (last p)) (map fst (tr_entries ?t))))"
      unfolding set_map by (rule imageI)
    then show ?thesis using base by (simp add: dir_names_def)
  qed
qed

lemma create_request_fields:
  assumes "create_request obj = Inr rq"
  shows "cr_id rq \<noteq> [] \<and> cr_name rq \<noteq> [] \<and> cr_version rq \<noteq> []"
  using assms by (auto simp: create_request_def Let_def split: if_splits)

text \<open>C17: A service that is created is there: when the request is accepted, its directory is new and its
  documents survive being written and read, the answer is 201, the server knows the service under its id, a
  later scan of the services finds the very same service under that id, and the script in its directory is the
  one of the request or of the template. No other directory may hold a service of that id.\<close>

theorem created_service_found:
  assumes "parseJsonObjectBody (fc_json fc) body = Inr obj" and "create_request obj = Inr rq"
    and "isValidServiceId (cr_id rq)" and "\<not> om_has (sm_services s) (cr_id rq)"
    and "room_for t (services_dir s) base (cr_id rq)" and "fromJsonObject (new_schema rq) = Inr schema"
    and "reads_back fc (new_manifest rq)" and "reads_back fc (new_schema rq)"
    and "\<forall>n \<in> set (dir_names (dir_path (services_dir s)) (with_service fc rq (base @ [cr_id rq]) t)). n \<noteq> cr_id rq \<longrightarrow>
      (\<forall>info. loadService fc (path_join (services_dir s) n) (with_service fc rq (base @ [cr_id rq]) t) = Inr info
        \<longrightarrow> sv_id info \<noteq> cr_id rq)"
  shows "\<exists>answer t'. handleServiceCreate fc body (s, t)
      = (Response 201 answer, s\<lparr>sm_services := om_put (cr_id rq) (new_service (service_dir s (cr_id rq)) schema rq) (sm_services s)\<rparr>, t')
    \<and> om_get (fst (ServiceScanner_scan fc (services_dir s) t')) (cr_id rq)
        = Some (new_service (service_dir s (cr_id rq)) schema rq)
    \<and> file_content t' (dir_path (service_dir s (cr_id rq)) @ [''index.js'']) = Some (fc_utf8 fc (new_script rq))"
proof -
  let ?svc = "new_service (service_dir s (cr_id rq)) schema rq" and ?t = "with_service fc rq (base @ [cr_id rq]) t"
  have fields: "cr_name rq \<noteq> []" "cr_version rq \<noteq> []" using create_request_fields [OF assms(2)] by simp_all
  note made = created [OF assms(5,3) fields assms(4,6-8), unfolded Let_def]
  have "om_get (fst (ServiceScanner_scan fc (services_dir s) ?t)) (cr_id rq) = Some ?svc"
  proof -
    have room: "canonicalFilePath t (dir_path (services_dir s)) = Some base" using assms(5) by (simp add: room_for_def)
    have "is_dir ?t (dir_path (services_dir s))"
      using prefix_is_dir [OF with_service_place [OF assms(5) room]] by simp
    moreover have "loadService fc (path_join (services_dir s) (cr_id rq)) ?t = Inr ?svc"
      using made by (simp add: path_join_def service_dir_child)
    moreover have "cr_id rq \<in> set (dir_names (dir_path (services_dir s)) ?t)"
      using created_listed [OF assms(5)] valid_id(3) [OF assms(3)] by simp
    ultimately show ?thesis
      using scan_finds [OF _ _ assms(9), of ?svc] by (simp add: ServiceScanner_scan_def Let_def new_service_def)
  qed
  moreover have "file_content ?t (dir_path (service_dir s (cr_id rq)) @ [''index.js'']) = Some (fc_utf8 fc (new_script rq))"
  proof -
    let ?c = "base @ [cr_id rq]"
    have "canonicalFilePath t (dir_path (services_dir s)) = Some base" using assms(5) by (simp add: room_for_def)
    from with_service_place [OF assms(5) this] have "canonicalFilePath ?t (dir_path (service_dir s (cr_id rq))) = Some ?c"
      using dir_path_child [OF valid_id(1,2) [OF assms(3)]] by (simp add: service_dir_child)
    from canonical_child [OF this, of "''index.js''"] show ?thesis
      using with_service_nodes [of ?c _ fc rq t] by (simp add: file_content_def)
  qed
  ultimately show ?thesis
    using made assms(1,2) by (simp add: handleServiceCreate_def jsonResponse_def)
qed

section \<open>Core files under another name\<close>

lemma walk_del:
  "node_at t e = Some (FileNode content) \<Longrightarrow> walk t links cur xs = Some c \<Longrightarrow> c \<noteq> e
    \<Longrightarrow> walk (del_node e t) links cur xs = Some c"
proof (induction t links cur xs rule: walk.induct)
  case (2 t links cur seg rest)
  have e: "e \<noteq> []" using 2(3) by auto
  show ?case using 2 e by (auto simp: node_at_del split: option.splits node.splits nat.splits if_splits)
qed simp

lemma canonical_del:
  "node_at t e = Some (FileNode content) \<Longrightarrow> canonicalFilePath t p = Some c \<Longrightarrow> c \<noteq> e
    \<Longrightarrow> canonicalFilePath (del_node e t) p = Some c"
proof -
  have "tr_maxLinks (del_node e t) = tr_maxLinks t" by (simp add: del_node_def)
  then show "node_at t e = Some (FileNode content) \<Longrightarrow> canonicalFilePath t p = Some c \<Longrightarrow> c \<noteq> e
    \<Longrightarrow> canonicalFilePath (del_node e t) p = Some c"
    by (simp add: canonicalFilePath_def walk_del)
qed

text \<open>A directory that is where it says, without links in it or on the way.\<close>

definition plain_service :: "world \<Rightarrow> string \<Rightarrow> service_info \<Rightarrow> path \<Rightarrow> bool" where
  "plain_service w sid service d \<longleftrightarrow>
     om_get (sm_services (fst w)) sid = Some service \<and> dir_path (sv_serviceDir service) = d \<and> d \<noteq> []
     \<and> canonicalFilePath (snd w) d = Some d \<and> node_at (snd w) d = Some DirNode \<and> tr_faults (snd w) = []"

lemma dotted_name:
  assumes "name \<notin> {[], ''.'', ''..''}" and "CHR ''/'' \<notin> set name" and "CHR 0x5C \<notin> set name"
  shows "split_seps (''./'' @ name) = [''.'', name]" and "clean d \<Longrightarrow> absoluteFilePath d (''./'' @ name) = d @ [name]"
proof -
  have split: "split_at_char (CHR ''/'') (''./'' @ name) = [''.'', name]"
    using split_at_append [of "CHR ''/''" "''.''" name] split_at_other [OF assms(2)] by simp
  then show "split_seps (''./'' @ name) = [''.'', name]"
    using assms(3) by (simp add: split_seps_plain)
  show "absoluteFilePath d (''./'' @ name) = d @ [name]" if "clean d"
  proof -
    have "''..'' \<notin> set (split_at_char (CHR ''/'') (''./'' @ name))" unfolding split using assms(1) by auto
    from absolute_place [OF that this] show ?thesis unfolding split using assms(1) by (simp add: real_parts_def)
  qed
qed

lemma dotted_safe:
  assumes "plain_service w sid service d" and "node_at (snd w) (d @ [name]) = Some (FileNode content)"
    and "name \<notin> {[], ''.'', ''..''}" and "CHR ''/'' \<notin> set name" and "CHR 0x5C \<notin> set name"
    and "hd name \<noteq> CHR '':''"
  shows "resolveSafePath d (''./'' @ name) (snd w) = Inr (d @ [name])"
proof -
  have d: "clean d" "canonicalFilePath (snd w) d = Some d" "node_at (snd w) d = Some DirNode" "d \<noteq> []"
    using assms(1) clean_dir_path by (auto simp: plain_service_def)
  have can: "canonicalFilePath (snd w) (d @ [name]) = Some (d @ [name])"
    using canonical_child [OF d(2,3), of name] assms(2) by simp
  have link: "\<not> is_link (snd w) (d @ [name])" using d assms(2) by (simp add: is_link_def entry_place_def)
  have abs: "absoluteFilePath d (''./'' @ name) = d @ [name]" by (rule dotted_name(2) [OF assms(3-5) d(1)])
  have "path_steps (snd w) d name [''.'', name] (Some d)" using can link assms(3,6) d(4) by (simp add: beneath_def)
  moreover have "''..'' \<notin> set [''.'', name]" using assms(3) by auto
  ultimately have "isPathSafe d (''./'' @ name) (snd w)"
    unfolding isPathSafe_def dotted_name(1) [OF assms(3-5)] abs Let_def
    using d(2,4) link by (simp add: isAbsolutePath_def beneath_def)
  then show ?thesis unfolding resolveSafePath_def abs by simp
qed

text \<open>The core files are protected by name only: deleting \<open>manifest.json\<close> is refused and changes nothing,
  but deleting \<open>./manifest.json\<close>, the same file, is carried out, and the service's directory can no longer be
  loaded.\<close>

theorem core_file_deleted_by_other_name:
  assumes "plain_service w sid service d" and "node_at (snd w) (d @ [''manifest.json'']) = Some (FileNode content)"
  shows "handleServiceFileDelete sid ''manifest.json'' w = (errorResponse 400 ''cannot delete core file: manifest.json'', w)
    \<and> fst (handleServiceFileDelete sid ''./manifest.json'' w) = noContentResponse
    \<and> loadService fc (sv_serviceDir service) (snd (snd (handleServiceFileDelete sid ''./manifest.json'' w)))
        = Inl (''missing manifest.json in service directory: '' @ sv_serviceDir service)"
proof (intro conjI)
  have s: "om_get (sm_services (fst w)) sid = Some service" "dir_path (sv_serviceDir service) = d"
    "canonicalFilePath (snd w) d = Some d" "node_at (snd w) d = Some DirNode" "tr_faults (snd w) = []" "d \<noteq> []"
    using assms(1) by (simp_all add: plain_service_def)
  show "handleServiceFileDelete sid ''manifest.json'' w = (errorResponse 400 ''cannot delete core file: manifest.json'', w)"
    using s(1) by (simp add: handleServiceFileDelete_def coreFiles_def om_has_def)
  let ?e = "d @ [''manifest.json'']"
  have "resolveSafePath d ''./manifest.json'' (snd w) = Inr ?e" using dotted_safe [OF assms] by simp
  moreover have "path_exists (snd w) ?e" using canonical_child [OF s(3,4)] assms(2) by (simp add: path_exists_def)
  moreover have "remove_file ?e (snd w) = (True, del_node ?e (snd w))"
    using s assms(2) by (simp add: remove_file_def entry_place_def)
  ultimately have deleted: "handleServiceFileDelete sid ''./manifest.json'' w = (noContentResponse, fst w, del_node ?e (snd w))"
    using s(1,2) by (simp add: handleServiceFileDelete_def coreFiles_def with_file_def)
  then show "fst (handleServiceFileDelete sid ''./manifest.json'' w) = noContentResponse" by simp
  let ?t = "del_node ?e (snd w)"
  have d: "canonicalFilePath ?t d = Some d" "node_at ?t d = Some DirNode" "node_at ?t ?e = None"
    using canonical_del [OF assms(2) s(3)] s(4) by (simp_all add: node_at_del)
  from canonical_child [OF d(1,2), of "''manifest.json''"] d(3) have gone: "\<not> path_exists ?t ?e" by (simp add: path_exists_def)
  show "loadService fc (sv_serviceDir service) (snd (snd (handleServiceFileDelete sid ''./manifest.json'' w)))
      = Inl (''missing manifest.json in service directory: '' @ sv_serviceDir service)"
    using d gone s(2) by (simp add: deleted loadService_def ServiceDirectory_validate_def Let_def is_dir_def)
qed

section \<open>Instances\<close>

lemma core_file_deleted_by_other_name_witness:
  "let w = (bare_server [(''s'', demo_service\<lparr>sv_serviceDir := ''/var/services/s''\<rparr>)], demo_tree) in
   handleServiceFileDelete ''s'' ''manifest.json'' w = (errorResponse 400 ''cannot delete core file: manifest.json'', w)
    \<and> fst (handleServiceFileDelete ''s'' ''./manifest.json'' w) = noContentResponse"
proof -
  let ?w = "(bare_server [(''s'', demo_service\<lparr>sv_serviceDir := ''/var/services/s''\<rparr>)], demo_tree)"
  have "dir_path ''/var/services/s'' = [''var'', ''services'', ''s'']" by code_simp
  moreover have "canonicalFilePath demo_tree [''var'', ''services'', ''s''] = Some [''var'', ''services'', ''s'']" by code_simp
  moreover have "node_at demo_tree [''var'', ''services'', ''s''] = Some DirNode" by code_simp
  ultimately have "plain_service ?w ''s'' (demo_service\<lparr>sv_serviceDir := ''/var/services/s''\<rparr>) [''var'', ''services'', ''s'']"
    by (simp add: plain_service_def bare_server_def demo_tree_def)
  moreover have "node_at demo_tree ([''var'', ''services'', ''s''] @ [''manifest.json'']) = Some (FileNode [2])" by code_simp
  ultimately show ?thesis
    using core_file_deleted_by_other_name [of ?w "''s''" "demo_service\<lparr>sv_serviceDir := ''/var/services/s''\<rparr>"
        "[''var'', ''services'', ''s'']" "[2]"] by simp
qed

text \<open>A body that asks for a service, and documents that are told apart by one byte.\<close>

definition create_body :: json_obj where
  "create_body = [(''id'', JStr ''a''), (''name'', JStr ''n''), (''version'', JStr ''1'')]"

definition demo_create :: service_create where
  "demo_create = \<lparr>cr_id = ''a'', cr_name = ''n'', cr_version = ''1'', cr_description = [], cr_author = [],
     cr_templateType = ''empty'', cr_indexJs = None, cr_configSchema = None\<rparr>"

definition create_codec :: file_codec where
  "create_codec = byte_codec\<lparr>fc_json := \<lparr>cd_to_json = (\<lambda>j. if j = JObj [] then [2] else [3]),
     cd_from_json = (\<lambda>b. Inr (JObj (if b = [2] then [] else if b = [3] then new_manifest demo_create else create_body))),
     cd_re_match = (\<lambda>_ _. True), cd_render = (\<lambda>_. [])\<rparr>\<rparr>"

definition empty_services :: tree where
  "empty_services = \<lparr>tr_entries = [([''d''], DirNode), ([''d'', ''services''], DirNode)],
     tr_maxLinks = 40, tr_unreadable = [], tr_faults = [], tr_resources = []\<rparr>"

lemma create_codec_reads_back: "reads_back create_codec (new_manifest demo_create)" "reads_back create_codec []"
proof -
  have "new_manifest demo_create \<noteq> []" by code_simp
  then show "reads_back create_codec (new_manifest demo_create)"
    by (simp add: reads_back_def json_text_def create_codec_def byte_codec_def of_char_of)
  show "reads_back create_codec []" by (simp add: reads_back_def json_text_def create_codec_def byte_codec_def)
qed

lemma created_service_found_witness:
  "\<exists>answer t'. handleServiceCreate create_codec [7] (bare_server [], empty_services)
      = (Response 201 answer, (bare_server [])\<lparr>sm_services := [(''a'', new_service ''/d/services/a'' [] demo_create)]\<rparr>, t')
    \<and> om_get (fst (ServiceScanner_scan create_codec ''/d/services'' t')) ''a'' = Some (new_service ''/d/services/a'' [] demo_create)"
proof -
  have names: "services_dir (bare_server []) = ''/d/services''" "service_dir (bare_server []) ''a'' = ''/d/services/a''"
    "cr_id demo_create = ''a''" "sm_services (bare_server []) = []" "dir_path ''/d/services'' = [''d'', ''services'']"
    by (simp_all add: services_dir_def service_dir_def bare_server_def demo_create_def) code_simp
  have body: "parseJsonObjectBody (fc_json create_codec) [7] = Inr create_body"
    by (simp add: parseJsonObjectBody_def kMaxRequestBodyBytes_def is_space_def create_codec_def)
  have request: "create_request create_body = Inr demo_create" by code_simp
  have valid: "isValidServiceId (cr_id demo_create)" by code_simp
  have room: "room_for empty_services (services_dir (bare_server [])) [''d'', ''services''] (cr_id demo_create)"
    unfolding names by code_simp
  have schema: "new_schema demo_create = []" "fromJsonObject (new_schema demo_create) = Inr []" by code_simp+
  have listed: "dir_names [''d'', ''services''] (with_service create_codec demo_create [''d'', ''services'', ''a''] empty_services) = [''a'']"
    by code_simp
  have readable: "reads_back create_codec (new_schema demo_create)" using create_codec_reads_back(2) schema(1) by simp
  have fresh: "\<not> om_has (sm_services (bare_server [])) (cr_id demo_create)" by (simp add: names)
  show ?thesis
    using created_service_found [OF body request valid fresh room schema(2) create_codec_reads_back(1) readable]
    by (simp add: names listed) blast
qed

end
