(* ===== verification/Spec2Isabelle.thy ===== *)
theory Spec2Isabelle
  imports DriverCoreSpec ConsoleModeSpec MetaSchema IeeeFloats ModbusHandlersSpec ModbusServerHandlersSpec CraneNetworkSpec LaserSessionSpec RobotSpec PqwSpec
    ThermalSpec LaserHandlerSpec ProcMonitorSpec EventStreamsSpec LimacoSpec DriverLabSpec
    ServiceConfigSpec ProjectApiSpec ServiceCreateSpec
begin

text \<open>
  A verification library of stdiolink (the C++ code under \<open>src/src/\<close>).

  \<^bold>\<open>The program.\<close> A \<^emph>\<open>driver\<close> is a process that serves commands over its standard input and output,
  one JSON object per line. A request line names a command and its data; the driver answers with
  any number of \<open>event\<close> lines and one final \<open>done\<close> or \<open>error\<close> line. A driver describes its commands
  in a metadata document, which the host queries with the command \<open>meta.describe\<close>, and against
  which the driver core validates parameters before it calls the driver's handler. On the host,
  a \<open>Driver\<close> owns the process and a \<open>Task\<close> stands for one request. The drivers of the repository
  talk to devices: Modbus masters and servers over TCP and serial lines, a crane PLC and its
  simulation, which publishes its registers through the Modbus server, an analog output module
  and a temperature scanner on serial Modbus, a laser radar and a scan robot with binary protocols
  of their own. A driver can also be run from a command line (its \<^emph>\<open>console mode\<close>).
  A \<^emph>\<open>service\<close> is a script that uses drivers; its configuration is checked against a schema. The
  server manager keeps \<^emph>\<open>projects\<close>, a service with its configuration and a schedule, starts
  \<^emph>\<open>instances\<close> of them, by hand, at a fixed rate or as daemons that are restarted, and offers an
  HTTP interface to change them.

  \<^bold>\<open>Theories and the code they model.\<close>
  \<^item> \<open>Prelude\<close>: bytes, big-endian words, the ordered maps of Qt as association lists with one entry
    per key, collections of facts, and two interfaces: \<open>keyed_store\<close> (interpreted on the ordered maps
    and on the metadata cache) and \<open>event_machine\<close>, a state changed by a list of events, with
    invariants over runs (interpreted on the Modbus TCP server and on the crane).
  \<^item> \<open>Framing\<close>: the interface \<open>framed_stream\<close> between a byte stream and its messages. Whatever chunks
    the transport delivers, the frames written are the frames read. Interpreted on JSONL lines and
    on Modbus TCP frames.
  \<^item> \<open>QtJson\<close>: \<open>QJsonValue\<close> and \<open>QJsonObject\<close> with the conversions of Qt (\<open>toInt\<close>, \<open>toBool\<close>, ...).
    The JSON text itself (\<open>QJsonDocument\<close>) is a parameter of the definitions that use it.
  \<^item> \<open>JsonlProtocol\<close>: \<open>stdiolink/protocol/jsonl_*\<close>; \<open>JsonlParser\<close> is a record with its buffer, and
    \<open>parseRequest\<close>, \<open>parseHeader\<close>, \<open>parseResponse\<close>, \<open>serializeRequest\<close>, \<open>serializeResponse\<close> have the names
    of the code.
  \<^item> \<open>MetaTypes\<close>, \<open>MetaField\<close>, \<open>MetaDriver\<close>: \<open>stdiolink/protocol/meta_types.*\<close>, one record or datatype per
    struct, \<open>X_toJson\<close> and \<open>X_fromJson\<close> for \<open>X::toJson\<close> and \<open>X::fromJson\<close>.
  \<^item> \<open>MetaValidator\<close>, \<open>MetaValidatorSpec\<close>: \<open>meta_validator.*\<close> and what it promises, a specification
    of conformance without control flow (\<open>params_conform\<close>). \<open>MetaSchema\<close>: \<open>meta_schema_validator.*\<close>.
  \<^item> \<open>HostTask\<close>, \<open>HostTaskSpec\<close>: \<open>stdiolink/host/driver.*\<close>, \<open>task.*\<close>, \<open>meta_cache.*\<close>. The shared
    \<open>TaskState\<close> objects are a store of states indexed by number, \<open>m_cur\<close> is an index into it, and the
    process is the bytes it has written and whether it runs.
  \<^item> \<open>DriverCore\<close>, \<open>DriverCoreSpec\<close>: \<open>stdiolink/driver/driver_core.*\<close> and \<open>stdio_responder.*\<close>. The command
    handler of a driver is a parameter: it gets its own state, the command and the data, and
    returns messages. The lines of the input are the events of the stdio loop.
  \<^item> \<open>CliCodec\<close>, \<open>ConsoleArgs\<close>, \<open>ConsoleMode\<close>: \<open>stdiolink/console/*\<close>, the paths, values and arguments of a
    command line, the options, the arguments read along the metadata, and the run of one command
    with its exit code; the arguments of the service program are in \<open>ConsoleArgs\<close> too. What they
    promise is in \<open>CliCodecSpec\<close> and \<open>ConsoleModeSpec\<close>.
  \<^item> \<open>ModbusTypes\<close>: \<open>driver_modbusrtu/modbus_types.*\<close>, values spread over registers.
  \<^item> \<open>ModbusCrc\<close>: the table-driven CRC-16, with the interface \<open>crc_register\<close>.
  \<^item> \<open>ModbusTcpServer\<close>, \<open>ModbusTcpSpec\<close>: \<open>driver_modbustcp_server/modbus_tcp_server.*\<close>. Register areas,
    every function code, the MBAP header, the receive buffers, connections and signals. What is
    written to sockets and emitted as signals is appended to lists of the state.
  \<^item> \<open>ModbusRtuServer\<close>, \<open>ModbusRtuSpec\<close>: \<open>driver_modbusrtu_server\<close> and \<open>driver_modbusrtu_serial_server\<close>,
    with the search for a frame whose checksum fits, broadcasts, and the frame timers as events.
  \<^item> \<open>ModbusClient\<close>: the clients \<open>modbus_client.*\<close>, \<open>modbus_rtu_client.*\<close> and \<open>modbus_rtu_serial_client.*\<close>.
    A socket is a record of functions on the state \<open>w\<close> of what it leads to (connect, write, and the
    rounds of bytes a read waits for), so that a client can be run against a script or against a
    modelled server. \<open>ModbusClientSpec\<close> and \<open>ModbusRtuClientSpec\<close> do the latter: the interface
    \<open>modbus_device\<close> (what is written is read) is interpreted on the client and server over TCP and
    on those of a serial line, its extension \<open>modbus_store\<close> (nothing else changes) on the former.
  \<^item> \<open>ModbusHandlers\<close>, \<open>ModbusHandlersSpec\<close>: the \<open>main.cpp\<close> of the three master drivers; a record of
    client operations (\<open>modbus_api\<close>) stands for the template parameter. \<open>ModbusServerHandlers\<close>,
    \<open>ModbusServerHandlersSpec\<close>: the \<open>handler.cpp\<close> of the three server drivers. \<open>IeeeFloats\<close>: \<open>float\<close> and
    \<open>double\<close> as bits, nearest values with ties to even, and which numbers they hold; the properties about
    numbers in registers are about them.
  \<^item> \<open>PqwHandler\<close>, \<open>PqwSpec\<close>: \<open>driver_pqw_analog_output/handler.cpp\<close> over the serial client.
  \<^item> \<open>LimacoDriver\<close>, \<open>LimacoSpec\<close>: \<open>driver_limaco_common\<close> and the handlers of the two Limaco radars, over
    the RTU clients.
  \<^item> \<open>CraneSim\<close>, \<open>CraneSimSpec\<close>: \<open>driver_plc_crane_sim/sim_device.*\<close> and the register mapping of its
    \<open>handler.cpp\<close>. A timer is the delay it was started with, or none. \<open>PlcCrane\<close>: the driver
    \<open>driver_plc_crane/handler.cpp\<close> and the commands, events and connections of the simulation;
    \<open>CraneNetworkSpec\<close> puts the two together over the network.
  \<^item> \<open>QtText\<close>: the operations of \<open>QString\<close> the later theories use.
  \<^item> \<open>LaserCodec\<close>, \<open>LaserCodecSpec\<close>: \<open>driver_3d_laser_radar/protocol_codec.*\<close>, frames and payloads with
    their checksum, the second instance of \<open>crc_register\<close> and the third of \<open>framed_stream\<close>.
    \<open>LaserSession\<close>, \<open>LaserSessionSpec\<close>: \<open>laser_session.*\<close>; the device is a script of the answers to the
    exchanges to come, each a list of chunks or a failure of the transport. \<open>LaserHandler\<close>,
    \<open>LaserHandlerSpec\<close>: the commands of \<open>handler.cpp\<close>. \<open>OutputFile\<close>: the files drivers write to.
  \<^item> \<open>RobotCodec\<close>, \<open>RobotSession\<close>, \<open>RobotHandler\<close>, \<open>RobotSpec\<close>: \<open>driver_3d_scan_robot/protocol_codec.*\<close>,
    \<open>radar_session.*\<close> and \<open>handler.cpp\<close>, in the manner of the laser radar.
  \<^item> \<open>ThermalDriver\<close>, \<open>ThermalSpec\<close>: \<open>driver_3d_temp_scanner\<close>, codec, session and handler over an
    environment with the serial port, the files and the arithmetic of doubles.
  \<^item> \<open>ServiceConfig\<close>, \<open>ServiceConfigSpec\<close>: \<open>stdiolink_service/config/service_config_schema.*\<close> and
    \<open>service_config_validator.*\<close>.
  \<^item> \<open>Project\<close>: \<open>stdiolink_server/model\<close>. \<open>ProjectStore\<close>, \<open>ProjectStoreSpec\<close>: \<open>manager/project_manager.*\<close>.
    The disk is a map from paths to contents with the outcomes of the operations to come.
  \<^item> \<open>InstanceManager\<close>, \<open>InstanceManagerSpec\<close>: \<open>manager/instance_manager.*\<close>; the signals of a process and
    its timers are events, the signals to others are returned in order. The interface
    \<open>guarded_machine\<close> (an invariant kept by admissible events) is stated here.
  \<^item> \<open>ScheduleEngine\<close>, \<open>ScheduleEngineSpec\<close>: \<open>manager/schedule_engine.*\<close> over the instance manager, with
    timers and delayed restarts as state; \<open>guarded_machine\<close> is interpreted on it three times, for the
    limits of concurrency, the shutdown and the stop of one project.
  \<^item> \<open>ServerManager\<close>: \<open>server_manager.*\<close>. \<open>ProjectApi\<close>, \<open>ProjectApiSpec\<close>: the handlers of the projects in
    \<open>http/api_router.cpp\<close>, with the requests that are handled while another one waits.
  \<^item> \<open>ServiceFiles\<close>, \<open>ServiceStore\<close>, \<open>ServiceApi\<close>: \<open>http/service_file_handler.*\<close>, the manifest, the scanner
    (\<open>scanner/service_scanner.*\<close>) and creation of services, and the handlers of services and their
    files. The disk is a tree of files, directories and links, with the faults of the operations to
    come. \<open>ServiceApiSpec\<close>, \<open>ServiceCreateSpec\<close>: what they promise.
  \<^item> \<open>ProcMonitor\<close>, \<open>ProcMonitorSpec\<close>: \<open>manager/process_monitor.*\<close>, \<open>model/process_info.h\<close> and the two
    requests for an instance's processes.
  \<^item> \<open>EventStreams\<close>, \<open>EventStreamsSpec\<close>: \<open>http/event_bus.cpp\<close>, \<open>http/event_stream_handler.*\<close> and
    \<open>http/event_log.*\<close>, with the requests for a stream and for a list of events.
  \<^item> \<open>DriverLab\<close>, \<open>DriverLabSpec\<close>: \<open>http/driverlab_ws_*\<close>, a web socket with its driver process. The
    connections that can be reached are an inductive predicate over the possible events.

  \<^bold>\<open>What the theorems show.\<close>
  \<^item> The path of a request: a handler of the driver sees only parameters that conform to the
    metadata, with the defaults filled in; each line an accepting driver gets is answered by one
    response stream; within the limit of the host's buffer the stream reaches the host's task complete
    and in order however the pipe cuts it; the metadata that a driver describes is the metadata the
    host obtains and caches.
  \<^item> Metadata and validation: the JSON form of metadata is read back as it was, but for a
    configuration without field and method; the validator
    accepts exactly the conforming values; a document that passes the schema check has no two
    commands, and no two parameters of a command, with one name.
  \<^item> Modbus: registers and coils read back what was written; pipelined requests are answered in
    order; responses belong to their requests; the server's buffers and tables keep their bounds;
    the checksum is the bitwise CRC and detects a damaged byte; byte orders are round trips.
  \<^item> Modbus from end to end: what a client writes to a modelled server is what it reads from it, a
    number a master driver writes with a type and a byte order is the number it reads, and the
    numbers a server driver publishes are the numbers a master driver reads; an answer the TCP
    client takes is the one to its request.
  \<^item> The console: a command line does what the request line with the same data does, and the
    command line shown for an example gives its parameters.
  \<^item> The crane: its timers run exactly while it moves, and its automatic sequence ends with the
    valve open and the cylinder down, as the host of the other driver sees over the network.
  \<^item> The laser radar: an answer is received however it is cut into chunks, a damaged byte is
    detected, a scan is put together from its segments in order, and \<open>scan_field\<close> leaves it in the
    file it names. The scan robot delivers the device's bytes although polls and segments fail.
    The temperature scanner delivers the device's image, and a damaged answer is never data. The
    configuration written to the analog output module is the one reported.
  \<^item> Services and projects: a configuration is accepted exactly when it conforms and has no unknown
    member (elements of arrays of arrays are not searched), with the later source winning in the merge; saving a project is atomic under one
    failing file operation, and what was saved is loaded; an update reaches memory and disk or
    neither, and no request that comes in meanwhile can interfere.
  \<^item> Instances and schedules: every instance is announced as finished once; no project exceeds its
    limit; a crash loop is given up; after a stop or the shutdown nothing is started. The processes
    reported for an instance are its descendants, each once. Every event stream gets the matching
    events published while it is open, in order and once; the log answers with the newest records. A driver's output reaches the client of
    the driver laboratory line by line, and a driver that crashes again and again is given up.
  \<^item> Services on the disk: a created service is the one the next scan finds, and requests for files
    stay below the service's directory, links or not, for names without backslashes and leading colons.
  \<^item> A few theorems show where the code departs from what it means to do; they are marked by
    what they say: a valid answer lost after the process has exited, a second final message after
    an unreadable line, exceptions of the Modbus TCP server framed twice, an optional object
    parameter that the defaults make required, the crane lowering before its valve is open, a start
    that is announced as failed twice, a delayed restart of a project that was changed meanwhile,
    a late answer that an RTU client over TCP takes for the next one's, a failed frame scan that is
    reported as done, a core file deleted under its other name, and samples of the CPU time that
    a request for another instance throws away, a quiet event stream that is cut off,
    a part of a path that begins with a colon and hides a link, metadata lost on the way to the host,
    and a command that makes the server use a process that is gone.

  \<^bold>\<open>Loops and fuel.\<close> The buffer loops (\<open>processBuffer\<close>, \<open>rtu_scan\<close>, \<open>drain\<close>) are structural recursions on
    a number of rounds that starts as the length of the buffer: every round takes at least one byte
    off it, so the number is never exhausted before the loop of the code ends, and lemmas of the
    theories prove it. Validation recurses over the field metadata, which is finite. The wait loop
    of \<open>Task::waitNext\<close> is a recursion over the events that arrive while it waits; it gives \<open>None\<close> when
    they run out before it returns. The waits of the drivers for a device's task are bounded by the
  number of polls their timeout leaves room for, or by the script of the transport. The walk over the
  processes is bounded by levels, and as many as there are processes are enough
  (\<open>family_is_descendants\<close>). A path is followed through at most \<open>tr_maxLinks\<close> links, as the system does.

  \<^bold>\<open>Parameters.\<close> Qt's JSON text, UTF-8 decoding, regular expressions and number formatting are
  arguments, also as \<open>json_text\<close>, \<open>cli_text\<close> and \<open>file_codec\<close>. Where a theorem needs them to be inverse to
  each other, that is a hypothesis on the one document concerned, and its witness gives concrete
  functions for which it holds. Numbers of JSON are rationals; where an integer above 2^53 would be
  rounded by the code, a theorem asks for a number that is a \<open>double\<close>. The arithmetic and the bit
  patterns of floating-point numbers are the arguments \<open>floats\<close> (given as \<open>ieee_floats\<close> where a property
  depends on them), \<open>robot_lib\<close>, \<open>pqw_lib\<close> and members of \<open>thermal_env\<close> and \<open>laser_env\<close>; whether
  a port or socket opens is \<open>listener\<close> or \<open>port_opener\<close>; what the operating system reports of processes
  is \<open>process_os\<close>. A device behind a transport is a script of exchanges, or a modelled server.

  \<^bold>\<open>Not modelled.\<close> The metadata documents the drivers build with the fluent setters (\<open>buildMeta\<close>), the
  setters and the generators of documentation, help and forms, which turn data into text and keep no
  state; starting and ending processes, sockets and serial ports, the process guard and the readers
  of \<open>/proc\<close>, which are calls of the system; the JS service runtime, bindings of QuickJS; routing,
  listings and static files of the HTTP interface; the vision driver, a table of calls that are
  passed through; the OPC UA drivers, which call a library outside the repository.
\<close>

end
